(* ===== verification/Prelude.thy ===== *)
theory Prelude
  imports Complex_Main "HOL-Library.AList"
begin

text \<open>
  Shared vocabulary of the development.

  \<^item> JavaScript collections: \<open>js_uniq\<close> is the order of \<open>[...new Set(xs)]\<close> (first occurrences),
    \<open>js_sort\<close> the stable \<open>Array.prototype.sort\<close> under a comparator, association lists with
    \<open>AList.update\<close> are insertion-ordered \<open>Map\<close> objects.
  \<^item> Tables: a PostgreSQL table is the list of its rows; \<open>upd_where\<close> is
    \<open>UPDATE ... SET f WHERE P\<close>, \<open>del_where\<close> is \<open>DELETE ... WHERE P\<close>, and \<open>List.find\<close> is
    \<open>findFirst\<close>. The locale \<open>keyed_rows\<close> collects the facts that hold for every table whose
    rows carry a primary key the update does not touch.
  \<^item> Comparators: the locale \<open>comparator\<close> states what a consistent three-way comparison is
    and derives what \<open>js_sort\<close> computes under it.
\<close>

named_theorems js_simps
named_theorems db_simps

subsection \<open>Lists as JavaScript arrays\<close>

definition js_uniq :: "'a list \<Rightarrow> 'a list" where
  "js_uniq xs = rev (remdups (rev xs))"

lemma set_js_uniq [simp]: "set (js_uniq xs) = set xs"
  by (simp add: js_uniq_def)

lemma distinct_js_uniq [simp]: "distinct (js_uniq xs)"
  by (simp add: js_uniq_def)

lemma js_uniq_distinct: "distinct xs \<Longrightarrow> js_uniq xs = xs"
  by (simp add: js_uniq_def distinct_remdups_id)

lemma js_uniq_Nil [simp]: "js_uniq [] = []"
  by (simp add: js_uniq_def)

lemma length_js_uniq: "length (js_uniq xs) = card (set xs)"
  by (metis distinct_card distinct_js_uniq set_js_uniq)

lemma length_js_uniq_eq_iff: "length (js_uniq xs) = length xs \<longleftrightarrow> distinct xs"
  by (metis card_distinct distinct_card length_js_uniq)

lemma find_Some_iff': "List.find P xs = Some x \<Longrightarrow> x \<in> set xs \<and> P x"
  by (induction xs) (auto split: if_splits)

lemma find_None_iff': "List.find P xs = None \<longleftrightarrow> (\<forall>x \<in> set xs. \<not> P x)"
  by (induction xs) auto

lemma find_append: "List.find P (xs @ ys) = (case List.find P xs of None \<Rightarrow> List.find P ys | Some x \<Rightarrow> Some x)"
  by (induction xs) auto

subsection \<open>Comparators and the stable sort\<close>

fun insort_cmp :: "('a \<Rightarrow> 'a \<Rightarrow> rat) \<Rightarrow> 'a \<Rightarrow> 'a list \<Rightarrow> 'a list" where
  "insort_cmp cmp x [] = [x]"
| "insort_cmp cmp x (y # ys) = (if cmp x y \<le> 0 then x # y # ys else y # insort_cmp cmp x ys)"

definition js_sort :: "('a \<Rightarrow> 'a \<Rightarrow> rat) \<Rightarrow> 'a list \<Rightarrow> 'a list" where
  "js_sort cmp xs = foldr (insort_cmp cmp) xs []"

lemma set_insort_cmp [simp]: "set (insort_cmp cmp x ys) = insert x (set ys)"
  by (induction ys) auto

lemma length_insort_cmp [simp]: "length (insort_cmp cmp x ys) = Suc (length ys)"
  by (induction ys) auto

lemma js_sort_Nil [simp]: "js_sort cmp [] = []"
  by (simp add: js_sort_def)

lemma js_sort_Cons: "js_sort cmp (x # xs) = insort_cmp cmp x (js_sort cmp xs)"
  by (simp add: js_sort_def)

lemma set_js_sort [simp]: "set (js_sort cmp xs) = set xs"
  by (induction xs) (auto simp: js_sort_Cons)

lemma length_js_sort [simp]: "length (js_sort cmp xs) = length xs"
  by (induction xs) (auto simp: js_sort_Cons)

lemma js_sort_eq_Nil [simp]: "js_sort cmp xs = [] \<longleftrightarrow> xs = []"
  by (metis length_0_conv length_js_sort)

locale comparator =
  fixes cmp :: "'a \<Rightarrow> 'a \<Rightarrow> rat"
  assumes cmp_flip: "cmp a b \<le> 0 \<longleftrightarrow> 0 \<le> cmp b a"
    and cmp_trans: "cmp a b \<le> 0 \<Longrightarrow> cmp b c \<le> 0 \<Longrightarrow> cmp a c \<le> 0"
begin

lemma cmp_total: "cmp a b \<le> 0 \<or> cmp b a \<le> 0"
  using cmp_flip [of b a] by linarith

lemma sorted_insort:
  "sorted_wrt (\<lambda>a b. cmp a b \<le> 0) ys \<Longrightarrow> sorted_wrt (\<lambda>a b. cmp a b \<le> 0) (insort_cmp cmp x ys)"
proof (induction ys)
  case Nil
  then show ?case by simp
next
  case (Cons y ys)
  show ?case
  proof (cases "cmp x y \<le> 0")
    case True
    with Cons.prems show ?thesis using cmp_trans by auto
  next
    case False
    then have "cmp y x \<le> 0" using cmp_total by blast
    with False Cons show ?thesis by auto
  qed
qed

lemma sorted_js_sort: "sorted_wrt (\<lambda>a b. cmp a b \<le> 0) (js_sort cmp xs)"
  by (induction xs) (auto simp: js_sort_Cons intro: sorted_insort)

lemma js_sort_hd_least:
  assumes "js_sort cmp xs = y # ys"
  shows "y \<in> set xs \<and> (\<forall>x \<in> set xs. cmp y x \<le> 0)"
proof -
  have s: "set xs = insert y (set ys)"
    using arg_cong [OF assms, of set] by simp
  have "cmp y y \<le> 0" using cmp_total by blast
  moreover have "\<forall>x \<in> set ys. cmp y x \<le> 0"
    using sorted_js_sort [of xs] assms by simp
  ultimately show ?thesis using s by auto
qed

end

text \<open>An optional string in a condition: missing and empty are both false.\<close>

definition truthy :: "string option \<Rightarrow> bool" where
  "truthy v \<longleftrightarrow> v \<noteq> None \<and> v \<noteq> Some []"

subsection \<open>Tables\<close>

definition upd_where :: "('r \<Rightarrow> bool) \<Rightarrow> ('r \<Rightarrow> 'r) \<Rightarrow> 'r list \<Rightarrow> 'r list" where
  "upd_where P f rows = map (\<lambda>r. if P r then f r else r) rows"

definition del_where :: "('r \<Rightarrow> bool) \<Rightarrow> 'r list \<Rightarrow> 'r list" where
  "del_where P rows = filter (\<lambda>r. \<not> P r) rows"

lemma upd_where_Nil [simp]: "upd_where P f [] = []"
  by (simp add: upd_where_def)

lemma upd_where_Cons [simp]: "upd_where P f (r # rs) = (if P r then f r else r) # upd_where P f rs"
  by (simp add: upd_where_def)

lemma upd_where_append [simp]: "upd_where P f (xs @ ys) = upd_where P f xs @ upd_where P f ys"
  by (simp add: upd_where_def)

lemma length_upd_where [simp]: "length (upd_where P f rs) = length rs"
  by (simp add: upd_where_def)

lemma set_upd_where: "set (upd_where P f rs) = (\<lambda>r. if P r then f r else r) ` set rs"
  by (simp add: upd_where_def)

lemma upd_where_cong_none: "(\<And>r. r \<in> set rs \<Longrightarrow> \<not> P r) \<Longrightarrow> upd_where P f rs = rs"
  by (induction rs) auto

lemma map_upd_where_inv: "(\<And>r. P r \<Longrightarrow> g (f r) = g r) \<Longrightarrow> map g (upd_where P f rs) = map g rs"
  by (induction rs) auto

lemma set_del_where [simp]: "set (del_where P rs) = {r \<in> set rs. \<not> P r}"
  by (auto simp: del_where_def)

lemma upd_whereE:
  assumes "r \<in> set (upd_where P f rs)"
  obtains r0 where "r0 \<in> set rs" and "P r0" and "r = f r0"
  | "r \<in> set rs" and "\<not> P r"
  using assms by (auto simp: set_upd_where split: if_splits)

text \<open>The rows of a table with a key column. An update that leaves the key alone keeps every
  lookup by key, up to the update itself.\<close>

locale keyed_rows =
  fixes key :: "'r \<Rightarrow> 'k"
    and upd :: "'r \<Rightarrow> 'r"
  assumes key_upd: "key (upd r) = key r"
begin

lemma keys_upd_where: "map key (upd_where P upd rs) = map key rs"
  by (rule map_upd_where_inv) (rule key_upd)

lemma find_upd_where:
  "List.find (\<lambda>r. key r = k) (upd_where P upd rs)
     = map_option (\<lambda>r. if P r then upd r else r) (List.find (\<lambda>r. key r = k) rs)"
  by (induction rs) (auto simp: key_upd)

lemma find_upd_key:
  "List.find (\<lambda>r. key r = k) (upd_where (\<lambda>r. key r = k) upd rs)
     = map_option upd (List.find (\<lambda>r. key r = k) rs)"
proof -
  have "\<And>r. List.find (\<lambda>r. key r = k) rs = Some r \<Longrightarrow> key r = k"
    by (drule find_Some_iff') simp
  then show ?thesis
    by (cases "List.find (\<lambda>r. key r = k) rs") (simp_all add: find_upd_where)
qed

lemma find_upd_other:
  "k' \<noteq> k \<Longrightarrow> List.find (\<lambda>r. key r = k') (upd_where (\<lambda>r. key r = k) upd rs)
     = List.find (\<lambda>r. key r = k') rs"
  by (induction rs) (auto simp: key_upd)

end

end
