(* ===== verification/JsText.thy ===== *)
theory JsText
  imports Prelude
begin

text \<open>
  The part of the JavaScript string library the program uses, on \<open>string\<close> (a \<open>char list\<close>, one
  \<open>char\<close> per code unit; the program's identifiers, addresses and paths are ASCII).
  \<open>split_on\<close> is \<open>s.split(c)\<close> for a one-character separator, \<open>js_join\<close> is \<open>xs.join(sep)\<close>,
  \<open>str_nat\<close> the decimal rendering that template literals apply to integers, and \<open>digits_value\<close>
  what \<open>Number(...)\<close> returns on a string of digits. Character classes of the regular
  expressions in the source are predicates on \<open>char\<close>.
\<close>

definition code_of :: "char \<Rightarrow> nat" where
  "code_of c = of_char c"

definition is_digit :: "char \<Rightarrow> bool" where
  "is_digit c \<longleftrightarrow> 48 \<le> code_of c \<and> code_of c \<le> 57"

definition is_lower :: "char \<Rightarrow> bool" where
  "is_lower c \<longleftrightarrow> 97 \<le> code_of c \<and> code_of c \<le> 122"

definition is_upper :: "char \<Rightarrow> bool" where
  "is_upper c \<longleftrightarrow> 65 \<le> code_of c \<and> code_of c \<le> 90"

definition is_alnum :: "char \<Rightarrow> bool" where
  "is_alnum c \<longleftrightarrow> is_digit c \<or> is_lower c \<or> is_upper c"

definition is_hex_lower :: "char \<Rightarrow> bool" where
  "is_hex_lower c \<longleftrightarrow> is_digit c \<or> 97 \<le> code_of c \<and> code_of c \<le> 102"

definition is_hex :: "char \<Rightarrow> bool" where
  "is_hex c \<longleftrightarrow> is_hex_lower c \<or> 65 \<le> code_of c \<and> code_of c \<le> 70"

definition is_space :: "char \<Rightarrow> bool" where
  "is_space c \<longleftrightarrow> c = CHR '' '' \<or> 9 \<le> code_of c \<and> code_of c \<le> 13 \<or> code_of c = 160"

definition lower_char :: "char \<Rightarrow> char" where
  "lower_char c = (if is_upper c then char_of (code_of c + 32) else c)"

definition to_lower :: "string \<Rightarrow> string" where
  "to_lower = map lower_char"

definition starts_with :: "string \<Rightarrow> string \<Rightarrow> bool" where
  "starts_with p s \<longleftrightarrow> take (length p) s = p"

definition ends_with :: "string \<Rightarrow> string \<Rightarrow> bool" where
  "ends_with p s \<longleftrightarrow> length p \<le> length s \<and> drop (length s - length p) s = p"

fun includes_str :: "string \<Rightarrow> string \<Rightarrow> bool" where
  "includes_str p [] \<longleftrightarrow> p = []"
| "includes_str p (c # cs) \<longleftrightarrow> starts_with p (c # cs) \<or> includes_str p cs"

definition trim_str :: "string \<Rightarrow> string" where
  "trim_str s = rev (dropWhile is_space (rev (dropWhile is_space s)))"

fun split_on :: "char \<Rightarrow> string \<Rightarrow> string list" where
  "split_on c [] = [[]]"
| "split_on c (x # xs) =
     (if x = c then [] # split_on c xs
      else (case split_on c xs of [] \<Rightarrow> [[x]] | y # ys \<Rightarrow> (x # y) # ys))"

fun js_join :: "string \<Rightarrow> string list \<Rightarrow> string" where
  "js_join sep [] = []"
| "js_join sep [x] = x"
| "js_join sep (x # y # ys) = x @ sep @ js_join sep (y # ys)"

fun str_nat :: "nat \<Rightarrow> string" where
  "str_nat n = (if n < 10 then [char_of (48 + n)] else str_nat (n div 10) @ [char_of (48 + n mod 10)])"

declare str_nat.simps [simp del]

definition str_int :: "int \<Rightarrow> string" where
  "str_int i = (if i < 0 then CHR ''-'' # str_nat (nat (- i)) else str_nat (nat i))"

definition digits_value :: "string \<Rightarrow> nat" where
  "digits_value s = foldl (\<lambda>v c. 10 * v + (code_of c - 48)) 0 s"

text \<open>\<open>localeCompare\<close> is defined by the host's collation tables, so the model takes it as an
  argument; \<open>code_unit_compare\<close> is the comparison of \<open><\<close> on strings, used as its instance.\<close>

fun code_unit_compare :: "string \<Rightarrow> string \<Rightarrow> rat" where
  "code_unit_compare [] [] = 0"
| "code_unit_compare [] (y # ys) = -1"
| "code_unit_compare (x # xs) [] = 1"
| "code_unit_compare (x # xs) (y # ys) =
     (if code_of x < code_of y then -1 else if code_of y < code_of x then 1
      else code_unit_compare xs ys)"

subsection \<open>Facts\<close>

lemma split_on_ne [simp]: "split_on c s \<noteq> []"
  by (cases s) (auto split: list.splits)

lemma js_join_split_on [simp]: "js_join [c] (split_on c s) = s"
proof (induction s)
  case Nil
  then show ?case by simp
next
  case (Cons x xs)
  obtain y ys where s: "split_on c xs = y # ys"
    by (cases "split_on c xs") auto
  with Cons show ?case by (cases ys) auto
qed

lemma split_on_no_sep: "p \<in> set (split_on c s) \<Longrightarrow> c \<notin> set p"
proof (induction s arbitrary: p)
  case Nil
  then show ?case by simp
next
  case (Cons x xs)
  then show ?case by (cases "split_on c xs") (auto split: if_splits)
qed

lemma split_on_plain: "c \<notin> set s \<Longrightarrow> split_on c s = [s]"
  by (induction s) auto

lemma split_on_append: "c \<notin> set a \<Longrightarrow> split_on c (a @ c # b) = a # split_on c b"
  by (induction a) auto

lemma starts_with_append [simp]: "starts_with p (p @ s)"
  by (simp add: starts_with_def)

lemma starts_with_iff: "starts_with p s \<longleftrightarrow> (\<exists>t. s = p @ t)"
  by (metis append_eq_conv_conj append_take_drop_id starts_with_def)

lemma code_of_char_of: "n < 256 \<Longrightarrow> code_of (char_of n) = n"
  by (simp add: code_of_def of_char_of)

lemma lower_char_not_upper [simp]: "\<not> is_upper (lower_char c)"
  by (auto simp: lower_char_def is_upper_def code_of_char_of)

lemma lower_char_idem [simp]: "lower_char (lower_char c) = lower_char c"
  using lower_char_not_upper [of c] by (simp add: lower_char_def)

lemma to_lower_idem [simp]: "to_lower (to_lower s) = to_lower s"
  by (simp add: to_lower_def)

lemma str_nat_ne [simp]: "str_nat n \<noteq> []"
  by (subst str_nat.simps) simp

lemma str_nat_digits: "c \<in> set (str_nat n) \<Longrightarrow> is_digit c"
proof (induction n rule: str_nat.induct)
  case (1 n)
  have d: "k < 10 \<Longrightarrow> is_digit (char_of (48 + k))" for k :: nat
    by (simp add: is_digit_def code_of_char_of)
  show ?case
  proof (cases "n < 10")
    case True
    with "1.prems" d show ?thesis by (subst (asm) str_nat.simps) auto
  next
    case False
    have "n mod 10 < 10" by simp
    with False "1" d [of "n mod 10"] show ?thesis
      by (subst (asm) (2) str_nat.simps) auto
  qed
qed

lemma digits_value_snoc: "digits_value (s @ [c]) = 10 * digits_value s + (code_of c - 48)"
  by (simp add: digits_value_def)

lemma digits_value_str_nat [simp]: "digits_value (str_nat n) = n"
proof (induction n rule: str_nat.induct)
  case (1 n)
  show ?case
  proof (cases "n < 10")
    case True
    then show ?thesis
      by (subst str_nat.simps) (simp add: digits_value_def code_of_char_of)
  next
    case False
    have "n mod 10 < 10" by simp
    with False "1.IH" show ?thesis
      by (subst str_nat.simps) (simp add: digits_value_snoc code_of_char_of)
  qed
qed

lemma str_nat_inj: "str_nat m = str_nat n \<Longrightarrow> m = n"
  by (metis digits_value_str_nat)

lemma code_of_inj: "code_of a = code_of b \<Longrightarrow> a = b"
  by (simp add: code_of_def)

lemma code_unit_compare_refl [simp]: "code_unit_compare a a = 0"
  by (induction a) auto

lemma code_unit_compare_flip: "code_unit_compare b a = - code_unit_compare a b"
  by (induction a b rule: code_unit_compare.induct) auto

lemma code_unit_compare_zero: "code_unit_compare a b = 0 \<Longrightarrow> a = b"
  by (induction a b rule: code_unit_compare.induct) (auto split: if_splits intro: code_of_inj)

lemma code_unit_compare_trans:
  "code_unit_compare a b \<le> 0 \<Longrightarrow> code_unit_compare b c \<le> 0 \<Longrightarrow> code_unit_compare a c \<le> 0"
proof (induction a b arbitrary: c rule: code_unit_compare.induct)
  case (1)
  then show ?case by simp
next
  case (2 y ys)
  then show ?case by (cases c) auto
next
  case (3 x xs)
  then show ?case by simp
next
  case (4 x xs y ys)
  show ?case
  proof (cases c)
    case Nil
    with "4.prems" show ?thesis by simp
  next
    case (Cons z zs)
    note IH = "4.IH" [of zs]
    show ?thesis
    proof (cases "code_of x = code_of y \<and> code_of y = code_of z")
      case True
      with IH "4.prems" Cons show ?thesis by simp
    next
      case False
      from "4.prems" Cons have "code_of x \<le> code_of y" "code_of y \<le> code_of z"
        by (simp_all split: if_splits)
      with False have "code_of x < code_of z" by linarith
      then show ?thesis using Cons by simp
    qed
  qed
qed

text \<open>A collation: a consistent comparison that only equates equal strings.\<close>

locale collation = comparator lc for lc :: "string \<Rightarrow> string \<Rightarrow> rat" +
  assumes lc_zero: "lc a b = 0 \<Longrightarrow> a = b"
begin

lemma lc_refl: "lc a a = 0"
  using cmp_flip [of a a] by linarith

lemma lc_antisym: "lc a b \<le> 0 \<Longrightarrow> lc b a \<le> 0 \<Longrightarrow> a = b"
  using cmp_flip [of a b] lc_zero [of b a] by force

end

interpretation code_unit: collation code_unit_compare
proof unfold_locales
  show "code_unit_compare a b \<le> 0 \<longleftrightarrow> 0 \<le> code_unit_compare b a" for a b
    using code_unit_compare_flip [of b a] by auto
  show "code_unit_compare a b \<le> 0 \<Longrightarrow> code_unit_compare b c \<le> 0 \<Longrightarrow> code_unit_compare a c \<le> 0"
    for a b c
    by (rule code_unit_compare_trans)
  show "code_unit_compare a b = 0 \<Longrightarrow> a = b" for a b
    by (rule code_unit_compare_zero)
qed

end
