(* ===== verification/Ports.thy ===== *)
theory Ports
  imports JsText
begin

text \<open>
  \<open>packages/core/src/network/ports.ts\<close>: the central host port policy and the allocation of a
  dynamic host port. The set of occupied ports is a list of integers read by membership; the
  probe loop is recursion on the attempt counter.
\<close>

definition DYNAMIC_HOST_PORT_MIN :: int where "DYNAMIC_HOST_PORT_MIN = 30000"
definition DYNAMIC_HOST_PORT_MAX :: int where "DYNAMIC_HOST_PORT_MAX = 39999"
definition RESERVED_HOST_PORTS :: "int list" where
  "RESERVED_HOST_PORTS = [22, 80, 443, 3000, 3001, 5432]"

datatype port_protocol = Tcp | Udp

datatype port_policy_error = INVALID_PORT | PRIVILEGED_PORT_FORBIDDEN | RESERVED_PORT

text \<open>A port arrives as a JavaScript number, so it may have a fractional part.\<close>

definition host_port_policy_error :: "rat \<Rightarrow> port_policy_error option" where
  "host_port_policy_error port =
     (if of_int \<lfloor>port\<rfloor> \<noteq> port \<or> port < 1 \<or> port > 65535 then Some INVALID_PORT
      else if port < 1024 then Some PRIVILEGED_PORT_FORBIDDEN
      else if port \<in> of_int ` set RESERVED_HOST_PORTS then Some RESERVED_PORT
      else None)"

definition dynamic_size :: nat where
  "dynamic_size = nat (DYNAMIC_HOST_PORT_MAX - DYNAMIC_HOST_PORT_MIN + 1)"

fun seed_offset :: "nat \<Rightarrow> string \<Rightarrow> nat" where
  "seed_offset offset [] = offset"
| "seed_offset offset (c # cs) = seed_offset ((offset * 31 + code_of c) mod dynamic_size) cs"

definition candidate_port :: "nat \<Rightarrow> nat \<Rightarrow> int" where
  "candidate_port offset attempt = DYNAMIC_HOST_PORT_MIN + int ((offset + attempt) mod dynamic_size)"

function probe_ports :: "int list \<Rightarrow> nat \<Rightarrow> nat \<Rightarrow> int option" where
  "probe_ports occupied offset attempt =
     (if attempt < dynamic_size then
        (let port = candidate_port offset attempt in
         if port \<notin> set occupied \<and> port \<notin> set RESERVED_HOST_PORTS then Some port
         else probe_ports occupied offset (Suc attempt))
      else None)"
  by pat_completeness auto
termination
  by (relation "measure (\<lambda>(occupied, offset, attempt). dynamic_size - attempt)") auto

declare probe_ports.simps [simp del]

definition choose_dynamic_host_port :: "int list \<Rightarrow> string \<Rightarrow> int option" where
  "choose_dynamic_host_port occupied seed = probe_ports occupied (seed_offset 0 seed) 0"

subsection \<open>Facts\<close>

lemma dynamic_size_eq: "dynamic_size = 10000"
  by (simp add: dynamic_size_def DYNAMIC_HOST_PORT_MAX_def DYNAMIC_HOST_PORT_MIN_def)

lemma candidate_port_range: "30000 \<le> candidate_port k a \<and> candidate_port k a \<le> 39999"
  by (simp add: candidate_port_def DYNAMIC_HOST_PORT_MIN_def dynamic_size_eq)

lemma candidate_port_surj:
  assumes "30000 \<le> p" and "p \<le> 39999"
  shows "\<exists>a < dynamic_size. candidate_port k a = p"
proof -
  define t where "t = nat (p - 30000)"
  define a where "a = (t + (10000 - k mod 10000)) mod 10000"
  have t: "t < 10000" "int t = p - 30000" using assms by (simp_all add: t_def)
  have k: "k + (t + (10000 - k mod 10000)) = t + 10000 * (k div 10000 + 1)"
  proof -
    have "r < 10000 \<Longrightarrow> q * 10000 + r = k \<Longrightarrow> k + (t + (10000 - r)) = t + 10000 * (q + 1)"
      for q r :: nat by simp
    from this [of "k mod 10000" "k div 10000"] show ?thesis by simp
  qed
  have "(k + a) mod 10000 = (k + (t + (10000 - k mod 10000))) mod 10000"
    unfolding a_def by (rule mod_add_right_eq)
  also have "\<dots> = t" using t(1) by (simp only: k mod_mult_self2 mod_less)
  finally have "(k + a) mod 10000 = t" .
  then have "candidate_port k a = p"
    using t(2) by (simp add: candidate_port_def DYNAMIC_HOST_PORT_MIN_def dynamic_size_eq)
  moreover have "a < dynamic_size" by (simp add: a_def dynamic_size_eq)
  ultimately show ?thesis by blast
qed

lemma probe_ports_Some:
  "probe_ports occ k a = Some p \<Longrightarrow>
     (\<exists>b. p = candidate_port k b) \<and> p \<notin> set occ \<and> p \<notin> set RESERVED_HOST_PORTS"
proof (induction occ k a rule: probe_ports.induct)
  case (1 occ k a)
  then show ?case
    by (subst (asm) (2) probe_ports.simps) (auto simp: Let_def split: if_splits)
qed

lemma probe_ports_None:
  "probe_ports occ k a = None \<Longrightarrow> a \<le> b \<Longrightarrow> b < dynamic_size \<Longrightarrow>
     candidate_port k b \<in> set occ \<or> candidate_port k b \<in> set RESERVED_HOST_PORTS"
proof (induction occ k a rule: probe_ports.induct)
  case (1 occ k a)
  from "1.prems" have lt: "a < dynamic_size" by simp
  with "1.prems"(1) have taken: "candidate_port k a \<in> set occ \<or> candidate_port k a \<in> set RESERVED_HOST_PORTS"
    and rest: "probe_ports occ k (Suc a) = None"
    by (subst (asm) probe_ports.simps; simp add: Let_def split: if_splits)+
  show ?case
  proof (cases "b = a")
    case True
    with taken show ?thesis by simp
  next
    case False
    with "1.prems" have "Suc a \<le> b" by simp
    then show ?thesis using "1.IH" lt taken rest "1.prems"(3) by auto
  qed
qed

lemma candidate_not_reserved: "candidate_port k a \<notin> set RESERVED_HOST_PORTS"
  using candidate_port_range [of k a] by (auto simp: RESERVED_HOST_PORTS_def)

lemma dynamic_port_policy_ok:
  "30000 \<le> p \<Longrightarrow> p \<le> 39999 \<Longrightarrow> host_port_policy_error (of_int p) = None"
  by (auto simp: host_port_policy_error_def RESERVED_HOST_PORTS_def)

lemma choose_dynamic_Some:
  assumes "choose_dynamic_host_port occ seed = Some p"
  shows "p \<notin> set occ \<and> 30000 \<le> p \<and> p \<le> 39999"
  using probe_ports_Some [OF assms [unfolded choose_dynamic_host_port_def]] candidate_port_range
  by auto

subsection \<open>Properties\<close>

text \<open>C1. A dynamic host port is never one that is occupied, always lies in the dynamic range and
  always passes the central port policy.\<close>

theorem dynamic_port_safe:
  assumes "choose_dynamic_host_port occupied seed = Some p"
  shows "p \<notin> set occupied \<and> DYNAMIC_HOST_PORT_MIN \<le> p \<and> p \<le> DYNAMIC_HOST_PORT_MAX
    \<and> host_port_policy_error (of_int p) = None"
  using choose_dynamic_Some [OF assms] dynamic_port_policy_ok
  by (simp add: DYNAMIC_HOST_PORT_MIN_def DYNAMIC_HOST_PORT_MAX_def)

lemma dynamic_port_safe_witness:
  "choose_dynamic_host_port [30097] ''a'' = Some 30098 \<and> host_port_policy_error 30098 = None"
proof -
  have c: "choose_dynamic_host_port [30097] ''a'' = Some 30098"
    by (simp add: choose_dynamic_host_port_def probe_ports.simps candidate_port_def Let_def
        dynamic_size_eq DYNAMIC_HOST_PORT_MIN_def RESERVED_HOST_PORTS_def code_of_def)
  from dynamic_port_safe [OF c] c show ?thesis by simp
qed

text \<open>The allocation is complete: for every seed it reports exhaustion exactly when every port
  of the dynamic range is occupied, so a free port is always found whatever the starting
  offset.\<close>

theorem dynamic_port_complete:
  "choose_dynamic_host_port occupied seed = None
     \<longleftrightarrow> {DYNAMIC_HOST_PORT_MIN..DYNAMIC_HOST_PORT_MAX} \<subseteq> set occupied"
proof
  assume none: "choose_dynamic_host_port occupied seed = None"
  show "{DYNAMIC_HOST_PORT_MIN..DYNAMIC_HOST_PORT_MAX} \<subseteq> set occupied"
  proof
    fix p assume "p \<in> {DYNAMIC_HOST_PORT_MIN..DYNAMIC_HOST_PORT_MAX}"
    then have "30000 \<le> p" "p \<le> 39999"
      by (simp_all add: DYNAMIC_HOST_PORT_MIN_def DYNAMIC_HOST_PORT_MAX_def)
    then obtain a where "a < dynamic_size" "candidate_port (seed_offset 0 seed) a = p"
      using candidate_port_surj by blast
    with probe_ports_None [OF none [unfolded choose_dynamic_host_port_def], of a] candidate_not_reserved
    show "p \<in> set occupied" by auto
  qed
next
  assume "{DYNAMIC_HOST_PORT_MIN..DYNAMIC_HOST_PORT_MAX} \<subseteq> set occupied"
  with choose_dynamic_Some [of occupied seed] show "choose_dynamic_host_port occupied seed = None"
    by (cases "choose_dynamic_host_port occupied seed")
      (force simp: DYNAMIC_HOST_PORT_MIN_def DYNAMIC_HOST_PORT_MAX_def)+
qed

end
