(* ===== verification/Contracts.thy ===== *)
theory Contracts
  imports Ports
begin

text \<open>
  \<open>packages/core/src/control-plane/contracts.ts\<close>: the types the control plane and the node agents
  share. String unions are datatypes, interfaces are records; a field with \<open>?\<close> is an \<open>option\<close>.
  Objects used as dictionaries are association lists in insertion order.
\<close>

datatype node_status = Provisioning | Ready | Draining | Offline | NodeUnhealthy | Decommissioned

datatype runtime_kind = Container | Microvm

datatype desired_state = WantRunning | WantStopped | WantDeleted

datatype actual_state = ActPending | ActStarting | ActRunning | ActStopped | ActFailed | ActLost | ActUnknown

record resource_quantity =
  capacity :: rat
  allocatable :: rat
  reserved :: rat
  usage :: rat

record node_resources =
  cpuMilli :: resource_quantity
  memoryMib :: resource_quantity
  storageMib :: resource_quantity

record node_snapshot =
  ns_id :: string
  ns_status :: node_status
  ns_schedulingEnabled :: bool
  ns_architecture :: string
  ns_region :: "string option"
  ns_labels :: "(string \<times> string) list"
  ns_runtimes :: "runtime_kind list"
  ns_resources :: node_resources
  ns_reservedHostPorts :: "(int \<times> port_protocol) list"

record workload_requirements =
  wr_cpuMilli :: int
  wr_memoryMib :: int
  wr_storageMib :: int
  wr_runtime :: runtime_kind
  wr_architecture :: "string option"
  wr_region :: "string option"
  wr_requiredLabels :: "(string \<times> string) list option"
  wr_requiredNodeId :: "string option"
  wr_requestedHostPorts :: "(int \<times> port_protocol) list option"

record scheduling_decision =
  sd_nodeId :: "string option"
  sd_reasons :: "string list"

datatype agent_command_type =
  WorkloadStart | WorkloadStop | WorkloadRestart | WorkloadDelete | ImagePull
| VolumeCreate | VolumeDelete | VolumeAttach | VolumeDetach | RuntimeInspect | WorkloadLogs
| MinecraftCommand | MinecraftLogs | MinecraftFilesList | MinecraftFilesRead | MinecraftFilesWrite

subsection \<open>The strings behind the unions, as they appear in messages\<close>

fun node_status_str :: "node_status \<Rightarrow> string" where
  "node_status_str Provisioning = ''provisioning''"
| "node_status_str Ready = ''ready''"
| "node_status_str Draining = ''draining''"
| "node_status_str Offline = ''offline''"
| "node_status_str NodeUnhealthy = ''unhealthy''"
| "node_status_str Decommissioned = ''decommissioned''"

fun runtime_kind_str :: "runtime_kind \<Rightarrow> string" where
  "runtime_kind_str Container = ''container''"
| "runtime_kind_str Microvm = ''microvm''"

fun protocol_str :: "port_protocol \<Rightarrow> string" where
  "protocol_str Tcp = ''tcp''"
| "protocol_str Udp = ''udp''"

fun command_type_str :: "agent_command_type \<Rightarrow> string" where
  "command_type_str WorkloadStart = ''workload.start''"
| "command_type_str WorkloadStop = ''workload.stop''"
| "command_type_str WorkloadRestart = ''workload.restart''"
| "command_type_str WorkloadDelete = ''workload.delete''"
| "command_type_str ImagePull = ''image.pull''"
| "command_type_str VolumeCreate = ''volume.create''"
| "command_type_str VolumeDelete = ''volume.delete''"
| "command_type_str VolumeAttach = ''volume.attach''"
| "command_type_str VolumeDetach = ''volume.detach''"
| "command_type_str RuntimeInspect = ''runtime.inspect''"
| "command_type_str WorkloadLogs = ''workload.logs''"
| "command_type_str MinecraftCommand = ''minecraft.command''"
| "command_type_str MinecraftLogs = ''minecraft.logs''"
| "command_type_str MinecraftFilesList = ''minecraft.files.list''"
| "command_type_str MinecraftFilesRead = ''minecraft.files.read''"
| "command_type_str MinecraftFilesWrite = ''minecraft.files.write''"

end
