(* ===== verification/Json.thy ===== *)
theory Json
  imports Contracts
begin

text \<open>
  JSON values, as they sit in the \<open>jsonb\<close> columns, and the schemas the control plane reads them
  with. A schema is a parser to \<open>option\<close>: \<open>None\<close> is a failed parse (an exception of \<open>parse\<close>,
  \<open>success: false\<close> of \<open>safeParse\<close>). Objects drop unknown keys, an optional key may be missing but
  not \<open>null\<close>, as zod documents. The format check of zod's \<open>uuid()\<close> is the argument
  \<open>zuuid\<close>. Schemas modelled: \<open>requirementsSchema\<close>, \<open>runtimeVolumesSchema\<close>,
  \<open>runtimePortsSchema\<close> and the inline schemas of
  \<open>apps/api/src/modules/deployments/controller.ts\<close>. \<open>requirements_json\<close> is the object a
  requirements value is stored as; storing and parsing is the identity up to the requested host
  ports, which the schema does not list.
\<close>

datatype json = JNull | JBool bool | JNum rat | JStr string | JArr "json list" | JObj "(string \<times> json) list"

fun jget :: "string \<Rightarrow> json \<Rightarrow> json option" where
  "jget k (JObj kvs) = map_of kvs k"
| "jget k _ = None"

fun jset :: "string \<Rightarrow> json \<Rightarrow> json \<Rightarrow> json" where
  "jset k v (JObj kvs) = JObj (AList.update k v kvs)"
| "jset k v j = j"

definition jopt :: "string \<Rightarrow> json option \<Rightarrow> (string \<times> json) list" where
  "jopt k v = (case v of None \<Rightarrow> [] | Some j \<Rightarrow> [(k, j)])"

definition jstr_opt :: "string option \<Rightarrow> json" where
  "jstr_opt v = (case v of None \<Rightarrow> JNull | Some s \<Rightarrow> JStr s)"

subsection \<open>Schemas as parsers\<close>

fun z_string :: "json \<Rightarrow> string option" where
  "z_string (JStr s) = Some s"
| "z_string _ = None"

fun z_int :: "(int \<Rightarrow> bool) \<Rightarrow> json \<Rightarrow> int option" where
  "z_int ok (JNum x) = (if of_int \<lfloor>x\<rfloor> = x \<and> ok \<lfloor>x\<rfloor> then Some \<lfloor>x\<rfloor> else None)"
| "z_int ok _ = None"

definition z_string_where :: "(string \<Rightarrow> bool) \<Rightarrow> json \<Rightarrow> string option" where
  "z_string_where ok j = (case z_string j of Some s \<Rightarrow> if ok s then Some s else None | None \<Rightarrow> None)"

definition z_enum :: "(string \<times> 'a) list \<Rightarrow> json \<Rightarrow> 'a option" where
  "z_enum tab j = (case z_string j of Some s \<Rightarrow> map_of tab s | None \<Rightarrow> None)"

fun z_array :: "(json \<Rightarrow> 'a option) \<Rightarrow> json \<Rightarrow> 'a list option" where
  "z_array p (JArr xs) = those (map p xs)"
| "z_array p _ = None"

fun z_object :: "json \<Rightarrow> json option" where
  "z_object (JObj kvs) = Some (JObj kvs)"
| "z_object _ = None"

definition z_req :: "(json \<Rightarrow> 'a option) \<Rightarrow> string \<Rightarrow> json \<Rightarrow> 'a option" where
  "z_req p k j = (case jget k j of None \<Rightarrow> None | Some v \<Rightarrow> p v)"

definition z_opt :: "(json \<Rightarrow> 'a option) \<Rightarrow> string \<Rightarrow> json \<Rightarrow> 'a option option" where
  "z_opt p k j = (case jget k j of None \<Rightarrow> Some None | Some v \<Rightarrow> map_option Some (p v))"

fun z_record_string :: "json \<Rightarrow> (string \<times> string) list option" where
  "z_record_string (JObj kvs) = those (map (\<lambda>(k, v). map_option (Pair k) (z_string v)) kvs)"
| "z_record_string _ = None"

definition z_default :: "(json \<Rightarrow> 'a option) \<Rightarrow> 'a \<Rightarrow> string \<Rightarrow> json \<Rightarrow> 'a option" where
  "z_default p d k j = (case jget k j of None \<Rightarrow> Some d | Some v \<Rightarrow> p v)"

definition z_sized :: "nat \<Rightarrow> nat \<Rightarrow> json \<Rightarrow> string option" where
  "z_sized lo hi = z_string_where (\<lambda>s. lo \<le> length s \<and> length s \<le> hi)"

definition z_items :: "nat \<Rightarrow> nat \<Rightarrow> (json \<Rightarrow> 'a option) \<Rightarrow> json \<Rightarrow> 'a list option" where
  "z_items lo hi p j = Option.bind (z_array p j) (\<lambda>xs. if lo \<le> length xs \<and> length xs \<le> hi then Some xs else None)"

fun z_number :: "(rat \<Rightarrow> bool) \<Rightarrow> json \<Rightarrow> rat option" where
  "z_number ok (JNum x) = (if ok x then Some x else None)"
| "z_number ok _ = None"

fun z_bool :: "json \<Rightarrow> bool option" where
  "z_bool (JBool b) = Some b"
| "z_bool _ = None"

fun z_record :: "(json \<Rightarrow> 'a option) \<Rightarrow> json \<Rightarrow> (string \<times> 'a) list option" where
  "z_record p (JObj kvs) = those (map (\<lambda>(k, v). map_option (Pair k) (p v)) kvs)"
| "z_record p _ = None"

definition or_else :: "'a option \<Rightarrow> 'a \<Rightarrow> 'a" where
  "or_else v d = (case v of Some x \<Rightarrow> x | None \<Rightarrow> d)"

definition runtime_kinds :: "(string \<times> runtime_kind) list" where
  "runtime_kinds = [(''container'', Container), (''microvm'', Microvm)]"

definition protocols :: "(string \<times> port_protocol) list" where
  "protocols = [(''tcp'', Tcp), (''udp'', Udp)]"

definition requirementsSchema :: "(string \<Rightarrow> bool) \<Rightarrow> json \<Rightarrow> workload_requirements option" where
  "requirementsSchema zuuid j =
     Option.bind (z_object j) (\<lambda>j.
     Option.bind (z_req (z_int (\<lambda>i. 0 < i)) ''cpuMilli'' j) (\<lambda>cpu.
     Option.bind (z_req (z_int (\<lambda>i. 0 < i)) ''memoryMib'' j) (\<lambda>mem.
     Option.bind (z_req (z_int (\<lambda>i. 0 \<le> i)) ''storageMib'' j) (\<lambda>sto.
     Option.bind (z_req (z_enum runtime_kinds) ''runtime'' j) (\<lambda>rt.
     Option.bind (z_opt (z_string_where (\<lambda>s. s \<noteq> [])) ''architecture'' j) (\<lambda>arch.
     Option.bind (z_opt (z_string_where (\<lambda>s. s \<noteq> [])) ''region'' j) (\<lambda>reg.
     Option.bind (z_opt z_record_string ''requiredLabels'' j) (\<lambda>lab.
     Option.bind (z_opt (z_string_where zuuid) ''requiredNodeId'' j) (\<lambda>nid.
       Some \<lparr>wr_cpuMilli = cpu, wr_memoryMib = mem, wr_storageMib = sto, wr_runtime = rt,
             wr_architecture = arch, wr_region = reg, wr_requiredLabels = lab,
             wr_requiredNodeId = nid, wr_requestedHostPorts = None\<rparr>)))))))))"

text \<open>What the stored object looks like: an optional field is present exactly when it is set.\<close>

definition requested_ports_json :: "(int \<times> port_protocol) list \<Rightarrow> json" where
  "requested_ports_json ps =
     JArr (map (\<lambda>(hp, pr). JObj [(''hostPort'', JNum (of_int hp)), (''protocol'', JStr (protocol_str pr))]) ps)"

definition requirements_json :: "workload_requirements \<Rightarrow> json" where
  "requirements_json r = JObj (
     [(''cpuMilli'', JNum (of_int (wr_cpuMilli r))), (''memoryMib'', JNum (of_int (wr_memoryMib r))),
      (''storageMib'', JNum (of_int (wr_storageMib r))), (''runtime'', JStr (runtime_kind_str (wr_runtime r)))]
   @ jopt ''architecture'' (map_option JStr (wr_architecture r))
   @ jopt ''region'' (map_option JStr (wr_region r))
   @ jopt ''requiredLabels'' (map_option (\<lambda>ls. JObj (map (\<lambda>(k, v). (k, JStr v)) ls)) (wr_requiredLabels r))
   @ jopt ''requiredNodeId'' (map_option JStr (wr_requiredNodeId r))
   @ jopt ''requestedHostPorts'' (map_option requested_ports_json (wr_requestedHostPorts r)))"

record runtime_volume =
  rv_id :: "string option"
  rv_name :: string

definition runtime_volume_schema :: "(string \<Rightarrow> bool) \<Rightarrow> json \<Rightarrow> runtime_volume option" where
  "runtime_volume_schema zuuid j =
     Option.bind (z_object j) (\<lambda>j.
     Option.bind (z_opt (z_string_where zuuid) ''id'' j) (\<lambda>i.
     Option.bind (z_req (z_string_where (\<lambda>s. s \<noteq> [])) ''name'' j) (\<lambda>n.
       Some \<lparr>rv_id = i, rv_name = n\<rparr>)))"

definition runtimeVolumesSchema :: "(string \<Rightarrow> bool) \<Rightarrow> json \<Rightarrow> runtime_volume list option option" where
  "runtimeVolumesSchema zuuid j =
     Option.bind (z_object j) (\<lambda>j. z_opt (z_array (runtime_volume_schema zuuid)) ''volumes'' j)"

datatype exposure = Private | Public

record runtime_port =
  rp_containerPort :: int
  rp_protocol :: "port_protocol option"
  rp_exposure :: "exposure option"
  rp_requestedHostPort :: "int option"
  rp_externalPort :: "int option"

definition tcp_port :: "int \<Rightarrow> bool" where
  "tcp_port i \<longleftrightarrow> 1 \<le> i \<and> i \<le> 65535"

definition runtime_port_schema :: "json \<Rightarrow> runtime_port option" where
  "runtime_port_schema j =
     Option.bind (z_object j) (\<lambda>j.
     Option.bind (z_req (z_int tcp_port) ''containerPort'' j) (\<lambda>cp.
     Option.bind (z_opt (z_enum protocols) ''protocol'' j) (\<lambda>pr.
     Option.bind (z_opt (z_enum [(''private'', Private), (''public'', Public)]) ''exposure'' j) (\<lambda>ex.
     Option.bind (z_opt (z_int tcp_port) ''requestedHostPort'' j) (\<lambda>rq.
     Option.bind (z_opt (z_int tcp_port) ''externalPort'' j) (\<lambda>ep.
       Some \<lparr>rp_containerPort = cp, rp_protocol = pr, rp_exposure = ex,
             rp_requestedHostPort = rq, rp_externalPort = ep\<rparr>))))))"

definition runtimePortsSchema :: "json \<Rightarrow> runtime_port list option option" where
  "runtimePortsSchema j = Option.bind (z_object j) (\<lambda>j. z_opt (z_array runtime_port_schema) ''ports'' j)"

text \<open>\<open>safeParse(x).data?.field ?? []\<close>\<close>

definition data_or_nil :: "'a list option option \<Rightarrow> 'a list" where
  "data_or_nil r = (case r of Some (Some xs) \<Rightarrow> xs | _ \<Rightarrow> [])"

definition graceful_shutdown_seconds :: "json \<Rightarrow> int option" where
  "graceful_shutdown_seconds j =
     (case Option.bind (z_object j) (\<lambda>j. z_opt (z_int (\<lambda>i. 1 \<le> i \<and> i \<le> 600)) ''gracefulShutdownSeconds'' j) of
        Some (Some i) \<Rightarrow> Some i | _ \<Rightarrow> None)"

definition has_persistent_volumes :: "json \<Rightarrow> bool" where
  "has_persistent_volumes j = (data_or_nil (Option.bind (z_object j) (\<lambda>j. z_opt (z_array Some) ''volumes'' j)) \<noteq> [])"

subsection \<open>Facts\<close>

lemma those_map_Some: "(\<And>x. x \<in> set xs \<Longrightarrow> f x = Some (g x)) \<Longrightarrow> those (map f xs) = Some (map g xs)"
  by (induction xs) auto

lemma those_map_mem: "those (map f xs) = Some ys \<Longrightarrow> y \<in> set ys \<Longrightarrow> \<exists>x \<in> set xs. f x = Some y"
  by (induction xs arbitrary: ys) (auto split: option.splits)

lemma those_length: "those (map f xs) = Some ys \<Longrightarrow> length ys = length xs"
  by (induction xs arbitrary: ys) (auto split: option.splits)

lemma z_int_of_int [simp]: "z_int ok (JNum (of_int i)) = (if ok i then Some i else None)"
  by simp

lemma z_enum_runtime [simp]: "z_enum runtime_kinds (JStr (runtime_kind_str r)) = Some r"
  by (cases r) (auto simp: z_enum_def runtime_kinds_def)

lemma z_record_roundtrip [simp]: "z_record_string (JObj (map (\<lambda>(k, v). (k, JStr v)) ls)) = Some ls"
  by (induction ls) (auto simp: case_prod_unfold)

lemma map_of_jopt [simp]:
  "map_of (jopt k v) k' = (if k = k' then v else None)"
  by (auto simp: jopt_def split: option.splits)

text \<open>The fields of a stored requirements object that the schema accepts.\<close>

definition requirements_ok :: "(string \<Rightarrow> bool) \<Rightarrow> workload_requirements \<Rightarrow> bool" where
  "requirements_ok zuuid r \<longleftrightarrow>
     0 < wr_cpuMilli r \<and> 0 < wr_memoryMib r \<and> 0 \<le> wr_storageMib r
   \<and> wr_architecture r \<noteq> Some [] \<and> wr_region r \<noteq> Some []
   \<and> (case wr_requiredNodeId r of None \<Rightarrow> True | Some i \<Rightarrow> zuuid i)"

lemma requirements_fields:
  "jget ''cpuMilli'' (requirements_json r) = Some (JNum (of_int (wr_cpuMilli r)))"
  "jget ''memoryMib'' (requirements_json r) = Some (JNum (of_int (wr_memoryMib r)))"
  "jget ''storageMib'' (requirements_json r) = Some (JNum (of_int (wr_storageMib r)))"
  "jget ''runtime'' (requirements_json r) = Some (JStr (runtime_kind_str (wr_runtime r)))"
  "jget ''architecture'' (requirements_json r) = map_option JStr (wr_architecture r)"
  "jget ''region'' (requirements_json r) = map_option JStr (wr_region r)"
  "jget ''requiredLabels'' (requirements_json r)
     = map_option (\<lambda>ls. JObj (map (\<lambda>(k, v). (k, JStr v)) ls)) (wr_requiredLabels r)"
  "jget ''requiredNodeId'' (requirements_json r) = map_option JStr (wr_requiredNodeId r)"
  by (simp_all add: requirements_json_def map_add_def split: option.splits)

lemma z_object_requirements: "z_object (requirements_json r) = Some (requirements_json r)"
  by (simp add: requirements_json_def)

lemma z_opt_string_where:
  "jget k j = map_option JStr v \<Longrightarrow> (\<And>s. v = Some s \<Longrightarrow> ok s) \<Longrightarrow> z_opt (z_string_where ok) k j = Some v"
  by (cases v) (auto simp: z_opt_def z_string_where_def)

lemma requirements_parse_stored:
  assumes "requirements_ok zuuid r"
  shows "requirementsSchema zuuid (requirements_json r) = Some (r\<lparr>wr_requestedHostPorts := None\<rparr>)"
proof -
  let ?j = "requirements_json r"
  have s: "z_opt (z_string_where (\<lambda>s. s \<noteq> [])) ''architecture'' ?j = Some (wr_architecture r)"
      "z_opt (z_string_where (\<lambda>s. s \<noteq> [])) ''region'' ?j = Some (wr_region r)"
      "z_opt (z_string_where zuuid) ''requiredNodeId'' ?j = Some (wr_requiredNodeId r)"
    by (rule z_opt_string_where, simp add: requirements_fields,
        use assms in \<open>auto simp: requirements_ok_def\<close>)+
  have l: "z_opt z_record_string ''requiredLabels'' ?j = Some (wr_requiredLabels r)"
    by (cases "wr_requiredLabels r") (simp_all add: z_opt_def requirements_fields del: z_record_string.simps)
  show ?thesis using assms
    by (simp add: requirementsSchema_def z_object_requirements s l)
      (simp add: z_req_def requirements_fields requirements_ok_def)
qed

lemma bind_Some_iff: "Option.bind x f = Some y \<longleftrightarrow> (\<exists>a. x = Some a \<and> f a = Some y)"
  by (cases x) auto

lemma z_int_ok: "z_int ok j = Some i \<Longrightarrow> ok i"
  by (cases j) (auto split: if_splits)

lemma z_string_where_ok: "z_string_where ok j = Some s \<Longrightarrow> ok s"
  by (auto simp: z_string_where_def split: option.splits if_splits)

lemma z_req_ok: "z_req p k j = Some v \<Longrightarrow> \<exists>x. p x = Some v"
  by (auto simp: z_req_def split: option.splits)

lemma z_opt_ok: "z_opt p k j = Some (Some v) \<Longrightarrow> \<exists>x. p x = Some v"
  by (auto simp: z_opt_def split: option.splits)

lemma requirementsSchema_ok:
  assumes "requirementsSchema zuuid j = Some r"
  shows "requirements_ok zuuid r" and "wr_requestedHostPorts r = None"
proof -
  from assms obtain j' cpu mem sto rt arch reg lab nid where
    p: "z_req (z_int (\<lambda>i. 0 < i)) ''cpuMilli'' j' = Some cpu"
       "z_req (z_int (\<lambda>i. 0 < i)) ''memoryMib'' j' = Some mem"
       "z_req (z_int (\<lambda>i. 0 \<le> i)) ''storageMib'' j' = Some sto"
       "z_opt (z_string_where (\<lambda>s. s \<noteq> [])) ''architecture'' j' = Some arch"
       "z_opt (z_string_where (\<lambda>s. s \<noteq> [])) ''region'' j' = Some reg"
       "z_opt (z_string_where zuuid) ''requiredNodeId'' j' = Some nid"
    and r: "r = \<lparr>wr_cpuMilli = cpu, wr_memoryMib = mem, wr_storageMib = sto, wr_runtime = rt,
             wr_architecture = arch, wr_region = reg, wr_requiredLabels = lab,
             wr_requiredNodeId = nid, wr_requestedHostPorts = None\<rparr>"
    unfolding requirementsSchema_def bind_Some_iff by blast
  have "0 < cpu" "0 < mem" "0 \<le> sto"
    using p(1-3) [THEN z_req_ok] by (blast dest: z_int_ok)+
  moreover have "arch \<noteq> Some []" "reg \<noteq> Some []"
    using p(4,5) by (auto dest!: z_opt_ok z_string_where_ok)
  moreover have "case nid of None \<Rightarrow> True | Some i \<Rightarrow> zuuid i"
    using p(6) by (auto split: option.splits dest!: z_opt_ok z_string_where_ok)
  ultimately show "requirements_ok zuuid r" by (simp add: requirements_ok_def r)
  show "wr_requestedHostPorts r = None" by (simp add: r)
qed

end
