(* ===== verification/Lifecycle.thy ===== *)
theory Lifecycle
  imports Contracts
begin

text \<open>
  \<open>apps/api/src/modules/deployments/lifecycle.ts\<close>: the status of a deployment is a pure function of
  its desired state, its replica count and the facts the agents reported about its workloads.
  \<open>WorkloadFact\<close> is a structural type: the workload rows of the database extend the record
  \<open>workload_fact\<close>, so the derivation is stated for every extension of it.
\<close>

datatype deployment_status =
  DepQueued | DepScheduling | DepStarting | DepRunning | DepDegraded | DepFailed | DepStopping
| DepStopped | DepSuperseded

datatype health_status = HNone | HStarting | HHealthy | HUnhealthy | HUnknown

record workload_fact =
  w_desiredState :: desired_state
  w_actualState :: actual_state
  w_healthStatus :: health_status
  w_healthMessage :: "string option"

definition message_or :: "string \<Rightarrow> string option \<Rightarrow> string" where
  "message_or d m = (case m of Some s \<Rightarrow> s | None \<Rightarrow> d)"

definition deriveDeploymentStatus ::
  "desired_state \<Rightarrow> int \<Rightarrow> 'a workload_fact_scheme list \<Rightarrow> deployment_status \<times> string option" where
  "deriveDeploymentStatus desired replicas items =
     (if desired \<noteq> WantRunning then
        (let settled = list_all (\<lambda>w. w_actualState w = ActStopped \<or> w_desiredState w = WantDeleted) items
         in (if settled then DepStopped else DepStopping, None))
      else
        (let active = filter (\<lambda>w. w_desiredState w = WantRunning) items in
         case List.find (\<lambda>w. w_actualState w = ActLost) active of
           Some lost \<Rightarrow> (DepDegraded, Some (message_or ''A workload was lost with its node'' (w_healthMessage lost)))
         | None \<Rightarrow>
         (case List.find (\<lambda>w. w_actualState w = ActFailed) active of
           Some failure \<Rightarrow>
             (if list_ex (\<lambda>w. w_actualState w = ActRunning) active then DepDegraded else DepFailed,
              Some (message_or ''A workload failed'' (w_healthMessage failure)))
         | None \<Rightarrow>
           if list_ex (\<lambda>w. w_healthStatus w = HUnhealthy) active
           then (DepDegraded, Some ''A workload is unhealthy'')
           else if int (length active) < replicas
           then (if length active = 0 then DepScheduling else DepStarting, None)
           else if list_all (\<lambda>w. w_actualState w = ActRunning) active
                 \<and> list_all (\<lambda>w. w_healthStatus w = HHealthy \<or> w_healthStatus w = HNone) active
           then (DepRunning, None)
           else (DepStarting, None))))"

fun deployment_status_str :: "deployment_status \<Rightarrow> string" where
  "deployment_status_str DepQueued = ''queued''"
| "deployment_status_str DepScheduling = ''scheduling''"
| "deployment_status_str DepStarting = ''starting''"
| "deployment_status_str DepRunning = ''running''"
| "deployment_status_str DepDegraded = ''degraded''"
| "deployment_status_str DepFailed = ''failed''"
| "deployment_status_str DepStopping = ''stopping''"
| "deployment_status_str DepStopped = ''stopped''"
| "deployment_status_str DepSuperseded = ''superseded''"

subsection \<open>The specification: a status as a condition on the set of workloads\<close>

definition wanted :: "'a workload_fact_scheme list \<Rightarrow> 'a workload_fact_scheme set" where
  "wanted items = {w \<in> set items. w_desiredState w = WantRunning}"

definition some_actual :: "actual_state \<Rightarrow> 'a workload_fact_scheme list \<Rightarrow> bool" where
  "some_actual s items \<longleftrightarrow> (\<exists>w \<in> wanted items. w_actualState w = s)"

definition all_serving :: "'a workload_fact_scheme list \<Rightarrow> bool" where
  "all_serving items \<longleftrightarrow>
     (\<forall>w \<in> wanted items. w_actualState w = ActRunning \<and> w_healthStatus w \<in> {HHealthy, HNone})"

definition wanted_count :: "'a workload_fact_scheme list \<Rightarrow> int" where
  "wanted_count items = int (length (filter (\<lambda>w. w_desiredState w = WantRunning) items))"

lemma find_wanted:
  "(\<exists>w. List.find P (filter (\<lambda>w. w_desiredState w = WantRunning) items) = Some w)
     \<longleftrightarrow> (\<exists>w \<in> wanted items. P w)"
  using find_None_iff' [of P "filter (\<lambda>w. w_desiredState w = WantRunning) items"]
  by (auto simp: wanted_def)

lemma derive_running_cases:
  obtains (lost) r where "some_actual ActLost items"
      "deriveDeploymentStatus WantRunning n items = (DepDegraded, Some r)"
  | (partly) r where "\<not> some_actual ActLost items" "some_actual ActFailed items" "some_actual ActRunning items"
      "deriveDeploymentStatus WantRunning n items = (DepDegraded, Some r)"
  | (failed) r where "\<not> some_actual ActLost items" "some_actual ActFailed items" "\<not> some_actual ActRunning items"
      "deriveDeploymentStatus WantRunning n items = (DepFailed, Some r)"
  | (sick) r where "\<not> some_actual ActLost items" "\<not> some_actual ActFailed items"
      "\<exists>w \<in> wanted items. w_healthStatus w = HUnhealthy"
      "deriveDeploymentStatus WantRunning n items = (DepDegraded, Some r)"
  | (few) "\<not> some_actual ActLost items" "\<not> some_actual ActFailed items"
      "\<not> (\<exists>w \<in> wanted items. w_healthStatus w = HUnhealthy)" "wanted_count items < n"
      "deriveDeploymentStatus WantRunning n items
         = (if wanted_count items = 0 then DepScheduling else DepStarting, None)"
  | (serving) "\<not> some_actual ActLost items" "\<not> some_actual ActFailed items"
      "\<not> (\<exists>w \<in> wanted items. w_healthStatus w = HUnhealthy)" "n \<le> wanted_count items"
      "all_serving items" "deriveDeploymentStatus WantRunning n items = (DepRunning, None)"
  | (coming) "\<not> some_actual ActLost items" "\<not> some_actual ActFailed items"
      "\<not> (\<exists>w \<in> wanted items. w_healthStatus w = HUnhealthy)" "n \<le> wanted_count items"
      "\<not> all_serving items" "deriveDeploymentStatus WantRunning n items = (DepStarting, None)"
proof -
  let ?act = "filter (\<lambda>w. w_desiredState w = WantRunning) items"
  have ex: "list_ex P ?act \<longleftrightarrow> (\<exists>w \<in> wanted items. P w)" for P
    by (auto simp: wanted_def list_ex_iff)
  have al: "list_all (\<lambda>w. w_actualState w = ActRunning) ?act
      \<and> list_all (\<lambda>w. w_healthStatus w = HHealthy \<or> w_healthStatus w = HNone) ?act \<longleftrightarrow> all_serving items"
    by (auto simp: wanted_def list_all_iff all_serving_def)
  have fl: "some_actual s items \<longleftrightarrow> (\<exists>w. List.find (\<lambda>w. w_actualState w = s) ?act = Some w)" for s
    by (simp add: some_actual_def find_wanted)
  note d = deriveDeploymentStatus_def [of WantRunning n items, unfolded ex al Let_def, simplified]
  show ?thesis
  proof (cases "List.find (\<lambda>w. w_actualState w = ActLost) ?act")
    case (Some w)
    with d lost show ?thesis by (simp add: fl)
  next
    case None
    note nolost = this
    show ?thesis
    proof (cases "List.find (\<lambda>w. w_actualState w = ActFailed) ?act")
      case (Some w)
      let ?r = "message_or ''A workload failed'' (w_healthMessage w)"
      from Some nolost d have e: "deriveDeploymentStatus WantRunning n items
          = (if some_actual ActRunning items then DepDegraded else DepFailed, Some ?r)"
        by (simp add: some_actual_def)
      from Some nolost have "\<not> some_actual ActLost items" "some_actual ActFailed items"
        by (simp_all add: fl)
      with e partly [of ?r] failed [of ?r] show ?thesis
        by (cases "some_actual ActRunning items") simp_all
    next
      case None
      show ?thesis
      proof (cases "\<exists>w \<in> wanted items. w_healthStatus w = HUnhealthy")
        case True
        then show ?thesis using nolost None d sick by (simp add: fl)
      next
        case False
        show ?thesis
        proof (cases "wanted_count items < n")
          case True
          with False nolost None d few show ?thesis by (simp add: fl wanted_count_def)
        next
          case ge: False
          with False nolost None d serving coming show ?thesis
            by (cases "all_serving items") (simp_all add: fl wanted_count_def)
        qed
      qed
    qed
  qed
qed

lemma all_serving_clean:
  "all_serving items \<Longrightarrow> \<not> some_actual ActLost items \<and> \<not> some_actual ActFailed items
     \<and> \<not> (\<exists>w \<in> wanted items. w_healthStatus w = HUnhealthy)"
  by (auto simp: all_serving_def some_actual_def)

lemma derive_running_iff:
  "fst (deriveDeploymentStatus WantRunning n items) = DepRunning
     \<longleftrightarrow> n \<le> wanted_count items \<and> all_serving items"
  using all_serving_clean [of items] by (cases rule: derive_running_cases [of items n]) auto

lemma derive_not_superseded:
  "fst (deriveDeploymentStatus d n items) \<notin> {DepQueued, DepSuperseded}"
  by (cases "d = WantRunning"; cases rule: derive_running_cases [of items n])
    (auto simp: deriveDeploymentStatus_def [of d] Let_def split: if_splits)

subsection \<open>Property\<close>

text \<open>The derived status means what it says. A deployment that should run is running exactly
  when it has at least its replicas wanted and every wanted workload runs and is healthy (or has no
  health check); it is failed exactly when a wanted workload failed, none runs and none was lost; a
  failure reason accompanies exactly the statuses degraded and failed; a deployment that should not
  run is only ever stopping or stopped, stopped when every workload has stopped or been deleted.\<close>

theorem derived_status_spec:
  "(fst (deriveDeploymentStatus WantRunning n items) = DepRunning
       \<longleftrightarrow> n \<le> wanted_count items \<and> all_serving items)
 \<and> (fst (deriveDeploymentStatus WantRunning n items) = DepFailed
       \<longleftrightarrow> some_actual ActFailed items \<and> \<not> some_actual ActRunning items \<and> \<not> some_actual ActLost items)
 \<and> (snd (deriveDeploymentStatus d n items) \<noteq> None
       \<longleftrightarrow> fst (deriveDeploymentStatus d n items) \<in> {DepDegraded, DepFailed})
 \<and> deriveDeploymentStatus WantStopped n items =
       (if list_all (\<lambda>w. w_actualState w = ActStopped \<or> w_desiredState w = WantDeleted) items
        then DepStopped else DepStopping, None)
 \<and> deriveDeploymentStatus WantDeleted n items = deriveDeploymentStatus WantStopped n items"
proof (intro conjI)
  show "fst (deriveDeploymentStatus WantRunning n items) = DepRunning
       \<longleftrightarrow> n \<le> wanted_count items \<and> all_serving items"
    by (rule derive_running_iff)
  show "fst (deriveDeploymentStatus WantRunning n items) = DepFailed
       \<longleftrightarrow> some_actual ActFailed items \<and> \<not> some_actual ActRunning items \<and> \<not> some_actual ActLost items"
    by (cases rule: derive_running_cases [of items n]) auto
  show other: "deriveDeploymentStatus WantStopped n items =
       (if list_all (\<lambda>w. w_actualState w = ActStopped \<or> w_desiredState w = WantDeleted) items
        then DepStopped else DepStopping, None)"
    by (simp add: deriveDeploymentStatus_def)
  show same: "deriveDeploymentStatus WantDeleted n items = deriveDeploymentStatus WantStopped n items"
    by (simp add: deriveDeploymentStatus_def)
  show "snd (deriveDeploymentStatus d n items) \<noteq> None
       \<longleftrightarrow> fst (deriveDeploymentStatus d n items) \<in> {DepDegraded, DepFailed}"
  proof (cases d)
    case WantRunning
    then show ?thesis by (cases rule: derive_running_cases [of items n]) auto
  next
    case WantStopped
    with other show ?thesis by simp
  next
    case WantDeleted
    with other same show ?thesis by simp
  qed
qed

end
