(* ===== verification/Store.thy ===== *)
theory Store
  imports Json Lifecycle
begin

text \<open>
  The control plane's database: one record per table of
  \<open>packages/db/src/database/schema/control-plane.ts\<close> and of the tables of \<open>projects.ts\<close> and
  \<open>personal.ts\<close> that the controllers use, with the columns in the order of the schema, and the state
  \<open>cp\<close> that holds the tables as lists of rows in insertion order. Timestamps are milliseconds,
  \<open>clock\<close> is what \<open>new Date()\<close> reads, \<open>uuid_next\<close> counts the random ids drawn so far. Columns with
  \<open>$onUpdate(() => new Date())\<close> are touched by the \<open>update_<table>\<close> functions, column defaults are
  those of the \<open>new_<table>\<close> functions. Unique indexes that an operation relies on are checked by the
  \<open>insert_<table>\<close> functions, which answer \<open>None\<close> for the SQL error 23505. Foreign keys are not checked.

  What comes from outside the repository is the record \<open>host\<close>: the collation behind
  \<open>localeCompare\<close>, the ids \<open>crypto.randomUUID()\<close> draws, and zod's \<open>uuid()\<close> format.
\<close>

record host =
  h_localeCompare :: "string \<Rightarrow> string \<Rightarrow> rat"
  h_randomUUID :: "nat \<Rightarrow> string"
  h_zodUuid :: "string \<Rightarrow> bool"

datatype exn = Unique_violation | Zod_error | Js_error string

subsection \<open>control-plane.ts\<close>

datatype build_trigger = TrigBuild | TrigDeploy | TrigRetry

datatype build_status = BCreated | BQueued | BRunning | BPushing | BSucceeded | BFailed | BCancelled

record build =
  b_id :: string
  b_organizationId :: string
  b_projectId :: string
  b_applicationId :: string
  b_triggeredBy :: "string option"
  b_trigger :: build_trigger
  b_retryOfBuildId :: "string option"
  b_sourceType :: string
  b_repositoryUrl :: string
  b_repositoryProvider :: string
  b_branch :: string
  b_commitSha :: "string option"
  b_status :: build_status
  b_builderJobId :: "string option"
  b_buildConfiguration :: json
  b_imageRepository :: string
  b_imageTag :: string
  b_imageDigest :: "string option"
  b_errorCode :: "string option"
  b_errorMessage :: "string option"
  b_queuedAt :: "int option"
  b_startedAt :: "int option"
  b_completedAt :: "int option"
  b_createdAt :: int
  b_updatedAt :: int

record node =
  n_id :: string
  n_organizationId :: "string option"
  n_name :: string
  n_hostname :: string
  n_advertisedAddress :: "string option"
  n_publicNetworkingEnabled :: int
  n_publicAddress :: "string option"
  n_status :: node_status
  n_architecture :: string
  n_os :: string
  n_agentVersion :: string
  n_region :: "string option"
  n_labels :: "(string \<times> string) list"
  n_capabilities :: "string list"
  n_runtimes :: "runtime_kind list"
  n_resources :: "node_resources option"
  n_schedulingEnabled :: int
  n_agentTokenHash :: string
  n_lastHeartbeatAt :: "int option"
  n_unhealthyAt :: "int option"
  n_offlineAt :: "int option"
  n_createdAt :: int
  n_updatedAt :: int

record registration_token =
  rt_id :: string
  rt_organizationId :: string
  rt_tokenHash :: string
  rt_expiresAt :: int
  rt_usedAt :: "int option"
  rt_createdAt :: int

datatype recovery_state = RecIdle | RecBackoff | RecManual

record deployment =
  d_id :: string
  d_applicationId :: string
  d_environmentId :: "string option"
  d_version :: int
  d_image :: string
  d_replicas :: int
  d_desiredState :: desired_state
  d_runtime :: runtime_kind
  d_requirements :: json
  d_runtimeConfig :: json
  d_configurationSnapshot :: "json option"
  d_status :: deployment_status
  d_failureReason :: "string option"
  d_recoveryAttempts :: int
  d_recoveryNextAttemptAt :: "int option"
  d_recoveryState :: recovery_state
  d_reconcileLeaseId :: "string option"
  d_reconcileLeaseUntil :: "int option"
  d_rollbackFromDeploymentId :: "string option"
  d_buildId :: "string option"
  d_commitSha :: "string option"
  d_createdBy :: "string option"
  d_createdAt :: int
  d_startedAt :: "int option"
  d_completedAt :: "int option"
  d_failedAt :: "int option"

record workload = workload_fact +
  w_id :: string
  w_deploymentId :: string
  w_nodeId :: "string option"
  w_runtimeId :: "string option"
  w_publishedPorts :: "(string \<times> int) list"
  w_schedulingReasons :: "string list"
  w_healthFailureCount :: int
  w_healthCheckedAt :: "int option"
  w_lastHealthyAt :: "int option"
  w_healthChangedAt :: "int option"
  w_reportGeneration :: int
  w_lostAt :: "int option"
  w_replacementOfWorkloadId :: "string option"
  w_replacementReason :: "string option"
  w_restartCount :: int
  w_lastReportedAt :: "int option"
  w_createdAt :: int
  w_updatedAt :: int

record deployment_event =
  e_id :: string
  e_deploymentId :: string
  e_type :: string
  e_message :: string
  e_workloadId :: "string option"
  e_nodeId :: "string option"
  e_reason :: "string option"
  e_createdAt :: int

datatype binding_status = Reserved | Bound | Released

record workload_port =
  wp_workloadId :: string
  wp_nodeId :: "string option"
  wp_containerPort :: int
  wp_hostPort :: int
  wp_protocol :: port_protocol
  wp_exposure :: exposure
  wp_bindAddress :: "string option"
  wp_status :: binding_status
  wp_observedAt :: int
  wp_createdAt :: int
  wp_updatedAt :: int

record port_reservation =
  r_id :: string
  r_nodeId :: string
  r_workloadId :: string
  r_containerPort :: int
  r_hostPort :: int
  r_protocol :: port_protocol
  r_status :: binding_status
  r_boundAt :: "int option"
  r_releasedAt :: "int option"
  r_createdAt :: int
  r_updatedAt :: int

record workload_metric =
  m_workloadId :: string
  m_nodeId :: string
  m_recordedAt :: int
  m_cpuUsagePercent :: "rat option"
  m_memoryUsageBytes :: int
  m_memoryLimitBytes :: "int option"
  m_networkRxBytes :: int
  m_networkTxBytes :: int
  m_diskReadBytes :: int
  m_diskWriteBytes :: int
  m_createdAt :: int

datatype command_status = CmdPending | CmdDelivered | CmdSucceeded | CmdFailed

record agent_command =
  c_id :: string
  c_nodeId :: string
  c_type :: string
  c_resourceId :: string
  c_payload :: json
  c_deadlineAt :: "int option"
  c_status :: command_status
  c_deliveredAt :: "int option"
  c_deliveryAttempts :: int
  c_result :: "json option"
  c_createdAt :: int
  c_completedAt :: "int option"

subsection \<open>projects.ts and personal.ts\<close>

datatype source_type = SrcGit | SrcDocker

datatype lifecycle_status = LifeActive | LifeArchived

datatype application_type = AppWeb | AppApi | AppWorker | AppGameServer | AppCustom

datatype application_status =
  AppDraft | AppReady | AppDeploying | AppHealthy | AppDegraded | AppFailed | AppStopped | AppArchived

record application =
  a_id :: string
  a_organizationId :: string
  a_projectId :: string
  a_name :: string
  a_slug :: string
  a_description :: "string option"
  a_sourceType :: source_type
  a_gitUrl :: "string option"
  a_imageName :: "string option"
  a_containerName :: "string option"
  a_internalPort :: int
  a_branch :: string
  a_repositoryProvider :: string
  a_rootDirectory :: string
  a_buildConfiguration :: json
  a_autoDeployEnabled :: bool
  a_gitCredentialReference :: "string option"
  a_registryCredentialReference :: "string option"
  a_lastKnownCommit :: "string option"
  a_lifecycleStatus :: lifecycle_status
  a_archivedAt :: "int option"
  a_applicationType :: application_type
  a_defaultEnvironmentId :: "string option"
  a_status :: application_status
  a_createdAt :: int
  a_updatedAt :: int

datatype volume_status = VolAvailable | VolInUse | VolUnavailable | VolError | VolDeleting | VolLegacy

record volume =
  v_id :: string
  v_projectId :: string
  v_name :: string
  v_runtimeName :: string
  v_status :: volume_status
  v_nodeId :: "string option"
  v_capacityMib :: "int option"
  v_createdBy :: "string option"
  v_createdAt :: int
  v_updatedAt :: int

datatype restart_policy = RestartNo | RestartOnFailure | RestartAlways | RestartUnlessStopped

record runtime_configuration =
  rtc_applicationId :: string
  rtc_runtime :: string
  rtc_command :: "string option"
  rtc_workingDirectory :: "string option"
  rtc_restartPolicy :: restart_policy
  rtc_gracefulShutdownSeconds :: int
  rtc_healthcheckCommand :: "string option"
  rtc_healthcheckIntervalSeconds :: int
  rtc_healthcheckTimeoutSeconds :: int
  rtc_healthcheckRetries :: int
  rtc_healthcheckStartPeriodSeconds :: int
  rtc_replicas :: int
  rtc_updatedAt :: int

record resource_configuration =
  rsc_applicationId :: string
  rsc_cpuMilli :: int
  rsc_memoryMib :: int
  rsc_storageMib :: int
  rsc_updatedAt :: int

record application_port =
  ap_id :: string
  ap_applicationId :: string
  ap_name :: "string option"
  ap_internalPort :: int
  ap_protocol :: port_protocol
  ap_exposure :: exposure
  ap_requestedHostPort :: "int option"
  ap_externalPort :: "int option"
  ap_description :: "string option"
  ap_createdAt :: int
  ap_updatedAt :: int

record application_variable =
  av_id :: string
  av_applicationId :: string
  av_environmentId :: "string option"
  av_key :: string
  av_valueEncrypted :: string
  av_createdAt :: int
  av_updatedAt :: int

record secret_attachment =
  sa_id :: string
  sa_applicationId :: string
  sa_environmentId :: "string option"
  sa_secretEnvironmentVariableId :: string
  sa_targetKey :: string
  sa_createdAt :: int

record application_volume_mount =
  avm_id :: string
  avm_applicationId :: string
  avm_volumeId :: "string option"
  avm_volumeName :: string
  avm_mountPath :: string
  avm_readOnly :: bool

datatype game_server_status = GsProvisioning | GsRunning | GsStopped | GsFailed

record game_server =
  gs_id :: string
  gs_organizationId :: string
  gs_projectId :: "string option"
  gs_applicationId :: "string option"
  gs_deploymentId :: "string option"
  gs_createdByUserId :: string
  gs_name :: string
  gs_version :: string
  gs_memoryMib :: int
  gs_containerName :: string
  gs_runtimePort :: "int option"
  gs_status :: game_server_status
  gs_createdAt :: int
  gs_updatedAt :: int

datatype access_subject = SubjectUser | SubjectTeam

datatype server_role = RoleViewer | RoleOperator | RoleAdmin

record game_server_access =
  ga_id :: string
  ga_gameServerId :: string
  ga_subjectType :: access_subject
  ga_userId :: "string option"
  ga_teamId :: "string option"
  ga_role :: server_role
  ga_createdAt :: int

record build_configuration =
  bc_applicationId :: string
  bc_runtime :: string
  bc_runtimeVersion :: "string option"
  bc_rootDirectory :: string
  bc_installCommand :: "string option"
  bc_buildCommand :: "string option"
  bc_startCommand :: "string option"
  bc_dockerfilePath :: "string option"
  bc_buildContext :: "string option"
  bc_updatedAt :: int

record project_environment =
  pe_id :: string
  pe_organizationId :: string
  pe_projectId :: string
  pe_name :: string
  pe_slug :: string
  pe_displayName :: string
  pe_protected :: bool
  pe_branch :: string
  pe_autoDeployEnabled :: bool
  pe_createdAt :: int
  pe_updatedAt :: int

record environment_variable =
  ev_id :: string
  ev_environmentId :: string
  ev_key :: string
  ev_valueEncrypted :: string
  ev_isSecret :: bool
  ev_createdAt :: int
  ev_updatedAt :: int

record deployment_volume_mount =
  dm_id :: string
  dm_deploymentId :: string
  dm_volumeId :: string
  dm_mountPath :: string
  dm_readOnly :: bool
  dm_createdAt :: int

datatype deploy_action = ActDeploy | ActStop

record application_deployment =
  ad_id :: string
  ad_applicationId :: string
  ad_actorId :: "string option"
  ad_action :: deploy_action
  ad_succeeded :: bool
  ad_message :: string
  ad_createdAt :: int

record audit_log =
  al_id :: string
  al_actorId :: "string option"
  al_action :: string
  al_targetType :: string
  al_targetId :: "string option"
  al_metadata :: "json option"
  al_ipAddress :: "string option"
  al_createdAt :: int

subsection \<open>The state\<close>

record cp =
  clock :: int
  uuid_next :: nat
  t_builds :: "build list"
  t_nodes :: "node list"
  t_registrationTokens :: "registration_token list"
  t_deployments :: "deployment list"
  t_workloads :: "workload list"
  t_events :: "deployment_event list"
  t_workloadPorts :: "workload_port list"
  t_reservations :: "port_reservation list"
  t_metrics :: "workload_metric list"
  t_commands :: "agent_command list"
  t_applications :: "application list"
  t_volumes :: "volume list"
  t_volumeMounts :: "deployment_volume_mount list"
  t_appDeployments :: "application_deployment list"
  t_auditLogs :: "audit_log list"
  t_runtimeConfigurations :: "runtime_configuration list"
  t_resourceConfigurations :: "resource_configuration list"
  t_applicationPorts :: "application_port list"
  t_applicationVariables :: "application_variable list"
  t_secretAttachments :: "secret_attachment list"
  t_applicationVolumeMounts :: "application_volume_mount list"
  t_gameServers :: "game_server list"
  t_environments :: "project_environment list"
  t_environmentVariables :: "environment_variable list"
  t_gameServerAccess :: "game_server_access list"
  t_buildConfigurations :: "build_configuration list"

definition empty_cp :: cp where
  "empty_cp = \<lparr>clock = 0, uuid_next = 0, t_builds = [], t_nodes = [], t_registrationTokens = [],
     t_deployments = [], t_workloads = [], t_events = [], t_workloadPorts = [], t_reservations = [],
     t_metrics = [], t_commands = [], t_applications = [], t_volumes = [], t_volumeMounts = [],
     t_appDeployments = [], t_auditLogs = [], t_runtimeConfigurations = [], t_resourceConfigurations = [],
     t_applicationPorts = [], t_applicationVariables = [], t_secretAttachments = [], t_applicationVolumeMounts = [],
     t_gameServers = [], t_environments = [], t_environmentVariables = [],
     t_gameServerAccess = [], t_buildConfigurations = []\<rparr>"

definition randomUUID :: "host \<Rightarrow> cp \<Rightarrow> string \<times> cp" where
  "randomUUID h s = (h_randomUUID h (uuid_next s), s\<lparr>uuid_next := Suc (uuid_next s)\<rparr>)"

end
