(* ===== verification/VolumePolicy.thy ===== *)
theory VolumePolicy
  imports Json
begin

text \<open>
  What a persistent volume may be called and where it may be mounted:
  \<open>apps/api/src/modules/volumes/policy.ts\<close> and \<open>snapshot.ts\<close> on the control plane, and the
  payload schema of the node agent, \<open>apps/agent/src/runtime/volume-policy.ts\<close>. Regular expressions
  are predicates over the characters.
\<close>

definition isManagedRuntimeName :: "string \<Rightarrow> bool" where
  "isManagedRuntimeName value \<longleftrightarrow>
     (let rest = drop (length ''devion-v-'') value in
      starts_with ''devion-v-'' value \<and> length rest = 32 \<and> list_all is_hex_lower rest)"

definition isSafeMountPath :: "string \<Rightarrow> bool" where
  "isSafeMountPath value \<longleftrightarrow>
     starts_with ''/'' value \<and> char_of (0::nat) \<notin> set value
   \<and> \<not> list_ex (\<lambda>part. part = '''' \<or> part = ''.'' \<or> part = ''..'') (drop 1 (split_on CHR ''/'' value))"

subsection \<open>snapshot.ts\<close>

record managed_mount =
  mm_volumeId :: string
  mm_mountPath :: string
  mm_readOnly :: bool

definition uuid_regex :: "string \<Rightarrow> bool" where
  "uuid_regex s \<longleftrightarrow>
     (case split_on CHR ''-'' s of
        [a, b, c, d, e] \<Rightarrow> map length [a, b, c, d, e] = [8, 4, 4, 4, 12]
          \<and> list_all is_hex (a @ b @ c @ d @ e)
          \<and> hd c \<in> set ''12345'' \<and> hd d \<in> set ''89abAB''
      | _ \<Rightarrow> False)"

definition managed_mount_of :: "json \<Rightarrow> managed_mount list" where
  "managed_mount_of volume =
     (case (jget ''id'' volume, jget ''target'' volume) of
        (Some (JStr i), Some (JStr t)) \<Rightarrow>
          if uuid_regex i
          then [\<lparr>mm_volumeId = i, mm_mountPath = t, mm_readOnly = (jget ''readOnly'' volume = Some (JBool True))\<rparr>]
          else []
      | _ \<Rightarrow> [])"

definition managedVolumeMounts :: "json \<Rightarrow> managed_mount list" where
  "managedVolumeMounts runtimeConfig =
     (case jget ''volumes'' runtimeConfig of
        Some (JArr vs) \<Rightarrow> concat (map managed_mount_of vs)
      | _ \<Rightarrow> [])"

subsection \<open>The agent's payload schema\<close>

definition safeContainerMountPath :: "json \<Rightarrow> string option" where
  "safeContainerMountPath j =
     (case z_string j of
        None \<Rightarrow> None
      | Some s \<Rightarrow>
          (let value = trim_str s in
           if 1 \<le> length value \<and> length value \<le> 512
              \<and> starts_with ''/'' value \<and> char_of (0::nat) \<notin> set value
              \<and> \<not> list_ex (\<lambda>part. part = '''' \<or> part = ''.'' \<or> part = ''..'') (drop 1 (split_on CHR ''/'' value))
           then Some value else None))"

definition volume_name_regex :: "string \<Rightarrow> bool" where
  "volume_name_regex s \<longleftrightarrow>
     (case s of [] \<Rightarrow> False
      | c # cs \<Rightarrow> is_alnum c \<and> length cs \<le> 127 \<and> list_all (\<lambda>c. is_alnum c \<or> c \<in> set ''_.-'') cs)"

record mount_payload =
  mp_id :: "string option"
  mp_name :: string
  mp_target :: string
  mp_readOnly :: "bool option"

definition volumeMountPayload :: "(string \<Rightarrow> bool) \<Rightarrow> json \<Rightarrow> mount_payload option" where
  "volumeMountPayload zuuid j =
     Option.bind (z_object j) (\<lambda>j.
     Option.bind (z_opt (z_string_where zuuid) ''id'' j) (\<lambda>i.
     Option.bind (z_req (z_string_where volume_name_regex) ''name'' j) (\<lambda>n.
     Option.bind (z_req safeContainerMountPath ''target'' j) (\<lambda>t.
     Option.bind (z_opt z_bool ''readOnly'' j) (\<lambda>ro.
       Some \<lparr>mp_id = i, mp_name = n, mp_target = t, mp_readOnly = ro\<rparr>)))))"

fun duplicate_targets :: "string list \<Rightarrow> mount_payload list \<Rightarrow> bool" where
  "duplicate_targets targets [] = False"
| "duplicate_targets targets (m # ms) =
     (mp_target m \<in> set targets \<or> duplicate_targets (mp_target m # targets) ms)"

definition volumeMountsPayload :: "(string \<Rightarrow> bool) \<Rightarrow> json \<Rightarrow> mount_payload list option" where
  "volumeMountsPayload zuuid j =
     (case z_array (volumeMountPayload zuuid) j of
        None \<Rightarrow> None
      | Some mounts \<Rightarrow> if duplicate_targets [] mounts then None else Some mounts)"

subsection \<open>Facts\<close>

text \<open>An absolute, normalised path: \<open>/s1/s2/...\<close> with at least one segment.\<close>

definition path_segment :: "string \<Rightarrow> bool" where
  "path_segment s \<longleftrightarrow> s \<noteq> '''' \<and> s \<noteq> ''.'' \<and> s \<noteq> ''..'' \<and> CHR ''/'' \<notin> set s \<and> char_of (0::nat) \<notin> set s"

definition path_of :: "string list \<Rightarrow> string" where
  "path_of segs = concat (map (\<lambda>s. CHR ''/'' # s) segs)"

lemma js_join_slash: "segs \<noteq> [] \<Longrightarrow> path_of segs = CHR ''/'' # js_join ''/'' segs"
proof (induction segs)
  case Nil
  then show ?case by simp
next
  case (Cons s segs)
  then show ?case by (cases segs) (simp_all add: path_of_def)
qed

lemma split_on_path_of:
  "list_all path_segment segs \<Longrightarrow> segs \<noteq> [] \<Longrightarrow> split_on CHR ''/'' (path_of segs) = [] # segs"
proof (induction segs)
  case Nil
  then show ?case by simp
next
  case (Cons s segs)
  then have s: "CHR ''/'' \<notin> set s" by (simp add: path_segment_def)
  show ?case
  proof (cases segs)
    case Nil
    with s show ?thesis by (simp add: path_of_def split_on_plain)
  next
    case (Cons t rest)
    with Cons.IH Cons.prems have "split_on CHR ''/'' (path_of segs) = [] # segs" by simp
    moreover have "path_of segs = CHR ''/'' # concat (t # map (\<lambda>s. CHR ''/'' # s) rest)"
      by (simp add: path_of_def Cons)
    ultimately show ?thesis using s Cons
      by (simp add: path_of_def split_on_append)
  qed
qed

lemma set_path_of: "c \<in> set (path_of segs) \<longleftrightarrow> (\<exists>s \<in> set segs. c = CHR ''/'' \<or> c \<in> set s)"
  unfolding path_of_def by (induction segs) auto

lemma set_split_on: "s \<in> set (split_on c q) \<Longrightarrow> set s \<subseteq> set q"
proof (induction q arbitrary: s)
  case Nil
  then show ?case by simp
next
  case (Cons x xs)
  obtain y ys where y: "split_on c xs = y # ys" by (cases "split_on c xs") auto
  with Cons.IH have "set y \<subseteq> set xs" and "\<And>t. t \<in> set ys \<Longrightarrow> set t \<subseteq> set xs" by auto
  with Cons.prems y show ?case by (auto split: if_splits)
qed

lemma isSafeMountPath_iff:
  "isSafeMountPath p \<longleftrightarrow> (\<exists>segs. segs \<noteq> [] \<and> list_all path_segment segs \<and> p = path_of segs)"
proof
  assume safe: "isSafeMountPath p"
  then obtain q where p: "p = CHR ''/'' # q"
    by (auto simp: isSafeMountPath_def starts_with_iff)
  let ?segs = "split_on CHR ''/'' q"
  from safe p have bad: "\<not> list_ex (\<lambda>part. part = '''' \<or> part = ''.'' \<or> part = ''..'') ?segs"
      and nul: "char_of (0::nat) \<notin> set q"
    by (auto simp: isSafeMountPath_def)
  have "path_segment s" if s: "s \<in> set ?segs" for s
  proof -
    have "set s \<subseteq> set q" by (rule set_split_on [OF s])
    with nul bad s split_on_no_sep [OF s] show ?thesis
      by (auto simp: path_segment_def list_ex_iff)
  qed
  moreover have "p = path_of ?segs" by (simp add: js_join_slash p)
  ultimately show "\<exists>segs. segs \<noteq> [] \<and> list_all path_segment segs \<and> p = path_of segs"
    by (intro exI [of _ ?segs]) (simp add: list_all_iff)
next
  assume "\<exists>segs. segs \<noteq> [] \<and> list_all path_segment segs \<and> p = path_of segs"
  then obtain segs where s: "segs \<noteq> []" "list_all path_segment segs" and p: "p = path_of segs" by blast
  have z: "char_of (0::nat) \<noteq> CHR ''/''" by code_simp
  have "starts_with ''/'' p" using s p by (simp add: js_join_slash starts_with_def)
  moreover have "char_of (0::nat) \<notin> set p"
    unfolding p set_path_of using s(2) z by (auto simp: list_all_iff path_segment_def)
  moreover have "\<not> list_ex (\<lambda>part. part = '''' \<or> part = ''.'' \<or> part = ''..'') segs"
    using s(2) by (auto simp: list_all_iff list_ex_iff path_segment_def)
  ultimately show "isSafeMountPath p"
    by (simp add: isSafeMountPath_def p split_on_path_of s)
qed

lemma safeContainerMountPath_safe: "safeContainerMountPath j = Some t \<Longrightarrow> isSafeMountPath t \<and> length t \<le> 512"
  by (auto simp: safeContainerMountPath_def isSafeMountPath_def Let_def split: option.splits if_splits)

lemma duplicate_targets_iff:
  "\<not> duplicate_targets ts ms \<longleftrightarrow> distinct (map mp_target ms) \<and> set (map mp_target ms) \<inter> set ts = {}"
  by (induction ts ms rule: duplicate_targets.induct) auto

lemma volumeMountPayload_safe: "volumeMountPayload zuuid j = Some m \<Longrightarrow>
    isSafeMountPath (mp_target m) \<and> volume_name_regex (mp_name m)"
  unfolding volumeMountPayload_def bind_Some_iff
  by (auto dest!: z_req_ok z_string_where_ok safeContainerMountPath_safe)

lemma z_array_mem: "z_array p j = Some ys \<Longrightarrow> y \<in> set ys \<Longrightarrow> \<exists>x. p x = Some y"
  by (cases j) (auto dest: those_map_mem)

subsection \<open>Properties\<close>

text \<open>The mount path policy is exactly the grammar of absolute normalised paths below the root: a
  path is accepted if and only if it is \<open>/\<close> followed by one or more segments joined by \<open>/\<close>, none of
  them empty, \<open>.\<close> or \<open>..\<close> and none containing NUL.\<close>

theorem safe_mount_path_grammar:
  "isSafeMountPath p \<longleftrightarrow> (\<exists>segs. segs \<noteq> [] \<and> list_all path_segment segs \<and> p = path_of segs)"
  by (rule isSafeMountPath_iff)

text \<open>Whatever volume list the agent accepts, the control plane's mount policy accepts too: every
  target is a safe mount path, every runtime name is a plain Docker name, and no target occurs twice.\<close>

theorem agent_mounts_safe:
  assumes "volumeMountsPayload zuuid j = Some mounts"
  shows "distinct (map mp_target mounts)
    \<and> list_all (\<lambda>m. isSafeMountPath (mp_target m) \<and> volume_name_regex (mp_name m)) mounts"
proof -
  from assms have a: "z_array (volumeMountPayload zuuid) j = Some mounts"
      and d: "\<not> duplicate_targets [] mounts"
    by (auto simp: volumeMountsPayload_def split: option.splits if_splits)
  from d have "distinct (map mp_target mounts)" by (simp add: duplicate_targets_iff)
  moreover have "isSafeMountPath (mp_target m) \<and> volume_name_regex (mp_name m)" if "m \<in> set mounts" for m
    using z_array_mem [OF a that] volumeMountPayload_safe by blast
  ultimately show ?thesis by (simp add: list_all_iff)
qed

lemma agent_mounts_safe_witness:
  "isSafeMountPath ''/data'' \<and> volume_name_regex ''devion-v-1''"
proof -
  let ?m = "\<lparr>mp_id = None, mp_name = ''devion-v-1'', mp_target = ''/data'', mp_readOnly = Some True\<rparr>"
  have "volumeMountsPayload (\<lambda>_. False) (JArr [JObj [(''name'', JStr ''devion-v-1''),
      (''target'', JStr '' /data ''), (''readOnly'', JBool True)]]) = Some [?m]"
    by code_simp
  from agent_mounts_safe [OF this] show ?thesis by simp
qed

end
