(* ===== verification/Tables.thy ===== *)
theory Tables
  imports Store VolumePolicy
begin

text \<open>
  The statements the controllers run against the tables of \<open>Store\<close>: inserts with the column defaults
  of the schema and the unique indexes that can reject them, updates that touch \<open>updatedAt\<close>, and
  lookups by primary key. Each table with an update is an interpretation of \<open>keyed_rows\<close>.
\<close>

subsection \<open>Updates\<close>

definition update_deployments :: "(deployment \<Rightarrow> bool) \<Rightarrow> (deployment \<Rightarrow> deployment) \<Rightarrow> cp \<Rightarrow> cp" where
  "update_deployments P f s = s\<lparr>t_deployments := upd_where P f (t_deployments s)\<rparr>"

definition update_workloads :: "(workload \<Rightarrow> bool) \<Rightarrow> (workload \<Rightarrow> workload) \<Rightarrow> cp \<Rightarrow> cp" where
  "update_workloads P f s =
     s\<lparr>t_workloads := upd_where P (\<lambda>w. (f w)\<lparr>w_updatedAt := clock s\<rparr>) (t_workloads s)\<rparr>"

definition update_nodes :: "(node \<Rightarrow> bool) \<Rightarrow> (node \<Rightarrow> node) \<Rightarrow> cp \<Rightarrow> cp" where
  "update_nodes P f s = s\<lparr>t_nodes := upd_where P (\<lambda>n. (f n)\<lparr>n_updatedAt := clock s\<rparr>) (t_nodes s)\<rparr>"

definition update_reservations :: "(port_reservation \<Rightarrow> bool) \<Rightarrow> (port_reservation \<Rightarrow> port_reservation) \<Rightarrow> cp \<Rightarrow> cp" where
  "update_reservations P f s =
     s\<lparr>t_reservations := upd_where P (\<lambda>r. (f r)\<lparr>r_updatedAt := clock s\<rparr>) (t_reservations s)\<rparr>"

definition update_workload_ports :: "(workload_port \<Rightarrow> bool) \<Rightarrow> (workload_port \<Rightarrow> workload_port) \<Rightarrow> cp \<Rightarrow> cp" where
  "update_workload_ports P f s =
     s\<lparr>t_workloadPorts := upd_where P (\<lambda>p. (f p)\<lparr>wp_updatedAt := clock s\<rparr>) (t_workloadPorts s)\<rparr>"

definition update_commands :: "(agent_command \<Rightarrow> bool) \<Rightarrow> (agent_command \<Rightarrow> agent_command) \<Rightarrow> cp \<Rightarrow> cp" where
  "update_commands P f s = s\<lparr>t_commands := upd_where P f (t_commands s)\<rparr>"

definition update_applications :: "(application \<Rightarrow> bool) \<Rightarrow> (application \<Rightarrow> application) \<Rightarrow> cp \<Rightarrow> cp" where
  "update_applications P f s =
     s\<lparr>t_applications := upd_where P (\<lambda>a. (f a)\<lparr>a_updatedAt := clock s\<rparr>) (t_applications s)\<rparr>"

definition update_volumes :: "(volume \<Rightarrow> bool) \<Rightarrow> (volume \<Rightarrow> volume) \<Rightarrow> cp \<Rightarrow> cp" where
  "update_volumes P f s = s\<lparr>t_volumes := upd_where P (\<lambda>v. (f v)\<lparr>v_updatedAt := clock s\<rparr>) (t_volumes s)\<rparr>"

definition update_builds :: "(build \<Rightarrow> bool) \<Rightarrow> (build \<Rightarrow> build) \<Rightarrow> cp \<Rightarrow> cp" where
  "update_builds P f s = s\<lparr>t_builds := upd_where P (\<lambda>b. (f b)\<lparr>b_updatedAt := clock s\<rparr>) (t_builds s)\<rparr>"

subsection \<open>Lookups by primary key\<close>

definition find_deployment :: "string \<Rightarrow> cp \<Rightarrow> deployment option" where
  "find_deployment i s = List.find (\<lambda>d. d_id d = i) (t_deployments s)"

definition find_workload :: "string \<Rightarrow> cp \<Rightarrow> workload option" where
  "find_workload i s = List.find (\<lambda>w. w_id w = i) (t_workloads s)"

definition find_build :: "string \<Rightarrow> cp \<Rightarrow> build option" where
  "find_build i s = List.find (\<lambda>b. b_id b = i) (t_builds s)"

definition workloads_of :: "string \<Rightarrow> cp \<Rightarrow> workload list" where
  "workloads_of did s = filter (\<lambda>w. w_deploymentId w = did) (t_workloads s)"

subsection \<open>Inserts\<close>

definition new_event :: "cp \<Rightarrow> string \<Rightarrow> string \<Rightarrow> string \<Rightarrow> string \<Rightarrow> deployment_event" where
  "new_event s i did ty msg =
     \<lparr>e_id = i, e_deploymentId = did, e_type = ty, e_message = msg, e_workloadId = None,
      e_nodeId = None, e_reason = None, e_createdAt = clock s\<rparr>"

text \<open>\<open>insert(deploymentEvents).values({ id: crypto.randomUUID(), ... })\<close>; \<open>f\<close> sets the optional columns.\<close>

definition log_event :: "host \<Rightarrow> string \<Rightarrow> string \<Rightarrow> string \<Rightarrow> (deployment_event \<Rightarrow> deployment_event) \<Rightarrow> cp \<Rightarrow> cp" where
  "log_event h did ty msg f s =
     (let (i, s1) = randomUUID h s in s1\<lparr>t_events := t_events s1 @ [f (new_event s1 i did ty msg)]\<rparr>)"

definition new_command :: "cp \<Rightarrow> string \<Rightarrow> string \<Rightarrow> agent_command_type \<Rightarrow> string \<Rightarrow> json \<Rightarrow> int \<Rightarrow> agent_command" where
  "new_command s i node ty rid payload ttl =
     \<lparr>c_id = i, c_nodeId = node, c_type = command_type_str ty, c_resourceId = rid, c_payload = payload,
      c_deadlineAt = Some (clock s + ttl), c_status = CmdPending, c_deliveredAt = None,
      c_deliveryAttempts = 0, c_result = None, c_createdAt = clock s, c_completedAt = None\<rparr>"

definition enqueue_command :: "host \<Rightarrow> string \<Rightarrow> agent_command_type \<Rightarrow> string \<Rightarrow> json \<Rightarrow> int \<Rightarrow> cp \<Rightarrow> cp" where
  "enqueue_command h node ty rid payload ttl s =
     (let (i, s1) = randomUUID h s
      in s1\<lparr>t_commands := t_commands s1 @ [new_command s1 i node ty rid payload ttl]\<rparr>)"

definition new_workload :: "cp \<Rightarrow> string \<Rightarrow> string \<Rightarrow> string \<Rightarrow> string list \<Rightarrow> workload" where
  "new_workload s i did node reasons =
     \<lparr>w_desiredState = WantRunning, w_actualState = ActPending, w_healthStatus = HNone,
      w_healthMessage = None, w_id = i, w_deploymentId = did, w_nodeId = Some node, w_runtimeId = None,
      w_publishedPorts = [], w_schedulingReasons = reasons, w_healthFailureCount = 0,
      w_healthCheckedAt = None, w_lastHealthyAt = None, w_healthChangedAt = None, w_reportGeneration = 1,
      w_lostAt = None, w_replacementOfWorkloadId = None, w_replacementReason = None, w_restartCount = 0,
      w_lastReportedAt = None, w_createdAt = clock s, w_updatedAt = clock s\<rparr>"

definition new_reservation :: "cp \<Rightarrow> string \<Rightarrow> string \<Rightarrow> string \<Rightarrow> int \<Rightarrow> int \<Rightarrow> port_protocol \<Rightarrow> port_reservation" where
  "new_reservation s i node wid cport hport pr =
     \<lparr>r_id = i, r_nodeId = node, r_workloadId = wid, r_containerPort = cport, r_hostPort = hport,
      r_protocol = pr, r_status = Reserved, r_boundAt = None, r_releasedAt = None,
      r_createdAt = clock s, r_updatedAt = clock s\<rparr>"

definition active_reservation :: "port_reservation \<Rightarrow> bool" where
  "active_reservation r \<longleftrightarrow> r_status r \<in> {Reserved, Bound}"

text \<open>The two unique indexes of \<open>node_port_reservations\<close>: one mapping per workload port, and (migration
  0040) one active owner per node, host port and protocol.\<close>

definition reservation_conflict :: "port_reservation \<Rightarrow> port_reservation \<Rightarrow> bool" where
  "reservation_conflict r q \<longleftrightarrow>
     (r_workloadId r = r_workloadId q \<and> r_containerPort r = r_containerPort q \<and> r_protocol r = r_protocol q)
   \<or> (active_reservation r \<and> active_reservation q \<and> r_nodeId r = r_nodeId q
        \<and> r_hostPort r = r_hostPort q \<and> r_protocol r = r_protocol q)"

definition insert_reservation :: "port_reservation \<Rightarrow> cp \<Rightarrow> cp option" where
  "insert_reservation r s =
     (if list_ex (reservation_conflict r) (t_reservations s) then None
      else Some (s\<lparr>t_reservations := t_reservations s @ [r]\<rparr>))"

text \<open>The unique indexes of \<open>deployments\<close>: application and version, and the build id when there is one.\<close>

definition deployment_conflict :: "deployment \<Rightarrow> deployment \<Rightarrow> bool" where
  "deployment_conflict d e \<longleftrightarrow>
     d_applicationId d = d_applicationId e \<and> d_version d = d_version e
   \<or> d_buildId d \<noteq> None \<and> d_buildId d = d_buildId e"

definition insert_deployment :: "deployment \<Rightarrow> cp \<Rightarrow> cp option" where
  "insert_deployment d s =
     (if list_ex (deployment_conflict d) (t_deployments s) then None
      else Some (s\<lparr>t_deployments := t_deployments s @ [d]\<rparr>))"

text \<open>A transaction that throws leaves the tables as they were; the ids it drew are gone.\<close>

definition rolled_back :: "cp \<Rightarrow> cp \<Rightarrow> cp" where
  "rolled_back before after = before\<lparr>uuid_next := uuid_next after\<rparr>"

subsection \<open>Facts\<close>

lemma update_frames [simp]:
  "t_workloads (update_deployments P f s) = t_workloads s"
  "t_commands (update_deployments P f s) = t_commands s"
  "t_nodes (update_deployments P f s) = t_nodes s"
  "t_reservations (update_deployments P f s) = t_reservations s"
  "t_volumes (update_deployments P f s) = t_volumes s"
  "t_events (update_deployments P f s) = t_events s"
  "t_applications (update_deployments P f s) = t_applications s"
  "t_builds (update_deployments P f s) = t_builds s"
  "clock (update_deployments P f s) = clock s"
  "uuid_next (update_deployments P f s) = uuid_next s"
  "t_deployments (update_deployments P f s) = upd_where P f (t_deployments s)"
  by (simp_all add: update_deployments_def)

lemma update_workloads_frames [simp]:
  "t_deployments (update_workloads P f s) = t_deployments s"
  "t_commands (update_workloads P f s) = t_commands s"
  "t_nodes (update_workloads P f s) = t_nodes s"
  "t_reservations (update_workloads P f s) = t_reservations s"
  "t_volumes (update_workloads P f s) = t_volumes s"
  "t_events (update_workloads P f s) = t_events s"
  "t_applications (update_workloads P f s) = t_applications s"
  "clock (update_workloads P f s) = clock s"
  "uuid_next (update_workloads P f s) = uuid_next s"
  "t_workloads (update_workloads P f s)
     = upd_where P (\<lambda>w. (f w)\<lparr>w_updatedAt := clock s\<rparr>) (t_workloads s)"
  by (simp_all add: update_workloads_def)

lemma update_volumes_frames [simp]:
  "t_deployments (update_volumes P f s) = t_deployments s"
  "t_workloads (update_volumes P f s) = t_workloads s"
  "t_commands (update_volumes P f s) = t_commands s"
  "t_nodes (update_volumes P f s) = t_nodes s"
  "t_reservations (update_volumes P f s) = t_reservations s"
  "t_events (update_volumes P f s) = t_events s"
  "clock (update_volumes P f s) = clock s"
  "uuid_next (update_volumes P f s) = uuid_next s"
  "t_volumes (update_volumes P f s) = upd_where P (\<lambda>v. (f v)\<lparr>v_updatedAt := clock s\<rparr>) (t_volumes s)"
  by (simp_all add: update_volumes_def)

lemma update_applications_frames [simp]:
  "t_deployments (update_applications P f s) = t_deployments s"
  "t_workloads (update_applications P f s) = t_workloads s"
  "t_commands (update_applications P f s) = t_commands s"
  "t_nodes (update_applications P f s) = t_nodes s"
  "t_reservations (update_applications P f s) = t_reservations s"
  "t_volumes (update_applications P f s) = t_volumes s"
  "t_events (update_applications P f s) = t_events s"
  "t_builds (update_applications P f s) = t_builds s"
  "clock (update_applications P f s) = clock s"
  "uuid_next (update_applications P f s) = uuid_next s"
  by (simp_all add: update_applications_def)

lemma log_event_frames [simp]:
  "t_deployments (log_event h did ty msg f s) = t_deployments s"
  "t_workloads (log_event h did ty msg f s) = t_workloads s"
  "t_commands (log_event h did ty msg f s) = t_commands s"
  "t_nodes (log_event h did ty msg f s) = t_nodes s"
  "t_reservations (log_event h did ty msg f s) = t_reservations s"
  "t_volumes (log_event h did ty msg f s) = t_volumes s"
  "t_applications (log_event h did ty msg f s) = t_applications s"
  "t_builds (log_event h did ty msg f s) = t_builds s"
  "t_volumeMounts (log_event h did ty msg f s) = t_volumeMounts s"
  "clock (log_event h did ty msg f s) = clock s"
  "uuid_next (log_event h did ty msg f s) = Suc (uuid_next s)"
  "t_events (log_event h did ty msg f s) = t_events s @ [f (new_event s (h_randomUUID h (uuid_next s)) did ty msg)]"
  by (simp_all add: log_event_def randomUUID_def new_event_def)

lemma enqueue_command_frames [simp]:
  "t_deployments (enqueue_command h n ty rid p ttl s) = t_deployments s"
  "t_workloads (enqueue_command h n ty rid p ttl s) = t_workloads s"
  "t_nodes (enqueue_command h n ty rid p ttl s) = t_nodes s"
  "t_reservations (enqueue_command h n ty rid p ttl s) = t_reservations s"
  "t_volumes (enqueue_command h n ty rid p ttl s) = t_volumes s"
  "t_applications (enqueue_command h n ty rid p ttl s) = t_applications s"
  "t_events (enqueue_command h n ty rid p ttl s) = t_events s"
  "clock (enqueue_command h n ty rid p ttl s) = clock s"
  "uuid_next (enqueue_command h n ty rid p ttl s) = Suc (uuid_next s)"
  "t_commands (enqueue_command h n ty rid p ttl s)
     = t_commands s @ [new_command s (h_randomUUID h (uuid_next s)) n ty rid p ttl]"
  by (simp_all add: enqueue_command_def randomUUID_def new_command_def)

text \<open>Every table with an update statement is keyed: the updates the controllers make keep the id.\<close>

interpretation deployment_rows: keyed_rows d_id "\<lambda>d. d\<lparr>d_status := st, d_failureReason := fr\<rparr>"
  by unfold_locales simp

interpretation workload_rows: keyed_rows w_id "\<lambda>w. w\<lparr>w_desiredState := ds, w_updatedAt := now\<rparr>"
  by unfold_locales simp

interpretation command_rows: keyed_rows c_id "\<lambda>c. c\<lparr>c_status := st, c_completedAt := fin, c_result := r\<rparr>"
  by unfold_locales simp

interpretation volume_rows: keyed_rows v_id "\<lambda>v. v\<lparr>v_status := st, v_updatedAt := now\<rparr>"
  by unfold_locales simp

subsection \<open>Deletes\<close>

text \<open>Deleting an application deletes what the foreign keys of the schema cascade to; a game server loses its application.
  Whether a workload is replaced by another is not touched: both belong to one deployment.\<close>

definition drop_deployments :: "string \<Rightarrow> cp \<Rightarrow> cp" where
  "drop_deployments aid s =
     (let ds = map d_id (filter (\<lambda>d. d_applicationId d = aid) (t_deployments s));
          ws = map w_id (filter (\<lambda>w. w_deploymentId w \<in> set ds) (t_workloads s)) in
      s\<lparr>t_deployments := del_where (\<lambda>d. d_applicationId d = aid) (t_deployments s),
        t_workloads := del_where (\<lambda>w. w_deploymentId w \<in> set ds) (t_workloads s),
        t_events := del_where (\<lambda>e. e_deploymentId e \<in> set ds) (t_events s),
        t_volumeMounts := del_where (\<lambda>m. dm_deploymentId m \<in> set ds) (t_volumeMounts s),
        t_workloadPorts := del_where (\<lambda>p. wp_workloadId p \<in> set ws) (t_workloadPorts s),
        t_reservations := del_where (\<lambda>r. r_workloadId r \<in> set ws) (t_reservations s),
        t_metrics := del_where (\<lambda>m. m_workloadId m \<in> set ws) (t_metrics s)\<rparr>)"

definition drop_configuration :: "string \<Rightarrow> cp \<Rightarrow> cp" where
  "drop_configuration aid s =
     s\<lparr>t_runtimeConfigurations := del_where (\<lambda>r. rtc_applicationId r = aid) (t_runtimeConfigurations s),
       t_resourceConfigurations := del_where (\<lambda>r. rsc_applicationId r = aid) (t_resourceConfigurations s),
       t_buildConfigurations := del_where (\<lambda>r. bc_applicationId r = aid) (t_buildConfigurations s),
       t_applicationPorts := del_where (\<lambda>p. ap_applicationId p = aid) (t_applicationPorts s),
       t_applicationVariables := del_where (\<lambda>v. av_applicationId v = aid) (t_applicationVariables s),
       t_secretAttachments := del_where (\<lambda>a. sa_applicationId a = aid) (t_secretAttachments s),
       t_applicationVolumeMounts := del_where (\<lambda>m. avm_applicationId m = aid) (t_applicationVolumeMounts s)\<rparr>"

definition drop_application :: "string \<Rightarrow> cp \<Rightarrow> cp" where
  "drop_application aid s =
     (let s1 = drop_configuration aid (drop_deployments aid s) in
      s1\<lparr>t_applications := del_where (\<lambda>a. a_id a = aid) (t_applications s1),
         t_builds := del_where (\<lambda>b. b_applicationId b = aid) (t_builds s1),
         t_appDeployments := del_where (\<lambda>d. ad_applicationId d = aid) (t_appDeployments s1),
         t_gameServers := upd_where (\<lambda>g. gs_applicationId g = Some aid) (\<lambda>g. g\<lparr>gs_applicationId := None\<rparr>) (t_gameServers s1)\<rparr>)"

lemma drop_application_rows [simp]:
  "t_applications (drop_application aid s) = del_where (\<lambda>a. a_id a = aid) (t_applications s)"
  "t_deployments (drop_application aid s) = del_where (\<lambda>d. d_applicationId d = aid) (t_deployments s)"
  "t_gameServers (drop_application aid s)
     = upd_where (\<lambda>g. gs_applicationId g = Some aid) (\<lambda>g. g\<lparr>gs_applicationId := None\<rparr>) (t_gameServers s)"
  "t_volumes (drop_application aid s) = t_volumes s" "t_gameServerAccess (drop_application aid s) = t_gameServerAccess s"
  by (simp_all add: drop_application_def drop_configuration_def drop_deployments_def Let_def)

end
