(* ===== verification/Scheduler.thy ===== *)
theory Scheduler
  imports Contracts
begin

text \<open>
  \<open>packages/core/src/control-plane/scheduler.ts\<close>: the stateless scheduler. Every node is turned
  into the list of reasons that make it ineligible; nodes without a reason are scored, sorted by
  descending score and then by id, and the first one is selected. Scores are exact rationals
  where JavaScript computes with doubles. The host's \<open>localeCompare\<close> is the argument \<open>lc\<close>.
\<close>

definition free_amount :: "resource_quantity \<Rightarrow> rat" where
  "free_amount q = allocatable q - reserved q"

definition rejection_reasons :: "workload_requirements \<Rightarrow> node_snapshot \<Rightarrow> string list" where
  "rejection_reasons req node =
     (if ns_status node \<noteq> Ready then [''node-status:'' @ node_status_str (ns_status node)] else [])
   @ (if \<not> ns_schedulingEnabled node then [''scheduling-disabled''] else [])
   @ (if wr_runtime req \<notin> set (ns_runtimes node)
      then [''runtime-unavailable:'' @ runtime_kind_str (wr_runtime req)] else [])
   @ (case wr_architecture req of
        Some a \<Rightarrow> if a \<noteq> [] \<and> ns_architecture node \<noteq> a then [''architecture-mismatch''] else []
      | None \<Rightarrow> [])
   @ (case wr_region req of
        Some r \<Rightarrow> if r \<noteq> [] \<and> ns_region node \<noteq> Some r then [''region-mismatch''] else []
      | None \<Rightarrow> [])
   @ (case wr_requiredNodeId req of
        Some i \<Rightarrow> if i \<noteq> [] \<and> ns_id node \<noteq> i then [''node-affinity-mismatch''] else []
      | None \<Rightarrow> [])
   @ concat (map (\<lambda>(hp, pr). if (hp, pr) \<in> set (ns_reservedHostPorts node)
        then [''host-port-unavailable:'' @ str_int hp @ ''/'' @ protocol_str pr] else [])
        (case wr_requestedHostPorts req of Some ps \<Rightarrow> ps | None \<Rightarrow> []))
   @ concat (map (\<lambda>(k, v). if map_of (ns_labels node) k \<noteq> Some v then [''label-mismatch:'' @ k] else [])
        (case wr_requiredLabels req of Some ls \<Rightarrow> ls | None \<Rightarrow> []))
   @ (if free_amount (cpuMilli (ns_resources node)) < of_int (wr_cpuMilli req) then [''insufficient-cpu''] else [])
   @ (if free_amount (memoryMib (ns_resources node)) < of_int (wr_memoryMib req) then [''insufficient-memory''] else [])
   @ (if free_amount (storageMib (ns_resources node)) < of_int (wr_storageMib req) then [''insufficient-storage''] else [])"

definition resource_share :: "resource_quantity \<Rightarrow> rat" where
  "resource_share q = (if allocatable q = 0 then 0 else (allocatable q - reserved q) / allocatable q)"

definition scoreNode :: "node_snapshot \<Rightarrow> rat" where
  "scoreNode node =
     (let available = map resource_share
            [cpuMilli (ns_resources node), memoryMib (ns_resources node), storageMib (ns_resources node)]
      in sum_list available / of_nat (length available))"

definition eligible_nodes :: "workload_requirements \<Rightarrow> node_snapshot list \<Rightarrow> (node_snapshot \<times> rat) list" where
  "eligible_nodes req nodes =
     concat (map (\<lambda>node. if rejection_reasons req node = [] then [(node, scoreNode node)] else []) nodes)"

definition candidate_cmp :: "(string \<Rightarrow> string \<Rightarrow> rat) \<Rightarrow> node_snapshot \<times> rat \<Rightarrow> node_snapshot \<times> rat \<Rightarrow> rat" where
  "candidate_cmp lc left right =
     (if snd right - snd left \<noteq> 0 then snd right - snd left
      else lc (ns_id (fst left)) (ns_id (fst right)))"

definition scheduleWorkload ::
  "(string \<Rightarrow> string \<Rightarrow> rat) \<Rightarrow> node_snapshot list \<Rightarrow> workload_requirements \<Rightarrow> scheduling_decision" where
  "scheduleWorkload lc nodes req =
     (let candidates = eligible_nodes req nodes in
      if candidates = [] then \<lparr>sd_nodeId = None, sd_reasons = [''no-eligible-node'']\<rparr>
      else (case js_sort (candidate_cmp lc) candidates of
              [] \<Rightarrow> \<lparr>sd_nodeId = None, sd_reasons = [''no-eligible-node'']\<rparr>
            | (node, score) # _ \<Rightarrow>
                \<lparr>sd_nodeId = Some (ns_id node), sd_reasons = [''eligible'', ''balanced-load'']\<rparr>))"

subsection \<open>What a node without rejection reasons satisfies\<close>

definition node_fits :: "workload_requirements \<Rightarrow> node_snapshot \<Rightarrow> bool" where
  "node_fits req node \<longleftrightarrow>
     ns_status node = Ready \<and> ns_schedulingEnabled node
   \<and> wr_runtime req \<in> set (ns_runtimes node)
   \<and> (\<forall>a. wr_architecture req = Some a \<longrightarrow> a = [] \<or> ns_architecture node = a)
   \<and> (\<forall>r. wr_region req = Some r \<longrightarrow> r = [] \<or> ns_region node = Some r)
   \<and> (\<forall>i. wr_requiredNodeId req = Some i \<longrightarrow> i = [] \<or> ns_id node = i)
   \<and> (\<forall>ps. wr_requestedHostPorts req = Some ps \<longrightarrow> set ps \<inter> set (ns_reservedHostPorts node) = {})
   \<and> (\<forall>ls. wr_requiredLabels req = Some ls \<longrightarrow> (\<forall>(k, v) \<in> set ls. map_of (ns_labels node) k = Some v))
   \<and> of_int (wr_cpuMilli req) \<le> free_amount (cpuMilli (ns_resources node))
   \<and> of_int (wr_memoryMib req) \<le> free_amount (memoryMib (ns_resources node))
   \<and> of_int (wr_storageMib req) \<le> free_amount (storageMib (ns_resources node))"

lemma concat_map_if_Nil:
  "concat (map (\<lambda>(a, b). if P a b then [f a b] else []) xs) = [] \<longleftrightarrow> (\<forall>(a, b) \<in> set xs. \<not> P a b)"
  by (induction xs) auto

lemma if_singleton_Nil: "(if P then [x] else []) = [] \<longleftrightarrow> \<not> P"
  by simp

lemma option_reason_Nil:
  "(case v of None \<Rightarrow> [] | Some a \<Rightarrow> if a \<noteq> [] \<and> Q a then [x] else []) = []
     \<longleftrightarrow> (\<forall>a. v = Some a \<longrightarrow> a = [] \<or> \<not> Q a)"
  by (cases v) auto

lemma ports_reason_Nil:
  "(\<forall>(a, b) \<in> set (case v of None \<Rightarrow> [] | Some ps \<Rightarrow> ps). \<not> (a, b) \<in> S)
     \<longleftrightarrow> (\<forall>ps. v = Some ps \<longrightarrow> set ps \<inter> S = {})"
  by (cases v) auto

lemma labels_reason_Nil:
  "(\<forall>(k, l) \<in> set (case v of None \<Rightarrow> [] | Some ls \<Rightarrow> ls). g k = Some l)
     \<longleftrightarrow> (\<forall>ls. v = Some ls \<longrightarrow> (\<forall>(k, l) \<in> set ls. g k = Some l))"
  by (cases v) auto

lemma rejection_reasons_Nil: "rejection_reasons req node = [] \<longleftrightarrow> node_fits req node"
  unfolding rejection_reasons_def node_fits_def append_is_Nil_conv concat_map_if_Nil
    if_singleton_Nil option_reason_Nil ports_reason_Nil not_less not_not labels_reason_Nil ..

lemma set_eligible_nodes:
  "set (eligible_nodes req nodes) = {(n, scoreNode n) | n. n \<in> set nodes \<and> node_fits req n}"
  by (auto simp: eligible_nodes_def rejection_reasons_Nil)

lemma eligible_nodes_Nil: "eligible_nodes req nodes = [] \<longleftrightarrow> (\<forall>n \<in> set nodes. \<not> node_fits req n)"
  using set_eligible_nodes [of req nodes] by (auto simp flip: set_empty2)

lemma scheduleWorkload_cases:
  obtains (none) "eligible_nodes req nodes = []"
      "scheduleWorkload lc nodes req = \<lparr>sd_nodeId = None, sd_reasons = [''no-eligible-node'']\<rparr>"
    | (some) n s rest where "js_sort (candidate_cmp lc) (eligible_nodes req nodes) = (n, s) # rest"
      "scheduleWorkload lc nodes req
         = \<lparr>sd_nodeId = Some (ns_id n), sd_reasons = [''eligible'', ''balanced-load'']\<rparr>"
proof (cases "js_sort (candidate_cmp lc) (eligible_nodes req nodes)")
  case Nil
  then show ?thesis using none by (simp add: scheduleWorkload_def)
next
  case (Cons c cs)
  then have "eligible_nodes req nodes \<noteq> []" by auto
  with Cons show ?thesis using some by (cases c) (simp add: scheduleWorkload_def)
qed

lemma scheduleWorkload_fits:
  assumes "sd_nodeId (scheduleWorkload lc nodes req) = Some i"
  obtains n where "n \<in> set nodes" "ns_id n = i" "node_fits req n"
proof (cases rule: scheduleWorkload_cases [of req nodes lc])
  case none
  with assms show ?thesis by simp
next
  case (some n s rest)
  then have "(n, s) \<in> set (eligible_nodes req nodes)"
    by (metis list.set_intros(1) set_js_sort)
  then show ?thesis using some assms that by (auto simp: set_eligible_nodes)
qed

lemma schedule_none_eq:
  "sd_nodeId (scheduleWorkload lc nodes req) = None \<longleftrightarrow> (\<forall>n \<in> set nodes. \<not> node_fits req n)"
proof (cases rule: scheduleWorkload_cases [of req nodes lc])
  case none
  then show ?thesis by (simp add: eligible_nodes_Nil)
next
  case (some n s rest)
  then have "eligible_nodes req nodes \<noteq> []" by auto
  with some show ?thesis by (simp add: eligible_nodes_Nil)
qed

lemma schedule_None_eq:
  "sd_nodeId (scheduleWorkload lc nodes req) = None \<Longrightarrow>
     scheduleWorkload lc nodes req = \<lparr>sd_nodeId = None, sd_reasons = [''no-eligible-node'']\<rparr>"
  by (cases rule: scheduleWorkload_cases [of req nodes lc]) auto

lemma schedule_Some_eq:
  "sd_nodeId (scheduleWorkload lc nodes req) = Some i \<Longrightarrow>
     scheduleWorkload lc nodes req = \<lparr>sd_nodeId = Some i, sd_reasons = [''eligible'', ''balanced-load'']\<rparr>"
  by (cases rule: scheduleWorkload_cases [of req nodes lc]) auto

subsection \<open>The candidate order\<close>

context collation
begin

lemma candidate_comparator: "comparator (candidate_cmp lc)"
proof
  fix a b c :: "node_snapshot \<times> rat"
  show "candidate_cmp lc a b \<le> 0 \<longleftrightarrow> 0 \<le> candidate_cmp lc b a"
    using cmp_flip [of "ns_id (fst a)" "ns_id (fst b)"] by (auto simp: candidate_cmp_def)
  assume "candidate_cmp lc a b \<le> 0" "candidate_cmp lc b c \<le> 0"
  then show "candidate_cmp lc a c \<le> 0"
    using cmp_trans [of "ns_id (fst a)" "ns_id (fst b)" "ns_id (fst c)"]
    by (auto simp: candidate_cmp_def split: if_splits)
qed

lemma schedule_best:
  assumes "sd_nodeId (scheduleWorkload lc nodes req) = Some i"
  shows "\<exists>n \<in> set nodes. ns_id n = i \<and> node_fits req n
    \<and> (\<forall>m \<in> set nodes. node_fits req m \<longrightarrow>
          scoreNode m < scoreNode n \<or> scoreNode m = scoreNode n \<and> lc i (ns_id m) \<le> 0)"
proof (cases rule: scheduleWorkload_cases [of req nodes lc])
  case none
  with assms show ?thesis by simp
next
  case (some n s rest)
  have hd: "(n, s) \<in> set (eligible_nodes req nodes)
      \<and> (\<forall>x \<in> set (eligible_nodes req nodes). candidate_cmp lc (n, s) x \<le> 0)"
    by (rule comparator.js_sort_hd_least [OF candidate_comparator some(1)])
  have i: "i = ns_id n" using some assms by simp
  from hd have n: "n \<in> set nodes" "node_fits req n" "s = scoreNode n"
    by (auto simp: set_eligible_nodes)
  have "scoreNode m < scoreNode n \<or> scoreNode m = scoreNode n \<and> lc i (ns_id m) \<le> 0"
    if "m \<in> set nodes" "node_fits req m" for m
  proof -
    from that have "(m, scoreNode m) \<in> set (eligible_nodes req nodes)"
      by (auto simp: set_eligible_nodes)
    with hd have "candidate_cmp lc (n, s) (m, scoreNode m) \<le> 0" by blast
    then show ?thesis by (auto simp: candidate_cmp_def n i split: if_splits)
  qed
  with n i show ?thesis by blast
qed

end

subsection \<open>Properties\<close>

definition tiny_quantity :: "rat \<Rightarrow> resource_quantity" where
  "tiny_quantity a = \<lparr>capacity = a, allocatable = a, reserved = 0, usage = 0\<rparr>"

definition sample_node :: "string \<Rightarrow> rat \<Rightarrow> node_snapshot" where
  "sample_node i a = \<lparr>ns_id = i, ns_status = Ready, ns_schedulingEnabled = True,
     ns_architecture = ''amd64'', ns_region = Some ''de-fra'', ns_labels = [(''storage'', ''nvme'')],
     ns_runtimes = [Container],
     ns_resources = \<lparr>cpuMilli = (tiny_quantity a)\<lparr>reserved := 100\<rparr>, memoryMib = tiny_quantity 512,
       storageMib = tiny_quantity 1024\<rparr>,
     ns_reservedHostPorts = []\<rparr>"

definition sample_requirements :: workload_requirements where
  "sample_requirements = \<lparr>wr_cpuMilli = 250, wr_memoryMib = 256, wr_storageMib = 0,
     wr_runtime = Container, wr_architecture = None, wr_region = Some ''de-fra'',
     wr_requiredLabels = Some [(''storage'', ''nvme'')], wr_requiredNodeId = None,
     wr_requestedHostPorts = None\<rparr>"

lemmas sample_simps = sample_node_def sample_requirements_def tiny_quantity_def node_fits_def
  free_amount_def scoreNode_def resource_share_def Let_def

lemma sample_fits: "a \<ge> 350 \<Longrightarrow> node_fits sample_requirements (sample_node i a)"
  by (simp add: sample_simps)

lemma sample_eligible:
  "eligible_nodes sample_requirements [sample_node ''a'' 400, sample_node ''b'' 4000]
     = [(sample_node ''a'' 400, 11/12), (sample_node ''b'' 4000, 119/120)]"
  using sample_fits [of 400 "''a''"] sample_fits [of 4000 "''b''"]
  by (simp add: eligible_nodes_def rejection_reasons_Nil) (simp add: sample_simps)

lemma sample_schedule:
  "sd_nodeId (scheduleWorkload code_unit_compare
     [sample_node ''a'' 400, sample_node ''b'' 4000] sample_requirements) = Some ''b''"
  by (simp add: scheduleWorkload_def sample_eligible js_sort_def candidate_cmp_def)
    (simp add: sample_node_def)

text \<open>C3. A placement is always explainable: the selected id belongs to a node of the list that meets
  every hard constraint (status, scheduling switch, runtime, architecture, region, affinity, free host
  ports, labels, free CPU, memory and storage), and among the nodes that meet them it has the
  highest score, ties going to the smallest id.\<close>

theorem schedule_selects_best:
  assumes "collation lc"
    and "sd_nodeId (scheduleWorkload lc nodes req) = Some i"
  shows "\<exists>n \<in> set nodes. ns_id n = i \<and> node_fits req n
    \<and> (\<forall>m \<in> set nodes. node_fits req m \<longrightarrow>
          scoreNode m < scoreNode n \<or> scoreNode m = scoreNode n \<and> lc i (ns_id m) \<le> 0)"
  using collation.schedule_best [OF assms] .

lemma schedule_selects_best_witness:
  "\<exists>n \<in> {sample_node ''a'' 400, sample_node ''b'' 4000}. ns_id n = ''b''
     \<and> node_fits sample_requirements n"
  using schedule_selects_best [OF code_unit.collation_axioms sample_schedule] by auto

text \<open>The scheduler gives up only when it must: it answers without a node, with the single reason
  \<open>no-eligible-node\<close>, exactly when no node of the list meets the hard constraints.\<close>

theorem schedule_none_iff:
  "scheduleWorkload lc nodes req = \<lparr>sd_nodeId = None, sd_reasons = [''no-eligible-node'']\<rparr>
     \<longleftrightarrow> filter (node_fits req) nodes = []"
  using schedule_none_eq [of lc nodes req] schedule_None_eq [of lc nodes req]
  by (auto simp: filter_empty_conv)

text \<open>The decision does not depend on the order in which the database returns the nodes: two
  lists with the same nodes get the same decision.\<close>

theorem schedule_order_independent:
  assumes lc: "collation lc" and same: "set nodes = set nodes'"
  shows "scheduleWorkload lc nodes req = scheduleWorkload lc nodes' req"
proof (cases "sd_nodeId (scheduleWorkload lc nodes req)")
  case None
  with same have "sd_nodeId (scheduleWorkload lc nodes' req) = None"
    by (simp add: schedule_none_eq)
  with None show ?thesis by (metis schedule_None_eq)
next
  case (Some i)
  with same obtain j where j: "sd_nodeId (scheduleWorkload lc nodes' req) = Some j"
    by (metis not_None_eq schedule_none_eq)
  from collation.schedule_best [OF lc Some] obtain n where
    n: "n \<in> set nodes'" "ns_id n = i" "node_fits req n"
    and nbest: "\<forall>m \<in> set nodes'. node_fits req m \<longrightarrow>
      scoreNode m < scoreNode n \<or> scoreNode m = scoreNode n \<and> lc i (ns_id m) \<le> 0"
    unfolding same by blast
  from collation.schedule_best [OF lc j] obtain m where
    m: "m \<in> set nodes'" "ns_id m = j" "node_fits req m"
    and mbest: "\<forall>n \<in> set nodes'. node_fits req n \<longrightarrow>
      scoreNode n < scoreNode m \<or> scoreNode n = scoreNode m \<and> lc j (ns_id n) \<le> 0"
    by blast
  from nbest m mbest n have "lc i j \<le> 0" "lc j i \<le> 0"
    by force+
  then have "i = j" by (rule collation.lc_antisym [OF lc])
  with Some j show ?thesis by (metis schedule_Some_eq)
qed

lemma schedule_order_independent_witness:
  "scheduleWorkload code_unit_compare [sample_node ''b'' 4000, sample_node ''a'' 400] sample_requirements
     = scheduleWorkload code_unit_compare [sample_node ''a'' 400, sample_node ''b'' 4000] sample_requirements"
proof (rule schedule_order_independent [OF code_unit.collation_axioms])
  show "set [sample_node ''b'' 4000, sample_node ''a'' 400] = set [sample_node ''a'' 400, sample_node ''b'' 4000]"
    by auto
qed

end
