(* ===== verification/DeploymentService.thy ===== *)
theory DeploymentService
  imports Tables Scheduler
begin

text \<open>
  \<open>apps/api/src/modules/deployments/service.ts\<close>: immutable deployment revisions and the derived
  status caches. \<open>createDeployment\<close> reads the latest version and inserts the next one in a READ
  COMMITTED transaction; what other transactions commit between the read and the insert is the
  argument \<open>rival\<close>, indexed by the attempts that are left. The unique indexes of \<open>Store\<close> decide the
  race, and the loop of four attempts is recursion on that number. The status functions are
  modelled as one atomic step each.
\<close>

record deployment_input =
  in_applicationId :: string
  in_environmentId :: "string option"
  in_image :: string
  in_replicas :: int
  in_desiredState :: desired_state
  in_runtime :: runtime_kind
  in_requirements :: json
  in_runtimeConfig :: json
  in_configurationSnapshot :: json
  in_buildId :: "string option"
  in_commitSha :: "string option"
  in_createdBy :: "string option"
  in_rollbackFromDeploymentId :: "string option"

definition existing_for_build :: "deployment_input \<Rightarrow> cp \<Rightarrow> deployment option" where
  "existing_for_build inp s =
     (if truthy (in_buildId inp) then List.find (\<lambda>d. d_buildId d = in_buildId inp) (t_deployments s) else None)"

definition versions_of :: "string \<Rightarrow> deployment list \<Rightarrow> int list" where
  "versions_of app ds = map d_version (filter (\<lambda>d. d_applicationId d = app) ds)"

definition latest_version :: "string \<Rightarrow> deployment list \<Rightarrow> int" where
  "latest_version app ds = (case versions_of app ds of [] \<Rightarrow> 0 | v # vs \<Rightarrow> foldl max v vs)"

definition new_deployment :: "cp \<Rightarrow> string \<Rightarrow> int \<Rightarrow> deployment_input \<Rightarrow> deployment" where
  "new_deployment s i version inp =
     \<lparr>d_id = i, d_applicationId = in_applicationId inp, d_environmentId = in_environmentId inp,
      d_version = version, d_image = in_image inp, d_replicas = in_replicas inp,
      d_desiredState = in_desiredState inp, d_runtime = in_runtime inp,
      d_requirements = in_requirements inp, d_runtimeConfig = in_runtimeConfig inp,
      d_configurationSnapshot = Some (in_configurationSnapshot inp),
      d_status = (if in_desiredState inp = WantRunning then DepQueued else DepStopped),
      d_failureReason = None, d_recoveryAttempts = 0, d_recoveryNextAttemptAt = None,
      d_recoveryState = RecIdle, d_reconcileLeaseId = None, d_reconcileLeaseUntil = None,
      d_rollbackFromDeploymentId = in_rollbackFromDeploymentId inp, d_buildId = in_buildId inp,
      d_commitSha = in_commitSha inp, d_createdBy = in_createdBy inp, d_createdAt = clock s,
      d_startedAt = None, d_completedAt = None, d_failedAt = None\<rparr>"

definition new_volume_mount :: "cp \<Rightarrow> string \<Rightarrow> string \<Rightarrow> managed_mount \<Rightarrow> deployment_volume_mount" where
  "new_volume_mount s i did m =
     \<lparr>dm_id = i, dm_deploymentId = did, dm_volumeId = mm_volumeId m, dm_mountPath = mm_mountPath m,
      dm_readOnly = mm_readOnly m, dm_createdAt = clock s\<rparr>"

fun insert_mounts :: "host \<Rightarrow> string \<Rightarrow> managed_mount list \<Rightarrow> cp \<Rightarrow> (exn + unit) \<times> cp" where
  "insert_mounts h did [] s = (Inr (), s)"
| "insert_mounts h did (m # ms) s =
     (let (i, s1) = randomUUID h s in
      if list_ex (\<lambda>r. dm_deploymentId r = did \<and> dm_mountPath r = mm_mountPath m) (t_volumeMounts s1)
      then (Inl Unique_violation, s1)
      else insert_mounts h did ms (s1\<lparr>t_volumeMounts := t_volumeMounts s1 @ [new_volume_mount s1 i did m]\<rparr>))"

definition created_event :: "host \<Rightarrow> deployment_input \<Rightarrow> deployment \<Rightarrow> cp \<Rightarrow> cp" where
  "created_event h inp d =
     (if truthy (in_rollbackFromDeploymentId inp)
      then log_event h (d_id d) ''deployment.rollback_created''
             (''Rollback revision v'' @ str_int (d_version d) @ '' created'') id
      else log_event h (d_id d) ''deployment.created''
             (''Deployment revision v'' @ str_int (d_version d) @ '' created'') id)"

text \<open>One transaction: the reads see \<open>s\<close>, the writes meet what \<open>rival\<close> has committed since.\<close>

definition create_attempt ::
  "host \<Rightarrow> (cp \<Rightarrow> cp) \<Rightarrow> deployment_input \<Rightarrow> cp \<Rightarrow> (exn + deployment) \<times> cp" where
  "create_attempt h rival inp s =
     (case existing_for_build inp s of
        Some d \<Rightarrow> (Inr d, s)
      | None \<Rightarrow>
          (let version = latest_version (in_applicationId inp) (t_deployments s) + 1;
               s0 = rival s;
               (i, s1) = randomUUID h s0;
               d = new_deployment s1 i version inp
           in case insert_deployment d s1 of
                None \<Rightarrow> (Inl Unique_violation, rolled_back s0 s1)
              | Some s2 \<Rightarrow>
                  (case insert_mounts h i (managedVolumeMounts (in_runtimeConfig inp)) s2 of
                     (Inl e, s3) \<Rightarrow> (Inl e, rolled_back s0 s3)
                   | (Inr _, s3) \<Rightarrow> (Inr d, created_event h inp d s3))))"

fun create_attempts ::
  "nat \<Rightarrow> host \<Rightarrow> (nat \<Rightarrow> cp \<Rightarrow> cp) \<Rightarrow> deployment_input \<Rightarrow> cp \<Rightarrow> (exn + deployment) \<times> cp" where
  "create_attempts 0 h rival inp s = (Inl (Js_error ''Deployment revision could not be reserved''), s)"
| "create_attempts (Suc left) h rival inp s =
     (case create_attempt h (rival left) inp s of
        (Inr d, s') \<Rightarrow> (Inr d, s')
      | (Inl e, s') \<Rightarrow>
          if e \<noteq> Unique_violation \<or> left = 0 then (Inl e, s')
          else create_attempts left h rival inp s')"

definition createDeployment ::
  "host \<Rightarrow> (nat \<Rightarrow> cp \<Rightarrow> cp) \<Rightarrow> deployment_input \<Rightarrow> cp \<Rightarrow> (exn + deployment) \<times> cp" where
  "createDeployment h rival inp s =
     (case existing_for_build inp s of
        Some d \<Rightarrow> (Inr d, s)
      | None \<Rightarrow> create_attempts 4 h rival inp s)"

fun is_object :: "json \<Rightarrow> bool" where
  "is_object (JObj kvs) = True"
| "is_object (JArr xs) = True"
| "is_object _ = False"

definition createRollbackDeployment ::
  "host \<Rightarrow> (nat \<Rightarrow> cp \<Rightarrow> cp) \<Rightarrow> string \<Rightarrow> string \<Rightarrow> cp \<Rightarrow> (exn + deployment) \<times> cp" where
  "createRollbackDeployment h rival sourceDeploymentId actorId s =
     (case find_deployment sourceDeploymentId s of
        None \<Rightarrow> (Inl (Js_error ''Rollback source deployment not found''), s)
      | Some source \<Rightarrow>
          (case d_configurationSnapshot source of
             Some snapshot \<Rightarrow>
               if is_object snapshot then
                 createDeployment h rival
                   \<lparr>in_applicationId = d_applicationId source, in_environmentId = d_environmentId source,
                    in_image = d_image source, in_replicas = d_replicas source,
                    in_desiredState = WantRunning, in_runtime = d_runtime source,
                    in_requirements = d_requirements source, in_runtimeConfig = d_runtimeConfig source,
                    in_configurationSnapshot = snapshot, in_buildId = d_buildId source,
                    in_commitSha = d_commitSha source, in_createdBy = Some actorId,
                    in_rollbackFromDeploymentId = Some (d_id source)\<rparr> s
               else (Inl (Js_error ''Rollback source has no immutable configuration snapshot''), s)
           | None \<Rightarrow> (Inl (Js_error ''Rollback source has no immutable configuration snapshot''), s)))"

definition createRedeployment ::
  "host \<Rightarrow> (nat \<Rightarrow> cp \<Rightarrow> cp) \<Rightarrow> string \<Rightarrow> string \<Rightarrow> cp \<Rightarrow> (exn + deployment) \<times> cp" where
  "createRedeployment h rival sourceDeploymentId actorId s =
     (case find_deployment sourceDeploymentId s of
        None \<Rightarrow> (Inl (Js_error ''Deployment source not found''), s)
      | Some source \<Rightarrow>
          (case d_configurationSnapshot source of
             Some snapshot \<Rightarrow>
               if is_object snapshot then
                 createDeployment h rival
                   \<lparr>in_applicationId = d_applicationId source, in_environmentId = d_environmentId source,
                    in_image = d_image source, in_replicas = d_replicas source,
                    in_desiredState = WantRunning, in_runtime = d_runtime source,
                    in_requirements = d_requirements source, in_runtimeConfig = d_runtimeConfig source,
                    in_configurationSnapshot = snapshot, in_buildId = None,
                    in_commitSha = d_commitSha source, in_createdBy = Some actorId,
                    in_rollbackFromDeploymentId = None\<rparr> s
               else (Inl (Js_error ''Deployment source has no immutable configuration snapshot''), s)
           | None \<Rightarrow> (Inl (Js_error ''Deployment source has no immutable configuration snapshot''), s)))"

subsection \<open>Derived status caches\<close>

text \<open>\<open>orderBy desc(createdAt)\<close>, first row; rows with equal timestamps keep their insertion order.\<close>

fun newest :: "('r \<Rightarrow> int) \<Rightarrow> 'r list \<Rightarrow> 'r option" where
  "newest t [] = None"
| "newest t (r # rs) =
     (case newest t rs of None \<Rightarrow> Some r | Some q \<Rightarrow> if t q \<le> t r then Some r else Some q)"

definition application_status_of :: "deployment option \<Rightarrow> application_status" where
  "application_status_of current =
     (case current of
        None \<Rightarrow> AppStopped
      | Some d \<Rightarrow>
          if d_desiredState d \<noteq> WantRunning then AppStopped
          else if d_status d = DepRunning then AppHealthy
          else if d_status d = DepDegraded then AppDegraded
          else if d_status d = DepFailed then AppFailed
          else AppDeploying)"

definition refreshApplicationStatus :: "string \<Rightarrow> cp \<Rightarrow> cp" where
  "refreshApplicationStatus app s =
     (let current = newest d_createdAt (filter (\<lambda>d. d_applicationId d = app) (t_deployments s))
      in update_applications (\<lambda>a. a_id a = app) (\<lambda>a. a\<lparr>a_status := application_status_of current\<rparr>) s)"

definition status_change :: "int \<Rightarrow> deployment \<Rightarrow> deployment_status \<times> string option \<Rightarrow> deployment \<Rightarrow> deployment" where
  "status_change now before nxt d =
     (let d1 = d\<lparr>d_status := fst nxt, d_failureReason := snd nxt\<rparr>;
          d2 = (if fst nxt = DepRunning \<and> d_startedAt before = None
                then d1\<lparr>d_startedAt := Some now, d_completedAt := Some now\<rparr> else d1)
      in if fst nxt = DepFailed then d2\<lparr>d_failedAt := Some now\<rparr> else d2)"

definition refreshDeploymentStatus :: "host \<Rightarrow> string \<Rightarrow> cp \<Rightarrow> deployment_status option \<times> cp" where
  "refreshDeploymentStatus h did s =
     (case find_deployment did s of
        None \<Rightarrow> (None, s)
      | Some d \<Rightarrow>
          if d_status d = DepSuperseded \<and> d_desiredState d \<noteq> WantRunning then (Some (d_status d), s)
          else
            (let nxt = deriveDeploymentStatus (d_desiredState d) (d_replicas d) (workloads_of did s) in
             if d_status d = fst nxt \<and> d_failureReason d = snd nxt then (Some (fst nxt), s)
             else
               (let s1 = update_deployments (\<lambda>e. d_id e = did \<and> d_status e = d_status d)
                           (status_change (clock s) d nxt) s;
                    s2 = log_event h did ''deployment.status_changed''
                           (''Deployment is '' @ deployment_status_str (fst nxt))
                           (\<lambda>e. e\<lparr>e_reason := snd nxt\<rparr>) s1
                in (Some (fst nxt), refreshApplicationStatus (d_applicationId d) s2))))"

subsection \<open>Facts\<close>

text \<open>Random ids are never drawn twice: the ids to come differ from each other and from those in use.\<close>

definition ids_in_use :: "cp \<Rightarrow> string set" where
  "ids_in_use s = d_id ` set (t_deployments s) \<union> w_id ` set (t_workloads s) \<union> c_id ` set (t_commands s)
     \<union> dm_deploymentId ` set (t_volumeMounts s) \<union> r_workloadId ` set (t_reservations s)"

definition fresh_ids :: "host \<Rightarrow> cp \<Rightarrow> bool" where
  "fresh_ids h s \<longleftrightarrow> inj (h_randomUUID h) \<and> (\<forall>k \<ge> uuid_next s. h_randomUUID h k \<notin> ids_in_use s)"

lemma fresh_ids_skip: "fresh_ids h s \<Longrightarrow> uuid_next s \<le> k \<Longrightarrow> fresh_ids h (s\<lparr>uuid_next := k\<rparr>)"
  by (auto simp: fresh_ids_def ids_in_use_def)

lemma fresh_ids_rolled_back: "fresh_ids h s \<Longrightarrow> uuid_next s \<le> uuid_next t \<Longrightarrow> fresh_ids h (rolled_back s t)"
  by (auto simp: fresh_ids_def ids_in_use_def rolled_back_def)

lemma foldl_max_ge: "(x::int) \<le> foldl max x vs \<and> (\<forall>v \<in> set vs. v \<le> foldl max x vs)"
proof (induction vs arbitrary: x)
  case Nil
  then show ?case by simp
next
  case (Cons v vs)
  from Cons.IH [of "max x v"] show ?case by auto
qed

lemma latest_version_ge: "v \<in> set (versions_of app ds) \<Longrightarrow> v \<le> latest_version app ds"
  using foldl_max_ge by (auto simp: latest_version_def split: list.splits)

lemma version_of_mem: "e \<in> set ds \<Longrightarrow> d_applicationId e = app \<Longrightarrow> d_version e \<le> latest_version app ds"
  by (rule latest_version_ge) (auto simp: versions_of_def)

lemma new_deployment_sel [simp]:
  "d_id (new_deployment s i v inp) = i"
  "d_applicationId (new_deployment s i v inp) = in_applicationId inp"
  "d_version (new_deployment s i v inp) = v"
  "d_buildId (new_deployment s i v inp) = in_buildId inp"
  "d_desiredState (new_deployment s i v inp) = in_desiredState inp"
  "d_status (new_deployment s i v inp) = (if in_desiredState inp = WantRunning then DepQueued else DepStopped)"
  by (simp_all add: new_deployment_def)

lemma insert_mounts_ok:
  assumes "distinct (map mm_mountPath ms)"
    and "\<And>r. r \<in> set (t_volumeMounts s) \<Longrightarrow> dm_deploymentId r \<noteq> did \<or> dm_mountPath r \<notin> mm_mountPath ` set ms"
  shows "\<exists>s'. insert_mounts h did ms s = (Inr (), s')
    \<and> t_deployments s' = t_deployments s \<and> uuid_next s \<le> uuid_next s'
    \<and> map (\<lambda>r. (dm_deploymentId r, dm_volumeId r, dm_mountPath r)) (t_volumeMounts s')
        = map (\<lambda>r. (dm_deploymentId r, dm_volumeId r, dm_mountPath r)) (t_volumeMounts s)
          @ map (\<lambda>m. (did, mm_volumeId m, mm_mountPath m)) ms"
  using assms
proof (induction ms arbitrary: s)
  case Nil
  then show ?case by simp
next
  case (Cons m ms)
  obtain i s1 where u: "randomUUID h s = (i, s1)" by (cases "randomUUID h s")
  have s1: "t_volumeMounts s1 = t_volumeMounts s" "t_deployments s1 = t_deployments s"
      "uuid_next s1 = Suc (uuid_next s)"
    using u by (auto simp: randomUUID_def)
  let ?s2 = "s1\<lparr>t_volumeMounts := t_volumeMounts s1 @ [new_volume_mount s1 i did m]\<rparr>"
  have "\<not> list_ex (\<lambda>r. dm_deploymentId r = did \<and> dm_mountPath r = mm_mountPath m) (t_volumeMounts s1)"
    using Cons.prems(2) by (auto simp: list_ex_iff s1)
  then have step: "insert_mounts h did (m # ms) s = insert_mounts h did ms ?s2"
    by (simp add: u)
  have pre: "dm_deploymentId r \<noteq> did \<or> dm_mountPath r \<notin> mm_mountPath ` set ms"
    if "r \<in> set (t_volumeMounts ?s2)" for r
  proof (cases "r \<in> set (t_volumeMounts s)")
    case True
    with Cons.prems(2) show ?thesis by fastforce
  next
    case False
    with that have "dm_mountPath r = mm_mountPath m" by (auto simp: s1 new_volume_mount_def)
    with Cons.prems(1) show ?thesis by auto
  qed
  have "distinct (map mm_mountPath ms)" using Cons.prems(1) by simp
  from Cons.IH [of ?s2, OF this pre] obtain s' where s': "insert_mounts h did ms ?s2 = (Inr (), s')"
    "t_deployments s' = t_deployments ?s2" "uuid_next ?s2 \<le> uuid_next s'"
    "map (\<lambda>r. (dm_deploymentId r, dm_volumeId r, dm_mountPath r)) (t_volumeMounts s')
        = map (\<lambda>r. (dm_deploymentId r, dm_volumeId r, dm_mountPath r)) (t_volumeMounts ?s2)
          @ map (\<lambda>m. (did, mm_volumeId m, mm_mountPath m)) ms" by blast
  show ?case
    by (rule exI [of _ s']) (use s' in \<open>simp add: step s1 new_volume_mount_def del: insert_mounts.simps\<close>)
qed

lemma created_event_frames [simp]:
  "t_deployments (created_event h inp d s) = t_deployments s"
  "t_volumeMounts (created_event h inp d s) = t_volumeMounts s"
  by (simp_all add: created_event_def)

text \<open>What one attempt does: a quiet rival makes it succeed, and a unique violation loses nothing but ids.\<close>

lemma create_attempt_quiet:
  assumes fresh: "fresh_ids h (rival s)" and quiet: "t_deployments (rival s) = t_deployments s"
    and none: "existing_for_build inp s = None" and bid: "in_buildId inp \<noteq> Some []"
    and paths: "distinct (map mm_mountPath (managedVolumeMounts (in_runtimeConfig inp)))"
  shows "\<exists>d s'. create_attempt h rival inp s = (Inr d, s')
    \<and> d = new_deployment (rival s) (h_randomUUID h (uuid_next (rival s)))
            (latest_version (in_applicationId inp) (t_deployments s) + 1) inp
    \<and> t_deployments s' = t_deployments s @ [d]
    \<and> map (\<lambda>r. (dm_deploymentId r, dm_volumeId r, dm_mountPath r)) (t_volumeMounts s')
        = map (\<lambda>r. (dm_deploymentId r, dm_volumeId r, dm_mountPath r)) (t_volumeMounts (rival s))
          @ map (\<lambda>m. (d_id d, mm_volumeId m, mm_mountPath m)) (managedVolumeMounts (in_runtimeConfig inp))"
proof -
  let ?i = "h_randomUUID h (uuid_next (rival s))"
  let ?s1 = "(rival s)\<lparr>uuid_next := Suc (uuid_next (rival s))\<rparr>"
  let ?v = "latest_version (in_applicationId inp) (t_deployments s) + 1"
  let ?d = "new_deployment ?s1 ?i ?v inp"
  let ?s2 = "?s1\<lparr>t_deployments := t_deployments ?s1 @ [?d]\<rparr>"
  have u: "randomUUID h (rival s) = (?i, ?s1)" by (simp add: randomUUID_def)
  have build: "in_buildId inp \<noteq> d_buildId e" if "in_buildId inp \<noteq> None" "e \<in> set (t_deployments s)" for e
    using none that bid by (auto simp: existing_for_build_def truthy_def find_None_iff' split: if_splits)
  have "\<not> deployment_conflict ?d e" if "e \<in> set (t_deployments s)" for e
    using version_of_mem [OF that] build that by (auto simp: deployment_conflict_def)
  then have ins: "insert_deployment ?d ?s1 = Some ?s2"
    by (simp add: insert_deployment_def quiet list_ex_iff)
  have "?i \<notin> ids_in_use (rival s)" using fresh by (simp add: fresh_ids_def)
  then have "r \<in> set (t_volumeMounts ?s2) \<Longrightarrow> dm_deploymentId r \<noteq> ?i" for r
    unfolding ids_in_use_def by (simp add: image_iff) metis
  then obtain s3 where m: "insert_mounts h ?i (managedVolumeMounts (in_runtimeConfig inp)) ?s2 = (Inr (), s3)"
    "t_deployments s3 = t_deployments ?s2"
    "map (\<lambda>r. (dm_deploymentId r, dm_volumeId r, dm_mountPath r)) (t_volumeMounts s3)
        = map (\<lambda>r. (dm_deploymentId r, dm_volumeId r, dm_mountPath r)) (t_volumeMounts ?s2)
          @ map (\<lambda>m. (?i, mm_volumeId m, mm_mountPath m)) (managedVolumeMounts (in_runtimeConfig inp))"
    using insert_mounts_ok [OF paths] by meson
  have d: "?d = new_deployment (rival s) ?i ?v inp" by (simp add: new_deployment_def)
  have "create_attempt h rival inp s = (Inr ?d, created_event h inp ?d s3)"
    by (simp add: create_attempt_def none u ins [simplified] m(1) [simplified] Let_def)
  then show ?thesis using m quiet d by auto
qed

lemma insert_mounts_uuid: "uuid_next s \<le> uuid_next (snd (insert_mounts h did ms s))"
proof (induction ms arbitrary: s)
  case Nil
  then show ?case by simp
next
  case (Cons m ms)
  obtain i s1 where u: "randomUUID h s = (i, s1)" by (cases "randomUUID h s")
  then have "uuid_next s \<le> uuid_next s1" by (auto simp: randomUUID_def)
  with u Cons.IH [of "s1\<lparr>t_volumeMounts := t_volumeMounts s1 @ [new_volume_mount s1 i did m]\<rparr>"]
  show ?case by simp
qed

lemma insert_mounts_error: "insert_mounts h did ms s = (Inl e, s') \<Longrightarrow> e = Unique_violation"
  by (induction ms arbitrary: s) (auto simp: Let_def split: prod.splits if_splits)

lemma create_attempt_error:
  assumes "create_attempt h rival inp s = (Inl e, s')" and "fresh_ids h (rival s)"
  shows "e = Unique_violation \<and> fresh_ids h s' \<and> t_deployments s' = t_deployments (rival s)"
proof -
  let ?i = "h_randomUUID h (uuid_next (rival s))"
  let ?s1 = "(rival s)\<lparr>uuid_next := Suc (uuid_next (rival s))\<rparr>"
  let ?d = "new_deployment ?s1 ?i (latest_version (in_applicationId inp) (t_deployments s) + 1) inp"
  let ?ms = "managedVolumeMounts (in_runtimeConfig inp)"
  have u: "randomUUID h (rival s) = (?i, ?s1)" by (simp add: randomUUID_def)
  from assms(1) have none: "existing_for_build inp s = None"
    by (auto simp: create_attempt_def split: option.splits)
  show ?thesis
  proof (cases "insert_deployment ?d ?s1")
    case None
    with assms none u show ?thesis
      by (auto simp: create_attempt_def Let_def rolled_back_def intro: fresh_ids_skip)
  next
    case (Some s2)
    then have n2: "uuid_next s2 = Suc (uuid_next (rival s))"
      by (auto simp: insert_deployment_def split: if_splits)
    obtain x s3 where m: "insert_mounts h ?i ?ms s2 = (x, s3)" by (cases "insert_mounts h ?i ?ms s2")
    then have "uuid_next (rival s) \<le> uuid_next s3"
      using insert_mounts_uuid [of s2 h ?i ?ms] n2 by simp
    with assms none u Some m insert_mounts_error [of h ?i ?ms s2] show ?thesis
      by (cases x) (auto simp: create_attempt_def Let_def rolled_back_def intro: fresh_ids_skip)
  qed
qed

text \<open>Rivals that draw ids from the same supply, and attempts no rival interferes with.\<close>

definition rivals_ok :: "host \<Rightarrow> (nat \<Rightarrow> cp \<Rightarrow> cp) \<Rightarrow> bool" where
  "rivals_ok h rival \<longleftrightarrow> (\<forall>k s. fresh_ids h s \<longrightarrow> fresh_ids h (rival k s))"

definition quiet_attempt :: "(nat \<Rightarrow> cp \<Rightarrow> cp) \<Rightarrow> nat \<Rightarrow> bool" where
  "quiet_attempt rival k \<longleftrightarrow> (\<forall>s. t_deployments (rival k s) = t_deployments s)"

lemma create_attempts_quiet:
  assumes "k < n" "quiet_attempt rival k" "rivals_ok h rival" "fresh_ids h s"
    and "in_buildId inp \<noteq> Some []"
    and "distinct (map mm_mountPath (managedVolumeMounts (in_runtimeConfig inp)))"
  shows "\<exists>d s'. create_attempts n h rival inp s = (Inr d, s')"
  using assms(1,4)
proof (induction n arbitrary: s)
  case 0
  then show ?case by simp
next
  case (Suc n)
  obtain x s' where a: "create_attempt h (rival n) inp s = (x, s')"
    by (cases "create_attempt h (rival n) inp s")
  show ?case
  proof (cases x)
    case (Inr d)
    with a show ?thesis by simp
  next
    case (Inl e)
    have fr: "fresh_ids h (rival n s)" using assms(3) Suc.prems(2) by (simp add: rivals_ok_def)
    have err: "e = Unique_violation" "fresh_ids h s'" 
      using create_attempt_error [where rival = "rival n", OF _ fr] a Inl by blast+
    have "k \<noteq> n"
    proof
      assume "k = n"
      then have q: "t_deployments (rival n s) = t_deployments s"
        using assms(2) by (simp add: quiet_attempt_def)
      have "existing_for_build inp s = None" using a Inl by (auto simp: create_attempt_def split: option.splits)
      from create_attempt_quiet [where rival = "rival n", OF fr q this assms(5,6)] a Inl show False by auto
    qed
    with Suc.prems(1) have "k < n" by simp
    with Suc.IH [OF _ err(2)] a Inl err(1) show ?thesis by auto
  qed
qed

lemma existing_truthy:
  "existing_for_build inp s = Some d \<Longrightarrow> truthy (in_buildId inp) \<and> d_buildId d = in_buildId inp \<and> d \<in> set (t_deployments s)"
  by (auto simp: existing_for_build_def split: if_splits dest: find_Some_iff')

lemma insert_mounts_deployments: "t_deployments (snd (insert_mounts h i ms t)) = t_deployments t"
proof (induction ms arbitrary: t)
  case Nil
  then show ?case by simp
next
  case (Cons m ms)
  then show ?case by (simp add: randomUUID_def)
qed

lemma create_attempt_created:
  assumes "create_attempt h rival inp s = (Inr d, s')" and none: "existing_for_build inp s = None"
  shows "t_deployments s' = t_deployments (rival s) @ [d] \<and> d_buildId d = in_buildId inp
    \<and> d_applicationId d = in_applicationId inp
    \<and> d_version d = latest_version (in_applicationId inp) (t_deployments s) + 1
    \<and> list_all (\<lambda>e. \<not> deployment_conflict d e) (t_deployments (rival s))"
proof -
  obtain i s1 where u: "randomUUID h (rival s) = (i, s1)" by (cases "randomUUID h (rival s)")
  then have t1: "t_deployments s1 = t_deployments (rival s)" by (auto simp: randomUUID_def)
  let ?d = "new_deployment s1 i (latest_version (in_applicationId inp) (t_deployments s) + 1) inp"
  let ?ms = "managedVolumeMounts (in_runtimeConfig inp)"
  from assms u obtain s2 where ins: "insert_deployment ?d s1 = Some s2"
    by (cases "insert_deployment ?d s1") (auto simp: create_attempt_def Let_def)
  then have t2: "t_deployments s2 = t_deployments s1 @ [?d]"
    and c: "\<not> list_ex (deployment_conflict ?d) (t_deployments s1)"
    by (auto simp: insert_deployment_def split: if_splits)
  obtain x s3 where m: "insert_mounts h i ?ms s2 = (x, s3)" by (cases "insert_mounts h i ?ms s2")
  then have t3: "t_deployments s3 = t_deployments s2" using insert_mounts_deployments [of h i ?ms s2] by simp
  from assms u ins m have "d = ?d" "s' = created_event h inp ?d s3"
    by (cases x; simp add: create_attempt_def Let_def)+
  then show ?thesis using t1 t2 t3 c by (simp add: list_all_iff list_ex_iff)
qed

lemma create_attempt_build:
  assumes "create_attempt h rival inp s = (Inr d, s')"
  shows "d \<in> set (t_deployments s') \<and> d_buildId d = in_buildId inp"
proof (cases "existing_for_build inp s")
  case (Some e)
  with assms show ?thesis using existing_truthy by (auto simp: create_attempt_def)
next
  case None
  from create_attempt_created [OF assms None] show ?thesis by simp
qed

lemma create_attempts_build:
  "create_attempts n h rival inp s = (Inr d, s') \<Longrightarrow> d \<in> set (t_deployments s') \<and> d_buildId d = in_buildId inp"
proof (induction n arbitrary: s)
  case 0
  then show ?case by simp
next
  case (Suc n)
  obtain x t where a: "create_attempt h (rival n) inp s = (x, t)" by (cases "create_attempt h (rival n) inp s")
  show ?case
  proof (cases x)
    case (Inl e)
    with a Suc show ?thesis by (auto split: if_splits)
  next
    case (Inr e)
    with a Suc.prems have "create_attempt h (rival n) inp s = (Inr d, s')" by simp
    then show ?thesis by (rule create_attempt_build)
  qed
qed

lemma existing_for_build_found:
  assumes "truthy (in_buildId inp)" "d \<in> set (t_deployments s)" "d_buildId d = in_buildId inp"
  shows "\<exists>e. existing_for_build inp s = Some e \<and> d_buildId e = in_buildId inp"
proof -
  have "List.find (\<lambda>d. d_buildId d = in_buildId inp) (t_deployments s) \<noteq> None"
    using assms(2,3) by (auto simp: find_None_iff')
  then obtain e where "List.find (\<lambda>d. d_buildId d = in_buildId inp) (t_deployments s) = Some e" by blast
  then show ?thesis using assms(1) by (auto simp: existing_for_build_def dest: find_Some_iff')
qed

lemma keyed_unique: "distinct (map k xs) \<Longrightarrow> x \<in> set xs \<Longrightarrow> y \<in> set xs \<Longrightarrow> k x = k y \<Longrightarrow> x = y"
  by (meson distinct_map inj_onD)

subsection \<open>Status refresh\<close>

interpretation status_rows: keyed_rows d_id "status_change now before nxt"
  by unfold_locales (simp add: status_change_def Let_def)

lemma status_change_sel [simp]:
  "d_status (status_change now before nxt d) = fst nxt"
  "d_failureReason (status_change now before nxt d) = snd nxt"
  "d_desiredState (status_change now before nxt d) = d_desiredState d"
  "d_replicas (status_change now before nxt d) = d_replicas d"
  "d_id (status_change now before nxt d) = d_id d"
  "d_applicationId (status_change now before nxt d) = d_applicationId d"
  by (simp_all add: status_change_def Let_def)

lemma refreshApplicationStatus_frames [simp]:
  "t_deployments (refreshApplicationStatus app s) = t_deployments s"
  "t_workloads (refreshApplicationStatus app s) = t_workloads s"
  "t_commands (refreshApplicationStatus app s) = t_commands s"
  "t_events (refreshApplicationStatus app s) = t_events s"
  "t_reservations (refreshApplicationStatus app s) = t_reservations s"
  "t_volumes (refreshApplicationStatus app s) = t_volumes s"
  "t_nodes (refreshApplicationStatus app s) = t_nodes s"
  "t_builds (refreshApplicationStatus app s) = t_builds s"
  "clock (refreshApplicationStatus app s) = clock s"
  "uuid_next (refreshApplicationStatus app s) = uuid_next s"
  by (simp_all add: refreshApplicationStatus_def)

definition derived_for :: "deployment \<Rightarrow> cp \<Rightarrow> deployment_status \<times> string option" where
  "derived_for d s = deriveDeploymentStatus (d_desiredState d) (d_replicas d) (workloads_of (d_id d) s)"

definition superseded_row :: "deployment \<Rightarrow> bool" where
  "superseded_row d \<longleftrightarrow> d_status d = DepSuperseded \<and> d_desiredState d \<noteq> WantRunning"

lemma refresh_frames [simp]:
  "t_workloads (snd (refreshDeploymentStatus h did s)) = t_workloads s"
  "t_commands (snd (refreshDeploymentStatus h did s)) = t_commands s"
  "t_reservations (snd (refreshDeploymentStatus h did s)) = t_reservations s"
  "t_volumes (snd (refreshDeploymentStatus h did s)) = t_volumes s"
  "t_nodes (snd (refreshDeploymentStatus h did s)) = t_nodes s"
  "clock (snd (refreshDeploymentStatus h did s)) = clock s"
  by (simp_all add: refreshDeploymentStatus_def Let_def split: option.splits)

lemma refresh_step:
  assumes "find_deployment did s = Some d" and "\<not> superseded_row d"
    and "(d_status d, d_failureReason d) \<noteq> derived_for d s"
  shows "refreshDeploymentStatus h did s =
    (Some (fst (derived_for d s)), refreshApplicationStatus (d_applicationId d)
      (log_event h did ''deployment.status_changed''
        (''Deployment is '' @ deployment_status_str (fst (derived_for d s)))
        (\<lambda>e. e\<lparr>e_reason := snd (derived_for d s)\<rparr>)
        (update_deployments (\<lambda>e. d_id e = did \<and> d_status e = d_status d)
          (status_change (clock s) d (derived_for d s)) s)))"
proof -
  have "d_id d = did" using assms(1) by (auto simp: find_deployment_def dest: find_Some_iff')
  then show ?thesis using assms
    by (auto simp: refreshDeploymentStatus_def derived_for_def superseded_row_def Let_def prod_eq_iff)
qed

lemma refresh_same:
  assumes "find_deployment did s = Some d"
    and "superseded_row d \<or> (d_status d, d_failureReason d) = derived_for d s"
  shows "refreshDeploymentStatus h did s = (Some (d_status d), s)"
proof -
  have "d_id d = did" using assms(1) by (auto simp: find_deployment_def dest: find_Some_iff')
  then show ?thesis using assms
    by (auto simp: refreshDeploymentStatus_def derived_for_def superseded_row_def Let_def prod_eq_iff)
qed

lemma refresh_finds:
  assumes "find_deployment did s = Some d" and "\<not> superseded_row d"
    and "(d_status d, d_failureReason d) \<noteq> derived_for d s"
  shows "find_deployment did (snd (refreshDeploymentStatus h did s))
    = Some (status_change (clock s) d (derived_for d s) d)"
  using assms(1)
  by (simp add: refresh_step [OF assms] find_deployment_def status_rows.find_upd_where)
    (auto dest: find_Some_iff')

subsection \<open>Sample data\<close>

definition sample_host :: host where
  "sample_host = \<lparr>h_localeCompare = code_unit_compare, h_randomUUID = (\<lambda>n. ''id-'' @ str_nat n),
     h_zodUuid = (\<lambda>s. s \<noteq> [])\<rparr>"

definition sample_runtime_config :: json where
  "sample_runtime_config = JObj [(''ports'', JArr [JObj [(''containerPort'', JNum 8080), (''exposure'', JStr ''public'')]]),
     (''gracefulShutdownSeconds'', JNum 20)]"

definition sample_input :: deployment_input where
  "sample_input = \<lparr>in_applicationId = ''app'', in_environmentId = None, in_image = ''nginx'', in_replicas = 1,
     in_desiredState = WantRunning, in_runtime = Container,
     in_requirements = requirements_json sample_requirements, in_runtimeConfig = sample_runtime_config,
     in_configurationSnapshot = JObj [], in_buildId = Some ''b1'', in_commitSha = Some ''c0ffee'',
     in_createdBy = None, in_rollbackFromDeploymentId = None\<rparr>"

definition sample_created :: cp where
  "sample_created = snd (createDeployment sample_host (\<lambda>_ s. s) sample_input (empty_cp\<lparr>clock := 1000\<rparr>))"

lemma sample_host_inj: "inj (h_randomUUID sample_host)"
  by (auto simp: sample_host_def inj_def dest: str_nat_inj)

lemma sample_fresh: "fresh_ids sample_host (empty_cp\<lparr>clock := 1000\<rparr>)"
  by (simp add: fresh_ids_def sample_host_inj ids_in_use_def empty_cp_def)

lemma sample_created_deployments:
  "t_deployments sample_created = [new_deployment (empty_cp\<lparr>clock := 1000\<rparr>) ''id-0'' 1 sample_input]"
  by code_simp

subsection \<open>Properties\<close>

text \<open>C4. A new revision is created exactly as promised when nobody interferes: it gets the version after
  the latest of its application, so it is newer than every existing revision, it is the only row added
  and no existing revision is touched, and its managed volume mounts are recorded with it.\<close>

theorem create_revision_spec:
  assumes "fresh_ids h s" and "existing_for_build inp s = None" and "in_buildId inp \<noteq> Some []"
    and "distinct (map mm_mountPath (managedVolumeMounts (in_runtimeConfig inp)))"
  shows "\<exists>d s'. createDeployment h (\<lambda>_ s. s) inp s = (Inr d, s')
    \<and> t_deployments s' = t_deployments s @ [d]
    \<and> d_version d = latest_version (in_applicationId inp) (t_deployments s) + 1
    \<and> list_all (\<lambda>e. d_applicationId e \<noteq> in_applicationId inp \<or> d_version e < d_version d) (t_deployments s)
    \<and> d_applicationId d = in_applicationId inp
    \<and> d_status d = (if in_desiredState inp = WantRunning then DepQueued else DepStopped)
    \<and> map (\<lambda>r. (dm_deploymentId r, dm_volumeId r, dm_mountPath r)) (t_volumeMounts s')
        = map (\<lambda>r. (dm_deploymentId r, dm_volumeId r, dm_mountPath r)) (t_volumeMounts s)
          @ map (\<lambda>m. (d_id d, mm_volumeId m, mm_mountPath m)) (managedVolumeMounts (in_runtimeConfig inp))"
proof -
  from create_attempt_quiet [where rival = "\<lambda>s. s", OF assms(1) refl assms(2-4)] obtain d s' where
    c: "create_attempt h (\<lambda>s. s) inp s = (Inr d, s')"
    and d: "d = new_deployment s (h_randomUUID h (uuid_next s))
            (latest_version (in_applicationId inp) (t_deployments s) + 1) inp"
    and rest: "t_deployments s' = t_deployments s @ [d]"
      "map (\<lambda>r. (dm_deploymentId r, dm_volumeId r, dm_mountPath r)) (t_volumeMounts s')
        = map (\<lambda>r. (dm_deploymentId r, dm_volumeId r, dm_mountPath r)) (t_volumeMounts s)
          @ map (\<lambda>m. (d_id d, mm_volumeId m, mm_mountPath m)) (managedVolumeMounts (in_runtimeConfig inp))"
    by blast
  have "createDeployment h (\<lambda>_ s. s) inp s = (Inr d, s')"
    by (simp add: createDeployment_def assms(2) eval_nat_numeral c)
  moreover have "d_applicationId e \<noteq> in_applicationId inp \<or> d_version e < d_version d"
    if "e \<in> set (t_deployments s)" for e
    using version_of_mem [OF that, of "in_applicationId inp"] by (auto simp: d)
  ultimately show ?thesis using rest by (auto simp: d list_all_iff)
qed

lemma create_revision_spec_witness:
  "\<exists>d s'. createDeployment sample_host (\<lambda>_ s. s) sample_input (empty_cp\<lparr>clock := 1000\<rparr>) = (Inr d, s')
     \<and> d_version d = 1"
proof -
  have "existing_for_build sample_input (empty_cp\<lparr>clock := 1000\<rparr>) = None" by code_simp
  moreover have "in_buildId sample_input \<noteq> Some []" by (simp add: sample_input_def)
  moreover have "distinct (map mm_mountPath (managedVolumeMounts (in_runtimeConfig sample_input)))" by code_simp
  moreover have "latest_version (in_applicationId sample_input) (t_deployments (empty_cp\<lparr>clock := 1000\<rparr>)) + 1 = 1"
    by code_simp
  ultimately show ?thesis using create_revision_spec [OF sample_fresh, of sample_input] by metis
qed


text \<open>A rival that always takes the next version of the application, except in the last attempt.\<close>

definition greedy_rival :: "nat \<Rightarrow> cp \<Rightarrow> cp" where
  "greedy_rival k s = (if k = 0 then s else
     s\<lparr>t_deployments := t_deployments s @ [new_deployment s ''rival''
        (latest_version ''app'' (t_deployments s) + 1) (sample_input\<lparr>in_buildId := None\<rparr>)]\<rparr>)"


text \<open>A build is deployed at most once: after a successful creation for a build, under any
  interference, creating a deployment for the same build again changes nothing and returns a
  deployment of that build.\<close>

theorem create_idempotent_per_build:
  assumes "createDeployment h rival inp s = (Inr d, s')" and "truthy (in_buildId inp)"
  shows "\<exists>e. createDeployment h rival' (inp\<lparr>in_image := img, in_replicas := n\<rparr>) s' = (Inr e, s')
    \<and> d_buildId e = in_buildId inp"
proof -
  have d: "d \<in> set (t_deployments s') \<and> d_buildId d = in_buildId inp"
  proof (cases "existing_for_build inp s")
    case None
    with assms(1) create_attempts_build show ?thesis by (auto simp: createDeployment_def)
  next
    case (Some e)
    with assms(1) existing_truthy show ?thesis by (auto simp: createDeployment_def)
  qed
  then obtain e where "existing_for_build inp s' = Some e" "d_buildId e = in_buildId inp"
    using existing_for_build_found assms(2) by blast
  then have "existing_for_build (inp\<lparr>in_image := img, in_replicas := n\<rparr>) s' = Some e"
    using assms(2) by (simp add: existing_for_build_def)
  with \<open>d_buildId e = in_buildId inp\<close> show ?thesis by (simp add: createDeployment_def)
qed

lemma create_idempotent_per_build_witness:
  "\<exists>e. createDeployment sample_host (\<lambda>_ s. s) (sample_input\<lparr>in_image := ''other'', in_replicas := 3\<rparr>) sample_created
     = (Inr e, sample_created) \<and> d_buildId e = Some ''b1''"
proof -
  have "createDeployment sample_host (\<lambda>_ s. s) sample_input (empty_cp\<lparr>clock := 1000\<rparr>)
      = (Inr (new_deployment (empty_cp\<lparr>clock := 1000\<rparr>) ''id-0'' 1 sample_input), sample_created)"
    unfolding sample_created_def by code_simp
  from create_idempotent_per_build [OF this] show ?thesis
    by (simp add: sample_input_def truthy_def)
qed

text \<open>The stored status settles: after a refresh the row carries the derived status and reason (or
  is a superseded revision, which keeps its status), the answer is that status, and a second refresh
  changes nothing.\<close>

theorem refresh_settles:
  assumes "find_deployment did s = Some d" and "refreshDeploymentStatus h did s = (r, s')"
  shows "\<exists>d'. find_deployment did s' = Some d' \<and> r = Some (d_status d')
    \<and> (superseded_row d' \<or> (d_status d', d_failureReason d') = derived_for d' s')
    \<and> refreshDeploymentStatus h did s' = (r, s')"
proof (cases "superseded_row d \<or> (d_status d, d_failureReason d) = derived_for d s")
  case True
  with refresh_same [OF assms(1) True] assms show ?thesis by auto
next
  case False
  then have ns: "\<not> superseded_row d" and ne: "(d_status d, d_failureReason d) \<noteq> derived_for d s" by auto
  let ?d = "status_change (clock s) d (derived_for d s) d"
  have s': "s' = snd (refreshDeploymentStatus h did s)" and r: "r = Some (fst (derived_for d s))"
    using assms(2) refresh_step [OF assms(1) ns ne] by simp_all
  have f: "find_deployment did s' = Some ?d" unfolding s' by (rule refresh_finds [OF assms(1) ns ne])
  have "derived_for ?d s' = derived_for d s" by (simp add: derived_for_def s' workloads_of_def)
  then have same: "(d_status ?d, d_failureReason ?d) = derived_for ?d s'" by simp
  with f refresh_same [OF f] r show ?thesis by auto
qed

lemma refresh_settles_witness:
  "\<exists>d' s'. find_deployment ''id-0'' s' = Some d' \<and> d_status d' = DepScheduling
     \<and> refreshDeploymentStatus sample_host ''id-0'' s' = (Some DepScheduling, s')"
proof -
  let ?s = "snd (refreshDeploymentStatus sample_host ''id-0'' sample_created)"
  have "find_deployment ''id-0'' sample_created = Some (hd (t_deployments sample_created))" by code_simp
  moreover have "fst (refreshDeploymentStatus sample_host ''id-0'' sample_created) = Some DepScheduling" by code_simp
  then have "refreshDeploymentStatus sample_host ''id-0'' sample_created = (Some DepScheduling, ?s)"
    by (simp add: prod_eq_iff)
  ultimately show ?thesis using refresh_settles by fastforce
qed

end
