(* ===== verification/DeploymentController.thy ===== *)
theory DeploymentController
  imports DeploymentService
begin

text \<open>
  \<open>apps/api/src/modules/deployments/controller.ts\<close>: the reconciler that turns the desired state of a
  deployment into workload rows, port reservations and durable agent commands. The database reads and
  writes of one run happen in the order of the code; the loop over the missing replicas is
  \<open>place_replicas\<close>, whose body is \<open>place_step\<close>. The retry after a lost volume claim does not consume a
  replica, so the loop carries fuel; \<open>ReconcileProperties\<close> proves that the fuel given is enough. What
  other reconcilers commit just before the volume claim is the argument \<open>rival\<close>. One run reads the
  clock once.
\<close>

definition HEALTH_FAILURE_THRESHOLD :: int where "HEALTH_FAILURE_THRESHOLD = 3"
definition MAX_RECOVERY_ATTEMPTS :: int where "MAX_RECOVERY_ATTEMPTS = 5"
definition RECOVERY_BACKOFF_BASE_MS :: int where "RECOVERY_BACKOFF_BASE_MS = 30000"
definition RECOVERY_BACKOFF_MAX_MS :: int where "RECOVERY_BACKOFF_MAX_MS = 10 * 60000"
definition COMMAND_DEADLINE_MS :: int where "COMMAND_DEADLINE_MS = 2 * 60000"

subsection \<open>Asking a workload to stop\<close>

definition target_state :: "agent_command_type \<Rightarrow> desired_state" where
  "target_state ty = (if ty = WorkloadDelete then WantDeleted else WantStopped)"

definition command_open :: "agent_command \<Rightarrow> bool" where
  "command_open c \<longleftrightarrow> c_status c = CmdPending \<or> c_status c = CmdDelivered"

definition outstanding :: "string \<Rightarrow> agent_command_type \<Rightarrow> cp \<Rightarrow> bool" where
  "outstanding wid ty s \<longleftrightarrow>
     list_ex (\<lambda>c. c_resourceId c = wid \<and> c_type c = command_type_str ty \<and> command_open c) (t_commands s)"

definition stop_payload :: "workload \<Rightarrow> cp \<Rightarrow> json" where
  "stop_payload w s =
     JObj ((''workloadId'', JStr (w_id w))
       # jopt ''gracefulShutdownSeconds''
           (map_option (\<lambda>i. JNum (of_int i))
             (Option.bind (find_deployment (w_deploymentId w) s)
               (\<lambda>d. graceful_shutdown_seconds (d_runtimeConfig d)))))"

definition requestStateChange :: "host \<Rightarrow> agent_command_type \<Rightarrow> workload \<Rightarrow> cp \<Rightarrow> cp" where
  "requestStateChange h ty w s =
     (case w_nodeId w of
        None \<Rightarrow> s
      | Some nid \<Rightarrow>
          if nid = [] \<or> w_desiredState w = target_state ty then s
          else if outstanding (w_id w) ty s then s
          else enqueue_command h nid ty (w_id w) (stop_payload w s) COMMAND_DEADLINE_MS
                 (update_workloads (\<lambda>r. w_id r = w_id w) (\<lambda>r. r\<lparr>w_desiredState := target_state ty\<rparr>) s))"

definition request_all :: "host \<Rightarrow> agent_command_type \<Rightarrow> workload list \<Rightarrow> cp \<Rightarrow> cp" where
  "request_all h ty ws s = fold (requestStateChange h ty) ws s"

subsection \<open>The scheduler's view of the nodes\<close>

definition counted_requirements :: "host \<Rightarrow> cp \<Rightarrow> workload \<Rightarrow> workload_requirements option" where
  "counted_requirements h s w =
     Option.bind (find_deployment (w_deploymentId w) s) (\<lambda>d. requirementsSchema (h_zodUuid h) (d_requirements d))"

definition scheduled_on :: "host \<Rightarrow> cp \<Rightarrow> string \<Rightarrow> workload_requirements list" where
  "scheduled_on h s nid =
     concat (map (\<lambda>w. if w_nodeId w \<noteq> Some nid \<or> nid = [] \<or> w_actualState w = ActStopped then []
                      else (case counted_requirements h s w of None \<Rightarrow> [] | Some r \<Rightarrow> [r]))
                 (t_workloads s))"

definition withScheduledReservations :: "node_resources \<Rightarrow> workload_requirements list \<Rightarrow> node_resources" where
  "withScheduledReservations res scheduled =
     (if scheduled = [] then res
      else res\<lparr>
        cpuMilli := (cpuMilli res)\<lparr>reserved := max (reserved (cpuMilli res)) (of_int (sum_list (map wr_cpuMilli scheduled)))\<rparr>,
        memoryMib := (memoryMib res)\<lparr>reserved := max (reserved (memoryMib res)) (of_int (sum_list (map wr_memoryMib scheduled)))\<rparr>,
        storageMib := (storageMib res)\<lparr>reserved := max (reserved (storageMib res)) (of_int (sum_list (map wr_storageMib scheduled)))\<rparr>\<rparr>)"

definition node_candidate :: "host \<Rightarrow> cp \<Rightarrow> node \<Rightarrow> node_snapshot list" where
  "node_candidate h s n =
     (case n_resources n of
        None \<Rightarrow> []
      | Some res \<Rightarrow>
          [\<lparr>ns_id = n_id n, ns_status = n_status n, ns_schedulingEnabled = (n_schedulingEnabled n = 1),
            ns_architecture = n_architecture n, ns_region = n_region n, ns_labels = n_labels n,
            ns_runtimes = n_runtimes n,
            ns_resources = withScheduledReservations res (scheduled_on h s (n_id n)),
            ns_reservedHostPorts = map (\<lambda>r. (r_hostPort r, r_protocol r))
              (filter (\<lambda>r. active_reservation r \<and> r_nodeId r = n_id n) (t_reservations s))\<rparr>])"

definition loadCandidates :: "host \<Rightarrow> cp \<Rightarrow> node_snapshot list" where
  "loadCandidates h s = concat (map (node_candidate h s) (t_nodes s))"

definition add_reserved :: "int \<Rightarrow> resource_quantity \<Rightarrow> resource_quantity" where
  "add_reserved i q = q\<lparr>reserved := reserved q + of_int i\<rparr>"

fun reserve :: "node_snapshot list \<Rightarrow> string \<Rightarrow> workload_requirements \<Rightarrow> node_snapshot list" where
  "reserve [] nid req = []"
| "reserve (c # cs) nid req =
     (if ns_id c = nid then
        c\<lparr>ns_resources := \<lparr>cpuMilli = add_reserved (wr_cpuMilli req) (cpuMilli (ns_resources c)),
            memoryMib = add_reserved (wr_memoryMib req) (memoryMib (ns_resources c)),
            storageMib = add_reserved (wr_storageMib req) (storageMib (ns_resources c))\<rparr>\<rparr> # cs
      else c # reserve cs nid req)"

subsection \<open>Host ports\<close>

definition port_protocol_of :: "runtime_port \<Rightarrow> port_protocol" where
  "port_protocol_of p = (case rp_protocol p of Some q \<Rightarrow> q | None \<Rightarrow> Tcp)"

definition is_public :: "runtime_port \<Rightarrow> bool" where
  "is_public p \<longleftrightarrow> rp_exposure p = Some Public"

definition fixed_host_port :: "runtime_port \<Rightarrow> int option" where
  "fixed_host_port p = (case rp_requestedHostPort p of Some i \<Rightarrow> Some i | None \<Rightarrow> rp_externalPort p)"

definition requested_host_ports :: "runtime_port list \<Rightarrow> (int \<times> port_protocol) list" where
  "requested_host_ports ports =
     concat (map (\<lambda>p. case fixed_host_port p of
        Some i \<Rightarrow> if is_public p then [(i, port_protocol_of p)] else []
      | None \<Rightarrow> []) ports)"

definition occupied_ports :: "string \<Rightarrow> cp \<Rightarrow> port_protocol \<Rightarrow> int list" where
  "occupied_ports nid s pr =
     map r_hostPort (filter (\<lambda>r. r_nodeId r = nid \<and> active_reservation r \<and> r_protocol r = pr) (t_reservations s))"

definition port_seed :: "string \<Rightarrow> runtime_port \<Rightarrow> string" where
  "port_seed wid p =
     wid @ '':'' @ str_int (rp_containerPort p) @ ''/'' @ protocol_str (port_protocol_of p)"

fun assign_ports ::
  "string \<Rightarrow> (port_protocol \<Rightarrow> int list) \<Rightarrow> runtime_port list \<Rightarrow> (int \<times> port_protocol \<times> int) list" where
  "assign_ports wid occ [] = []"
| "assign_ports wid occ (p # ps) =
     (if \<not> is_public p then assign_ports wid occ ps
      else (let pr = port_protocol_of p in
        case (case fixed_host_port p of
                Some i \<Rightarrow> Some i | None \<Rightarrow> choose_dynamic_host_port (occ pr) (port_seed wid p)) of
          None \<Rightarrow> assign_ports wid occ ps
        | Some hp \<Rightarrow> (rp_containerPort p, pr, hp) # assign_ports wid (occ(pr := hp # occ pr)) ps))"

subsection \<open>The runtime configuration sent to the agent\<close>

definition json_protocol :: "json \<Rightarrow> json" where
  "json_protocol p = (case jget ''protocol'' p of Some v \<Rightarrow> v | None \<Rightarrow> JStr ''tcp'')"

fun jremove :: "string \<Rightarrow> json \<Rightarrow> json" where
  "jremove k (JObj kvs) = JObj (filter (\<lambda>(k', v). k' \<noteq> k) kvs)"
| "jremove k j = j"

definition command_port :: "(int \<times> port_protocol \<times> int) list \<Rightarrow> json \<Rightarrow> json" where
  "command_port assigned p =
     (case List.find (\<lambda>(cport, pr, hp). jget ''containerPort'' p = Some (JNum (of_int cport))
                        \<and> json_protocol p = JStr (protocol_str pr)) assigned of
        None \<Rightarrow> p
      | Some (cport, pr, hp) \<Rightarrow> jset ''externalPort'' (JNum (of_int hp)) (jremove ''requestedHostPort'' p))"

definition js_falsy :: "json \<Rightarrow> bool" where
  "js_falsy j \<longleftrightarrow> j \<in> {JNull, JBool False, JNum 0, JStr []}"

text \<open>\<open>None\<close> is the TypeError of reading \<open>ports\<close> of \<open>null\<close> or calling \<open>map\<close> on something else than an array.\<close>

definition command_runtime_config :: "(int \<times> port_protocol \<times> int) list \<Rightarrow> json \<Rightarrow> json option" where
  "command_runtime_config assigned cfg =
     (if cfg = JNull then None
      else (case jget ''ports'' cfg of
              None \<Rightarrow> Some cfg
            | Some (JArr ps) \<Rightarrow> Some (jset ''ports'' (JArr (map (command_port assigned) ps)) cfg)
            | Some v \<Rightarrow> if js_falsy v then Some cfg else None))"
subsection \<open>Placing the missing replicas\<close>

record reconcile_ctx =
  rc_deployment :: deployment
  rc_workloads :: "workload list"
  rc_ports :: "runtime_port list"
  rc_persistent :: bool
  rc_managedIds :: "string list"

definition fail_deployment :: "string \<Rightarrow> string \<Rightarrow> cp \<Rightarrow> cp" where
  "fail_deployment did reason s =
     update_deployments (\<lambda>d. d_id d = did) (\<lambda>d. d\<lparr>d_status := DepFailed, d_failureReason := Some reason\<rparr>) s"

definition store_requirements :: "string \<Rightarrow> workload_requirements \<Rightarrow> cp \<Rightarrow> cp" where
  "store_requirements did req s =
     update_deployments (\<lambda>d. d_id d = did) (\<lambda>d. d\<lparr>d_requirements := requirements_json req\<rparr>) s"

definition bound_nodes :: "string list \<Rightarrow> cp \<Rightarrow> string list" where
  "bound_nodes ids s =
     js_uniq (concat (map (\<lambda>v. if truthy (v_nodeId v) then [the (v_nodeId v)] else [])
                (filter (\<lambda>v. v_id v \<in> set ids) (t_volumes s))))"

datatype claim = Claimed workload_requirements cp | ClaimRetry workload_requirements cp | ClaimConflict cp

text \<open>Binding the unbound local volumes to the chosen node; \<open>rival\<close> has run since the node was chosen.\<close>

definition claim_volumes ::
  "(cp \<Rightarrow> cp) \<Rightarrow> reconcile_ctx \<Rightarrow> string \<Rightarrow> workload_requirements \<Rightarrow> cp \<Rightarrow> claim" where
  "claim_volumes rival ctx nid req s =
     (if rc_managedIds ctx = [] then Claimed req s
      else
        (let did = d_id (rc_deployment ctx);
             s1 = update_volumes (\<lambda>v. v_id v \<in> set (rc_managedIds ctx) \<and> v_nodeId v = None)
                    (\<lambda>v. v\<lparr>v_nodeId := Some nid, v_status := VolInUse\<rparr>) (rival s);
             claimed = bound_nodes (rc_managedIds ctx) s1
         in if length claimed \<noteq> 1 then ClaimConflict (fail_deployment did ''Local volume affinity conflict'' s1)
            else if hd claimed \<noteq> nid then
              (let req' = req\<lparr>wr_requiredNodeId := Some (hd claimed)\<rparr>
               in ClaimRetry req' (store_requirements did req' s1))
            else
              (let req' = req\<lparr>wr_requiredNodeId := Some nid\<rparr>
               in Claimed req' (store_requirements did req' s1))))"

definition needs_replacement :: "workload \<Rightarrow> bool" where
  "needs_replacement w \<longleftrightarrow> w_actualState w = ActLost \<or> w_actualState w = ActFailed
     \<or> HEALTH_FAILURE_THRESHOLD \<le> w_healthFailureCount w"

definition replacement_reason :: "workload \<Rightarrow> string" where
  "replacement_reason w =
     (if w_actualState w = ActLost then ''NODE_OFFLINE''
      else if w_actualState w = ActFailed then ''RUNTIME_EXITED'' else ''HEALTH_CHECK_FAILED'')"

definition backoff_ms :: "int \<Rightarrow> int" where
  "backoff_ms attempt = min (RECOVERY_BACKOFF_BASE_MS * 2 ^ nat (max 0 (attempt - 1))) RECOVERY_BACKOFF_MAX_MS"

definition start_payload ::
  "string \<Rightarrow> deployment \<Rightarrow> workload_requirements \<Rightarrow> json \<Rightarrow> json" where
  "start_payload wid d req cfg = JObj
     [(''workloadId'', JStr wid), (''deploymentId'', JStr (d_id d)), (''image'', JStr (d_image d)),
      (''runtime'', JStr (runtime_kind_str (d_runtime d))), (''requirements'', requirements_json req),
      (''runtimeConfig'', cfg)]"

fun insert_reservations ::
  "host \<Rightarrow> string \<Rightarrow> string \<Rightarrow> (int \<times> port_protocol \<times> int) list \<Rightarrow> cp \<Rightarrow> (exn + unit) \<times> cp" where
  "insert_reservations h nid wid [] s = (Inr (), s)"
| "insert_reservations h nid wid ((cport, pr, hp) # rest) s =
     (let (i, s1) = randomUUID h s in
      case insert_reservation (new_reservation s1 i nid wid cport hp pr) s1 of
        None \<Rightarrow> (Inl Unique_violation, s1)
      | Some s2 \<Rightarrow> insert_reservations h nid wid rest s2)"

definition placed_workload ::
  "cp \<Rightarrow> string \<Rightarrow> deployment \<Rightarrow> string \<Rightarrow> string list \<Rightarrow> workload option \<Rightarrow> workload" where
  "placed_workload s wid d nid reasons replacement =
     (let w = new_workload s wid (d_id d) nid reasons in
      case replacement of
        None \<Rightarrow> w
      | Some r \<Rightarrow> w\<lparr>w_replacementOfWorkloadId := Some (w_id r), w_replacementReason := Some (replacement_reason r)\<rparr>)"

text \<open>The transaction that makes a placement durable: everything or nothing.\<close>

definition write_placement ::
  "host \<Rightarrow> deployment \<Rightarrow> string \<Rightarrow> string \<Rightarrow> string \<Rightarrow> string list \<Rightarrow> workload option \<Rightarrow> int
     \<Rightarrow> (int \<times> port_protocol \<times> int) list \<Rightarrow> workload_requirements option \<Rightarrow> workload_requirements
     \<Rightarrow> json \<Rightarrow> cp \<Rightarrow> (exn + unit) \<times> cp" where
  "write_placement h d nid wid cid reasons replacement attempt ports pinned req cfg s =
     (let s1 = (case pinned of None \<Rightarrow> s | Some p \<Rightarrow> store_requirements (d_id d) p s);
          s2 = (if replacement = None then s1
                else update_deployments (\<lambda>e. d_id e = d_id d)
                  (\<lambda>e. e\<lparr>d_recoveryAttempts := attempt, d_recoveryState := RecBackoff,
                         d_recoveryNextAttemptAt := Some (clock s + backoff_ms attempt)\<rparr>) s1);
          s3 = s2\<lparr>t_workloads := t_workloads s2 @ [placed_workload s2 wid d nid reasons replacement]\<rparr>
      in case insert_reservations h nid wid ports s3 of
           (Inl e, s4) \<Rightarrow> (Inl e, rolled_back s s4)
         | (Inr _, s4) \<Rightarrow>
             (let s5 = (case replacement of
                          None \<Rightarrow> s4
                        | Some r \<Rightarrow> log_event h (d_id d) ''workload.replacement_requested''
                            ''Replacement workload scheduled''
                            (\<lambda>e. e\<lparr>e_workloadId := Some wid, e_nodeId := Some nid,
                                   e_reason := Some (replacement_reason r)\<rparr>) s4)
              in (Inr (), s5\<lparr>t_commands := t_commands s5
                    @ [new_command s5 cid nid WorkloadStart wid (start_payload wid d req cfg) COMMAND_DEADLINE_MS]\<rparr>)))"

datatype step = Retry workload_requirements cp | Placed workload_requirements "node_snapshot list" cp
  | Return cp | Throw exn cp

definition start_replica ::
  "host \<Rightarrow> reconcile_ctx \<Rightarrow> string \<Rightarrow> string list \<Rightarrow> workload_requirements \<Rightarrow> node_snapshot list \<Rightarrow> cp \<Rightarrow> step" where
  "start_replica h ctx nid reasons req cands s =
     (let d = rc_deployment ctx;
          (wid, s1) = randomUUID h s;
          (cid, s2) = randomUUID h s1;
          assigned = assign_ports wid (occupied_ports nid s2) (rc_ports ctx)
      in if length assigned \<noteq> length (filter is_public (rc_ports ctx))
         then Return (fail_deployment (d_id d) ''No dynamic host port is available on the selected node'' s2)
         else (case command_runtime_config assigned (d_runtimeConfig d) of
           None \<Rightarrow> Throw (Js_error ''TypeError'') s2
         | Some cfg \<Rightarrow>
            (let replacement = List.find needs_replacement (rc_workloads ctx);
                 attempt = (if replacement = None then d_recoveryAttempts d else d_recoveryAttempts d + 1)
             in if MAX_RECOVERY_ATTEMPTS < attempt then
                  Return (log_event h (d_id d) ''deployment.manual_intervention_required''
                    ''Automatic recovery attempts exhausted''
                    (\<lambda>e. e\<lparr>e_workloadId := map_option w_id replacement,
                           e_reason := Some ''RECOVERY_ATTEMPTS_EXHAUSTED''\<rparr>)
                    (update_deployments (\<lambda>e. d_id e = d_id d)
                      (\<lambda>e. e\<lparr>d_recoveryState := RecManual, d_status := DepFailed,
                             d_failureReason := Some ''Automatic recovery attempts exhausted''\<rparr>) s2))
                else
                  (let pinned = (if rc_persistent ctx \<and> \<not> truthy (wr_requiredNodeId req)
                                 then Some (req\<lparr>wr_requiredNodeId := Some nid\<rparr>) else None);
                       req' = (case pinned of Some p \<Rightarrow> p | None \<Rightarrow> req)
                   in case write_placement h d nid wid cid reasons replacement attempt assigned pinned req cfg s2 of
                        (Inl e, s3) \<Rightarrow>
                          if e \<noteq> Unique_violation then Throw e s3
                          else Return (log_event h (d_id d) ''workload.port_reservation_failed''
                                 ''Requested public host port is no longer available''
                                 (\<lambda>e. e\<lparr>e_nodeId := Some nid, e_reason := Some ''PORT_UNAVAILABLE''\<rparr>)
                                 (fail_deployment (d_id d) ''Requested public host port is no longer available'' s3))
                      | (Inr _, s3) \<Rightarrow> Placed req' (reserve cands nid req') s3))))"

definition place_step ::
  "host \<Rightarrow> (cp \<Rightarrow> cp) \<Rightarrow> reconcile_ctx \<Rightarrow> workload_requirements \<Rightarrow> node_snapshot list \<Rightarrow> cp \<Rightarrow> step" where
  "place_step h rival ctx req cands s =
     (let d = rc_deployment ctx in
      if d_recoveryState d = RecManual
      then Return (fail_deployment (d_id d) ''Automatic recovery attempts exhausted'' s)
      else if (case d_recoveryNextAttemptAt d of Some t \<Rightarrow> clock s < t | None \<Rightarrow> False) then Return s
      else (let decision = scheduleWorkload (h_localeCompare h) cands req in
        if \<not> truthy (sd_nodeId decision) then Return (snd (refreshDeploymentStatus h (d_id d) s))
        else (let nid = the (sd_nodeId decision) in
          case claim_volumes rival ctx nid req s of
            ClaimConflict s1 \<Rightarrow> Return s1
          | ClaimRetry req' s1 \<Rightarrow> Retry req' s1
          | Claimed req' s1 \<Rightarrow> start_replica h ctx nid (sd_reasons decision) req' cands s1)))"

datatype loop_exit = Completed | Returned | Threw exn | OutOfFuel

fun place_replicas ::
  "nat \<Rightarrow> host \<Rightarrow> (nat \<Rightarrow> cp \<Rightarrow> cp) \<Rightarrow> reconcile_ctx \<Rightarrow> nat \<Rightarrow> workload_requirements
     \<Rightarrow> node_snapshot list \<Rightarrow> cp \<Rightarrow> loop_exit \<times> cp" where
  "place_replicas fuel h rival ctx 0 req cands s = (Completed, s)"
| "place_replicas 0 h rival ctx (Suc n) req cands s = (OutOfFuel, s)"
| "place_replicas (Suc fuel) h rival ctx (Suc n) req cands s =
     (case place_step h (rival fuel) ctx req cands s of
        Retry req' s' \<Rightarrow> place_replicas fuel h rival ctx (Suc n) req' cands s'
      | Placed req' cands' s' \<Rightarrow> place_replicas fuel h rival ctx n req' cands' s'
      | Return s' \<Rightarrow> (Returned, s')
      | Throw e s' \<Rightarrow> (Threw e, s'))"

subsection \<open>One reconciliation\<close>

definition unhealthy_workload :: "workload \<Rightarrow> bool" where
  "unhealthy_workload w \<longleftrightarrow> w_desiredState w = WantRunning
     \<and> (w_actualState w = ActFailed \<or> HEALTH_FAILURE_THRESHOLD \<le> w_healthFailureCount w)"

definition recovery_event :: "host \<Rightarrow> string \<Rightarrow> workload \<Rightarrow> cp \<Rightarrow> cp" where
  "recovery_event h did w =
     log_event h did ''workload.recovery_requested'' ''Workload retired for automatic recovery''
       (\<lambda>e. e\<lparr>e_workloadId := Some (w_id w), e_nodeId := w_nodeId w,
              e_reason := Some (if w_actualState w = ActFailed then ''RUNTIME_EXITED'' else ''HEALTH_CHECK_FAILED'')\<rparr>)"

definition active_workloads :: "bool \<Rightarrow> workload list \<Rightarrow> workload list" where
  "active_workloads persistent ws =
     filter (\<lambda>w. w_desiredState w = WantRunning \<and> (persistent \<or> w_actualState w \<noteq> ActLost)) ws"

definition missing_replicas :: "deployment \<Rightarrow> bool \<Rightarrow> workload list \<Rightarrow> nat" where
  "missing_replicas d persistent ws = nat (d_replicas d - int (length (active_workloads persistent ws)))"

definition recovered :: "deployment \<Rightarrow> workload list \<Rightarrow> bool" where
  "recovered d active \<longleftrightarrow> d_recoveryState d \<noteq> RecIdle
     \<and> list_all (\<lambda>w. w_actualState w = ActRunning \<and> (w_healthStatus w = HHealthy \<or> w_healthStatus w = HNone)) active"

text \<open>The checks on managed volumes: \<open>Inl\<close> the reason to fail, \<open>Inr\<close> the node the volumes are bound to.\<close>

definition check_managed :: "string list \<Rightarrow> cp \<Rightarrow> string + string option" where
  "check_managed ids s =
     (let managed = filter (\<lambda>v. v_id v \<in> set ids) (t_volumes s) in
      if length managed \<noteq> length ids \<or> list_ex (\<lambda>v. v_status v \<notin> {VolAvailable, VolInUse}) managed
      then Inl ''Managed volume is unavailable''
      else (case bound_nodes ids s of
              [] \<Rightarrow> Inr None
            | [n] \<Rightarrow> Inr (Some n)
            | _ \<Rightarrow> Inl ''Local volumes are bound to different nodes''))"

definition reconcile_running ::
  "host \<Rightarrow> (nat \<Rightarrow> cp \<Rightarrow> cp) \<Rightarrow> reconcile_ctx \<Rightarrow> workload_requirements \<Rightarrow> cp \<Rightarrow> (exn + unit) \<times> cp" where
  "reconcile_running h rival ctx req s =
     (let d = rc_deployment ctx;
          did = d_id d;
          ws = rc_workloads ctx;
          unhealthy = filter unhealthy_workload ws
      in if \<not> rc_persistent ctx \<and> unhealthy \<noteq> [] then
           (Inr (), snd (refreshDeploymentStatus h did
              (fold (recovery_event h did) unhealthy (request_all h WorkloadStop unhealthy s))))
         else
           (let missing = missing_replicas d (rc_persistent ctx) ws in
            if missing = 0 then
              (Inr (), snd (refreshDeploymentStatus h did
                (if recovered d (active_workloads (rc_persistent ctx) ws)
                 then update_deployments (\<lambda>e. d_id e = did)
                        (\<lambda>e. e\<lparr>d_recoveryAttempts := 0, d_recoveryNextAttemptAt := None,
                               d_recoveryState := RecIdle\<rparr>) s
                 else s)))
            else
              (case place_replicas (Suc missing) h rival ctx missing req (loadCandidates h s) s of
                 (Threw e, s') \<Rightarrow> (Inl e, s')
               | (Completed, s') \<Rightarrow> (Inr (), snd (refreshDeploymentStatus h did s'))
               | (_, s') \<Rightarrow> (Inr (), s'))))"

definition with_host_ports :: "runtime_port list \<Rightarrow> workload_requirements \<Rightarrow> workload_requirements" where
  "with_host_ports ports req =
     (if requested_host_ports ports = [] then req
      else req\<lparr>wr_requestedHostPorts := Some (requested_host_ports ports)\<rparr>)"

definition reconcileDeploymentClaimed ::
  "host \<Rightarrow> (nat \<Rightarrow> cp \<Rightarrow> cp) \<Rightarrow> string \<Rightarrow> cp \<Rightarrow> (exn + unit) \<times> cp" where
  "reconcileDeploymentClaimed h rival did s =
     (case find_deployment did s of
        None \<Rightarrow> (Inr (), s)
      | Some d \<Rightarrow>
        (case requirementsSchema (h_zodUuid h) (d_requirements d) of
           None \<Rightarrow> (Inl Zod_error, s)
         | Some req0 \<Rightarrow>
           (let ws = workloads_of did s in
            if d_desiredState d \<noteq> WantRunning then
              (Inr (), snd (refreshDeploymentStatus h did
                 (request_all h (if d_desiredState d = WantDeleted then WorkloadDelete else WorkloadStop) ws s)))
            else
              (let runtimeVolumes = data_or_nil (runtimeVolumesSchema (h_zodUuid h) (d_runtimeConfig d));
                   ports = data_or_nil (runtimePortsSchema (d_runtimeConfig d));
                   req = with_host_ports ports req0;
                   ids = concat (map (\<lambda>v. if truthy (rv_id v) then [the (rv_id v)] else []) runtimeVolumes);
                   ctx = \<lparr>rc_deployment = d, rc_workloads = ws, rc_ports = ports,
                          rc_persistent = (runtimeVolumes \<noteq> []), rc_managedIds = ids\<rparr>
               in if requested_host_ports ports \<noteq> [] \<and> 1 < d_replicas d then
                    (Inr (), fail_deployment did ''Fixed public host ports require a single replica'' s)
                  else if ids = [] then reconcile_running h rival ctx req s
                  else (case check_managed ids s of
                          Inl reason \<Rightarrow> (Inr (), fail_deployment did reason s)
                        | Inr None \<Rightarrow> reconcile_running h rival ctx req s
                        | Inr (Some n) \<Rightarrow>
                            (let req' = req\<lparr>wr_requiredNodeId := Some n\<rparr>
                             in reconcile_running h rival ctx req' (store_requirements did req' s)))))))"

subsection \<open>The lease around it\<close>

definition lease_free :: "int \<Rightarrow> deployment \<Rightarrow> bool" where
  "lease_free now d \<longleftrightarrow> (case d_reconcileLeaseUntil d of None \<Rightarrow> True | Some t \<Rightarrow> t < now)"

definition claim_lease :: "string \<Rightarrow> string \<Rightarrow> cp \<Rightarrow> bool \<times> cp" where
  "claim_lease leaseId did s =
     (let P = (\<lambda>d. d_id d = did \<and> lease_free (clock s) d)
      in (list_ex P (t_deployments s),
          update_deployments P (\<lambda>d. d\<lparr>d_reconcileLeaseId := Some leaseId,
                                     d_reconcileLeaseUntil := Some (clock s + 60000)\<rparr>) s))"

definition release_lease :: "string \<Rightarrow> string \<Rightarrow> cp \<Rightarrow> cp" where
  "release_lease leaseId did s =
     update_deployments (\<lambda>d. d_id d = did \<and> d_reconcileLeaseId d = Some leaseId)
       (\<lambda>d. d\<lparr>d_reconcileLeaseId := None, d_reconcileLeaseUntil := None\<rparr>) s"

definition reconcileDeployment ::
  "host \<Rightarrow> (nat \<Rightarrow> cp \<Rightarrow> cp) \<Rightarrow> string \<Rightarrow> cp \<Rightarrow> (exn + unit) \<times> cp" where
  "reconcileDeployment h rival did s =
     (let (leaseId, s1) = randomUUID h s;
          (got, s2) = claim_lease leaseId did s1
      in if \<not> got then (Inr (), s2)
         else (let (r, s3) = reconcileDeploymentClaimed h rival did s2
               in (r, release_lease leaseId did s3)))"

subsection \<open>Stopping, superseding, restarting\<close>

definition restartDeploymentWorkloads ::
  "host \<Rightarrow> (nat \<Rightarrow> cp \<Rightarrow> cp) \<Rightarrow> string \<Rightarrow> cp \<Rightarrow> (exn + unit) \<times> cp" where
  "restartDeploymentWorkloads h rival did s =
     reconcileDeployment h rival did (request_all h WorkloadStop (workloads_of did s) s)"

definition supersede_one :: "host \<Rightarrow> string \<Rightarrow> deployment \<Rightarrow> cp \<Rightarrow> cp" where
  "supersede_one h currentId d s =
     (if d_id d = currentId then s
      else
        (let s1 = update_deployments (\<lambda>e. d_id e = d_id d)
                    (\<lambda>e. e\<lparr>d_desiredState := WantStopped, d_status := DepSuperseded, d_failureReason := None\<rparr>) s;
             s2 = log_event h (d_id d) ''deployment.superseded'' (''Superseded by deployment '' @ currentId) id s1
         in request_all h WorkloadStop (workloads_of (d_id d) s2) s2))"

definition supersedePreviousDeployments :: "host \<Rightarrow> string \<Rightarrow> string \<Rightarrow> cp \<Rightarrow> cp" where
  "supersedePreviousDeployments h app currentId s =
     fold (supersede_one h currentId)
       (filter (\<lambda>d. d_applicationId d = app \<and> d_desiredState d = WantRunning) (t_deployments s)) s"

definition stop_one :: "host \<Rightarrow> deployment \<Rightarrow> cp \<Rightarrow> cp" where
  "stop_one h d s =
     (let s1 = update_deployments (\<lambda>e. d_id e = d_id d) (\<lambda>e. e\<lparr>d_desiredState := WantStopped\<rparr>) s
      in request_all h WorkloadStop (workloads_of (d_id d) s1) s1)"

definition stopApplicationWorkloads :: "host \<Rightarrow> string \<Rightarrow> cp \<Rightarrow> cp" where
  "stopApplicationWorkloads h app s =
     fold (stop_one h) (filter (\<lambda>d. d_applicationId d = app) (t_deployments s)) s"

text \<open>One tick of the controller: a failing deployment is logged and does not stop the others.\<close>

definition controller_tick :: "host \<Rightarrow> (nat \<Rightarrow> cp \<Rightarrow> cp) \<Rightarrow> cp \<Rightarrow> cp" where
  "controller_tick h rival s =
     fold (\<lambda>did t. snd (reconcileDeployment h rival did t)) (map d_id (t_deployments s)) s"

end
