(* ===== verification/Lease.thy ===== *)
theory Lease
  imports Prelude
begin

text \<open>
  Leases: several workers want exclusive use of one row for a while. A worker claims the row when
  nobody holds it or the holder's time is over, works, and releases it if it still holds it. The
  locale \<open>lease\<close> is the contract of such a row; the step relation \<open>lease_step\<close> lets any number of
  workers claim, work, release and crash in any order while time passes. Proved once: at every moment
  at most one worker holds a lease that has not run out.
\<close>

text \<open>A state of the protocol: the store and the leases handed out and not given back, each with the
  moment it runs out.\<close>

inductive lease_step ::
  "('s \<Rightarrow> int) \<Rightarrow> ('s \<Rightarrow> (string \<times> int) option) \<Rightarrow> (string \<Rightarrow> 's \<Rightarrow> 's option) \<Rightarrow> (string \<Rightarrow> 's \<Rightarrow> 's) \<Rightarrow> int
     \<Rightarrow> 's \<times> (string \<times> int) list \<Rightarrow> 's \<times> (string \<times> int) list \<Rightarrow> bool"
  for now lease_of claim release ttl where
  claimed: "claim i s = Some s' \<Longrightarrow> i \<notin> fst ` set hs \<Longrightarrow>
     lease_step now lease_of claim release ttl (s, hs) (s', (i, now s + ttl) # hs)"
| released: "(i, t) \<in> set hs \<Longrightarrow>
     lease_step now lease_of claim release ttl (s, hs) (release i s, filter (\<lambda>h. fst h \<noteq> i) hs)"
| working: "lease_of s' = lease_of s \<Longrightarrow> now s \<le> now s' \<Longrightarrow>
     lease_step now lease_of claim release ttl (s, hs) (s', hs)"

abbreviation lease_run where
  "lease_run now lease_of claim release ttl \<equiv> (lease_step now lease_of claim release ttl)\<^sup>*\<^sup>*"

text \<open>A lease that is still valid is the one the row shows.\<close>

definition lease_inv :: "('s \<Rightarrow> int) \<Rightarrow> ('s \<Rightarrow> (string \<times> int) option) \<Rightarrow> 's \<times> (string \<times> int) list \<Rightarrow> bool" where
  "lease_inv now lease_of c \<longleftrightarrow> distinct (map fst (snd c))
     \<and> (\<forall>h \<in> set (snd c). now (fst c) \<le> snd h \<longrightarrow> lease_of (fst c) = Some h)"

definition valid_leases :: "('s \<Rightarrow> int) \<Rightarrow> 's \<times> (string \<times> int) list \<Rightarrow> (string \<times> int) list" where
  "valid_leases now c = filter (\<lambda>h. now (fst c) \<le> snd h) (snd c)"

locale lease =
  fixes now :: "'s \<Rightarrow> int"
    and lease_of :: "'s \<Rightarrow> (string \<times> int) option"
    and claim :: "string \<Rightarrow> 's \<Rightarrow> 's option"
    and release :: "string \<Rightarrow> 's \<Rightarrow> 's"
    and ttl :: int
  assumes claim_free: "claim i s = Some s' \<Longrightarrow> lease_of s = Some (j, t) \<Longrightarrow> t < now s"
    and claim_shows: "claim i s = Some s' \<Longrightarrow> lease_of s' = Some (i, now s + ttl)"
    and claim_now: "claim i s = Some s' \<Longrightarrow> now s' = now s"
    and release_own: "lease_of s = Some (i, t) \<Longrightarrow> lease_of (release i s) = None"
    and release_other: "lease_of s = Some (j, t) \<Longrightarrow> j \<noteq> i \<Longrightarrow> lease_of (release i s) = Some (j, t)"
    and release_now: "now (release i s) = now s"
begin

lemma step_inv:
  assumes "lease_step now lease_of claim release ttl c c'" and "lease_inv now lease_of c"
  shows "lease_inv now lease_of c'"
  using assms
proof (induction rule: lease_step.induct)
  case (claimed i s s' hs)
  have "lease_of s' = Some h" if "h \<in> set ((i, now s + ttl) # hs)" "now s' \<le> snd h" for h
  proof (cases "h \<in> set hs")
    case True
    with claimed that(2) have "lease_of s = Some h" by (simp add: lease_inv_def claim_now)
    with claimed(1) that(2) show ?thesis by (cases h) (auto simp: claim_now dest: claim_free)
  next
    case False
    with that claimed(1) claim_shows show ?thesis by auto
  qed
  with claimed show ?case by (auto simp: lease_inv_def)
next
  case (released i t hs s)
  have "lease_of (release i s) = Some h" if "h \<in> set hs" "fst h \<noteq> i" "now s \<le> snd h" for h
  proof -
    from released that have "lease_of s = Some h" by (simp add: lease_inv_def)
    with that(2) release_other [of s "fst h" "snd h" i] show ?thesis by simp
  qed
  with released show ?case by (auto simp: lease_inv_def release_now distinct_map_filter)
next
  case (working s' s hs)
  then show ?case by (auto simp: lease_inv_def)
qed

lemma run_inv:
  assumes "lease_run now lease_of claim release ttl c c'" and "lease_inv now lease_of c"
  shows "lease_inv now lease_of c'"
  using assms by (induction rule: rtranclp_induct) (auto intro: step_inv)

text \<open>Mutual exclusion.\<close>

lemma exclusive_inv:
  assumes inv: "lease_inv now lease_of c"
  shows "length (valid_leases now c) \<le> 1"
proof -
  have same: "h = h'" if "h \<in> set (valid_leases now c)" "h' \<in> set (valid_leases now c)" for h h'
  proof -
    from that inv have "lease_of (fst c) = Some h" "lease_of (fst c) = Some h'"
      by (auto simp: valid_leases_def lease_inv_def)
    then show ?thesis by simp
  qed
  have "distinct (valid_leases now c)"
    using inv by (simp add: lease_inv_def valid_leases_def distinct_map)
  then have "length (valid_leases now c) = card (set (valid_leases now c))" by (simp add: distinct_card)
  also have "\<dots> \<le> 1" using same by (simp add: card_le_Suc0_iff_eq)
  finally show ?thesis .
qed

lemma exclusive:
  assumes "lease_run now lease_of claim release ttl (s, []) c"
  shows "length (valid_leases now c) \<le> 1"
  by (rule exclusive_inv, rule run_inv [OF assms]) (simp add: lease_inv_def)

end

inductive_cases lease_stepE: "lease_step now lease_of claim release ttl (s, hs) c"

end
