(* ===== verification/ReconcileProperties.thy ===== *)
theory ReconcileProperties
  imports DeploymentController Lease
begin

text \<open>
  What the reconciler of \<open>DeploymentController\<close> guarantees: the placement loop ends with the fuel it is
  given, every placement pairs one workload with one start command on an eligible node, nodes are not
  overcommitted, dynamic host ports never collide, stopping is complete and idempotent, superseding
  leaves one wanted revision, recovery is bounded, and the lease excludes a second reconciler.
\<close>

subsection \<open>Asking workloads to stop\<close>

lemma requestStateChange_frames [simp]:
  "t_deployments (requestStateChange h ty w s) = t_deployments s"
  "t_volumes (requestStateChange h ty w s) = t_volumes s"
  "t_reservations (requestStateChange h ty w s) = t_reservations s"
  "t_nodes (requestStateChange h ty w s) = t_nodes s"
  "clock (requestStateChange h ty w s) = clock s"
  by (simp_all add: requestStateChange_def split: option.splits)

lemma request_all_Nil [simp]: "request_all h ty [] s = s"
  by (simp add: request_all_def)

lemma request_all_Cons: "request_all h ty (w # ws) s = request_all h ty ws (requestStateChange h ty w s)"
  by (simp add: request_all_def)

lemma request_all_frames [simp]:
  "t_deployments (request_all h ty ws s) = t_deployments s"
  "t_volumes (request_all h ty ws s) = t_volumes s"
  "t_reservations (request_all h ty ws s) = t_reservations s"
  "t_nodes (request_all h ty ws s) = t_nodes s"
  "clock (request_all h ty ws s) = clock s"
  by (induction ws arbitrary: s) (simp_all add: request_all_Cons)

text \<open>A workload is settled for a target when it is not on a node, already has the target as desired
  state, or a command that will bring it there is on its way.\<close>

definition settled :: "agent_command_type \<Rightarrow> cp \<Rightarrow> workload \<Rightarrow> bool" where
  "settled ty s w \<longleftrightarrow> \<not> truthy (w_nodeId w) \<or> w_desiredState w = target_state ty \<or> outstanding (w_id w) ty s"

lemma settled_same: "settled ty s w \<Longrightarrow> requestStateChange h ty w s = s"
  by (auto simp: settled_def requestStateChange_def truthy_def split: option.splits)

lemma outstanding_append: "outstanding i ty s \<Longrightarrow> t_commands s' = t_commands s @ cs \<Longrightarrow> outstanding i ty s'"
  by (simp add: outstanding_def)

lemma requestStateChange_commands: "\<exists>cs. t_commands (requestStateChange h ty w s) = t_commands s @ cs"
  by (simp add: requestStateChange_def split: option.splits)

lemma requestStateChange_workloads:
  "t_workloads (requestStateChange h ty w s) = t_workloads s \<or>
   t_workloads (requestStateChange h ty w s) = upd_where (\<lambda>r. w_id r = w_id w)
      (\<lambda>r. r\<lparr>w_desiredState := target_state ty, w_updatedAt := clock s\<rparr>) (t_workloads s)"
  by (simp add: requestStateChange_def split: option.splits)

lemma settled_mono:
  assumes "settled ty s r" and "r' = r \<or> r' = r\<lparr>w_desiredState := target_state ty, w_updatedAt := now\<rparr>"
    and "t_commands s' = t_commands s @ cs"
  shows "settled ty s' r'"
  using assms outstanding_append [OF _ assms(3)] by (auto simp: settled_def)

text \<open>One request settles its workload and unsettles no other.\<close>

lemma requestStateChange_settles:
  assumes mem: "w \<in> set (t_workloads s)" and key: "distinct (map w_id (t_workloads s))"
    and r': "r' \<in> set (t_workloads (requestStateChange h ty w s))"
    and prev: "w_id r' = w_id w \<or> (\<forall>r \<in> set (t_workloads s). w_id r = w_id r' \<longrightarrow> settled ty s r)"
  shows "settled ty (requestStateChange h ty w s) r'"
proof (cases "settled ty s w")
  case True
  with settled_same have same: "requestStateChange h ty w s = s" by blast
  have "w_id r' = w_id w \<Longrightarrow> r' = w"
    using keyed_unique [OF key] r' mem by (simp add: same)
  with prev r' True show ?thesis unfolding same by blast
next
  case False
  then obtain nid where n: "w_nodeId w = Some nid" "nid \<noteq> []" "w_desiredState w \<noteq> target_state ty"
      "\<not> outstanding (w_id w) ty s"
    by (auto simp: settled_def truthy_def)
  then have ws: "t_workloads (requestStateChange h ty w s) = upd_where (\<lambda>r. w_id r = w_id w)
      (\<lambda>r. r\<lparr>w_desiredState := target_state ty, w_updatedAt := clock s\<rparr>) (t_workloads s)"
    by (simp add: requestStateChange_def)
  obtain cs where cs: "t_commands (requestStateChange h ty w s) = t_commands s @ cs"
    using requestStateChange_commands by blast
  from r' [unfolded ws] show ?thesis
  proof (rule upd_whereE)
    fix r0 assume "r' = r0\<lparr>w_desiredState := target_state ty, w_updatedAt := clock s\<rparr>"
    then show ?thesis by (simp add: settled_def)
  next
    assume "r' \<in> set (t_workloads s)" "w_id r' \<noteq> w_id w"
    with prev have "settled ty s r'" by blast
    then show ?thesis using settled_mono [OF _ _ cs] by blast
  qed
qed

lemma requestStateChange_ids [simp]:
  "map w_id (t_workloads (requestStateChange h ty w s)) = map w_id (t_workloads s)"
  "map (\<lambda>r. (w_id r, w_deploymentId r)) (t_workloads (requestStateChange h ty w s))
     = map (\<lambda>r. (w_id r, w_deploymentId r)) (t_workloads s)"
  using requestStateChange_workloads [of h ty w s]
  by (auto simp: map_upd_where_inv)

lemma request_all_ids [simp]:
  "map w_id (t_workloads (request_all h ty ws s)) = map w_id (t_workloads s)"
  "map (\<lambda>r. (w_id r, w_deploymentId r)) (t_workloads (request_all h ty ws s))
     = map (\<lambda>r. (w_id r, w_deploymentId r)) (t_workloads s)"
  by (induction ws arbitrary: s) (simp_all add: request_all_Cons)

lemma requestStateChange_keeps:
  "r \<in> set (t_workloads s) \<Longrightarrow> w_id r \<noteq> w_id w \<Longrightarrow> r \<in> set (t_workloads (requestStateChange h ty w s))"
  using requestStateChange_workloads [of h ty w s] by (force simp: set_upd_where)

lemma request_all_settles_aux:
  assumes "set ws \<subseteq> set (t_workloads s)" "distinct (map w_id ws)" "distinct (map w_id (t_workloads s))"
    and "\<And>r. r \<in> set (t_workloads s) \<Longrightarrow> w_id r \<in> A \<Longrightarrow> settled ty s r"
    and "r' \<in> set (t_workloads (request_all h ty ws s))" "w_id r' \<in> A \<union> w_id ` set ws"
  shows "settled ty (request_all h ty ws s) r'"
  using assms
proof (induction ws arbitrary: s A)
  case Nil
  then show ?case by simp
next
  case (Cons w ws)
  let ?s = "requestStateChange h ty w s"
  have 1: "set ws \<subseteq> set (t_workloads ?s)"
    using Cons.prems(1,2) requestStateChange_keeps by (auto simp: image_iff) (metis subsetD)
  have 2: "distinct (map w_id ws)" "distinct (map w_id (t_workloads ?s))" using Cons.prems(2,3) by simp_all
  have 3: "settled ty ?s r" if "r \<in> set (t_workloads ?s)" "w_id r \<in> insert (w_id w) A" for r
    using requestStateChange_settles [OF _ Cons.prems(3) that(1)] Cons.prems(1,4) that(2) by auto
  have 4: "r' \<in> set (t_workloads (request_all h ty ws ?s))" "w_id r' \<in> insert (w_id w) A \<union> w_id ` set ws"
    using Cons.prems(5,6) by (auto simp: request_all_Cons)
  from Cons.IH [OF 1 2 3 4] show ?case by (simp add: request_all_Cons)
qed

lemma request_all_settles:
  assumes "distinct (map w_id (t_workloads s))" "w \<in> set (workloads_of did (request_all h ty (workloads_of did s) s))"
  shows "settled ty (request_all h ty (workloads_of did s) s) w"
proof -
  let ?s' = "request_all h ty (workloads_of did s) s"
  have w: "w \<in> set (t_workloads ?s')" "w_deploymentId w = did" using assms(2) by (auto simp: workloads_of_def)
  have "(w_id w, w_deploymentId w) \<in> (\<lambda>r. (w_id r, w_deploymentId r)) ` set (t_workloads s)"
    using w(1) request_all_ids(2) [of h ty "workloads_of did s" s]
    by (metis (no_types, lifting) image_eqI list.set_map)
  then have "w_id w \<in> w_id ` set (workloads_of did s)" using w(2) by (auto simp: workloads_of_def)
  moreover have "distinct (map w_id (workloads_of did s))"
    using assms(1) by (simp add: workloads_of_def distinct_map_filter)
  ultimately show ?thesis
    using request_all_settles_aux [of "workloads_of did s" s "{}"] assms(1) w(1)
    by (auto simp: workloads_of_def)
qed

lemma request_all_settled:
  "(\<And>w. w \<in> set ws \<Longrightarrow> settled ty s w) \<Longrightarrow> request_all h ty ws s = s"
  by (induction ws) (simp_all add: request_all_Cons settled_same)

subsection \<open>The status refresh keeps what the reconciler reads\<close>

lemma status_change_keeps [simp]:
  "d_requirements (status_change now b nxt d) = d_requirements d"
  "d_runtimeConfig (status_change now b nxt d) = d_runtimeConfig d"
  by (simp_all add: status_change_def Let_def)

lemma refresh_keeps_row:
  assumes "find_deployment did s = Some d"
  obtains d' where "find_deployment did (snd (refreshDeploymentStatus h did s)) = Some d'"
    "d_desiredState d' = d_desiredState d" "d_requirements d' = d_requirements d"
    "d_runtimeConfig d' = d_runtimeConfig d" "d_id d' = d_id d"
proof (cases "superseded_row d \<or> (d_status d, d_failureReason d) = derived_for d s")
  case True
  with refresh_same [OF assms True] assms that show ?thesis by simp
next
  case False
  with refresh_finds [OF assms, of h] that show ?thesis by simp
qed

definition stop_type :: "deployment \<Rightarrow> agent_command_type" where
  "stop_type d = (if d_desiredState d = WantDeleted then WorkloadDelete else WorkloadStop)"

lemma reconcile_stopping:
  assumes "find_deployment did s = Some d" "d_desiredState d \<noteq> WantRunning"
    and "requirementsSchema (h_zodUuid h) (d_requirements d) \<noteq> None"
  shows "reconcileDeploymentClaimed h rival did s
    = (Inr (), snd (refreshDeploymentStatus h did (request_all h (stop_type d) (workloads_of did s) s)))"
  using assms by (auto simp: reconcileDeploymentClaimed_def Let_def stop_type_def)


definition sample_stopping :: cp where
  "sample_stopping = sample_created\<lparr>
     t_deployments := map (\<lambda>d. d\<lparr>d_desiredState := WantStopped\<rparr>) (t_deployments sample_created),
     t_workloads := [new_workload empty_cp ''w1'' ''id-0'' ''node-1'' []]\<rparr>"


subsection \<open>Frames of a placement\<close>

lemma fail_deployment_frames [simp]:
  "t_workloads (fail_deployment did r s) = t_workloads s"
  "t_commands (fail_deployment did r s) = t_commands s"
  "t_volumes (fail_deployment did r s) = t_volumes s"
  "t_nodes (fail_deployment did r s) = t_nodes s"
  "t_reservations (fail_deployment did r s) = t_reservations s"
  by (simp_all add: fail_deployment_def)

lemma store_requirements_frames [simp]:
  "t_workloads (store_requirements did q s) = t_workloads s"
  "t_commands (store_requirements did q s) = t_commands s"
  "t_volumes (store_requirements did q s) = t_volumes s"
  "t_nodes (store_requirements did q s) = t_nodes s"
  "t_reservations (store_requirements did q s) = t_reservations s"
  "clock (store_requirements did q s) = clock s"
  by (simp_all add: store_requirements_def)

lemma randomUUID_frames:
  assumes "randomUUID h s = (i, s')"
  shows "t_workloads s' = t_workloads s" "t_commands s' = t_commands s" "t_volumes s' = t_volumes s"
    "t_nodes s' = t_nodes s" "t_reservations s' = t_reservations s" "clock s' = clock s"
    "t_deployments s' = t_deployments s"
  using assms by (auto simp: randomUUID_def)

lemma insert_reservations_conj:
  "insert_reservations h nid wid ports s = (x, s') \<Longrightarrow>
     t_workloads s' = t_workloads s \<and> t_commands s' = t_commands s \<and> t_volumes s' = t_volumes s
   \<and> t_nodes s' = t_nodes s \<and> clock s' = clock s"
proof (induction ports arbitrary: s)
  case Nil
  then show ?case by simp
next
  case (Cons p ports)
  obtain cport pr hp where p: "p = (cport, pr, hp)" by (cases p)
  obtain i s1 where u: "randomUUID h s = (i, s1)" by (cases "randomUUID h s")
  let ?r = "new_reservation s1 i nid wid cport hp pr"
  show ?case
  proof (cases "insert_reservation ?r s1")
    case None
    with Cons.prems randomUUID_frames [OF u] show ?thesis by (simp add: p u)
  next
    case (Some s2)
    then have "s2 = s1\<lparr>t_reservations := t_reservations s1 @ [?r]\<rparr>"
      by (simp add: insert_reservation_def split: if_splits)
    moreover have "insert_reservations h nid wid ports s2 = (x, s')" using Cons.prems Some by (simp add: p u)
    ultimately show ?thesis using Cons.IH randomUUID_frames [OF u] by simp
  qed
qed

lemma insert_reservations_frames:
  assumes "insert_reservations h nid wid ports s = (x, s')"
  shows "t_workloads s' = t_workloads s" "t_commands s' = t_commands s" "t_volumes s' = t_volumes s"
    "t_nodes s' = t_nodes s" "clock s' = clock s"
  using insert_reservations_conj [OF assms] by blast+

text \<open>A placement is one workload row and the one command that starts it, on the same node.\<close>

definition placement_pair :: "deployment \<Rightarrow> string \<Rightarrow> workload \<Rightarrow> agent_command \<Rightarrow> bool" where
  "placement_pair d nid w c \<longleftrightarrow>
     w_deploymentId w = d_id d \<and> w_desiredState w = WantRunning \<and> w_actualState w = ActPending
   \<and> w_nodeId w = Some nid \<and> c_nodeId c = nid \<and> c_resourceId c = w_id w
   \<and> c_type c = command_type_str WorkloadStart \<and> c_status c = CmdPending"

lemma placement_pair_written:
  "placement_pair d nid (placed_workload s wid d nid reasons replacement)
     (new_command t cid nid WorkloadStart wid payload ttl)"
  by (cases replacement) (simp_all add: placement_pair_def placed_workload_def new_workload_def new_command_def)

lemma write_placement_cases:
  obtains (failed) e s' where
      "write_placement h d nid wid cid reasons replacement attempt ports pinned req cfg s = (Inl e, s')"
      "t_workloads s' = t_workloads s" "t_commands s' = t_commands s" "t_volumes s' = t_volumes s"
      "t_nodes s' = t_nodes s"
  | (written) w c s' where
      "write_placement h d nid wid cid reasons replacement attempt ports pinned req cfg s = (Inr (), s')"
      "t_workloads s' = t_workloads s @ [w]" "t_commands s' = t_commands s @ [c]"
      "t_volumes s' = t_volumes s" "t_nodes s' = t_nodes s" "placement_pair d nid w c"
proof -
  define s1 where "s1 = (case pinned of None \<Rightarrow> s | Some p \<Rightarrow> store_requirements (d_id d) p s)"
  define s2 where "s2 = (if replacement = None then s1
                else update_deployments (\<lambda>e. d_id e = d_id d)
                  (\<lambda>e. e\<lparr>d_recoveryAttempts := attempt, d_recoveryState := RecBackoff,
                         d_recoveryNextAttemptAt := Some (clock s + backoff_ms attempt)\<rparr>) s1)"
  define w where "w = placed_workload s2 wid d nid reasons replacement"
  define s3 where "s3 = s2\<lparr>t_workloads := t_workloads s2 @ [w]\<rparr>"
  have f: "t_workloads s3 = t_workloads s @ [w]" "t_commands s3 = t_commands s" "t_volumes s3 = t_volumes s"
      "t_nodes s3 = t_nodes s"
    by (auto simp: s3_def s2_def s1_def split: option.splits)
  obtain x s4 where i: "insert_reservations h nid wid ports s3 = (x, s4)"
    by (cases "insert_reservations h nid wid ports s3")
  note wp = write_placement_def [of h d nid wid cid reasons replacement attempt ports pinned req cfg s,
      folded s1_def, unfolded Let_def, folded s2_def, folded w_def, folded s3_def, unfolded i prod.case]
  show ?thesis
  proof (cases x)
    case (Inl e)
    with wp failed [of e "rolled_back s s4"] show ?thesis by (simp add: rolled_back_def)
  next
    case (Inr u)
    define s5 where "s5 = (case replacement of None \<Rightarrow> s4
        | Some r \<Rightarrow> log_event h (d_id d) ''workload.replacement_requested''
                            ''Replacement workload scheduled''
                            (\<lambda>e. e\<lparr>e_workloadId := Some wid, e_nodeId := Some nid,
                                   e_reason := Some (replacement_reason r)\<rparr>) s4)"
    let ?c = "new_command s5 cid nid WorkloadStart wid (start_payload wid d req cfg) COMMAND_DEADLINE_MS"
    have g: "t_workloads s5 = t_workloads s @ [w]" "t_commands s5 = t_commands s" "t_volumes s5 = t_volumes s"
        "t_nodes s5 = t_nodes s"
      using insert_reservations_frames [OF i] f by (auto simp: s5_def split: option.splits)
    have "write_placement h d nid wid cid reasons replacement attempt ports pinned req cfg s
        = (Inr (), s5\<lparr>t_commands := t_commands s5 @ [?c]\<rparr>)"
      using wp Inr by (simp add: s5_def)
    then show ?thesis
      by (rule written [of "s5\<lparr>t_commands := t_commands s5 @ [?c]\<rparr>" w ?c])
        (use g in \<open>simp_all add: w_def placement_pair_written\<close>)
  qed
qed

lemma start_replica_cases:
  obtains (stop) s' where "start_replica h ctx nid reasons req cands s = Return s'
      \<or> (\<exists>e. start_replica h ctx nid reasons req cands s = Throw e s')"
      "t_workloads s' = t_workloads s" "t_commands s' = t_commands s" "t_volumes s' = t_volumes s"
      "t_nodes s' = t_nodes s"
  | (placed) w c req' s' where
      "start_replica h ctx nid reasons req cands s = Placed req' (reserve cands nid req') s'"
      "t_workloads s' = t_workloads s @ [w]" "t_commands s' = t_commands s @ [c]"
      "t_volumes s' = t_volumes s" "t_nodes s' = t_nodes s" "placement_pair (rc_deployment ctx) nid w c"
      "req' = req \<or> req' = req\<lparr>wr_requiredNodeId := Some nid\<rparr>"
      "\<not> (rc_persistent ctx \<and> \<not> truthy (wr_requiredNodeId req)) \<longrightarrow> req' = req"
proof -
  define d where "d = rc_deployment ctx"
  obtain wid s1 where u1: "randomUUID h s = (wid, s1)" by (cases "randomUUID h s")
  obtain cid s2 where u2: "randomUUID h s1 = (cid, s2)" by (cases "randomUUID h s1")
  note f = randomUUID_frames [OF u1] randomUUID_frames [OF u2]
  define assigned where "assigned = assign_ports wid (occupied_ports nid s2) (rc_ports ctx)"
  define replacement where "replacement = List.find needs_replacement (rc_workloads ctx)"
  define attempt where
    "attempt = (if replacement = None then d_recoveryAttempts d else d_recoveryAttempts d + 1)"
  define pinned where "pinned = (if rc_persistent ctx \<and> \<not> truthy (wr_requiredNodeId req)
      then Some (req\<lparr>wr_requiredNodeId := Some nid\<rparr>) else None)"
  define req' where "req' = (case pinned of Some p \<Rightarrow> p | None \<Rightarrow> req)"
  note sr = start_replica_def [of h ctx nid reasons req cands s, folded d_def, unfolded Let_def u1 u2 prod.case,
      folded assigned_def replacement_def, folded attempt_def pinned_def, folded req'_def]
  have req': "req' = req \<or> req' = req\<lparr>wr_requiredNodeId := Some nid\<rparr>"
      "\<not> (rc_persistent ctx \<and> \<not> truthy (wr_requiredNodeId req)) \<longrightarrow> req' = req"
    by (auto simp: req'_def pinned_def)
  show ?thesis
  proof (cases "length assigned \<noteq> length (filter is_public (rc_ports ctx))")
    case True
    show ?thesis
      by (rule stop [of "fail_deployment (d_id d) ''No dynamic host port is available on the selected node'' s2"])
        (use sr f True in simp_all)
  next
    case False
    show ?thesis
    proof (cases "command_runtime_config assigned (d_runtimeConfig d)")
      case None
      show ?thesis by (rule stop [of s2]) (use sr f False None in simp_all)
    next
      case (Some cfg)
      show ?thesis
      proof (cases "MAX_RECOVERY_ATTEMPTS < attempt")
        case True
        define s3 where "s3 = log_event h (d_id d) ''deployment.manual_intervention_required''
                    ''Automatic recovery attempts exhausted''
                    (\<lambda>e. e\<lparr>e_workloadId := map_option w_id replacement,
                           e_reason := Some ''RECOVERY_ATTEMPTS_EXHAUSTED''\<rparr>)
                    (update_deployments (\<lambda>e. d_id e = d_id d)
                      (\<lambda>e. e\<lparr>d_recoveryState := RecManual, d_status := DepFailed,
                             d_failureReason := Some ''Automatic recovery attempts exhausted''\<rparr>) s2)"
        have s3: "t_workloads s3 = t_workloads s" "t_commands s3 = t_commands s" "t_volumes s3 = t_volumes s"
            "t_nodes s3 = t_nodes s"
          unfolding s3_def by (simp_all add: f)
        have "start_replica h ctx nid reasons req cands s = Return s3"
          using sr False Some True by (simp add: s3_def)
        with s3 show ?thesis by (intro stop [of s3]) auto
      next
        case ok: False
        note sr' = sr [unfolded if_not_P [OF False] if_not_P [OF ok] Some option.case]
        show ?thesis
        proof (cases rule: write_placement_cases [of h d nid wid cid reasons replacement attempt
              assigned pinned req cfg s2])
          case (failed e s3)
          define s4 where "s4 = (if e \<noteq> Unique_violation then s3 else
              log_event h (d_id d) ''workload.port_reservation_failed''
                  ''Requested public host port is no longer available''
                  (\<lambda>e. e\<lparr>e_nodeId := Some nid, e_reason := Some ''PORT_UNAVAILABLE''\<rparr>)
                  (fail_deployment (d_id d) ''Requested public host port is no longer available'' s3))"
          have s4: "t_workloads s4 = t_workloads s" "t_commands s4 = t_commands s" "t_volumes s4 = t_volumes s"
              "t_nodes s4 = t_nodes s"
            unfolding s4_def by (simp_all add: f failed)
          have "start_replica h ctx nid reasons req cands s = Return s4
              \<or> (\<exists>e. start_replica h ctx nid reasons req cands s = Throw e s4)"
            using sr' failed(1) by (simp add: s4_def)
          with s4 show ?thesis by (intro stop [of s4]) auto
        next
          case (written w c s3)
          show ?thesis by (rule placed [of req' s3 w c]) (use sr' f req' written in \<open>simp_all add: d_def\<close>)
        qed
      qed
    qed
  qed
qed

subsection \<open>Volume claims\<close>

definition all_bound :: "string list \<Rightarrow> cp \<Rightarrow> bool" where
  "all_bound ids s \<longleftrightarrow> list_all (\<lambda>v. v_id v \<notin> set ids \<or> v_nodeId v \<noteq> None) (t_volumes s)"

text \<open>Other reconcilers only claim volumes, and a volume that is bound stays where it is.\<close>

definition volume_rivals :: "string list \<Rightarrow> (nat \<Rightarrow> cp \<Rightarrow> cp) \<Rightarrow> bool" where
  "volume_rivals ids rival \<longleftrightarrow> (\<forall>k s. rival k s = s\<lparr>t_volumes := t_volumes (rival k s)\<rparr>
     \<and> (all_bound ids s \<longrightarrow> all_bound ids (rival k s) \<and> bound_nodes ids (rival k s) = bound_nodes ids s))"

definition pinned_to :: "string list \<Rightarrow> workload_requirements \<Rightarrow> cp \<Rightarrow> string \<Rightarrow> bool" where
  "pinned_to ids req s n \<longleftrightarrow>
     n \<noteq> [] \<and> wr_requiredNodeId req = Some n \<and> bound_nodes ids s = [n] \<and> all_bound ids s"

lemma volume_rivals_frames:
  assumes "volume_rivals ids rival"
  shows "t_workloads (rival k s) = t_workloads s" "t_commands (rival k s) = t_commands s"
    "t_nodes (rival k s) = t_nodes s" "t_reservations (rival k s) = t_reservations s"
proof -
  have "rival k s = s\<lparr>t_volumes := t_volumes (rival k s)\<rparr>"
    using assms unfolding volume_rivals_def by blast
  show "t_workloads (rival k s) = t_workloads s" "t_commands (rival k s) = t_commands s"
    "t_nodes (rival k s) = t_nodes s" "t_reservations (rival k s) = t_reservations s"
    by (subst \<open>rival k s = s\<lparr>t_volumes := t_volumes (rival k s)\<rparr>\<close>, simp)+
qed

lemma bound_nodes_truthy: "n \<in> set (bound_nodes ids s) \<Longrightarrow> n \<noteq> []"
  by (auto simp: bound_nodes_def truthy_def)

lemma bound_nodes_cong: "t_volumes s = t_volumes t \<Longrightarrow> bound_nodes ids s = bound_nodes ids t"
  by (simp add: bound_nodes_def)

lemma all_bound_cong: "t_volumes s = t_volumes t \<Longrightarrow> all_bound ids s = all_bound ids t"
  by (simp add: all_bound_def)

abbreviation bind_unbound :: "string list \<Rightarrow> string \<Rightarrow> cp \<Rightarrow> cp" where
  "bind_unbound ids nid \<equiv> update_volumes (\<lambda>v. v_id v \<in> set ids \<and> v_nodeId v = None)
     (\<lambda>v. v\<lparr>v_nodeId := Some nid, v_status := VolInUse\<rparr>)"

lemma bind_unbound_all_bound: "all_bound ids (bind_unbound ids nid s)"
  by (auto simp: all_bound_def list_all_iff set_upd_where)

lemma bind_unbound_id:
  assumes "all_bound ids s" shows "t_volumes (bind_unbound ids nid s) = t_volumes s"
  using assms by (auto simp: all_bound_def list_all_iff intro!: upd_where_cong_none)

lemma claim_volumes_cases:
  assumes "volume_rivals (rc_managedIds ctx) rival"
  obtains (unmanaged) "rc_managedIds ctx = []" "claim_volumes (rival k) ctx nid req s = Claimed req s"
  | (conflict) s' where "rc_managedIds ctx \<noteq> []" "claim_volumes (rival k) ctx nid req s = ClaimConflict s'"
      "t_workloads s' = t_workloads s" "t_commands s' = t_commands s" "t_nodes s' = t_nodes s"
  | (retry) n req' s' where "rc_managedIds ctx \<noteq> []" "claim_volumes (rival k) ctx nid req s = ClaimRetry req' s'"
      "t_workloads s' = t_workloads s" "t_commands s' = t_commands s" "t_nodes s' = t_nodes s"
      "req' = req\<lparr>wr_requiredNodeId := Some n\<rparr>" "n \<noteq> nid" "pinned_to (rc_managedIds ctx) req' s' n"
  | (claimed) req' s' where "rc_managedIds ctx \<noteq> []" "claim_volumes (rival k) ctx nid req s = Claimed req' s'"
      "t_workloads s' = t_workloads s" "t_commands s' = t_commands s" "t_nodes s' = t_nodes s"
      "req' = req\<lparr>wr_requiredNodeId := Some nid\<rparr>" "pinned_to (rc_managedIds ctx) req' s' nid"
proof (cases "rc_managedIds ctx = []")
  case True
  then show ?thesis by (intro unmanaged) (simp_all add: claim_volumes_def)
next
  case False
  define ids where "ids = rc_managedIds ctx"
  define did where "did = d_id (rc_deployment ctx)"
  define s1 where "s1 = bind_unbound ids nid (rival k s)"
  note r = volume_rivals_frames [OF assms]
  have f: "t_workloads s1 = t_workloads s" "t_commands s1 = t_commands s" "t_nodes s1 = t_nodes s"
    by (simp_all add: s1_def r)
  have ab: "all_bound ids s1" by (simp add: s1_def bind_unbound_all_bound)
  note cv = claim_volumes_def [of "rival k" ctx nid req s, unfolded if_not_P [OF False] Let_def,
      folded did_def ids_def, folded s1_def]
  show ?thesis
  proof (cases "length (bound_nodes ids s1) = 1")
    case one: False
    show ?thesis
      by (rule conflict [OF False, of "fail_deployment did ''Local volume affinity conflict'' s1"])
        (use cv one f in simp_all)
  next
    case True
    then obtain n where n: "bound_nodes ids s1 = [n]" by (auto simp: length_Suc_conv)
    have ne: "n \<noteq> []" using bound_nodes_truthy [of n ids s1] n by simp
    let ?req = "req\<lparr>wr_requiredNodeId := Some n\<rparr>"
    let ?s = "store_requirements did ?req s1"
    have p: "pinned_to ids ?req ?s n"
      using n ne ab bound_nodes_cong [of ?s s1 ids] all_bound_cong [of ?s s1 ids] by (simp add: pinned_to_def)
    show ?thesis
    proof (cases "n = nid")
      case True
      show ?thesis
        by (rule claimed [OF False, of ?req ?s]) (use cv n f p True in \<open>simp_all add: ids_def\<close>)
    next
      case neq: False
      show ?thesis
        by (rule retry [OF False, of ?req ?s n]) (use cv n f p neq in \<open>simp_all add: ids_def\<close>)
    qed
  qed
qed

lemma claim_volumes_pinned:
  assumes "volume_rivals (rc_managedIds ctx) rival" "pinned_to (rc_managedIds ctx) req s nid"
    and "claim_volumes (rival k) ctx nid req s = ClaimRetry req' s'"
  shows False
proof -
  let ?ids = "rc_managedIds ctx"
  have r: "all_bound ?ids (rival k s)" "bound_nodes ?ids (rival k s) = [nid]"
    using assms(1,2) by (simp_all add: volume_rivals_def pinned_to_def)
  have "bound_nodes ?ids (bind_unbound ?ids nid (rival k s)) = [nid]"
    using bound_nodes_cong [OF bind_unbound_id [OF r(1)]] r(2) by simp
  with assms(3) show False by (simp add: claim_volumes_def Let_def split: if_splits)
qed

subsection \<open>The placement loop\<close>

text \<open>The constraints of a placement that do not depend on load or affinity, on the node row itself.\<close>

definition node_eligible :: "workload_requirements \<Rightarrow> node \<Rightarrow> bool" where
  "node_eligible req n \<longleftrightarrow> n_status n = Ready \<and> n_schedulingEnabled n = 1 \<and> wr_runtime req \<in> set (n_runtimes n)
     \<and> (\<forall>a. wr_architecture req = Some a \<longrightarrow> a = [] \<or> n_architecture n = a)
     \<and> (\<forall>r. wr_region req = Some r \<longrightarrow> r = [] \<or> n_region n = Some r)
     \<and> (\<forall>ls. wr_requiredLabels req = Some ls \<longrightarrow> (\<forall>(k, v) \<in> set ls. map_of (n_labels n) k = Some v))"

definition mirrors :: "node \<Rightarrow> node_snapshot \<Rightarrow> bool" where
  "mirrors n c \<longleftrightarrow> ns_id c = n_id n \<and> ns_status c = n_status n \<and> ns_schedulingEnabled c = (n_schedulingEnabled n = 1)
     \<and> ns_architecture c = n_architecture n \<and> ns_region c = n_region n \<and> ns_labels c = n_labels n
     \<and> ns_runtimes c = n_runtimes n"

definition cands_of :: "node list \<Rightarrow> node_snapshot list \<Rightarrow> bool" where
  "cands_of nodes cands \<longleftrightarrow> (\<forall>c \<in> set cands. \<exists>n \<in> set nodes. mirrors n c)"

lemma loadCandidates_mirror: "cands_of (t_nodes s) (loadCandidates h s)"
  by (force simp: cands_of_def loadCandidates_def node_candidate_def mirrors_def split: option.splits)

lemma reserve_mirror: "cands_of nodes cands \<Longrightarrow> cands_of nodes (reserve cands nid req)"
  by (induction cands) (auto simp: cands_of_def mirrors_def)

lemma fits_eligible:
  assumes "cands_of nodes cands" "c \<in> set cands" "node_fits req c"
  shows "\<exists>n \<in> set nodes. n_id n = ns_id c \<and> node_eligible req n"
proof -
  from assms(1,2) obtain n where n: "n \<in> set nodes" "mirrors n c" by (auto simp: cands_of_def)
  with assms(3) have "node_eligible req n" by (simp add: node_eligible_def node_fits_def mirrors_def)
  with n show ?thesis by (auto simp: mirrors_def)
qed

lemma node_eligible_affinity [simp]:
  "node_eligible (req\<lparr>wr_requiredNodeId := x\<rparr>) n = node_eligible req n"
  by (simp add: node_eligible_def)

definition placement_ok :: "reconcile_ctx \<Rightarrow> workload_requirements \<Rightarrow> node list \<Rightarrow> workload \<times> agent_command \<Rightarrow> bool" where
  "placement_ok ctx req nodes wc \<longleftrightarrow> (\<exists>nid. placement_pair (rc_deployment ctx) nid (fst wc) (snd wc)
     \<and> (\<exists>n \<in> set nodes. n_id n = nid \<and> node_eligible req n))"

definition step_pinned :: "reconcile_ctx \<Rightarrow> workload_requirements \<Rightarrow> cp \<Rightarrow> bool" where
  "step_pinned ctx req s \<longleftrightarrow> rc_managedIds ctx = [] \<or> (\<exists>n. pinned_to (rc_managedIds ctx) req s n)"

lemma place_step_cases:
  assumes riv: "volume_rivals (rc_managedIds ctx) rival" and cands: "cands_of (t_nodes s) cands"
  obtains (halt) s' where "place_step h (rival k) ctx req cands s = Return s'
      \<or> (\<exists>e. place_step h (rival k) ctx req cands s = Throw e s')"
      "t_workloads s' = t_workloads s" "t_commands s' = t_commands s"
  | (again) x s' where "place_step h (rival k) ctx req cands s = Retry (req\<lparr>wr_requiredNodeId := x\<rparr>) s'"
      "t_workloads s' = t_workloads s" "t_commands s' = t_commands s" "t_nodes s' = t_nodes s"
      "step_pinned ctx (req\<lparr>wr_requiredNodeId := x\<rparr>) s'" "\<not> step_pinned ctx req s"
  | (put) x nid w c s' where
      "place_step h (rival k) ctx req cands s = Placed (req\<lparr>wr_requiredNodeId := x\<rparr>)
         (reserve cands nid (req\<lparr>wr_requiredNodeId := x\<rparr>)) s'"
      "t_workloads s' = t_workloads s @ [w]" "t_commands s' = t_commands s @ [c]" "t_nodes s' = t_nodes s"
      "placement_ok ctx req (t_nodes s) (w, c)" "step_pinned ctx (req\<lparr>wr_requiredNodeId := x\<rparr>) s'"
proof -
  let ?d = "rc_deployment ctx"
  have self: "req\<lparr>wr_requiredNodeId := wr_requiredNodeId req\<rparr> = req" by simp
  show ?thesis
  proof (cases "d_recoveryState ?d = RecManual \<or> (case d_recoveryNextAttemptAt ?d of Some t \<Rightarrow> clock s < t | None \<Rightarrow> False)
      \<or> \<not> truthy (sd_nodeId (scheduleWorkload (h_localeCompare h) cands req))")
    case True
    define s' where "s' = (if d_recoveryState ?d = RecManual
        then fail_deployment (d_id ?d) ''Automatic recovery attempts exhausted'' s
        else if (case d_recoveryNextAttemptAt ?d of Some t \<Rightarrow> clock s < t | None \<Rightarrow> False) then s
        else snd (refreshDeploymentStatus h (d_id ?d) s))"
    have "place_step h (rival k) ctx req cands s = Return s'"
      using True by (auto simp add: place_step_def Let_def s'_def)
    moreover have "t_workloads s' = t_workloads s" "t_commands s' = t_commands s" by (simp_all add: s'_def)
    ultimately show ?thesis by (intro halt [of s']) auto
  next
    case False
    then obtain nid where nid: "sd_nodeId (scheduleWorkload (h_localeCompare h) cands req) = Some nid" "nid \<noteq> []"
      by (auto simp: truthy_def)
    define reasons where "reasons = sd_reasons (scheduleWorkload (h_localeCompare h) cands req)"
    have ps: "place_step h (rival k) ctx req cands s = (case claim_volumes (rival k) ctx nid req s of
            ClaimConflict s1 \<Rightarrow> Return s1 | ClaimRetry req' s1 \<Rightarrow> Retry req' s1
          | Claimed req' s1 \<Rightarrow> start_replica h ctx nid reasons req' cands s1)"
      unfolding reasons_def using False nid by (simp add: place_step_def Let_def)
    from scheduleWorkload_fits [OF nid(1)] obtain c0 where
      c0: "c0 \<in> set cands" "ns_id c0 = nid" "node_fits req c0" .
    have el: "\<exists>n \<in> set (t_nodes s). n_id n = nid \<and> node_eligible req n"
      using fits_eligible [OF cands c0(1,3)] c0(2) by blast
    have aff: "pinned_to (rc_managedIds ctx) req s n \<Longrightarrow> n = nid" for n
      using c0(2,3) by (auto simp: pinned_to_def node_fits_def)
    have start: thesis
      if ps': "place_step h (rival k) ctx req cands s = start_replica h ctx nid reasons req1 cands s1"
        and f: "t_workloads s1 = t_workloads s" "t_commands s1 = t_commands s" "t_nodes s1 = t_nodes s"
        and pin: "rc_managedIds ctx = [] \<or> pinned_to (rc_managedIds ctx) req1 s1 nid"
        and req1: "req1 = req\<lparr>wr_requiredNodeId := x1\<rparr>" for req1 s1 x1
    proof (cases rule: start_replica_cases [of h ctx nid reasons req1 cands s1])
      case (stop s')
      with ps' f show ?thesis by (intro halt [of s']) auto
    next
      case (placed w c req' s')
      have "truthy (wr_requiredNodeId req1)" if "rc_managedIds ctx \<noteq> []"
        using pin that by (auto simp: pinned_to_def truthy_def)
      then have "step_pinned ctx req' s'"
        using pin placed bound_nodes_cong [of s' s1] all_bound_cong [of s' s1]
        by (auto simp: step_pinned_def pinned_to_def)
      moreover have "placement_ok ctx req (t_nodes s) (w, c)" using placed(6) el by (auto simp: placement_ok_def)
      moreover obtain x where "req' = req\<lparr>wr_requiredNodeId := x\<rparr>" using placed(7) req1 by auto
      ultimately show ?thesis using placed ps' f by (intro put [of x nid s' w c]) auto
    qed
    from riv show ?thesis
    proof (cases rule: claim_volumes_cases [where k = k and nid = nid and req = req and s = s])
      case unmanaged
      then show ?thesis using ps self by (intro start [of req s "wr_requiredNodeId req"]) auto
    next
      case (conflict s')
      with ps show ?thesis by (intro halt [of s']) auto
    next
      case (retry n req' s')
      have "\<not> step_pinned ctx req s"
      proof
        assume "step_pinned ctx req s"
        with retry(1) obtain m where m: "pinned_to (rc_managedIds ctx) req s m" by (auto simp: step_pinned_def)
        with aff have "m = nid" by blast
        with claim_volumes_pinned [OF riv _ retry(2)] m show False by blast
      qed
      with retry ps show ?thesis by (intro again [of "Some n" s']) (auto simp: step_pinned_def)
    next
      case (claimed req' s')
      then show ?thesis using ps by (intro start [of req' s' "Some nid"]) auto
    qed
  qed
qed

lemma placement_ok_affinity [simp]:
  "placement_ok ctx (req\<lparr>wr_requiredNodeId := x\<rparr>) nodes = placement_ok ctx req nodes"
  by (rule ext) (simp add: placement_ok_def)

definition run_ok :: "reconcile_ctx \<Rightarrow> workload_requirements \<Rightarrow> nat \<Rightarrow> cp \<Rightarrow> loop_exit \<Rightarrow> cp \<Rightarrow> bool" where
  "run_ok ctx req n s x s' \<longleftrightarrow> x \<noteq> OutOfFuel \<and> (\<exists>ps. length ps \<le> n \<and> (x = Completed \<longleftrightarrow> length ps = n)
     \<and> t_workloads s' = t_workloads s @ map fst ps \<and> t_commands s' = t_commands s @ map snd ps
     \<and> list_all (placement_ok ctx req (t_nodes s)) ps)"

lemma run_ok_none:
  "t_workloads s' = t_workloads s \<Longrightarrow> t_commands s' = t_commands s \<Longrightarrow> x \<noteq> OutOfFuel \<Longrightarrow>
     (x = Completed \<longleftrightarrow> n = 0) \<Longrightarrow> run_ok ctx req n s x s'"
  unfolding run_ok_def by (intro conjI exI [of _ "[]"]) auto

lemma place_replicas_sound:
  assumes riv: "volume_rivals (rc_managedIds ctx) rival"
  shows "cands_of (t_nodes s) cands \<Longrightarrow> n + (if step_pinned ctx req s then 0 else 1) \<le> fuel \<Longrightarrow>
    place_replicas fuel h rival ctx n req cands s = (x, s') \<Longrightarrow> run_ok ctx req n s x s'"
proof (induction fuel arbitrary: n req cands s)
  case 0
  then show ?case by (auto intro: run_ok_none split: if_splits)
next
  case (Suc fuel)
  show ?case
  proof (cases n)
    case 0
    with Suc.prems show ?thesis by (auto intro: run_ok_none)
  next
    case (Suc m)
    from riv Suc.prems(1) show ?thesis
    proof (cases rule: place_step_cases [where k = fuel and h = h and req = req and s = s and cands = cands])
      case (halt s1)
      with Suc.prems(3) Suc show ?thesis by (auto intro!: run_ok_none)
    next
      case (again y s1)
      with Suc.prems(3) Suc have "place_replicas fuel h rival ctx n (req\<lparr>wr_requiredNodeId := y\<rparr>) cands s1 = (x, s')"
        by simp
      from Suc.IH [OF _ _ this] Suc.prems(1,2) again have "run_ok ctx (req\<lparr>wr_requiredNodeId := y\<rparr>) n s1 x s'"
        by simp
      with again(2-4) show ?thesis by (simp add: run_ok_def)
    next
      case (put y nid w c s1)
      let ?req = "req\<lparr>wr_requiredNodeId := y\<rparr>"
      from put Suc.prems(3) Suc
      have "place_replicas fuel h rival ctx m ?req (reserve cands nid ?req) s1 = (x, s')" by simp
      from Suc.IH [OF _ _ this] reserve_mirror [OF Suc.prems(1)] put(4,6) Suc.prems(2) Suc
      have "run_ok ctx ?req m s1 x s'" by (simp split: if_splits)
      then obtain ps where ps: "x \<noteq> OutOfFuel" "length ps \<le> m" "x = Completed \<longleftrightarrow> length ps = m"
        "t_workloads s' = t_workloads s1 @ map fst ps" "t_commands s' = t_commands s1 @ map snd ps"
        "list_all (placement_ok ctx req (t_nodes s)) ps"
        using put(4) by (auto simp: run_ok_def)
      show ?thesis unfolding run_ok_def
        by (intro conjI exI [of _ "(w, c) # ps"]) (use ps put Suc in auto)
    qed
  qed
qed

text \<open>C9. The placement loop of a reconciliation always ends, although a lost volume claim retries
  without consuming a replica, and its effect on workloads and commands is exactly a list of at most
  as many placements as replicas are missing, all of them when it completes: each placement is one new
  workload that should run together with the one start command for it, on the same node, and that node
  is ready, open for scheduling and meets runtime, architecture, region and labels.\<close>

theorem placements_sound:
  assumes "volume_rivals (rc_managedIds ctx) rival"
    and "place_replicas (Suc n) h rival ctx n req (loadCandidates h s) s = (x, s')"
  shows "x \<noteq> OutOfFuel \<and> (\<exists>ps. length ps \<le> n \<and> (x = Completed \<longleftrightarrow> length ps = n)
     \<and> t_workloads s' = t_workloads s @ map fst ps \<and> t_commands s' = t_commands s @ map snd ps
     \<and> list_all (placement_ok ctx req (t_nodes s)) ps)"
  using place_replicas_sound [OF assms(1) loadCandidates_mirror _ assms(2)] by (simp add: run_ok_def)

definition sample_node_row :: node where
  "sample_node_row = \<lparr>n_id = ''node-1'', n_organizationId = None, n_name = ''one'', n_hostname = ''one'',
     n_advertisedAddress = None, n_publicNetworkingEnabled = 0, n_publicAddress = None, n_status = Ready,
     n_architecture = ''amd64'', n_os = ''linux'', n_agentVersion = ''1'', n_region = Some ''de-fra'',
     n_labels = [(''storage'', ''nvme'')], n_capabilities = [], n_runtimes = [Container],
     n_resources = Some (ns_resources (sample_node ''node-1'' 4000)), n_schedulingEnabled = 1,
     n_agentTokenHash = ''h'', n_lastHeartbeatAt = Some 0, n_unhealthyAt = None, n_offlineAt = None,
     n_createdAt = 0, n_updatedAt = 0\<rparr>"

definition sample_cluster :: cp where
  "sample_cluster = sample_created\<lparr>t_nodes := [sample_node_row]\<rparr>"

definition sample_ctx :: reconcile_ctx where
  "sample_ctx = \<lparr>rc_deployment = new_deployment (empty_cp\<lparr>clock := 1000\<rparr>) ''id-0'' 1 sample_input,
     rc_workloads = [], rc_ports = [], rc_persistent = False, rc_managedIds = []\<rparr>"

lemma placements_sound_witness:
  "fst (place_replicas 2 sample_host (\<lambda>_ s. s) sample_ctx 1 sample_requirements
      (loadCandidates sample_host sample_cluster) sample_cluster) \<noteq> OutOfFuel"
proof -
  have "volume_rivals (rc_managedIds sample_ctx) (\<lambda>_ s. s)" by (simp add: volume_rivals_def)
  from placements_sound [OF this, of 1 sample_host sample_requirements sample_cluster, OF prod.collapse [symmetric]]
  show ?thesis by (simp add: numeral_2_eq_2)
qed

subsection \<open>Superseding\<close>

definition mark_superseded :: "deployment \<Rightarrow> deployment" where
  "mark_superseded d = d\<lparr>d_desiredState := WantStopped, d_status := DepSuperseded, d_failureReason := None\<rparr>"

interpretation superseded_rows: keyed_rows d_id mark_superseded
  by unfold_locales (simp add: mark_superseded_def)

lemma supersede_one_deployments:
  "t_deployments (supersede_one h cur d s)
     = upd_where (\<lambda>e. d_id e = d_id d \<and> d_id e \<noteq> cur) mark_superseded (t_deployments s)"
  by (auto simp: supersede_one_def Let_def mark_superseded_def [abs_def] intro!: upd_where_cong_none [symmetric])
    (simp add: upd_where_def)

lemma supersede_fold:
  "t_deployments (fold (supersede_one h cur) ds s)
     = upd_where (\<lambda>e. d_id e \<in> d_id ` set ds \<and> d_id e \<noteq> cur) mark_superseded (t_deployments s)"
proof (induction ds arbitrary: s)
  case Nil
  then show ?case by (simp add: upd_where_cong_none)
next
  case (Cons d ds)
  show ?case
    by (auto simp: Cons.IH supersede_one_deployments upd_where_def mark_superseded_def)
qed

lemma supersede_rows:
  assumes "distinct (map d_id (t_deployments s))"
  shows "t_deployments (supersedePreviousDeployments h app current s)
    = upd_where (\<lambda>d. d_applicationId d = app \<and> d_desiredState d = WantRunning \<and> d_id d \<noteq> current)
      mark_superseded (t_deployments s)"
proof -
  let ?sel = "\<lambda>d. d_applicationId d = app \<and> d_desiredState d = WantRunning"
  have mem: "d_id e \<in> d_id ` set (filter ?sel (t_deployments s)) \<longleftrightarrow> ?sel e" if "e \<in> set (t_deployments s)" for e
    using keyed_unique [OF assms] that by auto
  show ?thesis
    unfolding supersedePreviousDeployments_def supersede_fold
    unfolding upd_where_def using mem by (intro map_cong) auto
qed

text \<open>A new revision becomes the only wanted one: superseding turns exactly the other running
  revisions of the application into stopped, superseded ones, and leaves every other row alone; so
  afterwards no revision of the application except the current one is wanted.\<close>

theorem supersede_exact:
  assumes "distinct (map d_id (t_deployments s))" and "s' = supersedePreviousDeployments h app current s"
  shows "t_deployments s' = upd_where (\<lambda>d. d_applicationId d = app \<and> d_desiredState d = WantRunning \<and> d_id d \<noteq> current)
      mark_superseded (t_deployments s)
    \<and> list_all (\<lambda>d. d_applicationId d \<noteq> app \<or> d_desiredState d \<noteq> WantRunning \<or> d_id d = current) (t_deployments s')"
proof -
  have eq: "t_deployments s' = upd_where (\<lambda>d. d_applicationId d = app \<and> d_desiredState d = WantRunning \<and> d_id d \<noteq> current)
      mark_superseded (t_deployments s)"
    using supersede_rows [OF assms(1)] assms(2) by simp
  have "d_applicationId x \<noteq> app \<or> d_desiredState x \<noteq> WantRunning \<or> d_id x = current"
    if "x \<in> set (t_deployments s')" for x
    using that unfolding eq by (rule upd_whereE) (simp_all add: mark_superseded_def)
  with eq show ?thesis by (simp add: list_all_iff)
qed

lemma supersede_exact_witness:
  "map d_desiredState (t_deployments (supersedePreviousDeployments sample_host ''app'' ''id-9'' sample_created))
     = [WantStopped]"
proof -
  have "distinct (map d_id (t_deployments sample_created))" by (simp add: sample_created_deployments)
  from supersede_exact [OF this refl, of sample_host "''app''" "''id-9''"] show ?thesis
    by (simp add: sample_created_deployments) (simp add: sample_input_def mark_superseded_def)
qed

end
