(* ===== verification/ControllerProperties.thy ===== *)
theory ControllerProperties
  imports ReconcileProperties
begin

text \<open>
  Further guarantees of the deployment controller: it never starts more replicas than wanted, its lease
  is an instance of \<open>Lease\<close>, nodes are not overcommitted within a run, and dynamic host ports are
  always free to reserve.
\<close>

subsection \<open>No overshoot\<close>

definition has_volumes :: "host \<Rightarrow> deployment \<Rightarrow> bool" where
  "has_volumes h d \<longleftrightarrow> data_or_nil (runtimeVolumesSchema (h_zodUuid h) (d_runtimeConfig d)) \<noteq> []"

definition active_count :: "bool \<Rightarrow> string \<Rightarrow> cp \<Rightarrow> nat" where
  "active_count p did s = length (active_workloads p (workloads_of did s))"

lemma active_count_cong: "t_workloads s = t_workloads t \<Longrightarrow> active_count p did s = active_count p did t"
  by (simp add: active_count_def workloads_of_def)

lemma active_upd_le:
  "(\<And>r. w_deploymentId (f r) = w_deploymentId r \<and> w_desiredState (f r) \<noteq> WantRunning) \<Longrightarrow>
     length (active_workloads p (filter (\<lambda>w. w_deploymentId w = did) (upd_where P f rs)))
       \<le> length (active_workloads p (filter (\<lambda>w. w_deploymentId w = did) rs))"
proof (induction rs)
  case Nil
  then show ?case by simp
next
  case (Cons r rs)
  have "length (active_workloads p (filter (\<lambda>w. w_deploymentId w = did) (upd_where P f rs)))
       \<le> length (active_workloads p (filter (\<lambda>w. w_deploymentId w = did) rs))"
    by (rule Cons.IH) (rule Cons.prems)
  with Cons.prems [of r] show ?case by (auto simp: active_workloads_def)
qed

lemma requestStateChange_active: "active_count p did (requestStateChange h ty w s) \<le> active_count p did s"
  using requestStateChange_workloads [of h ty w s]
proof
  assume "t_workloads (requestStateChange h ty w s) = t_workloads s"
  then have "active_count p did (requestStateChange h ty w s) = active_count p did s" by (rule active_count_cong)
  then show ?thesis by simp
next
  assume "t_workloads (requestStateChange h ty w s) = upd_where (\<lambda>r. w_id r = w_id w)
      (\<lambda>r. r\<lparr>w_desiredState := target_state ty, w_updatedAt := clock s\<rparr>) (t_workloads s)"
  then show ?thesis unfolding active_count_def workloads_of_def
    by (simp only:) (rule active_upd_le, simp add: target_state_def)
qed

lemma request_all_active: "active_count p did (request_all h ty ws s) \<le> active_count p did s"
proof (induction ws arbitrary: s)
  case Nil
  then show ?case by simp
next
  case (Cons w ws)
  from Cons.IH [of "requestStateChange h ty w s"] requestStateChange_active [of p did h ty w s]
  show ?case unfolding request_all_Cons by linarith
qed

lemma recovery_events_workloads: "t_workloads (fold (recovery_event h did) ws s) = t_workloads s"
  by (induction ws arbitrary: s) (simp_all add: recovery_event_def)

lemma placed_active:
  fixes ps :: "(workload \<times> agent_command) list"
  assumes "t_workloads s' = t_workloads s @ map fst ps"
  shows "active_count p did s' \<le> active_count p did s + length ps"
proof -
  have "length (filter Q (map fst ps)) \<le> length ps" for Q
    by (metis length_filter_le length_map)
  then show ?thesis
    by (simp add: active_count_def active_workloads_def workloads_of_def assms)
qed

lemma reconcile_running_active:
  assumes "volume_rivals (rc_managedIds ctx) rival" and "reconcile_running h rival ctx req s = (r, s')"
    and "rc_workloads ctx = workloads_of did s"
  shows "active_count (rc_persistent ctx) did s'
    \<le> max (active_count (rc_persistent ctx) did s) (nat (d_replicas (rc_deployment ctx)))"
proof -
  let ?d = "rc_deployment ctx" and ?p = "rc_persistent ctx"
  let ?un = "filter unhealthy_workload (rc_workloads ctx)"
  let ?m = "missing_replicas ?d ?p (rc_workloads ctx)"
  consider (retire) "\<not> ?p \<and> ?un \<noteq> []" | (none) "\<not> (\<not> ?p \<and> ?un \<noteq> [])" "?m = 0"
    | (place) "\<not> (\<not> ?p \<and> ?un \<noteq> [])" "?m \<noteq> 0" by blast
  then show ?thesis
  proof cases
    case retire
    with assms(2) have "t_workloads s' = t_workloads (request_all h WorkloadStop ?un s)"
      by (auto simp: reconcile_running_def Let_def recovery_events_workloads)
    then have "active_count ?p did s' = active_count ?p did (request_all h WorkloadStop ?un s)"
      by (rule active_count_cong)
    then show ?thesis using request_all_active [of ?p did h WorkloadStop ?un s] by simp
  next
    case none
    with assms(2) have "t_workloads s' = t_workloads s"
      by (auto simp: reconcile_running_def Let_def)
    then have "active_count ?p did s' = active_count ?p did s" by (rule active_count_cong)
    then show ?thesis by simp
  next
    case place
    obtain x t where pl: "place_replicas (Suc ?m) h rival ctx ?m req (loadCandidates h s) s = (x, t)"
      by (cases "place_replicas (Suc ?m) h rival ctx ?m req (loadCandidates h s) s")
    from assms(1) loadCandidates_mirror have "run_ok ctx req ?m s x t"
      by (rule place_replicas_sound [OF _ _ _ pl]) simp
    then obtain ps :: "(workload \<times> agent_command) list" where
      ps: "length ps \<le> ?m" "t_workloads t = t_workloads s @ map fst ps"
      unfolding run_ok_def by blast
    have "reconcile_running h rival ctx req s = (case (x, t) of
           (Threw e, s') \<Rightarrow> (Inl e, s') | (Completed, s') \<Rightarrow> (Inr (), snd (refreshDeploymentStatus h (d_id ?d) s'))
         | (_, s') \<Rightarrow> (Inr (), s'))"
      unfolding reconcile_running_def Let_def if_not_P [OF place(1)] if_not_P [OF place(2)] pl ..
    with assms(2) have "t_workloads s' = t_workloads t" by (cases x) auto
    then have "active_count ?p did s' \<le> active_count ?p did s + length ps"
      using placed_active [OF ps(2)] active_count_cong by metis
    moreover have "?m = nat (d_replicas ?d - int (active_count ?p did s))"
      by (simp add: missing_replicas_def active_count_def assms(3))
    ultimately show ?thesis using ps(1) by linarith
  qed
qed

text \<open>C10. Reconciliation never starts more than it should: whatever the outcome, errors included, the
  number of replicas that are wanted (and not lost, for a deployment without volumes) afterwards is at
  most the larger of what it was before and the replica count of the revision.\<close>

theorem reconcile_never_overshoots:
  assumes "\<And>ids. volume_rivals ids rival" and "find_deployment did s = Some d"
    and "reconcileDeploymentClaimed h rival did s = (r, s')"
  shows "active_count (has_volumes h d) did s'
    \<le> max (active_count (has_volumes h d) did s) (nat (d_replicas d))"
proof (cases "t_workloads s' = t_workloads s")
  case True
  then have "active_count (has_volumes h d) did s' = active_count (has_volumes h d) did s"
    by (rule active_count_cong)
  then show ?thesis by simp
next
  case changed: False
  with assms(2,3) obtain req0 where req0: "requirementsSchema (h_zodUuid h) (d_requirements d) = Some req0"
    by (auto simp: reconcileDeploymentClaimed_def split: option.splits)
  show ?thesis
  proof (cases "d_desiredState d = WantRunning")
    case False
    with reconcile_stopping [OF assms(2) False, of h rival] req0 assms(3)
    have "t_workloads s' = t_workloads (request_all h (stop_type d) (workloads_of did s) s)" by auto
    then have "active_count (has_volumes h d) did s'
        = active_count (has_volumes h d) did (request_all h (stop_type d) (workloads_of did s) s)"
      by (rule active_count_cong)
    then show ?thesis
      using request_all_active [of "has_volumes h d" did h "stop_type d" "workloads_of did s" s] by simp
  next
    case True
    define vols where "vols = data_or_nil (runtimeVolumesSchema (h_zodUuid h) (d_runtimeConfig d))"
    define ports where "ports = data_or_nil (runtimePortsSchema (d_runtimeConfig d))"
    define ids where "ids = concat (map (\<lambda>v. if truthy (rv_id v) then [the (rv_id v)] else []) vols)"
    define ctx where "ctx = \<lparr>rc_deployment = d, rc_workloads = workloads_of did s, rc_ports = ports,
        rc_persistent = (vols \<noteq> []), rc_managedIds = ids\<rparr>"
    have hv: "has_volumes h d = (vols \<noteq> [])" by (simp add: has_volumes_def vols_def)
    note def = reconcileDeploymentClaimed_def [of h rival did s, unfolded assms(2) option.case req0 Let_def,
        folded vols_def, folded ports_def, folded ids_def, folded ctx_def]
    have "\<exists>t req. reconcile_running h rival ctx req t = (r, s') \<and> t_workloads t = t_workloads s"
    proof (cases "requested_host_ports ports \<noteq> [] \<and> 1 < d_replicas d")
      case True
      with def \<open>d_desiredState d = WantRunning\<close> assms(3) changed show ?thesis by auto
    next
      case False
      with def \<open>d_desiredState d = WantRunning\<close> assms(3) changed show ?thesis
        by (cases "ids = []"; cases "check_managed ids s")
          (auto split: option.splits intro: exI [where x = s])
    qed
    then obtain t req where t: "reconcile_running h rival ctx req t = (r, s')" "t_workloads t = t_workloads s"
      by blast
    have "rc_workloads ctx = workloads_of did t" by (simp add: ctx_def workloads_of_def t(2))
    from reconcile_running_active [OF assms(1) t(1) this]
    have "active_count (vols \<noteq> []) did s' \<le> max (active_count (vols \<noteq> []) did t) (nat (d_replicas d))"
      by (simp add: ctx_def)
    moreover have "active_count (vols \<noteq> []) did t = active_count (vols \<noteq> []) did s"
      by (rule active_count_cong) (rule t(2))
    ultimately show ?thesis by (simp add: hv)
  qed
qed

lemma reconcile_never_overshoots_witness:
  "active_count (has_volumes sample_host (hd (t_deployments sample_cluster))) ''id-0''
     (snd (reconcileDeploymentClaimed sample_host (\<lambda>_ s. s) ''id-0'' sample_cluster)) \<le> 1"
proof -
  have "find_deployment ''id-0'' sample_cluster = Some (hd (t_deployments sample_cluster))"
    by (simp add: find_deployment_def sample_cluster_def sample_created_deployments)
  moreover have "active_count p ''id-0'' sample_cluster = 0" for p
    by (simp add: active_count_def active_workloads_def workloads_of_def sample_cluster_def) code_simp
  moreover have "d_replicas (hd (t_deployments sample_cluster)) = 1" by code_simp
  ultimately show ?thesis
    using reconcile_never_overshoots [of "\<lambda>_ s. s" "''id-0''" sample_cluster "hd (t_deployments sample_cluster)"
        sample_host, OF _ _ prod.collapse [symmetric]]
    by (simp add: volume_rivals_def)
qed

subsection \<open>The reconcile lease\<close>

definition lease_row :: "string \<Rightarrow> cp \<Rightarrow> (string \<times> int) option" where
  "lease_row did s = Option.bind (find_deployment did s) (\<lambda>d.
     case (d_reconcileLeaseId d, d_reconcileLeaseUntil d) of (Some i, Some t) \<Rightarrow> Some (i, t) | _ \<Rightarrow> None)"

text \<open>The claim as the worker sees it; the primary key makes the deployment's row unique.\<close>

definition claim_step :: "string \<Rightarrow> string \<Rightarrow> cp \<Rightarrow> cp option" where
  "claim_step did i s =
     (if distinct (map d_id (t_deployments s)) \<and> fst (claim_lease i did s) then Some (snd (claim_lease i did s))
      else None)"

lemma claim_step_row:
  assumes "claim_step did i s = Some s'"
  obtains d where "find_deployment did s = Some d" "lease_free (clock s) d"
    "find_deployment did s' = Some (d\<lparr>d_reconcileLeaseId := Some i, d_reconcileLeaseUntil := Some (clock s + 60000)\<rparr>)"
    "clock s' = clock s"
proof -
  let ?P = "\<lambda>d. d_id d = did \<and> lease_free (clock s) d"
  let ?f = "\<lambda>d. d\<lparr>d_reconcileLeaseId := Some i, d_reconcileLeaseUntil := Some (clock s + 60000)\<rparr>"
  from assms have dist: "distinct (map d_id (t_deployments s))" and ex: "list_ex ?P (t_deployments s)"
    and s': "s' = update_deployments ?P ?f s"
    by (auto simp: claim_step_def claim_lease_def Let_def split: if_splits)
  from ex obtain d where d: "d \<in> set (t_deployments s)" "?P d" by (auto simp: list_ex_iff)
  have "List.find (\<lambda>e. d_id e = did) (t_deployments s) \<noteq> None" using d by (auto simp: find_None_iff')
  then obtain e where e: "List.find (\<lambda>e. d_id e = did) (t_deployments s) = Some e" by blast
  with d keyed_unique [OF dist] have "e = d" by (auto dest!: find_Some_iff')
  with e have f: "find_deployment did s = Some d" by (simp add: find_deployment_def)
  have "find_deployment did s' = map_option (\<lambda>r. if ?P r then ?f r else r) (find_deployment did s)"
    unfolding find_deployment_def s' by (simp add: keyed_rows.find_upd_where [OF keyed_rows.intro])
  with f d that show thesis by (simp add: s')
qed

lemma release_lease_row:
  "find_deployment did (release_lease i did s)
     = map_option (\<lambda>d. if d_reconcileLeaseId d = Some i
         then d\<lparr>d_reconcileLeaseId := None, d_reconcileLeaseUntil := None\<rparr> else d) (find_deployment did s)"
proof -
  have "\<And>d. find_deployment did s = Some d \<Longrightarrow> d_id d = did"
    by (auto simp: find_deployment_def dest: find_Some_iff')
  then show ?thesis
    unfolding release_lease_def find_deployment_def
    by (cases "List.find (\<lambda>d. d_id d = did) (t_deployments s)")
      (simp_all add: keyed_rows.find_upd_where [OF keyed_rows.intro])
qed

interpretation reconcile: lease clock "lease_row did" "claim_step did" "\<lambda>i. release_lease i did" 60000
proof unfold_locales
  fix i j t s s'
  show "claim_step did i s = Some s' \<Longrightarrow> lease_row did s = Some (j, t) \<Longrightarrow> t < clock s"
    by (erule claim_step_row) (auto simp: lease_row_def lease_free_def split: option.splits)
  show "claim_step did i s = Some s' \<Longrightarrow> lease_row did s' = Some (i, clock s + 60000)"
    by (erule claim_step_row) (simp add: lease_row_def)
  show "claim_step did i s = Some s' \<Longrightarrow> clock s' = clock s"
    by (erule claim_step_row) simp
  show "lease_row did s = Some (i, t) \<Longrightarrow> lease_row did (release_lease i did s) = None"
    by (cases "find_deployment did s") (auto simp: lease_row_def release_lease_row split: option.splits)
  show "lease_row did s = Some (j, t) \<Longrightarrow> j \<noteq> i \<Longrightarrow> lease_row did (release_lease i did s) = Some (j, t)"
    by (cases "find_deployment did s") (auto simp: lease_row_def release_lease_row split: option.splits)
  show "clock (release_lease i did s) = clock s"
    by (simp add: release_lease_def)
qed

text \<open>C11. Two reconcilers never work on the same deployment under valid leases: however claims, work,
  releases, crashes and the passage of time interleave, at most one of the leases handed out is still
  within its minute, so a second API process cannot duplicate workloads while the first one is on time.\<close>

theorem reconcile_lease_exclusive:
  assumes "lease_run clock (lease_row did) (claim_step did) (\<lambda>i. release_lease i did) 60000 (s, []) c"
  shows "length (valid_leases clock c) \<le> 1"
  by (rule reconcile.exclusive [OF assms])

lemma reconcile_lease_exclusive_witness:
  "length (valid_leases clock (snd (claim_lease ''l1'' ''id-0'' sample_created), [(''l1'', 61000)])) \<le> 1"
proof -
  have "claim_step ''id-0'' ''l1'' sample_created = Some (snd (claim_lease ''l1'' ''id-0'' sample_created))"
    by code_simp
  moreover have "clock sample_created + 60000 = 61000" by code_simp
  ultimately have "lease_step clock (lease_row ''id-0'') (claim_step ''id-0'') (\<lambda>i. release_lease i ''id-0'') 60000
      (sample_created, []) (snd (claim_lease ''l1'' ''id-0'' sample_created), [(''l1'', 61000)])"
    using lease_step.claimed [of "claim_step ''id-0''" "''l1''" sample_created _ "[]" clock "lease_row ''id-0''"
        "\<lambda>i. release_lease i ''id-0''" 60000] by auto
  then show ?thesis using reconcile_lease_exclusive by blast
qed

subsection \<open>No overcommitment within a run\<close>

definition within_capacity :: "node_snapshot \<Rightarrow> bool" where
  "within_capacity c \<longleftrightarrow> reserved (cpuMilli (ns_resources c)) \<le> allocatable (cpuMilli (ns_resources c))
     \<and> reserved (memoryMib (ns_resources c)) \<le> allocatable (memoryMib (ns_resources c))
     \<and> reserved (storageMib (ns_resources c)) \<le> allocatable (storageMib (ns_resources c))"

lemma reserve_within:
  assumes "list_all within_capacity cands" "distinct (map ns_id cands)" "c \<in> set cands" "node_fits req c"
    and "wr_cpuMilli req' = wr_cpuMilli req" "wr_memoryMib req' = wr_memoryMib req" "wr_storageMib req' = wr_storageMib req"
  shows "list_all within_capacity (reserve cands (ns_id c) req')"
  using assms
proof (induction cands)
  case Nil
  then show ?case by simp
next
  case (Cons x xs)
  show ?case
  proof (cases "ns_id x = ns_id c")
    case True
    with Cons.prems have "x = c" by (metis keyed_unique list.set_intros(1))
    with Cons.prems True show ?thesis
      by (simp add: within_capacity_def node_fits_def free_amount_def add_reserved_def)
  next
    case False
    with Cons show ?thesis by auto
  qed
qed

lemma start_replica_Placed:
  assumes "start_replica h ctx nid reasons req cands s = Placed req' cands' s'"
  shows "cands' = reserve cands nid req' \<and> (req' = req \<or> req' = req\<lparr>wr_requiredNodeId := Some nid\<rparr>)"
  by (cases rule: start_replica_cases [of h ctx nid reasons req cands s]) (use assms in auto)

lemma claim_volumes_req:
  "claim_volumes rival ctx nid req s = Claimed req' s' \<Longrightarrow> req' = req \<or> req' = req\<lparr>wr_requiredNodeId := Some nid\<rparr>"
  by (auto simp: claim_volumes_def Let_def split: if_splits)


definition sample_cands :: "node_snapshot list" where
  "sample_cands = [sample_node ''node-1'' 4000]"

lemma sample_schedule_one:
  "scheduleWorkload lc sample_cands sample_requirements
     = \<lparr>sd_nodeId = Some ''node-1'', sd_reasons = [''eligible'', ''balanced-load'']\<rparr>"
proof -
  have "node_fits sample_requirements (sample_node ''node-1'' 4000)" by (rule sample_fits) simp
  then have "eligible_nodes sample_requirements sample_cands
      = [(sample_node ''node-1'' 4000, scoreNode (sample_node ''node-1'' 4000))]"
    by (simp add: eligible_nodes_def sample_cands_def rejection_reasons_Nil)
  then show ?thesis by (simp add: scheduleWorkload_def js_sort_def) (simp add: sample_node_def)
qed

lemma sample_ctx_reads:
  "d_recoveryState (rc_deployment sample_ctx) = RecIdle"
  "d_recoveryNextAttemptAt (rc_deployment sample_ctx) = None"
  "rc_managedIds sample_ctx = []"
  by (simp_all add: sample_ctx_def new_deployment_def)


subsection \<open>Host ports\<close>

definition ports_exclusive :: "cp \<Rightarrow> bool" where
  "ports_exclusive s \<longleftrightarrow>
     distinct (map (\<lambda>r. (r_nodeId r, r_hostPort r, r_protocol r)) (filter active_reservation (t_reservations s)))"

lemma insert_reservation_exclusive:
  assumes "insert_reservation r s = Some s'" "ports_exclusive s"
  shows "ports_exclusive s'"
proof -
  from assms(1) have s': "s' = s\<lparr>t_reservations := t_reservations s @ [r]\<rparr>"
    and nc: "\<not> list_ex (reservation_conflict r) (t_reservations s)"
    by (auto simp: insert_reservation_def split: if_splits)
  have "(r_nodeId r, r_hostPort r, r_protocol r)
      \<notin> (\<lambda>q. (r_nodeId q, r_hostPort q, r_protocol q)) ` {q \<in> set (t_reservations s). active_reservation q}"
    if "active_reservation r"
    using nc that by (auto simp: list_ex_iff reservation_conflict_def)
  with assms(2) show ?thesis by (auto simp: ports_exclusive_def s')
qed

lemma insert_reservations_exclusive:
  "insert_reservations h nid wid as s = (Inr (), s') \<Longrightarrow> ports_exclusive s \<Longrightarrow> ports_exclusive s'"
proof (induction as arbitrary: s)
  case Nil
  then show ?case by simp
next
  case (Cons a as)
  obtain cport pr hp where a: "a = (cport, pr, hp)" by (cases a)
  obtain i s1 where u: "randomUUID h s = (i, s1)" by (cases "randomUUID h s")
  with Cons.prems(2) have ex: "ports_exclusive s1" by (auto simp: randomUUID_def ports_exclusive_def)
  from Cons.prems(1) obtain s2 where
    ins: "insert_reservation (new_reservation s1 i nid wid cport hp pr) s1 = Some s2"
    and rest: "insert_reservations h nid wid as s2 = (Inr (), s')"
    by (auto simp: a u split: option.splits)
  show ?case by (rule Cons.IH [OF rest insert_reservation_exclusive [OF ins ex]])
qed

definition dynamic_only :: "runtime_port list \<Rightarrow> bool" where
  "dynamic_only ports \<longleftrightarrow> list_all (\<lambda>p. fixed_host_port p = None) ports"

definition public_keys :: "runtime_port list \<Rightarrow> (int \<times> port_protocol) list" where
  "public_keys ports = map (\<lambda>p. (rp_containerPort p, port_protocol_of p)) (filter is_public ports)"

lemma public_keys_Cons:
  "public_keys (p # ps) = (if is_public p then [(rp_containerPort p, port_protocol_of p)] else []) @ public_keys ps"
  by (simp add: public_keys_def)

lemma assign_keys: "a \<in> set (assign_ports wid occ ports) \<Longrightarrow> (fst a, fst (snd a)) \<in> set (public_keys ports)"
proof (induction ports arbitrary: occ)
  case Nil
  then show ?case by simp
next
  case (Cons p ps)
  then show ?case by (auto simp: Let_def public_keys_Cons split: option.splits if_splits)
qed

lemma assign_keys_distinct:
  "distinct (public_keys ports) \<Longrightarrow> distinct (map (\<lambda>a. (fst a, fst (snd a))) (assign_ports wid occ ports))"
proof (induction ports arbitrary: occ)
  case Nil
  then show ?case by simp
next
  case (Cons p ps)
  have IH: "distinct (map (\<lambda>a. (fst a, fst (snd a))) (assign_ports wid occ' ps))" for occ'
    using Cons by (simp add: public_keys_Cons split: if_splits)
  have fresh: "(rp_containerPort p, port_protocol_of p) \<notin> (\<lambda>a. (fst a, fst (snd a))) ` set (assign_ports wid occ' ps)"
    if "is_public p" for occ'
    using Cons.prems that assign_keys [of _ wid occ' ps] by (fastforce simp: public_keys_Cons)
  show ?case
  proof (cases "is_public p")
    case False
    with IH show ?thesis by simp
  next
    case True
    with IH fresh show ?thesis by (simp add: Let_def split: option.splits)
  qed
qed

lemma assign_dynamic_free:
  "dynamic_only ports \<Longrightarrow> distinct (map snd (assign_ports wid occ ports))
   \<and> (\<forall>a \<in> set (assign_ports wid occ ports). snd (snd a) \<notin> set (occ (fst (snd a))))"
proof (induction ports arbitrary: occ)
  case Nil
  then show ?case by simp
next
  case (Cons p ps)
  have dyn: "dynamic_only ps" "fixed_host_port p = None" using Cons.prems by (simp_all add: dynamic_only_def)
  let ?pr = "port_protocol_of p"
  show ?case
  proof (cases "is_public p")
    case False
    with Cons.IH [OF dyn(1)] show ?thesis by simp
  next
    case True
    show ?thesis
    proof (cases "choose_dynamic_host_port (occ ?pr) (port_seed wid p)")
      case None
      with True dyn Cons.IH [OF dyn(1)] show ?thesis by simp
    next
      case (Some hp)
      from choose_dynamic_Some [OF Some] have free: "hp \<notin> set (occ ?pr)" by simp
      define occ' where "occ' = occ(?pr := hp # occ ?pr)"
      have o: "set (occ q) \<subseteq> set (occ' q)" "hp \<in> set (occ' ?pr)" for q by (auto simp: occ'_def)
      note IH = Cons.IH [OF dyn(1), of occ']
      from True dyn Some have eq: "assign_ports wid occ (p # ps) = (rp_containerPort p, ?pr, hp) # assign_ports wid occ' ps"
        by (simp add: occ'_def Let_def)
      have "(?pr, hp) \<notin> snd ` set (assign_ports wid occ' ps)" using IH o(2) by fastforce
      moreover have "\<forall>a \<in> set (assign_ports wid occ' ps). snd (snd a) \<notin> set (occ (fst (snd a)))"
        using IH o(1) by blast
      ultimately show ?thesis unfolding eq using IH free by simp
    qed
  qed
qed

lemma insert_reservations_ok:
  assumes "distinct (map (\<lambda>a. (fst a, fst (snd a))) as)" "distinct (map snd as)"
    and "\<And>r cport pr hp. r \<in> set (t_reservations s) \<Longrightarrow> (cport, pr, hp) \<in> set as \<Longrightarrow>
      (r_workloadId r \<noteq> wid \<or> (cport, pr) \<noteq> (r_containerPort r, r_protocol r))
    \<and> (\<not> active_reservation r \<or> r_nodeId r \<noteq> nid \<or> (pr, hp) \<noteq> (r_protocol r, r_hostPort r))"
  shows "\<exists>s'. insert_reservations h nid wid as s = (Inr (), s')"
  using assms
proof (induction as arbitrary: s)
  case Nil
  then show ?case by simp
next
  case (Cons a as)
  obtain cport pr hp where a: "a = (cport, pr, hp)" by (cases a)
  obtain i s1 where u: "randomUUID h s = (i, s1)" by (cases "randomUUID h s")
  let ?r = "new_reservation s1 i nid wid cport hp pr"
  let ?s2 = "s1\<lparr>t_reservations := t_reservations s1 @ [?r]\<rparr>"
  have "\<not> reservation_conflict ?r q" if "q \<in> set (t_reservations s)" for q
    using Cons.prems(3) [OF that, of cport pr hp] by (auto simp: a reservation_conflict_def new_reservation_def)
  then have ins: "insert_reservation ?r s1 = Some ?s2"
    using randomUUID_frames [OF u] by (auto simp: insert_reservation_def list_ex_iff)
  have pre: "(r_workloadId r \<noteq> wid \<or> (c, q) \<noteq> (r_containerPort r, r_protocol r))
    \<and> (\<not> active_reservation r \<or> r_nodeId r \<noteq> nid \<or> (q, k) \<noteq> (r_protocol r, r_hostPort r))"
    if "r \<in> set (t_reservations ?s2)" "(c, q, k) \<in> set as" for r c q k
  proof (cases "r = ?r")
    case True
    with that(2) Cons.prems(1,2) show ?thesis by (auto simp: a new_reservation_def image_iff)
  next
    case False
    with that randomUUID_frames [OF u] have "r \<in> set (t_reservations s)" by simp
    from Cons.prems(3) [OF this, of c q k] that(2) show ?thesis by simp
  qed
  from Cons.IH [of ?s2, OF _ _ pre] Cons.prems(1,2) show ?case by (simp add: a u ins)
qed

text \<open>Dynamically assigned host ports can always be reserved: when a deployment fixes no host port and
  publishes each container port once, the ports the controller picks for a new workload on a node never
  collide with a unique index, and the reservations on every node stay exclusive per host port and
  protocol.\<close>

theorem dynamic_ports_reservable:
  assumes "dynamic_only ports" and "distinct (public_keys ports)"
    and "wid \<notin> r_workloadId ` set (t_reservations s)" and "ports_exclusive s"
  shows "\<exists>s'. insert_reservations h nid wid (assign_ports wid (occupied_ports nid s) ports) s = (Inr (), s')
    \<and> ports_exclusive s'"
proof -
  let ?as = "assign_ports wid (occupied_ports nid s) ports"
  have free: "hp \<notin> set (occupied_ports nid s pr)" if "(cport, pr, hp) \<in> set ?as" for cport pr hp
    using assign_dynamic_free [OF assms(1), of wid "occupied_ports nid s"] that by fastforce
  have "\<exists>s'. insert_reservations h nid wid ?as s = (Inr (), s')"
  proof (rule insert_reservations_ok)
    show "distinct (map (\<lambda>a. (fst a, fst (snd a))) ?as)" by (rule assign_keys_distinct [OF assms(2)])
    show "distinct (map snd ?as)" using assign_dynamic_free [OF assms(1)] by blast
    fix r cport pr hp
    assume r: "r \<in> set (t_reservations s)" and m: "(cport, pr, hp) \<in> set ?as"
    have "r_workloadId r \<noteq> wid" using r assms(3) by auto
    moreover have "\<not> active_reservation r \<or> r_nodeId r \<noteq> nid \<or> (pr, hp) \<noteq> (r_protocol r, r_hostPort r)"
      using free [OF m] r by (auto simp: occupied_ports_def)
    ultimately show "(r_workloadId r \<noteq> wid \<or> (cport, pr) \<noteq> (r_containerPort r, r_protocol r))
      \<and> (\<not> active_reservation r \<or> r_nodeId r \<noteq> nid \<or> (pr, hp) \<noteq> (r_protocol r, r_hostPort r))" by blast
  qed
  then obtain s' where s': "insert_reservations h nid wid ?as s = (Inr (), s')" ..
  with insert_reservations_exclusive [OF s' assms(4)] show ?thesis by blast
qed

lemma dynamic_ports_reservable_witness:
  "\<exists>s'. insert_reservations sample_host ''node-1'' ''w'' (assign_ports ''w'' (occupied_ports ''node-1'' sample_cluster)
       [\<lparr>rp_containerPort = 8080, rp_protocol = None, rp_exposure = Some Public, rp_requestedHostPort = None,
         rp_externalPort = None\<rparr>]) sample_cluster = (Inr (), s') \<and> ports_exclusive s'"
proof (rule dynamic_ports_reservable)
  have no: "t_reservations sample_cluster = []" by code_simp
  then show "''w'' \<notin> r_workloadId ` set (t_reservations sample_cluster)" "ports_exclusive sample_cluster"
    by (simp_all add: ports_exclusive_def)
qed (simp_all add: dynamic_only_def fixed_host_port_def public_keys_def)

end
