(* ===== verification/CommandController.thy ===== *)
theory CommandController
  imports ReconcileProperties
begin

text \<open>
  \<open>apps/api/src/modules/commands/controller.ts\<close>: a tick fails the lifecycle commands whose deadline has
  passed, marks their workloads, gives back the ports of workloads that never started and refreshes the
  deployments. \<open>command_tick\<close> folds \<open>expire_command\<close> over the commands selected at its start.
\<close>

definition lifecycle_command :: "agent_command \<Rightarrow> bool" where
  "lifecycle_command c \<longleftrightarrow>
     c_type c \<in> command_type_str ` {WorkloadStart, WorkloadStop, WorkloadDelete}"

definition command_expired :: "int \<Rightarrow> agent_command \<Rightarrow> bool" where
  "command_expired now c \<longleftrightarrow> command_open c \<and> lifecycle_command c
     \<and> (case c_deadlineAt c of None \<Rightarrow> False | Some t \<Rightarrow> t < now)"

definition timeout_result :: json where
  "timeout_result = JObj [(''status'', JStr ''failed''),
     (''error'', JObj [(''code'', JStr ''COMMAND_TIMEOUT''), (''message'', JStr ''Agent command deadline elapsed'')])]"

definition timed_out :: "int \<Rightarrow> agent_command \<Rightarrow> agent_command" where
  "timed_out now c = c\<lparr>c_status := CmdFailed, c_completedAt := Some now, c_result := Some timeout_result\<rparr>"

definition is_start :: "agent_command \<Rightarrow> bool" where
  "is_start c \<longleftrightarrow> c_type c = command_type_str WorkloadStart"

definition expire_workload :: "host \<Rightarrow> agent_command \<Rightarrow> workload \<Rightarrow> cp \<Rightarrow> cp" where
  "expire_workload h c w s =
     (let now = clock s;
          s1 = update_workloads (\<lambda>r. w_id r = w_id w)
                 (\<lambda>r. r\<lparr>w_actualState := (if is_start c then ActFailed else ActUnknown),
                        w_healthMessage := Some ''Agent command timed out'', w_lastReportedAt := Some now\<rparr>) s;
          s2 = (if is_start c
                then update_reservations (\<lambda>r. r_workloadId r = w_id w \<and> r_status r = Reserved)
                       (\<lambda>r. r\<lparr>r_status := Released, r_releasedAt := Some now\<rparr>) s1
                else s1)
      in log_event h (w_deploymentId w) ''workload.command_timed_out''
           (''Agent command '' @ c_type c @ '' timed out'')
           (\<lambda>e. e\<lparr>e_workloadId := Some (w_id w), e_nodeId := w_nodeId w, e_reason := Some ''COMMAND_TIMEOUT''\<rparr>) s2)"

definition expire_command :: "host \<Rightarrow> agent_command \<Rightarrow> cp \<Rightarrow> cp" where
  "expire_command h c s =
     (let P = (\<lambda>r. c_id r = c_id c \<and> command_open r) in
      if \<not> list_ex P (t_commands s) then s
      else
        (let s1 = update_commands P (timed_out (clock s)) s in
         case find_workload (c_resourceId c) s1 of
           None \<Rightarrow> s1
         | Some w \<Rightarrow> snd (refreshDeploymentStatus h (w_deploymentId w) (expire_workload h c w s1))))"

definition command_tick :: "host \<Rightarrow> cp \<Rightarrow> cp" where
  "command_tick h s = fold (expire_command h) (filter (command_expired (clock s)) (t_commands s)) s"

subsection \<open>Facts\<close>

lemma update_commands_frames [simp]:
  "t_workloads (update_commands P f s) = t_workloads s"
  "t_reservations (update_commands P f s) = t_reservations s"
  "t_deployments (update_commands P f s) = t_deployments s"
  "clock (update_commands P f s) = clock s"
  "t_commands (update_commands P f s) = upd_where P f (t_commands s)"
  by (simp_all add: update_commands_def)

lemma update_reservations_frames [simp]:
  "t_workloads (update_reservations P f s) = t_workloads s"
  "t_commands (update_reservations P f s) = t_commands s"
  "t_deployments (update_reservations P f s) = t_deployments s"
  "clock (update_reservations P f s) = clock s"
  "t_reservations (update_reservations P f s) = upd_where P (\<lambda>r. (f r)\<lparr>r_updatedAt := clock s\<rparr>) (t_reservations s)"
  by (simp_all add: update_reservations_def)

lemma expire_workload_frames [simp]:
  "t_commands (expire_workload h c w s) = t_commands s"
  "clock (expire_workload h c w s) = clock s"
  by (simp_all add: expire_workload_def Let_def)

lemma expire_command_frames [simp]:
  "clock (expire_command h c s) = clock s"
  "t_commands (expire_command h c s)
     = upd_where (\<lambda>r. c_id r = c_id c \<and> command_open r) (timed_out (clock s)) (t_commands s)"
  by (auto simp: expire_command_def Let_def list_ex_iff split: option.splits intro!: upd_where_cong_none [symmetric])

lemma expire_fold:
  "clock (fold (expire_command h) cs s) = clock s"
  "t_commands (fold (expire_command h) cs s)
     = upd_where (\<lambda>r. c_id r \<in> c_id ` set cs \<and> command_open r) (timed_out (clock s)) (t_commands s)"
proof (induction cs arbitrary: s)
  case Nil
  { case 1 show ?case by simp next case 2 show ?case by (simp add: upd_where_cong_none) }
next
  case (Cons c cs)
  { case 1 show ?case by (simp add: Cons.IH)
    next case 2 show ?case by (auto simp: Cons.IH upd_where_def timed_out_def command_open_def) }
qed

text \<open>A port of a workload that never started is given back, and no later step of the tick takes it.\<close>

definition released_for :: "string \<Rightarrow> cp \<Rightarrow> bool" where
  "released_for wid s \<longleftrightarrow> list_all (\<lambda>r. r_workloadId r \<noteq> wid \<or> r_status r \<noteq> Reserved) (t_reservations s)"

lemma expire_command_reservations:
  "t_reservations (expire_command h c s) = t_reservations s \<or>
   (\<exists>i now. t_reservations (expire_command h c s) = upd_where (\<lambda>r. r_workloadId r = i \<and> r_status r = Reserved)
      (\<lambda>r. r\<lparr>r_status := Released, r_releasedAt := Some now, r_updatedAt := now\<rparr>) (t_reservations s))"
  by (auto simp: expire_command_def expire_workload_def Let_def split: option.splits)

lemma released_for_step: "released_for wid s \<Longrightarrow> released_for wid (expire_command h c s)"
  using expire_command_reservations [of h c s]
  by (auto simp: released_for_def list_all_iff set_upd_where)

lemma released_for_fold: "released_for wid s \<Longrightarrow> released_for wid (fold (expire_command h) cs s)"
  by (induction cs arbitrary: s) (auto intro: released_for_step)

lemma expire_command_ids: "map w_id (t_workloads (expire_command h c s)) = map w_id (t_workloads s)"
  by (simp add: expire_command_def expire_workload_def Let_def map_upd_where_inv split: option.splits)

lemma find_workload_None: "find_workload i s = None \<longleftrightarrow> i \<notin> set (map w_id (t_workloads s))"
  by (auto simp: find_workload_def find_None_iff')

lemma expire_command_releases:
  assumes "list_ex (\<lambda>r. c_id r = c_id c \<and> command_open r) (t_commands s)" and "is_start c"
    and "c_resourceId c \<in> set (map w_id (t_workloads s))"
  shows "released_for (c_resourceId c) (expire_command h c s)"
proof -
  let ?s1 = "update_commands (\<lambda>r. c_id r = c_id c \<and> command_open r) (timed_out (clock s)) s"
  have "find_workload (c_resourceId c) ?s1 \<noteq> None" using assms(3) by (simp add: find_workload_None)
  then obtain w where w: "find_workload (c_resourceId c) ?s1 = Some w" by blast
  then have "w_id w = c_resourceId c" by (auto simp: find_workload_def dest: find_Some_iff')
  with assms(1,2) w show ?thesis
    by (auto simp: expire_command_def expire_workload_def Let_def released_for_def list_all_iff set_upd_where)
qed

lemma fold_releases:
  assumes "distinct (map c_id cs)" "c \<in> set cs" "is_start c" "c_resourceId c \<in> set (map w_id (t_workloads s))"
    and "\<And>d. d \<in> set cs \<Longrightarrow> d \<in> set (t_commands s) \<and> command_open d"
  shows "released_for (c_resourceId c) (fold (expire_command h) cs s)"
  using assms
proof (induction cs arbitrary: s)
  case Nil
  then show ?case by simp
next
  case (Cons x xs)
  show ?case
  proof (cases "c = x")
    case True
    have "list_ex (\<lambda>r. c_id r = c_id x \<and> command_open r) (t_commands s)"
      using Cons.prems(5) by (auto simp: list_ex_iff)
    with expire_command_releases [of x s h] Cons.prems(3,4) True
    show ?thesis by (auto intro: released_for_fold)
  next
    case False
    have keep: "d \<in> set (t_commands (expire_command h x s)) \<and> command_open d" if "d \<in> set xs" for d
    proof -
      have "c_id d \<in> c_id ` set xs" using that by simp
      then have "c_id d \<noteq> c_id x" using Cons.prems(1) by auto
      moreover have "d \<in> set (t_commands s)" "command_open d" using Cons.prems(5) that by auto
      ultimately have "d \<in> set (t_commands s)" "command_open d" "c_id d \<noteq> c_id x" by blast+
      then show ?thesis by (auto simp: set_upd_where image_iff intro: bexI [of _ d])
    qed
    have "c_resourceId c \<in> set (map w_id (t_workloads (expire_command h x s)))"
      using Cons.prems(4) by (simp only: expire_command_ids)
    with Cons.IH [OF _ _ Cons.prems(3)] Cons.prems(1,2) False keep show ?thesis by simp
  qed
qed

subsection \<open>Property\<close>

text \<open>No lifecycle command outlives its deadline: a tick fails exactly the start, stop and delete
  commands that were open past their deadline and changes no other command, so none is left; and the
  ports reserved for a workload whose start timed out are given back.\<close>

theorem command_tick_expires:
  assumes "distinct (map c_id (t_commands s))"
  shows "t_commands (command_tick h s) = upd_where (command_expired (clock s)) (timed_out (clock s)) (t_commands s)
    \<and> filter (command_expired (clock s)) (t_commands (command_tick h s)) = []
    \<and> list_all (\<lambda>c. released_for (c_resourceId c) (command_tick h s))
        (filter (\<lambda>c. command_expired (clock s) c \<and> is_start c \<and> c_resourceId c \<in> set (map w_id (t_workloads s)))
          (t_commands s))"
proof -
  let ?E = "command_expired (clock s)"
  have mem: "c_id r \<in> c_id ` set (filter ?E (t_commands s)) \<and> command_open r \<longleftrightarrow> ?E r" if "r \<in> set (t_commands s)" for r
    using keyed_unique [OF assms] that by (auto simp: command_expired_def)
  have eq: "t_commands (command_tick h s) = upd_where ?E (timed_out (clock s)) (t_commands s)"
    unfolding command_tick_def expire_fold(2) unfolding upd_where_def by (intro map_cong refl) (simp only: mem)
  have "\<not> ?E r" if "r \<in> set (upd_where ?E (timed_out (clock s)) (t_commands s))" for r
    using that by (rule upd_whereE) (auto simp: command_expired_def timed_out_def command_open_def)
  then have none: "filter ?E (t_commands (command_tick h s)) = []" by (simp add: eq filter_empty_conv)
  have "released_for (c_resourceId c) (command_tick h s)"
    if "c \<in> set (t_commands s)" "?E c" "is_start c" "c_resourceId c \<in> set (map w_id (t_workloads s))" for c
    unfolding command_tick_def
    using that assms by (intro fold_releases) (auto simp: distinct_map_filter command_expired_def)
  with eq none show ?thesis by (auto simp: list_all_iff)
qed

definition sample_late :: cp where
  "sample_late = sample_created\<lparr>clock := 200000,
     t_workloads := [new_workload empty_cp ''w1'' ''id-0'' ''node-1'' []],
     t_reservations := [new_reservation empty_cp ''r1'' ''node-1'' ''w1'' 80 30080 Tcp],
     t_commands := [new_command empty_cp ''c1'' ''node-1'' WorkloadStart ''w1'' JNull COMMAND_DEADLINE_MS]\<rparr>"

lemma command_tick_expires_witness:
  "map c_status (t_commands (command_tick sample_host sample_late)) = [CmdFailed]
     \<and> released_for ''w1'' (command_tick sample_host sample_late)"
proof -
  have "distinct (map c_id (t_commands sample_late))" by (simp add: sample_late_def)
  moreover have "filter (\<lambda>c. command_expired (clock sample_late) c \<and> is_start c
        \<and> c_resourceId c \<in> set (map w_id (t_workloads sample_late))) (t_commands sample_late) = t_commands sample_late"
    by code_simp
  moreover have "map c_resourceId (t_commands sample_late) = [''w1'']"
    "map c_status (upd_where (command_expired (clock sample_late)) (timed_out (clock sample_late))
        (t_commands sample_late)) = [CmdFailed]"
    by code_simp+
  ultimately show ?thesis
    using command_tick_expires [of sample_late sample_host] by (auto simp: list_all_iff)
qed

end
