(* ===== verification/NodeLiveness.thy ===== *)
theory NodeLiveness
  imports CommandController
begin

text \<open>
  \<open>apps/api/src/modules/nodes/liveness-controller.ts\<close>: a tick first marks silent nodes unhealthy, then
  takes the unhealthy nodes whose silence is longer offline, makes their volumes unavailable, declares
  their wanted workloads lost and retires the stateless ones, so that a returning node is told to stop
  what has been replaced. Withdrawing the node's domain routes (\<open>reconcileDomainRoutesForNode\<close>) writes
  no table of the model and its failure is caught, so it is left out.
\<close>

definition NODE_UNHEALTHY_AFTER_MS :: int where "NODE_UNHEALTHY_AFTER_MS = 45000"
definition NODE_OFFLINE_AFTER_MS :: int where "NODE_OFFLINE_AFTER_MS = 90000"

definition silent_since :: "int \<Rightarrow> node \<Rightarrow> bool" where
  "silent_since before n \<longleftrightarrow> (case n_lastHeartbeatAt n of None \<Rightarrow> False | Some t \<Rightarrow> t < before)"

definition becomes_unhealthy :: "int \<Rightarrow> node \<Rightarrow> bool" where
  "becomes_unhealthy before n \<longleftrightarrow> n_status n \<in> {Ready, Draining} \<and> silent_since before n"

definition becomes_offline :: "int \<Rightarrow> node \<Rightarrow> bool" where
  "becomes_offline before n \<longleftrightarrow> n_status n = NodeUnhealthy \<and> silent_since before n"

definition mark_unhealthy :: "int \<Rightarrow> node \<Rightarrow> node" where
  "mark_unhealthy now n = n\<lparr>n_status := NodeUnhealthy, n_unhealthyAt := Some now, n_updatedAt := now\<rparr>"

definition mark_offline :: "int \<Rightarrow> node \<Rightarrow> node" where
  "mark_offline now n = n\<lparr>n_status := Offline, n_offlineAt := Some now, n_updatedAt := now\<rparr>"

definition volume_backed :: "string \<Rightarrow> cp \<Rightarrow> bool" where
  "volume_backed did s =
     (case find_deployment did s of None \<Rightarrow> False | Some d \<Rightarrow> has_persistent_volumes (d_runtimeConfig d))"

definition mark_lost :: "int \<Rightarrow> bool \<Rightarrow> workload \<Rightarrow> workload" where
  "mark_lost now persistent w =
     (let w1 = w\<lparr>w_actualState := ActLost, w_healthStatus := HUnknown,
                 w_healthMessage := Some ''Node heartbeat timed out'', w_lostAt := Some now,
                 w_lastReportedAt := Some now\<rparr>
      in if persistent then w1 else w1\<lparr>w_desiredState := WantStopped\<rparr>)"

definition lose_workload :: "host \<Rightarrow> string \<Rightarrow> workload \<Rightarrow> cp \<Rightarrow> cp" where
  "lose_workload h nid w s =
     (let persistent = volume_backed (w_deploymentId w) s;
          s1 = update_workloads (\<lambda>r. w_id r = w_id w \<and> w_nodeId r = Some nid) (mark_lost (clock s) persistent) s;
          s2 = (if persistent then s1
                else enqueue_command h nid WorkloadStop (w_id w)
                  (JObj [(''workloadId'', JStr (w_id w)), (''reason'', JStr ''NODE_OFFLINE_REPLACEMENT'')])
                  (2 * 60000) s1)
      in log_event h (w_deploymentId w) ''workload.lost''
           ''Workload lost because its node heartbeat timed out''
           (\<lambda>e. e\<lparr>e_workloadId := Some (w_id w), e_nodeId := Some nid, e_reason := Some ''NODE_OFFLINE''\<rparr>) s2)"

definition assigned_to :: "string \<Rightarrow> cp \<Rightarrow> workload list" where
  "assigned_to nid s = filter (\<lambda>w. w_nodeId w = Some nid \<and> w_desiredState w = WantRunning) (t_workloads s)"

definition node_lost :: "host \<Rightarrow> string \<Rightarrow> cp \<Rightarrow> cp" where
  "node_lost h nid s =
     (let s1 = update_volumes (\<lambda>v. v_nodeId v = Some nid \<and> v_status v \<in> {VolAvailable, VolInUse})
                 (\<lambda>v. v\<lparr>v_status := VolUnavailable\<rparr>) s;
          assigned = assigned_to nid s1;
          s2 = fold (lose_workload h nid) assigned s1
      in fold (\<lambda>did t. snd (refreshDeploymentStatus h did t)) (js_uniq (map w_deploymentId assigned)) s2)"

definition liveness_tick :: "host \<Rightarrow> int \<Rightarrow> int \<Rightarrow> cp \<Rightarrow> cp" where
  "liveness_tick h unhealthyAfterMs offlineAfterMs s =
     (let now = clock s;
          s1 = s\<lparr>t_nodes := upd_where (becomes_unhealthy (now - unhealthyAfterMs)) (mark_unhealthy now) (t_nodes s)\<rparr>;
          stale = map n_id (filter (becomes_offline (now - offlineAfterMs)) (t_nodes s1));
          s2 = s1\<lparr>t_nodes := upd_where (becomes_offline (now - offlineAfterMs)) (mark_offline now) (t_nodes s1)\<rparr>
      in fold (node_lost h) stale s2)"

subsection \<open>Facts\<close>

lemma mark_lost_sel [simp]:
  "w_id (mark_lost now p w) = w_id w"
  "w_nodeId (mark_lost now p w) = w_nodeId w"
  "w_deploymentId (mark_lost now p w) = w_deploymentId w"
  "w_actualState (mark_lost now p w) = ActLost"
  "w_desiredState (mark_lost now p w) = (if p then w_desiredState w else WantStopped)"
  by (simp_all add: mark_lost_def Let_def)

lemma lose_workload_frames [simp]:
  "t_nodes (lose_workload h nid w s) = t_nodes s"
  "t_deployments (lose_workload h nid w s) = t_deployments s"
  "t_volumes (lose_workload h nid w s) = t_volumes s"
  "clock (lose_workload h nid w s) = clock s"
  "t_workloads (lose_workload h nid w s) = upd_where (\<lambda>r. w_id r = w_id w \<and> w_nodeId r = Some nid)
     (\<lambda>r. (mark_lost (clock s) (volume_backed (w_deploymentId w) s) r)\<lparr>w_updatedAt := clock s\<rparr>) (t_workloads s)"
  by (simp_all add: lose_workload_def Let_def)

lemma volume_backed_cong: "t_deployments s = t_deployments t \<Longrightarrow> volume_backed did s = volume_backed did t"
  by (simp add: volume_backed_def find_deployment_def)

text \<open>A workload that is fenced off its lost node: not wanted there any more, or volume-backed and lost.\<close>

definition fenced :: "string \<Rightarrow> cp \<Rightarrow> workload \<Rightarrow> bool" where
  "fenced nid s w \<longleftrightarrow> w_nodeId w \<noteq> Some nid \<or> w_desiredState w \<noteq> WantRunning
     \<or> w_actualState w = ActLost \<and> volume_backed (w_deploymentId w) s"

lemma lose_fold:
  "t_deployments (fold (lose_workload h nid) ws s) = t_deployments s"
  "t_nodes (fold (lose_workload h nid) ws s) = t_nodes s"
  "clock (fold (lose_workload h nid) ws s) = clock s"
  by (induction ws arbitrary: s) simp_all

lemma lose_workload_fenced:
  assumes "w \<in> set (t_workloads s)" "distinct (map w_id (t_workloads s))"
    and "r \<in> set (t_workloads (lose_workload h nid w s))"
    and "w_id r = w_id w \<or> (\<forall>q \<in> set (t_workloads s). w_id q = w_id r \<longrightarrow> fenced nid s q)"
  shows "fenced nid s r"
  using assms(3) [simplified]
proof (rule upd_whereE)
  fix r0 assume r0: "r0 \<in> set (t_workloads s)" "w_id r0 = w_id w \<and> w_nodeId r0 = Some nid"
    and r: "r = (mark_lost (clock s) (volume_backed (w_deploymentId w) s) r0)\<lparr>w_updatedAt := clock s\<rparr>"
  from keyed_unique [OF assms(2) r0(1) assms(1)] r0(2) have "r0 = w" by simp
  with r show ?thesis by (simp add: fenced_def)
next
  assume r: "r \<in> set (t_workloads s)" "\<not> (w_id r = w_id w \<and> w_nodeId r = Some nid)"
  show ?thesis
  proof (cases "w_id r = w_id w")
    case True
    with r(2) show ?thesis by (simp add: fenced_def)
  next
    case False
    with assms(4) r(1) show ?thesis by blast
  qed
qed

lemma lose_workload_ids [simp]: "map w_id (t_workloads (lose_workload h nid w s)) = map w_id (t_workloads s)"
  by (simp add: map_upd_where_inv)

lemma fenced_cong: "t_deployments s = t_deployments t \<Longrightarrow> fenced nid s w = fenced nid t w"
  unfolding fenced_def by (drule volume_backed_cong [where did = "w_deploymentId w"]) simp

lemma lose_all_fenced:
  assumes "set ws \<subseteq> set (t_workloads s)" "distinct (map w_id ws)" "distinct (map w_id (t_workloads s))"
    and "\<And>q. q \<in> set (t_workloads s) \<Longrightarrow> w_id q \<in> A \<Longrightarrow> fenced nid s q"
    and "r \<in> set (t_workloads (fold (lose_workload h nid) ws s))" "w_id r \<in> A \<union> w_id ` set ws"
  shows "fenced nid s r"
  using assms
proof (induction ws arbitrary: s A)
  case Nil
  then show ?case by simp
next
  case (Cons w ws)
  let ?s = "lose_workload h nid w s"
  have cong: "fenced nid ?s q = fenced nid s q" for q by (rule fenced_cong) simp
  have keep: "q \<in> set (t_workloads ?s)" if "q \<in> set (t_workloads s)" "w_id q \<noteq> w_id w" for q
    using that by (auto simp: set_upd_where image_iff intro: bexI [of _ q])
  have 1: "set ws \<subseteq> set (t_workloads ?s)"
  proof
    fix q assume q: "q \<in> set ws"
    then have "w_id q \<in> w_id ` set ws" by simp
    with Cons.prems(2) have "w_id q \<noteq> w_id w" by auto
    with keep q Cons.prems(1) show "q \<in> set (t_workloads ?s)" by auto
  qed
  have 2: "distinct (map w_id ws)" "distinct (map w_id (t_workloads ?s))"
    using Cons.prems(2,3) by (simp_all only: lose_workload_ids list.map distinct.simps simp_thms)
  have 3: "fenced nid ?s q" if "q \<in> set (t_workloads ?s)" "w_id q \<in> insert (w_id w) A" for q
    unfolding cong using lose_workload_fenced [OF _ Cons.prems(3) that(1)] Cons.prems(1,4) that(2) by auto
  have 4: "r \<in> set (t_workloads (fold (lose_workload h nid) ws ?s))" "w_id r \<in> insert (w_id w) A \<union> w_id ` set ws"
    using Cons.prems(5,6) by auto
  from Cons.IH [OF 1 2 3 4] show ?case unfolding cong .
qed

lemma node_lost_frames [simp]:
  "clock (node_lost h nid s) = clock s"
  "t_nodes (node_lost h nid s) = t_nodes s"
proof -
  have r: "clock (fold (\<lambda>did t. snd (refreshDeploymentStatus h did t)) ds s) = clock s
      \<and> t_nodes (fold (\<lambda>did t. snd (refreshDeploymentStatus h did t)) ds s) = t_nodes s" for ds s
    by (induction ds arbitrary: s) simp_all
  show "clock (node_lost h nid s) = clock s" "t_nodes (node_lost h nid s) = t_nodes s"
    by (simp_all add: node_lost_def Let_def r lose_fold)
qed

text \<open>What a status refresh leaves alone, as far as fencing looks at it.\<close>

definition same_configs :: "cp \<Rightarrow> cp \<Rightarrow> bool" where
  "same_configs s t \<longleftrightarrow> (\<forall>did. map_option d_runtimeConfig (find_deployment did s)
     = map_option d_runtimeConfig (find_deployment did t))"

lemma same_configs_backed: "same_configs s t \<Longrightarrow> volume_backed did s = volume_backed did t"
  unfolding same_configs_def volume_backed_def
  by (erule allE [of _ did]) (auto split: option.splits)

lemma same_configs_fenced: "same_configs s t \<Longrightarrow> fenced nid s w = fenced nid t w"
  unfolding fenced_def by (drule same_configs_backed [where did = "w_deploymentId w"]) simp

lemma refresh_same_configs: "same_configs (snd (refreshDeploymentStatus h did s)) s"
proof (cases "find_deployment did s")
  case None
  then show ?thesis by (simp add: refreshDeploymentStatus_def same_configs_def)
next
  case (Some d)
  show ?thesis
  proof (cases "superseded_row d \<or> (d_status d, d_failureReason d) = derived_for d s")
    case True
    with refresh_same [OF Some True] show ?thesis by (simp add: same_configs_def)
  next
    case False
    then have "\<not> superseded_row d" "(d_status d, d_failureReason d) \<noteq> derived_for d s" by auto
    note st = refresh_step [OF Some this]
    have "map_option d_runtimeConfig (find_deployment i (snd (refreshDeploymentStatus h did s)))
        = map_option d_runtimeConfig (find_deployment i s)" for i
      unfolding st by (cases "find_deployment i s") (simp_all add: find_deployment_def status_rows.find_upd_where)
    then show ?thesis by (simp add: same_configs_def)
  qed
qed

lemma refresh_fold:
  "t_workloads (fold (\<lambda>did t. snd (refreshDeploymentStatus h did t)) ds s) = t_workloads s
   \<and> same_configs (fold (\<lambda>did t. snd (refreshDeploymentStatus h did t)) ds s) s"
proof (induction ds arbitrary: s)
  case Nil
  then show ?case by (simp add: same_configs_def)
next
  case (Cons d ds)
  from Cons.IH [of "snd (refreshDeploymentStatus h d s)"] refresh_same_configs [of h d s]
  show ?case by (simp add: same_configs_def)
qed

lemma node_lost_fences:
  assumes "distinct (map w_id (t_workloads s))" and "r \<in> set (t_workloads (node_lost h nid s))"
  shows "fenced nid (node_lost h nid s) r"
proof -
  define s1 where "s1 = update_volumes (\<lambda>v. v_nodeId v = Some nid \<and> v_status v \<in> {VolAvailable, VolInUse})
                 (\<lambda>v. v\<lparr>v_status := VolUnavailable\<rparr>) s"
  define ws where "ws = assigned_to nid s1"
  define s2 where "s2 = fold (lose_workload h nid) ws s1"
  have nl: "node_lost h nid s = fold (\<lambda>did t. snd (refreshDeploymentStatus h did t)) (js_uniq (map w_deploymentId ws)) s2"
    by (simp add: node_lost_def Let_def s1_def ws_def s2_def)
  have r: "r \<in> set (t_workloads s2)" using assms(2) refresh_fold by (simp add: nl)
  have w1: "t_workloads s1 = t_workloads s" by (simp add: s1_def)
  have ws: "set ws \<subseteq> set (t_workloads s1)" "distinct (map w_id ws)"
    using assms(1) by (auto simp: ws_def assigned_to_def w1 distinct_map_filter)
  have "fenced nid s1 r"
  proof (cases "w_id r \<in> w_id ` set ws")
    case True
    with lose_all_fenced [OF ws, of "{}" nid r h] assms(1) r show ?thesis by (simp add: w1 s2_def)
  next
    case False
    let ?A = "w_id ` {q \<in> set (t_workloads s1). fenced nid s1 q}"
    have A: "fenced nid s1 q" if "q \<in> set (t_workloads s1)" "w_id q \<in> ?A" for q
      using that keyed_unique [of w_id "t_workloads s1"] assms(1) by (auto simp: w1)
    have ids: "map w_id (t_workloads s2) = map w_id (t_workloads s1)"
      unfolding s2_def by (induction ws arbitrary: s1) (simp_all del: lose_workload_frames)
    then have "w_id r \<in> w_id ` set (t_workloads s1)" using r by (metis image_eqI list.set_map)
    then obtain q where q: "q \<in> set (t_workloads s1)" "w_id q = w_id r" by auto
    have "fenced nid s1 q"
    proof (rule ccontr)
      assume "\<not> fenced nid s1 q"
      with q have "q \<in> set ws" by (simp add: ws_def assigned_to_def fenced_def)
      with q(2) have "w_id r \<in> w_id ` set ws" by (metis imageI)
      with False show False ..
    qed
    with q(1) have "w_id q \<in> ?A" by blast
    then have "w_id r \<in> ?A" by (simp only: q(2))
    moreover have "distinct (map w_id (t_workloads s1))" using assms(1) by (simp only: w1)
    ultimately show ?thesis using lose_all_fenced [OF ws _ A r [unfolded s2_def]] by blast
  qed
  then have "fenced nid s2 r" using fenced_cong [of s1 s2] by (simp add: s2_def lose_fold)
  then show ?thesis unfolding nl using same_configs_fenced [OF conjunct2 [OF refresh_fold]] by blast
qed

definition all_fenced :: "string \<Rightarrow> cp \<Rightarrow> bool" where
  "all_fenced nid s \<longleftrightarrow> list_all (fenced nid s) (t_workloads s)"

lemma lose_workload_keeps:
  assumes "all_fenced nid s" shows "all_fenced nid (lose_workload h m w s)"
proof -
  have "fenced nid s r" if "r \<in> set (t_workloads (lose_workload h m w s))" for r
    using that [simplified]
  proof (rule upd_whereE)
    fix r0 assume r0: "r0 \<in> set (t_workloads s)" "w_id r0 = w_id w \<and> w_nodeId r0 = Some m"
      and r: "r = (mark_lost (clock s) (volume_backed (w_deploymentId w) s) r0)\<lparr>w_updatedAt := clock s\<rparr>"
    from assms r0(1) have "fenced nid s r0" by (simp add: all_fenced_def list_all_iff)
    then show ?thesis by (auto simp: r fenced_def)
  next
    assume "r \<in> set (t_workloads s)"
    with assms show ?thesis by (simp add: all_fenced_def list_all_iff)
  qed
  moreover have "fenced nid (lose_workload h m w s) = fenced nid s" by (rule ext) (rule fenced_cong, simp)
  ultimately show ?thesis by (simp add: all_fenced_def list_all_iff del: lose_workload_frames)
qed

lemma node_lost_keeps:
  assumes "all_fenced nid s" shows "all_fenced nid (node_lost h m s)"
proof -
  define s1 where "s1 = update_volumes (\<lambda>v. v_nodeId v = Some m \<and> v_status v \<in> {VolAvailable, VolInUse})
                 (\<lambda>v. v\<lparr>v_status := VolUnavailable\<rparr>) s"
  have e: "t_deployments s1 = t_deployments s" "t_workloads s1 = t_workloads s" by (simp_all add: s1_def)
  have "fenced nid s1 = fenced nid s" by (rule ext) (rule fenced_cong [OF e(1)])
  with assms have "all_fenced nid s1" by (simp add: all_fenced_def e(2))
  then have f: "all_fenced nid (fold (lose_workload h m) ws s1)" for ws
    by (induction ws arbitrary: s1) (simp_all add: lose_workload_keeps del: lose_workload_frames)
  have g: "all_fenced nid t \<Longrightarrow> all_fenced nid (fold (\<lambda>did t. snd (refreshDeploymentStatus h did t)) ds t)" for ds t
  proof -
    assume a: "all_fenced nid t"
    let ?t = "fold (\<lambda>did t. snd (refreshDeploymentStatus h did t)) ds t"
    have "fenced nid ?t = fenced nid t"
      by (rule ext) (rule same_configs_fenced [OF conjunct2 [OF refresh_fold]])
    with a show "all_fenced nid ?t" using refresh_fold [of h ds t] by (simp add: all_fenced_def)
  qed
  show ?thesis unfolding node_lost_def Let_def s1_def [symmetric] by (intro g f)
qed

lemma node_lost_ids: "map w_id (t_workloads (node_lost h nid s)) = map w_id (t_workloads s)"
proof -
  have "map w_id (t_workloads (fold (lose_workload h nid) ws t)) = map w_id (t_workloads t)" for ws t
    by (induction ws arbitrary: t) (simp_all del: lose_workload_frames)
  then show ?thesis by (simp add: node_lost_def Let_def refresh_fold)
qed

lemma node_lost_fold:
  assumes "distinct (map w_id (t_workloads s))"
  shows "list_all (\<lambda>nid. all_fenced nid (fold (node_lost h) nids s)) nids
    \<and> (all_fenced m s \<longrightarrow> all_fenced m (fold (node_lost h) nids s))
    \<and> t_nodes (fold (node_lost h) nids s) = t_nodes s"
  using assms
proof (induction nids arbitrary: s m)
  case Nil
  then show ?case by simp
next
  case (Cons nid nids)
  have d: "distinct (map w_id (t_workloads (node_lost h nid s)))" using Cons.prems by (simp only: node_lost_ids)
  have "all_fenced nid (node_lost h nid s)"
    using node_lost_fences [OF Cons.prems] by (simp add: all_fenced_def list_all_iff)
  with Cons.IH [OF d] node_lost_keeps [of m s h nid] show ?case by simp
qed

subsection \<open>Properties\<close>

definition node_after :: "int \<Rightarrow> int \<Rightarrow> int \<Rightarrow> node \<Rightarrow> node_status" where
  "node_after now ua oa n =
     (if n_status n \<in> {Ready, Draining, NodeUnhealthy} \<and> silent_since (now - oa) n then Offline
      else if n_status n \<in> {Ready, Draining} \<and> silent_since (now - ua) n then NodeUnhealthy
      else n_status n)"

lemma silent_mono: "a \<le> b \<Longrightarrow> silent_since a n \<Longrightarrow> silent_since b n"
  by (auto simp: silent_since_def split: option.splits)

lemma mark_unhealthy_sel [simp]:
  "n_id (mark_unhealthy now n) = n_id n" "n_status (mark_unhealthy now n) = NodeUnhealthy"
  "silent_since b (mark_unhealthy now n) = silent_since b n"
  "n_id (mark_offline now n) = n_id n" "n_status (mark_offline now n) = Offline"
  by (simp_all add: mark_unhealthy_def mark_offline_def silent_since_def)

text \<open>Nodes are taken down in two stages and only for silence: after a tick a node is offline if it
  has been silent for the offline period while ready, draining or unhealthy, unhealthy if it has been
  silent for the shorter period while ready or draining, and keeps its status otherwise; in particular
  a node heard from within the shorter period, or one never heard from, is not touched.\<close>

theorem liveness_node_status:
  assumes "ua \<le> oa"
  shows "map (\<lambda>n. (n_id n, n_status n)) (t_nodes (liveness_tick h ua oa s))
    = map (\<lambda>n. (n_id n, node_after (clock s) ua oa n)) (t_nodes s)"
proof -
  let ?now = "clock s"
  have nodes: "t_nodes (fold (node_lost h) nids t) = t_nodes t" for nids t
    by (induction nids arbitrary: t) simp_all
  have "silent_since (?now - oa) n \<Longrightarrow> silent_since (?now - ua) n" for n
    using silent_mono [of "?now - oa" "?now - ua"] assms by simp
  then show ?thesis
    by (auto simp: liveness_tick_def Let_def nodes upd_where_def node_after_def becomes_unhealthy_def becomes_offline_def)
qed

lemma liveness_node_status_witness:
  "map (\<lambda>n. (n_id n, n_status n)) (t_nodes (liveness_tick sample_host NODE_UNHEALTHY_AFTER_MS NODE_OFFLINE_AFTER_MS
     (sample_cluster\<lparr>clock := 60000\<rparr>))) = [(''node-1'', NodeUnhealthy)]"
proof -
  have "NODE_UNHEALTHY_AFTER_MS \<le> NODE_OFFLINE_AFTER_MS"
    by (simp add: NODE_UNHEALTHY_AFTER_MS_def NODE_OFFLINE_AFTER_MS_def)
  note liveness_node_status [OF this, of sample_host "sample_cluster\<lparr>clock := 60000\<rparr>"]
  moreover have "map (\<lambda>n. (n_id n, node_after 60000 NODE_UNHEALTHY_AFTER_MS NODE_OFFLINE_AFTER_MS n)) (t_nodes sample_cluster)
      = [(''node-1'', NodeUnhealthy)]"
    by code_simp
  ultimately show ?thesis by simp
qed

definition offline_ids :: "int \<Rightarrow> int \<Rightarrow> cp \<Rightarrow> string list" where
  "offline_ids ua oa s = map n_id (filter (becomes_offline (clock s - oa))
     (upd_where (becomes_unhealthy (clock s - ua)) (mark_unhealthy (clock s)) (t_nodes s)))"

text \<open>C35. A node that is declared offline is fenced: after the tick every workload of it is either not
  wanted any more (a stateless one, which may now be replaced elsewhere without the returning node
  reviving a duplicate) or lost and volume-backed (and stays bound to the node).\<close>

theorem liveness_fences_offline_nodes:
  assumes "distinct (map w_id (t_workloads s))"
  shows "list_all (\<lambda>nid. all_fenced nid (liveness_tick h ua oa s)) (offline_ids ua oa s)"
  using node_lost_fold [of "s\<lparr>t_nodes := upd_where (becomes_offline (clock s - oa)) (mark_offline (clock s))
      (upd_where (becomes_unhealthy (clock s - ua)) (mark_unhealthy (clock s)) (t_nodes s))\<rparr>" h "offline_ids ua oa s"] assms
  by (simp add: liveness_tick_def offline_ids_def Let_def)

lemma liveness_fences_offline_nodes_witness:
  "all_fenced ''node-1'' (liveness_tick sample_host NODE_UNHEALTHY_AFTER_MS NODE_OFFLINE_AFTER_MS
     (sample_cluster\<lparr>clock := 100000, t_workloads := [new_workload empty_cp ''w1'' ''id-0'' ''node-1'' []]\<rparr>))"
proof -
  let ?s = "sample_cluster\<lparr>clock := 100000, t_workloads := [new_workload empty_cp ''w1'' ''id-0'' ''node-1'' []]\<rparr>"
  have "offline_ids NODE_UNHEALTHY_AFTER_MS NODE_OFFLINE_AFTER_MS ?s = [''node-1'']" by code_simp
  with liveness_fences_offline_nodes [of ?s sample_host NODE_UNHEALTHY_AFTER_MS NODE_OFFLINE_AFTER_MS]
  show ?thesis by simp
qed

end
