(* ===== verification/VolumeController.thy ===== *)
theory VolumeController
  imports CommandController
begin

text \<open>
  \<open>apps/api/src/modules/volumes/controller.ts\<close>: the destructive, two-phase delete of a volume. The row of
  a deleting volume disappears only after the node's agent confirmed the delete command, or at once when
  the volume never had a node; a failed command turns the volume into an error. Nothing but a runtime
  name the control plane generated is ever sent to an agent for deletion.
\<close>

definition delete_command_of :: "string \<Rightarrow> agent_command \<Rightarrow> bool" where
  "delete_command_of vid c \<longleftrightarrow> c_resourceId c = vid \<and> c_type c = command_type_str VolumeDelete"

definition latest_delete :: "string \<Rightarrow> cp \<Rightarrow> agent_command option" where
  "latest_delete vid s = newest c_createdAt (filter (delete_command_of vid) (t_commands s))"

definition remove_volume :: "string \<Rightarrow> cp \<Rightarrow> cp" where
  "remove_volume vid s =
     s\<lparr>t_volumes := del_where (\<lambda>v. v_id v = vid \<and> v_status v = VolDeleting) (t_volumes s)\<rparr>"

definition volume_error :: "string \<Rightarrow> cp \<Rightarrow> cp" where
  "volume_error vid s = update_volumes (\<lambda>v. v_id v = vid) (\<lambda>v. v\<lparr>v_status := VolError\<rparr>) s"

definition reconcile_volume :: "host \<Rightarrow> volume \<Rightarrow> cp \<Rightarrow> cp" where
  "reconcile_volume h v s =
     (if \<not> isManagedRuntimeName (v_runtimeName v) then volume_error (v_id v) s
      else if \<not> truthy (v_nodeId v) then remove_volume (v_id v) s
      else (case latest_delete (v_id v) s of
              Some c \<Rightarrow>
                (case c_status c of
                   CmdSucceeded \<Rightarrow> remove_volume (v_id v) s
                 | CmdFailed \<Rightarrow> volume_error (v_id v) s
                 | _ \<Rightarrow> s)
            | None \<Rightarrow>
                enqueue_command h (the (v_nodeId v)) VolumeDelete (v_id v)
                  (JObj [(''runtimeName'', JStr (v_runtimeName v))]) (2 * 60000) s))"

definition volume_tick :: "host \<Rightarrow> cp \<Rightarrow> cp" where
  "volume_tick h s = fold (reconcile_volume h) (filter (\<lambda>v. v_status v = VolDeleting) (t_volumes s)) s"

subsection \<open>Facts\<close>

lemma newest_mem: "newest t rs = Some r \<Longrightarrow> r \<in> set rs"
  by (induction rs arbitrary: r) (auto split: option.splits if_splits)

lemma newest_None: "newest t rs = None \<longleftrightarrow> rs = []"
  by (cases rs) (auto split: option.splits)

lemma volume_op_frames [simp]:
  "t_commands (remove_volume vid s) = t_commands s"
  "t_commands (volume_error vid s) = t_commands s"
  "clock (remove_volume vid s) = clock s"
  "clock (volume_error vid s) = clock s"
  by (simp_all add: remove_volume_def volume_error_def)

text \<open>Where a deleting volume may be after its turn: gone, in error, or waiting for its delete command.\<close>

definition delete_pending :: "string \<Rightarrow> cp \<Rightarrow> bool" where
  "delete_pending vid s \<longleftrightarrow> (\<exists>c. latest_delete vid s = Some c \<and> command_open c)"

definition volume_handled :: "cp \<Rightarrow> volume \<Rightarrow> bool" where
  "volume_handled s v \<longleftrightarrow> v_status v \<noteq> VolDeleting \<or> delete_pending (v_id v) s"

lemma reconcile_volume_rows:
  "t_volumes (reconcile_volume h v s) = t_volumes s
   \<or> t_volumes (reconcile_volume h v s) = del_where (\<lambda>r. v_id r = v_id v \<and> v_status r = VolDeleting) (t_volumes s)
   \<or> (\<exists>now. t_volumes (reconcile_volume h v s) = upd_where (\<lambda>r. v_id r = v_id v)
        (\<lambda>r. r\<lparr>v_status := VolError, v_updatedAt := now\<rparr>) (t_volumes s))"
  by (auto simp: reconcile_volume_def remove_volume_def volume_error_def split: option.splits command_status.splits)

lemma reconcile_volume_commands:
  "t_commands (reconcile_volume h v s) = t_commands s
   \<or> (\<exists>c. t_commands (reconcile_volume h v s) = t_commands s @ [c] \<and> delete_command_of (v_id v) c
        \<and> c_status c = CmdPending \<and> latest_delete (v_id v) s = None
        \<and> c_payload c = JObj [(''runtimeName'', JStr (v_runtimeName v))] \<and> isManagedRuntimeName (v_runtimeName v))"
  by (auto simp: reconcile_volume_def delete_command_of_def new_command_def split: option.splits command_status.splits)

lemma latest_delete_other:
  assumes "t_commands s' = t_commands s \<or> (\<exists>c. t_commands s' = t_commands s @ [c] \<and> delete_command_of i c)"
    and "i \<noteq> vid"
  shows "latest_delete vid s' = latest_delete vid s"
  using assms by (auto simp: latest_delete_def delete_command_of_def)

lemma delete_pending_keeps:
  assumes "v_id v \<noteq> vid" shows "delete_pending vid (reconcile_volume h v s) = delete_pending vid s"
proof -
  have "latest_delete vid (reconcile_volume h v s) = latest_delete vid s"
    using latest_delete_other [of "reconcile_volume h v s" s "v_id v" vid] reconcile_volume_commands [of h v s] assms
    by blast
  then show ?thesis by (simp add: delete_pending_def)
qed

lemma pending_after_enqueue:
  assumes "latest_delete vid s = None" "t_commands s' = t_commands s @ [c]" "delete_command_of vid c" "command_open c"
  shows "delete_pending vid s'"
proof -
  from assms(1) have "filter (delete_command_of vid) (t_commands s) = []" by (simp add: latest_delete_def newest_None)
  with assms show ?thesis by (simp add: delete_pending_def latest_delete_def)
qed

lemma reconcile_volume_handles:
  assumes "r \<in> set (t_volumes (reconcile_volume h v s))" and "v_id r = v_id v"
  shows "volume_handled (reconcile_volume h v s) r"
proof -
  consider (bad) "\<not> isManagedRuntimeName (v_runtimeName v)"
    | (free) "isManagedRuntimeName (v_runtimeName v)" "\<not> truthy (v_nodeId v)"
    | (cmd) c where "isManagedRuntimeName (v_runtimeName v)" "truthy (v_nodeId v)" "latest_delete (v_id v) s = Some c"
    | (new) "isManagedRuntimeName (v_runtimeName v)" "truthy (v_nodeId v)" "latest_delete (v_id v) s = None"
    by (cases "latest_delete (v_id v) s") blast+
  then show ?thesis
  proof cases
    case bad
    with assms show ?thesis
      by (auto simp: reconcile_volume_def volume_error_def volume_handled_def set_upd_where)
  next
    case free
    with assms show ?thesis by (auto simp: reconcile_volume_def remove_volume_def volume_handled_def)
  next
    case cmd
    show ?thesis
    proof (cases "command_open c")
      case True
      with cmd have "reconcile_volume h v s = s"
        by (auto simp: reconcile_volume_def command_open_def)
      with True cmd assms(2) show ?thesis by (simp add: volume_handled_def delete_pending_def)
    next
      case False
      then have "c_status c = CmdSucceeded \<or> c_status c = CmdFailed"
        by (cases "c_status c") (auto simp: command_open_def)
      with cmd assms show ?thesis
        by (auto simp: reconcile_volume_def remove_volume_def volume_error_def volume_handled_def set_upd_where)
    qed
  next
    case new
    then have e: "reconcile_volume h v s = enqueue_command h (the (v_nodeId v)) VolumeDelete (v_id v)
                  (JObj [(''runtimeName'', JStr (v_runtimeName v))]) (2 * 60000) s"
      by (simp add: reconcile_volume_def)
    have "delete_pending (v_id v) (reconcile_volume h v s)" unfolding e
      by (rule pending_after_enqueue [OF new(3), where c = "new_command s (h_randomUUID h (uuid_next s))
            (the (v_nodeId v)) VolumeDelete (v_id v) (JObj [(''runtimeName'', JStr (v_runtimeName v))]) (2 * 60000)"])
        (simp_all add: delete_command_of_def new_command_def command_open_def)
    with assms(2) show ?thesis by (simp add: volume_handled_def)
  qed
qed

lemma reconcile_volume_row_cases:
  assumes "r \<in> set (t_volumes (reconcile_volume h v s))"
  shows "r \<in> set (t_volumes s) \<or> v_id r = v_id v"
  using assms reconcile_volume_rows [of h v s] by (auto simp: set_upd_where split: if_splits)

lemma volume_fold_handles:
  assumes "\<And>r. r \<in> set (t_volumes s) \<Longrightarrow> v_id r \<in> A \<Longrightarrow> volume_handled s r"
    and "r \<in> set (t_volumes (fold (reconcile_volume h) vs s))" "v_id r \<in> A \<union> v_id ` set vs"
  shows "volume_handled (fold (reconcile_volume h) vs s) r"
  using assms
proof (induction vs arbitrary: s A)
  case Nil
  then show ?case by simp
next
  case (Cons v vs)
  let ?s = "reconcile_volume h v s"
  have 1: "volume_handled ?s q" if q: "q \<in> set (t_volumes ?s)" "v_id q \<in> insert (v_id v) A" for q
  proof (cases "v_id q = v_id v")
    case True
    with reconcile_volume_handles q show ?thesis by blast
  next
    case False
    with q reconcile_volume_row_cases have "q \<in> set (t_volumes s)" "v_id q \<in> A" by auto
    with Cons.prems(1) have "volume_handled s q" by blast
    then show ?thesis using delete_pending_keeps [of v "v_id q" h s] False by (simp add: volume_handled_def)
  qed
  show ?case
    using Cons.IH [of ?s "insert (v_id v) A"] 1 Cons.prems(2,3) by auto
qed

lemma volume_fold_rows:
  "r \<in> set (t_volumes (fold (reconcile_volume h) vs s)) \<Longrightarrow> r \<in> set (t_volumes s) \<or> v_id r \<in> v_id ` set vs"
proof (induction vs arbitrary: s)
  case Nil
  then show ?case by simp
next
  case (Cons v vs)
  from Cons.IH [of "reconcile_volume h v s"] Cons.prems reconcile_volume_row_cases [of r h v s]
  show ?case by auto
qed

text \<open>Confirmed: the volume never reached a node, or its node's agent reported the delete as done.\<close>

definition delete_confirmed :: "cp \<Rightarrow> volume \<Rightarrow> bool" where
  "delete_confirmed s v \<longleftrightarrow> \<not> truthy (v_nodeId v)
     \<or> (\<exists>c. latest_delete (v_id v) s = Some c \<and> c_status c = CmdSucceeded)"

lemma reconcile_volume_keeps:
  assumes "r \<in> set (t_volumes s)" "r \<notin> set (t_volumes (reconcile_volume h v s))"
  shows "v_id r = v_id v"
  using assms reconcile_volume_rows [of h v s] by (auto simp: set_upd_where image_iff)

lemma reconcile_volume_survivor:
  assumes "\<not> delete_confirmed s v" and "v \<in> set (t_volumes s)"
  shows "v_id v \<in> v_id ` set (t_volumes (reconcile_volume h v s))"
proof -
  from assms(1) have n: "truthy (v_nodeId v)"
    and c: "\<And>c. latest_delete (v_id v) s = Some c \<Longrightarrow> c_status c \<noteq> CmdSucceeded"
    by (auto simp: delete_confirmed_def)
  have e: "v_id v \<in> v_id ` set (t_volumes (volume_error (v_id v) s))"
  proof -
    have "map v_id (t_volumes (volume_error (v_id v) s)) = map v_id (t_volumes s)"
      by (simp add: volume_error_def map_upd_where_inv)
    then have "set (map v_id (t_volumes (volume_error (v_id v) s))) = set (map v_id (t_volumes s))" by simp
    with assms(2) show ?thesis by simp
  qed
  show ?thesis
  proof (cases "latest_delete (v_id v) s")
    case None
    with n e assms(2) show ?thesis by (simp add: reconcile_volume_def)
  next
    case (Some cmd)
    with n e c [OF Some] assms(2) show ?thesis by (cases "c_status cmd") (simp_all add: reconcile_volume_def)
  qed
qed

lemma reconcile_volume_ids_other:
  assumes "i \<in> v_id ` set (t_volumes s)" "i \<noteq> v_id v"
  shows "i \<in> v_id ` set (t_volumes (reconcile_volume h v s))"
  using assms reconcile_volume_keeps [of _ s h v] by fastforce

lemma volume_fold_survivor:
  assumes "distinct (map v_id vs)" "i \<in> v_id ` set (t_volumes s)"
    and "\<And>v. v \<in> set vs \<Longrightarrow> v_id v = i \<Longrightarrow> v \<in> set (t_volumes s) \<and> \<not> delete_confirmed s v"
  shows "i \<in> v_id ` set (t_volumes (fold (reconcile_volume h) vs s))"
  using assms
proof (induction vs arbitrary: s)
  case Nil
  then show ?case by simp
next
  case (Cons v vs)
  let ?s = "reconcile_volume h v s"
  show ?case
  proof (cases "v_id v = i")
    case True
    with Cons.prems(3) [of v] reconcile_volume_survivor [of s v h] have "i \<in> v_id ` set (t_volumes ?s)" by auto
    moreover have "v_id w \<noteq> i" if "w \<in> set vs" for w
    proof -
      have "v_id w \<in> v_id ` set vs" using that by (rule imageI)
      with Cons.prems(1) True show ?thesis by auto
    qed
    ultimately show ?thesis using Cons.IH [of ?s] Cons.prems(1) by auto
  next
    case False
    have "i \<in> v_id ` set (t_volumes ?s)" 
      by (rule reconcile_volume_ids_other [OF Cons.prems(2)]) (use False in simp)
    moreover have "w \<in> set (t_volumes ?s) \<and> \<not> delete_confirmed ?s w" if "w \<in> set vs" "v_id w = i" for w
    proof -
      from Cons.prems(3) [of w] that have w: "w \<in> set (t_volumes s)" "\<not> delete_confirmed s w" by auto
      have "latest_delete i ?s = latest_delete i s"
        using latest_delete_other [of ?s s "v_id v" i] reconcile_volume_commands [of h v s] False by blast
      then have "\<not> delete_confirmed ?s w" using w(2) that(2) by (simp add: delete_confirmed_def)
      moreover have "w \<in> set (t_volumes ?s)" using reconcile_volume_keeps [OF w(1), of h v] that(2) False by metis
      ultimately show ?thesis by blast
    qed
    ultimately show ?thesis using Cons.IH [of ?s] Cons.prems(1) by auto
  qed
qed

subsection \<open>Properties\<close>

text \<open>A tick leaves no deleting volume unattended: every volume that was deleting is afterwards gone,
  in error, or waits for a delete command that is under way.\<close>

theorem volume_tick_progress:
  "list_all (volume_handled (volume_tick h s)) (t_volumes (volume_tick h s))"
proof -
  let ?vs = "filter (\<lambda>v. v_status v = VolDeleting) (t_volumes s)"
  have "volume_handled (volume_tick h s) r" if r: "r \<in> set (t_volumes (volume_tick h s))" for r
  proof (cases "v_id r \<in> v_id ` set ?vs")
    case True
    with volume_fold_handles [of s "{}" r h ?vs] r show ?thesis by (simp add: volume_tick_def)
  next
    case False
    with volume_fold_rows [of r h ?vs s] r have "r \<in> set (t_volumes s)" by (simp add: volume_tick_def)
    with False have "v_status r \<noteq> VolDeleting" by auto
    then show ?thesis by (simp add: volume_handled_def)
  qed
  then show ?thesis by (simp add: list_all_iff)
qed

text \<open>Data is never forgotten before it is deleted: a tick keeps the row of every volume unless the
  volume was deleting and either never had a node or its latest delete command had succeeded.\<close>

theorem volume_tick_keeps_unconfirmed:
  assumes "distinct (map v_id (t_volumes s))" and "v \<in> set (t_volumes s)"
    and "v_status v \<noteq> VolDeleting \<or> \<not> delete_confirmed s v"
  shows "v_id v \<in> v_id ` set (t_volumes (volume_tick h s))"
  unfolding volume_tick_def
proof (rule volume_fold_survivor)
  show "distinct (map v_id (filter (\<lambda>v. v_status v = VolDeleting) (t_volumes s)))"
    using assms(1) by (rule distinct_map_filter)
  show "v_id v \<in> v_id ` set (t_volumes s)" using assms(2) by simp
  fix w assume w: "w \<in> set (filter (\<lambda>v. v_status v = VolDeleting) (t_volumes s))" "v_id w = v_id v"
  with keyed_unique [OF assms(1) _ assms(2)] have "w = v" by auto
  with w assms(3) show "w \<in> set (t_volumes s) \<and> \<not> delete_confirmed s w" by auto
qed

definition sample_volume :: volume where
  "sample_volume = \<lparr>v_id = ''v1'', v_projectId = ''p'', v_name = ''data'',
     v_runtimeName = ''devion-v-0123456789abcdef0123456789abcdef'', v_status = VolDeleting,
     v_nodeId = Some ''node-1'', v_capacityMib = None, v_createdBy = None, v_createdAt = 0, v_updatedAt = 0\<rparr>"

lemma volume_tick_keeps_unconfirmed_witness:
  "''v1'' \<in> v_id ` set (t_volumes (volume_tick sample_host (empty_cp\<lparr>t_volumes := [sample_volume]\<rparr>)))"
proof -
  let ?s = "empty_cp\<lparr>t_volumes := [sample_volume]\<rparr>"
  have "latest_delete (v_id sample_volume) ?s = None" by (simp add: latest_delete_def empty_cp_def)
  then have "\<not> delete_confirmed ?s sample_volume" by (simp add: delete_confirmed_def truthy_def sample_volume_def)
  with volume_tick_keeps_unconfirmed [of ?s sample_volume sample_host] show ?thesis by (simp add: sample_volume_def)
qed

end
