(* ===== verification/BuildController.thy ===== *)
theory BuildController
  imports ReconcileProperties
begin

text \<open>
  \<open>apps/api/src/modules/builds/controller.ts\<close> and the run record of
  \<open>apps/api/src/features/builds/builder-client.ts\<close>: copying the outcome of a builder run into the build
  row, and deploying a finished build. The HTTP request to the builder is the argument \<open>getBuilderRun\<close>
  (\<open>Inl\<close> a failed request). \<open>reconcileBuild\<close> is composed of the transaction \<open>finish_build\<close> and the
  deployment \<open>deploy_build\<close> that follows it outside the transaction, so that a stop between the two is
  a state of the model. The text of an exception is the argument \<open>message\<close>.
\<close>

datatype run_status = RunQueued | RunRunning | RunPushing | RunSucceeded | RunFailed | RunCancelled

record builder_run =
  br_id :: string
  br_status :: run_status
  br_error :: "string option"
  br_resolvedCommit :: "string option"
  br_artifacts :: "(string \<times> string) list option"
  br_startedAt :: "int option"
  br_finishedAt :: "int option"

definition time_or :: "int option \<Rightarrow> cp \<Rightarrow> int" where
  "time_or t s = (case t of Some x \<Rightarrow> x | None \<Rightarrow> clock s)"

definition set_build :: "string \<Rightarrow> (build \<Rightarrow> build) \<Rightarrow> cp \<Rightarrow> cp" where
  "set_build bid f s = update_builds (\<lambda>b. b_id b = bid) f s"

definition deployment_enabled :: "json \<Rightarrow> bool" where
  "deployment_enabled cfg =
     (case Option.bind (jget ''deployment'' cfg) (jget ''enabled'') of Some v \<Rightarrow> \<not> js_falsy v | None \<Rightarrow> False)"

text \<open>\<open>Number(config.deployment?.replicas ?? 1)\<close>; the builds route stores an integer, anything that is not a
  number makes the insert fail.\<close>

definition deployment_replicas :: "json \<Rightarrow> int option" where
  "deployment_replicas cfg =
     (case Option.bind (jget ''deployment'' cfg) (jget ''replicas'') of
        None \<Rightarrow> Some 1
      | Some JNull \<Rightarrow> Some 1
      | Some v \<Rightarrow> z_int (\<lambda>_. True) v)"

fun spread :: "json option \<Rightarrow> (string \<times> json) list" where
  "spread (Some (JObj kvs)) = kvs"
| "spread _ = []"

definition default_requirements :: json where
  "default_requirements = JObj [(''cpuMilli'', JNum 250), (''memoryMib'', JNum 256), (''storageMib'', JNum 0),
     (''runtime'', JStr ''container'')]"

definition deployed_image :: "build \<Rightarrow> string \<Rightarrow> string" where
  "deployed_image b digest = b_imageRepository b @ ''@'' @ digest"

definition build_deployment_input :: "build \<Rightarrow> int \<Rightarrow> string \<Rightarrow> string \<Rightarrow> deployment_input" where
  "build_deployment_input b replicas digest commit =
     \<lparr>in_applicationId = b_applicationId b, in_environmentId = None, in_image = deployed_image b digest,
      in_replicas = replicas, in_desiredState = WantRunning, in_runtime = Container,
      in_requirements = (case jget ''requirements'' (b_buildConfiguration b) of
          None \<Rightarrow> default_requirements | Some JNull \<Rightarrow> default_requirements | Some j \<Rightarrow> j),
      in_runtimeConfig = JObj (AList.update ''commitSha'' (JStr commit) (AList.update ''buildId'' (JStr (b_id b))
          (spread (jget ''runtimeConfig'' (b_buildConfiguration b))))),
      in_configurationSnapshot = JObj (AList.update ''commitSha'' (JStr commit) (AList.update ''buildId'' (JStr (b_id b))
          (AList.update ''artifact'' (JObj [(''image'', JStr (deployed_image b digest)), (''digest'', JStr digest)])
            (spread (jget ''configurationSnapshot'' (b_buildConfiguration b)))))),
      in_buildId = Some (b_id b), in_commitSha = Some commit, in_createdBy = b_triggeredBy b,
      in_rollbackFromDeploymentId = None\<rparr>"

definition succeed_build :: "builder_run \<Rightarrow> string \<Rightarrow> string \<Rightarrow> string \<Rightarrow> cp \<Rightarrow> cp" where
  "succeed_build run bid digest commit s =
     set_build bid (\<lambda>b. b\<lparr>b_status := BSucceeded, b_commitSha := Some commit, b_imageDigest := Some digest,
       b_completedAt := Some (time_or (br_finishedAt run) s)\<rparr>) s"

definition fail_build :: "string \<Rightarrow> string \<Rightarrow> string \<Rightarrow> cp \<Rightarrow> cp" where
  "fail_build bid code msg s =
     set_build bid (\<lambda>b. b\<lparr>b_status := BFailed, b_errorCode := Some code, b_errorMessage := Some msg,
       b_completedAt := Some (clock s)\<rparr>) s"

text \<open>The transaction: the id of a deployment that already exists, and whether one has to be created.\<close>

definition finish_build :: "builder_run \<Rightarrow> build \<Rightarrow> string \<Rightarrow> string \<Rightarrow> cp \<Rightarrow> string option \<times> bool \<times> cp" where
  "finish_build run b digest commit s =
     (case find_build (b_id b) s of
        None \<Rightarrow> (None, False, s)
      | Some current \<Rightarrow>
          if b_status current = BSucceeded then (None, False, s)
          else (case List.find (\<lambda>d. d_buildId d = Some (b_id b)) (t_deployments s) of
                  Some existing \<Rightarrow> (Some (d_id existing), False, s)
                | None \<Rightarrow>
                    (None, True,
                     update_applications (\<lambda>a. a_id a = b_applicationId b)
                       (\<lambda>a. a\<lparr>a_status := AppDeploying, a_lastKnownCommit := Some commit\<rparr>)
                       (succeed_build run (b_id b) digest commit s))))"

definition log_app_deployment :: "host \<Rightarrow> build \<Rightarrow> string \<Rightarrow> cp \<Rightarrow> cp" where
  "log_app_deployment h b did s =
     (let (i, s1) = randomUUID h s in s1\<lparr>t_appDeployments := t_appDeployments s1 @
        [\<lparr>ad_id = i, ad_applicationId = b_applicationId b, ad_actorId = b_triggeredBy b, ad_action = ActDeploy,
          ad_succeeded = True, ad_message = ''Deployment '' @ did @ '' created from build '' @ b_id b,
          ad_createdAt = clock s1\<rparr>]\<rparr>)"

definition log_build_audit :: "host \<Rightarrow> build \<Rightarrow> string \<Rightarrow> string \<Rightarrow> cp \<Rightarrow> cp" where
  "log_build_audit h b did commit s =
     (let (i, s1) = randomUUID h s in s1\<lparr>t_auditLogs := t_auditLogs s1 @
        [\<lparr>al_id = i, al_actorId = b_triggeredBy b, al_action = ''deployment.created_from_build'',
          al_targetType = ''deployment'', al_targetId = Some did,
          al_metadata = Some (JObj [(''projectId'', JStr (b_projectId b)), (''buildId'', JStr (b_id b)),
            (''commitSha'', JStr commit)]), al_ipAddress = None, al_createdAt = clock s1\<rparr>]\<rparr>)"

definition deploy_build ::
  "host \<Rightarrow> (nat \<Rightarrow> cp \<Rightarrow> cp) \<Rightarrow> (exn \<Rightarrow> string) \<Rightarrow> build \<Rightarrow> string \<Rightarrow> string \<Rightarrow> cp \<Rightarrow> (exn + string) \<times> cp" where
  "deploy_build h rival message b digest commit s =
     (let (r, s1) = (case deployment_replicas (b_buildConfiguration b) of
                       None \<Rightarrow> (Inl (Js_error ''invalid input syntax for type integer''), s)
                     | Some n \<Rightarrow> createDeployment h rival (build_deployment_input b n digest commit) s)
      in case r of
           Inl e \<Rightarrow> (Inl e, fail_build (b_id b) ''DEPLOYMENT_CREATE_FAILED'' (message e) s1)
         | Inr d \<Rightarrow>
             (Inr (d_id d), log_build_audit h b (d_id d) commit
                (log_app_deployment h b (d_id d)
                  (supersedePreviousDeployments h (b_applicationId b) (d_id d) s1))))"

definition reconcileBuild ::
  "host \<Rightarrow> (nat \<Rightarrow> cp \<Rightarrow> cp) \<Rightarrow> (nat \<Rightarrow> cp \<Rightarrow> cp) \<Rightarrow> (exn \<Rightarrow> string) \<Rightarrow> (string \<Rightarrow> exn + builder_run)
     \<Rightarrow> string \<Rightarrow> cp \<Rightarrow> (exn + unit) \<times> cp" where
  "reconcileBuild h rival vrival message getBuilderRun bid s =
     (case find_build bid s of
        None \<Rightarrow> (Inr (), s)
      | Some b \<Rightarrow>
          if \<not> truthy (b_builderJobId b) \<or> b_status b \<in> {BSucceeded, BFailed, BCancelled} then (Inr (), s)
          else (case getBuilderRun (the (b_builderJobId b)) of
            Inl e \<Rightarrow> (Inl e, s)
          | Inr run \<Rightarrow>
            (case br_status run of
               RunQueued \<Rightarrow> (Inr (), s)
             | RunRunning \<Rightarrow> (Inr (), set_build bid (\<lambda>b. b\<lparr>b_status := BRunning,
                   b_startedAt := Some (time_or (br_startedAt run) s)\<rparr>) s)
             | RunPushing \<Rightarrow> (Inr (), set_build bid (\<lambda>b. b\<lparr>b_status := BPushing,
                   b_startedAt := Some (time_or (br_startedAt run) s)\<rparr>) s)
             | RunFailed \<Rightarrow> (Inr (), set_build bid (\<lambda>b. b\<lparr>b_status := BFailed, b_errorCode := Some ''BUILD_FAILED'',
                   b_errorMessage := map_option (take 2000) (br_error run),
                   b_completedAt := Some (time_or (br_finishedAt run) s)\<rparr>) s)
             | RunCancelled \<Rightarrow> (Inr (), set_build bid (\<lambda>b. b\<lparr>b_status := BCancelled, b_errorCode := Some ''BUILD_CANCELLED'',
                   b_errorMessage := map_option (take 2000) (br_error run),
                   b_completedAt := Some (time_or (br_finishedAt run) s)\<rparr>) s)
             | RunSucceeded \<Rightarrow>
                 (case (br_artifacts run, br_resolvedCommit run) of
                    (Some ((img, digest) # _), Some commit) \<Rightarrow>
                      if digest = [] \<or> commit = []
                      then (Inr (), fail_build bid ''INVALID_BUILD_RESULT''
                              ''Builder did not return an immutable image digest and commit'' s)
                      else if \<not> deployment_enabled (b_buildConfiguration b) then
                        (Inr (), update_applications (\<lambda>a. a_id a = b_applicationId b)
                           (\<lambda>a. a\<lparr>a_lastKnownCommit := Some commit\<rparr>) (succeed_build run bid digest commit s))
                      else
                        (let (existing, created, s1) = finish_build run b digest commit s in
                         if created then
                           (case deploy_build h rival message b digest commit s1 of
                              (Inl e, s2) \<Rightarrow> (Inl e, s2)
                            | (Inr did, s2) \<Rightarrow> reconcileDeployment h vrival did s2)
                         else (case existing of
                                 None \<Rightarrow> (Inr (), s1)
                               | Some did \<Rightarrow> reconcileDeployment h vrival did s1))
                  | _ \<Rightarrow> (Inr (), fail_build bid ''INVALID_BUILD_RESULT''
                           ''Builder did not return an immutable image digest and commit'' s)))))"

definition build_tick ::
  "host \<Rightarrow> (nat \<Rightarrow> cp \<Rightarrow> cp) \<Rightarrow> (nat \<Rightarrow> cp \<Rightarrow> cp) \<Rightarrow> (exn \<Rightarrow> string) \<Rightarrow> (string \<Rightarrow> exn + builder_run) \<Rightarrow> cp \<Rightarrow> cp" where
  "build_tick h rival vrival message getBuilderRun s =
     fold (\<lambda>bid t. snd (reconcileBuild h rival vrival message getBuilderRun bid t))
       (map b_id (filter (\<lambda>b. b_status b \<in> {BQueued, BRunning, BPushing}) (t_builds s))) s"

end
