(* ===== verification/RevisionProperties.thy ===== *)
theory RevisionProperties
  imports ReconcileProperties
begin

text \<open>
  Revisions are immutable: what a deployment row says about the revision (everything but its status,
  recovery and lease columns and the scheduling requirements) survives every run of the reconciler, and
  so does its desired state and every build row. \<open>keeps\<close> is the relation all operations of a run are
  shown to respect.
\<close>

definition revision :: "deployment \<Rightarrow> (string \<times> string \<times> int \<times> string \<times> int) \<times> (runtime_kind \<times> json \<times> json option)
    \<times> (string option \<times> string option \<times> string option)" where
  "revision d = ((d_id d, d_applicationId d, d_version d, d_image d, d_replicas d),
     (d_runtime d, d_runtimeConfig d, d_configurationSnapshot d),
     (d_buildId d, d_commitSha d, d_rollbackFromDeploymentId d))"

definition intent :: "deployment \<Rightarrow> ((string \<times> string \<times> int \<times> string \<times> int) \<times> (runtime_kind \<times> json \<times> json option)
    \<times> (string option \<times> string option \<times> string option)) \<times> desired_state" where
  "intent d = (revision d, d_desiredState d)"

definition keeps :: "cp \<Rightarrow> cp \<Rightarrow> bool" where
  "keeps s s' \<longleftrightarrow> map intent (t_deployments s') = map intent (t_deployments s) \<and> t_builds s' = t_builds s"

lemma keeps_refl [simp]: "keeps s s"
  by (simp add: keeps_def)

lemma keeps_trans: "keeps s t \<Longrightarrow> keeps t u \<Longrightarrow> keeps s u"
  by (simp add: keeps_def)

lemma keeps_update: "(\<And>d. P d \<Longrightarrow> intent (f d) = intent d) \<Longrightarrow> keeps s (update_deployments P f s)"
  by (simp add: keeps_def map_upd_where_inv)

lemma keeps_other [simp]:
  "keeps s (update_workloads P1 f1 s)"
  "keeps s (update_volumes P2 f2 s)"
  "keeps s (log_event h did ty msg g s)"
  "keeps s (refreshApplicationStatus app s)"
  by (simp_all add: keeps_def update_workloads_def update_volumes_def)

lemma keeps_log: "keeps s t \<Longrightarrow> keeps s (log_event h did ty msg g t)"
  by (simp add: keeps_def)

lemma keeps_fail: "keeps s (fail_deployment did reason s)"
  unfolding fail_deployment_def by (rule keeps_update) (simp add: intent_def revision_def)

lemma keeps_store: "keeps s (store_requirements did req s)"
  unfolding store_requirements_def by (rule keeps_update) (simp add: intent_def revision_def)

lemma keeps_uuid: "randomUUID h s = (i, s') \<Longrightarrow> keeps s s'"
  by (auto simp: randomUUID_def keeps_def)

lemma intent_status_change: "intent (status_change now b nxt d) = intent d"
  by (simp add: status_change_def Let_def intent_def revision_def)

lemma keeps_refresh: "keeps s (snd (refreshDeploymentStatus h did s))"
proof (cases "find_deployment did s")
  case None
  then show ?thesis by (simp add: refreshDeploymentStatus_def)
next
  case (Some d)
  show ?thesis
  proof (cases "superseded_row d \<or> (d_status d, d_failureReason d) = derived_for d s")
    case True
    with refresh_same [OF Some True] show ?thesis by simp
  next
    case False
    then have "\<not> superseded_row d" "(d_status d, d_failureReason d) \<noteq> derived_for d s" by auto
    note st = refresh_step [OF Some this]
    show ?thesis
      by (simp add: st keeps_def map_upd_where_inv intent_status_change refreshApplicationStatus_def)
  qed
qed

lemma keeps_request: "keeps s (requestStateChange h ty w s)"
  by (simp add: keeps_def requestStateChange_def enqueue_command_def randomUUID_def update_workloads_def
      split: option.splits)

lemma keeps_request_all: "keeps s (request_all h ty ws s)"
proof (induction ws arbitrary: s)
  case Nil
  then show ?case by simp
next
  case (Cons w ws)
  from keeps_trans [OF keeps_request Cons.IH] show ?case by (simp add: request_all_Cons)
qed

lemma keeps_recovery_events: "keeps s (fold (recovery_event h did) ws s)"
proof (induction ws arbitrary: s)
  case Nil
  then show ?case by simp
next
  case (Cons w ws)
  have "keeps s (recovery_event h did w s)" by (simp add: recovery_event_def)
  from keeps_trans [OF this Cons.IH] show ?case by simp
qed

lemma keeps_insert_reservations: "insert_reservations h nid wid as s = (x, s') \<Longrightarrow> keeps s s'"
proof (induction as arbitrary: s)
  case Nil
  then show ?case by simp
next
  case (Cons a as)
  obtain cport pr hp where a: "a = (cport, pr, hp)" by (cases a)
  obtain i s1 where u: "randomUUID h s = (i, s1)" by (cases "randomUUID h s")
  let ?r = "new_reservation s1 i nid wid cport hp pr"
  show ?case
  proof (cases "insert_reservation ?r s1")
    case None
    with Cons.prems keeps_uuid [OF u] show ?thesis by (simp add: a u)
  next
    case (Some s2)
    then have "keeps s1 s2" by (auto simp: insert_reservation_def keeps_def split: if_splits)
    moreover have "insert_reservations h nid wid as s2 = (x, s')" using Cons.prems Some by (simp add: a u)
    ultimately show ?thesis using Cons.IH keeps_uuid [OF u] keeps_trans by blast
  qed
qed

lemma keeps_write_placement:
  assumes "write_placement h d nid wid cid reasons replacement attempt ports pinned req cfg s = (x, s')"
  shows "keeps s s'"
proof -
  define s1 where "s1 = (case pinned of None \<Rightarrow> s | Some p \<Rightarrow> store_requirements (d_id d) p s)"
  define s2 where "s2 = (if replacement = None then s1
                else update_deployments (\<lambda>e. d_id e = d_id d)
                  (\<lambda>e. e\<lparr>d_recoveryAttempts := attempt, d_recoveryState := RecBackoff,
                         d_recoveryNextAttemptAt := Some (clock s + backoff_ms attempt)\<rparr>) s1)"
  define s3 where "s3 = s2\<lparr>t_workloads := t_workloads s2 @ [placed_workload s2 wid d nid reasons replacement]\<rparr>"
  have 1: "keeps s s1" by (simp add: s1_def keeps_store split: option.splits)
  have 2: "keeps s1 s2" unfolding s2_def
    by (simp, intro impI keeps_update) (simp add: intent_def revision_def)
  have 3: "keeps s s3" using keeps_trans [OF 1 2] by (simp add: s3_def keeps_def)
  obtain y s4 where i: "insert_reservations h nid wid ports s3 = (y, s4)"
    by (cases "insert_reservations h nid wid ports s3")
  from keeps_trans [OF 3 keeps_insert_reservations [OF i]] have 4: "keeps s s4" .
  note wp = assms [unfolded write_placement_def, folded s1_def, unfolded Let_def, folded s2_def,
      folded s3_def, unfolded i prod.case]
  show ?thesis
  proof (cases y)
    case (Inl e)
    with wp 4 show ?thesis by (auto simp: rolled_back_def keeps_def)
  next
    case (Inr u)
    with wp 4 show ?thesis by (auto simp: keeps_def split: option.splits)
  qed
qed

fun step_state :: "step \<Rightarrow> cp" where
  "step_state (Retry req s) = s"
| "step_state (Placed req cands s) = s"
| "step_state (Return s) = s"
| "step_state (Throw e s) = s"

lemma keeps_start_replica: "keeps s (step_state (start_replica h ctx nid reasons req cands s))"
proof -
  define d where "d = rc_deployment ctx"
  obtain wid s1 where u1: "randomUUID h s = (wid, s1)" by (cases "randomUUID h s")
  obtain cid s2 where u2: "randomUUID h s1 = (cid, s2)" by (cases "randomUUID h s1")
  have k2: "keeps s s2" using keeps_trans [OF keeps_uuid [OF u1] keeps_uuid [OF u2]] .
  define assigned where "assigned = assign_ports wid (occupied_ports nid s2) (rc_ports ctx)"
  define replacement where "replacement = List.find needs_replacement (rc_workloads ctx)"
  define attempt where
    "attempt = (if replacement = None then d_recoveryAttempts d else d_recoveryAttempts d + 1)"
  define pinned where "pinned = (if rc_persistent ctx \<and> \<not> truthy (wr_requiredNodeId req)
      then Some (req\<lparr>wr_requiredNodeId := Some nid\<rparr>) else None)"
  define req' where "req' = (case pinned of Some p \<Rightarrow> p | None \<Rightarrow> req)"
  note sr = start_replica_def [of h ctx nid reasons req cands s, folded d_def, unfolded Let_def u1 u2 prod.case,
      folded assigned_def replacement_def, folded attempt_def pinned_def, folded req'_def]
  show ?thesis
  proof (cases "length assigned \<noteq> length (filter is_public (rc_ports ctx))")
    case True
    then show ?thesis using keeps_trans [OF k2 keeps_fail] by (simp add: sr)
  next
    case len: False
    show ?thesis
    proof (cases "command_runtime_config assigned (d_runtimeConfig d)")
      case None
      then show ?thesis using len k2 by (simp add: sr)
    next
      case (Some cfg)
      note sr' = sr [unfolded if_not_P [OF len] Some option.case]
      show ?thesis
      proof (cases "MAX_RECOVERY_ATTEMPTS < attempt")
        case True
        have "keeps s2 (update_deployments (\<lambda>e. d_id e = d_id d)
                      (\<lambda>e. e\<lparr>d_recoveryState := RecManual, d_status := DepFailed,
                             d_failureReason := Some ''Automatic recovery attempts exhausted''\<rparr>) s2)"
          by (rule keeps_update) (simp add: intent_def revision_def)
        from keeps_trans [OF k2 this] show ?thesis unfolding sr' if_P [OF True] by (simp add: keeps_log)
      next
        case False
        obtain x s3 where w: "write_placement h d nid wid cid reasons replacement attempt assigned pinned req cfg s2
            = (x, s3)"
          by (cases "write_placement h d nid wid cid reasons replacement attempt assigned pinned req cfg s2")
        have k3: "keeps s s3" using keeps_trans [OF k2 keeps_write_placement [OF w]] .
        have kf: "keeps s (fail_deployment (d_id d) r s3)" for r using keeps_trans [OF k3 keeps_fail] .
        show ?thesis unfolding sr' if_not_P [OF False] w by (cases x) (simp_all add: k3 kf keeps_log)
      qed
    qed
  qed
qed

lemma keeps_claim_volumes:
  assumes "volume_rivals (rc_managedIds ctx) rival"
  shows "keeps s (case claim_volumes (rival k) ctx nid req s of Claimed q t \<Rightarrow> t | ClaimRetry q t \<Rightarrow> t | ClaimConflict t \<Rightarrow> t)"
proof -
  have eq: "rival k s = s\<lparr>t_volumes := t_volumes (rival k s)\<rparr>"
    using assms unfolding volume_rivals_def by blast
  have "t_deployments (rival k s) = t_deployments s" "t_builds (rival k s) = t_builds s" by (subst eq, simp)+
  then have r: "keeps s (rival k s)" by (simp add: keeps_def)
  have b: "keeps s (bind_unbound ids nid (rival k s))" for ids using keeps_trans [OF r] keeps_other(2) by blast
  have f: "keeps s (fail_deployment did m (bind_unbound ids nid (rival k s)))" for ids did m
    using keeps_trans [OF b keeps_fail] .
  have g: "keeps s (store_requirements did q (bind_unbound ids nid (rival k s)))" for ids did q
    using keeps_trans [OF b keeps_store] .
  show ?thesis unfolding claim_volumes_def Let_def by (simp add: f g)
qed

lemma keeps_place_step:
  assumes "volume_rivals (rc_managedIds ctx) rival"
  shows "keeps s (step_state (place_step h (rival k) ctx req cands s))"
proof -
  let ?d = "rc_deployment ctx" and ?dec = "scheduleWorkload (h_localeCompare h) cands req"
  let ?cl = "claim_volumes (rival k) ctx (the (sd_nodeId ?dec)) req s"
  have c: "keeps s (case ?cl of Claimed q t \<Rightarrow> t | ClaimRetry q t \<Rightarrow> t | ClaimConflict t \<Rightarrow> t)"
    by (rule keeps_claim_volumes [OF assms])
  have st: "keeps s (step_state (case ?cl of ClaimConflict s1 \<Rightarrow> Return s1 | ClaimRetry req' s1 \<Rightarrow> Retry req' s1
          | Claimed req' s1 \<Rightarrow> start_replica h ctx (the (sd_nodeId ?dec)) (sd_reasons ?dec) req' cands s1))"
    using c by (cases ?cl) (auto intro: keeps_trans [OF _ keeps_start_replica])
  have "step_state (place_step h (rival k) ctx req cands s) \<in>
      {fail_deployment (d_id ?d) ''Automatic recovery attempts exhausted'' s, s, snd (refreshDeploymentStatus h (d_id ?d) s),
       step_state (case ?cl of ClaimConflict s1 \<Rightarrow> Return s1 | ClaimRetry req' s1 \<Rightarrow> Retry req' s1
          | Claimed req' s1 \<Rightarrow> start_replica h ctx (the (sd_nodeId ?dec)) (sd_reasons ?dec) req' cands s1)}"
    unfolding place_step_def Let_def by simp
  with st keeps_fail keeps_refresh show ?thesis by auto
qed

lemma keeps_place_replicas:
  assumes "volume_rivals (rc_managedIds ctx) rival"
  shows "keeps s (snd (place_replicas fuel h rival ctx n req cands s))"
proof (induction fuel arbitrary: n req cands s)
  case 0
  then show ?case by (cases n) simp_all
next
  case (Suc fuel)
  show ?case
  proof (cases n)
    case 0
    then show ?thesis by simp
  next
    case (Suc m)
    from keeps_place_step [OF assms] have "keeps s (step_state (place_step h (rival fuel) ctx req cands s))" .
    then show ?thesis using Suc.IH Suc
      by (cases "place_step h (rival fuel) ctx req cands s") (auto intro: keeps_trans)
  qed
qed

lemma keeps_reconcile_running:
  assumes "volume_rivals (rc_managedIds ctx) rival"
  shows "keeps s (snd (reconcile_running h rival ctx req s))"
proof -
  let ?d = "rc_deployment ctx" and ?un = "filter unhealthy_workload (rc_workloads ctx)"
  let ?m = "missing_replicas ?d (rc_persistent ctx) (rc_workloads ctx)"
  let ?pr = "place_replicas (Suc ?m) h rival ctx ?m req (loadCandidates h s) s"
  have a: "keeps s (snd (refreshDeploymentStatus h (d_id ?d)
              (fold (recovery_event h (d_id ?d)) ?un (request_all h WorkloadStop ?un s))))"
    using keeps_trans [OF keeps_trans [OF keeps_request_all keeps_recovery_events] keeps_refresh] .
  have u: "keeps s (update_deployments (\<lambda>e. d_id e = d_id ?d)
                        (\<lambda>e. e\<lparr>d_recoveryAttempts := 0, d_recoveryNextAttemptAt := None,
                               d_recoveryState := RecIdle\<rparr>) s)"
    by (rule keeps_update) (simp add: intent_def revision_def)
  have p: "keeps s (snd ?pr)" by (rule keeps_place_replicas [OF assms])
  have q: "keeps s (snd (refreshDeploymentStatus h (d_id ?d) (snd ?pr)))" using keeps_trans [OF p keeps_refresh] .
  show ?thesis unfolding reconcile_running_def Let_def
    using a u p q keeps_refresh keeps_trans [OF u keeps_refresh]
    by (auto split: prod.splits loop_exit.splits)
qed

lemma keeps_reconcileDeploymentClaimed:
  assumes "\<And>ids. volume_rivals ids rival"
  shows "keeps s (snd (reconcileDeploymentClaimed h rival did s))"
proof (cases "find_deployment did s")
  case None
  then show ?thesis by (simp add: reconcileDeploymentClaimed_def)
next
  case (Some d)
  show ?thesis
  proof (cases "requirementsSchema (h_zodUuid h) (d_requirements d)")
    case None
    with Some show ?thesis by (simp add: reconcileDeploymentClaimed_def)
  next
    case (Some req0)
    note run = keeps_reconcile_running [OF assms]
    have st: "keeps s (snd (refreshDeploymentStatus h did (request_all h ty ws s)))" for ty ws
      using keeps_trans [OF keeps_request_all keeps_refresh] .
    show ?thesis
      unfolding reconcileDeploymentClaimed_def \<open>find_deployment did s = Some d\<close> option.case Some Let_def
      by (simp add: st keeps_fail run keeps_trans [OF keeps_store run] split: sum.split option.split)
  qed
qed

lemma keeps_reconcileDeployment:
  assumes "\<And>ids. volume_rivals ids rival"
  shows "keeps s (snd (reconcileDeployment h rival did s))"
proof -
  obtain i s1 where u: "randomUUID h s = (i, s1)" by (cases "randomUUID h s")
  obtain got s2 where c: "claim_lease i did s1 = (got, s2)" by (cases "claim_lease i did s1")
  have "keeps s1 (snd (claim_lease i did s1))"
    unfolding claim_lease_def Let_def snd_conv by (rule keeps_update) (simp add: intent_def revision_def)
  with keeps_uuid [OF u] c keeps_trans have k2: "keeps s s2" by fastforce
  have k3: "keeps s (snd (reconcileDeploymentClaimed h rival did s2))"
    using keeps_trans [OF k2 keeps_reconcileDeploymentClaimed [OF assms]] .
  have "keeps t (release_lease i did t)" for t
    unfolding release_lease_def by (rule keeps_update) (simp add: intent_def revision_def)
  from keeps_trans [OF k3 this] k2 show ?thesis
    by (cases "reconcileDeploymentClaimed h rival did s2") (simp add: reconcileDeployment_def u c Let_def)
qed



end
