(* ===== verification/BuildProperties.thy ===== *)
theory BuildProperties
  imports BuildController RevisionProperties
begin

text \<open>
  Properties of the build controller: what a finished builder run leaves in the build row, which revision
  a successful build puts into operation, and what happens to a build whose controller stops between the
  transaction that marks it succeeded and the deployment that follows.
\<close>

subsection \<open>Build rows\<close>

lemma find_set_build:
  assumes "find_build bid s = Some b" and "\<And>b. b_id (f b) = b_id b"
  shows "find_build bid (set_build bid f s) = Some ((f b)\<lparr>b_updatedAt := clock s\<rparr>)"
proof -
  have "keyed_rows b_id (\<lambda>b. (f b)\<lparr>b_updatedAt := clock s\<rparr>)" by unfold_locales (simp add: assms(2))
  from keyed_rows.find_upd_key [OF this] assms(1) show ?thesis
    by (simp add: find_build_def set_build_def update_builds_def)
qed

lemma find_build_cong: "t_builds s' = t_builds s \<Longrightarrow> find_build bid s' = find_build bid s"
  by (simp add: find_build_def)

lemma set_build_frames [simp]:
  "t_deployments (set_build bid f s) = t_deployments s"
  "t_deployments (update_applications P g s) = t_deployments s"
  "t_builds (update_applications P g s) = t_builds s"
  "clock (set_build bid f s) = clock s"
  by (simp_all add: set_build_def update_builds_def update_applications_def)

lemma finish_build_cases:
  assumes "find_build (b_id b) s = Some current" and "finish_build run b digest commit s = (ex, created, s1)"
  obtains (created) "created" "ex = None" "find_build (b_id b) s1 = Some (current\<lparr>b_status := BSucceeded, b_commitSha := Some commit,
      b_imageDigest := Some digest, b_completedAt := Some (time_or (br_finishedAt run) s), b_updatedAt := clock s\<rparr>)"
      "t_deployments s1 = t_deployments s" "b_status current \<noteq> BSucceeded"
      "list_all (\<lambda>d. d_buildId d \<noteq> Some (b_id b)) (t_deployments s)"
      "\<And>h. fresh_ids h s \<Longrightarrow> fresh_ids h s1"
  | (existing) "\<not> created" "s1 = s" "ex \<noteq> None" "list_ex (\<lambda>d. d_buildId d = Some (b_id b)) (t_deployments s)"
  | (finished) "\<not> created" "s1 = s" "ex = None" "b_status current = BSucceeded"
proof (cases "b_status current = BSucceeded")
  case True
  with assms finished show ?thesis by (auto simp: finish_build_def)
next
  case False
  show ?thesis
  proof (cases "List.find (\<lambda>d. d_buildId d = Some (b_id b)) (t_deployments s)")
    case None
    then have n: "list_all (\<lambda>d. d_buildId d \<noteq> Some (b_id b)) (t_deployments s)"
      by (simp add: find_None_iff' list_all_iff)
    have e: "created" "ex = None" "s1 = update_applications (\<lambda>a. a_id a = b_applicationId b)
        (\<lambda>a. a\<lparr>a_status := AppDeploying, a_lastKnownCommit := Some commit\<rparr>) (succeed_build run (b_id b) digest commit s)"
      using assms False None by (simp_all add: finish_build_def)
    have fr: "fresh_ids h s \<Longrightarrow> fresh_ids h s1" for h
      by (simp add: e fresh_ids_def ids_in_use_def succeed_build_def set_build_def update_builds_def
          update_applications_def)
    show ?thesis
    proof (rule created [OF e(1,2) _ _ False n fr])
      show "t_deployments s1 = t_deployments s" by (simp add: e succeed_build_def)
      show "find_build (b_id b) s1 = Some (current\<lparr>b_status := BSucceeded, b_commitSha := Some commit,
      b_imageDigest := Some digest, b_completedAt := Some (time_or (br_finishedAt run) s), b_updatedAt := clock s\<rparr>)"
        using find_set_build [OF assms(1)] by (simp add: e succeed_build_def find_build_cong [OF set_build_frames(3)])
    qed
  next
    case (Some d)
    then have "list_ex (\<lambda>d. d_buildId d = Some (b_id b)) (t_deployments s)"
      by (auto simp: list_ex_iff dest: find_Some_iff')
    with Some assms False existing show ?thesis by (auto simp: finish_build_def)
  qed
qed

subsection \<open>Creating the deployment leaves build rows alone\<close>

lemma insert_mounts_builds: "t_builds (snd (insert_mounts h i ms t)) = t_builds t"
proof (induction ms arbitrary: t)
  case Nil
  then show ?case by simp
next
  case (Cons m ms)
  then show ?case by (simp add: randomUUID_def)
qed

lemma create_attempt_builds:
  assumes "t_builds (rival s) = t_builds s"
  shows "t_builds (snd (create_attempt h rival inp s)) = t_builds s"
proof -
  obtain i s1 where u: "randomUUID h (rival s) = (i, s1)" by (cases "randomUUID h (rival s)")
  then have b1: "t_builds s1 = t_builds s" using assms by (auto simp: randomUUID_def)
  let ?d = "new_deployment s1 i (latest_version (in_applicationId inp) (t_deployments s) + 1) inp"
  show ?thesis
  proof (cases "insert_deployment ?d s1")
    case None
    then show ?thesis using assms
      by (simp add: create_attempt_def u Let_def rolled_back_def split: option.splits)
  next
    case (Some s2)
    then have b2: "t_builds s2 = t_builds s" using b1 by (auto simp: insert_deployment_def split: if_splits)
    obtain x s3 where m: "insert_mounts h i (managedVolumeMounts (in_runtimeConfig inp)) s2 = (x, s3)"
      by (cases "insert_mounts h i (managedVolumeMounts (in_runtimeConfig inp)) s2")
    then have b3: "t_builds s3 = t_builds s" using b2 insert_mounts_builds [of h i _ s2] by (metis snd_conv)
    have "t_builds (created_event h inp d t) = t_builds t" for d t by (simp add: created_event_def)
    with assms b3 show ?thesis
      by (simp add: create_attempt_def u Some m Let_def rolled_back_def split: option.split sum.split)
  qed
qed

lemma create_attempts_builds:
  assumes "\<And>k s. t_builds (rival k s) = t_builds s"
  shows "t_builds (snd (create_attempts n h rival inp s)) = t_builds s"
proof (induction n arbitrary: s)
  case 0
  then show ?case by simp
next
  case (Suc n)
  obtain x t where a: "create_attempt h (rival n) inp s = (x, t)" by (cases "create_attempt h (rival n) inp s")
  have "t_builds t = t_builds s" using create_attempt_builds [of "rival n" s h inp, OF assms] a by simp
  with a Suc.IH show ?case by (cases x) simp_all
qed

lemma createDeployment_builds:
  "(\<And>k s. t_builds (rival k s) = t_builds s) \<Longrightarrow> t_builds (snd (createDeployment h rival inp s)) = t_builds s"
  by (simp add: createDeployment_def create_attempts_builds split: option.split)

lemma supersede_builds: "t_builds (supersedePreviousDeployments h app cur s) = t_builds s"
proof -
  have one: "t_builds (supersede_one h cur d t) = t_builds t" for d t
    using keeps_request_all [of "log_event h (d_id d) ''deployment.superseded'' (''Superseded by deployment '' @ cur) id
        (update_deployments (\<lambda>e. d_id e = d_id d)
            (\<lambda>e. e\<lparr>d_desiredState := WantStopped, d_status := DepSuperseded, d_failureReason := None\<rparr>) t)" h WorkloadStop]
    by (simp add: supersede_one_def Let_def keeps_def)
  have "t_builds (fold (supersede_one h cur) ds t) = t_builds t" for ds t
    by (induction ds arbitrary: t) (simp_all add: one)
  then show ?thesis by (simp add: supersedePreviousDeployments_def)
qed

lemma deploy_logs_frames [simp]:
  "t_builds (log_app_deployment h b did s) = t_builds s"
  "t_builds (log_build_audit h b did commit s) = t_builds s"
  "t_deployments (log_app_deployment h b did s) = t_deployments s"
  "t_deployments (log_build_audit h b did commit s) = t_deployments s"
  by (simp_all add: log_app_deployment_def log_build_audit_def randomUUID_def)

lemma deploy_build_row:
  assumes "find_build (b_id b) s = Some r" and "\<And>k s. t_builds (rival k s) = t_builds s"
    and "deploy_build h rival message b digest commit s = (x, s')"
  shows "case x of Inr did \<Rightarrow> find_build (b_id b) s' = Some r
    | Inl e \<Rightarrow> \<exists>r'. find_build (b_id b) s' = Some r' \<and> b_status r' = BFailed"
proof -
  define cr where "cr = (case deployment_replicas (b_buildConfiguration b) of
                       None \<Rightarrow> (Inl (Js_error ''invalid input syntax for type integer''), s)
                     | Some n \<Rightarrow> createDeployment h rival (build_deployment_input b n digest commit) s)"
  obtain y s1 where c: "cr = (y, s1)" by (cases cr)
  have "t_builds (snd cr) = t_builds s"
    by (simp add: cr_def createDeployment_builds [OF assms(2)] split: option.split)
  then have b1: "t_builds s1 = t_builds s" by (simp add: c)
  then have f1: "find_build (b_id b) s1 = Some r" using assms(1) by (simp add: find_build_def)
  note d = assms(3) [unfolded deploy_build_def, folded cr_def, unfolded c Let_def prod.case]
  show ?thesis
  proof (cases y)
    case (Inl e)
    with d have "x = Inl e" "s' = fail_build (b_id b) ''DEPLOYMENT_CREATE_FAILED'' (message e) s1" by simp_all
    with find_set_build [OF f1] show ?thesis by (simp add: fail_build_def)
  next
    case (Inr dep)
    with d have "x = Inr (d_id dep)" "t_builds s' = t_builds s" by (auto simp: supersede_builds b1)
    with assms(1) show ?thesis by (simp add: find_build_def)
  qed
qed

definition terminal_build :: "build \<Rightarrow> bool" where
  "terminal_build b \<longleftrightarrow> b_status b \<in> {BSucceeded, BFailed, BCancelled}"

definition terminal_run :: "builder_run \<Rightarrow> bool" where
  "terminal_run run \<longleftrightarrow> br_status run \<in> {RunSucceeded, RunFailed, RunCancelled}"

definition build_result :: "builder_run \<Rightarrow> (string \<times> string) option" where
  "build_result run = (case (br_artifacts run, br_resolvedCommit run) of
     (Some ((img, digest) # _), Some commit) \<Rightarrow> if digest = [] \<or> commit = [] then None else Some (digest, commit)
   | _ \<Rightarrow> None)"

lemma reconcileBuild_terminal:
  "find_build bid s = Some b \<Longrightarrow> terminal_build b
    \<Longrightarrow> reconcileBuild h rival vrival message g bid s = (Inr (), s)"
  by (auto simp: reconcileBuild_def terminal_build_def)

text \<open>The controller's branches for a terminal run, in terms of \<open>build_result\<close>.\<close>

lemma reconcileBuild_run:
  assumes "find_build bid s = Some b" "truthy (b_builderJobId b)" "\<not> terminal_build b"
    and "g (the (b_builderJobId b)) = Inr run" "terminal_run run"
  obtains (failed) f where "reconcileBuild h rival vrival message g bid s = (Inr (), set_build bid f s)"
      "\<And>r. b_id (f r) = b_id r" "\<And>r. b_status (f r) \<in> {BFailed, BCancelled}"
      "br_status run = RunSucceeded \<longrightarrow> build_result run = None"
  | (built) digest commit where "br_status run = RunSucceeded" "build_result run = Some (digest, commit)"
      "\<not> deployment_enabled (b_buildConfiguration b)"
      "reconcileBuild h rival vrival message g bid s = (Inr (), update_applications (\<lambda>a. a_id a = b_applicationId b)
                           (\<lambda>a. a\<lparr>a_lastKnownCommit := Some commit\<rparr>) (succeed_build run bid digest commit s))"
  | (deployed) digest commit where "br_status run = RunSucceeded" "build_result run = Some (digest, commit)"
      "deployment_enabled (b_buildConfiguration b)"
      "reconcileBuild h rival vrival message g bid s = (let (existing, created, s1) = finish_build run b digest commit s in
                         if created then
                           (case deploy_build h rival message b digest commit s1 of
                              (Inl e, s2) \<Rightarrow> (Inl e, s2)
                            | (Inr did, s2) \<Rightarrow> reconcileDeployment h vrival did s2)
                         else (case existing of
                                 None \<Rightarrow> (Inr (), s1)
                               | Some did \<Rightarrow> reconcileDeployment h vrival did s1))"
proof -
  note rb = reconcileBuild_def [of h rival vrival message g bid s, unfolded assms(1,4) option.case sum.case]
  have act: "truthy (b_builderJobId b)" "b_status b \<notin> {BSucceeded, BFailed, BCancelled}"
    using assms(2,3) by (auto simp: terminal_build_def)
  consider "br_status run = RunFailed" | "br_status run = RunCancelled" | "br_status run = RunSucceeded"
    using assms(5) by (auto simp: terminal_run_def)
  then show ?thesis
  proof cases
    case 1
    have "reconcileBuild h rival vrival message g bid s = (Inr (), set_build bid (\<lambda>b. b\<lparr>b_status := BFailed,
        b_errorCode := Some ''BUILD_FAILED'', b_errorMessage := map_option (take 2000) (br_error run),
        b_completedAt := Some (time_or (br_finishedAt run) s)\<rparr>) s)" using rb act 1 by simp
    then show ?thesis by (rule failed) (simp_all add: 1)
  next
    case 2
    have "reconcileBuild h rival vrival message g bid s = (Inr (), set_build bid (\<lambda>b. b\<lparr>b_status := BCancelled,
        b_errorCode := Some ''BUILD_CANCELLED'', b_errorMessage := map_option (take 2000) (br_error run),
        b_completedAt := Some (time_or (br_finishedAt run) s)\<rparr>) s)" using rb act 2 by simp
    then show ?thesis by (rule failed) (simp_all add: 2)
  next
    case 3
    show ?thesis
    proof (cases "build_result run")
      case None
      then have "reconcileBuild h rival vrival message g bid s = (Inr (), fail_build bid ''INVALID_BUILD_RESULT''
                           ''Builder did not return an immutable image digest and commit'' s)"
        using rb act 3 by (auto simp: build_result_def split: option.splits list.splits if_splits)
      then show ?thesis unfolding fail_build_def by (rule failed) (simp_all add: None)
    next
      case (Some dc)
      obtain digest commit where dc: "dc = (digest, commit)" by (cases dc)
      obtain img rest where a: "br_artifacts run = Some ((img, digest) # rest)" "br_resolvedCommit run = Some commit"
          "digest \<noteq> []" "commit \<noteq> []"
        using Some dc by (auto simp: build_result_def split: option.splits list.splits if_splits)
      show ?thesis
      proof (cases "deployment_enabled (b_buildConfiguration b)")
        case True
        show ?thesis by (rule deployed [OF 3 _ True]) (use rb act 3 a Some dc True in \<open>simp_all\<close>)
      next
        case False
        show ?thesis by (rule built [OF 3 _ False]) (use rb act 3 a Some dc False in \<open>simp_all\<close>)
      qed
    qed
  qed
qed

subsection \<open>The revision a build puts into operation\<close>

lemma filter_upd_where_none:
  "(\<And>x. x \<in> set xs \<Longrightarrow> P x \<Longrightarrow> \<not> Q (f x)) \<Longrightarrow> (\<And>x. x \<in> set xs \<Longrightarrow> \<not> P x \<Longrightarrow> \<not> Q x)
    \<Longrightarrow> filter Q (upd_where P f xs) = []"
  by (auto simp: filter_empty_conv upd_where_def)

lemma createDeployment_quiet:
  assumes "fresh_ids h s" and "existing_for_build inp s = None" and "in_buildId inp \<noteq> Some []"
    and "distinct (map mm_mountPath (managedVolumeMounts (in_runtimeConfig inp)))"
  shows "\<exists>d s'. createDeployment h (\<lambda>_ s. s) inp s = (Inr d, s') \<and> t_deployments s' = t_deployments s @ [d]
    \<and> d = new_deployment s (h_randomUUID h (uuid_next s))
            (latest_version (in_applicationId inp) (t_deployments s) + 1) inp"
  using create_attempt_quiet [where rival = "\<lambda>s. s", OF assms(1) refl assms(2-4)]
  by (auto simp: createDeployment_def assms(2) eval_nat_numeral)

text \<open>After superseding, the rows of an application that are wanted: the new one alone.\<close>

definition wanted :: "string \<Rightarrow> deployment \<Rightarrow> bool" where
  "wanted app d \<longleftrightarrow> d_applicationId d = app \<and> d_desiredState d = WantRunning"

lemma supersede_wanted:
  assumes "distinct (map d_id ds)" "d_id d \<notin> d_id ` set ds" "t_deployments s = ds @ [d]" "wanted app d"
  shows "filter (wanted app) (t_deployments (supersedePreviousDeployments h app (d_id d) s)) = [d]"
proof -
  have dist: "distinct (map d_id (t_deployments s))" using assms(1-3) by auto
  have new: "upd_where (\<lambda>e. d_applicationId e = app \<and> d_desiredState e = WantRunning \<and> d_id e \<noteq> d_id d) mark_superseded [d] = [d]"
    by (simp add: upd_where_def)
  have old: "filter (wanted app) (upd_where (\<lambda>e. d_applicationId e = app \<and> d_desiredState e = WantRunning
      \<and> d_id e \<noteq> d_id d) mark_superseded ds) = []"
    using assms(2) by (intro filter_upd_where_none) (auto simp: wanted_def mark_superseded_def image_iff)
  show ?thesis
    unfolding supersede_rows [OF dist] assms(3) using new old assms(4) by (simp add: upd_where_def)
qed

lemma keeps_wanted:
  assumes "keeps s s'" and "filter (wanted app) (t_deployments s) = ds"
  shows "map intent (filter (wanted app) (t_deployments s')) = map intent ds"
proof -
  have w: "wanted app = (\<lambda>i. fst (snd (fst (fst i))) = app \<and> snd i = WantRunning) \<circ> intent"
    by (auto simp: wanted_def intent_def revision_def)
  from assms show ?thesis by (auto simp: keeps_def w filter_map [symmetric] simp del: o_def)
qed

lemma deploy_build_wanted:
  assumes "fresh_ids h s" "distinct (map d_id (t_deployments s))"
    and "list_all (\<lambda>d. d_buildId d \<noteq> Some (b_id b)) (t_deployments s)" "b_id b \<noteq> []"
    and "deployment_replicas (b_buildConfiguration b) = Some n"
    and "distinct (map mm_mountPath (managedVolumeMounts (in_runtimeConfig (build_deployment_input b n digest commit))))"
  shows "\<exists>d s'. deploy_build h (\<lambda>_ s. s) message b digest commit s = (Inr (d_id d), s')
    \<and> filter (wanted (b_applicationId b)) (t_deployments s') = [d]
    \<and> d = new_deployment s (h_randomUUID h (uuid_next s)) (latest_version (b_applicationId b) (t_deployments s) + 1)
        (build_deployment_input b n digest commit)"
proof -
  let ?inp = "build_deployment_input b n digest commit"
  have inp: "in_buildId ?inp = Some (b_id b)" "in_applicationId ?inp = b_applicationId b"
      "in_desiredState ?inp = WantRunning"
    by (simp_all add: build_deployment_input_def)
  have none: "existing_for_build ?inp s = None" using assms(3)
    by (simp add: existing_for_build_def inp find_None_iff' list_all_iff)
  obtain d s1 where c: "createDeployment h (\<lambda>_ s. s) ?inp s = (Inr d, s1)" "t_deployments s1 = t_deployments s @ [d]"
    and d: "d = new_deployment s (h_randomUUID h (uuid_next s)) (latest_version (b_applicationId b) (t_deployments s) + 1) ?inp"
    using createDeployment_quiet [OF assms(1) none _ assms(6)] assms(4) by (auto simp: inp)
  have new: "d_id d \<notin> d_id ` set (t_deployments s)" using assms(1) by (auto simp: d fresh_ids_def ids_in_use_def)
  have w: "wanted (b_applicationId b) d" by (simp add: wanted_def d inp)
  from supersede_wanted [OF assms(2) new c(2) w] d show ?thesis
    by (simp add: deploy_build_def assms(5) c(1) Let_def)
qed

text \<open>A successful build is what runs next: when the builder reports success with an image digest and the
  build asks for deployment, exactly one revision of the application is wanted afterwards, it belongs to
  the build and its commit, and its image is the build's repository pinned to that digest.\<close>

theorem build_deploys_image:
  assumes "find_build bid s = Some b" "truthy (b_builderJobId b)" "\<not> terminal_build b" "bid \<noteq> []"
    and "getBuilderRun (the (b_builderJobId b)) = Inr run" "br_status run = RunSucceeded"
    and "build_result run = Some (digest, commit)" "deployment_enabled (b_buildConfiguration b)"
    and "deployment_replicas (b_buildConfiguration b) = Some n"
    and "list_all (\<lambda>d. d_buildId d \<noteq> Some bid) (t_deployments s)"
    and "distinct (map mm_mountPath (managedVolumeMounts (in_runtimeConfig (build_deployment_input b n digest commit))))"
    and "fresh_ids h s" "distinct (map d_id (t_deployments s))" "\<And>ids. volume_rivals ids vrival"
  shows "\<exists>d. filter (wanted (b_applicationId b))
        (t_deployments (snd (reconcileBuild h (\<lambda>_ s. s) vrival message getBuilderRun bid s))) = [d]
    \<and> d_buildId d = Some bid \<and> d_image d = b_imageRepository b @ ''@'' @ digest \<and> d_commitSha d = Some commit
    \<and> d_replicas d = n \<and> d_version d = latest_version (b_applicationId b) (t_deployments s) + 1"
proof -
  have bid: "b_id b = bid" using assms(1) by (auto simp: find_build_def dest: find_Some_iff')
  have tr: "terminal_run run" using assms(6) by (simp add: terminal_run_def)
  let ?s' = "snd (reconcileBuild h (\<lambda>_ s. s) vrival message getBuilderRun bid s)"
  show ?thesis
  proof (rule reconcileBuild_run [where g = getBuilderRun and h = h and rival = "\<lambda>_ s. s" and vrival = vrival
        and message = message, OF assms(1-3,5) tr])
    fix dg cm
    assume "build_result run = Some (dg, cm)"
      and "reconcileBuild h (\<lambda>_ s. s) vrival message getBuilderRun bid s = (let (existing, created, s1) = finish_build run b dg cm s in
                         if created then
                           (case deploy_build h (\<lambda>_ s. s) message b dg cm s1 of
                              (Inl e, s2) \<Rightarrow> (Inl e, s2)
                            | (Inr did, s2) \<Rightarrow> reconcileDeployment h vrival did s2)
                         else (case existing of
                                 None \<Rightarrow> (Inr (), s1)
                               | Some did \<Rightarrow> reconcileDeployment h vrival did s1))"
    note e = this(2) and dc = this(1) [unfolded assms(7)]
    obtain ex created s1 where f: "finish_build run b dg cm s = (ex, created, s1)" by (cases "finish_build run b dg cm s")
    show ?thesis
    proof (rule finish_build_cases [OF assms(1) [folded bid] f])
      assume c: "created" "t_deployments s1 = t_deployments s" "\<And>h. fresh_ids h s \<Longrightarrow> fresh_ids h s1"
      obtain d s2 where d: "deploy_build h (\<lambda>_ s. s) message b digest commit s1 = (Inr (d_id d), s2)"
          "filter (wanted (b_applicationId b)) (t_deployments s2) = [d]"
          "d = new_deployment s1 (h_randomUUID h (uuid_next s1)) (latest_version (b_applicationId b) (t_deployments s1) + 1)
            (build_deployment_input b n digest commit)"
        using deploy_build_wanted [OF c(3) [OF assms(12)], of b n digest commit message] assms(4,9-11,13) c(2) bid by auto
      have "?s' = snd (reconcileDeployment h vrival (d_id d) s2)"
        unfolding e f Let_def prod.case using c(1) d(1) dc by simp
      with keeps_wanted [OF keeps_reconcileDeployment [OF assms(14)] d(2)]
      have "map intent (filter (wanted (b_applicationId b)) (t_deployments ?s')) = [intent d]" by simp
      then obtain d' where "filter (wanted (b_applicationId b)) (t_deployments ?s') = [d']" "intent d' = intent d" by auto
      then show ?thesis
        by (auto simp: intent_def revision_def d(3) new_deployment_def build_deployment_input_def deployed_image_def bid c(2))
    next
      assume "list_ex (\<lambda>d. d_buildId d = Some (b_id b)) (t_deployments s)"
      with assms(10) show ?thesis by (auto simp: bid list_ex_iff list_all_iff)
    next
      assume "b_status b = BSucceeded"
      with assms(3) show ?thesis by (simp add: terminal_build_def)
    qed
  qed (use assms(6-8) in simp_all)
qed

definition sample_build :: build where
  "sample_build = \<lparr>b_id = ''b2'', b_organizationId = ''org'', b_projectId = ''p'', b_applicationId = ''app'',
     b_triggeredBy = None, b_trigger = TrigDeploy, b_retryOfBuildId = None, b_sourceType = ''git'',
     b_repositoryUrl = ''https://git.example/app'', b_repositoryProvider = ''generic'', b_branch = ''main'',
     b_commitSha = None, b_status = BRunning, b_builderJobId = Some ''run-1'',
     b_buildConfiguration = JObj [(''deployment'', JObj [(''enabled'', JBool True), (''replicas'', JNum 2)])],
     b_imageRepository = ''reg/app'', b_imageTag = ''b2'', b_imageDigest = None, b_errorCode = None,
     b_errorMessage = None, b_queuedAt = None, b_startedAt = None, b_completedAt = None, b_createdAt = 0,
     b_updatedAt = 0\<rparr>"

definition sample_run :: builder_run where
  "sample_run = \<lparr>br_id = ''run-1'', br_status = RunSucceeded, br_error = None, br_resolvedCommit = Some ''c1'',
     br_artifacts = Some [(''reg/app:b2'', ''sha256:1'')], br_startedAt = None, br_finishedAt = None\<rparr>"

definition sample_building :: cp where
  "sample_building = empty_cp\<lparr>clock := 1000, t_builds := [sample_build]\<rparr>"

lemma sample_building_facts:
  "find_build ''b2'' sample_building = Some sample_build" "truthy (b_builderJobId sample_build)"
  "\<not> terminal_build sample_build" "t_deployments sample_building = []" "br_status sample_run = RunSucceeded"
  "terminal_run sample_run" "build_result sample_run = Some (''sha256:1'', ''c1'')" "b_id sample_build = ''b2''"
  by (simp_all add: sample_building_def find_build_def sample_build_def truthy_def terminal_build_def empty_cp_def
      sample_run_def terminal_run_def build_result_def)

lemma build_deploys_image_witness:
  "\<exists>d. filter (wanted ''app'') (t_deployments
      (snd (reconcileBuild sample_host (\<lambda>_ s. s) (\<lambda>_ s. s) (\<lambda>_. ''error'') (\<lambda>_. Inr sample_run) ''b2'' sample_building))) = [d]
    \<and> d_image d = ''reg/app@sha256:1''"
proof -
  have 1: "deployment_enabled (b_buildConfiguration sample_build)"
    "deployment_replicas (b_buildConfiguration sample_build) = Some 2" by code_simp+
  have 2: "distinct (map mm_mountPath (managedVolumeMounts (in_runtimeConfig
      (build_deployment_input sample_build 2 ''sha256:1'' ''c1''))))" by code_simp
  have 3: "fresh_ids sample_host sample_building"
    by (simp add: fresh_ids_def sample_host_inj ids_in_use_def empty_cp_def sample_building_def)
  have 4: "volume_rivals ids (\<lambda>_ s. s)" for ids by (simp add: volume_rivals_def)
  show ?thesis
    using build_deploys_image [OF sample_building_facts(1-3) _ _ sample_building_facts(5,7) 1, of "\<lambda>_. Inr sample_run",
        OF _ _ _ 2 3 _ 4]
    by (auto simp: sample_building_facts(4)) (auto simp: sample_build_def)
qed

text \<open>A finished builder run is settled in the build row: when the builder reports a terminal run for an
  active build that has no deployment yet, the row ends in a terminal status, it is succeeded only if the
  run succeeded with an artifact digest and a resolved commit, which the row then records, and
  reconciling the build again changes nothing.\<close>

theorem build_run_settles:
  assumes "find_build bid s = Some b" "truthy (b_builderJobId b)" "\<not> terminal_build b"
    and "getBuilderRun (the (b_builderJobId b)) = Inr run" "terminal_run run"
    and "list_all (\<lambda>d. d_buildId d \<noteq> Some bid) (t_deployments s)"
    and "\<And>k s. t_builds (rival k s) = t_builds s" "\<And>ids. volume_rivals ids vrival"
    and "s' = snd (reconcileBuild h rival vrival message getBuilderRun bid s)"
  shows "\<exists>b'. find_build bid s' = Some b' \<and> terminal_build b'
    \<and> (b_status b' = BSucceeded \<longrightarrow> br_status run = RunSucceeded
        \<and> (\<exists>digest commit. build_result run = Some (digest, commit)
             \<and> b_imageDigest b' = Some digest \<and> b_commitSha b' = Some commit))
    \<and> reconcileBuild h rival vrival message g bid s' = (Inr (), s')"
proof -
  have bid: "b_id b = bid" using assms(1) by (auto simp: find_build_def dest: find_Some_iff')
  have "\<exists>b'. find_build bid s' = Some b' \<and> terminal_build b'
    \<and> (b_status b' = BSucceeded \<longrightarrow> br_status run = RunSucceeded
        \<and> (\<exists>digest commit. build_result run = Some (digest, commit)
             \<and> b_imageDigest b' = Some digest \<and> b_commitSha b' = Some commit))"
  proof (rule reconcileBuild_run [where g = getBuilderRun and h = h and rival = rival and vrival = vrival
        and message = message, OF assms(1-5)])
    fix f assume f: "reconcileBuild h rival vrival message getBuilderRun bid s = (Inr (), set_build bid f s)"
      "\<And>r. b_id (f r) = b_id r" "\<And>r. b_status (f r) \<in> {BFailed, BCancelled}"
    have "s' = set_build bid f s" by (simp add: assms(9) f(1))
    moreover have "b_status (f b) = BFailed \<or> b_status (f b) = BCancelled" using f(3) [of b] by simp
    ultimately show ?thesis using find_set_build [OF assms(1) f(2)] by (elim disjE) (simp_all add: terminal_build_def)
  next
    fix digest commit
    assume 1: "br_status run = RunSucceeded" "build_result run = Some (digest, commit)"
      and e: "reconcileBuild h rival vrival message getBuilderRun bid s = (Inr (), update_applications (\<lambda>a. a_id a = b_applicationId b)
                           (\<lambda>a. a\<lparr>a_lastKnownCommit := Some commit\<rparr>) (succeed_build run bid digest commit s))"
    have "find_build bid s' = find_build bid (succeed_build run bid digest commit s)"
      by (simp add: assms(9) e find_build_def)
    with find_set_build [OF assms(1)] 1 show ?thesis
      by (intro exI) (auto simp: succeed_build_def terminal_build_def)
  next
    fix digest commit
    assume 1: "br_status run = RunSucceeded" "build_result run = Some (digest, commit)"
      and e: "reconcileBuild h rival vrival message getBuilderRun bid s = (let (existing, created, s1) = finish_build run b digest commit s in
                         if created then
                           (case deploy_build h rival message b digest commit s1 of
                              (Inl e, s2) \<Rightarrow> (Inl e, s2)
                            | (Inr did, s2) \<Rightarrow> reconcileDeployment h vrival did s2)
                         else (case existing of
                                 None \<Rightarrow> (Inr (), s1)
                               | Some did \<Rightarrow> reconcileDeployment h vrival did s1))"
    obtain ex created s1 where f: "finish_build run b digest commit s = (ex, created, s1)"
      by (cases "finish_build run b digest commit s")
    note e' = e [unfolded f Let_def prod.case]
    show ?thesis
    proof (rule finish_build_cases [OF assms(1) [folded bid] f])
      assume c: "created" "find_build (b_id b) s1 = Some (b\<lparr>b_status := BSucceeded, b_commitSha := Some commit,
      b_imageDigest := Some digest, b_completedAt := Some (time_or (br_finishedAt run) s), b_updatedAt := clock s\<rparr>)"
      obtain x s2 where d: "deploy_build h rival message b digest commit s1 = (x, s2)"
        by (cases "deploy_build h rival message b digest commit s1")
      note row = deploy_build_row [OF c(2) assms(7) d]
      show ?thesis
      proof (cases x)
        case (Inl err)
        from row Inl obtain r' where r': "find_build bid s2 = Some r'" "b_status r' = BFailed" by (auto simp: bid)
        have "s' = s2" unfolding assms(9) e' using c(1) d Inl by simp
        with r' show ?thesis by (simp add: terminal_build_def)
      next
        case (Inr did)
        have "t_builds (snd (reconcileDeployment h vrival did s2)) = t_builds s2"
          using keeps_reconcileDeployment [OF assms(8)] by (simp add: keeps_def)
        moreover have "s' = snd (reconcileDeployment h vrival did s2)" unfolding assms(9) e' using c(1) d Inr by simp
        ultimately have "find_build bid s' = find_build bid s2" by (simp add: find_build_def)
        with row Inr 1 show ?thesis by (simp add: bid terminal_build_def)
      qed
    next
      assume "list_ex (\<lambda>d. d_buildId d = Some (b_id b)) (t_deployments s)"
      with assms(6) show ?thesis by (auto simp: bid list_ex_iff list_all_iff)
    next
      assume "b_status b = BSucceeded"
      with assms(3) show ?thesis by (simp add: terminal_build_def)
    qed
  qed
  with reconcileBuild_terminal show ?thesis by blast
qed

lemma build_run_settles_witness:
  "\<exists>b'. find_build ''b2'' (snd (reconcileBuild sample_host (\<lambda>_ s. s) (\<lambda>_ s. s) (\<lambda>_. ''error'')
     (\<lambda>_. Inr sample_run) ''b2'' sample_building)) = Some b' \<and> terminal_build b'"
proof -
  have 1: "volume_rivals ids (\<lambda>_ s. s)" for ids by (simp add: volume_rivals_def)
  show ?thesis
    using build_run_settles [OF sample_building_facts(1-3), where getBuilderRun = "\<lambda>_. Inr sample_run" and h = sample_host
        and rival = "\<lambda>_ s. s" and vrival = "\<lambda>_ s. s" and message = "\<lambda>_. ''error''", OF refl sample_building_facts(6) _ refl 1 refl]
    by (auto simp: sample_building_facts(4))
qed

text \<open>C14. A build that is stopped at the wrong moment is lost: once the transaction that marks the build
  succeeded has committed, no later reconciliation of the build does anything, although no deployment of
  the build exists; so if the process ends before the deployment is created, it is never created.\<close>

theorem build_lost_after_commit:
  assumes "finish_build run b digest commit s = (existing, True, s1)"
  shows "reconcileBuild h rival vrival message getBuilderRun (b_id b) s1 = (Inr (), s1)
    \<and> list_all (\<lambda>d. d_buildId d \<noteq> Some (b_id b)) (t_deployments s1)
    \<and> (\<exists>r. find_build (b_id b) s1 = Some r \<and> b_status r = BSucceeded \<and> b_imageDigest r = Some digest)"
proof -
  obtain current where c: "find_build (b_id b) s = Some current"
    using assms by (auto simp: finish_build_def split: option.splits)
  show ?thesis
    by (rule finish_build_cases [OF c assms]) (simp_all add: reconcileBuild_terminal terminal_build_def)
qed

lemma build_lost_after_commit_witness:
  "reconcileBuild sample_host (\<lambda>_ s. s) (\<lambda>_ s. s) (\<lambda>_. ''error'') (\<lambda>_. Inr sample_run) ''b2''
     (snd (snd (finish_build sample_run sample_build ''sha256:1'' ''c1'' sample_building)))
   = (Inr (), snd (snd (finish_build sample_run sample_build ''sha256:1'' ''c1'' sample_building)))"
proof -
  let ?f = "finish_build sample_run sample_build ''sha256:1'' ''c1'' sample_building"
  have "fst (snd ?f)" by code_simp
  then have "?f = (fst ?f, True, snd (snd ?f))" by (simp add: prod_eq_iff)
  from build_lost_after_commit [OF this] show ?thesis by (simp add: sample_building_facts(8))
qed
end
