(* ===== verification/Access.thy ===== *)
theory Access
  imports Tables
begin

text \<open>
  Who may do what: the permission registry and roles of
  \<open>apps/api/src/features/organizations/permissions.ts\<close>, the project access policy of
  \<open>features/projects/access.ts\<close> and the project page of \<open>features/projects/list-page.ts\<close>, the guards of
  \<open>middleware/organization-policy.ts\<close> and \<open>middleware/auth.ts\<close>, and the tenant permissions of
  \<open>packages/auth/src/rbac/permissions.ts\<close>. The session store belongs to a library: the signed-in user is
  the argument \<open>session\<close> (\<open>None\<close> without a valid session). A guard returns the response that ends the
  request, or \<open>None\<close> when the request goes on. Role names are those the role routes store, so the object
  lookup \<open>systemPermissions[role]\<close> meets no inherited property.
\<close>

subsection \<open>Tables\<close>

record org_row = og_id :: string og_name :: string og_slug :: string

record team_row = tm_id :: string tm_name :: string tm_organizationId :: string

record team_member_row = tmm_id :: string tmm_teamId :: string tmm_userId :: string

record member_row = mb_id :: string mb_organizationId :: string mb_userId :: string mb_role :: string

record role_row =
  or_id :: string
  or_organizationId :: string
  or_name :: string
  or_description :: "string option"
  or_immutable :: bool
  or_createdBy :: string
  or_createdAt :: int
  or_updatedAt :: int

record role_permission_row = rp_roleId :: string rp_permission :: string

datatype access_mode = AccessOrganization | AccessTeam

datatype project_status = ProjectActive | ProjectArchived

datatype project_source = FromGit | FromDocker | FromBlank

record project =
  pj_id :: string
  pj_organizationId :: string
  pj_teamId :: "string option"
  pj_createdByUserId :: string
  pj_name :: string
  pj_slug :: string
  pj_description :: "string option"
  pj_sourceType :: project_source
  pj_gitUrl :: "string option"
  pj_branch :: string
  pj_routingTargetUrl :: "string option"
  pj_status :: project_status
  pj_accessMode :: access_mode
  pj_archivedAt :: "int option"
  pj_defaultEnvironmentId :: "string option"
  pj_createdAt :: int
  pj_updatedAt :: int

record project_team_row = pt_projectId :: string pt_teamId :: string pt_assignedByUserId :: "string option"

record iam =
  t_organizations :: "org_row list"
  t_teams :: "team_row list"
  t_teamMembers :: "team_member_row list"
  t_members :: "member_row list"
  t_roles :: "role_row list"
  t_rolePermissions :: "role_permission_row list"
  t_projects :: "project list"
  t_projectTeams :: "project_team_row list"

datatype response = Reply int json | Problem int string | NoContent

subsection \<open>Permissions and roles\<close>

definition allPermissions :: "string list" where
  "allPermissions = [
    ''organization.read'', ''organization.update'', ''organization.delete'', ''members.read'', ''members.invite'',
    ''members.update'', ''members.remove'', ''roles.read'', ''roles.create'', ''roles.update'', ''roles.delete'',
    ''roles.assign'', ''teams.read'', ''teams.create'', ''teams.update'', ''teams.delete'', ''projects.read'',
    ''projects.create'', ''projects.update'', ''projects.delete'', ''projects.archive'', ''projects.manage_access'',
    ''projects.manage_environments'', ''applications.read'', ''applications.create'', ''applications.update'',
    ''applications.delete'', ''applications.archive'', ''deployments.create'', ''deployments.read'',
    ''deployments.start'', ''deployments.stop'', ''deployments.restart'', ''deployments.redeploy'',
    ''deployments.rollback'', ''secrets.read_metadata'', ''secrets.attach'', ''volumes.manage'', ''builds.read'',
    ''builds.create'', ''builds.cancel'', ''nodes.read'', ''nodes.manage'', ''audit.read'']"

definition developer_permissions :: "string list" where
  "developer_permissions = [''organization.read'', ''members.read'', ''roles.read'', ''teams.read'', ''projects.read'',
    ''projects.create'', ''projects.update'', ''projects.archive'', ''projects.manage_environments'',
    ''applications.read'', ''applications.create'', ''applications.update'', ''applications.archive'',
    ''deployments.create'', ''deployments.read'', ''deployments.start'', ''deployments.stop'', ''deployments.restart'',
    ''deployments.redeploy'', ''deployments.rollback'', ''secrets.read_metadata'', ''secrets.attach'',
    ''volumes.manage'', ''builds.read'', ''builds.create'', ''builds.cancel'']"

definition member_permissions :: "string list" where
  "member_permissions = [''organization.read'', ''members.read'', ''roles.read'', ''teams.read'', ''projects.read'',
    ''projects.create'', ''projects.update'', ''projects.archive'', ''projects.manage_environments'',
    ''applications.read'', ''applications.create'', ''applications.update'', ''applications.archive'',
    ''deployments.create'', ''deployments.read'', ''deployments.start'', ''deployments.stop'', ''deployments.restart'',
    ''deployments.redeploy'', ''secrets.read_metadata'', ''secrets.attach'', ''volumes.manage'', ''builds.read'',
    ''builds.create'', ''builds.cancel'']"

definition viewer_permissions :: "string list" where
  "viewer_permissions = [''organization.read'', ''members.read'', ''roles.read'', ''teams.read'', ''projects.read'',
    ''applications.read'', ''deployments.read'', ''builds.read'', ''nodes.read'', ''audit.read'']"

definition systemPermissions :: "(string \<times> string list) list" where
  "systemPermissions =
     [(''owner'', allPermissions), (''admin'', filter (\<lambda>p. p \<notin> set [''organization.delete'']) allPermissions),
      (''developer'', developer_permissions), (''member'', member_permissions), (''viewer'', viewer_permissions)]"

definition isKnownPermission :: "string \<Rightarrow> bool" where
  "isKnownPermission p \<longleftrightarrow> p \<in> set allPermissions"

definition role_grants :: "iam \<Rightarrow> string \<Rightarrow> string option \<Rightarrow> string list" where
  "role_grants m roleId org =
     concat (map (\<lambda>p. map (\<lambda>r. rp_permission p)
         (filter (\<lambda>r. or_id r = rp_roleId p \<and> or_id r = roleId
                    \<and> (case org of None \<Rightarrow> True | Some o' \<Rightarrow> o' = [] \<or> or_organizationId r = o')) (t_roles m)))
       (t_rolePermissions m))"

definition resolveRolePermissions :: "iam \<Rightarrow> string \<Rightarrow> string option \<Rightarrow> string list" where
  "resolveRolePermissions m role org =
     (if starts_with ''custom:'' role
      then filter isKnownPermission (role_grants m (drop (length ''custom:'') role) org)
      else (case map_of systemPermissions role of None \<Rightarrow> [] | Some ps \<Rightarrow> ps))"

subsection \<open>Project access\<close>

definition find_org :: "string \<Rightarrow> iam \<Rightarrow> org_row option" where
  "find_org slug m = List.find (\<lambda>r. og_slug r = slug) (t_organizations m)"

definition find_membership :: "string \<Rightarrow> string \<Rightarrow> iam \<Rightarrow> member_row option" where
  "find_membership org user m = List.find (\<lambda>r. mb_organizationId r = org \<and> mb_userId r = user) (t_members m)"

definition find_project :: "string \<Rightarrow> string \<Rightarrow> iam \<Rightarrow> project option" where
  "find_project pid org m = List.find (\<lambda>p. pj_id p = pid \<and> pj_organizationId p = org) (t_projects m)"

definition org_wide :: "string \<Rightarrow> bool" where
  "org_wide role \<longleftrightarrow> role = ''owner'' \<or> role = ''admin''"

definition team_access :: "string \<Rightarrow> string \<Rightarrow> iam \<Rightarrow> bool" where
  "team_access pid user m =
     list_ex (\<lambda>pt. pt_projectId pt = pid \<and> list_ex (\<lambda>t. tmm_teamId t = pt_teamId pt \<and> tmm_userId t = user) (t_teamMembers m))
       (t_projectTeams m)"

record project_access =
  pa_organization :: org_row
  pa_project :: project
  pa_userId :: string
  pa_role :: string
  pa_permissions :: "string list"

definition resolveProjectAccess :: "iam \<Rightarrow> string option \<Rightarrow> string \<Rightarrow> string \<Rightarrow> string \<Rightarrow> project_access option" where
  "resolveProjectAccess m session orgSlug projectId permission =
     (case session of None \<Rightarrow> None | Some user \<Rightarrow>
     (case find_org orgSlug m of None \<Rightarrow> None | Some org \<Rightarrow>
     (case find_membership (og_id org) user m of None \<Rightarrow> None | Some membership \<Rightarrow>
       (let permissions = resolveRolePermissions m (mb_role membership) (Some (og_id org)) in
        if permission \<notin> set permissions then None
        else (case find_project projectId (og_id org) m of None \<Rightarrow> None | Some p \<Rightarrow>
          if pj_accessMode p = AccessTeam \<and> mb_role membership \<noteq> ''owner'' \<and> mb_role membership \<noteq> ''admin''
             \<and> \<not> team_access (pj_id p) user m then None
          else Some \<lparr>pa_organization = org, pa_project = p, pa_userId = user, pa_role = mb_role membership,
                 pa_permissions = permissions\<rparr>)))))"

record project_list =
  pl_organization :: org_row
  pl_userId :: string
  pl_permissions :: "string list"
  pl_projects :: "project list"

definition assigned_projects :: "string \<Rightarrow> iam \<Rightarrow> string list" where
  "assigned_projects user m =
     (let teamIds = js_uniq (map tmm_teamId (filter (\<lambda>t. tmm_userId t = user) (t_teamMembers m))) in
      if teamIds \<noteq> [] then map pt_projectId (filter (\<lambda>pt. pt_teamId pt \<in> set teamIds) (t_projectTeams m)) else [])"

definition listAccessibleProjects :: "iam \<Rightarrow> string option \<Rightarrow> string \<Rightarrow> string \<Rightarrow> project_list option" where
  "listAccessibleProjects m session orgSlug permission =
     (case session of None \<Rightarrow> None | Some user \<Rightarrow>
     (case find_org orgSlug m of None \<Rightarrow> None | Some org \<Rightarrow>
     (case find_membership (og_id org) user m of None \<Rightarrow> None | Some membership \<Rightarrow>
       (let permissions = resolveRolePermissions m (mb_role membership) (Some (og_id org)) in
        if permission \<notin> set permissions then None
        else if mb_role membership = ''owner'' \<or> mb_role membership = ''admin''
        then Some \<lparr>pl_organization = org, pl_userId = user, pl_permissions = permissions,
               pl_projects = filter (\<lambda>p. pj_organizationId p = og_id org) (t_projects m)\<rparr>
        else (let assigned = assigned_projects user m in
          Some \<lparr>pl_organization = org, pl_userId = user, pl_permissions = permissions,
             pl_projects = filter (\<lambda>p. pj_organizationId p = og_id org
               \<and> (if assigned \<noteq> [] then pj_accessMode p = AccessOrganization \<or> pj_id p \<in> set assigned
                  else pj_accessMode p = AccessOrganization)) (t_projects m)\<rparr>)))))"

text \<open>The project page. The query is the parsed one, \<open>ilike v s\<close> says that \<open>v\<close> contains the literal \<open>s\<close>
  without regard to case, and \<open>by_name\<close> is the collation of the database.\<close>

datatype project_sort = SortName | SortCreated | SortUpdated

record project_query =
  pq_page :: int
  pq_limit :: int
  pq_status :: "project_status option"
  pq_search :: "string option"
  pq_teamId :: "string option"
  pq_sort :: project_sort

definition search_matches :: "(string \<Rightarrow> string \<Rightarrow> bool) \<Rightarrow> string \<Rightarrow> project \<Rightarrow> bool" where
  "search_matches ilike text p \<longleftrightarrow> ilike (pj_name p) text \<or> ilike (pj_slug p) text
     \<or> (case pj_description p of None \<Rightarrow> False | Some d \<Rightarrow> ilike d text)"

definition page_where :: "(string \<Rightarrow> string \<Rightarrow> bool) \<Rightarrow> iam \<Rightarrow> string \<Rightarrow> string \<Rightarrow> string \<Rightarrow> project_query \<Rightarrow> project \<Rightarrow> bool" where
  "page_where ilike m org user role q p \<longleftrightarrow> pj_organizationId p = org
     \<and> (org_wide role \<or> pj_accessMode p = AccessOrganization \<or> team_access (pj_id p) user m)
     \<and> (case pq_status q of None \<Rightarrow> True | Some st \<Rightarrow> pj_status p = st)
     \<and> (\<not> truthy (pq_teamId q) \<or> list_ex (\<lambda>pt. pt_projectId pt = pj_id p \<and> Some (pt_teamId pt) = pq_teamId q) (t_projectTeams m))
     \<and> (\<not> truthy (pq_search q) \<or> search_matches ilike (the (pq_search q)) p)"

definition page_order :: "(string \<Rightarrow> string \<Rightarrow> rat) \<Rightarrow> project_sort \<Rightarrow> project \<Rightarrow> project \<Rightarrow> rat" where
  "page_order by_name ord p q =
     (let c = (case ord of SortName \<Rightarrow> by_name (pj_name p) (pj_name q)
                 | SortCreated \<Rightarrow> of_int (pj_createdAt q - pj_createdAt p)
                 | SortUpdated \<Rightarrow> of_int (pj_updatedAt q - pj_updatedAt p))
      in if c \<noteq> 0 then c else by_name (pj_id p) (pj_id q))"

definition listProjectPage ::
  "(string \<Rightarrow> string \<Rightarrow> bool) \<Rightarrow> (string \<Rightarrow> string \<Rightarrow> rat) \<Rightarrow> iam \<Rightarrow> string \<Rightarrow> string \<Rightarrow> string \<Rightarrow> project_query
     \<Rightarrow> project list \<times> nat" where
  "listProjectPage ilike by_name m org user role q =
     (let rows = filter (page_where ilike m org user role q) (t_projects m) in
      (take (nat (pq_limit q)) (drop (nat ((pq_page q - 1) * pq_limit q)) (js_sort (page_order by_name (pq_sort q)) rows)),
       length rows))"

subsection \<open>Guards\<close>

datatype organization_permission = OrgRead | OrgManage

definition hasOrganizationPermission :: "string \<Rightarrow> organization_permission \<Rightarrow> bool" where
  "hasOrganizationPermission role permission =
     (if permission = OrgRead then role = ''owner'' \<or> role = ''admin'' \<or> role = ''member''
      else role = ''owner'' \<or> role = ''admin'')"

record org_access =
  oa_org :: org_row
  oa_membership :: member_row
  oa_userId :: string

definition resolveOrganizationAccess :: "iam \<Rightarrow> string option \<Rightarrow> string \<Rightarrow> org_access option" where
  "resolveOrganizationAccess m session slug =
     (case session of None \<Rightarrow> None | Some user \<Rightarrow>
     (case find_org slug m of None \<Rightarrow> None | Some org \<Rightarrow>
     (case find_membership (og_id org) user m of None \<Rightarrow> None
      | Some membership \<Rightarrow> Some \<lparr>oa_org = org, oa_membership = membership, oa_userId = user\<rparr>)))"

record permission_check =
  pc_org :: org_row
  pc_membership :: member_row
  pc_userId :: string
  pc_permissions :: "string list"
  pc_allowed :: bool

definition hasPermission :: "iam \<Rightarrow> string option \<Rightarrow> string \<Rightarrow> string \<Rightarrow> permission_check option" where
  "hasPermission m session slug permission =
     (case resolveOrganizationAccess m session slug of
        None \<Rightarrow> None
      | Some access \<Rightarrow>
          (let permissions = resolveRolePermissions m (mb_role (oa_membership access)) (Some (og_id (oa_org access)))
           in Some \<lparr>pc_org = oa_org access, pc_membership = oa_membership access, pc_userId = oa_userId access,
                pc_permissions = permissions, pc_allowed = (permission \<in> set permissions)\<rparr>))"

definition requireOrganizationAccess :: "iam \<Rightarrow> string option \<Rightarrow> string \<Rightarrow> response option" where
  "requireOrganizationAccess m session slug =
     (if (if slug \<noteq> [] then resolveOrganizationAccess m session slug else None) = None
      then Some (Problem 404 ''Organization not found or access denied'') else None)"

definition requirePermission :: "iam \<Rightarrow> string option \<Rightarrow> string \<Rightarrow> string \<Rightarrow> response option" where
  "requirePermission m session slug permission =
     (case (if slug \<noteq> [] then hasPermission m session slug permission else None) of
        None \<Rightarrow> Some (Problem 404 ''Organization not found or access denied'')
      | Some access \<Rightarrow>
          if \<not> pc_allowed access then Some (Problem 403 (''Permission required: '' @ permission)) else None)"

record session_user =
  su_id :: string
  su_role :: "string option"

definition requireAuthenticatedUser :: "session_user option \<Rightarrow> response option" where
  "requireAuthenticatedUser session =
     (if session = None then Some (Problem 401 ''Authentication required'') else None)"

definition requirePlatformAdmin :: "session_user option \<Rightarrow> response option" where
  "requirePlatformAdmin session =
     (case session of
        None \<Rightarrow> Some (Problem 401 ''Authentication required'')
      | Some u \<Rightarrow> if su_role u \<noteq> Some ''admin'' then Some (Problem 403 ''Platform administrator role required'') else None)"

subsection \<open>Tenant permissions of the auth package\<close>

definition Permissions :: "(string \<times> string) list" where
  "Permissions = [(''TENANT_MANAGE'', ''tenant:manage''), (''TENANT_READ'', ''tenant:read''), (''USER_INVITE'', ''user:invite''),
     (''USER_MANAGE_ROLES'', ''user:manage_roles''), (''SECRETS_READ'', ''secrets:read''), (''SECRETS_WRITE'', ''secrets:write'')]"

definition RolePermissions :: "(string \<times> string list) list" where
  "RolePermissions = [(''owner'', map snd Permissions),
     (''admin'', [''tenant:read'', ''user:invite'', ''user:manage_roles'', ''secrets:read'']),
     (''member'', [''tenant:read'']), (''viewer'', [''tenant:read'']), (''agent'', [''tenant:read'', ''secrets:read''])]"

definition tenant_hasPermission :: "string \<Rightarrow> string \<Rightarrow> bool" where
  "tenant_hasPermission role permission =
     (case map_of RolePermissions role of None \<Rightarrow> False | Some ps \<Rightarrow> permission \<in> set ps)"

subsection \<open>Facts\<close>

lemma find_conj_key:
  assumes "distinct (map k xs)" "y \<in> set xs"
  shows "List.find (\<lambda>x. k x = k y \<and> P x) xs = (if P y then Some y else None)"
  using assms
proof (induction xs)
  case Nil
  then show ?case by simp
next
  case (Cons x xs)
  show ?case
  proof (cases "y = x")
    case True
    have "List.find (\<lambda>z. k z = k y \<and> P z) xs = None" if "\<not> P y"
      using Cons.prems(1) that True by (auto simp: find_None_iff' image_iff)
    with True show ?thesis by auto
  next
    case False
    then have "y \<in> set xs" using Cons.prems(2) by simp
    moreover from this have "k x \<noteq> k y" using Cons.prems(1) by auto
    ultimately show ?thesis using Cons by simp
  qed
qed

lemma assigned_iff: "pid \<in> set (assigned_projects user m) \<longleftrightarrow> team_access pid user m"
proof -
  let ?ids = "tmm_teamId ` {t \<in> set (t_teamMembers m). tmm_userId t = user}"
  have ids: "set (js_uniq (map tmm_teamId (filter (\<lambda>t. tmm_userId t = user) (t_teamMembers m)))) = ?ids" by simp
  have "set (assigned_projects user m) = pt_projectId ` {pt \<in> set (t_projectTeams m). pt_teamId pt \<in> ?ids}"
    unfolding assigned_projects_def Let_def using ids by (auto simp del: set_js_uniq)
  moreover have "team_access pid user m \<longleftrightarrow> (\<exists>pt \<in> set (t_projectTeams m). pt_projectId pt = pid \<and> pt_teamId pt \<in> ?ids)"
    unfolding team_access_def list_ex_iff by (intro bex_cong refl conj_cong) (auto simp: image_iff)
  ultimately show ?thesis by (auto simp: image_iff)
qed

text \<open>The policy of all three routes, in one condition.\<close>

definition project_visible :: "iam \<Rightarrow> string \<Rightarrow> string \<Rightarrow> string \<Rightarrow> project \<Rightarrow> bool" where
  "project_visible m org user role p \<longleftrightarrow> pj_organizationId p = org
     \<and> (org_wide role \<or> pj_accessMode p = AccessOrganization \<or> team_access (pj_id p) user m)"

lemma visible_list:
  "(if org_wide role then filter (\<lambda>p. pj_organizationId p = org) ps
    else filter (\<lambda>p. pj_organizationId p = org
               \<and> (if assigned_projects user m \<noteq> [] then pj_accessMode p = AccessOrganization \<or> pj_id p \<in> set (assigned_projects user m)
                  else pj_accessMode p = AccessOrganization)) ps)
   = filter (project_visible m org user role) ps"
proof -
  have e: "(if assigned_projects user m \<noteq> [] then pj_accessMode p = AccessOrganization \<or> pj_id p \<in> set (assigned_projects user m)
                  else pj_accessMode p = AccessOrganization)
      \<longleftrightarrow> pj_accessMode p = AccessOrganization \<or> team_access (pj_id p) user m" for p
    using assigned_iff [of "pj_id p" user m] by (cases "assigned_projects user m = []") simp_all
  show ?thesis unfolding e by (cases "org_wide role") (simp_all add: project_visible_def [abs_def])
qed

lemma access_modes: "pj_accessMode p \<noteq> AccessTeam \<longleftrightarrow> pj_accessMode p = AccessOrganization"
  by (cases "pj_accessMode p") auto

definition unfiltered :: "project_query \<Rightarrow> project_query" where
  "unfiltered q = q\<lparr>pq_status := None, pq_search := None, pq_teamId := None\<rparr>"

text \<open>What both lookups do before they look at projects.\<close>

definition listed_scope :: "iam \<Rightarrow> string option \<Rightarrow> string \<Rightarrow> string \<Rightarrow> (org_row \<times> string \<times> string \<times> string list) option" where
  "listed_scope m session slug permission =
     (case session of None \<Rightarrow> None | Some user \<Rightarrow>
     (case find_org slug m of None \<Rightarrow> None | Some org \<Rightarrow>
     (case find_membership (og_id org) user m of None \<Rightarrow> None | Some membership \<Rightarrow>
       (let permissions = resolveRolePermissions m (mb_role membership) (Some (og_id org)) in
        if permission \<notin> set permissions then None else Some (org, user, mb_role membership, permissions)))))"

lemma list_scope:
  "listAccessibleProjects m session slug permission = map_option (\<lambda>(org, user, role, perms).
     \<lparr>pl_organization = org, pl_userId = user, pl_permissions = perms,
      pl_projects = filter (project_visible m (og_id org) user role) (t_projects m)\<rparr>) (listed_scope m session slug permission)"
  by (simp add: listAccessibleProjects_def listed_scope_def Let_def org_wide_def visible_list [symmetric]
      split: option.split)

lemma detail_scope:
  "resolveProjectAccess m session slug pid permission =
    (case listed_scope m session slug permission of None \<Rightarrow> None | Some (org, user, role, perms) \<Rightarrow>
      (case find_project pid (og_id org) m of None \<Rightarrow> None | Some p \<Rightarrow>
        if org_wide role \<or> pj_accessMode p = AccessOrganization \<or> team_access (pj_id p) user m
        then Some \<lparr>pa_organization = org, pa_project = p, pa_userId = user, pa_role = role, pa_permissions = perms\<rparr>
        else None))"
  by (auto simp: resolveProjectAccess_def listed_scope_def Let_def org_wide_def access_modes [symmetric]
      split: option.split)

subsection \<open>Sample data\<close>

definition sample_project :: project where
  "sample_project = \<lparr>pj_id = ''p1'', pj_organizationId = ''o1'', pj_teamId = Some ''t1'', pj_createdByUserId = ''u1'',
     pj_name = ''Shop'', pj_slug = ''shop'', pj_description = None, pj_sourceType = FromBlank, pj_gitUrl = None,
     pj_branch = ''main'', pj_routingTargetUrl = None, pj_status = ProjectActive, pj_accessMode = AccessTeam,
     pj_archivedAt = None, pj_defaultEnvironmentId = None,
     pj_createdAt = 0, pj_updatedAt = 0\<rparr>"

definition sample_iam :: iam where
  "sample_iam = \<lparr>t_organizations = [\<lparr>og_id = ''o1'', og_name = ''Acme'', og_slug = ''acme''\<rparr>],
     t_teams = [\<lparr>tm_id = ''t1'', tm_name = ''Ops'', tm_organizationId = ''o1''\<rparr>],
     t_teamMembers = [\<lparr>tmm_id = ''tm1'', tmm_teamId = ''t1'', tmm_userId = ''u2''\<rparr>],
     t_members = [\<lparr>mb_id = ''m1'', mb_organizationId = ''o1'', mb_userId = ''u1'', mb_role = ''owner''\<rparr>,
       \<lparr>mb_id = ''m2'', mb_organizationId = ''o1'', mb_userId = ''u2'', mb_role = ''developer''\<rparr>,
       \<lparr>mb_id = ''m3'', mb_organizationId = ''o1'', mb_userId = ''u3'', mb_role = ''admin''\<rparr>,
       \<lparr>mb_id = ''m4'', mb_organizationId = ''o1'', mb_userId = ''u4'', mb_role = ''developer''\<rparr>],
     t_roles = [], t_rolePermissions = [],
     t_projects = [sample_project, sample_project\<lparr>pj_id := ''p2'', pj_accessMode := AccessOrganization\<rparr>],
     t_projectTeams = [\<lparr>pt_projectId = ''p1'', pt_teamId = ''t1'', pt_assignedByUserId = None\<rparr>]\<rparr>"

subsection \<open>Properties\<close>

text \<open>C37. Lists and detail pages follow one policy: a project is in the list of projects a caller may see, with
  a permission, exactly when its detail endpoint lets the caller in with that permission; and what the
  paged list counts, without filters, is that same list.\<close>

theorem project_lists_agree:
  assumes "distinct (map pj_id (t_projects m))" and "p \<in> set (t_projects m)"
  shows "(resolveProjectAccess m session slug (pj_id p) permission \<noteq> None)
      = (case listAccessibleProjects m session slug permission of None \<Rightarrow> False | Some l \<Rightarrow> p \<in> set (pl_projects l))
    \<and> (case listAccessibleProjects m session slug permission of None \<Rightarrow> True | Some l \<Rightarrow>
        (case find_membership (og_id (pl_organization l)) (pl_userId l) m of None \<Rightarrow> False | Some membership \<Rightarrow>
          snd (listProjectPage ilike by_name m (og_id (pl_organization l)) (pl_userId l) (mb_role membership) (unfiltered q))
            = length (pl_projects l)))"
proof (cases "listed_scope m session slug permission")
  case None
  then show ?thesis by (simp add: detail_scope list_scope)
next
  case (Some sc)
  obtain org user role perms where sc: "sc = (org, user, role, perms)" by (cases sc)
  from Some sc obtain mb where mb: "find_membership (og_id org) user m = Some mb" "mb_role mb = role"
    by (auto simp: listed_scope_def Let_def split: option.splits if_splits)
  have f: "find_project (pj_id p) (og_id org) m = (if pj_organizationId p = og_id org then Some p else None)"
    unfolding find_project_def by (rule find_conj_key [OF assms])
  have l: "listAccessibleProjects m session slug permission = Some \<lparr>pl_organization = org, pl_userId = user,
      pl_permissions = perms, pl_projects = filter (project_visible m (og_id org) user role) (t_projects m)\<rparr>"
    by (simp add: list_scope Some sc)
  have w: "page_where ilike m (og_id org) user role (unfiltered q) = project_visible m (og_id org) user role"
    by (auto simp: page_where_def unfiltered_def project_visible_def truthy_def)
  show ?thesis
    using assms(2) by (simp add: l detail_scope Some sc f mb listProjectPage_def w Let_def) (simp add: project_visible_def)
qed


lemma project_lists_agree_witness:
  "resolveProjectAccess sample_iam (Some ''u2'') ''acme'' ''p1'' ''projects.read'' \<noteq> None
   \<and> resolveProjectAccess sample_iam (Some ''u4'') ''acme'' ''p1'' ''projects.read'' = None"
proof -
  have d: "distinct (map pj_id (t_projects sample_iam))" and p: "sample_project \<in> set (t_projects sample_iam)"
    by (simp_all add: sample_iam_def sample_project_def)
  have 1: "pj_id sample_project = ''p1''" by (simp add: sample_project_def)
  have 2: "case listAccessibleProjects sample_iam (Some ''u2'') ''acme'' ''projects.read'' of None \<Rightarrow> False
      | Some l \<Rightarrow> sample_project \<in> set (pl_projects l)" by code_simp
  have 4: "\<not> (case listAccessibleProjects sample_iam (Some ''u4'') ''acme'' ''projects.read'' of None \<Rightarrow> False
      | Some l \<Rightarrow> sample_project \<in> set (pl_projects l))" by code_simp
  show ?thesis
    using project_lists_agree [OF d p, of "Some ''u2''" "''acme''" "''projects.read''"]
      project_lists_agree [OF d p, of "Some ''u4''" "''acme''" "''projects.read''"] 2 4 by (simp only: 1) blast
qed

end
