(* ===== verification/RoleRoutes.thy ===== *)
theory RoleRoutes
  imports Access DeploymentService
begin

text \<open>
  The role and member routes of \<open>apps/api/src/routes/organization-rbac.routes.ts\<close>: creating, changing and
  deleting custom roles, and assigning a role to a member. A handler runs behind the guard
  \<open>requirePermission\<close>, as the router composes them; its state is the pair of the organisation tables and the
  control plane (for the audit log and the id supply). Deleting a role cascades to its permissions, as the
  foreign key of \<open>organization_role_permission\<close> says. The error details of a failed parse are not modelled.
\<close>

record role_input =
  ri_name :: string
  ri_description :: "string option"
  ri_permissions :: "string list"

definition z_trimmed :: "nat \<Rightarrow> nat \<Rightarrow> json \<Rightarrow> string option" where
  "z_trimmed lo hi j = Option.bind (z_string j) (\<lambda>s. let t = trim_str s in
     if lo \<le> length t \<and> length t \<le> hi then Some t else None)"

fun z_nullable :: "(json \<Rightarrow> 'a option) \<Rightarrow> json \<Rightarrow> 'a option option" where
  "z_nullable p JNull = Some None"
| "z_nullable p j = map_option Some (p j)"

definition opt_null :: "'a option option \<Rightarrow> 'a option" where
  "opt_null v = (case v of Some (Some x) \<Rightarrow> Some x | _ \<Rightarrow> None)"

definition roleInput :: "json \<Rightarrow> role_input option" where
  "roleInput j =
     Option.bind (z_object j) (\<lambda>j.
     Option.bind (z_req (z_trimmed 2 80) ''name'' j) (\<lambda>name.
     Option.bind (z_opt (z_nullable (z_trimmed 0 500)) ''description'' j) (\<lambda>description.
     Option.bind (z_req (\<lambda>v. Option.bind (z_array z_string v)
         (\<lambda>ps. if length ps \<le> length allPermissions then Some ps else None)) ''permissions'' j) (\<lambda>permissions.
       Some \<lparr>ri_name = name, ri_description = opt_null description, ri_permissions = permissions\<rparr>))))"

definition audit :: "host \<Rightarrow> string \<Rightarrow> string \<Rightarrow> string \<Rightarrow> string \<Rightarrow> json option \<Rightarrow> cp \<Rightarrow> cp" where
  "audit h actorId action targetType targetId metadata s =
     (let (i, s1) = randomUUID h s in s1\<lparr>t_auditLogs := t_auditLogs s1 @
        [\<lparr>al_id = i, al_actorId = Some actorId, al_action = action, al_targetType = targetType,
          al_targetId = Some targetId, al_metadata = metadata, al_ipAddress = None, al_createdAt = clock s1\<rparr>]\<rparr>)"

definition getRole :: "string \<Rightarrow> string \<Rightarrow> iam \<Rightarrow> role_row option" where
  "getRole orgId roleId m = List.find (\<lambda>r. or_id r = roleId \<and> or_organizationId r = orgId) (t_roles m)"

type_synonym role_state = "iam \<times> cp"

text \<open>The guard and the second lookup of the caller, as every route does both.\<close>

definition guarded ::
  "string option \<Rightarrow> string \<Rightarrow> string \<Rightarrow> (permission_check \<Rightarrow> role_state \<Rightarrow> response \<times> role_state) \<Rightarrow> role_state
     \<Rightarrow> response \<times> role_state" where
  "guarded session slug permission handler st =
     (case requirePermission (fst st) session slug permission of
        Some r \<Rightarrow> (r, st)
      | None \<Rightarrow> (case hasPermission (fst st) session slug permission of
                  None \<Rightarrow> (Problem 400 ''Invalid role'', st)
                | Some scope \<Rightarrow> handler scope st))"

definition insert_role_permissions :: "string \<Rightarrow> string list \<Rightarrow> iam \<Rightarrow> iam" where
  "insert_role_permissions roleId ps m =
     m\<lparr>t_rolePermissions := t_rolePermissions m @ map (\<lambda>p. \<lparr>rp_roleId = roleId, rp_permission = p\<rparr>) ps\<rparr>"

definition create_role :: "host \<Rightarrow> json \<Rightarrow> permission_check \<Rightarrow> role_state \<Rightarrow> response \<times> role_state" where
  "create_role h body scope st =
     (case roleInput body of
        None \<Rightarrow> (Problem 400 ''Invalid role'', st)
      | Some inp \<Rightarrow>
          if list_ex (\<lambda>p. \<not> isKnownPermission p) (ri_permissions inp) then (Problem 400 ''Unknown permission'', st)
          else if list_ex (\<lambda>r. or_organizationId r = og_id (pc_org scope) \<and> or_name r = ri_name inp) (t_roles (fst st))
          then (Problem 409 ''A role with this name already exists'', st)
          else
            (let m = fst st;
                 (i, s1) = randomUUID h (snd st);
                 m1 = m\<lparr>t_roles := t_roles m @
                   [\<lparr>or_id = i, or_organizationId = og_id (pc_org scope), or_name = ri_name inp,
                     or_description = ri_description inp, or_immutable = False, or_createdBy = pc_userId scope,
                     or_createdAt = clock s1, or_updatedAt = clock s1\<rparr>]\<rparr>;
                 m2 = insert_role_permissions i (ri_permissions inp) m1
             in (Reply 201 (JObj [(''id'', JStr i)]),
                 m2, audit h (pc_userId scope) ''role.created'' ''organization_role'' i
                       (Some (JObj [(''organizationId'', JStr (og_id (pc_org scope)))])) s1)))"

definition update_role :: "host \<Rightarrow> string \<Rightarrow> json \<Rightarrow> permission_check \<Rightarrow> role_state \<Rightarrow> response \<times> role_state" where
  "update_role h roleId body scope st =
     (case roleInput body of
        None \<Rightarrow> (Problem 400 ''Invalid role'', st)
      | Some inp \<Rightarrow>
          if list_ex (\<lambda>p. \<not> isKnownPermission p) (ri_permissions inp) then (Problem 400 ''Unknown permission'', st)
          else
            (case getRole (og_id (pc_org scope)) roleId (fst st) of
               None \<Rightarrow> (Problem 404 ''Role not found or immutable'', st)
             | Some role \<Rightarrow>
                 if or_immutable role then (Problem 404 ''Role not found or immutable'', st)
                 else
                   (let (m, s) = st;
                        m1 = m\<lparr>t_roles := upd_where (\<lambda>r. or_id r = or_id role)
                                (\<lambda>r. r\<lparr>or_name := ri_name inp, or_description := ri_description inp,
                                       or_updatedAt := clock s\<rparr>) (t_roles m)\<rparr>;
                        m2 = m1\<lparr>t_rolePermissions := del_where (\<lambda>p. rp_roleId p = or_id role) (t_rolePermissions m1)\<rparr>;
                        m3 = insert_role_permissions (or_id role) (ri_permissions inp) m2
                    in (NoContent, m3, audit h (pc_userId scope) ''role.updated'' ''organization_role'' (or_id role) None s))))"

definition delete_role :: "host \<Rightarrow> string \<Rightarrow> permission_check \<Rightarrow> role_state \<Rightarrow> response \<times> role_state" where
  "delete_role h roleId scope st =
     (case getRole (og_id (pc_org scope)) roleId (fst st) of
        None \<Rightarrow> (Problem 404 ''Role not found or immutable'', st)
      | Some role \<Rightarrow>
          if or_immutable role then (Problem 404 ''Role not found or immutable'', st)
          else if list_ex (\<lambda>r. mb_organizationId r = og_id (pc_org scope) \<and> mb_role r = ''custom:'' @ or_id role)
                    (t_members (fst st))
          then (Problem 409 ''Role is still assigned to members'', st)
          else
            (let (m, s) = st;
                 m1 = m\<lparr>t_roles := del_where (\<lambda>r. or_id r = or_id role) (t_roles m),
                        t_rolePermissions := del_where (\<lambda>p. rp_roleId p = or_id role) (t_rolePermissions m)\<rparr>
             in (NoContent, m1, audit h (pc_userId scope) ''role.deleted'' ''organization_role'' (or_id role) None s)))"

definition is_owner :: "string \<Rightarrow> member_row \<Rightarrow> bool" where
  "is_owner orgId r \<longleftrightarrow> mb_organizationId r = orgId \<and> mb_role r = ''owner''"

definition assign_role :: "host \<Rightarrow> string \<Rightarrow> json \<Rightarrow> permission_check \<Rightarrow> role_state \<Rightarrow> response \<times> role_state" where
  "assign_role h memberId body scope st =
     (case Option.bind (z_object body) (z_req (z_string_where (\<lambda>s. s \<noteq> [])) ''role'') of
        None \<Rightarrow> (Problem 400 ''Invalid role'', st)
      | Some role \<Rightarrow>
          (let (m, s) = st; org = og_id (pc_org scope) in
           case List.find (\<lambda>r. mb_id r = memberId \<and> mb_organizationId r = org) (t_members m) of
             None \<Rightarrow> (Problem 404 ''Member not found'', st)
           | Some target \<Rightarrow>
               if starts_with ''custom:'' role \<and> getRole org (drop 7 role) m = None
               then (Problem 400 ''Custom role not found'', st)
               else if \<not> starts_with ''custom:'' role \<and> role \<notin> {''owner'', ''admin'', ''developer'', ''viewer''}
               then (Problem 400 ''Unknown system role'', st)
               else if mb_role target = ''owner'' \<and> role \<noteq> ''owner'' \<and> length (filter (is_owner org) (t_members m)) \<le> 1
               then (Problem 409 ''The last owner cannot be demoted'', st)
               else if role = ''owner'' \<and> ''organization.delete'' \<notin> set (pc_permissions scope)
               then (Problem 403 ''Only an owner may grant owner access'', st)
               else (NoContent,
                     m\<lparr>t_members := upd_where (\<lambda>r. mb_id r = mb_id target) (\<lambda>r. r\<lparr>mb_role := role\<rparr>) (t_members m)\<rparr>,
                     audit h (pc_userId scope) ''member.role_changed'' ''member'' (mb_id target)
                       (Some (JObj [(''role'', JStr role)])) s)))"

datatype role_request = CreateRole string json | UpdateRole string string json | DeleteRole string string
  | AssignRole string string json

fun handle_role_request :: "host \<Rightarrow> string option \<Rightarrow> role_request \<Rightarrow> role_state \<Rightarrow> response \<times> role_state" where
  "handle_role_request h session (CreateRole slug body) st = guarded session slug ''roles.create'' (create_role h body) st"
| "handle_role_request h session (UpdateRole slug roleId body) st =
     guarded session slug ''roles.update'' (update_role h roleId body) st"
| "handle_role_request h session (DeleteRole slug roleId) st = guarded session slug ''roles.delete'' (delete_role h roleId) st"
| "handle_role_request h session (AssignRole slug memberId body) st =
     guarded session slug ''roles.assign'' (assign_role h memberId body) st"

definition run_role_requests :: "host \<Rightarrow> (string option \<times> role_request) list \<Rightarrow> role_state \<Rightarrow> role_state" where
  "run_role_requests h reqs st = fold (\<lambda>(session, req) t. snd (handle_role_request h session req t)) reqs st"

subsection \<open>Facts\<close>

lemma guarded_cases:
  assumes "guarded session slug permission handler st = (r, st')"
  obtains (passed) scope where "hasPermission (fst st) session slug permission = Some scope" "pc_allowed scope"
      "handler scope st = (r, st')"
  | (refused) "st' = st"
  using assms by (auto simp: guarded_def requirePermission_def split: option.splits if_splits)

definition has_owner :: "string \<Rightarrow> iam \<Rightarrow> bool" where
  "has_owner org m \<longleftrightarrow> list_ex (is_owner org) (t_members m)"

lemma members_create: "t_members (fst (snd (create_role h body scope st))) = t_members (fst st)"
  by (simp add: create_role_def insert_role_permissions_def Let_def split: option.split prod.split)

lemma members_update: "t_members (fst (snd (update_role h i body scope st))) = t_members (fst st)"
  by (simp add: update_role_def insert_role_permissions_def Let_def split: option.split prod.split)

lemma members_delete: "t_members (fst (snd (delete_role h i scope st))) = t_members (fst st)"
  by (simp add: delete_role_def Let_def split: option.split prod.split)

lemma two_owners:
  assumes "1 < length (filter P xs)" "distinct (map k xs)"
  shows "\<exists>y \<in> set xs. P y \<and> k y \<noteq> i"
proof (rule ccontr)
  assume "\<not> ?thesis"
  then have all: "\<And>y. y \<in> set (filter P xs) \<Longrightarrow> k y = i" by auto
  have "distinct (map k (filter P xs))" using assms(2) by (rule distinct_map_filter)
  with all assms(1) show False by (cases "filter P xs"; cases "tl (filter P xs)") auto
qed

lemma owner_after_assign:
  assumes "distinct (map mb_id (t_members (fst st)))" and "has_owner org (fst st)"
  shows "has_owner org (fst (snd (assign_role h i body scope st)))"
proof -
  obtain m s where st: "st = (m, s)" by (cases st)
  let ?org = "og_id (pc_org scope)"
  have unchanged: "?thesis" if "fst (snd (assign_role h i body scope st)) = m"
    using that assms(2) by (simp add: st)
  have changed: "?thesis"
    if f: "List.find (\<lambda>r. mb_id r = i \<and> mb_organizationId r = ?org) (t_members m) = Some target"
      and g: "\<not> (mb_role target = ''owner'' \<and> role \<noteq> ''owner'' \<and> length (filter (is_owner ?org) (t_members m)) \<le> 1)"
      and e: "fst (snd (assign_role h i body scope st))
        = m\<lparr>t_members := upd_where (\<lambda>r. mb_id r = mb_id target) (\<lambda>r. r\<lparr>mb_role := role\<rparr>) (t_members m)\<rparr>"
    for target role
  proof -
    have t: "target \<in> set (t_members m)" "mb_organizationId target = ?org" using f by (auto dest: find_Some_iff')
    from assms(2) obtain y where y: "y \<in> set (t_members m)" "is_owner org y" by (auto simp: has_owner_def list_ex_iff st)
    have keep: "?thesis" if "z \<in> set (t_members m)" "is_owner org z" "mb_id z \<noteq> mb_id target \<or> role = ''owner''" for z
    proof -
      have "(if mb_id z = mb_id target then z\<lparr>mb_role := role\<rparr> else z)
          \<in> set (upd_where (\<lambda>r. mb_id r = mb_id target) (\<lambda>r. r\<lparr>mb_role := role\<rparr>) (t_members m))"
        using that(1) unfolding set_upd_where by (rule imageI)
      moreover have "is_owner org (if mb_id z = mb_id target then z\<lparr>mb_role := role\<rparr> else z)"
        using that(2,3) by (auto simp: is_owner_def)
      ultimately show ?thesis unfolding e has_owner_def list_ex_iff by auto
    qed
    show ?thesis
    proof (cases "mb_id y = mb_id target \<and> role \<noteq> ''owner''")
      case False
      with keep y show ?thesis by blast
    next
      case True
      then have "y = target" using keyed_unique [of mb_id "t_members m"] assms(1) y(1) t(1) by (simp add: st)
      then have o: "org = ?org" "mb_role target = ''owner''" using y(2) t(2) by (simp_all add: is_owner_def)
      with g True have "1 < length (filter (is_owner ?org) (t_members m))" by simp
      then obtain z where "z \<in> set (t_members m)" "is_owner ?org z" "mb_id z \<noteq> mb_id target"
        using two_owners [of "is_owner ?org" "t_members m" mb_id "mb_id target"] assms(1) by (auto simp: st)
      with keep o show ?thesis by metis
    qed
  qed
  show ?thesis
  proof (cases "Option.bind (z_object body) (z_req (z_string_where (\<lambda>s. s \<noteq> [])) ''role'')")
    case None
    then show ?thesis by (intro unchanged) (simp add: assign_role_def st)
  next
    case role: (Some role)
    show ?thesis
    proof (cases "List.find (\<lambda>r. mb_id r = i \<and> mb_organizationId r = ?org) (t_members m)")
      case None
      with role show ?thesis by (intro unchanged) (simp add: assign_role_def st)
    next
      case f: (Some target)
      let ?g = "mb_role target = ''owner'' \<and> role \<noteq> ''owner'' \<and> length (filter (is_owner ?org) (t_members m)) \<le> 1"
      let ?m = "m\<lparr>t_members := upd_where (\<lambda>r. mb_id r = mb_id target) (\<lambda>r. r\<lparr>mb_role := role\<rparr>) (t_members m)\<rparr>"
      have "fst (snd (assign_role h i body scope st)) = m \<or> \<not> ?g \<and> fst (snd (assign_role h i body scope st)) = ?m"
        unfolding assign_role_def st role prod.case Let_def option.case f if_distrib [of snd] if_distrib [of fst] snd_conv fst_conv
        by presburger
      with unchanged changed [OF f] show ?thesis by blast
    qed
  qed
qed

lemma ids_after_assign:
  "map mb_id (t_members (fst (snd (assign_role h i body scope st)))) = map mb_id (t_members (fst st))"
  by (simp add: assign_role_def Let_def map_upd_where_inv split: option.split prod.split)

definition members_ok :: "string \<Rightarrow> iam \<Rightarrow> bool" where
  "members_ok org m \<longleftrightarrow> distinct (map mb_id (t_members m)) \<and> has_owner org m"

lemma guarded_ok:
  assumes "\<And>scope. members_ok org (fst (snd (handler scope st)))" and "members_ok org (fst st)"
  shows "members_ok org (fst (snd (guarded session slug permission handler st)))"
  using assms by (simp add: guarded_def split: option.split)

lemma request_ok:
  assumes "members_ok org (fst st)"
  shows "members_ok org (fst (snd (handle_role_request h session req st)))"
proof -
  have eq: "members_ok org m" if "t_members m = t_members (fst st)" for m
    using assms that by (simp add: members_ok_def has_owner_def)
  have "members_ok org (fst (snd (assign_role h i body scope st)))" for i body scope
    using assms owner_after_assign ids_after_assign by (simp add: members_ok_def)
  with eq [OF members_create] eq [OF members_update] eq [OF members_delete] assms show ?thesis
    by (cases req) (simp_all add: guarded_ok)
qed

subsection \<open>Privileges\<close>

lemma guarded_pass:
  assumes "slug \<noteq> []" "find_org slug (fst st) = Some org" "find_membership (og_id org) user (fst st) = Some mb"
    and "ps = resolveRolePermissions (fst st) (mb_role mb) (Some (og_id org))" "permission \<in> set ps"
  shows "guarded (Some user) slug permission handler st
    = handler \<lparr>pc_org = org, pc_membership = mb, pc_userId = user, pc_permissions = ps, pc_allowed = True\<rparr> st"
  using assms by (simp add: guarded_def requirePermission_def hasPermission_def resolveOrganizationAccess_def Let_def)

lemma admin_permissions:
  "''roles.create'' \<in> set (resolveRolePermissions m ''admin'' org)"
  "''roles.assign'' \<in> set (resolveRolePermissions m ''admin'' org)"
  "''organization.delete'' \<notin> set (resolveRolePermissions m ''admin'' org)"
  by (simp_all add: resolveRolePermissions_def starts_with_def systemPermissions_def allPermissions_def)

lemma custom_prefix [simp]: "starts_with ''custom:'' (''custom:'' @ i)" "drop 7 (''custom:'' @ i) = i"
  "drop (length ''custom:'') (''custom:'' @ i) = i"
  by (simp_all add: starts_with_def)

lemma find_membership_assigned:
  assumes "find_membership org user m = Some mb"
  shows "find_membership org user (m\<lparr>t_members := upd_where (\<lambda>r. mb_id r = mb_id mb) (\<lambda>r. r\<lparr>mb_role := role\<rparr>) (t_members m)\<rparr>)
    = Some (mb\<lparr>mb_role := role\<rparr>)"
proof -
  have "List.find (\<lambda>r. mb_organizationId r = org \<and> mb_userId r = user) (upd_where P (\<lambda>r. r\<lparr>mb_role := role\<rparr>) rs)
      = map_option (\<lambda>r. if P r then r\<lparr>mb_role := role\<rparr> else r)
          (List.find (\<lambda>r. mb_organizationId r = org \<and> mb_userId r = user) rs)"
    for P and rs :: "member_row list"
    by (induction rs) auto
  with assms show ?thesis by (simp add: find_membership_def)
qed

definition role_body :: "string \<Rightarrow> json" where
  "role_body role = JObj [(''role'', JStr role)]"

lemma role_body_parsed:
  "role \<noteq> [] \<Longrightarrow> Option.bind (z_object (role_body role)) (z_req (z_string_where (\<lambda>s. s \<noteq> [])) ''role'') = Some role"
  by (simp add: role_body_def z_req_def z_string_where_def)

lemma assign_accepted:
  assumes "distinct (map mb_id (t_members m))" "mb \<in> set (t_members m)" "mb_organizationId mb = og_id (pc_org scope)"
    and "mb_role mb \<noteq> ''owner''" "role \<noteq> []"
    and "starts_with ''custom:'' role \<and> getRole (og_id (pc_org scope)) (drop 7 role) m \<noteq> None
      \<or> role = ''owner'' \<and> ''organization.delete'' \<in> set (pc_permissions scope)"
  shows "fst (snd (assign_role h (mb_id mb) (role_body role) scope (m, s)))
    = m\<lparr>t_members := upd_where (\<lambda>r. mb_id r = mb_id mb) (\<lambda>r. r\<lparr>mb_role := role\<rparr>) (t_members m)\<rparr>"
proof -
  have f: "List.find (\<lambda>r. mb_id r = mb_id mb \<and> mb_organizationId r = og_id (pc_org scope)) (t_members m) = Some mb"
    using find_conj_key [OF assms(1,2), of "\<lambda>r. mb_organizationId r = og_id (pc_org scope)"] assms(3) by simp
  have o: "\<not> starts_with ''custom:'' ''owner''" by (simp add: starts_with_def)
  show ?thesis using assms(4-6) o
    by (cases "starts_with ''custom:'' role") (auto simp: assign_role_def role_body_parsed f Let_def)
qed

definition escalating_role :: json where
  "escalating_role = JObj [(''name'', JStr ''ops''),
     (''permissions'', JArr [JStr ''roles.assign'', JStr ''organization.delete''])]"

definition escalating_input :: role_input where
  "escalating_input = \<lparr>ri_name = ''ops'', ri_description = None, ri_permissions = [''roles.assign'', ''organization.delete'']\<rparr>"

lemma escalating_parsed: "roleInput escalating_role = Some escalating_input"
  by code_simp

lemma create_escalating:
  assumes "list_all (\<lambda>r. or_organizationId r \<noteq> og_id (pc_org scope) \<or> or_name r \<noteq> ''ops'') (t_roles m)"
    and "i = h_randomUUID h (uuid_next s)"
  shows "fst (snd (create_role h escalating_role scope (m, s))) = m\<lparr>
     t_roles := t_roles m @ [\<lparr>or_id = i, or_organizationId = og_id (pc_org scope), or_name = ''ops'', or_description = None,
           or_immutable = False, or_createdBy = pc_userId scope, or_createdAt = clock s, or_updatedAt = clock s\<rparr>],
     t_rolePermissions := t_rolePermissions m @ [\<lparr>rp_roleId = i, rp_permission = ''roles.assign''\<rparr>,
           \<lparr>rp_roleId = i, rp_permission = ''organization.delete''\<rparr>]\<rparr>"
proof -
  have k: "isKnownPermission ''roles.assign''" "isKnownPermission ''organization.delete''" by code_simp+
  have "\<not> list_ex (\<lambda>r. or_organizationId r = og_id (pc_org scope) \<and> or_name r = ''ops'') (t_roles m)"
    using assms(1) by (auto simp: list_all_iff list_ex_iff)
  then show ?thesis
    by (simp add: create_role_def escalating_parsed escalating_input_def k randomUUID_def insert_role_permissions_def assms(2))
qed

definition escalation :: "host \<Rightarrow> string \<Rightarrow> string \<Rightarrow> string \<Rightarrow> cp \<Rightarrow> (string option \<times> role_request) list" where
  "escalation h slug user memberId s = [(Some user, CreateRole slug escalating_role),
     (Some user, AssignRole slug memberId (role_body (''custom:'' @ h_randomUUID h (uuid_next s)))),
     (Some user, AssignRole slug memberId (role_body ''owner''))]"

subsection \<open>Properties\<close>

text \<open>C39. An organisation never loses its last owner: whatever sequence of role requests whoever sends, an
  organisation that has an owner keeps one, and member ids stay unique.\<close>

theorem owner_remains:
  assumes "distinct (map mb_id (t_members (fst st)))" and "has_owner org (fst st)"
  shows "distinct (map mb_id (t_members (fst (run_role_requests h reqs st))))
    \<and> has_owner org (fst (run_role_requests h reqs st))"
proof -
  have "members_ok org (fst st) \<Longrightarrow> members_ok org (fst (run_role_requests h reqs st))"
    unfolding run_role_requests_def
    by (induction reqs arbitrary: st) (auto simp: request_ok split_beta)
  with assms show ?thesis by (simp add: members_ok_def)
qed

definition demotion :: role_request where
  "demotion = AssignRole ''acme'' ''m1'' (JObj [(''role'', JStr ''viewer'')])"

lemma owner_remains_witness:
  "has_owner ''o1'' (fst (run_role_requests sample_host [(Some ''u3'', demotion), (Some ''u1'', demotion)] (sample_iam, empty_cp)))"
proof -
  have "distinct (map mb_id (t_members (fst (sample_iam, empty_cp))))" "has_owner ''o1'' (fst (sample_iam, empty_cp))"
    by (simp_all add: sample_iam_def has_owner_def is_owner_def)
  from owner_remains [OF this] show ?thesis by blast
qed


text \<open>C38. Any administrator can become an owner: three requests an administrator may send, creating a custom
  role with the right to delete the organisation, taking it, and then granting themselves owner access,
  all succeed, although the last is meant to be reserved to owners.\<close>

theorem admin_becomes_owner:
  assumes "slug \<noteq> []" "find_org slug m = Some org" "find_membership (og_id org) user m = Some mb" "mb_role mb = ''admin''"
    and "distinct (map mb_id (t_members m))"
    and "list_all (\<lambda>r. or_organizationId r \<noteq> og_id org \<or> or_name r \<noteq> ''ops'') (t_roles m)"
  shows "find_membership (og_id org) user (fst (run_role_requests h (escalation h slug user (mb_id mb) s) (m, s)))
    = Some (mb\<lparr>mb_role := ''owner''\<rparr>)"
proof -
  let ?o = "og_id org" and ?i = "h_randomUUID h (uuid_next s)"
  have mb: "mb \<in> set (t_members m)" "mb_organizationId mb = ?o"
    using assms(3) by (auto simp: find_membership_def dest: find_Some_iff')
  define sc1 where "sc1 = \<lparr>pc_org = org, pc_membership = mb, pc_userId = user,
      pc_permissions = resolveRolePermissions m ''admin'' (Some ?o), pc_allowed = True\<rparr>"
  define m1 where "m1 = fst (snd (create_role h escalating_role sc1 (m, s)))"
  have m1: "m1 = m\<lparr>t_roles := t_roles m @ [\<lparr>or_id = ?i, or_organizationId = ?o, or_name = ''ops'', or_description = None,
           or_immutable = False, or_createdBy = user, or_createdAt = clock s, or_updatedAt = clock s\<rparr>],
     t_rolePermissions := t_rolePermissions m @ [\<lparr>rp_roleId = ?i, rp_permission = ''roles.assign''\<rparr>,
           \<lparr>rp_roleId = ?i, rp_permission = ''organization.delete''\<rparr>]\<rparr>"
    unfolding m1_def using create_escalating [of sc1 m ?i h s] assms(6) by (simp add: sc1_def)
  have f1: "find_org slug m1 = Some org" "find_membership ?o user m1 = Some mb" "t_members m1 = t_members m"
    using assms(2,3) by (simp_all add: m1 find_org_def find_membership_def)
  have r1: "getRole ?o ?i m1 \<noteq> None" by (auto simp: m1 getRole_def find_None_iff')
  have st1: "handle_role_request h (Some user) (CreateRole slug escalating_role) (m, s) = create_role h escalating_role sc1 (m, s)"
    using guarded_pass [of slug "(m, s)" org user mb _ "''roles.create''"] assms(1-4) admin_permissions(1)
    by (simp add: sc1_def)
  have assign: "\<exists>sc. handle_role_request h (Some user) (AssignRole slug (mb_id mb) body) (m', s') =
        assign_role h (mb_id mb) body sc (m', s') \<and> pc_org sc = org \<and> pc_permissions sc = ps"
    if "find_org slug m' = Some org" "find_membership ?o user m' = Some mb'"
      "ps = resolveRolePermissions m' (mb_role mb') (Some ?o)" "''roles.assign'' \<in> set ps" for m' s' mb' body ps
    using guarded_pass [of slug "(m', s')" org user mb' ps "''roles.assign''" "assign_role h (mb_id mb) body"] assms(1) that
    by auto
  obtain s1 where e1: "snd (handle_role_request h (Some user) (CreateRole slug escalating_role) (m, s)) = (m1, s1)"
    unfolding st1 m1_def by (metis prod.collapse)
  let ?c = "''custom:'' @ ?i"
  let ?m2 = "m1\<lparr>t_members := upd_where (\<lambda>r. mb_id r = mb_id mb) (\<lambda>r. r\<lparr>mb_role := ?c\<rparr>) (t_members m1)\<rparr>"
  have "\<exists>s2. snd (handle_role_request h (Some user) (AssignRole slug (mb_id mb) (role_body ?c)) (m1, s1)) = (?m2, s2)"
  proof -
    obtain sc where sc: "handle_role_request h (Some user) (AssignRole slug (mb_id mb) (role_body ?c)) (m1, s1) =
        assign_role h (mb_id mb) (role_body ?c) sc (m1, s1)" "pc_org sc = org"
      using assign [OF f1(1,2) refl] assms(4) admin_permissions(2) by metis
    have "fst (snd (assign_role h (mb_id mb) (role_body ?c) sc (m1, s1))) = ?m2"
      by (rule assign_accepted) (use assms(4,5) mb f1(3) r1 sc(2) in \<open>simp_all add: starts_with_def\<close>)
    with sc(1) show ?thesis by (metis prod.collapse)
  qed
  then obtain s2 where e2: "snd (handle_role_request h (Some user) (AssignRole slug (mb_id mb) (role_body ?c)) (m1, s1)) = (?m2, s2)"
    by blast
  let ?mb = "mb\<lparr>mb_role := ?c\<rparr>" and ?ps = "resolveRolePermissions ?m2 ?c (Some ?o)"
  have f2: "find_org slug ?m2 = Some org" "find_membership ?o user ?m2 = Some ?mb"
    using f1(1) find_membership_assigned [OF f1(2)] by (simp_all add: find_org_def)
  have "''roles.assign'' \<in> set ?ps \<and> ''organization.delete'' \<in> set ?ps"
    by (simp add: resolveRolePermissions_def role_grants_def isKnownPermission_def allPermissions_def m1 starts_with_def)
  then have ps: "''roles.assign'' \<in> set ?ps" "''organization.delete'' \<in> set ?ps" by blast+
  have d2: "distinct (map mb_id (t_members ?m2))" using assms(5) f1(3) by (simp add: map_upd_where_inv)
  have mb2: "?mb \<in> set (t_members ?m2)" using f2(2) by (auto simp: find_membership_def dest: find_Some_iff')
  obtain sc where sc: "handle_role_request h (Some user) (AssignRole slug (mb_id mb) (role_body ''owner'')) (?m2, s2) =
      assign_role h (mb_id mb) (role_body ''owner'') sc (?m2, s2)" "pc_org sc = org" "pc_permissions sc = ?ps"
    using assign [OF f2, of ?ps] ps(1) by auto
  have "fst (snd (assign_role h (mb_id ?mb) (role_body ''owner'') sc (?m2, s2)))
      = ?m2\<lparr>t_members := upd_where (\<lambda>r. mb_id r = mb_id ?mb) (\<lambda>r. r\<lparr>mb_role := ''owner''\<rparr>) (t_members ?m2)\<rparr>"
    by (rule assign_accepted [OF d2 mb2]) (use mb(2) ps(2) sc(2,3) in simp_all)
  moreover have "run_role_requests h (escalation h slug user (mb_id mb) s) (m, s)
      = snd (assign_role h (mb_id mb) (role_body ''owner'') sc (?m2, s2))"
    by (simp only: run_role_requests_def escalation_def fold.simps prod.case o_apply id_apply e1 e2 sc(1))
  ultimately show ?thesis using find_membership_assigned [OF f2(2), of "''owner''"] by simp
qed

lemma admin_becomes_owner_witness:
  "find_membership ''o1'' ''u3'' (fst (run_role_requests sample_host (escalation sample_host ''acme'' ''u3'' ''m3'' empty_cp)
     (sample_iam, empty_cp))) = Some \<lparr>mb_id = ''m3'', mb_organizationId = ''o1'', mb_userId = ''u3'', mb_role = ''owner''\<rparr>"
proof -
  let ?org = "\<lparr>og_id = ''o1'', og_name = ''Acme'', og_slug = ''acme''\<rparr>"
  let ?mb = "\<lparr>mb_id = ''m3'', mb_organizationId = ''o1'', mb_userId = ''u3'', mb_role = ''admin''\<rparr>"
  have "find_org ''acme'' sample_iam = Some ?org" "find_membership (og_id ?org) ''u3'' sample_iam = Some ?mb"
    "distinct (map mb_id (t_members sample_iam))" "t_roles sample_iam = []"
    by (simp_all add: sample_iam_def find_org_def find_membership_def)
  with admin_becomes_owner [of "''acme''" sample_iam ?org "''u3''" ?mb sample_host empty_cp] show ?thesis by simp
qed

end
