(* ===== verification/ApplicationRoutes.thy ===== *)
theory ApplicationRoutes
  imports Access RevisionProperties BuildProperties
begin

text \<open>
  The lifecycle routes of \<open>apps/api/src/routes/applications.routes.ts\<close>: the five actions on a deployment
  (\<open>runDeploymentAction\<close>) and stopping, archiving, restoring and deleting an application. A handler takes the organisation tables \<open>m\<close>, the signed-in user, the URL parameters, the
  address the audit log records and the control plane; \<open>Inl\<close> is an exception that leaves the handler.
\<close>

datatype deployment_action = Start | Stop | Restart | Rollback | Redeploy

definition permissionByAction :: "deployment_action \<Rightarrow> string" where
  "permissionByAction a = (case a of Start \<Rightarrow> ''deployments.start'' | Stop \<Rightarrow> ''deployments.stop''
     | Restart \<Rightarrow> ''deployments.restart'' | Rollback \<Rightarrow> ''deployments.rollback'' | Redeploy \<Rightarrow> ''deployments.redeploy'')"

definition action_str :: "deployment_action \<Rightarrow> string" where
  "action_str a = (case a of Start \<Rightarrow> ''start'' | Stop \<Rightarrow> ''stop'' | Restart \<Rightarrow> ''restart'' | Rollback \<Rightarrow> ''rollback''
     | Redeploy \<Rightarrow> ''redeploy'')"

definition action_title :: "deployment_action \<Rightarrow> string" where
  "action_title a = (case a of Start \<Rightarrow> ''Start'' | Stop \<Rightarrow> ''Stop'' | Restart \<Rightarrow> ''Restart'' | Rollback \<Rightarrow> ''Rollback''
     | Redeploy \<Rightarrow> ''Redeploy'')"

definition getProjectScope :: "iam \<Rightarrow> string option \<Rightarrow> string \<Rightarrow> string \<Rightarrow> project_access option" where
  "getProjectScope m session orgSlug projectId = resolveProjectAccess m session orgSlug projectId ''applications.read''"

definition recordAudit :: "host \<Rightarrow> string \<Rightarrow> string \<Rightarrow> string \<Rightarrow> string option \<Rightarrow> string \<Rightarrow> cp \<Rightarrow> cp" where
  "recordAudit h action targetId userId ip projectId s =
     (let (i, s1) = randomUUID h s in s1\<lparr>t_auditLogs := t_auditLogs s1 @
        [\<lparr>al_id = i, al_actorId = Some userId, al_action = action, al_targetType = ''application'',
          al_targetId = Some targetId, al_metadata = Some (JObj [(''projectId'', JStr projectId)]),
          al_ipAddress = ip, al_createdAt = clock s1\<rparr>]\<rparr>)"

definition applicationInScope :: "project_access \<Rightarrow> string \<Rightarrow> cp \<Rightarrow> application option" where
  "applicationInScope scope aid s =
     List.find (\<lambda>a. a_id a = aid \<and> a_projectId a = pj_id (pa_project scope)) (t_applications s)"

definition deploymentInScope :: "project_access \<Rightarrow> string \<Rightarrow> cp \<Rightarrow> deployment option" where
  "deploymentInScope scope did s =
     List.find (\<lambda>d. d_id d = did
         \<and> list_ex (\<lambda>a. a_id a = d_applicationId d \<and> a_projectId a = pj_id (pa_project scope)) (t_applications s))
       (t_deployments s)"

definition action_reply :: "string \<Rightarrow> string \<Rightarrow> response" where
  "action_reply did st = Reply 202 (JObj [(''deploymentId'', JStr did), (''status'', JStr st)])"

definition revision_action ::
  "host \<Rightarrow> (nat \<Rightarrow> cp \<Rightarrow> cp) \<Rightarrow> (nat \<Rightarrow> cp \<Rightarrow> cp) \<Rightarrow> project_access \<Rightarrow> string option \<Rightarrow> deployment_action \<Rightarrow> deployment \<Rightarrow> cp
     \<Rightarrow> (exn + response) \<times> cp" where
  "revision_action h rival vrival scope ip action d s =
     (case (if action = Rollback then createRollbackDeployment h rival (d_id d) (pa_userId scope) s
            else createRedeployment h rival (d_id d) (pa_userId scope) s) of
        (Inl e, s1) \<Rightarrow> (Inl e, s1)
      | (Inr created, s1) \<Rightarrow>
          (case reconcileDeployment h vrival (d_id created)
                  (supersedePreviousDeployments h (d_applicationId created) (d_id created) s1) of
             (Inl e, s2) \<Rightarrow> (Inl e, s2)
           | (Inr _, s2) \<Rightarrow>
               (Inr (Reply 202 (JObj [(''deploymentId'', JStr (d_id created)), (''revision'', JNum (of_int (d_version created))),
                  (''status'', JStr (deployment_status_str (d_status created))), (''sourceDeploymentId'', JStr (d_id d))])),
                recordAudit h (''deployment.'' @ action_str action) (d_id created) (pa_userId scope) ip
                  (pj_id (pa_project scope)) s2)))"

definition state_action ::
  "host \<Rightarrow> (nat \<Rightarrow> cp \<Rightarrow> cp) \<Rightarrow> project_access \<Rightarrow> string option \<Rightarrow> deployment_action \<Rightarrow> deployment \<Rightarrow> cp
     \<Rightarrow> (exn + response) \<times> cp" where
  "state_action h vrival scope ip action d s =
     (let s1 = update_deployments (\<lambda>e. d_id e = d_id d)
                 (\<lambda>e. e\<lparr>d_desiredState := (if action = Stop then WantStopped else WantRunning),
                        d_status := (if action = Stop then DepStopping else DepQueued), d_failureReason := None\<rparr>) s;
          s2 = log_event h (d_id d) (''deployment.'' @ action_str action @ ''_requested'')
                 (action_title action @ '' requested'') id s1
      in case (if action = Restart then restartDeploymentWorkloads h vrival (d_id d) s2
               else reconcileDeployment h vrival (d_id d) s2) of
           (Inl e, s3) \<Rightarrow> (Inl e, s3)
         | (Inr _, s3) \<Rightarrow>
             (Inr (action_reply (d_id d) (if action = Stop then ''stopping'' else ''queued'')),
              recordAudit h (''deployment.'' @ action_str action) (d_id d) (pa_userId scope) ip (pj_id (pa_project scope))
                (snd (refreshDeploymentStatus h (d_id d) s3))))"

definition runDeploymentAction ::
  "host \<Rightarrow> (nat \<Rightarrow> cp \<Rightarrow> cp) \<Rightarrow> (nat \<Rightarrow> cp \<Rightarrow> cp) \<Rightarrow> iam \<Rightarrow> string option \<Rightarrow> string \<Rightarrow> string \<Rightarrow> string \<Rightarrow> string option
     \<Rightarrow> deployment_action \<Rightarrow> cp \<Rightarrow> (exn + response) \<times> cp" where
  "runDeploymentAction h rival vrival m session orgSlug projectId did ip action s =
     (case getProjectScope m session orgSlug projectId of
        None \<Rightarrow> (Inr (Problem 404 ''Project not found or access denied''), s)
      | Some scope \<Rightarrow>
          if permissionByAction action \<notin> set (pa_permissions scope)
          then (Inr (Problem 403 (''Permission required: '' @ permissionByAction action)), s)
          else (case deploymentInScope scope did s of
                  None \<Rightarrow> (Inr (Problem 404 ''Deployment not found''), s)
                | Some d \<Rightarrow>
                    if action = Start \<and> d_status d = DepSuperseded
                    then (Inr (Problem 409 ''Superseded revisions cannot be started directly; use redeploy to create a new current revision''), s)
                    else if action = Rollback \<or> action = Redeploy then revision_action h rival vrival scope ip action d s
                    else state_action h vrival scope ip action d s))"

subsection \<open>Applications\<close>

definition stop_application ::
  "host \<Rightarrow> iam \<Rightarrow> string option \<Rightarrow> string \<Rightarrow> string \<Rightarrow> string \<Rightarrow> string option \<Rightarrow> cp \<Rightarrow> response \<times> cp" where
  "stop_application h m session orgSlug projectId aid ip s =
     (case getProjectScope m session orgSlug projectId of
        None \<Rightarrow> (Problem 404 ''Project not found or access denied'', s)
      | Some scope \<Rightarrow>
          if ''applications.update'' \<notin> set (pa_permissions scope)
          then (Problem 403 ''Permission required: applications.update'', s)
          else (case applicationInScope scope aid s of
                  None \<Rightarrow> (Problem 404 ''Application not found'', s)
                | Some app \<Rightarrow>
                    if truthy (a_containerName app)
                    then (Problem 409 ''This legacy application has a locally managed container and must be migrated before agent control is available.'', s)
                    else
                      (let s1 = update_applications (\<lambda>a. a_id a = a_id app) (\<lambda>a. a\<lparr>a_status := AppStopped\<rparr>)
                                  (stopApplicationWorkloads h (a_id app) s);
                           (i, s2) = randomUUID h s1;
                           s3 = s2\<lparr>t_appDeployments := t_appDeployments s2 @
                             [\<lparr>ad_id = i, ad_applicationId = a_id app, ad_actorId = Some (pa_userId scope), ad_action = ActStop,
                               ad_succeeded = True, ad_message = ''Stop commands queued for agent workloads'',
                               ad_createdAt = clock s2\<rparr>]\<rparr>
                       in (Reply 202 (JObj [(''status'', JStr ''stopping'')]),
                           recordAudit h ''application.stopped'' (a_id app) (pa_userId scope) ip (pj_id (pa_project scope)) s3))))"

definition set_archived ::
  "host \<Rightarrow> iam \<Rightarrow> string option \<Rightarrow> string \<Rightarrow> string \<Rightarrow> string \<Rightarrow> string option \<Rightarrow> bool \<Rightarrow> cp \<Rightarrow> response \<times> cp" where
  "set_archived h m session orgSlug projectId aid ip archive s =
     (case resolveProjectAccess m session orgSlug projectId ''applications.archive'' of
        None \<Rightarrow> (Problem 404 ''Project not found or access denied'', s)
      | Some scope \<Rightarrow>
          (case applicationInScope scope aid s of
             None \<Rightarrow> (Problem 404 ''Application not found'', s)
           | Some app \<Rightarrow>
               if (a_lifecycleStatus app = LifeArchived) = archive then (Reply 200 (JStr (a_id app)), s)
               else (Reply 200 (JStr (a_id app)),
                  recordAudit h (if archive then ''application.archived'' else ''application.restored'') (a_id app)
                    (pa_userId scope) ip (pj_id (pa_project scope))
                    (update_applications (\<lambda>a. a_id a = a_id app)
                      (\<lambda>a. a\<lparr>a_lifecycleStatus := (if archive then LifeArchived else LifeActive),
                             a_archivedAt := (if archive then Some (clock s) else None)\<rparr>) s))))"

definition application_workloads :: "string \<Rightarrow> cp \<Rightarrow> workload list" where
  "application_workloads aid s =
     filter (\<lambda>w. list_ex (\<lambda>d. d_id d = w_deploymentId w \<and> d_applicationId d = aid) (t_deployments s)) (t_workloads s)"

definition delete_application ::
  "host \<Rightarrow> iam \<Rightarrow> string option \<Rightarrow> string \<Rightarrow> string \<Rightarrow> string \<Rightarrow> string option \<Rightarrow> json \<Rightarrow> cp \<Rightarrow> response \<times> cp" where
  "delete_application h m session orgSlug projectId aid ip body s =
     (case getProjectScope m session orgSlug projectId of
        None \<Rightarrow> (Problem 404 ''Project not found or access denied'', s)
      | Some scope \<Rightarrow>
          if ''applications.delete'' \<notin> set (pa_permissions scope)
          then (Problem 403 ''Permission required: applications.delete'', s)
          else
            (let confirmation = Option.bind (z_object body) (\<lambda>j. Option.bind (z_req z_string ''name'' j)
                   (\<lambda>n. if trim_str n = [] then None else Some (trim_str n))) in
             case applicationInScope scope aid s of
               None \<Rightarrow> (Problem 404 ''Application not found'', s)
             | Some app \<Rightarrow>
                 if confirmation \<noteq> Some (a_name app)
                 then (Problem 400 ''Type the exact application name to confirm deletion'', s)
                 else if truthy (a_containerName app)
                 then (Problem 409 ''This legacy application has a locally managed container. Stop and migrate it to an agent-managed deployment before deletion.'', s)
                 else if list_ex (\<lambda>w. w_desiredState w = WantRunning) (application_workloads (a_id app) s)
                 then (Problem 409 ''Stop the application and wait for all agent workloads to stop before deletion.'', s)
                 else if list_ex (\<lambda>d. d_applicationId d = a_id app) (t_deployments s)
                       \<or> list_ex (\<lambda>b. b_applicationId b = a_id app) (t_builds s)
                       \<or> application_workloads (a_id app) s \<noteq> []
                 then (Problem 409 ''Application has dependent resources'', s)
                 else (NoContent,
                    recordAudit h ''application.deleted'' (a_id app) (pa_userId scope) ip (pj_id (pa_project scope))
                      (drop_application (a_id app) s))))"

subsection \<open>Facts\<close>

lemma find_filter_single: "filter P xs = [x] \<Longrightarrow> List.find P xs = Some x"
  by (induction xs) (auto split: if_splits)

lemma recordAudit_deployments [simp]: "t_deployments (recordAudit h a t u ip pid s) = t_deployments s"
  by (simp add: recordAudit_def randomUUID_def)

lemma in_scope: "deploymentInScope scope did s = Some d \<Longrightarrow> d_id d = did \<and> d \<in> set (t_deployments s)"
  by (auto simp: deploymentInScope_def dest: find_Some_iff')

lemma find_in_scope:
  assumes "distinct (map d_id (t_deployments s))" "d \<in> set (t_deployments s)"
  shows "find_deployment (d_id d) s = Some d"
  using find_conj_key [OF assms, of "\<lambda>_. True"] by (simp add: find_deployment_def)

lemma revision_action_state:
  assumes "(if action = Rollback then createRollbackDeployment h rival (d_id d) (pa_userId scope) s
            else createRedeployment h rival (d_id d) (pa_userId scope) s) = (Inr created, s1)"
  shows "t_deployments (snd (revision_action h rival vrival scope ip action d s))
    = t_deployments (snd (reconcileDeployment h vrival (d_id created)
        (supersedePreviousDeployments h (d_applicationId created) (d_id created) s1)))"
  unfolding revision_action_def assms by (simp split: prod.split sum.split)

lemma supersede_revisions:
  assumes "distinct (map d_id (t_deployments s))"
  shows "map revision (t_deployments (supersedePreviousDeployments h app cur s)) = map revision (t_deployments s)"
  unfolding supersede_rows [OF assms] by (rule map_upd_where_inv) (simp add: mark_superseded_def revision_def)

lemma keeps_revisions: "keeps s s' \<Longrightarrow> map revision (t_deployments s') = map revision (t_deployments s)"
  by (drule keeps_def [THEN iffD1], drule conjunct1, drule arg_cong [where f = "map fst"]) (simp add: intent_def comp_def)

text \<open>\<open>spares app\<close>: the wanted state and contents of every other application's revisions are as before.\<close>

definition spares :: "string \<Rightarrow> cp \<Rightarrow> cp \<Rightarrow> bool" where
  "spares app s s' \<longleftrightarrow> map intent (filter (\<lambda>e. d_applicationId e \<noteq> app) (t_deployments s'))
     = map intent (filter (\<lambda>e. d_applicationId e \<noteq> app) (t_deployments s))"

lemma spares_trans: "spares app s t \<Longrightarrow> spares app t u \<Longrightarrow> spares app s u"
  by (simp add: spares_def)

lemma spares_keeps: "keeps s s' \<Longrightarrow> spares app s s'"
proof -
  have w: "(\<lambda>e. d_applicationId e \<noteq> app) = (\<lambda>i. fst (snd (fst (fst i))) \<noteq> app) \<circ> intent"
    by (auto simp: intent_def revision_def)
  assume "keeps s s'"
  then show ?thesis by (auto simp: spares_def keeps_def w filter_map [symmetric] simp del: o_def)
qed

lemma filter_upd_where_same:
  "(\<And>x. x \<in> set xs \<Longrightarrow> P x \<Longrightarrow> \<not> Q x \<and> \<not> Q (f x)) \<Longrightarrow> filter Q (upd_where P f xs) = filter Q xs"
  by (induction xs) auto

lemma spares_update:
  assumes "\<And>e. e \<in> set (t_deployments s) \<Longrightarrow> P e \<Longrightarrow> d_applicationId e = app" "\<And>e. d_applicationId (f e) = d_applicationId e"
  shows "spares app s (update_deployments P f s)"
  using filter_upd_where_same [of "t_deployments s" P "\<lambda>e. d_applicationId e \<noteq> app" f] assms by (simp add: spares_def)

lemma spares_supersede:
  assumes "distinct (map d_id (t_deployments s))"
  shows "spares app s (supersedePreviousDeployments h app cur s)"
  unfolding spares_def supersede_rows [OF assms]
  by (subst filter_upd_where_same) (auto simp: mark_superseded_def)

lemma create_attempt_id:
  assumes "create_attempt h rival inp s = (Inr d, s')" "existing_for_build inp s = None"
  shows "d_id d = h_randomUUID h (uuid_next (rival s))"
  using assms by (auto simp: create_attempt_def Let_def randomUUID_def split: option.splits prod.splits sum.splits)

definition one_more :: "string \<Rightarrow> cp \<Rightarrow> cp \<Rightarrow> bool" where
  "one_more app s s' \<longleftrightarrow> t_deployments s' = t_deployments s
     \<or> (\<exists>d. t_deployments s' = t_deployments s @ [d] \<and> d_applicationId d = app \<and> d_id d \<notin> d_id ` set (t_deployments s))"

lemma create_attempts_rows:
  assumes "\<And>k t. t_deployments (rival k t) = t_deployments t" "rivals_ok h rival" "in_applicationId inp = app"
    and "fresh_ids h s"
  shows "one_more app s (snd (create_attempts n h rival inp s))"
  using assms(4)
proof (induction n arbitrary: s)
  case 0
  then show ?case by (simp add: one_more_def)
next
  case (Suc n)
  obtain x t where a: "create_attempt h (rival n) inp s = (x, t)" by (cases "create_attempt h (rival n) inp s")
  have fr: "fresh_ids h (rival n s)" using assms(2) Suc.prems by (simp add: rivals_ok_def)
  show ?case
  proof (cases x)
    case (Inl e)
    with create_attempt_error [of h "rival n" inp s e t] a fr assms(1)
    have t: "fresh_ids h t" "t_deployments t = t_deployments s" by auto
    from Suc.IH [OF t(1)] a Inl t(2) show ?thesis by (simp add: one_more_def)
  next
    case (Inr d)
    show ?thesis
    proof (cases "existing_for_build inp s")
      case None
      from create_attempt_created [OF _ None, of h "rival n" d t] create_attempt_id [OF _ None, of h "rival n" d t] a Inr
      have d: "t_deployments t = t_deployments s @ [d]" "d_applicationId d = app" "d_id d = h_randomUUID h (uuid_next (rival n s))"
        using assms(1,3) by auto
      have "d_id d \<notin> d_id ` set (t_deployments s)"
        using fr assms(1) [of n s] unfolding d(3) fresh_ids_def ids_in_use_def by auto
      with a Inr d(1,2) show ?thesis by (simp add: one_more_def)
    next
      case (Some e)
      then show ?thesis using a Inr by (simp add: create_attempt_def one_more_def)
    qed
  qed
qed

lemma createDeployment_rows:
  "(\<And>k t. t_deployments (rival k t) = t_deployments t) \<Longrightarrow> rivals_ok h rival \<Longrightarrow> fresh_ids h s
    \<Longrightarrow> one_more (in_applicationId inp) s (snd (createDeployment h rival inp s))"
  using create_attempts_rows [of rival h inp "in_applicationId inp" s 4]
  by (simp add: createDeployment_def one_more_def split: option.split)

definition build_owned :: "string \<Rightarrow> deployment_input \<Rightarrow> cp \<Rightarrow> bool" where
  "build_owned app inp s \<longleftrightarrow>
     list_all (\<lambda>e. in_buildId inp = None \<or> d_buildId e \<noteq> in_buildId inp \<or> d_applicationId e = app) (t_deployments s)"

lemma existing_app:
  assumes "existing_for_build inp s = Some e" "build_owned app inp s"
  shows "d_applicationId e = app"
  using existing_truthy [OF assms(1)] assms(2) by (auto simp: build_owned_def list_all_iff truthy_def)

lemma create_attempts_app:
  assumes "\<And>k t. t_deployments (rival k t) = t_deployments t" "rivals_ok h rival" "in_applicationId inp = app"
    and "fresh_ids h s" "build_owned app inp s" "create_attempts n h rival inp s = (Inr d, s')"
  shows "d_applicationId d = app"
  using assms(4-6)
proof (induction n arbitrary: s)
  case 0
  then show ?case by simp
next
  case (Suc n)
  obtain x t where a: "create_attempt h (rival n) inp s = (x, t)" by (cases "create_attempt h (rival n) inp s")
  have fr: "fresh_ids h (rival n s)" using assms(2) Suc.prems(1) by (simp add: rivals_ok_def)
  show ?case
  proof (cases x)
    case (Inl e)
    with create_attempt_error [of h "rival n" inp s e t] a fr assms(1)
    have t: "fresh_ids h t" "t_deployments t = t_deployments s" by auto
    have "create_attempts n h rival inp t = (Inr d, s')" using Suc.prems(3) a Inl by (auto split: if_splits)
    with Suc.IH [OF t(1)] t(2) Suc.prems(2) show ?thesis by (simp add: build_owned_def)
  next
    case (Inr e)
    with a Suc.prems(3) have e: "create_attempt h (rival n) inp s = (Inr d, s')" by simp
    show ?thesis
    proof (cases "existing_for_build inp s")
      case None
      from create_attempt_created [OF e None] assms(3) show ?thesis by simp
    next
      case (Some f)
      with e existing_app [OF Some Suc.prems(2)] show ?thesis by (simp add: create_attempt_def)
    qed
  qed
qed

lemma createDeployment_app:
  assumes "\<And>k t. t_deployments (rival k t) = t_deployments t" "rivals_ok h rival" "in_applicationId inp = app"
    and "fresh_ids h s" "build_owned app inp s" "createDeployment h rival inp s = (Inr d, s')"
  shows "d_applicationId d = app"
proof (cases "existing_for_build inp s")
  case None
  with assms(6) create_attempts_app [OF assms(1-5)] show ?thesis by (simp add: createDeployment_def)
next
  case (Some e)
  with assms(6) existing_app [OF Some assms(5)] show ?thesis by (simp add: createDeployment_def)
qed

lemma one_more_distinct: "one_more app s s' \<Longrightarrow> distinct (map d_id (t_deployments s)) \<Longrightarrow> distinct (map d_id (t_deployments s'))"
  by (auto simp: one_more_def)

lemma one_more_spares: "one_more app s s' \<Longrightarrow> spares app s s'"
  by (auto simp: one_more_def spares_def)

text \<open>What the two revision actions do to the deployment table, and which revision they return.\<close>

definition revision_input :: "bool \<Rightarrow> string \<Rightarrow> json \<Rightarrow> deployment \<Rightarrow> deployment_input" where
  "revision_input rollback actor snapshot d = \<lparr>in_applicationId = d_applicationId d, in_environmentId = d_environmentId d,
     in_image = d_image d, in_replicas = d_replicas d, in_desiredState = WantRunning, in_runtime = d_runtime d,
     in_requirements = d_requirements d, in_runtimeConfig = d_runtimeConfig d, in_configurationSnapshot = snapshot,
     in_buildId = (if rollback then d_buildId d else None), in_commitSha = d_commitSha d, in_createdBy = Some actor,
     in_rollbackFromDeploymentId = (if rollback then Some (d_id d) else None)\<rparr>"

lemma revision_cases:
  assumes "find_deployment (d_id d) s = Some d"
  obtains (create) snapshot where "(if action = Rollback then createRollbackDeployment h rival (d_id d) actor s
      else createRedeployment h rival (d_id d) actor s) = createDeployment h rival (revision_input (action = Rollback) actor snapshot d) s"
  | (throw) msg where "(if action = Rollback then createRollbackDeployment h rival (d_id d) actor s
      else createRedeployment h rival (d_id d) actor s) = (Inl (Js_error msg), s)"
proof (cases "\<exists>snapshot. d_configurationSnapshot d = Some snapshot \<and> is_object snapshot")
  case True
  then obtain snapshot where "d_configurationSnapshot d = Some snapshot" "is_object snapshot" by blast
  with assms create [of snapshot] show ?thesis
    by (simp add: createRollbackDeployment_def createRedeployment_def revision_input_def)
next
  case False
  show ?thesis
  proof (rule throw [of "if action = Rollback then ''Rollback source has no immutable configuration snapshot''
      else ''Deployment source has no immutable configuration snapshot''"])
    from False assms show "(if action = Rollback then createRollbackDeployment h rival (d_id d) actor s
      else createRedeployment h rival (d_id d) actor s) = (Inl (Js_error (if action = Rollback
        then ''Rollback source has no immutable configuration snapshot''
        else ''Deployment source has no immutable configuration snapshot'')), s)"
      by (simp add: createRollbackDeployment_def createRedeployment_def split: option.split)
  qed
qed

lemma spares_revision_action:
  assumes "\<And>k t. t_deployments (rival k t) = t_deployments t" "rivals_ok h rival" "fresh_ids h s"
    and "distinct (map d_id (t_deployments s))" "d \<in> set (t_deployments s)"
    and "list_all (\<lambda>e. d_buildId e = None \<or> d_buildId e \<noteq> d_buildId d \<or> d_applicationId e = d_applicationId d) (t_deployments s)"
    and "\<And>ids. volume_rivals ids vrival"
  shows "spares (d_applicationId d) s (snd (revision_action h rival vrival scope ip action d s))"
proof (rule revision_cases [OF find_in_scope [OF assms(4,5)], of action h rival "pa_userId scope"])
  fix msg assume "(if action = Rollback then createRollbackDeployment h rival (d_id d) (pa_userId scope) s
      else createRedeployment h rival (d_id d) (pa_userId scope) s) = (Inl (Js_error msg), s)"
  then show ?thesis by (simp only: revision_action_def prod.case sum.case snd_conv) (simp add: spares_def)
next
  fix snapshot
  let ?inp = "revision_input (action = Rollback) (pa_userId scope) snapshot d" and ?app = "d_applicationId d"
  assume c: "(if action = Rollback then createRollbackDeployment h rival (d_id d) (pa_userId scope) s
      else createRedeployment h rival (d_id d) (pa_userId scope) s) = createDeployment h rival ?inp s"
  have inp: "in_applicationId ?inp = ?app" by (simp add: revision_input_def)
  have own: "build_owned ?app ?inp s" using assms(6) by (auto simp: build_owned_def revision_input_def list_all_iff)
  obtain x s1 where x: "createDeployment h rival ?inp s = (x, s1)" by (cases "createDeployment h rival ?inp s")
  have one: "one_more ?app s s1" using createDeployment_rows [OF assms(1-3), of ?inp] x inp by simp
  note sp = one_more_spares [OF one]
  show ?thesis
  proof (cases x)
    case (Inl e)
    show ?thesis unfolding revision_action_def c x Inl using sp by simp
  next
    case (Inr e)
    have app: "d_applicationId e = ?app" using createDeployment_app [OF assms(1,2) inp assms(3) own] x Inr by simp
    let ?s2 = "supersedePreviousDeployments h (d_applicationId e) (d_id e) s1"
    have "spares ?app s1 ?s2" unfolding app by (rule spares_supersede [OF one_more_distinct [OF one assms(4)]])
    moreover have "spares ?app ?s2 (snd (reconcileDeployment h vrival (d_id e) ?s2))"
      by (rule spares_keeps [OF keeps_reconcileDeployment [OF assms(7)]])
    ultimately have "spares ?app s (snd (reconcileDeployment h vrival (d_id e) ?s2))" using sp spares_trans by blast
    with revision_action_state [of action h rival d scope s e s1 vrival ip] c x Inr show ?thesis by (simp add: spares_def)
  qed
qed

lemma spares_state_action:
  assumes "distinct (map d_id (t_deployments s))" "d \<in> set (t_deployments s)" "\<And>ids. volume_rivals ids vrival"
  shows "spares (d_applicationId d) s (snd (state_action h vrival scope ip action d s))"
proof -
  let ?app = "d_applicationId d"
  define s1 where "s1 = update_deployments (\<lambda>e. d_id e = d_id d)
                 (\<lambda>e. e\<lparr>d_desiredState := (if action = Stop then WantStopped else WantRunning),
                        d_status := (if action = Stop then DepStopping else DepQueued), d_failureReason := None\<rparr>) s"
  define s2 where "s2 = log_event h (d_id d) (''deployment.'' @ action_str action @ ''_requested'')
                 (action_title action @ '' requested'') id s1"
  define r where "r = (if action = Restart then restartDeploymentWorkloads h vrival (d_id d) s2
               else reconcileDeployment h vrival (d_id d) s2)"
  have "spares ?app s s1" unfolding s1_def
    by (rule spares_update) (use keyed_unique [OF assms(1) _ assms(2)] in auto)
  moreover have "spares ?app s1 s2" unfolding s2_def by (rule spares_keeps) simp
  moreover have "keeps s2 (snd r)"
    unfolding r_def restartDeploymentWorkloads_def
    using keeps_reconcileDeployment [OF assms(3)] keeps_trans [OF keeps_request_all keeps_reconcileDeployment [OF assms(3)]]
    by simp
  then have "spares ?app s2 (snd r)" "spares ?app s2 (snd (refreshDeploymentStatus h (d_id d) (snd r)))"
    using keeps_trans [OF _ keeps_refresh] spares_keeps by blast+
  ultimately have "spares ?app s (snd r)" "spares ?app s (snd (refreshDeploymentStatus h (d_id d) (snd r)))"
    using spares_trans by blast+
  moreover have "t_deployments (snd (state_action h vrival scope ip action d s))
      \<in> {t_deployments (snd r), t_deployments (snd (refreshDeploymentStatus h (d_id d) (snd r)))}"
    unfolding state_action_def Let_def s1_def [symmetric] s2_def [symmetric] r_def [symmetric]
    by (simp split: prod.split sum.split)
  ultimately show ?thesis by (auto simp: spares_def)
qed

lemma stop_one_deployments:
  "t_deployments (stop_one h d s) = upd_where (\<lambda>e. d_id e = d_id d) (\<lambda>e. e\<lparr>d_desiredState := WantStopped\<rparr>) (t_deployments s)"
  by (simp add: stop_one_def Let_def)

lemma stop_fold:
  "t_deployments (fold (stop_one h) ds s)
     = upd_where (\<lambda>e. d_id e \<in> d_id ` set ds) (\<lambda>e. e\<lparr>d_desiredState := WantStopped\<rparr>) (t_deployments s)"
proof (induction ds arbitrary: s)
  case Nil
  then show ?case by (simp add: upd_where_cong_none)
next
  case (Cons d ds)
  show ?case by (auto simp: Cons.IH stop_one_deployments upd_where_def)
qed

lemma stop_workloads_rows:
  assumes "distinct (map d_id (t_deployments s))"
  shows "filter (wanted app) (t_deployments (stopApplicationWorkloads h app s)) = []"
    and "spares app s (stopApplicationWorkloads h app s)"
proof -
  let ?ds = "filter (\<lambda>d. d_applicationId d = app) (t_deployments s)"
  have mem: "d_id e \<in> d_id ` set ?ds \<longleftrightarrow> d_applicationId e = app" if "e \<in> set (t_deployments s)" for e
    using keyed_unique [OF assms] that by auto
  have eq: "t_deployments (stopApplicationWorkloads h app s)
      = upd_where (\<lambda>e. d_applicationId e = app) (\<lambda>e. e\<lparr>d_desiredState := WantStopped\<rparr>) (t_deployments s)"
    unfolding stopApplicationWorkloads_def stop_fold unfolding upd_where_def using mem by (intro map_cong) auto
  show "filter (wanted app) (t_deployments (stopApplicationWorkloads h app s)) = []"
    unfolding eq by (rule filter_upd_where_none) (auto simp: wanted_def)
  show "spares app s (stopApplicationWorkloads h app s)"
    unfolding spares_def eq by (subst filter_upd_where_same) auto
qed

lemma recordAudit_applications [simp]: "t_applications (recordAudit h a t u ip pid s) = t_applications s"
  by (simp add: recordAudit_def randomUUID_def)

lemma app_in_scope: "applicationInScope scope aid s = Some app \<Longrightarrow> a_id app = aid \<and> app \<in> set (t_applications s)"
  by (auto simp: applicationInScope_def dest: find_Some_iff')

lemma find_upd_where_inv:
  "(\<And>x. Q (f x) = Q x) \<Longrightarrow> List.find Q (upd_where P f xs) = map_option (\<lambda>x. if P x then f x else x) (List.find Q xs)"
  by (induction xs) auto

lemma stop_application_cases:
  "snd (stop_application h m session orgSlug projectId aid ip s) = s
    \<or> t_deployments (snd (stop_application h m session orgSlug projectId aid ip s))
        = t_deployments (stopApplicationWorkloads h aid s)"
proof (cases "getProjectScope m session orgSlug projectId")
  case None
  then show ?thesis by (simp add: stop_application_def)
next
  case scope: (Some scope)
  show ?thesis
  proof (cases "applicationInScope scope aid s")
    case None
    with scope show ?thesis by (simp add: stop_application_def)
  next
    case (Some app)
    from app_in_scope [OF Some] have "a_id app = aid" by simp
    with scope Some show ?thesis
      by (simp add: stop_application_def Let_def randomUUID_def update_applications_def)
  qed
qed

lemma set_archived_twice:
  "t_applications (snd (set_archived h m session orgSlug projectId aid ip archive
      (snd (set_archived h m session orgSlug projectId aid ip archive s))))
    = t_applications (snd (set_archived h m session orgSlug projectId aid ip archive s))"
proof (cases "resolveProjectAccess m session orgSlug projectId ''applications.archive''")
  case None
  then show ?thesis by (simp add: set_archived_def)
next
  case scope: (Some scope)
  show ?thesis
  proof (cases "applicationInScope scope aid s")
    case None
    with scope show ?thesis by (simp add: set_archived_def)
  next
    case app: (Some app)
    show ?thesis
    proof (cases "(a_lifecycleStatus app = LifeArchived) = archive")
      case True
      with scope app show ?thesis by (simp add: set_archived_def)
    next
      case False
      let ?f = "\<lambda>a. a\<lparr>a_lifecycleStatus := (if archive then LifeArchived else LifeActive),
          a_archivedAt := (if archive then Some (clock s) else None), a_updatedAt := clock s\<rparr>"
      define s1 where "s1 = snd (set_archived h m session orgSlug projectId aid ip archive s)"
      have t: "t_applications s1 = upd_where (\<lambda>a. a_id a = a_id app) ?f (t_applications s)"
        using scope app False by (simp add: s1_def set_archived_def update_applications_def)
      have "applicationInScope scope aid s1 = Some (?f app)"
        using app unfolding applicationInScope_def t by (subst find_upd_where_inv) simp_all
      then have "snd (set_archived h m session orgSlug projectId aid ip archive s1) = s1"
        using scope by (simp add: set_archived_def)
      then show ?thesis by (simp add: s1_def)
    qed
  qed
qed

lemma delete_application_cases:
  "snd (delete_application h m session orgSlug projectId aid ip body s) = s
    \<or> filter (\<lambda>d. d_applicationId d = aid) (t_deployments s) = [] \<and> filter (\<lambda>b. b_applicationId b = aid) (t_builds s) = []
        \<and> application_workloads aid s = []
        \<and> list_ex (\<lambda>a. a_id a = aid \<and> map_option trim_str (Option.bind (jget ''name'' body) z_string) = Some (a_name a)) (t_applications s)
        \<and> t_applications (snd (delete_application h m session orgSlug projectId aid ip body s))
          = del_where (\<lambda>a. a_id a = aid) (t_applications s)"
proof (cases "getProjectScope m session orgSlug projectId")
  case None
  then show ?thesis by (simp add: delete_application_def)
next
  case scope: (Some scope)
  show ?thesis
  proof (cases "applicationInScope scope aid s")
    case None
    with scope show ?thesis by (simp add: delete_application_def)
  next
    case (Some app)
    let ?conf = "Option.bind (z_object body) (\<lambda>j. Option.bind (z_req z_string ''name'' j)
                   (\<lambda>n. if trim_str n = [] then None else Some (trim_str n)))"
    have app: "a_id app = aid" "app \<in> set (t_applications s)" using app_in_scope [OF Some] by simp_all
    have name: "map_option trim_str (Option.bind (jget ''name'' body) z_string) = Some (a_name app)" if "?conf = Some (a_name app)"
      using that by (cases body) (auto simp: z_req_def split: option.splits if_splits bind_splits)
    show ?thesis
    proof (cases "?conf = Some (a_name app)")
      case False
      with scope Some show ?thesis by (simp add: delete_application_def)
    next
      case True
      have "list_ex (\<lambda>a. a_id a = aid \<and> map_option trim_str (Option.bind (jget ''name'' body) z_string) = Some (a_name a)) (t_applications s)"
        using app name [OF True] by (auto simp: list_ex_iff)
      with scope Some app(1) show ?thesis
        by (simp add: delete_application_def filter_empty_conv list_ex_iff)
    qed
  qed
qed

subsection \<open>Properties\<close>

text \<open>Rolling back to a superseded revision that a build created takes the application out of service: the
  unique build of the revision makes the service hand back that old revision instead of creating a new
  one, and superseding everything else leaves no revision of the application that is wanted.\<close>

theorem rollback_of_build_stops:
  assumes "getProjectScope m session orgSlug projectId = Some scope" "''deployments.rollback'' \<in> set (pa_permissions scope)"
    and "deploymentInScope scope did s = Some d" "distinct (map d_id (t_deployments s))"
    and "d_configurationSnapshot d = Some snapshot" "is_object snapshot"
    and "truthy (d_buildId d)" "filter (\<lambda>e. d_buildId e = d_buildId d) (t_deployments s) = [d]"
    and "d_desiredState d \<noteq> WantRunning" "\<And>ids. volume_rivals ids vrival"
    and "s' = snd (runDeploymentAction h rival vrival m session orgSlug projectId did ip Rollback s)"
  shows "filter (wanted (d_applicationId d)) (t_deployments s') = []
    \<and> map revision (t_deployments s') = map revision (t_deployments s)"
proof -
  let ?s1 = "supersedePreviousDeployments h (d_applicationId d) (d_id d) s"
  let ?s2 = "snd (reconcileDeployment h vrival (d_id d) ?s1)"
  have d: "d_id d = did" "d \<in> set (t_deployments s)" using in_scope [OF assms(3)] by simp_all
  have "createRollbackDeployment h rival (d_id d) (pa_userId scope) s = (Inr d, s)"
    using find_in_scope [OF assms(4) d(2)] find_filter_single [OF assms(8)] assms(5-7)
    by (simp add: createRollbackDeployment_def createDeployment_def existing_for_build_def)
  then have "t_deployments (snd (revision_action h rival vrival scope ip Rollback d s)) = t_deployments ?s2"
    by (intro revision_action_state) simp
  then have s': "t_deployments s' = t_deployments ?s2"
    by (simp add: assms(11) runDeploymentAction_def assms(1-3) permissionByAction_def)
  have k: "keeps ?s1 ?s2" by (rule keeps_reconcileDeployment [OF assms(10)])
  have "e = d" if "e \<in> set (t_deployments s)" "d_id e = d_id d" for e
    using keyed_unique [OF assms(4) that(1) d(2) that(2)] .
  then have "filter (wanted (d_applicationId d)) (t_deployments ?s1) = []"
    unfolding supersede_rows [OF assms(4)] using assms(9)
    by (intro filter_upd_where_none) (auto simp: wanted_def mark_superseded_def)
  from keeps_wanted [OF k this] keeps_revisions [OF k] supersede_revisions [OF assms(4)] show ?thesis
    by (simp add: s')
qed

text \<open>Redeploying, and rolling back to a revision that no build created, puts a copy of the source revision
  into operation: it is the only wanted revision of the application, it has the next version and the
  source's image, replicas, requirements and runtime configuration.\<close>

theorem redeploy_becomes_current:
  assumes "getProjectScope m session orgSlug projectId = Some scope" "permissionByAction action \<in> set (pa_permissions scope)"
    and "deploymentInScope scope did s = Some d" "distinct (map d_id (t_deployments s))"
    and "d_configurationSnapshot d = Some snapshot" "is_object snapshot"
    and "action = Redeploy \<or> action = Rollback \<and> d_buildId d = None"
    and "distinct (map mm_mountPath (managedVolumeMounts (d_runtimeConfig d)))"
    and "fresh_ids h s" "\<And>ids. volume_rivals ids vrival"
    and "s' = snd (runDeploymentAction h (\<lambda>_ s. s) vrival m session orgSlug projectId did ip action s)"
  shows "\<exists>d'. filter (wanted (d_applicationId d)) (t_deployments s') = [d']
    \<and> d_version d' = latest_version (d_applicationId d) (t_deployments s) + 1 \<and> d_image d' = d_image d
    \<and> d_replicas d' = d_replicas d \<and> d_runtimeConfig d' = d_runtimeConfig d
    \<and> d_rollbackFromDeploymentId d' = (if action = Rollback then Some did else None)"
proof -
  have d: "d_id d = did" "d \<in> set (t_deployments s)" using in_scope [OF assms(3)] by simp_all
  define inp where "inp = \<lparr>in_applicationId = d_applicationId d, in_environmentId = d_environmentId d,
                    in_image = d_image d, in_replicas = d_replicas d,
                    in_desiredState = WantRunning, in_runtime = d_runtime d,
                    in_requirements = d_requirements d, in_runtimeConfig = d_runtimeConfig d,
                    in_configurationSnapshot = snapshot, in_buildId = None,
                    in_commitSha = d_commitSha d, in_createdBy = Some (pa_userId scope),
                    in_rollbackFromDeploymentId = (if action = Rollback then Some (d_id d) else None)\<rparr>"
  have inp: "in_applicationId inp = d_applicationId d" "in_buildId inp = None" "in_desiredState inp = WantRunning"
    by (simp_all add: inp_def)
  have none: "existing_for_build inp s = None" by (simp add: existing_for_build_def inp truthy_def)
  have mounts: "distinct (map mm_mountPath (managedVolumeMounts (in_runtimeConfig inp)))"
    using assms(8) by (simp add: inp_def)
  obtain e s1 where c: "createDeployment h (\<lambda>_ s. s) inp s = (Inr e, s1)" "t_deployments s1 = t_deployments s @ [e]"
    and e: "e = new_deployment s (h_randomUUID h (uuid_next s)) (latest_version (d_applicationId d) (t_deployments s) + 1) inp"
    using createDeployment_quiet [OF assms(9) none _ mounts] by (auto simp: inp)
  have create: "(if action = Rollback then createRollbackDeployment h (\<lambda>_ s. s) (d_id d) (pa_userId scope) s
            else createRedeployment h (\<lambda>_ s. s) (d_id d) (pa_userId scope) s) = (Inr e, s1)"
    using find_in_scope [OF assms(4) d(2)] assms(5,6,7) c(1)
    by (auto simp: createRollbackDeployment_def createRedeployment_def inp_def)
  let ?s2 = "supersedePreviousDeployments h (d_applicationId e) (d_id e) s1"
  have "d_id e \<notin> d_id ` set (t_deployments s)" using assms(9) by (auto simp: e fresh_ids_def ids_in_use_def)
  from supersede_wanted [OF assms(4) this c(2), of "d_applicationId e"]
  have w: "filter (wanted (d_applicationId e)) (t_deployments ?s2) = [e]" by (simp add: wanted_def e inp)
  have "t_deployments s' = t_deployments (snd (reconcileDeployment h vrival (d_id e) ?s2))"
    using revision_action_state [OF create, of vrival ip] assms(1-3,7)
    by (auto simp: assms(11) runDeploymentAction_def)
  with keeps_wanted [OF keeps_reconcileDeployment [OF assms(10)] w]
  have "map intent (filter (wanted (d_applicationId e)) (t_deployments s')) = [intent e]" by simp
  then obtain d' where "filter (wanted (d_applicationId e)) (t_deployments s') = [d']" "intent d' = intent e" by auto
  then show ?thesis
    by (auto simp: intent_def revision_def e new_deployment_def inp_def d(1))
qed


text \<open>Deployment actions stay within their application: whatever the action, the caller and the outcome, the
  control plane is unchanged unless the caller holds the permission of the action and the deployment
  belongs to the project; and then the revisions of every other application are untouched, in their
  contents and in whether they are wanted.\<close>

theorem actions_isolated:
  assumes "\<And>k t. t_deployments (rival k t) = t_deployments t" "rivals_ok h rival" "fresh_ids h s"
    and "distinct (map d_id (t_deployments s))" "\<And>ids. volume_rivals ids vrival"
    and "list_all (\<lambda>d. list_all (\<lambda>e. d_buildId e = None \<or> d_buildId e \<noteq> d_buildId d \<or> e = d) (t_deployments s)) (t_deployments s)"
    and "s' = snd (runDeploymentAction h rival vrival m session orgSlug projectId did ip action s)"
  shows "s' = s \<or> (\<exists>scope d. getProjectScope m session orgSlug projectId = Some scope
    \<and> permissionByAction action \<in> set (pa_permissions scope) \<and> deploymentInScope scope did s = Some d
    \<and> spares (d_applicationId d) s s')"
proof (cases "getProjectScope m session orgSlug projectId")
  case None
  then show ?thesis by (simp add: assms(7) runDeploymentAction_def)
next
  case scope: (Some scope)
  show ?thesis
  proof (cases "permissionByAction action \<in> set (pa_permissions scope)")
    case False
    with scope show ?thesis by (simp add: assms(7) runDeploymentAction_def)
  next
    case perm: True
    show ?thesis
    proof (cases "deploymentInScope scope did s")
      case None
      with scope perm show ?thesis by (simp add: assms(7) runDeploymentAction_def)
    next
      case (Some d)
      note d = in_scope [OF Some, THEN conjunct2]
      have own: "list_all (\<lambda>e. d_buildId e = None \<or> d_buildId e \<noteq> d_buildId d \<or> d_applicationId e = d_applicationId d) (t_deployments s)"
        using assms(6) d by (auto simp: list_all_iff)
      have "s' \<in> {s, snd (revision_action h rival vrival scope ip action d s), snd (state_action h vrival scope ip action d s)}"
        using scope perm Some by (simp add: assms(7) runDeploymentAction_def)
      then show ?thesis
        using scope perm Some spares_revision_action [OF assms(1-4) d own assms(5)] spares_state_action [OF assms(4) d assms(5)]
        by auto
    qed
  qed
qed

text \<open>The application routes are safe: stopping an application changes nothing or leaves none of its revisions
  wanted and those of other applications untouched; deleting one removes no application row unless the
  caller typed its name and it has no deployment, build or workload, and then removes exactly its row; and
  archiving or restoring twice is the same as once.\<close>

theorem application_routes_safe:
  assumes "distinct (map d_id (t_deployments s))"
  shows "(snd (stop_application h m session orgSlug projectId aid ip s) = s
      \<or> filter (wanted aid) (t_deployments (snd (stop_application h m session orgSlug projectId aid ip s))) = []
        \<and> spares aid s (snd (stop_application h m session orgSlug projectId aid ip s)))
    \<and> (snd (delete_application h m session orgSlug projectId aid ip body s) = s
      \<or> filter (\<lambda>d. d_applicationId d = aid) (t_deployments s) = [] \<and> filter (\<lambda>b. b_applicationId b = aid) (t_builds s) = []
        \<and> application_workloads aid s = []
        \<and> list_ex (\<lambda>a. a_id a = aid \<and> map_option trim_str (Option.bind (jget ''name'' body) z_string) = Some (a_name a)) (t_applications s)
        \<and> t_applications (snd (delete_application h m session orgSlug projectId aid ip body s))
          = del_where (\<lambda>a. a_id a = aid) (t_applications s))
    \<and> t_applications (snd (set_archived h m session orgSlug projectId aid ip archive
          (snd (set_archived h m session orgSlug projectId aid ip archive s))))
      = t_applications (snd (set_archived h m session orgSlug projectId aid ip archive s))"
  using stop_application_cases [of h m session orgSlug projectId aid ip s] stop_workloads_rows [OF assms, of aid h]
    delete_application_cases set_archived_twice
  by (auto simp: spares_def)

subsection \<open>Witnesses\<close>

definition sample_deployed :: cp where
  "sample_deployed = sample_created\<lparr>t_applications := [\<lparr>a_id = ''app'', a_organizationId = ''o1'', a_projectId = ''p2'',
     a_name = ''App'', a_slug = ''app'', a_description = None, a_sourceType = SrcGit, a_gitUrl = None, a_imageName = None,
     a_containerName = None, a_internalPort = 3000, a_branch = ''main'', a_repositoryProvider = ''generic'',
     a_rootDirectory = ''.'', a_buildConfiguration = JObj [], a_autoDeployEnabled = False, a_gitCredentialReference = None,
     a_registryCredentialReference = None, a_lastKnownCommit = None, a_lifecycleStatus = LifeActive, a_archivedAt = None,
     a_applicationType = AppCustom, a_defaultEnvironmentId = None, a_status = AppHealthy, a_createdAt = 0, a_updatedAt = 0\<rparr>],
     t_deployments := [mark_superseded (hd (t_deployments sample_created)),
       (hd (t_deployments sample_created))\<lparr>d_id := ''live'', d_version := 2, d_buildId := None\<rparr>]\<rparr>"

definition sample_scope :: project_access where
  "sample_scope = the (getProjectScope sample_iam (Some ''u1'') ''acme'' ''p2'')"

lemma sample_scope_facts:
  "getProjectScope sample_iam (Some ''u1'') ''acme'' ''p2'' = Some sample_scope"
  "permissionByAction Redeploy \<in> set (pa_permissions sample_scope)"
  "''deployments.rollback'' \<in> set (pa_permissions sample_scope)"
  by code_simp+

lemma sample_deployed_facts:
  "deploymentInScope sample_scope ''id-0'' sample_deployed = Some (hd (t_deployments sample_deployed))"
  "distinct (map d_id (t_deployments sample_deployed))"
  "d_configurationSnapshot (hd (t_deployments sample_deployed)) = Some (JObj [])"
  "truthy (d_buildId (hd (t_deployments sample_deployed)))"
  "d_desiredState (hd (t_deployments sample_deployed)) \<noteq> WantRunning"
  "d_applicationId (hd (t_deployments sample_deployed)) = ''app''"
  "uuid_next sample_deployed = 2"
  by code_simp+


lemma sample_deployed_fresh: "fresh_ids sample_host sample_deployed"
proof -
  have t: "map d_id (t_deployments sample_deployed) = [''id-0'', ''live'']" "t_workloads sample_deployed = []"
    "t_commands sample_deployed = []" "t_volumeMounts sample_deployed = []" "t_reservations sample_deployed = []"
    by code_simp+
  have "d_id ` set (t_deployments sample_deployed) = {''id-0'', ''live''}"
    using arg_cong [OF t(1), of set] by simp
  then have "ids_in_use sample_deployed = {''id-0'', ''live''}" using t by (simp add: ids_in_use_def)
  moreover have "''id-0'' = h_randomUUID sample_host 0" by code_simp
  ultimately show ?thesis
    using sample_host_inj by (auto simp: fresh_ids_def sample_deployed_facts(7) dest: injD) (simp add: sample_host_def)
qed

lemma rollback_of_build_stops_witness:
  "filter (wanted ''app'') (t_deployments (snd (runDeploymentAction sample_host (\<lambda>_ s. s) (\<lambda>_ s. s) sample_iam (Some ''u1'')
     ''acme'' ''p2'' ''id-0'' None Rollback sample_deployed))) = []"
proof -
  have 1: "is_object (JObj [])" by simp
  have 2: "filter (\<lambda>e. d_buildId e = d_buildId (hd (t_deployments sample_deployed))) (t_deployments sample_deployed)
      = [hd (t_deployments sample_deployed)]"
    by (simp add: sample_deployed_def sample_created_deployments mark_superseded_def new_deployment_def sample_input_def)
  have 3: "volume_rivals ids (\<lambda>_ s. s)" for ids by (simp add: volume_rivals_def)
  show ?thesis
    using rollback_of_build_stops [OF sample_scope_facts(1,3) sample_deployed_facts(1,2,3) 1 sample_deployed_facts(4) 2
        sample_deployed_facts(5) 3 refl, of sample_host "\<lambda>_ s. s" None] by (simp add: sample_deployed_facts(6))
qed

lemma redeploy_becomes_current_witness:
  "\<exists>d. filter (wanted ''app'') (t_deployments (snd (runDeploymentAction sample_host (\<lambda>_ s. s) (\<lambda>_ s. s) sample_iam (Some ''u1'')
     ''acme'' ''p2'' ''id-0'' None Redeploy sample_deployed))) = [d] \<and> d_version d = 3"
proof -
  have 1: "is_object (JObj [])" by simp
  have 2: "volume_rivals ids (\<lambda>_ s. s)" for ids by (simp add: volume_rivals_def)
  have 3: "distinct (map mm_mountPath (managedVolumeMounts (d_runtimeConfig (hd (t_deployments sample_deployed)))))" by code_simp
  have 4: "latest_version ''app'' (t_deployments sample_deployed) = 2" by code_simp
  show ?thesis
    using redeploy_becomes_current [OF sample_scope_facts(1,2) sample_deployed_facts(1,2,3) 1 _ 3 sample_deployed_fresh 2 refl,
        of None] by (auto simp: sample_deployed_facts(6) 4)
qed

lemma actions_isolated_witness:
  "snd (runDeploymentAction sample_host (\<lambda>_ s. s) (\<lambda>_ s. s) sample_iam (Some ''u9'') ''acme'' ''p2'' ''id-0'' None Stop sample_deployed)
   = sample_deployed"
proof -
  have 1: "volume_rivals ids (\<lambda>_ s. s)" for ids by (simp add: volume_rivals_def)
  have 2: "rivals_ok sample_host (\<lambda>_ s. s)" by (simp add: rivals_ok_def)
  have 3: "list_all (\<lambda>d. list_all (\<lambda>e. d_buildId e = None \<or> d_buildId e \<noteq> d_buildId d \<or> e = d) (t_deployments sample_deployed))
      (t_deployments sample_deployed)"
    by (simp add: sample_deployed_def sample_created_deployments mark_superseded_def new_deployment_def sample_input_def)
  have 4: "getProjectScope sample_iam (Some ''u9'') ''acme'' ''p2'' = None" by code_simp
  show ?thesis
    using actions_isolated [where h = sample_host and rival = "\<lambda>_ s. s" and vrival = "\<lambda>_ s. s" and m = sample_iam
        and session = "Some ''u9''" and orgSlug = "''acme''" and projectId = "''p2''" and did = "''id-0''" and ip = None
        and action = Stop, OF refl 2 sample_deployed_fresh sample_deployed_facts(2) 1 3 refl] 4 by simp
qed


lemma application_routes_safe_witness:
  "filter (wanted ''app'') (t_deployments (snd (stop_application sample_host sample_iam (Some ''u1'') ''acme'' ''p2'' ''app'' None
     sample_deployed))) = []"
proof -
  have "snd (stop_application sample_host sample_iam (Some ''u1'') ''acme'' ''p2'' ''app'' None sample_deployed) \<noteq> sample_deployed"
  proof
    assume "snd (stop_application sample_host sample_iam (Some ''u1'') ''acme'' ''p2'' ''app'' None sample_deployed) = sample_deployed"
    then have "map al_action (t_auditLogs (snd (stop_application sample_host sample_iam (Some ''u1'') ''acme'' ''p2'' ''app'' None
        sample_deployed))) = map al_action (t_auditLogs sample_deployed)" by simp
    moreover have "map al_action (t_auditLogs (snd (stop_application sample_host sample_iam (Some ''u1'') ''acme'' ''p2'' ''app'' None
        sample_deployed))) = [''application.stopped'']" "map al_action (t_auditLogs sample_deployed) = []" by code_simp+
    ultimately show False by simp
  qed
  with application_routes_safe [OF sample_deployed_facts(2)] show ?thesis by blast
qed

end
