(* ===== verification/SafeAddress.thy ===== *)
theory SafeAddress
  imports ReconcileProperties
begin

text \<open>
  \<open>apps/api/src/features/routing/safe-address.ts\<close> and \<open>workload-upstreams.ts\<close>: the check every address an
  operator or an agent advertises has to pass, and the upstreams of a public domain. An exception is \<open>Inl\<close>
  with its message. Whether the URL parser takes \<open>http://[address]\<close> with a host is the argument \<open>v6\<close>.
\<close>

subsection \<open>Addresses\<close>

definition ipv4_octet :: "string \<Rightarrow> bool" where
  "ipv4_octet s \<longleftrightarrow> list_all is_digit s
     \<and> (length s = 1 \<or> length s = 2 \<or> length s = 3 \<and> 100 \<le> digits_value s \<and> digits_value s \<le> 255)"

definition ipv4 :: "string \<Rightarrow> bool" where
  "ipv4 s \<longleftrightarrow> length (split_on CHR ''.'' s) = 4 \<and> list_all ipv4_octet (split_on CHR ''.'' s)"

definition isUnsafeIpv4 :: "string \<Rightarrow> bool" where
  "isUnsafeIpv4 s =
     (case map digits_value (split_on CHR ''.'' s) of
        first # second # _ \<Rightarrow> first = 0 \<or> first = 127 \<or> first \<ge> 224 \<or> (first = 169 \<and> second = 254)
      | _ \<Rightarrow> False)"

definition isUnsafeIpv6 :: "string \<Rightarrow> bool" where
  "isUnsafeIpv6 s =
     (let n = to_lower s in n = ''::'' \<or> n = ''::1'' \<or> starts_with ''fe80:'' n \<or> starts_with ''ff'' n)"

definition dns_label :: "string \<Rightarrow> bool" where
  "dns_label s \<longleftrightarrow> s \<noteq> [] \<and> length s \<le> 63 \<and> is_alnum (hd s) \<and> is_alnum (last s)
     \<and> list_all (\<lambda>c. is_alnum c \<or> c = CHR ''-'') s"

definition dnsName :: "string \<Rightarrow> bool" where
  "dnsName s \<longleftrightarrow> s \<noteq> [] \<and> length s \<le> 253 \<and> list_all dns_label (split_on CHR ''.'' s)"

definition address_delimiter :: "char \<Rightarrow> bool" where
  "address_delimiter c \<longleftrightarrow> c \<in> set ''/?#@[]'' \<or> is_space c"

definition unsafe_message :: string where
  "unsafe_message = ''Advertised address must not be a loopback, link-local, or multicast address''"

definition normalizeAdvertisedAddress :: "(string \<Rightarrow> bool) \<Rightarrow> string \<Rightarrow> string + string" where
  "normalizeAdvertisedAddress v6 value =
     (let address = trim_str value in
      if address = [] \<or> length address > 253 \<or> list_ex address_delimiter address \<or> includes_str ''//'' address
      then Inl ''Advertised address must be a host or IP without scheme, path, or port''
      else if ipv4 address then (if isUnsafeIpv4 address then Inl unsafe_message else Inr address)
      else if CHR '':'' \<in> set address then
        (if v6 address then (if isUnsafeIpv6 address then Inl unsafe_message else Inr (to_lower address))
         else Inl ''Advertised address must be a valid IPv6 address'')
      else if \<not> dnsName address then Inl ''Advertised address must be a valid DNS name''
      else if to_lower address = ''localhost'' \<or> ends_with ''.localhost'' (to_lower address)
      then Inl ''Advertised address must not be localhost''
      else Inr (to_lower address))"

datatype upstream_protocol = Http | Https

definition upstream_protocol_str :: "upstream_protocol \<Rightarrow> string" where
  "upstream_protocol_str p = (case p of Http \<Rightarrow> ''http'' | Https \<Rightarrow> ''https'')"

definition workloadUpstreamUrl :: "(string \<Rightarrow> bool) \<Rightarrow> upstream_protocol \<Rightarrow> string \<Rightarrow> int \<Rightarrow> string + string" where
  "workloadUpstreamUrl v6 protocol address hostPort =
     (case normalizeAdvertisedAddress v6 address of
        Inl e \<Rightarrow> Inl e
      | Inr host \<Rightarrow>
          if hostPort < 1 \<or> hostPort > 65535 then Inl ''Published workload port is invalid''
          else Inr (upstream_protocol_str protocol @ ''://''
                 @ (if CHR '':'' \<in> set host then ''['' @ host @ '']'' else host) @ '':'' @ str_int hostPort))"

subsection \<open>Upstreams\<close>

record workload_upstream =
  wu_url :: string
  wu_workloadId :: string
  wu_nodeId :: string

record upstream_target =
  ut_applicationId :: string
  ut_deploymentId :: "string option"
  ut_targetPort :: int
  ut_upstreamProtocol :: upstream_protocol
  ut_organizationId :: string

definition upstream_port :: "upstream_target \<Rightarrow> cp \<Rightarrow> application_port option" where
  "upstream_port t s = List.find (\<lambda>p. ap_applicationId p = ut_applicationId t \<and> ap_internalPort p = ut_targetPort t
     \<and> ap_protocol p = Tcp \<and> ap_exposure p = Public) (t_applicationPorts s)"

text \<open>The pinned deployment, or the newest version that is wanted (\<open>version\<close> is unique per application).\<close>

fun newest_version :: "deployment list \<Rightarrow> deployment option" where
  "newest_version [] = None"
| "newest_version (d # ds) =
     (case newest_version ds of None \<Rightarrow> Some d | Some e \<Rightarrow> if d_version e \<le> d_version d then Some d else Some e)"

definition upstream_deployment :: "upstream_target \<Rightarrow> cp \<Rightarrow> deployment option" where
  "upstream_deployment t s =
     (if truthy (ut_deploymentId t)
      then List.find (\<lambda>d. Some (d_id d) = ut_deploymentId t \<and> d_applicationId d = ut_applicationId t
             \<and> d_desiredState d = WantRunning) (t_deployments s)
      else newest_version (filter (\<lambda>d. d_applicationId d = ut_applicationId t \<and> d_desiredState d = WantRunning)
             (t_deployments s)))"

definition upstream_candidates :: "(string \<Rightarrow> string \<Rightarrow> rat) \<Rightarrow> upstream_target \<Rightarrow> string \<Rightarrow> cp \<Rightarrow> (workload \<times> node \<times> workload_port) list" where
  "upstream_candidates collate t did s =
     js_sort (\<lambda>a b. collate (w_id (fst a)) (w_id (fst b)))
       (concat (map (\<lambda>w. concat (map (\<lambda>n. map (\<lambda>p. (w, n, p))
           (filter (\<lambda>p. wp_workloadId p = w_id w \<and> wp_containerPort p = ut_targetPort t \<and> wp_protocol p = Tcp
              \<and> wp_exposure p = Public) (t_workloadPorts s)))
         (filter (\<lambda>n. w_nodeId w = Some (n_id n)) (t_nodes s))))
       (workloads_of did s)))"

definition upstream_of :: "(string \<Rightarrow> bool) \<Rightarrow> upstream_target \<Rightarrow> workload \<times> node \<times> workload_port \<Rightarrow> workload_upstream list" where
  "upstream_of v6 t c =
     (case c of (w, n, p) \<Rightarrow>
        if n_organizationId n \<noteq> None \<and> n_organizationId n \<noteq> Some (ut_organizationId t) then []
        else if n_status n \<noteq> Ready \<or> w_actualState w \<noteq> ActRunning then []
        else if w_healthStatus w = HStarting \<or> w_healthStatus w = HUnhealthy then []
        else if \<not> truthy (n_advertisedAddress n) then []
        else (case workloadUpstreamUrl v6 (ut_upstreamProtocol t) (the (n_advertisedAddress n)) (wp_hostPort p) of
                Inl _ \<Rightarrow> []
              | Inr url \<Rightarrow> [\<lparr>wu_url = url, wu_workloadId = w_id w, wu_nodeId = n_id n\<rparr>]))"

definition resolveWorkloadUpstreams ::
  "(string \<Rightarrow> string \<Rightarrow> rat) \<Rightarrow> (string \<Rightarrow> bool) \<Rightarrow> upstream_target \<Rightarrow> cp \<Rightarrow> string + workload_upstream list" where
  "resolveWorkloadUpstreams collate v6 t s =
     (if upstream_port t s = None then Inl ''Target port is not a public TCP application port''
      else (case upstream_deployment t s of
              None \<Rightarrow> Inl ''No running deployment is available for this domain target''
            | Some d \<Rightarrow> Inr (concat (map (upstream_of v6 t) (upstream_candidates collate t (d_id d) s)))))"

subsection \<open>Facts\<close>

lemma lower_char_upper: "is_upper c \<Longrightarrow> 97 \<le> code_of (lower_char c) \<and> code_of (lower_char c) \<le> 122"
  by (simp add: lower_char_def is_upper_def code_of_char_of)

lemma lower_char_other: "\<not> is_upper c \<Longrightarrow> lower_char c = c"
  by (simp add: lower_char_def)

lemma lower_char_classes [simp]:
  "is_digit (lower_char c) = is_digit c"
  "is_alnum (lower_char c) = is_alnum c"
  "is_space (lower_char c) = is_space c"
proof -
  have u: "is_upper c \<Longrightarrow> 65 \<le> code_of c \<and> code_of c \<le> 90" by (simp add: is_upper_def)
  show "is_digit (lower_char c) = is_digit c"
    using u lower_char_upper [of c] lower_char_other [of c] by (cases "is_upper c") (auto simp: is_digit_def)
  show "is_alnum (lower_char c) = is_alnum c"
    using u lower_char_upper [of c] lower_char_other [of c]
    by (cases "is_upper c") (auto simp: is_alnum_def is_lower_def)
  have sp: "code_of CHR '' '' = 32" by (simp add: code_of_def)
  show "is_space (lower_char c) = is_space c"
    using u lower_char_upper [of c] lower_char_other [of c] sp
    by (cases "is_upper c") (auto simp: is_space_def)
qed

text \<open>Characters outside the two alphabets are not what lowering produces.\<close>

definition no_letter :: "char \<Rightarrow> bool" where
  "no_letter c \<longleftrightarrow> \<not> (65 \<le> code_of c \<and> code_of c \<le> 90) \<and> \<not> (97 \<le> code_of c \<and> code_of c \<le> 122)"

lemma lower_char_eq: "no_letter d \<Longrightarrow> lower_char c = d \<longleftrightarrow> c = d"
  using lower_char_upper [of c] lower_char_other [of c] by (cases "is_upper c") (auto simp: no_letter_def is_upper_def)

lemma no_letters: "no_letter CHR ''.''" "no_letter CHR '':''" "no_letter CHR ''-''" "no_letter CHR ''/''"
  "no_letter CHR ''?''" "no_letter CHR ''#''" "no_letter CHR ''@''" "no_letter CHR ''[''" "no_letter CHR '']''"
  by (simp_all add: no_letter_def code_of_def)

lemmas lower_eqs [simp] = no_letters [THEN lower_char_eq]

lemma address_delimiter_lower [simp]: "address_delimiter (lower_char c) = address_delimiter c"
  by (simp add: address_delimiter_def)

lemma split_on_lower: "split_on CHR ''.'' (to_lower s) = map to_lower (split_on CHR ''.'' s)"
  by (induction s) (auto simp: to_lower_def split: list.splits)

lemma to_lower_nil [simp]: "to_lower s = [] \<longleftrightarrow> s = []"
  by (simp add: to_lower_def)

lemma dns_label_lower [simp]: "dns_label (to_lower s) = dns_label s"
  by (cases "s = []") (simp_all add: dns_label_def to_lower_def hd_map last_map list_all_length)

lemma dnsName_lower [simp]: "dnsName (to_lower s) = dnsName s"
proof -
  have "list_all dns_label (map to_lower xs) = list_all dns_label xs" for xs by (induction xs) simp_all
  then show ?thesis by (simp add: dnsName_def split_on_lower) (simp add: to_lower_def)
qed

lemma digits_lower: "list_all is_digit s \<Longrightarrow> to_lower s = s"
proof (induction s)
  case Nil
  then show ?case by (simp add: to_lower_def)
next
  case (Cons c cs)
  then have "\<not> is_upper c" by (auto simp: is_digit_def is_upper_def)
  with Cons show ?case by (simp add: to_lower_def lower_char_other)
qed

lemma octet_lower: "ipv4_octet (to_lower s) = ipv4_octet s"
proof (cases "list_all is_digit s")
  case True
  then show ?thesis by (simp add: digits_lower)
next
  case False
  moreover have "list_all is_digit (to_lower s) = list_all is_digit s" by (simp add: to_lower_def list_all_length)
  ultimately show ?thesis by (simp add: ipv4_octet_def)
qed

lemma ipv4_lower: "ipv4 (to_lower s) = ipv4 s"
proof -
  have "list_all ipv4_octet (map to_lower xs) = list_all ipv4_octet xs" for xs
    by (induction xs) (simp_all add: octet_lower)
  then show ?thesis by (simp add: ipv4_def split_on_lower)
qed

lemma delimiters_lower: "list_ex address_delimiter (to_lower s) = list_ex address_delimiter s"
  by (induction s) (simp_all add: to_lower_def)

lemma colon_lower: "CHR '':'' \<in> set (to_lower s) \<longleftrightarrow> CHR '':'' \<in> set s"
proof -
  have "CHR '':'' = lower_char c \<longleftrightarrow> c = CHR '':''" for c using lower_eqs(2) [of c] by metis
  then show ?thesis by (auto simp: to_lower_def image_iff)
qed

lemma slashes_delimited: "includes_str ''//'' s \<Longrightarrow> list_ex address_delimiter s"
proof (induction s)
  case Nil
  then show ?case by simp
next
  case (Cons c cs)
  then show ?case by (auto simp: starts_with_def address_delimiter_def split: if_splits list.splits)
qed

lemma no_slashes: "\<not> list_ex address_delimiter s \<Longrightarrow> includes_str ''//'' s = False"
  using slashes_delimited by blast

lemma trim_plain: "\<not> list_ex address_delimiter s \<Longrightarrow> trim_str s = s"
proof -
  assume "\<not> list_ex address_delimiter s"
  then have s: "\<forall>c \<in> set s. \<not> is_space c" by (auto simp: list_ex_iff address_delimiter_def)
  have "dropWhile is_space xs = xs" if "\<forall>c \<in> set xs. \<not> is_space c" for xs using that by (cases xs) auto
  from this [of s] this [of "rev s"] s have "dropWhile is_space s = s" "dropWhile is_space (rev s) = rev s" by simp_all
  then show ?thesis by (simp add: trim_str_def)
qed

text \<open>What an accepted address looks like; all branches of the check at once.\<close>

lemma normalize_cases:
  assumes "normalizeAdvertisedAddress v6 value = Inr a"
  obtains (v4) "a = trim_str value" "ipv4 a" "\<not> isUnsafeIpv4 a" "\<not> list_ex address_delimiter a" "length a \<le> 253" "a \<noteq> []"
  | (v6) b where "b = trim_str value" "a = to_lower b" "\<not> ipv4 b" "CHR '':'' \<in> set b" "v6 b" "\<not> isUnsafeIpv6 b"
      "\<not> list_ex address_delimiter b" "length b \<le> 253" "b \<noteq> []"
  | (dns) b where "b = trim_str value" "a = to_lower b" "\<not> ipv4 b" "CHR '':'' \<notin> set b" "dnsName b"
      "to_lower b \<noteq> ''localhost''" "\<not> ends_with ''.localhost'' (to_lower b)"
      "\<not> list_ex address_delimiter b" "length b \<le> 253" "b \<noteq> []"
  using assms that unfolding normalizeAdvertisedAddress_def Let_def by (auto split: if_splits)

subsection \<open>Properties\<close>

text \<open>Checked addresses are stable: an accepted address is at most 253 characters without scheme, path, port
  brackets, credentials or blanks, is not a loopback, link-local or multicast address in dotted form nor
  \<open>localhost\<close>, and checking it again accepts it unchanged.\<close>

theorem normalized_address_stable:
  assumes "normalizeAdvertisedAddress v6 value = Inr a" and "\<And>x. v6 (to_lower x) = v6 x"
  shows "normalizeAdvertisedAddress v6 a = Inr a \<and> length a \<le> 253 \<and> list_ex address_delimiter a = False
    \<and> (ipv4 a \<and> isUnsafeIpv4 a) = False \<and> a \<noteq> ''localhost''"
  using assms(1)
proof (cases rule: normalize_cases)
  case v4
  have "\<not> ipv4 ''localhost''" by code_simp
  with v4 have "a \<noteq> ''localhost''" by auto
  with v4 no_slashes [of a] show ?thesis
    by (auto simp: normalizeAdvertisedAddress_def Let_def trim_plain)
next
  case (v6 b)
  have l: "length a = length b" "a \<noteq> []" using v6 by (simp_all add: to_lower_def)
  have "CHR '':'' \<in> set a" using v6 by (simp add: colon_lower)
  then have "a \<noteq> ''localhost''" by auto
  moreover have "isUnsafeIpv6 a = isUnsafeIpv6 b" using v6(2) by (simp add: isUnsafeIpv6_def Let_def)
  moreover have "\<not> list_ex address_delimiter a" using v6 by (simp add: delimiters_lower)
  ultimately show ?thesis using v6 l assms(2) [of b] no_slashes [of a]
    by (simp add: normalizeAdvertisedAddress_def Let_def trim_plain ipv4_lower colon_lower)
next
  case (dns b)
  have l: "length a = length b" "a \<noteq> []" using dns by (simp_all add: to_lower_def)
  moreover have "\<not> list_ex address_delimiter a" using dns by (simp add: delimiters_lower)
  ultimately show ?thesis using dns no_slashes [of a]
    by (simp add: normalizeAdvertisedAddress_def Let_def trim_plain ipv4_lower colon_lower)
qed

lemma normalized_address_stable_witness:
  "normalizeAdvertisedAddress (\<lambda>_. True) ''node.example.internal'' = Inr ''node.example.internal''"
proof -
  have "normalizeAdvertisedAddress (\<lambda>_. True) '' NODE.Example.internal'' = Inr ''node.example.internal''" by code_simp
  from normalized_address_stable [OF this] show ?thesis by simp
qed

text \<open>The loopback check works on the spelling: other spellings of the loopback address pass it.\<close>

lemma loopback_spellings_pass:
  "v6 ''0:0:0:0:0:0:0:1'' \<Longrightarrow> normalizeAdvertisedAddress v6 ''0:0:0:0:0:0:0:1'' = Inr ''0:0:0:0:0:0:0:1''"
  "normalizeAdvertisedAddress v6 ''127.1'' = Inr ''127.1''"
  "normalizeAdvertisedAddress v6 ''2130706433'' = Inr ''2130706433''"
proof -
  have "trim_str ''0:0:0:0:0:0:0:1'' = ''0:0:0:0:0:0:0:1''" "list_ex address_delimiter ''0:0:0:0:0:0:0:1'' = False"
    "includes_str ''//'' ''0:0:0:0:0:0:0:1'' = False" "ipv4 ''0:0:0:0:0:0:0:1'' = False" "isUnsafeIpv6 ''0:0:0:0:0:0:0:1'' = False"
    "to_lower ''0:0:0:0:0:0:0:1'' = ''0:0:0:0:0:0:0:1''" by code_simp+
  then show "v6 ''0:0:0:0:0:0:0:1'' \<Longrightarrow> normalizeAdvertisedAddress v6 ''0:0:0:0:0:0:0:1'' = Inr ''0:0:0:0:0:0:0:1''"
    by (simp add: normalizeAdvertisedAddress_def Let_def)
  show "normalizeAdvertisedAddress v6 ''127.1'' = Inr ''127.1''" by code_simp
  show "normalizeAdvertisedAddress v6 ''2130706433'' = Inr ''2130706433''" by code_simp
qed

definition sound_upstream :: "(string \<Rightarrow> bool) \<Rightarrow> upstream_target \<Rightarrow> cp \<Rightarrow> workload_upstream \<Rightarrow> bool" where
  "sound_upstream v6 t s u \<longleftrightarrow> (\<exists>w \<in> set (t_workloads s). \<exists>n \<in> set (t_nodes s). \<exists>p \<in> set (t_workloadPorts s). \<exists>d \<in> set (t_deployments s).
     \<exists>a. w_id w = wu_workloadId u \<and> n_id n = wu_nodeId u \<and> w_nodeId w = Some (n_id n) \<and> w_deploymentId w = d_id d
     \<and> d_applicationId d = ut_applicationId t \<and> d_desiredState d = WantRunning
     \<and> w_actualState w = ActRunning \<and> w_healthStatus w \<notin> {HStarting, HUnhealthy}
     \<and> n_status n = Ready \<and> n_organizationId n \<in> {None, Some (ut_organizationId t)}
     \<and> wp_workloadId p = w_id w \<and> wp_containerPort p = ut_targetPort t \<and> wp_exposure p = Public
     \<and> n_advertisedAddress n = Some a
     \<and> workloadUpstreamUrl v6 (ut_upstreamProtocol t) a (wp_hostPort p) = Inr (wu_url u))"

lemma newest_version_mem: "newest_version ds = Some d \<Longrightarrow> d \<in> set ds"
  by (induction ds arbitrary: d) (auto split: option.splits if_splits)

lemma upstream_deployment_sound:
  "upstream_deployment t s = Some d
    \<Longrightarrow> d \<in> set (t_deployments s) \<and> d_applicationId d = ut_applicationId t \<and> d_desiredState d = WantRunning"
  by (auto simp: upstream_deployment_def split: if_splits dest!: newest_version_mem find_Some_iff')

text \<open>A public domain only ever reaches the platform's own running replicas: every upstream is a running,
  not unhealthy workload of a wanted revision of the target application, on a ready node that is shared or
  belongs to the organisation, at a port the node's agent reported as public, and its URL is built from
  the checked address of that node.\<close>

theorem upstreams_trusted:
  assumes "resolveWorkloadUpstreams collate v6 t s = Inr us"
  shows "list_all (sound_upstream v6 t s) us \<and> upstream_port t s \<noteq> None"
proof -
  obtain d where port: "upstream_port t s \<noteq> None" and d: "upstream_deployment t s = Some d"
    and us: "us = concat (map (upstream_of v6 t) (upstream_candidates collate t (d_id d) s))"
    using assms by (auto simp: resolveWorkloadUpstreams_def split: if_splits option.splits)
  have "sound_upstream v6 t s u" if u: "u \<in> set us" for u
  proof -
    obtain w n p where c: "(w, n, p) \<in> set (upstream_candidates collate t (d_id d) s)"
        and m: "u \<in> set (upstream_of v6 t (w, n, p))" using u by (auto simp: us)
    from c have rows: "w \<in> set (t_workloads s)" "w_deploymentId w = d_id d" "n \<in> set (t_nodes s)" "w_nodeId w = Some (n_id n)"
      "p \<in> set (t_workloadPorts s)" "wp_workloadId p = w_id w" "wp_containerPort p = ut_targetPort t" "wp_exposure p = Public"
      by (auto simp: upstream_candidates_def workloads_of_def)
    from m obtain a where a: "n_advertisedAddress n = Some a" "workloadUpstreamUrl v6 (ut_upstreamProtocol t) a (wp_hostPort p) = Inr (wu_url u)"
      "wu_workloadId u = w_id w" "wu_nodeId u = n_id n" "n_organizationId n \<in> {None, Some (ut_organizationId t)}" "n_status n = Ready"
      "w_actualState w = ActRunning" "w_healthStatus w \<notin> {HStarting, HUnhealthy}"
      by (auto simp: upstream_of_def truthy_def split: if_splits sum.splits)
    show ?thesis unfolding sound_upstream_def
      using rows a upstream_deployment_sound [OF d]
      by (intro bexI [of _ w] bexI [of _ n] bexI [of _ p] bexI [of _ d] exI [of _ a]) simp_all
  qed
  with port show ?thesis by (simp add: list_all_iff)
qed


definition sample_target :: upstream_target where
  "sample_target = \<lparr>ut_applicationId = ''app'', ut_deploymentId = None, ut_targetPort = 8080, ut_upstreamProtocol = Http,
     ut_organizationId = ''o1''\<rparr>"

definition sample_routed :: cp where
  "sample_routed = empty_cp\<lparr>t_deployments := [new_deployment empty_cp ''id-0'' 1 sample_input], t_nodes := [sample_node_row\<lparr>n_advertisedAddress := Some ''10.0.0.5''\<rparr>],
     t_workloads := [(new_workload empty_cp ''w1'' ''id-0'' ''node-1'' [])\<lparr>w_actualState := ActRunning\<rparr>],
     t_workloadPorts := [\<lparr>wp_workloadId = ''w1'', wp_nodeId = Some ''node-1'', wp_containerPort = 8080, wp_hostPort = 49152,
       wp_protocol = Tcp, wp_exposure = Public, wp_bindAddress = None, wp_status = Bound, wp_observedAt = 0, wp_createdAt = 0,
       wp_updatedAt = 0\<rparr>],
     t_applicationPorts := [\<lparr>ap_id = ''p'', ap_applicationId = ''app'', ap_name = None, ap_internalPort = 8080, ap_protocol = Tcp,
       ap_exposure = Public, ap_requestedHostPort = None, ap_externalPort = None, ap_description = None, ap_createdAt = 0,
       ap_updatedAt = 0\<rparr>]\<rparr>"

lemma sample_url: "workloadUpstreamUrl (\<lambda>_. False) Http ''10.0.0.5'' 49152 = Inr ''http://10.0.0.5:49152''"
proof -
  have split: "split_on CHR ''.'' ''10.0.0.5'' = [''10'', ''0'', ''0'', ''5'']" by code_simp
  have plain: "trim_str ''10.0.0.5'' = ''10.0.0.5''" "includes_str ''//'' ''10.0.0.5'' = False"
    "list_ex address_delimiter ''10.0.0.5'' = False" by code_simp+
  have octets: "list_all ipv4_octet [''10'', ''0'', ''0'', ''5'']" by (simp add: ipv4_octet_def is_digit_def code_of_def)
  have chars: "char_of (52::nat) = CHR ''4''" "char_of (57::nat) = CHR ''9''" "char_of (49::nat) = CHR ''1''"
    "char_of (53::nat) = CHR ''5''" "char_of (50::nat) = CHR ''2''" by code_simp+
  have port: "str_int 49152 = ''49152''" by (simp add: str_int_def str_nat.simps chars)
  have "isUnsafeIpv4 ''10.0.0.5'' = False" by (simp add: isUnsafeIpv4_def split digits_value_def code_of_def)
  then have "normalizeAdvertisedAddress (\<lambda>_. False) ''10.0.0.5'' = Inr ''10.0.0.5''"
    using octets unfolding normalizeAdvertisedAddress_def Let_def ipv4_def split plain by simp
  then show ?thesis by (simp add: workloadUpstreamUrl_def port upstream_protocol_str_def)
qed

lemma upstreams_trusted_witness:
  "sound_upstream (\<lambda>_. False) sample_target sample_routed
     \<lparr>wu_url = ''http://10.0.0.5:49152'', wu_workloadId = ''w1'', wu_nodeId = ''node-1''\<rparr>"
proof -
  have "resolveWorkloadUpstreams code_unit_compare (\<lambda>_. False) sample_target sample_routed
      = Inr [\<lparr>wu_url = ''http://10.0.0.5:49152'', wu_workloadId = ''w1'', wu_nodeId = ''node-1''\<rparr>]"
    by (simp add: resolveWorkloadUpstreams_def upstream_port_def upstream_deployment_def upstream_candidates_def upstream_of_def
        sample_routed_def sample_target_def empty_cp_def new_deployment_def sample_input_def new_workload_def workloads_of_def
        sample_node_row_def js_sort_def truthy_def sample_url)
  from upstreams_trusted [OF this] show ?thesis by simp
qed

end
