(* ===== verification/AgentApi.thy ===== *)
theory AgentApi
  imports RoleRoutes SafeAddress CommandController
begin

text \<open>
  The node routes of \<open>apps/api/src/routes/nodes.routes.ts\<close>, first half: registration tokens, node settings, enrolment,
  heartbeats and the command poll. A request body is \<open>None\<close> when it is not JSON (\<open>c.req.json()\<close> throws); \<open>Inl\<close> is an
  exception that leaves the handler. Route reconciliation is started without being awaited and not modelled; neither
  are the error details of a failed parse. The random secrets, the SHA-256 hash, the RFC 3339 dates of zod's
  \<open>datetime()\<close>, \<open>node:net\<close>'s IPv6 test, decryption and the environment are the record \<open>agent_host\<close>. A secret is drawn
  from the same counter as the ids. Between the lookup of a registration token and the transaction that consumes it
  other requests run: the argument \<open>rival\<close>.
\<close>

record agent_host =
  ah_sha256 :: "string \<Rightarrow> string"
  ah_secret :: "nat \<Rightarrow> string"
  ah_datetime :: "string \<Rightarrow> int option"
  ah_ipv6 :: "string \<Rightarrow> bool"
  ah_decrypt :: "string \<Rightarrow> string option"
  ah_json :: "string \<Rightarrow> json option"
  ah_localToken :: "string option"

definition tokenHash :: "agent_host \<Rightarrow> string \<Rightarrow> string" where
  "tokenHash a v = ah_sha256 a v"

definition createSecret :: "agent_host \<Rightarrow> cp \<Rightarrow> string \<times> cp" where
  "createSecret a s = (ah_secret a (uuid_next s), s\<lparr>uuid_next := Suc (uuid_next s)\<rparr>)"

definition secretMatches :: "agent_host \<Rightarrow> string \<Rightarrow> string \<Rightarrow> bool" where
  "secretMatches a candidate expected \<longleftrightarrow> tokenHash a candidate = tokenHash a expected"

definition bearer_token :: "string option \<Rightarrow> string option" where
  "bearer_token authorization =
     (case authorization of
        None \<Rightarrow> None
      | Some v \<Rightarrow> if starts_with ''Bearer '' v then Some (drop 7 v) else None)"

definition agentIdentity :: "agent_host \<Rightarrow> string option \<Rightarrow> cp \<Rightarrow> node option" where
  "agentIdentity a authorization s =
     (if \<not> truthy (bearer_token authorization) then None
      else (let token = the (bearer_token authorization) in
        case List.find (\<lambda>n. n_agentTokenHash n = tokenHash a token) (t_nodes s) of
          None \<Rightarrow> None
        | Some candidate \<Rightarrow> if n_agentTokenHash candidate = tokenHash a token then Some candidate else None))"

definition unauthenticated :: "response" where
  "unauthenticated = Problem 401 ''Agent authentication required''"

text \<open>The common beginning of an agent's request with a body: who is it, is it JSON, does it parse.\<close>

definition agent_request ::
  "agent_host \<Rightarrow> string option \<Rightarrow> (json \<Rightarrow> 'b option) \<Rightarrow> string \<Rightarrow> json option
     \<Rightarrow> (node \<Rightarrow> 'b \<Rightarrow> cp \<Rightarrow> (exn + response) \<times> cp) \<Rightarrow> cp \<Rightarrow> (exn + response) \<times> cp" where
  "agent_request a authorization schema invalid body handler s =
     (case agentIdentity a authorization s of
        None \<Rightarrow> (Inr unauthenticated, s)
      | Some node \<Rightarrow>
          (case body of
             None \<Rightarrow> (Inl (Js_error ''SyntaxError''), s)
           | Some j \<Rightarrow> (case schema j of
                          None \<Rightarrow> (Inr (Problem 400 invalid), s)
                        | Some v \<Rightarrow> handler node v s)))"

subsection \<open>Schemas\<close>

definition resourceQuantity :: "json \<Rightarrow> resource_quantity option" where
  "resourceQuantity j =
     Option.bind (z_object j) (\<lambda>j.
     Option.bind (z_req (z_number (\<lambda>x. 0 \<le> x)) ''capacity'' j) (\<lambda>c.
     Option.bind (z_req (z_number (\<lambda>x. 0 \<le> x)) ''allocatable'' j) (\<lambda>al.
     Option.bind (z_req (z_number (\<lambda>x. 0 \<le> x)) ''reserved'' j) (\<lambda>r.
     Option.bind (z_req (z_number (\<lambda>x. 0 \<le> x)) ''usage'' j) (\<lambda>u.
       Some \<lparr>capacity = c, allocatable = al, reserved = r, usage = u\<rparr>)))))"

record register_input =
  rg_registrationToken :: string
  rg_name :: string
  rg_hostname :: string
  rg_advertisedAddress :: "string option"
  rg_architecture :: string
  rg_os :: string
  rg_agentVersion :: string
  rg_region :: "string option"
  rg_labels :: "(string \<times> string) list"
  rg_capabilities :: "string list"
  rg_runtimes :: "runtime_kind list"

text \<open>The two enrolment schemas differ in the key of the secret.\<close>

definition register_schema :: "string \<Rightarrow> json \<Rightarrow> register_input option" where
  "register_schema secret j =
     Option.bind (z_object j) (\<lambda>j.
     Option.bind (z_req (z_sized 32 512) secret j) (\<lambda>tok.
     Option.bind (z_req (z_trimmed 1 100) ''name'' j) (\<lambda>name.
     Option.bind (z_req (z_trimmed 1 253) ''hostname'' j) (\<lambda>host.
     Option.bind (z_opt (z_trimmed 1 253) ''advertisedAddress'' j) (\<lambda>addr.
     Option.bind (z_req (z_trimmed 1 64) ''architecture'' j) (\<lambda>arch.
     Option.bind (z_req (z_trimmed 1 128) ''os'' j) (\<lambda>os.
     Option.bind (z_req (z_trimmed 1 64) ''agentVersion'' j) (\<lambda>ver.
     Option.bind (z_opt (z_trimmed 0 64) ''region'' j) (\<lambda>reg.
     Option.bind (z_default (z_record (z_sized 0 64)) [] ''labels'' j) (\<lambda>labels.
     Option.bind (z_default (z_items 0 50 (z_sized 0 64)) [] ''capabilities'' j) (\<lambda>caps.
     Option.bind (z_default (\<lambda>v. Option.bind (z_array (z_enum runtime_kinds) v) (\<lambda>rs. if rs = [] then None else Some rs))
        [Container] ''runtimes'' j) (\<lambda>rts.
       Some \<lparr>rg_registrationToken = tok, rg_name = name, rg_hostname = host, rg_advertisedAddress = addr,
             rg_architecture = arch, rg_os = os, rg_agentVersion = ver, rg_region = reg, rg_labels = labels,
             rg_capabilities = caps, rg_runtimes = rts\<rparr>))))))))))))"

definition registerInput :: "json \<Rightarrow> register_input option" where
  "registerInput = register_schema ''registrationToken''"

definition localRegisterInput :: "json \<Rightarrow> register_input option" where
  "localRegisterInput = register_schema ''localToken''"

record heartbeat_input =
  hb_status :: node_status
  hb_resources :: node_resources

definition heartbeatInput :: "json \<Rightarrow> heartbeat_input option" where
  "heartbeatInput j =
     Option.bind (z_object j) (\<lambda>j.
     Option.bind (z_req (z_enum [(''ready'', Ready), (''draining'', Draining), (''offline'', Offline),
        (''unhealthy'', NodeUnhealthy)]) ''status'' j) (\<lambda>st.
     Option.bind (z_req (\<lambda>r. Option.bind (z_object r) (\<lambda>r.
         Option.bind (z_req resourceQuantity ''cpuMilli'' r) (\<lambda>c.
         Option.bind (z_req resourceQuantity ''memoryMib'' r) (\<lambda>m.
         Option.bind (z_req resourceQuantity ''storageMib'' r) (\<lambda>d.
           Some \<lparr>cpuMilli = c, memoryMib = m, storageMib = d\<rparr>))))) ''resources'' j) (\<lambda>res.
       Some \<lparr>hb_status = st, hb_resources = res\<rparr>)))"

text \<open>Node settings: every key is optional, an address may be \<open>null\<close>, an object without a known key is refused.\<close>

record node_settings =
  nsi_schedulingEnabled :: "bool option"
  nsi_advertisedAddress :: "string option option"
  nsi_publicNetworkingEnabled :: "bool option"
  nsi_publicAddress :: "string option option"

definition nodeSettingsInput :: "json \<Rightarrow> node_settings option" where
  "nodeSettingsInput j =
     Option.bind (z_object j) (\<lambda>j.
     Option.bind (z_opt z_bool ''schedulingEnabled'' j) (\<lambda>sch.
     Option.bind (z_opt (z_nullable (z_trimmed 1 253)) ''advertisedAddress'' j) (\<lambda>adv.
     Option.bind (z_opt z_bool ''publicNetworkingEnabled'' j) (\<lambda>net.
     Option.bind (z_opt (z_nullable (z_trimmed 1 253)) ''publicAddress'' j) (\<lambda>pub.
       if sch = None \<and> adv = None \<and> net = None \<and> pub = None then None
       else Some \<lparr>nsi_schedulingEnabled = sch, nsi_advertisedAddress = adv, nsi_publicNetworkingEnabled = net,
                  nsi_publicAddress = pub\<rparr>)))))"

subsection \<open>Registration tokens and node settings\<close>

definition registration_settings :: "json option \<Rightarrow> int option" where
  "registration_settings body =
     Option.bind (z_object (case body of None \<Rightarrow> JObj [] | Some j \<Rightarrow> j)) (\<lambda>j.
       z_default (z_int (\<lambda>i. 60 \<le> i \<and> i \<le> 86400)) 3600 ''expiresInSeconds'' j)"

definition node_access :: "iam \<Rightarrow> string option \<Rightarrow> string \<Rightarrow> string \<Rightarrow> response + permission_check" where
  "node_access m session orgSlug permission =
     (case hasPermission m session orgSlug permission of
        None \<Rightarrow> Inl (Problem 404 ''Organization not found or access denied'')
      | Some access \<Rightarrow> if \<not> pc_allowed access then Inl (Problem 403 (''Permission required: '' @ permission)) else Inr access)"

definition create_registration_token ::
  "host \<Rightarrow> agent_host \<Rightarrow> iam \<Rightarrow> string option \<Rightarrow> string \<Rightarrow> json option \<Rightarrow> cp \<Rightarrow> response \<times> cp" where
  "create_registration_token h a m session orgSlug body s =
     (case node_access m session orgSlug ''nodes.manage'' of
        Inl r \<Rightarrow> (r, s)
      | Inr access \<Rightarrow>
          (case registration_settings body of
             None \<Rightarrow> (Problem 400 ''Invalid registration token settings'', s)
           | Some seconds \<Rightarrow>
               (let (secret, s1) = createSecret a s;
                    expires = clock s1 + seconds * 1000;
                    (i, s2) = randomUUID h s1
                in (Reply 201 (JObj [(''registrationToken'', JStr secret), (''expiresAt'', JNum (of_int expires))]),
                    s2\<lparr>t_registrationTokens := t_registrationTokens s2 @
                      [\<lparr>rt_id = i, rt_organizationId = og_id (pc_org access), rt_tokenHash = tokenHash a secret,
                        rt_expiresAt = expires, rt_usedAt = None, rt_createdAt = clock s2\<rparr>]\<rparr>))))"

definition visible_node :: "string \<Rightarrow> node \<Rightarrow> bool" where
  "visible_node org n \<longleftrightarrow> n_organizationId n = Some org \<or> n_organizationId n = None"

definition list_nodes :: "iam \<Rightarrow> string option \<Rightarrow> string \<Rightarrow> cp \<Rightarrow> response + node list" where
  "list_nodes m session orgSlug s =
     (case node_access m session orgSlug ''nodes.read'' of
        Inl r \<Rightarrow> Inl r
      | Inr access \<Rightarrow> Inr (filter (visible_node (og_id (pc_org access))) (t_nodes s)))"

text \<open>An address of the settings: absent and \<open>null\<close> pass, a string is normalised.\<close>

definition settings_address :: "agent_host \<Rightarrow> string option option \<Rightarrow> string + string option option" where
  "settings_address a v =
     (case v of
        Some (Some s) \<Rightarrow> if s = [] then Inr v else map_sum id (\<lambda>t. Some (Some t)) (normalizeAdvertisedAddress (ah_ipv6 a) s)
      | _ \<Rightarrow> Inr v)"

definition changed :: "'a option \<Rightarrow> ('a \<Rightarrow> node \<Rightarrow> node) \<Rightarrow> node \<Rightarrow> node" where
  "changed v f n = (case v of None \<Rightarrow> n | Some x \<Rightarrow> f x n)"

definition apply_settings ::
  "node_settings \<Rightarrow> string option option \<Rightarrow> string option option \<Rightarrow> node \<Rightarrow> node" where
  "apply_settings inp adv pub =
     changed pub (\<lambda>v n. n\<lparr>n_publicAddress := v\<rparr>)
   \<circ> changed (nsi_publicNetworkingEnabled inp) (\<lambda>b n. n\<lparr>n_publicNetworkingEnabled := (if b then 1 else 0)\<rparr>)
   \<circ> changed adv (\<lambda>v n. n\<lparr>n_advertisedAddress := v\<rparr>)
   \<circ> changed (nsi_schedulingEnabled inp) (\<lambda>b n. n\<lparr>n_schedulingEnabled := (if b then 1 else 0)\<rparr>)"

definition node_json :: "node \<Rightarrow> (string \<times> json) list" where
  "node_json n = [(''advertisedAddress'', jstr_opt (n_advertisedAddress n)),
     (''publicNetworkingEnabled'', JBool (n_publicNetworkingEnabled n = 1)), (''publicAddress'', jstr_opt (n_publicAddress n))]"

definition write_node_settings ::
  "host \<Rightarrow> permission_check \<Rightarrow> string option \<Rightarrow> node_settings \<Rightarrow> string option option \<Rightarrow> string option option
     \<Rightarrow> (node \<Rightarrow> bool) \<Rightarrow> cp \<Rightarrow> response \<times> cp" where
  "write_node_settings h access ip inp adv pub mine s =
     (let s1 = update_nodes mine (apply_settings inp adv pub) s in
      case List.find mine (t_nodes s1) of
        None \<Rightarrow> (Problem 404 ''Node not found'', s1)
      | Some u \<Rightarrow>
          (Reply 200 (JObj ([(''id'', JStr (n_id u)), (''schedulingEnabled'', JBool (n_schedulingEnabled u = 1))] @ node_json u)),
           if adv = None \<and> pub = None \<and> nsi_publicNetworkingEnabled inp = None then s1
           else (let (i, s2) = randomUUID h s1 in s2\<lparr>t_auditLogs := t_auditLogs s2 @
              [\<lparr>al_id = i, al_actorId = Some (pc_userId access), al_action = ''node.networking_updated'',
                al_targetType = ''node'', al_targetId = Some (n_id u),
                al_metadata = Some (JObj ((''organizationId'', JStr (og_id (pc_org access))) # node_json u)),
                al_ipAddress = ip, al_createdAt = clock s2\<rparr>]\<rparr>)))"

definition set_node ::
  "host \<Rightarrow> permission_check \<Rightarrow> string option \<Rightarrow> string \<Rightarrow> node_settings \<Rightarrow> string option option \<Rightarrow> string option option
     \<Rightarrow> cp \<Rightarrow> response \<times> cp" where
  "set_node h access ip nodeId inp adv pub s =
     (let mine = (\<lambda>n. n_id n = nodeId \<and> visible_node (og_id (pc_org access)) n) in
      case List.find mine (t_nodes s) of
        None \<Rightarrow> (Problem 404 ''Node not found'', s)
      | Some existing \<Rightarrow>
          (let enabled = (case nsi_publicNetworkingEnabled inp of Some b \<Rightarrow> b | None \<Rightarrow> n_publicNetworkingEnabled existing = 1);
               resolved = (case pub of None \<Rightarrow> n_publicAddress existing | Some v \<Rightarrow> v) in
           if enabled \<and> \<not> truthy resolved
           then (Problem 400 ''A public address is required when public networking is enabled'', s)
           else write_node_settings h access ip inp adv pub mine s))"

definition update_node_settings ::
  "host \<Rightarrow> agent_host \<Rightarrow> iam \<Rightarrow> string option \<Rightarrow> string \<Rightarrow> string \<Rightarrow> string option \<Rightarrow> json option \<Rightarrow> cp
     \<Rightarrow> (exn + response) \<times> cp" where
  "update_node_settings h a m session orgSlug nodeId ip body s =
     (case node_access m session orgSlug ''nodes.manage'' of
        Inl r \<Rightarrow> (Inr r, s)
      | Inr access \<Rightarrow>
          (case body of
             None \<Rightarrow> (Inl (Js_error ''SyntaxError''), s)
           | Some j \<Rightarrow>
               (case nodeSettingsInput j of
                  None \<Rightarrow> (Inr (Problem 400 ''Invalid node settings''), s)
                | Some inp \<Rightarrow>
                    (case (settings_address a (nsi_advertisedAddress inp), settings_address a (nsi_publicAddress inp)) of
                       (Inl e, _) \<Rightarrow> (Inr (Problem 400 e), s)
                     | (Inr adv, Inl e) \<Rightarrow> (Inr (Problem 400 e), s)
                     | (Inr adv, Inr pub) \<Rightarrow> apfst Inr (set_node h access ip nodeId inp adv pub s)))))"

subsection \<open>Enrolment\<close>

definition enrolled_node :: "agent_host \<Rightarrow> register_input \<Rightarrow> string option \<Rightarrow> string option \<Rightarrow> string \<Rightarrow> string \<Rightarrow> cp \<Rightarrow> node" where
  "enrolled_node a inp org addr nodeId agentToken s =
     \<lparr>n_id = nodeId, n_organizationId = org, n_name = rg_name inp, n_hostname = rg_hostname inp,
      n_advertisedAddress = addr, n_publicNetworkingEnabled = 0, n_publicAddress = None, n_status = Provisioning,
      n_architecture = rg_architecture inp, n_os = rg_os inp, n_agentVersion = rg_agentVersion inp,
      n_region = rg_region inp, n_labels = rg_labels inp, n_capabilities = rg_capabilities inp,
      n_runtimes = rg_runtimes inp, n_resources = None, n_schedulingEnabled = 1,
      n_agentTokenHash = tokenHash a agentToken, n_lastHeartbeatAt = None, n_unhealthyAt = None, n_offlineAt = None,
      n_createdAt = clock s, n_updatedAt = clock s\<rparr>"

definition enrolled_reply :: "int \<Rightarrow> string \<Rightarrow> string \<Rightarrow> response" where
  "enrolled_reply status nodeId agentToken =
     Reply status (JObj [(''nodeId'', JStr nodeId), (''agentToken'', JStr agentToken)])"

definition advertised :: "agent_host \<Rightarrow> register_input \<Rightarrow> string + string option" where
  "advertised a inp =
     (if \<not> truthy (rg_advertisedAddress inp) then Inr None
      else map_sum id Some (normalizeAdvertisedAddress (ah_ipv6 a) (the (rg_advertisedAddress inp))))"

text \<open>The first half of \<open>POST /api/agents/register\<close>: the token is looked up, the secret, the address and the id are
  made; and the second half, the transaction.\<close>

definition usable_token :: "agent_host \<Rightarrow> register_input \<Rightarrow> cp \<Rightarrow> registration_token option" where
  "usable_token a inp s =
     List.find (\<lambda>t. rt_tokenHash t = tokenHash a (rg_registrationToken inp) \<and> rt_usedAt t = None \<and> clock s < rt_expiresAt t)
       (t_registrationTokens s)"

definition update_tokens :: "(registration_token \<Rightarrow> bool) \<Rightarrow> (registration_token \<Rightarrow> registration_token) \<Rightarrow> cp \<Rightarrow> cp" where
  "update_tokens P f s = s\<lparr>t_registrationTokens := upd_where P f (t_registrationTokens s)\<rparr>"

definition enroll :: "agent_host \<Rightarrow> register_input \<Rightarrow> registration_token \<Rightarrow> string option \<Rightarrow> string \<Rightarrow> string \<Rightarrow> cp \<Rightarrow> response \<times> cp" where
  "enroll a inp registration addr nodeId agentToken s =
     (let free = (\<lambda>t. rt_id t = rt_id registration \<and> rt_usedAt t = None) in
      if \<not> list_ex free (t_registrationTokens s) then (Problem 409 ''Registration token was already used'', s)
      else
        (let s1 = update_tokens free (\<lambda>t. t\<lparr>rt_usedAt := Some (clock s)\<rparr>) s in
         (enrolled_reply 201 nodeId agentToken,
          s1\<lparr>t_nodes := t_nodes s1 @
            [enrolled_node a inp (Some (rt_organizationId registration)) addr nodeId agentToken s1]\<rparr>)))"

definition register_agent ::
  "host \<Rightarrow> agent_host \<Rightarrow> (cp \<Rightarrow> cp) \<Rightarrow> json option \<Rightarrow> cp \<Rightarrow> (exn + response) \<times> cp" where
  "register_agent h a rival body s =
     (case body of
        None \<Rightarrow> (Inl (Js_error ''SyntaxError''), s)
      | Some j \<Rightarrow>
          (case registerInput j of
             None \<Rightarrow> (Inr (Problem 400 ''Invalid node registration''), s)
           | Some inp \<Rightarrow>
               (case usable_token a inp s of
                  None \<Rightarrow> (Inr (Problem 401 ''Registration token is invalid or expired''), s)
                | Some registration \<Rightarrow>
                    (let (agentToken, s1) = createSecret a s in
                     case advertised a inp of
                       Inl e \<Rightarrow> (Inr (Problem 400 e), s1)
                     | Inr addr \<Rightarrow>
                         (let (nodeId, s2) = randomUUID h s1
                          in apfst Inr (enroll a inp registration addr nodeId agentToken (rival s2)))))))"

definition reenrolled :: "agent_host \<Rightarrow> register_input \<Rightarrow> string option \<Rightarrow> string \<Rightarrow> node \<Rightarrow> node" where
  "reenrolled a inp addr agentToken n =
     n\<lparr>n_name := rg_name inp, n_hostname := rg_hostname inp, n_advertisedAddress := addr,
       n_architecture := rg_architecture inp, n_os := rg_os inp, n_agentVersion := rg_agentVersion inp,
       n_region := rg_region inp, n_labels := rg_labels inp, n_capabilities := rg_capabilities inp,
       n_runtimes := rg_runtimes inp, n_status := Provisioning, n_agentTokenHash := tokenHash a agentToken\<rparr>"

definition register_local_agent ::
  "host \<Rightarrow> agent_host \<Rightarrow> json option \<Rightarrow> cp \<Rightarrow> (exn + response) \<times> cp" where
  "register_local_agent h a body s =
     (case body of
        None \<Rightarrow> (Inl (Js_error ''SyntaxError''), s)
      | Some j \<Rightarrow>
          (case localRegisterInput j of
             None \<Rightarrow> (Inr (Problem 400 ''Invalid local agent registration''), s)
           | Some inp \<Rightarrow>
               if \<not> truthy (ah_localToken a) \<or> \<not> secretMatches a (rg_registrationToken inp) (the (ah_localToken a))
               then (Inr (Problem 401 ''Local agent authentication required''), s)
               else
                 (let (agentToken, s1) = createSecret a s in
                  case advertised a inp of
                    Inl e \<Rightarrow> (Inr (Problem 400 e), s1)
                  | Inr addr \<Rightarrow>
                      (case List.find (\<lambda>n. n_organizationId n = None \<and> n_hostname n = rg_hostname inp) (t_nodes s1) of
                         Some existing \<Rightarrow>
                           (Inr (enrolled_reply 200 (n_id existing) agentToken),
                            update_nodes (\<lambda>n. n_id n = n_id existing) (reenrolled a inp addr agentToken) s1)
                       | None \<Rightarrow>
                           (let (nodeId, s2) = randomUUID h s1 in
                            (Inr (enrolled_reply 201 nodeId agentToken),
                             s2\<lparr>t_nodes := t_nodes s2 @ [enrolled_node a inp None addr nodeId agentToken s2]\<rparr>))))))"

subsection \<open>Heartbeats and the command poll\<close>

definition beat :: "heartbeat_input \<Rightarrow> int \<Rightarrow> node \<Rightarrow> node" where
  "beat inp now n =
     (let n1 = n\<lparr>n_status := hb_status inp, n_resources := Some (hb_resources inp), n_lastHeartbeatAt := Some now\<rparr>;
          n2 = (if hb_status inp = Ready then n1\<lparr>n_unhealthyAt := None, n_offlineAt := None\<rparr> else n1)
      in if hb_status inp = NodeUnhealthy then n2\<lparr>n_unhealthyAt := Some now, n_offlineAt := None\<rparr> else n2)"

definition quantity_json :: "resource_quantity \<Rightarrow> json" where
  "quantity_json q = JObj [(''capacity'', JNum (capacity q)), (''allocatable'', JNum (allocatable q)),
     (''reserved'', JNum (reserved q)), (''usage'', JNum (usage q))]"

definition resources_json :: "node_resources \<Rightarrow> json" where
  "resources_json r = JObj [(''cpuMilli'', quantity_json (cpuMilli r)), (''memoryMib'', quantity_json (memoryMib r)),
     (''storageMib'', quantity_json (storageMib r))]"

definition accept_heartbeat :: "node \<Rightarrow> heartbeat_input \<Rightarrow> cp \<Rightarrow> (exn + response) \<times> cp" where
  "accept_heartbeat node inp s =
     (let s1 = update_nodes (\<lambda>n. n_id n = n_id node) (beat inp (clock s)) s;
          s2 = (if hb_status inp = Ready
                then update_volumes (\<lambda>v. v_nodeId v = Some (n_id node) \<and> v_status v = VolUnavailable)
                       (\<lambda>v. v\<lparr>v_status := VolInUse\<rparr>) s1
                else s1)
      in (Inr (Reply 200 (JObj [(''accepted'', JBool True), (''resources'', resources_json (hb_resources inp))])), s2))"

definition heartbeat :: "agent_host \<Rightarrow> string option \<Rightarrow> json option \<Rightarrow> cp \<Rightarrow> (exn + response) \<times> cp" where
  "heartbeat a authorization body = agent_request a authorization heartbeatInput ''Invalid heartbeat'' body accept_heartbeat"

definition DELIVERY_LEASE_MS :: int where
  "DELIVERY_LEASE_MS = 5 * 60000"

text \<open>A command can be delivered when it waits, or when its delivery is older than the lease.\<close>

definition deliverable :: "int \<Rightarrow> string \<Rightarrow> agent_command \<Rightarrow> bool" where
  "deliverable now nid c \<longleftrightarrow> c_nodeId c = nid \<and>
     (c_status c = CmdPending
      \<or> c_status c = CmdDelivered \<and> (case c_deliveredAt c of None \<Rightarrow> True | Some t \<Rightarrow> t < now - DELIVERY_LEASE_MS))"

definition deliver :: "int \<Rightarrow> agent_command \<Rightarrow> agent_command" where
  "deliver now c = c\<lparr>c_status := CmdDelivered, c_deliveredAt := Some now, c_deliveryAttempts := c_deliveryAttempts c + 1\<rparr>"

text \<open>One update of the batch; its answer is the rows it changed.\<close>

definition take_command :: "int \<Rightarrow> string \<Rightarrow> string \<Rightarrow> cp \<Rightarrow> agent_command list \<times> cp" where
  "take_command now nid cid s =
     (let P = (\<lambda>c. c_id c = cid \<and> deliverable now nid c) in
      (map (deliver now) (filter P (t_commands s)), update_commands P (deliver now) s))"

fun take_commands :: "int \<Rightarrow> string \<Rightarrow> string list \<Rightarrow> cp \<Rightarrow> agent_command list \<times> cp" where
  "take_commands now nid [] s = ([], s)"
| "take_commands now nid (i # is) s =
     (let (cs, s1) = take_command now nid i s; (ds, s2) = take_commands now nid is s1 in (cs @ ds, s2))"

text \<open>Other requests run between the selection of the candidates and the updates: \<open>rival\<close>.\<close>

definition poll_commands :: "agent_host \<Rightarrow> (cp \<Rightarrow> cp) \<Rightarrow> string option \<Rightarrow> cp \<Rightarrow> (response + agent_command list) \<times> cp" where
  "poll_commands a rival authorization s =
     (case agentIdentity a authorization s of
        None \<Rightarrow> (Inl unauthenticated, s)
      | Some node \<Rightarrow>
          apfst Inr (take_commands (clock s) (n_id node)
            (map c_id (filter (deliverable (clock s) (n_id node)) (t_commands s))) (rival s)))"

end
