(* ===== verification/AgentReports.thy ===== *)
theory AgentReports
  imports AgentApi
begin

text \<open>
  The node routes of \<open>apps/api/src/routes/nodes.routes.ts\<close>, second half: what agents ask for (secrets, registry
  credentials, their workloads) and report (telemetry, metrics, command results), with the write of
  \<open>features/metrics/postgres-provider.ts\<close>. A statement that a unique index rejects ends the handler with what it wrote
  before: only the replacement of observed ports runs in a transaction. \<open>Number\<close> of a digit string is its value (a
  configured port is at most 65535, far below the rounding of doubles).
\<close>

subsection \<open>Observed ports\<close>

definition exposures :: "(string \<times> exposure) list" where
  "exposures = [(''private'', Private), (''public'', Public)]"

record configured_port =
  cf_containerPort :: int
  cf_protocol :: "port_protocol option"
  cf_exposure :: "exposure option"

definition configured_port_schema :: "json \<Rightarrow> configured_port option" where
  "configured_port_schema j =
     Option.bind (z_object j) (\<lambda>j.
     Option.bind (z_req (z_int tcp_port) ''containerPort'' j) (\<lambda>cp.
     Option.bind (z_opt (z_enum protocols) ''protocol'' j) (\<lambda>pr.
     Option.bind (z_opt (z_enum exposures) ''exposure'' j) (\<lambda>ex.
       Some \<lparr>cf_containerPort = cp, cf_protocol = pr, cf_exposure = ex\<rparr>))))"

definition configuredPortsSchema :: "json \<Rightarrow> configured_port list option" where
  "configuredPortsSchema j = Option.bind (z_object j) (z_default (z_array configured_port_schema) [] ''ports'')"

text \<open>\<open>/^(\d+)\/(tcp|udp)$/\<close>\<close>

definition port_key :: "string \<Rightarrow> (int \<times> port_protocol) option" where
  "port_key k =
     (case split_on CHR ''/'' k of
        [n, p] \<Rightarrow> if n \<noteq> [] \<and> list_all is_digit n then map_option (Pair (int (digits_value n))) (map_of protocols p) else None
      | _ \<Rightarrow> None)"

definition observed_port :: "configured_port list \<Rightarrow> string \<Rightarrow> string \<Rightarrow> int \<Rightarrow> string \<times> int \<Rightarrow> workload_port list" where
  "observed_port configured nid wid now kv =
     (case port_key (fst kv) of
        None \<Rightarrow> []
      | Some (cport, pr) \<Rightarrow>
          (case List.find (\<lambda>i. cf_containerPort i = cport \<and> or_else (cf_protocol i) Tcp = pr) configured of
             None \<Rightarrow> []
           | Some cf \<Rightarrow>
               if or_else (cf_exposure cf) Private \<noteq> Public then []
               else [\<lparr>wp_workloadId = wid, wp_nodeId = Some nid, wp_containerPort = cport, wp_hostPort = snd kv,
                      wp_protocol = pr, wp_exposure = Public, wp_bindAddress = Some ''0.0.0.0'', wp_status = Bound,
                      wp_observedAt = now, wp_createdAt = now, wp_updatedAt = now\<rparr>]))"

definition port_slot :: "workload_port \<Rightarrow> string \<times> int \<times> port_protocol" where
  "port_slot p = (wp_workloadId p, wp_containerPort p, wp_protocol p)"

fun insert_ports :: "workload_port list \<Rightarrow> workload_port list \<Rightarrow> workload_port list option" where
  "insert_ports [] t = Some t"
| "insert_ports (p # ps) t = (if port_slot p \<in> port_slot ` set t then None else insert_ports ps (t @ [p]))"

definition replaceObservedWorkloadPorts :: "string \<Rightarrow> string \<Rightarrow> (string \<times> int) list \<Rightarrow> cp \<Rightarrow> exn option \<times> cp" where
  "replaceObservedWorkloadPorts nid wid ports s =
     (case List.find (\<lambda>w. w_id w = wid \<and> w_nodeId w = Some nid) (t_workloads s) of
        None \<Rightarrow> (None, s)
      | Some w \<Rightarrow>
          (let configured = or_else (Option.bind (find_deployment (w_deploymentId w) s) (\<lambda>d. configuredPortsSchema (d_runtimeConfig d))) [];
               observed = concat (map (observed_port configured nid wid (clock s)) ports)
           in case insert_ports observed (del_where (\<lambda>p. wp_workloadId p = wid) (t_workloadPorts s)) of
                None \<Rightarrow> (Some Unique_violation, s)
              | Some t \<Rightarrow> (None, s\<lparr>t_workloadPorts := t\<rparr>)))"

subsection \<open>Secrets and credentials\<close>

definition target_key :: "string \<Rightarrow> bool" where
  "target_key k \<longleftrightarrow> k \<noteq> [] \<and> length k \<le> 128 \<and> (is_upper (hd k) \<or> hd k = CHR ''_'')
     \<and> list_all (\<lambda>c. is_upper c \<or> is_digit c \<or> c = CHR ''_'') k"

definition secret_reference :: "(string \<Rightarrow> bool) \<Rightarrow> json \<Rightarrow> (string \<times> string) option" where
  "secret_reference zuuid j =
     Option.bind (z_object j) (\<lambda>j.
     Option.bind (z_req (z_string_where target_key) ''targetKey'' j) (\<lambda>k.
     Option.bind (z_req (z_string_where zuuid) ''secretEnvironmentVariableId'' j) (\<lambda>i. Some (k, i))))"

text \<open>\<open>typeof snapshot?.key === "string" ? snapshot.key : null\<close>\<close>

definition snapshot_string :: "string \<Rightarrow> json option \<Rightarrow> string option" where
  "snapshot_string k snapshot = Option.bind (Option.bind snapshot (jget k)) z_string"

definition secret_references :: "host \<Rightarrow> json option \<Rightarrow> (string \<times> string) list option" where
  "secret_references h snapshot =
     z_array (secret_reference (h_zodUuid h))
       (case Option.bind snapshot (jget ''secretReferences'') of None \<Rightarrow> JArr [] | Some JNull \<Rightarrow> JArr [] | Some j \<Rightarrow> j)"

text \<open>The rows an agent's request walks through: its workload, that workload's deployment and its application.\<close>

definition with_workload ::
  "agent_host \<Rightarrow> string option \<Rightarrow> string \<Rightarrow> (workload \<Rightarrow> deployment \<Rightarrow> application \<Rightarrow> (exn + response)) \<Rightarrow> cp \<Rightarrow> exn + response" where
  "with_workload a authorization wid handler s =
     (case agentIdentity a authorization s of None \<Rightarrow> Inr unauthenticated | Some node \<Rightarrow>
     (case List.find (\<lambda>w. w_id w = wid \<and> w_nodeId w = Some (n_id node)) (t_workloads s) of
        None \<Rightarrow> Inr (Problem 404 ''Workload not found'') | Some w \<Rightarrow>
     (case find_deployment (w_deploymentId w) s of None \<Rightarrow> Inr (Problem 404 ''Deployment not found'') | Some d \<Rightarrow>
     (case List.find (\<lambda>ap. a_id ap = d_applicationId d) (t_applications s) of
        None \<Rightarrow> Inr (Problem 404 ''Application not found'') | Some ap \<Rightarrow> handler w d ap))))"

text \<open>The secrets the deployment's environment really has, by id.\<close>

definition referenced_secrets :: "string \<Rightarrow> (string \<times> string) list \<Rightarrow> cp \<Rightarrow> (string \<times> string) list" where
  "referenced_secrets env refs s =
     map (\<lambda>v. (ev_id v, ev_valueEncrypted v))
       (filter (\<lambda>v. ev_id v \<in> snd ` set refs \<and> ev_environmentId v = env \<and> ev_isSecret v) (t_environmentVariables s))"

definition decrypted :: "agent_host \<Rightarrow> (string \<times> string) list \<Rightarrow> string \<times> string \<Rightarrow> (string \<times> string) option" where
  "decrypted a byId r = Option.bind (map_of byId (snd r)) (\<lambda>v. map_option (Pair (fst r)) (ah_decrypt a v))"

definition workload_secrets :: "host \<Rightarrow> agent_host \<Rightarrow> string option \<Rightarrow> string \<Rightarrow> cp \<Rightarrow> exn + response" where
  "workload_secrets h a authorization wid s =
     with_workload a authorization wid (\<lambda>w d ap.
       (let env = snapshot_string ''environmentId'' (d_configurationSnapshot d);
            refs = or_else (secret_references h (d_configurationSnapshot d)) [] in
        if \<not> truthy env \<or> refs = [] then Inr (Reply 200 (JObj [(''environment'', JObj [])]))
        else
          (let byId = referenced_secrets (the env) refs s in
           case those (map (decrypted a byId) (filter (\<lambda>r. snd r \<in> fst ` set byId) refs)) of
             None \<Rightarrow> Inl (Js_error ''Decryption failed'')
           | Some kvs \<Rightarrow> Inr (Reply 200 (JObj [(''environment'',
                JObj (fold (\<lambda>kv. AList.update (fst kv) (JStr (snd kv))) kvs []))]))))) s"

definition credentials_schema :: "json \<Rightarrow> (string \<times> string) option" where
  "credentials_schema j =
     Option.bind (z_object j) (\<lambda>j.
     Option.bind (z_req (z_sized 1 512) ''username'' j) (\<lambda>u.
     Option.bind (z_req (z_sized 1 4096) ''password'' j) (\<lambda>p. Some (u, p))))"

definition registry_credential :: "string \<Rightarrow> string \<Rightarrow> cp \<Rightarrow> environment_variable option" where
  "registry_credential reference projectId s =
     List.find (\<lambda>v. ev_id v = reference \<and> ev_isSecret v
         \<and> list_ex (\<lambda>e. pe_id e = ev_environmentId v \<and> pe_projectId e = projectId) (t_environments s))
       (t_environmentVariables s)"

definition workload_registry_credentials :: "agent_host \<Rightarrow> string option \<Rightarrow> string \<Rightarrow> cp \<Rightarrow> exn + response" where
  "workload_registry_credentials a authorization wid s =
     with_workload a authorization wid (\<lambda>w d ap.
       (let reference = snapshot_string ''registryCredentialReference'' (d_configurationSnapshot d) in
        if \<not> truthy reference then Inr (Reply 200 (JObj [(''credentials'', JNull)]))
        else (case registry_credential (the reference) (a_projectId ap) s of
                None \<Rightarrow> Inr (Problem 409 ''Registry credential is unavailable'')
              | Some v \<Rightarrow>
                  (case Option.bind (Option.bind (ah_decrypt a (ev_valueEncrypted v)) (ah_json a)) credentials_schema of
                     None \<Rightarrow> Inr (Problem 409 ''Registry credential must contain JSON username and password fields'')
                   | Some (u, p) \<Rightarrow> Inr (Reply 200 (JObj [(''credentials'', JObj [(''username'', JStr u), (''password'', JStr p)])])))))) s"

text \<open>The cast \<open>->>'cpuMilli'::integer\<close> reads the stored requirements.\<close>

definition agent_workloads :: "agent_host \<Rightarrow> string option \<Rightarrow> cp \<Rightarrow> response + (string \<times> int option \<times> int) list" where
  "agent_workloads a authorization s =
     (case agentIdentity a authorization s of
        None \<Rightarrow> Inl unauthenticated
      | Some node \<Rightarrow> Inr (concat (map (\<lambda>w. map (\<lambda>d.
            (w_id w, Option.bind (jget ''cpuMilli'' (d_requirements d)) (z_int (\<lambda>_. True)), w_reportGeneration w))
          (filter (\<lambda>d. d_id d = w_deploymentId w) (t_deployments s)))
          (filter (\<lambda>w. w_nodeId w = Some (n_id node) \<and> w_desiredState w = WantRunning) (t_workloads s)))))"

subsection \<open>Telemetry\<close>

record telemetry_report =
  tr_workloadId :: string
  tr_reportGeneration :: int
  tr_actualState :: actual_state
  tr_healthStatus :: health_status
  tr_healthMessage :: "string option"
  tr_observedAt :: int
  tr_ports :: "(string \<times> int) list option"

definition reportedPortsInput :: "json \<Rightarrow> (string \<times> int) list option" where
  "reportedPortsInput = z_record (z_int tcp_port)"

definition z_datetime :: "agent_host \<Rightarrow> json \<Rightarrow> int option" where
  "z_datetime a j = Option.bind (z_string j) (ah_datetime a)"

definition telemetry_report_schema :: "host \<Rightarrow> agent_host \<Rightarrow> json \<Rightarrow> telemetry_report option" where
  "telemetry_report_schema h a j =
     Option.bind (z_object j) (\<lambda>j.
     Option.bind (z_req (z_string_where (h_zodUuid h)) ''workloadId'' j) (\<lambda>w.
     Option.bind (z_req (z_int (\<lambda>i. 0 < i)) ''reportGeneration'' j) (\<lambda>g.
     Option.bind (z_req (z_enum [(''running'', ActRunning), (''stopped'', ActStopped), (''failed'', ActFailed),
        (''unknown'', ActUnknown)]) ''actualState'' j) (\<lambda>st.
     Option.bind (z_req (z_enum [(''none'', HNone), (''starting'', HStarting), (''healthy'', HHealthy),
        (''unhealthy'', HUnhealthy)]) ''healthStatus'' j) (\<lambda>hs.
     Option.bind (z_opt (z_trimmed 1 1000) ''healthMessage'' j) (\<lambda>msg.
     Option.bind (z_req (z_datetime a) ''observedAt'' j) (\<lambda>t.
     Option.bind (z_opt reportedPortsInput ''ports'' j) (\<lambda>ports.
       Some \<lparr>tr_workloadId = w, tr_reportGeneration = g, tr_actualState = st, tr_healthStatus = hs,
             tr_healthMessage = msg, tr_observedAt = t, tr_ports = ports\<rparr>))))))))"

definition workloadTelemetryInput :: "host \<Rightarrow> agent_host \<Rightarrow> json \<Rightarrow> telemetry_report list option" where
  "workloadTelemetryInput h a j =
     Option.bind (z_object j) (z_req (z_items 1 500 (telemetry_report_schema h a)) ''reports'')"

definition report_in_window :: "int \<Rightarrow> telemetry_report \<Rightarrow> bool" where
  "report_in_window now r \<longleftrightarrow> now - 5 * 60000 \<le> tr_observedAt r \<and> tr_observedAt r \<le> now + 60000"

definition owned_workloads :: "string \<Rightarrow> string list \<Rightarrow> cp \<Rightarrow> workload list" where
  "owned_workloads nid ids s = filter (\<lambda>w. w_id w \<in> set ids \<and> w_nodeId w = Some nid) (t_workloads s)"

definition previous_state :: "workload list \<Rightarrow> telemetry_report \<Rightarrow> workload option" where
  "previous_state owned r = List.find (\<lambda>w. w_id w = tr_workloadId r) owned"

definition stale_generation :: "workload list \<Rightarrow> telemetry_report \<Rightarrow> bool" where
  "stale_generation owned r \<longleftrightarrow> map_option w_reportGeneration (previous_state owned r) \<noteq> Some (tr_reportGeneration r)"

definition checked_before :: "int \<Rightarrow> workload \<Rightarrow> bool" where
  "checked_before t w \<longleftrightarrow> (case w_healthCheckedAt w of None \<Rightarrow> True | Some u \<Rightarrow> u < t)"

definition outdated :: "workload list \<Rightarrow> telemetry_report \<Rightarrow> bool" where
  "outdated owned r \<longleftrightarrow>
     (case previous_state owned r of None \<Rightarrow> False | Some w \<Rightarrow> \<not> checked_before (tr_observedAt r) w)"

definition reported_by :: "string \<Rightarrow> telemetry_report \<Rightarrow> workload \<Rightarrow> bool" where
  "reported_by nid r w \<longleftrightarrow> w_id w = tr_workloadId r \<and> w_nodeId w = Some nid
     \<and> w_reportGeneration w = tr_reportGeneration r \<and> checked_before (tr_observedAt r) w"

definition apply_report :: "telemetry_report \<Rightarrow> workload option \<Rightarrow> int \<Rightarrow> workload \<Rightarrow> workload" where
  "apply_report r prior now w =
     (let w1 = w\<lparr>w_actualState := tr_actualState r, w_healthStatus := tr_healthStatus r,
                 w_healthMessage := tr_healthMessage r,
                 w_healthFailureCount := (if tr_healthStatus r = HUnhealthy then w_healthFailureCount w + 1 else 0),
                 w_healthCheckedAt := Some (tr_observedAt r), w_lastReportedAt := Some now\<rparr>;
          w2 = (if tr_healthStatus r = HHealthy then w1\<lparr>w_lastHealthyAt := Some (tr_observedAt r)\<rparr> else w1);
          w3 = (if map_option w_healthStatus prior \<noteq> Some (tr_healthStatus r) then w2\<lparr>w_healthChangedAt := Some now\<rparr> else w2)
      in case tr_ports r of None \<Rightarrow> w3 | Some ps \<Rightarrow> w3\<lparr>w_publishedPorts := ps\<rparr>)"

definition store_report :: "string \<Rightarrow> workload list \<Rightarrow> telemetry_report \<Rightarrow> cp \<Rightarrow> exn option \<times> cp" where
  "store_report nid owned r s =
     (let s1 = update_workloads (reported_by nid r) (apply_report r (previous_state owned r) (clock s)) s in
      case tr_ports r of None \<Rightarrow> (None, s1) | Some ps \<Rightarrow> replaceObservedWorkloadPorts nid (tr_workloadId r) ps s1)"

text \<open>\<open>Promise.all\<close>: every report is stored, the first exception is the batch's.\<close>

fun store_reports :: "string \<Rightarrow> workload list \<Rightarrow> telemetry_report list \<Rightarrow> cp \<Rightarrow> exn option \<times> cp" where
  "store_reports nid owned [] s = (None, s)"
| "store_reports nid owned (r # rs) s =
     (let (e, s1) = store_report nid owned r s; (e', s2) = store_reports nid owned rs s1
      in (case e of None \<Rightarrow> e' | Some _ \<Rightarrow> e, s2))"

definition refresh_all :: "host \<Rightarrow> string list \<Rightarrow> cp \<Rightarrow> cp" where
  "refresh_all h dids s = fold (\<lambda>did t. snd (refreshDeploymentStatus h did t)) dids s"

definition accept_telemetry :: "host \<Rightarrow> node \<Rightarrow> telemetry_report list \<Rightarrow> cp \<Rightarrow> (exn + response) \<times> cp" where
  "accept_telemetry h node reports s =
     (if list_ex (\<lambda>r. \<not> report_in_window (clock s) r) reports
      then (Inr (Problem 400 ''Health timestamp is outside the accepted window''), s)
      else
        (let ids = js_uniq (map tr_workloadId reports); owned = owned_workloads (n_id node) ids s in
         if length ids \<noteq> length reports
         then (Inr (Problem 400 ''A telemetry batch may contain each workload only once''), s)
         else if length owned \<noteq> length ids
         then (Inr (Problem 403 ''Telemetry batch contains a workload not assigned to this node''), s)
         else if list_ex (stale_generation owned) reports
         then (Inr (Problem 409 ''Telemetry report generation is stale''), s)
         else if list_ex (outdated owned) reports
         then (Inr (Problem 409 ''Telemetry report is older than the current workload state''), s)
         else
           (case store_reports (n_id node) owned reports s of
              (Some e, s1) \<Rightarrow> (Inl e, s1)
            | (None, s1) \<Rightarrow>
                (Inr (Reply 200 (JObj [(''accepted'', JNum (of_nat (length reports)))])),
                 refresh_all h (js_uniq (map w_deploymentId (owned_workloads (n_id node) (map tr_workloadId reports) s1))) s1))))"

definition telemetry :: "host \<Rightarrow> agent_host \<Rightarrow> string option \<Rightarrow> json option \<Rightarrow> cp \<Rightarrow> (exn + response) \<times> cp" where
  "telemetry h a authorization body =
     agent_request a authorization (workloadTelemetryInput h a) ''Invalid workload telemetry'' body (accept_telemetry h)"

subsection \<open>Metrics\<close>

record metric_sample =
  ms_workloadId :: string
  ms_recordedAt :: int
  ms_cpuUsagePercent :: "rat option"
  ms_memoryUsageBytes :: rat
  ms_memoryLimitBytes :: "rat option"
  ms_networkRxBytes :: rat
  ms_networkTxBytes :: rat
  ms_diskReadBytes :: rat
  ms_diskWriteBytes :: rat

definition metricNumber :: "json \<Rightarrow> rat option" where
  "metricNumber = z_number (\<lambda>x. 0 \<le> x \<and> x \<le> 9007199254740991)"

definition metric_sample_schema :: "host \<Rightarrow> agent_host \<Rightarrow> json \<Rightarrow> metric_sample option" where
  "metric_sample_schema h a j =
     Option.bind (z_object j) (\<lambda>j.
     Option.bind (z_req (z_string_where (h_zodUuid h)) ''workloadId'' j) (\<lambda>w.
     Option.bind (z_req (z_datetime a) ''recordedAt'' j) (\<lambda>t.
     Option.bind (z_req (z_nullable (z_number (\<lambda>x. 0 \<le> x \<and> x \<le> 10000))) ''cpuUsagePercent'' j) (\<lambda>cpu.
     Option.bind (z_req metricNumber ''memoryUsageBytes'' j) (\<lambda>mu.
     Option.bind (z_req (z_nullable metricNumber) ''memoryLimitBytes'' j) (\<lambda>ml.
     Option.bind (z_req metricNumber ''networkRxBytes'' j) (\<lambda>rx.
     Option.bind (z_req metricNumber ''networkTxBytes'' j) (\<lambda>tx.
     Option.bind (z_req metricNumber ''diskReadBytes'' j) (\<lambda>dr.
     Option.bind (z_req metricNumber ''diskWriteBytes'' j) (\<lambda>dw.
       Some \<lparr>ms_workloadId = w, ms_recordedAt = t, ms_cpuUsagePercent = cpu, ms_memoryUsageBytes = mu,
             ms_memoryLimitBytes = ml, ms_networkRxBytes = rx, ms_networkTxBytes = tx, ms_diskReadBytes = dr,
             ms_diskWriteBytes = dw\<rparr>))))))))))"

definition workloadMetricsInput :: "host \<Rightarrow> agent_host \<Rightarrow> json \<Rightarrow> metric_sample list option" where
  "workloadMetricsInput h a j = Option.bind (z_object j) (z_req (z_items 1 500 (metric_sample_schema h a)) ''samples'')"

definition sample_in_window :: "int \<Rightarrow> metric_sample \<Rightarrow> bool" where
  "sample_in_window now m \<longleftrightarrow> now - 8 * 24 * 60 * 60000 \<le> ms_recordedAt m \<and> ms_recordedAt m \<le> now + 5 * 60000"

text \<open>The byte columns are \<open>bigint\<close>: a fraction is an SQL error.\<close>

definition bigint :: "rat \<Rightarrow> int option" where
  "bigint x = (if of_int \<lfloor>x\<rfloor> = x then Some \<lfloor>x\<rfloor> else None)"

definition metric_row :: "string \<Rightarrow> int \<Rightarrow> metric_sample \<Rightarrow> workload_metric option" where
  "metric_row nid now m =
     (case (those (map bigint ([ms_memoryUsageBytes m, ms_networkRxBytes m, ms_networkTxBytes m, ms_diskReadBytes m,
               ms_diskWriteBytes m] @ (case ms_memoryLimitBytes m of None \<Rightarrow> [] | Some x \<Rightarrow> [x])))) of
        Some (mu # rx # tx # dr # dw # ml) \<Rightarrow>
          Some \<lparr>m_workloadId = ms_workloadId m, m_nodeId = nid, m_recordedAt = ms_recordedAt m,
            m_cpuUsagePercent = ms_cpuUsagePercent m, m_memoryUsageBytes = mu,
            m_memoryLimitBytes = (case ml of [] \<Rightarrow> None | x # _ \<Rightarrow> Some x), m_networkRxBytes = rx, m_networkTxBytes = tx,
            m_diskReadBytes = dr, m_diskWriteBytes = dw, m_createdAt = now\<rparr>
      | _ \<Rightarrow> None)"

definition same_sample :: "workload_metric \<Rightarrow> workload_metric \<Rightarrow> bool" where
  "same_sample m n \<longleftrightarrow> m_workloadId m = m_workloadId n \<and> m_recordedAt m = m_recordedAt n"

text \<open>\<open>onConflictDoNothing\<close> under the unique index on workload and time.\<close>

fun insert_metrics :: "workload_metric list \<Rightarrow> workload_metric list \<Rightarrow> workload_metric list" where
  "insert_metrics [] t = t"
| "insert_metrics (m # ms) t = insert_metrics ms (if list_ex (same_sample m) t then t else t @ [m])"

definition write_metrics :: "workload_metric list \<Rightarrow> cp \<Rightarrow> cp" where
  "write_metrics ms s = (if ms = [] then s else s\<lparr>t_metrics := insert_metrics ms (t_metrics s)\<rparr>)"

definition accept_metrics :: "node \<Rightarrow> metric_sample list \<Rightarrow> cp \<Rightarrow> (exn + response) \<times> cp" where
  "accept_metrics node samples s =
     (if list_ex (\<lambda>m. \<not> sample_in_window (clock s) m) samples
      then (Inr (Problem 400 ''Metric timestamp is outside the accepted window''), s)
      else
        (let ids = js_uniq (map ms_workloadId samples) in
         if length (owned_workloads (n_id node) ids s) \<noteq> length ids
         then (Inr (Problem 403 ''Metric batch contains a workload not assigned to this node''), s)
         else (case those (map (metric_row (n_id node) (clock s)) samples) of
                 None \<Rightarrow> (Inl (Js_error ''invalid input syntax for type bigint''), s)
               | Some rows \<Rightarrow> (Inr (Reply 202 (JObj [(''accepted'', JNum (of_nat (length samples)))])), write_metrics rows s))))"

definition report_metrics :: "host \<Rightarrow> agent_host \<Rightarrow> string option \<Rightarrow> json option \<Rightarrow> cp \<Rightarrow> (exn + response) \<times> cp" where
  "report_metrics h a authorization body =
     agent_request a authorization (workloadMetricsInput h a) ''Invalid workload metrics'' body accept_metrics"

text \<open>Retention: the oldest expired rows go first, at most a batch of them.\<close>

definition deleteExpired :: "int \<Rightarrow> nat \<Rightarrow> cp \<Rightarrow> nat \<times> cp" where
  "deleteExpired before batchSize s =
     (let candidates = take batchSize (sort_key m_recordedAt (filter (\<lambda>m. m_recordedAt m < before) (t_metrics s))) in
      (length candidates, s\<lparr>t_metrics := del_where (\<lambda>m. m \<in> set candidates) (t_metrics s)\<rparr>))"

end
