(* ===== verification/AgentResults.thy ===== *)
theory AgentResults
  imports AgentReports
begin

text \<open>
  \<open>POST /api/agents/commands/results\<close> of \<open>apps/api/src/routes/nodes.routes.ts\<close>: an agent reports what became of a
  command. The statements run one after the other outside a transaction, so an exception (the unique index of active
  port owners, or of observed ports) leaves what was written before it.
\<close>

record command_result =
  cr_commandId :: string
  cr_succeeded :: bool
  cr_data :: "json option"
  cr_error :: "(string \<times> string) option"

definition error_schema :: "json \<Rightarrow> (string \<times> string) option" where
  "error_schema j =
     Option.bind (z_object j) (\<lambda>j.
     Option.bind (z_req (z_sized 1 100) ''code'' j) (\<lambda>c.
     Option.bind (z_req (z_sized 1 1000) ''message'' j) (\<lambda>m. Some (c, m))))"

definition commandResultInput :: "host \<Rightarrow> json \<Rightarrow> command_result option" where
  "commandResultInput h j =
     Option.bind (z_object j) (\<lambda>j.
     Option.bind (z_req (z_string_where (h_zodUuid h)) ''commandId'' j) (\<lambda>i.
     Option.bind (z_req (z_enum [(''succeeded'', True), (''failed'', False)]) ''status'' j) (\<lambda>ok.
     Option.bind (z_opt error_schema ''error'' j) (\<lambda>err.
       if \<not> ok \<and> err = None then None
       else Some \<lparr>cr_commandId = i, cr_succeeded = ok, cr_data = jget ''data'' j, cr_error = err\<rparr>))))"

definition error_json :: "string \<times> string \<Rightarrow> json" where
  "error_json e = JObj [(''code'', JStr (fst e)), (''message'', JStr (snd e))]"

definition result_json :: "command_result \<Rightarrow> json" where
  "result_json r = JObj ([(''commandId'', JStr (cr_commandId r)),
      (''status'', JStr (if cr_succeeded r then ''succeeded'' else ''failed''))]
    @ jopt ''data'' (cr_data r) @ jopt ''error'' (map_option error_json (cr_error r)))"

definition result_status :: "command_result \<Rightarrow> command_status" where
  "result_status r = (if cr_succeeded r then CmdSucceeded else CmdFailed)"

text \<open>The answer of a started container: its id and the host ports it got.\<close>

definition runtimeResult :: "json option \<Rightarrow> (string \<times> (string \<times> int) list option) option" where
  "runtimeResult d =
     Option.bind d (\<lambda>j.
     Option.bind (z_object j) (\<lambda>j.
     Option.bind (z_req (z_sized 1 500) ''runtimeId'' j) (\<lambda>i.
     Option.bind (z_opt reportedPortsInput ''ports'' j) (\<lambda>ports. Some (i, ports)))))"

definition claimed_by :: "node \<Rightarrow> command_result \<Rightarrow> agent_command \<Rightarrow> bool" where
  "claimed_by node r c \<longleftrightarrow> c_id c = cr_commandId r \<and> c_nodeId c = n_id node \<and> c_status c = CmdDelivered"

definition finish_command :: "command_result \<Rightarrow> int \<Rightarrow> agent_command \<Rightarrow> agent_command" where
  "finish_command r now c = c\<lparr>c_status := result_status r, c_result := Some (result_json r), c_completedAt := Some now\<rparr>"

definition invalid_result :: "command_result \<Rightarrow> json" where
  "invalid_result r = JObj ([(''commandId'', JStr (cr_commandId r)), (''status'', JStr ''failed'')] @ jopt ''data'' (cr_data r)
     @ [(''error'', error_json (''INVALID_RUNTIME_RESULT'', ''Successful workload.start results require a runtime ID''))])"

definition update_game_servers :: "(game_server \<Rightarrow> bool) \<Rightarrow> (game_server \<Rightarrow> game_server) \<Rightarrow> cp \<Rightarrow> cp" where
  "update_game_servers P f s =
     s\<lparr>t_gameServers := upd_where P (\<lambda>g. (f g)\<lparr>gs_updatedAt := clock s\<rparr>) (t_gameServers s)\<rparr>"

text \<open>An update of the reservations that the index of active owners may reject.\<close>

definition owner_slots :: "port_reservation list \<Rightarrow> (string \<times> int \<times> port_protocol) list" where
  "owner_slots rs = map (\<lambda>r. (r_nodeId r, r_hostPort r, r_protocol r)) (filter active_reservation rs)"

definition settle_reservations :: "string \<Rightarrow> bool \<Rightarrow> cp \<Rightarrow> exn option \<times> cp" where
  "settle_reservations wid bound s =
     (let s1 = update_reservations (\<lambda>r. r_workloadId r = wid)
                 (\<lambda>r. if bound then r\<lparr>r_status := Bound, r_boundAt := Some (clock s), r_releasedAt := None\<rparr>
                      else r\<lparr>r_status := Released, r_releasedAt := Some (clock s)\<rparr>) s
      in if distinct (owner_slots (t_reservations s1)) then (None, s1) else (Some Unique_violation, s))"

text \<open>\<open>workload.start\<close>\<close>

definition start_reason :: "command_result \<Rightarrow> string option" where
  "start_reason r =
     (if cr_succeeded r \<and> runtimeResult (cr_data r) \<noteq> None then None
      else if runtimeResult (cr_data r) \<noteq> None
      then Some (case cr_error r of Some (code, _) \<Rightarrow> code | None \<Rightarrow> ''AGENT_START_FAILED'')
      else Some ''INVALID_RUNTIME_RESULT'')"

definition started_workload :: "(string \<times> (string \<times> int) list option) option \<Rightarrow> int \<Rightarrow> workload \<Rightarrow> workload" where
  "started_workload started now w =
     (case started of
        None \<Rightarrow> w\<lparr>w_actualState := ActFailed, w_lastReportedAt := Some now\<rparr>
      | Some (rid, ports) \<Rightarrow>
          (let w1 = w\<lparr>w_actualState := ActRunning, w_runtimeId := Some rid, w_lastReportedAt := Some now\<rparr>
           in case ports of None \<Rightarrow> w1 | Some ps \<Rightarrow> w1\<lparr>w_publishedPorts := ps\<rparr>))"

definition mark_game_servers :: "string \<Rightarrow> (string \<times> (string \<times> int) list option) option \<Rightarrow> cp \<Rightarrow> cp" where
  "mark_game_servers app started s =
     update_game_servers (\<lambda>g. gs_applicationId g = Some app)
       (\<lambda>g. case started of
          None \<Rightarrow> g\<lparr>gs_status := GsFailed\<rparr>
        | Some (_, ports) \<Rightarrow>
            (case Option.bind ports (\<lambda>ps. map_of ps ''25565/tcp'') of
               None \<Rightarrow> g\<lparr>gs_status := GsRunning\<rparr>
             | Some p \<Rightarrow> g\<lparr>gs_status := GsRunning, gs_runtimePort := Some p\<rparr>)) s"

definition announce_start ::
  "host \<Rightarrow> node \<Rightarrow> command_result \<Rightarrow> (string \<times> (string \<times> int) list option) option \<Rightarrow> workload \<Rightarrow> cp \<Rightarrow> cp" where
  "announce_start h node r started w s =
     (let s1 = log_event h (w_deploymentId w) (if started \<noteq> None then ''workload.started'' else ''workload.start_failed'')
                 (if started \<noteq> None then ''Workload started on agent'' else ''Agent failed to start workload'')
                 (\<lambda>e. e\<lparr>e_workloadId := Some (w_id w), e_nodeId := Some (n_id node), e_reason := start_reason r\<rparr>) s;
          s2 = (case find_deployment (w_deploymentId w) s1 of
                  None \<Rightarrow> s1
                | Some d \<Rightarrow> mark_game_servers (d_applicationId d) started s1)
      in snd (refreshDeploymentStatus h (w_deploymentId w) s2))"

definition reject_start :: "agent_command \<Rightarrow> command_result \<Rightarrow> cp \<Rightarrow> cp" where
  "reject_start c r s =
     (if cr_succeeded r \<and> runtimeResult (cr_data r) = None
      then update_commands (\<lambda>q. c_id q = c_id c) (\<lambda>q. q\<lparr>c_status := CmdFailed, c_result := Some (invalid_result r)\<rparr>) s
      else s)"

definition write_start :: "node \<Rightarrow> agent_command \<Rightarrow> (string \<times> (string \<times> int) list option) option \<Rightarrow> cp \<Rightarrow> cp" where
  "write_start node c started s =
     update_workloads (\<lambda>w. w_id w = c_resourceId c \<and> w_nodeId w = Some (n_id node)) (started_workload started (clock s)) s"

definition announce_found ::
  "host \<Rightarrow> node \<Rightarrow> agent_command \<Rightarrow> command_result \<Rightarrow> (string \<times> (string \<times> int) list option) option \<Rightarrow> cp \<Rightarrow> cp" where
  "announce_found h node c r started s =
     (case find_workload (c_resourceId c) s of None \<Rightarrow> s | Some w \<Rightarrow> announce_start h node r started w s)"

definition publish_ports :: "node \<Rightarrow> agent_command \<Rightarrow> (string \<times> (string \<times> int) list option) option \<Rightarrow> cp \<Rightarrow> exn option \<times> cp" where
  "publish_ports node c started s =
     (case Option.bind started snd of
        None \<Rightarrow> (None, s)
      | Some ps \<Rightarrow> replaceObservedWorkloadPorts (n_id node) (c_resourceId c) ps s)"

definition finish_start :: "host \<Rightarrow> node \<Rightarrow> agent_command \<Rightarrow> command_result \<Rightarrow> cp \<Rightarrow> exn option \<times> cp" where
  "finish_start h node c r s =
     (let started = (if cr_succeeded r then runtimeResult (cr_data r) else None);
          s1 = announce_found h node c r started (write_start node c started (reject_start c r s))
      in case publish_ports node c started s1 of
           (Some e, s2) \<Rightarrow> (Some e, s2)
         | (None, s2) \<Rightarrow> settle_reservations (c_resourceId c) (started \<noteq> None) s2)"

text \<open>\<open>workload.stop\<close> and \<open>workload.delete\<close>\<close>

definition write_stop :: "node \<Rightarrow> agent_command \<Rightarrow> command_result \<Rightarrow> cp \<Rightarrow> cp" where
  "write_stop node c r s =
     update_workloads (\<lambda>w. w_id w = c_resourceId c \<and> w_nodeId w = Some (n_id node))
       (\<lambda>w. w\<lparr>w_actualState := (if cr_succeeded r then ActStopped else ActFailed), w_lastReportedAt := Some (clock s)\<rparr>) s"

definition announce_stop :: "host \<Rightarrow> node \<Rightarrow> agent_command \<Rightarrow> command_result \<Rightarrow> cp \<Rightarrow> cp" where
  "announce_stop h node c r s =
     (case find_workload (c_resourceId c) s of
        None \<Rightarrow> s
      | Some w \<Rightarrow> snd (refreshDeploymentStatus h (w_deploymentId w)
          (log_event h (w_deploymentId w) (if cr_succeeded r then ''workload.stopped'' else ''workload.stop_failed'')
            (if cr_succeeded r then ''Workload stopped on agent'' else ''Agent failed to stop workload'')
            (\<lambda>e. e\<lparr>e_workloadId := Some (w_id w), e_nodeId := Some (n_id node)\<rparr>) s)))"

definition finish_stop :: "host \<Rightarrow> node \<Rightarrow> agent_command \<Rightarrow> command_result \<Rightarrow> cp \<Rightarrow> exn option \<times> cp" where
  "finish_stop h node c r s =
     (let s1 = announce_stop h node c r (write_stop node c r s)
      in if cr_succeeded r then settle_reservations (c_resourceId c) False s1 else (None, s1))"

definition finish_by_type :: "host \<Rightarrow> node \<Rightarrow> agent_command \<Rightarrow> command_result \<Rightarrow> cp \<Rightarrow> exn option \<times> cp" where
  "finish_by_type h node c r s =
     (if c_type c = command_type_str WorkloadStart then finish_start h node c r s
      else if c_type c = command_type_str WorkloadStop \<or> c_type c = command_type_str WorkloadDelete
      then finish_stop h node c r s
      else (None, s))"

definition accept_result :: "host \<Rightarrow> node \<Rightarrow> command_result \<Rightarrow> cp \<Rightarrow> (exn + response) \<times> cp" where
  "accept_result h node r s =
     (case List.find (claimed_by node r) (t_commands s) of
        None \<Rightarrow> (Inr (Problem 404 ''Unknown or completed command''), s)
      | Some c \<Rightarrow>
          (case finish_by_type h node c r (update_commands (claimed_by node r) (finish_command r (clock s)) s) of
             (Some e, s1) \<Rightarrow> (Inl e, s1)
           | (None, s1) \<Rightarrow> (Inr NoContent, s1)))"

definition command_results :: "host \<Rightarrow> agent_host \<Rightarrow> string option \<Rightarrow> json option \<Rightarrow> cp \<Rightarrow> (exn + response) \<times> cp" where
  "command_results h a authorization body =
     agent_request a authorization (commandResultInput h) ''Invalid command result'' body (accept_result h)"

end
