(* ===== verification/AgentProperties.thy ===== *)
theory AgentProperties
  imports AgentResults RevisionProperties
begin

text \<open>
  What the agent interface guarantees: an agent reaches only what is assigned to its node, a registration token
  enrols one node however the requests interleave, a command is handed to one poll at a time and finished once,
  telemetry never goes back in time, secrets reach only the agent they were referenced for.
\<close>

subsection \<open>Frames\<close>

lemma update_nodes_frames [simp]:
  "t_workloads (update_nodes P f s) = t_workloads s"
  "t_commands (update_nodes P f s) = t_commands s"
  "t_volumes (update_nodes P f s) = t_volumes s"
  "t_deployments (update_nodes P f s) = t_deployments s"
  "t_builds (update_nodes P f s) = t_builds s"
  "t_metrics (update_nodes P f s) = t_metrics s"
  "clock (update_nodes P f s) = clock s"
  "t_nodes (update_nodes P f s) = upd_where P (\<lambda>n. (f n)\<lparr>n_updatedAt := clock s\<rparr>) (t_nodes s)"
  by (simp_all add: update_nodes_def)

lemma metrics_frames [simp]:
  "t_metrics (update_workloads P1 f1 s) = t_metrics s"
  "t_metrics (update_volumes P2 f2 s) = t_metrics s"
  "t_metrics (update_commands P3 f3 s) = t_metrics s"
  "t_metrics (update_reservations P4 f4 s) = t_metrics s"
  "t_metrics (update_game_servers P5 f5 s) = t_metrics s"
  "t_metrics (log_event h did ty msg f6 s) = t_metrics s"
  "t_metrics (snd (refreshDeploymentStatus h did s)) = t_metrics s"
  by (simp_all add: update_workloads_def update_volumes_def update_commands_def update_reservations_def
      update_game_servers_def log_event_def randomUUID_def refreshDeploymentStatus_def refreshApplicationStatus_def
      update_applications_def update_deployments_def Let_def split: option.split)

lemma builds_frames [simp]:
  "t_builds (update_workloads P1 f1 s) = t_builds s"
  "t_builds (update_volumes P2 f2 s) = t_builds s"
  "t_builds (update_commands P3 f3 s) = t_builds s"
  "t_builds (update_reservations P4 f4 s) = t_builds s"
  by (simp_all add: update_workloads_def update_volumes_def update_commands_def update_reservations_def)

lemma table_frames [simp]:
  "t_nodes (update_commands P f s) = t_nodes s"
  "t_volumes (update_commands P f s) = t_volumes s"
  "t_nodes (update_reservations P1 f1 s) = t_nodes s"
  "t_volumes (update_reservations P1 f1 s) = t_volumes s"
  by (simp_all add: update_commands_def update_reservations_def)

lemma game_server_frames [simp]:
  "t_workloads (update_game_servers P f s) = t_workloads s"
  "t_commands (update_game_servers P f s) = t_commands s"
  "t_volumes (update_game_servers P f s) = t_volumes s"
  "t_nodes (update_game_servers P f s) = t_nodes s"
  "t_deployments (update_game_servers P f s) = t_deployments s"
  "t_builds (update_game_servers P f s) = t_builds s"
  "t_events (update_game_servers P f s) = t_events s"
  "t_reservations (update_game_servers P f s) = t_reservations s"
  "clock (update_game_servers P f s) = clock s"
  by (simp_all add: update_game_servers_def)

lemma filter_upd_where: "(\<And>r. P r \<Longrightarrow> \<not> Q r \<and> \<not> Q (f r)) \<Longrightarrow> filter Q (upd_where P f rs) = filter Q rs"
  by (induction rs) auto

subsection \<open>An agent stays within its node\<close>

text \<open>\<open>confined nid s s'\<close>: between \<open>s\<close> and \<open>s'\<close> no row of another node changed, nor what any deployment wants.\<close>

definition others :: "string \<Rightarrow> cp \<Rightarrow> node list \<times> workload list \<times> agent_command list \<times> volume list \<times> workload_metric list" where
  "others nid s = (filter (\<lambda>n. n_id n \<noteq> nid) (t_nodes s), filter (\<lambda>w. w_nodeId w \<noteq> Some nid) (t_workloads s),
     filter (\<lambda>c. c_nodeId c \<noteq> nid) (t_commands s), filter (\<lambda>v. v_nodeId v \<noteq> Some nid) (t_volumes s),
     filter (\<lambda>m. m_nodeId m \<noteq> nid) (t_metrics s))"

definition confined :: "string \<Rightarrow> cp \<Rightarrow> cp \<Rightarrow> bool" where
  "confined nid s s' \<longleftrightarrow> others nid s' = others nid s \<and> keeps s s'"

lemma confined_refl [simp]: "confined nid s s"
  by (simp add: confined_def)

lemma confined_trans: "confined nid s t \<Longrightarrow> confined nid t u \<Longrightarrow> confined nid s u"
  unfolding confined_def by (auto intro: keeps_trans)

lemma confined_workloads:
  "(\<And>w. P w \<Longrightarrow> w_nodeId w = Some nid \<and> w_nodeId (f w) = Some nid) \<Longrightarrow> confined nid s (update_workloads P f s)"
  by (auto simp: confined_def others_def keeps_def intro!: filter_upd_where)

lemma confined_volumes:
  "(\<And>v. P v \<Longrightarrow> v_nodeId v = Some nid \<and> v_nodeId (f v) = Some nid) \<Longrightarrow> confined nid s (update_volumes P f s)"
  by (auto simp: confined_def others_def keeps_def intro!: filter_upd_where)

lemma confined_nodes:
  "(\<And>n. P n \<Longrightarrow> n_id n = nid \<and> n_id (f n) = nid) \<Longrightarrow> confined nid s (update_nodes P f s)"
  by (auto simp: confined_def others_def keeps_def intro!: filter_upd_where)

lemma confined_commands:
  "(\<And>c. c \<in> set (t_commands s) \<Longrightarrow> P c \<Longrightarrow> c_nodeId c = nid) \<Longrightarrow> (\<And>c. c_nodeId (f c) = c_nodeId c)
     \<Longrightarrow> confined nid s (update_commands P f s)"
proof -
  assume a: "\<And>c. c \<in> set (t_commands s) \<Longrightarrow> P c \<Longrightarrow> c_nodeId c = nid" "\<And>c. c_nodeId (f c) = c_nodeId c"
  have "filter (\<lambda>c. c_nodeId c \<noteq> nid) (upd_where P f cs) = filter (\<lambda>c. c_nodeId c \<noteq> nid) cs"
    if "set cs \<subseteq> set (t_commands s)" for cs
    using that a by (induction cs) auto
  then show ?thesis by (simp add: confined_def others_def keeps_def)
qed

lemma confined_same:
  "t_nodes s' = t_nodes s \<Longrightarrow> t_workloads s' = t_workloads s \<Longrightarrow> t_commands s' = t_commands s \<Longrightarrow> t_volumes s' = t_volumes s
     \<Longrightarrow> t_metrics s' = t_metrics s \<Longrightarrow> t_deployments s' = t_deployments s \<Longrightarrow> t_builds s' = t_builds s \<Longrightarrow> confined nid s s'"
  by (simp add: confined_def others_def keeps_def)

lemma confined_refresh: "confined nid s (snd (refreshDeploymentStatus h did s))"
  by (simp add: confined_def others_def keeps_refresh)

lemma confined_event: "confined nid s (log_event h did ty msg f s)"
  by (rule confined_same) simp_all

lemma confined_game_servers: "confined nid s (update_game_servers P f s)"
  by (rule confined_same) simp_all

lemma confined_reservations: "confined nid s (snd (settle_reservations wid b s))"
  by (rule confined_same) (simp_all add: settle_reservations_def Let_def)

lemma confined_ports: "confined nid s (snd (replaceObservedWorkloadPorts n wid ps s))"
  by (rule confined_same) (simp_all add: replaceObservedWorkloadPorts_def Let_def split: option.split)

lemmas confined_intros = confined_workloads confined_volumes confined_nodes confined_refresh confined_event
  confined_game_servers confined_reservations confined_ports

lemma confined_servers_of:
  "confined nid t (case find_deployment did t of None \<Rightarrow> t | Some d \<Rightarrow> mark_game_servers (d_applicationId d) started t)"
  by (simp add: mark_game_servers_def confined_game_servers split: option.split)

lemma confined_announce: "confined nid s (announce_start h node r started w s)"
  unfolding announce_start_def Let_def
  by (rule confined_trans [OF confined_trans [OF confined_event confined_servers_of] confined_refresh])

lemma started_workload_node [simp]: "w_nodeId (started_workload st now w) = w_nodeId w"
  by (simp add: started_workload_def Let_def split: option.split)

lemma confined_start:
  assumes "\<And>q. q \<in> set (t_commands s) \<Longrightarrow> c_id q = c_id c \<Longrightarrow> c_nodeId q = n_id node"
  shows "confined (n_id node) s (snd (finish_start h node c r s))"
proof -
  let ?st = "if cr_succeeded r then runtimeResult (cr_data r) else None"
  let ?s1 = "announce_found h node c r ?st (write_start node c ?st (reject_start c r s))"
  have "confined (n_id node) s (reject_start c r s)"
    using assms by (auto simp: reject_start_def intro!: confined_commands)
  moreover have "confined (n_id node) t (write_start node c st t)" for t st
    unfolding write_start_def by (rule confined_workloads) simp
  moreover have "confined (n_id node) t (announce_found h node c r st t)" for t st
    by (simp add: announce_found_def confined_announce split: option.split)
  moreover have "confined (n_id node) t (snd (publish_ports node c st t))" for t st
    by (simp add: publish_ports_def confined_ports split: option.split)
  ultimately have c: "confined (n_id node) s (snd (publish_ports node c ?st ?s1))" by (meson confined_trans)
  with confined_trans [OF c confined_reservations] show ?thesis
    unfolding finish_start_def Let_def by (cases "publish_ports node c ?st ?s1") (simp split: option.split)
qed

lemma confined_stop: "confined (n_id node) s (snd (finish_stop h node c r s))"
proof -
  have "confined (n_id node) s (write_stop node c r s)" unfolding write_stop_def by (rule confined_workloads) simp
  moreover have "confined (n_id node) t (announce_stop h node c r t)" for t
    by (simp add: announce_stop_def confined_trans [OF confined_event confined_refresh] split: option.split)
  ultimately have "confined (n_id node) s (announce_stop h node c r (write_stop node c r s))" by (meson confined_trans)
  with confined_trans [OF this confined_reservations] show ?thesis by (simp add: finish_stop_def Let_def)
qed

lemma confined_result:
  assumes "distinct (map c_id (t_commands s))"
  shows "confined (n_id node) s (snd (accept_result h node r s))"
proof (cases "List.find (claimed_by node r) (t_commands s)")
  case None
  then show ?thesis by (simp add: accept_result_def)
next
  case (Some c)
  let ?s = "update_commands (claimed_by node r) (finish_command r (clock s)) s"
  from Some have c: "c \<in> set (t_commands s)" "claimed_by node r c" by (auto dest: find_Some_iff')
  have first: "confined (n_id node) s ?s"
    by (rule confined_commands) (auto simp: claimed_by_def finish_command_def)
  have "c_nodeId q = n_id node" if q: "q \<in> set (t_commands ?s)" "c_id q = c_id c" for q
  proof -
    from q(1) obtain q0 where q0: "q0 \<in> set (t_commands s)" "c_id q0 = c_id q" "c_nodeId q0 = c_nodeId q"
      by (auto simp: set_upd_where finish_command_def)
    with q(2) c(1) assms have "q0 = c" using keyed_unique [of c_id "t_commands s" q0 c] by auto
    with c(2) q0(3) show ?thesis by (simp add: claimed_by_def)
  qed
  then have "confined (n_id node) ?s (snd (finish_by_type h node c r ?s))"
    unfolding finish_by_type_def using confined_start [of ?s c node h r] confined_stop [of node ?s h c r] by simp
  with first have "confined (n_id node) s (snd (finish_by_type h node c r ?s))" by (rule confined_trans)
  then show ?thesis using Some
    by (cases "finish_by_type h node c r ?s") (auto simp: accept_result_def split: option.split)
qed

lemma confined_take: "confined nid s (snd (take_commands now nid is s))"
proof (induction "is" arbitrary: s)
  case Nil
  then show ?case by simp
next
  case (Cons i "is")
  have "confined nid s (update_commands (\<lambda>c. c_id c = i \<and> deliverable now nid c) (deliver now) s)"
    by (rule confined_commands) (auto simp: deliverable_def deliver_def)
  from confined_trans [OF this Cons.IH] show ?case by (simp add: take_command_def Let_def case_prod_unfold)
qed

lemma apply_report_node [simp]: "w_nodeId (apply_report r prior now w) = w_nodeId w" "w_id (apply_report r prior now w) = w_id w"
  by (simp_all add: apply_report_def Let_def split: option.split)

lemma confined_store: "confined nid s (snd (store_report nid owned r s))"
proof -
  have "confined nid s (update_workloads (reported_by nid r) (apply_report r (previous_state owned r) (clock s)) s)"
    by (rule confined_workloads) (simp add: reported_by_def)
  with confined_trans [OF this confined_ports] show ?thesis
    by (simp add: store_report_def Let_def split: option.split)
qed

lemma confined_stores: "confined nid s (snd (store_reports nid owned rs s))"
proof (induction rs arbitrary: s)
  case Nil
  then show ?case by simp
next
  case (Cons r rs)
  from confined_trans [OF confined_store Cons.IH] show ?case by (simp add: Let_def case_prod_unfold)
qed

lemma confined_refresh_all: "confined nid s (refresh_all h dids s)"
  unfolding refresh_all_def
proof (induction dids arbitrary: s)
  case Nil
  then show ?case by simp
next
  case (Cons d dids)
  from confined_trans [OF confined_refresh Cons.IH] show ?case by simp
qed

lemma confined_telemetry: "confined (n_id node) s (snd (accept_telemetry h node rs s))"
proof -
  obtain e t where t: "store_reports (n_id node) (owned_workloads (n_id node) (js_uniq (map tr_workloadId rs)) s) rs s = (e, t)"
    by (cases "store_reports (n_id node) (owned_workloads (n_id node) (js_uniq (map tr_workloadId rs)) s) rs s")
  from confined_stores [of "n_id node" s "owned_workloads (n_id node) (js_uniq (map tr_workloadId rs)) s" rs] t
  have "confined (n_id node) s t" by simp
  with confined_trans [OF this confined_refresh_all] t show ?thesis
    by (simp add: accept_telemetry_def Let_def split: option.split)
qed

lemma insert_metrics_others: "list_all (\<lambda>m. m_nodeId m = nid) ms
    \<Longrightarrow> filter (\<lambda>m. m_nodeId m \<noteq> nid) (insert_metrics ms t) = filter (\<lambda>m. m_nodeId m \<noteq> nid) t"
  by (induction ms arbitrary: t) auto

lemma metric_row_node: "metric_row nid now m = Some r \<Longrightarrow> m_nodeId r = nid"
  by (auto simp: metric_row_def split: option.splits list.splits)

lemma confined_metrics: "confined (n_id node) s (snd (accept_metrics node samples s))"
proof -
  have "filter (\<lambda>m. m_nodeId m \<noteq> n_id node) (insert_metrics rows (t_metrics s))
      = filter (\<lambda>m. m_nodeId m \<noteq> n_id node) (t_metrics s)"
    if rows: "those (map (metric_row (n_id node) (clock s)) samples) = Some rows" for rows
    by (rule insert_metrics_others)
      (auto simp: list_all_iff dest!: those_map_mem [OF rows] metric_row_node)
  then have "confined (n_id node) s (write_metrics rows s)"
    if "those (map (metric_row (n_id node) (clock s)) samples) = Some rows" for rows
    using that by (simp add: write_metrics_def confined_def others_def keeps_def)
  then show ?thesis by (simp add: accept_metrics_def Let_def split: option.split)
qed

lemma confined_request:
  assumes "\<And>node v. confined (n_id node) s (snd (handler node v s))"
  shows "case agentIdentity a auth s of
      None \<Rightarrow> agent_request a auth schema invalid body handler s = (Inr unauthenticated, s)
    | Some node \<Rightarrow> confined (n_id node) s (snd (agent_request a auth schema invalid body handler s))"
  by (simp add: agent_request_def assms split: option.split)

text \<open>The requests of an agent that write.\<close>

datatype agent_call = Heartbeat | Poll | Telemetry | Metrics | CommandResult

definition agent_step :: "host \<Rightarrow> agent_host \<Rightarrow> string option \<Rightarrow> json option \<Rightarrow> agent_call \<Rightarrow> cp \<Rightarrow> cp" where
  "agent_step h a auth body call s =
     (case call of
        Heartbeat \<Rightarrow> snd (heartbeat a auth body s)
      | Poll \<Rightarrow> snd (poll_commands a id auth s)
      | Telemetry \<Rightarrow> snd (telemetry h a auth body s)
      | Metrics \<Rightarrow> snd (report_metrics h a auth body s)
      | CommandResult \<Rightarrow> snd (command_results h a auth body s))"

lemma confined_beat: "confined (n_id node) s (snd (accept_heartbeat node inp s))"
proof -
  let ?s1 = "update_nodes (\<lambda>n. n_id n = n_id node) (beat inp (clock s)) s"
  have 1: "confined (n_id node) s ?s1" by (rule confined_nodes) (simp add: beat_def Let_def)
  have "confined (n_id node) ?s1 (update_volumes (\<lambda>v. v_nodeId v = Some (n_id node) \<and> v_status v = VolUnavailable)
                         (\<lambda>v. v\<lparr>v_status := VolInUse\<rparr>) ?s1)" by (rule confined_volumes) simp
  from confined_trans [OF 1 this] 1 show ?thesis by (simp add: accept_heartbeat_def Let_def)
qed

text \<open>C15. An agent stays within its node. Whatever an agent sends (heartbeat, poll, telemetry, metrics, command
  result, with any body), the rows of every other node, the workloads, commands, volumes and metrics of other nodes
  and what every deployment wants stay as they were; without a valid token nothing changes at all.\<close>

theorem agent_confined:
  assumes "distinct (map c_id (t_commands s))"
  shows "case agentIdentity a auth s of
      None \<Rightarrow> agent_step h a auth body call s = s
    | Some node \<Rightarrow> confined (n_id node) s (agent_step h a auth body call s)"
proof (cases call)
  case Heartbeat
  with confined_request [where handler = "accept_heartbeat" and s = s, OF confined_beat, of a auth heartbeatInput "''Invalid heartbeat''" body]
  show ?thesis by (simp add: agent_step_def heartbeat_def split: option.splits)
next
  case Poll
  then show ?thesis by (simp add: agent_step_def poll_commands_def confined_take split: option.splits)
next
  case Telemetry
  with confined_request [where handler = "accept_telemetry h" and s = s, OF confined_telemetry, of a auth "workloadTelemetryInput h a" "''Invalid workload telemetry''" body]
  show ?thesis by (simp add: agent_step_def telemetry_def split: option.splits)
next
  case Metrics
  with confined_request [where handler = "accept_metrics" and s = s, OF confined_metrics, of a auth "workloadMetricsInput h a" "''Invalid workload metrics''" body]
  show ?thesis by (simp add: agent_step_def report_metrics_def split: option.splits)
next
  case CommandResult
  with confined_request [where handler = "accept_result h" and s = s, OF confined_result [OF assms], of a auth "commandResultInput h" "''Invalid command result''" body]
  show ?thesis by (simp add: agent_step_def command_results_def split: option.splits)
qed

subsection \<open>Samples\<close>

definition sample_agent :: agent_host where
  "sample_agent = \<lparr>ah_sha256 = (\<lambda>v. CHR ''#'' # v), ah_secret = (\<lambda>n. ''secret-'' @ str_nat n), ah_datetime = (\<lambda>_. Some 1000),
     ah_ipv6 = (\<lambda>_. False), ah_decrypt = Some, ah_json = (\<lambda>_. None), ah_localToken = None\<rparr>"

definition sample_start_command :: agent_command where
  "sample_start_command = (new_command (empty_cp\<lparr>clock := 1000\<rparr>) ''c1'' ''node-1'' WorkloadStart ''w1'' JNull 60000)"

definition agent_state :: cp where
  "agent_state = empty_cp\<lparr>clock := 2000, t_nodes := [sample_node_row\<lparr>n_agentTokenHash := ''#tok''\<rparr>],
     t_commands := [sample_start_command, sample_start_command\<lparr>c_id := ''c2'', c_nodeId := ''node-2''\<rparr>]\<rparr>"

lemma sample_identity: "agentIdentity sample_agent (Some ''Bearer tok'') agent_state
    = Some (sample_node_row\<lparr>n_agentTokenHash := ''#tok''\<rparr>)"
  by (simp add: agentIdentity_def bearer_token_def starts_with_def truthy_def tokenHash_def sample_agent_def agent_state_def Let_def)

lemma agent_confined_witness:
  "confined ''node-1'' agent_state
     (agent_step sample_host sample_agent (Some ''Bearer tok'') None Poll agent_state)"
proof -
  have "distinct (map c_id (t_commands agent_state))"
    by (simp add: agent_state_def sample_start_command_def new_command_def)
  from agent_confined [where a = sample_agent and auth = "Some ''Bearer tok''" and h = sample_host and body = None and call = Poll, OF this] show ?thesis
    unfolding sample_identity by (simp add: sample_node_row_def)
qed

subsection \<open>The command poll\<close>

lemma not_deliverable_again: "now' \<le> now + DELIVERY_LEASE_MS \<Longrightarrow> \<not> deliverable now' nid (deliver now c)"
  by (simp add: deliverable_def deliver_def)

lemma deliver_again [simp]: "\<not> deliverable now nid (deliver now c)"
  by (rule not_deliverable_again) (simp add: DELIVERY_LEASE_MS_def)

lemma deliver_sel [simp]:
  "c_id (deliver now c) = c_id c" "c_nodeId (deliver now c) = c_nodeId c" "c_status (deliver now c) = CmdDelivered"
  "c_deliveredAt (deliver now c) = Some now"
  by (simp_all add: deliver_def)

lemma take_commands_spec:
  "t_commands (snd (take_commands now nid is s))
     = upd_where (\<lambda>c. c_id c \<in> set is \<and> deliverable now nid c) (deliver now) (t_commands s)
   \<and> set (fst (take_commands now nid is s))
     = deliver now ` {c \<in> set (t_commands s). c_id c \<in> set is \<and> deliverable now nid c}"
proof (induction "is" arbitrary: s)
  case Nil
  then show ?case by (simp add: upd_where_cong_none)
next
  case (Cons i "is")
  let ?s1 = "update_commands (\<lambda>c. c_id c = i \<and> deliverable now nid c) (deliver now) s"
  have rows: "upd_where (\<lambda>c. c_id c \<in> set is \<and> deliverable now nid c) (deliver now) (t_commands ?s1)
      = upd_where (\<lambda>c. c_id c \<in> set (i # is) \<and> deliverable now nid c) (deliver now) (t_commands s)"
    by (auto simp: upd_where_def)
  have "{c \<in> set (t_commands ?s1). c_id c \<in> set is \<and> deliverable now nid c}
      = {c \<in> set (t_commands s). c_id c \<in> set is \<and> c_id c \<noteq> i \<and> deliverable now nid c}"
    by (auto simp: set_upd_where)
  then have handed: "deliver now ` {c \<in> set (t_commands s). c_id c = i \<and> deliverable now nid c}
        \<union> deliver now ` {c \<in> set (t_commands ?s1). c_id c \<in> set is \<and> deliverable now nid c}
      = deliver now ` {c \<in> set (t_commands s). c_id c \<in> set (i # is) \<and> deliverable now nid c}"
    by auto
  have "take_commands now nid (i # is) s
      = (map (deliver now) (filter (\<lambda>c. c_id c = i \<and> deliverable now nid c) (t_commands s))
           @ fst (take_commands now nid is ?s1), snd (take_commands now nid is ?s1))"
    by (simp add: take_command_def Let_def case_prod_unfold)
  with Cons.IH [of ?s1] rows handed show ?case by simp
qed

lemma poll_takes:
  "poll_commands a rival auth s = (Inr cs, s1) \<Longrightarrow> \<exists>nid is. take_commands (clock s) nid is (rival s) = (cs, s1)"
  by (cases "agentIdentity a auth s") (auto simp: poll_commands_def apfst_def map_prod_def split: prod.splits)

lemma agentIdentity_cong: "t_nodes s = t_nodes t \<Longrightarrow> agentIdentity a auth s = agentIdentity a auth t"
  by (simp add: agentIdentity_def)

text \<open>C16. A command is handed to one poll. A poll answers with commands it has just marked delivered; another poll
  (of any token, and with its selection made at any time) whose updates find the rows as the first one left them and
  whose clock is at most five minutes later hands out none of them.\<close>

theorem poll_hands_out_once:
  assumes "poll_commands a rival auth s = (Inr cs, s1)"
    and "poll_commands a rival' auth' s2 = (Inr ds, s3)"
    and "t_commands (rival' s2) = t_commands s1" and "distinct (map c_id (t_commands s1))"
    and "clock s2 \<le> clock s + 5 * 60000"
  shows "list_all (\<lambda>c. c_status c = CmdDelivered \<and> c_deliveredAt c = Some (clock s)) cs
    \<and> set (map c_id cs) \<inter> set (map c_id ds) = {}"
proof -
  from assms(1) obtain nid "is" where 1: "take_commands (clock s) nid is (rival s) = (cs, s1)"
    by (auto dest!: poll_takes)
  from assms(2) obtain nid' is' where 2: "take_commands (clock s2) nid' is' (rival' s2) = (ds, s3)"
    by (auto dest!: poll_takes)
  from take_commands_spec [of "clock s" nid "is" "rival s"] 1
  have c: "t_commands s1 = upd_where (\<lambda>c. c_id c \<in> set is \<and> deliverable (clock s) nid c) (deliver (clock s)) (t_commands (rival s))"
    "set cs = deliver (clock s) ` {c \<in> set (t_commands (rival s)). c_id c \<in> set is \<and> deliverable (clock s) nid c}"
    by simp_all
  then have cs: "\<exists>c. q = deliver (clock s) c \<and> q \<in> set (t_commands s1)" if "q \<in> set cs" for q
    using that by (auto simp: set_upd_where)
  from take_commands_spec [of "clock s2" nid' is' "rival' s2"] 2 assms(3)
  have ds: "\<exists>c. q = deliver (clock s2) c \<and> c \<in> set (t_commands s1) \<and> deliverable (clock s2) nid' c" if "q \<in> set ds" for q
    using that by auto
  have "c_id p \<noteq> c_id q" if p: "p \<in> set cs" and q: "q \<in> set ds" for p q
  proof
    assume eq: "c_id p = c_id q"
    from cs [OF p] obtain c where c: "p = deliver (clock s) c" "p \<in> set (t_commands s1)" by blast
    from ds [OF q] obtain d where d: "q = deliver (clock s2) d" "d \<in> set (t_commands s1)" "deliverable (clock s2) nid' d" by blast
    from eq d(1) have "c_id p = c_id d" by simp
    with keyed_unique [OF assms(4) c(2) d(2)] have "p = d" by simp
    with d(3) c(1) not_deliverable_again [of "clock s2" "clock s" nid' c] assms(5)
    show False by (simp add: DELIVERY_LEASE_MS_def)
  qed
  moreover have "c_status c = CmdDelivered \<and> c_deliveredAt c = Some (clock s)" if "c \<in> set cs" for c
    using cs [OF that] by auto
  ultimately show ?thesis by (auto simp: list_all_iff)
qed

lemma poll_hands_out_once_witness:
  "let (x, s1) = poll_commands sample_agent id (Some ''Bearer tok'') agent_state;
       (y, s2) = poll_commands sample_agent id (Some ''Bearer tok'') (s1\<lparr>clock := 302000\<rparr>)
   in x = Inr [deliver 2000 sample_start_command] \<and> y = Inr []"
proof -
  let ?s1 = "snd (poll_commands sample_agent id (Some ''Bearer tok'') agent_state)"
  have 1: "poll_commands sample_agent id (Some ''Bearer tok'') agent_state = (Inr [deliver 2000 sample_start_command], ?s1)"
    unfolding poll_commands_def sample_identity
    by (simp add: take_command_def Let_def agent_state_def sample_start_command_def new_command_def deliverable_def sample_node_row_def)
  have rows: "t_commands ?s1 = [deliver 2000 sample_start_command, sample_start_command\<lparr>c_id := ''c2'', c_nodeId := ''node-2''\<rparr>]"
    "t_nodes ?s1 = t_nodes agent_state"
    unfolding poll_commands_def sample_identity
    by (simp_all add: take_command_def Let_def agent_state_def sample_start_command_def new_command_def deliverable_def sample_node_row_def)
  have "agentIdentity sample_agent (Some ''Bearer tok'') (?s1\<lparr>clock := 302000\<rparr>) = Some (sample_node_row\<lparr>n_agentTokenHash := ''#tok''\<rparr>)"
    using sample_identity agentIdentity_cong [of "?s1\<lparr>clock := 302000\<rparr>" agent_state] rows(2) by simp
  then have 2: "poll_commands sample_agent id (Some ''Bearer tok'') (?s1\<lparr>clock := 302000\<rparr>)
      = (Inr (fst (take_commands 302000 ''node-1'' (map c_id (filter (deliverable 302000 ''node-1'') (t_commands ?s1))) (?s1\<lparr>clock := 302000\<rparr>))),
         snd (take_commands 302000 ''node-1'' (map c_id (filter (deliverable 302000 ''node-1'') (t_commands ?s1))) (?s1\<lparr>clock := 302000\<rparr>)))"
    by (simp add: poll_commands_def sample_node_row_def apfst_def map_prod_def split: prod.split)
  let ?ds = "fst (take_commands 302000 ''node-1'' (map c_id (filter (deliverable 302000 ''node-1'') (t_commands ?s1))) (?s1\<lparr>clock := 302000\<rparr>))"
  have d: "distinct (map c_id (t_commands ?s1))"
    unfolding rows by (simp add: sample_start_command_def new_command_def)
  from poll_hands_out_once [OF 1 2 _ d] have "set (map c_id [deliver 2000 sample_start_command]) \<inter> set (map c_id ?ds) = {}"
    by (simp add: agent_state_def)
  moreover have "set ?ds \<subseteq> deliver 302000 ` {c \<in> set (t_commands ?s1). deliverable 302000 ''node-1'' c}"
    using take_commands_spec [of 302000 "''node-1''" _ "?s1\<lparr>clock := 302000\<rparr>"] by auto
  ultimately have "?ds = []"
    unfolding rows by (auto simp: sample_start_command_def new_command_def deliverable_def deliver_def DELIVERY_LEASE_MS_def)
  with 2 have "poll_commands sample_agent id (Some ''Bearer tok'') (?s1\<lparr>clock := 302000\<rparr>)
      = (Inr [], snd (poll_commands sample_agent id (Some ''Bearer tok'') (?s1\<lparr>clock := 302000\<rparr>)))" by (simp only: snd_conv)
  from arg_cong [OF this, of fst] arg_cong [OF 1, of fst] show ?thesis by (simp add: Let_def case_prod_unfold)
qed

subsection \<open>Enrolment\<close>

text \<open>Any number of enrolment requests at once. A state has the control plane, the requests between the lookup of their
  token and their transaction, and the nodes enrolled so far, each with the id of its token. Everything else may run in
  between as long as it keeps the tokens and does not make a used one unused (the routes only insert tokens under new ids).\<close>

definition unused_token :: "string \<Rightarrow> cp \<Rightarrow> bool" where
  "unused_token i s \<longleftrightarrow> list_ex (\<lambda>t. rt_id t = i \<and> rt_usedAt t = None) (t_registrationTokens s)"

definition token_ids :: "cp \<Rightarrow> string set" where
  "token_ids s = rt_id ` set (t_registrationTokens s)"

inductive enrol_step ::
  "agent_host \<Rightarrow> cp \<times> (register_input \<times> registration_token) list \<times> (string \<times> string) list
     \<Rightarrow> cp \<times> (register_input \<times> registration_token) list \<times> (string \<times> string) list \<Rightarrow> bool" for a where
  looked_up: "usable_token a inp s = Some reg \<Longrightarrow> enrol_step a (s, ps, es) (s, (inp, reg) # ps, es)"
| enrolled: "(inp, reg) \<in> set ps \<Longrightarrow> enroll a inp reg addr nid tok s = (Reply st b, s') \<Longrightarrow>
     enrol_step a (s, ps, es) (s', remove1 (inp, reg) ps, (rt_id reg, nid) # es)"
| refused: "(inp, reg) \<in> set ps \<Longrightarrow> enroll a inp reg addr nid tok s = (Problem st m, s') \<Longrightarrow>
     enrol_step a (s, ps, es) (s', remove1 (inp, reg) ps, es)"
| elsewhere: "token_ids s \<subseteq> token_ids s' \<Longrightarrow> (\<And>i. i \<in> token_ids s \<Longrightarrow> unused_token i s' \<Longrightarrow> unused_token i s) \<Longrightarrow>
     enrol_step a (s, ps, es) (s', ps, es)"

definition enrolment_inv :: "cp \<times> (register_input \<times> registration_token) list \<times> (string \<times> string) list \<Rightarrow> bool" where
  "enrolment_inv c \<longleftrightarrow> (case c of (s, ps, es) \<Rightarrow>
     distinct (map fst es) \<and> (\<forall>e \<in> set es. fst e \<in> token_ids s \<and> \<not> unused_token (fst e) s))"

lemma enroll_reply:
  assumes "enroll a inp reg addr nid tok s = (Reply st b, s')"
  shows "unused_token (rt_id reg) s" and "token_ids s' = token_ids s"
    and "unused_token i s' \<longleftrightarrow> unused_token i s \<and> i \<noteq> rt_id reg"
    and "\<exists>n. t_nodes s' = t_nodes s @ [n] \<and> n_id n = nid \<and> n_organizationId n = Some (rt_organizationId reg)"
proof -
  let ?free = "\<lambda>t. rt_id t = rt_id reg \<and> rt_usedAt t = None"
  from assms have u: "list_ex ?free (t_registrationTokens s)"
    and rows: "t_registrationTokens s' = upd_where ?free (\<lambda>t. t\<lparr>rt_usedAt := Some (clock s)\<rparr>) (t_registrationTokens s)"
    and nodes: "\<exists>n. t_nodes s' = t_nodes s @ [n] \<and> n_id n = nid \<and> n_organizationId n = Some (rt_organizationId reg)"
    by (auto simp: enroll_def Let_def update_tokens_def enrolled_node_def split: if_splits)
  show "unused_token (rt_id reg) s" using u by (simp add: unused_token_def)
  have "map rt_id (t_registrationTokens s') = map rt_id (t_registrationTokens s)"
    unfolding rows by (rule map_upd_where_inv) simp
  then show "token_ids s' = token_ids s" unfolding token_ids_def by (metis set_map)
  show "unused_token i s' \<longleftrightarrow> unused_token i s \<and> i \<noteq> rt_id reg"
    unfolding unused_token_def rows by (auto simp: list_ex_iff set_upd_where)
  show "\<exists>n. t_nodes s' = t_nodes s @ [n] \<and> n_id n = nid \<and> n_organizationId n = Some (rt_organizationId reg)" by (rule nodes)
qed

lemma enroll_problem: "enroll a inp reg addr nid tok s = (Problem st m, s') \<Longrightarrow> s' = s"
  by (auto simp: enroll_def Let_def enrolled_reply_def split: if_splits)

lemma enrolment_inv_step: "enrol_step a c c' \<Longrightarrow> enrolment_inv c \<Longrightarrow> enrolment_inv c'"
proof (induction rule: enrol_step.induct)
  case (enrolled inp reg ps addr nid tok s st b s' es)
  note r = enroll_reply [OF enrolled.hyps(2)]
  from enrolled.prems r(1) have "rt_id reg \<notin> fst ` set es" by (auto simp: enrolment_inv_def)
  moreover have "rt_id reg \<in> token_ids s" using r(1) unfolding unused_token_def token_ids_def list_ex_iff by (metis imageI)
  ultimately show ?case using enrolled.prems r(2,3) by (simp add: enrolment_inv_def)
next
  case (refused inp reg ps addr nid tok s st m s' es)
  then show ?case using enroll_problem [OF refused.hyps(2)] by (simp add: enrolment_inv_def)
qed (auto simp: enrolment_inv_def)

text \<open>One request alone: the lookup, the drawing of secret and id, what others do, and the transaction.\<close>

lemma register_agent_steps:
  assumes "register_agent h a rival body s = (Inr (Reply st b), s')"
  shows "\<exists>inp reg addr nid tok s2. usable_token a inp s = Some reg
    \<and> t_registrationTokens s2 = t_registrationTokens s \<and> enroll a inp reg addr nid tok (rival s2) = (Reply st b, s')"
proof (cases body)
  case None
  with assms show ?thesis by (simp add: register_agent_def)
next
  case (Some j)
  note j = Some
  show ?thesis
  proof (cases "registerInput j")
    case None
    with assms j show ?thesis by (simp add: register_agent_def)
  next
    case (Some inp)
    note inp = Some
    show ?thesis
    proof (cases "usable_token a inp s")
      case None
      with assms j inp show ?thesis by (simp add: register_agent_def)
    next
      case (Some reg)
      let ?s1 = "snd (createSecret a s)"
      let ?s2 = "snd (randomUUID h ?s1)"
      have t: "t_registrationTokens ?s2 = t_registrationTokens s" by (simp add: createSecret_def randomUUID_def)
      obtain addr where addr: "advertised a inp = Inr addr"
        using assms j inp Some by (cases "advertised a inp") (auto simp: register_agent_def case_prod_unfold)
      have "enroll a inp reg addr (fst (randomUUID h ?s1)) (fst (createSecret a s)) (rival ?s2) = (Reply st b, s')"
        using assms j inp Some addr
        by (auto simp: register_agent_def case_prod_unfold Let_def apfst_def map_prod_def prod_eq_iff)
      with Some t show ?thesis by blast
    qed
  qed
qed

text \<open>C20. A registration token enrols one node. However many enrolment requests with whatever secrets interleave, with
  the lookup of a token and the transaction that consumes it apart, no token has enrolled two nodes.\<close>

theorem registration_single_use:
  assumes "(enrol_step a)\<^sup>*\<^sup>* (s, [], []) (s', ps, es)"
  shows "distinct (map fst es)"
proof -
  have "enrolment_inv c" if "(enrol_step a)\<^sup>*\<^sup>* (s, [], []) c" for c
    using that
  proof (induction rule: rtranclp_induct)
    case base
    show ?case by (simp add: enrolment_inv_def)
  next
    case (step c c')
    from enrolment_inv_step [OF step.hyps(2) step.IH] show ?case .
  qed
  from this [OF assms] show ?thesis by (simp add: enrolment_inv_def)
qed

definition sample_token :: registration_token where
  "sample_token = \<lparr>rt_id = ''t1'', rt_organizationId = ''org'', rt_tokenHash = ''#secret'', rt_expiresAt = 9000,
     rt_usedAt = None, rt_createdAt = 0\<rparr>"

definition sample_register :: register_input where
  "sample_register = \<lparr>rg_registrationToken = ''secret'', rg_name = ''n'', rg_hostname = ''n'', rg_advertisedAddress = None,
     rg_architecture = ''amd64'', rg_os = ''linux'', rg_agentVersion = ''1'', rg_region = None, rg_labels = [],
     rg_capabilities = [], rg_runtimes = [Container]\<rparr>"

text \<open>Two requests look the token up before either consumes it: one is enrolled, the other refused.\<close>

lemma registration_single_use_witness:
  "\<exists>s' es. (enrol_step sample_agent)\<^sup>*\<^sup>* (empty_cp\<lparr>t_registrationTokens := [sample_token]\<rparr>, [], []) (s', [], es)
     \<and> length es = 1 \<and> distinct (map fst es)"
proof -
  let ?s = "empty_cp\<lparr>t_registrationTokens := [sample_token]\<rparr>"
  let ?e = "enroll sample_agent sample_register sample_token None ''n1'' ''tok''"
  let ?p = "(sample_register, sample_token)"
  have u: "usable_token sample_agent sample_register ?s = Some sample_token"
    by (simp add: usable_token_def sample_token_def sample_register_def sample_agent_def tokenHash_def empty_cp_def)
  have 1: "?e ?s = (enrolled_reply 201 ''n1'' ''tok'', snd (?e ?s))"
    "?e (snd (?e ?s)) = (Problem 409 ''Registration token was already used'', snd (?e ?s))"
    by (simp_all add: enroll_def sample_token_def update_tokens_def Let_def)
  have a: "enrol_step sample_agent (?s, [], []) (?s, [?p], [])" by (rule looked_up [OF u])
  have b: "enrol_step sample_agent (?s, [?p], []) (?s, [?p, ?p], [])" by (rule looked_up [OF u])
  have c: "enrol_step sample_agent (?s, [?p, ?p], []) (snd (?e ?s), [?p], [(rt_id sample_token, ''n1'')])"
    using enrolled [of sample_register sample_token "[?p, ?p]" sample_agent, OF _ 1(1) [unfolded enrolled_reply_def]] by simp
  have d: "enrol_step sample_agent (snd (?e ?s), [?p], [(rt_id sample_token, ''n1'')]) (snd (?e ?s), [], [(rt_id sample_token, ''n1'')])"
    using refused [of sample_register sample_token "[?p]" sample_agent, OF _ 1(2)] by simp
  from a b c d have "(enrol_step sample_agent)\<^sup>*\<^sup>* (?s, [], []) (snd (?e ?s), [], [(rt_id sample_token, ''n1'')])"
    by (meson rtranclp.rtrancl_into_rtrancl rtranclp.rtrancl_refl)
  from this registration_single_use [OF this] show ?thesis by force
qed

subsection \<open>Command results\<close>

lemma settle_reservations_frames [simp]:
  "t_nodes (snd (settle_reservations wid b s)) = t_nodes s"
  "t_commands (snd (settle_reservations wid b s)) = t_commands s"
  "t_events (snd (settle_reservations wid b s)) = t_events s"
  by (simp_all add: settle_reservations_def Let_def update_reservations_def)

lemma replace_ports_frames [simp]:
  "t_nodes (snd (replaceObservedWorkloadPorts nid wid ps s)) = t_nodes s"
  "t_commands (snd (replaceObservedWorkloadPorts nid wid ps s)) = t_commands s"
  "t_events (snd (replaceObservedWorkloadPorts nid wid ps s)) = t_events s"
  "clock (snd (replaceObservedWorkloadPorts nid wid ps s)) = clock s"
  "t_workloads (snd (replaceObservedWorkloadPorts nid wid ps s)) = t_workloads s"
  by (simp_all add: replaceObservedWorkloadPorts_def Let_def split: option.split)

lemma announce_frames [simp]:
  "t_nodes (announce_start h node r started w s) = t_nodes s"
  "t_commands (announce_start h node r started w s) = t_commands s"
  by (simp_all add: announce_start_def Let_def mark_game_servers_def split: option.split)

definition start_fails :: "agent_command \<Rightarrow> command_result \<Rightarrow> bool" where
  "start_fails c r \<longleftrightarrow> c_type c = command_type_str WorkloadStart \<and> cr_succeeded r \<and> runtimeResult (cr_data r) = None"

lemma snd_case_exn: "snd (case p of (Some e, t) \<Rightarrow> (Some e, t) | (None, t) \<Rightarrow> settle_reservations wid b t)
    = (if fst p = None then snd (settle_reservations wid b (snd p)) else snd p)"
  by (cases p) (simp split: option.split)

lemma start_frames [simp]:
  "t_nodes (write_start node c st s) = t_nodes s"
  "t_commands (write_start node c st s) = t_commands s"
  "t_nodes (announce_found h node c r st s) = t_nodes s"
  "t_commands (announce_found h node c r st s) = t_commands s"
  "t_nodes (snd (publish_ports node c st s)) = t_nodes s"
  "t_commands (snd (publish_ports node c st s)) = t_commands s"
  "t_events (snd (publish_ports node c st s)) = t_events s"
  by (simp_all add: write_start_def announce_found_def publish_ports_def split: option.split)

lemma finish_start_rows:
  "t_nodes (snd (finish_start h node c r s)) = t_nodes s"
  "t_commands (snd (finish_start h node c r s)) = t_commands (reject_start c r s)"
  unfolding finish_start_def Let_def snd_case_exn by (simp_all add: reject_start_def)

lemma finish_stop_rows:
  "t_nodes (snd (finish_stop h node c r s)) = t_nodes s"
  "t_commands (snd (finish_stop h node c r s)) = t_commands s"
  by (simp_all add: finish_stop_def announce_stop_def write_stop_def Let_def split: option.split)

lemma finish_rows:
  "t_nodes (snd (finish_by_type h node c r s)) = t_nodes s"
  "t_commands (snd (finish_by_type h node c r s)) = (if start_fails c r
     then upd_where (\<lambda>q. c_id q = c_id c) (\<lambda>q. q\<lparr>c_status := CmdFailed, c_result := Some (invalid_result r)\<rparr>) (t_commands s)
     else t_commands s)"
  unfolding finish_by_type_def start_fails_def by (simp_all add: finish_start_rows finish_stop_rows reject_start_def)

lemma accept_result_rows:
  assumes "List.find (claimed_by node r) (t_commands s) = Some c"
  shows "t_nodes (snd (accept_result h node r s)) = t_nodes s"
    and "t_commands (snd (accept_result h node r s))
      = t_commands (snd (finish_by_type h node c r (update_commands (claimed_by node r) (finish_command r (clock s)) s)))"
  using finish_rows(1) [of h node c r "update_commands (claimed_by node r) (finish_command r (clock s)) s"] assms
  by (cases "finish_by_type h node c r (update_commands (claimed_by node r) (finish_command r (clock s)) s)";
      auto simp: accept_result_def split: option.split)+

lemma find_by_id: "distinct (map c_id cs) \<Longrightarrow> c \<in> set cs \<Longrightarrow> List.find (\<lambda>q. c_id q = c_id c) cs = Some c"
  using find_conj_key [of c_id cs c "\<lambda>_. True"] by simp

text \<open>A command is finished once. A result for a command that was delivered to the agent's node completes it with
  the reported status (failed when a start answers without a runtime id), whether or not a later statement of the
  handler throws; the same result sent again is refused and changes nothing.\<close>

theorem result_settles_once:
  assumes "distinct (map c_id (t_commands s))" and "agentIdentity a auth s = Some node"
    and "commandResultInput h j = Some r" and "List.find (claimed_by node r) (t_commands s) = Some c"
    and "command_results h a auth (Some j) s = (x, s')"
  shows "(\<exists>q. List.find (\<lambda>q. c_id q = c_id c) (t_commands s') = Some q
        \<and> c_status q = (if start_fails c r then CmdFailed else result_status r) \<and> c_completedAt q = Some (clock s))
    \<and> command_results h a auth (Some j) s' = (Inr (Problem 404 ''Unknown or completed command''), s')"
proof -
  let ?s1 = "update_commands (claimed_by node r) (finish_command r (clock s)) s"
  let ?fail = "\<lambda>q. q\<lparr>c_status := CmdFailed, c_result := Some (invalid_result r)\<rparr>"
  have s': "s' = snd (accept_result h node r s)"
    using assms(2,3,5) by (simp add: command_results_def agent_request_def)
  from assms(4) have c: "c \<in> set (t_commands s)" "claimed_by node r c" by (auto dest: find_Some_iff')
  have rows: "t_commands s' = (if start_fails c r then upd_where (\<lambda>q. c_id q = c_id c) ?fail (t_commands ?s1) else t_commands ?s1)"
    unfolding s' accept_result_rows(2) [OF assms(4)] by (rule finish_rows(2))
  have ids: "map c_id (t_commands s') = map c_id (t_commands s)"
    unfolding rows by (auto simp: finish_command_def intro!: map_upd_where_inv trans [OF map_upd_where_inv])
  define q where "q = (if start_fails c r then ?fail (finish_command r (clock s) c) else finish_command r (clock s) c)"
  have q: "c_id q = c_id c" "c_status q = (if start_fails c r then CmdFailed else result_status r)" "c_completedAt q = Some (clock s)"
    by (simp_all add: q_def finish_command_def)
  have 1: "finish_command r (clock s) c \<in> set (t_commands ?s1)" "c_id (finish_command r (clock s) c) = c_id c"
    using c by (auto simp: set_upd_where finish_command_def image_iff)
  have "q \<in> set (t_commands s')"
    unfolding rows q_def using 1 by (auto simp: set_upd_where image_iff)
  with find_by_id [of "t_commands s'" q] ids assms(1) q(1) have found: "List.find (\<lambda>q. c_id q = c_id c) (t_commands s') = Some q"
    by simp
  have "\<not> claimed_by node r p" if p: "p \<in> set (t_commands s')" for p
  proof
    assume "claimed_by node r p"
    with c(2) have "c_id p = c_id q" "c_status p = CmdDelivered" using q(1) by (simp_all add: claimed_by_def)
    with keyed_unique [of c_id "t_commands s'" p q] p \<open>q \<in> set (t_commands s')\<close> ids assms(1) have "c_status q = CmdDelivered" by simp
    with q(2) show False by (simp add: result_status_def split: if_splits)
  qed
  then have "List.find (claimed_by node r) (t_commands s') = None" by (simp add: find_None_iff')
  moreover have "agentIdentity a auth s' = Some node"
    using assms(2) agentIdentity_cong [of s' s] accept_result_rows(1) [OF assms(4), of h] s' by simp
  ultimately have "command_results h a auth (Some j) s' = (Inr (Problem 404 ''Unknown or completed command''), s')"
    using assms(3) by (simp add: command_results_def agent_request_def accept_result_def)
  with found q(2,3) show ?thesis by blast
qed

definition failed_start_body :: json where
  "failed_start_body = JObj [(''commandId'', JStr ''c1''), (''status'', JStr ''failed''),
     (''error'', JObj [(''code'', JStr ''RUNTIME_ERROR''), (''message'', JStr ''no such image'')])]"

definition failed_start_result :: command_result where
  "failed_start_result = \<lparr>cr_commandId = ''c1'', cr_succeeded = False, cr_data = None,
     cr_error = Some (''RUNTIME_ERROR'', ''no such image'')\<rparr>"

definition delivered_state :: cp where
  "delivered_state = agent_state\<lparr>t_commands := [deliver 1500 sample_start_command],
     t_workloads := [new_workload empty_cp ''w1'' ''id-0'' ''node-1'' []]\<rparr>"

lemma failed_start_parsed: "commandResultInput sample_host failed_start_body = Some failed_start_result"
  by (simp add: commandResultInput_def failed_start_body_def failed_start_result_def z_req_def z_opt_def z_string_where_def
      z_enum_def sample_host_def error_schema_def z_sized_def)

lemma delivered_identity: "agentIdentity sample_agent (Some ''Bearer tok'') delivered_state
    = Some (sample_node_row\<lparr>n_agentTokenHash := ''#tok''\<rparr>)"
  using sample_identity agentIdentity_cong [of delivered_state agent_state] by (simp add: delivered_state_def)

lemma result_settles_once_witness:
  "\<exists>s'. command_results sample_host sample_agent (Some ''Bearer tok'') (Some failed_start_body) s'
     = (Inr (Problem 404 ''Unknown or completed command''), s')"
proof -
  have d: "distinct (map c_id (t_commands delivered_state))" by (simp add: delivered_state_def)
  have f: "List.find (claimed_by (sample_node_row\<lparr>n_agentTokenHash := ''#tok''\<rparr>) failed_start_result) (t_commands delivered_state)
      = Some (deliver 1500 sample_start_command)"
    by (simp add: delivered_state_def claimed_by_def failed_start_result_def deliver_def sample_start_command_def new_command_def
        sample_node_row_def)
  from result_settles_once [OF d delivered_identity failed_start_parsed f prod.collapse [symmetric]] show ?thesis by blast
qed

text \<open>The reason of a failed start is lost. The agent reports a failed command with an error and without data; the
  handler then records the reason \<open>INVALID_RUNTIME_RESULT\<close> whatever the agent's error code was, because it takes the
  agent's code only when the data of the failed start parses as those of a successful one.\<close>

theorem start_failure_reason_lost:
  assumes "\<not> cr_succeeded r" and "cr_data r = None" and "find_workload (c_resourceId c) s = Some w"
  shows "\<exists>e \<in> set (t_events (snd (finish_start h node c r s))). e_type e = ''workload.start_failed''
    \<and> e_workloadId e = Some (w_id w) \<and> e_reason e = Some ''INVALID_RUNTIME_RESULT''"
proof -
  have reason: "start_reason r = Some ''INVALID_RUNTIME_RESULT''"
    using assms(1,2) by (simp add: start_reason_def runtimeResult_def)
  have quiet: "reject_start c r s = s" using assms(1) by (simp add: reject_start_def)
  let ?s1 = "write_start node c None s"
  have "\<exists>w'. find_workload (c_resourceId c) ?s1 = Some w' \<and> w_id w' = w_id w"
  proof -
    have k: "keyed_rows w_id (\<lambda>q. (started_workload None (clock s) q)\<lparr>w_updatedAt := clock s\<rparr>)"
      by unfold_locales (simp add: started_workload_def)
    show ?thesis using assms(3)
      unfolding write_start_def find_workload_def update_workloads_frames keyed_rows.find_upd_where [OF k]
      by (auto simp: started_workload_def)
  qed
  then obtain w' where w': "find_workload (c_resourceId c) ?s1 = Some w'" "w_id w' = w_id w" by blast
  have refresh: "\<exists>es. t_events (snd (refreshDeploymentStatus h did t)) = t_events t @ es" for did t
    by (auto simp: refreshDeploymentStatus_def Let_def split: option.split)
  have "\<exists>e \<in> set (t_events (announce_start h node r None w' ?s1)). e_type e = ''workload.start_failed''
    \<and> e_workloadId e = Some (w_id w') \<and> e_reason e = Some ''INVALID_RUNTIME_RESULT''"
  proof -
    let ?e = "log_event h (w_deploymentId w') ''workload.start_failed'' ''Agent failed to start workload''
                 (\<lambda>e. e\<lparr>e_workloadId := Some (w_id w'), e_nodeId := Some (n_id node), e_reason := start_reason r\<rparr>) ?s1"
    let ?g = "case find_deployment (w_deploymentId w') ?e of None \<Rightarrow> ?e | Some d \<Rightarrow> mark_game_servers (d_applicationId d) None ?e"
    have g: "t_events ?g = t_events ?e" by (simp add: mark_game_servers_def split: option.split)
    have "announce_start h node r None w' ?s1 = snd (refreshDeploymentStatus h (w_deploymentId w') ?g)"
      by (simp add: announce_start_def Let_def)
    with refresh [of "w_deploymentId w'" ?g] obtain es where
      "t_events (announce_start h node r None w' ?s1) = t_events ?e @ es" unfolding g by auto
    then show ?thesis by (simp add: new_event_def reason)
  qed
  then show ?thesis unfolding finish_start_def Let_def snd_case_exn
    using assms(1) w' by (simp add: quiet announce_found_def)
qed

lemma start_failure_reason_lost_witness:
  "\<exists>e \<in> set (t_events (snd (finish_start sample_host sample_node_row sample_start_command failed_start_result delivered_state))).
     e_type e = ''workload.start_failed'' \<and> e_workloadId e = Some ''w1'' \<and> e_reason e = Some ''INVALID_RUNTIME_RESULT''"
proof -
  have w: "find_workload (c_resourceId sample_start_command) delivered_state = Some (new_workload empty_cp ''w1'' ''id-0'' ''node-1'' [])"
    by (simp add: find_workload_def delivered_state_def sample_start_command_def new_command_def new_workload_def)
  from start_failure_reason_lost [OF _ _ w, of failed_start_result sample_host sample_node_row] show ?thesis
    by (simp add: failed_start_result_def new_workload_def)
qed

subsection \<open>Telemetry\<close>

lemma store_report_rows:
  "clock (snd (store_report nid owned r s)) = clock s"
  "t_workloads (snd (store_report nid owned r s)) = upd_where (reported_by nid r)
     (\<lambda>w. (apply_report r (previous_state owned r) (clock s) w)\<lparr>w_updatedAt := clock s\<rparr>) (t_workloads s)"
  by (simp_all add: store_report_def Let_def split: option.split)

definition after_reports :: "string \<Rightarrow> workload list \<Rightarrow> telemetry_report list \<Rightarrow> int \<Rightarrow> workload \<Rightarrow> workload" where
  "after_reports nid owned rs now w =
     (case List.find (\<lambda>r. tr_workloadId r = w_id w) rs of
        None \<Rightarrow> w
      | Some r \<Rightarrow> if reported_by nid r w then (apply_report r (previous_state owned r) now w)\<lparr>w_updatedAt := now\<rparr> else w)"

lemma store_reports_rows:
  assumes "distinct (map tr_workloadId rs)"
  shows "t_workloads (snd (store_reports nid owned rs s)) = map (after_reports nid owned rs (clock s)) (t_workloads s)
    \<and> clock (snd (store_reports nid owned rs s)) = clock s"
  using assms
proof (induction rs arbitrary: s)
  case Nil
  then show ?case by (simp add: after_reports_def)
next
  case (Cons r rs)
  let ?s1 = "snd (store_report nid owned r s)"
  let ?f = "\<lambda>w. (apply_report r (previous_state owned r) (clock s) w)\<lparr>w_updatedAt := clock s\<rparr>"
  have rest: "List.find (\<lambda>q. tr_workloadId q = tr_workloadId r) rs = None"
    unfolding find_None_iff' using Cons.prems by (metis distinct.simps(2) image_eqI list.simps(9) set_map)
  have "after_reports nid owned rs (clock s) (if reported_by nid r w then ?f w else w)
      = after_reports nid owned (r # rs) (clock s) w" for w
    using rest by (auto simp: after_reports_def reported_by_def split: option.split)
  moreover from Cons have "t_workloads (snd (store_reports nid owned rs ?s1)) = map (after_reports nid owned rs (clock ?s1)) (t_workloads ?s1)
      \<and> clock (snd (store_reports nid owned rs ?s1)) = clock ?s1" by simp
  ultimately show ?case
    by (simp add: case_prod_unfold Let_def store_report_rows upd_where_def)
qed

lemma refresh_all_workloads [simp]: "t_workloads (refresh_all h dids s) = t_workloads s"
  unfolding refresh_all_def by (induction dids arbitrary: s) simp_all

lemma owned_all:
  assumes "distinct (map w_id (t_workloads s))" and "length (owned_workloads nid (js_uniq ids) s) = length (js_uniq ids)"
  shows "set (map w_id (owned_workloads nid (js_uniq ids) s)) = set ids"
proof (rule card_subset_eq)
  let ?o = "owned_workloads nid (js_uniq ids) s"
  have "distinct (map w_id ?o)" unfolding owned_workloads_def using assms(1) by (rule distinct_map_filter)
  then show "card (set (map w_id ?o)) = card (set ids)"
    using assms(2) by (simp add: distinct_card length_js_uniq del: set_map)
  show "set (map w_id ?o) \<subseteq> set ids" by (auto simp: owned_workloads_def)
qed simp

text \<open>C23. Telemetry moves each workload forward, once. An accepted batch names each workload at most once; every report
  is in the time window and finds its workload on the reporting node, in the reported generation and not checked at or
  after the reported time, and exactly these rows are rewritten by it; every other workload stays as it was.\<close>

theorem telemetry_moves_forward:
  assumes "distinct (map w_id (t_workloads s))" and "accept_telemetry h node reports s = (Inr (Reply st b), s')"
  shows "distinct (map tr_workloadId reports)
    \<and> list_all (\<lambda>r. report_in_window (clock s) r \<and> list_ex (reported_by (n_id node) r) (t_workloads s)) reports
    \<and> t_workloads s' = map (\<lambda>w. case List.find (\<lambda>r. tr_workloadId r = w_id w) reports of
          None \<Rightarrow> w
        | Some r \<Rightarrow> (apply_report r (Some w) (clock s) w)\<lparr>w_updatedAt := clock s\<rparr>) (t_workloads s)"
proof -
  let ?ids = "js_uniq (map tr_workloadId reports)"
  let ?owned = "owned_workloads (n_id node) ?ids s"
  from assms(2) have ok: "\<not> list_ex (\<lambda>r. \<not> report_in_window (clock s) r) reports" "length ?ids = length reports"
    "length ?owned = length ?ids" "\<not> list_ex (stale_generation ?owned) reports" "\<not> list_ex (outdated ?owned) reports"
    by (auto simp: accept_telemetry_def Let_def split: if_splits)
  then have d: "distinct (map tr_workloadId reports)" using length_js_uniq_eq_iff [of "map tr_workloadId reports"] by simp
  obtain t where t: "store_reports (n_id node) ?owned reports s = (None, t)" "t_workloads s' = t_workloads t"
    using assms(2) ok by (auto simp: accept_telemetry_def Let_def split: prod.splits option.splits)
  from store_reports_rows [OF d, of "n_id node" ?owned s] t
  have rows: "t_workloads s' = map (after_reports (n_id node) ?owned reports (clock s)) (t_workloads s)" by simp
  have found: "\<exists>w. previous_state ?owned r = Some w \<and> w \<in> set (t_workloads s) \<and> reported_by (n_id node) r w" if r: "r \<in> set reports" for r
  proof -
    have "tr_workloadId r \<in> set (map w_id ?owned)" using owned_all [OF assms(1) ok(3)] r by simp
    then obtain w where w: "previous_state ?owned r = Some w"
      unfolding previous_state_def by (cases "List.find (\<lambda>w. w_id w = tr_workloadId r) ?owned") (auto simp: find_None_iff')
    then have "w \<in> set ?owned" "w_id w = tr_workloadId r" by (auto simp: previous_state_def dest: find_Some_iff')
    moreover from ok(4,5) r w have "w_reportGeneration w = tr_reportGeneration r" "checked_before (tr_observedAt r) w"
      by (auto simp: list_ex_iff stale_generation_def outdated_def)
    ultimately show ?thesis using w by (auto simp: reported_by_def owned_workloads_def)
  qed
  have "after_reports (n_id node) ?owned reports (clock s) w = (case List.find (\<lambda>r. tr_workloadId r = w_id w) reports of
          None \<Rightarrow> w | Some r \<Rightarrow> (apply_report r (Some w) (clock s) w)\<lparr>w_updatedAt := clock s\<rparr>)"
    if w: "w \<in> set (t_workloads s)" for w
  proof (cases "List.find (\<lambda>r. tr_workloadId r = w_id w) reports")
    case None
    then show ?thesis by (simp add: after_reports_def)
  next
    case (Some r)
    then have r: "r \<in> set reports" "tr_workloadId r = w_id w" by (auto dest: find_Some_iff')
    from found [OF r(1)] obtain w' where w': "previous_state ?owned r = Some w'" "w' \<in> set (t_workloads s)" "reported_by (n_id node) r w'" by blast
    with keyed_unique [OF assms(1) w'(2) w] r(2) have "w' = w" by (simp add: reported_by_def)
    with Some w' show ?thesis by (simp add: after_reports_def)
  qed
  with rows have "t_workloads s' = map (\<lambda>w. case List.find (\<lambda>r. tr_workloadId r = w_id w) reports of
          None \<Rightarrow> w | Some r \<Rightarrow> (apply_report r (Some w) (clock s) w)\<lparr>w_updatedAt := clock s\<rparr>) (t_workloads s)" by simp
  moreover have "list_all (\<lambda>r. report_in_window (clock s) r \<and> list_ex (reported_by (n_id node) r) (t_workloads s)) reports"
    using ok(1) found by (fastforce simp: list_all_iff list_ex_iff)
  ultimately show ?thesis using d by blast
qed

definition sample_report :: telemetry_report where
  "sample_report = \<lparr>tr_workloadId = ''w1'', tr_reportGeneration = 1, tr_actualState = ActRunning, tr_healthStatus = HHealthy,
     tr_healthMessage = None, tr_observedAt = 1900, tr_ports = None\<rparr>"

lemma telemetry_moves_forward_witness:
  "fst (accept_telemetry sample_host sample_node_row [sample_report] delivered_state) = Inr (Reply 200 (JObj [(''accepted'', JNum 1)]))
   \<and> map (\<lambda>w. (w_id w, w_actualState w, w_healthCheckedAt w))
       (t_workloads (snd (accept_telemetry sample_host sample_node_row [sample_report] delivered_state))) = [(''w1'', ActRunning, Some 1900)]"
proof -
  have d: "distinct (map w_id (t_workloads delivered_state))" by (simp add: delivered_state_def)
  have f: "fst (accept_telemetry sample_host sample_node_row [sample_report] delivered_state)
      = Inr (Reply 200 (JObj [(''accepted'', JNum 1)]))"
    by (simp add: accept_telemetry_def Let_def sample_report_def report_in_window_def delivered_state_def agent_state_def
        owned_workloads_def js_uniq_def new_workload_def sample_node_row_def stale_generation_def previous_state_def outdated_def
        checked_before_def store_report_def)
  let ?s' = "snd (accept_telemetry sample_host sample_node_row [sample_report] delivered_state)"
  from f have "accept_telemetry sample_host sample_node_row [sample_report] delivered_state
      = (Inr (Reply 200 (JObj [(''accepted'', JNum 1)])), ?s')" by (simp add: prod_eq_iff)
  from telemetry_moves_forward [OF d this] have "t_workloads ?s' = map (\<lambda>w. case List.find (\<lambda>r. tr_workloadId r = w_id w) [sample_report] of
          None \<Rightarrow> w
        | Some r \<Rightarrow> (apply_report r (Some w) (clock delivered_state) w)\<lparr>w_updatedAt := clock delivered_state\<rparr>) (t_workloads delivered_state)"
    by blast
  then have "map (\<lambda>w. (w_id w, w_actualState w, w_healthCheckedAt w)) (t_workloads ?s') = [(''w1'', ActRunning, Some 1900)]"
    by (simp add: delivered_state_def sample_report_def new_workload_def apply_report_def Let_def)
  with f show ?thesis by blast
qed

subsection \<open>Secrets\<close>

text \<open>C28. Secrets reach the agent they are referenced for. Whatever an agent is told in answer to a request for secrets,
  each value is the decryption of a variable marked secret in the environment of a deployment, under a key with which
  that deployment's snapshot references it, and the deployment's workload is assigned to the agent's node.\<close>

theorem secrets_stay_assigned:
  assumes "workload_secrets h a auth wid s = Inr (Reply 200 (JObj [(''environment'', JObj kvs)]))" and "(k, v) \<in> set kvs"
  shows "\<exists>node w d env refs ev plain. agentIdentity a auth s = Some node
    \<and> w \<in> set (t_workloads s) \<and> w_id w = wid \<and> w_nodeId w = Some (n_id node)
    \<and> find_deployment (w_deploymentId w) s = Some d
    \<and> snapshot_string ''environmentId'' (d_configurationSnapshot d) = Some env
    \<and> secret_references h (d_configurationSnapshot d) = Some refs \<and> (k, ev_id ev) \<in> set refs
    \<and> ev \<in> set (t_environmentVariables s) \<and> ev_isSecret ev \<and> ev_environmentId ev = env
    \<and> ah_decrypt a (ev_valueEncrypted ev) = Some plain \<and> v = JStr plain"
proof -
  obtain node w d ap where scope: "agentIdentity a auth s = Some node"
      "List.find (\<lambda>w. w_id w = wid \<and> w_nodeId w = Some (n_id node)) (t_workloads s) = Some w"
      "find_deployment (w_deploymentId w) s = Some d"
      "List.find (\<lambda>ap. a_id ap = d_applicationId d) (t_applications s) = Some ap"
    using assms(1) by (auto simp: workload_secrets_def with_workload_def unauthenticated_def split: option.splits)
  let ?env = "snapshot_string ''environmentId'' (d_configurationSnapshot d)"
  let ?refs = "or_else (secret_references h (d_configurationSnapshot d)) []"
  let ?byId = "referenced_secrets (the ?env) ?refs s"
  from assms scope have env: "truthy ?env" "?refs \<noteq> []"
    by (auto simp: workload_secrets_def with_workload_def Let_def split: if_splits)
  then obtain out where out: "those (map (decrypted a ?byId) (filter (\<lambda>r. snd r \<in> fst ` set ?byId) ?refs)) = Some out"
      "kvs = fold (\<lambda>kv. AList.update (fst kv) (JStr (snd kv))) out []"
    using assms(1) scope by (auto simp: workload_secrets_def with_workload_def Let_def split: option.splits)
  have "x \<in> set (fold (\<lambda>kv. AList.update (fst kv) (JStr (snd kv))) ys acc)
      \<Longrightarrow> x \<in> set acc \<or> (\<exists>y \<in> set ys. x = (fst y, JStr (snd y)))" for x :: "string \<times> json" and ys acc
  proof (induction ys arbitrary: acc)
    case Nil
    then show ?case by simp
  next
    case (Cons y ys)
    have "set (AList.update (fst y) (JStr (snd y)) acc) \<subseteq> insert (fst y, JStr (snd y)) (set acc)"
      by (induction acc) auto
    with Cons show ?case by fastforce
  qed
  with assms(2) out(2) obtain y where y: "y \<in> set out" "k = fst y" "v = JStr (snd y)" by fastforce
  from those_map_mem [OF out(1) y(1)] obtain r where r: "r \<in> set ?refs" "decrypted a ?byId r = Some y" by auto
  then obtain enc where enc: "map_of ?byId (snd r) = Some enc" "ah_decrypt a enc = Some (snd y)" "fst y = fst r"
    by (auto simp: decrypted_def bind_eq_Some_conv)
  from map_of_SomeD [OF enc(1)] obtain ev where ev: "ev \<in> set (t_environmentVariables s)" "ev_isSecret ev"
      "ev_environmentId ev = the ?env" "ev_id ev = snd r" "ev_valueEncrypted ev = enc"
    by (auto simp: referenced_secrets_def)
  from env obtain e where e: "?env = Some e" by (auto simp: truthy_def)
  from env(2) obtain refs where refs: "secret_references h (d_configurationSnapshot d) = Some refs"
    by (cases "secret_references h (d_configurationSnapshot d)") (simp_all add: or_else_def)
  have "(k, ev_id ev) \<in> set refs" using r(1) refs y(2) enc(3) ev(4) by (simp add: or_else_def)
  moreover from scope(2) have "w \<in> set (t_workloads s)" "w_id w = wid" "w_nodeId w = Some (n_id node)"
    by (auto dest: find_Some_iff')
  moreover have "ev_environmentId ev = e" "ah_decrypt a (ev_valueEncrypted ev) = Some (snd y)"
    using ev e enc(2) by simp_all
  ultimately show ?thesis using scope(1,3) e refs ev(1,2) y(3) by blast
qed

text \<open>A deployment with one secret, and the agent that runs it.\<close>

definition secret_snapshot :: json where
  "secret_snapshot = JObj [(''environmentId'', JStr ''prod''), (''secretReferences'', JArr [JObj [(''targetKey'', JStr ''DB''),
     (''secretEnvironmentVariableId'', JStr ''v1'')]])]"

definition sample_secret :: environment_variable where
  "sample_secret = \<lparr>ev_id = ''v1'', ev_environmentId = ''prod'', ev_key = ''DB_PASSWORD'', ev_valueEncrypted = ''enc'',
     ev_isSecret = True, ev_createdAt = 0, ev_updatedAt = 0\<rparr>"

definition secret_application :: application where
  "secret_application = \<lparr>a_id = ''app'', a_organizationId = ''org'', a_projectId = ''p1'', a_name = ''app'', a_slug = ''app'',
     a_description = None, a_sourceType = SrcDocker, a_gitUrl = None, a_imageName = Some ''nginx'', a_containerName = None,
     a_internalPort = 80, a_branch = ''main'', a_repositoryProvider = ''github'', a_rootDirectory = [], a_buildConfiguration = JObj [],
     a_autoDeployEnabled = False, a_gitCredentialReference = None, a_registryCredentialReference = None,
     a_lastKnownCommit = None, a_lifecycleStatus = LifeActive, a_archivedAt = None, a_applicationType = AppWeb,
     a_defaultEnvironmentId = None, a_status = AppReady, a_createdAt = 0, a_updatedAt = 0\<rparr>"

definition secret_state :: cp where
  "secret_state = delivered_state\<lparr>t_deployments := [(new_deployment empty_cp ''id-0'' 1 sample_input)\<lparr>d_configurationSnapshot := Some secret_snapshot\<rparr>],
     t_applications := [secret_application], t_environmentVariables := [sample_secret]\<rparr>"

lemma secrets_stay_assigned_witness:
  "workload_secrets sample_host sample_agent (Some ''Bearer tok'') ''w1'' secret_state
       = Inr (Reply 200 (JObj [(''environment'', JObj [(''DB'', JStr ''enc'')])]))
   \<and> (\<exists>ev \<in> set (t_environmentVariables secret_state). ev_isSecret ev \<and> ev_id ev = ''v1'')"
proof -
  have i: "agentIdentity sample_agent (Some ''Bearer tok'') secret_state = Some (sample_node_row\<lparr>n_agentTokenHash := ''#tok''\<rparr>)"
    using delivered_identity agentIdentity_cong [of secret_state delivered_state] by (simp add: secret_state_def)
  have r: "secret_references sample_host (Some secret_snapshot) = Some [(''DB'', ''v1'')]"
    by (simp add: secret_references_def secret_snapshot_def secret_reference_def z_req_def z_string_where_def target_key_def
        is_upper_def code_of_def sample_host_def)
  have 1: "workload_secrets sample_host sample_agent (Some ''Bearer tok'') ''w1'' secret_state
       = Inr (Reply 200 (JObj [(''environment'', JObj [(''DB'', JStr ''enc'')])]))"
    unfolding workload_secrets_def with_workload_def i
    by (simp add: secret_state_def delivered_state_def new_workload_def sample_node_row_def find_deployment_def new_deployment_def
        sample_input_def secret_application_def r snapshot_string_def truthy_def or_else_def referenced_secrets_def sample_secret_def
        decrypted_def sample_agent_def Let_def) (simp add: secret_snapshot_def)
  from secrets_stay_assigned [OF 1, of "''DB''" "JStr ''enc''"] 1 show ?thesis
    by (auto simp: secret_state_def sample_secret_def)
qed

end
