(* ===== verification/Workflow.thy ===== *)
theory Workflow
  imports Json JsText
begin

text \<open>
  Workflows of the builder: the schema of \<open>apps/builder/src/domain.ts\<close> and the validation, canonical form and
  interpolation of \<open>apps/builder/src/workflow.ts\<close>. A parsed step has the fields common to all steps and a body, the
  first alternative of the union that accepts it. The YAML parser, SHA-256, \<open>JSON.stringify\<close> of strings and numbers
  and the collation of \<open>localeCompare\<close> are arguments; the issues of a failed schema are one entry. The depth-first
  search of \<open>validateGraph\<close> runs on fuel: its recursion is at most as deep as the graph has steps.
\<close>

subsection \<open>The schema\<close>

definition relative_path_ok :: "string \<Rightarrow> bool" where
  "relative_path_ok v \<longleftrightarrow> 1 \<le> length v \<and> length v \<le> 512 \<and> \<not> starts_with ''/'' v
     \<and> ''..'' \<notin> set (split_on CHR ''/'' (map (\<lambda>c. if c = CHR 0x5C then CHR ''/'' else c) v))"

definition relativePath :: "json \<Rightarrow> string option" where
  "relativePath = z_string_where relative_path_ok"

text \<open>\<open>/^[a-z][a-z0-9_-]{0,62}$/\<close> and, without the underscore, the names of instances and templates.\<close>

definition step_id_ok :: "string \<Rightarrow> bool" where
  "step_id_ok v \<longleftrightarrow> v \<noteq> [] \<and> length v \<le> 63 \<and> is_lower (hd v)
     \<and> list_all (\<lambda>c. is_lower c \<or> is_digit c \<or> c = CHR ''_'' \<or> c = CHR ''-'') v"

definition instance_name_ok :: "string \<Rightarrow> bool" where
  "instance_name_ok v \<longleftrightarrow> step_id_ok v \<and> CHR ''_'' \<notin> set v"

text \<open>\<open>/^linux\/(amd64|arm64)(\/v\d+)?$/\<close>\<close>

definition platform_ok :: "string \<Rightarrow> bool" where
  "platform_ok v \<longleftrightarrow>
     (case split_on CHR ''/'' v of
        [os, arch] \<Rightarrow> os = ''linux'' \<and> (arch = ''amd64'' \<or> arch = ''arm64'')
      | [os, arch, var] \<Rightarrow> os = ''linux'' \<and> (arch = ''amd64'' \<or> arch = ''arm64'')
          \<and> (case var of c # ds \<Rightarrow> c = CHR ''v'' \<and> ds \<noteq> [] \<and> list_all is_digit ds | [] \<Rightarrow> False)
      | _ \<Rightarrow> False)"

definition image_ok :: "string \<Rightarrow> bool" where
  "image_ok v \<longleftrightarrow> 3 \<le> length v \<and> length v \<le> 512 \<and> is_alnum (hd v)
     \<and> list_all (\<lambda>c. is_alnum c \<or> c \<in> set ''._:/@-'') v"

definition domain_label_ok :: "string \<Rightarrow> bool" where
  "domain_label_ok v \<longleftrightarrow> v \<noteq> [] \<and> length v \<le> 63 \<and> hd v \<noteq> CHR ''-'' \<and> last v \<noteq> CHR ''-''
     \<and> list_all (\<lambda>c. is_lower c \<or> is_digit c \<or> c = CHR ''-'') v"

definition domain_ok :: "string \<Rightarrow> bool" where
  "domain_ok v \<longleftrightarrow> 2 \<le> length (split_on CHR ''.'' v) \<and> list_all domain_label_ok (split_on CHR ''.'' v)"

datatype shell = Sh | Bash

datatype deploy_mode = Automatic | Manual

record build_spec =
  bs_context :: string
  bs_dockerfile :: string
  bs_target :: "string option"
  bs_platforms :: "string list"
  bs_tags :: "string list"
  bs_push :: bool
  bs_insecureRegistry :: bool
  bs_args :: "(string \<times> string) list"
  bs_secrets :: "(string \<times> string) list"
  bs_cacheFrom :: "string list"
  bs_cacheTo :: "string option"

record deploy_spec =
  ds_image :: string
  ds_registryUsernameSecret :: "string option"
  ds_registryPasswordSecret :: "string option"
  ds_instanceName :: string
  ds_mode :: deploy_mode
  ds_resourceTemplate :: "string option"
  ds_domain :: "string option"
  ds_vcpuCount :: "int option"
  ds_memoryMiB :: "int option"
  ds_rootfsSizeMiB :: "int option"
  ds_servicePort :: "int option"
  ds_environment :: "(string \<times> string) list"

datatype step_body = RunBody string shell string | BuildBody build_spec | DeployBody deploy_spec

record wf_step =
  st_id :: string
  st_name :: "string option"
  st_needs :: "string list"
  st_if :: "string option"
  st_timeoutMinutes :: int
  st_retries :: int
  st_continueOnError :: bool
  st_env :: "(string \<times> string) list"
  st_body :: step_body

record workflow =
  wf_name :: string
  wf_env :: "(string \<times> string) list"
  wf_steps :: "wf_step list"

definition between :: "int \<Rightarrow> int \<Rightarrow> int \<Rightarrow> bool" where
  "between lo hi i \<longleftrightarrow> lo \<le> i \<and> i \<le> hi"

definition shells :: "(string \<times> shell) list" where
  "shells = [(''sh'', Sh), (''bash'', Bash)]"

definition deploy_modes :: "(string \<times> deploy_mode) list" where
  "deploy_modes = [(''automatic'', Automatic), (''manual'', Manual)]"

definition run_body :: "json \<Rightarrow> step_body option" where
  "run_body j =
     Option.bind (z_req (z_sized 1 100000) ''run'' j) (\<lambda>r.
     Option.bind (z_default (z_enum shells) Sh ''shell'' j) (\<lambda>sh.
     Option.bind (z_default relativePath ''.'' ''workingDirectory'' j) (\<lambda>wd.
       Some (RunBody r sh wd))))"

definition build_schema :: "json \<Rightarrow> build_spec option" where
  "build_schema j =
     Option.bind (z_object j) (\<lambda>j.
     Option.bind (z_default relativePath ''.'' ''context'' j) (\<lambda>ctx.
     Option.bind (z_default relativePath ''Dockerfile'' ''dockerfile'' j) (\<lambda>df.
     Option.bind (z_opt (z_sized 1 128) ''target'' j) (\<lambda>tgt.
     Option.bind (z_req (z_items 1 8 (z_string_where platform_ok)) ''platforms'' j) (\<lambda>pls.
     Option.bind (z_req (z_items 1 32 (z_sized 1 255)) ''tags'' j) (\<lambda>tags.
     Option.bind (z_default z_bool True ''push'' j) (\<lambda>push.
     Option.bind (z_default z_bool False ''insecureRegistry'' j) (\<lambda>ins.
     Option.bind (z_default z_record_string [] ''args'' j) (\<lambda>args.
     Option.bind (z_default z_record_string [] ''secrets'' j) (\<lambda>secs.
     Option.bind (z_default (z_items 0 8 z_string) [] ''cacheFrom'' j) (\<lambda>cf.
     Option.bind (z_opt z_string ''cacheTo'' j) (\<lambda>ct.
       Some \<lparr>bs_context = ctx, bs_dockerfile = df, bs_target = tgt, bs_platforms = pls, bs_tags = tags, bs_push = push,
             bs_insecureRegistry = ins, bs_args = args, bs_secrets = secs, bs_cacheFrom = cf, bs_cacheTo = ct\<rparr>))))))))))))"

definition manual_complete :: "deploy_spec \<Rightarrow> bool" where
  "manual_complete d \<longleftrightarrow> ds_mode d = Manual \<longrightarrow> ds_domain d \<noteq> None \<and> ds_vcpuCount d \<noteq> None \<and> ds_memoryMiB d \<noteq> None
     \<and> ds_rootfsSizeMiB d \<noteq> None \<and> ds_servicePort d \<noteq> None"

definition deploy_schema :: "json \<Rightarrow> deploy_spec option" where
  "deploy_schema j =
     Option.bind (z_object j) (\<lambda>j.
     Option.bind (z_req (z_string_where image_ok) ''image'' j) (\<lambda>img.
     Option.bind (z_opt (z_sized 1 128) ''registryUsernameSecret'' j) (\<lambda>us.
     Option.bind (z_opt (z_sized 1 128) ''registryPasswordSecret'' j) (\<lambda>ps.
     Option.bind (z_req (z_string_where instance_name_ok) ''instanceName'' j) (\<lambda>inm.
     Option.bind (z_default (z_enum deploy_modes) Automatic ''mode'' j) (\<lambda>mode.
     Option.bind (z_opt (z_string_where instance_name_ok) ''resourceTemplate'' j) (\<lambda>rt.
     Option.bind (z_opt (z_string_where domain_ok) ''domain'' j) (\<lambda>dom.
     Option.bind (z_opt (z_int (between 1 32)) ''vcpuCount'' j) (\<lambda>cpu.
     Option.bind (z_opt (z_int (between 128 65536)) ''memoryMiB'' j) (\<lambda>mem.
     Option.bind (z_opt (z_int (between 256 262144)) ''rootfsSizeMiB'' j) (\<lambda>fs.
     Option.bind (z_opt (z_int (between 1 65535)) ''servicePort'' j) (\<lambda>port.
     Option.bind (z_default z_record_string [] ''environment'' j) (\<lambda>env.
       let d = \<lparr>ds_image = img, ds_registryUsernameSecret = us, ds_registryPasswordSecret = ps, ds_instanceName = inm,
             ds_mode = mode, ds_resourceTemplate = rt, ds_domain = dom, ds_vcpuCount = cpu, ds_memoryMiB = mem,
             ds_rootfsSizeMiB = fs, ds_servicePort = port, ds_environment = env\<rparr>
       in if manual_complete d then Some d else None)))))))))))))"

definition first_body :: "json \<Rightarrow> step_body option" where
  "first_body j =
     (case run_body j of Some b \<Rightarrow> Some b | None \<Rightarrow>
     (case z_req build_schema ''build'' j of Some b \<Rightarrow> Some (BuildBody b) | None \<Rightarrow>
      map_option DeployBody (z_req deploy_schema ''deploy'' j)))"

definition step_schema :: "json \<Rightarrow> wf_step option" where
  "step_schema j =
     Option.bind (z_object j) (\<lambda>j.
     Option.bind (z_req (z_string_where step_id_ok) ''id'' j) (\<lambda>i.
     Option.bind (z_opt (z_sized 1 128) ''name'' j) (\<lambda>n.
     Option.bind (z_default (z_array z_string) [] ''needs'' j) (\<lambda>needs.
     Option.bind (z_opt (z_sized 0 512) ''if'' j) (\<lambda>cond.
     Option.bind (z_default (z_int (between 1 720)) 60 ''timeoutMinutes'' j) (\<lambda>tmo.
     Option.bind (z_default (z_int (between 0 5)) 0 ''retries'' j) (\<lambda>ret.
     Option.bind (z_default z_bool False ''continueOnError'' j) (\<lambda>coe.
     Option.bind (z_default z_record_string [] ''env'' j) (\<lambda>env.
     Option.bind (first_body j) (\<lambda>body.
       Some \<lparr>st_id = i, st_name = n, st_needs = needs, st_if = cond, st_timeoutMinutes = tmo, st_retries = ret,
             st_continueOnError = coe, st_env = env, st_body = body\<rparr>))))))))))"

definition workflowSchema :: "json \<Rightarrow> workflow option" where
  "workflowSchema j =
     Option.bind (z_object j) (\<lambda>j.
     Option.bind (z_req (z_int (\<lambda>i. i = 1)) ''version'' j) (\<lambda>_.
     Option.bind (z_req (z_sized 1 128) ''name'' j) (\<lambda>n.
     Option.bind (z_default z_record_string [] ''env'' j) (\<lambda>env.
     Option.bind (z_req (z_items 1 128 step_schema) ''steps'' j) (\<lambda>steps.
       Some \<lparr>wf_name = n, wf_env = env, wf_steps = steps\<rparr>)))))"

text \<open>The parsed workflow as the object that is stored and hashed.\<close>

definition jrecord :: "(string \<times> string) list \<Rightarrow> json" where
  "jrecord kvs = JObj (map (\<lambda>(k, v). (k, JStr v)) kvs)"

definition jstrings :: "string list \<Rightarrow> json" where
  "jstrings xs = JArr (map JStr xs)"

definition jint :: "int \<Rightarrow> json" where
  "jint i = JNum (of_int i)"

definition build_json :: "build_spec \<Rightarrow> json" where
  "build_json b = JObj ([(''context'', JStr (bs_context b)), (''dockerfile'', JStr (bs_dockerfile b))]
     @ jopt ''target'' (map_option JStr (bs_target b))
     @ [(''platforms'', jstrings (bs_platforms b)), (''tags'', jstrings (bs_tags b)), (''push'', JBool (bs_push b)),
        (''insecureRegistry'', JBool (bs_insecureRegistry b)), (''args'', jrecord (bs_args b)),
        (''secrets'', jrecord (bs_secrets b)), (''cacheFrom'', jstrings (bs_cacheFrom b))]
     @ jopt ''cacheTo'' (map_option JStr (bs_cacheTo b)))"

definition mode_str :: "deploy_mode \<Rightarrow> string" where
  "mode_str m = (case m of Automatic \<Rightarrow> ''automatic'' | Manual \<Rightarrow> ''manual'')"

definition deploy_json :: "deploy_spec \<Rightarrow> json" where
  "deploy_json d = JObj ([(''image'', JStr (ds_image d))]
     @ jopt ''registryUsernameSecret'' (map_option JStr (ds_registryUsernameSecret d))
     @ jopt ''registryPasswordSecret'' (map_option JStr (ds_registryPasswordSecret d))
     @ [(''instanceName'', JStr (ds_instanceName d)), (''mode'', JStr (mode_str (ds_mode d)))]
     @ jopt ''resourceTemplate'' (map_option JStr (ds_resourceTemplate d))
     @ jopt ''domain'' (map_option JStr (ds_domain d))
     @ jopt ''vcpuCount'' (map_option jint (ds_vcpuCount d)) @ jopt ''memoryMiB'' (map_option jint (ds_memoryMiB d))
     @ jopt ''rootfsSizeMiB'' (map_option jint (ds_rootfsSizeMiB d))
     @ jopt ''servicePort'' (map_option jint (ds_servicePort d))
     @ [(''environment'', jrecord (ds_environment d))])"

definition body_json :: "step_body \<Rightarrow> (string \<times> json) list" where
  "body_json b = (case b of
       RunBody r sh wd \<Rightarrow> [(''run'', JStr r), (''shell'', JStr (case sh of Sh \<Rightarrow> ''sh'' | Bash \<Rightarrow> ''bash'')), (''workingDirectory'', JStr wd)]
     | BuildBody b \<Rightarrow> [(''build'', build_json b)]
     | DeployBody d \<Rightarrow> [(''deploy'', deploy_json d)])"

definition step_json :: "wf_step \<Rightarrow> json" where
  "step_json s = JObj ([(''id'', JStr (st_id s))] @ jopt ''name'' (map_option JStr (st_name s))
     @ [(''needs'', jstrings (st_needs s))] @ jopt ''if'' (map_option JStr (st_if s))
     @ [(''timeoutMinutes'', jint (st_timeoutMinutes s)), (''retries'', jint (st_retries s)),
        (''continueOnError'', JBool (st_continueOnError s)), (''env'', jrecord (st_env s))]
     @ body_json (st_body s))"

definition workflow_json :: "workflow \<Rightarrow> json" where
  "workflow_json w = JObj [(''version'', jint 1), (''name'', JStr (wf_name w)), (''env'', jrecord (wf_env w)),
     (''steps'', JArr (map step_json (wf_steps w)))]"

subsection \<open>The graph of steps\<close>

type_synonym wf_errors = "(string \<times> string) list"

definition steps_path :: "nat \<Rightarrow> string \<Rightarrow> string" where
  "steps_path i field = ''steps.'' @ str_nat i @ ''.'' @ field"

fun duplicate_errors :: "nat \<Rightarrow> string list \<Rightarrow> wf_step list \<Rightarrow> wf_errors" where
  "duplicate_errors i seen [] = []"
| "duplicate_errors i seen (s # ss) =
     (if st_id s \<in> set seen then [(steps_path i ''id'', ''Duplicate step ID'')] else [])
       @ duplicate_errors (Suc i) (st_id s # seen) ss"

fun unknown_errors :: "nat \<Rightarrow> string list \<Rightarrow> wf_step list \<Rightarrow> wf_errors" where
  "unknown_errors i ids [] = []"
| "unknown_errors i ids (s # ss) =
     map (\<lambda>d. (steps_path i ''needs'', ''Unknown step: '' @ d)) (filter (\<lambda>d. d \<notin> set ids) (st_needs s))
       @ unknown_errors (Suc i) ids ss"

text \<open>\<open>new Map(steps.map(step => [step.id, step.needs]))\<close>: the first position and the last value of an id.\<close>

definition step_graph :: "wf_step list \<Rightarrow> (string \<times> string list) list" where
  "step_graph steps = fold (\<lambda>s. AList.update (st_id s) (st_needs s)) steps []"

definition needs_of :: "(string \<times> string list) list \<Rightarrow> string \<Rightarrow> string list" where
  "needs_of g i = (case map_of g i of None \<Rightarrow> [] | Some ns \<Rightarrow> ns)"

record visit_state =
  vs_visiting :: "string list"
  vs_visited :: "string list"
  vs_errors :: wf_errors

definition cycle_error :: "string list \<Rightarrow> string \<times> string" where
  "cycle_error path = (''steps'', ''Dependency cycle: '' @ js_join '' -> '' path)"

fun visit :: "nat \<Rightarrow> (string \<times> string list) list \<Rightarrow> string list \<Rightarrow> string \<Rightarrow> visit_state \<Rightarrow> visit_state" where
  "visit 0 g path i st = st"
| "visit (Suc fuel) g path i st =
     (if i \<in> set (vs_visiting st) then st\<lparr>vs_errors := vs_errors st @ [cycle_error (path @ [i])]\<rparr>
      else if i \<in> set (vs_visited st) then st
      else
        (let st1 = fold (visit fuel g (path @ [i])) (filter (\<lambda>d. map_of g d \<noteq> None) (needs_of g i))
                     (st\<lparr>vs_visiting := i # vs_visiting st\<rparr>)
         in st1\<lparr>vs_visiting := removeAll i (vs_visiting st1), vs_visited := i # vs_visited st1\<rparr>))"

definition cycle_errors :: "(string \<times> string list) list \<Rightarrow> wf_errors" where
  "cycle_errors g =
     vs_errors (fold (visit (Suc (length g)) g []) (map fst g) \<lparr>vs_visiting = [], vs_visited = [], vs_errors = []\<rparr>)"

definition validateGraph :: "wf_step list \<Rightarrow> wf_errors" where
  "validateGraph steps =
     duplicate_errors 0 [] steps @ unknown_errors 0 (map st_id steps) steps @ cycle_errors (step_graph steps)"

subsection \<open>Canonical form and validation\<close>

fun canonicalize :: "(string \<Rightarrow> string \<Rightarrow> rat) \<Rightarrow> (json \<Rightarrow> string) \<Rightarrow> json \<Rightarrow> string" where
  "canonicalize collate quote (JArr xs) = ''['' @ js_join '','' (map (canonicalize collate quote) xs) @ '']''"
| "canonicalize collate quote (JObj kvs) =
     ''{'' @ js_join '','' (map (\<lambda>(k, v). quote (JStr k) @ '':'' @ v)
        (js_sort (\<lambda>a b. collate (fst a) (fst b)) (map (\<lambda>(k, v). (k, canonicalize collate quote v)) kvs))) @ ''}''"
| "canonicalize collate quote j = quote j"

record workflow_validation =
  wv_valid :: bool
  wv_workflow :: "workflow option"
  wv_checksum :: "string option"
  wv_errors :: wf_errors

definition invalid_workflow :: "wf_errors \<Rightarrow> workflow_validation" where
  "invalid_workflow es = \<lparr>wv_valid = False, wv_workflow = None, wv_checksum = None, wv_errors = es\<rparr>"

definition validateWorkflow ::
  "(string \<Rightarrow> json option) \<Rightarrow> (string \<Rightarrow> string \<Rightarrow> rat) \<Rightarrow> (json \<Rightarrow> string) \<Rightarrow> (string \<Rightarrow> string) \<Rightarrow> json \<Rightarrow> workflow_validation" where
  "validateWorkflow yaml collate quote sha256 value =
     (case (case value of JStr text \<Rightarrow> yaml text | j \<Rightarrow> Some j) of
        None \<Rightarrow> invalid_workflow [(''$'', ''Invalid YAML'')]
      | Some parsed \<Rightarrow>
          (case workflowSchema parsed of
             None \<Rightarrow> invalid_workflow [(''$'', ''Invalid workflow'')]
           | Some w \<Rightarrow>
               (let errors = validateGraph (wf_steps w) in
                if errors \<noteq> [] then invalid_workflow errors
                else \<lparr>wv_valid = True, wv_workflow = Some w,
                       wv_checksum = Some (''sha256:'' @ sha256 (canonicalize collate quote (workflow_json w))), wv_errors = []\<rparr>)))"

subsection \<open>Interpolation\<close>

definition key_char :: "char \<Rightarrow> bool" where
  "key_char c \<longleftrightarrow> is_alnum c \<or> c = CHR ''_'' \<or> c = CHR ''.'' \<or> c = CHR ''-''"

text \<open>\<open>/\$\{\{\s*([\w.-]+)\s*\}\}/\<close> at the front of a text: the key and what follows.\<close>

definition placeholder :: "string \<Rightarrow> (string \<times> string) option" where
  "placeholder s =
     (if \<not> starts_with ''${{'' s then None
      else (let r = dropWhile is_space (drop 3 s); key = takeWhile key_char r; r' = dropWhile is_space (dropWhile key_char r) in
        if key = [] \<or> \<not> starts_with ''}}'' r' then None else Some (key, drop 2 r')))"

lemma placeholder_shorter: "placeholder s = Some (k, r) \<Longrightarrow> length r < length s"
proof -
  assume a: "placeholder s = Some (k, r)"
  let ?d = "dropWhile is_space (dropWhile key_char (dropWhile is_space (drop 3 s)))"
  from a have "s \<noteq> []" "r = drop 2 ?d"
    by (auto simp: placeholder_def Let_def starts_with_def split: if_splits)
  moreover have "length ?d \<le> length s - 3"
    using length_dropWhile_le [of is_space] length_dropWhile_le [of key_char] by (metis le_trans length_drop)
  ultimately show ?thesis by (cases s) auto
qed

function interpolate :: "string \<Rightarrow> (string \<times> string) list \<Rightarrow> string" where
  "interpolate s ctx =
     (case placeholder s of
        Some (k, r) \<Rightarrow> (case map_of ctx k of None \<Rightarrow> [] | Some v \<Rightarrow> v) @ interpolate r ctx
      | None \<Rightarrow> (case s of [] \<Rightarrow> [] | c # cs \<Rightarrow> c # interpolate cs ctx))"
  by pat_completeness auto

termination interpolate
  by (relation "measure (length \<circ> fst)") (auto dest: placeholder_shorter)

declare interpolate.simps [simp del]

end
