(* ===== verification/WorkflowProperties.thy ===== *)
theory WorkflowProperties
  imports Workflow
begin

text \<open>
  What the workflow validation promises. The locale \<open>printed\<close> is the contract between a schema and the form its values
  are stored in: what a schema accepts, it accepts again from the stored form, with the same value; it is interpreted for
  every schema of a workflow, so that a stored workflow reads back as itself. The graph check is compared with the
  property it stands for: unique ids, known needs, no cycle.
\<close>

subsection \<open>Stored forms\<close>

locale printed =
  fixes schema :: "json \<Rightarrow> 'a option"
    and print :: "'a \<Rightarrow> json"
  assumes reparse: "schema j = Some v \<Longrightarrow> schema (print v) = Some v"
begin

lemma req: "z_req schema k j = Some v \<Longrightarrow> jget k j' = Some (print v) \<Longrightarrow> z_req schema k j' = Some v"
  by (auto simp: z_req_def reparse split: option.splits)

lemma opt: "z_opt schema k j = Some v \<Longrightarrow> jget k j' = map_option print v \<Longrightarrow> z_opt schema k j' = Some v"
  by (auto simp: z_opt_def reparse split: option.splits)

lemma dflt: "z_default schema d k j = Some v \<Longrightarrow> schema (print d) = Some d \<Longrightarrow> jget k j' = Some (print v)
    \<Longrightarrow> z_default schema d k j' = Some v"
  by (auto simp: z_default_def reparse split: option.splits)

lemma arrays: "z_array schema j = Some vs \<Longrightarrow> z_array schema (JArr (map print vs)) = Some vs"
proof (cases j)
  case (JArr js)
  assume "z_array schema j = Some vs"
  with JArr have "those (map schema js) = Some vs" by simp
  then have "\<And>v. v \<in> set vs \<Longrightarrow> schema (print v) = Some v" using those_map_mem reparse by metis
  then show ?thesis using those_map_Some [of vs "\<lambda>v. schema (print v)" id] by (simp add: comp_def)
qed simp_all

lemma items: "z_items lo hi schema j = Some vs \<Longrightarrow> z_items lo hi schema (JArr (map print vs)) = Some vs"
  using arrays by (auto simp: z_items_def bind_eq_Some_conv split: if_splits)

end

interpretation strings: printed z_string JStr
  by unfold_locales simp

interpretation strings_where: printed "z_string_where ok" JStr
  by unfold_locales (auto simp: z_string_where_def split: option.splits if_splits)

interpretation sized: printed "z_sized lo hi" JStr
  unfolding z_sized_def by unfold_locales (rule strings_where.reparse)

interpretation paths: printed relativePath JStr
  unfolding relativePath_def by unfold_locales (rule strings_where.reparse)

interpretation ints: printed "z_int ok" jint
proof
  fix j :: json and v :: int
  assume "z_int ok j = Some v"
  then show "z_int ok (jint v) = Some v" by (cases j) (auto simp: jint_def split: if_splits)
qed

interpretation bools: printed z_bool JBool
  by unfold_locales simp

interpretation records: printed z_record_string jrecord
  by unfold_locales (simp only: jrecord_def z_record_roundtrip)

interpretation string_lists: printed "z_array z_string" jstrings
  unfolding jstrings_def by unfold_locales (rule strings.arrays)

lemma items_strings: "z_items lo hi (z_string_where ok) j = Some vs \<Longrightarrow> z_items lo hi (z_string_where ok) (jstrings vs) = Some vs"
  unfolding jstrings_def by (rule strings_where.items)

interpretation string_items: printed "z_items lo hi (z_string_where ok)" jstrings
  by unfold_locales (rule items_strings)

interpretation sized_items: printed "z_items lo hi (z_sized a b)" jstrings
  unfolding z_sized_def by unfold_locales (rule items_strings)

interpretation any_items: printed "z_items lo hi z_string" jstrings
  unfolding jstrings_def by unfold_locales (rule strings.items)

interpretation shell_names: printed "z_enum shells" "\<lambda>sh. JStr (case sh of Sh \<Rightarrow> ''sh'' | Bash \<Rightarrow> ''bash'')"
proof
  fix v :: shell
  show "z_enum shells (JStr (case v of Sh \<Rightarrow> ''sh'' | Bash \<Rightarrow> ''bash'')) = Some v"
    by (cases v) (simp_all add: z_enum_def shells_def)
qed

interpretation modes: printed "z_enum deploy_modes" "\<lambda>m. JStr (mode_str m)"
proof
  fix v :: deploy_mode
  show "z_enum deploy_modes (JStr (mode_str v)) = Some v"
    by (cases v) (simp_all add: z_enum_def deploy_modes_def mode_str_def)
qed

lemma default_path [simp]: "relativePath (JStr ''.'') = Some ''.''" "relativePath (JStr ''Dockerfile'') = Some ''Dockerfile''"
  by (simp_all add: relativePath_def z_string_where_def relative_path_ok_def starts_with_def)

lemma empty_forms [simp]: "z_record_string (jrecord []) = Some []" "z_array z_string (jstrings []) = Some []"
    "z_items 0 8 z_string (jstrings []) = Some []"
  by (simp_all add: jrecord_def jstrings_def z_items_def)

text \<open>Each schema with its stored form.\<close>

lemma build_fields:
  "z_object (build_json b) = Some (build_json b)"
  "jget ''context'' (build_json b) = Some (JStr (bs_context b))"
  "jget ''dockerfile'' (build_json b) = Some (JStr (bs_dockerfile b))"
  "jget ''target'' (build_json b) = map_option JStr (bs_target b)"
  "jget ''platforms'' (build_json b) = Some (jstrings (bs_platforms b))"
  "jget ''tags'' (build_json b) = Some (jstrings (bs_tags b))"
  "jget ''push'' (build_json b) = Some (JBool (bs_push b))"
  "jget ''insecureRegistry'' (build_json b) = Some (JBool (bs_insecureRegistry b))"
  "jget ''args'' (build_json b) = Some (jrecord (bs_args b))"
  "jget ''secrets'' (build_json b) = Some (jrecord (bs_secrets b))"
  "jget ''cacheFrom'' (build_json b) = Some (jstrings (bs_cacheFrom b))"
  "jget ''cacheTo'' (build_json b) = map_option JStr (bs_cacheTo b)"
  by (simp_all add: build_json_def map_add_def split: option.splits)

lemma build_reparse: "build_schema j = Some b \<Longrightarrow> build_schema (build_json b) = Some b"
proof -
  assume "build_schema j = Some b"
  then obtain j' where f: "z_default relativePath ''.'' ''context'' j' = Some (bs_context b)"
      "z_default relativePath ''Dockerfile'' ''dockerfile'' j' = Some (bs_dockerfile b)"
      "z_opt (z_sized 1 128) ''target'' j' = Some (bs_target b)"
      "z_req (z_items 1 8 (z_string_where platform_ok)) ''platforms'' j' = Some (bs_platforms b)"
      "z_req (z_items 1 32 (z_sized 1 255)) ''tags'' j' = Some (bs_tags b)"
      "z_default z_bool True ''push'' j' = Some (bs_push b)"
      "z_default z_bool False ''insecureRegistry'' j' = Some (bs_insecureRegistry b)"
      "z_default z_record_string [] ''args'' j' = Some (bs_args b)"
      "z_default z_record_string [] ''secrets'' j' = Some (bs_secrets b)"
      "z_default (z_items 0 8 z_string) [] ''cacheFrom'' j' = Some (bs_cacheFrom b)"
      "z_opt z_string ''cacheTo'' j' = Some (bs_cacheTo b)"
    unfolding build_schema_def by (auto simp: bind_eq_Some_conv)
  note b = build_fields [of b]
  note paths.dflt [OF f(1) default_path(1) b(2)] paths.dflt [OF f(2) default_path(2) b(3)] sized.opt [OF f(3) b(4)]
    string_items.req [OF f(4) b(5)] sized_items.req [OF f(5) b(6)] bools.dflt [OF f(6) _ b(7)]
    bools.dflt [OF f(7) _ b(8)] records.dflt [OF f(8) empty_forms(1) b(9)] records.dflt [OF f(9) empty_forms(1) b(10)]
    any_items.dflt [OF f(10) empty_forms(3) b(11)] strings.opt [OF f(11) b(12)]
  then show ?thesis unfolding build_schema_def by (simp add: b(1))
qed

lemma deploy_fields:
  "z_object (deploy_json d) = Some (deploy_json d)"
  "jget ''image'' (deploy_json d) = Some (JStr (ds_image d))"
  "jget ''registryUsernameSecret'' (deploy_json d) = map_option JStr (ds_registryUsernameSecret d)"
  "jget ''registryPasswordSecret'' (deploy_json d) = map_option JStr (ds_registryPasswordSecret d)"
  "jget ''instanceName'' (deploy_json d) = Some (JStr (ds_instanceName d))"
  "jget ''mode'' (deploy_json d) = Some (JStr (mode_str (ds_mode d)))"
  "jget ''resourceTemplate'' (deploy_json d) = map_option JStr (ds_resourceTemplate d)"
  "jget ''domain'' (deploy_json d) = map_option JStr (ds_domain d)"
  "jget ''vcpuCount'' (deploy_json d) = map_option jint (ds_vcpuCount d)"
  "jget ''memoryMiB'' (deploy_json d) = map_option jint (ds_memoryMiB d)"
  "jget ''rootfsSizeMiB'' (deploy_json d) = map_option jint (ds_rootfsSizeMiB d)"
  "jget ''servicePort'' (deploy_json d) = map_option jint (ds_servicePort d)"
  "jget ''environment'' (deploy_json d) = Some (jrecord (ds_environment d))"
  by (simp_all add: deploy_json_def map_add_def split: option.splits)

lemma deploy_reparse: "deploy_schema j = Some d \<Longrightarrow> deploy_schema (deploy_json d) = Some d"
proof -
  assume "deploy_schema j = Some d"
  then obtain j' where f: "z_req (z_string_where image_ok) ''image'' j' = Some (ds_image d)"
      "z_opt (z_sized 1 128) ''registryUsernameSecret'' j' = Some (ds_registryUsernameSecret d)"
      "z_opt (z_sized 1 128) ''registryPasswordSecret'' j' = Some (ds_registryPasswordSecret d)"
      "z_req (z_string_where instance_name_ok) ''instanceName'' j' = Some (ds_instanceName d)"
      "z_default (z_enum deploy_modes) Automatic ''mode'' j' = Some (ds_mode d)"
      "z_opt (z_string_where instance_name_ok) ''resourceTemplate'' j' = Some (ds_resourceTemplate d)"
      "z_opt (z_string_where domain_ok) ''domain'' j' = Some (ds_domain d)"
      "z_opt (z_int (between 1 32)) ''vcpuCount'' j' = Some (ds_vcpuCount d)"
      "z_opt (z_int (between 128 65536)) ''memoryMiB'' j' = Some (ds_memoryMiB d)"
      "z_opt (z_int (between 256 262144)) ''rootfsSizeMiB'' j' = Some (ds_rootfsSizeMiB d)"
      "z_opt (z_int (between 1 65535)) ''servicePort'' j' = Some (ds_servicePort d)"
      "z_default z_record_string [] ''environment'' j' = Some (ds_environment d)" and m: "manual_complete d"
    unfolding deploy_schema_def by (auto simp: bind_eq_Some_conv Let_def split: if_splits)
  have auto: "z_enum deploy_modes (JStr (mode_str Automatic)) = Some Automatic"
    by (simp add: z_enum_def deploy_modes_def mode_str_def)
  note b = deploy_fields [of d]
  note strings_where.req [OF f(1) b(2)] sized.opt [OF f(2) b(3)] sized.opt [OF f(3) b(4)] strings_where.req [OF f(4) b(5)]
    modes.dflt [OF f(5) auto b(6)] strings_where.opt [OF f(6) b(7)] strings_where.opt [OF f(7) b(8)]
    ints.opt [OF f(8) b(9)] ints.opt [OF f(9) b(10)] ints.opt [OF f(10) b(11)] ints.opt [OF f(11) b(12)]
    records.dflt [OF f(12) empty_forms(1) b(13)]
  then show ?thesis unfolding deploy_schema_def using m by (simp add: b(1) Let_def manual_complete_def)
qed

interpretation builds: printed build_schema build_json
  by unfold_locales (rule build_reparse)

interpretation deploys: printed deploy_schema deploy_json
  by unfold_locales (rule deploy_reparse)

lemma step_fields:
  "z_object (step_json s) = Some (step_json s)"
  "jget ''id'' (step_json s) = Some (JStr (st_id s))"
  "jget ''name'' (step_json s) = map_option JStr (st_name s)"
  "jget ''needs'' (step_json s) = Some (jstrings (st_needs s))"
  "jget ''if'' (step_json s) = map_option JStr (st_if s)"
  "jget ''timeoutMinutes'' (step_json s) = Some (jint (st_timeoutMinutes s))"
  "jget ''retries'' (step_json s) = Some (jint (st_retries s))"
  "jget ''continueOnError'' (step_json s) = Some (JBool (st_continueOnError s))"
  "jget ''env'' (step_json s) = Some (jrecord (st_env s))"
  by (simp_all add: step_json_def body_json_def map_add_def split: option.splits step_body.splits)

lemma step_body_fields:
  "jget ''run'' (step_json s) = (case st_body s of RunBody r _ _ \<Rightarrow> Some (JStr r) | _ \<Rightarrow> None)"
  "jget ''shell'' (step_json s) = (case st_body s of RunBody _ sh _ \<Rightarrow> Some (JStr (case sh of Sh \<Rightarrow> ''sh'' | Bash \<Rightarrow> ''bash'')) | _ \<Rightarrow> None)"
  "jget ''workingDirectory'' (step_json s) = (case st_body s of RunBody _ _ wd \<Rightarrow> Some (JStr wd) | _ \<Rightarrow> None)"
  "jget ''build'' (step_json s) = (case st_body s of BuildBody b \<Rightarrow> Some (build_json b) | _ \<Rightarrow> None)"
  "jget ''deploy'' (step_json s) = (case st_body s of DeployBody d \<Rightarrow> Some (deploy_json d) | _ \<Rightarrow> None)"
  by (simp_all add: step_json_def body_json_def map_add_def split: option.splits step_body.splits)

lemma body_reparse:
  assumes "first_body j = Some (st_body s)"
  shows "first_body (step_json s) = Some (st_body s)"
proof (cases "st_body s")
  case (RunBody r sh wd)
  have sh: "z_enum shells (JStr (case Sh of Sh \<Rightarrow> ''sh'' | Bash \<Rightarrow> ''bash'')) = Some Sh" by (simp add: z_enum_def shells_def)
  from assms RunBody have "run_body j = Some (RunBody r sh wd)" by (auto simp: first_body_def split: option.splits)
  then have f: "z_req (z_sized 1 100000) ''run'' j = Some r" "z_default (z_enum shells) Sh ''shell'' j = Some sh"
      "z_default relativePath ''.'' ''workingDirectory'' j = Some wd"
    by (auto simp: run_body_def bind_eq_Some_conv)
  have b: "jget ''run'' (step_json s) = Some (JStr r)" "jget ''workingDirectory'' (step_json s) = Some (JStr wd)"
      "jget ''shell'' (step_json s) = Some (JStr (case sh of Sh \<Rightarrow> ''sh'' | Bash \<Rightarrow> ''bash''))"
    by (simp_all add: step_body_fields RunBody)
  note sized.req [OF f(1) b(1)] shell_names.dflt [OF f(2) sh b(3)] paths.dflt [OF f(3) default_path(1) b(2)]
  then show ?thesis by (simp add: first_body_def run_body_def RunBody)
next
  case (BuildBody b)
  with assms have "z_req build_schema ''build'' j = Some b"
    by (auto simp: first_body_def run_body_def bind_eq_Some_conv split: option.splits)
  from builds.req [OF this, of "step_json s"] show ?thesis
    by (simp add: first_body_def run_body_def z_req_def [of _ "''run''"] step_body_fields BuildBody)
next
  case (DeployBody d)
  with assms have "z_req deploy_schema ''deploy'' j = Some d"
    by (auto simp: first_body_def run_body_def bind_eq_Some_conv split: option.splits)
  from deploys.req [OF this, of "step_json s"] show ?thesis
    by (simp add: first_body_def run_body_def z_req_def [of _ "''run''"] z_req_def [of _ "''build''"] step_body_fields DeployBody)
qed

lemma step_reparse: "step_schema j = Some s \<Longrightarrow> step_schema (step_json s) = Some s"
proof -
  assume "step_schema j = Some s"
  then obtain j' where f: "z_req (z_string_where step_id_ok) ''id'' j' = Some (st_id s)"
      "z_opt (z_sized 1 128) ''name'' j' = Some (st_name s)"
      "z_default (z_array z_string) [] ''needs'' j' = Some (st_needs s)"
      "z_opt (z_sized 0 512) ''if'' j' = Some (st_if s)"
      "z_default (z_int (between 1 720)) 60 ''timeoutMinutes'' j' = Some (st_timeoutMinutes s)"
      "z_default (z_int (between 0 5)) 0 ''retries'' j' = Some (st_retries s)"
      "z_default z_bool False ''continueOnError'' j' = Some (st_continueOnError s)"
      "z_default z_record_string [] ''env'' j' = Some (st_env s)" and b: "first_body j' = Some (st_body s)"
    unfolding step_schema_def by (auto simp: bind_eq_Some_conv)
  have d: "z_int (between 1 720) (jint 60) = Some 60" "z_int (between 0 5) (jint 0) = Some 0"
    by (simp_all add: jint_def between_def)
  note g = step_fields [of s]
  note strings_where.req [OF f(1) g(2)] sized.opt [OF f(2) g(3)] string_lists.dflt [OF f(3) empty_forms(2) g(4)]
    sized.opt [OF f(4) g(5)] ints.dflt [OF f(5) d(1) g(6)] ints.dflt [OF f(6) d(2) g(7)] bools.dflt [OF f(7) _ g(8)]
    records.dflt [OF f(8) empty_forms(1) g(9)] body_reparse [OF b]
  then show ?thesis unfolding step_schema_def by (simp add: g(1))
qed

interpretation steps: printed step_schema step_json
  by unfold_locales (rule step_reparse)

text \<open>C32. A stored workflow reads back as itself. Whatever document the schema accepts (with its defaults filled in and
  its unknown keys dropped), the workflow it yields, written out as the object that the run stores and the checksum
  hashes, is accepted again and yields the same workflow.\<close>

theorem workflow_reads_back:
  assumes "workflowSchema j = Some w"
  shows "workflowSchema (workflow_json w) = Some w"
proof -
  from assms obtain j' where f: "z_req (z_sized 1 128) ''name'' j' = Some (wf_name w)"
      "z_default z_record_string [] ''env'' j' = Some (wf_env w)"
      "z_req (z_items 1 128 step_schema) ''steps'' j' = Some (wf_steps w)"
    unfolding workflowSchema_def by (auto simp: bind_eq_Some_conv)
  let ?J = "workflow_json w"
  have b: "z_object ?J = Some ?J" "jget ''name'' ?J = Some (JStr (wf_name w))" "jget ''env'' ?J = Some (jrecord (wf_env w))"
    "jget ''steps'' ?J = Some (JArr (map step_json (wf_steps w)))" "z_req (z_int (\<lambda>i. i = 1)) ''version'' ?J = Some 1"
    by (simp_all add: workflow_json_def z_req_def jint_def)
  from f(3) obtain js where "z_items 1 128 step_schema js = Some (wf_steps w)" by (auto simp: z_req_def split: option.splits)
  from steps.items [OF this] have "z_req (z_items 1 128 step_schema) ''steps'' ?J = Some (wf_steps w)"
    using b(4) by (simp add: z_req_def)
  moreover note sized.req [OF f(1) b(2)] records.dflt [OF f(2) empty_forms(1) b(3)]
  ultimately show ?thesis unfolding workflowSchema_def by (simp add: b(1,5))
qed

subsection \<open>The graph check\<close>

lemma duplicate_errors_none: "duplicate_errors i seen ss = [] \<longleftrightarrow> distinct (map st_id ss) \<and> set seen \<inter> st_id ` set ss = {}"
  by (induction ss arbitrary: i seen) auto

lemma unknown_errors_none: "unknown_errors i ids ss = [] \<longleftrightarrow> (\<forall>s \<in> set ss. set (st_needs s) \<subseteq> set ids)"
  by (induction ss arbitrary: i) (auto simp: filter_empty_conv)

definition graph_nodes :: "(string \<times> string list) list \<Rightarrow> string set" where
  "graph_nodes g = fst ` set g"

definition graph_edges :: "(string \<times> string list) list \<Rightarrow> (string \<times> string) set" where
  "graph_edges g = {(x, y). x \<in> graph_nodes g \<and> y \<in> set (needs_of g x) \<and> y \<in> graph_nodes g}"

lemma graph_node_iff: "map_of g x \<noteq> None \<longleftrightarrow> x \<in> graph_nodes g"
  by (simp add: graph_nodes_def map_of_eq_None_iff)

lemma visit_errors_grow: "\<exists>es. vs_errors (visit fuel g path i st) = vs_errors st @ es"
proof (induction fuel arbitrary: path i st)
  case 0
  then show ?case by simp
next
  case (Suc fuel)
  have "\<exists>es. vs_errors (fold (visit fuel g p) ds st) = vs_errors st @ es" for p ds st
  proof (induction ds arbitrary: st)
    case Nil
    then show ?case by simp
  next
    case (Cons d ds)
    from Suc.IH [of p d st] Cons.IH [of "visit fuel g p d st"] show ?case by auto
  qed
  from this [of "path @ [i]" "filter (\<lambda>d. map_of g d \<noteq> None) (needs_of g i)" "st\<lparr>vs_visiting := i # vs_visiting st\<rparr>"]
  show ?case by (auto simp: Let_def)
qed

lemma fold_errors_grow: "\<exists>es. vs_errors (fold (visit fuel g p) ds st) = vs_errors st @ es"
proof (induction ds arbitrary: st)
  case Nil
  then show ?case by simp
next
  case (Cons d ds)
  from visit_errors_grow [of fuel g p d st] Cons.IH [of "visit fuel g p d st"] show ?case by auto
qed

lemma visit_visiting: "set (vs_visiting (visit fuel g path i st)) = set (vs_visiting st)"
proof (induction fuel arbitrary: path i st)
  case 0
  then show ?case by simp
next
  case (Suc fuel)
  have "set (vs_visiting (fold (visit fuel g p) ds st)) = set (vs_visiting st)" for p ds st
    by (induction ds arbitrary: st) (simp_all add: Suc.IH)
  then show ?case by (auto simp: Let_def)
qed

lemma fold_visiting: "set (vs_visiting (fold (visit fuel g p) ds st)) = set (vs_visiting st)"
  by (induction ds arbitrary: st) (simp_all add: visit_visiting)

text \<open>What the search knows about the steps it has left: they are closed under needs and free of cycles.\<close>

definition explored :: "(string \<times> string list) list \<Rightarrow> visit_state \<Rightarrow> bool" where
  "explored g st \<longleftrightarrow> (\<forall>x \<in> set (vs_visited st). \<forall>y. (x, y) \<in> graph_edges g \<longrightarrow> y \<in> set (vs_visited st))
     \<and> acyclic (Restr (graph_edges g) (set (vs_visited st))) \<and> set (vs_visited st) \<inter> set (vs_visiting st) = {}"

lemma acyclic_new_source:
  assumes "acyclic R" and "\<And>x y. (x, y) \<in> R' \<Longrightarrow> y \<noteq> i" and "\<And>x y. (x, y) \<in> R' \<Longrightarrow> x \<noteq> i \<Longrightarrow> (x, y) \<in> R"
  shows "acyclic R'"
proof -
  have paths: "y \<noteq> i \<and> (x \<noteq> i \<longrightarrow> (x, y) \<in> R\<^sup>+)" if "(x, y) \<in> R'\<^sup>+" for x y
    using that
  proof (induction rule: trancl_induct)
    case (base y)
    then show ?case using assms(2,3) by blast
  next
    case (step y z)
    then have "(y, z) \<in> R" using assms(3) [OF step.hyps(2)] by simp
    with step.IH assms(2) [OF step.hyps(2)] show ?case by (auto intro: trancl.trancl_into_trancl)
  qed
  have "(x, x) \<notin> R'\<^sup>+" for x
  proof
    assume "(x, x) \<in> R'\<^sup>+"
    from paths [OF this] have "(x, x) \<in> R\<^sup>+" by simp
    with assms(1) show False by (simp add: acyclic_def)
  qed
  then show ?thesis by (simp add: acyclic_def)
qed

lemma visit_explores:
  assumes "i \<in> graph_nodes g" and "card (graph_nodes g - set (vs_visiting st)) < fuel" and "explored g st"
    and "vs_errors (visit fuel g path i st) = []"
  shows "explored g (visit fuel g path i st) \<and> i \<in> set (vs_visited (visit fuel g path i st))
    \<and> set (vs_visited st) \<subseteq> set (vs_visited (visit fuel g path i st))"
  using assms
proof (induction fuel arbitrary: path i st)
  case 0
  then show ?case by simp
next
  case (Suc fuel)
  let ?p = "path @ [i]"
  let ?ds = "filter (\<lambda>d. map_of g d \<noteq> None) (needs_of g i)"
  let ?st0 = "st\<lparr>vs_visiting := i # vs_visiting st\<rparr>"
  let ?st1 = "fold (visit fuel g ?p) ?ds ?st0"
  have not_now: "i \<notin> set (vs_visiting st)" using Suc.prems(4) by auto
  show ?case
  proof (cases "i \<in> set (vs_visited st)")
    case True
    with not_now Suc.prems(3) show ?thesis by simp
  next
    case False
    have walk: "explored g (fold (visit fuel g ?p) ds t) \<and> set ds \<subseteq> set (vs_visited (fold (visit fuel g ?p) ds t))
        \<and> set (vs_visited t) \<subseteq> set (vs_visited (fold (visit fuel g ?p) ds t))"
      if "set ds \<subseteq> graph_nodes g" "card (graph_nodes g - set (vs_visiting t)) < fuel" "explored g t"
        "vs_errors (fold (visit fuel g ?p) ds t) = []" for ds t
      using that
    proof (induction ds arbitrary: t)
      case Nil
      then show ?case by simp
    next
      case (Cons d ds)
      let ?t = "visit fuel g ?p d t"
      have e: "vs_errors ?t = []" using Cons.prems(4) fold_errors_grow [of fuel g ?p ds ?t] by auto
      from Suc.IH [OF _ Cons.prems(2,3) e] Cons.prems(1)
      have 1: "explored g ?t" "d \<in> set (vs_visited ?t)" "set (vs_visited t) \<subseteq> set (vs_visited ?t)" by auto
      from Cons.IH [OF _ _ 1(1)] Cons.prems visit_visiting [of fuel g ?p d t] 1(2,3) show ?case by auto
    qed
    have fin: "finite (graph_nodes g)" by (simp add: graph_nodes_def)
    have less: "card (graph_nodes g - set (vs_visiting ?st0)) < fuel"
    proof -
      have "graph_nodes g - set (vs_visiting ?st0) \<subset> graph_nodes g - set (vs_visiting st)"
        using Suc.prems(1) not_now by auto
      with fin have "card (graph_nodes g - set (vs_visiting ?st0)) < card (graph_nodes g - set (vs_visiting st))"
        by (intro psubset_card_mono) auto
      with Suc.prems(2) show ?thesis by simp
    qed
    have st': "visit (Suc fuel) g path i st = ?st1\<lparr>vs_visiting := removeAll i (vs_visiting ?st1), vs_visited := i # vs_visited ?st1\<rparr>"
      using not_now False by (simp add: Let_def)
    have ex0: "explored g ?st0" using Suc.prems(3) False by (auto simp: explored_def)
    have err: "vs_errors ?st1 = []" using Suc.prems(4) unfolding st' by simp
    have nodes: "set ?ds \<subseteq> graph_nodes g" by (auto simp: graph_node_iff simp del: not_None_eq)
    from walk [OF nodes less ex0 err] have w: "explored g ?st1" "set ?ds \<subseteq> set (vs_visited ?st1)"
      "set (vs_visited st) \<subseteq> set (vs_visited ?st1)" by auto
    have vis: "set (vs_visiting ?st1) = insert i (set (vs_visiting st))" by (simp add: fold_visiting)
    have i1: "i \<notin> set (vs_visited ?st1)" using w(1) vis by (auto simp: explored_def)
    have succ: "y \<in> set (vs_visited ?st1)" if "(i, y) \<in> graph_edges g" for y
      using that w(2) by (auto simp: graph_edges_def graph_node_iff simp del: not_None_eq)
    have closed: "y \<in> set (vs_visited ?st1)" if "x \<in> set (vs_visited ?st1)" "(x, y) \<in> graph_edges g" for x y
      using that w(1) by (auto simp: explored_def)
    have ac: "acyclic (Restr (graph_edges g) (set (vs_visited ?st1)))" using w(1) by (simp add: explored_def)
    have "acyclic (Restr (graph_edges g) (insert i (set (vs_visited ?st1))))"
      by (rule acyclic_new_source [OF ac, of _ i]) (use i1 succ closed in blast)+
    moreover have "set (vs_visited ?st1) \<inter> set (vs_visiting ?st1) = {}" using w(1) by (simp add: explored_def)
    ultimately have "explored g (visit (Suc fuel) g path i st)"
      unfolding st' explored_def using succ closed by auto
    then show ?thesis using w(3) unfolding st' by auto
  qed
qed

lemma acyclic_no_errors:
  assumes "acyclic (graph_edges g)" and "i \<in> graph_nodes g" and "\<And>v. v \<in> set (vs_visiting st) \<Longrightarrow> (v, i) \<in> (graph_edges g)\<^sup>+"
  shows "vs_errors (visit fuel g path i st) = vs_errors st"
  using assms(2,3)
proof (induction fuel arbitrary: path i st)
  case 0
  then show ?case by simp
next
  case (Suc fuel)
  let ?p = "path @ [i]"
  have not_now: "i \<notin> set (vs_visiting st)" using Suc.prems(2) assms(1) by (auto simp: acyclic_def)
  have "vs_errors (fold (visit fuel g ?p) ds t) = vs_errors t"
    if "\<And>d. d \<in> set ds \<Longrightarrow> (i, d) \<in> graph_edges g" "set (vs_visiting t) = insert i (set (vs_visiting st))" for ds t
    using that
  proof (induction ds arbitrary: t)
    case Nil
    then show ?case by simp
  next
    case (Cons d ds)
    have e: "(i, d) \<in> graph_edges g" using Cons.prems(1) by simp
    then have "d \<in> graph_nodes g" by (simp add: graph_edges_def)
    moreover have "(v, d) \<in> (graph_edges g)\<^sup>+" if "v \<in> set (vs_visiting t)" for v
      using that e Suc.prems(2) Cons.prems(2) by (auto intro: trancl.trancl_into_trancl)
    ultimately have "vs_errors (visit fuel g ?p d t) = vs_errors t" by (rule Suc.IH)
    with Cons.IH [of "visit fuel g ?p d t"] Cons.prems visit_visiting [of fuel g ?p d t] show ?case by simp
  qed
  from this [of "filter (\<lambda>d. map_of g d \<noteq> None) (needs_of g i)" "st\<lparr>vs_visiting := i # vs_visiting st\<rparr>"] Suc.prems(1) not_now
  show ?case by (simp add: Let_def graph_edges_def graph_node_iff del: not_None_eq)
qed

lemma fold_explores:
  assumes "set ds \<subseteq> graph_nodes g" and "card (graph_nodes g - set (vs_visiting st)) < fuel" and "explored g st"
    and "vs_errors (fold (visit fuel g path) ds st) = []"
  shows "explored g (fold (visit fuel g path) ds st) \<and> set ds \<subseteq> set (vs_visited (fold (visit fuel g path) ds st))
    \<and> set (vs_visited st) \<subseteq> set (vs_visited (fold (visit fuel g path) ds st))"
  using assms
proof (induction ds arbitrary: st)
  case Nil
  then show ?case by simp
next
  case (Cons d ds)
  let ?t = "visit fuel g path d st"
  have e: "vs_errors ?t = []" using Cons.prems(4) fold_errors_grow [of fuel g path ds ?t] by auto
  from visit_explores [OF _ Cons.prems(2,3) e] Cons.prems(1)
  have 1: "explored g ?t" "d \<in> set (vs_visited ?t)" "set (vs_visited st) \<subseteq> set (vs_visited ?t)" by auto
  from Cons.IH [OF _ _ 1(1)] Cons.prems visit_visiting [of fuel g path d st] 1(2,3) show ?case by auto
qed

lemma fold_no_errors:
  assumes "acyclic (graph_edges g)" and "set ds \<subseteq> graph_nodes g" and "vs_visiting st = []"
  shows "vs_errors (fold (visit fuel g path) ds st) = vs_errors st"
  using assms(2,3)
proof (induction ds arbitrary: st)
  case Nil
  then show ?case by simp
next
  case (Cons d ds)
  have "vs_errors (visit fuel g path d st) = vs_errors st"
    by (rule acyclic_no_errors [OF assms(1)]) (use Cons.prems in auto)
  moreover have "vs_visiting (visit fuel g path d st) = []"
    using visit_visiting [of fuel g path d st] Cons.prems(2) by simp
  ultimately show ?case using Cons.IH [of "visit fuel g path d st"] Cons.prems(1) by simp
qed

lemma cycle_errors_none: "cycle_errors g = [] \<longleftrightarrow> acyclic (graph_edges g)"
proof -
  define n where "n = Suc (length g)"
  let ?s = "\<lparr>vs_visiting = [], vs_visited = [], vs_errors = []\<rparr>"
  let ?f = "fold (visit n g []) (map fst g) ?s"
  have c: "cycle_errors g = vs_errors ?f" by (simp only: cycle_errors_def n_def)
  have nodes: "set (map fst g) \<subseteq> graph_nodes g" by (simp add: graph_nodes_def)
  have card: "card (graph_nodes g - set (vs_visiting ?s)) < n"
    using card_image_le [of "set g" fst] card_length [of g] by (simp add: graph_nodes_def n_def)
  have ex: "explored g ?s" by (simp add: explored_def acyclic_def)
  show ?thesis
  proof
    assume "cycle_errors g = []"
    with fold_explores [OF nodes card ex] c
    have w: "explored g ?f" "graph_nodes g \<subseteq> set (vs_visited ?f)" by (auto simp: graph_nodes_def)
    then have "graph_edges g \<subseteq> Restr (graph_edges g) (set (vs_visited ?f))" by (auto simp: graph_edges_def)
    with w(1) show "acyclic (graph_edges g)" unfolding explored_def by (meson acyclic_subset)
  next
    assume "acyclic (graph_edges g)"
    from fold_no_errors [OF this nodes, of ?s n "[]"] c show "cycle_errors g = []" by simp
  qed
qed

text \<open>The relation of a workflow: a step and a step it needs.\<close>

definition needs_rel :: "wf_step list \<Rightarrow> (string \<times> string) set" where
  "needs_rel steps = {(st_id s, d) | s d. s \<in> set steps \<and> d \<in> set (st_needs s)}"

lemma alist_update_new: "k \<notin> fst ` set g \<Longrightarrow> AList.update k v g = g @ [(k, v)]"
  by (induction g) auto

lemma step_graph_distinct:
  assumes "distinct (map st_id steps)"
  shows "step_graph steps = map (\<lambda>s. (st_id s, st_needs s)) steps"
proof -
  have "fold (\<lambda>s. AList.update (st_id s) (st_needs s)) ss g = g @ map (\<lambda>s. (st_id s, st_needs s)) ss"
    if "distinct (map st_id ss)" "st_id ` set ss \<inter> fst ` set g = {}" for ss g
    using that
  proof (induction ss arbitrary: g)
    case Nil
    then show ?case by simp
  next
    case (Cons s ss)
    have "AList.update (st_id s) (st_needs s) g = g @ [(st_id s, st_needs s)]"
      using Cons.prems(2) by (intro alist_update_new) auto
    with Cons.IH [of "g @ [(st_id s, st_needs s)]"] Cons.prems show ?case by auto
  qed
  from this [OF assms, of "[]"] show ?thesis by (simp add: step_graph_def)
qed

lemma graph_check:
  "validateGraph steps = [] \<longleftrightarrow> distinct (map st_id steps) \<and> snd ` needs_rel steps \<subseteq> st_id ` set steps
     \<and> acyclic (needs_rel steps)"
proof -
  have known: "(\<forall>s \<in> set steps. set (st_needs s) \<subseteq> st_id ` set steps) \<longleftrightarrow> snd ` needs_rel steps \<subseteq> st_id ` set steps"
    by (force simp: needs_rel_def)
  show ?thesis
proof (cases "distinct (map st_id steps) \<and> (\<forall>s \<in> set steps. set (st_needs s) \<subseteq> st_id ` set steps)")
  case True
  then have g: "step_graph steps = map (\<lambda>s. (st_id s, st_needs s)) steps" by (simp add: step_graph_distinct)
  have m: "map_of (step_graph steps) (st_id s) = Some (st_needs s)" if "s \<in> set steps" for s
    unfolding g using True that by (intro map_of_is_SomeI) (auto simp: comp_def)
  have "graph_edges (step_graph steps) = needs_rel steps"
  proof (intro set_eqI iffI; clarify)
    fix x y
    assume "(x, y) \<in> graph_edges (step_graph steps)"
    then obtain s where "s \<in> set steps" "x = st_id s" "y \<in> set (needs_of (step_graph steps) x)"
      by (auto simp: graph_edges_def graph_nodes_def g)
    then show "(x, y) \<in> needs_rel steps" using m by (auto simp: needs_rel_def needs_of_def)
  next
    fix x y
    assume "(x, y) \<in> needs_rel steps"
    then obtain s where s: "s \<in> set steps" "x = st_id s" "y \<in> set (st_needs s)" by (auto simp: needs_rel_def)
    with True have "y \<in> st_id ` set steps" by blast
    with s m show "(x, y) \<in> graph_edges (step_graph steps)"
      by (auto simp: graph_edges_def graph_nodes_def needs_of_def g image_comp comp_def)
  qed
  with True known show ?thesis
    by (simp add: validateGraph_def duplicate_errors_none unknown_errors_none cycle_errors_none)
next
  case False
  then show ?thesis unfolding known [symmetric]
    by (auto simp: validateGraph_def duplicate_errors_none unknown_errors_none)
qed
qed

text \<open>C31. The graph check finds exactly the broken workflows. It reports no error for the steps of a workflow when, and
  only when, their ids are distinct, every need names a step and the needs have no cycle; its recursion always ends.\<close>

theorem graph_check_exact:
  "validateGraph steps = [] \<longleftrightarrow> distinct (map st_id steps) \<and> snd ` needs_rel steps \<subseteq> st_id ` set steps
     \<and> acyclic (needs_rel steps)"
  by (rule graph_check)

subsection \<open>A sample\<close>

definition sample_document :: json where
  "sample_document = JObj [(''version'', JNum 1), (''name'', JStr ''ci''), (''extra'', JBool True),
     (''steps'', JArr [JObj [(''id'', JStr ''test''), (''run'', JStr ''make'')]])]"

definition sample_step :: wf_step where
  "sample_step = \<lparr>st_id = ''test'', st_name = None, st_needs = [], st_if = None, st_timeoutMinutes = 60, st_retries = 0,
     st_continueOnError = False, st_env = [], st_body = RunBody ''make'' Sh ''.''\<rparr>"

lemma sample_document_parsed: "workflowSchema sample_document = Some \<lparr>wf_name = ''ci'', wf_env = [], wf_steps = [sample_step]\<rparr>"
  by (simp add: workflowSchema_def sample_document_def z_req_def z_default_def z_opt_def z_sized_def z_items_def z_string_where_def
      step_schema_def first_body_def run_body_def sample_step_def step_id_ok_def is_lower_def code_of_def)

lemma workflow_reads_back_witness:
  "workflowSchema (workflow_json \<lparr>wf_name = ''ci'', wf_env = [], wf_steps = [sample_step]\<rparr>)
     = Some \<lparr>wf_name = ''ci'', wf_env = [], wf_steps = [sample_step]\<rparr>"
  by (rule workflow_reads_back [OF sample_document_parsed])

end
