(* ===== verification/LeaseRenewal.thy ===== *)
theory LeaseRenewal
  imports Lease
begin

text \<open>
  Leases that their holder extends while it works. The locale \<open>renewable_lease\<close> adds to \<open>lease\<close> a renewal that succeeds
  only for the holder the row shows; besides claims, releases and renewals the protocol \<open>renewal_step\<close> has lapses: any
  other operation may leave the row alone or free a lease that has run out. Still at most one worker holds a valid lease.
\<close>

inductive renewal_step ::
  "('s \<Rightarrow> int) \<Rightarrow> ('s \<Rightarrow> (string \<times> int) option) \<Rightarrow> (string \<Rightarrow> 's \<Rightarrow> 's option) \<Rightarrow> (string \<Rightarrow> 's \<Rightarrow> 's)
     \<Rightarrow> (string \<Rightarrow> 's \<Rightarrow> 's option) \<Rightarrow> int \<Rightarrow> 's \<times> (string \<times> int) list \<Rightarrow> 's \<times> (string \<times> int) list \<Rightarrow> bool"
  for now lease_of claim release renew ttl where
  taken: "claim i s = Some s' \<Longrightarrow> i \<notin> fst ` set hs \<Longrightarrow>
     renewal_step now lease_of claim release renew ttl (s, hs) (s', (i, now s + ttl) # hs)"
| given_back: "i \<in> fst ` set hs \<Longrightarrow>
     renewal_step now lease_of claim release renew ttl (s, hs) (release i s, filter (\<lambda>h. fst h \<noteq> i) hs)"
| renewed: "i \<in> fst ` set hs \<Longrightarrow> renew i s = Some s' \<Longrightarrow>
     renewal_step now lease_of claim release renew ttl (s, hs) (s', (i, now s + ttl) # filter (\<lambda>h. fst h \<noteq> i) hs)"
| dropped: "renewal_step now lease_of claim release renew ttl (s, hs) (s, filter (\<lambda>h. fst h \<noteq> i) hs)"
| lapsed: "lease_of s' = lease_of s \<or> lease_of s' = None \<and> (\<forall>j t. lease_of s = Some (j, t) \<longrightarrow> t < now s) \<Longrightarrow>
     now s \<le> now s' \<Longrightarrow> renewal_step now lease_of claim release renew ttl (s, hs) (s', hs)"

locale renewable_lease = lease +
  fixes renew :: "string \<Rightarrow> 'a \<Rightarrow> 'a option"
  assumes renew_own: "renew i s = Some s' \<Longrightarrow> \<exists>t. lease_of s = Some (i, t)"
    and renew_shows: "renew i s = Some s' \<Longrightarrow> lease_of s' = Some (i, now s + ttl)"
    and renew_now: "renew i s = Some s' \<Longrightarrow> now s' = now s"
begin

lemma renewal_inv:
  assumes "renewal_step now lease_of claim release renew ttl c c'" and "lease_inv now lease_of c"
  shows "lease_inv now lease_of c'"
  using assms
proof (induction rule: renewal_step.induct)
  case (taken i s s' hs)
  have "lease_step now lease_of claim release ttl (s, hs) (s', (i, now s + ttl) # hs)"
    by (rule lease_step.claimed) (fact taken.hyps)+
  from step_inv [OF this taken.prems] show ?case .
next
  case (given_back i hs s)
  then obtain t where "(i, t) \<in> set hs" by auto
  then have "lease_step now lease_of claim release ttl (s, hs) (release i s, filter (\<lambda>h. fst h \<noteq> i) hs)"
    by (rule lease_step.released)
  from step_inv [OF this given_back.prems] show ?case .
next
  case (renewed i hs s s')
  from renew_own [OF renewed.hyps(2)] obtain t where own: "lease_of s = Some (i, t)" by blast
  have "lease_of s' = Some h" if "h \<in> set ((i, now s + ttl) # filter (\<lambda>h. fst h \<noteq> i) hs)" "now s' \<le> snd h" for h
  proof (cases "h = (i, now s + ttl)")
    case True
    with renew_shows [OF renewed.hyps(2)] show ?thesis by simp
  next
    case False
    with that have h: "h \<in> set hs" "fst h \<noteq> i" by auto
    with that(2) renewed.prems renew_now [OF renewed.hyps(2)] have "lease_of s = Some h" by (simp add: lease_inv_def)
    with own h(2) show ?thesis by (cases h) simp
  qed
  with renewed.prems show ?case by (auto simp: lease_inv_def distinct_map_filter)
next
  case (dropped s hs i)
  then show ?case by (auto simp: lease_inv_def distinct_map_filter)
next
  case (lapsed s' s hs)
  then show ?case by (force simp: lease_inv_def)
qed

lemma renewal_exclusive:
  assumes "(renewal_step now lease_of claim release renew ttl)\<^sup>*\<^sup>* (s, []) c"
  shows "length (valid_leases now c) \<le> 1"
proof -
  have inv: "lease_inv now lease_of c"
    using assms
  proof (induction rule: rtranclp_induct)
    case base
    show ?case by (simp add: lease_inv_def)
  next
    case (step c c')
    from renewal_inv [OF step.hyps(2) step.IH] show ?case .
  qed
  then show ?thesis by (rule exclusive_inv)
qed

end

end
