(* ===== verification/BuilderRuns.thy ===== *)
theory BuilderRuns
  imports Workflow LeaseRenewal Lifecycle
begin

text \<open>
  The run queue of the builder: \<open>apps/builder/src/postgres.ts\<close> (\<open>PostgresRunRepository\<close>) over the tables of
  \<open>apps/builder/migrations/001_init.sql\<close>, the HTTP routes of \<open>apps/builder/src/app.ts\<close> that change runs, and one round
  of the loop of \<open>apps/builder/src/worker.ts\<close>. Each statement is atomic. Rows that another claim has locked are skipped:
  the predicate \<open>locked\<close>. The encryption of the secrets is the pair \<open>enc\<close>, \<open>dec\<close> of \<open>vault\<close>, which may fail to decrypt
  (the exception leaves the method after its statement). \<open>now()\<close> is \<open>bd_now\<close>, in milliseconds.
\<close>

datatype builder_status = RQueued | RRunning | RPushing | RSucceeded | RFailed | RCancelled

record build_run =
  br_id :: string
  br_workflow :: workflow
  br_repository :: string
  br_ref :: string
  br_inputs :: "(string \<times> string) list"
  br_secrets :: "(string \<times> string) list"
  br_metadata :: json
  br_idempotencyKey :: string
  br_status :: builder_status
  br_attempt :: int
  br_workerId :: "string option"
  br_leaseExpiresAt :: "int option"
  br_cancelRequested :: bool
  br_error :: "string option"
  br_createdAt :: int
  br_startedAt :: "int option"
  br_finishedAt :: "int option"

datatype log_stream = LogSystem | LogStdout | LogStderr

record log_input =
  li_runId :: string
  li_stepId :: "string option"
  li_stream :: log_stream
  li_message :: string

record log_entry = log_input +
  le_id :: int
  le_createdAt :: int

record builder =
  bd_now :: int
  bd_uuid :: nat
  bd_log_next :: int
  bd_runs :: "build_run list"
  bd_logs :: "log_entry list"

record vault =
  vt_uuid :: "nat \<Rightarrow> string"
  vt_enc :: "nat \<Rightarrow> (string \<times> string) list \<Rightarrow> (string \<times> string) list"
  vt_dec :: "(string \<times> string) list \<Rightarrow> (string \<times> string) list option"

record create_input =
  ci_workflow :: workflow
  ci_repository :: string
  ci_ref :: string
  ci_inputs :: "(string \<times> string) list"
  ci_secrets :: "(string \<times> string) list"
  ci_idempotencyKey :: string

definition emptyMetadata :: json where
  "emptyMetadata = JObj [(''exposedPorts'', JArr []), (''detectedDockerfiles'', JObj [])]"

definition update_runs :: "(build_run \<Rightarrow> bool) \<Rightarrow> (build_run \<Rightarrow> build_run) \<Rightarrow> builder \<Rightarrow> builder" where
  "update_runs P f s = s\<lparr>bd_runs := upd_where P f (bd_runs s)\<rparr>"

definition find_run :: "string \<Rightarrow> builder \<Rightarrow> build_run option" where
  "find_run i s = List.find (\<lambda>r. br_id r = i) (bd_runs s)"

definition mapRun :: "vault \<Rightarrow> build_run \<Rightarrow> build_run option" where
  "mapRun v r = map_option (\<lambda>plain. r\<lparr>br_secrets := plain\<rparr>) (vt_dec v (br_secrets r))"

definition new_run :: "vault \<Rightarrow> create_input \<Rightarrow> string \<Rightarrow> builder \<Rightarrow> build_run" where
  "new_run v inp i s =
     \<lparr>br_id = i, br_workflow = ci_workflow inp, br_repository = ci_repository inp, br_ref = ci_ref inp,
      br_inputs = ci_inputs inp, br_secrets = vt_enc v (bd_uuid s) (ci_secrets inp), br_metadata = emptyMetadata,
      br_idempotencyKey = ci_idempotencyKey inp, br_status = RQueued, br_attempt = 0, br_workerId = None,
      br_leaseExpiresAt = None, br_cancelRequested = False, br_error = None, br_createdAt = bd_now s,
      br_startedAt = None, br_finishedAt = None\<rparr>"

definition create_run :: "vault \<Rightarrow> create_input \<Rightarrow> builder \<Rightarrow> (build_run \<times> bool) option \<times> builder" where
  "create_run v inp s =
     (let i = vt_uuid v (bd_uuid s); s1 = s\<lparr>bd_uuid := Suc (bd_uuid s)\<rparr> in
      case List.find (\<lambda>r. br_idempotencyKey r = ci_idempotencyKey inp) (bd_runs s1) of
        Some r \<Rightarrow> (map_option (\<lambda>m. (m, False)) (mapRun v r), s1)
      | None \<Rightarrow>
          (let r = new_run v inp i s in
           (map_option (\<lambda>m. (m, True)) (mapRun v r), s1\<lparr>bd_runs := bd_runs s1 @ [r]\<rparr>)))"

definition get_run :: "vault \<Rightarrow> string \<Rightarrow> builder \<Rightarrow> build_run option option" where
  "get_run v i s = (case find_run i s of None \<Rightarrow> Some None | Some r \<Rightarrow> map_option Some (mapRun v r))"

definition list_runs :: "vault \<Rightarrow> nat \<Rightarrow> builder \<Rightarrow> build_run list option" where
  "list_runs v limit s = those (map (mapRun v) (take limit (sort_key (\<lambda>r. - br_createdAt r) (bd_runs s))))"

fun oldest :: "build_run list \<Rightarrow> build_run option" where
  "oldest [] = None"
| "oldest (r # rs) =
     (case oldest rs of None \<Rightarrow> Some r | Some q \<Rightarrow> if br_createdAt r \<le> br_createdAt q then Some r else Some q)"

definition claimed_run :: "string \<Rightarrow> int \<Rightarrow> int \<Rightarrow> build_run \<Rightarrow> build_run" where
  "claimed_run workerId leaseSeconds now r =
     r\<lparr>br_status := RRunning, br_workerId := Some workerId, br_attempt := br_attempt r + 1, br_startedAt := Some now,
       br_leaseExpiresAt := Some (now + leaseSeconds * 1000)\<rparr>"

text \<open>The claimed row, or \<open>None\<close> when nothing can be claimed, and the state.\<close>

definition claim_run :: "(string \<Rightarrow> bool) \<Rightarrow> string \<Rightarrow> int \<Rightarrow> builder \<Rightarrow> build_run option \<times> builder" where
  "claim_run locked workerId leaseSeconds s =
     (case oldest (filter (\<lambda>r. br_status r = RQueued \<and> \<not> locked (br_id r)) (bd_runs s)) of
        None \<Rightarrow> (None, s)
      | Some next_run \<Rightarrow>
          (Some (claimed_run workerId leaseSeconds (bd_now s) next_run),
           update_runs (\<lambda>r. br_id r = br_id next_run) (claimed_run workerId leaseSeconds (bd_now s)) s))"

definition run_active :: "build_run \<Rightarrow> bool" where
  "run_active r \<longleftrightarrow> br_status r = RRunning \<or> br_status r = RPushing"

definition heartbeat_run :: "string \<Rightarrow> string \<Rightarrow> int \<Rightarrow> builder \<Rightarrow> bool \<times> builder" where
  "heartbeat_run i workerId leaseSeconds s =
     (let P = (\<lambda>r. br_id r = i \<and> br_workerId r = Some workerId \<and> run_active r) in
      (list_ex P (bd_runs s), update_runs P (\<lambda>r. r\<lparr>br_leaseExpiresAt := Some (bd_now s + leaseSeconds * 1000)\<rparr>) s))"

definition markPushing :: "string \<Rightarrow> string \<Rightarrow> builder \<Rightarrow> bool \<times> builder" where
  "markPushing i workerId s =
     (let P = (\<lambda>r. br_id r = i \<and> br_workerId r = Some workerId \<and> br_status r = RRunning) in
      (list_ex P (bd_runs s), update_runs P (\<lambda>r. r\<lparr>br_status := RPushing\<rparr>) s))"

definition lease_lapsed :: "int \<Rightarrow> build_run \<Rightarrow> bool" where
  "lease_lapsed now r \<longleftrightarrow> run_active r \<and> (case br_leaseExpiresAt r of None \<Rightarrow> False | Some t \<Rightarrow> t < now)"

definition requeued :: "build_run \<Rightarrow> build_run" where
  "requeued r = r\<lparr>br_status := RQueued, br_workerId := None, br_leaseExpiresAt := None, br_startedAt := None\<rparr>"

definition recoverExpiredLeases :: "builder \<Rightarrow> nat \<times> builder" where
  "recoverExpiredLeases s =
     (length (filter (lease_lapsed (bd_now s)) (bd_runs s)), update_runs (lease_lapsed (bd_now s)) requeued s)"

definition finished_run :: "builder_status \<Rightarrow> string option \<Rightarrow> int \<Rightarrow> build_run \<Rightarrow> build_run" where
  "finished_run st err now r =
     r\<lparr>br_status := (if br_cancelRequested r then RCancelled else st),
       br_error := (case err of None \<Rightarrow> br_error r | Some e \<Rightarrow> Some e), br_finishedAt := Some now,
       br_leaseExpiresAt := None, br_secrets := []\<rparr>"

definition complete_run :: "string \<Rightarrow> string \<Rightarrow> builder \<Rightarrow> builder" where
  "complete_run i workerId s =
     update_runs (\<lambda>r. br_id r = i \<and> br_workerId r = Some workerId) (finished_run RSucceeded None (bd_now s)) s"

definition fail_run :: "string \<Rightarrow> string \<Rightarrow> string \<Rightarrow> builder \<Rightarrow> builder" where
  "fail_run i workerId err s =
     update_runs (\<lambda>r. br_id r = i \<and> br_workerId r = Some workerId) (finished_run RFailed (Some (take 8000 err)) (bd_now s)) s"

definition cancelled_run :: "int \<Rightarrow> build_run \<Rightarrow> build_run" where
  "cancelled_run now r =
     r\<lparr>br_cancelRequested := True, br_status := (if br_status r = RQueued then RCancelled else br_status r),
       br_finishedAt := (if br_status r = RQueued then Some now else br_finishedAt r)\<rparr>"

definition requestCancel :: "string \<Rightarrow> builder \<Rightarrow> bool \<times> builder" where
  "requestCancel i s =
     (let P = (\<lambda>r. br_id r = i \<and> (br_status r = RQueued \<or> run_active r)) in
      (list_ex P (bd_runs s), update_runs P (cancelled_run (bd_now s)) s))"

definition updateMetadata :: "string \<Rightarrow> json \<Rightarrow> builder \<Rightarrow> builder" where
  "updateMetadata i metadata s = update_runs (\<lambda>r. br_id r = i) (\<lambda>r. r\<lparr>br_metadata := metadata\<rparr>) s"

definition stored_entry :: "builder \<Rightarrow> log_input \<Rightarrow> log_entry" where
  "stored_entry s e = \<lparr>li_runId = li_runId e, li_stepId = li_stepId e, li_stream = li_stream e,
     li_message = take 32000 (li_message e), le_id = bd_log_next s, le_createdAt = bd_now s\<rparr>"

definition insert_log :: "log_input \<Rightarrow> builder \<Rightarrow> builder" where
  "insert_log e s = s\<lparr>bd_logs := bd_logs s @ [stored_entry s e], bd_log_next := bd_log_next s + 1\<rparr>"

text \<open>One transaction; an entry of an unknown run violates the foreign key, a text with the character 0 is no value of the
  type \<open>TEXT\<close>: either rolls it back and throws.\<close>

definition storable :: "builder \<Rightarrow> log_input \<Rightarrow> bool" where
  "storable s e \<longleftrightarrow> find_run (li_runId e) s \<noteq> None \<and> CHR 0x00 \<notin> set (take 32000 (li_message e))"

definition appendLogs :: "log_input list \<Rightarrow> builder \<Rightarrow> bool \<times> builder" where
  "appendLogs entries s =
     (if entries = [] then (True, s)
      else if \<not> list_all (storable s) entries then (False, s)
      else (True, fold insert_log entries s))"

definition appendLog :: "string \<Rightarrow> string option \<Rightarrow> log_stream \<Rightarrow> string \<Rightarrow> builder \<Rightarrow> bool \<times> builder" where
  "appendLog runId stepId stream message s =
     appendLogs [\<lparr>li_runId = runId, li_stepId = stepId, li_stream = stream, li_message = message\<rparr>] s"

definition run_logs :: "string \<Rightarrow> int \<Rightarrow> builder \<Rightarrow> log_entry list" where
  "run_logs runId after s =
     take 1000 (sort_key le_id (filter (\<lambda>e. li_runId e = runId \<and> after < le_id e) (bd_logs s)))"

subsection \<open>A round of a worker\<close>

datatype round = Slept | Worked string

text \<open>\<open>exec\<close> is \<open>executor.execute\<close> and \<open>flush\<close> is \<open>logBuffer.flush\<close>: each gives an error message when it threw. The second
  flush stands in the \<open>catch\<close>: when it throws too, the error leaves the loop (\<open>None\<close>) and the run is not reported.\<close>

definition report_failure ::
  "string \<Rightarrow> (builder \<Rightarrow> string option \<times> builder) \<Rightarrow> string \<Rightarrow> string \<Rightarrow> builder \<Rightarrow> round option \<times> builder" where
  "report_failure workerId flush i err s =
     (case flush s of
        (Some _, s1) \<Rightarrow> (None, s1)
      | (None, s1) \<Rightarrow> (Some (Worked i), fail_run i workerId err s1))"

definition work_round ::
  "vault \<Rightarrow> (string \<Rightarrow> bool) \<Rightarrow> string \<Rightarrow> int \<Rightarrow> (build_run \<Rightarrow> builder \<Rightarrow> string option \<times> builder)
     \<Rightarrow> (builder \<Rightarrow> string option \<times> builder) \<Rightarrow> builder \<Rightarrow> round option \<times> builder" where
  "work_round v locked workerId leaseSeconds exec flush s =
     (case claim_run locked workerId leaseSeconds (snd (recoverExpiredLeases s)) of
        (None, s1) \<Rightarrow> (Some Slept, s1)
      | (Some row, s1) \<Rightarrow>
          (case mapRun v row of
             None \<Rightarrow> (None, s1)
           | Some run \<Rightarrow>
               (case exec run s1 of
                  (Some err, s2) \<Rightarrow> report_failure workerId flush (br_id run) err s2
                | (None, s2) \<Rightarrow>
                    (case flush s2 of
                       (Some err, s3) \<Rightarrow> report_failure workerId flush (br_id run) err s3
                     | (None, s3) \<Rightarrow> (Some (Worked (br_id run)), complete_run (br_id run) workerId s3)))))"

subsection \<open>The HTTP interface\<close>

text \<open>What the routes use from outside: the YAML parser, the collation, \<open>JSON.stringify\<close>, SHA-256 and the URL parser
  (protocol, user and password of a URL). The body limit of the framework is not modelled.\<close>

record builder_host =
  bh_yaml :: "string \<Rightarrow> json option"
  bh_collate :: "string \<Rightarrow> string \<Rightarrow> rat"
  bh_quote :: "json \<Rightarrow> string"
  bh_sha256 :: "string \<Rightarrow> string"
  bh_url :: "string \<Rightarrow> (string \<times> string \<times> string) option"

datatype builder_reply = RunReply int build_run | RunsReply "build_run list" | LogsReply "log_entry list"
  | ValidationReply workflow_validation | Accepted | Refused int string

definition repository_ok :: "builder_host \<Rightarrow> string \<Rightarrow> bool" where
  "repository_ok b v \<longleftrightarrow> length v \<le> 2048 \<and>
     (case bh_url b v of None \<Rightarrow> False | Some (protocol, user, pass) \<Rightarrow> protocol = ''https:'' \<and> user = [] \<and> pass = [])"

record run_request =
  rq_workflow :: "json option"
  rq_repository :: string
  rq_ref :: string
  rq_inputs :: "(string \<times> string) list"
  rq_secrets :: "(string \<times> string) list"

definition createRunSchema :: "builder_host \<Rightarrow> json \<Rightarrow> run_request option" where
  "createRunSchema b j =
     Option.bind (z_object j) (\<lambda>j.
     Option.bind (z_req (\<lambda>src. Option.bind (z_object src) (\<lambda>src.
         Option.bind (z_req (z_string_where (repository_ok b)) ''repository'' src) (\<lambda>r.
         Option.bind (z_default (z_sized 1 255) ''main'' ''ref'' src) (\<lambda>f. Some (r, f))))) ''source'' j) (\<lambda>src.
     Option.bind (z_default z_record_string [] ''inputs'' j) (\<lambda>inputs.
     Option.bind (z_default z_record_string [] ''secrets'' j) (\<lambda>secrets.
       Some \<lparr>rq_workflow = jget ''workflow'' j, rq_repository = fst src, rq_ref = snd src, rq_inputs = inputs,
             rq_secrets = secrets\<rparr>))))"

text \<open>\<open>authorization.replace(/^Bearer\s+/i, "")\<close>\<close>

definition strip_bearer :: "string \<Rightarrow> string" where
  "strip_bearer v =
     (if to_lower (take 6 v) = ''bearer'' \<and> drop 6 v \<noteq> [] \<and> is_space (hd (drop 6 v))
      then dropWhile is_space (drop 6 v) else v)"

definition authorized :: "string \<Rightarrow> string option \<Rightarrow> bool" where
  "authorized apiToken authorization \<longleftrightarrow>
     (case authorization of None \<Rightarrow> [] | Some v \<Rightarrow> strip_bearer v) = apiToken"

definition publicRun :: "build_run \<Rightarrow> build_run" where
  "publicRun r = r\<lparr>br_secrets := []\<rparr>"

definition idempotency_key :: "vault \<Rightarrow> string option \<Rightarrow> builder \<Rightarrow> string \<times> builder" where
  "idempotency_key v header s =
     (if truthy (map_option trim_str header) then (trim_str (the header), s)
      else (vt_uuid v (bd_uuid s), s\<lparr>bd_uuid := Suc (bd_uuid s)\<rparr>))"

definition post_run ::
  "vault \<Rightarrow> builder_host \<Rightarrow> string \<Rightarrow> string option \<Rightarrow> string option \<Rightarrow> json option \<Rightarrow> builder \<Rightarrow> builder_reply \<times> builder" where
  "post_run v b apiToken authorization header body s =
     (if \<not> authorized apiToken authorization then (Refused 401 ''UNAUTHORIZED'', s)
      else (case body of None \<Rightarrow> (Refused 500 ''INTERNAL_ERROR'', s) | Some j \<Rightarrow>
        (case createRunSchema b j of
           None \<Rightarrow> (Refused 422 ''INVALID_REQUEST'', s)
         | Some rq \<Rightarrow>
             (case Option.bind (rq_workflow rq)
                     (\<lambda>w. wv_workflow (validateWorkflow (bh_yaml b) (bh_collate b) (bh_quote b) (bh_sha256 b) w)) of
                None \<Rightarrow> (Refused 422 ''INVALID_WORKFLOW'', s)
              | Some w \<Rightarrow>
                  (let (key, s1) = idempotency_key v header s in
                   if 255 < length key then (Refused 422 ''INVALID_IDEMPOTENCY_KEY'', s1)
                   else (case create_run v \<lparr>ci_workflow = w, ci_repository = rq_repository rq, ci_ref = rq_ref rq,
                             ci_inputs = rq_inputs rq, ci_secrets = rq_secrets rq, ci_idempotencyKey = key\<rparr> s1 of
                           (None, s2) \<Rightarrow> (Refused 500 ''INTERNAL_ERROR'', s2)
                         | (Some (run, created), s2) \<Rightarrow> (RunReply (if created then 202 else 200) (publicRun run), s2)))))))"

definition cancel_route :: "string \<Rightarrow> string option \<Rightarrow> string \<Rightarrow> builder \<Rightarrow> builder_reply \<times> builder" where
  "cancel_route apiToken authorization i s =
     (if \<not> authorized apiToken authorization then (Refused 401 ''UNAUTHORIZED'', s)
      else (let (ok, s1) = requestCancel i s in (if ok then Accepted else Refused 409 ''NOT_CANCELLABLE'', s1)))"

text \<open>The reading routes; a query parameter is already the number it stands for. A negative limit is an error of the database.\<close>

definition validate_route :: "builder_host \<Rightarrow> string \<Rightarrow> string option \<Rightarrow> json \<Rightarrow> builder_reply" where
  "validate_route b apiToken authorization value =
     (if \<not> authorized apiToken authorization then Refused 401 ''UNAUTHORIZED''
      else ValidationReply (validateWorkflow (bh_yaml b) (bh_collate b) (bh_quote b) (bh_sha256 b) value))"

definition list_route :: "vault \<Rightarrow> string \<Rightarrow> string option \<Rightarrow> int option \<Rightarrow> builder \<Rightarrow> builder_reply" where
  "list_route v apiToken authorization limit s =
     (if \<not> authorized apiToken authorization then Refused 401 ''UNAUTHORIZED''
      else (let n = min (case limit of None \<Rightarrow> 50 | Some l \<Rightarrow> l) 100 in
            if n < 0 then Refused 500 ''INTERNAL_ERROR''
            else (case list_runs v (nat n) s of
                    None \<Rightarrow> Refused 500 ''INTERNAL_ERROR''
                  | Some rs \<Rightarrow> RunsReply (map publicRun rs))))"

definition get_run_route :: "vault \<Rightarrow> string \<Rightarrow> string option \<Rightarrow> string \<Rightarrow> builder \<Rightarrow> builder_reply" where
  "get_run_route v apiToken authorization i s =
     (if \<not> authorized apiToken authorization then Refused 401 ''UNAUTHORIZED''
      else (case get_run v i s of
              None \<Rightarrow> Refused 500 ''INTERNAL_ERROR''
            | Some None \<Rightarrow> Refused 404 ''NOT_FOUND''
            | Some (Some r) \<Rightarrow> RunReply 200 (publicRun r)))"

definition logs_route :: "string \<Rightarrow> string option \<Rightarrow> string \<Rightarrow> int option \<Rightarrow> builder \<Rightarrow> builder_reply" where
  "logs_route apiToken authorization i after s =
     (if \<not> authorized apiToken authorization then Refused 401 ''UNAUTHORIZED''
      else LogsReply (run_logs i (case after of None \<Rightarrow> 0 | Some n \<Rightarrow> n) s))"

end
