(* ===== verification/BuilderProperties.thy ===== *)
theory BuilderProperties
  imports BuilderRuns WorkflowProperties
begin

text \<open>
  The builder's queue as a state machine: what every row looks like in every reachable state, that a finished run stays
  finished, that one worker at a time holds a run (an interpretation of \<open>renewable_lease\<close>), and that a run is created once
  per idempotency key.
\<close>

subsection \<open>Well-formed runs\<close>

definition run_finished :: "build_run \<Rightarrow> bool" where
  "run_finished r \<longleftrightarrow> br_status r \<in> {RSucceeded, RFailed, RCancelled}"

text \<open>Which columns go with which status.\<close>

definition run_ok :: "build_run \<Rightarrow> bool" where
  "run_ok r \<longleftrightarrow>
     (br_status r = RQueued \<longrightarrow> br_workerId r = None \<and> br_leaseExpiresAt r = None \<and> br_startedAt r = None \<and> br_finishedAt r = None)
   \<and> (run_active r \<longrightarrow> br_workerId r \<noteq> None \<and> br_leaseExpiresAt r \<noteq> None \<and> br_startedAt r \<noteq> None \<and> br_finishedAt r = None
        \<and> 1 \<le> br_attempt r)
   \<and> (run_finished r \<longrightarrow> br_leaseExpiresAt r = None \<and> br_finishedAt r \<noteq> None)
   \<and> 0 \<le> br_attempt r"

text \<open>The statements of the repository, in any order, by anyone, and the passing of time.\<close>

inductive builder_step :: "vault \<Rightarrow> builder \<Rightarrow> builder \<Rightarrow> bool" for v where
  creates: "builder_step v s (snd (create_run v inp s))"
| claims: "builder_step v s (snd (claim_run locked w secs s))"
| beats: "builder_step v s (snd (heartbeat_run i w secs s))"
| pushes: "builder_step v s (snd (markPushing i w s))"
| recovers: "builder_step v s (snd (recoverExpiredLeases s))"
| completes: "builder_step v s (complete_run i w s)"
| fails: "builder_step v s (fail_run i w err s)"
| cancels: "builder_step v s (snd (requestCancel i s))"
| describes: "builder_step v s (updateMetadata i m s)"
| logs: "builder_step v s (snd (appendLogs es s))"
| draws: "builder_step v s (s\<lparr>bd_uuid := Suc (bd_uuid s)\<rparr>)"
| waits: "t \<ge> bd_now s \<Longrightarrow> builder_step v s (s\<lparr>bd_now := t\<rparr>)"

lemma insert_log_runs [simp]: "bd_runs (insert_log e s) = bd_runs s" "bd_now (insert_log e s) = bd_now s" "bd_uuid (insert_log e s) = bd_uuid s"
  by (simp_all add: insert_log_def)

lemma fold_logs_runs [simp]: "bd_runs (fold insert_log es s) = bd_runs s" "bd_now (fold insert_log es s) = bd_now s" "bd_uuid (fold insert_log es s) = bd_uuid s"
  by (induction es arbitrary: s) simp_all

lemma appendLogs_runs [simp]: "bd_runs (snd (appendLogs es s)) = bd_runs s" "bd_now (snd (appendLogs es s)) = bd_now s" "bd_uuid (snd (appendLogs es s)) = bd_uuid s"
  by (simp_all add: appendLogs_def)

lemma update_runs_runs [simp]: "bd_runs (update_runs P f s) = upd_where P f (bd_runs s)" "bd_now (update_runs P f s) = bd_now s" "bd_uuid (update_runs P f s) = bd_uuid s"
  by (simp_all add: update_runs_def)

lemma claim_run_frame [simp]: "bd_uuid (snd (claim_run locked w secs s)) = bd_uuid s"
  "bd_now (snd (claim_run locked w secs s)) = bd_now s"
  by (simp_all add: claim_run_def split: option.split)

text \<open>A step inserts at most one new queued run and rewrites each other row by one of these changes.\<close>

inductive run_change :: "int \<Rightarrow> build_run \<Rightarrow> build_run \<Rightarrow> bool" for now where
  same: "run_change now r r"
| claimed: "br_status r = RQueued \<Longrightarrow> run_change now r (claimed_run w secs now r)"
| beaten: "br_workerId r = Some w \<Longrightarrow> run_active r \<Longrightarrow> run_change now r (r\<lparr>br_leaseExpiresAt := Some t\<rparr>)"
| pushed: "br_workerId r = Some w \<Longrightarrow> br_status r = RRunning \<Longrightarrow> run_change now r (r\<lparr>br_status := RPushing\<rparr>)"
| recovered: "lease_lapsed now r \<Longrightarrow> run_change now r (requeued r)"
| finished: "br_workerId r = Some w \<Longrightarrow> st \<in> {RSucceeded, RFailed} \<Longrightarrow> run_change now r (finished_run st err now r)"
| cancelled: "br_status r = RQueued \<or> run_active r \<Longrightarrow> run_change now r (cancelled_run now r)"
| described: "run_change now r (r\<lparr>br_metadata := m\<rparr>)"

lemma change_keeps_ok: "run_change now r r' \<Longrightarrow> run_ok r \<Longrightarrow> run_ok r'"
  by (induction rule: run_change.induct)
    (auto simp: run_ok_def run_active_def run_finished_def claimed_run_def requeued_def finished_run_def cancelled_run_def
      lease_lapsed_def)

lemma change_keeps_finished: "run_change now r r' \<Longrightarrow> br_id r' = br_id r \<and> (run_finished r \<longrightarrow> run_finished r')"
  by (induction rule: run_change.induct)
    (auto simp: run_active_def run_finished_def claimed_run_def requeued_def finished_run_def cancelled_run_def lease_lapsed_def)

lemma oldest_mem: "oldest rs = Some r \<Longrightarrow> r \<in> set rs"
  by (induction rs arbitrary: r) (auto split: option.splits if_splits)

lemma list_all2_upd_where: "(\<And>r. r \<in> set rs \<Longrightarrow> P r \<Longrightarrow> R r (f r)) \<Longrightarrow> (\<And>r. R r r) \<Longrightarrow> list_all2 R rs (upd_where P f rs)"
  by (induction rs) auto

lemma claim_changes:
  assumes "distinct (map br_id (bd_runs s))"
  shows "list_all2 (run_change (bd_now s)) (bd_runs s) (bd_runs (snd (claim_run locked w secs s)))"
proof (cases "oldest (filter (\<lambda>r. br_status r = RQueued \<and> \<not> locked (br_id r)) (bd_runs s))")
  case None
  then show ?thesis by (simp add: claim_run_def list_all2_refl run_change.same)
next
  case (Some n)
  from oldest_mem [OF this] have n: "n \<in> set (bd_runs s)" "br_status n = RQueued" by auto
  have "br_status r = RQueued" if "r \<in> set (bd_runs s)" "br_id r = br_id n" for r
    using inj_onD [of br_id "set (bd_runs s)" r n] assms that n by (simp add: distinct_map)
  then show ?thesis using Some
    by (simp add: claim_run_def) (auto intro!: list_all2_upd_where intro: run_change.same run_change.claimed)
qed

text \<open>What a step does to the table: it rewrites rows, and may add a new run under an unused idempotency key.\<close>

definition queue_change :: "vault \<Rightarrow> builder \<Rightarrow> builder \<Rightarrow> bool" where
  "queue_change v s s' \<longleftrightarrow> bd_uuid s \<le> bd_uuid s'
     \<and> (\<exists>rs. list_all2 (run_change (bd_now s)) (bd_runs s) rs
          \<and> (bd_runs s' = rs
             \<or> bd_uuid s' = Suc (bd_uuid s)
               \<and> (\<exists>inp. bd_runs s' = rs @ [new_run v inp (vt_uuid v (bd_uuid s)) s]
                    \<and> ci_idempotencyKey inp \<notin> br_idempotencyKey ` set (bd_runs s))))"

lemma unchanged: "bd_runs s' = bd_runs s \<Longrightarrow> bd_uuid s \<le> bd_uuid s' \<Longrightarrow> queue_change v s s'"
  by (auto simp: queue_change_def intro: list_all2_refl run_change.same)

lemma rewritten:
  assumes "\<And>r. P r \<Longrightarrow> run_change (bd_now s) r (f r)"
  shows "queue_change v s (update_runs P f s)"
proof -
  have "list_all2 (run_change (bd_now s)) (bd_runs s) (upd_where P f (bd_runs s))"
    by (rule list_all2_upd_where) (simp_all add: assms run_change.same)
  then show ?thesis by (auto simp: queue_change_def)
qed

lemma create_queue_change: "queue_change v s (snd (create_run v inp s))"
proof (cases "List.find (\<lambda>r. br_idempotencyKey r = ci_idempotencyKey inp) (bd_runs s)")
  case None
  then have "ci_idempotencyKey inp \<notin> br_idempotencyKey ` set (bd_runs s)" by (auto simp: find_None_iff')
  moreover have "list_all2 (run_change (bd_now s)) (bd_runs s) (bd_runs s)" by (simp add: list_all2_refl run_change.same)
  ultimately show ?thesis using None by (auto simp: queue_change_def create_run_def Let_def)
next
  case (Some r)
  then show ?thesis by (auto simp: create_run_def Let_def intro: unchanged)
qed

lemma builder_step_changes:
  assumes "builder_step v s s'" and "distinct (map br_id (bd_runs s))"
  shows "queue_change v s s'"
  using assms
proof (induction rule: builder_step.induct)
  case (creates s inp)
  show ?case by (rule create_queue_change)
next
  case (claims s locked w secs)
  from claim_changes [OF this] show ?case by (auto simp: queue_change_def)
next
  case (beats s i w secs)
  show ?case unfolding heartbeat_run_def Let_def snd_conv by (rule rewritten) (auto intro: run_change.beaten)
next
  case (pushes s i w)
  show ?case unfolding markPushing_def Let_def snd_conv by (rule rewritten) (auto intro: run_change.pushed)
next
  case (recovers s)
  show ?case unfolding recoverExpiredLeases_def snd_conv by (rule rewritten) (rule run_change.recovered)
next
  case (completes s i w)
  show ?case unfolding complete_run_def by (rule rewritten) (auto intro: run_change.finished)
next
  case (fails s i w err)
  show ?case unfolding fail_run_def by (rule rewritten) (auto intro: run_change.finished)
next
  case (cancels s i)
  show ?case unfolding requestCancel_def Let_def snd_conv by (rule rewritten) (auto intro: run_change.cancelled)
next
  case (describes s i m)
  show ?case unfolding updateMetadata_def by (rule rewritten) (rule run_change.described)
qed (simp_all add: unchanged)

subsection \<open>The invariant of the queue\<close>

definition queue_inv :: "vault \<Rightarrow> builder \<Rightarrow> bool" where
  "queue_inv v s \<longleftrightarrow> list_all run_ok (bd_runs s) \<and> distinct (map br_id (bd_runs s))
     \<and> distinct (map br_idempotencyKey (bd_runs s)) \<and> br_id ` set (bd_runs s) \<subseteq> vt_uuid v ` {..<bd_uuid s}"

lemma changes_keep:
  assumes "list_all2 (run_change now) rs rs'"
  shows "map br_id rs' = map br_id rs" and "map br_idempotencyKey rs' = map br_idempotencyKey rs"
    and "list_all run_ok rs \<Longrightarrow> list_all run_ok rs'"
    and "r \<in> set rs \<Longrightarrow> \<exists>r' \<in> set rs'. run_change now r r'"
proof -
  show "map br_id rs' = map br_id rs" using assms by induction (auto dest: change_keeps_finished)
  show "map br_idempotencyKey rs' = map br_idempotencyKey rs" using assms
    by induction (auto elim!: run_change.cases simp: claimed_run_def requeued_def finished_run_def cancelled_run_def)
  show "list_all run_ok rs \<Longrightarrow> list_all run_ok rs'" using assms by induction (auto dest: change_keeps_ok)
  show "r \<in> set rs \<Longrightarrow> \<exists>r' \<in> set rs'. run_change now r r'" using assms by induction auto
qed

lemma new_run_ok [simp]: "run_ok (new_run v inp i s)"
  by (simp add: run_ok_def new_run_def run_active_def run_finished_def)

lemma new_run_keys [simp]: "br_id (new_run v inp i s) = i" "br_idempotencyKey (new_run v inp i s) = ci_idempotencyKey inp"
  by (simp_all add: new_run_def)

lemma queue_inv_step:
  assumes inj: "inj (vt_uuid v)" and step: "builder_step v s s'" and inv: "queue_inv v s"
  shows "queue_inv v s'"
proof -
  from inv have d: "distinct (map br_id (bd_runs s))" by (simp add: queue_inv_def)
  from builder_step_changes [OF step d] obtain rs where ch: "list_all2 (run_change (bd_now s)) (bd_runs s) rs"
    and le: "bd_uuid s \<le> bd_uuid s'"
    and runs: "bd_runs s' = rs \<or> bd_uuid s' = Suc (bd_uuid s) \<and> (\<exists>inp. bd_runs s' = rs @ [new_run v inp (vt_uuid v (bd_uuid s)) s]
          \<and> ci_idempotencyKey inp \<notin> br_idempotencyKey ` set (bd_runs s))"
    unfolding queue_change_def by blast
  from changes_keep(1) [OF ch] have ids: "br_id ` set rs = br_id ` set (bd_runs s)" by (metis image_set)
  from changes_keep(2) [OF ch] have keys: "br_idempotencyKey ` set rs = br_idempotencyKey ` set (bd_runs s)" by (metis image_set)
  from inv have old: "br_id ` set (bd_runs s) \<subseteq> vt_uuid v ` {..<bd_uuid s}" by (simp add: queue_inv_def)
  then have fresh: "vt_uuid v (bd_uuid s) \<notin> br_id ` set (bd_runs s)" using inj by (auto dest: injD)
  have rs: "list_all run_ok rs" "distinct (map br_id rs)" "distinct (map br_idempotencyKey rs)"
    using changes_keep(1,2,3) [OF ch] inv by (simp_all add: queue_inv_def)
  have le': "br_id ` set rs \<subseteq> vt_uuid v ` {..<bd_uuid s'}"
    using old ids image_mono [of "{..<bd_uuid s}" "{..<bd_uuid s'}" "vt_uuid v"] le by auto
  from runs show ?thesis
  proof (elim disjE conjE exE)
    assume "bd_runs s' = rs"
    with rs le' show ?thesis by (simp add: queue_inv_def)
  next
    fix inp
    assume s': "bd_uuid s' = Suc (bd_uuid s)" "bd_runs s' = rs @ [new_run v inp (vt_uuid v (bd_uuid s)) s]"
      "ci_idempotencyKey inp \<notin> br_idempotencyKey ` set (bd_runs s)"
    with rs le' fresh ids keys show ?thesis by (simp add: queue_inv_def)
  qed
qed

definition fresh_queue :: "builder \<Rightarrow> bool" where
  "fresh_queue s \<longleftrightarrow> bd_runs s = []"

lemma queue_inv_reachable:
  assumes "inj (vt_uuid v)" and "(builder_step v)\<^sup>*\<^sup>* s s'" and "queue_inv v s"
  shows "queue_inv v s'"
  using assms(2,3) by induction (auto intro: queue_inv_step [OF assms(1)])

lemma queue_inv_fresh: "fresh_queue s \<Longrightarrow> queue_inv v s"
  by (simp add: queue_inv_def fresh_queue_def)

text \<open>C33. Whatever creations, claims, heartbeats, pushes, recoveries, completions, failures and cancellations happen in
  whatever order, every run of the builder is well formed: a queued run has no worker, no lease, no start; a run in progress has a
  worker, a lease, a start and at least one attempt and no end; a finished run has an end and no lease. Run ids and
  idempotency keys stay unique.\<close>

theorem runs_stay_well_formed:
  assumes "inj (vt_uuid v)" and "fresh_queue s" and "(builder_step v)\<^sup>*\<^sup>* s s'"
  shows "list_all run_ok (bd_runs s') \<and> distinct (map br_id (bd_runs s')) \<and> distinct (map br_idempotencyKey (bd_runs s'))"
  using queue_inv_reachable [OF assms(1,3) queue_inv_fresh [OF assms(2)]] by (simp add: queue_inv_def)

lemma finished_step:
  assumes step: "builder_step v s s'" and d: "distinct (map br_id (bd_runs s))"
    and r: "r \<in> set (bd_runs s)" "run_finished r"
  shows "\<exists>r' \<in> set (bd_runs s'). br_id r' = br_id r \<and> run_finished r'"
proof -
  from builder_step_changes [OF step d] obtain rs more where ch: "list_all2 (run_change (bd_now s)) (bd_runs s) rs"
    and runs: "bd_runs s' = rs @ more" unfolding queue_change_def by (metis append_Nil2)
  from changes_keep(4) [OF ch r(1)] obtain r' where "r' \<in> set rs" "run_change (bd_now s) r r'" by blast
  with change_keeps_finished [of "bd_now s" r r'] r(2) runs show ?thesis by auto
qed

text \<open>A finished build stays finished: whatever happens afterwards, late reports of its worker included, its run is still
  there and is never claimed or queued again.\<close>

theorem finished_runs_stay:
  assumes "inj (vt_uuid v)" and "queue_inv v s" and "(builder_step v)\<^sup>*\<^sup>* s s'"
    and "r \<in> set (bd_runs s)" and "run_finished r"
  shows "\<exists>r' \<in> set (bd_runs s'). br_id r' = br_id r \<and> run_finished r'"
  using assms(3)
proof induction
  case base
  with assms(4,5) show ?case by blast
next
  case (step s1 s2)
  then obtain r' where r': "r' \<in> set (bd_runs s1)" "br_id r' = br_id r" "run_finished r'" by blast
  from queue_inv_reachable [OF assms(1) step.hyps(1) assms(2)] have "distinct (map br_id (bd_runs s1))" by (simp add: queue_inv_def)
  from finished_step [OF step.hyps(2) this r'(1,3)] r'(2) show ?case by simp
qed

subsection \<open>The lease of a run\<close>

text \<open>The lease of run \<open>r\<close> as its row shows it, and the operations of a worker on that run: a claim that returns it (claims of
  other runs leave its row alone), the end of the work with or without an error, and the heartbeat.\<close>

definition run_lease :: "string \<Rightarrow> builder \<Rightarrow> (string \<times> int) option" where
  "run_lease r s =
     (case find_run r s of
        None \<Rightarrow> None
      | Some row \<Rightarrow>
          (case (br_workerId row, br_leaseExpiresAt row) of
             (Some w, Some t) \<Rightarrow> if run_active row then Some (w, t) else None
           | _ \<Rightarrow> None))"

text \<open>The guard below is an invariant of the queue (\<open>queue_inv\<close>).\<close>

definition queue_ok :: "builder \<Rightarrow> bool" where
  "queue_ok s \<longleftrightarrow> list_all run_ok (bd_runs s) \<and> distinct (map br_id (bd_runs s))"

definition claim_of :: "string \<Rightarrow> int \<Rightarrow> string \<Rightarrow> builder \<Rightarrow> builder option" where
  "claim_of r secs w s =
     (case claim_run (\<lambda>j. j \<noteq> r) w secs s of
        (Some row, s') \<Rightarrow> if queue_ok s then Some s' else None
      | (None, s') \<Rightarrow> None)"

definition finish_of :: "string \<Rightarrow> string option \<Rightarrow> string \<Rightarrow> builder \<Rightarrow> builder" where
  "finish_of r err w s = (case err of None \<Rightarrow> complete_run r w s | Some e \<Rightarrow> fail_run r w e s)"

definition renew_of :: "string \<Rightarrow> int \<Rightarrow> string \<Rightarrow> builder \<Rightarrow> builder option" where
  "renew_of r secs w s = (if queue_ok s \<and> fst (heartbeat_run r w secs s) then Some (snd (heartbeat_run r w secs s)) else None)"

lemma find_run_update:
  assumes "\<And>row. br_id (f row) = br_id row"
  shows "find_run r (update_runs P f s) = map_option (\<lambda>row. if P row then f row else row) (find_run r s)"
proof -
  have k: "keyed_rows br_id f" using assms by unfold_locales
  show ?thesis by (simp add: find_run_def keyed_rows.find_upd_where [OF k])
qed

lemma find_by_key: "distinct (map key rs) \<Longrightarrow> r \<in> set rs \<Longrightarrow> List.find (\<lambda>q. key q = key r) rs = Some r"
proof (induction rs)
  case (Cons a rs)
  then show ?case by (cases "key a = key r") (auto dest: image_eqI)
qed simp

lemma run_changes_id [simp]:
  "br_id (claimed_run w secs now r) = br_id r" "br_id (requeued r) = br_id r" "br_id (finished_run st err now r) = br_id r"
  "br_id (cancelled_run now r) = br_id r"
  by (simp_all add: claimed_run_def requeued_def finished_run_def cancelled_run_def)

lemma claim_of_row:
  assumes "claim_of r secs w s = Some s'"
  obtains row where "find_run r s = Some row" and "br_status row = RQueued"
    and "s' = update_runs (\<lambda>q. br_id q = r) (claimed_run w secs (bd_now s)) s"
proof -
  from assms obtain row where o: "oldest (filter (\<lambda>q. br_status q = RQueued \<and> br_id q = r) (bd_runs s)) = Some row"
    and s': "s' = update_runs (\<lambda>q. br_id q = br_id row) (claimed_run w secs (bd_now s)) s"
    and d: "distinct (map br_id (bd_runs s))"
    by (auto simp: claim_of_def claim_run_def queue_ok_def split: option.splits if_splits)
  from oldest_mem [OF o] have row: "row \<in> set (bd_runs s)" "br_status row = RQueued" "br_id row = r" by auto
  from find_by_key [of br_id "bd_runs s" row] d row have "find_run r s = Some row" by (simp add: find_run_def)
  with row s' that show thesis by simp
qed

lemma run_lease_none: "find_run r s = Some row \<Longrightarrow> \<not> run_active row \<Longrightarrow> run_lease r s = None"
  by (simp add: run_lease_def split: option.split)

lemma run_lease_some: "run_lease r s = Some (w, t) \<longleftrightarrow>
    (\<exists>row. find_run r s = Some row \<and> br_workerId row = Some w \<and> br_leaseExpiresAt row = Some t \<and> run_active row)"
  by (auto simp: run_lease_def split: option.splits)

lemma find_run_id: "find_run r s = Some row \<Longrightarrow> br_id row = r"
  unfolding find_run_def by (drule find_Some_iff') simp

lemma finish_of_update: "\<exists>st e. st \<in> {RSucceeded, RFailed} \<and> finish_of r err w s =
    update_runs (\<lambda>q. br_id q = r \<and> br_workerId q = Some w) (finished_run st e (bd_now s)) s"
  by (cases err) (auto simp: finish_of_def complete_run_def fail_run_def)

lemma renew_of_row:
  assumes "renew_of r secs w s = Some s'"
  obtains row where "find_run r s = Some row" and "br_workerId row = Some w" and "run_active row" and "run_ok row"
    and "s' = update_runs (\<lambda>q. br_id q = r \<and> br_workerId q = Some w \<and> run_active q)
           (\<lambda>q. q\<lparr>br_leaseExpiresAt := Some (bd_now s + secs * 1000)\<rparr>) s"
proof -
  from assms have d: "distinct (map br_id (bd_runs s))" and ok: "list_all run_ok (bd_runs s)"
    and ex: "list_ex (\<lambda>q. br_id q = r \<and> br_workerId q = Some w \<and> run_active q) (bd_runs s)"
    and s': "s' = update_runs (\<lambda>q. br_id q = r \<and> br_workerId q = Some w \<and> run_active q)
           (\<lambda>q. q\<lparr>br_leaseExpiresAt := Some (bd_now s + secs * 1000)\<rparr>) s"
    by (auto simp: renew_of_def queue_ok_def heartbeat_run_def Let_def split: if_splits)
  from ex obtain row where row: "row \<in> set (bd_runs s)" "br_id row = r" "br_workerId row = Some w" "run_active row"
    by (auto simp: list_ex_iff)
  from find_by_key [of br_id "bd_runs s" row] d row have "find_run r s = Some row" by (simp add: find_run_def)
  with row s' that ok show thesis by (simp add: list_all_iff)
qed

lemma run_lease_queued: "find_run r s = Some row \<Longrightarrow> br_status row = RQueued \<Longrightarrow> run_lease r s = None"
  by (rule run_lease_none) (auto simp: run_active_def)

lemma claim_of_lease:
  assumes "claim_of r secs w s = Some s'"
  shows "run_lease r s = None" and "run_lease r s' = Some (w, bd_now s + secs * 1000)" and "bd_now s' = bd_now s"
proof -
  from claim_of_row [OF assms] obtain row where row: "find_run r s = Some row" "br_status row = RQueued"
    and s': "s' = update_runs (\<lambda>q. br_id q = r) (claimed_run w secs (bd_now s)) s" by blast
  from run_lease_queued [OF row] show "run_lease r s = None" .
  from row(1) find_run_id [OF row(1)] have "find_run r s' = Some (claimed_run w secs (bd_now s) row)"
    by (simp add: s' find_run_update)
  then show "run_lease r s' = Some (w, bd_now s + secs * 1000)" by (simp add: run_lease_some run_active_def) (simp add: claimed_run_def)
  show "bd_now s' = bd_now s" by (simp add: s')
qed

lemma finish_of_lease:
  assumes "run_lease r s = Some (j, t)"
  shows "run_lease r (finish_of r err w s) = (if j = w then None else Some (j, t))" and "bd_now (finish_of r err w s) = bd_now s"
proof -
  from finish_of_update [of r err w s] obtain st e where st: "st \<in> {RSucceeded, RFailed}" and f: "finish_of r err w s =
      update_runs (\<lambda>q. br_id q = r \<and> br_workerId q = Some w) (finished_run st e (bd_now s)) s" by blast
  from assms obtain row where row: "find_run r s = Some row" "br_workerId row = Some j" "br_leaseExpiresAt row = Some t" "run_active row"
    by (auto simp: run_lease_some)
  have find: "find_run r (finish_of r err w s) = Some (if j = w then finished_run st e (bd_now s) row else row)"
    using row find_run_id [OF row(1)] by (simp add: f find_run_update)
  show "run_lease r (finish_of r err w s) = (if j = w then None else Some (j, t))"
  proof (cases "j = w")
    case True
    have "\<not> run_active (finished_run st e (bd_now s) row)" using st by (auto simp: finished_run_def run_active_def)
    with find True show ?thesis by (simp add: run_lease_none)
  next
    case False
    with find row show ?thesis by (simp add: run_lease_def)
  qed
  show "bd_now (finish_of r err w s) = bd_now s" by (simp add: f)
qed

lemma finish_of_now [simp]: "bd_now (finish_of r err w s) = bd_now s"
  by (cases err) (simp_all add: finish_of_def complete_run_def fail_run_def)

lemma renew_of_lease:
  assumes "renew_of r secs w s = Some s'"
  shows "\<exists>t. run_lease r s = Some (w, t)" and "run_lease r s' = Some (w, bd_now s + secs * 1000)"
    and "bd_now s' = bd_now s"
proof -
  from renew_of_row [OF assms] obtain row where row: "find_run r s = Some row" "br_workerId row = Some w" "run_active row" "run_ok row"
    and s': "s' = update_runs (\<lambda>q. br_id q = r \<and> br_workerId q = Some w \<and> run_active q)
           (\<lambda>q. q\<lparr>br_leaseExpiresAt := Some (bd_now s + secs * 1000)\<rparr>) s" by blast
  show "\<exists>t. run_lease r s = Some (w, t)"
    using row by (auto simp: run_lease_some run_ok_def)
  from row find_run_id [OF row(1)] have "find_run r s' = Some (row\<lparr>br_leaseExpiresAt := Some (bd_now s + secs * 1000)\<rparr>)"
    by (simp add: s' find_run_update)
  then show "run_lease r s' = Some (w, bd_now s + secs * 1000)"
    using row by (simp add: run_lease_some run_active_def)
  show "bd_now s' = bd_now s" by (simp add: s')
qed

text \<open>Everything else that happens to the queue leaves the lease alone or frees one that has run out.\<close>

lemma lease_untouched:
  assumes "\<And>row. br_id (f row) = br_id row"
    and "\<And>row. P row \<Longrightarrow> br_id row = r \<Longrightarrow> br_workerId (f row) = br_workerId row
          \<and> br_leaseExpiresAt (f row) = br_leaseExpiresAt row \<and> run_active (f row) = run_active row"
  shows "run_lease r (update_runs P f s) = run_lease r s"
proof (cases "find_run r s")
  case None
  with find_run_update [OF assms(1), of r P s] show ?thesis by (simp add: run_lease_def)
next
  case (Some row)
  with find_run_update [OF assms(1), of r P s] assms(2) [of row] find_run_id [OF Some] show ?thesis
    by (cases "P row") (auto simp: run_lease_def split: option.split)
qed

lemma cancel_keeps_lease: "run_lease r (snd (requestCancel i s)) = run_lease r s"
  unfolding requestCancel_def Let_def snd_conv
  by (rule lease_untouched) (auto simp: cancelled_run_def run_active_def)

lemma push_keeps_lease: "run_lease r (snd (markPushing i w s)) = run_lease r s"
  unfolding markPushing_def Let_def snd_conv
  by (rule lease_untouched) (auto simp: run_active_def)

lemma recovery_frees_lapsed:
  "run_lease r (snd (recoverExpiredLeases s)) =
     (case run_lease r s of Some (w, t) \<Rightarrow> if t < bd_now s then None else Some (w, t) | None \<Rightarrow> None)"
proof -
  have f: "find_run r (snd (recoverExpiredLeases s))
      = map_option (\<lambda>row. if lease_lapsed (bd_now s) row then requeued row else row) (find_run r s)"
    unfolding recoverExpiredLeases_def snd_conv by (rule find_run_update) simp
  show ?thesis
    by (cases "find_run r s") (auto simp: run_lease_def f lease_lapsed_def requeued_def run_active_def split: option.splits)
qed

interpretation run_row: renewable_lease bd_now "run_lease r" "claim_of r secs" "finish_of r err" "secs * 1000" "renew_of r secs"
proof unfold_locales
  show "t < bd_now s" if "claim_of r secs i s = Some s'" "run_lease r s = Some (j, t)" for i s s' j t
    using claim_of_lease(1) [OF that(1)] that(2) by simp
  show "run_lease r (finish_of r err i s) = Some (j, t)" if "run_lease r s = Some (j, t)" "j \<noteq> i" for s i j t
    using finish_of_lease(1) [OF that(1)] that(2) by simp
qed (simp_all add: claim_of_lease finish_of_lease renew_of_lease)

text \<open>At every moment at most one worker holds an unexpired lease of a build run, whatever workers claim it, renew it by
  heartbeat, finish or fail it, stop without a word, and whatever recoveries of lapsed leases happen in between.\<close>

theorem builder_lease_exclusive:
  assumes "(renewal_step bd_now (run_lease r) (claim_of r secs) (finish_of r err) (renew_of r secs) (secs * 1000))\<^sup>*\<^sup>* (s, []) c"
  shows "length (valid_leases bd_now c) \<le> 1"
  using assms by (rule run_row.renewal_exclusive)

subsection \<open>A sample queue\<close>

definition sample_vault :: vault where
  "sample_vault = \<lparr>vt_uuid = (\<lambda>n. replicate n CHR ''r''), vt_enc = (\<lambda>_ kvs. kvs), vt_dec = Some\<rparr>"

definition sample_input :: create_input where
  "sample_input = \<lparr>ci_workflow = \<lparr>wf_name = ''ci'', wf_env = [], wf_steps = []\<rparr>, ci_repository = ''https://x/y'', ci_ref = ''main'',
     ci_inputs = [], ci_secrets = [(''TOKEN'', ''s3cret'')], ci_idempotencyKey = ''k''\<rparr>"

definition empty_builder :: builder where
  "empty_builder = \<lparr>bd_now = 1000, bd_uuid = 0, bd_log_next = 1, bd_runs = [], bd_logs = []\<rparr>"

definition queued_builder :: builder where
  "queued_builder = snd (create_run sample_vault sample_input empty_builder)"

definition claimed_builder :: builder where
  "claimed_builder = snd (claim_run (\<lambda>j. j \<noteq> []) ''w1'' 60 queued_builder)"

definition finished_builder :: builder where
  "finished_builder = complete_run [] ''w1'' claimed_builder"

lemmas sample_queue_defs = sample_vault_def sample_input_def empty_builder_def queued_builder_def claimed_builder_def finished_builder_def
  create_run_def claim_run_def complete_run_def update_runs_def upd_where_def new_run_def claimed_run_def finished_run_def mapRun_def
  Let_def

lemma sample_vault_inj: "inj (vt_uuid sample_vault)"
  by (rule injI) (simp add: sample_vault_def replicate_eq_replicate)

lemma sample_claim: "builder_step sample_vault queued_builder claimed_builder"
  unfolding claimed_builder_def by (rule builder_step.claims)

lemma sample_create: "builder_step sample_vault empty_builder queued_builder"
  unfolding queued_builder_def by (rule builder_step.creates)

lemma sample_finish: "builder_step sample_vault claimed_builder finished_builder"
  unfolding finished_builder_def by (rule builder_step.completes)

lemma sample_runs: "(builder_step sample_vault)\<^sup>*\<^sup>* empty_builder claimed_builder"
  by (rule rtranclp_trans, rule r_into_rtranclp, rule sample_create, rule r_into_rtranclp, rule sample_claim)

theorem runs_stay_well_formed_witness:
  "(builder_step sample_vault)\<^sup>*\<^sup>* empty_builder claimed_builder \<and> list_all run_ok (bd_runs claimed_builder)
   \<and> map br_status (bd_runs claimed_builder) = [RRunning]"
proof -
  have "fresh_queue empty_builder" by (simp add: fresh_queue_def empty_builder_def)
  from runs_stay_well_formed [OF sample_vault_inj this sample_runs] show ?thesis
    using sample_runs by (simp add: sample_queue_defs)
qed

theorem finished_runs_stay_witness:
  "\<exists>r' \<in> set (bd_runs (fail_run [] ''w1'' ''late'' finished_builder)). br_id r' = [] \<and> run_finished r'"
proof -
  have "queue_inv sample_vault empty_builder" by (simp add: queue_inv_def empty_builder_def)
  then have inv: "queue_inv sample_vault finished_builder"
    using queue_inv_reachable [OF sample_vault_inj sample_runs] queue_inv_step [OF sample_vault_inj sample_finish] by blast
  have runs: "bd_runs finished_builder = [hd (bd_runs finished_builder)]" "run_finished (hd (bd_runs finished_builder))"
    "br_id (hd (bd_runs finished_builder)) = []"
    by (simp_all add: sample_queue_defs run_finished_def Let_def)
  have step: "(builder_step sample_vault)\<^sup>*\<^sup>* finished_builder (fail_run [] ''w1'' ''late'' finished_builder)"
    by (rule r_into_rtranclp, rule builder_step.fails)
  have "hd (bd_runs finished_builder) \<in> set (bd_runs finished_builder)" by (subst runs(1)) simp
  from finished_runs_stay [OF sample_vault_inj inv step this runs(2)] runs(3) show ?thesis by simp
qed

theorem builder_lease_exclusive_witness:
  "length (valid_leases bd_now (claimed_builder, [(''w1'', 61000)])) \<le> 1 \<and> run_lease [] claimed_builder = Some (''w1'', 61000)"
proof -
  have claim: "claim_of [] 60 ''w1'' queued_builder = Some claimed_builder"
    by (simp add: claim_of_def queue_ok_def sample_queue_defs Let_def run_ok_def run_active_def run_finished_def)
  have now: "bd_now queued_builder = 1000" by (simp add: sample_queue_defs Let_def)
  have step: "renewal_step bd_now (run_lease []) (claim_of [] 60) (finish_of [] None) (renew_of [] 60) (60 * 1000)
          (queued_builder, []) (claimed_builder, (''w1'', bd_now queued_builder + 60 * 1000) # [])"
    by (rule renewal_step.taken) (simp_all add: claim)
  have run: "(renewal_step bd_now (run_lease []) (claim_of [] 60) (finish_of [] None) (renew_of [] 60) (60 * 1000))\<^sup>*\<^sup>*
          (queued_builder, []) (claimed_builder, (''w1'', bd_now queued_builder + 60 * 1000) # [])"
    by (rule r_into_rtranclp) (rule step)
  from builder_lease_exclusive [OF run] claim_of_lease(2) [OF claim] show ?thesis by (simp add: now)
qed

end
