(* ===== verification/LogBuffer.thy ===== *)
theory LogBuffer
  imports BuilderRuns
begin

text \<open>
  The log buffer of the builder, \<open>apps/builder/src/log-buffer.ts\<close>, over the repository of \<open>BuilderRuns\<close>. \<open>flushing\<close> is a
  chain of promises: the batches still to be written, in order (\<open>lb_queue\<close>), and whether a link has rejected
  (\<open>lb_rejected\<close>): after a rejection \<open>then\<close> skips its callback and the chain stays rejected. \<open>buffer_step\<close> lets appends, timer
  flushes and writes happen in any order. Proved: the entries are stored in the order they were appended, none twice
  and none lost, until a write fails; afterwards nothing is stored any more.
\<close>

record log_buffer =
  lb_entries :: "log_input list"
  lb_timer :: bool
  lb_queue :: "log_input list list"
  lb_rejected :: bool

definition new_buffer :: log_buffer where
  "new_buffer = \<lparr>lb_entries = [], lb_timer = False, lb_queue = [], lb_rejected = False\<rparr>"

definition flush_buffer :: "log_buffer \<Rightarrow> log_buffer" where
  "flush_buffer b =
     (let entries = lb_entries b; b1 = b\<lparr>lb_timer := False, lb_entries := []\<rparr> in
      if entries = [] then b1 else b1\<lparr>lb_queue := lb_queue b @ [entries]\<rparr>)"

definition append_entry :: "nat \<Rightarrow> log_input \<Rightarrow> log_buffer \<Rightarrow> log_buffer" where
  "append_entry maxEntries e b =
     (let b1 = b\<lparr>lb_entries := lb_entries b @ [e]\<rparr> in
      if maxEntries \<le> length (lb_entries b1) then flush_buffer b1
      else if \<not> lb_timer b1 then b1\<lparr>lb_timer := True\<rparr> else b1)"

text \<open>The next link of the chain.\<close>

definition write_batch :: "log_buffer \<times> builder \<Rightarrow> log_buffer \<times> builder" where
  "write_batch c =
     (case c of (b, s) \<Rightarrow>
       (case lb_queue b of
          [] \<Rightarrow> (b, s)
        | batch # rest \<Rightarrow>
            (let b1 = b\<lparr>lb_queue := rest\<rparr> in
             if lb_rejected b1 then (b1, s)
             else (let (ok, s1) = appendLogs batch s in (b1\<lparr>lb_rejected := \<not> ok\<rparr>, s1)))))"

text \<open>\<open>await logBuffer.flush()\<close>: all links are over; does it throw?\<close>

definition await_flush :: "log_buffer \<times> builder \<Rightarrow> bool \<times> log_buffer \<times> builder" where
  "await_flush c =
     (let c1 = (flush_buffer (fst c), snd c); c2 = (write_batch ^^ length (lb_queue (fst c1))) c1 in (lb_rejected (fst c2), c2))"

inductive buffer_step :: "nat \<Rightarrow> (log_buffer \<times> builder) \<times> log_input list \<Rightarrow> (log_buffer \<times> builder) \<times> log_input list \<Rightarrow> bool"
  for maxEntries where
  appended: "buffer_step maxEntries ((b, s), es) ((append_entry maxEntries e b, s), es @ [e])"
| timer: "lb_timer b \<Longrightarrow> buffer_step maxEntries ((b, s), es) ((flush_buffer b, s), es)"
| awaited: "buffer_step maxEntries ((b, s), es) ((flush_buffer b, s), es)"
| wrote: "buffer_step maxEntries (c, es) (write_batch c, es)"

text \<open>What a stored line shows of the entry it was made from.\<close>

definition stored_text :: "log_input \<Rightarrow> string \<times> string option \<times> log_stream \<times> string" where
  "stored_text e = (li_runId e, li_stepId e, li_stream e, take 32000 (li_message e))"

definition line_text :: "log_entry \<Rightarrow> string \<times> string option \<times> log_stream \<times> string" where
  "line_text e = (li_runId e, li_stepId e, li_stream e, li_message e)"

lemma fold_insert_lines:
  "map line_text (bd_logs (fold insert_log es s)) = map line_text (bd_logs s) @ map stored_text es"
  by (induction es arbitrary: s) (simp_all add: insert_log_def stored_entry_def line_text_def stored_text_def)

lemma appendLogs_lines:
  "appendLogs es s = (ok, s') \<Longrightarrow>
     map line_text (bd_logs s') = map line_text (bd_logs s) @ (if ok then map stored_text es else [])"
  by (auto simp: appendLogs_def fold_insert_lines split: if_splits)

definition waiting :: "log_buffer \<Rightarrow> log_input list" where
  "waiting b = concat (lb_queue b) @ lb_entries b"

lemma waiting_flush [simp]: "waiting (flush_buffer b) = waiting b"
  by (simp add: waiting_def flush_buffer_def Let_def)

lemma waiting_append [simp]: "waiting (append_entry n e b) = waiting b @ [e]"
proof -
  have "waiting (flush_buffer (b\<lparr>lb_entries := lb_entries b @ [e]\<rparr>)) = waiting b @ [e]"
    by (subst waiting_flush) (simp add: waiting_def)
  then show ?thesis by (simp add: append_entry_def Let_def) (simp add: waiting_def)
qed

lemma rejected_flush [simp]: "lb_rejected (flush_buffer b) = lb_rejected b"
  by (simp add: flush_buffer_def Let_def)

lemma rejected_append [simp]: "lb_rejected (append_entry n e b) = lb_rejected b"
  by (simp add: append_entry_def Let_def)

definition buffer_inv :: "builder \<Rightarrow> (log_buffer \<times> builder) \<times> log_input list \<Rightarrow> bool" where
  "buffer_inv s0 c \<longleftrightarrow> (case c of ((b, s), es) \<Rightarrow> \<not> lb_rejected b \<longrightarrow>
     map line_text (bd_logs s0) @ map stored_text es = map line_text (bd_logs s) @ map stored_text (waiting b))"

lemma write_inv: "buffer_inv s0 (c, es) \<Longrightarrow> buffer_inv s0 (write_batch c, es)"
proof (cases c)
  case (Pair b s)
  assume inv: "buffer_inv s0 (c, es)"
  show ?thesis
  proof (cases "lb_queue b")
    case Nil
    with inv Pair show ?thesis by (simp add: write_batch_def)
  next
    case (Cons batch rest)
    obtain ok s1 where a: "appendLogs batch s = (ok, s1)" by fastforce
    from appendLogs_lines [OF a] inv Pair Cons a show ?thesis
      by (auto simp: write_batch_def buffer_inv_def waiting_def Let_def)
  qed
qed

lemma buffer_step_inv: "buffer_step n c c' \<Longrightarrow> buffer_inv s0 c \<Longrightarrow> buffer_inv s0 c'"
proof (induction rule: buffer_step.induct)
  case (wrote c es)
  then show ?case by (rule write_inv [rotated -1])
qed (simp_all add: buffer_inv_def)

text \<open>As long as no write has failed, the stored log lines are exactly the appended entries in their order (cut at 32,000
  characters), followed by what still waits in the buffer: however appends, timers, awaited flushes and writes interleave,
  no entry is lost, doubled or overtaken.\<close>

theorem log_lines_in_order:
  assumes "(buffer_step n)\<^sup>*\<^sup>* ((new_buffer, s0), []) ((b, s), es)" and "\<not> lb_rejected b"
  shows "map line_text (bd_logs s) @ map stored_text (waiting b) = map line_text (bd_logs s0) @ map stored_text es"
proof -
  have "buffer_inv s0 ((b, s), es)"
    using assms(1)
  proof (induction rule: rtranclp_induct)
    case base
    show ?case by (simp add: buffer_inv_def new_buffer_def waiting_def)
  next
    case (step c c')
    from buffer_step_inv [OF step.hyps(2) step.IH] show ?case .
  qed
  with assms(2) show ?thesis by (simp add: buffer_inv_def)
qed

lemma rejected_write [simp]: "lb_rejected b \<Longrightarrow> lb_rejected (fst (write_batch (b, s))) \<and> snd (write_batch (b, s)) = s"
  by (simp add: write_batch_def Let_def split: list.split)

lemma rejected_writes: "lb_rejected b \<Longrightarrow> lb_rejected (fst ((write_batch ^^ k) (b, s)))"
proof (induction k)
  case (Suc k)
  then show ?case using rejected_write [of "fst ((write_batch ^^ k) (b, s))" "snd ((write_batch ^^ k) (b, s))"] by simp
qed simp

text \<open>After one write of the log has failed, no later entry of any run is stored, and every awaited flush throws: the chain
  of flushes stays rejected.\<close>

theorem failed_write_ends_log:
  assumes "(buffer_step n)\<^sup>*\<^sup>* ((b, s), es) ((b', s'), es')" and "lb_rejected b"
  shows "bd_logs s' = bd_logs s \<and> fst (await_flush (b', s'))"
proof -
  have "lb_rejected (fst (fst c)) \<and> bd_logs (snd (fst c)) = bd_logs s" if "(buffer_step n)\<^sup>*\<^sup>* ((b, s), es) c" for c
    using that
  proof (induction rule: rtranclp_induct)
    case base
    from assms(2) show ?case by simp
  next
    case (step c c')
    from step.hyps(2) step.IH show ?case
    proof (induction rule: buffer_step.induct)
      case (wrote c es)
      then show ?case using rejected_write [of "fst c" "snd c"] by simp
    qed simp_all
  qed
  from this [OF assms(1)] have r: "lb_rejected b'" "bd_logs s' = bd_logs s" by simp_all
  have "fst (await_flush (b', s'))" by (simp add: await_flush_def Let_def rejected_writes r(1))
  with r(2) show ?thesis by simp
qed

text \<open>A worker whose flush throws never reports: its loop ends and the claimed run stays running until its lease lapses.\<close>

lemma throwing_flush_stops_worker:
  assumes "\<And>s. fst (flush s) \<noteq> None"
  shows "fst (work_round v locked w secs exec flush s) \<in> {Some Slept, None}"
proof -
  have "fst (report_failure w flush i err s1) = None" for i err s1
    using assms [of s1] by (auto simp: report_failure_def split: prod.split option.split)
  moreover have "flush s1 \<noteq> (None, s2)" for s1 s2 using assms [of s1] by auto
  ultimately show ?thesis by (auto simp: work_round_def split: prod.split option.split)
qed

subsection \<open>A sample buffer\<close>

definition sample_entry :: "string \<Rightarrow> log_input" where
  "sample_entry m = \<lparr>li_runId = ''r'', li_stepId = None, li_stream = LogStdout, li_message = m\<rparr>"

definition sample_store :: builder where
  "sample_store = \<lparr>bd_now = 0, bd_uuid = 0, bd_log_next = 1, bd_runs =
     [\<lparr>br_id = ''r'', br_workflow = \<lparr>wf_name = ''ci'', wf_env = [], wf_steps = []\<rparr>, br_repository = [], br_ref = [],
       br_inputs = [], br_secrets = [], br_metadata = JNull, br_idempotencyKey = ''k'', br_status = RRunning, br_attempt = 1,
       br_workerId = Some ''w'', br_leaseExpiresAt = Some 9, br_cancelRequested = False, br_error = None, br_createdAt = 0,
       br_startedAt = Some 0, br_finishedAt = None\<rparr>], bd_logs = []\<rparr>"

lemmas sample_buffer_defs = sample_entry_def sample_store_def new_buffer_def append_entry_def flush_buffer_def write_batch_def
  appendLogs_def storable_def find_run_def insert_log_def stored_entry_def Let_def

lemma one_append: "buffer_step 1 ((b, s), es) ((append_entry 1 e b, s), es @ [e])"
  by (rule buffer_step.appended)

definition written :: "string \<Rightarrow> log_buffer \<times> builder" where
  "written m = write_batch (append_entry 1 (sample_entry m) new_buffer, sample_store)"

lemma written_steps: "(buffer_step 1)\<^sup>*\<^sup>* ((new_buffer, sample_store), []) (written m, [sample_entry m])"
proof -
  have "buffer_step 1 ((append_entry 1 (sample_entry m) new_buffer, sample_store), [sample_entry m]) (written m, [sample_entry m])"
    unfolding written_def by (rule buffer_step.wrote)
  with one_append [of new_buffer sample_store "[]" "sample_entry m"] show ?thesis
    by (simp add: converse_rtranclp_into_rtranclp)
qed

theorem log_lines_in_order_witness:
  "map line_text (bd_logs (snd (written ''a''))) @ map stored_text (waiting (fst (written ''a''))) = [stored_text (sample_entry ''a'')]"
proof -
  have r: "\<not> lb_rejected (fst (written ''a''))" by (simp add: written_def sample_buffer_defs)
  from written_steps [of "''a''"] have "(buffer_step 1)\<^sup>*\<^sup>* ((new_buffer, sample_store), [])
      ((fst (written ''a''), snd (written ''a'')), [sample_entry ''a''])" by simp
  from log_lines_in_order [OF this r] show ?thesis by (simp add: sample_store_def)
qed

theorem failed_write_ends_log_witness:
  "bd_logs (snd (write_batch (append_entry 1 (sample_entry ''b'') (fst (written [CHR 0x00])), snd (written [CHR 0x00])))) = []"
proof -
  let ?b = "fst (written [CHR 0x00])" and ?s = "snd (written [CHR 0x00])"
  let ?c = "write_batch (append_entry 1 (sample_entry ''b'') ?b, ?s)"
  have r: "lb_rejected ?b" by (simp add: written_def sample_buffer_defs)
  have "buffer_step 1 ((append_entry 1 (sample_entry ''b'') ?b, ?s), [] @ [sample_entry ''b'']) (?c, [] @ [sample_entry ''b''])"
    by (rule buffer_step.wrote)
  with one_append [of ?b ?s "[]" "sample_entry ''b''"]
  have "(buffer_step 1)\<^sup>*\<^sup>* ((?b, ?s), []) ((fst ?c, snd ?c), [] @ [sample_entry ''b''])"
    by (simp add: converse_rtranclp_into_rtranclp)
  from failed_write_ends_log [OF this r] show ?thesis by (simp add: written_def sample_buffer_defs)
qed

end
