(* ===== verification/Executor.thy ===== *)
theory Executor
  imports BuilderRuns
begin

text \<open>
  The execution of a build run: \<open>apps/builder/src/executor.ts\<close> with the pieces it calls from \<open>buildkit.ts\<close>, \<open>registry.ts\<close>,
  \<open>firecracker-client.ts\<close> and \<open>dockerfile.ts\<close>.

  \<^item> The graph loop \<open>runGraph\<close> takes rounds; the steps of a round run concurrently. What an attempt of a step gives is the
    argument \<open>res\<close> (step id and attempt number to the error, if any), so the loop is one function for every
    interleaving: in a round, first each step decides in order, before any of them has finished, whether it runs; then
    outcomes are recorded. \<open>aborted n\<close> says whether the run is cancelled when round \<open>n\<close> starts. The log lists the steps of
    a round one after another.
  \<^item> What one attempt does is \<open>run_build\<close>, \<open>deploy_request_of\<close> and \<open>run_command\<close>, by kind of step, with the results of
    BuildKit, registries and processes as arguments.
\<close>

subsection \<open>Conditions and the graph loop\<close>

datatype outcome = OSucceeded | OFailed | OSkipped

type_synonym outcomes = "(string \<times> outcome) list"

text \<open>\<open>None\<close>: an unsupported condition, which throws.\<close>

definition conditionMatches :: "string option \<Rightarrow> outcomes \<Rightarrow> bool option" where
  "conditionMatches v outs =
     (if \<not> truthy v \<or> v = Some ''success()'' then Some (OFailed \<notin> snd ` set outs)
      else if v = Some ''always()'' then Some True
      else if v = Some ''failure()'' then Some (OFailed \<in> snd ` set outs)
      else if v = Some ''false'' then Some False
      else if v = Some ''true'' then Some True
      else None)"

datatype graph_error = BuildCancelled | DependencyDeadlock | UnsupportedCondition string | StepFailed string

type_synonym graph_log = "(string \<times> log_stream \<times> string) list"

datatype decision = Skip | Run | Throw string

definition step_decision :: "outcomes \<Rightarrow> wf_step \<Rightarrow> decision" where
  "step_decision outs s =
     (if list_ex (\<lambda>d. map_of outs d \<noteq> Some OSucceeded) (st_needs s) then Skip
      else (case conditionMatches (st_if s) outs of
              None \<Rightarrow> Throw (case st_if s of None \<Rightarrow> [] | Some c \<Rightarrow> c)
            | Some b \<Rightarrow> if b then Run else Skip))"

text \<open>The decisions of a round in order; a skipped step has its outcome at once.\<close>

fun decide :: "outcomes \<Rightarrow> wf_step list \<Rightarrow> outcomes \<times> (wf_step \<times> decision) list" where
  "decide outs [] = (outs, [])"
| "decide outs (s # ss) =
     (let d = step_decision outs s;
          (outs1, ds) = decide (if d = Skip then AList.update (st_id s) OSkipped outs else outs) ss
      in (outs1, (s, d) # ds))"

text \<open>Attempts \<open>n\<close>, \<open>n + 1\<close>, ... while there are any; the error of the last one.\<close>

fun attempts :: "(nat \<Rightarrow> string option) \<Rightarrow> string \<Rightarrow> nat \<Rightarrow> nat \<Rightarrow> string option \<Rightarrow> string option \<times> graph_log" where
  "attempts res i n 0 err = (err, [])"
| "attempts res i n (Suc k) err =
     (let start = (i, LogSystem, ''Starting attempt '' @ str_nat n) in
      case res n of
        None \<Rightarrow> (None, [start])
      | Some e \<Rightarrow> (let (r, l) = attempts res i (Suc n) k (Some e) in (r, start # (i, LogStderr, e) # l)))"

type_synonym step_results = "string \<Rightarrow> nat \<Rightarrow> string option"

definition settle_step :: "step_results \<Rightarrow> wf_step \<times> decision \<Rightarrow> outcome option \<times> graph_error option \<times> graph_log" where
  "settle_step res sd =
     (case sd of
        (s, Skip) \<Rightarrow> (Some OSkipped, None, [(st_id s, LogSystem, ''Skipped'')])
      | (s, Throw c) \<Rightarrow> (None, Some (UnsupportedCondition c), [])
      | (s, Run) \<Rightarrow>
          (case attempts (res (st_id s)) (st_id s) 1 (Suc (nat (st_retries s))) None of
             (None, l) \<Rightarrow> (Some OSucceeded, None, l @ [(st_id s, LogSystem, ''Succeeded'')])
           | (Some e, l) \<Rightarrow>
               if st_continueOnError s
               then (Some OSucceeded, None, l @ [(st_id s, LogSystem, ''Failure tolerated by continueOnError'')])
               else (Some OFailed, Some (StepFailed e), l)))"

fun settle_all :: "step_results \<Rightarrow> outcomes \<Rightarrow> (wf_step \<times> decision) list \<Rightarrow> outcomes \<times> graph_error option \<times> graph_log" where
  "settle_all res outs [] = (outs, None, [])"
| "settle_all res outs (sd # sds) =
     (let (out, err, l) = settle_step res sd;
          (outs1, err1, l1) = settle_all res (case out of None \<Rightarrow> outs | Some v \<Rightarrow> AList.update (st_id (fst sd)) v outs) sds
      in (outs1, (case err of None \<Rightarrow> err1 | Some e \<Rightarrow> Some e), l @ l1))"

definition ready_step :: "outcomes \<Rightarrow> wf_step \<Rightarrow> bool" where
  "ready_step outs s \<longleftrightarrow> list_all (\<lambda>d. map_of outs d \<noteq> None) (st_needs s)"

definition graph_round :: "step_results \<Rightarrow> outcomes \<Rightarrow> wf_step list \<Rightarrow> outcomes \<times> graph_error option \<times> graph_log" where
  "graph_round res outs ready = (let (outs1, ds) = decide outs ready in settle_all res outs1 ds)"

function graph_loop ::
  "(nat \<Rightarrow> bool) \<Rightarrow> step_results \<Rightarrow> nat \<Rightarrow> wf_step list \<Rightarrow> outcomes \<Rightarrow> graph_log \<Rightarrow> graph_error option \<times> outcomes \<times> graph_log" where
  "graph_loop aborted res n pending outs lines =
     (if pending = [] then (None, outs, lines)
      else if aborted n then (Some BuildCancelled, outs, lines)
      else if filter (ready_step outs) pending = [] then (Some DependencyDeadlock, outs, lines)
      else (case graph_round res outs (filter (ready_step outs) pending) of
              (outs1, Some e, l) \<Rightarrow> (Some e, outs1, lines @ l)
            | (outs1, None, l) \<Rightarrow>
                graph_loop aborted res (Suc n) (filter (\<lambda>s. \<not> ready_step outs s) pending) outs1 (lines @ l)))"
  by pat_completeness auto

lemma filter_not_shorter: "filter P xs \<noteq> [] \<Longrightarrow> length (filter (\<lambda>x. \<not> P x) xs) < length xs"
  using sum_length_filter_compl [of P xs] by (metis length_greater_0_conv less_add_same_cancel2)

termination graph_loop
  by (relation "measure (\<lambda>(_, _, _, pending, _, _). length pending)") (auto simp: filter_not_shorter)

declare graph_loop.simps [simp del]

text \<open>\<open>new Map(steps.map(step => [step.id, step]))\<close>\<close>

definition pending_steps :: "wf_step list \<Rightarrow> wf_step list" where
  "pending_steps steps = map snd (fold (\<lambda>s. AList.update (st_id s) s) steps [])"

definition runGraph :: "(nat \<Rightarrow> bool) \<Rightarrow> step_results \<Rightarrow> wf_step list \<Rightarrow> graph_error option \<times> outcomes \<times> graph_log" where
  "runGraph aborted res steps = graph_loop aborted res 0 (pending_steps steps) [] []"

end
