(* ===== verification/StepRun.thy ===== *)
theory StepRun
  imports Executor
begin

text \<open>
  What a run and its steps do: checkout, the three kinds of step, redaction of logs (\<open>apps/builder/src/executor.ts\<close>), the
  command line of BuildKit and the confinement of paths (\<open>buildkit.ts\<close>, \<open>build-secrets.ts\<close>), the ports of a
  Dockerfile (\<open>dockerfile.ts\<close>), image references (\<open>registry.ts\<close>) and the guard of \<open>firecracker-client.ts\<close>. A path is the list of
  its segments below the root. Results of processes, registries and files are arguments; a thrown error is \<open>Inl\<close> of its
  message. Numbers in Dockerfiles are read when they are decimal digits (JavaScript's \<open>Number\<close> also reads other forms).
\<close>

subsection \<open>Paths of the workspace\<close>

fun resolve_segs :: "string list \<Rightarrow> string list \<Rightarrow> string list" where
  "resolve_segs acc [] = acc"
| "resolve_segs acc (x # xs) =
     (if x = [] \<or> x = ''.'' then resolve_segs acc xs
      else if x = ''..'' then resolve_segs (butlast acc) xs
      else resolve_segs (acc @ [x]) xs)"

definition path_resolve :: "string list \<Rightarrow> string \<Rightarrow> string list" where
  "path_resolve base v = resolve_segs (if starts_with ''/'' v then [] else base) (split_on CHR ''/'' v)"

fun relative_segs :: "string list \<Rightarrow> string list \<Rightarrow> string list" where
  "relative_segs (x # xs) (y # ys) = (if x = y then relative_segs xs ys else replicate (Suc (length xs)) ''..'' @ y # ys)"
| "relative_segs xs ys = replicate (length xs) ''..'' @ ys"

definition path_relative :: "string list \<Rightarrow> string list \<Rightarrow> string" where
  "path_relative from_segs to_segs = js_join ''/'' (relative_segs from_segs to_segs)"

definition path_string :: "string list \<Rightarrow> string" where
  "path_string segs = ''/'' @ js_join ''/'' segs"

definition safePath :: "string list \<Rightarrow> string \<Rightarrow> string + string list" where
  "safePath workspace v =
     (let target = path_resolve workspace v; rel = path_relative workspace target in
      if starts_with ''..'' rel \<or> starts_with ''/'' rel then Inl (''Path escapes workspace: '' @ v) else Inr target)"

subsection \<open>Redaction and checkout\<close>

function replace_str :: "string \<Rightarrow> string \<Rightarrow> string \<Rightarrow> string" where
  "replace_str p r s =
     (if p = [] then s
      else (case s of
              [] \<Rightarrow> []
            | c # cs \<Rightarrow> if starts_with p s then r @ replace_str p r (drop (length p) s) else c # replace_str p r cs))"
  by pat_completeness auto

termination replace_str
  by (relation "measure (\<lambda>(p, r, s). length s)") auto

declare replace_str.simps [simp del]

definition redact :: "string \<Rightarrow> (string \<times> string) list \<Rightarrow> string" where
  "redact v secrets = fold (\<lambda>s t. if 4 \<le> length s then replace_str s ''***'' t else t) (map snd secrets) v"

text \<open>\<open>set_login\<close> is \<open>new URL(repository)\<close> with user \<open>oauth2\<close> and the password given.\<close>

definition authenticatedUrl :: "(string \<Rightarrow> string \<Rightarrow> string) \<Rightarrow> string \<Rightarrow> string option \<Rightarrow> string" where
  "authenticatedUrl set_login repository token =
     (if \<not> truthy token \<or> \<not> starts_with ''https://'' repository then repository else set_login repository (the token))"

definition clone_args :: "string \<Rightarrow> string \<Rightarrow> string \<Rightarrow> string list" where
  "clone_args ref cloneUrl workspace =
     [''git'', ''-c'', ''protocol.file.allow=never'', ''-c'', ''protocol.ext.allow=never'', ''-c'', ''http.followRedirects=false'',
      ''clone'', ''--depth'', ''1'', ''--branch'', ref, cloneUrl, workspace]"

definition run_context :: "build_run \<Rightarrow> string \<Rightarrow> (string \<times> string) list" where
  "run_context run commit =
     [(''git.sha'', commit), (''git.ref'', br_ref run), (''run.id'', br_id run)]
       @ map (\<lambda>(k, v). (''inputs.'' @ k, v)) (br_inputs run)"

record run_metadata =
  md_exposedPorts :: "int list"
  md_detectedDockerfiles :: "(string \<times> string \<times> int list) list"
  md_resolvedCommit :: "string option"
  md_artifacts :: "(string \<times> string) list option"

definition metadata_json :: "run_metadata \<Rightarrow> json" where
  "metadata_json m = JObj ([(''exposedPorts'', JArr (map jint (md_exposedPorts m))),
       (''detectedDockerfiles'', JObj (map (\<lambda>(i, path, ports). (i, JObj [(''path'', JStr path), (''exposedPorts'', JArr (map jint ports))]))
          (md_detectedDockerfiles m)))]
     @ jopt ''resolvedCommit'' (map_option JStr (md_resolvedCommit m))
     @ jopt ''artifacts'' (map_option (\<lambda>as. JArr (map (\<lambda>(image, digest). JObj [(''image'', JStr image), (''digest'', JStr digest)]) as))
          (md_artifacts m)))"

text \<open>Checkout, credential removal, commit. \<open>git\<close> gives exit code and output of a command, \<open>clean\<close> removes the login of a URL.\<close>

definition checkout ::
  "(string list \<Rightarrow> int \<times> string) \<Rightarrow> (string \<Rightarrow> string \<Rightarrow> string) \<Rightarrow> (string \<Rightarrow> string) \<Rightarrow> string list \<Rightarrow> build_run \<Rightarrow> string + string" where
  "checkout git set_login clean workspace run =
     (let url = authenticatedUrl set_login (br_repository run) (map_of (br_secrets run) ''GIT_TOKEN'');
          cloned = fst (git (clone_args (br_ref run) url (path_string workspace))) in
      if cloned \<noteq> 0 then Inl (''Git checkout failed with code '' @ str_int cloned)
      else if fst (git [''git'', ''remote'', ''set-url'', ''origin'', clean (br_repository run)]) \<noteq> 0
      then Inl ''Unable to remove Git credentials from checkout''
      else (let (code, out) = git [''git'', ''rev-parse'', ''HEAD''] in
            if code \<noteq> 0 then Inl ''Unable to resolve Git commit'' else Inr (trim_str out)))"

subsection \<open>Build steps\<close>

definition digest_ok :: "string \<Rightarrow> bool" where
  "digest_ok v \<longleftrightarrow> starts_with ''sha256:'' v \<and> length v = 71 \<and> list_all is_hex_lower (drop 7 v)"

text \<open>The lines of a Dockerfile, continuations joined: \<open>text.replace(/\\\r?\n/g, " ").split(/\r?\n/)\<close>.\<close>

abbreviation backslash :: char where
  "backslash \<equiv> CHR 0x5C"

fun join_lines :: "string \<Rightarrow> string" where
  "join_lines [] = []"
| "join_lines (c # cs) =
     (case cs of
        [] \<Rightarrow> [c]
      | d # ds \<Rightarrow>
          if c = backslash \<and> d = CHR 0x0A then CHR '' '' # join_lines ds
          else if c = backslash \<and> d = CHR 0x0D \<and> ds \<noteq> [] \<and> hd ds = CHR 0x0A then CHR '' '' # join_lines (tl ds)
          else c # join_lines cs)"

definition drop_cr :: "string \<Rightarrow> string" where
  "drop_cr l = (if l \<noteq> [] \<and> last l = CHR 0x0D then butlast l else l)"

definition text_lines :: "string \<Rightarrow> string list" where
  "text_lines t = (let ls = split_on CHR 0x0A t in map drop_cr (butlast ls) @ [last ls])"

text \<open>\<open>/^\s*EXPOSE\s+(.+)$/i\<close>: the rest of the line.\<close>

definition expose_rest :: "string \<Rightarrow> string option" where
  "expose_rest l =
     (let t = dropWhile is_space l; r = drop 6 t in
      if to_lower (take 6 t) \<noteq> ''expose'' \<or> r = [] \<or> \<not> is_space (hd r) then None
      else (let rest = dropWhile is_space r in
            if rest \<noteq> [] then Some rest else if 2 \<le> length r then Some [last r] else None))"

text \<open>\<open>replace(/\s+#.*$/, "")\<close>\<close>

fun drop_comment :: "string \<Rightarrow> string" where
  "drop_comment [] = []"
| "drop_comment (c # cs) =
     (if is_space c \<and> starts_with ''#'' (dropWhile is_space cs) then [] else c # drop_comment cs)"

fun words_of :: "string \<Rightarrow> string \<Rightarrow> string list" where
  "words_of w [] = (if w = [] then [] else [rev w])"
| "words_of w (c # cs) = (if is_space c then (if w = [] then [] else [rev w]) @ words_of [] cs else words_of (c # w) cs)"

definition port_number :: "string \<Rightarrow> int option" where
  "port_number tok =
     (let d = takeWhile (\<lambda>c. c \<noteq> CHR ''/'') tok in
      if d \<noteq> [] \<and> list_all is_digit d \<and> 1 \<le> digits_value d \<and> digits_value d \<le> 65535 then Some (int (digits_value d)) else None)"

definition inspectDockerfile :: "string \<Rightarrow> int list" where
  "inspectDockerfile t =
     sort (remdups (concat (map (\<lambda>l. case expose_rest l of None \<Rightarrow> [] | Some r \<Rightarrow>
        List.map_filter port_number (words_of [] (drop_comment r))) (text_lines (join_lines t)))))"

definition build_secret_id_ok :: "string \<Rightarrow> bool" where
  "build_secret_id_ok i \<longleftrightarrow> i \<noteq> [] \<and> list_all (\<lambda>c. is_alnum c \<or> c = CHR ''_'' \<or> c = CHR ''-'') i"

fun secret_args :: "string \<Rightarrow> (string \<times> string) list \<Rightarrow> (string \<times> string) list \<Rightarrow> string + string list" where
  "secret_args directory secrets [] = Inr []"
| "secret_args directory secrets ((i, name) # refs) =
     (if \<not> build_secret_id_ok i then Inl ''Invalid BuildKit secret ID''
      else (case map_of secrets name of
              None \<Rightarrow> Inl (''Missing secret: '' @ name)
            | Some _ \<Rightarrow>
                (case secret_args directory secrets refs of
                   Inl e \<Rightarrow> Inl e
                 | Inr args \<Rightarrow> Inr (''--secret'' # (''id='' @ i @ '',src='' @ directory @ ''/'' @ i) # args))))"

definition build_args :: "string list \<Rightarrow> string \<Rightarrow> (string \<times> string) list \<Rightarrow> build_spec \<Rightarrow> string + string list" where
  "build_args workspace address ctx b =
     (case safePath workspace (bs_context b) of Inl e \<Rightarrow> Inl e | Inr contextPath \<Rightarrow>
     (case safePath workspace (bs_dockerfile b) of Inl e \<Rightarrow> Inl e | Inr dockerfilePath \<Rightarrow>
        Inr ([''buildctl'', ''--addr'', address, ''build'', ''--progress'', ''plain'', ''--frontend'', ''dockerfile.v0'',
              ''--local'', ''context='' @ path_string contextPath, ''--local'', ''dockerfile='' @ path_string (butlast dockerfilePath),
              ''--opt'', ''filename='' @ last (split_on CHR ''/'' (map (\<lambda>c. if c = backslash then CHR ''/'' else c) (path_string dockerfilePath))),
              ''--opt'', ''platform='' @ js_join '','' (bs_platforms b),
              ''--metadata-file'', path_string (workspace @ [''.devion-buildkit-metadata.json''])]
          @ (if truthy (bs_target b) then [''--opt'', ''target='' @ the (bs_target b)] else [])
          @ concat (map (\<lambda>(k, v). [''--opt'', ''build-arg:'' @ k @ ''='' @ interpolate v ctx]) (bs_args b))
          @ concat (map (\<lambda>c. [''--import-cache'', interpolate c ctx]) (bs_cacheFrom b))
          @ (if truthy (bs_cacheTo b) then [''--export-cache'', interpolate (the (bs_cacheTo b)) ctx] else [])
          @ [''--output'', if bs_push b then ''type=image,name='' @ js_join '','' (map (\<lambda>t. interpolate t ctx) (bs_tags b))
                 @ '',push=true'' @ (if bs_insecureRegistry b then '',registry.insecure=true'' else [])
               else ''type=oci,dest=image.tar''])))"

text \<open>\<open>kit\<close> gives the exit code of the command and the metadata file it leaves, if that can be read.\<close>

definition executeBuildKit ::
  "(string list \<Rightarrow> int \<times> json option) \<Rightarrow> string \<Rightarrow> string list \<Rightarrow> string \<Rightarrow> (string \<times> string) list \<Rightarrow> (string \<times> string) list \<Rightarrow> build_spec
     \<Rightarrow> string + (string list \<times> string option)" where
  "executeBuildKit kit directory workspace address ctx secrets b =
     (case build_args workspace address ctx b of Inl e \<Rightarrow> Inl e | Inr args \<Rightarrow>
     (case secret_args directory secrets (bs_secrets b) of Inl e \<Rightarrow> Inl e | Inr sargs \<Rightarrow>
       (let (code, file) = kit (args @ sargs) in
        if code \<noteq> 0 then Inl (''BuildKit exited with code '' @ str_int code)
        else Inr (map (\<lambda>t. interpolate t ctx) (bs_tags b),
               case Option.bind file (jget ''containerimage.digest'') of
                 Some (JStr d) \<Rightarrow> if digest_ok d then Some d else None
               | _ \<Rightarrow> None))))"

definition add_build :: "string \<Rightarrow> string \<Rightarrow> int list \<Rightarrow> string list \<times> string option \<Rightarrow> run_metadata \<Rightarrow> run_metadata" where
  "add_build i dockerfile ports built m =
     m\<lparr>md_exposedPorts := js_uniq (md_exposedPorts m @ ports),
       md_detectedDockerfiles := AList.update i (dockerfile, ports) (md_detectedDockerfiles m),
       md_artifacts := (case snd built of None \<Rightarrow> md_artifacts m | Some d \<Rightarrow> Some (map (\<lambda>image. (image, d)) (fst built)))\<rparr>"

text \<open>One attempt of a build step: \<open>kit\<close> is \<open>executeBuildKit\<close> on the step, \<open>dockerfile\<close> the text of its Dockerfile or the error of reading it.\<close>

definition run_build ::
  "string list \<Rightarrow> build_run \<Rightarrow> string \<Rightarrow> build_spec \<Rightarrow> string + (string list \<times> string option) \<Rightarrow> string + string \<Rightarrow> run_metadata \<Rightarrow> builder
     \<Rightarrow> (string + run_metadata) \<times> builder" where
  "run_build workspace run i b kit dockerfile m s =
     (if \<not> truthy (br_workerId run) then (Inl ''Build lease was lost before image export'', s)
      else (let (ok, s1) = markPushing (br_id run) (the (br_workerId run)) s in
        if \<not> ok then (Inl ''Build lease was lost before image export'', s1)
        else (case kit of Inl e \<Rightarrow> (Inl e, s1) | Inr built \<Rightarrow>
             (case safePath workspace (bs_dockerfile b) of Inl e \<Rightarrow> (Inl e, s1) | Inr _ \<Rightarrow>
             (case dockerfile of Inl e \<Rightarrow> (Inl e, s1) | Inr t \<Rightarrow>
                (let m1 = add_build i (bs_dockerfile b) (inspectDockerfile t) built m in
                 (Inr m1, updateMetadata (br_id run) (metadata_json m1) s1)))))))"

subsection \<open>Deployment steps\<close>

text \<open>\<open>[registry, repository, reference]\<close>\<close>

definition before_at :: "char \<Rightarrow> string \<Rightarrow> string \<times> string" where
  "before_at c v = (takeWhile (\<lambda>x. x \<noteq> c) v, drop 1 (dropWhile (\<lambda>x. x \<noteq> c) v))"

definition before_last :: "char \<Rightarrow> string \<Rightarrow> string \<times> string" where
  "before_last c v = (let parts = split_on c v in (js_join [c] (butlast parts), last parts))"

definition parseImageReference :: "string \<Rightarrow> string + string \<times> string \<times> string" where
  "parseImageReference ref =
     (let parts = split_on CHR ''/'' ref; registry = hd parts; rest = tl parts in
      if registry = [] \<or> rest = [] \<or> (CHR ''.'' \<notin> set registry \<and> CHR '':'' \<notin> set registry \<and> registry \<noteq> ''localhost'')
      then Inl ''Deployment images must use an explicit registry host''
      else (let path = js_join ''/'' rest in
            if CHR ''@'' \<in> set path then Inr (registry, before_at CHR ''@'' path)
            else if CHR '':'' \<in> set path then Inr (registry, before_last CHR '':'' path)
            else Inr (registry, path, ''latest'')))"

record deploy_request =
  dr_image :: string
  dr_digest :: string
  dr_instanceName :: string
  dr_mode :: deploy_mode
  dr_resourceTemplate :: "string option"
  dr_domain :: "string option"
  dr_vcpuCount :: "int option"
  dr_memoryMiB :: "int option"
  dr_rootfsSizeMiB :: "int option"
  dr_servicePort :: "int option"
  dr_environment :: "(string \<times> string) list"
  dr_username :: "string option"
  dr_password :: "string option"

definition secret_named :: "(string \<times> string) list \<Rightarrow> string option \<Rightarrow> string option" where
  "secret_named secrets name = (if truthy name then map_of secrets (the name) else None)"

definition only_truthy :: "string option \<Rightarrow> string option" where
  "only_truthy v = (if truthy v then v else None)"

text \<open>\<open>inspect\<close> is the answer of the registry for a parsed reference. The request that is sent with the run's agent token.\<close>

definition deploy_request_of ::
  "bool \<Rightarrow> (string \<times> string \<times> string \<Rightarrow> string + string) \<Rightarrow> build_run \<Rightarrow> (string \<times> string) list \<Rightarrow> run_metadata \<Rightarrow> deploy_spec
     \<Rightarrow> string + string \<times> deploy_request" where
  "deploy_request_of has_agent inspect run ctx m d =
     (if \<not> has_agent then Inl ''FIRECRACKER_AGENT_URL is required for deploy steps''
      else
       (let image = interpolate (ds_image d) ctx;
            username = secret_named (br_secrets run) (ds_registryUsernameSecret d);
            password = secret_named (br_secrets run) (ds_registryPasswordSecret d) in
        if truthy username \<noteq> truthy password then Inl ''Registry username and password secrets must be configured together''
        else (case parseImageReference image of Inl e \<Rightarrow> Inl e | Inr ref \<Rightarrow>
             (case inspect ref of Inl e \<Rightarrow> Inl e | Inr digest \<Rightarrow>
              if \<not> digest_ok digest then Inl ''Registry did not return a valid immutable manifest digest''
              else if \<not> truthy (map_of (br_secrets run) ''FIRECRACKER_AGENT_TOKEN'') then Inl ''Missing FIRECRACKER_AGENT_TOKEN secret''
              else Inr (the (map_of (br_secrets run) ''FIRECRACKER_AGENT_TOKEN''),
                 \<lparr>dr_image = image, dr_digest = digest, dr_instanceName = interpolate (ds_instanceName d) ctx, dr_mode = ds_mode d,
                  dr_resourceTemplate = only_truthy (ds_resourceTemplate d),
                  dr_domain = map_option (\<lambda>v. interpolate v ctx) (only_truthy (ds_domain d)),
                  dr_vcpuCount = ds_vcpuCount d, dr_memoryMiB = ds_memoryMiB d, dr_rootfsSizeMiB = ds_rootfsSizeMiB d,
                  dr_servicePort = (case ds_servicePort d of Some p \<Rightarrow> Some p
                    | None \<Rightarrow> if ds_mode d = Automatic \<and> length (md_exposedPorts m) = 1 then Some (hd (md_exposedPorts m)) else None),
                  dr_environment = map (\<lambda>(k, v). (k, interpolate v ctx)) (ds_environment d),
                  dr_username = only_truthy username, dr_password = only_truthy password\<rparr>)))))"

text \<open>The guard of \<open>deployToFirecracker\<close> on the parsed agent URL: protocol and host name.\<close>

definition agent_url_ok :: "string \<times> string \<Rightarrow> bool" where
  "agent_url_ok url \<longleftrightarrow> fst url = ''https:'' \<or> snd url \<in> set [''localhost'', ''127.0.0.1'', ''::1'']"

subsection \<open>Command steps\<close>

definition merged_env :: "(string \<times> string) list \<Rightarrow> (string \<times> string) list \<Rightarrow> (string \<times> string) list" where
  "merged_env base over = fold (\<lambda>(k, v). AList.update k v) over base"

definition shell_str :: "shell \<Rightarrow> string" where
  "shell_str sh = (case sh of Sh \<Rightarrow> ''sh'' | Bash \<Rightarrow> ''bash'')"

text \<open>Command, environment and directory of the process; \<open>exit_code\<close> is its result.\<close>

definition run_command ::
  "string list \<Rightarrow> build_run \<Rightarrow> wf_step \<Rightarrow> (string \<times> string) list \<Rightarrow> string \<Rightarrow> shell \<Rightarrow> string
     \<Rightarrow> (string list \<Rightarrow> (string \<times> string) list \<Rightarrow> string list \<Rightarrow> int) \<Rightarrow> string option" where
  "run_command workspace run st ctx script sh wd exit_code =
     (case safePath workspace wd of
        Inl e \<Rightarrow> Some e
      | Inr cwd \<Rightarrow>
          (let env = map (\<lambda>(k, v). (k, interpolate v ctx)) (merged_env (wf_env (br_workflow run)) (st_env st));
               code = exit_code [shell_str sh, ''-euc'', interpolate script ctx] env cwd in
           if code \<noteq> 0 then Some (''Command exited with code '' @ str_int code) else None))"

end
