(* ===== verification/ExecutorProperties.thy ===== *)
theory ExecutorProperties
  imports StepRun WorkflowProperties
begin

text \<open>
  What the graph loop guarantees for the workflows that validation accepts: it never deadlocks and stops early only for a cause, a step runs
  only after everything it needs has succeeded, and a step with the condition \<open>failure()\<close> never runs. Then the build
  lease, the confinement of paths and the redaction of secrets.
\<close>

subsection \<open>Outcomes of a round\<close>

definition did_run :: "outcome option \<Rightarrow> bool" where
  "did_run v \<longleftrightarrow> v = Some OSucceeded \<or> v = Some OFailed"

lemma did_run_simps [simp]: "\<not> did_run None" "\<not> did_run (Some OSkipped)" "did_run (Some OSucceeded)" "did_run (Some OFailed)"
  by (simp_all add: did_run_def)

lemma values_update: "snd ` set (AList.update k v al) \<subseteq> insert v (snd ` set al)"
  by (induction al) auto

lemma decide_spec:
  assumes "decide outs ss = (outs1, ds)"
  shows "map fst ds = ss \<and> (\<forall>i. i \<notin> st_id ` set ss \<longrightarrow> map_of outs1 i = map_of outs i)
    \<and> (\<forall>i. did_run (map_of outs1 i) \<longrightarrow> map_of outs1 i = map_of outs i) \<and> snd ` set outs1 \<subseteq> insert OSkipped (snd ` set outs)
    \<and> (\<forall>s. (s, Run) \<in> set ds \<longrightarrow> (\<forall>n \<in> set (st_needs s). map_of outs n = Some OSucceeded)
          \<and> (st_if s = Some ''failure()'' \<longrightarrow> OFailed \<in> snd ` set outs))
    \<and> (\<forall>s c. (s, Throw c) \<in> set ds \<longrightarrow> st_if s = Some c)"
  using assms
proof (induction ss arbitrary: outs outs1 ds)
  case Nil
  then show ?case by auto
next
  case (Cons s ss)
  let ?d = "step_decision outs s"
  let ?o = "if ?d = Skip then AList.update (st_id s) OSkipped outs else outs"
  obtain ds' where dec: "decide ?o ss = (outs1, ds')" and ds: "ds = (s, ?d) # ds'"
    using Cons.prems by (auto simp: Let_def split: prod.splits)
  note IH = Cons.IH [OF dec]
  have out: "map_of ?o i = (if ?d = Skip \<and> i = st_id s then Some OSkipped else map_of outs i)" for i
    by (simp add: update_conv')
  have vals: "snd ` set ?o \<subseteq> insert OSkipped (snd ` set outs)" 
    using values_update [of "st_id s" OSkipped outs] by (cases "?d = Skip") (simp_all add: subset_insertI)
  have run: "(\<forall>n \<in> set (st_needs s). map_of outs n = Some OSucceeded) \<and> (st_if s = Some ''failure()'' \<longrightarrow> OFailed \<in> snd ` set outs)"
    if "?d = Run"
    using that by (auto simp: step_decision_def conditionMatches_def truthy_def list_ex_iff split: if_splits option.splits)
  have thr: "st_if s = Some c" if "?d = Throw c" for c
    using that by (auto simp: step_decision_def conditionMatches_def truthy_def split: if_splits option.splits)
  have "(\<forall>n \<in> set (st_needs t). map_of outs n = Some OSucceeded) \<and> (st_if t = Some ''failure()'' \<longrightarrow> OFailed \<in> snd ` set outs)"
    if "(t, Run) \<in> set ds'" for t
  proof -
    from IH that have "(\<forall>n \<in> set (st_needs t). map_of ?o n = Some OSucceeded)"
      "st_if t = Some ''failure()'' \<longrightarrow> OFailed \<in> snd ` set ?o" by blast+
    with vals show ?thesis by (auto simp: out split: if_splits)
  qed
  moreover have "map_of outs1 i = map_of outs i" if "did_run (map_of outs1 i)" for i
  proof -
    from IH that have "map_of outs1 i = map_of ?o i" by blast
    with that show ?thesis by (auto simp: out split: if_splits)
  qed
  moreover have "snd ` set outs1 \<subseteq> insert OSkipped (snd ` set outs)" using IH vals by blast
  moreover have "map_of outs1 i = map_of outs i" if "i \<notin> st_id ` set (s # ss)" for i
    using IH that by (auto simp: out)
  moreover have "map fst ds' = ss" "\<And>t c. (t, Throw c) \<in> set ds' \<Longrightarrow> st_if t = Some c" using IH by blast+
  ultimately show ?case using ds run thr by auto
qed

definition step_fails :: "step_results \<Rightarrow> wf_step \<Rightarrow> string \<Rightarrow> bool" where
  "step_fails res s m \<longleftrightarrow> \<not> st_continueOnError s \<and> (\<forall>n \<in> {1..Suc (nat (st_retries s))}. res (st_id s) n \<noteq> None)
     \<and> res (st_id s) (Suc (nat (st_retries s))) = Some m"

lemma attempts_error:
  "attempts res i n k err = (Some m, l) \<Longrightarrow> 0 < k \<Longrightarrow> (\<forall>j \<in> {n..<n + k}. res j \<noteq> None) \<and> res (n + k - 1) = Some m"
proof (induction k arbitrary: n err l)
  case (Suc k)
  then obtain e where e: "res n = Some e" by (auto simp: Let_def split: option.splits)
  show ?case
  proof (cases k)
    case 0
    with Suc.prems e show ?thesis by auto
  next
    case (Suc k')
    with Suc.prems e obtain l' where "attempts res i (Suc n) k (Some e) = (Some m, l')"
      by (auto simp: Let_def split: prod.splits)
    from Suc.IH [OF this] Suc have IH: "\<forall>j \<in> {Suc n..<Suc n + k}. res j \<noteq> None" "res (Suc n + k - 1) = Some m" by auto
    have "res j \<noteq> None" if "j \<in> {n..<n + Suc k}" for j
      using that IH(1) e by (cases "j = n") auto
    with IH(2) show ?thesis by simp
  qed
qed simp

lemma settle_step_cases:
  assumes "settle_step res (s, d) = (out, err, l)"
  shows "(err = None \<longrightarrow> out \<noteq> None \<and> out \<noteq> Some OFailed) \<and> (did_run out \<longrightarrow> d = Run)
    \<and> (\<forall>e. err = Some e \<longrightarrow> (\<exists>c. d = Throw c \<and> e = UnsupportedCondition c) \<or> (\<exists>m. d = Run \<and> e = StepFailed m \<and> step_fails res s m))"
proof (cases d)
  case Run
  show ?thesis
  proof (cases "attempts (res (st_id s)) (st_id s) 1 (Suc (nat (st_retries s))) None")
    case (Pair r l')
    show ?thesis
    proof (cases r)
      case None
      with assms Run Pair show ?thesis by (auto simp: settle_step_def)
    next
      case (Some m)
      from attempts_error [OF Pair [unfolded Some]] have "(\<forall>n \<in> {1..Suc (nat (st_retries s))}. res (st_id s) n \<noteq> None)"
        "res (st_id s) (Suc (nat (st_retries s))) = Some m" by auto
      with assms Run Pair Some show ?thesis by (auto simp: settle_step_def step_fails_def split: if_splits)
    qed
  qed
qed (use assms in \<open>auto simp: settle_step_def\<close>)

lemma settle_all_spec:
  assumes "settle_all res outs sds = (outs1, err, l)"
  shows "(\<forall>i. i \<notin> st_id ` fst ` set sds \<longrightarrow> map_of outs1 i = map_of outs i)
    \<and> (err = None \<longrightarrow> st_id ` fst ` set sds \<subseteq> dom (map_of outs1) \<and> dom (map_of outs) \<subseteq> dom (map_of outs1)
          \<and> (OFailed \<in> snd ` set outs1 \<longrightarrow> OFailed \<in> snd ` set outs))
    \<and> (\<forall>i. did_run (map_of outs1 i) \<longrightarrow> map_of outs1 i = map_of outs i \<or> (\<exists>s. (s, Run) \<in> set sds \<and> st_id s = i))
    \<and> (\<forall>e. err = Some e \<longrightarrow> (\<exists>s c. (s, Throw c) \<in> set sds \<and> e = UnsupportedCondition c)
          \<or> (\<exists>s m. (s, Run) \<in> set sds \<and> e = StepFailed m \<and> step_fails res s m))"
  using assms
proof (induction sds arbitrary: outs outs1 err l)
  case Nil
  then show ?case by auto
next
  case (Cons sd sds)
  obtain s d where sd: "sd = (s, d)" by fastforce
  obtain out e0 l0 where st: "settle_step res (s, d) = (out, e0, l0)" by (metis prod_cases3)
  let ?o = "case out of None \<Rightarrow> outs | Some v \<Rightarrow> AList.update (st_id s) v outs"
  obtain e1 l1 where all: "settle_all res ?o sds = (outs1, e1, l1)"
    and err: "err = (case e0 of None \<Rightarrow> e1 | Some e \<Rightarrow> Some e)"
    using Cons.prems sd st by (auto simp: Let_def split: prod.splits cong: option.case_cong)
  note IH = Cons.IH [OF all] and S = settle_step_cases [OF st]
  have out: "map_of ?o i = (if i = st_id s \<and> out \<noteq> None then out else map_of outs i)" for i
    by (cases out) (simp_all add: update_conv')
  have vals: "snd ` set ?o \<subseteq> set_option out \<union> snd ` set outs" 
    using values_update [of "st_id s" _ outs] by (cases out) simp_all
  have A: "map_of outs1 i = map_of outs i" if "i \<notin> st_id ` fst ` set (sd # sds)" for i
    using IH that by (auto simp: out sd)
  have B: "st_id ` fst ` set (sd # sds) \<subseteq> dom (map_of outs1) \<and> dom (map_of outs) \<subseteq> dom (map_of outs1)
      \<and> (OFailed \<in> snd ` set outs1 \<longrightarrow> OFailed \<in> snd ` set outs)" if "err = None"
  proof -
    from that err have n: "e0 = None" "e1 = None" by (auto split: option.splits)
    with S have o: "out \<noteq> None" "out \<noteq> Some OFailed" by auto
    then have a: "insert (st_id s) (dom (map_of outs)) \<subseteq> dom (map_of ?o)" by (auto simp: out dom_def)
    have b: "OFailed \<in> snd ` set outs" if "OFailed \<in> snd ` set ?o" using that vals o by (cases out) auto
    from IH n have "st_id ` fst ` set sds \<subseteq> dom (map_of outs1)" "dom (map_of ?o) \<subseteq> dom (map_of outs1)"
      "OFailed \<in> snd ` set outs1 \<Longrightarrow> OFailed \<in> snd ` set ?o" by blast+
    moreover from this(2) a have "st_id s \<in> dom (map_of outs1)" "dom (map_of outs) \<subseteq> dom (map_of outs1)" by blast+
    ultimately show ?thesis using b by (simp add: sd)
  qed
  have C: "map_of outs1 i = map_of outs i \<or> (\<exists>t. (t, Run) \<in> set (sd # sds) \<and> st_id t = i)" if r: "did_run (map_of outs1 i)" for i
  proof -
    from IH r consider "map_of outs1 i = map_of ?o i" | t where "(t, Run) \<in> set sds" "st_id t = i" by blast
    then show ?thesis
    proof cases
      case 1
      with r have "did_run (map_of ?o i)" by simp
      with S 1 show ?thesis by (auto simp: out sd split: if_splits)
    qed auto
  qed
  have D: "(\<exists>t c. (t, Throw c) \<in> set (sd # sds) \<and> e = UnsupportedCondition c)
      \<or> (\<exists>t m. (t, Run) \<in> set (sd # sds) \<and> e = StepFailed m \<and> step_fails res t m)" if "err = Some e" for e
  proof (cases e0)
    case None
    with that err have "e1 = Some e" by simp
    with IH show ?thesis by (metis list.set_intros(2))
  next
    case (Some e')
    with that err S sd show ?thesis by auto
  qed
  from A B C D show ?case by blast
qed

subsection \<open>The loop\<close>

definition settled_ok :: "wf_step list \<Rightarrow> outcomes \<Rightarrow> bool" where
  "settled_ok steps outs \<longleftrightarrow> (\<forall>s \<in> set steps. did_run (map_of outs (st_id s)) \<longrightarrow>
     (\<forall>d \<in> set (st_needs s). map_of outs d = Some OSucceeded) \<and> st_if s \<noteq> Some ''failure()'')"

definition graph_inv :: "wf_step list \<Rightarrow> wf_step list \<Rightarrow> outcomes \<Rightarrow> bool" where
  "graph_inv steps pending outs \<longleftrightarrow> set pending \<subseteq> set steps
     \<and> st_id ` (set steps - set pending) \<subseteq> dom (map_of outs) \<and> st_id ` set pending \<inter> dom (map_of outs) = {}
     \<and> OFailed \<notin> snd ` set outs \<and> settled_ok steps outs"

definition end_cause :: "step_results \<Rightarrow> wf_step list \<Rightarrow> graph_error \<Rightarrow> bool" where
  "end_cause res steps e \<longleftrightarrow> (\<exists>s \<in> set steps. (\<exists>c. e = UnsupportedCondition c \<and> st_if s = Some c) \<or> (\<exists>m. e = StepFailed m \<and> step_fails res s m))"

lemma round_inv:
  assumes inv: "graph_inv steps pending outs" and d: "distinct (map st_id steps)"
    and r: "graph_round res outs (filter (ready_step outs) pending) = (outs1, err, l)"
  shows "settled_ok steps outs1" and "err = None \<Longrightarrow> graph_inv steps (filter (\<lambda>s. \<not> ready_step outs s) pending) outs1"
    and "err = Some e \<Longrightarrow> end_cause res steps e"
proof -
  let ?ready = "filter (ready_step outs) pending"
  obtain o0 ds where dec: "decide outs ?ready = (o0, ds)" by fastforce
  with r have all: "settle_all res o0 ds = (outs1, err, l)" by (simp add: graph_round_def)
  note D = decide_spec [OF dec] and S = settle_all_spec [OF all]
  from D have ds: "fst ` set ds = set ?ready" by (metis image_set)
  from inv have sub: "set ?ready \<subseteq> set steps" by (auto simp: graph_inv_def)
  have members: "s \<in> set ?ready" if "(s, q) \<in> set ds" for s q
    using ds imageI [OF that, of fst] by simp
  have in_steps: "s = t" if "s \<in> set steps" "t \<in> set steps" "st_id s = st_id t" for s t
    using d that by (auto simp: distinct_map dest: inj_onD)
  have old: "map_of outs1 i = map_of outs i" if "i \<notin> st_id ` set ?ready" for i
    using D S that unfolding ds by metis
  have keep: "map_of outs1 n = Some OSucceeded" if "map_of outs n = Some OSucceeded" for n
  proof -
    from inv that have "n \<notin> st_id ` set ?ready" by (auto simp: graph_inv_def)
    from old [OF this] that show ?thesis by simp
  qed
  have runs: "(s, Run) \<in> set ds" if "s \<in> set ?ready" "did_run (map_of outs1 (st_id s))" for s
  proof -
    from that inv have new: "map_of outs (st_id s) = None" by (auto simp: graph_inv_def)
    have "map_of outs1 (st_id s) \<noteq> map_of o0 (st_id s)"
    proof
      assume "map_of outs1 (st_id s) = map_of o0 (st_id s)"
      with D that(2) new show False by (metis did_run_simps(1))
    qed
    with S that(2) obtain t where t: "(t, Run) \<in> set ds" "st_id t = st_id s" by blast
    then have "t \<in> set ?ready" using ds by force
    with in_steps [of t s] sub that(1) t show ?thesis by auto
  qed
  show "settled_ok steps outs1"
    unfolding settled_ok_def
  proof (intro ballI impI)
    fix s assume s: "s \<in> set steps" "did_run (map_of outs1 (st_id s))"
    show "(\<forall>d \<in> set (st_needs s). map_of outs1 d = Some OSucceeded) \<and> st_if s \<noteq> Some ''failure()''"
    proof (cases "s \<in> set ?ready")
      case True
      from runs [OF this s(2)] D inv keep show ?thesis by (auto simp: graph_inv_def)
    next
      case False
      then have "st_id s \<notin> st_id ` set ?ready" using in_steps sub s(1) by blast
      from old [OF this] s inv keep show ?thesis by (auto simp: graph_inv_def settled_ok_def)
    qed
  qed
  then have settled: "settled_ok steps outs1" .
  show "graph_inv steps (filter (\<lambda>s. \<not> ready_step outs s) pending) outs1" if n: "err = None"
  proof -
    have done_ids: "st_id ` set ?ready \<subseteq> dom (map_of outs1)" using S n ds by simp
    have "map_of outs1 i \<noteq> None" if "map_of outs i \<noteq> None" for i
      using that old [of i] done_ids by (cases "i \<in> st_id ` set ?ready") (auto simp: domIff)
    then have dom: "dom (map_of outs) \<subseteq> dom (map_of outs1)" by auto
    have "st_id ` (set steps - set (filter (\<lambda>s. \<not> ready_step outs s) pending)) \<subseteq> dom (map_of outs1)"
    proof
      fix i assume "i \<in> st_id ` (set steps - set (filter (\<lambda>s. \<not> ready_step outs s) pending))"
      then obtain s where s: "s \<in> set steps" "i = st_id s" "s \<in> set ?ready \<or> s \<notin> set pending" by auto
      from s(3) show "i \<in> dom (map_of outs1)"
      proof
        assume "s \<in> set ?ready"
        then have "i \<in> st_id ` set ?ready" unfolding s(2) by (rule imageI)
        with done_ids show ?thesis by (rule rev_subsetD [rotated])
      next
        assume "s \<notin> set pending"
        with s(1) have "i \<in> st_id ` (set steps - set pending)" unfolding s(2) by (intro imageI DiffI)
        moreover from inv have "st_id ` (set steps - set pending) \<subseteq> dom (map_of outs)" by (simp add: graph_inv_def)
        ultimately show ?thesis using dom by (meson subsetD)
      qed
    qed
    moreover have "st_id ` set (filter (\<lambda>s. \<not> ready_step outs s) pending) \<inter> dom (map_of outs1) = {}"
    proof -
      have "map_of outs1 (st_id s) = None" if "s \<in> set pending" "\<not> ready_step outs s" for s
      proof -
        from inv that have ss: "s \<in> set steps" by (auto simp: graph_inv_def)
        have "st_id s \<notin> st_id ` set ?ready"
        proof
          assume "st_id s \<in> st_id ` set ?ready"
          then obtain t where t: "t \<in> set ?ready" "st_id s = st_id t" by (rule imageE)
          from sub t(1) have "t \<in> set steps" by (rule subsetD)
          from in_steps [OF ss this t(2)] have "s = t" .
          with t(1) that(2) show False by simp
        qed
        from old [OF this] inv that(1) show ?thesis by (auto simp: graph_inv_def)
      qed
      then show ?thesis by auto
    qed
    moreover have "OFailed \<notin> snd ` set outs1" using S n D inv by (auto simp: graph_inv_def)
    moreover have "set (filter (\<lambda>s. \<not> ready_step outs s) pending) \<subseteq> set steps" using inv by (auto simp: graph_inv_def)
    ultimately show ?thesis using settled unfolding graph_inv_def by blast
  qed
  show "end_cause res steps e" if "err = Some e"
  proof -
    from S that consider s c where "(s, Throw c) \<in> set ds" "e = UnsupportedCondition c"
      | s m where "(s, Run) \<in> set ds" "e = StepFailed m" "step_fails res s m" by blast
    then show ?thesis
    proof cases
      case 1
      with members sub have "s \<in> set steps" by blast
      moreover from 1 D have "st_if s = Some c" by blast
      ultimately show ?thesis using 1 unfolding end_cause_def by blast
    next
      case 2
      with members sub have "s \<in> set steps" by blast
      with 2 show ?thesis unfolding end_cause_def by blast
    qed
  qed
qed

lemma some_ready:
  assumes inv: "graph_inv steps pending outs" and ne: "pending \<noteq> []"
    and closed: "snd ` needs_rel steps \<subseteq> st_id ` set steps" and acyc: "acyclic (needs_rel steps)"
  shows "filter (ready_step outs) pending \<noteq> []"
proof -
  have "needs_rel steps \<subseteq> (\<Union>s \<in> set steps. {st_id s} \<times> set (st_needs s))" by (auto simp: needs_rel_def)
  then have "finite (needs_rel steps)" by (rule finite_subset) auto
  from finite_acyclic_wf_converse [OF this acyc] have wf: "wf ((needs_rel steps)\<inverse>)" .
  from ne have "st_id (hd pending) \<in> st_id ` set pending" by simp
  from wfE_min [OF wf this] obtain z where z: "z \<in> st_id ` set pending"
    and min: "\<And>y. (y, z) \<in> (needs_rel steps)\<inverse> \<Longrightarrow> y \<notin> st_id ` set pending" by blast
  then obtain s where s: "s \<in> set pending" "z = st_id s" by blast
  from inv s have ss: "s \<in> set steps" by (auto simp: graph_inv_def)
  have "map_of outs d \<noteq> None" if "d \<in> set (st_needs s)" for d
  proof -
    from that ss s(2) have e: "(z, d) \<in> needs_rel steps" by (auto simp: needs_rel_def)
    with closed obtain t where t: "t \<in> set steps" "d = st_id t" by force
    from min [of d] e t(2) have "t \<notin> set pending" by auto
    with inv t show ?thesis by (auto simp: graph_inv_def)
  qed
  then have "ready_step outs s" by (simp add: ready_step_def list_all_iff)
  with s show ?thesis by (auto simp: filter_empty_conv)
qed

lemma graph_loop_spec:
  assumes "graph_inv steps pending outs" and d: "distinct (map st_id steps)"
    and closed: "snd ` needs_rel steps \<subseteq> st_id ` set steps" and acyc: "acyclic (needs_rel steps)"
    and "graph_loop aborted res n pending outs lines = (err, outs1, lines1)"
  shows "settled_ok steps outs1 \<and> (err = None \<longrightarrow> st_id ` set steps \<subseteq> dom (map_of outs1))
    \<and> (\<forall>e. err = Some e \<longrightarrow> e = BuildCancelled \<and> (\<exists>n. aborted n) \<or> end_cause res steps e)"
  using assms(1,5)
proof (induction aborted res n pending outs lines arbitrary: err outs1 lines1 rule: graph_loop.induct)
  case (1 aborted res n pending outs lines)
  let ?r = "graph_round res outs (filter (ready_step outs) pending)"
  note loop = 1(3) [unfolded graph_loop.simps [of aborted res n pending outs lines]]
  from 1(2) have ok: "settled_ok steps outs" by (simp add: graph_inv_def)
  consider "pending = []" | "pending \<noteq> []" "aborted n" | "pending \<noteq> []" "\<not> aborted n" by blast
  then show ?case
  proof cases
    case 1
    with loop ok \<open>graph_inv steps pending outs\<close> show ?thesis by (auto simp: graph_inv_def)
  next
    case 2
    with loop ok show ?thesis by auto
  next
    case 3
    from some_ready [OF 1(2) 3(1) closed acyc] have ready: "filter (ready_step outs) pending \<noteq> []" .
    obtain o1 e1 l1 where r: "?r = (o1, e1, l1)" by (metis prod_cases3)
    note R = round_inv [OF 1(2) d r]
    show ?thesis
    proof (cases e1)
      case None
      with 3 ready r loop have "graph_loop aborted res (Suc n) (filter (\<lambda>s. \<not> ready_step outs s) pending) o1 (lines @ l1) = (err, outs1, lines1)"
        by simp
      from 1(1) [OF 3 ready r [unfolded None, symmetric] refl refl R(2) [OF None] this] show ?thesis .
    next
      case (Some e)
      from 3 ready r loop Some have "err = Some e" "outs1 = o1" by simp_all
      with R(1) R(3) [OF Some] show ?thesis by simp
    qed
  qed
qed

lemma pending_steps_distinct: "distinct (map st_id steps) \<Longrightarrow> pending_steps steps = steps"
proof -
  assume d: "distinct (map st_id steps)"
  have "fold (\<lambda>s. AList.update (st_id s) s) ss g = g @ map (\<lambda>s. (st_id s, s)) ss"
    if "distinct (map st_id ss)" "fst ` set g \<inter> st_id ` set ss = {}" for ss and g :: "(string \<times> wf_step) list"
    using that by (induction ss arbitrary: g) (auto simp: alist_update_new)
  from this [OF d, of "[]"] show ?thesis by (simp add: pending_steps_def comp_def)
qed

lemma runGraph_spec:
  assumes "validateGraph steps = []" and "runGraph aborted res steps = (err, outs, lines)"
  shows "settled_ok steps outs \<and> (err = None \<longrightarrow> st_id ` set steps \<subseteq> dom (map_of outs))
    \<and> (\<forall>e. err = Some e \<longrightarrow> e = BuildCancelled \<and> (\<exists>n. aborted n) \<or> end_cause res steps e)"
proof -
  from assms(1) have g: "distinct (map st_id steps)" "snd ` needs_rel steps \<subseteq> st_id ` set steps" "acyclic (needs_rel steps)"
    unfolding graph_check by blast+
  have "graph_inv steps steps []" by (simp add: graph_inv_def settled_ok_def)
  from graph_loop_spec [OF this g] assms(2) show ?thesis by (simp add: runGraph_def pending_steps_distinct g(1))
qed

text \<open>C29. Executing an accepted workflow never deadlocks. When validation accepts the steps, then for every behaviour of the
  attempts the loop ends, and it ends with an outcome for every step, unless the run was cancelled, a step has an unsupported
  condition, or all attempts of a step without \<open>continueOnError\<close> failed.\<close>

theorem accepted_graph_settles:
  assumes "validateGraph steps = []"
  shows "case runGraph aborted res steps of
      (None, outs, _) \<Rightarrow> \<forall>s \<in> set steps. map_of outs (st_id s) \<noteq> None
    | (Some e, _, _) \<Rightarrow> e = BuildCancelled \<and> (\<exists>n. aborted n) \<or> end_cause res steps e"
proof -
  obtain err outs lines where r: "runGraph aborted res steps = (err, outs, lines)" by (metis prod_cases3)
  from runGraph_spec [OF assms r] r show ?thesis by (auto split: option.split)
qed

text \<open>C30. A step runs only on success. When a step of an accepted workflow has run, successfully or not, every step it needs has
  succeeded (or failed tolerated), and nothing that happens later in the run changes that.\<close>

theorem steps_run_after_needs:
  assumes "validateGraph steps = []" and "s \<in> set steps" and "did_run (map_of (fst (snd (runGraph aborted res steps))) (st_id s))"
  shows "\<forall>d \<in> set (st_needs s). map_of (fst (snd (runGraph aborted res steps))) d = Some OSucceeded"
proof -
  obtain err outs lines where r: "runGraph aborted res steps = (err, outs, lines)" by (metis prod_cases3)
  from runGraph_spec [OF assms(1) r] assms(2,3) r show ?thesis by (simp add: settled_ok_def)
qed

text \<open>A step with the condition \<open>failure()\<close> never runs: whatever fails and however the run ends, such a step is skipped or never
  reached, since a failed step ends the run before any later round evaluates the condition.\<close>

theorem failure_steps_never_run:
  assumes "validateGraph steps = []" and "s \<in> set steps" and "st_if s = Some ''failure()''"
  shows "\<not> did_run (map_of (fst (snd (runGraph aborted res steps))) (st_id s))"
proof -
  obtain err outs lines where r: "runGraph aborted res steps = (err, outs, lines)" by (metis prod_cases3)
  from runGraph_spec [OF assms(1) r] assms(2,3) r show ?thesis by (auto simp: settled_ok_def)
qed

subsection \<open>The build lease\<close>

text \<open>No row is left that \<open>markPushing\<close> would take for this run and its worker.\<close>

definition pushed_once :: "build_run \<Rightarrow> builder \<Rightarrow> bool" where
  "pushed_once run s \<longleftrightarrow>
     (\<forall>r \<in> set (bd_runs s). br_id r = br_id run \<longrightarrow> br_workerId r = br_workerId run \<longrightarrow> br_status r \<noteq> RRunning)"

lemma pushed_update:
  assumes "pushed_once run s"
    and "\<And>r. br_id (f r) = br_id r \<and> br_workerId (f r) = br_workerId r \<and> (br_status (f r) = RRunning \<longrightarrow> br_status r = RRunning)"
  shows "pushed_once run (update_runs P f s)"
  using assms by (auto simp: pushed_once_def update_runs_def set_upd_where)

lemma pushed_metadata: "pushed_once run s \<Longrightarrow> pushed_once run (updateMetadata i m s)"
  unfolding updateMetadata_def by (erule pushed_update) simp

lemma pushed_heartbeat: "pushed_once run s \<Longrightarrow> pushed_once run (snd (heartbeat_run i w secs s))"
  unfolding heartbeat_run_def Let_def snd_conv by (erule pushed_update) simp

lemma markPushing_pushes:
  "br_workerId run = Some w \<Longrightarrow> pushed_once run (snd (markPushing (br_id run) w s))"
  by (auto simp: pushed_once_def markPushing_def update_runs_def set_upd_where Let_def)

lemma run_build_pushes: "truthy (br_workerId run) \<Longrightarrow> pushed_once run (snd (run_build ws run i b kit df m s))"
  using markPushing_pushes [of run "the (br_workerId run)" s]
  by (auto simp: run_build_def Let_def truthy_def intro: pushed_metadata split: prod.split sum.split)

lemma pushed_fails:
  assumes "pushed_once run s" and "truthy (br_workerId run)"
  shows "fst (run_build ws run j b kit df m s) = Inl ''Build lease was lost before image export''"
proof -
  from assms have "fst (markPushing (br_id run) (the (br_workerId run)) s) = False"
    by (auto simp: pushed_once_def markPushing_def list_ex_iff Let_def truthy_def)
  with assms(2) show ?thesis by (auto simp: run_build_def Let_def split: prod.split)
qed

text \<open>A run exports at most one image. After one attempt of a build step, every further attempt of it and every other build
  step of the run throws "Build lease was lost before image export", although the worker still holds the lease and keeps
  renewing it: \<open>markPushing\<close> only succeeds once per claim.\<close>

theorem second_build_attempt_fails:
  "fst (run_build ws run j b' kit' df' m' (snd (heartbeat_run (br_id run) w secs (snd (run_build ws run i b kit df m s)))))
     = Inl ''Build lease was lost before image export''"
  by (cases "truthy (br_workerId run)") (simp_all add: pushed_fails pushed_heartbeat run_build_pushes, simp add: run_build_def)

subsection \<open>Paths\<close>

lemma replicate_up: "xs \<noteq> [] \<Longrightarrow> \<exists>up. replicate (length xs) a = a # up"
  by (cases xs) auto

lemma relative_segs_cases:
  "(\<exists>rest. ys = xs @ rest \<and> relative_segs xs ys = rest) \<or> (\<exists>up. relative_segs xs ys = ''..'' # up)"
proof (induction xs ys rule: relative_segs.induct)
  case (1 x xs y ys)
  then show ?case by (cases "x = y") auto
qed (auto intro: replicate_up)

lemma starts_with_join: "starts_with ''..'' (js_join ''/'' (''..'' # up))"
  by (cases up) (simp_all add: starts_with_def)

lemma resolve_no_up: "''..'' \<notin> set acc \<Longrightarrow> ''..'' \<notin> set (resolve_segs acc xs)"
  by (induction acc xs rule: resolve_segs.induct) (auto dest: in_set_butlastD)

text \<open>Paths cannot leave the workspace: when \<open>safePath\<close> accepts the working directory, build context or Dockerfile of a step,
  the resolved path lies in the workspace and contains no step up.\<close>

theorem safe_path_confined:
  assumes "safePath workspace v = Inr target" and "''..'' \<notin> set workspace"
  shows "take (length workspace) target = workspace \<and> ''..'' \<notin> set target"
proof -
  from assms(1) have t: "target = path_resolve workspace v" and n: "\<not> starts_with ''..'' (path_relative workspace target)"
    by (auto simp: safePath_def Let_def split: if_splits)
  from relative_segs_cases [of target workspace] show ?thesis
  proof
    assume "\<exists>rest. target = workspace @ rest \<and> relative_segs workspace target = rest"
    then have "take (length workspace) target = workspace" by (metis append_eq_conv_conj)
    moreover have "''..'' \<notin> set target" 
      using assms(2) resolve_no_up [of "[]"] resolve_no_up [of workspace] by (simp add: t path_resolve_def)
    ultimately show ?thesis ..
  next
    assume "\<exists>up. relative_segs workspace target = ''..'' # up"
    with n starts_with_join show ?thesis by (auto simp: path_relative_def)
  qed
qed

subsection \<open>Redaction\<close>

lemma starts_with_Cons [simp]: "starts_with (a # p) (c # cs) \<longleftrightarrow> a = c \<and> starts_with p cs"
  by (auto simp: starts_with_def)

lemma starts_with_replaced:
  "CHR ''*'' \<notin> set q \<Longrightarrow> starts_with q (replace_str p ''***'' s) \<Longrightarrow> starts_with q s"
proof (induction p "''***''" s arbitrary: q rule: replace_str.induct)
  case (1 p s)
  show ?case
  proof (cases q)
    case Nil
    then show ?thesis by (simp add: starts_with_def)
  next
    case (Cons a q')
    with 1(3,4) 1(2) show ?thesis
      by (subst (asm) replace_str.simps) (auto split: if_splits list.splits)
  qed
qed

lemma includes_stars: "CHR ''*'' \<notin> set q \<Longrightarrow> q \<noteq> [] \<Longrightarrow> includes_str q (''***'' @ t) = includes_str q t"
  by (cases q) auto

lemma no_star_start [simp]: "CHR ''*'' \<notin> set q \<Longrightarrow> q \<noteq> [] \<Longrightarrow> \<not> starts_with q (CHR ''*'' # t)"
  by (cases q) auto

lemma includes_drop: "includes_str q (drop n s) \<Longrightarrow> includes_str q s"
  by (induction s arbitrary: n) (auto simp: drop_Cons split: nat.splits)

lemma starts_includes: "starts_with q s \<Longrightarrow> includes_str q s"
  by (cases s) (auto simp: starts_with_def)

lemma replace_str_hit:
  "p \<noteq> [] \<Longrightarrow> starts_with p (c # cs) \<Longrightarrow> replace_str p r (c # cs) = r @ replace_str p r (drop (length p) (c # cs))"
  by (subst replace_str.simps) simp

lemma replace_str_miss: "p \<noteq> [] \<Longrightarrow> \<not> starts_with p (c # cs) \<Longrightarrow> replace_str p r (c # cs) = c # replace_str p r cs"
  by (subst replace_str.simps) simp

lemma replace_str_none [simp]: "replace_str [] r s = s" "replace_str p r [] = []"
  by (subst replace_str.simps, simp)+

lemma includes_replaced:
  assumes "CHR ''*'' \<notin> set q" and "q \<noteq> []"
  shows "includes_str q (replace_str p ''***'' s) \<Longrightarrow> includes_str q s"
proof (induction p "''***''" s rule: replace_str.induct)
  case (1 p s)
  show ?case
  proof (cases "p = [] \<or> s = []")
    case False
    then obtain c cs where s: "s = c # cs" and p: "p \<noteq> []" by (cases s) auto
    show ?thesis
    proof (cases "starts_with p s")
      case True
      with 1(3) p s assms have "includes_str q (replace_str p ''***'' (drop (length p) s))"
        by (simp add: replace_str_hit includes_stars)
      from 1(1) [OF p s True this] includes_drop show ?thesis by blast
    next
      case False
      with 1(3) p s have "starts_with q (replace_str p ''***'' s) \<or> includes_str q (replace_str p ''***'' cs)"
        by (simp add: replace_str_miss)
      then show ?thesis
      proof
        assume "starts_with q (replace_str p ''***'' s)"
        from starts_with_replaced [OF assms(1) this] show ?thesis by (rule starts_includes)
      next
        assume "includes_str q (replace_str p ''***'' cs)"
        from 1(2) [OF p s False this] show ?thesis by (simp add: s)
      qed
    qed
  qed (use 1(3) in auto)
qed

lemma replaced_absent:
  assumes "CHR ''*'' \<notin> set p" and "p \<noteq> []"
  shows "\<not> includes_str p (replace_str p ''***'' s)"
  using assms
proof (induction p "''***''" s rule: replace_str.induct)
  case (1 p s)
  show ?case
  proof (cases s)
    case Nil
    with 1(4) show ?thesis by simp
  next
    case (Cons c cs)
    show ?thesis
    proof (cases "starts_with p s")
      case True
      with 1(1) [OF 1(4) Cons True 1(3,4)] 1(3,4) Cons show ?thesis by (simp add: replace_str_hit includes_stars)
    next
      case False
      with starts_with_replaced [OF 1(3), of p s] have "\<not> starts_with p (replace_str p ''***'' s)" by blast
      with 1(2) [OF 1(4) Cons False 1(3,4)] False 1(4) Cons show ?thesis by (simp add: replace_str_miss)
    qed
  qed
qed

lemma redact_fold_absent:
  assumes "CHR ''*'' \<notin> set q" and "q \<noteq> []"
  shows "\<not> includes_str q t \<Longrightarrow> \<not> includes_str q (fold (\<lambda>s t. if 4 \<le> length s then replace_str s ''***'' t else t) ss t)"
proof (induction ss arbitrary: t)
  case (Cons s ss)
  with includes_replaced [OF assms, of s t] show ?case by auto
qed simp

text \<open>Logs do not show secrets: a secret of at least four characters, none of them a star, does not occur in a redacted
  message, whatever the other secrets are and in whatever order they are replaced.\<close>

theorem redact_hides:
  assumes "(k, s) \<in> set secrets" and "4 \<le> length s" and "CHR ''*'' \<notin> set s"
  shows "\<not> includes_str s (redact v secrets)"
proof -
  from assms(2) have ne: "s \<noteq> []" by auto
  from assms(1) obtain xs ys where split: "map snd secrets = xs @ s # ys"
    by (metis imageI list.set_map snd_conv split_list)
  show ?thesis
    unfolding redact_def split using assms(2)
    by (simp add: redact_fold_absent [OF assms(3) ne] replaced_absent [OF assms(3) ne])
qed

subsection \<open>A sample workflow\<close>

text \<open>Three steps: \<open>a\<close>, \<open>b\<close> which needs it, and \<open>c\<close> for failures.\<close>

definition graph_step :: "string \<Rightarrow> string list \<Rightarrow> string option \<Rightarrow> wf_step" where
  "graph_step i needs cond = \<lparr>st_id = i, st_name = None, st_needs = needs, st_if = cond, st_timeoutMinutes = 60, st_retries = 1,
     st_continueOnError = False, st_env = [], st_body = RunBody ''make'' Sh ''.''\<rparr>"

definition sample_steps :: "wf_step list" where
  "sample_steps = [graph_step ''b'' [''a''] None, graph_step ''a'' [] None, graph_step ''c'' [''a''] (Some ''failure()'')]"

text \<open>\<open>a\<close> succeeds at the second attempt; every attempt of \<open>b\<close> fails.\<close>

definition sample_results :: step_results where
  "sample_results i n = (if i = ''a'' \<and> 2 \<le> n then None else Some ''exit 1'')"

lemma sample_graph_ok: "validateGraph sample_steps = []"
  by code_simp

lemma sample_graph_run:
  "fst (runGraph (\<lambda>_. False) sample_results sample_steps) = Some (StepFailed ''exit 1'')"
  "map_of (fst (snd (runGraph (\<lambda>_. False) sample_results sample_steps))) ''b'' = Some OFailed"
  by code_simp+

theorem accepted_graph_settles_witness:
  "end_cause sample_results sample_steps (StepFailed ''exit 1'')"
  using accepted_graph_settles [OF sample_graph_ok, of "\<lambda>_. False" sample_results] sample_graph_run(1)
  by (auto split: prod.splits)

theorem steps_run_after_needs_witness:
  "map_of (fst (snd (runGraph (\<lambda>_. False) sample_results sample_steps))) ''a'' = Some OSucceeded"
proof -
  have b: "graph_step ''b'' [''a''] None \<in> set sample_steps" by (simp add: sample_steps_def)
  have "did_run (map_of (fst (snd (runGraph (\<lambda>_. False) sample_results sample_steps))) (st_id (graph_step ''b'' [''a''] None)))"
    using sample_graph_run(2) by (simp add: graph_step_def)
  from steps_run_after_needs [OF sample_graph_ok b this] show ?thesis by (simp add: graph_step_def)
qed

theorem failure_steps_never_run_witness:
  "\<not> did_run (map_of (fst (snd (runGraph (\<lambda>_. False) sample_results sample_steps))) ''c'')"
proof -
  have c: "graph_step ''c'' [''a''] (Some ''failure()'') \<in> set sample_steps" by (simp add: sample_steps_def)
  have "st_if (graph_step ''c'' [''a''] (Some ''failure()'')) = Some ''failure()''" by (simp add: graph_step_def)
  from failure_steps_never_run [OF sample_graph_ok c this] show ?thesis by (simp add: graph_step_def)
qed

theorem safe_path_confined_witness:
  "safePath [''w'', ''r1''] ''src/../app'' = Inr [''w'', ''r1'', ''app''] \<and> take 2 [''w'', ''r1'', ''app''] = [''w'', ''r1'']
   \<and> safePath [''w'', ''r1''] ''../r2'' = Inl ''Path escapes workspace: ../r2''"
proof -
  have p: "safePath [''w'', ''r1''] ''src/../app'' = Inr [''w'', ''r1'', ''app'']" by code_simp
  have q: "safePath [''w'', ''r1''] ''../r2'' = Inl ''Path escapes workspace: ../r2''" by code_simp
  from safe_path_confined [OF p] p q show ?thesis by simp
qed

theorem redact_hides_witness: "\<not> includes_str ''s3cret'' (redact ''token=s3cret!'' [(''T'', ''s3cret'')])"
  by (rule redact_hides [of "''T''"]) simp_all

end
