(* ===== verification/ProcessOutput.thy ===== *)
theory ProcessOutput
  imports Prelude
begin

text \<open>
  The output capture of \<open>apps/builder/src/process.ts\<close>. A text is its list of Unicode code points; the streaming decoder and the process
  are outside: the two streams deliver decoded chunks in any order. Proved: however much a process prints, and in whatever
  pieces, the captured text stays within the limit, the log gets at most that many lines and one notice, and the partial line
  kept between two chunks stays small.
\<close>

type_synonym utext = "nat list"

definition utf8_length :: "nat \<Rightarrow> nat" where
  "utf8_length c = (if c < 0x80 then 1 else if c < 0x800 then 2 else if c < 0x10000 then 3 else 4)"

definition byteLength :: "utext \<Rightarrow> nat" where
  "byteLength t = sum_list (map utf8_length t)"

definition MAX_PENDING_PROCESS_LINE_BYTES :: nat where
  "MAX_PENDING_PROCESS_LINE_BYTES = 64 * 1024"

datatype out_stream = Stdout | Stderr

text \<open>\<open>ca_lines\<close> are the callback's calls; \<open>None\<close> is the truncation notice.\<close>

record capture =
  ca_stdout :: "utext list"
  ca_stderr :: "utext list"
  ca_pending_stdout :: utext
  ca_pending_stderr :: utext
  ca_remaining :: nat
  ca_reported :: bool
  ca_lines :: "(out_stream \<times> utext option) list"

definition new_capture :: "nat \<Rightarrow> capture" where
  "new_capture outputLimit = \<lparr>ca_stdout = [], ca_stderr = [], ca_pending_stdout = [], ca_pending_stderr = [],
     ca_remaining = outputLimit, ca_reported = False, ca_lines = []\<rparr>"

definition reportTruncation :: "out_stream \<Rightarrow> capture \<Rightarrow> capture" where
  "reportTruncation st s = (if ca_reported s then s else s\<lparr>ca_reported := True, ca_lines := ca_lines s @ [(st, None)]\<rparr>)"

text \<open>The complete characters in the first \<open>n\<close> bytes.\<close>

fun fit_bytes :: "nat \<Rightarrow> utext \<Rightarrow> utext" where
  "fit_bytes n [] = []"
| "fit_bytes n (c # cs) = (if utf8_length c \<le> n then c # fit_bytes (n - utf8_length c) cs else [])"

definition push_line :: "out_stream \<Rightarrow> utext \<Rightarrow> capture \<Rightarrow> capture" where
  "push_line st l s =
     (case st of Stdout \<Rightarrow> s\<lparr>ca_stdout := ca_stdout s @ [l], ca_lines := ca_lines s @ [(st, Some l)]\<rparr>
      | Stderr \<Rightarrow> s\<lparr>ca_stderr := ca_stderr s @ [l], ca_lines := ca_lines s @ [(st, Some l)]\<rparr>)"

definition retain :: "out_stream \<Rightarrow> utext \<Rightarrow> capture \<Rightarrow> capture" where
  "retain st l s =
     (if ca_remaining s = 0 then reportTruncation st s
      else if byteLength l + 1 \<le> ca_remaining s
      then push_line st l (s\<lparr>ca_remaining := ca_remaining s - (byteLength l + 1)\<rparr>)
      else (let kept = fit_bytes (ca_remaining s - 1) l; s1 = (if kept = [] then s else push_line st kept s) in
            reportTruncation st (s1\<lparr>ca_remaining := 0\<rparr>)))"

definition pending_of :: "out_stream \<Rightarrow> capture \<Rightarrow> utext" where
  "pending_of st s = (case st of Stdout \<Rightarrow> ca_pending_stdout s | Stderr \<Rightarrow> ca_pending_stderr s)"

definition set_pending :: "out_stream \<Rightarrow> utext \<Rightarrow> capture \<Rightarrow> capture" where
  "set_pending st p s = (case st of Stdout \<Rightarrow> s\<lparr>ca_pending_stdout := p\<rparr> | Stderr \<Rightarrow> s\<lparr>ca_pending_stderr := p\<rparr>)"

text \<open>\<open>split(/\r?\n/)\<close>, the last piece apart.\<close>

fun crlf_lines :: "utext \<Rightarrow> utext \<Rightarrow> utext list \<times> utext" where
  "crlf_lines acc [] = ([], acc)"
| "crlf_lines acc (c # cs) =
     (if c = 10 then (let (ls, p) = crlf_lines [] cs in ((if acc \<noteq> [] \<and> last acc = 13 then butlast acc else acc) # ls, p))
      else crlf_lines (acc @ [c]) cs)"

definition consume_chunk :: "out_stream \<Rightarrow> utext \<Rightarrow> capture \<Rightarrow> capture" where
  "consume_chunk st chunk s =
     (if ca_remaining s = 0 then set_pending st [] (reportTruncation st s)
      else (let (ls, p) = crlf_lines [] (pending_of st s @ chunk); s1 = fold (retain st) ls s in
            if MAX_PENDING_PROCESS_LINE_BYTES \<le> byteLength p then set_pending st [] (retain st p s1)
            else set_pending st p s1))"

definition end_stream :: "out_stream \<Rightarrow> capture \<Rightarrow> capture" where
  "end_stream st s = (if pending_of st s \<noteq> [] then retain st (pending_of st s) s else s)"

fun join_text :: "utext list \<Rightarrow> utext" where
  "join_text [] = []"
| "join_text [l] = l"
| "join_text (l # m # ls) = l @ 10 # join_text (m # ls)"

text \<open>\<open>None\<close>: \<open>RangeError\<close>. The chunks in their order of arrival, then the ends of both streams: standard output and error.\<close>

definition run_capture :: "nat \<Rightarrow> (out_stream \<times> utext) list \<Rightarrow> capture" where
  "run_capture outputLimit chunks = fold (\<lambda>(st, chunk). consume_chunk st chunk) chunks (new_capture outputLimit)"

definition process_output :: "nat \<Rightarrow> (out_stream \<times> utext) list \<Rightarrow> (utext \<times> utext) option" where
  "process_output outputLimit chunks =
     (if outputLimit < 1 then None
      else (let s = end_stream Stderr (end_stream Stdout (run_capture outputLimit chunks)) in
            Some (join_text (ca_stdout s), join_text (ca_stderr s))))"

subsection \<open>Bounds\<close>

definition charged :: "utext list \<Rightarrow> nat" where
  "charged ls = sum_list (map (\<lambda>l. byteLength l + 1) ls)"

lemma charged_append [simp]: "charged (xs @ ys) = charged xs + charged ys" "charged [l] = byteLength l + 1" "charged [] = 0"
  by (simp_all add: charged_def)

lemma byteLength_simps [simp]: "byteLength [] = 0" "byteLength (c # cs) = utf8_length c + byteLength cs"
  "byteLength (xs @ ys) = byteLength xs + byteLength ys"
  by (simp_all add: byteLength_def)

lemma join_text_bytes: "byteLength (join_text ls) \<le> charged ls"
  by (induction ls rule: join_text.induct) (auto simp: charged_def utf8_length_def)

lemma fit_bytes_bound: "byteLength (fit_bytes n t) \<le> n"
  by (induction n t rule: fit_bytes.induct) auto

definition capture_inv :: "nat \<Rightarrow> capture \<Rightarrow> bool" where
  "capture_inv limit s \<longleftrightarrow> charged (ca_stdout s) + charged (ca_stderr s) + ca_remaining s \<le> limit
     \<and> length (ca_lines s) + ca_remaining s \<le> limit + (if ca_reported s then 1 else 0)
     \<and> byteLength (ca_pending_stdout s) < MAX_PENDING_PROCESS_LINE_BYTES
     \<and> byteLength (ca_pending_stderr s) < MAX_PENDING_PROCESS_LINE_BYTES"

lemma report_inv: "capture_inv limit s \<Longrightarrow> capture_inv limit (reportTruncation st s)"
  by (auto simp: capture_inv_def reportTruncation_def)

lemma push_inv:
  "capture_inv limit (s\<lparr>ca_remaining := r + byteLength l + 1\<rparr>) \<Longrightarrow> capture_inv limit (push_line st l (s\<lparr>ca_remaining := r\<rparr>))"
  by (cases st) (auto simp: capture_inv_def push_line_def)

lemma retain_inv:
  assumes "capture_inv limit s"
  shows "capture_inv limit (retain st l s)"
proof -
  consider "ca_remaining s = 0" | "ca_remaining s \<noteq> 0" "byteLength l + 1 \<le> ca_remaining s" | "ca_remaining s \<noteq> 0" "\<not> byteLength l + 1 \<le> ca_remaining s"
    by blast
  then show ?thesis
  proof cases
    case 1
    then show ?thesis by (simp add: retain_def report_inv assms)
  next
    case 2
    with assms push_inv [of limit "ca_remaining s - (byteLength l + 1)" l s st] show ?thesis by (simp add: retain_def)
  next
    case 3
    let ?k = "fit_bytes (ca_remaining s - 1) l"
    have k: "byteLength ?k + 1 \<le> ca_remaining s" using fit_bytes_bound [of "ca_remaining s - 1" l] 3(1) by linarith
    have "capture_inv limit ((if ?k = [] then s else push_line st ?k s)\<lparr>ca_remaining := 0\<rparr>)"
      using assms k by (cases st) (auto simp: capture_inv_def push_line_def)
    from report_inv [OF this] 3 show ?thesis unfolding retain_def Let_def by (simp del: One_nat_def)
  qed
qed

lemma retain_pending [simp]: "ca_pending_stdout (retain st l s) = ca_pending_stdout s" "ca_pending_stderr (retain st l s) = ca_pending_stderr s"
  by (cases st; simp add: retain_def reportTruncation_def push_line_def Let_def)+

lemma retains_inv: "capture_inv limit s \<Longrightarrow> capture_inv limit (fold (retain st) ls s)"
  by (induction ls arbitrary: s) (simp_all add: retain_inv)

lemma set_pending_inv:
  "capture_inv limit s \<Longrightarrow> byteLength p < MAX_PENDING_PROCESS_LINE_BYTES \<Longrightarrow> capture_inv limit (set_pending st p s)"
  by (cases st) (simp_all add: capture_inv_def set_pending_def)

lemma consume_inv:
  assumes "capture_inv limit s"
  shows "capture_inv limit (consume_chunk st chunk s)"
proof -
  have zero: "byteLength [] < MAX_PENDING_PROCESS_LINE_BYTES" by (simp add: MAX_PENDING_PROCESS_LINE_BYTES_def)
  obtain ls p where "crlf_lines [] (pending_of st s @ chunk) = (ls, p)" by fastforce
  then show ?thesis
    using assms zero by (auto simp: consume_chunk_def Let_def intro!: set_pending_inv report_inv retain_inv retains_inv)
qed

lemma run_capture_inv: "1 \<le> limit \<Longrightarrow> capture_inv limit (run_capture limit chunks)"
proof -
  assume "1 \<le> limit"
  then have "capture_inv limit (new_capture limit)"
    by (simp add: capture_inv_def new_capture_def MAX_PENDING_PROCESS_LINE_BYTES_def)
  then have "capture_inv limit (fold (\<lambda>(st, chunk). consume_chunk st chunk) chunks s)" if "capture_inv limit s" for s
    using that by (induction chunks arbitrary: s) (auto intro: consume_inv)
  with \<open>capture_inv limit (new_capture limit)\<close> show ?thesis by (simp add: run_capture_def)
qed

lemma end_inv: "capture_inv limit s \<Longrightarrow> capture_inv limit (end_stream st s)"
  by (simp add: end_stream_def retain_inv)

text \<open>A build command cannot flood the builder. However much it prints to its two streams, in whatever pieces and order, the captured
  standard output and error together have at most as many bytes as the limit; at every moment at most that many lines and
  one truncation notice have been logged, and each partial line held back is below 64 KiB.\<close>

theorem process_output_bounded:
  assumes "process_output limit chunks = Some (out, err)"
  shows "byteLength out + byteLength err \<le> limit \<and> length (ca_lines (run_capture limit chunks)) \<le> limit + 1
    \<and> byteLength (pending_of st (run_capture limit chunks)) < 65536"
proof -
  let ?s = "end_stream Stderr (end_stream Stdout (run_capture limit chunks))"
  from assms have lim: "1 \<le> limit" and out: "out = join_text (ca_stdout ?s)" "err = join_text (ca_stderr ?s)"
    by (auto simp: process_output_def Let_def split: if_splits)
  from run_capture_inv [OF lim] have r: "capture_inv limit (run_capture limit chunks)" .
  then have "charged (ca_stdout ?s) + charged (ca_stderr ?s) \<le> limit"
    using end_inv [of limit _ Stderr] end_inv [of limit _ Stdout] by (fastforce simp: capture_inv_def)
  with join_text_bytes [of "ca_stdout ?s"] join_text_bytes [of "ca_stderr ?s"] have "byteLength out + byteLength err \<le> limit"
    unfolding out by linarith
  with r show ?thesis
    by (cases st) (auto simp: capture_inv_def pending_of_def MAX_PENDING_PROCESS_LINE_BYTES_def split: if_splits)
qed

lemma process_output_bounded_witness:
  "process_output 6 [(Stdout, [97, 97, 13]), (Stderr, [98]), (Stdout, [10, 99, 8364])] = Some ([97, 97, 10, 99], [])
   \<and> byteLength [97, 97, 10, 99] + byteLength [] \<le> 6"
proof -
  have p: "process_output 6 [(Stdout, [97, 97, 13]), (Stderr, [98]), (Stdout, [10, 99, 8364])] = Some ([97, 97, 10, 99], [])"
    by (simp add: process_output_def run_capture_def new_capture_def consume_chunk_def end_stream_def retain_def push_line_def
        pending_of_def set_pending_def reportTruncation_def utf8_length_def MAX_PENDING_PROCESS_LINE_BYTES_def Let_def)
  from process_output_bounded [OF p] p show ?thesis by simp
qed

end
