(* ===== verification/FirecrackerAgent.thy ===== *)
theory FirecrackerAgent
  imports StepRun
begin

text \<open>
  The Firecracker host agent, \<open>apps/builder/src/agent.ts\<close>: the request schema, the choice of resources and domain, the
  reservation of guest addresses, and the files it keeps, deployment states by id and Traefik routes by instance name. The
  host's commands (skopeo, umoci, mkfs, ip, firecracker) and the settings file are arguments: \<open>Inl\<close> is their error, \<open>Inr\<close> the
  process id of the virtual machine. The step relation \<open>host_step\<close> interleaves deployments, ends of machines and deletions;
  reservations exclude each other (\<open>allocationTail\<close>). A random part of an id is \<open>fh_uuid\<close>.
\<close>

record fc_resources =
  fr_vcpuCount :: int
  fr_memoryMiB :: int
  fr_rootfsSizeMiB :: int

record hosting_settings =
  hs_default :: fc_resources
  hs_defaultServicePort :: int
  hs_templates :: "(string \<times> fc_resources) list"

definition resourcesSchema :: "json \<Rightarrow> fc_resources option" where
  "resourcesSchema j =
     Option.bind (z_object j) (\<lambda>j.
     Option.bind (z_req (z_int (between 1 32)) ''vcpuCount'' j) (\<lambda>c.
     Option.bind (z_req (z_int (between 128 65536)) ''memoryMiB'' j) (\<lambda>m.
     Option.bind (z_req (z_int (between 256 262144)) ''rootfsSizeMiB'' j) (\<lambda>r.
       Some \<lparr>fr_vcpuCount = c, fr_memoryMiB = m, fr_rootfsSizeMiB = r\<rparr>))))"

definition settingsSchema :: "json \<Rightarrow> hosting_settings option" where
  "settingsSchema j =
     Option.bind (z_object j) (\<lambda>j.
     Option.bind (z_req resourcesSchema ''defaultResources'' j) (\<lambda>d.
     Option.bind (z_req (z_int (between 1 65535)) ''defaultServicePort'' j) (\<lambda>p.
     Option.bind (z_default (z_record resourcesSchema) [] ''templates'' j) (\<lambda>t.
       Some \<lparr>hs_default = d, hs_defaultServicePort = p, hs_templates = t\<rparr>))))"

definition fc_request_schema :: "json \<Rightarrow> deploy_request option" where
  "fc_request_schema j =
     Option.bind (z_object j) (\<lambda>j.
     Option.bind (z_req (z_sized 3 512) ''image'' j) (\<lambda>img.
     Option.bind (z_req (z_string_where digest_ok) ''digest'' j) (\<lambda>dig.
     Option.bind (z_req (z_string_where instance_name_ok) ''instanceName'' j) (\<lambda>inm.
     Option.bind (z_req (z_enum deploy_modes) ''mode'' j) (\<lambda>mode.
     Option.bind (z_opt (z_string_where instance_name_ok) ''resourceTemplate'' j) (\<lambda>rt.
     Option.bind (z_opt z_string ''domain'' j) (\<lambda>dom.
     Option.bind (z_opt (z_int (between 1 32)) ''vcpuCount'' j) (\<lambda>cpu.
     Option.bind (z_opt (z_int (between 128 65536)) ''memoryMiB'' j) (\<lambda>mem.
     Option.bind (z_opt (z_int (between 256 262144)) ''rootfsSizeMiB'' j) (\<lambda>fs.
     Option.bind (z_opt (z_int (between 1 65535)) ''servicePort'' j) (\<lambda>port.
     Option.bind (z_default z_record_string [] ''environment'' j) (\<lambda>env.
     Option.bind (z_default (\<lambda>c. Option.bind (z_object c) (\<lambda>c.
         Option.bind (z_opt z_string ''username'' c) (\<lambda>u. Option.bind (z_opt z_string ''password'' c) (\<lambda>p. Some (u, p)))))
         (None, None) ''registryCredentials'' j) (\<lambda>creds.
       Some \<lparr>dr_image = img, dr_digest = dig, dr_instanceName = inm, dr_mode = mode, dr_resourceTemplate = rt, dr_domain = dom,
             dr_vcpuCount = cpu, dr_memoryMiB = mem, dr_rootfsSizeMiB = fs, dr_servicePort = port, dr_environment = env,
             dr_username = fst creds, dr_password = snd creds\<rparr>)))))))))))))"

record hosting =
  ho_domain :: string
  ho_servicePort :: int
  ho_resources :: fc_resources

definition resolveHosting :: "string \<Rightarrow> deploy_request \<Rightarrow> hosting_settings \<Rightarrow> string + hosting" where
  "resolveHosting baseDomain inp settings =
     (case dr_mode inp of
        Manual \<Rightarrow>
          (case (dr_servicePort inp, dr_vcpuCount inp, dr_memoryMiB inp, dr_rootfsSizeMiB inp) of
             (Some port, Some cpu, Some mem, Some fs) \<Rightarrow>
               if \<not> truthy (dr_domain inp) then Inl ''Manual deployment requires domain, port, and all resource values''
               else if \<not> ends_with (CHR ''.'' # baseDomain) (the (dr_domain inp))
               then Inl ''Manual domain must be below the configured Traefik base domain''
               else Inr \<lparr>ho_domain = the (dr_domain inp), ho_servicePort = port,
                      ho_resources = \<lparr>fr_vcpuCount = cpu, fr_memoryMiB = mem, fr_rootfsSizeMiB = fs\<rparr>\<rparr>
           | _ \<Rightarrow> Inl ''Manual deployment requires domain, port, and all resource values'')
      | Automatic \<Rightarrow>
          (case (if truthy (dr_resourceTemplate inp) then map_of (hs_templates settings) (the (dr_resourceTemplate inp))
                 else Some (hs_default settings)) of
             None \<Rightarrow> Inl (''Unknown resource template: '' @ the (dr_resourceTemplate inp))
           | Some r \<Rightarrow> Inr \<lparr>ho_domain = dr_instanceName inp @ ''.'' @ baseDomain,
               ho_servicePort = or_else (dr_servicePort inp) (hs_defaultServicePort settings), ho_resources = r\<rparr>))"

text \<open>\<open>repositoryOf\<close>: without digest and without the tag after the last slash.\<close>

definition last_index :: "char \<Rightarrow> string \<Rightarrow> int" where
  "last_index c v = (if c \<in> set v then int (length v) - 1 - int (length (takeWhile (\<lambda>x. x \<noteq> c) (rev v))) else - 1)"

definition repositoryOf :: "string \<Rightarrow> string" where
  "repositoryOf v =
     (if CHR ''@'' \<in> set v then takeWhile (\<lambda>c. c \<noteq> CHR ''@'') v
      else if last_index CHR ''/'' v < last_index CHR '':'' v then take (nat (last_index CHR '':'' v)) v else v)"

subsection \<open>Deployments on the host\<close>

record fc_state =
  fs_id :: string
  fs_name :: string
  fs_domain :: string
  fs_ip :: string
  fs_port :: int
  fs_pid :: "int option"
  fs_tap :: "string option"

text \<open>State files by id; route files by instance name, each with the state it was written from.\<close>

record fc_host =
  fh_uuid :: nat
  fh_states :: "(string \<times> fc_state) list"
  fh_routes :: "(string \<times> fc_state) list"

record fc_config =
  fc_uuid :: "nat \<Rightarrow> string"
  fc_registries :: "string list"
  fc_baseDomain :: string
  fc_ipPrefix :: string

definition writeDeploymentState :: "fc_state \<Rightarrow> fc_host \<Rightarrow> fc_host" where
  "writeDeploymentState st h = h\<lparr>fh_states := AList.update (fs_id st) st (fh_states h)\<rparr>"

definition removeDeploymentState :: "string \<Rightarrow> fc_host \<Rightarrow> fc_host" where
  "removeDeploymentState i h = h\<lparr>fh_states := AList.delete i (fh_states h)\<rparr>"

definition writeTraefikRoute :: "fc_state \<Rightarrow> fc_host \<Rightarrow> fc_host" where
  "writeTraefikRoute st h = h\<lparr>fh_routes := AList.update (fs_name st) st (fh_routes h)\<rparr>"

definition guest_ip :: "fc_config \<Rightarrow> nat \<Rightarrow> string" where
  "guest_ip c host = fc_ipPrefix c @ ''.'' @ str_nat host"

definition reserveGuestIp :: "fc_config \<Rightarrow> fc_state \<Rightarrow> fc_host \<Rightarrow> (string + string) \<times> fc_host" where
  "reserveGuestIp c st h =
     (case List.find (\<lambda>host. guest_ip c host \<notin> (fs_ip \<circ> snd) ` set (fh_states h)) [2..<255] of
        None \<Rightarrow> (Inl ''Firecracker guest IP pool is exhausted'', h)
      | Some host \<Rightarrow> (Inr (guest_ip c host), writeDeploymentState (st\<lparr>fs_ip := guest_ip c host\<rparr>) h))"

text \<open>The first half of \<open>deploy\<close>: everything up to the reservation.\<close>

definition fresh_id :: "fc_config \<Rightarrow> deploy_request \<Rightarrow> fc_host \<Rightarrow> string" where
  "fresh_id c inp h = dr_instanceName inp @ ''-'' @ fc_uuid c (fh_uuid h)"

definition fresh_state :: "fc_config \<Rightarrow> deploy_request \<Rightarrow> hosting \<Rightarrow> fc_host \<Rightarrow> fc_state" where
  "fresh_state c inp ho h = \<lparr>fs_id = fresh_id c inp h, fs_name = dr_instanceName inp, fs_domain = ho_domain ho, fs_ip = [],
     fs_port = ho_servicePort ho, fs_pid = None, fs_tap = None\<rparr>"

definition begin_deploy :: "fc_config \<Rightarrow> hosting_settings option \<Rightarrow> deploy_request \<Rightarrow> fc_host \<Rightarrow> (string + fc_state) \<times> fc_host" where
  "begin_deploy c settings inp h =
     (if hd (split_on CHR ''/'' (dr_image inp)) \<notin> set (fc_registries c) then (Inl ''Registry is not allowed on this host'', h)
      else if truthy (dr_username inp) \<noteq> truthy (dr_password inp) then (Inl ''Incomplete registry credentials'', h)
      else (case settings of None \<Rightarrow> (Inl ''Unable to load hosting settings'', h) | Some hs \<Rightarrow>
           (case resolveHosting (fc_baseDomain c) inp hs of Inl e \<Rightarrow> (Inl e, h) | Inr ho \<Rightarrow>
             (let st = fresh_state c inp ho h; (ip, h1) = reserveGuestIp c st (h\<lparr>fh_uuid := Suc (fh_uuid h)\<rparr>) in
              (case ip of Inl e \<Rightarrow> Inl e | Inr a \<Rightarrow> Inr (st\<lparr>fs_ip := a\<rparr>), h1)))))"

text \<open>The second half, after the commands of the host.\<close>

definition end_deploy :: "fc_state \<Rightarrow> string + int \<times> string \<Rightarrow> fc_host \<Rightarrow> (string + string) \<times> fc_host" where
  "end_deploy st started h =
     (case started of
        Inl e \<Rightarrow> (Inl e, removeDeploymentState (fs_id st) h)
      | Inr (pid, tap) \<Rightarrow>
          (let st1 = st\<lparr>fs_pid := Some pid, fs_tap := Some tap\<rparr> in
           (Inr (''https://'' @ fs_domain st), writeTraefikRoute st1 (writeDeploymentState st1 h))))"

definition cleanupDeployment :: "fc_state \<Rightarrow> fc_host \<Rightarrow> fc_host" where
  "cleanupDeployment st h =
     (case map_of (fh_states h) (fs_id st) of
        None \<Rightarrow> h
      | Some current \<Rightarrow>
          if fs_id current \<noteq> fs_id st then h
          else (let h1 = removeDeploymentState (fs_id st) h in
                case map_of (fh_routes h1) (fs_name st) of
                  None \<Rightarrow> h1
                | Some r \<Rightarrow> if fs_id r = fs_id st then h1\<lparr>fh_routes := AList.delete (fs_name st) (fh_routes h1)\<rparr> else h1))"

definition delete_deployment :: "string \<Rightarrow> fc_host \<Rightarrow> int \<times> fc_host" where
  "delete_deployment i h =
     (case List.find (\<lambda>st. fs_id st = i) (map snd (fh_states h)) of
        None \<Rightarrow> (404, h)
      | Some st \<Rightarrow> (200, cleanupDeployment st h))"

text \<open>Deployments start, get on, end and are deleted; a deployment that gets on still has its reservation; ids
  are fresh.\<close>

inductive host_step :: "fc_config \<Rightarrow> fc_host \<Rightarrow> fc_host \<Rightarrow> bool" for c where
  begins: "fresh_id c inp h \<notin> fst ` set (fh_states h) \<Longrightarrow> host_step c h (snd (begin_deploy c settings inp h))"
| ends: "map_of (fh_states h) (fs_id st) = Some st \<Longrightarrow> host_step c h (snd (end_deploy st started h))"
| exits: "host_step c h (cleanupDeployment st h)"
| deletes: "host_step c h (snd (delete_deployment i h))"

subsection \<open>Addresses are unique\<close>

definition host_inv :: "fc_config \<Rightarrow> fc_host \<Rightarrow> bool" where
  "host_inv c h \<longleftrightarrow> distinct (map fst (fh_states h)) \<and> distinct (map (fs_ip \<circ> snd) (fh_states h))
     \<and> (\<forall>(i, st) \<in> set (fh_states h). fs_id st = i \<and> fs_ip st \<in> guest_ip c ` {2..<255})"

lemma update_present:
  "map_of al k = Some v \<Longrightarrow> distinct (map fst al) \<Longrightarrow> map g (AList.update k v' al) = map (\<lambda>p. g (if fst p = k then (k, v') else p)) al"
proof (induction al)
  case (Cons p al)
  show ?case
  proof (cases "fst p = k")
    case True
    then have "map (\<lambda>q. g (if fst q = k then (k, v') else q)) al = map g al"
      using Cons.prems(2) by (intro map_cong) (auto simp: rev_image_eqI)
    with True show ?thesis by (cases p) simp
  next
    case False
    with Cons show ?thesis by (cases p) auto
  qed
qed simp

lemma set_update_sub: "set (AList.update k v al) \<subseteq> insert (k, v) (set al)"
  by (induction al) auto

lemma delete_filter: "AList.delete k al = filter (\<lambda>p. fst p \<noteq> k) al"
  by (induction al) auto

lemma remove_inv: "host_inv c h \<Longrightarrow> host_inv c (removeDeploymentState i h)"
  by (auto simp: host_inv_def removeDeploymentState_def delete_filter distinct_map_filter)

lemma cleanup_inv: "host_inv c h \<Longrightarrow> host_inv c (cleanupDeployment st h)"
proof -
  assume inv: "host_inv c h"
  have r: "host_inv c (h\<lparr>fh_routes := rs\<rparr>) = host_inv c h" for h rs by (simp add: host_inv_def)
  from inv remove_inv [OF inv, of "fs_id st"] show ?thesis
    by (auto simp: cleanupDeployment_def Let_def r split: option.split)
qed

lemma write_new_inv:
  assumes "host_inv c h" and "fs_id st \<notin> fst ` set (fh_states h)" and "fs_ip st \<notin> (fs_ip \<circ> snd) ` set (fh_states h)"
    and "fs_ip st \<in> guest_ip c ` {2..<255}"
  shows "host_inv c (writeDeploymentState st h)"
proof -
  have "AList.update (fs_id st) st al = al @ [(fs_id st, st)]" if "fs_id st \<notin> fst ` set al" for al
    using that by (induction al) auto
  with assms show ?thesis by (auto simp: host_inv_def writeDeploymentState_def)
qed

lemma write_same_inv:
  assumes "host_inv c h" and "map_of (fh_states h) (fs_id st) = Some st" and "fs_id st1 = fs_id st" and "fs_ip st1 = fs_ip st"
  shows "host_inv c (writeDeploymentState st1 h)"
proof -
  have d: "distinct (map fst (fh_states h))" using assms(1) by (simp add: host_inv_def)
  have eq: "(fs_ip \<circ> snd) (if fst p = fs_id st then (fs_id st, st1) else p) = (fs_ip \<circ> snd) p" if "p \<in> set (fh_states h)" for p
  proof (cases "fst p = fs_id st")
    case True
    with that d assms(2) have "snd p = st" by (metis eq_key_imp_eq_value map_of_SomeD prod.collapse)
    with assms(4) True show ?thesis by simp
  qed simp
  have "map (fs_ip \<circ> snd) (AList.update (fs_id st) st1 (fh_states h)) = map (fs_ip \<circ> snd) (fh_states h)"
    unfolding update_present [OF assms(2) d] using eq by (intro map_cong) simp_all
  moreover have "fs_id q = i \<and> fs_ip q \<in> guest_ip c ` {2..<255}" if "(i, q) \<in> set (AList.update (fs_id st) st1 (fh_states h))" for i q
  proof -
    have old: "fs_id q = i \<and> fs_ip q \<in> guest_ip c ` {2..<255}" if "(i, q) \<in> set (fh_states h)" for i q
      using assms(1) that by (auto simp: host_inv_def)
    from subsetD [OF set_update_sub that] show ?thesis
      using old old [OF map_of_SomeD [OF assms(2)]] assms(3,4) by auto
  qed
  ultimately show ?thesis
    using assms(1,3) d by (auto simp: host_inv_def writeDeploymentState_def distinct_update)
qed

lemma reserve_inv:
  assumes "host_inv c h" and "fs_id st \<notin> fst ` set (fh_states h)"
  shows "host_inv c (snd (reserveGuestIp c st h))"
proof (cases "List.find (\<lambda>host. guest_ip c host \<notin> (fs_ip \<circ> snd) ` set (fh_states h)) [2..<255]")
  case (Some host)
  from find_Some_iff' [OF this] have "host \<in> {2..<255}" "guest_ip c host \<notin> (fs_ip \<circ> snd) ` set (fh_states h)" by auto
  with write_new_inv [OF assms(1), of "st\<lparr>fs_ip := guest_ip c host\<rparr>"] assms(2) Some show ?thesis by (simp add: reserveGuestIp_def)
qed (use assms in \<open>simp add: reserveGuestIp_def\<close>)

lemma begin_cases:
  "snd (begin_deploy c settings inp h) = h
   \<or> (\<exists>ho. snd (begin_deploy c settings inp h) = snd (reserveGuestIp c (fresh_state c inp ho h) (h\<lparr>fh_uuid := Suc (fh_uuid h)\<rparr>)))"
  unfolding begin_deploy_def Let_def case_prod_beta by (auto split: option.split sum.split)

lemma begin_inv:
  assumes "host_inv c h" and "fresh_id c inp h \<notin> fst ` set (fh_states h)"
  shows "host_inv c (snd (begin_deploy c settings inp h))"
proof -
  have "host_inv c (h\<lparr>fh_uuid := n\<rparr>)" for n using assms(1) by (simp add: host_inv_def)
  then have "host_inv c (snd (reserveGuestIp c (fresh_state c inp ho h) (h\<lparr>fh_uuid := Suc (fh_uuid h)\<rparr>)))" for ho
    using assms(2) by (intro reserve_inv) (simp_all add: fresh_state_def)
  with begin_cases [of c settings inp h] assms(1) show ?thesis by metis
qed

lemma host_step_inv: "host_step c h h' \<Longrightarrow> host_inv c h \<Longrightarrow> host_inv c h'"
proof (induction rule: host_step.induct)
  case (begins inp h settings)
  from begin_inv [OF begins.prems begins.hyps] show ?case .
next
  case (ends h st started)
  have r: "host_inv c (writeTraefikRoute st1 h1) = host_inv c h1" for st1 h1 by (simp add: host_inv_def writeTraefikRoute_def)
  from ends write_same_inv [OF ends.prems ends.hyps] show ?case
    by (auto simp: end_deploy_def Let_def r remove_inv split: sum.split)
next
  case (exits h st)
  then show ?case by (rule cleanup_inv)
next
  case (deletes h i)
  then show ?case by (auto simp: delete_deployment_def cleanup_inv split: option.split)
qed

text \<open>No two deployments on a Firecracker host share a guest address. However deployments begin, get on, fail, end and are deleted,
  the addresses of the state files are distinct and come from the pool; so at most 253 deployments exist at a time.\<close>

theorem guest_addresses_unique:
  assumes "(host_step c)\<^sup>*\<^sup>* \<lparr>fh_uuid = 0, fh_states = [], fh_routes = []\<rparr> h"
  shows "distinct (map (fs_ip \<circ> snd) (fh_states h)) \<and> (fs_ip \<circ> snd) ` set (fh_states h) \<subseteq> guest_ip c ` {2..<255}
    \<and> length (fh_states h) \<le> 253"
proof -
  have inv: "host_inv c h"
    using assms
  proof (induction rule: rtranclp_induct)
    case base
    show ?case by (simp add: host_inv_def)
  next
    case (step h1 h2)
    from host_step_inv [OF step.hyps(2) step.IH] show ?case .
  qed
  then have d: "distinct (map (fs_ip \<circ> snd) (fh_states h))" and sub: "(fs_ip \<circ> snd) ` set (fh_states h) \<subseteq> guest_ip c ` {2..<255}"
    by (auto simp: host_inv_def)
  have "length (fh_states h) = card ((fs_ip \<circ> snd) ` set (fh_states h))"
    using distinct_card [OF d] by simp
  also have "\<dots> \<le> card (guest_ip c ` {2..<255})" by (rule card_mono [OF _ sub]) simp
  also have "\<dots> \<le> card {2..<255::nat}" by (rule card_image_le) simp
  finally show ?thesis using d sub by simp
qed

text \<open>A new address is one that no state holds; it exists while the pool has one left.\<close>

lemma reserve_succeeds:
  assumes "\<exists>n \<in> {2..<255}. guest_ip c n \<notin> (fs_ip \<circ> snd) ` set (fh_states h)"
  shows "\<exists>ip h'. reserveGuestIp c st h = (Inr ip, h') \<and> ip \<notin> (fs_ip \<circ> snd) ` set (fh_states h)"
proof (cases "List.find (\<lambda>host. guest_ip c host \<notin> (fs_ip \<circ> snd) ` set (fh_states h)) [2..<255]")
  case None
  then have "\<forall>n \<in> set [2..<255]. guest_ip c n \<in> (fs_ip \<circ> snd) ` set (fh_states h)" unfolding find_None_iff' by blast
  with assms show ?thesis by (simp only: set_upt) blast
next
  case (Some host)
  from find_Some_iff' [OF this] Some show ?thesis by (auto simp: reserveGuestIp_def)
qed

definition sample_fc :: fc_config where
  "sample_fc = \<lparr>fc_uuid = (\<lambda>n. str_nat n), fc_registries = [''reg.io''], fc_baseDomain = ''apps.io'', fc_ipPrefix = ''10.0.0''\<rparr>"

definition sample_fc_request :: deploy_request where
  "sample_fc_request = \<lparr>dr_image = ''reg.io/a:1'', dr_digest = ''sha256:0'', dr_instanceName = ''web'', dr_mode = Automatic,
     dr_resourceTemplate = None, dr_domain = None, dr_vcpuCount = None, dr_memoryMiB = None, dr_rootfsSizeMiB = None,
     dr_servicePort = Some 80, dr_environment = [], dr_username = None, dr_password = None\<rparr>"

definition sample_settings :: hosting_settings where
  "sample_settings = \<lparr>hs_default = \<lparr>fr_vcpuCount = 1, fr_memoryMiB = 128, fr_rootfsSizeMiB = 256\<rparr>, hs_defaultServicePort = 80, hs_templates = []\<rparr>"

definition two_deployments :: fc_host where
  "two_deployments = snd (begin_deploy sample_fc (Some sample_settings) sample_fc_request
     (snd (begin_deploy sample_fc (Some sample_settings) sample_fc_request \<lparr>fh_uuid = 0, fh_states = [], fh_routes = []\<rparr>)))"

lemma two_deployments_ips: "map (fs_ip \<circ> snd) (fh_states two_deployments) = [''10.0.0.2'', ''10.0.0.3'']"
  by code_simp

theorem guest_addresses_unique_witness: "distinct (map (fs_ip \<circ> snd) (fh_states two_deployments))"
proof -
  let ?h0 = "\<lparr>fh_uuid = 0, fh_states = [], fh_routes = []\<rparr>"
  let ?h1 = "snd (begin_deploy sample_fc (Some sample_settings) sample_fc_request ?h0)"
  have "fresh_id sample_fc sample_fc_request ?h1 \<notin> fst ` set (fh_states ?h1)" by code_simp
  then have "host_step sample_fc ?h1 two_deployments" unfolding two_deployments_def by (rule host_step.begins)
  moreover have "host_step sample_fc ?h0 ?h1" by (rule host_step.begins) simp
  ultimately have "(host_step sample_fc)\<^sup>*\<^sup>* ?h0 two_deployments" by (simp add: converse_rtranclp_into_rtranclp)
  from guest_addresses_unique [OF this] show ?thesis by simp
qed

end
