(* ===== verification/RateLimit.thy ===== *)
theory RateLimit
  imports Prelude JsText
begin

text \<open>
  Rate limiting, \<open>packages/core/src/firewall/rate-limit.ts\<close>. \<open>rate_limit_store\<close> is the interface \<open>RateLimitStore\<close> as a contract: an
  increment counts hits in a fixed window that starts with the first hit after the last window ended. Proved once
  from the contract: the answers are those of the abstract counter \<open>window_counts\<close>, and no interval as long as the
  window sees more than twice the limit pass. The contract is interpreted on \<open>MemoryStore\<close> (a \<open>Map\<close>) and on \<open>PostgresStore\<close> (its
  SQL statement on a table). Times are integer milliseconds; the Redis client is an argument of \<open>RedisStore\<close>.
\<close>

subsection \<open>The contract\<close>

text \<open>The entry of a key that still counts at a time: count and end of the window.\<close>

definition live_entry :: "int \<Rightarrow> (int \<times> int) option \<Rightarrow> (int \<times> int) option" where
  "live_entry now v = (case v of None \<Rightarrow> None | Some (c, r) \<Rightarrow> if r \<le> now then None else Some (c, r))"

definition next_entry :: "int \<Rightarrow> int \<Rightarrow> (int \<times> int) option \<Rightarrow> int \<times> int" where
  "next_entry windowMs now v = (case live_entry now v of None \<Rightarrow> (1, now + windowMs) | Some (c, r) \<Rightarrow> (c + 1, r))"

text \<open>The abstract counter: the answers for hits at the times \<open>ts\<close>.\<close>

fun window_counts :: "int \<Rightarrow> (int \<times> int) option \<Rightarrow> int list \<Rightarrow> (int \<times> int) list" where
  "window_counts w v [] = []"
| "window_counts w v (t # ts) = next_entry w t v # window_counts w (Some (next_entry w t v)) ts"

text \<open>What happens to a store: hits, resets and sweeps of ended windows, each at a time.\<close>

datatype rl_event = Hit string | Reset string | Sweep

fun store_run ::
  "(string \<Rightarrow> int \<Rightarrow> int \<Rightarrow> 's \<Rightarrow> (int \<times> int) \<times> 's) \<Rightarrow> (string \<Rightarrow> 's \<Rightarrow> 's) \<Rightarrow> (int \<Rightarrow> 's \<Rightarrow> 's) \<Rightarrow> int \<Rightarrow> (int \<times> rl_event) list \<Rightarrow> 's
     \<Rightarrow> (string \<times> int \<times> int) list" where
  "store_run incr rst sweep w [] s = []"
| "store_run incr rst sweep w ((t, e) # es) s =
     (case e of
        Hit k \<Rightarrow> (let (r, s1) = incr k w t s in (k, r) # store_run incr rst sweep w es s1)
      | Reset k \<Rightarrow> store_run incr rst sweep w es (rst k s)
      | Sweep \<Rightarrow> store_run incr rst sweep w es (sweep t s))"

fun key_counts :: "int \<Rightarrow> string \<Rightarrow> (int \<times> int) option \<Rightarrow> (int \<times> rl_event) list \<Rightarrow> (int \<times> int) list" where
  "key_counts w k v [] = []"
| "key_counts w k v ((t, e) # es) =
     (case e of
        Hit j \<Rightarrow> if j = k then next_entry w t v # key_counts w k (Some (next_entry w t v)) es else key_counts w k v es
      | Reset j \<Rightarrow> key_counts w k (if j = k then None else v) es
      | Sweep \<Rightarrow> key_counts w k v es)"

definition answers :: "string \<Rightarrow> (string \<times> int \<times> int) list \<Rightarrow> (int \<times> int) list" where
  "answers k out = map snd (filter (\<lambda>a. fst a = k) out)"

lemma answers_simps [simp]: "answers k [] = []" "answers k ((j, r) # out) = (if j = k then r # answers k out else answers k out)"
  by (simp_all add: answers_def)

lemma live_next_cong: "live_entry t v = live_entry t v' \<Longrightarrow> next_entry w t v = next_entry w t v'"
  by (simp add: next_entry_def)

lemma live_later: "live_entry t v = live_entry t v' \<Longrightarrow> t \<le> t' \<Longrightarrow> live_entry t' v = live_entry t' v'"
  by (auto simp: live_entry_def split: option.splits if_splits)

lemma live_later_list: "live_entry t v = live_entry t v' \<Longrightarrow> sorted (t # map fst es) \<Longrightarrow> key_counts w k v es = key_counts w k v' es"
proof (induction es arbitrary: t v v')
  case (Cons te es)
  obtain t' e where te: "te = (t', e)" by fastforce
  with Cons.prems have l: "live_entry t' v = live_entry t' v'" and s: "sorted (t' # map fst es)" by (auto intro: live_later)
  from Cons.IH [OF l s] live_next_cong [OF l] te show ?case by (cases e) simp_all
qed simp

locale rate_limit_store =
  fixes incr :: "string \<Rightarrow> int \<Rightarrow> int \<Rightarrow> 's \<Rightarrow> (int \<times> int) \<times> 's"
    and rst :: "string \<Rightarrow> 's \<Rightarrow> 's"
    and sweep :: "int \<Rightarrow> 's \<Rightarrow> 's"
    and view :: "'s \<Rightarrow> string \<Rightarrow> (int \<times> int) option"
    and ok :: "'s \<Rightarrow> bool"
  assumes incr_answer: "fst (incr k w now s) = next_entry w now (view s k)"
    and incr_view: "view (snd (incr k w now s)) j = (if j = k then Some (next_entry w now (view s k)) else view s j)"
    and rst_view: "view (rst k s) j = (if j = k then None else view s j)"
    and sweep_view: "ok s \<Longrightarrow> live_entry now (view (sweep now s) j) = live_entry now (view s j)"
    and incr_ok: "ok s \<Longrightarrow> ok (snd (incr k w now s))"
    and rst_ok: "ok s \<Longrightarrow> ok (rst k s)"
    and sweep_ok: "ok s \<Longrightarrow> ok (sweep now s)"
begin

lemma run_counts: "ok s \<Longrightarrow> sorted (map fst es) \<Longrightarrow> answers k (store_run incr rst sweep w es s) = key_counts w k (view s k) es"
proof (induction es arbitrary: s)
  case (Cons te es)
  obtain t e where te: "te = (t, e)" by fastforce
  with Cons.prems have s: "sorted (map fst es)" "sorted (t # map fst es)" and ok: "ok s" by simp_all
  show ?case
  proof (cases e)
    case (Hit j)
    obtain r s1 where i: "incr j w t s = (r, s1)" by fastforce
    with incr_answer [of j w t s] incr_view [of j w t s k] incr_ok [OF ok, of j w t] Cons.IH [OF _ s(1), of s1] te Hit show ?thesis by auto
  next
    case (Reset j)
    with te Cons.IH [OF rst_ok [OF ok] s(1), of j] rst_view show ?thesis by simp
  next
    case Sweep
    with te Cons.IH [OF sweep_ok [OF ok] s(1), of t] live_later_list [OF sweep_view [OF ok] s(2)] show ?thesis by simp
  qed
qed simp

end

subsection \<open>\<open>MemoryStore\<close>\<close>

type_synonym memory_store = "(string \<times> int \<times> int) list"

definition mem_increment :: "string \<Rightarrow> int \<Rightarrow> int \<Rightarrow> memory_store \<Rightarrow> (int \<times> int) \<times> memory_store" where
  "mem_increment key windowMs now hits =
     (case map_of hits key of
        None \<Rightarrow> ((1, now + windowMs), AList.update key (1, now + windowMs) hits)
      | Some (count, resetAt) \<Rightarrow>
          if resetAt \<le> now then ((1, now + windowMs), AList.update key (1, now + windowMs) hits)
          else ((count + 1, resetAt), AList.update key (count + 1, resetAt) hits))"

definition mem_reset :: "string \<Rightarrow> memory_store \<Rightarrow> memory_store" where
  "mem_reset key hits = AList.delete key hits"

definition mem_cleanup :: "int \<Rightarrow> memory_store \<Rightarrow> memory_store" where
  "mem_cleanup now hits = fold (\<lambda>(key, count, resetAt) hs. if resetAt \<le> now then AList.delete key hs else hs) hits hits"

subsection \<open>\<open>PostgresStore\<close>\<close>

record counter_row =
  ct_key :: string
  ct_count :: int
  ct_reset_at :: int

type_synonym pg_store = "counter_row list"

definition bumped :: "int \<Rightarrow> int \<Rightarrow> counter_row \<Rightarrow> counter_row" where
  "bumped windowMs now r =
     r\<lparr>ct_count := (if ct_reset_at r \<le> now then 1 else ct_count r + 1),
       ct_reset_at := (if ct_reset_at r \<le> now then now + windowMs else ct_reset_at r)\<rparr>"

definition find_counter :: "string \<Rightarrow> pg_store \<Rightarrow> counter_row option" where
  "find_counter key rows = List.find (\<lambda>r. ct_key r = key) rows"

definition pg_increment :: "string \<Rightarrow> int \<Rightarrow> int \<Rightarrow> pg_store \<Rightarrow> (int \<times> int) \<times> pg_store" where
  "pg_increment key windowMs now rows =
     (case find_counter key rows of
        None \<Rightarrow> ((1, now + windowMs), rows @ [\<lparr>ct_key = key, ct_count = 1, ct_reset_at = now + windowMs\<rparr>])
      | Some r \<Rightarrow> ((ct_count (bumped windowMs now r), ct_reset_at (bumped windowMs now r)),
                 upd_where (\<lambda>r. ct_key r = key) (bumped windowMs now) rows))"

definition pg_reset :: "string \<Rightarrow> pg_store \<Rightarrow> pg_store" where
  "pg_reset key rows = del_where (\<lambda>r. ct_key r = key) rows"

definition cleanupExpired :: "int \<Rightarrow> pg_store \<Rightarrow> pg_store" where
  "cleanupExpired now rows = del_where (\<lambda>r. ct_reset_at r \<le> now) rows"

definition pg_view :: "pg_store \<Rightarrow> string \<Rightarrow> (int \<times> int) option" where
  "pg_view rows key = map_option (\<lambda>r. (ct_count r, ct_reset_at r)) (find_counter key rows)"

subsection \<open>\<open>RedisStore\<close>\<close>

record 's redis =
  rd_incr :: "string \<Rightarrow> 's \<Rightarrow> int \<times> 's"
  rd_pexpire :: "string \<Rightarrow> int \<Rightarrow> 's \<Rightarrow> 's"
  rd_pttl :: "string \<Rightarrow> 's \<Rightarrow> int"
  rd_del :: "string \<Rightarrow> 's \<Rightarrow> 's"

text \<open>\<open>alive\<close>: the process gets to its second command.\<close>

definition redis_increment :: "'s redis \<Rightarrow> string \<Rightarrow> bool \<Rightarrow> string \<Rightarrow> int \<Rightarrow> int \<Rightarrow> 's \<Rightarrow> (int \<times> int) option \<times> 's" where
  "redis_increment rd prefix alive key windowMs now s =
     (let (count, s1) = rd_incr rd (prefix @ key) s in
      if \<not> alive then (None, s1)
      else if count = 1 then (Some (count, now + windowMs), rd_pexpire rd (prefix @ key) windowMs s1)
      else (Some (count, now + max (rd_pttl rd (prefix @ key) s1) 0), s1))"

definition redis_reset :: "'s redis \<Rightarrow> string \<Rightarrow> string \<Rightarrow> 's \<Rightarrow> 's" where
  "redis_reset rd prefix key s = rd_del rd (prefix @ key) s"

subsection \<open>The limiter\<close>

record rl_request =
  rr_organizationId :: "string option"
  rr_apiKeyId :: "string option"
  rr_loginEmail :: "string option"
  rr_peer :: "string option"
  rr_realIp :: "string option"

text \<open>\<open>trusted\<close> is \<open>DEVION_TRUST_PROXY\<close>, \<open>is_ip\<close> is \<open>isIP\<close> of \<open>node:net\<close>.\<close>

definition clientIp :: "bool \<Rightarrow> (string \<Rightarrow> bool) \<Rightarrow> rl_request \<Rightarrow> string" where
  "clientIp trusted is_ip c =
     (if trusted \<and> truthy (rr_realIp c) \<and> is_ip (the (rr_realIp c)) then the (rr_realIp c)
      else (case rr_peer c of None \<Rightarrow> ''unknown'' | Some peer \<Rightarrow> if is_ip peer then peer else ''unknown''))"

definition defaultKeyGenerator :: "bool \<Rightarrow> (string \<Rightarrow> bool) \<Rightarrow> rl_request \<Rightarrow> string" where
  "defaultKeyGenerator trusted is_ip c =
     (case rr_organizationId c of None \<Rightarrow> ''no-org'' | Some o_id \<Rightarrow> o_id) @ '':'' @ clientIp trusted is_ip c"

definition apiKeyGenerator :: "bool \<Rightarrow> (string \<Rightarrow> bool) \<Rightarrow> rl_request \<Rightarrow> string" where
  "apiKeyGenerator trusted is_ip c =
     ''apikey:'' @ (case rr_apiKeyId c of None \<Rightarrow> clientIp trusted is_ip c | Some k \<Rightarrow> k)"

record limiter =
  lm_windowMs :: int
  lm_max :: int
  lm_key :: "rl_request \<Rightarrow> string"
  lm_message :: string

record limiter_reply =
  lr_passed :: bool
  lr_limit :: int
  lr_remaining :: int
  lr_reset :: int
  lr_retryAfter :: "int option"

definition ceil_div :: "int \<Rightarrow> int \<Rightarrow> int" where
  "ceil_div a b = - ((- a) div b)"

definition createRateLimiter ::
  "(string \<Rightarrow> int \<Rightarrow> int \<Rightarrow> 's \<Rightarrow> (int \<times> int) \<times> 's) \<Rightarrow> limiter \<Rightarrow> rl_request \<Rightarrow> int \<Rightarrow> 's \<Rightarrow> limiter_reply \<times> 's" where
  "createRateLimiter incr l c now s =
     (let ((count, resetAt), s1) = incr (lm_key l c) (lm_windowMs l) now s in
      (\<lparr>lr_passed = (\<not> lm_max l < count), lr_limit = lm_max l, lr_remaining = max (lm_max l - count) 0,
        lr_reset = ceil_div resetAt 1000,
        lr_retryAfter = (if lm_max l < count then Some (max (ceil_div (resetAt - now) 1000) 1) else None)\<rparr>, s1))"

definition createDevionRateLimiters :: "bool \<Rightarrow> (string \<Rightarrow> bool) \<Rightarrow> (string \<times> limiter) list" where
  "createDevionRateLimiters trusted is_ip =
     [(''global'', \<lparr>lm_windowMs = 60000, lm_max = 300, lm_key = defaultKeyGenerator trusted is_ip, lm_message = ''Too many requests''\<rparr>),
      (''auth'', \<lparr>lm_windowMs = 60000, lm_max = 20, lm_key = (\<lambda>c. ''auth:'' @ clientIp trusted is_ip c), lm_message = ''Too many requests''\<rparr>),
      (''login'', \<lparr>lm_windowMs = 15 * 60000, lm_max = 5,
         lm_key = (\<lambda>c. ''login:'' @ clientIp trusted is_ip c @ '':'' @ (case rr_loginEmail c of None \<Rightarrow> ''unknown'' | Some e \<Rightarrow> e)),
         lm_message = ''Too many failed login attempts. Try again in 15 minutes.''\<rparr>),
      (''perOrgApi'', \<lparr>lm_windowMs = 60000, lm_max = 600,
         lm_key = (\<lambda>c. ''org-api:'' @ (case rr_organizationId c of None \<Rightarrow> ''no-org'' | Some o_id \<Rightarrow> o_id)), lm_message = ''Too many requests''\<rparr>),
      (''perApiKey'', \<lparr>lm_windowMs = 60000, lm_max = 1200, lm_key = apiKeyGenerator trusted is_ip,
         lm_message = ''API key rate limit exceeded.''\<rparr>)]"

text \<open>\<open>resolveOrgContext\<close>: \<open>verify\<close> answers for a key whether it is valid, its id and its organization.\<close>

definition resolveOrgContext ::
  "(string \<Rightarrow> bool \<times> string option \<times> string option) \<Rightarrow> string option \<Rightarrow> string option \<Rightarrow> rl_request \<Rightarrow> rl_request" where
  "resolveOrgContext verify key active c =
     (case (if truthy key then verify (the key) else (False, None, None)) of
        (True, i, o_id) \<Rightarrow> c\<lparr>rr_apiKeyId := i, rr_organizationId := o_id\<rparr>
      | (False, _, _) \<Rightarrow> c\<lparr>rr_organizationId := active\<rparr>)"

subsection \<open>The stores keep the contract\<close>

lemma delete_all:
  "map_of (fold (\<lambda>(key, count, resetAt) hs. if resetAt \<le> (now::int) then AList.delete key hs else hs) es hs) j
     = (if \<exists>c r. (j, c, r) \<in> set es \<and> r \<le> now then None else map_of hs j)"
proof (induction es arbitrary: hs)
  case (Cons e es)
  obtain k c r where "e = (k, c, r)" by (metis prod_cases3)
  with Cons.IH show ?case by (auto simp: delete_conv')
qed simp

lemma counter_key: "keyed_rows ct_key (bumped w now)"
  by unfold_locales (simp add: bumped_def)

lemma find_counter_key: "find_counter k rows = Some r \<Longrightarrow> ct_key r = k"
  unfolding find_counter_def by (drule find_Some_iff') simp

lemma pg_incr_view:
  "pg_view (snd (pg_increment k w now rows)) j = (if j = k then Some (next_entry w now (pg_view rows k)) else pg_view rows j)"
proof (cases "find_counter k rows")
  case None
  then show ?thesis
    by (cases "j = k") (auto simp: pg_view_def pg_increment_def find_counter_def find_append next_entry_def live_entry_def split: option.split)
next
  case (Some r)
  then show ?thesis
    using keyed_rows.find_upd_key [OF counter_key, of k w now rows] keyed_rows.find_upd_other [OF counter_key, of j k w now rows]
    by (auto simp: pg_view_def pg_increment_def find_counter_def next_entry_def live_entry_def bumped_def)
qed

lemma find_del: "List.find P (del_where Q rows) = List.find (\<lambda>r. P r \<and> \<not> Q r) rows"
  by (induction rows) (auto simp: del_where_def)

lemma find_absent: "k \<notin> key ` set rows \<Longrightarrow> List.find (\<lambda>r. key r = k \<and> Q r) rows = None"
  by (induction rows) auto

lemma find_guarded:
  "distinct (map key rows) \<Longrightarrow> List.find (\<lambda>r. key r = k \<and> Q r) rows
     = (case List.find (\<lambda>r. key r = k) rows of None \<Rightarrow> None | Some r \<Rightarrow> if Q r then Some r else None)"
  by (induction rows) (auto simp: find_absent split: option.split)

definition mem_ok :: "memory_store \<Rightarrow> bool" where
  "mem_ok hits \<longleftrightarrow> distinct (map fst hits)"

definition pg_ok :: "pg_store \<Rightarrow> bool" where
  "pg_ok rows \<longleftrightarrow> distinct (map ct_key rows)"

interpretation memory: rate_limit_store mem_increment mem_reset mem_cleanup map_of mem_ok
proof unfold_locales
  fix k j :: string and w now :: int and s :: memory_store
  show "fst (mem_increment k w now s) = next_entry w now (map_of s k)"
    by (auto simp: mem_increment_def next_entry_def live_entry_def split: option.split)
  show "map_of (snd (mem_increment k w now s)) j = (if j = k then Some (next_entry w now (map_of s k)) else map_of s j)"
    by (auto simp: mem_increment_def next_entry_def live_entry_def update_conv' split: option.split)
  show "map_of (mem_reset k s) j = (if j = k then None else map_of s j)"
    by (simp add: mem_reset_def delete_conv')
  show "mem_ok (snd (mem_increment k w now s))" if "mem_ok s"
    using that by (auto simp: mem_increment_def mem_ok_def distinct_update split: option.split)
  show "mem_ok (mem_reset k s)" if "mem_ok s"
    using that by (simp add: mem_reset_def mem_ok_def distinct_delete)
  have "mem_ok hs \<Longrightarrow> mem_ok (fold (\<lambda>(key, count, resetAt) hs. if resetAt \<le> now then AList.delete key hs else hs) es hs)"
    for es :: memory_store and hs :: memory_store
    by (induction es arbitrary: hs) (auto simp: mem_ok_def distinct_delete)
  then show "mem_ok (mem_cleanup now s)" if "mem_ok s" using that by (simp add: mem_cleanup_def)
  show "live_entry now (map_of (mem_cleanup now s) j) = live_entry now (map_of s j)" if "mem_ok s"
  proof -
    have "(\<exists>c r. (j, c, r) \<in> set s \<and> r \<le> now) \<longleftrightarrow> (\<exists>c r. map_of s j = Some (c, r) \<and> r \<le> now)"
      using that by (auto simp: mem_ok_def dest: map_of_SomeD)
    then show ?thesis by (auto simp: mem_cleanup_def delete_all live_entry_def split: option.split)
  qed
qed

interpretation postgres: rate_limit_store pg_increment pg_reset cleanupExpired pg_view pg_ok
proof unfold_locales
  fix k j :: string and w now :: int and s :: pg_store
  show "fst (pg_increment k w now s) = next_entry w now (pg_view s k)"
    by (auto simp: pg_increment_def next_entry_def live_entry_def pg_view_def bumped_def split: option.split)
  show "pg_view (snd (pg_increment k w now s)) j = (if j = k then Some (next_entry w now (pg_view s k)) else pg_view s j)"
    by (rule pg_incr_view)
  show "pg_view (pg_reset k s) j = (if j = k then None else pg_view s j)"
  proof (cases "j = k")
    case True
    then show ?thesis by (auto simp: pg_view_def find_counter_def pg_reset_def find_None_iff')
  next
    case False
    then have "(\<lambda>r. ct_key r = j \<and> ct_key r \<noteq> k) = (\<lambda>r. ct_key r = j)" by auto
    then have "List.find (\<lambda>r. ct_key r = j) (del_where (\<lambda>r. ct_key r = k) s) = List.find (\<lambda>r. ct_key r = j) s"
      unfolding find_del by (rule arg_cong [of _ _ "\<lambda>P. List.find P s"])
    with False show ?thesis by (simp add: pg_view_def find_counter_def pg_reset_def)
  qed
  show "live_entry now (pg_view (cleanupExpired now s) j) = live_entry now (pg_view s j)" if "pg_ok s"
    using that
    by (auto simp: pg_view_def find_counter_def cleanupExpired_def find_del find_guarded pg_ok_def live_entry_def split: option.split)
  show "pg_ok (snd (pg_increment k w now s))" if "pg_ok s"
  proof (cases "find_counter k s")
    case None
    then have "k \<notin> ct_key ` set s" by (auto simp: find_counter_def find_None_iff')
    with that None show ?thesis by (simp add: pg_increment_def pg_ok_def)
  next
    case (Some r)
    then show ?thesis
      using that keyed_rows.keys_upd_where [OF counter_key, of "\<lambda>r. ct_key r = k" w now s] by (simp add: pg_increment_def pg_ok_def)
  qed
  show "pg_ok (pg_reset k s)" if "pg_ok s" using that by (simp add: pg_reset_def pg_ok_def del_where_def distinct_map_filter)
  show "pg_ok (cleanupExpired now s)" if "pg_ok s" using that by (simp add: cleanupExpired_def pg_ok_def del_where_def distinct_map_filter)
qed

text \<open>C34. \<open>PostgresStore\<close> and \<open>MemoryStore\<close> implement the same abstract counter. For every time-ordered sequence of hits, resets and sweeps, from
  empty stores, both answer the hits of each key as the counter does that knows only that key's hits and resets.\<close>

theorem stores_refine_counter:
  assumes "sorted (map fst es)"
  shows "answers k (store_run mem_increment mem_reset mem_cleanup w es []) = key_counts w k None es
    \<and> answers k (store_run pg_increment pg_reset cleanupExpired w es []) = key_counts w k None es"
  using memory.run_counts [of "[]" es k w, OF _ assms] postgres.run_counts [of "[]" es k w, OF _ assms]
  by (simp add: mem_ok_def pg_ok_def pg_view_def find_counter_def)

lemma stores_refine_counter_witness:
  "answers ''k'' (store_run pg_increment pg_reset cleanupExpired 10
      [(0, Hit ''k''), (5, Hit ''k''), (10, Sweep), (12, Hit ''k''), (13, Reset ''k''), (13, Hit ''k'')] [])
   = [(1, 10), (2, 10), (1, 22), (1, 23)]"
proof -
  have s: "sorted (map fst [(0::int, Hit ''k''), (5, Hit ''k''), (10, Sweep), (12, Hit ''k''), (13, Reset ''k''), (13, Hit ''k'')])" by simp
  from stores_refine_counter [OF s, of "''k''" 10] show ?thesis by (simp add: next_entry_def live_entry_def)
qed

subsection \<open>The fixed window\<close>

text \<open>The times at which hits of a key pass a limiter.\<close>

fun passes :: "int \<Rightarrow> int \<Rightarrow> (int \<times> int) option \<Rightarrow> int list \<Rightarrow> int list" where
  "passes w m v [] = []"
| "passes w m v (t # ts) =
     (if m < fst (next_entry w t v) then passes w m (Some (next_entry w t v)) ts else t # passes w m (Some (next_entry w t v)) ts)"

definition count_before :: "int \<Rightarrow> int list \<Rightarrow> int" where
  "count_before e ts = int (length (filter (\<lambda>t. t < e) ts))"

lemma count_before_simps [simp]:
  "count_before e [] = 0" "count_before e (t # ts) = (if t < e then 1 else 0) + count_before e ts"
  by (simp_all add: count_before_def)

lemma passes_sub: "set (passes w m v ts) \<subseteq> set ts"
  by (induction w m v ts rule: passes.induct) auto

lemma passes_in_window:
  "sorted ts \<Longrightarrow> e \<le> r \<Longrightarrow> count_before e (passes w m (Some (c, r)) ts) \<le> max 0 (m - c)"
proof (induction ts arbitrary: c)
  case (Cons t ts)
  show ?case
  proof (cases "t < e")
    case True
    with Cons.prems have "next_entry w t (Some (c, r)) = (c + 1, r)" by (simp add: next_entry_def live_entry_def)
    with Cons.IH [of "c + 1"] Cons.prems True show ?thesis by auto
  next
    case False
    have "t \<le> x" if "x \<in> set (passes w m (Some (c, r)) (t # ts))" for x
      using subsetD [OF passes_sub that] Cons.prems(1) by auto
    with False have "filter (\<lambda>x. x < e) (passes w m (Some (c, r)) (t # ts)) = []"
      unfolding filter_empty_conv by (meson le_less_trans)
    then show ?thesis by (simp add: count_before_def)
  qed
qed simp

lemma passes_fresh:
  assumes "sorted (t # ts)" and "live_entry t v = None" and "e \<le> t + w" and "0 \<le> m"
  shows "count_before e (passes w m v (t # ts)) \<le> m"
proof -
  from assms(2) have n: "next_entry w t v = (1, t + w)" by (simp add: next_entry_def)
  from passes_in_window [of ts e "t + w" w m 1] assms(1,3) have "count_before e (passes w m (Some (1, t + w)) ts) \<le> max 0 (m - 1)" by simp
  with n assms(4) show ?thesis by auto
qed

lemma passes_two_windows:
  "sorted ts \<Longrightarrow> (\<forall>t \<in> set ts. a \<le> t) \<Longrightarrow> 0 \<le> m \<Longrightarrow> (\<And>c r. v = Some (c, r) \<Longrightarrow> 0 \<le> c) \<Longrightarrow>
     count_before (a + w) (passes w m v ts) \<le> m + (case v of None \<Rightarrow> 0 | Some (c, r) \<Rightarrow> max 0 (m - c))"
proof (induction ts arbitrary: v)
  case Nil
  then show ?case by (auto split: option.split)
next
  case (Cons t ts)
  show ?case
  proof (cases "live_entry t v")
    case None
    with Cons.prems have "count_before (a + w) (passes w m v (t # ts)) \<le> m" by (intro passes_fresh) auto
    moreover have "0 \<le> (case v of None \<Rightarrow> 0 | Some (c, r) \<Rightarrow> max 0 (m - c))" by (auto split: option.split)
    ultimately show ?thesis by linarith
  next
    case (Some cr)
    then obtain c r where v: "v = Some (c, r)" and n: "next_entry w t v = (c + 1, r)"
      by (cases v) (auto simp: live_entry_def next_entry_def split: if_splits)
    with Cons.IH [of "Some (c + 1, r)"] Cons.prems show ?thesis by auto
  qed
qed

definition passed_within :: "int \<Rightarrow> int \<Rightarrow> int list \<Rightarrow> int" where
  "passed_within a w ts = int (length (filter (\<lambda>t. a \<le> t \<and> t < a + w) ts))"

lemma passed_within_bound:
  "sorted ts \<Longrightarrow> 0 \<le> m \<Longrightarrow> (\<And>c r. v = Some (c, r) \<Longrightarrow> 0 \<le> c) \<Longrightarrow> passed_within a w (passes w m v ts) \<le> 2 * m"
proof (induction ts arbitrary: v)
  case Nil
  then show ?case by (simp add: passed_within_def)
next
  case (Cons t ts)
  have pos: "0 \<le> fst (next_entry w t v)" using Cons.prems(3)
    by (cases v) (auto simp: next_entry_def live_entry_def)
  show ?case
  proof (cases "a \<le> t")
    case True
    have "filter (\<lambda>x. a \<le> x \<and> x < a + w) (passes w m v (t # ts)) = filter (\<lambda>x. x < a + w) (passes w m v (t # ts))"
      using passes_sub [of w m v "t # ts"] Cons.prems(1) True by (intro filter_cong) fastforce+
    moreover have "count_before (a + w) (passes w m v (t # ts)) \<le> m + (case v of None \<Rightarrow> 0 | Some (c, r) \<Rightarrow> max 0 (m - c))"
      using Cons.prems True by (intro passes_two_windows) auto
    moreover have "(case v of None \<Rightarrow> 0 | Some (c, r) \<Rightarrow> max 0 (m - c)) \<le> m"
      using Cons.prems(2,3) by (auto split: option.split)
    ultimately show ?thesis by (simp add: passed_within_def count_before_def)
  next
    case False
    have "passed_within a w (passes w m (Some (next_entry w t v)) ts) \<le> 2 * m"
      using Cons.prems(1,2) pos by (intro Cons.IH) auto
    with False show ?thesis by (simp add: passed_within_def)
  qed
qed

text \<open>The requests of one key that a limiter over a store lets pass.\<close>

fun limited_run ::
  "(string \<Rightarrow> int \<Rightarrow> int \<Rightarrow> 's \<Rightarrow> (int \<times> int) \<times> 's) \<Rightarrow> limiter \<Rightarrow> rl_request \<Rightarrow> int list \<Rightarrow> 's \<Rightarrow> int list" where
  "limited_run incr l c [] s = []"
| "limited_run incr l c (t # ts) s =
     (let (reply, s1) = createRateLimiter incr l c t s in (if lr_passed reply then [t] else []) @ limited_run incr l c ts s1)"

context rate_limit_store
begin

lemma limited_run_passes: "limited_run incr l c ts s = passes (lm_windowMs l) (lm_max l) (view s (lm_key l c)) ts"
proof (induction ts arbitrary: s)
  case (Cons t ts)
  obtain count resetAt s1 where i: "incr (lm_key l c) (lm_windowMs l) t s = ((count, resetAt), s1)" by (metis prod.collapse)
  with incr_answer [of "lm_key l c" "lm_windowMs l" t s]
  have n: "next_entry (lm_windowMs l) t (view s (lm_key l c)) = (count, resetAt)" by simp
  with i incr_view [of "lm_key l c" "lm_windowMs l" t s "lm_key l c"] have "view s1 (lm_key l c) = Some (count, resetAt)" by simp
  with i n Cons.IH [of s1] show ?case by (simp add: createRateLimiter_def)
qed simp

lemma limited_run_bound:
  "sorted ts \<Longrightarrow> 0 \<le> lm_max l \<Longrightarrow> view s (lm_key l c) = None \<Longrightarrow> passed_within a (lm_windowMs l) (limited_run incr l c ts s) \<le> 2 * lm_max l"
  unfolding limited_run_passes by (rule passed_within_bound) simp_all

end

text \<open>A rate limiter limits. Whatever the times at which a client sends requests, no interval as long as the limiter's window sees
  more than twice the limit pass, with the store in memory and with the store in PostgreSQL.\<close>

theorem limiter_bounds_traffic:
  assumes "sorted ts" and "0 \<le> lm_max l"
  shows "passed_within a (lm_windowMs l) (limited_run mem_increment l c ts []) \<le> 2 * lm_max l
    \<and> passed_within a (lm_windowMs l) (limited_run pg_increment l c ts []) \<le> 2 * lm_max l"
  using memory.limited_run_bound [OF assms, of "[]"] postgres.limited_run_bound [OF assms, of "[]"]
  by (simp add: pg_view_def find_counter_def)

lemma limiter_bounds_traffic_witness:
  "passed_within 9 10 (limited_run mem_increment \<lparr>lm_windowMs = 10, lm_max = 1, lm_key = (\<lambda>_. ''k''), lm_message = []\<rparr>
      \<lparr>rr_organizationId = None, rr_apiKeyId = None, rr_loginEmail = None, rr_peer = None, rr_realIp = None\<rparr> [9, 10, 11, 19] []) \<le> 2"
proof -
  have s: "sorted [9, 10, 11, 19 :: int]" by simp
  have m: "0 \<le> lm_max \<lparr>lm_windowMs = 10, lm_max = 1, lm_key = (\<lambda>_. ''k''), lm_message = []\<rparr>" by simp
  from limiter_bounds_traffic [OF s m, of 9] show ?thesis by simp
qed

end
