(* ===== verification/ContainerRuntime.thy ===== *)
theory ContainerRuntime
  imports VolumePolicy
begin

text \<open>
  The agent's container runtime, \<open>apps/agent/src/runtime/container-runtime.ts\<close>. The Docker engine is an argument: a state and the
  answer to each request, with the JSON parser and the encodings. A response is the list of its chunks, a text the list of its bytes.
  Numbers of the statistics are exact rationals.
\<close>

subsection \<open>Requests\<close>

definition MAX_DOCKER_JSON_RESPONSE_BYTES :: nat where
  "MAX_DOCKER_JSON_RESPONSE_BYTES = 2 * 1024 * 1024"

definition MAX_DOCKER_RAW_RESPONSE_BYTES :: nat where
  "MAX_DOCKER_RAW_RESPONSE_BYTES = 1024 * 1024"

datatype docker_answer = Unreachable string | Answered int "string list"

record 's docker =
  dk_send :: "string \<Rightarrow> string \<Rightarrow> json option \<Rightarrow> string option \<Rightarrow> 's \<Rightarrow> docker_answer \<times> 's"
  dk_parse :: "string \<Rightarrow> json option"
  dk_uri :: "string \<Rightarrow> string"
  dk_auth :: "json \<Rightarrow> string"
  dk_utf8 :: "string \<Rightarrow> string"

text \<open>The \<open>data\<close> handler: the chunks so far as long as they are within the limit.\<close>

fun collect_chunks :: "nat \<Rightarrow> string \<Rightarrow> string list \<Rightarrow> string option" where
  "collect_chunks limit output [] = Some output"
| "collect_chunks limit output (c # cs) =
     (if limit < length output + length c then None else collect_chunks limit (output @ c) cs)"

definition exceeded :: "nat \<Rightarrow> string" where
  "exceeded limit = ''Docker API response exceeded '' @ str_nat limit @ '' byte limit''"

definition api_error :: "int \<Rightarrow> string \<Rightarrow> string" where
  "api_error status output = ''Docker API '' @ str_int status @ '': '' @ (if output = [] then ''request failed'' else output)"

definition docker_request ::
  "'s docker \<Rightarrow> bool \<Rightarrow> string option \<Rightarrow> string \<Rightarrow> string \<Rightarrow> json option \<Rightarrow> 's \<Rightarrow> (string + json option) \<times> 's" where
  "docker_request d discard header meth path body s =
     (case dk_send d meth path body header s of
        (Unreachable e, s1) \<Rightarrow> (Inl e, s1)
      | (Answered status chunks, s1) \<Rightarrow>
          (case collect_chunks MAX_DOCKER_JSON_RESPONSE_BYTES [] (if discard \<and> status < 300 then [] else chunks) of
             None \<Rightarrow> (Inl (exceeded MAX_DOCKER_JSON_RESPONSE_BYTES), s1)
           | Some output \<Rightarrow>
               if 300 \<le> status then (Inl (api_error status output), s1)
               else (Inr (if output = [] then None else dk_parse d output), s1)))"

definition requestRaw :: "'s docker \<Rightarrow> string \<Rightarrow> string \<Rightarrow> json option \<Rightarrow> 's \<Rightarrow> (string + string) \<times> 's" where
  "requestRaw d meth path body s =
     (case dk_send d meth path body None s of
        (Unreachable e, s1) \<Rightarrow> (Inl e, s1)
      | (Answered status chunks, s1) \<Rightarrow>
          (case collect_chunks MAX_DOCKER_RAW_RESPONSE_BYTES [] chunks of
             None \<Rightarrow> (Inl (exceeded MAX_DOCKER_RAW_RESPONSE_BYTES), s1)
           | Some output \<Rightarrow> if 300 \<le> status then (Inl (api_error status (dk_utf8 d output)), s1) else (Inr output, s1)))"

abbreviation simple_request :: "'s docker \<Rightarrow> string \<Rightarrow> string \<Rightarrow> json option \<Rightarrow> 's \<Rightarrow> (string + json option) \<times> 's" where
  "simple_request d \<equiv> docker_request d False None"

subsection \<open>Frames of logs\<close>

definition u32be :: "string \<Rightarrow> nat" where
  "u32be b = foldl (\<lambda>v c. 256 * v + code_of c) 0 b"

text \<open>The payloads; \<open>None\<close>: a frame reaches past the end.\<close>

function log_frames :: "string \<Rightarrow> string list option" where
  "log_frames d =
     (if length d < 8 then Some []
      else (let size = u32be (take 4 (drop 4 d)) in
            if length d < 8 + size then None
            else map_option (\<lambda>ls. take size (drop 8 d) # ls) (log_frames (drop (8 + size) d))))"
  by pat_completeness auto

termination log_frames
  by (relation "measure length") auto

declare log_frames.simps [simp del]

definition decodeDockerLogFrames :: "(string \<Rightarrow> string) \<Rightarrow> string \<Rightarrow> string" where
  "decodeDockerLogFrames utf8 d =
     (case log_frames d of
        None \<Rightarrow> utf8 d
      | Some ls \<Rightarrow> if ls = [] then utf8 d else concat (map utf8 ls))"

subsection \<open>Helpers\<close>

definition container_name :: "string \<Rightarrow> string" where
  "container_name workloadId = ''devion-workload-'' @ filter (\<lambda>c. c \<noteq> CHR ''-'') workloadId"

definition finiteNonNegative :: "json option \<Rightarrow> rat" where
  "finiteNonNegative v = (case v of Some (JNum n) \<Rightarrow> if 0 \<le> n then n else 0 | _ \<Rightarrow> 0)"

definition sum_values :: "json option list \<Rightarrow> rat" where
  "sum_values vs = foldl (\<lambda>t v. t + finiteNonNegative v) 0 vs"

definition entries_of :: "json option \<Rightarrow> (string \<times> json) list" where
  "entries_of v = (case v of Some (JObj kvs) \<Rightarrow> kvs | _ \<Rightarrow> [])"

definition items_of :: "json option \<Rightarrow> json list" where
  "items_of v = (case v of Some (JArr xs) \<Rightarrow> xs | _ \<Rightarrow> [])"

text \<open>\<open>a?.b?.c\<close>\<close>

definition path_get :: "string list \<Rightarrow> json option \<Rightarrow> json option" where
  "path_get ks v = foldl (\<lambda>v k. Option.bind v (jget k)) v ks"

definition str_of :: "json option \<Rightarrow> string option" where
  "str_of v = (case v of Some (JStr t) \<Rightarrow> Some t | _ \<Rightarrow> None)"

definition json_truthy :: "json option \<Rightarrow> bool" where
  "json_truthy v = (case v of None \<Rightarrow> False | Some JNull \<Rightarrow> False | Some (JBool b) \<Rightarrow> b | Some (JNum n) \<Rightarrow> n \<noteq> 0
     | Some (JStr t) \<Rightarrow> t \<noteq> [] | Some _ \<Rightarrow> True)"

text \<open>Reading a property of \<open>undefined\<close> or \<open>null\<close> throws.\<close>

definition readable :: "json option \<Rightarrow> bool" where
  "readable v \<longleftrightarrow> v \<noteq> None \<and> v \<noteq> Some JNull"

definition unreadable :: string where
  "unreadable = ''Cannot read properties of undefined''"

definition registry_server :: "string \<Rightarrow> string" where
  "registry_server img =
     (let first = hd (split_on CHR ''/'' img) in
      if CHR ''.'' \<in> set first \<or> CHR '':'' \<in> set first \<or> first = ''localhost'' then first else ''https://index.docker.io/v1/'')"

definition registryAuthHeaders :: "'s docker \<Rightarrow> string \<Rightarrow> (string \<times> string) option \<Rightarrow> string option" where
  "registryAuthHeaders d img credentials =
     map_option (\<lambda>(u, p). dk_auth d (JObj [(''username'', JStr u), (''password'', JStr p), (''serveraddress'', JStr (registry_server img))]))
       credentials"

text \<open>A host port is the decimal text the engine writes.\<close>

definition published_port :: "json \<Rightarrow> int option" where
  "published_port bindings =
     (case items_of (Some bindings) of
        [] \<Rightarrow> None
      | b # _ \<Rightarrow> (case str_of (jget ''HostPort'' b) of
                   None \<Rightarrow> None
                 | Some t \<Rightarrow> if t = [] then None else Some (int (digits_value t))))"

definition publishedPorts :: "json option \<Rightarrow> (string \<times> int) list" where
  "publishedPorts ports = List.map_filter (\<lambda>(k, b). map_option (\<lambda>n. (k, n)) (published_port b)) (entries_of ports)"

subsection \<open>Containers\<close>

record start_port =
  sp_containerPort :: int
  sp_protocol :: "string option"
  sp_exposure :: "string option"
  sp_externalPort :: "int option"

record health_check =
  hc_command :: string
  hc_intervalSeconds :: int
  hc_timeoutSeconds :: int
  hc_retries :: int
  hc_startPeriodSeconds :: int

record container_spec =
  cs_workloadId :: string
  cs_image :: string
  cs_cpuMilli :: int
  cs_memoryMib :: int
  cs_environment :: "(string \<times> string) list option"
  cs_ports :: "start_port list"
  cs_volumes :: "mount_payload list"
  cs_restartPolicy :: "string option"
  cs_gracefulShutdownSeconds :: "int option"
  cs_command :: "string option"
  cs_workingDirectory :: "string option"
  cs_healthCheck :: "health_check option"
  cs_registryCredentials :: "(string \<times> string) option"

definition docker_port :: "start_port \<Rightarrow> string" where
  "docker_port p = str_int (sp_containerPort p) @ ''/'' @ or_else (sp_protocol p) ''tcp''"

definition js_object :: "(string \<times> json) list \<Rightarrow> (string \<times> json) list" where
  "js_object kvs = fold (\<lambda>(k, v). AList.update k v) kvs []"

definition exposed_ports :: "start_port list \<Rightarrow> (string \<times> json) list" where
  "exposed_ports ports = js_object (map (\<lambda>p. (docker_port p, JObj [])) ports)"

definition port_bindings :: "start_port list \<Rightarrow> (string \<times> json) list" where
  "port_bindings ports = js_object (map (\<lambda>p. (docker_port p, JArr [JObj [(''HostIp'', JStr ''0.0.0.0''),
       (''HostPort'', JStr (case sp_externalPort p of None \<Rightarrow> [] | Some e \<Rightarrow> if e = 0 then [] else str_int e))]]))
     (filter (\<lambda>p. sp_exposure p = Some ''public'') ports))"

definition seconds :: "int \<Rightarrow> json" where
  "seconds n = JNum (of_int (n * 1000000000))"

definition labels_json :: "string \<Rightarrow> (string \<times> json) list \<Rightarrow> json" where
  "labels_json workloadId extra = JObj ([(''devion.managed'', JStr ''true''), (''devion.workload-id'', JStr workloadId)] @ extra)"

definition volume_json :: "string \<Rightarrow> mount_payload \<Rightarrow> json" where
  "volume_json workloadId v = JObj [(''Name'', JStr (mp_name v)),
     (''Labels'', labels_json workloadId (if truthy (mp_id v) then [(''devion.volume-id'', JStr (the (mp_id v)))] else []))]"

definition mount_json :: "mount_payload \<Rightarrow> json" where
  "mount_json v = JObj [(''Type'', JStr ''volume''), (''Source'', JStr (mp_name v)), (''Target'', JStr (mp_target v)),
     (''ReadOnly'', JBool (or_else (mp_readOnly v) False))]"

definition health_json :: "health_check \<Rightarrow> json" where
  "health_json h = JObj [(''Test'', JArr [JStr ''CMD-SHELL'', JStr (hc_command h)]), (''Interval'', seconds (hc_intervalSeconds h)),
     (''Timeout'', seconds (hc_timeoutSeconds h)), (''Retries'', JNum (of_int (hc_retries h))),
     (''StartPeriod'', seconds (hc_startPeriodSeconds h))]"

definition nonempty :: "string \<Rightarrow> (json list \<Rightarrow> json) \<Rightarrow> json list \<Rightarrow> (string \<times> json) list" where
  "nonempty k f xs = (if xs = [] then [] else [(k, f xs)])"

definition host_config :: "container_spec \<Rightarrow> json" where
  "host_config c = JObj ([(''NanoCpus'', JNum (of_int (cs_cpuMilli c * 1000000))),
       (''Memory'', JNum (of_int (cs_memoryMib c * 1024 * 1024))), (''MemorySwap'', JNum (of_int (cs_memoryMib c * 1024 * 1024))),
       (''RestartPolicy'', JObj [(''Name'', JStr (or_else (cs_restartPolicy c) ''unless-stopped''))])]
     @ (if port_bindings (cs_ports c) = [] then [] else [(''PortBindings'', JObj (port_bindings (cs_ports c)))])
     @ nonempty ''Mounts'' JArr (map mount_json (cs_volumes c)))"

definition env_json :: "(string \<times> string) list \<Rightarrow> json" where
  "env_json env = JArr (map (\<lambda>(k, v). JStr (k @ ''='' @ v)) env)"

definition container_json :: "container_spec \<Rightarrow> json" where
  "container_json c = JObj ([(''Image'', JStr (cs_image c))] @ jopt ''Env'' (map_option env_json (cs_environment c))
     @ (if truthy (cs_command c) then [(''Cmd'', JArr [JStr ''/bin/sh'', JStr ''-lc'', JStr (the (cs_command c))])] else [])
     @ (if truthy (cs_workingDirectory c) then [(''WorkingDir'', JStr (the (cs_workingDirectory c)))] else [])
     @ [(''Labels'', labels_json (cs_workloadId c) [])]
     @ jopt ''Healthcheck'' (map_option health_json (cs_healthCheck c))
     @ (if exposed_ports (cs_ports c) = [] then [] else [(''ExposedPorts'', JObj (exposed_ports (cs_ports c)))])
     @ [(''HostConfig'', host_config c)])"

definition container_path :: "'s docker \<Rightarrow> string \<Rightarrow> string \<Rightarrow> string" where
  "container_path d name rest = ''/containers/'' @ dk_uri d name @ rest"

definition removeIfPresent :: "'s docker \<Rightarrow> string \<Rightarrow> 's \<Rightarrow> (string + unit) \<times> 's" where
  "removeIfPresent d name s =
     (case simple_request d ''DELETE'' (container_path d name ''?force=true'') None s of
        (Inl e, s1) \<Rightarrow> (if starts_with ''Docker API 404:'' e then Inr () else Inl e, s1)
      | (Inr _, s1) \<Rightarrow> (Inr (), s1))"

text \<open>What \<open>start\<close> finds: a running container with its ports, nothing in the way, or an error.\<close>

definition find_running :: "'s docker \<Rightarrow> string \<Rightarrow> 's \<Rightarrow> (string + (string \<times> int) list option) \<times> 's" where
  "find_running d name s =
     (case simple_request d ''GET'' (container_path d name ''/json'') None s of
        (Inl e, s1) \<Rightarrow> (if starts_with ''Docker API 404:'' e then Inr None else Inl e, s1)
      | (Inr v, s1) \<Rightarrow>
          if \<not> readable v then (Inl unreadable, s1)
          else if json_truthy (path_get [''State'', ''Running''] v)
          then (Inr (Some (publishedPorts (path_get [''NetworkSettings'', ''Ports''] v))), s1)
          else (case removeIfPresent d name s1 of
                  (Inl e, s2) \<Rightarrow> (if starts_with ''Docker API 404:'' e then Inr None else Inl e, s2)
                | (Inr _, s2) \<Rightarrow> (Inr None, s2)))"

text \<open>Requests one after another until one fails.\<close>

fun request_chain :: "'s docker \<Rightarrow> (bool \<times> string option \<times> string \<times> string \<times> json option) list \<Rightarrow> 's \<Rightarrow> (string + unit) \<times> 's" where
  "request_chain d [] s = (Inr (), s)"
| "request_chain d ((discard, header, meth, path, body) # rs) s =
     (case docker_request d discard header meth path body s of
        (Inl e, s1) \<Rightarrow> (Inl e, s1)
      | (Inr _, s1) \<Rightarrow> request_chain d rs s1)"

definition start_requests :: "'s docker \<Rightarrow> container_spec \<Rightarrow> (bool \<times> string option \<times> string \<times> string \<times> json option) list" where
  "start_requests d c =
     (let name = container_name (cs_workloadId c) in
      [(True, registryAuthHeaders d (cs_image c) (cs_registryCredentials c), ''POST'', ''/images/create?fromImage='' @ dk_uri d (cs_image c), None)]
      @ map (\<lambda>v. (False, None, ''POST'', ''/volumes/create'', Some (volume_json (cs_workloadId c) v))) (cs_volumes c)
      @ [(False, None, ''POST'', ''/containers/create?name='' @ dk_uri d name, Some (container_json c)),
         (False, None, ''POST'', container_path d name ''/start'', None)])"

text \<open>The runtime id and the published ports.\<close>

definition runtime_start :: "'s docker \<Rightarrow> container_spec \<Rightarrow> 's \<Rightarrow> (string + string \<times> (string \<times> int) list) \<times> 's" where
  "runtime_start d c s =
     (let name = container_name (cs_workloadId c) in
      case find_running d name s of
        (Inl e, s1) \<Rightarrow> (Inl e, s1)
      | (Inr (Some ports), s1) \<Rightarrow> (Inr (name, ports), s1)
      | (Inr None, s1) \<Rightarrow>
          (case request_chain d (start_requests d c) s1 of
             (Inl e, s2) \<Rightarrow> (Inl e, s2)
           | (Inr _, s2) \<Rightarrow>
               (case simple_request d ''GET'' (container_path d name ''/json'') None s2 of
                  (Inl e, s3) \<Rightarrow> (Inl e, s3)
                | (Inr v, s3) \<Rightarrow>
                    (if readable v then Inr (name, publishedPorts (path_get [''NetworkSettings'', ''Ports''] v)) else Inl unreadable, s3))))"

definition runtime_stop :: "'s docker \<Rightarrow> string \<Rightarrow> int option \<Rightarrow> 's \<Rightarrow> (string + unit) \<times> 's" where
  "runtime_stop d workloadId graceful s =
     (case simple_request d ''POST'' (container_path d (container_name workloadId) (''/stop?t='' @ str_int (or_else graceful 15))) None s of
        (Inl e, s1) \<Rightarrow> (Inl e, s1)
      | (Inr _, s1) \<Rightarrow> (Inr (), s1))"

record inspection =
  in_actualState :: actual_state
  in_healthStatus :: string
  in_healthMessage :: "string option"
  in_ports :: "(string \<times> int) list"

definition health_of :: "json option \<Rightarrow> string" where
  "health_of v =
     (case str_of (path_get [''State'', ''Health'', ''Status''] v) of
        Some h \<Rightarrow> if h \<in> set [''starting'', ''healthy'', ''unhealthy''] then h else ''none''
      | None \<Rightarrow> ''none'')"

definition health_message :: "json option \<Rightarrow> string option" where
  "health_message v =
     (if health_of v \<noteq> ''unhealthy'' then None
      else (let entries = items_of (path_get [''State'', ''Health'', ''Log''] v); m =
              (if entries = [] then None else map_option (take 1000 \<circ> trim_str) (str_of (jget ''Output'' (last entries)))) in
            if truthy m then m else None))"

definition state_of :: "json option \<Rightarrow> actual_state" where
  "state_of v =
     (if json_truthy (path_get [''State'', ''Running''] v) then ActRunning
      else if json_truthy (path_get [''State'', ''Dead''] v) \<or> json_truthy (path_get [''State'', ''Error''] v) then ActFailed
      else ActStopped)"

definition unknown_inspection :: "actual_state \<Rightarrow> inspection" where
  "unknown_inspection st = \<lparr>in_actualState = st, in_healthStatus = ''none'', in_healthMessage = None, in_ports = []\<rparr>"

definition runtime_inspect :: "'s docker \<Rightarrow> string \<Rightarrow> 's \<Rightarrow> inspection \<times> 's" where
  "runtime_inspect d workloadId s =
     (case simple_request d ''GET'' (container_path d (container_name workloadId) ''/json'') None s of
        (Inl e, s1) \<Rightarrow> (unknown_inspection (if includes_str ''404'' e then ActStopped else ActUnknown), s1)
      | (Inr v, s1) \<Rightarrow>
          (if \<not> readable v then unknown_inspection ActUnknown
           else \<lparr>in_actualState = state_of v, in_healthStatus = health_of v, in_healthMessage = health_message v,
             in_ports = publishedPorts (path_get [''NetworkSettings'', ''Ports''] v)\<rparr>, s1))"

record runtime_stats =
  rs_cpuTotalUsageNanos :: rat
  rs_memoryUsageBytes :: rat
  rs_memoryLimitBytes :: "rat option"
  rs_networkRxBytes :: rat
  rs_networkTxBytes :: rat
  rs_diskReadBytes :: rat
  rs_diskWriteBytes :: rat

definition memory_limit :: "json option \<Rightarrow> rat option" where
  "memory_limit v = (case v of Some (JNum n) \<Rightarrow> if n = 0 then None else Some n | _ \<Rightarrow> None)"

definition disk_values :: "string \<Rightarrow> json option \<Rightarrow> json option list" where
  "disk_values op v =
     map (jget ''value'') (filter (\<lambda>i. map_option to_lower (str_of (jget ''op'' i)) = Some op)
       (items_of (path_get [''blkio_stats'', ''io_service_bytes_recursive''] v)))"

definition stats_of :: "json option \<Rightarrow> runtime_stats" where
  "stats_of v =
     \<lparr>rs_cpuTotalUsageNanos = finiteNonNegative (path_get [''cpu_stats'', ''cpu_usage'', ''total_usage''] v),
      rs_memoryUsageBytes = finiteNonNegative (path_get [''memory_stats'', ''usage''] v),
      rs_memoryLimitBytes = memory_limit (path_get [''memory_stats'', ''limit''] v),
      rs_networkRxBytes = sum_values (map (jget ''rx_bytes'' \<circ> snd) (entries_of (path_get [''networks''] v))),
      rs_networkTxBytes = sum_values (map (jget ''tx_bytes'' \<circ> snd) (entries_of (path_get [''networks''] v))),
      rs_diskReadBytes = sum_values (disk_values ''read'' v), rs_diskWriteBytes = sum_values (disk_values ''write'' v)\<rparr>"

definition runtime_metrics :: "'s docker \<Rightarrow> string \<Rightarrow> 's \<Rightarrow> (string + runtime_stats option) \<times> 's" where
  "runtime_metrics d workloadId s =
     (case simple_request d ''GET'' (container_path d (container_name workloadId) ''/stats?stream=false'') None s of
        (Inl e, s1) \<Rightarrow> (if includes_str ''404'' e then Inr None else Inl e, s1)
      | (Inr v, s1) \<Rightarrow> (if readable v then Inr (Some (stats_of v)) else Inl unreadable, s1))"

definition runtime_remove :: "'s docker \<Rightarrow> string \<Rightarrow> 's \<Rightarrow> (string + unit) \<times> 's" where
  "runtime_remove d workloadId s = removeIfPresent d (container_name workloadId) s"

definition removeVolume :: "'s docker \<Rightarrow> string \<Rightarrow> 's \<Rightarrow> (string + unit) \<times> 's" where
  "removeVolume d name s =
     (case simple_request d ''DELETE'' (''/volumes/'' @ dk_uri d name) None s of
        (Inl e, s1) \<Rightarrow> (if includes_str ''Docker API 404:'' e then Inr () else Inl e, s1)
      | (Inr _, s1) \<Rightarrow> (Inr (), s1))"

definition runtime_logs :: "'s docker \<Rightarrow> string \<Rightarrow> int \<Rightarrow> 's \<Rightarrow> (string + string) \<times> 's" where
  "runtime_logs d workloadId tail s =
     (case requestRaw d ''GET'' (container_path d (container_name workloadId)
             (''/logs?stdout=true&stderr=true&timestamps=true&tail='' @ str_int tail)) None s of
        (Inl e, s1) \<Rightarrow> (Inl e, s1)
      | (Inr out, s1) \<Rightarrow> (Inr (decodeDockerLogFrames (dk_utf8 d) out), s1))"

text \<open>An exec instance is created, then started; \<open>missing\<close> is the error when the engine gives no id.\<close>

definition exec_json :: "string list \<Rightarrow> (string \<times> string) list option \<Rightarrow> json" where
  "exec_json cmd environment = JObj ([(''AttachStdout'', JBool True), (''AttachStderr'', JBool True), (''Cmd'', JArr (map JStr cmd))]
     @ jopt ''Env'' (map_option env_json environment))"

definition run_exec ::
  "'s docker \<Rightarrow> string \<Rightarrow> string \<Rightarrow> string list \<Rightarrow> (string \<times> string) list option \<Rightarrow> 's \<Rightarrow> (string + string) \<times> 's" where
  "run_exec d missing workloadId cmd environment s =
     (case simple_request d ''POST'' (container_path d (container_name workloadId) ''/exec'') (Some (exec_json cmd environment)) s of
        (Inl e, s1) \<Rightarrow> (Inl e, s1)
      | (Inr v, s1) \<Rightarrow>
          if \<not> truthy (str_of (path_get [''Id''] v)) then (Inl missing, s1)
          else (case requestRaw d ''POST'' (''/exec/'' @ dk_uri d (the (str_of (path_get [''Id''] v))) @ ''/start'')
                       (Some (JObj [(''Detach'', JBool False), (''Tty'', JBool False)])) s1 of
                  (Inl e, s2) \<Rightarrow> (Inl e, s2)
                | (Inr out, s2) \<Rightarrow> (Inr (decodeDockerLogFrames (dk_utf8 d) out), s2)))"

definition minecraftCommand :: "'s docker \<Rightarrow> string \<Rightarrow> string \<Rightarrow> 's \<Rightarrow> (string + string) \<times> 's" where
  "minecraftCommand d workloadId command =
     run_exec d ''Docker did not create the Minecraft console command'' workloadId [''rcon-cli'', command] None"

definition execText :: "'s docker \<Rightarrow> string \<Rightarrow> string list \<Rightarrow> (string \<times> string) list option \<Rightarrow> 's \<Rightarrow> (string + string) \<times> 's" where
  "execText d = run_exec d ''Docker did not create the file operation''"

abbreviation quote_char :: char where
  "quote_char \<equiv> CHR 0x27"

abbreviation dquote :: char where
  "dquote \<equiv> CHR 0x22"

definition in_data :: string where
  "in_data = [dquote] @ ''/data/$1'' @ [dquote]"

definition minecraftFiles :: "'s docker \<Rightarrow> string \<Rightarrow> 's \<Rightarrow> (string + string) \<times> 's" where
  "minecraftFiles d workloadId =
     execText d workloadId [''sh'', ''-lc'', ''find /data -mindepth 1 -maxdepth 6 -printf '' @ [quote_char] @ ''%y'' @ [CHR 0x5C] @ ''t%P''
       @ [CHR 0x5C] @ ''t%s'' @ [CHR 0x5C] @ ''n'' @ [quote_char] @ '' | sort''] None"

definition minecraftFileRead :: "'s docker \<Rightarrow> string \<Rightarrow> string \<Rightarrow> 's \<Rightarrow> (string + string) \<times> 's" where
  "minecraftFileRead d workloadId path =
     execText d workloadId [''sh'', ''-lc'', ''test -f '' @ in_data @ '' && head -c 524288 -- '' @ in_data, ''devion-file'', path] None"

definition minecraftFileWrite :: "'s docker \<Rightarrow> string \<Rightarrow> string \<Rightarrow> string \<Rightarrow> 's \<Rightarrow> (string + string) \<times> 's" where
  "minecraftFileWrite d workloadId path content =
     execText d workloadId [''sh'', ''-lc'', ''mkdir -p '' @ [dquote] @ ''$(dirname '' @ in_data @ '')'' @ [dquote] @ '' && printf %s ''
         @ [dquote] @ ''$DEVION_FILE_CONTENT'' @ [dquote] @ '' > '' @ in_data, ''devion-file'', path]
       (Some [(''DEVION_FILE_CONTENT'', content)])"

end
