(* ===== verification/AgentLoop.thy ===== *)
theory AgentLoop
  imports ContainerRuntime
begin

text \<open>
  The agent's commands, first part of \<open>apps/agent/src/index.ts\<close>: the schemas of commands and their payloads, the
  execution of a command and its reports. What is outside the process is one state with the Docker engine, the answers
  of the control plane, and a clock; \<open>Inl\<close> is the message of an exception. Every report sent is recorded with
  whether the request went through (\<open>fetch\<close> throws when it does not; its status is not looked at).
\<close>

subsection \<open>Schemas\<close>

definition command_types :: "string list" where
  "command_types = [''workload.start'', ''workload.stop'', ''workload.restart'', ''workload.delete'', ''image.pull'', ''volume.create'',
     ''volume.delete'', ''volume.attach'', ''volume.detach'', ''runtime.inspect'', ''workload.logs'', ''minecraft.command'',
     ''minecraft.logs'', ''minecraft.files.list'', ''minecraft.files.read'', ''minecraft.files.write'']"

record polled_command =
  pc_commandId :: string
  pc_type :: string
  pc_resourceId :: string
  pc_payload :: "json option"

definition commandSchema :: "(string \<Rightarrow> bool) \<Rightarrow> json \<Rightarrow> polled_command option" where
  "commandSchema zuuid j =
     Option.bind (z_object j) (\<lambda>j.
     Option.bind (z_req (z_string_where zuuid) ''commandId'' j) (\<lambda>i.
     Option.bind (z_req (z_string_where (\<lambda>t. t \<in> set command_types)) ''type'' j) (\<lambda>t.
     Option.bind (z_req (z_string_where zuuid) ''resourceId'' j) (\<lambda>r.
       Some \<lparr>pc_commandId = i, pc_type = t, pc_resourceId = r, pc_payload = jget ''payload'' j\<rparr>))))"

definition in_range :: "int \<Rightarrow> int \<Rightarrow> int \<Rightarrow> bool" where
  "in_range lo hi i \<longleftrightarrow> lo \<le> i \<and> i \<le> hi"

definition one_of :: "string list \<Rightarrow> json \<Rightarrow> string option" where
  "one_of xs = z_string_where (\<lambda>v. v \<in> set xs)"

definition start_port_schema :: "json \<Rightarrow> start_port option" where
  "start_port_schema j =
     Option.bind (z_object j) (\<lambda>j.
     Option.bind (z_req (z_int (in_range 1 65535)) ''containerPort'' j) (\<lambda>c.
     Option.bind (z_opt (one_of [''tcp'', ''udp'']) ''protocol'' j) (\<lambda>p.
     Option.bind (z_opt (one_of [''private'', ''public'']) ''exposure'' j) (\<lambda>e.
     Option.bind (z_opt (z_int (in_range 1 65535)) ''externalPort'' j) (\<lambda>x.
       Some \<lparr>sp_containerPort = c, sp_protocol = p, sp_exposure = e, sp_externalPort = x\<rparr>)))))"

definition health_check_schema :: "json \<Rightarrow> health_check option" where
  "health_check_schema j =
     Option.bind (z_object j) (\<lambda>j.
     Option.bind (z_req (z_sized 1 2000) ''command'' j) (\<lambda>c.
     Option.bind (z_req (z_int (in_range 1 3600)) ''intervalSeconds'' j) (\<lambda>i.
     Option.bind (z_req (z_int (in_range 1 600)) ''timeoutSeconds'' j) (\<lambda>t.
     Option.bind (z_req (z_int (in_range 1 20)) ''retries'' j) (\<lambda>r.
     Option.bind (z_req (z_int (in_range 0 3600)) ''startPeriodSeconds'' j) (\<lambda>s.
       Some \<lparr>hc_command = c, hc_intervalSeconds = i, hc_timeoutSeconds = t, hc_retries = r, hc_startPeriodSeconds = s\<rparr>))))))"

record runtime_config =
  rc_environment :: "(string \<times> string) list"
  rc_ports :: "start_port list"
  rc_volumes :: "mount_payload list"
  rc_restartPolicy :: "string option"
  rc_gracefulShutdownSeconds :: "int option"
  rc_registryCredentialReference :: "string option"
  rc_command :: "string option"
  rc_workingDirectory :: "string option"
  rc_healthCheck :: "health_check option"

definition empty_config :: runtime_config where
  "empty_config = \<lparr>rc_environment = [], rc_ports = [], rc_volumes = [], rc_restartPolicy = None, rc_gracefulShutdownSeconds = None,
     rc_registryCredentialReference = None, rc_command = None, rc_workingDirectory = None, rc_healthCheck = None\<rparr>"

definition runtime_config_schema :: "(string \<Rightarrow> bool) \<Rightarrow> json \<Rightarrow> runtime_config option" where
  "runtime_config_schema zuuid j =
     Option.bind (z_object j) (\<lambda>j.
     Option.bind (z_default z_record_string [] ''environment'' j) (\<lambda>env.
     Option.bind (z_default (z_array start_port_schema) [] ''ports'' j) (\<lambda>ports.
     Option.bind (z_default (volumeMountsPayload zuuid) [] ''volumes'' j) (\<lambda>vols.
     Option.bind (z_opt (one_of [''no'', ''on-failure'', ''always'', ''unless-stopped'']) ''restartPolicy'' j) (\<lambda>rp.
     Option.bind (z_opt (z_int (in_range 1 600)) ''gracefulShutdownSeconds'' j) (\<lambda>g.
     Option.bind (z_opt (z_string_where zuuid) ''registryCredentialReference'' j) (\<lambda>rr.
     Option.bind (z_opt (z_sized 1 2000) ''command'' j) (\<lambda>cmd.
     Option.bind (z_opt (z_sized 1 512) ''workingDirectory'' j) (\<lambda>wd.
     Option.bind (z_opt health_check_schema ''healthCheck'' j) (\<lambda>hc.
       Some \<lparr>rc_environment = env, rc_ports = ports, rc_volumes = vols, rc_restartPolicy = rp, rc_gracefulShutdownSeconds = g,
             rc_registryCredentialReference = rr, rc_command = cmd, rc_workingDirectory = wd, rc_healthCheck = hc\<rparr>))))))))))"

record start_input =
  st_workloadId :: string
  st_image :: string
  st_cpuMilli :: int
  st_memoryMib :: int
  st_runtimeConfig :: runtime_config

definition startPayload :: "(string \<Rightarrow> bool) \<Rightarrow> json \<Rightarrow> start_input option" where
  "startPayload zuuid j =
     Option.bind (z_object j) (\<lambda>j.
     Option.bind (z_req (z_string_where zuuid) ''workloadId'' j) (\<lambda>w.
     Option.bind (z_req (z_string_where (\<lambda>t. t \<noteq> [])) ''image'' j) (\<lambda>img.
     Option.bind (z_req (one_of [''container'']) ''runtime'' j) (\<lambda>_.
     Option.bind (z_req (\<lambda>r. Option.bind (z_object r) (\<lambda>r.
         Option.bind (z_req (z_int (\<lambda>n. 0 < n)) ''cpuMilli'' r) (\<lambda>c.
         Option.bind (z_req (z_int (\<lambda>n. 0 < n)) ''memoryMib'' r) (\<lambda>m. Some (c, m))))) ''requirements'' j) (\<lambda>req.
     Option.bind (z_default (runtime_config_schema zuuid) empty_config ''runtimeConfig'' j) (\<lambda>rc.
       Some \<lparr>st_workloadId = w, st_image = img, st_cpuMilli = fst req, st_memoryMib = snd req, st_runtimeConfig = rc\<rparr>))))))"

definition minecraft_path_ok :: "string \<Rightarrow> bool" where
  "minecraft_path_ok p \<longleftrightarrow> 1 \<le> length p \<and> length p \<le> 240 \<and> \<not> starts_with ''/'' p
     \<and> list_all (\<lambda>part. part \<noteq> ''.'' \<and> part \<noteq> ''..'' \<and> part \<noteq> []) (split_on CHR ''/'' p)"

definition minecraftFilePath :: "json \<Rightarrow> string option" where
  "minecraftFilePath = z_string_where minecraft_path_ok"

definition minecraftCommandPayload :: "json \<Rightarrow> string option" where
  "minecraftCommandPayload j =
     Option.bind (z_object j) (\<lambda>j. z_req (\<lambda>v. Option.bind (z_string v) (\<lambda>t.
       if 1 \<le> length (trim_str t) \<and> length (trim_str t) \<le> 1024 then Some (trim_str t) else None)) ''command'' j)"

definition minecraftLogsPayload :: "json \<Rightarrow> int option" where
  "minecraftLogsPayload j = Option.bind (z_object j) (\<lambda>j. z_default (z_int (in_range 1 2000)) 500 ''tail'' j)"

definition minecraftFileReadPayload :: "json \<Rightarrow> string option" where
  "minecraftFileReadPayload j = Option.bind (z_object j) (\<lambda>j. z_req minecraftFilePath ''path'' j)"

definition minecraftFileWritePayload :: "json \<Rightarrow> (string \<times> string) option" where
  "minecraftFileWritePayload j =
     Option.bind (z_object j) (\<lambda>j.
     Option.bind (z_req minecraftFilePath ''path'' j) (\<lambda>p.
     Option.bind (z_req (z_string_where (\<lambda>t. length t \<le> 512 * 1024)) ''content'' j) (\<lambda>c. Some (p, c))))"

text \<open>\<open>/^devion-v-[a-f0-9]{32}$/\<close>\<close>

definition volume_runtime_name :: "string \<Rightarrow> bool" where
  "volume_runtime_name n \<longleftrightarrow> starts_with ''devion-v-'' n \<and> length n = 41 \<and> list_all is_hex_lower (drop 9 n)"

definition volumeDeletePayload :: "json \<Rightarrow> string option" where
  "volumeDeletePayload j = Option.bind (z_object j) (\<lambda>j. z_req (z_string_where volume_runtime_name) ''runtimeName'' j)"

definition graceful_payload :: "json option \<Rightarrow> int option" where
  "graceful_payload p =
     (case Option.bind p (\<lambda>j. Option.bind (z_object j) (\<lambda>j. z_opt (z_int (in_range 1 600)) ''gracefulShutdownSeconds'' j)) of
        None \<Rightarrow> None
      | Some g \<Rightarrow> g)"

subsection \<open>The outside\<close>

datatype fetch_answer = Thrown string | Fetched int "json option"

record 's outside =
  og_docker :: "'s docker"
  og_get :: "string \<Rightarrow> 's \<Rightarrow> fetch_answer \<times> 's"
  og_post :: "string \<Rightarrow> json \<Rightarrow> 's \<Rightarrow> fetch_answer \<times> 's"
  og_now :: "'s \<Rightarrow> int"
  og_uuid :: "string \<Rightarrow> bool"

definition and_then :: "(string + 'a) \<times> 's \<Rightarrow> ('a \<Rightarrow> 's \<Rightarrow> (string + 'b) \<times> 's) \<Rightarrow> (string + 'b) \<times> 's" where
  "and_then r f = (case r of (Inl e, s) \<Rightarrow> (Inl e, s) | (Inr v, s) \<Rightarrow> f v s)"

text \<open>A body that has to be fine and to match a schema.\<close>

definition checked :: "string \<Rightarrow> (json \<Rightarrow> 'a option) \<Rightarrow> fetch_answer \<times> 's \<Rightarrow> (string + 'a) \<times> 's" where
  "checked what schema r =
     (case r of
        (Thrown e, s) \<Rightarrow> (Inl e, s)
      | (Fetched status body, s) \<Rightarrow>
          (if status < 200 \<or> 299 < status then Inl (what @ '' failed: '' @ str_int status)
           else (case Option.bind body schema of None \<Rightarrow> Inl (what @ '': invalid answer'') | Some v \<Rightarrow> Inr v), s))"

definition environment_schema :: "json \<Rightarrow> (string \<times> string) list option" where
  "environment_schema j = Option.bind (z_object j) (z_req z_record_string ''environment'')"

definition workloadSecrets :: "'s outside \<Rightarrow> string \<Rightarrow> 's \<Rightarrow> (string + (string \<times> string) list) \<times> 's" where
  "workloadSecrets og w s =
     checked ''Workload secret retrieval'' environment_schema (og_get og (''/api/agents/workloads/'' @ w @ ''/secrets'') s)"

definition credentials_pair :: "json \<Rightarrow> (string \<times> string) option" where
  "credentials_pair j =
     Option.bind (z_object j) (\<lambda>j.
     Option.bind (z_req (z_string_where (\<lambda>t. t \<noteq> [])) ''username'' j) (\<lambda>u.
     Option.bind (z_req (z_string_where (\<lambda>t. t \<noteq> [])) ''password'' j) (\<lambda>p. Some (u, p))))"

definition nullable_credentials :: "json \<Rightarrow> (string \<times> string) option option" where
  "nullable_credentials j =
     Option.bind (z_object j) (z_req (\<lambda>v. if v = JNull then Some None else map_option Some (credentials_pair v)) ''credentials'')"

definition workloadRegistryCredentials :: "'s outside \<Rightarrow> string \<Rightarrow> 's \<Rightarrow> (string + (string \<times> string) option) \<times> 's" where
  "workloadRegistryCredentials og w s =
     checked ''Registry credential retrieval'' nullable_credentials
       (og_get og (''/api/agents/workloads/'' @ w @ ''/registry-credentials'') s)"

subsection \<open>Commands\<close>

record agent_report =
  ar_commandId :: string
  ar_succeeded :: bool
  ar_data :: "json option"
  ar_error :: "(string \<times> string) option"

record 's agent_world =
  aw_env :: 's
  aw_sent :: "(agent_report \<times> bool) list"

definition invalid_payload :: string where
  "invalid_payload = ''Invalid payload''"

definition merge_env :: "(string \<times> string) list \<Rightarrow> (string \<times> string) list \<Rightarrow> (string \<times> string) list" where
  "merge_env base over = fold (\<lambda>(k, v). AList.update k v) over base"

definition started_json :: "string \<times> (string \<times> int) list \<Rightarrow> json" where
  "started_json r = JObj [(''runtimeId'', JStr (fst r)), (''ports'', JObj (map (\<lambda>(k, n). (k, JNum (of_int n))) (snd r)))]"

definition spec_of :: "start_input \<Rightarrow> (string \<times> string) list \<Rightarrow> (string \<times> string) option \<Rightarrow> container_spec" where
  "spec_of p secrets credentials =
     (let rc = st_runtimeConfig p in
      \<lparr>cs_workloadId = st_workloadId p, cs_image = st_image p, cs_cpuMilli = st_cpuMilli p, cs_memoryMib = st_memoryMib p,
       cs_environment = Some (merge_env (rc_environment rc) secrets), cs_ports = rc_ports rc, cs_volumes = rc_volumes rc,
       cs_restartPolicy = rc_restartPolicy rc, cs_gracefulShutdownSeconds = rc_gracefulShutdownSeconds rc,
       cs_command = rc_command rc, cs_workingDirectory = rc_workingDirectory rc,
       cs_healthCheck = rc_healthCheck rc, cs_registryCredentials = credentials\<rparr>)"

definition start_workload :: "'s outside \<Rightarrow> start_input \<Rightarrow> 's \<Rightarrow> (string + json option) \<times> 's" where
  "start_workload og p s =
     and_then (workloadSecrets og (st_workloadId p) s) (\<lambda>secrets s.
     and_then (if truthy (rc_registryCredentialReference (st_runtimeConfig p))
               then workloadRegistryCredentials og (st_workloadId p) s else (Inr None, s)) (\<lambda>credentials s.
     and_then (runtime_start (og_docker og) (spec_of p secrets credentials) s) (\<lambda>started s.
       (Inr (Some (started_json started)), s))))"

text \<open>Results of the runtime as data of a report.\<close>

definition no_data :: "(string + unit) \<times> 's \<Rightarrow> (string + json option) \<times> 's" where
  "no_data r = (case fst r of Inl e \<Rightarrow> Inl e | Inr _ \<Rightarrow> Inr None, snd r)"

definition text_data :: "string \<Rightarrow> (string + string) \<times> 's \<Rightarrow> (string + json option) \<times> 's" where
  "text_data k r = (case fst r of Inl e \<Rightarrow> Inl e | Inr t \<Rightarrow> Inr (Some (JObj [(k, JStr t)])), snd r)"

definition with_payload :: "'p option \<Rightarrow> ('p \<Rightarrow> 's \<Rightarrow> (string + json option) \<times> 's) \<Rightarrow> 's \<Rightarrow> (string + json option) \<times> 's" where
  "with_payload p f s = (case p of None \<Rightarrow> (Inl invalid_payload, s) | Some v \<Rightarrow> f v s)"

text \<open>The command's work, without its report; \<open>None\<close>: an unsupported type.\<close>

definition perform :: "'s outside \<Rightarrow> polled_command \<Rightarrow> 's \<Rightarrow> ((string + json option) \<times> 's) option" where
  "perform og c s =
     (let r = pc_resourceId c; p = pc_payload c; t = pc_type c; d = og_docker og in
      if t = ''workload.start'' then Some (with_payload (Option.bind p (startPayload (og_uuid og))) (start_workload og) s)
      else if t = ''workload.stop'' then Some (no_data (runtime_stop d r (graceful_payload p) s))
      else if t = ''workload.delete'' then Some (no_data (runtime_remove d r s))
      else if t = ''volume.delete'' then Some (with_payload (Option.bind p volumeDeletePayload) (\<lambda>n s. no_data (removeVolume d n s)) s)
      else if t = ''minecraft.command''
      then Some (with_payload (Option.bind p minecraftCommandPayload) (\<lambda>m s. text_data ''output'' (minecraftCommand d r m s)) s)
      else if t = ''minecraft.logs'' \<or> t = ''workload.logs''
      then Some (with_payload (Option.bind p minecraftLogsPayload) (\<lambda>n s. text_data ''logs'' (runtime_logs d r n s)) s)
      else if t = ''minecraft.files.list'' then Some (text_data ''entries'' (minecraftFiles d r s))
      else if t = ''minecraft.files.read''
      then Some (with_payload (Option.bind p minecraftFileReadPayload) (\<lambda>f s. text_data ''content'' (minecraftFileRead d r f s)) s)
      else if t = ''minecraft.files.write''
      then Some (with_payload (Option.bind p minecraftFileWritePayload)
             (\<lambda>f s. and_then (minecraftFileWrite d r (fst f) (snd f) s) (\<lambda>_ s. (Inr None, s))) s)
      else None)"

definition report_body :: "agent_report \<Rightarrow> json" where
  "report_body r = JObj ([(''commandId'', JStr (ar_commandId r)),
       (''status'', JStr (if ar_succeeded r then ''succeeded'' else ''failed''))]
     @ jopt ''data'' (ar_data r)
     @ jopt ''error'' (map_option (\<lambda>(code, message). JObj [(''code'', JStr code), (''message'', JStr message)]) (ar_error r)))"

text \<open>\<open>report\<close>: the error when the request throws.\<close>

definition send_report :: "'s outside \<Rightarrow> agent_report \<Rightarrow> 's agent_world \<Rightarrow> string option \<times> 's agent_world" where
  "send_report og r w =
     (case og_post og ''/api/agents/commands/results'' (report_body r) (aw_env w) of
        (Thrown e, s) \<Rightarrow> (Some e, w\<lparr>aw_env := s, aw_sent := aw_sent w @ [(r, False)]\<rparr>)
      | (Fetched _ _, s) \<Rightarrow> (None, w\<lparr>aw_env := s, aw_sent := aw_sent w @ [(r, True)]\<rparr>))"

definition failure_report :: "string \<Rightarrow> string \<Rightarrow> string \<Rightarrow> agent_report" where
  "failure_report i code message = \<lparr>ar_commandId = i, ar_succeeded = False, ar_data = None, ar_error = Some (code, message)\<rparr>"

definition success_report :: "string \<Rightarrow> json option \<Rightarrow> agent_report" where
  "success_report i v = \<lparr>ar_commandId = i, ar_succeeded = True, ar_data = v, ar_error = None\<rparr>"

definition unsupported_report :: "polled_command \<Rightarrow> agent_report" where
  "unsupported_report c = failure_report (pc_commandId c) ''UNSUPPORTED_COMMAND'' (''Unsupported command type: '' @ pc_type c)"

text \<open>A report inside the \<open>try\<close>: when it throws, the \<open>catch\<close> reports a failure.\<close>

definition try_report :: "'s outside \<Rightarrow> agent_report \<Rightarrow> 's agent_world \<Rightarrow> string option \<times> 's agent_world" where
  "try_report og r w =
     (case send_report og r w of
        (None, w1) \<Rightarrow> (None, w1)
      | (Some e, w1) \<Rightarrow> send_report og (failure_report (ar_commandId r) ''RUNTIME_ERROR'' e) w1)"

text \<open>\<open>Some e\<close>: the command's execution throws.\<close>

definition execute_command :: "'s outside \<Rightarrow> polled_command \<Rightarrow> 's agent_world \<Rightarrow> string option \<times> 's agent_world" where
  "execute_command og c w =
     (case perform og c (aw_env w) of
        None \<Rightarrow> try_report og (unsupported_report c) w
      | Some (Inl e, s) \<Rightarrow> send_report og (failure_report (pc_commandId c) ''RUNTIME_ERROR'' e) (w\<lparr>aw_env := s\<rparr>)
      | Some (Inr v, s) \<Rightarrow> try_report og (success_report (pc_commandId c) v) (w\<lparr>aw_env := s\<rparr>))"

definition execute :: "'s outside \<Rightarrow> json \<Rightarrow> 's agent_world \<Rightarrow> string option \<times> 's agent_world" where
  "execute og raw w =
     (case commandSchema (og_uuid og) raw of
        None \<Rightarrow> (Some ''Invalid command'', w)
      | Some c \<Rightarrow> execute_command og c w)"

fun execute_all :: "'s outside \<Rightarrow> json list \<Rightarrow> 's agent_world \<Rightarrow> string option \<times> 's agent_world" where
  "execute_all og [] w = (None, w)"
| "execute_all og (c # cs) w =
     (case execute og c w of
        (Some e, w1) \<Rightarrow> (Some e, w1)
      | (None, w1) \<Rightarrow> execute_all og cs w1)"

end
