(* ===== verification/AgentTick.thy ===== *)
theory AgentTick
  imports AgentLoop
begin

text \<open>
  The agent's loop, second part of \<open>apps/agent/src/index.ts\<close> with \<open>batches.ts\<close>: enrolment, the heartbeat's resources, the
  pool of workers, telemetry and metrics of the assigned workloads, and one tick. The workers of \<open>mapWithConcurrency\<close> are a
  step relation; telemetry and metrics call their mapper in the order of the list. \<open>dt\<close> is \<open>toISOString\<close>. Times are
  milliseconds, byte counts and percentages exact rationals.
\<close>

subsection \<open>Identity\<close>

record agent_identity =
  id_nodeId :: string
  id_agentToken :: string

definition identitySchema :: "(string \<Rightarrow> bool) \<Rightarrow> json \<Rightarrow> agent_identity option" where
  "identitySchema zuuid j =
     Option.bind (z_object j) (\<lambda>j.
     Option.bind (z_req (z_string_where zuuid) ''nodeId'' j) (\<lambda>n.
     Option.bind (z_req (z_string_where (\<lambda>t. 32 \<le> length t)) ''agentToken'' j) (\<lambda>t.
       Some \<lparr>id_nodeId = n, id_agentToken = t\<rparr>)))"

record agent_config =
  cf_registrationToken :: "string option"
  cf_localToken :: "string option"
  cf_name :: string
  cf_hostname :: string
  cf_advertisedAddress :: "string option"
  cf_architecture :: string
  cf_os :: string

definition registration_body :: "agent_config \<Rightarrow> json" where
  "registration_body c = JObj ([if truthy (cf_registrationToken c) then (''registrationToken'', JStr (the (cf_registrationToken c)))
         else (''localToken'', JStr (or_else (cf_localToken c) [])),
       (''name'', JStr (cf_name c)), (''hostname'', JStr (cf_hostname c))]
     @ (if truthy (cf_advertisedAddress c) then [(''advertisedAddress'', JStr (the (cf_advertisedAddress c)))] else [])
     @ [(''architecture'', JStr (cf_architecture c)), (''os'', JStr (cf_os c)), (''agentVersion'', JStr ''0.1.0''),
        (''runtimes'', JArr [JStr ''container''])])"

datatype identity_outcome = Loaded agent_identity | Enrolled agent_identity | Waiting | EnrollmentFailed string

definition identity_json :: "agent_identity \<Rightarrow> json" where
  "identity_json i = JObj [(''nodeId'', JStr (id_nodeId i)), (''agentToken'', JStr (id_agentToken i))]"

definition registration_path :: "agent_config \<Rightarrow> string" where
  "registration_path c = (if truthy (cf_registrationToken c) then ''/api/agents/register'' else ''/api/agents/local/register'')"

text \<open>\<open>stored\<close> is what the identity file parses to; \<open>save\<close> writes it and may throw.\<close>

definition loadIdentity ::
  "'s outside \<Rightarrow> agent_config \<Rightarrow> json option \<Rightarrow> (json \<Rightarrow> string option) \<Rightarrow> 's \<Rightarrow> identity_outcome \<times> 's" where
  "loadIdentity og c stored save s =
     (case Option.bind stored (identitySchema (og_uuid og)) of
        Some i \<Rightarrow> (Loaded i, s)
      | None \<Rightarrow>
          if \<not> truthy (cf_registrationToken c) \<and> \<not> truthy (cf_localToken c) then (Waiting, s)
          else (case checked ''Agent registration'' (identitySchema (og_uuid og)) (og_post og (registration_path c) (registration_body c) s) of
                  (Inl e, s1) \<Rightarrow> (EnrollmentFailed e, s1)
                | (Inr i, s1) \<Rightarrow> (case save (identity_json i) of Some e \<Rightarrow> EnrollmentFailed e | None \<Rightarrow> Enrolled i, s1)))"

text \<open>The identity after at most \<open>n\<close> attempts, and whether it was enrolled just now.\<close>

fun resolveIdentity ::
  "nat \<Rightarrow> 's outside \<Rightarrow> agent_config \<Rightarrow> json option \<Rightarrow> (json \<Rightarrow> string option) \<Rightarrow> 's \<Rightarrow> (agent_identity \<times> bool) option \<times> 's" where
  "resolveIdentity 0 og c stored save s = (None, s)"
| "resolveIdentity (Suc n) og c stored save s =
     (case loadIdentity og c stored save s of
        (Loaded i, s1) \<Rightarrow> (Some (i, False), s1)
      | (Enrolled i, s1) \<Rightarrow> (Some (i, True), s1)
      | (_, s1) \<Rightarrow> resolveIdentity n og c stored save s1)"

subsection \<open>Resources\<close>

text \<open>What \<open>os\<close> and \<open>statfs\<close> tell: processors, memory, and block size, blocks and available blocks if they are known.\<close>

record host_stats =
  hs_cpus :: nat
  hs_totalmem :: nat
  hs_freemem :: nat
  hs_filesystem :: "(nat \<times> nat \<times> nat) option"

definition mib :: "nat \<Rightarrow> rat" where
  "mib n = of_nat (n div (1024 * 1024))"

definition storage_quantity :: "(nat \<times> nat \<times> nat) option \<Rightarrow> resource_quantity" where
  "storage_quantity fs =
     (case fs of
        None \<Rightarrow> \<lparr>capacity = 0, allocatable = 0, reserved = 0, usage = 0\<rparr>
      | Some (bsize, blocks, bavail) \<Rightarrow>
          \<lparr>capacity = mib (blocks * bsize), allocatable = mib (bavail * bsize), reserved = 0,
           usage = mib (blocks * bsize) - mib (bavail * bsize)\<rparr>)"

definition resources :: "host_stats \<Rightarrow> node_resources" where
  "resources h =
     \<lparr>cpuMilli = \<lparr>capacity = of_nat (hs_cpus h * 1000), allocatable = of_nat (hs_cpus h * 1000), reserved = 0, usage = 0\<rparr>,
      memoryMib = \<lparr>capacity = mib (hs_totalmem h), allocatable = mib (hs_totalmem h), reserved = 0,
        usage = of_int \<lfloor>(of_nat (hs_totalmem h) - of_nat (hs_freemem h)) / (1024 * 1024 :: rat)\<rfloor>\<rparr>,
      storageMib = storage_quantity (hs_filesystem h)\<rparr>"

definition quantity_body :: "resource_quantity \<Rightarrow> json" where
  "quantity_body q = JObj [(''capacity'', JNum (capacity q)), (''allocatable'', JNum (allocatable q)),
     (''reserved'', JNum (reserved q)), (''usage'', JNum (usage q))]"

definition heartbeat_body :: "host_stats \<Rightarrow> json" where
  "heartbeat_body h = (let r = resources h in
     JObj [(''status'', JStr ''ready''), (''resources'', JObj [(''cpuMilli'', quantity_body (cpuMilli r)),
       (''memoryMib'', quantity_body (memoryMib r)), (''storageMib'', quantity_body (storageMib r))])])"

subsection \<open>Batches and the worker pool\<close>

function batches :: "'a list \<Rightarrow> 'a list list" where
  "batches xs = (if xs = [] then [] else take 500 xs # batches (drop 500 xs))"
  by pat_completeness auto

termination batches
  by (relation "measure length") auto

declare batches.simps [simp del]

fun send_all :: "('a list \<Rightarrow> 's \<Rightarrow> (string + unit) \<times> 's) \<Rightarrow> 'a list list \<Rightarrow> 's \<Rightarrow> (string + unit) \<times> 's" where
  "send_all send [] s = (Inr (), s)"
| "send_all send (b # bs) s = and_then (send b s) (\<lambda>_. send_all send bs)"

definition sendBatches :: "'a list \<Rightarrow> ('a list \<Rightarrow> 's \<Rightarrow> (string + unit) \<times> 's) \<Rightarrow> 's \<Rightarrow> (string + unit) \<times> 's" where
  "sendBatches items send = send_all send (batches items)"

text \<open>\<open>mapWithConcurrency\<close>: the next index, the indices being worked on, the results so far. A worker takes the next
  index; a mapper finishes in any order.\<close>

record 'r pool =
  pl_next :: nat
  pl_running :: "nat set"
  pl_results :: "'r option list"

definition new_pool :: "'t list \<Rightarrow> 'r pool" where
  "new_pool items = \<lparr>pl_next = 0, pl_running = {}, pl_results = replicate (length items) None\<rparr>"

inductive pool_step :: "'t list \<Rightarrow> nat \<Rightarrow> ('t \<Rightarrow> 'r) \<Rightarrow> 'r pool \<Rightarrow> 'r pool \<Rightarrow> bool" for items limit f where
  takes: "pl_next p < length items \<Longrightarrow> card (pl_running p) < min limit (length items) \<Longrightarrow>
     pool_step items limit f p (p\<lparr>pl_next := Suc (pl_next p), pl_running := insert (pl_next p) (pl_running p)\<rparr>)"
| finishes: "i \<in> pl_running p \<Longrightarrow>
     pool_step items limit f p (p\<lparr>pl_running := pl_running p - {i}, pl_results := (pl_results p)[i := Some (f (items ! i))]\<rparr>)"

definition pool_done :: "'t list \<Rightarrow> 'r pool \<Rightarrow> bool" where
  "pool_done items p \<longleftrightarrow> length items \<le> pl_next p \<and> pl_running p = {}"

subsection \<open>Telemetry\<close>

record assignment =
  as_workloadId :: string
  as_cpuMilli :: int
  as_reportGeneration :: int

definition assignmentSchema :: "(string \<Rightarrow> bool) \<Rightarrow> json \<Rightarrow> assignment option" where
  "assignmentSchema zuuid j =
     Option.bind (z_object j) (\<lambda>j.
     Option.bind (z_req (z_string_where zuuid) ''workloadId'' j) (\<lambda>w.
     Option.bind (z_req (z_int (\<lambda>n. 0 < n)) ''cpuMilli'' j) (\<lambda>c.
     Option.bind (z_req (z_int (\<lambda>n. 0 < n)) ''reportGeneration'' j) (\<lambda>g.
       Some \<lparr>as_workloadId = w, as_cpuMilli = c, as_reportGeneration = g\<rparr>))))"

definition workloadAssignments :: "'s outside \<Rightarrow> 's \<Rightarrow> (string + assignment list) \<times> 's" where
  "workloadAssignments og s =
     checked ''Workload listing'' (z_array (assignmentSchema (og_uuid og))) (og_get og ''/api/agents/workloads'' s)"

record agent_memory =
  ag_previousCpu :: "(string \<times> int \<times> rat) list"
  ag_lastMetricsReportAt :: int
  ag_lastPortReportAt :: int

record agent_settings =
  set_metricsInterval :: int
  set_iso :: "int \<Rightarrow> string"
  set_host :: host_stats

definition state_str :: "actual_state \<Rightarrow> string" where
  "state_str a = (if a = ActRunning then ''running'' else if a = ActFailed then ''failed'' else if a = ActStopped then ''stopped'' else ''unknown'')"

definition ports_body :: "(string \<times> int) list \<Rightarrow> json" where
  "ports_body ps = JObj (map (\<lambda>(k, n). (k, JNum (of_int n))) ps)"

definition workload_report :: "(int \<Rightarrow> string) \<Rightarrow> bool \<Rightarrow> assignment \<Rightarrow> inspection \<Rightarrow> int \<Rightarrow> json" where
  "workload_report dt includePorts a i now =
     JObj ([(''workloadId'', JStr (as_workloadId a)), (''reportGeneration'', JNum (of_int (as_reportGeneration a))),
        (''actualState'', JStr (state_str (in_actualState i))), (''healthStatus'', JStr (in_healthStatus i)),
        (''observedAt'', JStr (dt now))]
      @ (if truthy (in_healthMessage i) then [(''healthMessage'', JStr (the (in_healthMessage i)))] else [])
      @ (if includePorts then [(''ports'', ports_body (in_ports i))] else []))"

fun inspect_workloads :: "'s outside \<Rightarrow> (int \<Rightarrow> string) \<Rightarrow> bool \<Rightarrow> assignment list \<Rightarrow> 's \<Rightarrow> json list \<times> 's" where
  "inspect_workloads og dt includePorts [] s = ([], s)"
| "inspect_workloads og dt includePorts (a # as) s =
     (case runtime_inspect (og_docker og) (as_workloadId a) s of
        (i, s1) \<Rightarrow> (case inspect_workloads og dt includePorts as s1 of
                     (rs, s2) \<Rightarrow> (workload_report dt includePorts a i (og_now og s1) # rs, s2)))"

definition post_batch :: "'s outside \<Rightarrow> string \<Rightarrow> string \<Rightarrow> string \<Rightarrow> json list \<Rightarrow> 's \<Rightarrow> (string + unit) \<times> 's" where
  "post_batch og what path key batch s =
     (case og_post og path (JObj [(key, JArr batch)]) s of
        (Thrown e, s1) \<Rightarrow> (Inl e, s1)
      | (Fetched status _, s1) \<Rightarrow>
          (if status < 200 \<or> 299 < status then Inl (what @ '' failed: '' @ str_int status) else Inr (), s1))"

definition reportWorkloadTelemetry ::
  "'s outside \<Rightarrow> agent_settings \<Rightarrow> assignment list \<Rightarrow> agent_memory \<Rightarrow> 's \<Rightarrow> (string + unit) \<times> agent_memory \<times> 's" where
  "reportWorkloadTelemetry og c as m s =
     (let includePorts = (set_metricsInterval c \<le> og_now og s - ag_lastPortReportAt m);
          (reports, s1) = inspect_workloads og (set_iso c) includePorts as s in
      case sendBatches reports (post_batch og ''Workload telemetry report'' ''/api/agents/workloads/telemetry'' ''reports'') s1 of
        (Inl e, s2) \<Rightarrow> (Inl e, m, s2)
      | (Inr _, s2) \<Rightarrow> (Inr (), if includePorts then m\<lparr>ag_lastPortReportAt := og_now og s2\<rparr> else m, s2))"

subsection \<open>Metrics\<close>

text \<open>Previous readings by workload: time and total; \<open>now\<close> in milliseconds.\<close>

type_synonym cpu_readings = "(string \<times> int \<times> rat) list"

definition cpu_percent :: "int \<Rightarrow> int \<Rightarrow> (int \<times> rat) option \<Rightarrow> rat \<Rightarrow> rat option" where
  "cpu_percent now milli previous nanos =
     (case previous of
        None \<Rightarrow> None
      | Some (time, before) \<Rightarrow>
          if (now - time) * 1000000 > 0
          then Some (max 0 (max 0 (nanos - before) / of_int ((now - time) * 1000000) / (of_int milli / 1000) * 100))
          else None)"

definition forget_unassigned :: "assignment list \<Rightarrow> cpu_readings \<Rightarrow> cpu_readings" where
  "forget_unassigned as previous = filter (\<lambda>(w, _). w \<in> as_workloadId ` set as) previous"

definition sample_json :: "(int \<Rightarrow> string) \<Rightarrow> string \<Rightarrow> int \<Rightarrow> rat option \<Rightarrow> runtime_stats \<Rightarrow> json" where
  "sample_json dt w now cpu st =
     JObj [(''workloadId'', JStr w), (''recordedAt'', JStr (dt now)),
       (''cpuUsagePercent'', case cpu of None \<Rightarrow> JNull | Some p \<Rightarrow> JNum p),
       (''memoryUsageBytes'', JNum (rs_memoryUsageBytes st)),
       (''memoryLimitBytes'', case rs_memoryLimitBytes st of None \<Rightarrow> JNull | Some l \<Rightarrow> JNum l),
       (''networkRxBytes'', JNum (rs_networkRxBytes st)), (''networkTxBytes'', JNum (rs_networkTxBytes st)),
       (''diskReadBytes'', JNum (rs_diskReadBytes st)), (''diskWriteBytes'', JNum (rs_diskWriteBytes st))]"

fun sample_workloads ::
  "'s outside \<Rightarrow> (int \<Rightarrow> string) \<Rightarrow> int \<Rightarrow> assignment list \<Rightarrow> cpu_readings \<Rightarrow> 's \<Rightarrow> (string + json list) \<times> cpu_readings \<times> 's" where
  "sample_workloads og dt now [] previous s = (Inr [], previous, s)"
| "sample_workloads og dt now (a # as) previous s =
     (case runtime_metrics (og_docker og) (as_workloadId a) s of
        (Inl e, s1) \<Rightarrow> (Inl e, previous, s1)
      | (Inr None, s1) \<Rightarrow> sample_workloads og dt now as previous s1
      | (Inr (Some st), s1) \<Rightarrow>
          (let w = as_workloadId a; cpu = cpu_percent now (as_cpuMilli a) (map_of previous w) (rs_cpuTotalUsageNanos st);
               previous1 = AList.update w (now, rs_cpuTotalUsageNanos st) previous in
           case sample_workloads og dt now as previous1 s1 of
             (Inl e, r) \<Rightarrow> (Inl e, r)
           | (Inr js, r) \<Rightarrow> (Inr (sample_json dt w now cpu st # js), r)))"

definition reportWorkloadMetrics ::
  "'s outside \<Rightarrow> agent_settings \<Rightarrow> assignment list \<Rightarrow> agent_memory \<Rightarrow> 's \<Rightarrow> (string + unit) \<times> agent_memory \<times> 's" where
  "reportWorkloadMetrics og c as m s =
     (let now = og_now og s in
      if now - ag_lastMetricsReportAt m < set_metricsInterval c then (Inr (), m, s)
      else (case sample_workloads og (set_iso c) now as (forget_unassigned as (ag_previousCpu m)) s of
              (Inl e, previous, s1) \<Rightarrow> (Inl e, m\<lparr>ag_previousCpu := previous\<rparr>, s1)
            | (Inr [], previous, s1) \<Rightarrow>
                (Inr (), m\<lparr>ag_previousCpu := previous, ag_lastMetricsReportAt := og_now og s1\<rparr>, s1)
            | (Inr samples, previous, s1) \<Rightarrow>
                (case sendBatches samples (post_batch og ''Workload metrics report'' ''/api/agents/workloads/metrics'' ''samples'') s1 of
                   (Inl e, s2) \<Rightarrow> (Inl e, m\<lparr>ag_previousCpu := previous\<rparr>, s2)
                 | (Inr _, s2) \<Rightarrow> (Inr (), m\<lparr>ag_previousCpu := previous, ag_lastMetricsReportAt := og_now og s2\<rparr>, s2))))"

subsection \<open>Ticks\<close>

definition raw_commands :: "json \<Rightarrow> json list option" where
  "raw_commands = z_array Some"

definition tick ::
  "'s outside \<Rightarrow> agent_settings \<Rightarrow> agent_memory \<Rightarrow> 's agent_world \<Rightarrow> string option \<times> agent_memory \<times> 's agent_world" where
  "tick og c m w =
     (case og_post og ''/api/agents/heartbeat'' (heartbeat_body (set_host c)) (aw_env w) of
        (Thrown e, s1) \<Rightarrow> (Some e, m, w\<lparr>aw_env := s1\<rparr>)
      | (Fetched _ _, s1) \<Rightarrow>
     (case checked ''Command poll'' raw_commands (og_get og ''/api/agents/commands'' s1) of
        (Inl e, s2) \<Rightarrow> (Some e, m, w\<lparr>aw_env := s2\<rparr>)
      | (Inr commands, s2) \<Rightarrow>
     (case execute_all og commands (w\<lparr>aw_env := s2\<rparr>) of
        (Some e, w1) \<Rightarrow> (Some e, m, w1)
      | (None, w1) \<Rightarrow>
     (case workloadAssignments og (aw_env w1) of
        (Inl e, s3) \<Rightarrow> (Some e, m, w1\<lparr>aw_env := s3\<rparr>)
      | (Inr as, s3) \<Rightarrow>
     (case reportWorkloadTelemetry og c as m s3 of
        (Inl e, m1, s4) \<Rightarrow> (Some e, m1, w1\<lparr>aw_env := s4\<rparr>)
      | (Inr _, m1, s4) \<Rightarrow>
     (case reportWorkloadMetrics og c as m1 s4 of
        (_, m2, s5) \<Rightarrow> (None, m2, w1\<lparr>aw_env := s5\<rparr>)))))))"

text \<open>\<open>runTick\<close>: the timer fires while a tick may still be running; errors end the tick only.\<close>

record tick_state =
  tk_inFlight :: bool
  tk_running :: nat

inductive tick_step :: "tick_state \<Rightarrow> tick_state \<Rightarrow> bool" where
  skips: "tk_inFlight t \<Longrightarrow> tick_step t t"
| starts: "\<not> tk_inFlight t \<Longrightarrow> tick_step t (t\<lparr>tk_inFlight := True, tk_running := Suc (tk_running t)\<rparr>)"
| ends: "0 < tk_running t \<Longrightarrow> tick_step t (t\<lparr>tk_inFlight := False, tk_running := tk_running t - 1\<rparr>)"

end
