(* ===== verification/RuntimeProperties.thy ===== *)
theory RuntimeProperties
  imports AgentTick
begin

text \<open>
  Properties of the node agent: the frames of Docker's log stream, the errors of the container runtime, the reports a
  command sends, batches, the pool of workers, and ticks.
\<close>

subsection \<open>Log frames\<close>

text \<open>A frame as the engine writes it: the stream, three zero bytes, the size (big endian), the payload.\<close>

definition be32 :: "nat \<Rightarrow> string" where
  "be32 n = map char_of [n div 16777216 mod 256, n div 65536 mod 256, n div 256 mod 256, n mod 256]"

definition docker_frame :: "char \<times> string \<Rightarrow> string" where
  "docker_frame f = [fst f, char_of (0::nat), char_of (0::nat), char_of (0::nat)] @ be32 (length (snd f)) @ snd f"

lemma u32be_be32:
  assumes "n < 4294967296"
  shows "u32be (be32 n) = n"
proof -
  have parts: "n = 256 * (n div 256) + n mod 256" "n div 256 = 256 * (n div 65536) + n div 256 mod 256"
    "n div 65536 = 256 * (n div 16777216) + n div 65536 mod 256"
    using div_mult2_eq [of n 256 256] div_mult2_eq [of n 65536 256] by simp_all
  have top: "code_of (char_of (n div 16777216 mod 256)) = n div 16777216"
    using assms by (simp only: code_of_char_of mod_less_divisor zero_less_numeral) simp
  have "u32be (be32 n)
      = 256 * (256 * (256 * (n div 16777216) + n div 65536 mod 256) + n div 256 mod 256) + n mod 256"
    by (simp only: u32be_def be32_def list.map foldl.simps top code_of_char_of mod_less_divisor zero_less_numeral mult_0_right
        add_0_left)
  also have "\<dots> = n" by (simp only: parts [symmetric])
  finally show ?thesis .
qed

lemma log_frames_short: "length d < 8 \<Longrightarrow> log_frames d = Some []"
  by (simp add: log_frames.simps)

lemma log_frames_frame:
  assumes "length (snd f) < 4294967296"
  shows "log_frames (docker_frame f @ rest) = map_option ((#) (snd f)) (log_frames rest)"
proof -
  have size: "u32be (take 4 (drop 4 (docker_frame f @ rest))) = length (snd f)"
    using u32be_be32 [OF assms] by (simp add: docker_frame_def be32_def)
  have len: "length (docker_frame f @ rest) = 8 + length (snd f) + length rest"
    by (simp add: docker_frame_def be32_def)
  have eight: "drop 8 (docker_frame f @ rest) = snd f @ rest"
    by (simp add: docker_frame_def be32_def)
  have after: "drop (8 + length (snd f)) (docker_frame f @ rest) = rest"
    unfolding add.commute [of 8] drop_drop [symmetric] eight by simp
  show ?thesis
    by (subst log_frames.simps) (simp only: size len eight after Let_def, simp add: comp_def)
qed

lemma log_frames_stream:
  assumes "\<forall>f \<in> set fs. length (snd f) < 4294967296" and "length rest < 8"
  shows "log_frames (concat (map docker_frame fs) @ rest) = Some (map snd fs)"
  using assms(1)
proof (induction fs)
  case Nil
  show ?case using assms(2) by (simp add: log_frames_short)
next
  case (Cons f fs)
  then show ?case using log_frames_frame [of f "concat (map docker_frame fs) @ rest"] by simp
qed

text \<open>The decoder of Docker's multiplexed log stream gives back, in order, the payload of every frame the engine
  wrote, whatever the streams they belong to; a header cut off at the end (fewer than eight bytes) is dropped.\<close>

theorem log_stream_decoded:
  assumes "fs \<noteq> []" and "\<forall>f \<in> set fs. length (snd f) < 4294967296" and "length rest < 8"
  shows "decodeDockerLogFrames utf8 (concat (map docker_frame fs) @ rest) = concat (map (\<lambda>f. utf8 (snd f)) fs)"
  using assms by (simp add: decodeDockerLogFrames_def log_frames_stream comp_def)

lemma log_stream_decoded_witness:
  "decodeDockerLogFrames id (concat (map docker_frame [(CHR 0x01, ''up''), (CHR 0x02, ''warn'')]) @ [CHR 0x01]) = ''upwarn''"
  using log_stream_decoded [of "[(CHR 0x01, ''up''), (CHR 0x02, ''warn'')]" "[CHR 0x01]" id] by simp

subsection \<open>Errors of the runtime\<close>

lemma collect_chunks_within:
  "length out + length (concat cs) \<le> limit \<Longrightarrow> collect_chunks limit out cs = Some (out @ concat cs)"
  by (induction cs arbitrary: out) auto

lemma collect_chunks_bounded: "collect_chunks limit out cs = Some v \<Longrightarrow> length out \<le> limit \<Longrightarrow> length v \<le> limit"
  by (induction cs arbitrary: out) (auto split: if_splits)

lemma request_refused:
  assumes "dk_send d meth path body header s = (Answered status chunks, s1)" and "300 \<le> status"
    and "length (concat chunks) \<le> MAX_DOCKER_JSON_RESPONSE_BYTES"
  shows "docker_request d discard header meth path body s = (Inl (api_error status (concat chunks)), s1)"
  using assms by (simp add: docker_request_def collect_chunks_within)

lemma includes_str_append: "includes_str p b \<Longrightarrow> includes_str p (a @ b)"
  by (induction a) auto

lemma api_error_includes: "includes_str p v \<Longrightarrow> v \<noteq> [] \<Longrightarrow> includes_str p (api_error status v)"
  using includes_str_append [of p v "''Docker API '' @ str_int status @ '': ''"] by (simp add: api_error_def)

text \<open>A failing engine is taken for a stopped container. Whatever the status of the engine's error, when its message
  contains the digits 404 (the name of the container, an address, an identifier) \<open>inspect\<close> answers that the container is
  stopped and \<open>metrics\<close> that there are none, instead of an unknown state and an error.\<close>

theorem error_taken_for_missing:
  assumes "300 \<le> status" and "includes_str ''404'' message" and "length message \<le> MAX_DOCKER_JSON_RESPONSE_BYTES"
    and "\<And>meth path body header. dk_send d meth path body header s = (Answered status [message], s1)"
  shows "in_actualState (fst (runtime_inspect d w s)) = ActStopped \<and> fst (runtime_metrics d w s) = Inr None"
proof -
  have ne: "message \<noteq> []" using assms(2) by (auto simp: starts_with_def)
  have sent: "simple_request d ''GET'' path None s = (Inl (api_error status message), s1)" for path
    using request_refused [OF assms(4,1)] assms(3) by simp
  have "includes_str ''404'' (api_error status message)"
    using assms(2) ne by (rule api_error_includes)
  then show ?thesis
    by (simp add: runtime_inspect_def runtime_metrics_def unknown_inspection_def sent)
qed

definition failing_docker :: "int \<Rightarrow> string \<Rightarrow> nat docker" where
  "failing_docker status message = \<lparr>dk_send = (\<lambda>_ _ _ _ s. (Answered status [message], Suc s)), dk_parse = (\<lambda>_. None),
     dk_uri = id, dk_auth = (\<lambda>_. []), dk_utf8 = id\<rparr>"

lemma error_taken_for_missing_witness:
  "in_actualState (fst (runtime_inspect (failing_docker 500 ''container devion-workload-404a is restarting'') ''404a'' 0)) = ActStopped"
  using error_taken_for_missing [of 500 "''container devion-workload-404a is restarting''"
      "failing_docker 500 ''container devion-workload-404a is restarting''" 0 1 "''404a''"]
  by (simp add: failing_docker_def MAX_DOCKER_JSON_RESPONSE_BYTES_def starts_with_def)

text \<open>Stopping a container that is not running: the engine answers 304 without a body.\<close>

lemma stop_stopped_fails:
  assumes "\<And>path. dk_send d ''POST'' path None None s = (Answered 304 [], s1)"
  shows "runtime_stop d w g s = (Inl ''Docker API 304: request failed'', s1)"
proof -
  have "str_int 304 = ''304''" by code_simp
  then show ?thesis
    using request_refused [OF assms, of False] by (simp add: runtime_stop_def api_error_def)
qed

subsection \<open>Reports of a command\<close>

definition reported :: "'s agent_world \<Rightarrow> (agent_report \<times> bool) list \<Rightarrow> string \<Rightarrow> string option \<times> 's agent_world \<Rightarrow> bool" where
  "reported w rs i r \<longleftrightarrow> aw_sent (snd r) = aw_sent w @ rs \<and> rs \<noteq> [] \<and> length rs \<le> 2 \<and> (\<forall>q \<in> set rs. ar_commandId (fst q) = i)
     \<and> (snd (last rs) \<longleftrightarrow> fst r = None) \<and> (\<forall>q \<in> set (butlast rs). \<not> snd q)"

lemma send_report_cases:
  obtains e s where "send_report og r w = (Some e, w\<lparr>aw_env := s, aw_sent := aw_sent w @ [(r, False)]\<rparr>)"
  | s where "send_report og r w = (None, w\<lparr>aw_env := s, aw_sent := aw_sent w @ [(r, True)]\<rparr>)"
proof -
  obtain a s where "og_post og ''/api/agents/commands/results'' (report_body r) (aw_env w) = (a, s)" by (rule prod.exhaust)
  with that show ?thesis by (cases a) (auto simp: send_report_def)
qed

lemma send_report_reported:
  "\<exists>rs. reported w rs (ar_commandId r) (send_report og r (w\<lparr>aw_env := s\<rparr>)) \<and> length rs = 1"
  by (rule send_report_cases [of og r "w\<lparr>aw_env := s\<rparr>"]) (auto simp: reported_def)

lemma try_report_reported: "\<exists>rs. reported w rs (ar_commandId r) (try_report og r (w\<lparr>aw_env := s\<rparr>))"
proof (rule send_report_cases [of og r "w\<lparr>aw_env := s\<rparr>"])
  fix t assume "send_report og r (w\<lparr>aw_env := s\<rparr>) = (None, w\<lparr>aw_env := s, aw_env := t, aw_sent := aw_sent (w\<lparr>aw_env := s\<rparr>) @ [(r, True)]\<rparr>)"
  then show ?thesis by (auto simp: try_report_def reported_def)
next
  fix e t
  let ?w1 = "w\<lparr>aw_env := s, aw_env := t, aw_sent := aw_sent (w\<lparr>aw_env := s\<rparr>) @ [(r, False)]\<rparr>"
  assume first: "send_report og r (w\<lparr>aw_env := s\<rparr>) = (Some e, ?w1)"
  show ?thesis
    by (rule send_report_cases [of og "failure_report (ar_commandId r) ''RUNTIME_ERROR'' e" ?w1])
      (auto simp: try_report_def first reported_def failure_report_def)
qed

lemma report_ids [simp]:
  "ar_commandId (failure_report i code m) = i" "ar_commandId (success_report i v) = i"
  "ar_commandId (unsupported_report c) = pc_commandId c"
  by (simp_all add: failure_report_def success_report_def unsupported_report_def)

text \<open>Whatever a command does, the agent sends one or two reports, all about this command. At most one of them gets
  through, and it is the last: the execution throws exactly when none got through.\<close>

theorem command_reported_once:
  "\<exists>rs. reported w rs (pc_commandId c) (execute_command og c w)"
proof (cases "perform og c (aw_env w)")
  case None
  then show ?thesis using try_report_reported [of w "unsupported_report c" og "aw_env w"]
    by (simp add: execute_command_def)
next
  case (Some r)
  obtain v s where r: "r = (v, s)" by (cases r)
  show ?thesis
  proof (cases v)
    case (Inl e)
    then show ?thesis using send_report_reported [of w "failure_report (pc_commandId c) ''RUNTIME_ERROR'' e" og s] Some r
      by (auto simp: execute_command_def)
  next
    case (Inr d)
    then show ?thesis using try_report_reported [of w "success_report (pc_commandId c) d" og s] Some r
      by (simp add: execute_command_def)
  qed
qed

subsection \<open>Batches\<close>

lemma concat_batches: "concat (batches xs) = xs"
  by (induction xs rule: batches.induct) (subst batches.simps, simp)

lemma batch_length: "b \<in> set (batches xs) \<Longrightarrow> 0 < length b \<and> length b \<le> 500"
  by (induction xs rule: batches.induct) (subst (asm) (2) batches.simps, auto split: if_splits)

lemma length_batches: "length (batches xs) = (length xs + 499) div 500"
proof (induction xs rule: batches.induct)
  case (1 xs)
  show ?case
  proof (cases "xs = []")
    case False
    then have "length (batches xs) = Suc ((length xs - 500 + 499) div 500)" and "0 < length xs"
      using 1 [OF False] by (subst batches.simps, simp_all)
    then show ?thesis by (cases "length xs \<le> 500") (simp_all add: div_if)
  qed (simp add: batches.simps)
qed

lemma send_all_record: "send_all (\<lambda>b s. (Inr (), s @ [b])) bs s = (Inr (), s @ bs)"
  by (induction bs arbitrary: s) (simp_all add: and_then_def)

text \<open>\<open>sendBatches\<close> sends every item once and in order, in the fewest batches of at most the 500 items the control
  plane takes, and no empty batch.\<close>

theorem batches_partition:
  "sendBatches items (\<lambda>b s. (Inr (), s @ [b])) [] = (Inr (), batches items) \<and> concat (batches items) = items
   \<and> (\<forall>b \<in> set (batches items). 0 < length b \<and> length b \<le> 500) \<and> length (batches items) = (length items + 499) div 500"
  by (simp add: sendBatches_def send_all_record concat_batches length_batches) (blast dest: batch_length)

lemma batches_partition_witness: "concat (batches (replicate 501 True)) = replicate 501 True"
  using batches_partition [of "replicate 501 True"] by blast

subsection \<open>The worker pool\<close>

definition pool_inv :: "'t list \<Rightarrow> nat \<Rightarrow> ('t \<Rightarrow> 'r) \<Rightarrow> 'r pool \<Rightarrow> bool" where
  "pool_inv items limit f p \<longleftrightarrow> pl_next p \<le> length items \<and> pl_running p \<subseteq> {..<pl_next p}
     \<and> card (pl_running p) \<le> min limit (length items) \<and> length (pl_results p) = length items
     \<and> (\<forall>i < length items. pl_results p ! i = (if i < pl_next p \<and> i \<notin> pl_running p then Some (f (items ! i)) else None))"

lemma new_pool_inv: "pool_inv items limit f (new_pool items)"
  by (simp add: pool_inv_def new_pool_def)

lemma pool_step_inv: "pool_step items limit f p q \<Longrightarrow> pool_inv items limit f p \<Longrightarrow> pool_inv items limit f q"
proof (induction rule: pool_step.induct)
  case (takes p)
  from takes.prems have "pl_next p \<notin> pl_running p" "finite (pl_running p)"
    by (auto simp: pool_inv_def intro: finite_subset)
  with takes show ?case by (auto simp: pool_inv_def less_Suc_eq)
next
  case (finishes i p)
  from finishes.prems have fin: "finite (pl_running p)" by (auto simp: pool_inv_def intro: finite_subset)
  have "card (pl_running p - {i}) \<le> card (pl_running p)" using fin by (intro card_mono) auto
  with finishes show ?case by (auto simp: pool_inv_def nth_list_update)
qed

lemma pool_reachable_inv: "(pool_step items limit f)\<^sup>*\<^sup>* (new_pool items) p \<Longrightarrow> pool_inv items limit f p"
  by (induction rule: rtranclp_induct) (auto intro: new_pool_inv pool_step_inv)

definition pool_measure :: "'t list \<Rightarrow> 'r pool \<Rightarrow> nat" where
  "pool_measure items p = 2 * (length items - pl_next p) + card (pl_running p)"

lemma pool_step_decreases:
  assumes "pool_step items limit f p q" and "pool_inv items limit f p"
  shows "pool_measure items q < pool_measure items p"
  using assms
proof (induction rule: pool_step.induct)
  case (takes p)
  then have "pl_next p \<notin> pl_running p" "finite (pl_running p)" by (auto simp: pool_inv_def intro: finite_subset)
  with takes.hyps show ?case by (simp add: pool_measure_def)
next
  case (finishes i p)
  then have "finite (pl_running p)" by (auto simp: pool_inv_def intro: finite_subset)
  with finishes.hyps have "card (pl_running p - {i}) < card (pl_running p)" by (intro psubset_card_mono) auto
  then show ?case by (simp add: pool_measure_def)
qed

lemma pool_progress:
  assumes "pool_inv items limit f p" and "0 < limit" and "\<not> pool_done items p"
  shows "\<exists>q. pool_step items limit f p q"
proof (cases "pl_running p = {}")
  case True
  with assms have "pl_next p < length items" "card (pl_running p) < min limit (length items)" by (auto simp: pool_done_def)
  then show ?thesis by (blast intro: pool_step.takes)
next
  case False
  then show ?thesis by (blast intro: pool_step.finishes)
qed



subsection \<open>Metrics and ticks\<close>

lemma cpu_percent_nonneg: "cpu_percent now milli previous nanos = Some p \<Longrightarrow> 0 \<le> p"
  by (auto simp: cpu_percent_def split: option.splits if_splits)

text \<open>A workload that used its whole share for the whole interval is at one hundred percent.\<close>

lemma cpu_percent_full:
  assumes "t < now" and "0 < milli"
  shows "cpu_percent now milli (Some (t, b)) (b + of_int ((now - t) * 1000000) * (of_int milli / 1000)) = Some 100"
proof -
  have "(0::rat) < of_int ((now - t) * 1000000)" "(0::rat) < of_int milli" using assms by simp_all
  then show ?thesis using assms by (simp add: cpu_percent_def field_simps)
qed

lemma sample_workloads_fails:
  assumes "a \<in> set as" and "\<And>s. \<exists>e. fst (runtime_metrics (og_docker og) (as_workloadId a) s) = Inl e"
  shows "\<exists>e. fst (sample_workloads og dt now as previous s) = Inl e"
  using assms(1)
proof (induction "as" arbitrary: previous s)
  case (Cons b as)
  obtain v s1 where r: "runtime_metrics (og_docker og) (as_workloadId b) s = (v, s1)" by (rule prod.exhaust)
  show ?case
  proof (cases v)
    case (Inr st)
    with assms(2) [of s] r have "b \<noteq> a" by auto
    with Cons.prems have "a \<in> set as" by simp
    from Cons.IH [OF this] Inr r show ?thesis
      by (cases st) (auto simp: Let_def split: prod.splits sum.splits, metis fst_conv sum.distinct(1))
  qed (simp add: r)
qed simp

text \<open>When the statistics of one assigned workload cannot be read, the metrics of every workload of the node are lost:
  nothing is sent, and the time of the last report stays, so the next tick asks again instead of the next interval.\<close>

theorem stats_failure_drops_all:
  assumes "a \<in> set as" and "\<And>s. \<exists>e. fst (runtime_metrics (og_docker og) (as_workloadId a) s) = Inl e"
    and "set_metricsInterval c \<le> og_now og s - ag_lastMetricsReportAt m"
  shows "\<exists>e. fst (reportWorkloadMetrics og c as m s) = Inl e
    \<and> ag_lastMetricsReportAt (fst (snd (reportWorkloadMetrics og c as m s))) = ag_lastMetricsReportAt m"
proof -
  obtain e r where "sample_workloads og (set_iso c) (og_now og s) as (forget_unassigned as (ag_previousCpu m)) s = (Inl e, r)"
    using sample_workloads_fails [OF assms(1,2)] by (metis prod.collapse)
  then show ?thesis using assms(3) by (cases r) (simp add: reportWorkloadMetrics_def Let_def)
qed

definition failing_outside :: "nat outside" where
  "failing_outside = \<lparr>og_docker = failing_docker 500 ''busy'', og_get = (\<lambda>_ s. (Thrown ''down'', s)),
     og_post = (\<lambda>_ _ s. (Fetched 200 None, s)), og_now = int, og_uuid = (\<lambda>_. True)\<rparr>"

lemma failing_metrics: "fst (runtime_metrics (failing_docker 500 ''busy'') w s) = Inl ''Docker API 500: busy''"
proof -
  have "api_error 500 ''busy'' = ''Docker API 500: busy''" by code_simp
  then show ?thesis
    using request_refused [of "failing_docker 500 ''busy''" "''GET''" _ None None s 500 "[''busy'']" "Suc s" False]
    by (simp add: failing_docker_def runtime_metrics_def MAX_DOCKER_JSON_RESPONSE_BYTES_def starts_with_def)
qed

definition sample_stats :: host_stats where
  "sample_stats = \<lparr>hs_cpus = 2, hs_totalmem = 4294967296, hs_freemem = 1073741824, hs_filesystem = Some (4096, 1000000, 400000)\<rparr>"

lemma stats_failure_drops_all_witness:
  "\<exists>e. fst (reportWorkloadMetrics failing_outside \<lparr>set_metricsInterval = 30000, set_iso = (\<lambda>_. []), set_host = sample_stats\<rparr>
      [\<lparr>as_workloadId = ''w1'', as_cpuMilli = 100, as_reportGeneration = 1\<rparr>]
      \<lparr>ag_previousCpu = [], ag_lastMetricsReportAt = 0, ag_lastPortReportAt = 0\<rparr> 30000) = Inl e"
  using stats_failure_drops_all [of "\<lparr>as_workloadId = ''w1'', as_cpuMilli = 100, as_reportGeneration = 1\<rparr>"
      "[\<lparr>as_workloadId = ''w1'', as_cpuMilli = 100, as_reportGeneration = 1\<rparr>]" failing_outside
      "\<lparr>set_metricsInterval = 30000, set_iso = (\<lambda>_. []), set_host = sample_stats\<rparr>" 30000
      "\<lparr>ag_previousCpu = [], ag_lastMetricsReportAt = 0, ag_lastPortReportAt = 0\<rparr>"]
  by (simp add: failing_outside_def failing_metrics)

text \<open>Ticks never overlap.\<close>

lemma tick_steps_inv:
  "tick_step\<^sup>*\<^sup>* \<lparr>tk_inFlight = False, tk_running = 0\<rparr> t \<Longrightarrow> tk_running t = (if tk_inFlight t then 1 else 0)"
  by (induction rule: rtranclp_induct) (auto elim!: tick_step.cases split: if_splits)

end
