(* ===== verification/AgentExchange.thy ===== *)
theory AgentExchange
  imports RuntimeProperties AgentProperties
begin

text \<open>
  The agent of \<open>apps/agent\<close> talking to the control plane of \<open>apps/api/src/routes/nodes.routes.ts\<close>: the requests of the one
  are answered by the handlers of the other, and the Docker engine keeps a state of its own. What one side sends, the other
  has to accept.
\<close>

subsection \<open>The link\<close>

text \<open>The body of the poll's answer.\<close>

definition command_json :: "(int \<Rightarrow> string) \<Rightarrow> agent_command \<Rightarrow> json" where
  "command_json dt c = JObj ([(''commandId'', JStr (c_id c)), (''type'', JStr (c_type c)), (''timestamp'', JStr (dt (c_createdAt c))),
     (''resourceId'', JStr (c_resourceId c)), (''payload'', c_payload c)]
     @ jopt ''deadline'' (map_option (\<lambda>t. JStr (dt t)) (c_deadlineAt c)))"

definition poll_body :: "(int \<Rightarrow> string) \<Rightarrow> agent_command list \<Rightarrow> json" where
  "poll_body dt cs = JArr (map (command_json dt) cs)"

definition listing_body :: "(string \<times> int option \<times> int) list \<Rightarrow> json" where
  "listing_body ws = JArr (map (\<lambda>(w, cpu, g). JObj [(''workloadId'', JStr w),
     (''cpuMilli'', case cpu of None \<Rightarrow> JNull | Some n \<Rightarrow> JNum (of_int n)), (''reportGeneration'', JNum (of_int g))]) ws)"

definition answer_of :: "exn + response \<Rightarrow> fetch_answer" where
  "answer_of r = (case r of Inl _ \<Rightarrow> Fetched 500 None | Inr (Reply n j) \<Rightarrow> Fetched n (Some j)
     | Inr (Problem n m) \<Rightarrow> Fetched n (Some (JObj [(''error'', JStr m)])) | Inr NoContent \<Rightarrow> Fetched 204 None)"

definition linked_get ::
  "host \<Rightarrow> agent_host \<Rightarrow> string option \<Rightarrow> (int \<Rightarrow> string) \<Rightarrow> string \<Rightarrow> cp \<times> 'e \<Rightarrow> fetch_answer \<times> cp \<times> 'e" where
  "linked_get h a auth dt path s =
     (if path = ''/api/agents/commands''
      then (case poll_commands a id auth (fst s) of
              (Inl r, s1) \<Rightarrow> (answer_of (Inr r), s1, snd s)
            | (Inr cs, s1) \<Rightarrow> (Fetched 200 (Some (poll_body dt cs)), s1, snd s))
      else if path = ''/api/agents/workloads''
      then (case agent_workloads a auth (fst s) of Inl r \<Rightarrow> answer_of (Inr r) | Inr ws \<Rightarrow> Fetched 200 (Some (listing_body ws)), s)
      else (case split_on CHR ''/'' path of
              [_, _, _, _, w, k] \<Rightarrow>
                if k = ''secrets'' then answer_of (workload_secrets h a auth w (fst s))
                else if k = ''registry-credentials'' then answer_of (workload_registry_credentials a auth w (fst s))
                else Fetched 404 None
            | _ \<Rightarrow> Fetched 404 None, s))"

definition linked_post ::
  "host \<Rightarrow> agent_host \<Rightarrow> string option \<Rightarrow> string \<Rightarrow> json \<Rightarrow> cp \<times> 'e \<Rightarrow> fetch_answer \<times> cp \<times> 'e" where
  "linked_post h a auth path body s =
     (case (if path = ''/api/agents/commands/results'' then command_results h a auth (Some body) (fst s)
            else if path = ''/api/agents/heartbeat'' then heartbeat a auth (Some body) (fst s)
            else if path = ''/api/agents/workloads/telemetry'' then telemetry h a auth (Some body) (fst s)
            else if path = ''/api/agents/workloads/metrics'' then report_metrics h a auth (Some body) (fst s)
            else (Inr (Problem 404 ''Not found''), fst s)) of
        (r, s1) \<Rightarrow> (answer_of r, s1, snd s))"

definition linked_docker :: "'e docker \<Rightarrow> (cp \<times> 'e) docker" where
  "linked_docker d = \<lparr>dk_send = (\<lambda>meth path body header s. map_prod id (Pair (fst s)) (dk_send d meth path body header (snd s))),
     dk_parse = dk_parse d, dk_uri = dk_uri d, dk_auth = dk_auth d, dk_utf8 = dk_utf8 d\<rparr>"

definition linked :: "host \<Rightarrow> agent_host \<Rightarrow> string option \<Rightarrow> (int \<Rightarrow> string) \<Rightarrow> 'e docker \<Rightarrow> (cp \<times> 'e) outside" where
  "linked h a auth dt d = \<lparr>og_docker = linked_docker d, og_get = linked_get h a auth dt, og_post = linked_post h a auth,
     og_now = (\<lambda>s. clock (fst s)), og_uuid = h_zodUuid h\<rparr>"

subsection \<open>Requests to the engine leave the rest alone\<close>

locale engine_frame =
  fixes d :: "'s docker" and view :: "'s \<Rightarrow> 'v"
  assumes view_send: "view (snd (dk_send d meth path body header s)) = view s"
begin

lemma view_request: "view (snd (docker_request d discard header meth path body s)) = view s"
  using view_send [of meth path body header s]
  by (auto simp: docker_request_def split: prod.split docker_answer.split option.split)

lemma view_raw: "view (snd (requestRaw d meth path body s)) = view s"
  using view_send [of meth path body None s]
  by (auto simp: requestRaw_def split: prod.split docker_answer.split option.split)

lemma view_remove: "view (snd (removeIfPresent d name s)) = view s"
  using view_request [of False None "''DELETE''" _ None s]
  by (auto simp: removeIfPresent_def split: prod.split sum.split) (metis snd_conv)+

lemma view_chain: "view (snd (request_chain d rs s)) = view s"
proof (induction rs arbitrary: s)
  case (Cons r rs)
  obtain discard header meth path body where r: "r = (discard, header, meth, path, body)" by (metis prod_cases5)
  obtain v t where t: "docker_request d discard header meth path body s = (v, t)" by (rule prod.exhaust)
  with view_request [of discard header meth path body s] have "view t = view s" by simp
  then show ?case using Cons [of t] by (simp add: r t split: sum.split)
qed simp

lemma view_find: "view (snd (find_running d name s)) = view s"
proof -
  obtain v t where t: "simple_request d ''GET'' (container_path d name ''/json'') None s = (v, t)" by (rule prod.exhaust)
  obtain u q where q: "removeIfPresent d name t = (u, q)" by (rule prod.exhaust)
  have "view t = view s" "view q = view t" using view_request view_remove t q by (metis snd_conv)+
  then show ?thesis by (simp add: find_running_def t q split: sum.split)
qed

lemma view_start: "view (snd (runtime_start d c s)) = view s"
proof -
  obtain v t where t: "find_running d (container_name (cs_workloadId c)) s = (v, t)" by (rule prod.exhaust)
  obtain u q where q: "request_chain d (start_requests d c) t = (u, q)" by (rule prod.exhaust)
  obtain x p where p: "simple_request d ''GET'' (container_path d (container_name (cs_workloadId c)) ''/json'') None q = (x, p)"
    by (rule prod.exhaust)
  have "view t = view s" "view q = view t" "view p = view q" using view_find view_chain view_request t q p by (metis snd_conv)+
  then show ?thesis by (simp add: runtime_start_def Let_def t q p split: sum.split option.split)
qed

lemma view_stop: "view (snd (runtime_stop d w g s)) = view s"
  using view_request [of False None "''POST''" _ None s]
  by (auto simp: runtime_stop_def split: prod.split sum.split) (metis snd_conv)+

lemma view_volume: "view (snd (removeVolume d name s)) = view s"
  using view_request [of False None "''DELETE''" _ None s]
  by (auto simp: removeVolume_def split: prod.split sum.split) (metis snd_conv)+

lemma view_logs: "view (snd (runtime_logs d w n s)) = view s"
  using view_raw [of "''GET''" _ None s]
  by (auto simp: runtime_logs_def split: prod.split sum.split) (metis snd_conv)+

lemma view_exec: "view (snd (run_exec d missing w cmd environment s)) = view s"
proof -
  obtain v t where t: "simple_request d ''POST'' (container_path d (container_name w) ''/exec'') (Some (exec_json cmd environment)) s = (v, t)"
    by (rule prod.exhaust)
  have "view t = view s" using view_request t by (metis snd_conv)
  moreover have "view (snd (requestRaw d ''POST'' path body t)) = view t" for path body by (rule view_raw)
  ultimately show ?thesis by (auto simp: run_exec_def t split: sum.split prod.split) (metis snd_conv)+
qed

end

interpretation linked_frame: engine_frame "linked_docker d" fst for d
  by unfold_locales (simp add: linked_docker_def)

lemma view_no_data [simp]: "snd (no_data r) = snd r"
  by (simp add: no_data_def)

lemma view_text_data [simp]: "snd (text_data k r) = snd r"
  by (simp add: text_data_def)

lemma view_and_then: "(\<And>v s. g (snd (f v s)) = g s) \<Longrightarrow> g (snd (and_then r f)) = g (snd r)"
  by (cases r; cases "fst r") (auto simp: and_then_def)

lemma view_with_payload: "(\<And>v. g (snd (f v s)) = g s) \<Longrightarrow> g (snd (with_payload p f s)) = g s"
  by (simp add: with_payload_def split: option.split)

lemma linked_sel [simp]:
  "og_docker (linked h a auth dt d) = linked_docker d" "og_uuid (linked h a auth dt d) = h_zodUuid h"
  "og_get (linked h a auth dt d) = linked_get h a auth dt" "og_post (linked h a auth dt d) = linked_post h a auth"
  by (simp_all add: linked_def)

text \<open>The requests for secrets and credentials only read.\<close>

lemma view_get:
  assumes "path \<noteq> ''/api/agents/commands''"
  shows "fst (snd (linked_get h a auth dt path s)) = fst s"
  using assms by (simp add: linked_get_def)

lemma view_checked: "snd (checked what schema r) = snd r"
  by (cases r; cases "fst r") (auto simp: checked_def)

lemma secrets_path: "''/api/agents/workloads/'' @ w @ k \<noteq> ''/api/agents/commands''"
  by simp

lemma view_start_workload: "fst (snd (start_workload (linked h a auth dt d) p s)) = fst s"
proof -
  let ?o = "linked h a auth dt d"
  have secrets: "fst (snd (workloadSecrets ?o w s)) = fst s" for w s
    by (simp add: workloadSecrets_def view_checked view_get)
  have creds: "fst (snd (workloadRegistryCredentials ?o w s)) = fst s" for w s
    by (simp add: workloadRegistryCredentials_def view_checked view_get)
  have start: "fst (snd (and_then (runtime_start (linked_docker d) sp s) (\<lambda>st s. (Inr (Some (started_json st)), s)))) = fst s" for sp s
    by (subst view_and_then [where g = fst]) (simp_all add: linked_frame.view_start)
  have rest: "fst (snd (and_then (if truthy q then workloadRegistryCredentials ?o w s else (Inr None, s))
      (\<lambda>cr s. and_then (runtime_start (linked_docker d) (f cr) s) (\<lambda>st s. (Inr (Some (started_json st)), s))))) = fst s" for q w f s
    by (subst view_and_then [where g = fst], rule start) (simp add: creds)
  show ?thesis unfolding start_workload_def linked_sel
    by (subst view_and_then [where g = fst], rule rest) (rule secrets)
qed

lemma perform_keeps:
  assumes "perform (linked h a auth dt d) c s = Some r"
  shows "fst (snd r) = fst s"
proof -
  have written: "fst (snd (and_then (minecraftFileWrite (linked_docker d) w x y t) (\<lambda>_ s. (Inr None, s)))) = fst t" for w x y t
    by (subst view_and_then [where g = fst]) (simp_all add: minecraftFileWrite_def execText_def linked_frame.view_exec)
  show ?thesis using assms
    unfolding perform_def Let_def linked_sel
    by (auto split: if_splits simp: view_with_payload [where g = fst] view_start_workload linked_frame.view_stop linked_frame.view_remove
        runtime_remove_def linked_frame.view_volume linked_frame.view_logs minecraftCommand_def minecraftFiles_def
        minecraftFileRead_def execText_def linked_frame.view_exec written)
qed

subsection \<open>What the agent accepts\<close>

definition polled_of :: "agent_command \<Rightarrow> polled_command" where
  "polled_of c = \<lparr>pc_commandId = c_id c, pc_type = c_type c, pc_resourceId = c_resourceId c, pc_payload = Some (c_payload c)\<rparr>"

lemma command_type_known: "command_type_str t \<in> set command_types"
  by (cases t) (simp_all add: command_types_def)

lemma command_parses:
  assumes "zuuid (c_id c)" and "zuuid (c_resourceId c)" and "c_type c = command_type_str t"
  shows "commandSchema zuuid (command_json dt c) = Some (polled_of c)"
  using assms command_type_known [of t]
  by (simp add: commandSchema_def command_json_def polled_of_def z_req_def z_string_where_def)



subsection \<open>What the control plane accepts\<close>

definition result_of :: "agent_report \<Rightarrow> command_result" where
  "result_of r = \<lparr>cr_commandId = ar_commandId r, cr_succeeded = ar_succeeded r, cr_data = ar_data r, cr_error = ar_error r\<rparr>"

definition fitting_error :: "(string \<times> string) option \<Rightarrow> bool" where
  "fitting_error e \<longleftrightarrow> (case e of None \<Rightarrow> True
     | Some (code, m) \<Rightarrow> 1 \<le> length code \<and> length code \<le> 100 \<and> 1 \<le> length m \<and> length m \<le> 1000)"

lemma report_parses:
  assumes "h_zodUuid h (ar_commandId r)" and "ar_succeeded r \<or> ar_error r \<noteq> None"
  shows "commandResultInput h (report_body r) = (if fitting_error (ar_error r) then Some (result_of r) else None)"
  using assms
  by (cases "ar_data r"; cases "ar_error r")
    (auto simp: commandResultInput_def report_body_def result_of_def z_req_def z_opt_def z_string_where_def z_enum_def jopt_def
      error_schema_def z_sized_def fitting_error_def split: if_splits)

subsection \<open>Results\<close>

text \<open>The row of the command a result claims, after the handler: finished, whatever the handler ran into later.\<close>

lemma claimed_row_finished:
  assumes "distinct (map c_id (t_commands s))" and "c \<in> set (t_commands s)" and "claimed_by node r c"
  shows "\<exists>q. List.find (\<lambda>q. c_id q = c_id c) (t_commands (snd (accept_result h node r s))) = Some q
    \<and> c_status q \<in> {CmdSucceeded, CmdFailed}"
proof -
  let ?rows = "upd_where (claimed_by node r) (finish_command r (clock s)) (t_commands s)"
  have found: "List.find (\<lambda>q. c_id q = c_id c) (t_commands s) = Some c" by (rule find_by_id) fact+
  have claimed: "List.find (claimed_by node r) (t_commands s) \<noteq> None" using assms(2,3) by (auto simp: find_None_iff')
  then obtain b where b: "List.find (claimed_by node r) (t_commands s) = Some b" by blast
  have k1: "keyed_rows c_id (finish_command r (clock s))" by unfold_locales (simp add: finish_command_def)
  have row: "List.find (\<lambda>q. c_id q = c_id c) ?rows = Some (finish_command r (clock s) c)"
    unfolding keyed_rows.find_upd_where [OF k1] found using assms(3) by simp
  let ?fail = "\<lambda>q. q\<lparr>c_status := CmdFailed, c_result := Some (invalid_result r)\<rparr>"
  have k2: "keyed_rows c_id ?fail" by unfold_locales simp
  have "t_commands (snd (accept_result h node r s)) = (if start_fails b r then upd_where (\<lambda>q. c_id q = c_id b) ?fail ?rows else ?rows)"
    unfolding accept_result_rows(2) [OF b] finish_rows(2) by simp
  then show ?thesis
    by (simp add: keyed_rows.find_upd_where [OF k2] row) (auto simp: finish_command_def result_status_def)
qed

lemma send_fitting:
  assumes "agentIdentity a auth (fst (aw_env w)) = Some node" and "h_zodUuid h (ar_commandId r)"
    and "ar_succeeded r \<or> ar_error r \<noteq> None" and "fitting_error (ar_error r)"
  shows "\<exists>w1. send_report (linked h a auth dt d) r w = (None, w1)
    \<and> fst (aw_env w1) = snd (accept_result h node (result_of r) (fst (aw_env w)))"
  using assms report_parses [of h r]
  by (auto simp: send_report_def linked_post_def command_results_def agent_request_def answer_of_def
      split: prod.splits fetch_answer.splits sum.splits response.splits)

lemma send_oversized:
  assumes "agentIdentity a auth (fst (aw_env w)) = Some node" and "h_zodUuid h (ar_commandId r)"
    and "ar_succeeded r \<or> ar_error r \<noteq> None" and "\<not> fitting_error (ar_error r)"
  shows "\<exists>w1. send_report (linked h a auth dt d) r w = (None, w1) \<and> fst (aw_env w1) = fst (aw_env w)"
  using assms report_parses [of h r]
  by (auto simp: send_report_def linked_post_def command_results_def agent_request_def answer_of_def)

lemma command_type_length: "length (command_type_str t) \<le> 21"
  by (cases t) simp_all

lemma unsupported_fits:
  assumes "c_type c = command_type_str t"
  shows "fitting_error (ar_error (unsupported_report (polled_of c)))"
  using command_type_length [of t] assms
  by (simp add: unsupported_report_def failure_report_def fitting_error_def polled_of_def)

lemma report_sel [simp]:
  "\<not> ar_succeeded (failure_report i code m)" "ar_error (failure_report i code m) = Some (code, m)"
  "ar_succeeded (success_report i v)" "ar_error (success_report i v) = None"
  "\<not> ar_succeeded (unsupported_report p)" "ar_error (unsupported_report p) \<noteq> None"
  by (simp_all add: failure_report_def success_report_def unsupported_report_def)

lemma result_sel [simp]: "cr_commandId (result_of r) = ar_commandId r" "cr_succeeded (result_of r) = ar_succeeded r"
  by (simp_all add: result_of_def)

definition delivered_to :: "node \<Rightarrow> agent_command \<Rightarrow> cp \<Rightarrow> bool" where
  "delivered_to node c s \<longleftrightarrow> distinct (map c_id (t_commands s)) \<and> c \<in> set (t_commands s) \<and> c_nodeId c = n_id node
     \<and> c_status c = CmdDelivered \<and> c_type c \<in> range command_type_str"

definition work_of :: "host \<Rightarrow> agent_host \<Rightarrow> string option \<Rightarrow> 'e docker \<Rightarrow> agent_command \<Rightarrow> cp \<Rightarrow> 'e
    \<Rightarrow> ((string + json option) \<times> cp \<times> 'e) option" where
  "work_of h a auth d c s e = perform (linked h a auth str_int d) (polled_of c) (s, e)"

definition after_command :: "host \<Rightarrow> agent_host \<Rightarrow> string option \<Rightarrow> 'e docker \<Rightarrow> agent_command \<Rightarrow> cp \<Rightarrow> 'e \<Rightarrow> string option \<times> cp" where
  "after_command h a auth d c s e =
     apsnd (fst \<circ> aw_env) (execute (linked h a auth str_int d) (command_json str_int c) \<lparr>aw_env = (s, e), aw_sent = []\<rparr>)"

lemma after_command_cases:
  assumes "agentIdentity a auth s = Some node" and "delivered_to node c s"
    and "h_zodUuid h (c_id c)" and "h_zodUuid h (c_resourceId c)"
  obtains (oversized) m t where "work_of h a auth d c s e = Some (Inl m, t)" and "\<not> (1 \<le> length m \<and> length m \<le> 1000)"
      and "after_command h a auth d c s e = (None, s)"
  | (finished) r where "cr_commandId r = c_id c"
      and "\<And>m t. work_of h a auth d c s e = Some (Inl m, t) \<Longrightarrow> \<not> cr_succeeded r \<and> length m \<le> 1000"
      and "after_command h a auth d c s e = (None, snd (accept_result h node r s))"
proof -
  let ?o = "linked h a auth str_int d"
  obtain t where t: "c_type c = command_type_str t" using assms(2) by (auto simp: delivered_to_def)
  have parse: "commandSchema (og_uuid ?o) (command_json str_int c) = Some (polled_of c)"
    using command_parses [of "h_zodUuid h"] assms(3,4) t by simp
  have id: "pc_commandId (polled_of c) = c_id c" by (simp add: polled_of_def)
  have sent: "\<exists>w1. try_report ?o r \<lparr>aw_env = (s, e1), aw_sent = []\<rparr> = (None, w1) \<and> fst (aw_env w1) = snd (accept_result h node (result_of r) s)"
      "\<exists>w1. send_report ?o r \<lparr>aw_env = (s, e1), aw_sent = []\<rparr> = (None, w1) \<and> fst (aw_env w1) = snd (accept_result h node (result_of r) s)"
    if "ar_commandId r = c_id c" "ar_succeeded r \<or> ar_error r \<noteq> None" "fitting_error (ar_error r)" for r e1
    using send_fitting [of a auth "\<lparr>aw_env = (s, e1), aw_sent = []\<rparr>" node h r str_int d] assms(1,3) that by (auto simp: try_report_def)
  show thesis
  proof (cases "perform ?o (polled_of c) (s, e)")
    case None
    let ?r = "unsupported_report (polled_of c)"
    from sent(1) [of ?r e] unsupported_fits [OF t] obtain w1 where
      "try_report ?o ?r \<lparr>aw_env = (s, e), aw_sent = []\<rparr> = (None, w1)" "fst (aw_env w1) = snd (accept_result h node (result_of ?r) s)"
      unfolding report_ids id using report_sel(6) by blast
    with None parse show thesis
      by (intro finished [of "result_of ?r"]) (simp_all add: after_command_def execute_def execute_command_def work_of_def id)
  next
    case (Some v)
    obtain x s1 e1 where v: "v = (x, s1, e1)" by (metis prod_cases3)
    have s1: "s1 = s" using perform_keeps [OF Some] v by simp
    show thesis
    proof (cases x)
      case (Inr j)
      let ?r = "success_report (c_id c) j"
      from sent(1) [of ?r e1] obtain w1 where
        "try_report ?o ?r \<lparr>aw_env = (s, e1), aw_sent = []\<rparr> = (None, w1)" "fst (aw_env w1) = snd (accept_result h node (result_of ?r) s)"
        by (auto simp: fitting_error_def)
      with Some v s1 Inr parse show thesis
        by (intro finished [of "result_of ?r"]) (simp_all add: after_command_def execute_def execute_command_def work_of_def id)
    next
      case (Inl m)
      let ?r = "failure_report (c_id c) ''RUNTIME_ERROR'' m"
      have run: "after_command h a auth d c s e = apsnd (fst \<circ> aw_env) (send_report ?o ?r \<lparr>aw_env = (s, e1), aw_sent = []\<rparr>)"
        using Some v s1 Inl parse by (simp add: after_command_def execute_def execute_command_def id)
      have fit: "fitting_error (ar_error ?r) \<longleftrightarrow> 1 \<le> length m \<and> length m \<le> 1000"
        by (simp add: fitting_error_def)
      show thesis
      proof (cases "1 \<le> length m \<and> length m \<le> 1000")
        case True
        with sent(2) [of ?r e1] fit obtain w1 where
          "send_report ?o ?r \<lparr>aw_env = (s, e1), aw_sent = []\<rparr> = (None, w1)" "fst (aw_env w1) = snd (accept_result h node (result_of ?r) s)"
          by auto
        with run Some v Inl True show thesis by (intro finished [of "result_of ?r"]) (auto simp: work_of_def)
      next
        case False
        have "\<exists>w1. send_report ?o ?r \<lparr>aw_env = (s, e1), aw_sent = []\<rparr> = (None, w1) \<and> fst (aw_env w1) = s"
          using send_oversized [of a auth "\<lparr>aw_env = (s, e1), aw_sent = []\<rparr>" node h ?r str_int d] assms(1,3) False fit
          by simp
        with run Some v Inl False show thesis
          by (intro oversized) (auto simp: work_of_def)
      qed
    qed
  qed
qed


text \<open>A command whose error has a long message is never finished. When the work of a delivered command fails with a
  message of more than a thousand characters, the control plane refuses the report, the agent does not look at the answer,
  and the command stays delivered: as soon as its lease has run out it is handed out and executed again, for ever.\<close>

theorem long_error_never_finishes:
  assumes "agentIdentity a auth s = Some node" and "delivered_to node c s"
    and "h_zodUuid h (c_id c)" and "h_zodUuid h (c_resourceId c)"
    and "work_of h a auth d c s e = Some (Inl m, t)" and "1000 < length m" and "c_deliveredAt c = Some time"
  shows "after_command h a auth d c s e = (None, s) \<and> deliverable (time + DELIVERY_LEASE_MS + 1) (n_id node) c"
  using assms(1-4)
proof (cases rule: after_command_cases [where d = d and e = e])
  case (oversized m t)
  then show ?thesis using assms(2,7) by (simp add: deliverable_def delivered_to_def)
next
  case (finished r)
  from finished(2) [OF assms(5)] assms(6) show ?thesis by simp
qed

subsection \<open>Examples\<close>

definition stop_command :: agent_command where
  "stop_command = deliver 1500 (new_command (empty_cp\<lparr>clock := 1000\<rparr>) ''c1'' ''node-1'' WorkloadStop ''w1'' JNull 60000)"

definition stopping_state :: cp where
  "stopping_state = agent_state\<lparr>t_commands := [stop_command], t_workloads := [new_workload empty_cp ''w1'' ''id-0'' ''node-1'' []]\<rparr>"

lemma stopping_identity: "agentIdentity sample_agent (Some ''Bearer tok'') stopping_state
    = Some (sample_node_row\<lparr>n_agentTokenHash := ''#tok''\<rparr>)"
  using sample_identity agentIdentity_cong [of stopping_state agent_state] by (simp add: stopping_state_def)

lemma stopping_delivered: "delivered_to (sample_node_row\<lparr>n_agentTokenHash := ''#tok''\<rparr>) stop_command stopping_state"
  by (simp add: delivered_to_def stopping_state_def stop_command_def deliver_def new_command_def sample_node_row_def
      del: command_type_str.simps)

lemma stop_ids: "h_zodUuid sample_host (c_id stop_command)" "h_zodUuid sample_host (c_resourceId stop_command)"
  by (simp_all add: stop_command_def deliver_def new_command_def sample_host_def)

lemma linked_stop:
  assumes "\<And>path. dk_send d ''POST'' path None None e = (Answered status [message], e1)" and "300 \<le> status"
    and "length message \<le> MAX_DOCKER_JSON_RESPONSE_BYTES" and "c_type c = command_type_str WorkloadStop"
  shows "work_of h a auth d c s e = Some (Inl (api_error status message), s, e1)"
proof -
  have "dk_send (linked_docker d) ''POST'' path None None (s, e) = (Answered status [message], s, e1)" for path
    using assms(1) by (simp add: linked_docker_def)
  from request_refused [OF this assms(2)] assms(3)
  have "simple_request (linked_docker d) ''POST'' path None (s, e) = (Inl (api_error status message), s, e1)" for path by simp
  then show ?thesis using assms(4)
    by (simp add: work_of_def perform_def polled_of_def runtime_stop_def no_data_def)
qed


lemma long_error_never_finishes_witness:
  "after_command sample_host sample_agent (Some ''Bearer tok'') (failing_docker 500 (replicate 1001 CHR ''x'')) stop_command
     stopping_state 0 = (None, stopping_state)"
proof -
  have w: "work_of sample_host sample_agent (Some ''Bearer tok'') (failing_docker 500 (replicate 1001 CHR ''x'')) stop_command stopping_state 0
      = Some (Inl (api_error 500 (replicate 1001 CHR ''x'')), stopping_state, 1)"
    by (rule linked_stop) (simp_all add: failing_docker_def MAX_DOCKER_JSON_RESPONSE_BYTES_def stop_command_def deliver_def new_command_def)
  have l: "1000 < length (api_error 500 (replicate 1001 CHR ''x''))" by (simp add: api_error_def)
  have since: "c_deliveredAt stop_command = Some 1500" by (simp add: stop_command_def deliver_def)
  from long_error_never_finishes [OF stopping_identity stopping_delivered stop_ids w l since] show ?thesis by blast
qed

subsection \<open>Stopping twice\<close>

lemma accept_stop:
  assumes "distinct (map c_id (t_commands s))" "c \<in> set (t_commands s)" "claimed_by node r c" "c_type c = command_type_str WorkloadStop"
    and "\<not> cr_succeeded r"
  shows "t_workloads (snd (accept_result h node r s)) = t_workloads (write_stop node c r s)"
    and "t_reservations (snd (accept_result h node r s)) = t_reservations s"
proof -
  obtain b where b: "List.find (claimed_by node r) (t_commands s) = Some b" using assms(2,3) by (metis find_None_iff' option.exhaust)
  have "b = c" using find_Some_iff' [OF b] assms(1-3) keyed_unique [of c_id "t_commands s" b c] by (auto simp: claimed_by_def)
  with b assms(4,5) have a: "snd (accept_result h node r s)
      = announce_stop h node c r (write_stop node c r (update_commands (claimed_by node r) (finish_command r (clock s)) s))"
    by (simp add: accept_result_def finish_by_type_def finish_stop_def)
  show "t_workloads (snd (accept_result h node r s)) = t_workloads (write_stop node c r s)"
    and "t_reservations (snd (accept_result h node r s)) = t_reservations s"
    unfolding a by (simp_all add: announce_stop_def write_stop_def update_workloads_def split: option.split)
qed

text \<open>Stopping a container that is not running fails. The engine answers a second stop with 304 and no body, which the
  agent takes for an error: the control plane then records the workload, which is stopped as wanted, as failed, and keeps
  the host ports reserved for it.\<close>

theorem stopping_twice_fails:
  assumes "agentIdentity a auth s = Some node" and "delivered_to node c s"
    and "h_zodUuid h (c_id c)" and "h_zodUuid h (c_resourceId c)" and "c_type c = command_type_str WorkloadStop"
    and "find_workload (c_resourceId c) s = Some w" and "w_nodeId w = Some (n_id node)"
    and "\<And>path. dk_send d ''POST'' path None None e = (Answered 304 [[]], e1)"
  shows "let s' = snd (after_command h a auth d c s e) in
    \<exists>w'. find_workload (c_resourceId c) s' = Some w' \<and> w_actualState w' = ActFailed \<and> t_reservations s' = t_reservations s"
proof -
  have work: "work_of h a auth d c s e = Some (Inl (api_error 304 []), s, e1)"
    by (rule linked_stop) (simp_all add: assms(5,8))
  have "api_error 304 [] = ''Docker API 304: request failed''" by code_simp
  note work = work [unfolded this]
  from assms(1-4) show ?thesis
  proof (cases rule: after_command_cases [where d = d and e = e])
    case (oversized m t)
    with work show ?thesis by simp
  next
    case (finished r)
    have r: "\<not> cr_succeeded r" "claimed_by node r c"
      using finished(2) [OF work] finished(1) assms(2) by (simp_all add: claimed_by_def delivered_to_def)
    have acc: "t_workloads (snd (accept_result h node r s)) = t_workloads (write_stop node c r s)"
        "t_reservations (snd (accept_result h node r s)) = t_reservations s"
      using accept_stop [OF _ _ r(2) assms(5) r(1), of s h] assms(2) by (simp_all add: delivered_to_def)
    have k: "keyed_rows w_id (\<lambda>w. (w\<lparr>w_actualState := ActFailed, w_lastReportedAt := Some (clock s)\<rparr>)\<lparr>w_updatedAt := clock s\<rparr>)"
      by unfold_locales simp
    have "find_workload (c_resourceId c) (write_stop node c r s)
        = Some ((w\<lparr>w_actualState := ActFailed, w_lastReportedAt := Some (clock s)\<rparr>)\<lparr>w_updatedAt := clock s\<rparr>)"
      using assms(6,7) r(1) find_Some_iff' [of _ "t_workloads s" w]
      by (auto simp: write_stop_def find_workload_def update_workloads_def keyed_rows.find_upd_where [OF k])
    then show ?thesis unfolding finished(3) Let_def using acc by (auto simp: find_workload_def)
  qed
qed

definition idle_docker :: "nat docker" where
  "idle_docker = \<lparr>dk_send = (\<lambda>_ _ _ _ s. (Answered 304 [[]], Suc s)), dk_parse = (\<lambda>_. None), dk_uri = id,
     dk_auth = (\<lambda>_. []), dk_utf8 = id\<rparr>"

lemma stopping_twice_fails_witness:
  "\<exists>w'. find_workload ''w1'' (snd (after_command sample_host sample_agent (Some ''Bearer tok'') idle_docker stop_command stopping_state 0))
     = Some w' \<and> w_actualState w' = ActFailed"
proof -
  have w: "find_workload (c_resourceId stop_command) stopping_state = Some (new_workload empty_cp ''w1'' ''id-0'' ''node-1'' [])"
    by (simp add: find_workload_def stopping_state_def stop_command_def deliver_def new_command_def new_workload_def)
  have "let s' = snd (after_command sample_host sample_agent (Some ''Bearer tok'') idle_docker stop_command stopping_state 0) in
    \<exists>w'. find_workload (c_resourceId stop_command) s' = Some w' \<and> w_actualState w' = ActFailed
      \<and> t_reservations s' = t_reservations stopping_state"
    by (rule stopping_twice_fails [OF stopping_identity stopping_delivered stop_ids _ w])
      (simp_all add: idle_docker_def stop_command_def deliver_def new_command_def new_workload_def sample_node_row_def)
  then show ?thesis by (auto simp: Let_def stop_command_def deliver_def new_command_def)
qed

end
