(* ===== verification/AgentTelemetry.thy ===== *)
theory AgentTelemetry
  imports AgentExchange
begin

text \<open>
  What the agent reports on its own account, the resources of its node and the state of its workloads, is accepted by the
  schemas of the control plane (\<open>apps/agent/src/index.ts\<close> against \<open>apps/api/src/routes/nodes.routes.ts\<close>).
\<close>

subsection \<open>Heartbeats\<close>

lemma quantity_parses:
  assumes "0 \<le> capacity q" "0 \<le> allocatable q" "0 \<le> reserved q" "0 \<le> usage q"
  shows "resourceQuantity (quantity_body q) = Some q"
  using assms by (simp add: resourceQuantity_def quantity_body_def z_req_def)

lemma mib_mono: "m \<le> n \<Longrightarrow> mib m \<le> mib n"
  by (simp add: mib_def div_le_mono)

lemma mib_nonneg [simp]: "0 \<le> mib n"
  by (simp add: mib_def)

definition sane_stats :: "host_stats \<Rightarrow> bool" where
  "sane_stats hs \<longleftrightarrow> hs_freemem hs \<le> hs_totalmem hs
     \<and> (case hs_filesystem hs of None \<Rightarrow> True | Some (bsize, blocks, bavail) \<Rightarrow> bavail \<le> blocks)"

lemma resources_nonneg:
  assumes "sane_stats hs" and "q \<in> {cpuMilli (resources hs), memoryMib (resources hs), storageMib (resources hs)}"
  shows "resourceQuantity (quantity_body q) = Some q"
proof -
  have mem: "(0::rat) \<le> of_int \<lfloor>(of_nat (hs_totalmem hs) - of_nat (hs_freemem hs)) / (1024 * 1024 :: rat)\<rfloor>"
    using assms(1) by (simp add: sane_stats_def)
  have storage: "0 \<le> usage (storage_quantity (hs_filesystem hs))"
    using assms(1) mib_mono by (auto simp: storage_quantity_def sane_stats_def split: option.splits prod.splits)
  have others: "0 \<le> capacity (storage_quantity fs)" "0 \<le> allocatable (storage_quantity fs)" "0 \<le> reserved (storage_quantity fs)" for fs
    by (auto simp: storage_quantity_def split: option.splits prod.splits)
  show ?thesis
    by (rule quantity_parses) (use assms(2) mem storage others in \<open>auto simp: resources_def\<close>)
qed

text \<open>Every heartbeat of the agent is accepted by the control plane, which reads from it exactly the resources the agent
  measured, whenever no more memory is free than there is and no more blocks are available than the disk has.\<close>

theorem heartbeat_read_back:
  assumes "sane_stats hs"
  shows "heartbeatInput (heartbeat_body hs) = Some \<lparr>hb_status = Ready, hb_resources = resources hs\<rparr>"
  using resources_nonneg [OF assms]
  by (simp add: heartbeatInput_def heartbeat_body_def Let_def z_req_def z_enum_def)

lemma heartbeat_read_back_witness:
  "heartbeatInput (heartbeat_body sample_stats) = Some \<lparr>hb_status = Ready, hb_resources = resources sample_stats\<rparr>"
  by (rule heartbeat_read_back) (simp add: sane_stats_def sample_stats_def)

subsection \<open>Telemetry\<close>

lemma trim_starts_plain: "trim_str t \<noteq> [] \<Longrightarrow> \<not> is_space (hd (trim_str t))"
proof -
  assume ne: "trim_str t \<noteq> []"
  let ?d = "dropWhile is_space t"
  have "trim_str t = take (length (trim_str t)) ?d"
    unfolding trim_str_def by (metis dropWhile_eq_drop length_rev rev_drop rev_rev_ident append_eq_conv_conj takeWhile_dropWhile_id rev_append)
  moreover from ne have "?d \<noteq> []" unfolding trim_str_def by force
  ultimately show ?thesis using ne hd_dropWhile [of is_space t] by (metis hd_take length_greater_0_conv)
qed

lemma trim_nonempty: "s \<noteq> [] \<Longrightarrow> \<not> is_space (hd s) \<Longrightarrow> trim_str s \<noteq> []"
  by (cases s) (auto simp: trim_str_def dropWhile_append)

lemma trim_shorter: "length (trim_str s) \<le> length s"
  unfolding trim_str_def by (metis length_dropWhile_le length_rev order_trans)

lemma health_message_fits:
  assumes "health_message v = Some m"
  shows "z_trimmed 1 1000 (JStr m) \<noteq> None"
proof -
  from assms obtain x where m: "m = take 1000 (trim_str x)" "m \<noteq> []"
    by (auto simp: health_message_def Let_def truthy_def split: if_splits option.splits)
  then have "hd m = hd (trim_str x)" "trim_str x \<noteq> []" by auto
  with trim_starts_plain [of x] have "\<not> is_space (hd m)" by simp
  with m(2) have "trim_str m \<noteq> []" by (rule trim_nonempty)
  moreover have "length (trim_str m) \<le> 1000" using trim_shorter [of m] m(1) by simp
  ultimately show ?thesis by (simp add: z_trimmed_def Let_def Suc_le_eq)
qed

definition sound_inspection :: "inspection \<Rightarrow> bool" where
  "sound_inspection i \<longleftrightarrow> in_healthStatus i \<in> {''none'', ''starting'', ''healthy'', ''unhealthy''}
     \<and> in_actualState i \<in> {ActRunning, ActStopped, ActFailed, ActUnknown}
     \<and> (\<forall>m. in_healthMessage i = Some m \<longrightarrow> z_trimmed 1 1000 (JStr m) \<noteq> None)"

lemma health_of_known: "health_of v \<in> {''none'', ''starting'', ''healthy'', ''unhealthy''}"
  by (auto simp: health_of_def split: option.splits)

lemma inspect_sound: "sound_inspection (fst (runtime_inspect d w s))"
proof -
  have "sound_inspection (unknown_inspection st)" if "st \<in> {ActStopped, ActUnknown}" for st
    using that by (auto simp: sound_inspection_def unknown_inspection_def)
  moreover have "state_of v \<in> {ActRunning, ActStopped, ActFailed, ActUnknown}" for v by (simp add: state_of_def)
  moreover have "sound_inspection \<lparr>in_actualState = state_of v, in_healthStatus = health_of v, in_healthMessage = health_message v,
      in_ports = ps\<rparr>" for v ps
    using calculation(2) [of v] health_of_known [of v] health_message_fits [of v] by (simp add: sound_inspection_def)
  ultimately show ?thesis by (auto simp: runtime_inspect_def split: prod.split sum.split)
qed

definition ports_in_range :: "(string \<times> int) list \<Rightarrow> bool" where
  "ports_in_range ps \<longleftrightarrow> list_all (\<lambda>(k, n). tcp_port n) ps"

lemma ports_parse: "ports_in_range ps \<Longrightarrow> reportedPortsInput (ports_body ps) = Some ps"
  by (induction ps) (auto simp: reportedPortsInput_def ports_body_def ports_in_range_def)

lemma report_fields:
  "jget ''workloadId'' (workload_report dt b a i now) = Some (JStr (as_workloadId a))"
  "jget ''reportGeneration'' (workload_report dt b a i now) = Some (JNum (of_int (as_reportGeneration a)))"
  "jget ''actualState'' (workload_report dt b a i now) = Some (JStr (state_str (in_actualState i)))"
  "jget ''healthStatus'' (workload_report dt b a i now) = Some (JStr (in_healthStatus i))"
  "jget ''observedAt'' (workload_report dt b a i now) = Some (JStr (dt now))"
  "jget ''healthMessage'' (workload_report dt b a i now) = (if truthy (in_healthMessage i) then map_option JStr (in_healthMessage i) else None)"
  "jget ''ports'' (workload_report dt b a i now) = (if b then Some (ports_body (in_ports i)) else None)"
  "z_object (workload_report dt b a i now) = Some (workload_report dt b a i now)"
  by (auto simp: workload_report_def truthy_def)

lemma report_parses_back:
  assumes "h_zodUuid h (as_workloadId a)" "0 < as_reportGeneration a" "ah_datetime ah (dt now) = Some t"
    and "sound_inspection i" "ports_in_range (in_ports i)"
  shows "\<exists>r. telemetry_report_schema h ah (workload_report dt b a i now) = Some r \<and> tr_workloadId r = as_workloadId a
    \<and> tr_actualState r = in_actualState i"
proof -
  let ?j = "workload_report dt b a i now"
  obtain hs where hs: "z_req (z_enum [(''none'', HNone), (''starting'', HStarting), (''healthy'', HHealthy),
        (''unhealthy'', HUnhealthy)]) ''healthStatus'' ?j = Some hs"
    using assms(4) by (auto simp: z_req_def report_fields z_enum_def sound_inspection_def)
  have st: "z_req (z_enum [(''running'', ActRunning), (''stopped'', ActStopped), (''failed'', ActFailed),
        (''unknown'', ActUnknown)]) ''actualState'' ?j = Some (in_actualState i)"
    using assms(4) by (auto simp: z_req_def report_fields z_enum_def sound_inspection_def state_str_def)
  have "\<exists>msg. z_opt (z_trimmed 1 1000) ''healthMessage'' ?j = Some msg"
  proof (cases "in_healthMessage i")
    case (Some m)
    with assms(4) obtain y where "z_trimmed 1 1000 (JStr m) = Some y" by (auto simp: sound_inspection_def)
    with Some show ?thesis by (cases "m = []") (simp_all add: z_opt_def report_fields truthy_def)
  qed (simp add: z_opt_def report_fields truthy_def)
  then obtain msg where msg: "z_opt (z_trimmed 1 1000) ''healthMessage'' ?j = Some msg" by blast
  have ports: "z_opt reportedPortsInput ''ports'' ?j = Some (if b then Some (in_ports i) else None)"
    using ports_parse [OF assms(5)] by (simp add: z_opt_def report_fields)
  have rest: "z_req (z_string_where (h_zodUuid h)) ''workloadId'' ?j = Some (as_workloadId a)"
      "z_req (z_int (\<lambda>i. 0 < i)) ''reportGeneration'' ?j = Some (as_reportGeneration a)"
      "z_req (z_datetime ah) ''observedAt'' ?j = Some t"
    using assms(1-3) by (simp_all add: z_req_def report_fields z_string_where_def z_datetime_def)
  show ?thesis
    by (simp only: telemetry_report_schema_def report_fields(8) Option.bind.bind_lunit hs st msg ports rest) simp
qed

lemma inspect_all_parse:
  assumes "\<forall>a \<in> set as. h_zodUuid h (as_workloadId a) \<and> 0 < as_reportGeneration a" and "\<And>n. ah_datetime ah (dt n) \<noteq> None"
    and "\<And>w s. ports_in_range (in_ports (fst (runtime_inspect (og_docker og) w s)))"
  shows "\<exists>rs. those (map (telemetry_report_schema h ah) (fst (inspect_workloads og dt b as s))) = Some rs
    \<and> map tr_workloadId rs = map as_workloadId as"
  using assms(1)
proof (induction "as" arbitrary: s)
  case (Cons a "as")
  obtain i s1 where i: "runtime_inspect (og_docker og) (as_workloadId a) s = (i, s1)" by (rule prod.exhaust)
  obtain js s2 where js: "inspect_workloads og dt b as s1 = (js, s2)" by (rule prod.exhaust)
  obtain t where t: "ah_datetime ah (dt (og_now og s1)) = Some t" using assms(2) by auto
  have "sound_inspection i" "ports_in_range (in_ports i)"
    using inspect_sound [of "og_docker og" "as_workloadId a" s] assms(3) [of "as_workloadId a" s] i by simp_all
  with report_parses_back [where h = h and a = a and i = i and b = b and ah = ah and dt = dt and now = "og_now og s1" and t = t] t Cons.prems
  obtain r where "telemetry_report_schema h ah (workload_report dt b a i (og_now og s1)) = Some r" "tr_workloadId r = as_workloadId a"
    by auto
  with Cons.IH [of s1] Cons.prems js show ?case by (auto simp: i)
qed simp

lemma those_append_Some: "those (xs @ ys) = Some zs \<Longrightarrow> \<exists>us vs. those xs = Some us \<and> those ys = Some vs \<and> zs = us @ vs"
  by (induction xs arbitrary: zs) (auto split: option.splits)

lemma those_batch: "those (map f xs) = Some ys \<Longrightarrow> b \<in> set (batches xs) \<Longrightarrow> \<exists>zs. those (map f b) = Some zs \<and> set zs \<subseteq> set ys"
proof (induction xs arbitrary: ys rule: batches.induct)
  case (1 xs)
  show ?case
  proof (cases "xs = []")
    case False
    have "map f xs = map f (take 500 xs) @ map f (drop 500 xs)" by (metis append_take_drop_id map_append)
    with 1(2) those_append_Some [of "map f (take 500 xs)" "map f (drop 500 xs)" ys] obtain us vs where
      u: "those (map f (take 500 xs)) = Some us" "those (map f (drop 500 xs)) = Some vs" "ys = us @ vs" by auto
    from 1(3) have "b = take 500 xs \<or> b \<in> set (batches (drop 500 xs))"
      by (subst (asm) batches.simps) (simp add: False)
    then show ?thesis using 1(1) [OF False u(2)] u by auto
  qed (use 1(3) in \<open>simp add: batches.simps\<close>)
qed


lemma failing_inspect: "in_ports (fst (runtime_inspect (failing_docker 500 ''busy'') w s)) = []"
  using request_refused [of "failing_docker 500 ''busy''" "''GET''" _ None None s 500 "[''busy'']" "Suc s" False]
  by (simp add: failing_docker_def runtime_inspect_def MAX_DOCKER_JSON_RESPONSE_BYTES_def unknown_inspection_def)


end
