(* ===== verification/ApplicationConfig.thy ===== *)
theory ApplicationConfig
  imports ApplicationRoutes RoleRoutes VolumePolicy
begin

text \<open>
  The configuration routes of \<open>apps/api/src/routes/applications.routes.ts\<close>: runtime, resources, ports, volumes, secrets and
  variables of an application. A request carries who is signed in, the URL parameters and the address for the audit log; a
  body is \<open>None\<close> when it is not JSON. An answer that repeats a row names it by its key. A field that may be absent or null
  is an option of an option: an update leaves a column alone when its field is absent. \<open>enc\<close> encrypts a value under a fresh
  initialisation vector.
\<close>

record app_request =
  rq_session :: "string option"
  rq_orgSlug :: string
  rq_projectId :: string
  rq_applicationId :: string
  rq_ip :: "string option"
  rq_body :: "json option"

type_synonym handler_result = "(exn + response) \<times> cp"

text \<open>What every route begins with.\<close>

definition with_application ::
  "iam \<Rightarrow> app_request \<Rightarrow> string \<Rightarrow> (project_access \<Rightarrow> application \<Rightarrow> cp \<Rightarrow> handler_result) \<Rightarrow> cp \<Rightarrow> handler_result" where
  "with_application m rq permission handler s =
     (case getProjectScope m (rq_session rq) (rq_orgSlug rq) (rq_projectId rq) of
        None \<Rightarrow> (Inr (Problem 404 ''Project not found or access denied''), s)
      | Some scope \<Rightarrow>
          if permission \<notin> set (pa_permissions scope) then (Inr (Problem 403 (''Permission required: '' @ permission)), s)
          else (case applicationInScope scope (rq_applicationId rq) s of
                  None \<Rightarrow> (Inr (Problem 404 ''Application not found''), s)
                | Some app \<Rightarrow> handler scope app s))"

definition with_body :: "app_request \<Rightarrow> (json \<Rightarrow> 'a option) \<Rightarrow> string \<Rightarrow> ('a \<Rightarrow> cp \<Rightarrow> handler_result) \<Rightarrow> cp \<Rightarrow> handler_result" where
  "with_body rq schema invalid handler s =
     (case rq_body rq of
        None \<Rightarrow> (Inl (Js_error ''SyntaxError''), s)
      | Some j \<Rightarrow> (case schema j of None \<Rightarrow> (Inr (Problem 400 invalid), s) | Some v \<Rightarrow> handler v s))"

definition app_audit :: "host \<Rightarrow> app_request \<Rightarrow> project_access \<Rightarrow> string \<Rightarrow> string \<Rightarrow> cp \<Rightarrow> cp" where
  "app_audit h rq scope action targetId s =
     recordAudit h action targetId (pa_userId scope) (rq_ip rq) (pj_id (pa_project scope)) s"

text \<open>A column after an update whose field may be absent.\<close>

definition set_given :: "'a option \<Rightarrow> 'a \<Rightarrow> 'a" where
  "set_given v old = (case v of None \<Rightarrow> old | Some x \<Rightarrow> x)"

subsection \<open>Runtime and resources\<close>

definition restart_policies :: "(string \<times> restart_policy) list" where
  "restart_policies = [(''no'', RestartNo), (''on-failure'', RestartOnFailure), (''always'', RestartAlways),
     (''unless-stopped'', RestartUnlessStopped)]"

definition int_range :: "int \<Rightarrow> int \<Rightarrow> int \<Rightarrow> bool" where
  "int_range lo hi i \<longleftrightarrow> lo \<le> i \<and> i \<le> hi"

record runtime_input =
  rti_command :: "string option option"
  rti_workingDirectory :: "string option option"
  rti_restartPolicy :: restart_policy
  rti_gracefulShutdownSeconds :: int
  rti_healthcheckCommand :: "string option option"
  rti_healthcheckIntervalSeconds :: int
  rti_healthcheckTimeoutSeconds :: int
  rti_healthcheckRetries :: int
  rti_healthcheckStartPeriodSeconds :: int
  rti_replicas :: int

definition absolute_dir :: "json \<Rightarrow> string option" where
  "absolute_dir j = Option.bind (z_trimmed 1 512 j) (\<lambda>d. if starts_with ''/'' d then Some d else None)"

definition runtimeConfigurationInput :: "json \<Rightarrow> runtime_input option" where
  "runtimeConfigurationInput j =
     Option.bind (z_object j) (\<lambda>j.
     Option.bind (z_default (z_enum [(''container'', ())]) () ''runtime'' j) (\<lambda>_.
     Option.bind (z_opt (z_nullable (z_trimmed 1 2000)) ''command'' j) (\<lambda>cmd.
     Option.bind (z_opt (z_nullable absolute_dir) ''workingDirectory'' j) (\<lambda>wd.
     Option.bind (z_default (z_enum restart_policies) RestartUnlessStopped ''restartPolicy'' j) (\<lambda>rp.
     Option.bind (z_default (z_int (int_range 1 600)) 15 ''gracefulShutdownSeconds'' j) (\<lambda>g.
     Option.bind (z_opt (z_nullable (z_trimmed 1 2000)) ''healthcheckCommand'' j) (\<lambda>hc.
     Option.bind (z_default (z_int (int_range 1 3600)) 30 ''healthcheckIntervalSeconds'' j) (\<lambda>hi.
     Option.bind (z_default (z_int (int_range 1 600)) 5 ''healthcheckTimeoutSeconds'' j) (\<lambda>ht.
     Option.bind (z_default (z_int (int_range 1 20)) 3 ''healthcheckRetries'' j) (\<lambda>hr.
     Option.bind (z_default (z_int (int_range 0 3600)) 0 ''healthcheckStartPeriodSeconds'' j) (\<lambda>hs.
     Option.bind (z_default (z_int (int_range 1 100)) 1 ''replicas'' j) (\<lambda>rep.
       Some \<lparr>rti_command = cmd, rti_workingDirectory = wd, rti_restartPolicy = rp, rti_gracefulShutdownSeconds = g,
             rti_healthcheckCommand = hc, rti_healthcheckIntervalSeconds = hi, rti_healthcheckTimeoutSeconds = ht,
             rti_healthcheckRetries = hr, rti_healthcheckStartPeriodSeconds = hs, rti_replicas = rep\<rparr>))))))))))))"

definition set_runtime :: "runtime_input \<Rightarrow> int \<Rightarrow> runtime_configuration \<Rightarrow> runtime_configuration" where
  "set_runtime v now r = r\<lparr>rtc_runtime := ''container'', rtc_command := set_given (rti_command v) (rtc_command r),
     rtc_workingDirectory := set_given (rti_workingDirectory v) (rtc_workingDirectory r),
     rtc_restartPolicy := rti_restartPolicy v, rtc_gracefulShutdownSeconds := rti_gracefulShutdownSeconds v,
     rtc_healthcheckCommand := set_given (rti_healthcheckCommand v) (rtc_healthcheckCommand r),
     rtc_healthcheckIntervalSeconds := rti_healthcheckIntervalSeconds v,
     rtc_healthcheckTimeoutSeconds := rti_healthcheckTimeoutSeconds v, rtc_healthcheckRetries := rti_healthcheckRetries v,
     rtc_healthcheckStartPeriodSeconds := rti_healthcheckStartPeriodSeconds v, rtc_replicas := rti_replicas v,
     rtc_updatedAt := now\<rparr>"

definition new_runtime_configuration :: "string \<Rightarrow> runtime_configuration" where
  "new_runtime_configuration app = \<lparr>rtc_applicationId = app, rtc_runtime = ''container'', rtc_command = None,
     rtc_workingDirectory = None, rtc_restartPolicy = RestartUnlessStopped, rtc_gracefulShutdownSeconds = 15,
     rtc_healthcheckCommand = None, rtc_healthcheckIntervalSeconds = 30, rtc_healthcheckTimeoutSeconds = 5,
     rtc_healthcheckRetries = 3, rtc_healthcheckStartPeriodSeconds = 0, rtc_replicas = 1, rtc_updatedAt = 0\<rparr>"

text \<open>\<open>insert ... on conflict do update\<close> on the primary key.\<close>

definition upsert :: "('r \<Rightarrow> bool) \<Rightarrow> ('r \<Rightarrow> 'r) \<Rightarrow> 'r \<Rightarrow> 'r list \<Rightarrow> 'r list" where
  "upsert P f fresh rows = (if list_ex P rows then upd_where P f rows else rows @ [f fresh])"

definition put_runtime_configuration :: "host \<Rightarrow> iam \<Rightarrow> app_request \<Rightarrow> cp \<Rightarrow> handler_result" where
  "put_runtime_configuration h m rq =
     with_application m rq ''applications.update'' (\<lambda>scope app.
     with_body rq runtimeConfigurationInput ''Invalid runtime configuration'' (\<lambda>v s.
       (Inr (Reply 200 (JStr (a_id app))),
        app_audit h rq scope ''application.runtime_updated'' (a_id app)
          (s\<lparr>t_runtimeConfigurations := upsert (\<lambda>r. rtc_applicationId r = a_id app) (set_runtime v (clock s))
               (new_runtime_configuration (a_id app)) (t_runtimeConfigurations s)\<rparr>))))"

record resource_input =
  rsi_cpuMilli :: int
  rsi_memoryMib :: int
  rsi_storageMib :: int

definition resourceConfigurationInput :: "json \<Rightarrow> resource_input option" where
  "resourceConfigurationInput j =
     Option.bind (z_object j) (\<lambda>j.
     Option.bind (z_default (z_int (int_range 1 256000)) 250 ''cpuMilli'' j) (\<lambda>c.
     Option.bind (z_default (z_int (int_range 16 1048576)) 256 ''memoryMib'' j) (\<lambda>m.
     Option.bind (z_default (z_int (int_range 0 1048576)) 0 ''storageMib'' j) (\<lambda>st.
       Some \<lparr>rsi_cpuMilli = c, rsi_memoryMib = m, rsi_storageMib = st\<rparr>))))"

definition put_resources :: "host \<Rightarrow> iam \<Rightarrow> app_request \<Rightarrow> cp \<Rightarrow> handler_result" where
  "put_resources h m rq =
     with_application m rq ''applications.update'' (\<lambda>scope app.
     with_body rq resourceConfigurationInput ''Invalid resource requirements'' (\<lambda>v s.
       (Inr (Reply 200 (JStr (a_id app))),
        app_audit h rq scope ''application.resources_updated'' (a_id app)
          (s\<lparr>t_resourceConfigurations := upsert (\<lambda>r. rsc_applicationId r = a_id app)
               (\<lambda>r. r\<lparr>rsc_cpuMilli := rsi_cpuMilli v, rsc_memoryMib := rsi_memoryMib v, rsc_storageMib := rsi_storageMib v,
                      rsc_updatedAt := clock s\<rparr>)
               \<lparr>rsc_applicationId = a_id app, rsc_cpuMilli = 250, rsc_memoryMib = 256, rsc_storageMib = 0, rsc_updatedAt = 0\<rparr>
               (t_resourceConfigurations s)\<rparr>))))"

subsection \<open>Ports\<close>

record port_input =
  pin_name :: "string option"
  pin_internalPort :: int
  pin_protocol :: port_protocol
  pin_exposure :: exposure
  pin_requestedHostPort :: "int option"
  pin_externalPort :: "int option"
  pin_description :: "string option"

definition port_input_schema :: "json \<Rightarrow> port_input option" where
  "port_input_schema j =
     Option.bind (z_object j) (\<lambda>j.
     Option.bind (z_opt (z_nullable (z_trimmed 1 64)) ''name'' j) (\<lambda>name.
     Option.bind (z_req (z_int tcp_port) ''internalPort'' j) (\<lambda>port.
     Option.bind (z_default (z_enum protocols) Tcp ''protocol'' j) (\<lambda>pr.
     Option.bind (z_default (z_enum [(''private'', Private), (''public'', Public)]) Private ''exposure'' j) (\<lambda>ex.
     Option.bind (z_opt (z_nullable (z_int tcp_port)) ''requestedHostPort'' j) (\<lambda>rhp.
     Option.bind (z_opt (z_nullable (z_int tcp_port)) ''externalPort'' j) (\<lambda>ep.
     Option.bind (z_opt (z_nullable (z_trimmed 0 500)) ''description'' j) (\<lambda>d.
       Some \<lparr>pin_name = opt_null name, pin_internalPort = port, pin_protocol = pr, pin_exposure = ex,
             pin_requestedHostPort = opt_null rhp, pin_externalPort = opt_null ep, pin_description = opt_null d\<rparr>))))))))"

definition pin_hostPort :: "port_input \<Rightarrow> int option" where
  "pin_hostPort p = (case pin_requestedHostPort p of None \<Rightarrow> pin_externalPort p | Some q \<Rightarrow> Some q)"

definition pin_key :: "port_input \<Rightarrow> int \<times> port_protocol" where
  "pin_key p = (pin_internalPort p, pin_protocol p)"

text \<open>The issues of one port, given the keys of the ports before it.\<close>

definition port_input_ok :: "(int \<times> port_protocol) list \<Rightarrow> port_input \<Rightarrow> bool" where
  "port_input_ok seen p \<longleftrightarrow> pin_key p \<notin> set seen
     \<and> (pin_requestedHostPort p = None \<or> pin_externalPort p = None \<or> pin_requestedHostPort p = pin_externalPort p)
     \<and> (case pin_hostPort p of None \<Rightarrow> True
          | Some q \<Rightarrow> pin_exposure p = Public \<and> host_port_policy_error (of_int q) = None)"

fun ports_ok :: "(int \<times> port_protocol) list \<Rightarrow> port_input list \<Rightarrow> bool" where
  "ports_ok seen [] = True"
| "ports_ok seen (p # ps) = (port_input_ok seen p \<and> ports_ok (pin_key p # seen) ps)"

definition portsInput :: "json \<Rightarrow> port_input list option" where
  "portsInput j = Option.bind (z_items 0 32 port_input_schema j) (\<lambda>ps. if ports_ok [] ps then Some ps else None)"

definition new_application_port :: "string \<Rightarrow> int \<Rightarrow> port_input \<Rightarrow> string \<Rightarrow> application_port" where
  "new_application_port app now p i = \<lparr>ap_id = i, ap_applicationId = app, ap_name = pin_name p,
     ap_internalPort = pin_internalPort p, ap_protocol = pin_protocol p, ap_exposure = pin_exposure p,
     ap_requestedHostPort = pin_hostPort p, ap_externalPort = pin_hostPort p, ap_description = pin_description p,
     ap_createdAt = now, ap_updatedAt = now\<rparr>"

fun insert_port_inputs :: "host \<Rightarrow> string \<Rightarrow> port_input list \<Rightarrow> cp \<Rightarrow> cp" where
  "insert_port_inputs h app [] s = s"
| "insert_port_inputs h app (p # ps) s =
     (let (i, s1) = randomUUID h s in
      insert_port_inputs h app ps (s1\<lparr>t_applicationPorts := t_applicationPorts s1 @ [new_application_port app (clock s1) p i]\<rparr>))"

definition put_ports :: "host \<Rightarrow> iam \<Rightarrow> app_request \<Rightarrow> cp \<Rightarrow> handler_result" where
  "put_ports h m rq =
     with_application m rq ''applications.update'' (\<lambda>scope app.
     with_body rq portsInput ''Invalid port configuration'' (\<lambda>ps s.
       (Inr (Reply 200 (JStr (a_id app))),
        app_audit h rq scope ''application.ports_updated'' (a_id app)
          (insert_port_inputs h (a_id app) ps
             (s\<lparr>t_applicationPorts := del_where (\<lambda>p. ap_applicationId p = a_id app) (t_applicationPorts s)\<rparr>)))))"

subsection \<open>Volumes\<close>

record mount_input =
  mi_volumeId :: "string option"
  mi_volumeName :: "string option"
  mi_mountPath :: string
  mi_readOnly :: bool

text \<open>\<open>/^[a-zA-Z0-9][a-zA-Z0-9_.-]{0,79}$/\<close>\<close>

definition volume_label_ok :: "string \<Rightarrow> bool" where
  "volume_label_ok s \<longleftrightarrow> (case s of [] \<Rightarrow> False
     | c # cs \<Rightarrow> is_alnum c \<and> length cs \<le> 79 \<and> list_all (\<lambda>c. is_alnum c \<or> c \<in> set ''_.-'') cs)"

definition volume_label :: "json \<Rightarrow> string option" where
  "volume_label j = Option.bind (z_string j) (\<lambda>s. if volume_label_ok (trim_str s) then Some (trim_str s) else None)"

definition mountPath :: "json \<Rightarrow> string option" where
  "mountPath j = Option.bind (z_trimmed 1 512 j) (\<lambda>p. if isSafeMountPath p then Some p else None)"

definition volumeMountInput :: "(string \<Rightarrow> bool) \<Rightarrow> json \<Rightarrow> mount_input option" where
  "volumeMountInput zuuid j =
     Option.bind (z_object j) (\<lambda>j.
     Option.bind (z_opt (z_string_where zuuid) ''volumeId'' j) (\<lambda>i.
     Option.bind (z_opt volume_label ''volumeName'' j) (\<lambda>n.
     Option.bind (z_req mountPath ''mountPath'' j) (\<lambda>p.
     Option.bind (z_default z_bool False ''readOnly'' j) (\<lambda>ro.
       if truthy i = truthy n then None
       else Some \<lparr>mi_volumeId = i, mi_volumeName = n, mi_mountPath = p, mi_readOnly = ro\<rparr>)))))"

text \<open>\<open>devion-v-\<close> and a fresh identifier without its dashes\<close>

definition runtime_volume_name :: "string \<Rightarrow> string" where
  "runtime_volume_name i = ''devion-v-'' @ filter (\<lambda>c. c \<noteq> CHR ''-'') i"

definition volume_conflict :: "volume \<Rightarrow> volume \<Rightarrow> bool" where
  "volume_conflict v w \<longleftrightarrow> v_id v = v_id w \<or> v_projectId v = v_projectId w \<and> v_name v = v_name w
     \<or> v_runtimeName v = v_runtimeName w"

definition create_volume ::
  "host \<Rightarrow> string \<Rightarrow> string \<Rightarrow> int option \<Rightarrow> string \<Rightarrow> cp \<Rightarrow> (exn + volume) \<times> cp" where
  "create_volume h projectId name sizeMib actor s =
     (let (i, s1) = randomUUID h s; (r, s2) = randomUUID h s1;
          v = \<lparr>v_id = i, v_projectId = projectId, v_name = name, v_runtimeName = runtime_volume_name r, v_status = VolAvailable,
               v_nodeId = None, v_capacityMib = sizeMib, v_createdBy = Some actor, v_createdAt = clock s2, v_updatedAt = clock s2\<rparr>
      in if list_ex (volume_conflict v) (t_volumes s2) then (Inl Unique_violation, s2)
         else (Inr v, s2\<lparr>t_volumes := t_volumes s2 @ [v]\<rparr>))"

definition mount_conflict :: "application_volume_mount \<Rightarrow> application_volume_mount \<Rightarrow> bool" where
  "mount_conflict a b \<longleftrightarrow> avm_id a = avm_id b
     \<or> avm_applicationId a = avm_applicationId b \<and> avm_mountPath a = avm_mountPath b
     \<or> avm_volumeId a \<noteq> None \<and> avm_volumeId a = avm_volumeId b"

text \<open>The transaction of an attachment: the mount, then the status of the volume.\<close>

definition attach_mount :: "host \<Rightarrow> string \<Rightarrow> mount_input \<Rightarrow> volume \<Rightarrow> cp \<Rightarrow> (exn + application_volume_mount) \<times> cp" where
  "attach_mount h app v vol s =
     (let (i, s1) = randomUUID h s;
          m = \<lparr>avm_id = i, avm_applicationId = app, avm_volumeId = Some (v_id vol), avm_volumeName = v_runtimeName vol,
               avm_mountPath = mi_mountPath v, avm_readOnly = mi_readOnly v\<rparr>
      in if list_ex (mount_conflict m) (t_applicationVolumeMounts s1) then (Inl Unique_violation, rolled_back s s1)
         else (Inr m, update_volumes (\<lambda>w. v_id w = v_id vol) (\<lambda>w. w\<lparr>v_status := VolInUse\<rparr>)
                (s1\<lparr>t_applicationVolumeMounts := t_applicationVolumeMounts s1 @ [m]\<rparr>)))"

definition find_volume :: "string \<Rightarrow> string \<Rightarrow> cp \<Rightarrow> volume option" where
  "find_volume vid projectId s = List.find (\<lambda>v. v_id v = vid \<and> v_projectId v = projectId) (t_volumes s)"

definition volume_to_attach :: "host \<Rightarrow> project_access \<Rightarrow> mount_input \<Rightarrow> cp \<Rightarrow> (exn + volume option) \<times> cp" where
  "volume_to_attach h scope v s =
     (if truthy (mi_volumeId v) then (Inr (find_volume (the (mi_volumeId v)) (pj_id (pa_project scope)) s), s)
      else apfst (map_sum id Some) (create_volume h (pj_id (pa_project scope)) (the (mi_volumeName v)) None (pa_userId scope) s))"

definition post_volume :: "host \<Rightarrow> iam \<Rightarrow> app_request \<Rightarrow> cp \<Rightarrow> handler_result" where
  "post_volume h m rq =
     with_application m rq ''volumes.manage'' (\<lambda>scope app.
     with_body rq (volumeMountInput (h_zodUuid h)) ''Invalid volume mount'' (\<lambda>v s.
       (case volume_to_attach h scope v s of
          (Inl _, s1) \<Rightarrow> (Inr (Problem 409 ''A volume is already mounted at this path''), s1)
        | (Inr None, s1) \<Rightarrow> (Inr (Problem 409 ''Volume is not available for attachment''), s1)
        | (Inr (Some vol), s1) \<Rightarrow>
            if v_status vol \<noteq> VolAvailable then (Inr (Problem 409 ''Volume is not available for attachment''), s1)
            else (case attach_mount h (a_id app) v vol s1 of
                    (Inl _, s2) \<Rightarrow> (Inr (Problem 409 ''A volume is already mounted at this path''), s2)
                  | (Inr mount, s2) \<Rightarrow> (Inr (Reply 201 (JStr (avm_id mount))),
                      app_audit h rq scope ''volume.attached'' (v_id vol) (app_audit h rq scope ''application.volume_attached'' (a_id app) s2))))))"

definition detach_volume :: "host \<Rightarrow> iam \<Rightarrow> app_request \<Rightarrow> string \<Rightarrow> cp \<Rightarrow> handler_result" where
  "detach_volume h m rq mountId =
     with_application m rq ''volumes.manage'' (\<lambda>scope app s.
       (case List.find (\<lambda>a. avm_id a = mountId \<and> avm_applicationId a = a_id app) (t_applicationVolumeMounts s) of
          None \<Rightarrow> (Inr (Problem 404 ''Volume mount not found''), s)
        | Some removed \<Rightarrow>
            (let s1 = s\<lparr>t_applicationVolumeMounts :=
                   del_where (\<lambda>a. avm_id a = mountId \<and> avm_applicationId a = a_id app) (t_applicationVolumeMounts s)\<rparr>;
                 s2 = (case avm_volumeId removed of
                         None \<Rightarrow> s1
                       | Some vid \<Rightarrow> app_audit h rq scope ''volume.detached'' vid
                           (if list_ex (\<lambda>a. avm_volumeId a = Some vid) (t_applicationVolumeMounts s1) then s1
                            else update_volumes (\<lambda>w. v_id w = vid) (\<lambda>w. w\<lparr>v_status := VolInUse\<rparr>) s1))
             in (Inr NoContent, app_audit h rq scope ''application.volume_detached'' (a_id app) s2))))"

subsection \<open>Volumes of a project\<close>

text \<open>\<open>routes/volumes.routes.ts\<close>: its audit entries carry no address.\<close>

definition volume_audit :: "host \<Rightarrow> project_access \<Rightarrow> string \<Rightarrow> string \<Rightarrow> cp \<Rightarrow> cp" where
  "volume_audit h scope action vid s =
     audit h (pa_userId scope) action ''volume'' vid (Some (JObj [(''projectId'', JStr (pj_id (pa_project scope)))])) s"

definition volume_scope :: "iam \<Rightarrow> app_request \<Rightarrow> project_access option" where
  "volume_scope m rq = resolveProjectAccess m (rq_session rq) (rq_orgSlug rq) (rq_projectId rq) ''volumes.manage''"

definition volume_create_input :: "json \<Rightarrow> (string \<times> int option) option" where
  "volume_create_input j =
     Option.bind (z_object j) (\<lambda>j.
     Option.bind (z_req volume_label ''name'' j) (\<lambda>n.
     Option.bind (z_opt (z_nullable (z_int (int_range 1 1048576))) ''capacityMib'' j) (\<lambda>c. Some (n, opt_null c))))"

definition list_volumes :: "iam \<Rightarrow> app_request \<Rightarrow> cp \<Rightarrow> response + (volume \<times> nat) list" where
  "list_volumes m rq s =
     (case volume_scope m rq of
        None \<Rightarrow> Inl (Problem 404 ''Project not found or access denied'')
      | Some scope \<Rightarrow> Inr (map (\<lambda>v. (v, length (filter (\<lambda>a. avm_volumeId a = Some (v_id v)) (t_applicationVolumeMounts s))))
          (filter (\<lambda>v. v_projectId v = pj_id (pa_project scope)) (t_volumes s))))"

definition create_project_volume :: "host \<Rightarrow> iam \<Rightarrow> app_request \<Rightarrow> cp \<Rightarrow> handler_result" where
  "create_project_volume h m rq s =
     (case volume_scope m rq of
        None \<Rightarrow> (Inr (Problem 404 ''Project not found or access denied''), s)
      | Some scope \<Rightarrow>
          with_body rq volume_create_input ''Invalid volume'' (\<lambda>v s.
            (case create_volume h (pj_id (pa_project scope)) (fst v) (snd v) (pa_userId scope) s of
               (Inl _, s1) \<Rightarrow> (Inr (Problem 409 ''A volume with this name already exists in the project''), s1)
             | (Inr vol, s1) \<Rightarrow> (Inr (Reply 201 (JStr (v_id vol))), volume_audit h scope ''volume.created'' (v_id vol) s1))) s)"

definition delete_project_volume :: "host \<Rightarrow> iam \<Rightarrow> app_request \<Rightarrow> string \<Rightarrow> cp \<Rightarrow> response \<times> cp" where
  "delete_project_volume h m rq vid s =
     (case volume_scope m rq of
        None \<Rightarrow> (Problem 404 ''Project not found or access denied'', s)
      | Some scope \<Rightarrow>
          (case find_volume vid (pj_id (pa_project scope)) s of
             None \<Rightarrow> (Problem 404 ''Volume not found'', s)
           | Some vol \<Rightarrow>
               if list_ex (\<lambda>a. avm_volumeId a = Some (v_id vol)) (t_applicationVolumeMounts s)
               then (Problem 409 ''Detach this volume from every application before deletion'', s)
               else if list_ex (\<lambda>r. dm_volumeId r = v_id vol) (t_volumeMounts s)
               then (Problem 409 ''Volume is retained by a deployment snapshot and cannot be deleted'', s)
               else (Reply 202 (JObj [(''status'', JStr ''deleting''), (''message'', JStr ''Runtime deletion requires node reconciliation'')]),
                     volume_audit h scope ''volume.delete_requested'' (v_id vol)
                       (update_volumes (\<lambda>v. v_id v = v_id vol) (\<lambda>v. v\<lparr>v_status := VolDeleting\<rparr>) s))))"

subsection \<open>Secrets\<close>

text \<open>\<open>/^[A-Z_][A-Z0-9_]{0,127}$/\<close>\<close>

definition variable_key_ok :: "string \<Rightarrow> bool" where
  "variable_key_ok k \<longleftrightarrow> (case k of [] \<Rightarrow> False
     | c # cs \<Rightarrow> (is_upper c \<or> c = CHR ''_'') \<and> length cs \<le> 127 \<and> list_all (\<lambda>c. is_upper c \<or> is_digit c \<or> c = CHR ''_'') cs)"

definition secretAttachmentInput :: "(string \<Rightarrow> bool) \<Rightarrow> json \<Rightarrow> (string \<times> string \<times> string) option" where
  "secretAttachmentInput zuuid j =
     Option.bind (z_object j) (\<lambda>j.
     Option.bind (z_req (z_string_where zuuid) ''environmentId'' j) (\<lambda>e.
     Option.bind (z_req (z_string_where zuuid) ''secretEnvironmentVariableId'' j) (\<lambda>v.
     Option.bind (z_req (z_string_where variable_key_ok) ''targetKey'' j) (\<lambda>k. Some (e, v, k)))))"

definition project_environment_of :: "project_access \<Rightarrow> string \<Rightarrow> cp \<Rightarrow> project_environment option" where
  "project_environment_of scope eid s =
     List.find (\<lambda>e. pe_id e = eid \<and> pe_projectId e = pj_id (pa_project scope)) (t_environments s)"

definition find_variable :: "string \<Rightarrow> cp \<Rightarrow> environment_variable option" where
  "find_variable i s = List.find (\<lambda>v. ev_id v = i) (t_environmentVariables s)"

definition attachable_secret :: "project_access \<Rightarrow> string \<Rightarrow> string \<Rightarrow> cp \<Rightarrow> bool" where
  "attachable_secret scope eid vid s \<longleftrightarrow>
     (case (project_environment_of scope eid s, find_variable vid s) of
        (Some e, Some v) \<Rightarrow> ev_environmentId v = pe_id e \<and> ev_isSecret v
      | _ \<Rightarrow> False)"

definition post_secret :: "host \<Rightarrow> iam \<Rightarrow> app_request \<Rightarrow> cp \<Rightarrow> handler_result" where
  "post_secret h m rq =
     with_application m rq ''secrets.attach'' (\<lambda>scope app.
     with_body rq (secretAttachmentInput (h_zodUuid h)) ''Invalid secret attachment'' (\<lambda>(eid, vid, key) s.
       (if \<not> attachable_secret scope eid vid s
        then (Inr (Problem 400 ''Secret must be an encrypted secret variable in the selected project environment''), s)
        else (let (i, s1) = randomUUID h s;
                  row = \<lparr>sa_id = i, sa_applicationId = a_id app, sa_environmentId = Some eid,
                         sa_secretEnvironmentVariableId = vid, sa_targetKey = key, sa_createdAt = clock s1\<rparr>
              in if list_ex (\<lambda>r. sa_applicationId r = a_id app \<and> sa_environmentId r = Some eid \<and> sa_targetKey r = key)
                      (t_secretAttachments s1)
                 then (Inr (Problem 409 ''A secret is already attached to this target key in the environment''), s1)
                 else (Inr (Reply 201 (JStr i)),
                       app_audit h rq scope ''application.secret_attached'' (a_id app)
                         (s1\<lparr>t_secretAttachments := t_secretAttachments s1 @ [row]\<rparr>))))))"

definition delete_secret :: "host \<Rightarrow> iam \<Rightarrow> app_request \<Rightarrow> string \<Rightarrow> cp \<Rightarrow> handler_result" where
  "delete_secret h m rq attachmentId =
     with_application m rq ''secrets.attach'' (\<lambda>scope app s.
       (let P = (\<lambda>r. sa_id r = attachmentId \<and> sa_applicationId r = a_id app) in
        if \<not> list_ex P (t_secretAttachments s) then (Inr (Problem 404 ''Secret attachment not found''), s)
        else (Inr NoContent, app_audit h rq scope ''application.secret_detached'' (a_id app)
               (s\<lparr>t_secretAttachments := del_where P (t_secretAttachments s)\<rparr>))))"

subsection \<open>Variables\<close>

definition applicationVariableInput :: "(string \<Rightarrow> bool) \<Rightarrow> json \<Rightarrow> (string option \<times> string) option" where
  "applicationVariableInput zuuid j =
     Option.bind (z_object j) (\<lambda>j.
     Option.bind (z_opt (z_nullable (z_string_where zuuid)) ''environmentId'' j) (\<lambda>e.
     Option.bind (z_req (z_sized 0 16384) ''value'' j) (\<lambda>v. Some (opt_null e, v))))"

definition same_variable :: "string \<Rightarrow> string \<Rightarrow> string option \<Rightarrow> application_variable \<Rightarrow> bool" where
  "same_variable app key e v \<longleftrightarrow> av_applicationId v = app \<and> av_key v = key
     \<and> av_environmentId v = (if truthy e then e else None)"

definition store_variable :: "host \<Rightarrow> (nat \<Rightarrow> string \<Rightarrow> string) \<Rightarrow> string \<Rightarrow> string \<Rightarrow> string option \<Rightarrow> string \<Rightarrow> cp \<Rightarrow> cp" where
  "store_variable h enc app key e value s =
     (let (secret, s1) = (enc (uuid_next s) value, s\<lparr>uuid_next := Suc (uuid_next s)\<rparr>) in
      case List.find (same_variable app key e) (t_applicationVariables s) of
        Some v \<Rightarrow> s1\<lparr>t_applicationVariables := upd_where (\<lambda>r. av_id r = av_id v)
            (\<lambda>r. r\<lparr>av_valueEncrypted := secret, av_updatedAt := clock s1\<rparr>) (t_applicationVariables s1)\<rparr>
      | None \<Rightarrow> (let (i, s2) = randomUUID h s1 in
          s2\<lparr>t_applicationVariables := t_applicationVariables s2 @
            [\<lparr>av_id = i, av_applicationId = app, av_environmentId = e, av_key = key, av_valueEncrypted = secret,
              av_createdAt = clock s2, av_updatedAt = clock s2\<rparr>]\<rparr>))"

definition put_variable :: "host \<Rightarrow> (nat \<Rightarrow> string \<Rightarrow> string) \<Rightarrow> iam \<Rightarrow> app_request \<Rightarrow> string \<Rightarrow> cp \<Rightarrow> handler_result" where
  "put_variable h enc m rq rawKey =
     with_application m rq ''applications.update'' (\<lambda>scope app.
     with_body rq (applicationVariableInput (h_zodUuid h)) ''Invalid application variable'' (\<lambda>(e, value) s.
       (let key = trim_str rawKey in
        if \<not> variable_key_ok key then (Inr (Problem 400 ''Invalid application variable key''), s)
        else if truthy e \<and> project_environment_of scope (the e) s = None
        then (Inr (Problem 400 ''Environment must belong to this project''), s)
        else (Inr (Reply 200 (JObj [(''environmentId'', case e of None \<Rightarrow> JNull | Some i \<Rightarrow> JStr i), (''key'', JStr key), (''value'', JStr value)])),
              app_audit h rq scope ''application.variable_updated'' (a_id app) (store_variable h enc (a_id app) key e value s)))))"

definition delete_variable :: "host \<Rightarrow> iam \<Rightarrow> app_request \<Rightarrow> string \<Rightarrow> string option \<Rightarrow> cp \<Rightarrow> handler_result" where
  "delete_variable h m rq key e =
     with_application m rq ''applications.update'' (\<lambda>scope app s.
       (if truthy e \<and> \<not> h_zodUuid h (the e) then (Inr (Problem 400 ''Invalid environment ID''), s)
        else if \<not> list_ex (same_variable (a_id app) key e) (t_applicationVariables s)
        then (Inr (Problem 404 ''Application variable not found''), s)
        else (Inr NoContent, app_audit h rq scope ''application.variable_deleted'' (a_id app)
               (s\<lparr>t_applicationVariables := del_where (same_variable (a_id app) key e) (t_applicationVariables s)\<rparr>))))"

end
