(* ===== verification/Regex.thy ===== *)
theory Regex
  imports JsText
begin

text \<open>
  Regular expressions as the schemas write them, anchored at both ends. A test is computed by derivatives; the language a
  regular expression denotes is the reference it is proved against. Only the operators the sources use are here: classes,
  sequence, alternative, repetition, the optional part and a bounded repetition.
\<close>

datatype regex = RNone | REps | RClass "char \<Rightarrow> bool" | RSeq regex regex | RAlt regex regex | RStar regex

fun rx_lang :: "regex \<Rightarrow> string set" where
  "rx_lang RNone = {}"
| "rx_lang REps = {[]}"
| "rx_lang (RClass P) = {[c] | c. P c}"
| "rx_lang (RSeq r q) = {u @ v | u v. u \<in> rx_lang r \<and> v \<in> rx_lang q}"
| "rx_lang (RAlt r q) = rx_lang r \<union> rx_lang q"
| "rx_lang (RStar r) = {concat ws | ws. set ws \<subseteq> rx_lang r}"

fun rx_nullable :: "regex \<Rightarrow> bool" where
  "rx_nullable RNone = False"
| "rx_nullable REps = True"
| "rx_nullable (RClass P) = False"
| "rx_nullable (RSeq r q) = (rx_nullable r \<and> rx_nullable q)"
| "rx_nullable (RAlt r q) = (rx_nullable r \<or> rx_nullable q)"
| "rx_nullable (RStar r) = True"

text \<open>Sequence and alternative that drop the parts which cannot match.\<close>

fun rx_seq :: "regex \<Rightarrow> regex \<Rightarrow> regex" where
  "rx_seq RNone q = RNone"
| "rx_seq REps q = q"
| "rx_seq r q = RSeq r q"

fun rx_alt :: "regex \<Rightarrow> regex \<Rightarrow> regex" where
  "rx_alt RNone q = q"
| "rx_alt r RNone = r"
| "rx_alt r q = RAlt r q"

fun rx_deriv :: "char \<Rightarrow> regex \<Rightarrow> regex" where
  "rx_deriv c RNone = RNone"
| "rx_deriv c REps = RNone"
| "rx_deriv c (RClass P) = (if P c then REps else RNone)"
| "rx_deriv c (RSeq r q) = (if rx_nullable r then rx_alt (rx_seq (rx_deriv c r) q) (rx_deriv c q) else rx_seq (rx_deriv c r) q)"
| "rx_deriv c (RAlt r q) = rx_alt (rx_deriv c r) (rx_deriv c q)"
| "rx_deriv c (RStar r) = rx_seq (rx_deriv c r) (RStar r)"

fun rx_test :: "regex \<Rightarrow> string \<Rightarrow> bool" where
  "rx_test r [] = rx_nullable r"
| "rx_test r (c # s) = rx_test (rx_deriv c r) s"

definition rx_plus :: "regex \<Rightarrow> regex" where "rx_plus r = RSeq r (RStar r)"

definition rx_opt :: "regex \<Rightarrow> regex" where "rx_opt r = RAlt r REps"

definition rx_lit :: "string \<Rightarrow> regex" where "rx_lit s = foldr (\<lambda>c. RSeq (RClass ((=) c))) s REps"

fun rx_times :: "nat \<Rightarrow> regex \<Rightarrow> regex" where
  "rx_times 0 r = REps"
| "rx_times (Suc n) r = RSeq r (rx_times n r)"

fun rx_upto :: "nat \<Rightarrow> regex \<Rightarrow> regex" where
  "rx_upto 0 r = REps"
| "rx_upto (Suc n) r = RAlt REps (RSeq r (rx_upto n r))"

subsection \<open>The test decides membership\<close>

lemma rx_nullable_iff: "rx_nullable r \<longleftrightarrow> [] \<in> rx_lang r"
proof (induction r)
  case (RStar r)
  have "[] = concat [] \<and> set [] \<subseteq> rx_lang r" by simp
  then show ?case by (auto intro: exI [of _ "[]"])
qed auto

lemma rx_lang_seq [simp]: "rx_lang (rx_seq r q) = rx_lang (RSeq r q)"
  by (cases r) auto

lemma rx_lang_alt [simp]: "rx_lang (rx_alt r q) = rx_lang (RAlt r q)"
  by (cases r; cases q) auto

lemma concat_Cons_split:
  "concat ws = c # w \<Longrightarrow> set ws \<subseteq> L \<Longrightarrow> \<exists>v vs. c # v \<in> L \<and> set vs \<subseteq> L \<and> w = v @ concat vs"
proof (induction ws)
  case (Cons x ws)
  then show ?case by (cases x) auto
qed simp

lemma rx_lang_deriv: "rx_lang (rx_deriv c r) = {w. c # w \<in> rx_lang r}"
proof (induction r)
  case (RSeq r q)
  show ?case
  proof (intro set_eqI iffI)
    fix w assume "w \<in> rx_lang (rx_deriv c (RSeq r q))"
    then show "w \<in> {w. c # w \<in> rx_lang (RSeq r q)}"
      by (auto simp: RSeq.IH rx_nullable_iff split: if_splits) (metis append_Cons)+
  next
    fix w assume "w \<in> {w. c # w \<in> rx_lang (RSeq r q)}"
    then obtain u v where w: "c # w = u @ v" "u \<in> rx_lang r" "v \<in> rx_lang q" by auto
    then show "w \<in> rx_lang (rx_deriv c (RSeq r q))"
      by (cases u) (auto simp: RSeq.IH rx_nullable_iff)
  qed
next
  case (RStar r)
  show ?case
  proof (intro set_eqI iffI)
    fix w assume "w \<in> rx_lang (rx_deriv c (RStar r))"
    then obtain v ws where "w = v @ concat ws" "c # v \<in> rx_lang r" "set ws \<subseteq> rx_lang r" by (auto simp: RStar.IH)
    then have "c # w = concat ((c # v) # ws) \<and> set ((c # v) # ws) \<subseteq> rx_lang r" by simp
    then show "w \<in> {w. c # w \<in> rx_lang (RStar r)}" unfolding rx_lang.simps mem_Collect_eq by blast
  next
    fix w assume "w \<in> {w. c # w \<in> rx_lang (RStar r)}"
    then obtain ws where "c # w = concat ws" "set ws \<subseteq> rx_lang r" by auto
    from concat_Cons_split [OF this(1) [symmetric] this(2)] show "w \<in> rx_lang (rx_deriv c (RStar r))"
      by (auto simp: RStar.IH)
  qed
qed auto

lemma rx_test_iff: "rx_test r s \<longleftrightarrow> s \<in> rx_lang r"
  by (induction s arbitrary: r) (simp_all add: rx_nullable_iff rx_lang_deriv)

end
