(* ===== verification/ApplicationSource.thy ===== *)
theory ApplicationSource
  imports ApplicationConfig Regex
begin

text \<open>
  Creating and changing an application (\<open>apps/api/src/routes/applications.routes.ts\<close>): the schemas of its fields, where a
  Git application gets its source and a Docker application its image, and the two routes. The \<open>URL\<close> class is the argument
  \<open>url\<close>: the protocol, user name and password of a string it accepts.
\<close>

record url_parts =
  up_protocol :: string
  up_username :: string
  up_password :: string

type_synonym url_class = "string \<Rightarrow> url_parts option"

subsection \<open>Schemas\<close>

definition low_or_digit :: "char \<Rightarrow> bool" where
  "low_or_digit c \<longleftrightarrow> is_lower c \<or> is_digit c"

text \<open>\<open>/^[a-z0-9]+(?:-[a-z0-9]+)*$/\<close>\<close>

definition slug_regex :: regex where
  "slug_regex = RSeq (rx_plus (RClass low_or_digit)) (RStar (RSeq (rx_lit ''-'') (rx_plus (RClass low_or_digit))))"

definition slugSchema :: "json \<Rightarrow> string option" where
  "slugSchema j = Option.bind (z_string j) (\<lambda>s.
     if rx_test slug_regex (trim_str s) \<and> length (trim_str s) \<le> 64 then Some (trim_str s) else None)"

text \<open>A registry or path component and its slash; then the repository, and a tag or a digest.\<close>

definition image_component :: regex where
  "image_component = RSeq (RClass low_or_digit) (RSeq (RStar (RClass (\<lambda>c. low_or_digit c \<or> c \<in> set ''._-'')))
     (RSeq (rx_opt (RSeq (rx_lit '':'') (rx_plus (RClass is_digit)))) (rx_lit ''/'')))"

definition image_tag :: regex where
  "image_tag = RSeq (rx_lit '':'') (RSeq (RClass (\<lambda>c. is_alnum c \<or> c = CHR ''_''))
     (rx_upto 127 (RClass (\<lambda>c. is_alnum c \<or> c \<in> set ''_.-''))))"

definition image_digest :: regex where
  "image_digest = RSeq (rx_lit ''@sha256:'') (rx_times 64 (RClass is_hex_lower))"

definition image_regex :: regex where
  "image_regex = RSeq (RStar image_component) (RSeq (RClass low_or_digit)
     (RSeq (RStar (RClass (\<lambda>c. low_or_digit c \<or> c \<in> set ''._/-''))) (rx_opt (RAlt image_tag image_digest))))"

definition imageReferenceSchema :: "json \<Rightarrow> string option" where
  "imageReferenceSchema j = Option.bind (z_trimmed 1 500 j) (\<lambda>s. if rx_test image_regex s then Some s else None)"

text \<open>\<open>value.split(/[\\/]+/)\<close> has the part \<open>..\<close> exactly when splitting at each single separator has it.\<close>

definition rootDirectory :: "json \<Rightarrow> string option" where
  "rootDirectory j = Option.bind (z_trimmed 1 512 j) (\<lambda>v.
     if \<not> starts_with ''/'' v \<and> ''..'' \<notin> set (split_on CHR ''/'' (map (\<lambda>c. if c = CHR 0x5C then CHR ''/'' else c) v))
     then Some v else None)"

definition application_types :: "(string \<times> application_type) list" where
  "application_types = [(''web'', AppWeb), (''api'', AppApi), (''worker'', AppWorker), (''game_server'', AppGameServer), (''custom'', AppCustom)]"

definition build_fields :: "json \<Rightarrow> json option" where
  "build_fields j =
     Option.bind (z_object j) (\<lambda>j.
     Option.bind (z_opt (z_sized 1 512) ''dockerfile'' j) (\<lambda>d.
     Option.bind (z_opt (z_sized 1 512) ''context'' j) (\<lambda>c.
     Option.bind (z_opt (z_sized 1 128) ''target'' j) (\<lambda>t.
     Option.bind (z_opt z_record_string ''args'' j) (\<lambda>a.
       Some (JObj (jopt ''dockerfile'' (map_option JStr d) @ jopt ''context'' (map_option JStr c) @ jopt ''target'' (map_option JStr t)
         @ jopt ''args'' (map_option (\<lambda>kvs. JObj (map (\<lambda>(k, v). (k, JStr v)) kvs)) a))))))))"

record application_fields =
  af_name :: "string option"
  af_slug :: "string option"
  af_description :: "string option option"
  af_applicationType :: "application_type option"
  af_defaultEnvironmentId :: "string option option"
  af_sourceType :: "source_type option"
  af_gitUrl :: "string option option"
  af_imageName :: "string option option"
  af_branch :: "string option"
  af_internalPort :: "int option"
  af_repositoryProvider :: "string option"
  af_rootDirectory :: "string option"
  af_buildConfiguration :: "json option"
  af_autoDeployEnabled :: "bool option"
  af_gitCredentialReference :: "string option option"
  af_registryCredentialReference :: "string option option"

text \<open>A field of \<open>applicationFields\<close>, which \<open>partial()\<close> makes optional.\<close>

definition z_field :: "bool \<Rightarrow> (json \<Rightarrow> 'a option) \<Rightarrow> string \<Rightarrow> json \<Rightarrow> 'a option option" where
  "z_field partial p k j = (if partial then z_opt p k j else map_option Some (z_req p k j))"

definition git_url :: "url_class \<Rightarrow> json \<Rightarrow> string option" where
  "git_url url = z_string_where (\<lambda>u. url u \<noteq> None \<and> length u \<le> 2000)"

definition applicationFields :: "bool \<Rightarrow> (string \<Rightarrow> bool) \<Rightarrow> url_class \<Rightarrow> json \<Rightarrow> application_fields option" where
  "applicationFields partial zuuid url j =
     Option.bind (z_object j) (\<lambda>j.
     Option.bind (z_field partial (z_trimmed 1 80) ''name'' j) (\<lambda>name.
     Option.bind (z_field partial slugSchema ''slug'' j) (\<lambda>slug.
     Option.bind (z_opt (z_nullable (z_trimmed 0 500)) ''description'' j) (\<lambda>description.
     Option.bind (z_opt (z_enum application_types) ''applicationType'' j) (\<lambda>ty.
     Option.bind (z_opt (z_nullable (z_string_where zuuid)) ''defaultEnvironmentId'' j) (\<lambda>env.
     Option.bind (z_field partial (z_enum [(''git'', SrcGit), (''docker'', SrcDocker)]) ''sourceType'' j) (\<lambda>src.
     Option.bind (z_opt (z_nullable (git_url url)) ''gitUrl'' j) (\<lambda>git.
     Option.bind (z_opt (z_nullable imageReferenceSchema) ''imageName'' j) (\<lambda>img.
     Option.bind (z_opt (z_trimmed 1 255) ''branch'' j) (\<lambda>branch.
     Option.bind (z_opt (z_int tcp_port) ''internalPort'' j) (\<lambda>port.
     Option.bind (z_opt (z_trimmed 1 64) ''repositoryProvider'' j) (\<lambda>provider.
     Option.bind (z_opt rootDirectory ''rootDirectory'' j) (\<lambda>root.
     Option.bind (z_opt build_fields ''buildConfiguration'' j) (\<lambda>build.
     Option.bind (z_opt z_bool ''autoDeployEnabled'' j) (\<lambda>auto.
     Option.bind (z_opt (z_nullable (z_string_where zuuid)) ''gitCredentialReference'' j) (\<lambda>gcr.
     Option.bind (z_opt (z_nullable (z_string_where zuuid)) ''registryCredentialReference'' j) (\<lambda>rcr.
       Some \<lparr>af_name = name, af_slug = slug, af_description = description, af_applicationType = ty,
             af_defaultEnvironmentId = env, af_sourceType = src, af_gitUrl = git, af_imageName = img, af_branch = branch,
             af_internalPort = port, af_repositoryProvider = provider, af_rootDirectory = root,
             af_buildConfiguration = build, af_autoDeployEnabled = auto, af_gitCredentialReference = gcr,
             af_registryCredentialReference = rcr\<rparr>)))))))))))))))))"

definition applicationInput :: "(string \<Rightarrow> bool) \<Rightarrow> url_class \<Rightarrow> json \<Rightarrow> application_fields option" where
  "applicationInput zuuid url j = Option.bind (applicationFields False zuuid url j) (\<lambda>v.
     if af_sourceType v = Some SrcGit \<and> \<not> truthy (opt_null (af_gitUrl v))
        \<or> af_sourceType v = Some SrcDocker \<and> \<not> truthy (opt_null (af_imageName v)) then None else Some v)"

definition no_fields :: application_fields where
  "no_fields = \<lparr>af_name = None, af_slug = None, af_description = None, af_applicationType = None,
     af_defaultEnvironmentId = None, af_sourceType = None, af_gitUrl = None, af_imageName = None, af_branch = None,
     af_internalPort = None, af_repositoryProvider = None, af_rootDirectory = None, af_buildConfiguration = None,
     af_autoDeployEnabled = None, af_gitCredentialReference = None, af_registryCredentialReference = None\<rparr>"

definition applicationPatch :: "(string \<Rightarrow> bool) \<Rightarrow> url_class \<Rightarrow> json \<Rightarrow> application_fields option" where
  "applicationPatch zuuid url j =
     Option.bind (applicationFields True zuuid url j) (\<lambda>v. if v = no_fields then None else Some v)"

definition isCredentialFreeHttpsGitUrl :: "url_class \<Rightarrow> string \<Rightarrow> bool" where
  "isCredentialFreeHttpsGitUrl url u =
     (case url u of None \<Rightarrow> False | Some p \<Rightarrow> up_protocol p = ''https:'' \<and> up_username p = [] \<and> up_password p = [])"

definition secretReferenceInProject :: "string \<Rightarrow> string option \<Rightarrow> cp \<Rightarrow> bool" where
  "secretReferenceInProject projectId reference s \<longleftrightarrow> \<not> truthy reference
     \<or> list_ex (\<lambda>v. ev_id v = the reference \<and> ev_isSecret v
         \<and> list_ex (\<lambda>e. pe_id e = ev_environmentId v \<and> pe_projectId e = projectId) (t_environments s)) (t_environmentVariables s)"

subsection \<open>The routes\<close>

text \<open>The primary key and unique indexes of applications.\<close>

definition application_conflict :: "application \<Rightarrow> application \<Rightarrow> bool" where
  "application_conflict a b \<longleftrightarrow> a_id a = a_id b \<or> a_projectId a = a_projectId b \<and> a_slug a = a_slug b
     \<or> a_containerName a \<noteq> None \<and> a_containerName a = a_containerName b"

definition new_application :: "project_access \<Rightarrow> int \<Rightarrow> application_fields \<Rightarrow> string \<Rightarrow> application" where
  "new_application scope now v i =
     \<lparr>a_id = i, a_organizationId = og_id (pa_organization scope), a_projectId = pj_id (pa_project scope),
      a_name = the (af_name v), a_slug = the (af_slug v), a_description = opt_null (af_description v),
      a_sourceType = the (af_sourceType v),
      a_gitUrl = (if af_sourceType v = Some SrcGit then opt_null (af_gitUrl v) else None),
      a_imageName = (if af_sourceType v = Some SrcDocker then opt_null (af_imageName v) else None),
      a_containerName = None, a_internalPort = or_else (af_internalPort v) 3000, a_branch = or_else (af_branch v) ''main'',
      a_repositoryProvider = or_else (af_repositoryProvider v) ''generic'', a_rootDirectory = or_else (af_rootDirectory v) ''.'',
      a_buildConfiguration = or_else (af_buildConfiguration v) (JObj []),
      a_autoDeployEnabled = or_else (af_autoDeployEnabled v) False,
      a_gitCredentialReference = opt_null (af_gitCredentialReference v),
      a_registryCredentialReference = opt_null (af_registryCredentialReference v), a_lastKnownCommit = None,
      a_lifecycleStatus = LifeActive, a_archivedAt = None, a_applicationType = or_else (af_applicationType v) AppCustom,
      a_defaultEnvironmentId = opt_null (af_defaultEnvironmentId v), a_status = AppDraft, a_createdAt = now, a_updatedAt = now\<rparr>"

definition environment_chosen :: "project_access \<Rightarrow> application_fields \<Rightarrow> cp \<Rightarrow> bool" where
  "environment_chosen scope v s \<longleftrightarrow> \<not> truthy (opt_null (af_defaultEnvironmentId v))
     \<or> project_environment_of scope (the (opt_null (af_defaultEnvironmentId v))) s \<noteq> None"

text \<open>The part of a route after its body was accepted.\<close>

definition create_in_scope :: "host \<Rightarrow> url_class \<Rightarrow> app_request \<Rightarrow> project_access \<Rightarrow> application_fields \<Rightarrow> cp \<Rightarrow> handler_result" where
  "create_in_scope h url rq scope v s =
     (let pid = pj_id (pa_project scope) in
      if \<not> environment_chosen scope v s then (Inr (Problem 400 ''Default environment must belong to this project''), s)
      else if af_sourceType v = Some SrcGit \<and> truthy (opt_null (af_gitUrl v))
           \<and> \<not> isCredentialFreeHttpsGitUrl url (the (opt_null (af_gitUrl v)))
      then (Inr (Problem 400 ''Git repositories must use credential-free HTTPS URLs''), s)
      else if \<not> secretReferenceInProject pid (opt_null (af_gitCredentialReference v)) s
           \<or> \<not> secretReferenceInProject pid (opt_null (af_registryCredentialReference v)) s
      then (Inr (Problem 400 ''Git credential must be a secret variable in this project''), s)
      else (let (i, s1) = randomUUID h s; app = new_application scope (clock s1) v i in
            if list_ex (application_conflict app) (t_applications s1)
            then (Inr (Problem 409 ''An application with this slug already exists in the project''), s1)
            else (Inr (Reply 201 (JObj [(''id'', JStr i), (''slug'', JStr (a_slug app))])),
                  app_audit h rq scope ''application.created'' i (s1\<lparr>t_applications := t_applications s1 @ [app]\<rparr>))))"

definition create_application :: "host \<Rightarrow> url_class \<Rightarrow> iam \<Rightarrow> app_request \<Rightarrow> cp \<Rightarrow> handler_result" where
  "create_application h url m rq s =
     (case getProjectScope m (rq_session rq) (rq_orgSlug rq) (rq_projectId rq) of
        None \<Rightarrow> (Inr (Problem 404 ''Project not found or access denied''), s)
      | Some scope \<Rightarrow>
          if ''applications.create'' \<notin> set (pa_permissions scope)
          then (Inr (Problem 403 ''Permission required: applications.create''), s)
          else if pj_status (pa_project scope) = ProjectArchived
          then (Inr (Problem 409 ''Archived projects cannot receive new applications''), s)
          else with_body rq (applicationInput (h_zodUuid h) url) ''Invalid application data'' (create_in_scope h url rq scope) s)"

definition patched_application :: "application_fields \<Rightarrow> application \<Rightarrow> application" where
  "patched_application v a =
     a\<lparr>a_name := or_else (af_name v) (a_name a), a_slug := or_else (af_slug v) (a_slug a),
       a_description := set_given (af_description v) (a_description a),
       a_applicationType := or_else (af_applicationType v) (a_applicationType a),
       a_defaultEnvironmentId := set_given (af_defaultEnvironmentId v) (a_defaultEnvironmentId a),
       a_sourceType := or_else (af_sourceType v) (a_sourceType a),
       a_gitUrl := (if or_else (af_sourceType v) (a_sourceType a) = SrcGit then set_given (af_gitUrl v) (a_gitUrl a) else None),
       a_imageName := (if or_else (af_sourceType v) (a_sourceType a) = SrcDocker
                       then set_given (af_imageName v) (a_imageName a) else None),
       a_branch := or_else (af_branch v) (a_branch a), a_internalPort := or_else (af_internalPort v) (a_internalPort a),
       a_repositoryProvider := or_else (af_repositoryProvider v) (a_repositoryProvider a),
       a_rootDirectory := or_else (af_rootDirectory v) (a_rootDirectory a),
       a_buildConfiguration := or_else (af_buildConfiguration v) (a_buildConfiguration a),
       a_autoDeployEnabled := or_else (af_autoDeployEnabled v) (a_autoDeployEnabled a),
       a_gitCredentialReference := set_given (af_gitCredentialReference v) (a_gitCredentialReference a),
       a_registryCredentialReference := set_given (af_registryCredentialReference v) (a_registryCredentialReference a)\<rparr>"

text \<open>What is refused before the update, in order.\<close>

definition patch_problem :: "url_class \<Rightarrow> project_access \<Rightarrow> application_fields \<Rightarrow> application \<Rightarrow> cp \<Rightarrow> response option" where
  "patch_problem url scope v current s =
     (let next = patched_application v current; pid = pj_id (pa_project scope); git = set_given (af_gitUrl v) (a_gitUrl current) in
      if \<not> environment_chosen scope v s then Some (Problem 400 ''Default environment must belong to this project'')
      else if af_sourceType v \<noteq> None \<and> af_sourceType v \<noteq> Some (a_sourceType current)
      then Some (Problem 409 ''Application source type cannot be changed; create a new application instead'')
      else if a_sourceType next = SrcGit \<and> \<not> truthy git then Some (Problem 400 ''A Git URL is required'')
      else if a_sourceType next = SrcGit \<and> truthy git \<and> \<not> isCredentialFreeHttpsGitUrl url (the git)
      then Some (Problem 400 ''Git repositories must use credential-free HTTPS URLs'')
      else if \<not> secretReferenceInProject pid (a_gitCredentialReference next) s
           \<or> \<not> secretReferenceInProject pid (a_registryCredentialReference next) s
      then Some (Problem 400 ''Git credential must be a secret variable in this project'')
      else if a_sourceType next = SrcDocker \<and> \<not> truthy (set_given (af_imageName v) (a_imageName current))
      then Some (Problem 400 ''A Docker image is required'')
      else None)"

definition patch_in_scope :: "host \<Rightarrow> url_class \<Rightarrow> app_request \<Rightarrow> project_access \<Rightarrow> application_fields \<Rightarrow> cp \<Rightarrow> handler_result" where
  "patch_in_scope h url rq scope v s =
     (case applicationInScope scope (rq_applicationId rq) s of
        None \<Rightarrow> (Inr (Problem 404 ''Application not found''), s)
      | Some current \<Rightarrow>
          (case patch_problem url scope v current s of
             Some p \<Rightarrow> (Inr p, s)
           | None \<Rightarrow>
               if list_ex (\<lambda>b. a_id b \<noteq> a_id current \<and> application_conflict (patched_application v current) b) (t_applications s)
               then (Inr (Problem 409 ''An application with this slug already exists in the project''), s)
               else (Inr (Reply 200 (JStr (a_id current))),
                     app_audit h rq scope ''application.updated'' (a_id current)
                       (update_applications (\<lambda>a. a_id a = a_id current) (patched_application v) s))))"

definition patch_application :: "host \<Rightarrow> url_class \<Rightarrow> iam \<Rightarrow> app_request \<Rightarrow> cp \<Rightarrow> handler_result" where
  "patch_application h url m rq s =
     (case getProjectScope m (rq_session rq) (rq_orgSlug rq) (rq_projectId rq) of
        None \<Rightarrow> (Inr (Problem 404 ''Project not found or access denied''), s)
      | Some scope \<Rightarrow>
          if ''applications.update'' \<notin> set (pa_permissions scope)
          then (Inr (Problem 403 ''Permission required: applications.update''), s)
          else with_body rq (applicationPatch (h_zodUuid h) url) ''Invalid application data'' (patch_in_scope h url rq scope) s)"

end
