(* ===== verification/DeployRoute.thy ===== *)
theory DeployRoute
  imports ApplicationSource
begin

text \<open>
  The deploy route of \<open>apps/api/src/routes/applications.routes.ts\<close> and the views the dashboard shows beside it: the
  revision markers, the runtime status, the public endpoints and the log requests. \<open>dec\<close> decrypts a stored value
  (\<open>None\<close>: it throws) and \<open>date\<close> prints a date. What a deployment is made from is \<open>deploy_plan\<close>; the route creates,
  supersedes and reconciles it.
\<close>

record deployment_request =
  dr_environmentId :: "string option"
  dr_replicas :: "int option"
  dr_cpuMilli :: "int option"
  dr_memoryMib :: "int option"
  dr_storageMib :: "int option"
  dr_region :: "string option"
  dr_requiredLabels :: "(string \<times> string) list option"

definition deploymentRequest :: "(string \<Rightarrow> bool) \<Rightarrow> json \<Rightarrow> deployment_request option" where
  "deploymentRequest zuuid j =
     Option.bind (z_object j) (\<lambda>j.
     Option.bind (z_opt (z_string_where zuuid) ''environmentId'' j) (\<lambda>e.
     Option.bind (z_opt (z_int (int_range 1 100)) ''replicas'' j) (\<lambda>r.
     Option.bind (z_opt (z_int (int_range 1 256000)) ''cpuMilli'' j) (\<lambda>c.
     Option.bind (z_opt (z_int (int_range 16 1048576)) ''memoryMib'' j) (\<lambda>m.
     Option.bind (z_opt (z_int (int_range 0 1048576)) ''storageMib'' j) (\<lambda>st.
     Option.bind (z_opt (z_trimmed 1 64) ''region'' j) (\<lambda>reg.
     Option.bind (z_opt (z_record (z_sized 1 64)) ''requiredLabels'' j) (\<lambda>ls.
       Some \<lparr>dr_environmentId = e, dr_replicas = r, dr_cpuMilli = c, dr_memoryMib = m, dr_storageMib = st,
             dr_region = reg, dr_requiredLabels = ls\<rparr>))))))))"

text \<open>\<open>a ?? b\<close>\<close>

definition coalesce :: "'a option \<Rightarrow> 'a option \<Rightarrow> 'a option" where
  "coalesce a b = (case a of None \<Rightarrow> b | Some x \<Rightarrow> Some x)"

subsection \<open>What a deployment is made from\<close>

definition decrypt_all :: "(string \<Rightarrow> string option) \<Rightarrow> (string \<times> string) list \<Rightarrow> (string \<times> string) list option" where
  "decrypt_all dec kvs = those (map (\<lambda>(k, v). map_option (Pair k) (dec v)) kvs)"

definition set_all :: "(string \<times> string) list \<Rightarrow> (string \<times> string) list \<Rightarrow> (string \<times> string) list" where
  "set_all kvs env = fold (\<lambda>(k, v). AList.update k v) kvs env"

definition variables_of :: "string \<Rightarrow> cp \<Rightarrow> application_variable list" where
  "variables_of aid s = filter (\<lambda>v. av_applicationId v = aid) (t_applicationVariables s)"

text \<open>The environment: the plain variables of the project environment, the application's own, those of the environment last.\<close>

definition deploy_environment :: "(string \<Rightarrow> string option) \<Rightarrow> string option \<Rightarrow> string \<Rightarrow> cp \<Rightarrow> (string \<times> string) list option" where
  "deploy_environment dec environmentId aid s =
     (let base = (if truthy environmentId
                  then map (\<lambda>v. (ev_key v, ev_valueEncrypted v))
                    (filter (\<lambda>v. ev_environmentId v = the environmentId \<and> \<not> ev_isSecret v) (t_environmentVariables s))
                  else []);
          own = filter (\<lambda>v. av_environmentId v = None) (variables_of aid s)
            @ (if truthy environmentId then filter (\<lambda>v. av_environmentId v = environmentId) (variables_of aid s) else [])
      in Option.bind (decrypt_all dec base) (\<lambda>b.
         Option.bind (decrypt_all dec (map (\<lambda>v. (av_key v, av_valueEncrypted v)) own)) (\<lambda>o'. Some (set_all o' (set_all b [])))))"

definition runtime_defaults :: "string \<Rightarrow> cp \<Rightarrow> runtime_configuration option" where
  "runtime_defaults aid s = List.find (\<lambda>r. rtc_applicationId r = aid) (t_runtimeConfigurations s)"

definition resource_defaults :: "string \<Rightarrow> cp \<Rightarrow> resource_configuration option" where
  "resource_defaults aid s = List.find (\<lambda>r. rsc_applicationId r = aid) (t_resourceConfigurations s)"

definition deploy_requirements :: "deployment_request \<Rightarrow> resource_configuration option \<Rightarrow> workload_requirements" where
  "deploy_requirements v r =
     \<lparr>wr_cpuMilli = or_else (coalesce (dr_cpuMilli v) (map_option rsc_cpuMilli r)) 250,
      wr_memoryMib = or_else (coalesce (dr_memoryMib v) (map_option rsc_memoryMib r)) 256,
      wr_storageMib = or_else (coalesce (dr_storageMib v) (map_option rsc_storageMib r)) 0,
      wr_runtime = Container, wr_architecture = None,
      wr_region = (if truthy (dr_region v) then dr_region v else None),
      wr_requiredLabels = dr_requiredLabels v, wr_requiredNodeId = None, wr_requestedHostPorts = None\<rparr>"

definition deploy_replicas :: "deployment_request \<Rightarrow> runtime_configuration option \<Rightarrow> int" where
  "deploy_replicas v r = or_else (coalesce (dr_replicas v) (map_option rtc_replicas r)) 1"

fun exposure_str :: "exposure \<Rightarrow> string" where
  "exposure_str Private = ''private''"
| "exposure_str Public = ''public''"

fun restart_policy_str :: "restart_policy \<Rightarrow> string" where
  "restart_policy_str RestartNo = ''no''"
| "restart_policy_str RestartOnFailure = ''on-failure''"
| "restart_policy_str RestartAlways = ''always''"
| "restart_policy_str RestartUnlessStopped = ''unless-stopped''"

definition jint :: "int \<Rightarrow> json" where "jint i = JNum (of_int i)"

definition default_port :: "int \<Rightarrow> application_port" where
  "default_port p = \<lparr>ap_id = [], ap_applicationId = [], ap_name = None, ap_internalPort = p, ap_protocol = Tcp,
     ap_exposure = Private, ap_requestedHostPort = None, ap_externalPort = None, ap_description = None, ap_createdAt = 0,
     ap_updatedAt = 0\<rparr>"

definition deploy_port :: "application_port \<Rightarrow> json" where
  "deploy_port p = JObj ([(''containerPort'', jint (ap_internalPort p)), (''protocol'', JStr (protocol_str (ap_protocol p))),
     (''exposure'', JStr (exposure_str (ap_exposure p)))]
     @ (case coalesce (ap_requestedHostPort p) (ap_externalPort p) of
          None \<Rightarrow> [] | Some q \<Rightarrow> if q = 0 then [] else [(''requestedHostPort'', jint q)]))"

definition deploy_mount :: "application_volume_mount \<Rightarrow> json" where
  "deploy_mount a = JObj ((if truthy (avm_volumeId a) then [(''id'', JStr (the (avm_volumeId a)))] else [])
     @ [(''name'', JStr (avm_volumeName a)), (''target'', JStr (avm_mountPath a)), (''readOnly'', JBool (avm_readOnly a))])"

definition given :: "string \<Rightarrow> string option \<Rightarrow> (string \<times> json) list" where
  "given k v = (if truthy v then [(k, JStr (the v))] else [])"

definition deploy_health :: "runtime_configuration \<Rightarrow> (string \<times> json) list" where
  "deploy_health r = (if truthy (rtc_healthcheckCommand r)
     then [(''healthCheck'', JObj [(''command'', JStr (the (rtc_healthcheckCommand r))),
       (''intervalSeconds'', jint (rtc_healthcheckIntervalSeconds r)), (''timeoutSeconds'', jint (rtc_healthcheckTimeoutSeconds r)),
       (''retries'', jint (rtc_healthcheckRetries r)), (''startPeriodSeconds'', jint (rtc_healthcheckStartPeriodSeconds r))])]
     else [])"

definition deploy_runtime_config :: "application \<Rightarrow> runtime_configuration option \<Rightarrow> (string \<times> string) list \<Rightarrow> application_port list
     \<Rightarrow> application_volume_mount list \<Rightarrow> json" where
  "deploy_runtime_config app r env ports mounts = JObj
     ([(''environment'', JObj (map (\<lambda>(k, v). (k, JStr v)) env)), (''ports'', JArr (map deploy_port ports)),
       (''volumes'', JArr (map deploy_mount mounts)),
       (''restartPolicy'', JStr (case r of None \<Rightarrow> ''unless-stopped'' | Some r \<Rightarrow> restart_policy_str (rtc_restartPolicy r))),
       (''gracefulShutdownSeconds'', jint (case r of None \<Rightarrow> 15 | Some r \<Rightarrow> rtc_gracefulShutdownSeconds r))]
      @ given ''registryCredentialReference'' (a_registryCredentialReference app)
      @ (case r of None \<Rightarrow> [] | Some r \<Rightarrow> given ''command'' (rtc_command r) @ given ''workingDirectory'' (rtc_workingDirectory r)
           @ deploy_health r))"

definition jint_opt :: "int option \<Rightarrow> json" where
  "jint_opt v = (case v of None \<Rightarrow> JNull | Some i \<Rightarrow> jint i)"

definition runtime_row_json :: "(int \<Rightarrow> string) \<Rightarrow> runtime_configuration \<Rightarrow> json" where
  "runtime_row_json date r = JObj [(''applicationId'', JStr (rtc_applicationId r)), (''runtime'', JStr (rtc_runtime r)),
     (''command'', jstr_opt (rtc_command r)), (''workingDirectory'', jstr_opt (rtc_workingDirectory r)),
     (''restartPolicy'', JStr (restart_policy_str (rtc_restartPolicy r))),
     (''gracefulShutdownSeconds'', jint (rtc_gracefulShutdownSeconds r)),
     (''healthcheckCommand'', jstr_opt (rtc_healthcheckCommand r)),
     (''healthcheckIntervalSeconds'', jint (rtc_healthcheckIntervalSeconds r)),
     (''healthcheckTimeoutSeconds'', jint (rtc_healthcheckTimeoutSeconds r)), (''healthcheckRetries'', jint (rtc_healthcheckRetries r)),
     (''healthcheckStartPeriodSeconds'', jint (rtc_healthcheckStartPeriodSeconds r)), (''replicas'', jint (rtc_replicas r)),
     (''updatedAt'', JStr (date (rtc_updatedAt r)))]"

definition port_row_json :: "(int \<Rightarrow> string) \<Rightarrow> application_port \<Rightarrow> json" where
  "port_row_json date p = JObj [(''id'', JStr (ap_id p)), (''applicationId'', JStr (ap_applicationId p)), (''name'', jstr_opt (ap_name p)),
     (''internalPort'', jint (ap_internalPort p)), (''protocol'', JStr (protocol_str (ap_protocol p))),
     (''exposure'', JStr (exposure_str (ap_exposure p))), (''requestedHostPort'', jint_opt (ap_requestedHostPort p)),
     (''externalPort'', jint_opt (ap_externalPort p)), (''description'', jstr_opt (ap_description p)),
     (''createdAt'', JStr (date (ap_createdAt p))), (''updatedAt'', JStr (date (ap_updatedAt p)))]"

definition default_port_json :: "int \<Rightarrow> json" where
  "default_port_json p = JObj [(''internalPort'', jint p), (''protocol'', JStr ''tcp''), (''exposure'', JStr ''private''),
     (''requestedHostPort'', JNull), (''externalPort'', JNull)]"

definition mount_row_json :: "application_volume_mount \<Rightarrow> json" where
  "mount_row_json a = JObj [(''id'', JStr (avm_id a)), (''applicationId'', JStr (avm_applicationId a)),
     (''volumeId'', jstr_opt (avm_volumeId a)), (''volumeName'', JStr (avm_volumeName a)), (''mountPath'', JStr (avm_mountPath a)),
     (''readOnly'', JBool (avm_readOnly a))]"

definition deploy_secret_references :: "string option \<Rightarrow> string \<Rightarrow> cp \<Rightarrow> json" where
  "deploy_secret_references environmentId aid s = JArr (if truthy environmentId
     then map (\<lambda>r. JObj [(''id'', JStr (sa_id r)), (''targetKey'', JStr (sa_targetKey r)),
         (''secretEnvironmentVariableId'', JStr (sa_secretEnvironmentVariableId r))])
       (filter (\<lambda>r. sa_applicationId r = aid \<and> sa_environmentId r = environmentId) (t_secretAttachments s))
     else [])"

definition deploy_snapshot :: "(int \<Rightarrow> string) \<Rightarrow> application \<Rightarrow> string option \<Rightarrow> workload_requirements \<Rightarrow> (string \<times> string) list \<Rightarrow> cp \<Rightarrow> json" where
  "deploy_snapshot date app environmentId req env s =
     (let ports = filter (\<lambda>p. ap_applicationId p = a_id app) (t_applicationPorts s);
          mounts = filter (\<lambda>a. avm_applicationId a = a_id app) (t_applicationVolumeMounts s) in
      JObj [(''source'', JObj [(''type'', JStr (if a_sourceType app = SrcDocker then ''image'' else ''git'')), (''image'', jstr_opt (a_imageName app))]),
        (''environmentId'', jstr_opt environmentId),
        (''runtime'', case runtime_defaults (a_id app) s of
            None \<Rightarrow> JObj [(''runtime'', JStr ''container''), (''replicas'', JNum 1), (''restartPolicy'', JStr ''unless-stopped''),
              (''gracefulShutdownSeconds'', JNum 15)]
          | Some r \<Rightarrow> runtime_row_json date r),
        (''resources'', requirements_json req),
        (''ports'', JArr (if ports = [] then [default_port_json (a_internalPort app)] else map (port_row_json date) ports)),
        (''volumes'', JArr (map mount_row_json mounts)),
        (''environmentKeys'', JArr (map (JStr \<circ> fst) env)),
        (''applicationVariableKeys'', JArr (map (\<lambda>v. JObj [(''key'', JStr (av_key v)), (''environmentId'', jstr_opt (av_environmentId v))])
          (variables_of (a_id app) s))),
        (''secretReferences'', deploy_secret_references environmentId (a_id app) s),
        (''registryCredentialReference'', jstr_opt (a_registryCredentialReference app))])"

text \<open>Everything before the deployment is created: a thrown error, an answer, or the deployment's input.\<close>

definition deploy_plan :: "(string \<Rightarrow> string option) \<Rightarrow> (int \<Rightarrow> string) \<Rightarrow> project_access \<Rightarrow> application \<Rightarrow> deployment_request \<Rightarrow> cp
     \<Rightarrow> (exn + response) + deployment_input" where
  "deploy_plan dec date scope app v s =
     (let r = runtime_defaults (a_id app) s;
          environmentId = coalesce (dr_environmentId v) (a_defaultEnvironmentId app);
          ports = filter (\<lambda>p. ap_applicationId p = a_id app) (t_applicationPorts s);
          mounts = filter (\<lambda>a. avm_applicationId a = a_id app) (t_applicationVolumeMounts s);
          req = deploy_requirements v (resource_defaults (a_id app) s)
      in if truthy environmentId \<and> project_environment_of scope (the environmentId) s = None
         then Inl (Inr (Problem 400 ''Environment not found in this project''))
         else (case deploy_environment dec environmentId (a_id app) s of
           None \<Rightarrow> Inl (Inl (Js_error ''Invalid encrypted environment variable''))
         | Some env \<Rightarrow>
             if list_ex (\<lambda>a. \<not> avm_readOnly a) mounts \<and> 1 < deploy_replicas v r
             then Inl (Inr (Problem 409 ''Writable local volumes require a single replica until shared storage is configured''))
             else Inr \<lparr>in_applicationId = a_id app, in_environmentId = environmentId, in_image = the (a_imageName app),
                    in_replicas = deploy_replicas v r, in_desiredState = WantRunning, in_runtime = Container,
                    in_requirements = requirements_json req,
                    in_runtimeConfig = deploy_runtime_config app r env
                      (if ports = [] then [default_port (a_internalPort app)] else ports) mounts,
                    in_configurationSnapshot = deploy_snapshot date app environmentId req env s,
                    in_buildId = None, in_commitSha = None, in_createdBy = Some (pa_userId scope),
                    in_rollbackFromDeploymentId = None\<rparr>))"

definition log_deploy :: "host \<Rightarrow> project_access \<Rightarrow> string \<Rightarrow> string \<Rightarrow> cp \<Rightarrow> cp" where
  "log_deploy h scope aid did s =
     (let (i, s1) = randomUUID h s in s1\<lparr>t_appDeployments := t_appDeployments s1 @
        [\<lparr>ad_id = i, ad_applicationId = aid, ad_actorId = Some (pa_userId scope), ad_action = ActDeploy, ad_succeeded = True,
          ad_message = ''Deployment '' @ did @ '' queued for agent reconciliation'', ad_createdAt = clock s1\<rparr>]\<rparr>)"

definition deploy_planned :: "host \<Rightarrow> (nat \<Rightarrow> cp \<Rightarrow> cp) \<Rightarrow> (nat \<Rightarrow> cp \<Rightarrow> cp) \<Rightarrow> app_request \<Rightarrow> project_access \<Rightarrow> application \<Rightarrow> deployment_input
     \<Rightarrow> cp \<Rightarrow> handler_result" where
  "deploy_planned h rival vrival rq scope app inp s =
     (case createDeployment h rival inp s of
        (Inl e, s1) \<Rightarrow> (Inl e, s1)
      | (Inr d, s1) \<Rightarrow>
          (let s2 = log_deploy h scope (a_id app) (d_id d)
                 (update_applications (\<lambda>a. a_id a = a_id app) (\<lambda>a. a\<lparr>a_status := AppDeploying\<rparr>) s1);
               s3 = supersedePreviousDeployments h (a_id app) (d_id d) s2
           in case reconcileDeployment h vrival (d_id d) s3 of
                (Inl e, s4) \<Rightarrow> (Inl e, s4)
              | (Inr _, s4) \<Rightarrow>
                  (Inr (Reply 202 (JObj [(''deploymentId'', JStr (d_id d)), (''revision'', jint (d_version d)),
                     (''status'', JStr ''deploying''), (''internalPort'', jint (a_internalPort app))])),
                   app_audit h rq scope ''application.deployed'' (a_id app) s4)))"

definition deploy_application :: "host \<Rightarrow> (nat \<Rightarrow> cp \<Rightarrow> cp) \<Rightarrow> (nat \<Rightarrow> cp \<Rightarrow> cp) \<Rightarrow> (string \<Rightarrow> string option) \<Rightarrow> (int \<Rightarrow> string) \<Rightarrow> iam
     \<Rightarrow> app_request \<Rightarrow> cp \<Rightarrow> handler_result" where
  "deploy_application h rival vrival dec date m rq s =
     (case getProjectScope m (rq_session rq) (rq_orgSlug rq) (rq_projectId rq) of
        None \<Rightarrow> (Inr (Problem 404 ''Project not found or access denied''), s)
      | Some scope \<Rightarrow>
          if ''applications.update'' \<notin> set (pa_permissions scope) then (Inr (Problem 403 ''Permission required: applications.update''), s)
          else if ''deployments.create'' \<notin> set (pa_permissions scope) then (Inr (Problem 403 ''Permission required: deployments.create''), s)
          else (case applicationInScope scope (rq_applicationId rq) s of
             None \<Rightarrow> (Inr (Problem 404 ''Application not found''), s)
           | Some app \<Rightarrow>
               if a_lifecycleStatus app = LifeArchived then (Inr (Problem 409 ''Archived applications cannot be deployed''), s)
               else if a_sourceType app \<noteq> SrcDocker \<or> \<not> truthy (a_imageName app)
               then (Inr (Problem 409 ''Git applications require the build worker and cannot be deployed yet''), s)
               else (case deploymentRequest (h_zodUuid h) (or_else (rq_body rq) (JObj [])) of
                       None \<Rightarrow> (Inr (Problem 400 ''Invalid deployment requirements''), s)
                     | Some v \<Rightarrow>
                         (case deploy_plan dec date scope app v s of
                            Inl r \<Rightarrow> (r, s)
                          | Inr inp \<Rightarrow> deploy_planned h rival vrival rq scope app inp s))))"

end
