(* ===== verification/ConfigProperties.thy ===== *)
theory ConfigProperties
  imports ApplicationConfig
begin

text \<open>
  Properties of the configuration routes: what an application refers to stays inside its project, what a configured set of
  ports looks like, and what becomes of a detached volume.
\<close>

subsection \<open>Frames\<close>

lemma app_audit_frames [simp]:
  "t_applications (app_audit h rq scope a i s) = t_applications s" "t_volumes (app_audit h rq scope a i s) = t_volumes s"
  "t_environments (app_audit h rq scope a i s) = t_environments s"
  "t_environmentVariables (app_audit h rq scope a i s) = t_environmentVariables s"
  "t_applicationVolumeMounts (app_audit h rq scope a i s) = t_applicationVolumeMounts s"
  "t_secretAttachments (app_audit h rq scope a i s) = t_secretAttachments s"
  "t_applicationVariables (app_audit h rq scope a i s) = t_applicationVariables s"
  "t_applicationPorts (app_audit h rq scope a i s) = t_applicationPorts s"
  by (simp_all add: app_audit_def recordAudit_def randomUUID_def)

lemma port_rows_frames [simp]:
  "t_applications (insert_port_inputs h app ps s) = t_applications s" "t_volumes (insert_port_inputs h app ps s) = t_volumes s"
  "t_environments (insert_port_inputs h app ps s) = t_environments s"
  "t_environmentVariables (insert_port_inputs h app ps s) = t_environmentVariables s"
  "t_applicationVolumeMounts (insert_port_inputs h app ps s) = t_applicationVolumeMounts s"
  "t_secretAttachments (insert_port_inputs h app ps s) = t_secretAttachments s"
  "t_applicationVariables (insert_port_inputs h app ps s) = t_applicationVariables s"
  by (induction ps arbitrary: s) (simp_all add: randomUUID_def)

subsection \<open>Configuration stays in the project\<close>

definition app_in :: "string \<Rightarrow> string \<Rightarrow> cp \<Rightarrow> bool" where
  "app_in aid pid s \<longleftrightarrow> (\<exists>app \<in> set (t_applications s). a_id app = aid \<and> a_projectId app = pid)"

definition env_in :: "string \<Rightarrow> string \<Rightarrow> cp \<Rightarrow> bool" where
  "env_in eid pid s \<longleftrightarrow> (\<exists>e \<in> set (t_environments s). pe_id e = eid \<and> pe_projectId e = pid)"

definition mount_inside :: "cp \<Rightarrow> application_volume_mount \<Rightarrow> bool" where
  "mount_inside s a \<longleftrightarrow> (\<forall>vid. avm_volumeId a = Some vid \<longrightarrow>
     (\<exists>v \<in> set (t_volumes s). v_id v = vid \<and> app_in (avm_applicationId a) (v_projectId v) s))"

definition secret_inside :: "cp \<Rightarrow> secret_attachment \<Rightarrow> bool" where
  "secret_inside s r \<longleftrightarrow> (\<exists>v \<in> set (t_environmentVariables s). ev_id v = sa_secretEnvironmentVariableId r \<and> ev_isSecret v
     \<and> sa_environmentId r = Some (ev_environmentId v) \<and> (\<exists>pid. env_in (ev_environmentId v) pid s \<and> app_in (sa_applicationId r) pid s))"

definition variable_inside :: "cp \<Rightarrow> application_variable \<Rightarrow> bool" where
  "variable_inside s v \<longleftrightarrow> (\<forall>eid. av_environmentId v = Some eid \<longrightarrow> (\<exists>pid. env_in eid pid s \<and> app_in (av_applicationId v) pid s))"

definition mounts_distinct :: "application_volume_mount list \<Rightarrow> bool" where
  "mounts_distinct ms \<longleftrightarrow> sorted_wrt (\<lambda>a b. \<not> mount_conflict a b) ms"

definition config_inside :: "cp \<Rightarrow> bool" where
  "config_inside s \<longleftrightarrow> (\<forall>a \<in> set (t_applicationVolumeMounts s). mount_inside s a) \<and> mounts_distinct (t_applicationVolumeMounts s)
     \<and> (\<forall>r \<in> set (t_secretAttachments s). secret_inside s r) \<and> (\<forall>v \<in> set (t_applicationVariables s). variable_inside s v)"

datatype config_call =
  SetRuntime | SetResources | SetPorts | MountVolume | UnmountVolume string | AttachSecret | DetachSecret string
| SetVariable string | RemoveVariable string "string option"

definition config_call_of :: "host \<Rightarrow> (nat \<Rightarrow> string \<Rightarrow> string) \<Rightarrow> iam \<Rightarrow> app_request \<Rightarrow> config_call \<Rightarrow> cp \<Rightarrow> handler_result" where
  "config_call_of h enc m rq call = (case call of
     SetRuntime \<Rightarrow> put_runtime_configuration h m rq | SetResources \<Rightarrow> put_resources h m rq | SetPorts \<Rightarrow> put_ports h m rq
   | MountVolume \<Rightarrow> post_volume h m rq | UnmountVolume i \<Rightarrow> detach_volume h m rq i
   | AttachSecret \<Rightarrow> post_secret h m rq | DetachSecret i \<Rightarrow> delete_secret h m rq i
   | SetVariable k \<Rightarrow> put_variable h enc m rq k | RemoveVariable k e \<Rightarrow> delete_variable h m rq k e)"

lemma inside_cong:
  assumes "t_applications t = t_applications s" "t_environments t = t_environments s"
  shows "app_in a p t = app_in a p s" "env_in e p t = env_in e p s"
  using assms by (simp_all add: app_in_def env_in_def)

lemma config_inside_same:
  assumes "config_inside s" "t_applications t = t_applications s" "t_environments t = t_environments s"
    and "t_volumes t = t_volumes s" "t_environmentVariables t = t_environmentVariables s"
    and "t_applicationVolumeMounts t = t_applicationVolumeMounts s" "t_secretAttachments t = t_secretAttachments s"
    and "t_applicationVariables t = t_applicationVariables s"
  shows "config_inside t"
  using assms(1) unfolding config_inside_def mount_inside_def secret_inside_def variable_inside_def inside_cong [OF assms(2,3)] assms(4-8) .

lemma with_application_keeps:
  assumes "I s"
    and "\<And>scope app. app_in (a_id app) (pj_id (pa_project scope)) s \<Longrightarrow> I (snd (handler scope app s))"
  shows "I (snd (with_application m rq p handler s))"
proof -
  have "app_in (a_id app) (pj_id (pa_project scope)) s" if "applicationInScope scope aid s = Some app" for scope aid app
    using that by (auto simp: applicationInScope_def app_in_def dest!: find_Some_iff')
  then show ?thesis using assms by (auto simp: with_application_def split: option.split)
qed

lemma with_body_keeps: "I s \<Longrightarrow> (\<And>v. schema (the (rq_body rq)) = Some v \<Longrightarrow> I (snd (handler v s))) \<Longrightarrow> I (snd (with_body rq schema invalid handler s))"
  by (auto simp: with_body_def split: option.split)

lemma mounts_distinct_append:
  "mounts_distinct ms \<Longrightarrow> \<not> list_ex (mount_conflict m) ms \<Longrightarrow> mounts_distinct (ms @ [m])"
  by (auto simp: mounts_distinct_def sorted_wrt_append list_ex_iff mount_conflict_def)

lemma mounts_distinct_del: "mounts_distinct ms \<Longrightarrow> mounts_distinct (del_where P ms)"
  by (simp add: mounts_distinct_def del_where_def sorted_wrt_filter)

lemma own_mount_paths_distinct:
  assumes "mounts_distinct ms"
  shows "distinct (map avm_mountPath (filter (\<lambda>a. avm_applicationId a = aid) ms))"
  using assms by (induction ms) (auto simp: mounts_distinct_def mount_conflict_def)

lemma volumes_updated:
  assumes "\<And>v. v_id (f v) = v_id v \<and> v_projectId (f v) = v_projectId v"
  shows "mount_inside (update_volumes P f s) a \<longleftrightarrow> mount_inside s a"
proof -
  have sel: "v_id (if P v then (f v)\<lparr>v_updatedAt := t\<rparr> else v) = v_id v"
      "v_projectId (if P v then (f v)\<lparr>v_updatedAt := t\<rparr> else v) = v_projectId v" for v t
    using assms by simp_all
  have "app_in x p (update_volumes P f s) = app_in x p s" for x p by (simp add: app_in_def update_volumes_def)
  then show ?thesis by (simp add: mount_inside_def update_volumes_def set_upd_where sel app_in_def del: if_image_distrib)
qed

lemma inside_update_volumes:
  assumes "config_inside s" "\<And>v. v_id (f v) = v_id v \<and> v_projectId (f v) = v_projectId v"
  shows "config_inside (update_volumes P f s)"
proof -
  have same: "t_applications (update_volumes P f s) = t_applications s" "t_environments (update_volumes P f s) = t_environments s"
      "t_environmentVariables (update_volumes P f s) = t_environmentVariables s"
      "t_applicationVolumeMounts (update_volumes P f s) = t_applicationVolumeMounts s"
      "t_secretAttachments (update_volumes P f s) = t_secretAttachments s"
      "t_applicationVariables (update_volumes P f s) = t_applicationVariables s"
    by (simp_all add: update_volumes_def)
  show ?thesis using assms(1)
    unfolding config_inside_def volumes_updated [of f, OF assms(2)] secret_inside_def variable_inside_def inside_cong [OF same(1,2)] same(3-6) .
qed

lemma inside_new_volume:
  assumes "config_inside s"
  shows "config_inside (s\<lparr>t_volumes := t_volumes s @ vs\<rparr>)"
  using assms unfolding config_inside_def mount_inside_def secret_inside_def variable_inside_def app_in_def env_in_def by simp blast

lemma inside_uuid: "config_inside s \<Longrightarrow> config_inside (s\<lparr>uuid_next := n\<rparr>)"
  by (erule config_inside_same) simp_all

lemma inside_audit: "config_inside s \<Longrightarrow> config_inside (app_audit h rq scope a i s)"
  by (erule config_inside_same) simp_all

lemma inside_create_volume: "config_inside s \<Longrightarrow> config_inside (snd (create_volume h p n c u s))"
  using inside_new_volume [of "s\<lparr>uuid_next := Suc (Suc (uuid_next s))\<rparr>"] inside_uuid [of s "Suc (Suc (uuid_next s))"]
  by (simp add: create_volume_def randomUUID_def Let_def)

lemma inside_volume_to_attach: "config_inside s \<Longrightarrow> config_inside (snd (volume_to_attach h scope v s))"
  using inside_create_volume by (simp add: volume_to_attach_def split: option.split)

lemma volume_to_attach_project:
  assumes "volume_to_attach h scope v s = (Inr (Some vol), s1)"
  shows "vol \<in> set (t_volumes s1) \<and> v_projectId vol = pj_id (pa_project scope) \<and> t_applications s1 = t_applications s"
  using assms
  by (auto simp: volume_to_attach_def find_volume_def create_volume_def randomUUID_def Let_def split: option.splits if_splits
      dest!: find_Some_iff')

lemma inside_attach:
  assumes "config_inside s" "app_in aid (v_projectId vol) s" "vol \<in> set (t_volumes s)"
  shows "config_inside (snd (attach_mount h aid v vol s))"
proof -
  let ?s1 = "s\<lparr>uuid_next := Suc (uuid_next s)\<rparr>"
  let ?m = "\<lparr>avm_id = h_randomUUID h (uuid_next s), avm_applicationId = aid, avm_volumeId = Some (v_id vol),
      avm_volumeName = v_runtimeName vol, avm_mountPath = mi_mountPath v, avm_readOnly = mi_readOnly v\<rparr>"
  let ?s2 = "?s1\<lparr>t_applicationVolumeMounts := t_applicationVolumeMounts s @ [?m]\<rparr>"
  have "config_inside ?s2" if "\<not> list_ex (mount_conflict ?m) (t_applicationVolumeMounts s)"
  proof -
    have "mount_inside ?s2 ?m" using assms(2,3) by (auto simp: mount_inside_def app_in_def)
    moreover have "mount_inside ?s2 a = mount_inside s a" for a by (simp add: mount_inside_def app_in_def)
    moreover have "secret_inside ?s2 = secret_inside s" "variable_inside ?s2 = variable_inside s"
      by (simp_all add: fun_eq_iff secret_inside_def variable_inside_def app_in_def env_in_def)
    ultimately show ?thesis using assms(1) mounts_distinct_append [OF _ that] by (simp add: config_inside_def)
  qed
  from inside_update_volumes [OF this] show ?thesis
    using assms(1) inside_uuid [OF assms(1)] by (simp add: attach_mount_def randomUUID_def Let_def rolled_back_def)
qed

lemma inside_post_volume: "config_inside s \<Longrightarrow> config_inside (snd (post_volume h m rq s))"
  unfolding post_volume_def
proof (rule with_application_keeps [where I = config_inside], assumption, rule with_body_keeps [where I = config_inside], assumption)
  fix scope :: project_access and app v
  assume inv: "config_inside s" and app: "app_in (a_id app) (pj_id (pa_project scope)) s"
  obtain x s1 where x: "volume_to_attach h scope v s = (x, s1)" by (rule prod.exhaust)
  with inv inside_volume_to_attach [of s h scope v] have inv1: "config_inside s1" by simp
  show "config_inside (snd (case volume_to_attach h scope v s of
        (Inl _, s1) \<Rightarrow> (Inr (Problem 409 ''A volume is already mounted at this path''), s1)
      | (Inr None, s1) \<Rightarrow> (Inr (Problem 409 ''Volume is not available for attachment''), s1)
      | (Inr (Some vol), s1) \<Rightarrow>
          if v_status vol \<noteq> VolAvailable then (Inr (Problem 409 ''Volume is not available for attachment''), s1)
          else (case attach_mount h (a_id app) v vol s1 of
                  (Inl _, s2) \<Rightarrow> (Inr (Problem 409 ''A volume is already mounted at this path''), s2)
                | (Inr mount, s2) \<Rightarrow> (Inr (Reply 201 (JStr (avm_id mount))),
                    app_audit h rq scope ''volume.attached'' (v_id vol) (app_audit h rq scope ''application.volume_attached'' (a_id app) s2)))))"
  proof (cases x)
    case (Inr y)
    show ?thesis
    proof (cases y)
      case (Some vol)
      from volume_to_attach_project [of h scope v s vol s1] x Inr Some app
      have "app_in (a_id app) (v_projectId vol) s1" "vol \<in> set (t_volumes s1)" by (simp_all add: app_in_def)
      from inside_attach [OF inv1 this] have "config_inside (snd (attach_mount h (a_id app) v vol s1))" .
      with inv1 x Inr Some show ?thesis by (auto simp: inside_audit split: prod.split sum.split)
    qed (use inv1 x Inr in simp)
  qed (use inv1 x in simp)
qed

lemma inside_detach: "config_inside s \<Longrightarrow> config_inside (snd (detach_volume h m rq i s))"
  unfolding detach_volume_def
proof (rule with_application_keeps [where I = config_inside], assumption)
  fix scope :: project_access and app
  assume inv: "config_inside s"
  let ?s1 = "s\<lparr>t_applicationVolumeMounts := del_where (\<lambda>a. avm_id a = i \<and> avm_applicationId a = a_id app) (t_applicationVolumeMounts s)\<rparr>"
  have "config_inside ?s1"
  proof -
    have "mount_inside ?s1 = mount_inside s" "secret_inside ?s1 = secret_inside s" "variable_inside ?s1 = variable_inside s"
      by (simp_all add: fun_eq_iff mount_inside_def secret_inside_def variable_inside_def app_in_def env_in_def)
    then show ?thesis using inv mounts_distinct_del by (simp add: config_inside_def)
  qed
  moreover from this have "config_inside (update_volumes P (\<lambda>w. w\<lparr>v_status := VolInUse\<rparr>) ?s1)" for P
    by (rule inside_update_volumes) simp
  ultimately show "config_inside (snd (case List.find (\<lambda>a. avm_id a = i \<and> avm_applicationId a = a_id app) (t_applicationVolumeMounts s) of
        None \<Rightarrow> (Inr (Problem 404 ''Volume mount not found''), s)
      | Some removed \<Rightarrow>
          (let s1 = ?s1;
               s2 = (case avm_volumeId removed of
                       None \<Rightarrow> s1
                     | Some vid \<Rightarrow> app_audit h rq scope ''volume.detached'' vid
                         (if list_ex (\<lambda>a. avm_volumeId a = Some vid) (t_applicationVolumeMounts s1) then s1
                          else update_volumes (\<lambda>w. v_id w = vid) (\<lambda>w. w\<lparr>v_status := VolInUse\<rparr>) s1))
           in (Inr NoContent, app_audit h rq scope ''application.volume_detached'' (a_id app) s2))))"
    using inv by (simp add: Let_def inside_audit split: option.split)
qed

lemma inside_post_secret: "config_inside s \<Longrightarrow> config_inside (snd (post_secret h m rq s))"
  unfolding post_secret_def
proof (rule with_application_keeps [where I = config_inside], assumption, rule with_body_keeps [where I = config_inside], assumption)
  fix scope :: project_access and app and v :: "string \<times> string \<times> string"
  assume inv: "config_inside s" and app: "app_in (a_id app) (pj_id (pa_project scope)) s"
  obtain eid vid key where v: "v = (eid, vid, key)" by (metis prod_cases3)
  let ?s1 = "s\<lparr>uuid_next := Suc (uuid_next s)\<rparr>"
  let ?r = "\<lparr>sa_id = h_randomUUID h (uuid_next s), sa_applicationId = a_id app, sa_environmentId = Some eid,
      sa_secretEnvironmentVariableId = vid, sa_targetKey = key, sa_createdAt = clock s\<rparr>"
  let ?s2 = "?s1\<lparr>t_secretAttachments := t_secretAttachments s @ [?r]\<rparr>"
  have "config_inside ?s2" if ok: "attachable_secret scope eid vid s"
  proof -
    from ok obtain e u where eu: "project_environment_of scope eid s = Some e" "find_variable vid s = Some u"
        "ev_environmentId u = pe_id e" "ev_isSecret u"
      by (auto simp: attachable_secret_def split: option.splits)
    then have "e \<in> set (t_environments s)" "pe_id e = eid" "pe_projectId e = pj_id (pa_project scope)"
        "u \<in> set (t_environmentVariables s)" "ev_id u = vid"
      by (auto simp: project_environment_of_def find_variable_def dest!: find_Some_iff')
    with app have "env_in eid (pj_id (pa_project scope)) ?s2" "app_in (a_id app) (pj_id (pa_project scope)) ?s2"
        "u \<in> set (t_environmentVariables ?s2)" "ev_id u = vid" "ev_environmentId u = eid"
      using eu(3) by (auto simp: env_in_def app_in_def)
    then have "secret_inside ?s2 ?r" using eu(4) unfolding secret_inside_def by auto
    moreover have "mount_inside ?s2 = mount_inside s" "secret_inside ?s2 = secret_inside s" "variable_inside ?s2 = variable_inside s"
      by (simp_all add: fun_eq_iff mount_inside_def secret_inside_def variable_inside_def app_in_def env_in_def)
    ultimately show ?thesis using inv by (simp add: config_inside_def)
  qed
  then show "config_inside (snd ((case v of (eid, vid, key) \<Rightarrow> \<lambda>s.
       (if \<not> attachable_secret scope eid vid s
        then (Inr (Problem 400 ''Secret must be an encrypted secret variable in the selected project environment''), s)
        else (let (i, s1) = randomUUID h s;
                  row = \<lparr>sa_id = i, sa_applicationId = a_id app, sa_environmentId = Some eid,
                         sa_secretEnvironmentVariableId = vid, sa_targetKey = key, sa_createdAt = clock s1\<rparr>
              in if list_ex (\<lambda>r. sa_applicationId r = a_id app \<and> sa_environmentId r = Some eid \<and> sa_targetKey r = key)
                      (t_secretAttachments s1)
                 then (Inr (Problem 409 ''A secret is already attached to this target key in the environment''), s1)
                 else (Inr (Reply 201 (JStr i)),
                       app_audit h rq scope ''application.secret_attached'' (a_id app)
                         (s1\<lparr>t_secretAttachments := t_secretAttachments s1 @ [row]\<rparr>))))) s))"
    using inv inside_uuid [OF inv] by (simp add: v randomUUID_def Let_def inside_audit)
qed

lemma inside_delete_secret: "config_inside s \<Longrightarrow> config_inside (snd (delete_secret h m rq i s))"
  unfolding delete_secret_def Let_def
proof (rule with_application_keeps [where I = config_inside], assumption)
  fix scope :: project_access and app
  assume inv: "config_inside s"
  let ?P = "\<lambda>r. sa_id r = i \<and> sa_applicationId r = a_id app"
  let ?s1 = "s\<lparr>t_secretAttachments := del_where ?P (t_secretAttachments s)\<rparr>"
  have "mount_inside ?s1 = mount_inside s" "secret_inside ?s1 = secret_inside s" "variable_inside ?s1 = variable_inside s"
    by (simp_all add: fun_eq_iff mount_inside_def secret_inside_def variable_inside_def app_in_def env_in_def)
  then have "config_inside ?s1" using inv by (simp add: config_inside_def)
  then show "config_inside (snd (if \<not> list_ex ?P (t_secretAttachments s) then (Inr (Problem 404 ''Secret attachment not found''), s)
        else (Inr NoContent, app_audit h rq scope ''application.secret_detached'' (a_id app) ?s1)))"
    using inv by (simp add: inside_audit)
qed

lemma inside_store_variable:
  assumes "config_inside s" and "\<And>i. e = Some i \<Longrightarrow> \<exists>pid. env_in i pid s \<and> app_in aid pid s"
  shows "config_inside (store_variable h enc aid key e value s)"
proof -
  let ?s1 = "s\<lparr>uuid_next := Suc (uuid_next s)\<rparr>"
  have same: "mount_inside (s\<lparr>uuid_next := n, t_applicationVariables := vs\<rparr>) = mount_inside s"
      "secret_inside (s\<lparr>uuid_next := n, t_applicationVariables := vs\<rparr>) = secret_inside s"
      "variable_inside (s\<lparr>uuid_next := n, t_applicationVariables := vs\<rparr>) = variable_inside s" for n vs
    by (simp_all add: fun_eq_iff mount_inside_def secret_inside_def variable_inside_def app_in_def env_in_def)
  show ?thesis
  proof (cases "List.find (same_variable aid key e) (t_applicationVariables s)")
    case None
    let ?new = "\<lparr>av_id = h_randomUUID h (Suc (uuid_next s)), av_applicationId = aid, av_environmentId = e, av_key = key,
        av_valueEncrypted = enc (uuid_next s) value, av_createdAt = clock s, av_updatedAt = clock s\<rparr>"
    have "variable_inside s ?new" using assms(2) by (auto simp: variable_inside_def)
    then show ?thesis using None assms(1)
      by (simp add: store_variable_def randomUUID_def Let_def config_inside_def same)
  next
    case (Some v)
    have "variable_inside s (r\<lparr>av_valueEncrypted := x, av_updatedAt := y\<rparr>) = variable_inside s r" for r x y
      by (simp add: variable_inside_def)
    then show ?thesis using Some assms(1)
      by (simp add: store_variable_def Let_def config_inside_def set_upd_where same del: if_image_distrib)
  qed
qed

lemma zod_field_string:
  assumes "Option.bind (z_opt (z_nullable (z_string_where P)) k j) (\<lambda>e. Option.bind g (\<lambda>v. Some (opt_null e, v))) = Some (Some x, y)"
  shows "P x"
proof -
  have "z_nullable (z_string_where P) w = Some (Some x) \<Longrightarrow> P x" for w
    by (cases w) (auto simp: z_string_where_def split: option.splits if_splits)
  with assms show ?thesis by (auto simp: bind_eq_Some_conv z_opt_def opt_null_def split: option.splits)
qed

lemma inside_put_variable:
  assumes "config_inside s" "\<not> h_zodUuid h []"
  shows "config_inside (snd (put_variable h enc m rq k s))"
  unfolding put_variable_def
proof (rule with_application_keeps [where I = config_inside], rule assms(1), rule with_body_keeps [where I = config_inside], rule assms(1))
  note inv = assms(1)
  fix scope :: project_access and app and v :: "string option \<times> string"
  assume app: "app_in (a_id app) (pj_id (pa_project scope)) s"
    and parsed: "applicationVariableInput (h_zodUuid h) (the (rq_body rq)) = Some v"
  obtain e x where v: "v = (e, x)" by (rule prod.exhaust)
  have st: "config_inside (store_variable h enc (a_id app) key e x s)"
    if ok: "\<not> (truthy e \<and> project_environment_of scope (the e) s = None)" for key
  proof (rule inside_store_variable [OF inv])
    fix i assume "e = Some i"
    with parsed v have "h_zodUuid h i"
      by (cases "z_object (the (rq_body rq))") (auto simp: applicationVariableInput_def intro: zod_field_string)
    with assms(2) have "i \<noteq> []" by auto
    with ok \<open>e = Some i\<close> obtain y where "project_environment_of scope i s = Some y" by (auto simp: truthy_def)
    then have "env_in i (pj_id (pa_project scope)) s"
      by (auto simp: project_environment_of_def env_in_def dest!: find_Some_iff')
    with app show "\<exists>pid. env_in i pid s \<and> app_in (a_id app) pid s" by blast
  qed
  show "config_inside (snd ((case v of (e, x) \<Rightarrow> \<lambda>s.
       (let key = trim_str k in
        if \<not> variable_key_ok key then (Inr (Problem 400 ''Invalid application variable key''), s)
        else if truthy e \<and> project_environment_of scope (the e) s = None
        then (Inr (Problem 400 ''Environment must belong to this project''), s)
        else (Inr (Reply 200 (JObj [(''environmentId'', case e of None \<Rightarrow> JNull | Some i \<Rightarrow> JStr i), (''key'', JStr key), (''value'', JStr x)])),
              app_audit h rq scope ''application.variable_updated'' (a_id app) (store_variable h enc (a_id app) key e x s)))) s))"
    using inv by (simp add: v Let_def inside_audit st)
qed

lemma inside_delete_variable: "config_inside s \<Longrightarrow> config_inside (snd (delete_variable h m rq k e s))"
  unfolding delete_variable_def
proof (rule with_application_keeps [where I = config_inside], assumption)
  fix scope :: project_access and app
  assume inv: "config_inside s"
  let ?s1 = "s\<lparr>t_applicationVariables := del_where (same_variable (a_id app) k e) (t_applicationVariables s)\<rparr>"
  have "mount_inside ?s1 = mount_inside s" "secret_inside ?s1 = secret_inside s" "variable_inside ?s1 = variable_inside s"
    by (simp_all add: fun_eq_iff mount_inside_def secret_inside_def variable_inside_def app_in_def env_in_def)
  then have "config_inside ?s1" using inv by (simp add: config_inside_def)
  then show "config_inside (snd (if truthy e \<and> \<not> h_zodUuid h (the e) then (Inr (Problem 400 ''Invalid environment ID''), s)
        else if \<not> list_ex (same_variable (a_id app) k e) (t_applicationVariables s)
        then (Inr (Problem 404 ''Application variable not found''), s)
        else (Inr NoContent, app_audit h rq scope ''application.variable_deleted'' (a_id app) ?s1)))"
    using inv by (simp add: inside_audit)
qed

lemma inside_settings:
  assumes "config_inside s"
  shows "config_inside (snd (put_runtime_configuration h m rq s))" "config_inside (snd (put_resources h m rq s))"
    and "config_inside (snd (put_ports h m rq s))"
proof -
  have same: "config_inside (s\<lparr>t_runtimeConfigurations := x\<rparr>)" "config_inside (s\<lparr>t_resourceConfigurations := y\<rparr>)" for x y
    using assms by (rule config_inside_same, simp_all)+
  have ports: "config_inside (insert_port_inputs h a ps (s\<lparr>t_applicationPorts := z\<rparr>))" for a ps z
    using assms by (rule config_inside_same) simp_all
  show "config_inside (snd (put_runtime_configuration h m rq s))"
    unfolding put_runtime_configuration_def
    by (rule with_application_keeps [where I = config_inside], rule assms, rule with_body_keeps [where I = config_inside], rule assms)
      (simp add: inside_audit same)
  show "config_inside (snd (put_resources h m rq s))"
    unfolding put_resources_def
    by (rule with_application_keeps [where I = config_inside], rule assms, rule with_body_keeps [where I = config_inside], rule assms)
      (simp add: inside_audit same)
  show "config_inside (snd (put_ports h m rq s))"
    unfolding put_ports_def
    by (rule with_application_keeps [where I = config_inside], rule assms, rule with_body_keeps [where I = config_inside], rule assms)
      (simp add: inside_audit ports)
qed

text \<open>C21. Whatever the configuration routes of an application are asked, the configuration stays inside the project: every
  mounted volume belongs to the project of the application that mounts it and is mounted once, no two mounts of an
  application share a path, every attached secret is a secret variable of an environment of the application's project, and
  so is the environment of every variable scoped to one.\<close>

theorem config_stays_in_project:
  assumes "config_inside s" "\<not> h_zodUuid h []"
  shows "config_inside (fold (\<lambda>(rq, call) s. snd (config_call_of h enc m rq call s)) calls s)"
  using assms(1)
proof (induction calls arbitrary: s)
  case (Cons c calls)
  obtain rq call where c: "c = (rq, call)" by (rule prod.exhaust)
  have "config_inside (snd (config_call_of h enc m rq call s))"
    by (cases call) (simp_all add: config_call_of_def Cons.prems assms(2) inside_settings inside_post_volume inside_detach
      inside_post_secret inside_delete_secret inside_put_variable inside_delete_variable)
  then show ?case by (simp add: c Cons.IH)
qed simp

subsection \<open>A detached volume\<close>

definition volume_lost :: "string \<Rightarrow> cp \<Rightarrow> bool" where
  "volume_lost vid s \<longleftrightarrow> (\<exists>v \<in> set (t_volumes s). v_id v = vid)
     \<and> (\<forall>v \<in> set (t_volumes s). v_id v = vid \<longrightarrow> v_status v \<noteq> VolAvailable)
     \<and> (\<forall>a \<in> set (t_applicationVolumeMounts s). avm_volumeId a \<noteq> Some vid)"

lemma volume_lost_same:
  "volume_lost vid s \<Longrightarrow> t_volumes t = t_volumes s \<Longrightarrow> t_applicationVolumeMounts t = t_applicationVolumeMounts s
   \<Longrightarrow> volume_lost vid t"
  by (simp add: volume_lost_def)

lemma lost_audit: "volume_lost vid s \<Longrightarrow> volume_lost vid (app_audit h rq scope a i s)"
  by (erule volume_lost_same) simp_all

lemma lost_in_use:
  assumes "volume_lost vid s"
  shows "volume_lost vid (update_volumes P (\<lambda>w. w\<lparr>v_status := VolInUse\<rparr>) s)"
proof -
  have sel: "v_id (if P v then v\<lparr>v_status := VolInUse, v_updatedAt := t\<rparr> else v) = v_id v"
      "v_status (if P v then v\<lparr>v_status := VolInUse, v_updatedAt := t\<rparr> else v) = (if P v then VolInUse else v_status v)" for v t
    by simp_all
  show ?thesis using assms by (auto simp: volume_lost_def update_volumes_def set_upd_where sel simp del: if_image_distrib)
qed

lemma lost_released:
  assumes "v \<in> set (t_volumes s)" "v_id v = vid" "\<And>a. a \<in> set (t_applicationVolumeMounts s) \<Longrightarrow> avm_volumeId a \<noteq> Some vid"
  shows "volume_lost vid (update_volumes (\<lambda>w. v_id w = vid) (\<lambda>w. w\<lparr>v_status := VolInUse\<rparr>) s)"
proof -
  have sel: "v_id (if P v then v\<lparr>v_status := VolInUse, v_updatedAt := t\<rparr> else v) = v_id v"
      "v_status (if P v then v\<lparr>v_status := VolInUse, v_updatedAt := t\<rparr> else v) = (if P v then VolInUse else v_status v)" for P v t
    by simp_all
  show ?thesis using assms by (auto simp: volume_lost_def update_volumes_def set_upd_where sel simp del: if_image_distrib)
qed

lemma lost_create_volume: "volume_lost vid s \<Longrightarrow> volume_lost vid (snd (create_volume h p n c u s))"
  unfolding volume_lost_def create_volume_def randomUUID_def Let_def
  by (auto simp: list_ex_iff volume_conflict_def)

lemma lost_post_volume: "volume_lost vid s \<Longrightarrow> volume_lost vid (snd (post_volume h m rq s))"
  unfolding post_volume_def
proof (rule with_application_keeps [where I = "volume_lost vid"], assumption, rule with_body_keeps [where I = "volume_lost vid"], assumption)
  fix scope :: project_access and app v
  assume lost: "volume_lost vid s"
  obtain x s1 where x: "volume_to_attach h scope v s = (x, s1)" by (rule prod.exhaust)
  have lost1: "volume_lost vid s1"
    using x lost lost_create_volume [OF lost] by (auto simp: volume_to_attach_def split: option.splits) (metis apsnd_conv snd_apfst snd_conv)
  have "volume_lost vid (snd (attach_mount h (a_id app) v vol s1))" if "x = Inr (Some vol)" "v_status vol = VolAvailable" for vol
  proof -
    from volume_to_attach_project [of h scope v s vol s1] x that lost1 have "v_id vol \<noteq> vid"
      by (auto simp: volume_lost_def)
    then show ?thesis using lost1
      by (auto simp: attach_mount_def randomUUID_def Let_def rolled_back_def intro!: lost_in_use) (auto simp: volume_lost_def)
  qed
  then show "volume_lost vid (snd (case volume_to_attach h scope v s of
        (Inl _, s1) \<Rightarrow> (Inr (Problem 409 ''A volume is already mounted at this path''), s1)
      | (Inr None, s1) \<Rightarrow> (Inr (Problem 409 ''Volume is not available for attachment''), s1)
      | (Inr (Some vol), s1) \<Rightarrow>
          if v_status vol \<noteq> VolAvailable then (Inr (Problem 409 ''Volume is not available for attachment''), s1)
          else (case attach_mount h (a_id app) v vol s1 of
                  (Inl _, s2) \<Rightarrow> (Inr (Problem 409 ''A volume is already mounted at this path''), s2)
                | (Inr mount, s2) \<Rightarrow> (Inr (Reply 201 (JStr (avm_id mount))),
                    app_audit h rq scope ''volume.attached'' (v_id vol) (app_audit h rq scope ''application.volume_attached'' (a_id app) s2)))))"
    using lost1 by (auto simp: x lost_audit split: sum.split option.split prod.split)
qed

lemma lost_detach: "volume_lost vid s \<Longrightarrow> volume_lost vid (snd (detach_volume h m rq i s))"
  unfolding detach_volume_def
proof (rule with_application_keeps [where I = "volume_lost vid"], assumption)
  fix scope :: project_access and app
  assume lost: "volume_lost vid s"
  then have "volume_lost vid (s\<lparr>t_applicationVolumeMounts := del_where P (t_applicationVolumeMounts s)\<rparr>)" for P
    by (simp add: volume_lost_def del_where_def)
  note kept = this this [THEN lost_in_use]
  show "volume_lost vid (snd (case List.find (\<lambda>a. avm_id a = i \<and> avm_applicationId a = a_id app) (t_applicationVolumeMounts s) of
        None \<Rightarrow> (Inr (Problem 404 ''Volume mount not found''), s)
      | Some removed \<Rightarrow>
          (let s1 = s\<lparr>t_applicationVolumeMounts := del_where (\<lambda>a. avm_id a = i \<and> avm_applicationId a = a_id app) (t_applicationVolumeMounts s)\<rparr>;
               s2 = (case avm_volumeId removed of
                       None \<Rightarrow> s1
                     | Some vid \<Rightarrow> app_audit h rq scope ''volume.detached'' vid
                         (if list_ex (\<lambda>a. avm_volumeId a = Some vid) (t_applicationVolumeMounts s1) then s1
                          else update_volumes (\<lambda>w. v_id w = vid) (\<lambda>w. w\<lparr>v_status := VolInUse\<rparr>) s1))
           in (Inr NoContent, app_audit h rq scope ''application.volume_detached'' (a_id app) s2))))"
    using lost kept by (simp add: Let_def lost_audit split: option.split)
qed

lemma store_variable_frames [simp]:
  "t_volumes (store_variable h enc aid k e x s) = t_volumes s"
  "t_applicationVolumeMounts (store_variable h enc aid k e x s) = t_applicationVolumeMounts s"
  by (simp_all add: store_variable_def randomUUID_def Let_def split: option.split)

lemma config_frames:
  "t_volumes (snd (put_runtime_configuration h m rq s)) = t_volumes s"
  "t_applicationVolumeMounts (snd (put_runtime_configuration h m rq s)) = t_applicationVolumeMounts s"
  "t_volumes (snd (put_resources h m rq s)) = t_volumes s"
  "t_applicationVolumeMounts (snd (put_resources h m rq s)) = t_applicationVolumeMounts s"
  "t_volumes (snd (put_ports h m rq s)) = t_volumes s"
  "t_applicationVolumeMounts (snd (put_ports h m rq s)) = t_applicationVolumeMounts s"
  "t_volumes (snd (delete_secret h m rq i s)) = t_volumes s"
  "t_applicationVolumeMounts (snd (delete_secret h m rq i s)) = t_applicationVolumeMounts s"
  "t_volumes (snd (delete_variable h m rq k e s)) = t_volumes s"
  "t_applicationVolumeMounts (snd (delete_variable h m rq k e s)) = t_applicationVolumeMounts s"
  by (simp_all add: put_runtime_configuration_def put_resources_def put_ports_def delete_secret_def delete_variable_def
      with_application_def with_body_def Let_def split: option.split)

lemma secret_variable_frames:
  "t_volumes (snd (post_secret h m rq s)) = t_volumes s"
  "t_applicationVolumeMounts (snd (post_secret h m rq s)) = t_applicationVolumeMounts s"
  "t_volumes (snd (put_variable h enc m rq k s)) = t_volumes s"
  "t_applicationVolumeMounts (snd (put_variable h enc m rq k s)) = t_applicationVolumeMounts s"
  by (auto simp: post_secret_def put_variable_def with_application_def with_body_def Let_def randomUUID_def
      split: option.split)

lemmas lost_settings = volume_lost_same [OF _ config_frames(1,2)] volume_lost_same [OF _ config_frames(3,4)]
  volume_lost_same [OF _ config_frames(5,6)] volume_lost_same [OF _ config_frames(7,8)] volume_lost_same [OF _ config_frames(9,10)]
  volume_lost_same [OF _ secret_variable_frames(1,2)] volume_lost_same [OF _ secret_variable_frames(3,4)]

lemma mounts_distinct_eq:
  assumes "mounts_distinct ms" "a \<in> set ms" "b \<in> set ms" "mount_conflict a b"
  shows "a = b"
proof -
  from assms(2,3) obtain i j where ij: "i < length ms" "j < length ms" "ms ! i = a" "ms ! j = b" by (auto simp: in_set_conv_nth)
  have "mount_conflict b a" using assms(4) by (auto simp: mount_conflict_def)
  then have "\<not> i < j" "\<not> j < i" using assms(1,4) ij by (auto simp: mounts_distinct_def sorted_wrt_iff_nth_less)
  then show ?thesis using ij by (metis linorder_neqE_nat)
qed

lemma detached_volume_lost:
  assumes "mounts_distinct (t_applicationVolumeMounts s)" "v \<in> set (t_volumes s)"
    and "a \<in> set (t_applicationVolumeMounts s)" "avm_volumeId a = Some (v_id v)"
    and ok: "fst (detach_volume h m rq (avm_id a) s) = Inr NoContent"
  shows "volume_lost (v_id v) (snd (detach_volume h m rq (avm_id a) s))"
proof -
  let ?ms = "t_applicationVolumeMounts s"
  from ok obtain scope app b where scope: "getProjectScope m (rq_session rq) (rq_orgSlug rq) (rq_projectId rq) = Some scope"
      "''volumes.manage'' \<in> set (pa_permissions scope)" "applicationInScope scope (rq_applicationId rq) s = Some app"
    and b: "List.find (\<lambda>c. avm_id c = avm_id a \<and> avm_applicationId c = a_id app) ?ms = Some b"
    by (auto simp: detach_volume_def with_application_def split: option.splits if_splits)
  from find_Some_iff' [OF b] have "b \<in> set ?ms" "avm_id b = avm_id a" "avm_applicationId b = a_id app" by auto
  moreover from this mounts_distinct_eq [OF assms(1) _ assms(3), of b] have "b = a" by (simp add: mount_conflict_def)
  ultimately have app: "avm_applicationId a = a_id app" by simp
  let ?left = "del_where (\<lambda>c. avm_id c = avm_id a \<and> avm_applicationId c = a_id app) ?ms"
  have left: "avm_volumeId c \<noteq> Some (v_id v)" if "c \<in> set ?left" for c
  proof
    assume "avm_volumeId c = Some (v_id v)"
    then have "c = a" using mounts_distinct_eq [OF assms(1), of c a] that assms(3,4) by (simp add: mount_conflict_def del_where_def)
    then show False using that app by (simp add: del_where_def)
  qed
  then have "\<not> list_ex (\<lambda>c. avm_volumeId c = Some (v_id v)) ?left" by (auto simp: list_ex_iff)
  moreover have "volume_lost (v_id v) (update_volumes (\<lambda>w. v_id w = v_id v) (\<lambda>w. w\<lparr>v_status := VolInUse\<rparr>)
      (s\<lparr>t_applicationVolumeMounts := ?left\<rparr>))"
    using assms(2) left by (intro lost_released) auto
  ultimately show ?thesis
    using scope b \<open>b = a\<close> assms(4) by (simp add: detach_volume_def with_application_def Let_def lost_audit)
qed

text \<open>A volume that was detached is never mounted again through the configuration routes: the route that detaches its
  last mount leaves it in use, and a volume that is not available is refused. Whatever these routes are asked afterwards,
  by whomever, no mount of any application names the volume.\<close>

theorem detached_volume_stuck:
  assumes "mounts_distinct (t_applicationVolumeMounts s)" "v \<in> set (t_volumes s)"
    and "a \<in> set (t_applicationVolumeMounts s)" "avm_volumeId a = Some (v_id v)"
    and "fst (detach_volume h m rq (avm_id a) s) = Inr NoContent"
  shows "\<forall>b \<in> set (t_applicationVolumeMounts (fold (\<lambda>(rq, call) s. snd (config_call_of h enc n rq call s)) calls
           (snd (detach_volume h m rq (avm_id a) s)))). avm_volumeId b \<noteq> Some (v_id v)"
proof -
  have "volume_lost vid s \<Longrightarrow> volume_lost vid (fold (\<lambda>(rq, call) s. snd (config_call_of h enc n rq call s)) calls s)" for vid s
  proof (induction calls arbitrary: s)
    case (Cons c calls)
    obtain rq call where c: "c = (rq, call)" by (rule prod.exhaust)
    have "volume_lost vid (snd (config_call_of h enc n rq call s))"
      by (cases call) (simp_all add: config_call_of_def Cons.prems lost_settings lost_post_volume lost_detach)
    then show ?case by (simp add: c Cons.IH)
  qed simp
  from this [OF detached_volume_lost [OF assms]] show ?thesis by (simp add: volume_lost_def)
qed

subsection \<open>Ports\<close>

lemma ports_ok_distinct: "ports_ok seen ps \<Longrightarrow> distinct (map pin_key ps) \<and> set (map pin_key ps) \<inter> set seen = {}"
proof (induction ps arbitrary: seen)
  case (Cons p ps)
  then have "ports_ok (pin_key p # seen) ps" by simp
  from Cons.IH [OF this] Cons.prems show ?case by (auto simp: port_input_ok_def)
qed simp

lemma ports_ok_host_port:
  "ports_ok seen ps \<Longrightarrow> p \<in> set ps \<Longrightarrow> pin_hostPort p = Some q \<Longrightarrow> pin_exposure p = Public \<and> host_port_policy_error (of_int q) = None"
  by (induction ps arbitrary: seen) (auto simp: port_input_ok_def)

lemma insert_port_inputs_rows:
  "\<exists>is. length is = length ps \<and> t_applicationPorts (insert_port_inputs h app ps s)
     = t_applicationPorts s @ map2 (new_application_port app (clock s)) ps is"
proof (induction ps arbitrary: s)
  case (Cons p ps)
  let ?s1 = "s\<lparr>uuid_next := Suc (uuid_next s), t_applicationPorts := t_applicationPorts s
      @ [new_application_port app (clock s) p (h_randomUUID h (uuid_next s))]\<rparr>"
  from Cons.IH [of ?s1] obtain js where "length js = length ps" and rows: "t_applicationPorts (insert_port_inputs h app ps ?s1)
      = t_applicationPorts ?s1 @ map2 (new_application_port app (clock s)) ps js" by auto
  then show ?case by (intro exI [of _ "h_randomUUID h (uuid_next s) # js"]) (simp add: randomUUID_def)
qed simp

text \<open>Storing a set of ports replaces the ports of that application and touches no other: its rows are the ports of the
  request, in order, no internal port appears twice for a protocol, and a host port is only ever asked for by a public port
  and is one the host port policy allows.\<close>

theorem put_ports_replaces:
  assumes "fst (put_ports h m rq s) = Inr (Reply 200 x)"
  defines "own \<equiv> filter (\<lambda>p. ap_applicationId p = rq_applicationId rq) (t_applicationPorts (snd (put_ports h m rq s)))"
  shows "filter (\<lambda>p. ap_applicationId p \<noteq> rq_applicationId rq) (t_applicationPorts (snd (put_ports h m rq s)))
           = filter (\<lambda>p. ap_applicationId p \<noteq> rq_applicationId rq) (t_applicationPorts s)
    \<and> map (\<lambda>p. (ap_internalPort p, ap_protocol p)) own = map pin_key (the (portsInput (the (rq_body rq))))
    \<and> distinct (map (\<lambda>p. (ap_internalPort p, ap_protocol p)) own)
    \<and> (\<forall>p \<in> set own. \<forall>q. ap_requestedHostPort p = Some q
         \<longrightarrow> ap_exposure p = Public \<and> host_port_policy_error (of_int q) = None \<and> ap_externalPort p = Some q)"
proof -
  let ?a = "rq_applicationId rq"
  from assms(1) obtain ps where ps: "portsInput (the (rq_body rq)) = Some ps"
    and t: "t_applicationPorts (snd (put_ports h m rq s)) = t_applicationPorts (insert_port_inputs h ?a ps
        (s\<lparr>t_applicationPorts := del_where (\<lambda>p. ap_applicationId p = ?a) (t_applicationPorts s)\<rparr>))"
    by (auto simp: put_ports_def with_application_def with_body_def applicationInScope_def split: option.splits if_splits
        dest!: find_Some_iff')
  obtain "is" where len: "length is = length ps" and rows: "t_applicationPorts (snd (put_ports h m rq s))
      = del_where (\<lambda>p. ap_applicationId p = ?a) (t_applicationPorts s) @ map2 (new_application_port ?a (clock s)) ps is"
    using insert_port_inputs_rows [of ps h ?a "s\<lparr>t_applicationPorts := del_where (\<lambda>p. ap_applicationId p = ?a) (t_applicationPorts s)\<rparr>"]
    unfolding t by auto
  let ?new = "map2 (new_application_port ?a (clock s)) ps is"
  have new: "r \<in> set ?new \<Longrightarrow> \<exists>p \<in> set ps. \<exists>i. r = new_application_port ?a (clock s) p i" for r
    by (auto dest: set_zip_leftD)
  have own: "own = ?new"
    using new by (auto simp: own_def rows del_where_def filter_empty_conv new_application_port_def intro!: filter_True)
  have keys: "map (\<lambda>p. (ap_internalPort p, ap_protocol p)) own = map pin_key ps"
    using len unfolding own by (induction ps "is" rule: list_induct2') (auto simp: pin_key_def new_application_port_def)
  from ps have ok: "ports_ok [] ps" by (auto simp: portsInput_def bind_eq_Some_conv split: if_splits)
  have "filter (\<lambda>p. ap_applicationId p \<noteq> ?a) ?new = []" using new by (auto simp: filter_empty_conv new_application_port_def)
  moreover have "ap_exposure r = Public \<and> host_port_policy_error (of_int q) = None \<and> ap_externalPort r = Some q"
    if "r \<in> set own" "ap_requestedHostPort r = Some q" for r q
  proof -
    from new that(1) obtain p i where "p \<in> set ps" "r = new_application_port ?a (clock s) p i" unfolding own by blast
    with ports_ok_host_port [OF ok, of p q] that(2) show ?thesis by (simp add: new_application_port_def)
  qed
  ultimately show ?thesis
    using keys ports_ok_distinct [OF ok] by (simp add: rows del_where_def ps)
qed

subsection \<open>Witnesses\<close>

definition sample_request :: "json \<Rightarrow> app_request" where
  "sample_request body = \<lparr>rq_session = Some ''u1'', rq_orgSlug = ''acme'', rq_projectId = ''p2'', rq_applicationId = ''app'',
     rq_ip = None, rq_body = Some body\<rparr>"

definition sample_project_volume :: volume where
  "sample_project_volume = \<lparr>v_id = ''v1'', v_projectId = ''p2'', v_name = ''data'', v_runtimeName = ''devion-v-1'', v_status = VolInUse,
     v_nodeId = None, v_capacityMib = None, v_createdBy = Some ''u1'', v_createdAt = 0, v_updatedAt = 0\<rparr>"

definition sample_app_mount :: application_volume_mount where
  "sample_app_mount = \<lparr>avm_id = ''m1'', avm_applicationId = ''app'', avm_volumeId = Some ''v1'', avm_volumeName = ''devion-v-1'',
     avm_mountPath = ''/data'', avm_readOnly = False\<rparr>"

definition mounted_state :: cp where
  "mounted_state = sample_deployed\<lparr>t_volumes := [sample_project_volume], t_applicationVolumeMounts := [sample_app_mount]\<rparr>"

lemma mounted_state_inside: "config_inside mounted_state"
proof -
  have t: "t_secretAttachments mounted_state = []" "t_applicationVariables mounted_state = []"
      "map (\<lambda>a. (a_id a, a_projectId a)) (t_applications mounted_state) = [(''app'', ''p2'')]"
    by code_simp+
  from t(3) have "app_in ''app'' ''p2'' mounted_state" by (auto simp: app_in_def map_eq_Cons_conv)
  then have "mount_inside mounted_state sample_app_mount"
    by (auto simp: mount_inside_def mounted_state_def sample_app_mount_def sample_project_volume_def app_in_def)
  then show ?thesis using t(1,2) by (simp add: config_inside_def mounts_distinct_def) (simp add: mounted_state_def)
qed

lemma config_stays_in_project_witness:
  "config_inside (fold (\<lambda>(rq, call) s. snd (config_call_of sample_host (\<lambda>_ x. x) sample_iam rq call s))
     [(sample_request (JObj [(''volumeName'', JStr ''cache''), (''mountPath'', JStr ''/cache'')]), MountVolume),
      (sample_request JNull, UnmountVolume ''m1'')] mounted_state)"
  by (rule config_stays_in_project [OF mounted_state_inside]) (simp add: sample_host_def)

lemma detached_volume_stuck_witness:
  "list_all (\<lambda>b. avm_volumeId b \<noteq> Some ''v1'') (t_applicationVolumeMounts (fold (\<lambda>(rq, call) s. snd (config_call_of sample_host (\<lambda>_ x. x) sample_iam rq call s))
     [(sample_request (JObj [(''volumeId'', JStr ''v1''), (''mountPath'', JStr ''/data'')]), MountVolume)]
     (snd (detach_volume sample_host sample_iam (sample_request JNull) ''m1'' mounted_state))))"
proof -
  have 1: "mounts_distinct (t_applicationVolumeMounts mounted_state)" "sample_project_volume \<in> set (t_volumes mounted_state)"
      "sample_app_mount \<in> set (t_applicationVolumeMounts mounted_state)" "avm_volumeId sample_app_mount = Some (v_id sample_project_volume)"
    by (simp_all add: mounted_state_def mounts_distinct_def sample_app_mount_def sample_project_volume_def)
  have 2: "fst (detach_volume sample_host sample_iam (sample_request JNull) (avm_id sample_app_mount) mounted_state) = Inr NoContent"
    by code_simp
  show ?thesis
    using detached_volume_stuck [OF 1 2, where enc = "\<lambda>_ x. x" and n = sample_iam
        and calls = "[(sample_request (JObj [(''volumeId'', JStr ''v1''), (''mountPath'', JStr ''/data'')]), MountVolume)]"]
    by (simp add: sample_app_mount_def sample_project_volume_def list_all_iff)
qed

lemma put_ports_replaces_witness:
  "map (\<lambda>p. (ap_internalPort p, ap_protocol p)) (filter (\<lambda>p. ap_applicationId p = ''app'')
     (t_applicationPorts (snd (put_ports sample_host sample_iam (sample_request (JArr [JObj [(''internalPort'', JNum 80),
       (''exposure'', JStr ''public''), (''requestedHostPort'', JNum 30080)]])) sample_deployed)))) = [(80, Tcp)]"
proof -
  let ?rq = "sample_request (JArr [JObj [(''internalPort'', JNum 80), (''exposure'', JStr ''public''), (''requestedHostPort'', JNum 30080)]])"
  have 1: "fst (put_ports sample_host sample_iam ?rq sample_deployed) = Inr (Reply 200 (JStr ''app''))"
    "map pin_key (the (portsInput (the (rq_body ?rq)))) = [(80, Tcp)]" by code_simp+
  have 2: "rq_applicationId ?rq = ''app''" by (simp add: sample_request_def)
  show ?thesis using put_ports_replaces [OF 1(1)] 1(2) by (simp only: 2)
qed

end
