(* ===== verification/SourceProperties.thy ===== *)
theory SourceProperties
  imports ApplicationSource ConfigProperties
begin

text \<open>
  Properties of creating and changing applications: what the schemas let through, and an invariant of the applications' rows
  that both routes keep.
\<close>

subsection \<open>What the schemas let through\<close>

definition image_ok :: "string \<Rightarrow> bool" where
  "image_ok i \<longleftrightarrow> i \<in> rx_lang image_regex \<and> i \<noteq> [] \<and> length i \<le> 500"

definition slug_ok :: "string \<Rightarrow> bool" where
  "slug_ok i \<longleftrightarrow> i \<in> rx_lang slug_regex \<and> length i \<le> 64"

definition fields_ok :: "(string \<Rightarrow> bool) \<Rightarrow> application_fields \<Rightarrow> bool" where
  "fields_ok zuuid v \<longleftrightarrow> (\<forall>x. af_slug v = Some x \<longrightarrow> slug_ok x) \<and> (\<forall>x. af_imageName v = Some (Some x) \<longrightarrow> image_ok x)
     \<and> (\<forall>x. af_internalPort v = Some x \<longrightarrow> tcp_port x) \<and> (\<forall>x. af_registryCredentialReference v = Some (Some x) \<longrightarrow> zuuid x)"

lemma z_nullable_ok: "z_nullable p w = Some (Some x) \<Longrightarrow> \<exists>u. p u = Some x"
  by (cases w) auto

lemma z_field_ok: "z_field partial p k j = Some (Some x) \<Longrightarrow> \<exists>w. p w = Some x"
  by (auto simp: z_field_def z_req_def split: if_splits option.splits dest: z_opt_ok)

lemma slugSchema_ok: "slugSchema w = Some x \<Longrightarrow> slug_ok x"
  by (auto simp: slugSchema_def slug_ok_def rx_test_iff bind_eq_Some_conv split: if_splits)

lemma imageReference_ok: "imageReferenceSchema w = Some x \<Longrightarrow> image_ok x"
  by (auto simp: imageReferenceSchema_def image_ok_def rx_test_iff bind_eq_Some_conv z_trimmed_def Let_def split: if_splits option.splits)

lemma applicationFields_ok:
  assumes "applicationFields partial zuuid url j = Some v"
  shows "fields_ok zuuid v"
proof -
  from assms obtain j' slug img port rcr where f: "z_field partial slugSchema ''slug'' j' = Some slug"
      "z_opt (z_nullable imageReferenceSchema) ''imageName'' j' = Some img" "z_opt (z_int tcp_port) ''internalPort'' j' = Some port"
      "z_opt (z_nullable (z_string_where zuuid)) ''registryCredentialReference'' j' = Some rcr"
    and v: "af_slug v = slug" "af_imageName v = img" "af_internalPort v = port" "af_registryCredentialReference v = rcr"
    unfolding applicationFields_def bind_Some_iff by (elim exE conjE) auto
  show ?thesis
    unfolding fields_ok_def v
    using f by (auto dest!: z_field_ok z_opt_ok z_nullable_ok slugSchema_ok imageReference_ok z_int_ok z_string_where_ok)
qed

subsection \<open>An invariant of the applications\<close>

definition source_sound :: "host \<Rightarrow> url_class \<Rightarrow> cp \<Rightarrow> application \<Rightarrow> bool" where
  "source_sound h url s a \<longleftrightarrow>
     (case a_sourceType a of
        SrcGit \<Rightarrow> a_imageName a = None \<and> (\<exists>u. a_gitUrl a = Some u \<and> isCredentialFreeHttpsGitUrl url u)
      | SrcDocker \<Rightarrow> a_gitUrl a = None \<and> (\<exists>i. a_imageName a = Some i \<and> image_ok i))
     \<and> slug_ok (a_slug a) \<and> tcp_port (a_internalPort a)
     \<and> (\<forall>r. a_registryCredentialReference a = Some r \<longrightarrow> h_zodUuid h r)
     \<and> secretReferenceInProject (a_projectId a) (a_gitCredentialReference a) s
     \<and> secretReferenceInProject (a_projectId a) (a_registryCredentialReference a) s
     \<and> (\<forall>e. a_defaultEnvironmentId a = Some e \<longrightarrow> e \<noteq> [] \<longrightarrow> env_in e (a_projectId a) s)"

definition applications_sound :: "host \<Rightarrow> url_class \<Rightarrow> cp \<Rightarrow> bool" where
  "applications_sound h url s \<longleftrightarrow> (\<forall>a \<in> set (t_applications s). source_sound h url s a)
     \<and> sorted_wrt (\<lambda>a b. \<not> application_conflict a b) (t_applications s)"

lemma source_sound_cong:
  assumes "t_environments t = t_environments s" "t_environmentVariables t = t_environmentVariables s"
  shows "source_sound h url t a = source_sound h url s a"
  using assms by (simp add: source_sound_def secretReferenceInProject_def env_in_def cong: source_type.case_cong)

lemma source_sound_updated [simp]: "source_sound h url s (a\<lparr>a_updatedAt := t\<rparr>) = source_sound h url s a"
  by (simp add: source_sound_def split: source_type.split)

lemma application_conflict_updated [simp]:
  "application_conflict (a\<lparr>a_updatedAt := t\<rparr>) b = application_conflict a b"
  by (simp add: application_conflict_def)

lemma unique_update:
  assumes "sorted_wrt (\<lambda>a b. \<not> C a b) xs" "\<And>a b. C a b \<Longrightarrow> C b a" "\<And>a b. P a \<Longrightarrow> P b \<Longrightarrow> C a b"
    and "\<And>a b. a \<in> set xs \<Longrightarrow> b \<in> set xs \<Longrightarrow> P a \<Longrightarrow> \<not> P b \<Longrightarrow> \<not> C (f a) b"
  shows "sorted_wrt (\<lambda>a b. \<not> C a b) (upd_where P f xs)"
  using assms(1,4)
proof (induction xs)
  case (Cons x xs)
  have "\<not> C (if P x then f x else x) (if P y then f y else y)" if "y \<in> set xs" for y
    using Cons.prems that assms(2,3) by auto
  with Cons show ?case by (simp add: upd_where_def del: if_image_distrib)
qed (simp add: upd_where_def)

lemma given_environment:
  assumes "environment_chosen scope v s" "opt_null (af_defaultEnvironmentId v) = Some e" "e \<noteq> []"
  shows "env_in e (pj_id (pa_project scope)) s"
  using assms by (auto simp: environment_chosen_def truthy_def project_environment_of_def env_in_def dest!: find_Some_iff')

lemma new_application_sound:
  assumes v: "applicationInput (h_zodUuid h) url j = Some v" and env: "environment_chosen scope v s"
    and url: "\<not> (af_sourceType v = Some SrcGit \<and> truthy (opt_null (af_gitUrl v))
      \<and> \<not> isCredentialFreeHttpsGitUrl url (the (opt_null (af_gitUrl v))))"
    and refs: "secretReferenceInProject (pj_id (pa_project scope)) (opt_null (af_gitCredentialReference v)) s"
      "secretReferenceInProject (pj_id (pa_project scope)) (opt_null (af_registryCredentialReference v)) s"
  shows "source_sound h url s (new_application scope now v i)"
proof -
  from v have f: "applicationFields False (h_zodUuid h) url j = Some v"
    and need: "af_sourceType v = Some SrcGit \<Longrightarrow> truthy (opt_null (af_gitUrl v))"
      "af_sourceType v = Some SrcDocker \<Longrightarrow> truthy (opt_null (af_imageName v))"
    by (auto simp: applicationInput_def bind_eq_Some_conv split: if_splits)
  from f obtain slug src where "af_slug v = Some slug" "af_sourceType v = Some src"
    unfolding applicationFields_def bind_Some_iff by (elim exE conjE) (auto simp: z_field_def)
  with applicationFields_ok [OF f] need url env refs show ?thesis
    by (cases src) (auto simp: source_sound_def new_application_def fields_ok_def truthy_def opt_null_def or_else_def tcp_port_def
        split: option.splits intro!: given_environment [OF env])
qed

lemma patched_application_sound:
  assumes v: "applicationFields True (h_zodUuid h) url j = Some v" and sound: "source_sound h url s a"
    and a: "a_projectId a = pj_id (pa_project scope)" and ok: "patch_problem url scope v a s = None"
  shows "source_sound h url s (patched_application v a)"
proof -
  let ?a = "patched_application v a"
  have env: "environment_chosen scope v s"
    and src: "af_sourceType v = None \<or> af_sourceType v = Some (a_sourceType a)"
    and git: "a_sourceType ?a = SrcGit \<Longrightarrow> truthy (set_given (af_gitUrl v) (a_gitUrl a))
        \<and> isCredentialFreeHttpsGitUrl url (the (set_given (af_gitUrl v) (a_gitUrl a)))"
    and refs: "secretReferenceInProject (a_projectId a) (a_gitCredentialReference ?a) s"
      "secretReferenceInProject (a_projectId a) (a_registryCredentialReference ?a) s"
    and img: "a_sourceType ?a = SrcDocker \<Longrightarrow> truthy (set_given (af_imageName v) (a_imageName a))"
    using ok a by (auto simp: patch_problem_def Let_def split: if_splits)
  have same: "a_sourceType ?a = a_sourceType a" using src by (auto simp: patched_application_def or_else_def split: option.splits)
  have src': "case a_sourceType ?a of
        SrcGit \<Rightarrow> a_imageName ?a = None \<and> (\<exists>u. a_gitUrl ?a = Some u \<and> isCredentialFreeHttpsGitUrl url u)
      | SrcDocker \<Rightarrow> a_gitUrl ?a = None \<and> (\<exists>i. a_imageName ?a = Some i \<and> image_ok i)"
  proof (cases "a_sourceType a")
    case SrcGit
    with git same src show ?thesis by (auto simp: patched_application_def or_else_def truthy_def split: option.splits)
  next
    case SrcDocker
    with sound obtain i where "a_imageName a = Some i" "image_ok i" by (auto simp: source_sound_def)
    with SrcDocker img same src applicationFields_ok [OF v] show ?thesis
      by (auto simp: patched_application_def or_else_def truthy_def set_given_def fields_ok_def split: option.splits)
  qed
  moreover have "slug_ok (a_slug ?a)" "tcp_port (a_internalPort ?a)" "\<forall>r. a_registryCredentialReference ?a = Some r \<longrightarrow> h_zodUuid h r"
    using applicationFields_ok [OF v] sound
    by (auto simp: source_sound_def patched_application_def or_else_def set_given_def fields_ok_def split: option.splits)
  moreover have "e \<noteq> [] \<longrightarrow> env_in e (a_projectId a) s" if "a_defaultEnvironmentId ?a = Some e" for e
    using that sound given_environment [OF env] a
    by (auto simp: source_sound_def patched_application_def set_given_def opt_null_def split: option.splits)
  moreover have "a_projectId ?a = a_projectId a" by (simp add: patched_application_def)
  ultimately show ?thesis using refs unfolding source_sound_def by simp
qed

lemma applications_sound_same:
  assumes "applications_sound h url s" "t_applications t = t_applications s" "t_environments t = t_environments s"
    and "t_environmentVariables t = t_environmentVariables s"
  shows "applications_sound h url t"
  using assms(1) unfolding applications_sound_def assms(2) source_sound_cong [OF assms(3,4)] .

lemma application_conflict_sym: "application_conflict a b \<Longrightarrow> application_conflict b a"
  by (auto simp: application_conflict_def)

lemma sound_create_in_scope:
  assumes "applications_sound h url s" and v: "applicationInput (h_zodUuid h) url j = Some v"
  shows "applications_sound h url (snd (create_in_scope h url rq scope v s))"
proof -
  have fresh: "applications_sound h url (s\<lparr>uuid_next := n\<rparr>)" for n using assms(1) by (rule applications_sound_same) simp_all
  have add: "applications_sound h url (s\<lparr>uuid_next := n, t_applications := t_applications s @ [a]\<rparr>)"
    if "source_sound h url s a" "\<not> list_ex (application_conflict a) (t_applications s)" for n a
  proof -
    have "source_sound h url (s\<lparr>uuid_next := n, t_applications := t_applications s @ [a]\<rparr>) b = source_sound h url s b" for b
      by (rule source_sound_cong) simp_all
    with that assms(1) show ?thesis
      by (auto simp: applications_sound_def sorted_wrt_append list_ex_iff dest: application_conflict_sym)
  qed
  have audit: "applications_sound h url t \<Longrightarrow> applications_sound h url (app_audit h rq scope x i t)" for x i t
    by (erule applications_sound_same) simp_all
  let ?app = "new_application scope (clock s) v (h_randomUUID h (uuid_next s))"
  have "source_sound h url s ?app"
    if "environment_chosen scope v s"
      "\<not> (af_sourceType v = Some SrcGit \<and> truthy (opt_null (af_gitUrl v))
        \<and> \<not> isCredentialFreeHttpsGitUrl url (the (opt_null (af_gitUrl v))))"
      "secretReferenceInProject (pj_id (pa_project scope)) (opt_null (af_gitCredentialReference v)) s"
      "secretReferenceInProject (pj_id (pa_project scope)) (opt_null (af_registryCredentialReference v)) s"
    using that by (rule new_application_sound [OF v])
  note stored = audit [OF add [OF this]]
  let ?ok = "environment_chosen scope v s
      \<and> \<not> (af_sourceType v = Some SrcGit \<and> truthy (opt_null (af_gitUrl v))
        \<and> \<not> isCredentialFreeHttpsGitUrl url (the (opt_null (af_gitUrl v))))
      \<and> secretReferenceInProject (pj_id (pa_project scope)) (opt_null (af_gitCredentialReference v)) s
      \<and> secretReferenceInProject (pj_id (pa_project scope)) (opt_null (af_registryCredentialReference v)) s
      \<and> \<not> list_ex (application_conflict ?app) (t_applications s)"
  show ?thesis
  proof (cases ?ok)
    case True
    then have eq: "snd (create_in_scope h url rq scope v s) = app_audit h rq scope ''application.created'' (h_randomUUID h (uuid_next s))
        (s\<lparr>uuid_next := Suc (uuid_next s), t_applications := t_applications s @ [?app]\<rparr>)"
      by (auto simp: create_in_scope_def Let_def randomUUID_def)
    from True show ?thesis unfolding eq by (intro stored) auto
  next
    case False
    then have "snd (create_in_scope h url rq scope v s) \<in> {s, s\<lparr>uuid_next := Suc (uuid_next s)\<rparr>}"
      by (auto simp: create_in_scope_def Let_def randomUUID_def)
    then show ?thesis using assms(1) fresh by auto
  qed
qed

lemma sound_create:
  assumes "applications_sound h url s"
  shows "applications_sound h url (snd (create_application h url m rq s))"
proof -
  have "applications_sound h url (snd (with_body rq (applicationInput (h_zodUuid h) url) x (create_in_scope h url rq scope) s))" for x scope
    by (rule with_body_keeps [where I = "applications_sound h url"], rule assms, rule sound_create_in_scope [OF assms])
  then show ?thesis using assms by (simp add: create_application_def split: option.split)
qed

lemma sound_update:
  assumes "applications_sound h url s" "a \<in> set (t_applications s)" "source_sound h url s (f a)" "a_id (f a) = a_id a"
    and "\<not> list_ex (\<lambda>b. a_id b \<noteq> a_id a \<and> application_conflict (f a) b) (t_applications s)"
  shows "applications_sound h url (update_applications (\<lambda>b. a_id b = a_id a) f s)"
proof -
  let ?f = "\<lambda>b. (f b)\<lparr>a_updatedAt := clock s\<rparr>"
  have one: "b = a" if "b \<in> set (t_applications s)" "a_id b = a_id a" for b
  proof -
    from that(1) assms(2) obtain i j where ij: "i < length (t_applications s)" "j < length (t_applications s)"
        "t_applications s ! i = a" "t_applications s ! j = b" by (auto simp: in_set_conv_nth)
    have "application_conflict a b" "application_conflict b a" using that(2) by (simp_all add: application_conflict_def)
    with assms(1) ij have "\<not> i < j" "\<not> j < i" by (auto simp: applications_sound_def sorted_wrt_iff_nth_less)
    then show ?thesis using ij by (metis linorder_neqE_nat)
  qed
  have "sorted_wrt (\<lambda>a b. \<not> application_conflict a b) (upd_where (\<lambda>b. a_id b = a_id a) ?f (t_applications s))"
  proof (rule unique_update)
    show "\<not> application_conflict (?f c) b" if "c \<in> set (t_applications s)" "b \<in> set (t_applications s)" "a_id c = a_id a"
      "a_id b \<noteq> a_id a" for c b using one [OF that(1,3)] that(2,4) assms(5) by (auto simp: list_ex_iff)
  qed (use assms(1) in \<open>auto simp: applications_sound_def dest: application_conflict_sym\<close>, simp add: application_conflict_def)
  moreover have "\<forall>b \<in> set (upd_where (\<lambda>b. a_id b = a_id a) ?f (t_applications s)). source_sound h url s b"
  proof
    fix b assume "b \<in> set (upd_where (\<lambda>b. a_id b = a_id a) ?f (t_applications s))"
    then obtain c where c: "c \<in> set (t_applications s)" "b = (if a_id c = a_id a then ?f c else c)"
      by (auto simp: upd_where_def simp del: if_image_distrib)
    show "source_sound h url s b"
    proof (cases "a_id c = a_id a")
      case True
      from one [OF c(1) this] c(2) assms(3) show ?thesis by simp
    qed (use c assms(1) in \<open>simp add: applications_sound_def\<close>)
  qed
  moreover have "source_sound h url (update_applications (\<lambda>b. a_id b = a_id a) f s) b = source_sound h url s b" for b
    by (rule source_sound_cong) (simp_all add: update_applications_def)
  ultimately show ?thesis by (simp add: applications_sound_def update_applications_def)
qed

lemma sound_patch_in_scope:
  assumes "applications_sound h url s" and v: "applicationPatch (h_zodUuid h) url j = Some v"
  shows "applications_sound h url (snd (patch_in_scope h url rq scope v s))"
proof -
  have "applications_sound h url (update_applications (\<lambda>b. a_id b = a_id a) (patched_application v) s)"
    if a: "applicationInScope scope aid s = Some a" and ok: "patch_problem url scope v a s = None"
      and free: "\<not> list_ex (\<lambda>b. a_id b \<noteq> a_id a \<and> application_conflict (patched_application v a) b) (t_applications s)"
    for aid a
  proof (rule sound_update [where f = "patched_application v" and a = a])
    from a show app: "a \<in> set (t_applications s)" by (auto simp: applicationInScope_def dest!: find_Some_iff')
    from a have "a_projectId a = pj_id (pa_project scope)" by (auto simp: applicationInScope_def dest!: find_Some_iff')
    with app v ok assms(1) show "source_sound h url s (patched_application v a)"
      by (auto simp: applicationPatch_def bind_eq_Some_conv applications_sound_def split: if_splits intro: patched_application_sound)
  qed (use assms(1) free in \<open>simp_all add: patched_application_def\<close>)
  moreover have audit: "applications_sound h url t \<Longrightarrow> applications_sound h url (app_audit h rq scope x i t)" for x i t
    by (erule applications_sound_same) simp_all
  ultimately show ?thesis using assms(1) by (simp add: patch_in_scope_def split: option.split)
qed

lemma sound_patch:
  assumes "applications_sound h url s"
  shows "applications_sound h url (snd (patch_application h url m rq s))"
proof -
  have "applications_sound h url (snd (with_body rq (applicationPatch (h_zodUuid h) url) x (patch_in_scope h url rq scope) s))" for x scope
    by (rule with_body_keeps [where I = "applications_sound h url"], rule assms, rule sound_patch_in_scope [OF assms])
  then show ?thesis using assms by (simp add: patch_application_def split: option.split)
qed

lemma sources_frames:
  assumes "t = snd (config_call_of h enc m rq call s)"
  shows "t_applications t = t_applications s \<and> t_environments t = t_environments s
    \<and> t_environmentVariables t = t_environmentVariables s"
proof -
  let ?same = "\<lambda>t. t_applications t = t_applications s \<and> t_environments t = t_environments s
      \<and> t_environmentVariables t = t_environmentVariables s"
  have volume: "?same (snd (volume_to_attach h scope v s))" "t_applications (update_volumes P f u) = t_applications u"
      "t_environments (update_volumes P f u) = t_environments u"
      "t_environmentVariables (update_volumes P f u) = t_environmentVariables u" for scope v P f u
    by (simp_all add: volume_to_attach_def create_volume_def randomUUID_def update_volumes_def Let_def)
  have attach: "?same (snd (attach_mount h aid v vol u))" if "?same u" for aid v vol u
    using that by (simp add: attach_mount_def randomUUID_def volume rolled_back_def Let_def)
  have stored: "?same (store_variable h enc aid k e x s)" for aid k e x
    by (simp add: store_variable_def randomUUID_def Let_def split: option.split)
  have "?same (snd (post_volume h m rq s))"
    unfolding post_volume_def
    by (rule with_application_keeps [where I = ?same], simp, rule with_body_keeps [where I = ?same], simp)
      (use volume(1) attach in \<open>auto split: prod.split sum.split option.split simp: prod_eq_iff\<close>)
  moreover have "?same (snd (detach_volume h m rq i s))" for i
    unfolding detach_volume_def
    by (rule with_application_keeps [where I = ?same]) (auto simp: Let_def volume split: option.split)
  moreover have "?same (snd (put_variable h enc m rq k s))" for k
    unfolding put_variable_def
    by (rule with_application_keeps [where I = ?same], simp, rule with_body_keeps [where I = ?same], simp)
      (use stored in \<open>auto simp: Let_def split: prod.split\<close>)
  moreover have "?same (snd (post_secret h m rq s))"
    unfolding post_secret_def
    by (rule with_application_keeps [where I = ?same], simp, rule with_body_keeps [where I = ?same], simp)
      (auto simp: Let_def randomUUID_def split: prod.split)
  ultimately show ?thesis unfolding assms
    by (cases call) (simp_all add: config_call_of_def put_runtime_configuration_def put_resources_def put_ports_def delete_secret_def
        delete_variable_def with_application_def with_body_def Let_def split: option.split)
qed

datatype application_call = CreateApplication | PatchApplication | Configure config_call

definition application_call_of :: "host \<Rightarrow> url_class \<Rightarrow> (nat \<Rightarrow> string \<Rightarrow> string) \<Rightarrow> iam \<Rightarrow> app_request \<Rightarrow> application_call \<Rightarrow> cp \<Rightarrow> handler_result" where
  "application_call_of h url enc m rq call = (case call of
     CreateApplication \<Rightarrow> create_application h url m rq | PatchApplication \<Rightarrow> patch_application h url m rq
   | Configure c \<Rightarrow> config_call_of h enc m rq c)"

text \<open>C17. Whatever sequence of create, patch and configuration requests the routes are sent, every application keeps exactly the
  source its type asks for: a Git application a credential-free HTTPS URL and no image, a Docker application a well-formed
  image reference and no URL; its slug is well-formed and unique in its project, and its credentials and its default
  environment are secrets and an environment of its own project.\<close>

theorem application_sources_sound:
  assumes "applications_sound h url s"
  shows "applications_sound h url (fold (\<lambda>(rq, call) s. snd (application_call_of h url enc m rq call s)) calls s)"
  using assms
proof (induction calls arbitrary: s)
  case (Cons c calls)
  obtain rq call where c: "c = (rq, call)" by (rule prod.exhaust)
  have "applications_sound h url (snd (application_call_of h url enc m rq call s))"
  proof (cases call)
    case (Configure d)
    with sources_frames [OF refl] Cons.prems show ?thesis
      by (auto simp: application_call_of_def intro: applications_sound_same)
  qed (simp_all add: application_call_of_def sound_create sound_patch Cons.prems)
  then show ?case by (simp add: c Cons.IH)
qed simp

lemma application_sources_sound_witness:
  "applications_sound sample_host (\<lambda>_. None) (fold (\<lambda>(rq, call) s. snd (application_call_of sample_host (\<lambda>_. None) (\<lambda>_ x. x) sample_iam rq call s))
     [(sample_request (JObj [(''name'', JStr ''Web''), (''slug'', JStr ''web-1''), (''sourceType'', JStr ''docker''),
        (''imageName'', JStr ''ghcr.io/acme/web:1.2'')]), CreateApplication)] empty_cp)"
  by (rule application_sources_sound) (simp add: applications_sound_def empty_cp_def)

end
