(* ===== verification/DeployProperties.thy ===== *)
theory DeployProperties
  imports DeployRoute SourceProperties AgentLoop
begin

text \<open>
  From the configuration of an application to the container on a node: whatever the configuration routes stored, the start
  command of a deployment made from it is one the agent's payload schema (\<open>apps/agent/src/index.ts\<close>) accepts.
\<close>

subsection \<open>Stored configuration\<close>

definition runtime_row_ok :: "runtime_configuration \<Rightarrow> bool" where
  "runtime_row_ok r \<longleftrightarrow> (\<forall>c. rtc_command r = Some c \<longrightarrow> length c \<le> 2000) \<and> (\<forall>d. rtc_workingDirectory r = Some d \<longrightarrow> length d \<le> 512)
     \<and> in_range 1 600 (rtc_gracefulShutdownSeconds r) \<and> (\<forall>c. rtc_healthcheckCommand r = Some c \<longrightarrow> length c \<le> 2000)
     \<and> in_range 1 3600 (rtc_healthcheckIntervalSeconds r) \<and> in_range 1 600 (rtc_healthcheckTimeoutSeconds r)
     \<and> in_range 1 20 (rtc_healthcheckRetries r) \<and> in_range 0 3600 (rtc_healthcheckStartPeriodSeconds r)"

definition port_row_ok :: "application_port \<Rightarrow> bool" where
  "port_row_ok p \<longleftrightarrow> tcp_port (ap_internalPort p) \<and> (\<forall>q. ap_requestedHostPort p = Some q \<longrightarrow> tcp_port q)
     \<and> (\<forall>q. ap_externalPort p = Some q \<longrightarrow> tcp_port q)"

definition mount_row_ok :: "(string \<Rightarrow> bool) \<Rightarrow> application_volume_mount \<Rightarrow> bool" where
  "mount_row_ok zuuid a \<longleftrightarrow> volume_name_regex (avm_volumeName a) \<and> safeContainerMountPath (JStr (avm_mountPath a)) = Some (avm_mountPath a)
     \<and> (\<forall>i. avm_volumeId a = Some i \<longrightarrow> zuuid i)"

definition resource_row_ok :: "resource_configuration \<Rightarrow> bool" where
  "resource_row_ok r \<longleftrightarrow> 0 < rsc_cpuMilli r \<and> 0 < rsc_memoryMib r \<and> 0 \<le> rsc_storageMib r"

definition config_rows_ok :: "host \<Rightarrow> cp \<Rightarrow> bool" where
  "config_rows_ok h s \<longleftrightarrow> (\<forall>r \<in> set (t_runtimeConfigurations s). runtime_row_ok r)
     \<and> (\<forall>r \<in> set (t_resourceConfigurations s). resource_row_ok r) \<and> (\<forall>p \<in> set (t_applicationPorts s). port_row_ok p)
     \<and> (\<forall>a \<in> set (t_applicationVolumeMounts s). mount_row_ok (h_zodUuid h) a) \<and> mounts_distinct (t_applicationVolumeMounts s)
     \<and> (\<forall>v \<in> set (t_volumes s). volume_name_regex (v_runtimeName v) \<and> h_zodUuid h (v_id v))"

subsection \<open>The agent reads it\<close>

lemma map_of_given [simp]: "map_of (given k v) k' = (if k = k' \<and> truthy v then Some (JStr (the v)) else None)"
  by (simp add: given_def)

lemma map_of_deploy_health [simp]: "k \<noteq> ''healthCheck'' \<Longrightarrow> map_of (deploy_health r) k = None"
  by (simp add: deploy_health_def)

lemma jget_jset: "jget k (jset k' v (JObj kvs)) = (if k = k' then Some v else map_of kvs k)"
  by (simp add: update_conv')

lemma start_port_accepted:
  assumes "port_row_ok p" "\<forall>a \<in> set assigned. tcp_port (snd (snd a))"
  shows "\<exists>q. start_port_schema (command_port assigned (deploy_port p)) = Some q \<and> sp_containerPort q = ap_internalPort p"
proof -
  have req: "coalesce (ap_requestedHostPort p) (ap_externalPort p) = Some q \<Longrightarrow> tcp_port q" for q
    using assms(1) by (auto simp: port_row_ok_def coalesce_def split: option.splits)
  have pr: "one_of [''tcp'', ''udp''] (JStr (protocol_str x)) \<noteq> None" for x by (cases x) (auto simp: one_of_def z_string_where_def)
  have ex: "one_of [''private'', ''public''] (JStr (exposure_str x)) \<noteq> None" for x by (cases x) (auto simp: one_of_def z_string_where_def)
  have port: "in_range 1 65535 x = tcp_port x" for x by (simp add: in_range_def tcp_port_def)
  show ?thesis
  proof (cases "List.find (\<lambda>(cport, pr, hp). jget ''containerPort'' (deploy_port p) = Some (JNum (of_int cport))
      \<and> json_protocol (deploy_port p) = JStr (protocol_str pr)) assigned")
    case None
    then show ?thesis using assms(1) pr [of "ap_protocol p"] ex [of "ap_exposure p"]
      by (auto simp: command_port_def start_port_schema_def deploy_port_def z_req_def z_opt_def jint_def port port_row_ok_def
          simp del: z_int.simps split: option.split)
  next
    case (Some a)
    then have "tcp_port (snd (snd a))" using assms(2) by (auto dest!: find_Some_iff' split: prod.splits)
    with Some show ?thesis using assms(1) pr [of "ap_protocol p"] ex [of "ap_exposure p"]
      by (auto simp: command_port_def start_port_schema_def deploy_port_def z_req_def z_opt_def jint_def port port_row_ok_def
          simp del: z_int.simps split: option.split prod.split)
  qed
qed

lemma mount_accepted:
  assumes "mount_row_ok zuuid a"
  shows "\<exists>m. volumeMountPayload zuuid (deploy_mount a) = Some m \<and> mp_target m = avm_mountPath a"
proof -
  from assms show ?thesis
    by (auto simp: mount_row_ok_def volumeMountPayload_def deploy_mount_def z_req_def z_opt_def z_string_where_def truthy_def)
qed

lemma those_map_ex:
  "(\<And>x. x \<in> set xs \<Longrightarrow> \<exists>y. f x = Some y \<and> P x y) \<Longrightarrow> \<exists>ys. those (map f xs) = Some ys \<and> list_all2 P xs ys"
proof (induction xs)
  case (Cons x xs)
  then obtain y ys where "f x = Some y" "P x y" "those (map f xs) = Some ys" "list_all2 P xs ys" by (metis list.set_intros)
  then show ?case by auto
qed simp

lemma mounts_accepted:
  assumes "list_all (mount_row_ok zuuid) ms" "distinct (map avm_mountPath ms)"
  shows "\<exists>vs. volumeMountsPayload zuuid (JArr (map deploy_mount ms)) = Some vs \<and> map mp_target vs = map avm_mountPath ms"
proof -
  from those_map_ex [of ms "volumeMountPayload zuuid \<circ> deploy_mount" "\<lambda>a m. mp_target m = avm_mountPath a"] mount_accepted assms(1)
  obtain vs where vs: "those (map (volumeMountPayload zuuid \<circ> deploy_mount) ms) = Some vs"
      "list_all2 (\<lambda>a m. mp_target m = avm_mountPath a) ms vs" by (auto simp: list_all_iff)
  from vs(2) have "map mp_target vs = map avm_mountPath ms" by (induction) auto
  with vs(1) assms(2) show ?thesis by (auto simp: volumeMountsPayload_def duplicate_targets_iff)
qed

lemma ports_accepted:
  assumes "list_all port_row_ok ps" "\<forall>a \<in> set assigned. tcp_port (snd (snd a))"
  shows "\<exists>qs. z_array start_port_schema (JArr (map (command_port assigned) (map deploy_port ps))) = Some qs
    \<and> map sp_containerPort qs = map ap_internalPort ps"
proof -
  from those_map_ex [of ps "start_port_schema \<circ> command_port assigned \<circ> deploy_port" "\<lambda>p q. sp_containerPort q = ap_internalPort p"]
    start_port_accepted [OF _ assms(2)] assms(1)
  obtain qs where qs: "those (map (start_port_schema \<circ> command_port assigned \<circ> deploy_port) ps) = Some qs"
      "list_all2 (\<lambda>p q. sp_containerPort q = ap_internalPort p) ps qs" by (auto simp: list_all_iff)
  from qs(2) have "map sp_containerPort qs = map ap_internalPort ps" by (induction) auto
  with qs(1) show ?thesis by (auto simp: comp_assoc)
qed

lemma health_accepted:
  assumes "runtime_row_ok r" "truthy (rtc_healthcheckCommand r)"
  shows "\<exists>hc j. map_of (deploy_health r) ''healthCheck'' = Some j \<and> health_check_schema j = Some hc"
  using assms by (auto simp: deploy_health_def health_check_schema_def z_req_def z_sized_def z_string_where_def jint_def runtime_row_ok_def truthy_def Suc_le_eq
      simp del: z_int.simps)

lemma deploy_config_ports: "jget ''ports'' (deploy_runtime_config app r env ps ms) = Some (JArr (map deploy_port ps))"
  by (simp add: deploy_runtime_config_def)

lemma config_accepted:
  assumes r: "\<And>x. r = Some x \<Longrightarrow> runtime_row_ok x" and ps: "list_all port_row_ok ps"
    and ms: "list_all (mount_row_ok zuuid) ms" "distinct (map avm_mountPath ms)"
    and rcr: "\<And>i. a_registryCredentialReference app = Some i \<Longrightarrow> zuuid i"
    and assigned: "\<forall>a \<in> set assigned. tcp_port (snd (snd a))"
  shows "\<exists>cfg rc. command_runtime_config assigned (deploy_runtime_config app r env ps ms) = Some cfg
    \<and> runtime_config_schema zuuid cfg = Some rc \<and> rc_environment rc = env
    \<and> map sp_containerPort (rc_ports rc) = map ap_internalPort ps \<and> map mp_target (rc_volumes rc) = map avm_mountPath ms"
proof -
  let ?base = "deploy_runtime_config app r env ps ms"
  let ?ports = "JArr (map (command_port assigned) (map deploy_port ps))"
  let ?cfg = "jset ''ports'' ?ports ?base"
  obtain kvs where kvs: "?base = JObj kvs" by (simp add: deploy_runtime_config_def)
  have cfg: "command_runtime_config assigned ?base = Some ?cfg"
  proof -
    have "?base \<noteq> JNull" by (simp add: kvs)
    with deploy_config_ports [of app r env ps ms] show ?thesis by (simp add: command_runtime_config_def)
  qed
  from ports_accepted [OF ps assigned] obtain qs where
    qs: "z_array start_port_schema ?ports = Some qs" "map sp_containerPort qs = map ap_internalPort ps" by blast
  from mounts_accepted [OF ms] obtain vs where
    vs: "volumeMountsPayload zuuid (JArr (map deploy_mount ms)) = Some vs" "map mp_target vs = map avm_mountPath ms" by blast
  have obj: "\<exists>l. z_object ?cfg = Some (JObj l) \<and> (\<forall>k. map_of l k = (if k = ''ports'' then Some ?ports else jget k ?base))"
    by (simp add: kvs update_conv')
  then obtain l where l: "z_object ?cfg = Some (JObj l)" "\<And>k. map_of l k = (if k = ''ports'' then Some ?ports else jget k ?base)" by blast
  have policy: "one_of [''no'', ''on-failure'', ''always'', ''unless-stopped''] (JStr (restart_policy_str x)) = Some (restart_policy_str x)" for x
    by (cases x) (simp_all add: one_of_def z_string_where_def)
  have p: "z_opt (one_of [''no'', ''on-failure'', ''always'', ''unless-stopped'']) ''restartPolicy'' (JObj l) \<noteq> None"
    using policy policy [of RestartUnlessStopped] by (auto simp: z_opt_def l(2) deploy_runtime_config_def split: option.splits)
  have g: "z_opt (z_int (in_range 1 600)) ''gracefulShutdownSeconds'' (JObj l) \<noteq> None"
    using r by (auto simp: z_opt_def l(2) deploy_runtime_config_def jint_def runtime_row_ok_def in_range_def simp del: z_int.simps
        split: option.splits)
  have rc: "z_opt (z_string_where zuuid) ''registryCredentialReference'' (JObj l) \<noteq> None"
    using rcr by (auto simp: z_opt_def l(2) deploy_runtime_config_def z_string_where_def truthy_def split: option.splits)
  have c: "z_opt (z_sized 1 2000) ''command'' (JObj l) \<noteq> None"
    using r by (auto simp: z_opt_def l(2) deploy_runtime_config_def z_sized_def z_string_where_def runtime_row_ok_def truthy_def Suc_le_eq
        split: option.splits if_splits)
  have d: "z_opt (z_sized 1 512) ''workingDirectory'' (JObj l) \<noteq> None"
    using r by (auto simp: z_opt_def l(2) deploy_runtime_config_def z_sized_def z_string_where_def runtime_row_ok_def truthy_def Suc_le_eq
        split: option.splits if_splits)
  have h: "z_opt health_check_schema ''healthCheck'' (JObj l) \<noteq> None"
  proof (cases "r = None \<or> \<not> truthy (rtc_healthcheckCommand (the r))")
    case True
    then show ?thesis by (auto simp: z_opt_def l(2) deploy_runtime_config_def deploy_health_def split: option.splits)
  next
    case False
    with health_accepted [OF r] show ?thesis by (auto simp: z_opt_def l(2) deploy_runtime_config_def split: option.splits)
  qed
  have e: "z_default z_record_string [] ''environment'' (JObj l) = Some env"
    by (simp add: z_default_def l(2) deploy_runtime_config_def del: z_record_string.simps)
  have po: "z_default (z_array start_port_schema) [] ''ports'' (JObj l) = Some qs"
    using qs(1) by (simp add: z_default_def l(2))
  have vo: "z_default (volumeMountsPayload zuuid) [] ''volumes'' (JObj l) = Some vs"
    using vs(1) by (simp add: z_default_def l(2) deploy_runtime_config_def)
  from p g rc c d h e po vo
  have "\<exists>rc. runtime_config_schema zuuid ?cfg = Some rc \<and> rc_environment rc = env \<and> rc_ports rc = qs \<and> rc_volumes rc = vs"
    unfolding runtime_config_schema_def l(1) by auto
  with cfg qs(2) vs(2) show ?thesis by auto
qed

lemma assign_ports_tcp:
  assumes "\<And>p q. p \<in> set ps \<Longrightarrow> fixed_host_port p = Some q \<Longrightarrow> tcp_port q"
  shows "\<forall>a \<in> set (assign_ports wid occ ps). tcp_port (snd (snd a))"
  using assms
proof (induction ps arbitrary: occ)
  case (Cons p ps)
  have dyn: "choose_dynamic_host_port os k = Some q \<Longrightarrow> tcp_port q" for os k q
    using choose_dynamic_Some [of os k q] by (simp add: tcp_port_def)
  have IH: "\<forall>a \<in> set (assign_ports wid o' ps). tcp_port (snd (snd a))" for o'
    using Cons.IH Cons.prems by (meson list.set_intros(2))
  show ?case using IH dyn Cons.prems [of p] by (auto simp: Let_def split: option.splits)
qed simp

lemma data_or_nil_mem: "x \<in> set (data_or_nil r) \<Longrightarrow> \<exists>xs. r = Some (Some xs) \<and> x \<in> set xs"
  by (cases r; cases "the r") (auto simp: data_or_nil_def)

lemma runtime_ports_tcp:
  assumes "p \<in> set (data_or_nil (runtimePortsSchema j))" "fixed_host_port p = Some q"
  shows "tcp_port q"
proof -
  from data_or_nil_mem [OF assms(1)] obtain ps where ps: "runtimePortsSchema j = Some (Some ps)" "p \<in> set ps" by blast
  from ps(1) obtain w where "z_array runtime_port_schema w = Some ps"
    by (auto simp: runtimePortsSchema_def bind_Some_iff dest!: z_opt_ok)
  from z_array_mem [OF this ps(2)] obtain i where "runtime_port_schema i = Some p" by blast
  then obtain rq ep i' where "z_opt (z_int tcp_port) ''requestedHostPort'' i' = Some rq" "z_opt (z_int tcp_port) ''externalPort'' i' = Some ep"
      "rp_requestedHostPort p = rq" "rp_externalPort p = ep"
    unfolding runtime_port_schema_def bind_Some_iff by auto
  with assms(2) show ?thesis by (auto simp: fixed_host_port_def split: option.splits dest!: z_opt_ok z_int_ok)
qed

lemma payload_accepted:
  assumes "runtime_config_schema zuuid cfg = Some rc" "zuuid wid" "d_image d \<noteq> []" "d_runtime d = Container" "requirements_ok zuuid req"
  shows "\<exists>p. startPayload zuuid (start_payload wid d req cfg) = Some p \<and> st_workloadId p = wid \<and> st_image p = d_image d
    \<and> st_runtimeConfig p = rc"
proof -
  have "z_object (requirements_json req) = Some (requirements_json req)" by (simp add: requirements_json_def)
  with assms show ?thesis
    by (auto simp: startPayload_def start_payload_def z_req_def z_default_def z_string_where_def one_of_def requirements_fields
        requirements_ok_def simp del: z_int.simps)
qed

text \<open>The rows a deployment of an application is made from, and the input it becomes.\<close>

lemma deploymentRequest_ok:
  assumes "deploymentRequest zuuid j = Some v"
  shows "requirements_ok zuuid' (deploy_requirements v None)"
    and "resource_row_ok r \<Longrightarrow> requirements_ok zuuid' (deploy_requirements v (Some r))"
proof -
  from assms obtain j' where f: "z_opt (z_int (int_range 1 256000)) ''cpuMilli'' j' = Some (dr_cpuMilli v)"
      "z_opt (z_int (int_range 16 1048576)) ''memoryMib'' j' = Some (dr_memoryMib v)"
      "z_opt (z_int (int_range 0 1048576)) ''storageMib'' j' = Some (dr_storageMib v)"
    unfolding deploymentRequest_def bind_Some_iff by auto
  then have "\<And>x. dr_cpuMilli v = Some x \<Longrightarrow> 0 < x" "\<And>x. dr_memoryMib v = Some x \<Longrightarrow> 0 < x" "\<And>x. dr_storageMib v = Some x \<Longrightarrow> 0 \<le> x"
    by (auto simp: int_range_def dest!: z_opt_ok z_int_ok)
  then show "requirements_ok zuuid' (deploy_requirements v None)"
    and "resource_row_ok r \<Longrightarrow> requirements_ok zuuid' (deploy_requirements v (Some r))"
    by (auto simp: requirements_ok_def deploy_requirements_def or_else_def coalesce_def resource_row_ok_def truthy_def split: option.splits)
qed

lemma plan_accepted:
  assumes rows: "config_rows_ok h s" and apps: "applications_sound h url s"
    and app: "app \<in> set (t_applications s)" "a_sourceType app = SrcDocker"
    and plan: "deploy_plan dec date scope app v s = Inr inp"
    and wid: "h_zodUuid h wid" and req: "requirements_ok (h_zodUuid h) req"
  shows "\<exists>cfg p. command_runtime_config (assign_ports wid occ (data_or_nil (runtimePortsSchema (in_runtimeConfig inp))))
        (in_runtimeConfig inp) = Some cfg
    \<and> startPayload (h_zodUuid h) (start_payload wid (new_deployment t did n inp) req cfg) = Some p
    \<and> st_workloadId p = wid \<and> Some (st_image p) = a_imageName app
    \<and> map mp_target (rc_volumes (st_runtimeConfig p))
        = map avm_mountPath (filter (\<lambda>a. avm_applicationId a = a_id app) (t_applicationVolumeMounts s))"
proof -
  let ?ms = "filter (\<lambda>a. avm_applicationId a = a_id app) (t_applicationVolumeMounts s)"
  let ?ps0 = "filter (\<lambda>p. ap_applicationId p = a_id app) (t_applicationPorts s)"
  let ?ps = "if ?ps0 = [] then [default_port (a_internalPort app)] else ?ps0"
  from plan obtain env where inp: "in_image inp = the (a_imageName app)" "in_runtime inp = Container"
      "in_runtimeConfig inp = deploy_runtime_config app (runtime_defaults (a_id app) s) env ?ps ?ms"
    by (auto simp: deploy_plan_def Let_def split: if_splits option.splits)
  from apps app have sound: "source_sound h url s app" by (simp add: applications_sound_def)
  with app(2) obtain img where img: "a_imageName app = Some img" "img \<noteq> []" by (auto simp: source_sound_def image_ok_def)
  let ?as = "assign_ports wid occ (data_or_nil (runtimePortsSchema (in_runtimeConfig inp)))"
  have as: "\<forall>a \<in> set ?as. tcp_port (snd (snd a))" by (rule assign_ports_tcp) (rule runtime_ports_tcp)
  have r: "runtime_row_ok x" if "runtime_defaults (a_id app) s = Some x" for x
    using that rows by (auto simp: runtime_defaults_def config_rows_ok_def dest!: find_Some_iff')
  have ps: "list_all port_row_ok ?ps"
    using rows sound by (auto simp: list_all_iff config_rows_ok_def default_port_def port_row_ok_def source_sound_def)
  have ms: "list_all (mount_row_ok (h_zodUuid h)) ?ms" using rows by (auto simp: list_all_iff config_rows_ok_def)
  have dist: "distinct (map avm_mountPath ?ms)" using rows by (intro own_mount_paths_distinct) (simp add: config_rows_ok_def)
  have rcr: "h_zodUuid h i" if "a_registryCredentialReference app = Some i" for i using sound that by (simp add: source_sound_def)
  have "\<exists>cfg rc. command_runtime_config ?as (in_runtimeConfig inp) = Some cfg \<and> runtime_config_schema (h_zodUuid h) cfg = Some rc
      \<and> rc_environment rc = env \<and> map sp_containerPort (rc_ports rc) = map ap_internalPort ?ps
      \<and> map mp_target (rc_volumes rc) = map avm_mountPath ?ms"
    unfolding inp(3) by (rule config_accepted, erule r, rule ps, rule ms, rule dist, erule rcr, rule as [unfolded inp(3)])
  then obtain cfg rc where cfg: "command_runtime_config ?as (in_runtimeConfig inp) = Some cfg"
      "runtime_config_schema (h_zodUuid h) cfg = Some rc" "map mp_target (rc_volumes rc) = map avm_mountPath ?ms" by blast
  have "d_image (new_deployment t did n inp) \<noteq> []" "d_runtime (new_deployment t did n inp) = Container"
    using inp img by (simp_all add: new_deployment_def)
  from payload_accepted [OF cfg(2) wid this req] obtain p where
    "startPayload (h_zodUuid h) (start_payload wid (new_deployment t did n inp) req cfg) = Some p" "st_workloadId p = wid"
    "st_image p = d_image (new_deployment t did n inp)" "st_runtimeConfig p = rc" by blast
  with cfg(1,3) img(1) inp(1) show ?thesis
    by (intro exI [of _ cfg] exI [of _ p]) (simp add: new_deployment_def)
qed

end
