(* ===== verification/ConfigRows.thy ===== *)
theory ConfigRows
  imports DeployProperties
begin

text \<open>
  The configuration routes only ever store rows the agent accepts, so that what is deployed after any sequence of them
  starts.
\<close>

subsection \<open>What the schemas guarantee\<close>

lemma trim_str_idem: "trim_str (trim_str s) = trim_str s"
proof -
  let ?x = "dropWhile is_space s"
  let ?t = "rev (dropWhile is_space (rev ?x))"
  have "dropWhile is_space ?t = ?t"
  proof (cases ?t)
    case (Cons c t)
    have "\<exists>u. ?x = ?t @ u" by (metis rev_append rev_rev_ident takeWhile_dropWhile_id)
    then obtain u where "?x = c # (t @ u)" using Cons by auto
    then have "\<not> is_space c" by (metis dropWhile_eq_Cons_conv)
    then show ?thesis using Cons by simp
  next
    case Nil
    then show ?thesis by (simp only: dropWhile.simps)
  qed
  then show ?thesis by (simp add: trim_str_def)
qed

lemma z_trimmed_ok: "z_trimmed lo hi j = Some p \<Longrightarrow> trim_str p = p \<and> lo \<le> length p \<and> length p \<le> hi"
  by (auto simp: z_trimmed_def Let_def trim_str_idem bind_Some_iff split: option.splits if_splits)

lemma z_default_ok: "z_default p d k j = Some v \<Longrightarrow> v = d \<or> (\<exists>w. p w = Some v)"
  by (auto simp: z_default_def split: option.splits)

lemma mountPath_ok: "mountPath j = Some p \<Longrightarrow> safeContainerMountPath (JStr p) = Some p"
  by (auto simp: mountPath_def bind_Some_iff safeContainerMountPath_def isSafeMountPath_def Let_def dest!: z_trimmed_ok split: if_splits)

lemma runtime_input_ok:
  assumes "runtimeConfigurationInput j = Some v" "runtime_row_ok r"
  shows "runtime_row_ok (set_runtime v now r)"
proof -
  from assms(1) obtain j' where f: "z_opt (z_nullable (z_trimmed 1 2000)) ''command'' j' = Some (rti_command v)"
      "z_opt (z_nullable absolute_dir) ''workingDirectory'' j' = Some (rti_workingDirectory v)"
      "z_default (z_int (int_range 1 600)) 15 ''gracefulShutdownSeconds'' j' = Some (rti_gracefulShutdownSeconds v)"
      "z_opt (z_nullable (z_trimmed 1 2000)) ''healthcheckCommand'' j' = Some (rti_healthcheckCommand v)"
      "z_default (z_int (int_range 1 3600)) 30 ''healthcheckIntervalSeconds'' j' = Some (rti_healthcheckIntervalSeconds v)"
      "z_default (z_int (int_range 1 600)) 5 ''healthcheckTimeoutSeconds'' j' = Some (rti_healthcheckTimeoutSeconds v)"
      "z_default (z_int (int_range 1 20)) 3 ''healthcheckRetries'' j' = Some (rti_healthcheckRetries v)"
      "z_default (z_int (int_range 0 3600)) 0 ''healthcheckStartPeriodSeconds'' j' = Some (rti_healthcheckStartPeriodSeconds v)"
    unfolding runtimeConfigurationInput_def bind_Some_iff by (elim exE conjE) auto
  have texts: "rti_command v = Some (Some x) \<Longrightarrow> length x \<le> 2000" "rti_healthcheckCommand v = Some (Some x) \<Longrightarrow> length x \<le> 2000"
      "rti_workingDirectory v = Some (Some x) \<Longrightarrow> length x \<le> 512" for x
    using f(1,2,4) by (auto simp: absolute_dir_def bind_Some_iff dest!: z_opt_ok z_nullable_ok z_trimmed_ok split: if_splits)
  have numbers: "in_range 1 600 (rti_gracefulShutdownSeconds v)" "in_range 1 3600 (rti_healthcheckIntervalSeconds v)"
      "in_range 1 600 (rti_healthcheckTimeoutSeconds v)" "in_range 1 20 (rti_healthcheckRetries v)"
      "in_range 0 3600 (rti_healthcheckStartPeriodSeconds v)"
    using f(3,5-8) [THEN z_default_ok] by (auto simp: in_range_def int_range_def dest!: z_int_ok)
  show ?thesis using assms(2) texts numbers
    by (auto simp: runtime_row_ok_def set_runtime_def set_given_def split: option.splits)
qed

lemma resource_input_ok:
  assumes "resourceConfigurationInput j = Some v"
  shows "0 < rsi_cpuMilli v" "0 < rsi_memoryMib v" "0 \<le> rsi_storageMib v"
proof -
  from assms obtain j' where f: "z_default (z_int (int_range 1 256000)) 250 ''cpuMilli'' j' = Some (rsi_cpuMilli v)"
      "z_default (z_int (int_range 16 1048576)) 256 ''memoryMib'' j' = Some (rsi_memoryMib v)"
      "z_default (z_int (int_range 0 1048576)) 0 ''storageMib'' j' = Some (rsi_storageMib v)"
    unfolding resourceConfigurationInput_def bind_Some_iff by (elim exE conjE) auto
  then show "0 < rsi_cpuMilli v" "0 < rsi_memoryMib v" "0 \<le> rsi_storageMib v"
    by (auto simp: int_range_def dest!: z_default_ok z_int_ok)
qed

lemma port_input_fields:
  assumes "port_input_schema j = Some p"
  shows "port_row_ok (new_application_port app now p i)"
proof -
  from assms obtain j' rhp ep where f: "z_req (z_int tcp_port) ''internalPort'' j' = Some (pin_internalPort p)"
      "z_opt (z_nullable (z_int tcp_port)) ''requestedHostPort'' j' = Some rhp" "pin_requestedHostPort p = opt_null rhp"
      "z_opt (z_nullable (z_int tcp_port)) ''externalPort'' j' = Some ep" "pin_externalPort p = opt_null ep"
    unfolding port_input_schema_def bind_Some_iff by (elim exE conjE) auto
  have "tcp_port (pin_internalPort p)" using f(1) by (auto dest!: z_req_ok z_int_ok)
  moreover have "pin_hostPort p = Some q \<Longrightarrow> tcp_port q" for q
    using f(2-5) by (auto simp: pin_hostPort_def opt_null_def split: option.splits dest!: z_opt_ok z_nullable_ok z_int_ok)
  ultimately show ?thesis by (simp add: port_row_ok_def new_application_port_def)
qed

subsection \<open>The rows stay acceptable\<close>

text \<open>The identifiers \<open>randomUUID\<close> makes pass zod's format check and, without their dashes, name a Docker volume.\<close>

definition uuid_host :: "host \<Rightarrow> bool" where
  "uuid_host h \<longleftrightarrow> (\<forall>n. h_zodUuid h (h_randomUUID h n) \<and> volume_name_regex (runtime_volume_name (h_randomUUID h n)))"

lemma config_rows_same:
  assumes "config_rows_ok h s" "t_runtimeConfigurations t = t_runtimeConfigurations s"
    and "t_resourceConfigurations t = t_resourceConfigurations s" "t_applicationPorts t = t_applicationPorts s"
    and "t_applicationVolumeMounts t = t_applicationVolumeMounts s" "t_volumes t = t_volumes s"
  shows "config_rows_ok h t"
  using assms(1) unfolding config_rows_ok_def assms(2-6) .

lemma app_audit_rows [simp]:
  "t_runtimeConfigurations (app_audit h rq scope a i s) = t_runtimeConfigurations s"
  "t_resourceConfigurations (app_audit h rq scope a i s) = t_resourceConfigurations s"
  by (simp_all add: app_audit_def recordAudit_def randomUUID_def)

lemma rows_audit: "config_rows_ok h (app_audit h rq scope a i s) = config_rows_ok h s"
  by (simp add: config_rows_ok_def)

lemma upsert_all: "(\<forall>r \<in> set rows. Q r) \<Longrightarrow> Q fresh \<Longrightarrow> (\<And>r. Q r \<Longrightarrow> Q (f r)) \<Longrightarrow> r \<in> set (upsert P f fresh rows) \<Longrightarrow> Q r"
  by (auto simp: upsert_def upd_where_def split: if_splits)

lemma rows_runtime:
  assumes "config_rows_ok h s"
  shows "config_rows_ok h (snd (put_runtime_configuration h m rq s))"
  unfolding put_runtime_configuration_def
proof (rule with_application_keeps [where I = "config_rows_ok h"], rule assms, rule with_body_keeps [where I = "config_rows_ok h"], rule assms)
  fix scope :: project_access and app v
  assume "runtimeConfigurationInput (the (rq_body rq)) = Some v"
  note ok = runtime_input_ok [OF this]
  have "runtime_row_ok (new_runtime_configuration (a_id app))"
    by (simp add: runtime_row_ok_def new_runtime_configuration_def in_range_def)
  with ok assms have "runtime_row_ok r" if "r \<in> set (upsert P (set_runtime v now) (new_runtime_configuration (a_id app)) (t_runtimeConfigurations s))"
    for r P now using that by (auto simp: config_rows_ok_def elim!: upsert_all [rotated 3])
  with assms show "config_rows_ok h (snd (Inr (Reply 200 (JStr (a_id app))), app_audit h rq scope ''application.runtime_updated'' (a_id app)
      (s\<lparr>t_runtimeConfigurations := upsert (\<lambda>r. rtc_applicationId r = a_id app) (set_runtime v (clock s))
               (new_runtime_configuration (a_id app)) (t_runtimeConfigurations s)\<rparr>)))"
    by (simp add: rows_audit config_rows_ok_def)
qed

lemma rows_resources:
  assumes "config_rows_ok h s"
  shows "config_rows_ok h (snd (put_resources h m rq s))"
  unfolding put_resources_def
proof (rule with_application_keeps [where I = "config_rows_ok h"], rule assms, rule with_body_keeps [where I = "config_rows_ok h"], rule assms)
  fix scope :: project_access and app v
  assume v: "resourceConfigurationInput (the (rq_body rq)) = Some v"
  let ?f = "\<lambda>r. r\<lparr>rsc_cpuMilli := rsi_cpuMilli v, rsc_memoryMib := rsi_memoryMib v, rsc_storageMib := rsi_storageMib v, rsc_updatedAt := clock s\<rparr>"
  let ?new = "\<lparr>rsc_applicationId = a_id app, rsc_cpuMilli = 250, rsc_memoryMib = 256, rsc_storageMib = 0, rsc_updatedAt = 0\<rparr>"
  have "resource_row_ok (?f r)" "resource_row_ok ?new" for r using resource_input_ok [OF v] by (simp_all add: resource_row_ok_def)
  with assms have "resource_row_ok r" if "r \<in> set (upsert P ?f ?new (t_resourceConfigurations s))" for r P
    using that by (auto simp: config_rows_ok_def elim!: upsert_all [rotated 3])
  with assms show "config_rows_ok h (snd (Inr (Reply 200 (JStr (a_id app))), app_audit h rq scope ''application.resources_updated'' (a_id app)
      (s\<lparr>t_resourceConfigurations := upsert (\<lambda>r. rsc_applicationId r = a_id app) ?f ?new (t_resourceConfigurations s)\<rparr>)))"
    by (simp add: rows_audit config_rows_ok_def)
qed

lemma insert_port_inputs_rows_same [simp]:
  "t_runtimeConfigurations (insert_port_inputs h app ps s) = t_runtimeConfigurations s"
  "t_resourceConfigurations (insert_port_inputs h app ps s) = t_resourceConfigurations s"
  by (induction ps arbitrary: s) (simp_all add: randomUUID_def)

lemma rows_ports:
  assumes "config_rows_ok h s"
  shows "config_rows_ok h (snd (put_ports h m rq s))"
  unfolding put_ports_def
proof (rule with_application_keeps [where I = "config_rows_ok h"], rule assms, rule with_body_keeps [where I = "config_rows_ok h"], rule assms)
  fix scope :: project_access and app :: application and ps
  assume "portsInput (the (rq_body rq)) = Some ps"
  then obtain j where "z_array port_input_schema j = Some ps" by (auto simp: portsInput_def z_items_def bind_Some_iff split: if_splits)
  then have row: "port_row_ok (new_application_port aid now p i)" if "p \<in> set ps" for p aid now i
    using z_array_mem [OF _ that] port_input_fields by blast
  let ?s = "s\<lparr>t_applicationPorts := del_where (\<lambda>p. ap_applicationId p = a_id app) (t_applicationPorts s)\<rparr>"
  obtain js where "t_applicationPorts (insert_port_inputs h (a_id app) ps ?s)
      = t_applicationPorts ?s @ map2 (new_application_port (a_id app) (clock s)) ps js"
    using insert_port_inputs_rows [of ps h "a_id app" ?s] by auto
  then have "\<forall>p \<in> set (t_applicationPorts (insert_port_inputs h (a_id app) ps ?s)). port_row_ok p"
    using row assms by (auto simp: config_rows_ok_def del_where_def dest: set_zip_leftD)
  with assms show "config_rows_ok h (snd ((Inr (Reply 200 (JStr (a_id app))) :: exn + response), app_audit h rq scope ''application.ports_updated'' (a_id app)
      (insert_port_inputs h (a_id app) ps ?s)))"
    by (simp add: rows_audit config_rows_ok_def)
qed

lemma rows_in_use: "config_rows_ok h s \<Longrightarrow> config_rows_ok h (update_volumes P (\<lambda>w. w\<lparr>v_status := VolInUse\<rparr>) s)"
  by (auto simp: config_rows_ok_def update_volumes_def upd_where_def)

lemma rows_uuid: "config_rows_ok h s \<Longrightarrow> config_rows_ok h (s\<lparr>uuid_next := n\<rparr>)"
  by (erule config_rows_same) simp_all

lemma rows_create_volume:
  assumes "config_rows_ok h s" "uuid_host h"
  shows "config_rows_ok h (snd (create_volume h p n c u s))"
  using assms by (auto simp: create_volume_def randomUUID_def Let_def config_rows_ok_def uuid_host_def)

lemma rows_attach:
  assumes "config_rows_ok h s" "vol \<in> set (t_volumes s)" "safeContainerMountPath (JStr (mi_mountPath v)) = Some (mi_mountPath v)"
  shows "config_rows_ok h (snd (attach_mount h aid v vol s))"
proof -
  let ?m = "\<lparr>avm_id = h_randomUUID h (uuid_next s), avm_applicationId = aid, avm_volumeId = Some (v_id vol),
      avm_volumeName = v_runtimeName vol, avm_mountPath = mi_mountPath v, avm_readOnly = mi_readOnly v\<rparr>"
  let ?s = "s\<lparr>uuid_next := Suc (uuid_next s), t_applicationVolumeMounts := t_applicationVolumeMounts s @ [?m]\<rparr>"
  have "mount_row_ok (h_zodUuid h) ?m" using assms by (simp add: mount_row_ok_def config_rows_ok_def)
  then have "config_rows_ok h ?s" if "\<not> list_ex (mount_conflict ?m) (t_applicationVolumeMounts s)"
    using assms(1) mounts_distinct_append [OF _ that] by (auto simp: config_rows_ok_def)
  then show ?thesis using assms(1)
    by (auto simp: attach_mount_def randomUUID_def Let_def rolled_back_def intro: rows_in_use rows_uuid)
qed

lemma rows_post_volume:
  assumes "config_rows_ok h s" "uuid_host h"
  shows "config_rows_ok h (snd (post_volume h m rq s))"
  unfolding post_volume_def
proof (rule with_application_keeps [where I = "config_rows_ok h"], rule assms(1), rule with_body_keeps [where I = "config_rows_ok h"], rule assms(1))
  fix scope :: project_access and app :: application and v
  assume "volumeMountInput (h_zodUuid h) (the (rq_body rq)) = Some v"
  then obtain j where "mountPath j = Some (mi_mountPath v)"
    by (auto simp: volumeMountInput_def bind_Some_iff split: if_splits dest!: z_req_ok)
  note path = mountPath_ok [OF this]
  obtain x s1 where x: "volume_to_attach h scope v s = (x, s1)" by (rule prod.exhaust)
  have rows: "config_rows_ok h s1"
    using x assms rows_create_volume [OF assms] by (auto simp: volume_to_attach_def split: if_splits) (metis apsnd_conv snd_apfst snd_conv)
  have "config_rows_ok h (snd (attach_mount h (a_id app) v vol s1))" if "x = Inr (Some vol)" for vol
    using volume_to_attach_project [of h scope v s vol s1] x that by (intro rows_attach rows path) simp
  then show "config_rows_ok h (snd (case volume_to_attach h scope v s of
        (Inl _, s1) \<Rightarrow> ((Inr (Problem 409 ''A volume is already mounted at this path'')) :: exn + response, s1)
      | (Inr None, s1) \<Rightarrow> (Inr (Problem 409 ''Volume is not available for attachment''), s1)
      | (Inr (Some vol), s1) \<Rightarrow>
          if v_status vol \<noteq> VolAvailable then (Inr (Problem 409 ''Volume is not available for attachment''), s1)
          else (case attach_mount h (a_id app) v vol s1 of
                  (Inl _, s2) \<Rightarrow> (Inr (Problem 409 ''A volume is already mounted at this path''), s2)
                | (Inr mount, s2) \<Rightarrow> (Inr (Reply 201 (JStr (avm_id mount))),
                    app_audit h rq scope ''volume.attached'' (v_id vol) (app_audit h rq scope ''application.volume_attached'' (a_id app) s2)))))"
    using rows by (auto simp: x rows_audit split: sum.split option.split prod.split)
qed

lemma rows_detach:
  assumes "config_rows_ok h s"
  shows "config_rows_ok h (snd (detach_volume h m rq i s))"
  unfolding detach_volume_def
proof (rule with_application_keeps [where I = "config_rows_ok h"], rule assms)
  fix scope :: project_access and app :: application
  have "config_rows_ok h (s\<lparr>t_applicationVolumeMounts := del_where P (t_applicationVolumeMounts s)\<rparr>)" for P
    using assms mounts_distinct_del by (auto simp: config_rows_ok_def del_where_def)
  note kept = this this [THEN rows_in_use]
  show "config_rows_ok h (snd (case List.find (\<lambda>a. avm_id a = i \<and> avm_applicationId a = a_id app) (t_applicationVolumeMounts s) of
        None \<Rightarrow> ((Inr (Problem 404 ''Volume mount not found'')) :: exn + response, s)
      | Some removed \<Rightarrow>
          (let s1 = s\<lparr>t_applicationVolumeMounts := del_where (\<lambda>a. avm_id a = i \<and> avm_applicationId a = a_id app) (t_applicationVolumeMounts s)\<rparr>;
               s2 = (case avm_volumeId removed of
                       None \<Rightarrow> s1
                     | Some vid \<Rightarrow> app_audit h rq scope ''volume.detached'' vid
                         (if list_ex (\<lambda>a. avm_volumeId a = Some vid) (t_applicationVolumeMounts s1) then s1
                          else update_volumes (\<lambda>w. v_id w = vid) (\<lambda>w. w\<lparr>v_status := VolInUse\<rparr>) s1))
           in (Inr NoContent, app_audit h rq scope ''application.volume_detached'' (a_id app) s2))))"
    using assms kept by (simp add: Let_def rows_audit split: option.split)
qed

lemma store_variable_rows:
  "config_rows_ok h (store_variable h' enc aid k e x s) = config_rows_ok h s"
  by (simp add: config_rows_ok_def store_variable_def randomUUID_def Let_def split: option.split)

lemma rows_secrets_variables:
  assumes "config_rows_ok h s"
  shows "config_rows_ok h (snd (post_secret h m rq s))" "config_rows_ok h (snd (delete_secret h m rq i s))"
    and "config_rows_ok h (snd (put_variable h enc m rq k s))" "config_rows_ok h (snd (delete_variable h m rq k e s))"
proof -
  have same: "config_rows_ok h (s\<lparr>uuid_next := n\<rparr>)" "config_rows_ok h (s\<lparr>t_secretAttachments := y\<rparr>)"
      "config_rows_ok h (s\<lparr>uuid_next := n, t_secretAttachments := y\<rparr>)" "config_rows_ok h (s\<lparr>t_applicationVariables := z\<rparr>)" for n y z
    using assms by (rule config_rows_same, simp_all)+
  show "config_rows_ok h (snd (post_secret h m rq s))"
    unfolding post_secret_def
    by (rule with_application_keeps [where I = "config_rows_ok h"], rule assms, rule with_body_keeps [where I = "config_rows_ok h"], rule assms)
      (use assms same in \<open>auto simp: Let_def randomUUID_def rows_audit split: prod.split\<close>)
  show "config_rows_ok h (snd (put_variable h enc m rq k s))"
    unfolding put_variable_def
    by (rule with_application_keeps [where I = "config_rows_ok h"], rule assms, rule with_body_keeps [where I = "config_rows_ok h"], rule assms)
      (use assms in \<open>auto simp: Let_def rows_audit store_variable_rows split: prod.split\<close>)
  show "config_rows_ok h (snd (delete_secret h m rq i s))" "config_rows_ok h (snd (delete_variable h m rq k e s))"
    unfolding delete_secret_def delete_variable_def Let_def
    by ((rule with_application_keeps [where I = "config_rows_ok h"], rule assms, simp add: assms same rows_audit))+
qed

lemma rows_config_call:
  assumes "config_rows_ok h s" "uuid_host h"
  shows "config_rows_ok h (snd (config_call_of h enc m rq call s))"
  by (cases call) (simp_all add: config_call_of_def rows_runtime rows_resources rows_ports rows_post_volume rows_detach
      rows_secrets_variables assms)

lemma rows_application_call:
  assumes "config_rows_ok h s" "uuid_host h"
  shows "config_rows_ok h (snd (application_call_of h url enc m rq call s))"
proof -
  have same: "config_rows_ok h (s\<lparr>uuid_next := n\<rparr>)" "config_rows_ok h (s\<lparr>uuid_next := n, t_applications := a\<rparr>)"
      "config_rows_ok h (update_applications P f s)" for n a P f
    using assms(1) by (rule config_rows_same, simp_all add: update_applications_def)+
  have "config_rows_ok h (snd (create_in_scope h url rq scope v s))" for scope v
    using assms(1) same by (simp add: create_in_scope_def Let_def randomUUID_def rows_audit)
  then have "config_rows_ok h (snd (with_body rq sch x (create_in_scope h url rq scope) s))" for sch x scope
    using assms(1) by (intro with_body_keeps [where I = "config_rows_ok h"])
  moreover have "config_rows_ok h (snd (patch_in_scope h url rq scope v s))" for scope v
    using assms(1) same by (simp add: patch_in_scope_def rows_audit split: option.split)
  then have "config_rows_ok h (snd (with_body rq sch x (patch_in_scope h url rq scope) s))" for sch x scope
    using assms(1) by (intro with_body_keeps [where I = "config_rows_ok h"])
  ultimately show ?thesis
    using assms rows_config_call [OF assms]
    by (simp add: application_call_of_def create_application_def patch_application_def split: application_call.split option.split)
qed

lemma sound_application_call:
  assumes "applications_sound h url s"
  shows "applications_sound h url (snd (application_call_of h url enc m rq call s))"
proof (cases call)
  case (Configure d)
  with sources_frames [OF refl] assms show ?thesis
    by (auto simp: application_call_of_def intro: applications_sound_same)
qed (simp_all add: application_call_of_def sound_create sound_patch assms)

lemma calls_keep:
  assumes "config_rows_ok h s" "applications_sound h url s" "uuid_host h"
  shows "config_rows_ok h (fold (\<lambda>(rq, call) s. snd (application_call_of h url enc m rq call s)) calls s)
    \<and> applications_sound h url (fold (\<lambda>(rq, call) s. snd (application_call_of h url enc m rq call s)) calls s)"
  using assms(1,2)
proof (induction calls arbitrary: s)
  case (Cons c calls)
  obtain rq call where "c = (rq, call)" by (rule prod.exhaust)
  with Cons rows_application_call [OF _ assms(3)] sound_application_call show ?case by simp
qed simp

text \<open>C5. What the routes accept, the agent starts. After any sequence of requests that create, change and configure
  applications, let a deployment of a Docker application be planned. Then its requirements can be read back for scheduling,
  and the start command of each of its replicas, with the host ports the placement assigns and the requirements it may have
  extended, passes the agent's payload schema: it starts the application's image with a volume mounted at each of the
  configured paths.\<close>

theorem configured_deployment_starts:
  assumes start: "config_rows_ok h s0" "applications_sound h url s0" "uuid_host h"
    and s: "s = fold (\<lambda>(rq, call) s. snd (application_call_of h url enc m rq call s)) calls s0"
    and app: "app \<in> set (t_applications s)" "a_sourceType app = SrcDocker"
    and v: "deploymentRequest (h_zodUuid h) body = Some v"
    and plan: "deploy_plan dec date scope app v s = Inr inp"
    and wid: "h_zodUuid h wid" and req: "requirements_ok (h_zodUuid h) req"
  shows "requirementsSchema (h_zodUuid h) (in_requirements inp) \<noteq> None
    \<and> (\<exists>cfg p. command_runtime_config (assign_ports wid occ (data_or_nil (runtimePortsSchema (in_runtimeConfig inp))))
        (in_runtimeConfig inp) = Some cfg
      \<and> startPayload (h_zodUuid h) (start_payload wid (new_deployment t did n inp) req cfg) = Some p
      \<and> st_workloadId p = wid \<and> Some (st_image p) = a_imageName app
      \<and> map mp_target (rc_volumes (st_runtimeConfig p))
          = map avm_mountPath (filter (\<lambda>a. avm_applicationId a = a_id app) (t_applicationVolumeMounts s)))"
proof -
  from calls_keep [OF start] have kept: "config_rows_ok h s" "applications_sound h url s" by (simp_all add: s)
  have "in_requirements inp = requirements_json (deploy_requirements v (resource_defaults (a_id app) s))"
    using plan by (auto simp: deploy_plan_def Let_def split: if_splits option.splits)
  moreover have "requirements_ok (h_zodUuid h) (deploy_requirements v (resource_defaults (a_id app) s))"
    using deploymentRequest_ok [OF v] kept(1)
    by (cases "resource_defaults (a_id app) s") (auto simp: resource_defaults_def config_rows_ok_def dest!: find_Some_iff')
  ultimately have "requirementsSchema (h_zodUuid h) (in_requirements inp) \<noteq> None"
    by (simp add: requirements_parse_stored)
  with plan_accepted [OF kept app plan wid req] show ?thesis by blast
qed

subsection \<open>Witness\<close>

definition web_application :: application where
  "web_application = (hd (t_applications sample_deployed))\<lparr>a_sourceType := SrcDocker, a_imageName := Some ''nginx:1.27''\<rparr>"

definition uuid_sample :: host where
  "uuid_sample = sample_host\<lparr>h_randomUUID := \<lambda>_. ''id''\<rparr>"

definition no_request :: deployment_request where
  "no_request = \<lparr>dr_environmentId = None, dr_replicas = None, dr_cpuMilli = None, dr_memoryMib = None, dr_storageMib = None,
     dr_region = None, dr_requiredLabels = None\<rparr>"

definition web_configured :: cp where
  "web_configured = fold (\<lambda>(rq, call) s. snd (application_call_of uuid_sample (\<lambda>_. None) (\<lambda>_ x. x) sample_iam rq call s))
     [(sample_request (JArr [JObj [(''internalPort'', JNum 80), (''exposure'', JStr ''public'')]]), Configure SetPorts)]
     (empty_cp\<lparr>t_applications := [web_application]\<rparr>)"

lemma web_plan_ok: "\<exists>inp. deploy_plan Some (\<lambda>_. []) sample_scope web_application no_request web_configured = Inr inp"
proof -
  have "isl (deploy_plan Some (\<lambda>_. []) sample_scope web_application no_request web_configured) = False" by code_simp
  then show ?thesis by (cases "deploy_plan Some (\<lambda>_. []) sample_scope web_application no_request web_configured") simp_all
qed

lemma configured_deployment_starts_witness:
  "\<exists>inp cfg p. deploy_plan Some (\<lambda>_. []) sample_scope web_application no_request web_configured = Inr inp
     \<and> startPayload (h_zodUuid uuid_sample) (start_payload ''w1'' (new_deployment empty_cp ''d1'' 1 inp) sample_requirements cfg) = Some p
     \<and> Some (st_image p) = a_imageName web_application"
proof -
  obtain inp where inp: "deploy_plan Some (\<lambda>_. []) sample_scope web_application no_request web_configured = Inr inp"
    using web_plan_ok by blast
  have rows: "config_rows_ok uuid_sample (empty_cp\<lparr>t_applications := [web_application]\<rparr>)"
    by (simp add: config_rows_ok_def empty_cp_def mounts_distinct_def)
  have "rx_test image_regex ''nginx:1.27''" "rx_test slug_regex ''app''" by code_simp+
  then have "source_sound uuid_sample (\<lambda>_. None) (empty_cp\<lparr>t_applications := [web_application]\<rparr>) web_application"
    by (simp add: source_sound_def web_application_def sample_deployed_def image_ok_def slug_ok_def rx_test_iff tcp_port_def
        secretReferenceInProject_def truthy_def)
  then have sound: "applications_sound uuid_sample (\<lambda>_. None) (empty_cp\<lparr>t_applications := [web_application]\<rparr>)"
    by (simp add: applications_sound_def)
  have uuid: "uuid_host uuid_sample" by (simp add: uuid_host_def uuid_sample_def) code_simp
  have "map a_id (t_applications web_configured) = [''app'']" by code_simp
  have in_state: "t_applications web_configured = [web_application]"
    using sources_frames [OF refl] by (simp add: web_configured_def application_call_of_def)
  have v: "deploymentRequest (h_zodUuid uuid_sample) (JObj []) = Some no_request" by code_simp
  have req: "requirements_ok (h_zodUuid uuid_sample) sample_requirements" by code_simp
  have "h_zodUuid uuid_sample ''w1''" "a_sourceType web_application = SrcDocker" by code_simp+
  from configured_deployment_starts [OF rows sound uuid web_configured_def _ this(2) v inp this(1) req,
      of "\<lambda>_. []" empty_cp "''d1''" 1] in_state inp
  show ?thesis by auto
qed

end
