(* ===== verification/DeployedRevision.thy ===== *)
theory DeployedRevision
  imports DeployRoute ConfigProperties
begin

text \<open>
  What a deploy request does to the revisions: it is refused and changes nothing, or the new revision is the application's
  only wanted one.
\<close>

lemma log_deploy_deployments [simp]: "t_deployments (log_deploy h scope aid did s) = t_deployments s"
  by (simp add: log_deploy_def randomUUID_def)

lemma app_audit_deployments [simp]: "t_deployments (app_audit h rq scope a i s) = t_deployments s"
  by (simp add: app_audit_def recordAudit_def randomUUID_def)

lemma deploy_planned_deployments:
  assumes "createDeployment h rival inp s = (Inr d, s1)"
  shows "t_deployments (snd (deploy_planned h rival vrival rq scope app inp s))
    = t_deployments (snd (reconcileDeployment h vrival (d_id d) (supersedePreviousDeployments h (a_id app) (d_id d)
        (log_deploy h scope (a_id app) (d_id d) (update_applications (\<lambda>a. a_id a = a_id app) (\<lambda>a. a\<lparr>a_status := AppDeploying\<rparr>) s1)))))"
  using assms by (simp add: deploy_planned_def Let_def split: prod.split sum.split)

lemma managed_deploy_mount: "managed_mount_of (deploy_mount a) \<in> {[], [\<lparr>mm_volumeId = the (avm_volumeId a), mm_mountPath = avm_mountPath a,
    mm_readOnly = avm_readOnly a\<rparr>]}"
  by (auto simp: managed_mount_of_def deploy_mount_def)

lemma managed_paths_subset: "mm_mountPath ` set (concat (map (\<lambda>a. managed_mount_of (deploy_mount a)) xs)) \<subseteq> avm_mountPath ` set xs"
proof (induction xs)
  case (Cons a xs)
  then show ?case using managed_deploy_mount [of a] by auto
qed simp

lemma managed_paths_distinct:
  "distinct (map avm_mountPath xs) \<Longrightarrow> distinct (map mm_mountPath (concat (map (\<lambda>a. managed_mount_of (deploy_mount a)) xs)))"
proof (induction xs)
  case (Cons a xs)
  let ?ms = "concat (map (\<lambda>a. managed_mount_of (deploy_mount a)) xs)"
  have "avm_mountPath a \<notin> set (map mm_mountPath ?ms)" using Cons.prems managed_paths_subset [of xs] by auto
  moreover have "distinct (map mm_mountPath ?ms)" by (rule Cons.IH) (use Cons.prems in simp)
  moreover have "map mm_mountPath (managed_mount_of (deploy_mount a)) \<in> {[], [avm_mountPath a]}"
    using managed_deploy_mount [of a] by auto
  ultimately show ?case by auto
qed simp

text \<open>C7. A deploy request is refused and leaves the revisions alone, or the revision it plans becomes the application's only
  wanted one: it carries the next version and the application's image, and no revision of another application changes.\<close>

theorem deployed_revision_current:
  assumes "fresh_ids h s" "distinct (map d_id (t_deployments s))" "mounts_distinct (t_applicationVolumeMounts s)"
    and "\<And>ids. volume_rivals ids vrival" and s': "s' = snd (deploy_application h (\<lambda>_ s. s) vrival dec date m rq s)"
  shows "s' = s \<or> (\<exists>d app. filter (wanted (rq_applicationId rq)) (t_deployments s') = [d] \<and> app \<in> set (t_applications s)
      \<and> a_id app = rq_applicationId rq \<and> d_image d = the (a_imageName app)
      \<and> d_version d = latest_version (rq_applicationId rq) (t_deployments s) + 1 \<and> spares (rq_applicationId rq) s s')"
proof (cases "s' = s")
  case False
  then obtain scope app v inp where app: "applicationInScope scope (rq_applicationId rq) s = Some app"
    and plan: "deploy_plan dec date scope app v s = Inr inp"
    and final: "s' = snd (deploy_planned h (\<lambda>_ s. s) vrival rq scope app inp s)"
    by (auto simp: s' deploy_application_def split: option.splits if_splits sum.splits)
  from app have aid: "a_id app = rq_applicationId rq" "app \<in> set (t_applications s)"
    by (auto simp: applicationInScope_def dest!: find_Some_iff')
  obtain r env ports where inp: "in_applicationId inp = a_id app" "in_buildId inp = None" "in_desiredState inp = WantRunning"
      "in_image inp = the (a_imageName app)"
      "in_runtimeConfig inp = deploy_runtime_config app r env ports (filter (\<lambda>a. avm_applicationId a = a_id app) (t_applicationVolumeMounts s))"
    using plan by (auto simp: deploy_plan_def Let_def split: if_splits option.splits)
  have mounts: "distinct (map mm_mountPath (managedVolumeMounts (in_runtimeConfig inp)))"
    using managed_paths_distinct [OF own_mount_paths_distinct [OF assms(3)]]
    by (simp add: inp(5) managedVolumeMounts_def deploy_runtime_config_def o_def)
  have none: "existing_for_build inp s = None" by (simp add: existing_for_build_def inp truthy_def)
  obtain e s1 where c: "createDeployment h (\<lambda>_ s. s) inp s = (Inr e, s1)" "t_deployments s1 = t_deployments s @ [e]"
    and e: "e = new_deployment s (h_randomUUID h (uuid_next s)) (latest_version (a_id app) (t_deployments s) + 1) inp"
    using createDeployment_quiet [OF assms(1) none _ mounts] by (auto simp: inp)
  let ?s2 = "log_deploy h scope (a_id app) (d_id e) (update_applications (\<lambda>a. a_id a = a_id app) (\<lambda>a. a\<lparr>a_status := AppDeploying\<rparr>) s1)"
  let ?s3 = "supersedePreviousDeployments h (a_id app) (d_id e) ?s2"
  have new: "d_id e \<notin> d_id ` set (t_deployments s)" using assms(1) by (auto simp: e fresh_ids_def ids_in_use_def)
  have rows: "t_deployments ?s2 = t_deployments s @ [e]" by (simp add: c(2))
  have w: "filter (wanted (a_id app)) (t_deployments ?s3) = [e]"
    by (rule supersede_wanted [OF assms(2) new rows]) (simp add: wanted_def e new_deployment_def inp)
  have rows': "t_deployments s' = t_deployments (snd (reconcileDeployment h vrival (d_id e) ?s3))"
    unfolding final by (rule deploy_planned_deployments [OF c(1)])
  have k: "keeps ?s3 (snd (reconcileDeployment h vrival (d_id e) ?s3))" by (rule keeps_reconcileDeployment [OF assms(4)])
  obtain d where d: "filter (wanted (a_id app)) (t_deployments s') = [d]" "intent d = intent e"
    using keeps_wanted [OF k w] by (auto simp: rows')
  have "spares (a_id app) s ?s2" by (simp add: spares_def c(2) e new_deployment_def inp)
  moreover have "spares (a_id app) ?s2 ?s3" by (rule spares_supersede) (use assms(2) new in \<open>auto simp: c(2)\<close>)
  moreover note spares_keeps [OF k]
  ultimately have "spares (a_id app) s s'" using spares_trans by (simp add: spares_def rows')
  with d aid show ?thesis
    by (intro disjI2 exI [of _ d] exI [of _ app]) (auto simp: intent_def revision_def e new_deployment_def inp)
qed simp

subsection \<open>Witness\<close>

definition docker_deployed :: cp where
  "docker_deployed = sample_deployed\<lparr>t_applications := map (\<lambda>a. a\<lparr>a_sourceType := SrcDocker, a_imageName := Some ''nginx:1.27''\<rparr>)
     (t_applications sample_deployed)\<rparr>"

lemma deployed_revision_current_witness:
  "\<exists>d. filter (wanted ''app'') (t_deployments (snd (deploy_application sample_host (\<lambda>_ s. s) (\<lambda>_ s. s) Some (\<lambda>_. []) sample_iam
     (sample_request (JObj [])) docker_deployed))) = [d] \<and> d_version d = 3"
proof -
  let ?s' = "snd (deploy_application sample_host (\<lambda>_ s. s) (\<lambda>_ s. s) Some (\<lambda>_. []) sample_iam (sample_request (JObj [])) docker_deployed)"
  have same: "t_deployments docker_deployed = t_deployments sample_deployed" by (simp add: docker_deployed_def)
  have 1: "fresh_ids sample_host docker_deployed"
    using sample_deployed_fresh by (simp add: fresh_ids_def ids_in_use_def docker_deployed_def)
  have 2: "distinct (map d_id (t_deployments docker_deployed))" using sample_deployed_facts(2) by (simp add: same)
  have "t_applicationVolumeMounts docker_deployed = []" by code_simp
  then have 3: "mounts_distinct (t_applicationVolumeMounts docker_deployed)" by (simp add: mounts_distinct_def)
  have 4: "volume_rivals ids (\<lambda>_ s. s)" for ids by (simp add: volume_rivals_def)
  have "length (t_deployments ?s') = 3" "length (t_deployments docker_deployed) = 2"
    "latest_version ''app'' (t_deployments docker_deployed) = 2" by code_simp+
  moreover from this have "?s' \<noteq> docker_deployed" by force
  moreover have "rq_applicationId (sample_request (JObj [])) = ''app''" by (simp add: sample_request_def)
  ultimately show ?thesis
    using deployed_revision_current [OF 1 2 3 4 refl, of Some "\<lambda>_. []" sample_iam "sample_request (JObj [])"] by auto
qed

end
