(* ===== verification/DeploymentViews.thy ===== *)
theory DeploymentViews
  imports DeployRoute
begin

text \<open>
  What \<open>apps/api/src/routes/applications.routes.ts\<close> shows of deployments: the markers of a revision, the page of a project's
  deployments, the status of an application's runtime, its public endpoints, and the logs, whose reading asks the agent for
  newer ones.
\<close>

subsection \<open>Revision markers\<close>

record revision_state =
  rs_isLatest :: bool
  rs_isCurrent :: bool
  rs_isLastSuccessful :: bool

definition newer :: "deployment \<Rightarrow> deployment \<Rightarrow> deployment" where
  "newer best c = (if d_version best < d_version c then c else best)"

definition newest_revision :: "deployment list \<Rightarrow> deployment option" where
  "newest_revision ds = foldl (\<lambda>best c. Some (case best of None \<Rightarrow> c | Some b \<Rightarrow> newer b c)) None ds"

definition revision_markers :: "deployment list \<Rightarrow> deployment \<Rightarrow> revision_state" where
  "revision_markers universe item =
     (let revisions = filter (\<lambda>d. d_applicationId d = d_applicationId item) universe;
          marks = (\<lambda>d. case d of None \<Rightarrow> False | Some e \<Rightarrow> d_id item = d_id e)
      in \<lparr>rs_isLatest = (d_id item = d_id (foldl newer item revisions)),
          rs_isCurrent = marks (newest_revision (filter (\<lambda>d. d_desiredState d = WantRunning) revisions)),
          rs_isLastSuccessful = marks (newest_revision (filter (\<lambda>d. d_status d = DepRunning) revisions))\<rparr>)"

definition markDeploymentRevisions :: "deployment list \<Rightarrow> deployment list \<Rightarrow> (deployment \<times> revision_state) list" where
  "markDeploymentRevisions items universe = map (\<lambda>d. (d, revision_markers universe d)) items"

text \<open>The page \<open>page\<close> (from one) of a project's deployments, newest first, and their number.\<close>

definition project_deployments :: "string \<Rightarrow> cp \<Rightarrow> deployment list" where
  "project_deployments pid s =
     filter (\<lambda>d. list_ex (\<lambda>a. a_id a = d_applicationId d \<and> a_projectId a = pid) (t_applications s)) (t_deployments s)"

definition deployment_page :: "string \<Rightarrow> nat \<Rightarrow> nat \<Rightarrow> cp \<Rightarrow> (deployment \<times> revision_state) list \<times> nat" where
  "deployment_page pid page limit s =
     (let items = take limit (drop ((page - 1) * limit) (sort_key (\<lambda>d. - d_createdAt d) (project_deployments pid s)));
          universe = filter (\<lambda>d. d_applicationId d \<in> set (map d_applicationId items)) (t_deployments s)
      in (markDeploymentRevisions items universe, length (project_deployments pid s)))"

definition list_project_deployments :: "iam \<Rightarrow> app_request \<Rightarrow> nat \<Rightarrow> nat \<Rightarrow> cp \<Rightarrow> response + (deployment \<times> revision_state) list \<times> nat" where
  "list_project_deployments m rq page limit s =
     (case getProjectScope m (rq_session rq) (rq_orgSlug rq) (rq_projectId rq) of
        None \<Rightarrow> Inl (Problem 404 ''Project not found or access denied'')
      | Some scope \<Rightarrow>
          if ''deployments.read'' \<notin> set (pa_permissions scope) then Inl (Problem 403 ''Permission required: deployments.read'')
          else if page < 1 \<or> limit < 1 \<or> 100 < limit then Inl (Problem 400 ''Invalid pagination'')
          else Inr (deployment_page (pj_id (pa_project scope)) page limit s))"

subsection \<open>Runtime status and networking\<close>

definition application_workloads_of :: "string \<Rightarrow> cp \<Rightarrow> workload list" where
  "application_workloads_of aid s =
     concat (map (\<lambda>d. filter (\<lambda>w. w_deploymentId w = d_id d) (t_workloads s))
       (sort_key (\<lambda>d. - d_createdAt d) (filter (\<lambda>d. d_applicationId d = aid) (t_deployments s))))"

definition runtime_status :: "workload list \<Rightarrow> application_status \<Rightarrow> application_status" where
  "runtime_status ws st =
     (if list_ex (\<lambda>w. w_actualState w = ActFailed) ws then AppFailed
      else if list_ex (\<lambda>w. w_actualState w = ActLost) ws then AppDegraded
      else if list_ex (\<lambda>w. w_healthStatus w = HUnhealthy) ws then AppDegraded
      else if list_ex (\<lambda>w. w_healthStatus w = HStarting) ws then AppDeploying
      else if list_ex (\<lambda>w. w_actualState w = ActRunning) ws then AppHealthy
      else if list_ex (\<lambda>w. w_desiredState w = WantRunning) ws then AppDeploying
      else st)"

definition application_runtime :: "iam \<Rightarrow> app_request \<Rightarrow> cp \<Rightarrow> response + application_status \<times> workload list" where
  "application_runtime m rq s =
     (case getProjectScope m (rq_session rq) (rq_orgSlug rq) (rq_projectId rq) of
        None \<Rightarrow> Inl (Problem 404 ''Project not found or access denied'')
      | Some scope \<Rightarrow>
          (case applicationInScope scope (rq_applicationId rq) s of
             None \<Rightarrow> Inl (Problem 404 ''Application not found'')
           | Some app \<Rightarrow> (let ws = application_workloads_of (a_id app) s in Inr (runtime_status ws (a_status app), ws))))"

record endpoint_view =
  epv_workloadId :: string
  epv_containerPort :: int
  epv_hostPort :: int
  epv_available :: bool
  epv_host :: "string option"

definition endpoint_available :: "workload_port \<Rightarrow> workload \<Rightarrow> node \<Rightarrow> bool" where
  "endpoint_available p w n \<longleftrightarrow> wp_status p = Bound \<and> w_actualState w = ActRunning \<and> n_status n = Ready
     \<and> n_publicNetworkingEnabled n = 1 \<and> truthy (n_publicAddress n)"

text \<open>The joins: workloads of the application, their deployment, node and public ports.\<close>

definition application_endpoints :: "string \<Rightarrow> cp \<Rightarrow> endpoint_view list" where
  "application_endpoints aid s =
     [\<lparr>epv_workloadId = w_id w, epv_containerPort = wp_containerPort p, epv_hostPort = wp_hostPort p,
       epv_available = endpoint_available p w n,
       epv_host = (if endpoint_available p w n then n_publicAddress n else None)\<rparr>.
      w \<leftarrow> t_workloads s, d \<leftarrow> t_deployments s, d_id d = w_deploymentId w, d_applicationId d = aid,
      n \<leftarrow> t_nodes s, w_nodeId w = Some (n_id n), p \<leftarrow> t_workloadPorts s, wp_workloadId p = w_id w, wp_exposure p = Public]"

definition networking :: "iam \<Rightarrow> app_request \<Rightarrow> cp \<Rightarrow> response + endpoint_view list" where
  "networking m rq s =
     (case getProjectScope m (rq_session rq) (rq_orgSlug rq) (rq_projectId rq) of
        None \<Rightarrow> Inl (Problem 404 ''Project not found or access denied'')
      | Some scope \<Rightarrow>
          (case applicationInScope scope (rq_applicationId rq) s of
             None \<Rightarrow> Inl (Problem 404 ''Application not found'')
           | Some app \<Rightarrow> Inr (application_endpoints (a_id app) s)))"

subsection \<open>Logs\<close>

definition logs_pending :: "string \<Rightarrow> cp \<Rightarrow> bool" where
  "logs_pending wid s \<longleftrightarrow> list_ex (\<lambda>c. c_resourceId c = wid \<and> c_type c = ''workload.logs'' \<and> c_status c \<in> {CmdPending, CmdDelivered})
     (t_commands s)"

definition log_command :: "string \<Rightarrow> string \<Rightarrow> string \<Rightarrow> int \<Rightarrow> int \<Rightarrow> agent_command" where
  "log_command i nid wid tail now =
     \<lparr>c_id = i, c_nodeId = nid, c_type = ''workload.logs'', c_resourceId = wid, c_payload = JObj [(''tail'', jint tail)],
      c_deadlineAt = None, c_status = CmdPending, c_deliveredAt = None, c_deliveryAttempts = 0, c_result = None,
      c_createdAt = now, c_completedAt = None\<rparr>"

text \<open>\<open>desc\<close> on a column that may be null: the nulls come first.\<close>

definition desc_nulls_first :: "('r \<Rightarrow> int option) \<Rightarrow> 'r list \<Rightarrow> 'r list" where
  "desc_nulls_first f rows = filter (\<lambda>r. f r = None) rows @ sort_key (\<lambda>r. - the (f r)) (filter (\<lambda>r. f r \<noteq> None) rows)"

definition latest_logs :: "string \<Rightarrow> cp \<Rightarrow> agent_command option" where
  "latest_logs wid s =
     (case desc_nulls_first c_completedAt
             (filter (\<lambda>c. c_resourceId c = wid \<and> c_type c = ''workload.logs'' \<and> c_status c = CmdSucceeded) (t_commands s)) of
        [] \<Rightarrow> None | c # _ \<Rightarrow> Some c)"

definition logs_text :: "agent_command option \<Rightarrow> string" where
  "logs_text c =
     (case Option.bind c (\<lambda>c. Option.bind (c_result c) (\<lambda>r. Option.bind (jget ''data'' r) (jget ''logs''))) of
        Some (JStr t) \<Rightarrow> t | _ \<Rightarrow> [])"

definition request_logs :: "host \<Rightarrow> int \<Rightarrow> workload \<Rightarrow> cp \<Rightarrow> cp" where
  "request_logs h tail w s =
     (if truthy (w_nodeId w) \<and> w_actualState w = ActRunning \<and> \<not> logs_pending (w_id w) s
      then (let (i, s1) = randomUUID h s in
            s1\<lparr>t_commands := t_commands s1 @ [log_command i (the (w_nodeId w)) (w_id w) tail (clock s1)]\<rparr>)
      else s)"

fun workload_logs :: "host \<Rightarrow> int \<Rightarrow> workload list \<Rightarrow> cp \<Rightarrow> (string \<times> string \<times> int option) list \<times> cp" where
  "workload_logs h tail [] s = ([], s)"
| "workload_logs h tail (w # ws) s =
     (let last = latest_logs (w_id w) s; (rest, s1) = workload_logs h tail ws (request_logs h tail w s)
      in ((w_id w, logs_text last, Option.bind last c_completedAt) # rest, s1))"

definition logged_workloads :: "string \<Rightarrow> cp \<Rightarrow> workload list" where
  "logged_workloads aid s = take 100 (filter (\<lambda>w. w_desiredState w = WantRunning
     \<and> list_ex (\<lambda>d. d_id d = w_deploymentId w \<and> d_applicationId d = aid) (t_deployments s)) (t_workloads s))"

definition application_logs :: "host \<Rightarrow> iam \<Rightarrow> app_request \<Rightarrow> int \<Rightarrow> cp \<Rightarrow> (response + (string \<times> string \<times> int option) list) \<times> cp" where
  "application_logs h m rq tail s =
     (case getProjectScope m (rq_session rq) (rq_orgSlug rq) (rq_projectId rq) of
        None \<Rightarrow> (Inl (Problem 404 ''Project not found or access denied''), s)
      | Some scope \<Rightarrow>
          (case applicationInScope scope (rq_applicationId rq) s of
             None \<Rightarrow> (Inl (Problem 404 ''Application not found''), s)
           | Some app \<Rightarrow>
               if \<not> int_range 1 2000 tail then (Inl (Problem 400 ''Invalid log request''), s)
               else apfst Inr (workload_logs h tail (logged_workloads (a_id app) s) s)))"

definition deployment_logs :: "host \<Rightarrow> iam \<Rightarrow> app_request \<Rightarrow> string \<Rightarrow> int \<Rightarrow> cp \<Rightarrow> (response + (string \<times> string \<times> int option) list) \<times> cp" where
  "deployment_logs h m rq did tail s =
     (case getProjectScope m (rq_session rq) (rq_orgSlug rq) (rq_projectId rq) of
        None \<Rightarrow> (Inl (Problem 404 ''Project not found or access denied''), s)
      | Some scope \<Rightarrow>
          if ''deployments.read'' \<notin> set (pa_permissions scope) then (Inl (Problem 403 ''Permission required: deployments.read''), s)
          else (case deploymentInScope scope did s of
             None \<Rightarrow> (Inl (Problem 404 ''Deployment not found''), s)
           | Some d \<Rightarrow>
               if \<not> int_range 1 2000 tail then (Inl (Problem 400 ''Invalid log request''), s)
               else apfst Inr (workload_logs h tail (filter (\<lambda>w. w_deploymentId w = d_id d) (t_workloads s)) s)))"

end
