(* ===== verification/Traefik.thy ===== *)
theory Traefik
  imports SafeAddress Regex "HOL-Library.AList"
begin

text \<open>
  The edge of the platform: the DNS check of \<open>apps/api/src/lib/network/dns.ts\<close> and the file-provider configuration of
  \<open>apps/api/src/lib/network/traefik.ts\<close>. The answers of the name servers are the argument \<open>rs\<close> (\<open>None\<close> is a rejected
  lookup), the \<open>URL\<close> class the argument \<open>url\<close>, and \<open>collate\<close> is \<open>localeCompare\<close>. The configuration directory maps file
  names to configurations; a write that fails leaves it as it was, because the file is renamed into place. The one
  middleware every configuration defines, the redirect to HTTPS, is constant and left out of the records.
\<close>

subsection \<open>Hostnames\<close>

definition lower_digit :: "char \<Rightarrow> bool" where
  "lower_digit c \<longleftrightarrow> is_lower c \<or> is_digit c"

text \<open>\<open>/^(?=.{1,253}$)(?:[a-z0-9](?:[a-z0-9-]{0,61}[a-z0-9])?\.)+[a-z]{2,63}$/\<close>; the lookahead bounds the length.\<close>

definition hostname_label :: regex where
  "hostname_label = RSeq (RClass lower_digit)
     (RSeq (rx_opt (RSeq (rx_upto 61 (RClass (\<lambda>c. lower_digit c \<or> c = CHR ''-''))) (RClass lower_digit))) (rx_lit ''.''))"

definition hostname_regex :: regex where
  "hostname_regex = RSeq (rx_plus hostname_label) (RSeq (rx_times 2 (RClass is_lower)) (rx_upto 61 (RClass is_lower)))"

definition hostnamePattern :: "string \<Rightarrow> bool" where
  "hostnamePattern s \<longleftrightarrow> 1 \<le> length s \<and> length s \<le> 253 \<and> rx_test hostname_regex s"

subsection \<open>DNS ownership\<close>

record dns_manager =
  dm_serverPublicIp :: "string option"
  dm_cnameTarget :: "string option"

record resolver =
  rs_resolve4 :: "string \<Rightarrow> string list option"
  rs_resolve6 :: "string \<Rightarrow> string list option"
  rs_resolveCname :: "string \<Rightarrow> string list option"

text \<open>\<open>replace(/\.$/, "")\<close>\<close>

definition drop_dot :: "string \<Rightarrow> string" where
  "drop_dot s = (if s \<noteq> [] \<and> last s = CHR ''.'' then butlast s else s)"

definition normalizeHostname :: "string \<Rightarrow> string option" where
  "normalizeHostname v = (let n = drop_dot (to_lower (trim_str v)) in if hostnamePattern n then Some n else None)"

definition verifyCustomDomain :: "dns_manager \<Rightarrow> resolver \<Rightarrow> string \<Rightarrow> bool option" where
  "verifyCustomDomain dm rs d =
     (if \<not> truthy (dm_serverPublicIp dm) then Some False
      else map_option (\<lambda>h. the (dm_serverPublicIp dm) \<in> set (or_else (rs_resolve4 rs h) [])
             \<or> the (dm_serverPublicIp dm) \<in> set (or_else (rs_resolve6 rs h) [])) (normalizeHostname d))"

definition verifyCname :: "dns_manager \<Rightarrow> resolver \<Rightarrow> string \<Rightarrow> bool option" where
  "verifyCname dm rs d =
     (if \<not> truthy (dm_cnameTarget dm) then Some False
      else Option.bind (normalizeHostname d) (\<lambda>h. Option.bind (normalizeHostname (the (dm_cnameTarget dm))) (\<lambda>target.
             Some (case rs_resolveCname rs h of
                     None \<Rightarrow> False
                   | Some records \<Rightarrow> list_ex (\<lambda>r. drop_dot (to_lower r) = target) records))))"

definition verifyDomain :: "dns_manager \<Rightarrow> resolver \<Rightarrow> string \<Rightarrow> bool" where
  "verifyDomain dm rs d \<longleftrightarrow> verifyCustomDomain dm rs d = Some True \<or> verifyCname dm rs d = Some True"

subsection \<open>Upstream URLs\<close>

record parsed_url =
  pu_protocol :: string
  pu_username :: string
  pu_password :: string
  pu_hostname :: string
  pu_pathname :: string
  pu_search :: string
  pu_hash :: string
  pu_string :: string

definition safeIdentifier :: "string \<Rightarrow> string" where
  "safeIdentifier v = map (\<lambda>c. if is_alnum c \<or> c = CHR ''_'' \<or> c = CHR ''-'' then c else CHR ''-'') v"

definition assertHostname :: "string \<Rightarrow> string + string" where
  "assertHostname h = (let n = to_lower (trim_str h) in if hostnamePattern n then Inr n else Inl ''Invalid Traefik hostname'')"

text \<open>\<open>url.slice(url.indexOf("//") + 2)\<close>; without \<open>//\<close> the index is -1.\<close>

fun after_slashes :: "string \<Rightarrow> string option" where
  "after_slashes [] = None"
| "after_slashes (c # cs) = (if starts_with ''//'' (c # cs) then Some (drop 2 (c # cs)) else after_slashes cs)"

definition authority :: "string \<Rightarrow> string" where
  "authority u = takeWhile (\<lambda>c. c \<notin> set ''/?#'') (case after_slashes u of None \<Rightarrow> drop 1 u | Some r \<Rightarrow> r)"

definition bracketed_port :: regex where
  "bracketed_port = RSeq (rx_lit ''['') (RSeq (rx_plus (RClass (\<lambda>c. c \<noteq> CHR '']''))) (RSeq (rx_lit '']:'') (rx_plus (RClass is_digit))))"

definition plain_port :: regex where
  "plain_port = RSeq (rx_plus (RClass (\<lambda>c. c \<noteq> CHR '':''))) (RSeq (rx_lit '':'') (rx_plus (RClass is_digit)))"

definition hasExplicitPort :: "string \<Rightarrow> bool" where
  "hasExplicitPort u = rx_test (if starts_with ''['' (authority u) then bracketed_port else plain_port) (authority u)"

definition strip_brackets :: "string \<Rightarrow> string" where
  "strip_brackets s = (let t = (if starts_with ''['' s then drop 1 s else s) in
     if t \<noteq> [] \<and> last t = CHR '']'' then butlast t else t)"

definition strip_slash :: "string \<Rightarrow> string" where
  "strip_slash s = (if s \<noteq> [] \<and> last s = CHR ''/'' then butlast s else s)"

definition assertUpstream :: "(string \<Rightarrow> parsed_url option) \<Rightarrow> (string \<Rightarrow> bool) \<Rightarrow> string \<Rightarrow> string + string" where
  "assertUpstream url v6 u =
     (case url u of
        None \<Rightarrow> Inl ''Invalid URL''
      | Some p \<Rightarrow>
          if pu_protocol p \<noteq> ''http:'' \<and> pu_protocol p \<noteq> ''https:'' then Inl ''Traefik upstream must use HTTP or HTTPS''
          else if pu_username p \<noteq> [] \<or> pu_password p \<noteq> [] \<or> pu_pathname p \<noteq> ''/'' \<or> pu_search p \<noteq> [] \<or> pu_hash p \<noteq> []
          then Inl ''Traefik upstream must be a bare internal service URL''
          else if \<not> hasExplicitPort u then Inl ''Traefik upstream must include an explicit workload port''
          else (case normalizeAdvertisedAddress v6 (strip_brackets (pu_hostname p)) of
                  Inl e \<Rightarrow> Inl e | Inr _ \<Rightarrow> Inr (strip_slash (pu_string p))))"

subsection \<open>The configuration of a project\<close>

record traefik_settings =
  ts_httpEntryPoint :: string
  ts_httpsEntryPoint :: string
  ts_certResolver :: string

record traefik_domain =
  td_id :: string
  td_hostname :: string
  td_upstreams :: "workload_upstream list"

record traefik_router =
  xr_rule :: string
  xr_entryPoints :: "string list"
  xr_middlewares :: "string list"
  xr_service :: string
  xr_certResolver :: "string option"

record traefik_config =
  tc_routers :: "(string \<times> traefik_router) list"
  tc_services :: "(string \<times> string list) list"

type_synonym config_dir = "(string \<times> traefik_config) list"

definition host_rule :: "string \<Rightarrow> string" where
  "host_rule h = ''Host(`'' @ h @ ''`)''"

fun asserted_urls :: "(string \<Rightarrow> parsed_url option) \<Rightarrow> (string \<Rightarrow> bool) \<Rightarrow> string list \<Rightarrow> string + string list" where
  "asserted_urls url v6 [] = Inr []"
| "asserted_urls url v6 (u # us) =
     (case assertUpstream url v6 u of
        Inl e \<Rightarrow> Inl e
      | Inr v \<Rightarrow> (case asserted_urls url v6 us of Inl e \<Rightarrow> Inl e | Inr vs \<Rightarrow> Inr (v # vs)))"

definition domain_service :: "string \<Rightarrow> string \<Rightarrow> string" where
  "domain_service key i = ''domain-'' @ key @ ''-'' @ safeIdentifier i"

definition add_routes :: "traefik_settings \<Rightarrow> string \<Rightarrow> string \<Rightarrow> string \<Rightarrow> string list \<Rightarrow> traefik_config \<Rightarrow> traefik_config" where
  "add_routes ts key i hostname urls cfg =
     (let service = domain_service key i; routeKey = key @ ''-'' @ safeIdentifier i;
          https = \<lparr>xr_rule = host_rule hostname, xr_entryPoints = [ts_httpsEntryPoint ts], xr_middlewares = [],
                   xr_service = service, xr_certResolver = Some (ts_certResolver ts)\<rparr>;
          http = \<lparr>xr_rule = host_rule hostname, xr_entryPoints = [ts_httpEntryPoint ts],
                  xr_middlewares = [''redirect-to-https''], xr_service = service, xr_certResolver = None\<rparr>
      in cfg\<lparr>tc_services := AList.update service urls (tc_services cfg),
             tc_routers := AList.update (''http-'' @ routeKey) http
               (AList.update (''https-'' @ routeKey) https (tc_routers cfg))\<rparr>)"

fun domain_configs ::
  "(string \<Rightarrow> string \<Rightarrow> rat) \<Rightarrow> (string \<Rightarrow> parsed_url option) \<Rightarrow> (string \<Rightarrow> bool) \<Rightarrow> traefik_settings \<Rightarrow> string
     \<Rightarrow> traefik_domain list \<Rightarrow> traefik_config \<Rightarrow> string + traefik_config" where
  "domain_configs collate url v6 ts key [] cfg = Inr cfg"
| "domain_configs collate url v6 ts key (d # ds) cfg =
     (if td_upstreams d = [] then domain_configs collate url v6 ts key ds cfg
      else (case assertHostname (td_hostname d) of
              Inl e \<Rightarrow> Inl e
            | Inr hostname \<Rightarrow>
                (case asserted_urls url v6 (map wu_url (js_sort (\<lambda>a b. collate (wu_url a) (wu_url b)) (td_upstreams d))) of
                   Inl e \<Rightarrow> Inl e
                 | Inr urls \<Rightarrow> domain_configs collate url v6 ts key ds (add_routes ts key (td_id d) hostname urls cfg))))"

definition domain_order :: "(string \<Rightarrow> string \<Rightarrow> rat) \<Rightarrow> traefik_domain \<Rightarrow> traefik_domain \<Rightarrow> rat" where
  "domain_order collate a b =
     (let c = collate (td_hostname a) (td_hostname b) in if c \<noteq> 0 then c else collate (td_id a) (td_id b))"

definition config_file :: "string \<Rightarrow> string" where
  "config_file projectId = ''project-'' @ safeIdentifier projectId @ ''.json''"

definition writeConfig :: "bool \<Rightarrow> string \<Rightarrow> traefik_config \<Rightarrow> config_dir \<Rightarrow> string + config_dir" where
  "writeConfig disk filename cfg dir = (if disk then Inr (AList.update filename cfg dir) else Inl ''EIO'')"

definition syncProjectRoutes ::
  "(string \<Rightarrow> string \<Rightarrow> rat) \<Rightarrow> (string \<Rightarrow> parsed_url option) \<Rightarrow> (string \<Rightarrow> bool) \<Rightarrow> traefik_settings \<Rightarrow> bool \<Rightarrow> string
     \<Rightarrow> traefik_domain list \<Rightarrow> config_dir \<Rightarrow> string + config_dir" where
  "syncProjectRoutes collate url v6 ts disk projectId domains dir =
     (case domain_configs collate url v6 ts (safeIdentifier projectId) (js_sort (domain_order collate) domains)
             \<lparr>tc_routers = [], tc_services = []\<rparr> of
        Inl e \<Rightarrow> Inl e
      | Inr cfg \<Rightarrow> writeConfig disk (config_file projectId) cfg dir)"

definition removeProjectRoutes :: "string \<Rightarrow> config_dir \<Rightarrow> config_dir" where
  "removeProjectRoutes projectId dir = AList.delete (config_file projectId) dir"

end
