(* ===== verification/ProjectDomains.thy ===== *)
theory ProjectDomains
  imports Traefik ApplicationSource
begin

text \<open>
  The domains of a project: the schema, target check, route synchronisation and handlers of
  \<open>apps/api/src/routes/projects.routes.ts\<close> and the reconciliation of \<open>features/routing/controller.ts\<close>. The state adds the
  table \<open>project_domains\<close> and the configuration directory of the proxy to the control plane and the identities. \<open>edge\<close> holds
  the process's settings; \<open>rs\<close> is what the name servers answer during a request and \<open>disk\<close> whether a write succeeds.
\<close>

datatype domain_status = DomainPending | DomainActive | DomainFailed

datatype migration_state = RouteTarget | RouteLegacy

record project_domain =
  pd_id :: string
  pd_organizationId :: string
  pd_projectId :: string
  pd_applicationId :: "string option"
  pd_deploymentId :: "string option"
  pd_targetPort :: "int option"
  pd_upstreamProtocol :: "upstream_protocol option"
  pd_routingMigrationState :: migration_state
  pd_hostname :: string
  pd_environment :: string
  pd_status :: domain_status
  pd_sslExpiresAt :: "int option"
  pd_createdAt :: int
  pd_updatedAt :: int

record domain_state =
  ds_iam :: iam
  ds_cp :: cp
  ds_domains :: "project_domain list"
  ds_files :: config_dir

record edge =
  ed_enabled :: bool
  ed_settings :: traefik_settings
  ed_dns :: dns_manager
  ed_url :: "string \<Rightarrow> parsed_url option"
  ed_v6 :: "string \<Rightarrow> bool"
  ed_collate :: "string \<Rightarrow> string \<Rightarrow> rat"
  ed_order :: "string \<Rightarrow> string \<Rightarrow> rat"

record domain_request =
  dq_session :: "string option"
  dq_orgSlug :: string
  dq_projectId :: string
  dq_domainId :: string
  dq_body :: "json option"

type_synonym domain_result = "(exn + response) \<times> domain_state"

subsection \<open>Rows\<close>

definition update_domains :: "(project_domain \<Rightarrow> bool) \<Rightarrow> (project_domain \<Rightarrow> project_domain) \<Rightarrow> domain_state \<Rightarrow> domain_state" where
  "update_domains P f S =
     S\<lparr>ds_domains := upd_where P (\<lambda>d. (f d)\<lparr>pd_updatedAt := clock (ds_cp S)\<rparr>) (ds_domains S)\<rparr>"

definition set_status :: "string \<Rightarrow> domain_status \<Rightarrow> domain_state \<Rightarrow> domain_state" where
  "set_status i st S = update_domains (\<lambda>d. pd_id d = i) (\<lambda>d. d\<lparr>pd_status := st\<rparr>) S"

definition find_domain :: "string \<Rightarrow> string \<Rightarrow> domain_state \<Rightarrow> project_domain option" where
  "find_domain i pid S = List.find (\<lambda>d. pd_id d = i \<and> pd_projectId d = pid) (ds_domains S)"

definition system_audit :: "host \<Rightarrow> string \<Rightarrow> string \<Rightarrow> json \<Rightarrow> cp \<Rightarrow> cp" where
  "system_audit h action targetId metadata s =
     (let (i, s1) = randomUUID h s in s1\<lparr>t_auditLogs := t_auditLogs s1 @
        [\<lparr>al_id = i, al_actorId = None, al_action = action, al_targetType = ''domain'', al_targetId = Some targetId,
          al_metadata = Some metadata, al_ipAddress = None, al_createdAt = clock s1\<rparr>]\<rparr>)"

definition domain_metadata :: "project_domain \<Rightarrow> json" where
  "domain_metadata d = JObj [(''projectId'', JStr (pd_projectId d)), (''hostname'', JStr (pd_hostname d))]"

subsection \<open>Synchronising the routes of a project\<close>

definition setDomainRouteStatus :: "host \<Rightarrow> project_domain \<Rightarrow> domain_status \<Rightarrow> domain_state \<Rightarrow> domain_state" where
  "setDomainRouteStatus h d st S =
     (if pd_status d = st then S
      else if \<not> list_ex (\<lambda>e. pd_id e = pd_id d \<and> pd_status e \<noteq> st) (ds_domains S) then S
      else (let S1 = update_domains (\<lambda>e. pd_id e = pd_id d \<and> pd_status e \<noteq> st) (\<lambda>e. e\<lparr>pd_status := st\<rparr>) S in
            S1\<lparr>ds_cp := system_audit h (if st = DomainActive then ''domain.route_available'' else ''domain.route_unavailable'')
                 (pd_id d) (domain_metadata d) (ds_cp S1)\<rparr>))"

definition domain_target :: "project_domain \<Rightarrow> upstream_target option" where
  "domain_target d =
     (if truthy (pd_applicationId d) \<and> pd_targetPort d \<noteq> None \<and> pd_targetPort d \<noteq> Some 0 \<and> pd_upstreamProtocol d \<noteq> None
      then Some \<lparr>ut_applicationId = the (pd_applicationId d), ut_deploymentId = pd_deploymentId d,
        ut_targetPort = the (pd_targetPort d), ut_upstreamProtocol = the (pd_upstreamProtocol d),
        ut_organizationId = pd_organizationId d\<rparr>
      else None)"

text \<open>The upstreams of a domain; a domain without a target and an error while resolving it count as none.\<close>

definition domain_upstreams :: "edge \<Rightarrow> project_domain \<Rightarrow> cp \<Rightarrow> workload_upstream list" where
  "domain_upstreams ed d s =
     (case domain_target d of
        None \<Rightarrow> []
      | Some t \<Rightarrow> (case resolveWorkloadUpstreams (ed_order ed) (ed_v6 ed) t s of Inl _ \<Rightarrow> [] | Inr us \<Rightarrow> us))"

fun sync_domains :: "host \<Rightarrow> edge \<Rightarrow> project_domain list \<Rightarrow> domain_state \<Rightarrow> traefik_domain list \<times> domain_state" where
  "sync_domains h ed [] S = ([], S)"
| "sync_domains h ed (d # ds) S =
     (if pd_status d = DomainPending then sync_domains h ed ds S
      else (let us = domain_upstreams ed d (ds_cp S) in
            if us = [] then sync_domains h ed ds (setDomainRouteStatus h d DomainFailed S)
            else (let (routes, S1) = sync_domains h ed ds (setDomainRouteStatus h d DomainActive S) in
                  (\<lparr>td_id = pd_id d, td_hostname = pd_hostname d, td_upstreams = us\<rparr> # routes, S1))))"

definition syncTraefikRoutes :: "host \<Rightarrow> edge \<Rightarrow> bool \<Rightarrow> string \<Rightarrow> domain_state \<Rightarrow> (exn + bool) \<times> domain_state" where
  "syncTraefikRoutes h ed disk pid S =
     (if \<not> ed_enabled ed then (Inl (Js_error ''Traefik domain routing is disabled''), S)
      else (let domains = filter (\<lambda>d. pd_projectId d = pid) (ds_domains S) in
            if list_ex (\<lambda>d. pd_routingMigrationState d = RouteLegacy \<and> pd_status d = DomainActive) domains then (Inr False, S)
            else (let (routes, S1) = sync_domains h ed domains S in
                  (case syncProjectRoutes (ed_collate ed) (ed_url ed) (ed_v6 ed) (ed_settings ed) disk pid routes (ds_files S1) of
                     Inl e \<Rightarrow> (Inl (Js_error e), S1)
                   | Inr dir \<Rightarrow> (Inr True, S1\<lparr>ds_files := dir\<rparr>)))))"

definition reconcileProjectDomainRoutes :: "host \<Rightarrow> edge \<Rightarrow> bool \<Rightarrow> string \<Rightarrow> domain_state \<Rightarrow> (exn + unit) \<times> domain_state" where
  "reconcileProjectDomainRoutes h ed disk pid S =
     (case syncTraefikRoutes h ed disk pid S of (Inl e, S1) \<Rightarrow> (Inl e, S1) | (Inr _, S1) \<Rightarrow> (Inr (), S1))"

text \<open>A tick of the route controller goes over the projects that have domains and logs what fails.\<close>

fun reconcile_each :: "host \<Rightarrow> edge \<Rightarrow> bool \<Rightarrow> string list \<Rightarrow> domain_state \<Rightarrow> domain_state" where
  "reconcile_each h ed disk [] S = S"
| "reconcile_each h ed disk (pid # pids) S =
     reconcile_each h ed disk pids (snd (reconcileProjectDomainRoutes h ed disk pid S))"

definition domain_route_tick :: "host \<Rightarrow> edge \<Rightarrow> bool \<Rightarrow> domain_state \<Rightarrow> domain_state" where
  "domain_route_tick h ed disk S =
     (if \<not> ed_enabled ed then S else reconcile_each h ed disk (js_uniq (map pd_projectId (ds_domains S))) S)"

text \<open>The projects with a workload on a node; the first failure ends the walk.\<close>

definition projects_on_node :: "string \<Rightarrow> cp \<Rightarrow> string list" where
  "projects_on_node nid s =
     concat (map (\<lambda>w. concat (map (\<lambda>d. map a_projectId (filter (\<lambda>a. a_id a = d_applicationId d) (t_applications s)))
         (filter (\<lambda>d. d_id d = w_deploymentId w) (t_deployments s))))
       (filter (\<lambda>w. w_nodeId w = Some nid) (t_workloads s)))"

fun reconcile_until :: "host \<Rightarrow> edge \<Rightarrow> bool \<Rightarrow> string list \<Rightarrow> domain_state \<Rightarrow> (exn + unit) \<times> domain_state" where
  "reconcile_until h ed disk [] S = (Inr (), S)"
| "reconcile_until h ed disk (pid # pids) S =
     (case reconcileProjectDomainRoutes h ed disk pid S of
        (Inl e, S1) \<Rightarrow> (Inl e, S1) | (Inr _, S1) \<Rightarrow> reconcile_until h ed disk pids S1)"

definition reconcileDomainRoutesForNode :: "host \<Rightarrow> edge \<Rightarrow> bool \<Rightarrow> string \<Rightarrow> domain_state \<Rightarrow> (exn + unit) \<times> domain_state" where
  "reconcileDomainRoutesForNode h ed disk nid S =
     reconcile_until h ed disk (js_uniq (projects_on_node nid (ds_cp S))) S"

subsection \<open>Schema and target\<close>

record domain_input =
  di_hostname :: "string option"
  di_environment :: "string option"
  di_applicationId :: "string option"
  di_deploymentId :: "string option option"
  di_targetPort :: "int option"
  di_upstreamProtocol :: "upstream_protocol option"

definition hostnameSchema :: "json \<Rightarrow> string option" where
  "hostnameSchema j = Option.bind (z_string j) (\<lambda>s. let n = to_lower (trim_str s) in if hostnamePattern n then Some n else None)"

definition upstream_protocols :: "(string \<times> upstream_protocol) list" where
  "upstream_protocols = [(''http'', Http), (''https'', Https)]"

text \<open>A field with a default: \<open>partial()\<close> leaves it absent.\<close>

definition z_defaulted :: "bool \<Rightarrow> (json \<Rightarrow> 'a option) \<Rightarrow> 'a \<Rightarrow> string \<Rightarrow> json \<Rightarrow> 'a option option" where
  "z_defaulted partial p d k j = (if partial then z_opt p k j else map_option Some (z_default p d k j))"

definition domainInputSchema :: "bool \<Rightarrow> (string \<Rightarrow> bool) \<Rightarrow> json \<Rightarrow> domain_input option" where
  "domainInputSchema partial zuuid j =
     Option.bind (z_object j) (\<lambda>j.
     Option.bind (z_field partial hostnameSchema ''hostname'' j) (\<lambda>hostname.
     Option.bind (z_defaulted partial (z_trimmed 1 32) ''production'' ''environment'' j) (\<lambda>env.
     Option.bind (z_field partial (z_string_where zuuid) ''applicationId'' j) (\<lambda>app.
     Option.bind (z_opt (z_nullable (z_string_where zuuid)) ''deploymentId'' j) (\<lambda>dep.
     Option.bind (z_field partial (z_int tcp_port) ''targetPort'' j) (\<lambda>port.
     Option.bind (z_defaulted partial (z_enum upstream_protocols) Http ''upstreamProtocol'' j) (\<lambda>proto.
       Some \<lparr>di_hostname = hostname, di_environment = env, di_applicationId = app, di_deploymentId = dep,
             di_targetPort = port, di_upstreamProtocol = proto\<rparr>)))))))"

definition empty_input :: domain_input where
  "empty_input = \<lparr>di_hostname = None, di_environment = None, di_applicationId = None, di_deploymentId = None,
     di_targetPort = None, di_upstreamProtocol = None\<rparr>"

text \<open>The message of the error it throws.\<close>

definition validateDomainTarget :: "string \<Rightarrow> string option \<Rightarrow> string option \<Rightarrow> int option \<Rightarrow> cp \<Rightarrow> string option" where
  "validateDomainTarget pid applicationId deploymentId targetPort s =
     (if \<not> truthy applicationId then None
      else (case List.find (\<lambda>a. Some (a_id a) = applicationId \<and> a_projectId a = pid) (t_applications s) of
              None \<Rightarrow> Some ''Application target does not belong to this project''
            | Some app \<Rightarrow>
                if targetPort = None \<or> targetPort = Some 0 then Some ''Domain target requires a port''
                else if \<not> list_ex (\<lambda>p. ap_applicationId p = a_id app \<and> Some (ap_internalPort p) = targetPort
                         \<and> ap_protocol p = Tcp \<and> ap_exposure p = Public) (t_applicationPorts s)
                then Some ''Domain target port must be a public TCP application port''
                else if \<not> truthy deploymentId then None
                else if \<not> list_ex (\<lambda>d. Some (d_id d) = deploymentId \<and> d_applicationId d = a_id app) (t_deployments s)
                then Some ''Deployment target does not belong to this application''
                else None))"

subsection \<open>The routes\<close>

definition with_project :: "domain_request \<Rightarrow> (project_access \<Rightarrow> domain_state \<Rightarrow> domain_result) \<Rightarrow> domain_state \<Rightarrow> domain_result" where
  "with_project rq handler S =
     (case resolveProjectAccess (ds_iam S) (dq_session rq) (dq_orgSlug rq) (dq_projectId rq) ''projects.read'' of
        None \<Rightarrow> (Inr (Problem 404 ''Project not found or access denied''), S)
      | Some access \<Rightarrow>
          if ''projects.update'' \<notin> set (pa_permissions access) then (Inr (Problem 403 ''Permission required: projects.update''), S)
          else handler access S)"

definition domain_audit :: "host \<Rightarrow> project_access \<Rightarrow> string \<Rightarrow> string \<Rightarrow> json \<Rightarrow> domain_state \<Rightarrow> domain_state" where
  "domain_audit h access action i metadata S =
     S\<lparr>ds_cp := audit h (pa_userId access) action ''domain'' i (Some metadata) (ds_cp S)\<rparr>"

definition dns_configured :: "edge \<Rightarrow> bool" where
  "dns_configured ed \<longleftrightarrow> truthy (dm_serverPublicIp (ed_dns ed)) \<or> truthy (dm_cnameTarget (ed_dns ed))"

text \<open>A verified domain: it becomes active, the routes are written, and it is pending again when they could not be. The
  result is the error of the synchronisation.\<close>

definition publish_verified :: "host \<Rightarrow> edge \<Rightarrow> bool \<Rightarrow> string \<Rightarrow> string \<Rightarrow> domain_state \<Rightarrow> (exn + unit) \<times> domain_state" where
  "publish_verified h ed disk pid i S =
     (case syncTraefikRoutes h ed disk pid (set_status i DomainActive S) of
        (Inl e, S1) \<Rightarrow> (Inl e, S1)
      | (Inr published, S1) \<Rightarrow> (Inr (), if published then S1 else set_status i DomainPending S1))"

definition status_str :: "domain_status \<Rightarrow> string" where
  "status_str st = (case st of DomainPending \<Rightarrow> ''pending'' | DomainActive \<Rightarrow> ''active'' | DomainFailed \<Rightarrow> ''failed'')"

definition created_reply :: "string \<Rightarrow> string \<Rightarrow> string \<Rightarrow> response" where
  "created_reply i hostname st =
     Reply 201 (JObj [(''id'', JStr i), (''hostname'', JStr hostname), (''status'', JStr st)])"

definition new_domain :: "project_access \<Rightarrow> int \<Rightarrow> domain_input \<Rightarrow> string \<Rightarrow> project_domain" where
  "new_domain access now v i =
     \<lparr>pd_id = i, pd_organizationId = og_id (pa_organization access), pd_projectId = pj_id (pa_project access),
      pd_applicationId = di_applicationId v, pd_deploymentId = opt_null (di_deploymentId v),
      pd_targetPort = di_targetPort v, pd_upstreamProtocol = di_upstreamProtocol v, pd_routingMigrationState = RouteTarget,
      pd_hostname = the (di_hostname v), pd_environment = the (di_environment v), pd_status = DomainPending,
      pd_sslExpiresAt = None, pd_createdAt = now, pd_updatedAt = now\<rparr>"

text \<open>Creation after the body was accepted; the unique index is on project and hostname.\<close>

definition create_domain ::
  "host \<Rightarrow> edge \<Rightarrow> resolver \<Rightarrow> bool \<Rightarrow> project_access \<Rightarrow> domain_input \<Rightarrow> domain_state \<Rightarrow> domain_result" where
  "create_domain h ed rs disk access v S =
     (let pid = pj_id (pa_project access); hostname = the (di_hostname v) in
      case validateDomainTarget pid (di_applicationId v) (opt_null (di_deploymentId v)) (di_targetPort v) (ds_cp S) of
        Some message \<Rightarrow> (Inr (Problem 400 message), S)
      | None \<Rightarrow>
          (let (i, s1) = randomUUID h (ds_cp S); S1 = S\<lparr>ds_cp := s1\<rparr> in
           if list_ex (\<lambda>d. pd_projectId d = pid \<and> pd_hostname d = hostname \<or> pd_id d = i) (ds_domains S1)
           then (Inr (Problem 409 ''Hostname is already assigned to this project''), S1)
           else (let d = new_domain access (clock s1) v i;
                     S2 = domain_audit h access ''domain.created'' i (domain_metadata d) (S1\<lparr>ds_domains := ds_domains S1 @ [d]\<rparr>) in
                 if dns_configured ed \<and> verifyDomain (ed_dns ed) rs hostname
                 then (case publish_verified h ed disk pid i S2 of
                         (Inl e, S3) \<Rightarrow> (Inr (created_reply i hostname ''pending''), S3)
                       | (Inr _, S3) \<Rightarrow>
                           (Inr (created_reply i hostname (case List.find (\<lambda>d. pd_id d = i) (ds_domains S3) of
                                None \<Rightarrow> ''failed'' | Some d \<Rightarrow> status_str (pd_status d))), S3))
                 else (Inr (created_reply i hostname ''pending''), S2))))"

definition post_domain :: "host \<Rightarrow> edge \<Rightarrow> resolver \<Rightarrow> bool \<Rightarrow> domain_request \<Rightarrow> domain_state \<Rightarrow> domain_result" where
  "post_domain h ed rs disk rq = with_project rq (\<lambda>access S.
     if pj_status (pa_project access) = ProjectArchived
     then (Inr (Problem 409 ''Archived projects cannot receive new domains''), S)
     else (case dq_body rq of
             None \<Rightarrow> (Inl (Js_error ''SyntaxError''), S)
           | Some j \<Rightarrow> (case domainInputSchema False (h_zodUuid h) j of
                          None \<Rightarrow> (Inr (Problem 400 ''Invalid hostname''), S)
                        | Some v \<Rightarrow> create_domain h ed rs disk access v S)))"

definition target_supplied :: "domain_input \<Rightarrow> bool" where
  "target_supplied v \<longleftrightarrow> di_applicationId v \<noteq> None \<or> di_targetPort v \<noteq> None \<or> di_deploymentId v \<noteq> None
     \<or> di_upstreamProtocol v \<noteq> None"

definition patched_domain :: "domain_input \<Rightarrow> project_domain \<Rightarrow> project_domain" where
  "patched_domain v d =
     (let d1 = d\<lparr>pd_hostname := or_else (di_hostname v) (pd_hostname d),
                 pd_environment := or_else (di_environment v) (pd_environment d),
                 pd_applicationId := (case di_applicationId v of None \<Rightarrow> pd_applicationId d | Some a \<Rightarrow> Some a),
                 pd_deploymentId := set_given (di_deploymentId v) (pd_deploymentId d),
                 pd_targetPort := (case di_targetPort v of None \<Rightarrow> pd_targetPort d | Some p \<Rightarrow> Some p),
                 pd_upstreamProtocol := (case di_upstreamProtocol v of None \<Rightarrow> pd_upstreamProtocol d | Some p \<Rightarrow> Some p)\<rparr>;
          d2 = (if truthy (di_hostname v) then d1\<lparr>pd_status := DomainPending, pd_sslExpiresAt := None\<rparr> else d1)
      in if target_supplied v then d2\<lparr>pd_routingMigrationState := RouteTarget\<rparr> else d2)"

definition update_keys :: "domain_input \<Rightarrow> string list" where
  "update_keys v =
     (if di_hostname v \<noteq> None then [''hostname''] else []) @ (if di_environment v \<noteq> None then [''environment''] else [])
     @ (if di_applicationId v \<noteq> None then [''applicationId''] else [])
     @ (if di_deploymentId v \<noteq> None then [''deploymentId''] else [])
     @ (if di_targetPort v \<noteq> None then [''targetPort''] else [])
     @ (if di_upstreamProtocol v \<noteq> None then [''upstreamProtocol''] else [])
     @ (if truthy (di_hostname v) then [''status'', ''sslExpiresAt''] else [])
     @ (if target_supplied v then [''routingMigrationState''] else [])"

definition or_current :: "'a option \<Rightarrow> 'a option \<Rightarrow> 'a option" where
  "or_current v old = (case v of None \<Rightarrow> old | Some x \<Rightarrow> Some x)"

definition domain_problem :: "project_access \<Rightarrow> domain_input \<Rightarrow> project_domain \<Rightarrow> domain_state \<Rightarrow> response option" where
  "domain_problem access v current S =
     (let pid = pj_id (pa_project access) in
      if pd_routingMigrationState current = RouteLegacy
         \<and> (\<not> truthy (di_applicationId v) \<or> di_targetPort v \<in> {None, Some 0} \<or> di_upstreamProtocol v = None)
      then Some (Problem 400 ''Legacy domains must be migrated with applicationId, targetPort, and upstreamProtocol together'')
      else (case validateDomainTarget pid (or_current (di_applicationId v) (pd_applicationId current))
                   (or_current (opt_null (di_deploymentId v)) (pd_deploymentId current))
                   (or_current (di_targetPort v) (pd_targetPort current)) (ds_cp S) of
              Some message \<Rightarrow> Some (Problem 400 message)
            | None \<Rightarrow>
                if truthy (di_hostname v) \<and> list_ex (\<lambda>d. pd_projectId d = pid \<and> pd_id d \<noteq> pd_id current
                     \<and> Some (pd_hostname d) = di_hostname v) (ds_domains S)
                then Some (Problem 409 ''Hostname is already assigned to this project'') else None))"

definition patch_in_project ::
  "host \<Rightarrow> edge \<Rightarrow> bool \<Rightarrow> domain_request \<Rightarrow> project_access \<Rightarrow> domain_input \<Rightarrow> domain_state \<Rightarrow> domain_result" where
  "patch_in_project h ed disk rq access v S =
     (let pid = pj_id (pa_project access) in
      case find_domain (dq_domainId rq) pid S of
        None \<Rightarrow> (Inr (Problem 404 ''Domain not found''), S)
      | Some current \<Rightarrow>
          (case domain_problem access v current S of
             Some p \<Rightarrow> (Inr p, S)
           | None \<Rightarrow>
               (let S1 = update_domains (\<lambda>d. pd_id d = dq_domainId rq \<and> pd_projectId d = pid) (patched_domain v) S in
                case syncTraefikRoutes h ed disk pid S1 of
                  (Inl e, S2) \<Rightarrow> (Inr (Problem 503 ''Domain was updated but its route could not be reconciled''), S2)
                | (Inr published, S2) \<Rightarrow>
                    (Inr (Reply 200 (JStr (pd_id current))),
                     domain_audit h access ''domain.updated'' (pd_id current)
                       (JObj [(''projectId'', JStr pid), (''fields'', JArr (map JStr (update_keys v)))])
                       (if published then S2 else set_status (pd_id current) DomainPending S2)))))"

definition patch_domain :: "host \<Rightarrow> edge \<Rightarrow> bool \<Rightarrow> domain_request \<Rightarrow> domain_state \<Rightarrow> domain_result" where
  "patch_domain h ed disk rq = with_project rq (\<lambda>access S.
     case dq_body rq of
       None \<Rightarrow> (Inl (Js_error ''SyntaxError''), S)
     | Some j \<Rightarrow> (case domainInputSchema True (h_zodUuid h) j of
                    None \<Rightarrow> (Inr (Problem 400 ''Invalid domain update''), S)
                  | Some v \<Rightarrow> if v = empty_input then (Inr (Problem 400 ''Invalid domain update''), S)
                              else patch_in_project h ed disk rq access v S))"

definition delete_domain :: "host \<Rightarrow> edge \<Rightarrow> bool \<Rightarrow> domain_request \<Rightarrow> domain_state \<Rightarrow> domain_result" where
  "delete_domain h ed disk rq = with_project rq (\<lambda>access S.
     let pid = pj_id (pa_project access) in
     case find_domain (dq_domainId rq) pid S of
       None \<Rightarrow> (Inr (Problem 404 ''Domain not found''), S)
     | Some current \<Rightarrow>
         (Inr NoContent,
          domain_audit h access ''domain.deleted'' (pd_id current) (domain_metadata current)
            (snd (syncTraefikRoutes h ed disk pid
              (S\<lparr>ds_domains := del_where (\<lambda>d. pd_id d = dq_domainId rq \<and> pd_projectId d = pid) (ds_domains S)\<rparr>)))))"

text \<open>Verification in two halves: the handler reads the domain and asks the name servers, and then writes by the domain's id.\<close>

definition verify_write ::
  "host \<Rightarrow> edge \<Rightarrow> bool \<Rightarrow> project_access \<Rightarrow> project_domain \<Rightarrow> bool \<Rightarrow> domain_state \<Rightarrow> domain_result" where
  "verify_write h ed disk access d verified S =
     (if \<not> verified then (Inr (Reply 200 (JStr (pd_id d))), set_status (pd_id d) DomainPending S)
      else (case publish_verified h ed disk (pj_id (pa_project access)) (pd_id d) S of
              (Inl e, S1) \<Rightarrow> (Inr (Problem 503 ''Domain was verified but could not be published''), S1)
            | (Inr _, S1) \<Rightarrow> (Inr (Reply 200 (JStr (pd_id d))),
                domain_audit h access ''domain.verified'' (pd_id d) (domain_metadata d) S1)))"

definition verify_domain_route :: "host \<Rightarrow> edge \<Rightarrow> resolver \<Rightarrow> bool \<Rightarrow> domain_request \<Rightarrow> domain_state \<Rightarrow> domain_result" where
  "verify_domain_route h ed rs disk rq = with_project rq (\<lambda>access S.
     case find_domain (dq_domainId rq) (pj_id (pa_project access)) S of
       None \<Rightarrow> (Inr (Problem 404 ''Domain not found''), S)
     | Some d \<Rightarrow>
         if \<not> dns_configured ed then (Inr (Problem 503 ''DNS verification is not configured''), S)
         else verify_write h ed disk access d (verifyDomain (ed_dns ed) rs (pd_hostname d)) S)"

end
