(* ===== verification/DomainProperties.thy ===== *)
theory DomainProperties
  imports ProjectDomains
begin

text \<open>
  Properties of the public routes: what the configuration files of the proxy can contain after any sequence of domain requests,
  reconciliations and changes made elsewhere, and two ways in which hostnames and routes part.
\<close>

subsection \<open>Hostnames are in normal form\<close>

fun rx_alphabet :: "regex \<Rightarrow> char \<Rightarrow> bool" where
  "rx_alphabet RNone c = False"
| "rx_alphabet REps c = False"
| "rx_alphabet (RClass P) c = P c"
| "rx_alphabet (RSeq r q) c = (rx_alphabet r c \<or> rx_alphabet q c)"
| "rx_alphabet (RAlt r q) c = (rx_alphabet r c \<or> rx_alphabet q c)"
| "rx_alphabet (RStar r) c = rx_alphabet r c"

lemma rx_lang_alphabet: "s \<in> rx_lang r \<Longrightarrow> c \<in> set s \<Longrightarrow> rx_alphabet r c"
proof (induction r arbitrary: s)
  case (RStar r)
  from RStar.prems obtain ws where "s = concat ws" "set ws \<subseteq> rx_lang r" by auto
  with RStar.prems(2) obtain w where "w \<in> rx_lang r" "c \<in> set w" by auto
  with RStar.IH show ?case by simp
next
  case (RSeq r q)
  from RSeq.prems(1) obtain u v where "s = u @ v" "u \<in> rx_lang r" "v \<in> rx_lang q" by auto
  with RSeq.prems(2) RSeq.IH(1) [of u] RSeq.IH(2) [of v] show ?case by auto
qed auto

lemma rx_alphabet_times: "rx_alphabet (rx_times n r) c \<Longrightarrow> rx_alphabet r c"
  by (induction n) auto

lemma rx_alphabet_upto: "rx_alphabet (rx_upto n r) c \<Longrightarrow> rx_alphabet r c"
  by (induction n) auto

lemma hostname_alphabet:
  assumes "hostnamePattern h" "c \<in> set h"
  shows "lower_digit c \<or> c = CHR ''-'' \<or> c = CHR ''.''"
proof -
  from assms have "rx_alphabet hostname_regex c"
    by (intro rx_lang_alphabet) (simp_all add: hostnamePattern_def rx_test_iff)
  then show ?thesis
    by (auto simp: hostname_regex_def hostname_label_def rx_plus_def rx_opt_def rx_lit_def lower_digit_def
        dest!: rx_alphabet_times rx_alphabet_upto)
qed

lemma hostname_char: "lower_digit c \<or> c = CHR ''-'' \<or> c = CHR ''.'' \<Longrightarrow> \<not> is_space c \<and> lower_char c = c"
  by (auto simp: lower_digit_def is_lower_def is_digit_def is_space_def lower_char_def is_upper_def code_of_def)

lemma map_fixed: "\<forall>c \<in> set s. f c = c \<Longrightarrow> map f s = s"
  by (induction s) auto

lemma hostname_fixed:
  assumes "hostnamePattern h"
  shows "to_lower (trim_str h) = h"
proof -
  have ok: "\<not> is_space c \<and> lower_char c = c" if "c \<in> set h" for c
    using hostname_alphabet [OF assms that] by (rule hostname_char)
  then have "dropWhile is_space h = h" by (cases h) auto
  moreover have "dropWhile is_space (rev h) = rev h"
  proof (cases "rev h")
    case (Cons c cs)
    then have "c \<in> set h" by (metis list.set_intros(1) set_rev)
    with ok Cons show ?thesis by simp
  qed simp
  ultimately show ?thesis using ok by (simp add: trim_str_def to_lower_def map_fixed)
qed

subsection \<open>What the table and the files may contain\<close>

text \<open>A URL the proxy may send requests to: the checked URL of a sound upstream.\<close>

definition serves :: "edge \<Rightarrow> cp \<Rightarrow> string \<Rightarrow> bool" where
  "serves ed s u \<longleftrightarrow> (\<exists>t w. sound_upstream (ed_v6 ed) t s w \<and> assertUpstream (ed_url ed) (ed_v6 ed) (wu_url w) = Inr u)"

definition trusted :: "string set \<Rightarrow> domain_state \<Rightarrow> bool" where
  "trusted V S \<longleftrightarrow> distinct (map pd_id (ds_domains S))
     \<and> (\<forall>d \<in> set (ds_domains S). hostnamePattern (pd_hostname d) \<and> (pd_status d \<noteq> DomainPending \<longrightarrow> pd_hostname d \<in> V))"

definition config_ok :: "string set \<Rightarrow> string set \<Rightarrow> traefik_config \<Rightarrow> bool" where
  "config_ok V U cfg \<longleftrightarrow> (\<forall>(k, r) \<in> set (tc_routers cfg). \<exists>h \<in> V. xr_rule r = host_rule h)
     \<and> (\<forall>(k, us) \<in> set (tc_services cfg). us \<noteq> [] \<and> set us \<subseteq> U)"

definition routed :: "edge \<Rightarrow> string set \<Rightarrow> string set \<Rightarrow> domain_state \<Rightarrow> bool" where
  "routed ed V U S \<longleftrightarrow> trusted V S \<and> (\<forall>(f, cfg) \<in> set (ds_files S). config_ok V U cfg) \<and> (\<forall>u. serves ed (ds_cp S) u \<longrightarrow> u \<in> U)"

definition names :: "domain_state \<Rightarrow> (string \<times> string) list" where
  "names S = map (\<lambda>d. (pd_id d, pd_hostname d)) (ds_domains S)"

text \<open>Audit entries are invisible to the router.\<close>

lemma sound_upstream_cong:
  "t_workloads s' = t_workloads s \<Longrightarrow> t_nodes s' = t_nodes s \<Longrightarrow> t_workloadPorts s' = t_workloadPorts s
    \<Longrightarrow> t_deployments s' = t_deployments s \<Longrightarrow> sound_upstream v6 t s' w = sound_upstream v6 t s w"
  by (simp add: sound_upstream_def)

lemma serves_audits [simp]:
  "serves ed (system_audit h action i m s) = serves ed s"
  "serves ed (audit h actor action ty i' m' s) = serves ed s"
  "serves ed (s\<lparr>uuid_next := n\<rparr>) = serves ed s"
  by (simp_all add: serves_def fun_eq_iff sound_upstream_def system_audit_def audit_def randomUUID_def)

lemma routed_audit [simp]: "routed ed V U (domain_audit h access action i m S) = routed ed V U S"
  by (simp add: routed_def trusted_def domain_audit_def)

lemma config_ok_mono: "config_ok V U cfg \<Longrightarrow> V \<subseteq> V' \<Longrightarrow> U \<subseteq> U' \<Longrightarrow> config_ok V' U' cfg"
  by (fastforce simp: config_ok_def)

lemma routed_mono: "routed ed V U S \<Longrightarrow> V \<subseteq> V' \<Longrightarrow> routed ed V' U S"
  by (auto simp: routed_def trusted_def intro: config_ok_mono)

lemma routed_update:
  assumes "routed ed V U S"
    and "\<And>d. d \<in> set (ds_domains S) \<Longrightarrow> P d \<Longrightarrow> pd_id (f d) = pd_id d \<and> hostnamePattern (pd_hostname (f d))
           \<and> (pd_status (f d) \<noteq> DomainPending \<longrightarrow> pd_hostname (f d) \<in> V)"
  shows "routed ed V U (update_domains P f S)"
proof -
  let ?g = "\<lambda>d. (f d)\<lparr>pd_updatedAt := clock (ds_cp S)\<rparr>"
  have "map pd_id (upd_where P ?g (ds_domains S)) = map pd_id (ds_domains S)"
    using assms(2) by (simp add: upd_where_def)
  moreover have "hostnamePattern (pd_hostname d) \<and> (pd_status d \<noteq> DomainPending \<longrightarrow> pd_hostname d \<in> V)"
    if "d \<in> set (upd_where P ?g (ds_domains S))" for d
    using that by (rule upd_whereE) (use assms in \<open>auto simp: routed_def trusted_def\<close>)
  ultimately show ?thesis using assms(1) by (simp add: routed_def trusted_def update_domains_def)
qed

lemma routed_set_status:
  assumes "routed ed V U S" and "st = DomainPending \<or> (\<forall>d \<in> set (ds_domains S). pd_id d = i \<longrightarrow> pd_hostname d \<in> V)"
  shows "routed ed V U (set_status i st S)"
  unfolding set_status_def by (rule routed_update [OF assms(1)]) (use assms in \<open>auto simp: routed_def trusted_def\<close>)

lemma names_update: "(\<And>d. P d \<Longrightarrow> pd_id (f d) = pd_id d \<and> pd_hostname (f d) = pd_hostname d) \<Longrightarrow> names (update_domains P f S) = names S"
  by (simp add: names_def update_domains_def upd_where_def)

lemma names_status [simp]: "names (set_status i st S) = names S"
  unfolding set_status_def by (rule names_update) simp

lemma names_hostname:
  "distinct (map pd_id (ds_domains S)) \<Longrightarrow> (pd_id d, pd_hostname d) \<in> set (names S) \<Longrightarrow> e \<in> set (ds_domains S)
    \<Longrightarrow> pd_id e = pd_id d \<Longrightarrow> pd_hostname e = pd_hostname d"
  by (auto simp: names_def) (metis distinct_map inj_onD)

subsection \<open>Synchronisation\<close>

lemma route_status_ok:
  assumes "routed ed V U S" "(pd_id d, pd_hostname d) \<in> set (names S)" "pd_hostname d \<in> V"
  shows "routed ed V U (setDomainRouteStatus h d st S) \<and> names (setDomainRouteStatus h d st S) = names S
    \<and> ds_files (setDomainRouteStatus h d st S) = ds_files S
    \<and> serves ed (ds_cp (setDomainRouteStatus h d st S)) = serves ed (ds_cp S)"
proof -
  let ?U = "update_domains (\<lambda>e. pd_id e = pd_id d \<and> pd_status e \<noteq> st) (\<lambda>e. e\<lparr>pd_status := st\<rparr>) S"
  from assms(1) have "distinct (map pd_id (ds_domains S))" by (simp add: routed_def trusted_def)
  from names_hostname [OF this assms(2)] have "routed ed V U ?U"
    by (intro routed_update [OF assms(1)]) (use assms in \<open>auto simp: routed_def trusted_def\<close>)
  moreover have "names ?U = names S" by (rule names_update) simp
  moreover have "ds_files ?U = ds_files S" "ds_cp ?U = ds_cp S" by (simp_all add: update_domains_def)
  ultimately show ?thesis using assms(1)
    by (auto simp: setDomainRouteStatus_def Let_def routed_def trusted_def names_def)
qed

lemma domain_upstreams_sound:
  "w \<in> set (domain_upstreams ed d s) \<Longrightarrow> \<exists>t. domain_target d = Some t \<and> sound_upstream (ed_v6 ed) t s w"
proof -
  assume w: "w \<in> set (domain_upstreams ed d s)"
  then obtain t where t: "domain_target d = Some t" by (cases "domain_target d") (simp_all add: domain_upstreams_def)
  with w obtain us where us: "resolveWorkloadUpstreams (ed_order ed) (ed_v6 ed) t s = Inr us" "w \<in> set us"
    by (cases "resolveWorkloadUpstreams (ed_order ed) (ed_v6 ed) t s") (simp_all add: domain_upstreams_def)
  with upstreams_trusted [OF us(1)] t show ?thesis by (simp add: list_all_iff)
qed

definition route_ok :: "edge \<Rightarrow> string set \<Rightarrow> (string \<Rightarrow> bool) \<Rightarrow> traefik_domain \<Rightarrow> bool" where
  "route_ok ed V Q r \<longleftrightarrow> td_hostname r \<in> V \<and> hostnamePattern (td_hostname r)
     \<and> (\<forall>w \<in> set (td_upstreams r). \<forall>u. assertUpstream (ed_url ed) (ed_v6 ed) (wu_url w) = Inr u \<longrightarrow> Q u)"

lemma sync_domains_ok:
  assumes "sync_domains h ed ds S = (routes, S1)" "routed ed V U S"
    and "\<forall>d \<in> set ds. (pd_id d, pd_hostname d) \<in> set (names S) \<and> hostnamePattern (pd_hostname d)
           \<and> (pd_status d \<noteq> DomainPending \<longrightarrow> pd_hostname d \<in> V)"
  shows "routed ed V U S1 \<and> ds_files S1 = ds_files S \<and> names S1 = names S \<and> list_all (route_ok ed V (serves ed (ds_cp S))) routes"
  using assms
proof (induction ds arbitrary: S routes)
  case (Cons d ds)
  let ?us = "domain_upstreams ed d (ds_cp S)"
  show ?case
  proof (cases "pd_status d = DomainPending")
    case True
    with Cons show ?thesis by auto
  next
    case False
    note ok = route_status_ok [OF Cons.prems(2), of d h]
    from False Cons.prems(3) have d: "(pd_id d, pd_hostname d) \<in> set (names S)" "pd_hostname d \<in> V" "hostnamePattern (pd_hostname d)"
      by auto
    have serving: "list_all (route_ok ed V (serves ed (ds_cp S))) [\<lparr>td_id = pd_id d, td_hostname = pd_hostname d, td_upstreams = ?us\<rparr>]"
      using d by (auto simp: route_ok_def serves_def dest!: domain_upstreams_sound)
    show ?thesis
    proof (cases "?us = []")
      case True
      with Cons.prems False Cons.IH [of "setDomainRouteStatus h d DomainFailed S" routes] ok [of DomainFailed] d
      show ?thesis by auto
    next
      case us: False
      with Cons.prems(1) False obtain rest where
        rest: "sync_domains h ed ds (setDomainRouteStatus h d DomainActive S) = (rest, S1)"
        and routes: "routes = \<lparr>td_id = pd_id d, td_hostname = pd_hostname d, td_upstreams = ?us\<rparr> # rest"
        by (auto simp: Let_def split: prod.splits)
      from Cons.IH [OF rest] ok [of DomainActive] d Cons.prems(3) serving routes show ?thesis by auto
    qed
  qed
qed simp

lemma alist_update_elem: "x \<in> set (AList.update k v al) \<Longrightarrow> x = (k, v) \<or> x \<in> set al"
  by (induction al) (auto split: if_splits)

lemma asserted_urls_all: "asserted_urls url v6 us = Inr vs \<Longrightarrow> length vs = length us \<and> (\<forall>v \<in> set vs. \<exists>u \<in> set us. assertUpstream url v6 u = Inr v)"
  by (induction us arbitrary: vs) (auto split: sum.splits)

lemma domain_configs_ok:
  assumes "domain_configs collate (ed_url ed) (ed_v6 ed) ts key ds cfg = Inr cfg'" "list_all (route_ok ed V (\<lambda>u. u \<in> U)) ds" "config_ok V U cfg"
  shows "config_ok V U cfg'"
  using assms
proof (induction ds arbitrary: cfg)
  case (Cons d ds)
  show ?case
  proof (cases "td_upstreams d = []")
    case False
    from Cons.prems(1) False obtain hostname urls where
      hostname: "assertHostname (td_hostname d) = Inr hostname"
      and urls: "asserted_urls (ed_url ed) (ed_v6 ed) (map wu_url (js_sort (\<lambda>a b. collate (wu_url a) (wu_url b)) (td_upstreams d))) = Inr urls"
      and rest: "domain_configs collate (ed_url ed) (ed_v6 ed) ts key ds (add_routes ts key (td_id d) hostname urls cfg) = Inr cfg'"
      by (auto split: sum.splits)
    from Cons.prems(2) have ok: "td_hostname d \<in> V" "hostnamePattern (td_hostname d)" by (simp_all add: route_ok_def)
    with hostname have "hostname \<in> V" by (simp add: assertHostname_def hostname_fixed Let_def)
    moreover have "urls \<noteq> [] \<and> set urls \<subseteq> U"
      using asserted_urls_all [OF urls] Cons.prems(2) False by (auto simp: route_ok_def)
    ultimately have "config_ok V U (add_routes ts key (td_id d) hostname urls cfg)"
      using Cons.prems(3) by (fastforce simp: config_ok_def add_routes_def Let_def dest!: alist_update_elem)
    from Cons.IH [OF rest _ this] Cons.prems(2) show ?thesis by simp
  qed (use Cons in simp)
qed simp

lemma syncTraefikRoutes_ok:
  assumes "routed ed V U S"
  shows "routed ed V U (snd (syncTraefikRoutes h ed disk pid S)) \<and> names (snd (syncTraefikRoutes h ed disk pid S)) = names S"
proof -
  let ?domains = "filter (\<lambda>d. pd_projectId d = pid) (ds_domains S)"
  obtain routes S1 where sync: "sync_domains h ed ?domains S = (routes, S1)" by fastforce
  from assms have feeds: "\<forall>u. serves ed (ds_cp S) u \<longrightarrow> u \<in> U" by (simp add: routed_def)
  have "routed ed V U S1 \<and> ds_files S1 = ds_files S \<and> names S1 = names S \<and> list_all (route_ok ed V (serves ed (ds_cp S))) routes"
    by (rule sync_domains_ok [OF sync assms]) (use assms in \<open>auto simp: routed_def trusted_def names_def\<close>)
  then have S1: "routed ed V U S1" "names S1 = names S" and routes: "list_all (route_ok ed V (\<lambda>u. u \<in> U)) routes"
    using feeds by (auto simp: list_all_iff route_ok_def)
  have empty: "config_ok V U \<lparr>tc_routers = [], tc_services = []\<rparr>" by (simp add: config_ok_def)
  have "routed ed V U (S1\<lparr>ds_files := dir\<rparr>)"
    if dir: "syncProjectRoutes (ed_collate ed) (ed_url ed) (ed_v6 ed) (ed_settings ed) disk pid routes (ds_files S1) = Inr dir" for dir
  proof -
    from dir obtain cfg where cfg: "domain_configs (ed_collate ed) (ed_url ed) (ed_v6 ed) (ed_settings ed) (safeIdentifier pid)
        (js_sort (domain_order (ed_collate ed)) routes) \<lparr>tc_routers = [], tc_services = []\<rparr> = Inr cfg"
      and written: "dir = AList.update (config_file pid) cfg (ds_files S1)"
      by (auto simp: syncProjectRoutes_def writeConfig_def split: sum.splits if_splits)
    have "config_ok V U cfg"
      by (rule domain_configs_ok [OF cfg _ empty]) (use routes in \<open>simp add: list_all_iff\<close>)
    with S1(1) show ?thesis by (auto simp: routed_def trusted_def written dest!: alist_update_elem)
  qed
  with S1 sync assms show ?thesis
    by (auto simp: syncTraefikRoutes_def Let_def names_def split: sum.splits)
qed

lemma reconcile_ok: "routed ed V U S \<Longrightarrow> routed ed V U (snd (reconcileProjectDomainRoutes h ed disk pid S))"
  using syncTraefikRoutes_ok [of ed V U S h disk pid]
  by (auto simp: reconcileProjectDomainRoutes_def split: prod.splits sum.splits)

lemma reconcile_each_ok: "routed ed V U S \<Longrightarrow> routed ed V U (reconcile_each h ed disk pids S)"
  by (induction pids arbitrary: S) (auto simp: reconcile_ok)

lemma reconcile_until_ok: "routed ed V U S \<Longrightarrow> routed ed V U (snd (reconcile_until h ed disk pids S))"
proof (induction pids arbitrary: S)
  case (Cons pid pids)
  from reconcile_ok [OF Cons.prems, of h disk pid] Cons.IH show ?case by (auto split: prod.splits sum.splits)
qed simp

subsection \<open>The handlers\<close>

lemma publish_verified_ok:
  assumes "routed ed V U S" and "\<forall>d \<in> set (ds_domains S). pd_id d = i \<longrightarrow> pd_hostname d \<in> V"
  shows "routed ed V U (snd (publish_verified h ed disk pid i S))"
proof -
  from syncTraefikRoutes_ok [OF routed_set_status [OF assms(1) disjI2 [OF assms(2)], of DomainActive], of h disk pid]
  show ?thesis by (auto simp: publish_verified_def routed_set_status split: prod.splits sum.splits)
qed

lemma hostnameSchema_ok: "hostnameSchema j = Some x \<Longrightarrow> hostnamePattern x"
  by (auto simp: hostnameSchema_def Let_def bind_eq_Some_conv split: if_splits)

lemma domain_input_hostname:
  assumes "domainInputSchema partial zuuid j = Some v"
  shows "\<forall>x. di_hostname v = Some x \<longrightarrow> hostnamePattern x" and "\<not> partial \<Longrightarrow> di_hostname v \<noteq> None"
proof -
  from assms obtain j' hostname where f: "z_field partial hostnameSchema ''hostname'' j' = Some hostname" and v: "di_hostname v = hostname"
    unfolding domainInputSchema_def bind_eq_Some_conv by (elim exE conjE) auto
  from f show "\<forall>x. di_hostname v = Some x \<longrightarrow> hostnamePattern x"
    by (auto simp: v z_field_def z_opt_def z_req_def split: if_splits option.splits dest!: hostnameSchema_ok)
  from f show "\<not> partial \<Longrightarrow> di_hostname v \<noteq> None" by (auto simp: v z_field_def)
qed

definition verified_names :: "edge \<Rightarrow> resolver \<Rightarrow> string set" where
  "verified_names ed rs = {hn. verifyDomain (ed_dns ed) rs hn}"

lemma create_domain_ok:
  assumes "routed ed V U S" and v: "domainInputSchema False (h_zodUuid h) j = Some v"
  shows "routed ed (V \<union> verified_names ed rs) U (snd (create_domain h ed rs disk access v S))"
proof -
  let ?W = "V \<union> verified_names ed rs" and ?pid = "pj_id (pa_project access)"
  obtain i s1 where draw: "randomUUID h (ds_cp S) = (i, s1)" by fastforce
  let ?S1 = "S\<lparr>ds_cp := s1\<rparr>" and ?d = "new_domain access (clock s1) v i"
  let ?S2 = "domain_audit h access ''domain.created'' i (domain_metadata ?d) (?S1\<lparr>ds_domains := ds_domains ?S1 @ [?d]\<rparr>)"
  have S: "routed ed ?W U S" by (rule routed_mono [OF assms(1)]) simp
  have S1: "routed ed ?W U ?S1"
    using S draw by (auto simp: routed_def trusted_def randomUUID_def)
  from domain_input_hostname [OF v] obtain hn where hn: "di_hostname v = Some hn" "hostnamePattern hn" by auto
  then have d: "pd_hostname ?d = hn" "pd_id ?d = i" "pd_status ?d = DomainPending" by (simp_all add: new_domain_def)
  have S2: "routed ed ?W U ?S2" if "\<not> list_ex (\<lambda>d. pd_projectId d = ?pid \<and> pd_hostname d = hn \<or> pd_id d = i) (ds_domains ?S1)"
  proof -
    have "routed ed ?W U (?S1\<lparr>ds_domains := ds_domains ?S1 @ [?d]\<rparr>)"
      using S1 that d hn by (auto simp: routed_def trusted_def list_ex_iff)
    then show ?thesis by (simp only: routed_audit)
  qed
  have "routed ed ?W U (snd (publish_verified h ed disk ?pid i ?S2))"
    if "\<not> list_ex (\<lambda>d. pd_projectId d = ?pid \<and> pd_hostname d = hn \<or> pd_id d = i) (ds_domains ?S1)" "verifyDomain (ed_dns ed) rs hn"
    by (rule publish_verified_ok [OF S2 [OF that(1)]]) (use that d in \<open>auto simp: list_ex_iff domain_audit_def verified_names_def\<close>)
  with S S1 S2 show ?thesis
    by (auto simp: create_domain_def draw hn Let_def split: option.split prod.splits sum.splits)
qed

lemma patched_domain_ok:
  assumes "\<forall>x. di_hostname v = Some x \<longrightarrow> hostnamePattern x"
    and "hostnamePattern (pd_hostname d)" "pd_status d \<noteq> DomainPending \<longrightarrow> pd_hostname d \<in> V"
  shows "pd_id (patched_domain v d) = pd_id d \<and> hostnamePattern (pd_hostname (patched_domain v d))
    \<and> (pd_status (patched_domain v d) \<noteq> DomainPending \<longrightarrow> pd_hostname (patched_domain v d) \<in> V)"
proof -
  have "x \<noteq> []" if "di_hostname v = Some x" for x using assms(1) that by (auto simp: hostnamePattern_def)
  with assms show ?thesis by (cases "di_hostname v") (auto simp: patched_domain_def Let_def or_else_def truthy_def)
qed

lemma patch_in_project_ok:
  assumes "routed ed V U S" and "domainInputSchema True (h_zodUuid h) j = Some v"
  shows "routed ed V U (snd (patch_in_project h ed disk rq access v S))"
proof -
  let ?P = "\<lambda>d. pd_id d = dq_domainId rq \<and> pd_projectId d = pj_id (pa_project access)"
  have "routed ed V U (update_domains ?P (patched_domain v) S)"
    by (rule routed_update [OF assms(1) patched_domain_ok [OF domain_input_hostname(1) [OF assms(2)]]])
      (use assms(1) in \<open>auto simp: routed_def trusted_def\<close>)
  from syncTraefikRoutes_ok [OF this, of h disk "pj_id (pa_project access)"] assms(1) show ?thesis
    by (auto simp: patch_in_project_def Let_def routed_set_status split: option.split prod.splits sum.splits)
qed

lemma delete_rows_ok: "routed ed V U S \<Longrightarrow> routed ed V U (S\<lparr>ds_domains := del_where P (ds_domains S)\<rparr>)"
  by (auto simp: routed_def trusted_def del_where_def distinct_map inj_on_def)

lemma verify_write_ok:
  assumes "routed ed V U S" and "find_domain i pid S = Some d"
  shows "routed ed (V \<union> verified_names ed rs) U (snd (verify_write h ed disk access d (verifyDomain (ed_dns ed) rs (pd_hostname d)) S))"
proof -
  let ?W = "V \<union> verified_names ed rs"
  from assms(2) have d: "d \<in> set (ds_domains S)" by (auto simp: find_domain_def dest: find_Some_iff')
  have S: "routed ed ?W U S" by (rule routed_mono [OF assms(1)]) simp
  have "\<forall>e \<in> set (ds_domains S). pd_id e = pd_id d \<longrightarrow> e = d"
    using d assms(1) by (auto simp: routed_def trusted_def distinct_map inj_on_def)
  then have "\<forall>e \<in> set (ds_domains S). pd_id e = pd_id d \<longrightarrow> pd_hostname e \<in> ?W" if "verifyDomain (ed_dns ed) rs (pd_hostname d)"
    using that by (auto simp: verified_names_def)
  then have "routed ed ?W U (snd (publish_verified h ed disk (pj_id (pa_project access)) (pd_id d) S))"
    if "verifyDomain (ed_dns ed) rs (pd_hostname d)"
    using that by (intro publish_verified_ok [OF S]) simp
  then show ?thesis
    by (auto simp: verify_write_def routed_set_status S split: prod.splits sum.splits)
qed

end
