(* ===== verification/DomainTraces.thy ===== *)
theory DomainTraces
  imports DomainProperties
begin

text \<open>
  Sequences of domain requests. Between two events the rest of the platform may change the control plane and the identities
  at will; an event says what they are when it starts.
\<close>

datatype domain_call =
    PostDomain domain_request | PatchDomain domain_request | DeleteDomain domain_request | VerifyDomain domain_request
  | NodeChanged string | RouteTick

record domain_event =
  dv_iam :: iam
  dv_cp :: cp
  dv_resolver :: resolver
  dv_disk :: bool
  dv_call :: domain_call

definition run_domain_call :: "host \<Rightarrow> edge \<Rightarrow> resolver \<Rightarrow> bool \<Rightarrow> domain_call \<Rightarrow> domain_state \<Rightarrow> domain_state" where
  "run_domain_call h ed rs disk call S =
     (case call of
        PostDomain rq \<Rightarrow> snd (post_domain h ed rs disk rq S)
      | PatchDomain rq \<Rightarrow> snd (patch_domain h ed disk rq S)
      | DeleteDomain rq \<Rightarrow> snd (delete_domain h ed disk rq S)
      | VerifyDomain rq \<Rightarrow> snd (verify_domain_route h ed rs disk rq S)
      | NodeChanged nid \<Rightarrow> snd (reconcileDomainRoutesForNode h ed disk nid S)
      | RouteTick \<Rightarrow> domain_route_tick h ed disk S)"

definition domain_event_step :: "host \<Rightarrow> edge \<Rightarrow> domain_event \<Rightarrow> domain_state \<Rightarrow> domain_state" where
  "domain_event_step h ed e S =
     run_domain_call h ed (dv_resolver e) (dv_disk e) (dv_call e) (S\<lparr>ds_iam := dv_iam e, ds_cp := dv_cp e\<rparr>)"

lemma with_project_ok:
  assumes "routed ed V U S" "\<And>access. routed ed V U (snd (handler access S))"
  shows "routed ed V U (snd (with_project rq handler S))"
  using assms by (auto simp: with_project_def split: option.split)

lemma delete_ok:
  assumes "routed ed V U S"
  shows "routed ed V U (snd (delete_domain h ed disk rq S))"
  unfolding delete_domain_def
proof (rule with_project_ok [OF assms])
  fix access :: project_access
  let ?pid = "pj_id (pa_project access)"
  let ?T = "S\<lparr>ds_domains := del_where (\<lambda>d. pd_id d = dq_domainId rq \<and> pd_projectId d = ?pid) (ds_domains S)\<rparr>"
  have "routed ed V U (snd (syncTraefikRoutes h ed disk ?pid ?T))" using syncTraefikRoutes_ok [OF delete_rows_ok [OF assms]] by blast
  with assms show "routed ed V U (snd (let pid = ?pid in case find_domain (dq_domainId rq) pid S of
       None \<Rightarrow> (Inr (Problem 404 ''Domain not found''), S)
     | Some current \<Rightarrow> (Inr NoContent, domain_audit h access ''domain.deleted'' (pd_id current) (domain_metadata current)
            (snd (syncTraefikRoutes h ed disk pid
              (S\<lparr>ds_domains := del_where (\<lambda>d. pd_id d = dq_domainId rq \<and> pd_projectId d = pid) (ds_domains S)\<rparr>))))))"
    by (simp add: Let_def split: option.split)
qed

lemma run_domain_call_ok:
  assumes "routed ed V U S"
  shows "routed ed (V \<union> verified_names ed rs) U (run_domain_call h ed rs disk call S)"
proof -
  let ?W = "V \<union> verified_names ed rs"
  have S: "routed ed ?W U S" by (rule routed_mono [OF assms]) simp
  have post: "routed ed ?W U (snd (post_domain h ed rs disk rq S))" for rq
    unfolding post_domain_def
    by (rule with_project_ok [OF S]) (auto simp: S create_domain_ok [OF assms] split: option.split)
  have patch: "routed ed ?W U (snd (patch_domain h ed disk rq S))" for rq
    unfolding patch_domain_def
    by (rule with_project_ok [OF S]) (auto simp: S patch_in_project_ok split: option.split)
  have verify: "routed ed ?W U (snd (verify_domain_route h ed rs disk rq S))" for rq
    unfolding verify_domain_route_def
    by (rule with_project_ok [OF S]) (auto simp: S intro: verify_write_ok [OF assms] split: option.split)
  show ?thesis
    by (cases call) (simp_all add: run_domain_call_def post patch verify delete_ok S reconcile_until_ok reconcile_each_ok
        reconcileDomainRoutesForNode_def domain_route_tick_def)
qed

lemma routed_elsewhere:
  "routed ed V U S \<Longrightarrow> routed ed V (U \<union> {u. serves ed s u}) (S\<lparr>ds_iam := m, ds_cp := s\<rparr>)"
  by (auto simp: routed_def trusted_def intro: config_ok_mono)

lemma domain_event_ok:
  "routed ed V U S \<Longrightarrow>
     routed ed (V \<union> verified_names ed (dv_resolver e)) (U \<union> {u. serves ed (dv_cp e) u}) (domain_event_step h ed e S)"
  unfolding domain_event_step_def by (intro run_domain_call_ok routed_elsewhere)

lemma fold_routed:
  "routed ed V U S \<Longrightarrow>
     routed ed (V \<union> (\<Union>e \<in> set es. verified_names ed (dv_resolver e))) (U \<union> (\<Union>e \<in> set es. {u. serves ed (dv_cp e) u}))
       (fold (domain_event_step h ed) es S)"
proof (induction es arbitrary: V U S)
  case (Cons e es)
  from Cons.IH [OF domain_event_ok [OF Cons.prems, of e h]] show ?case by (simp add: Un_assoc)
qed simp

lemma empty_serves [simp]: "\<not> serves ed empty_cp u"
  by (simp add: serves_def sound_upstream_def empty_cp_def)

subsection \<open>Properties\<close>

text \<open>C8. Every hostname in a configuration file of the proxy passed the DNS check of some request (or was already out of
  pending when the sequence began), and every upstream URL it is served from is the checked URL of a running, not unhealthy
  public workload on a ready node at some moment of the sequence: for any sequence of domain requests, node changes and ticks,
  any answers of the name servers, failing writes, and any changes of the control plane and the identities in between.\<close>

theorem published_routes_trusted:
  assumes "distinct (map pd_id (ds_domains S0))" "list_all (\<lambda>d. hostnamePattern (pd_hostname d)) (ds_domains S0)" "ds_files S0 = []"
    and "(fname, cfg) \<in> set (ds_files (fold (domain_event_step h ed) es S0))" "(key, router) \<in> set (tc_routers cfg)"
  shows "(\<exists>hn. xr_rule router = host_rule hn
      \<and> ((\<exists>d \<in> set (ds_domains S0). pd_hostname d = hn \<and> pd_status d \<noteq> DomainPending)
         \<or> (\<exists>e \<in> set es. verifyDomain (ed_dns ed) (dv_resolver e) hn)))
    \<and> (\<forall>urls. (xr_service router, urls) \<in> set (tc_services cfg)
         \<longrightarrow> urls \<noteq> [] \<and> (\<forall>u \<in> set urls. \<exists>e \<in> set es. serves ed (dv_cp e) u))"
proof (cases es)
  case Nil
  with assms show ?thesis by simp
next
  case (Cons e0 rest)
  let ?V = "{pd_hostname d | d. d \<in> set (ds_domains S0) \<and> pd_status d \<noteq> DomainPending}"
  have "routed ed ?V {} (S0\<lparr>ds_cp := empty_cp\<rparr>)"
    using assms(1-3) by (auto simp: routed_def trusted_def list_all_iff)
  from fold_routed [OF this, of es h]
  have "routed ed (?V \<union> (\<Union>e \<in> set es. verified_names ed (dv_resolver e))) (\<Union>e \<in> set es. {u. serves ed (dv_cp e) u})
      (fold (domain_event_step h ed) es S0)"
    by (simp add: Cons domain_event_step_def)
  with assms(4) have "config_ok (?V \<union> (\<Union>e \<in> set es. verified_names ed (dv_resolver e))) (\<Union>e \<in> set es. {u. serves ed (dv_cp e) u}) cfg"
    by (auto simp: routed_def)
  with assms(5) show ?thesis unfolding config_ok_def verified_names_def by fastforce
qed

subsection \<open>Sample data\<close>

definition sample_edge :: edge where
  "sample_edge = \<lparr>ed_enabled = True,
     ed_settings = \<lparr>ts_httpEntryPoint = ''web'', ts_httpsEntryPoint = ''websecure'', ts_certResolver = ''le''\<rparr>,
     ed_dns = \<lparr>dm_serverPublicIp = Some ''203.0.113.7'', dm_cnameTarget = None\<rparr>,
     ed_url = (\<lambda>u. Some \<lparr>pu_protocol = ''http:'', pu_username = [], pu_password = [], pu_hostname = ''10.0.0.5'',
        pu_pathname = ''/'', pu_search = [], pu_hash = [], pu_string = u @ ''/''\<rparr>),
     ed_v6 = (\<lambda>_. False), ed_collate = code_unit_compare, ed_order = code_unit_compare\<rparr>"

definition sample_resolver :: resolver where
  "sample_resolver = \<lparr>rs_resolve4 = (\<lambda>_. Some [''203.0.113.7'']), rs_resolve6 = (\<lambda>_. None), rs_resolveCname = (\<lambda>_. None)\<rparr>"

definition sample_domain_request :: domain_request where
  "sample_domain_request = \<lparr>dq_session = Some ''u1'', dq_orgSlug = ''acme'', dq_projectId = ''p2'', dq_domainId = [],
     dq_body = Some (JObj [(''hostname'', JStr '' A.Shop.io''), (''applicationId'', JStr ''app''), (''targetPort'', JNum 8080)])\<rparr>"

definition sample_edge_state :: domain_state where
  "sample_edge_state = \<lparr>ds_iam = sample_iam, ds_cp = sample_routed\<lparr>t_applications := t_applications sample_deployed\<rparr>,
     ds_domains = [], ds_files = []\<rparr>"

definition sample_config :: traefik_config where
  "sample_config = \<lparr>tc_routers = [(''https-p2-id-0'', \<lparr>xr_rule = host_rule ''a.shop.io'', xr_entryPoints = [''websecure''],
        xr_middlewares = [], xr_service = ''domain-p2-id-0'', xr_certResolver = Some ''le''\<rparr>),
      (''http-p2-id-0'', \<lparr>xr_rule = host_rule ''a.shop.io'', xr_entryPoints = [''web''],
        xr_middlewares = [''redirect-to-https''], xr_service = ''domain-p2-id-0'', xr_certResolver = None\<rparr>)],
     tc_services = [(''domain-p2-id-0'', [''http://10.0.0.5:49152''])]\<rparr>"

lemma sample_parsed: "domainInputSchema False (h_zodUuid sample_host) (the (dq_body sample_domain_request))
  = Some \<lparr>di_hostname = Some ''a.shop.io'', di_environment = Some ''production'', di_applicationId = Some ''app'', di_deploymentId = None,
             di_targetPort = Some 8080, di_upstreamProtocol = Some Http\<rparr>" by code_simp

lemma sample_edge_facts:
  "verifyDomain (ed_dns sample_edge) sample_resolver ''a.shop.io''" "assertHostname ''a.shop.io'' = Inr ''a.shop.io''"
  "assertUpstream (ed_url sample_edge) (ed_v6 sample_edge) ''http://10.0.0.5:49152'' = Inr ''http://10.0.0.5:49152''"
  "safeIdentifier ''p2'' = ''p2''" "safeIdentifier ''id-0'' = ''id-0''" "h_randomUUID sample_host 0 = ''id-0''"
  "dns_configured sample_edge" "ed_enabled sample_edge"
  by code_simp+

lemma sample_access: "resolveProjectAccess sample_iam (Some ''u1'') ''acme'' ''p2'' ''projects.read'' = Some sample_scope"
 "''projects.update'' \<in> set (pa_permissions sample_scope)" "pj_status (pa_project sample_scope) = ProjectActive"
  "pj_id (pa_project sample_scope) = ''p2''" "og_id (pa_organization sample_scope) = ''o1''"  by code_simp+

lemma sample_upstreams:
  assumes "pd_applicationId d = Some ''app''" "pd_deploymentId d = None" "pd_targetPort d = Some 8080"
    "pd_upstreamProtocol d = Some Http" "pd_organizationId d = ''o1''"
    and "t_applicationPorts s = t_applicationPorts sample_routed" "t_deployments s = t_deployments sample_routed"
    "t_workloads s = t_workloads sample_routed" "t_nodes s = t_nodes sample_routed" "t_workloadPorts s = t_workloadPorts sample_routed"
  shows "domain_upstreams sample_edge d s = [\<lparr>wu_url = ''http://10.0.0.5:49152'', wu_workloadId = ''w1'', wu_nodeId = ''node-1''\<rparr>]"
  using assms(6-)
  by (simp add: domain_upstreams_def domain_target_def assms(1-5) sample_edge_def resolveWorkloadUpstreams_def upstream_port_def
      upstream_deployment_def upstream_candidates_def upstream_of_def workloads_of_def sample_routed_def empty_cp_def
      new_deployment_def sample_input_def new_workload_def sample_node_row_def js_sort_def truthy_def sample_url)

lemma sample_target_valid: "validateDomainTarget ''p2'' (Some ''app'') None (Some 8080) (ds_cp sample_edge_state) = None"
  by code_simp
lemma sample_edge_fields: "uuid_next (ds_cp sample_edge_state) = 0" "ds_iam sample_edge_state = sample_iam" 
 "ds_domains sample_edge_state = []" "ds_files sample_edge_state = []"
  "t_applicationPorts (ds_cp sample_edge_state) = t_applicationPorts sample_routed" "t_deployments (ds_cp sample_edge_state) = t_deployments sample_routed"
    "t_workloads (ds_cp sample_edge_state) = t_workloads sample_routed" "t_nodes (ds_cp sample_edge_state) = t_nodes sample_routed" 
   "t_workloadPorts (ds_cp sample_edge_state) = t_workloadPorts sample_routed"
  by (simp_all add: sample_edge_state_def sample_routed_def empty_cp_def)

lemma sample_audit_fields:
 "t_applicationPorts (audit h a b c i m s) = t_applicationPorts s"
 "t_deployments (audit h a b c i m s) = t_deployments s" "t_workloads (audit h a b c i m s) = t_workloads s"
 "t_nodes (audit h a b c i m s) = t_nodes s" "t_workloadPorts (audit h a b c i m s) = t_workloadPorts s"
  by (simp_all add: audit_def randomUUID_def)

lemma sample_posted:
  "fst (post_domain sample_host sample_edge sample_resolver True sample_domain_request sample_edge_state)
     = Inr (created_reply ''id-0'' ''a.shop.io'' ''active'')"
  "ds_files (snd (post_domain sample_host sample_edge sample_resolver True sample_domain_request sample_edge_state))
     = [(''project-p2.json'', sample_config)]"
proof -
  have body: "dq_body sample_domain_request = Some (the (dq_body sample_domain_request))"
    and rq: "dq_session sample_domain_request = Some ''u1''" "dq_orgSlug sample_domain_request = ''acme''" "dq_projectId sample_domain_request = ''p2''"
    by (simp_all add: sample_domain_request_def)
  note eval = post_domain_def with_project_def rq sample_access sample_edge_fields sample_parsed create_domain_def opt_null_def
    sample_target_valid sample_edge_facts new_domain_def publish_verified_def set_status_def update_domains_def domain_audit_def 
    syncTraefikRoutes_def randomUUID_def sample_upstreams sample_audit_fields setDomainRouteStatus_def syncProjectRoutes_def
    domain_configs.simps js_sort_def writeConfig_def config_file_def status_str_def add_routes_def domain_service_def sample_config_def Let_def
  show "fst (post_domain sample_host sample_edge sample_resolver True sample_domain_request sample_edge_state)
     = Inr (created_reply ''id-0'' ''a.shop.io'' ''active'')"
    by (subst post_domain_def, subst body) (simp add: eval)
  show "ds_files (snd (post_domain sample_host sample_edge sample_resolver True sample_domain_request sample_edge_state))
     = [(''project-p2.json'', sample_config)]"
    by (subst post_domain_def, subst body) (simp add: eval, simp add: sample_edge_def)
qed

text \<open>One POST that verifies and publishes.\<close>

definition sample_domain_event :: domain_event where
  "sample_domain_event = \<lparr>dv_iam = sample_iam, dv_cp = ds_cp sample_edge_state, dv_resolver = sample_resolver, dv_disk = True,
     dv_call = PostDomain sample_domain_request\<rparr>"

lemma published_routes_trusted_witness:
  "\<exists>hn. host_rule ''a.shop.io'' = host_rule hn \<and> verifyDomain (ed_dns sample_edge) sample_resolver hn"
proof -
  have same: "sample_edge_state\<lparr>ds_iam := sample_iam, ds_cp := ds_cp sample_edge_state\<rparr> = sample_edge_state"
    by (simp add: sample_edge_state_def)
  have files: "(''project-p2.json'', sample_config)
      \<in> set (ds_files (fold (domain_event_step sample_host sample_edge) [sample_domain_event] sample_edge_state))"
    by (simp add: domain_event_step_def sample_domain_event_def run_domain_call_def same sample_posted)
  have router: "hd (tc_routers sample_config) \<in> set (tc_routers sample_config)" by (simp add: sample_config_def)
  from published_routes_trusted [OF _ _ _ files, of "fst (hd (tc_routers sample_config))" "snd (hd (tc_routers sample_config))"]
    router show ?thesis by (auto simp: sample_edge_fields sample_config_def sample_domain_event_def)
qed

end
