(* ===== verification/DomainConflicts.thy ===== *)
theory DomainConflicts
  imports DomainTraces
begin

text \<open>
  Where hostnames and routes part: a hostname is unique within a project only, verifying a legacy domain takes its route away,
  and a domain can be active without a route.
\<close>

subsection \<open>Domains of other projects\<close>

definition beside :: "project_domain list \<Rightarrow> domain_state \<Rightarrow> domain_state" where
  "beside es S = S\<lparr>ds_domains := es @ ds_domains S\<rparr>"

lemma beside_fields [simp]:
  "ds_iam (beside es S) = ds_iam S" "ds_cp (beside es S) = ds_cp S" "ds_files (beside es S) = ds_files S"
  "ds_domains (beside es S) = es @ ds_domains S"
  by (simp_all add: beside_def)

lemma beside_updates [simp]:
  "(beside es S)\<lparr>ds_cp := s\<rparr> = beside es (S\<lparr>ds_cp := s\<rparr>)" "(beside es S)\<lparr>ds_files := fs\<rparr> = beside es (S\<lparr>ds_files := fs\<rparr>)"
  "(beside es S)\<lparr>ds_domains := es @ ds\<rparr> = beside es (S\<lparr>ds_domains := ds\<rparr>)"
  by (simp_all add: beside_def)

lemma beside_audit [simp]: "domain_audit h access action i m (beside es S) = beside es (domain_audit h access action i m S)"
  by (simp add: domain_audit_def)

lemma beside_update: "\<forall>e \<in> set es. \<not> P e \<Longrightarrow> update_domains P f (beside es S) = beside es (update_domains P f S)"
  by (simp add: update_domains_def beside_def upd_where_cong_none)

lemma beside_status: "i \<notin> pd_id ` set es \<Longrightarrow> set_status i st (beside es S) = beside es (set_status i st S)"
  unfolding set_status_def by (rule beside_update) auto

lemma beside_route_status:
  assumes "pd_id d \<notin> pd_id ` set es"
  shows "setDomainRouteStatus h d st (beside es S) = beside es (setDomainRouteStatus h d st S)"
proof -
  have "update_domains (\<lambda>e. pd_id e = pd_id d \<and> pd_status e \<noteq> st) f (beside es S)
      = beside es (update_domains (\<lambda>e. pd_id e = pd_id d \<and> pd_status e \<noteq> st) f S)" for f
    by (rule beside_update) (metis assms image_eqI)
  moreover have "list_ex (\<lambda>e. pd_id e = pd_id d \<and> pd_status e \<noteq> st) es = False"
    unfolding list_ex_iff using assms by (metis image_eqI)
  ultimately show ?thesis by (simp add: setDomainRouteStatus_def Let_def)
qed

lemma beside_sync_domains:
  "\<forall>d \<in> set ds. pd_id d \<notin> pd_id ` set es \<Longrightarrow>
     sync_domains h ed ds (beside es S) = apsnd (beside es) (sync_domains h ed ds S)"
  by (induction ds arbitrary: S) (simp_all add: beside_route_status Let_def split: prod.split)

definition apart :: "string \<Rightarrow> project_domain list \<Rightarrow> domain_state \<Rightarrow> bool" where
  "apart pid es S \<longleftrightarrow> (\<forall>e \<in> set es. pd_projectId e \<noteq> pid) \<and> set (map pd_id es) \<inter> set (map pd_id (ds_domains S)) = {}"

lemma beside_sync:
  assumes "apart pid es S"
  shows "syncTraefikRoutes h ed disk pid (beside es S) = apsnd (beside es) (syncTraefikRoutes h ed disk pid S)"
proof -
  have none: "filter (\<lambda>d. pd_projectId d = pid) es = []" using assms by (simp add: apart_def filter_empty_conv)
  have "\<forall>d \<in> set (filter (\<lambda>d. pd_projectId d = pid) (ds_domains S)). pd_id d \<notin> pd_id ` set es"
    using assms by (auto simp: apart_def)
  from beside_sync_domains [OF this] none show ?thesis
    by (simp add: syncTraefikRoutes_def Let_def split: prod.split sum.split)
qed

lemma apart_status [simp]: "apart pid es (set_status i st S) = apart pid es S"
proof -
  have "map fst (names (set_status i st S)) = map fst (names S)" by simp
  then have "map pd_id (ds_domains (set_status i st S)) = map pd_id (ds_domains S)" by (simp add: names_def comp_def)
  then show ?thesis unfolding apart_def by simp
qed

lemma beside_publish:
  assumes "apart pid es S" "i \<notin> pd_id ` set es"
  shows "publish_verified h ed disk pid i (beside es S) = apsnd (beside es) (publish_verified h ed disk pid i S)"
  using assms by (simp add: publish_verified_def beside_status beside_sync split: prod.split sum.split)

lemma find_beside: "i \<notin> pd_id ` set es \<Longrightarrow> List.find (\<lambda>d. pd_id d = i) (es @ ds) = List.find (\<lambda>d. pd_id d = i) ds"
  by (induction es) auto

lemma beside_create:
  assumes "apart (pj_id (pa_project access)) es S" "h_randomUUID h (uuid_next (ds_cp S)) \<notin> pd_id ` set es"
  shows "create_domain h ed rs disk access v (beside es S) = apsnd (beside es) (create_domain h ed rs disk access v S)"
proof -
  let ?pid = "pj_id (pa_project access)" and ?i = "h_randomUUID h (uuid_next (ds_cp S))"
  let ?s1 = "ds_cp S\<lparr>uuid_next := Suc (uuid_next (ds_cp S))\<rparr>" and ?d = "new_domain access (clock (ds_cp S)) v ?i"
  let ?S2 = "domain_audit h access ''domain.created'' ?i (domain_metadata ?d) (S\<lparr>ds_cp := ?s1, ds_domains := ds_domains S @ [?d]\<rparr>)"
  have "list_ex (\<lambda>d. pd_projectId d = ?pid \<and> pd_hostname d = the (di_hostname v) \<or> pd_id d = ?i) es = False"
    using assms by (force simp: list_ex_iff apart_def)
  moreover have "apart ?pid es ?S2"
    using assms by (auto simp: apart_def domain_audit_def new_domain_def)
  note beside_publish [OF this assms(2), of h ed disk]
  moreover obtain r T where "publish_verified h ed disk ?pid ?i ?S2 = (r, T)" by fastforce
  ultimately show ?thesis
    by (cases r) (simp_all add: create_domain_def randomUUID_def Let_def find_beside assms(2) split: option.split)
qed

text \<open>A hostname is claimed per project: whatever other projects hold, the same hostname verified and active included,
  creating a domain answers the same and writes the same files as if they held nothing. Two organisations can publish one
  hostname, because its owner pointed it at the platform and that is all the DNS check looks at.\<close>

theorem foreign_hostnames_ignored:
  assumes "apart (dq_projectId rq) es S" "h_randomUUID h (uuid_next (ds_cp S)) \<notin> pd_id ` set es"
  shows "post_domain h ed rs disk rq (S\<lparr>ds_domains := es @ ds_domains S\<rparr>)
    = (case post_domain h ed rs disk rq S of (answer, T) \<Rightarrow> (answer, T\<lparr>ds_domains := es @ ds_domains T\<rparr>))"
proof -
  have pid: "pj_id (pa_project access) = dq_projectId rq"
    if "resolveProjectAccess (ds_iam S) (dq_session rq) (dq_orgSlug rq) (dq_projectId rq) ''projects.read'' = Some access" for access
    using that by (auto simp: resolveProjectAccess_def find_project_def Let_def split: option.splits if_splits dest!: find_Some_iff')
  have "post_domain h ed rs disk rq (beside es S) = apsnd (beside es) (post_domain h ed rs disk rq S)"
    using assms by (auto simp: post_domain_def with_project_def beside_create pid split: option.split)
  then show ?thesis by (simp add: beside_def split: prod.splits)
qed

definition taken_domain :: project_domain where
  "taken_domain = \<lparr>pd_id = ''theirs'', pd_organizationId = ''o9'', pd_projectId = ''p9'', pd_applicationId = Some ''app9'',
     pd_deploymentId = None, pd_targetPort = Some 80, pd_upstreamProtocol = Some Http, pd_routingMigrationState = RouteTarget,
     pd_hostname = ''a.shop.io'', pd_environment = ''production'', pd_status = DomainActive, pd_sslExpiresAt = None,
     pd_createdAt = 0, pd_updatedAt = 0\<rparr>"

text \<open>An active domain of another organisation has the hostname; the request still answers \<open>active\<close> and writes its route.\<close>

lemma foreign_hostnames_ignored_witness:
  "pd_hostname taken_domain = ''a.shop.io'' \<and> pd_status taken_domain = DomainActive
   \<and> fst (post_domain sample_host sample_edge sample_resolver True sample_domain_request
         (sample_edge_state\<lparr>ds_domains := [taken_domain] @ ds_domains sample_edge_state\<rparr>))
      = Inr (created_reply ''id-0'' ''a.shop.io'' ''active'')
   \<and> ds_files (snd (post_domain sample_host sample_edge sample_resolver True sample_domain_request
         (sample_edge_state\<lparr>ds_domains := [taken_domain] @ ds_domains sample_edge_state\<rparr>)))
      = [(''project-p2.json'', sample_config)]"
proof -
  have "apart (dq_projectId sample_domain_request) [taken_domain] sample_edge_state"
    by (simp add: apart_def taken_domain_def sample_domain_request_def sample_edge_fields)
  moreover have "h_randomUUID sample_host (uuid_next (ds_cp sample_edge_state)) \<notin> pd_id ` set [taken_domain]"
    by (simp add: sample_edge_fields sample_edge_facts taken_domain_def)
  ultimately show ?thesis
    using foreign_hostnames_ignored [of sample_domain_request "[taken_domain]" sample_edge_state sample_host sample_edge
        sample_resolver True] sample_posted
    by (cases "post_domain sample_host sample_edge sample_resolver True sample_domain_request sample_edge_state")
      (simp add: taken_domain_def)
qed

subsection \<open>Legacy domains\<close>

lemma sync_domains_hosts:
  "sync_domains h ed ds S = (routes, S1) \<Longrightarrow>
     list_all (\<lambda>r. list_ex (\<lambda>d. pd_status d \<noteq> DomainPending \<and> pd_hostname d = td_hostname r) ds) routes"
proof (induction ds arbitrary: S routes)
  case (Cons d ds)
  from Cons.prems consider T where "sync_domains h ed ds T = (routes, S1)"
    | T rest us where "sync_domains h ed ds T = (rest, S1)" "pd_status d \<noteq> DomainPending"
        "routes = \<lparr>td_id = pd_id d, td_hostname = pd_hostname d, td_upstreams = us\<rparr> # rest"
    by (auto simp: Let_def split: if_splits prod.splits)
  then show ?case by cases (auto dest!: Cons.IH simp: list_all_iff)
qed simp

lemma host_rule_inj [simp]: "host_rule a = host_rule b \<longleftrightarrow> a = b"
  by (simp add: host_rule_def)

text \<open>A written configuration names only domains of the project that are out of pending.\<close>

lemma synced_hosts:
  assumes "syncTraefikRoutes h ed disk pid S = (Inr True, S')" "map_of (ds_files S') (config_file pid) = Some cfg"
    and "\<forall>d \<in> set (ds_domains S). hostnamePattern (pd_hostname d)" "(k, r) \<in> set (tc_routers cfg)"
  shows "\<exists>d \<in> set (ds_domains S). pd_projectId d = pid \<and> pd_status d \<noteq> DomainPending \<and> xr_rule r = host_rule (pd_hostname d)"
proof -
  let ?domains = "filter (\<lambda>d. pd_projectId d = pid) (ds_domains S)"
  let ?V = "{pd_hostname d | d. d \<in> set ?domains \<and> pd_status d \<noteq> DomainPending}"
  obtain routes S1 where sync: "sync_domains h ed ?domains S = (routes, S1)" by fastforce
  with assms(1) obtain cfg' where written: "domain_configs (ed_collate ed) (ed_url ed) (ed_v6 ed) (ed_settings ed) (safeIdentifier pid)
        (js_sort (domain_order (ed_collate ed)) routes) \<lparr>tc_routers = [], tc_services = []\<rparr> = Inr cfg'"
    and S': "S' = S1\<lparr>ds_files := AList.update (config_file pid) cfg' (ds_files S1)\<rparr>"
    by (auto simp: syncTraefikRoutes_def syncProjectRoutes_def writeConfig_def Let_def split: if_splits sum.splits)
  from S' assms(2) have "cfg = cfg'" by (simp add: update_conv')
  moreover have "config_ok ?V UNIV cfg'"
  proof (rule domain_configs_ok [OF written])
    have "route_ok ed ?V (\<lambda>u. u \<in> UNIV) x" if "x \<in> set routes" for x
    proof -
      from that sync_domains_hosts [OF sync] obtain e where e: "e \<in> set ?domains" "pd_status e \<noteq> DomainPending"
        "td_hostname x = pd_hostname e" by (fastforce simp: list_all_iff list_ex_iff)
      with assms(3) show ?thesis by (auto simp: route_ok_def)
    qed
    then show "list_all (route_ok ed ?V (\<lambda>u. u \<in> UNIV)) (js_sort (domain_order (ed_collate ed)) routes)"
      by (simp add: list_all_iff)
  qed (simp add: config_ok_def)
  ultimately show ?thesis using assms(4) by (fastforce simp: config_ok_def)
qed

text \<open>Verifying the active legacy domain of a project, whose route the synchronisation is there to preserve, answers 200,
  sets the domain to pending and leaves the files alone; and the next configuration that is written for the project, fifteen
  seconds later by the route controller, has no route for its hostname.\<close>

theorem legacy_verification_withdraws:
  assumes "distinct (map (\<lambda>d. (pd_projectId d, pd_hostname d)) (ds_domains S))"
    and "list_all (\<lambda>d. hostnamePattern (pd_hostname d)) (ds_domains S)"
    and "resolveProjectAccess (ds_iam S) (dq_session rq) (dq_orgSlug rq) (dq_projectId rq) ''projects.read'' = Some access"
    and "''projects.update'' \<in> set (pa_permissions access)" "find_domain (dq_domainId rq) (pj_id (pa_project access)) S = Some d"
    and "pd_routingMigrationState d = RouteLegacy" "ed_enabled ed" "dns_configured ed" "verifyDomain (ed_dns ed) rs (pd_hostname d)"
    and "verify_domain_route h ed rs disk rq S = (answer, S1)"
  shows "answer = Inr (Reply 200 (JStr (pd_id d))) \<and> ds_files S1 = ds_files S
    \<and> (\<forall>disk' S2 cfg k r. syncTraefikRoutes h ed disk' (pj_id (pa_project access)) S1 = (Inr True, S2)
         \<longrightarrow> map_of (ds_files S2) (config_file (pj_id (pa_project access))) = Some cfg \<longrightarrow> (k, r) \<in> set (tc_routers cfg)
         \<longrightarrow> xr_rule r \<noteq> host_rule (pd_hostname d))"
proof -
  let ?pid = "pj_id (pa_project access)" and ?A = "set_status (pd_id d) DomainActive S"
  from assms(5) have d: "d \<in> set (ds_domains S)" "pd_projectId d = ?pid" by (auto simp: find_domain_def dest!: find_Some_iff')
  have "d\<lparr>pd_status := DomainActive, pd_updatedAt := clock (ds_cp S)\<rparr> \<in> set (ds_domains ?A)"
    using d by (force simp: set_status_def update_domains_def set_upd_where image_iff)
  then have "list_ex (\<lambda>d. pd_routingMigrationState d = RouteLegacy \<and> pd_status d = DomainActive)
      (filter (\<lambda>d. pd_projectId d = ?pid) (ds_domains ?A))"
    unfolding list_ex_iff using d assms(6) by (intro bexI [of _ "d\<lparr>pd_status := DomainActive, pd_updatedAt := clock (ds_cp S)\<rparr>"]) simp_all
  then have kept: "syncTraefikRoutes h ed disk ?pid ?A = (Inr False, ?A)" using assms(7) by (simp add: syncTraefikRoutes_def)
  let ?S1 = "domain_audit h access ''domain.verified'' (pd_id d) (domain_metadata d) (set_status (pd_id d) DomainPending ?A)"
  have result: "answer = Inr (Reply 200 (JStr (pd_id d)))" "S1 = ?S1"
    using assms(3-5,8-10) kept by (simp_all add: verify_domain_route_def with_project_def verify_write_def publish_verified_def)
  have row: "\<exists>e0 \<in> set (ds_domains S). pd_projectId e = pd_projectId e0 \<and> pd_hostname e = pd_hostname e0
        \<and> (e0 = d \<longrightarrow> pd_status e = DomainPending)" if "e \<in> set (ds_domains ?S1)" for e
    using that by (force simp: domain_audit_def set_status_def update_domains_def upd_where_def)
  have valid: "\<forall>e \<in> set (ds_domains S1). hostnamePattern (pd_hostname e)"
    using row assms(2) unfolding result list_all_iff by metis
  have "xr_rule r \<noteq> host_rule (pd_hostname d)"
    if sync: "syncTraefikRoutes h ed disk' ?pid S1 = (Inr True, S2)" "map_of (ds_files S2) (config_file ?pid) = Some cfg" "(k, r) \<in> set (tc_routers cfg)"
    for disk' S2 cfg k r
  proof
    assume r: "xr_rule r = host_rule (pd_hostname d)"
    from synced_hosts [OF sync(1,2) valid sync(3)] r obtain e where e: "e \<in> set (ds_domains ?S1)" "pd_projectId e = ?pid"
      "pd_status e \<noteq> DomainPending" "pd_hostname e = pd_hostname d" by (auto simp: result)
    from row [OF e(1)] obtain e0 where e0: "e0 \<in> set (ds_domains S)" "pd_projectId e0 = ?pid" "pd_hostname e0 = pd_hostname d" "e0 \<noteq> d"
      using e by metis
    from assms(1) have "inj_on (\<lambda>d. (pd_projectId d, pd_hostname d)) (set (ds_domains S))" by (simp add: distinct_map)
    from inj_onD [OF this, of e0 d] e0 d show False by simp
  qed
  with result show ?thesis by (simp add: domain_audit_def set_status_def update_domains_def)
qed

definition legacy_domain :: project_domain where
  "legacy_domain = taken_domain\<lparr>pd_id := ''old'', pd_organizationId := ''o1'', pd_projectId := ''p2'', pd_applicationId := None,
     pd_targetPort := None, pd_upstreamProtocol := None, pd_routingMigrationState := RouteLegacy\<rparr>"

lemma legacy_verification_withdraws_witness:
  "fst (verify_domain_route sample_host sample_edge sample_resolver True (sample_domain_request\<lparr>dq_domainId := ''old''\<rparr>)
       (sample_edge_state\<lparr>ds_domains := [legacy_domain]\<rparr>)) = Inr (Reply 200 (JStr ''old''))
   \<and> ds_files (snd (verify_domain_route sample_host sample_edge sample_resolver True (sample_domain_request\<lparr>dq_domainId := ''old''\<rparr>)
       (sample_edge_state\<lparr>ds_domains := [legacy_domain]\<rparr>))) = []"
proof -
  let ?rq = "sample_domain_request\<lparr>dq_domainId := ''old''\<rparr>" and ?S = "sample_edge_state\<lparr>ds_domains := [legacy_domain]\<rparr>"
  have host: "hostnamePattern ''a.shop.io''" by code_simp
  have access: "resolveProjectAccess (ds_iam ?S) (dq_session ?rq) (dq_orgSlug ?rq) (dq_projectId ?rq) ''projects.read'' = Some sample_scope"
    by (simp add: sample_access sample_edge_fields sample_domain_request_def)
  have found: "find_domain (dq_domainId ?rq) (pj_id (pa_project sample_scope)) ?S = Some legacy_domain"
    by (simp add: find_domain_def legacy_domain_def sample_access)
  obtain answer S1 where run: "verify_domain_route sample_host sample_edge sample_resolver True ?rq ?S = (answer, S1)" by fastforce
  from legacy_verification_withdraws [OF _ _ access sample_access(2) found _ sample_edge_facts(8,7) _ run]
  show ?thesis unfolding run fst_conv snd_conv by (simp add: host sample_edge_fields sample_edge_facts legacy_domain_def taken_domain_def)
qed

text \<open>Without a proxy configured, or when the write fails, a verified domain stays active although nothing was published.\<close>

lemma unpublished_but_active:
  assumes "\<not> ed_enabled ed" "verify_write h ed disk access d True S = (answer, S1)" "e \<in> set (ds_domains S1)" "pd_id e = pd_id d"
  shows "answer = Inr (Problem 503 ''Domain was verified but could not be published'') \<and> pd_status e = DomainActive \<and> ds_files S1 = ds_files S"
  using assms by (auto simp: verify_write_def publish_verified_def syncTraefikRoutes_def set_status_def update_domains_def set_upd_where)

end
