(* ===== verification/ProjectRoutes.thy ===== *)
theory ProjectRoutes
  imports ProjectDomains
begin

text \<open>
  The project routes of \<open>apps/api/src/routes/projects.routes.ts\<close> and the environment routes of
  \<open>routes/environments.routes.ts\<close>, on the state of \<open>ProjectDomains\<close>. Deleting a row deletes what the schema's foreign keys cascade
  to; the constraint that keeps a variable while a secret attachment names it is left out, because the attachment is deleted
  by the same cascade. An answer that repeats a row names it by its key.
\<close>

record route_request =
  wr_session :: "string option"
  wr_orgSlug :: string
  wr_projectId :: string
  wr_environmentId :: string
  wr_teamId :: string
  wr_userId :: string
  wr_body :: "json option"

subsection \<open>Schemas\<close>

definition project_sources :: "(string \<times> project_source) list" where
  "project_sources = [(''git'', FromGit), (''docker'', FromDocker), (''blank'', FromBlank)]"

definition access_modes_enum :: "(string \<times> access_mode) list" where
  "access_modes_enum = [(''organization'', AccessOrganization), (''team'', AccessTeam)]"

record project_input =
  pi_name :: string
  pi_slug :: string
  pi_description :: "string option"
  pi_type :: project_source
  pi_gitUrl :: "string option"
  pi_branch :: "string option"
  pi_teamId :: "string option"
  pi_accessMode :: access_mode
  pi_teamIds :: "string list"

text \<open>The preprocessing step turns a blank Git URL into a missing one.\<close>

definition blank_url :: "json \<Rightarrow> bool" where
  "blank_url j \<longleftrightarrow> (case z_string j of None \<Rightarrow> False | Some s \<Rightarrow> trim_str s = [])"

definition gitUrl_input :: "url_class \<Rightarrow> json \<Rightarrow> string option option" where
  "gitUrl_input url j =
     (case jget ''gitUrl'' j of
        None \<Rightarrow> Some None
      | Some v \<Rightarrow> if blank_url v then Some None else map_option Some (git_url url v))"

definition nonempty_id :: "json \<Rightarrow> string option" where
  "nonempty_id = z_string_where (\<lambda>s. s \<noteq> [])"

definition projectInputSchema :: "url_class \<Rightarrow> json \<Rightarrow> project_input option" where
  "projectInputSchema url j =
     Option.bind (z_object j) (\<lambda>j.
     Option.bind (z_req (z_trimmed 1 80) ''name'' j) (\<lambda>name.
     Option.bind (z_req slugSchema ''slug'' j) (\<lambda>slug.
     Option.bind (z_opt (z_trimmed 0 500) ''description'' j) (\<lambda>description.
     Option.bind (z_req (z_enum project_sources) ''type'' j) (\<lambda>ty.
     Option.bind (gitUrl_input url j) (\<lambda>git.
     Option.bind (z_opt (z_trimmed 1 255) ''branch'' j) (\<lambda>branch.
     Option.bind (z_opt nonempty_id ''teamId'' j) (\<lambda>teamId.
     Option.bind (z_default (z_enum access_modes_enum) AccessOrganization ''accessMode'' j) (\<lambda>mode.
     Option.bind (z_default (z_items 0 50 nonempty_id) [] ''teamIds'' j) (\<lambda>teamIds.
       Some \<lparr>pi_name = name, pi_slug = slug, pi_description = description, pi_type = ty, pi_gitUrl = git, pi_branch = branch,
             pi_teamId = teamId, pi_accessMode = mode, pi_teamIds = teamIds\<rparr>))))))))))"

record project_update =
  pu_name :: "string option"
  pu_slug :: "string option"
  pu_description :: "string option option"

definition projectUpdateSchema :: "json \<Rightarrow> project_update option" where
  "projectUpdateSchema j =
     Option.bind (z_object j) (\<lambda>j.
     Option.bind (z_opt (z_trimmed 1 80) ''name'' j) (\<lambda>name.
     Option.bind (z_opt slugSchema ''slug'' j) (\<lambda>slug.
     Option.bind (z_opt (z_nullable (z_trimmed 0 500)) ''description'' j) (\<lambda>description.
       if name = None \<and> slug = None \<and> description = None then None
       else Some \<lparr>pu_name = name, pu_slug = slug, pu_description = description\<rparr>))))"

definition accessSchema :: "json \<Rightarrow> (access_mode \<times> string list) option" where
  "accessSchema j =
     Option.bind (z_object j) (\<lambda>j.
     Option.bind (z_req (z_enum access_modes_enum) ''accessMode'' j) (\<lambda>mode.
     Option.bind (z_req (z_items 0 50 nonempty_id) ''teamIds'' j) (\<lambda>teamIds.
       if mode = AccessTeam \<and> teamIds = [] then None else Some (mode, teamIds))))"

definition defaultEnvironmentSchema :: "(string \<Rightarrow> bool) \<Rightarrow> json \<Rightarrow> string option" where
  "defaultEnvironmentSchema zuuid j = Option.bind (z_object j) (z_req (z_string_where zuuid) ''environmentId'')"

subsection \<open>Rows\<close>

definition update_projects :: "(project \<Rightarrow> bool) \<Rightarrow> (project \<Rightarrow> project) \<Rightarrow> domain_state \<Rightarrow> domain_state" where
  "update_projects P f S =
     S\<lparr>ds_iam := (ds_iam S)\<lparr>t_projects :=
       upd_where P (\<lambda>p. (f p)\<lparr>pj_updatedAt := clock (ds_cp S)\<rparr>) (t_projects (ds_iam S))\<rparr>\<rparr>"

definition project_conflict :: "project \<Rightarrow> project \<Rightarrow> bool" where
  "project_conflict p q \<longleftrightarrow> pj_id p = pj_id q \<or> pj_organizationId p = pj_organizationId q \<and> pj_slug p = pj_slug q"

definition environment_conflict :: "project_environment \<Rightarrow> project_environment \<Rightarrow> bool" where
  "environment_conflict e f \<longleftrightarrow> pe_id e = pe_id f \<or> pe_projectId e = pe_projectId f \<and> pe_slug e = pe_slug f"

definition log_project :: "host \<Rightarrow> string \<Rightarrow> string \<Rightarrow> string \<Rightarrow> string \<Rightarrow> json option \<Rightarrow> domain_state \<Rightarrow> domain_state" where
  "log_project h userId action ty targetId metadata S = S\<lparr>ds_cp := audit h userId action ty targetId metadata (ds_cp S)\<rparr>"

definition draw_id :: "host \<Rightarrow> domain_state \<Rightarrow> string \<times> domain_state" where
  "draw_id h S = (let (i, s1) = randomUUID h (ds_cp S) in (i, S\<lparr>ds_cp := s1\<rparr>))"

definition team_of_org :: "string \<Rightarrow> iam \<Rightarrow> string \<Rightarrow> bool" where
  "team_of_org org m tid \<longleftrightarrow> list_ex (\<lambda>t. tm_organizationId t = org \<and> tm_id t = tid) (t_teams m)"

definition assigned_rows :: "string \<Rightarrow> string \<Rightarrow> string list \<Rightarrow> project_team_row list" where
  "assigned_rows pid user tids = map (\<lambda>t. \<lparr>pt_projectId = pid, pt_teamId = t, pt_assignedByUserId = Some user\<rparr>) tids"

definition first_team :: "string list \<Rightarrow> string option" where
  "first_team tids = (case tids of [] \<Rightarrow> None | t # _ \<Rightarrow> Some t)"

subsection \<open>Creating a project\<close>

definition getAuthorizedOrganization :: "iam \<Rightarrow> string option \<Rightarrow> string \<Rightarrow> (org_row \<times> member_row \<times> string list \<times> string) option" where
  "getAuthorizedOrganization m session slug =
     (case session of None \<Rightarrow> None | Some user \<Rightarrow>
     (case find_org slug m of None \<Rightarrow> None | Some org \<Rightarrow>
     (case find_membership (og_id org) user m of None \<Rightarrow> None | Some membership \<Rightarrow>
        Some (org, membership, resolveRolePermissions m (mb_role membership) (Some (og_id org)), user))))"

definition new_project :: "string \<Rightarrow> string \<Rightarrow> int \<Rightarrow> project_input \<Rightarrow> string list \<Rightarrow> string \<Rightarrow> string \<Rightarrow> project" where
  "new_project org user now v tids i env =
     \<lparr>pj_id = i, pj_organizationId = org, pj_teamId = first_team tids, pj_createdByUserId = user, pj_name = pi_name v,
      pj_slug = pi_slug v, pj_description = (if truthy (pi_description v) then pi_description v else None),
      pj_sourceType = pi_type v, pj_gitUrl = (if truthy (pi_gitUrl v) then pi_gitUrl v else None),
      pj_branch = or_else (pi_branch v) ''main'', pj_routingTargetUrl = None, pj_status = ProjectActive,
      pj_accessMode = pi_accessMode v, pj_archivedAt = None, pj_defaultEnvironmentId = Some env,
      pj_createdAt = now, pj_updatedAt = now\<rparr>"

definition production_environment :: "string \<Rightarrow> string \<Rightarrow> int \<Rightarrow> string \<Rightarrow> project_environment" where
  "production_environment org pid now i =
     \<lparr>pe_id = i, pe_organizationId = org, pe_projectId = pid, pe_name = ''production'', pe_slug = ''production'',
      pe_displayName = ''Production'', pe_protected = True, pe_branch = ''main'', pe_autoDeployEnabled = False,
      pe_createdAt = now, pe_updatedAt = now\<rparr>"

definition given_teams :: "project_input \<Rightarrow> string list" where
  "given_teams v = js_uniq (pi_teamIds v @ (if truthy (pi_teamId v) then [the (pi_teamId v)] else []))"

text \<open>The transaction: the project, its production environment, the teams and the audit entries, or none of it.\<close>

definition insert_project :: "host \<Rightarrow> org_row \<Rightarrow> string \<Rightarrow> project_input \<Rightarrow> domain_state \<Rightarrow> domain_result" where
  "insert_project h org user v S =
     (let tids = given_teams v; (i, S1) = draw_id h S; (env, S2) = draw_id h S1; now = clock (ds_cp S2);
          p = new_project (og_id org) user now v tids i env; e = production_environment (og_id org) i now env
      in if list_ex (project_conflict p) (t_projects (ds_iam S2)) \<or> list_ex (environment_conflict e) (t_environments (ds_cp S2))
         then (Inr (Problem 409 ''A project with this address already exists''), S2)
         else (Inr (Reply 201 (JObj [(''id'', JStr i), (''slug'', JStr (pi_slug v))])),
               log_project h user ''environment.created'' ''environment'' env
                 (Some (JObj [(''organizationId'', JStr (og_id org)), (''projectId'', JStr i), (''slug'', JStr ''production'')]))
               (log_project h user ''project.created'' ''project'' i
                 (Some (JObj [(''organizationId'', JStr (og_id org)), (''slug'', JStr (pi_slug v))]))
                 (S2\<lparr>ds_iam := (ds_iam S2)\<lparr>t_projects := t_projects (ds_iam S2) @ [p],
                       t_projectTeams := t_projectTeams (ds_iam S2) @ assigned_rows i user tids\<rparr>,
                     ds_cp := (ds_cp S2)\<lparr>t_environments := t_environments (ds_cp S2) @ [e]\<rparr>\<rparr>))))"

definition create_project :: "host \<Rightarrow> url_class \<Rightarrow> route_request \<Rightarrow> domain_state \<Rightarrow> domain_result" where
  "create_project h url rq S =
     (case getAuthorizedOrganization (ds_iam S) (wr_session rq) (wr_orgSlug rq) of
        None \<Rightarrow> (Inr (Problem 404 ''Organization not found or access denied''), S)
      | Some (org, membership, permissions, user) \<Rightarrow>
          if ''projects.create'' \<notin> set permissions then (Inr (Problem 403 ''Permission required: projects.create''), S)
          else (case wr_body rq of
             None \<Rightarrow> (Inl (Js_error ''SyntaxError''), S)
           | Some j \<Rightarrow> (case projectInputSchema url j of
               None \<Rightarrow> (Inr (Problem 400 ''Invalid project data''), S)
             | Some v \<Rightarrow>
                 if pi_type v = FromGit \<and> \<not> truthy (pi_gitUrl v)
                 then (Inr (Problem 400 ''A Git repository URL is required for Git projects''), S)
                 else if pi_accessMode v = AccessTeam \<and> given_teams v = []
                 then (Inr (Problem 400 ''Team-scoped projects require at least one team''), S)
                 else if \<not> list_all (team_of_org (og_id org) (ds_iam S)) (given_teams v)
                 then (Inr (Problem 400 ''Team not found in this organization''), S)
                 else insert_project h org user v S)))"

subsection \<open>Changing a project\<close>

definition in_project ::
  "string \<Rightarrow> route_request \<Rightarrow> (project_access \<Rightarrow> domain_state \<Rightarrow> domain_result) \<Rightarrow> domain_state \<Rightarrow> domain_result" where
  "in_project permission rq handler S =
     (case resolveProjectAccess (ds_iam S) (wr_session rq) (wr_orgSlug rq) (wr_projectId rq) permission of
        None \<Rightarrow> (Inr (Problem 404 ''Project not found or access denied''), S)
      | Some access \<Rightarrow> handler access S)"

definition body_as :: "route_request \<Rightarrow> (json \<Rightarrow> 'a option) \<Rightarrow> string \<Rightarrow> ('a \<Rightarrow> domain_state \<Rightarrow> domain_result) \<Rightarrow> domain_state \<Rightarrow> domain_result" where
  "body_as rq schema invalid handler S =
     (case wr_body rq of
        None \<Rightarrow> (Inl (Js_error ''SyntaxError''), S)
      | Some j \<Rightarrow> (case schema j of None \<Rightarrow> (Inr (Problem 400 invalid), S) | Some v \<Rightarrow> handler v S))"

definition patched_project :: "project_update \<Rightarrow> project \<Rightarrow> project" where
  "patched_project v p =
     p\<lparr>pj_name := or_else (pu_name v) (pj_name p), pj_slug := or_else (pu_slug v) (pj_slug p),
       pj_description := set_given (pu_description v) (pj_description p)\<rparr>"

definition update_fields :: "project_update \<Rightarrow> json" where
  "update_fields v = JObj [(''fields'', JArr (map JStr
     ((if pu_name v \<noteq> None then [''name''] else []) @ (if pu_slug v \<noteq> None then [''slug''] else [])
      @ (if pu_description v \<noteq> None then [''description''] else []))))]"

definition patch_project :: "host \<Rightarrow> route_request \<Rightarrow> domain_state \<Rightarrow> domain_result" where
  "patch_project h rq = in_project ''projects.update'' rq (\<lambda>access. body_as rq projectUpdateSchema ''Invalid project data'' (\<lambda>v S.
     let p = pa_project access in
     if list_ex (\<lambda>q. pj_id q \<noteq> pj_id p \<and> project_conflict (patched_project v p) q) (t_projects (ds_iam S))
     then (Inr (Problem 409 ''A project with this address already exists''), S)
     else (Inr (Reply 200 (JStr (pj_id p))),
           log_project h (pa_userId access) ''project.updated'' ''project'' (pj_id p) (Some (update_fields v))
             (update_projects (\<lambda>q. pj_id q = pj_id p) (patched_project v) S))))"

definition access_metadata :: "access_mode \<Rightarrow> string list \<Rightarrow> json" where
  "access_metadata mode tids =
     JObj [(''accessMode'', JStr (if mode = AccessTeam then ''team'' else ''organization'')), (''teamIds'', JArr (map JStr tids))]"

definition put_access :: "host \<Rightarrow> route_request \<Rightarrow> domain_state \<Rightarrow> domain_result" where
  "put_access h rq = in_project ''projects.manage_access'' rq (\<lambda>access. body_as rq accessSchema ''Invalid project access'' (\<lambda>(mode, given) S.
     let tids = js_uniq given; pid = pj_id (pa_project access) in
     if \<not> list_all (team_of_org (og_id (pa_organization access)) (ds_iam S)) tids
     then (Inr (Problem 400 ''Team not found in this organization''), S)
     else (let S1 = update_projects (\<lambda>q. pj_id q = pid) (\<lambda>q. q\<lparr>pj_accessMode := mode, pj_teamId := first_team tids\<rparr>) S;
               S2 = S1\<lparr>ds_iam := (ds_iam S1)\<lparr>t_projectTeams :=
                 del_where (\<lambda>r. pt_projectId r = pid) (t_projectTeams (ds_iam S1)) @ assigned_rows pid (pa_userId access) tids\<rparr>\<rparr>
           in (Inr (Reply 200 (access_metadata mode tids)),
               log_project h (pa_userId access) ''project.access_changed'' ''project'' pid (Some (access_metadata mode tids)) S2))))"

definition environmentInScope :: "string \<Rightarrow> string \<Rightarrow> cp \<Rightarrow> project_environment option" where
  "environmentInScope pid i s = List.find (\<lambda>e. pe_id e = i \<and> pe_projectId e = pid) (t_environments s)"

definition put_default_environment :: "host \<Rightarrow> route_request \<Rightarrow> domain_state \<Rightarrow> domain_result" where
  "put_default_environment h rq = in_project ''projects.manage_environments'' rq (\<lambda>access.
     body_as rq (defaultEnvironmentSchema (h_zodUuid h)) ''Invalid default environment'' (\<lambda>i S.
       let pid = pj_id (pa_project access) in
       case environmentInScope pid i (ds_cp S) of
         None \<Rightarrow> (Inr (Problem 404 ''Environment not found in this project''), S)
       | Some e \<Rightarrow>
           (Inr (Reply 200 (JObj [(''defaultEnvironmentId'', JStr (pe_id e))])),
            log_project h (pa_userId access) ''project.default_environment_changed'' ''project'' pid
              (Some (JObj [(''environmentId'', JStr (pe_id e)), (''projectId'', JStr pid)]))
              (update_projects (\<lambda>q. pj_id q = pid) (\<lambda>q. q\<lparr>pj_defaultEnvironmentId := Some (pe_id e)\<rparr>) S))))"

definition archive_project :: "host \<Rightarrow> route_request \<Rightarrow> domain_state \<Rightarrow> domain_result" where
  "archive_project h rq = in_project ''projects.archive'' rq (\<lambda>access S.
     let p = pa_project access in
     if pj_status p = ProjectArchived then (Inr (Reply 200 (JStr (pj_id p))), S)
     else (Inr (Reply 200 (JStr (pj_id p))),
           log_project h (pa_userId access) ''project.archived'' ''project'' (pj_id p) None
             (update_projects (\<lambda>q. pj_id q = pj_id p)
               (\<lambda>q. q\<lparr>pj_status := ProjectArchived, pj_archivedAt := Some (clock (ds_cp S))\<rparr>) S)))"

definition restore_project :: "host \<Rightarrow> route_request \<Rightarrow> domain_state \<Rightarrow> domain_result" where
  "restore_project h rq = in_project ''projects.archive'' rq (\<lambda>access S.
     let p = pa_project access in
     (Inr (Reply 200 (JStr (pj_id p))),
      log_project h (pa_userId access) ''project.restored'' ''project'' (pj_id p) None
        (update_projects (\<lambda>q. pj_id q = pj_id p) (\<lambda>q. q\<lparr>pj_status := ProjectActive, pj_archivedAt := None\<rparr>) S)))"

subsection \<open>Deleting a project\<close>

text \<open>What goes with an environment, and with a project.\<close>

definition drop_environments :: "string set \<Rightarrow> cp \<Rightarrow> cp" where
  "drop_environments ids s =
     s\<lparr>t_environments := del_where (\<lambda>e. pe_id e \<in> ids) (t_environments s),
       t_environmentVariables := del_where (\<lambda>v. ev_environmentId v \<in> ids) (t_environmentVariables s),
       t_applicationVariables := del_where (\<lambda>v. \<exists>e \<in> ids. av_environmentId v = Some e) (t_applicationVariables s),
       t_secretAttachments := del_where (\<lambda>a. \<exists>e \<in> ids. sa_environmentId a = Some e) (t_secretAttachments s),
       t_deployments := upd_where (\<lambda>d. \<exists>e \<in> ids. d_environmentId d = Some e) (\<lambda>d. d\<lparr>d_environmentId := None\<rparr>) (t_deployments s)\<rparr>"

definition project_environments :: "string \<Rightarrow> cp \<Rightarrow> string set" where
  "project_environments pid s = set (map pe_id (filter (\<lambda>e. pe_projectId e = pid) (t_environments s)))"

definition drop_project :: "string \<Rightarrow> domain_state \<Rightarrow> domain_state" where
  "drop_project pid S =
     S\<lparr>ds_iam := (ds_iam S)\<lparr>t_projects := del_where (\<lambda>p. pj_id p = pid) (t_projects (ds_iam S)),
         t_projectTeams := del_where (\<lambda>r. pt_projectId r = pid) (t_projectTeams (ds_iam S))\<rparr>,
       ds_cp := (drop_environments (project_environments pid (ds_cp S)) (ds_cp S))
         \<lparr>t_gameServers := upd_where (\<lambda>g. gs_projectId g = Some pid) (\<lambda>g. g\<lparr>gs_projectId := None\<rparr>) (t_gameServers (ds_cp S))\<rparr>\<rparr>"

definition project_applications :: "string \<Rightarrow> cp \<Rightarrow> string list" where
  "project_applications pid s = map a_id (filter (\<lambda>a. a_projectId a = pid) (t_applications s))"

record project_dependencies =
  dp_applications :: nat
  dp_deployments :: nat
  dp_builds :: nat
  dp_domains :: nat
  dp_environments :: nat
  dp_volumes :: nat

definition dependencies_of :: "string \<Rightarrow> domain_state \<Rightarrow> project_dependencies" where
  "dependencies_of pid S =
     (let s = ds_cp S; apps = project_applications pid s in
      \<lparr>dp_applications = length apps,
       dp_deployments = length (filter (\<lambda>d. d_applicationId d \<in> set apps) (t_deployments s)),
       dp_builds = length (filter (\<lambda>b. b_projectId b = pid) (t_builds s)),
       dp_domains = length (filter (\<lambda>d. pd_projectId d = pid) (ds_domains S)),
       dp_environments = length (filter (\<lambda>e. pe_projectId e = pid) (t_environments s)),
       dp_volumes = length (filter (\<lambda>v. v_projectId v = pid) (t_volumes s))\<rparr>)"

definition jnat :: "nat \<Rightarrow> json" where
  "jnat n = JNum (of_nat n)"

definition dependencies_json :: "project_dependencies \<Rightarrow> json" where
  "dependencies_json d = JObj [(''applications'', jnat (dp_applications d)), (''deployments'', jnat (dp_deployments d)),
     (''builds'', jnat (dp_builds d)), (''domains'', jnat (dp_domains d)), (''environments'', jnat (dp_environments d)),
     (''volumes'', jnat (dp_volumes d))]"

definition delete_project :: "host \<Rightarrow> route_request \<Rightarrow> domain_state \<Rightarrow> domain_result" where
  "delete_project h rq = in_project ''projects.delete'' rq (\<lambda>access S.
     let pid = pj_id (pa_project access); d = dependencies_of pid S in
     if dp_applications d \<noteq> 0 \<or> dp_deployments d \<noteq> 0 \<or> dp_builds d \<noteq> 0 \<or> dp_domains d \<noteq> 0 \<or> dp_volumes d \<noteq> 0
     then (Inr (Problem 409 ''Project has dependent resources''), S)
     else (Inr NoContent, log_project h (pa_userId access) ''project.deleted'' ''project'' pid
             (Some (JObj [(''dependencies'', dependencies_json d)])) (drop_project pid S)))"

subsection \<open>Reading projects\<close>

definition project_view :: "project_access \<Rightarrow> json" where
  "project_view access =
     (let p = pa_project access in
      JObj [(''id'', JStr (pj_id p)), (''name'', JStr (pj_name p)), (''slug'', JStr (pj_slug p)),
        (''description'', jstr_opt (pj_description p)), (''gitUrl'', jstr_opt (pj_gitUrl p)), (''branch'', JStr (pj_branch p)),
        (''status'', JStr (if pj_status p = ProjectArchived then ''archived'' else ''active'')),
        (''accessMode'', JStr (if pj_accessMode p = AccessTeam then ''team'' else ''organization'')),
        (''defaultEnvironmentId'', jstr_opt (pj_defaultEnvironmentId p)),
        (''permissions'', JArr (map JStr (pa_permissions access))), (''routingTargetUrl'', jstr_opt (pj_routingTargetUrl p))])"

definition get_project :: "route_request \<Rightarrow> domain_state \<Rightarrow> domain_result" where
  "get_project rq = in_project ''projects.read'' rq (\<lambda>access S. (Inr (Reply 200 (project_view access)), S))"

definition project_summary :: "route_request \<Rightarrow> domain_state \<Rightarrow> domain_result" where
  "project_summary rq = in_project ''projects.read'' rq (\<lambda>access S.
     let pid = pj_id (pa_project access); s = ds_cp S; apps = project_applications pid s;
         runs = filter (\<lambda>r. ad_applicationId r \<in> set apps) (t_appDeployments s)
     in (Inr (Reply 200 (JObj [(''applications'', jnat (length apps)),
           (''domains'', jnat (length (filter (\<lambda>d. pd_projectId d = pid) (ds_domains S)))),
           (''environments'', jnat (length (filter (\<lambda>e. pe_projectId e = pid) (t_environments s)))),
           (''deployments'', jnat (length runs)),
           (''failedDeployments'', jnat (length (filter (\<lambda>r. \<not> ad_succeeded r) runs)))])), S))"

definition project_teams :: "route_request \<Rightarrow> domain_state \<Rightarrow> domain_result" where
  "project_teams rq = in_project ''projects.read'' rq (\<lambda>access S.
     let p = pa_project access; m = ds_iam S;
         rows = concat (map (\<lambda>r. filter (\<lambda>t. tm_id t = pt_teamId r) (t_teams m))
                  (filter (\<lambda>r. pt_projectId r = pj_id p) (t_projectTeams m)))
     in (Inr (Reply 200 (JObj [(''accessMode'', JStr (if pj_accessMode p = AccessTeam then ''team'' else ''organization'')),
           (''teams'', JArr (map (\<lambda>t. JObj [(''id'', JStr (tm_id t)), (''name'', JStr (tm_name t))]) rows))])), S))"

end
