(* ===== verification/EnvironmentRoutes.thy ===== *)
theory EnvironmentRoutes
  imports ProjectRoutes
begin

text \<open>
  The environments of a project and their variables (\<open>apps/api/src/routes/environments.routes.ts\<close>), and the teams of an
  organisation with the projects they may enter (\<open>routes/teams.routes.ts\<close>). \<open>enc\<close> encrypts a value under a fresh
  initialisation vector and \<open>dec\<close> decrypts one (\<open>None\<close> when it throws).
\<close>

subsection \<open>Environments\<close>

text \<open>\<open>/^[a-z][a-z0-9-]{0,62}$/\<close>\<close>

definition environment_name_ok :: "string \<Rightarrow> bool" where
  "environment_name_ok n \<longleftrightarrow> (case n of [] \<Rightarrow> False
     | c # cs \<Rightarrow> is_lower c \<and> length cs \<le> 62 \<and> list_all (\<lambda>c. is_lower c \<or> is_digit c \<or> c = CHR ''-'') cs)"

definition environment_name :: "json \<Rightarrow> string option" where
  "environment_name j = Option.bind (z_string j) (\<lambda>s. if environment_name_ok (trim_str s) then Some (trim_str s) else None)"

record environment_input =
  ei_name :: "string option"
  ei_displayName :: "string option"
  ei_branch :: "string option"
  ei_autoDeployEnabled :: "bool option"
  ei_protected :: "bool option"

definition environmentInput :: "bool \<Rightarrow> json \<Rightarrow> environment_input option" where
  "environmentInput partial j =
     Option.bind (z_object j) (\<lambda>j.
     Option.bind (z_field partial environment_name ''name'' j) (\<lambda>name.
     Option.bind (z_field partial (z_trimmed 1 80) ''displayName'' j) (\<lambda>display.
     Option.bind (z_defaulted partial (z_trimmed 1 255) ''main'' ''branch'' j) (\<lambda>branch.
     Option.bind (z_defaulted partial z_bool False ''autoDeployEnabled'' j) (\<lambda>auto.
     Option.bind (z_defaulted partial z_bool False ''protected'' j) (\<lambda>prot.
       Some \<lparr>ei_name = name, ei_displayName = display, ei_branch = branch, ei_autoDeployEnabled = auto, ei_protected = prot\<rparr>))))))"

definition environmentUpdate :: "json \<Rightarrow> environment_input option" where
  "environmentUpdate j = Option.bind (environmentInput True j) (\<lambda>v.
     if v = \<lparr>ei_name = None, ei_displayName = None, ei_branch = None, ei_autoDeployEnabled = None, ei_protected = None\<rparr>
     then None else Some v)"

definition new_environment :: "project_access \<Rightarrow> int \<Rightarrow> environment_input \<Rightarrow> string \<Rightarrow> project_environment" where
  "new_environment access now v i =
     \<lparr>pe_id = i, pe_organizationId = og_id (pa_organization access), pe_projectId = pj_id (pa_project access),
      pe_name = the (ei_name v), pe_slug = the (ei_name v), pe_displayName = the (ei_displayName v),
      pe_protected = or_else (ei_protected v) False, pe_branch = or_else (ei_branch v) ''main'',
      pe_autoDeployEnabled = or_else (ei_autoDeployEnabled v) False, pe_createdAt = now, pe_updatedAt = now\<rparr>"

definition log_environment :: "host \<Rightarrow> project_access \<Rightarrow> string \<Rightarrow> string \<Rightarrow> (string \<times> json) list \<Rightarrow> domain_state \<Rightarrow> domain_state" where
  "log_environment h access action i extra S =
     log_project h (pa_userId access) action ''environment'' i
       (Some (JObj ((''projectId'', JStr (pj_id (pa_project access))) # extra))) S"

definition post_environment :: "host \<Rightarrow> route_request \<Rightarrow> domain_state \<Rightarrow> domain_result" where
  "post_environment h rq = in_project ''projects.manage_environments'' rq (\<lambda>access S.
     if pj_status (pa_project access) = ProjectArchived
     then (Inr (Problem 409 ''Archived projects cannot receive new environments''), S)
     else body_as rq (environmentInput False) ''Invalid environment'' (\<lambda>v S.
       let (i, S1) = draw_id h S; e = new_environment access (clock (ds_cp S1)) v i in
       if list_ex (environment_conflict e) (t_environments (ds_cp S1))
       then (Inr (Problem 409 ''Environment slug already exists''), S1)
       else (Inr (Reply 201 (JObj [(''id'', JStr i), (''slug'', JStr (pe_slug e))])),
             log_environment h access ''environment.created'' i [(''slug'', JStr (pe_slug e))]
               (S1\<lparr>ds_cp := (ds_cp S1)\<lparr>t_environments := t_environments (ds_cp S1) @ [e]\<rparr>\<rparr>))) S)"

definition patched_environment :: "environment_input \<Rightarrow> project_environment \<Rightarrow> project_environment" where
  "patched_environment v e =
     e\<lparr>pe_name := or_else (ei_name v) (pe_name e), pe_slug := or_else (ei_name v) (pe_slug e),
       pe_displayName := or_else (ei_displayName v) (pe_displayName e), pe_branch := or_else (ei_branch v) (pe_branch e),
       pe_autoDeployEnabled := or_else (ei_autoDeployEnabled v) (pe_autoDeployEnabled e),
       pe_protected := or_else (ei_protected v) (pe_protected e)\<rparr>"

definition environment_fields :: "environment_input \<Rightarrow> string list" where
  "environment_fields v =
     (if ei_name v \<noteq> None then [''name''] else []) @ (if ei_displayName v \<noteq> None then [''displayName''] else [])
     @ (if ei_branch v \<noteq> None then [''branch''] else []) @ (if ei_autoDeployEnabled v \<noteq> None then [''autoDeployEnabled''] else [])
     @ (if ei_protected v \<noteq> None then [''protected''] else []) @ (if ei_name v \<noteq> None then [''slug''] else [])"

definition in_environment ::
  "string \<Rightarrow> route_request \<Rightarrow> (project_access \<Rightarrow> project_environment \<Rightarrow> domain_state \<Rightarrow> domain_result) \<Rightarrow> domain_state \<Rightarrow> domain_result" where
  "in_environment permission rq handler = in_project permission rq (\<lambda>access S.
     case environmentInScope (pj_id (pa_project access)) (wr_environmentId rq) (ds_cp S) of
       None \<Rightarrow> (Inr (Problem 404 ''Environment not found''), S)
     | Some e \<Rightarrow> handler access e S)"

definition patch_environment :: "host \<Rightarrow> route_request \<Rightarrow> domain_state \<Rightarrow> domain_result" where
  "patch_environment h rq = in_environment ''projects.manage_environments'' rq (\<lambda>access e.
     body_as rq environmentUpdate ''Invalid environment'' (\<lambda>v S.
       if list_ex (\<lambda>f. pe_id f \<noteq> pe_id e \<and> environment_conflict (patched_environment v e) f) (t_environments (ds_cp S))
       then (Inr (Problem 409 ''Environment slug already exists''), S)
       else (Inr (Reply 200 (JStr (pe_id e))),
             log_environment h access ''environment.updated'' (pe_id e) [(''fields'', JArr (map JStr (environment_fields v)))]
               (S\<lparr>ds_cp := (ds_cp S)\<lparr>t_environments := upd_where (\<lambda>f. pe_id f = pe_id e)
                   (\<lambda>f. (patched_environment v f)\<lparr>pe_updatedAt := clock (ds_cp S)\<rparr>) (t_environments (ds_cp S))\<rparr>\<rparr>))))"

definition delete_environment :: "host \<Rightarrow> route_request \<Rightarrow> domain_state \<Rightarrow> domain_result" where
  "delete_environment h rq = in_environment ''projects.manage_environments'' rq (\<lambda>access e S.
     let pid = pj_id (pa_project access) in
     if pe_protected e then (Inr (Problem 409 ''Protected environments cannot be deleted''), S)
     else if pj_defaultEnvironmentId (pa_project access) = Some (pe_id e)
     then (Inr (Problem 409 ''Set another default environment before deleting this one''), S)
     else if list_ex (\<lambda>a. a_projectId a = pid \<and> a_defaultEnvironmentId a = Some (pe_id e)) (t_applications (ds_cp S))
     then (Inr (Problem 409 ''Set another default environment on every application before deleting this environment''), S)
     else (Inr NoContent, log_environment h access ''environment.deleted'' (pe_id e) []
             (S\<lparr>ds_cp := drop_environments {pe_id e} (ds_cp S)\<rparr>)))"

subsection \<open>Variables of an environment\<close>

definition variableInput :: "string \<Rightarrow> json \<Rightarrow> (string \<times> string \<times> bool) option" where
  "variableInput rawKey j =
     Option.bind (z_object j) (\<lambda>j.
     Option.bind (z_req (z_sized 0 16384) ''value'' j) (\<lambda>value.
     Option.bind (z_default z_bool False ''isSecret'' j) (\<lambda>secret.
       if variable_key_ok (trim_str rawKey) then Some (trim_str rawKey, value, secret) else None)))"

definition environment_variables ::
  "(string \<Rightarrow> string \<Rightarrow> rat) \<Rightarrow> (string \<Rightarrow> string option) \<Rightarrow> route_request \<Rightarrow> domain_state \<Rightarrow> domain_result" where
  "environment_variables collate dec rq = in_environment ''projects.read'' rq (\<lambda>access e S.
     let shown = filter (\<lambda>v. \<not> ev_isSecret v \<or> ''secrets.read_metadata'' \<in> set (pa_permissions access))
           (js_sort (\<lambda>a b. collate (ev_key a) (ev_key b))
             (filter (\<lambda>v. ev_environmentId v = pe_id e) (t_environmentVariables (ds_cp S)))) in
     case those (map (\<lambda>v. map_option (\<lambda>text. JObj [(''id'', JStr (ev_id v)), (''key'', JStr (ev_key v)),
            (''isSecret'', JBool (ev_isSecret v)), (''value'', text)])
          (if ev_isSecret v then Some JNull else map_option JStr (dec (ev_valueEncrypted v)))) shown) of
       None \<Rightarrow> (Inl (Js_error ''OperationError''), S)
     | Some items \<Rightarrow> (Inr (Reply 200 (JArr items)), S))"

definition store_environment_variable ::
  "host \<Rightarrow> (nat \<Rightarrow> string \<Rightarrow> string) \<Rightarrow> string \<Rightarrow> string \<times> string \<times> bool \<Rightarrow> cp \<Rightarrow> cp" where
  "store_environment_variable h enc eid v s =
     (case v of (key, value, secret) \<Rightarrow>
        let (cipher, s1) = (enc (uuid_next s) value, s\<lparr>uuid_next := Suc (uuid_next s)\<rparr>) in
        case List.find (\<lambda>r. ev_environmentId r = eid \<and> ev_key r = key) (t_environmentVariables s) of
          Some r \<Rightarrow> s1\<lparr>t_environmentVariables := upd_where (\<lambda>q. ev_id q = ev_id r)
              (\<lambda>q. q\<lparr>ev_key := key, ev_valueEncrypted := cipher, ev_isSecret := secret, ev_updatedAt := clock s1\<rparr>)
              (t_environmentVariables s1)\<rparr>
        | None \<Rightarrow> (let (i, s2) = randomUUID h s1 in
            s2\<lparr>t_environmentVariables := t_environmentVariables s2 @ [\<lparr>ev_id = i, ev_environmentId = eid, ev_key = key,
              ev_valueEncrypted = cipher, ev_isSecret = secret, ev_createdAt = clock s2, ev_updatedAt = clock s2\<rparr>]\<rparr>))"

definition in_updatable ::
  "route_request \<Rightarrow> (project_access \<Rightarrow> project_environment \<Rightarrow> domain_state \<Rightarrow> domain_result) \<Rightarrow> domain_state \<Rightarrow> domain_result" where
  "in_updatable rq handler = in_project ''projects.read'' rq (\<lambda>access S.
     if ''projects.update'' \<notin> set (pa_permissions access) then (Inr (Problem 403 ''Permission required: projects.update''), S)
     else (case environmentInScope (pj_id (pa_project access)) (wr_environmentId rq) (ds_cp S) of
             None \<Rightarrow> (Inr (Problem 404 ''Environment not found''), S)
           | Some e \<Rightarrow> handler access e S))"

definition put_environment_variable :: "host \<Rightarrow> (nat \<Rightarrow> string \<Rightarrow> string) \<Rightarrow> route_request \<Rightarrow> string \<Rightarrow> domain_state \<Rightarrow> domain_result" where
  "put_environment_variable h enc rq rawKey = in_updatable rq (\<lambda>access e.
     body_as rq (variableInput rawKey) ''Invalid environment variable'' (\<lambda>v S.
       case v of (key, value, secret) \<Rightarrow>
         (Inr (Reply 200 (JObj [(''key'', JStr key), (''isSecret'', JBool secret), (''value'', if secret then JNull else JStr value)])),
          S\<lparr>ds_cp := store_environment_variable h enc (pe_id e) v (ds_cp S)\<rparr>)))"

text \<open>A variable that a secret attachment names cannot go (its foreign key restricts the deletion).\<close>

definition delete_environment_variable :: "route_request \<Rightarrow> string \<Rightarrow> domain_state \<Rightarrow> domain_result" where
  "delete_environment_variable rq key = in_updatable rq (\<lambda>access e S.
     let s = ds_cp S; P = (\<lambda>v. ev_environmentId v = pe_id e \<and> ev_key v = key) in
     if \<not> list_ex P (t_environmentVariables s) then (Inr (Problem 404 ''Environment variable not found''), S)
     else if list_ex (\<lambda>a. list_ex (\<lambda>v. P v \<and> sa_secretEnvironmentVariableId a = ev_id v) (t_environmentVariables s))
               (t_secretAttachments s)
     then (Inl (Js_error ''23503''), S)
     else (Inr NoContent, S\<lparr>ds_cp := s\<lparr>t_environmentVariables := del_where P (t_environmentVariables s)\<rparr>\<rparr>))"

end
