(* ===== verification/TeamRoutes.thy ===== *)
theory TeamRoutes
  imports EnvironmentRoutes
begin

text \<open>
  The teams of an organisation, their members and the projects they are assigned to
  (\<open>apps/api/src/routes/teams.routes.ts\<close>). \<open>team_member\<close> has no unique index on team and user, so no insert of a member is
  rejected.
\<close>

record team_scope =
  ts_org :: org_row
  ts_permissions :: "string list"
  ts_userId :: string

definition team_access_scope :: "iam \<Rightarrow> string option \<Rightarrow> string \<Rightarrow> team_scope option" where
  "team_access_scope m session slug =
     map_option (\<lambda>a. \<lparr>ts_org = oa_org a,
         ts_permissions = resolveRolePermissions m (mb_role (oa_membership a)) (Some (og_id (oa_org a))), ts_userId = oa_userId a\<rparr>)
       (resolveOrganizationAccess m session slug)"

definition scopedTeam :: "string \<Rightarrow> string \<Rightarrow> iam \<Rightarrow> team_row option" where
  "scopedTeam org tid m = List.find (\<lambda>t. tm_id t = tid \<and> tm_organizationId t = org) (t_teams m)"

definition in_org :: "string \<Rightarrow> route_request \<Rightarrow> (team_scope \<Rightarrow> domain_state \<Rightarrow> domain_result) \<Rightarrow> domain_state \<Rightarrow> domain_result" where
  "in_org permission rq handler S =
     (case team_access_scope (ds_iam S) (wr_session rq) (wr_orgSlug rq) of
        None \<Rightarrow> (Inr (Problem 404 ''Not found''), S)
      | Some scope \<Rightarrow>
          if permission \<notin> set (ts_permissions scope) then (Inr (Problem 403 (''Permission required: '' @ permission)), S)
          else handler scope S)"

definition on_iam :: "(iam \<Rightarrow> iam) \<Rightarrow> domain_state \<Rightarrow> domain_state" where
  "on_iam f S = S\<lparr>ds_iam := f (ds_iam S)\<rparr>"

definition log_team :: "host \<Rightarrow> team_scope \<Rightarrow> string \<Rightarrow> string \<Rightarrow> domain_state \<Rightarrow> domain_state" where
  "log_team h scope action tid S =
     log_project h (ts_userId scope) action ''team'' tid (Some (JObj [(''organizationId'', JStr (og_id (ts_org scope)))])) S"

definition team_name :: "json \<Rightarrow> string option" where
  "team_name j = Option.bind (z_object j) (z_req (z_trimmed 2 80) ''name'')"

definition post_team :: "host \<Rightarrow> route_request \<Rightarrow> domain_state \<Rightarrow> domain_result" where
  "post_team h rq = in_org ''teams.create'' rq (\<lambda>scope. body_as rq team_name ''Invalid team name'' (\<lambda>name S.
     let (i, S1) = draw_id h S; (mi, S2) = draw_id h S1 in
     (Inr (Reply 201 (JObj [(''id'', JStr i), (''name'', JStr name)])),
      log_team h scope ''team.created'' i (on_iam (\<lambda>m. m\<lparr>
        t_teams := t_teams m @ [\<lparr>tm_id = i, tm_name = name, tm_organizationId = og_id (ts_org scope)\<rparr>],
        t_teamMembers := t_teamMembers m @ [\<lparr>tmm_id = mi, tmm_teamId = i, tmm_userId = ts_userId scope\<rparr>]\<rparr>) S2))))"

definition patch_team :: "host \<Rightarrow> route_request \<Rightarrow> domain_state \<Rightarrow> domain_result" where
  "patch_team h rq = in_org ''teams.update'' rq (\<lambda>scope. body_as rq team_name ''Invalid team name'' (\<lambda>name S.
     case scopedTeam (og_id (ts_org scope)) (wr_teamId rq) (ds_iam S) of
       None \<Rightarrow> (Inr (Problem 404 ''Team not found''), S)
     | Some t \<Rightarrow> (Inr (Reply 200 (JStr (tm_id t))), log_team h scope ''team.updated'' (tm_id t)
          (on_iam (\<lambda>m. m\<lparr>t_teams := upd_where (\<lambda>r. tm_id r = wr_teamId rq \<and> tm_organizationId r = og_id (ts_org scope))
             (\<lambda>r. r\<lparr>tm_name := name\<rparr>) (t_teams m)\<rparr>) S))))"

text \<open>Deleting a team deletes its members and assignments and clears the legacy column of its projects.\<close>

definition drop_team :: "string \<Rightarrow> string \<Rightarrow> iam \<Rightarrow> iam" where
  "drop_team org tid m =
     m\<lparr>t_projects := upd_where (\<lambda>p. pj_teamId p = Some tid) (\<lambda>p. p\<lparr>pj_teamId := None\<rparr>) (t_projects m),
       t_teams := del_where (\<lambda>r. tm_id r = tid \<and> tm_organizationId r = org) (t_teams m),
       t_teamMembers := del_where (\<lambda>r. tmm_teamId r = tid) (t_teamMembers m),
       t_projectTeams := del_where (\<lambda>r. pt_teamId r = tid) (t_projectTeams m)\<rparr>"

text \<open>The grants of the team on game servers go with it, as the schema says.\<close>

definition drop_team_grants :: "string \<Rightarrow> domain_state \<Rightarrow> domain_state" where
  "drop_team_grants tid S =
     S\<lparr>ds_cp := (ds_cp S)\<lparr>t_gameServerAccess := del_where (\<lambda>g. ga_teamId g = Some tid) (t_gameServerAccess (ds_cp S))\<rparr>\<rparr>"

definition delete_team :: "host \<Rightarrow> route_request \<Rightarrow> domain_state \<Rightarrow> domain_result" where
  "delete_team h rq = in_org ''teams.delete'' rq (\<lambda>scope S.
     case scopedTeam (og_id (ts_org scope)) (wr_teamId rq) (ds_iam S) of
       None \<Rightarrow> (Inr (Problem 404 ''Team not found''), S)
     | Some t \<Rightarrow> (Inr NoContent, log_team h scope ''team.deleted'' (tm_id t)
          (drop_team_grants (wr_teamId rq) (on_iam (drop_team (og_id (ts_org scope)) (wr_teamId rq)) S))))"

definition post_team_member :: "host \<Rightarrow> route_request \<Rightarrow> domain_state \<Rightarrow> domain_result" where
  "post_team_member h rq = in_org ''teams.update'' rq (\<lambda>scope. body_as rq
     (\<lambda>j. Option.bind (z_object j) (z_req nonempty_id ''userId'')) ''Invalid member'' (\<lambda>user S.
     if scopedTeam (og_id (ts_org scope)) (wr_teamId rq) (ds_iam S) = None then (Inr (Problem 404 ''Team not found''), S)
     else if find_membership (og_id (ts_org scope)) user (ds_iam S) = None
     then (Inr (Problem 400 ''User is not an organization member''), S)
     else (let (i, S1) = draw_id h S in
           (Inr (Reply 201 JNull), on_iam (\<lambda>m. m\<lparr>t_teamMembers := t_teamMembers m @
              [\<lparr>tmm_id = i, tmm_teamId = wr_teamId rq, tmm_userId = user\<rparr>]\<rparr>) S1))))"

definition delete_team_member :: "route_request \<Rightarrow> domain_state \<Rightarrow> domain_result" where
  "delete_team_member rq = in_org ''teams.update'' rq (\<lambda>scope S.
     if scopedTeam (og_id (ts_org scope)) (wr_teamId rq) (ds_iam S) = None then (Inr (Problem 404 ''Team not found''), S)
     else (Inr NoContent, on_iam (\<lambda>m. m\<lparr>t_teamMembers :=
        del_where (\<lambda>r. tmm_teamId r = wr_teamId rq \<and> tmm_userId r = wr_userId rq) (t_teamMembers m)\<rparr>) S))"

definition team_and_project ::
  "route_request \<Rightarrow> (team_scope \<Rightarrow> team_row \<Rightarrow> project \<Rightarrow> domain_state \<Rightarrow> domain_result) \<Rightarrow> domain_state \<Rightarrow> domain_result" where
  "team_and_project rq handler = in_org ''projects.manage_access'' rq (\<lambda>scope S.
     case scopedTeam (og_id (ts_org scope)) (wr_teamId rq) (ds_iam S) of
       None \<Rightarrow> (Inr (Problem 404 ''Team not found''), S)
     | Some t \<Rightarrow>
         (case find_project (wr_projectId rq) (og_id (ts_org scope)) (ds_iam S) of
            None \<Rightarrow> (Inr (Problem 404 ''Project not found''), S)
          | Some p \<Rightarrow> handler scope t p S))"

definition put_team_project :: "host \<Rightarrow> route_request \<Rightarrow> domain_state \<Rightarrow> domain_result" where
  "put_team_project h rq = team_and_project rq (\<lambda>scope t p S.
     let S1 = update_projects (\<lambda>q. pj_id q = pj_id p)
           (\<lambda>q. q\<lparr>pj_teamId := (case pj_teamId p of None \<Rightarrow> Some (tm_id t) | Some x \<Rightarrow> Some x), pj_accessMode := AccessTeam\<rparr>) S;
         S2 = on_iam (\<lambda>m. if list_ex (\<lambda>r. pt_projectId r = pj_id p \<and> pt_teamId r = tm_id t) (t_projectTeams m) then m
            else m\<lparr>t_projectTeams := t_projectTeams m @ assigned_rows (pj_id p) (ts_userId scope) [tm_id t]\<rparr>) S1
     in (Inr (Reply 200 (JObj [(''id'', JStr (pj_id p)),
           (''teamId'', JStr (case pj_teamId p of None \<Rightarrow> tm_id t | Some x \<Rightarrow> x))])),
         log_project h (ts_userId scope) ''project.team_added'' ''project'' (pj_id p) (Some (JObj [(''teamId'', JStr (tm_id t))])) S2))"

definition remaining_teams :: "string \<Rightarrow> iam \<Rightarrow> string list" where
  "remaining_teams pid m = map pt_teamId (filter (\<lambda>r. pt_projectId r = pid) (t_projectTeams m))"

definition delete_team_project :: "host \<Rightarrow> route_request \<Rightarrow> domain_state \<Rightarrow> domain_result" where
  "delete_team_project h rq = team_and_project rq (\<lambda>scope t p S.
     if \<not> list_ex (\<lambda>r. pt_projectId r = pj_id p \<and> pt_teamId r = tm_id t) (t_projectTeams (ds_iam S))
     then (Inr (Problem 404 ''Project not assigned to this team''), S)
     else (let S1 = on_iam (\<lambda>m. m\<lparr>t_projectTeams :=
                 del_where (\<lambda>r. pt_projectId r = pj_id p \<and> pt_teamId r = tm_id t) (t_projectTeams m)\<rparr>) S;
               remaining = remaining_teams (pj_id p) (ds_iam S1)
           in (Inr NoContent,
               log_project h (ts_userId scope) ''project.team_removed'' ''project'' (pj_id p) (Some (JObj [(''teamId'', JStr (tm_id t))]))
                 (update_projects (\<lambda>q. pj_id q = pj_id p)
                   (\<lambda>q. q\<lparr>pj_teamId := first_team remaining,
                          pj_accessMode := (if remaining = [] then AccessOrganization else AccessTeam)\<rparr>) S1))))"

end
