(* ===== verification/ProjectProperties.thy ===== *)
theory ProjectProperties
  imports TeamRoutes DomainProperties SourceProperties
begin

text \<open>
  Properties of projects, environments and teams: an invariant that every route keeps, and what removing the last team of a
  project does to its access policy.
\<close>

subsection \<open>The invariant\<close>

definition default_env_ok :: "cp \<Rightarrow> project \<Rightarrow> bool" where
  "default_env_ok s p \<longleftrightarrow> (\<forall>i. pj_defaultEnvironmentId p = Some i \<longrightarrow>
     (\<exists>e \<in> set (t_environments s). pe_id e = i \<and> pe_projectId e = pj_id p))"

definition assignment_ok :: "iam \<Rightarrow> project_team_row \<Rightarrow> bool" where
  "assignment_ok m r \<longleftrightarrow> (\<exists>p \<in> set (t_projects m). \<exists>t \<in> set (t_teams m).
     pj_id p = pt_projectId r \<and> tm_id t = pt_teamId r \<and> tm_organizationId t = pj_organizationId p)"

definition projects_sound :: "domain_state \<Rightarrow> bool" where
  "projects_sound S \<longleftrightarrow> sorted_wrt (\<lambda>p q. \<not> project_conflict p q) (t_projects (ds_iam S))
     \<and> sorted_wrt (\<lambda>e f. \<not> environment_conflict e f) (t_environments (ds_cp S))
     \<and> (\<forall>p \<in> set (t_projects (ds_iam S)). default_env_ok (ds_cp S) p)
     \<and> (\<forall>r \<in> set (t_projectTeams (ds_iam S)). assignment_ok (ds_iam S) r)"

lemma sorted_wrt_pair:
  "sorted_wrt (\<lambda>a b. \<not> C a b) xs \<Longrightarrow> (\<And>a b. C a b \<Longrightarrow> C b a) \<Longrightarrow> x \<in> set xs \<Longrightarrow> y \<in> set xs \<Longrightarrow> C x y \<Longrightarrow> x = y"
  by (induction xs) auto

lemma project_conflict_sym: "project_conflict p q \<Longrightarrow> project_conflict q p"
  by (auto simp: project_conflict_def)

lemma environment_conflict_sym: "environment_conflict e f \<Longrightarrow> environment_conflict f e"
  by (auto simp: environment_conflict_def)

lemma conflict_updated [simp]:
  "project_conflict (p\<lparr>pj_updatedAt := t\<rparr>) q = project_conflict p q"
  "environment_conflict (e\<lparr>pe_updatedAt := t\<rparr>) f = environment_conflict e f"
  by (simp_all add: project_conflict_def environment_conflict_def)

lemma default_env_updated [simp]: "default_env_ok s (p\<lparr>pj_updatedAt := t\<rparr>) = default_env_ok s p"
  by (simp add: default_env_ok_def)

lemma project_unique:
  "projects_sound S \<Longrightarrow> p \<in> set (t_projects (ds_iam S)) \<Longrightarrow> q \<in> set (t_projects (ds_iam S)) \<Longrightarrow> project_conflict p q \<Longrightarrow> p = q"
  unfolding projects_sound_def by (metis sorted_wrt_pair project_conflict_sym)

lemma environment_unique:
  "projects_sound S \<Longrightarrow> e \<in> set (t_environments (ds_cp S)) \<Longrightarrow> f \<in> set (t_environments (ds_cp S)) \<Longrightarrow> pe_id e = pe_id f \<Longrightarrow> e = f"
  unfolding projects_sound_def by (metis sorted_wrt_pair environment_conflict_sym environment_conflict_def)

lemma default_environment:
  assumes "projects_sound S" "p \<in> set (t_projects (ds_iam S))" "pj_defaultEnvironmentId p = Some i"
  obtains e where "e \<in> set (t_environments (ds_cp S))" "pe_id e = i" "pe_projectId e = pj_id p"
  using assms unfolding projects_sound_def default_env_ok_def by blast

lemma audit_tables [simp]:
  "t_environments (audit h u a ty i md s) = t_environments s" "t_applications (audit h u a ty i md s) = t_applications s"
  by (simp_all add: audit_def randomUUID_def)

lemma log_project_sound [simp]: "projects_sound (log_project h u a ty i md S) = projects_sound S"
  by (simp add: projects_sound_def log_project_def default_env_ok_def)

lemma draw_sound: "projects_sound S \<Longrightarrow> draw_id h S = (i, S1) \<Longrightarrow> projects_sound S1"
  by (auto simp: draw_id_def randomUUID_def projects_sound_def default_env_ok_def)

text \<open>An update of projects that keeps their keys out of conflict and their default environments in place.\<close>

lemma update_projects_sound:
  assumes "projects_sound S" "\<And>p. P p \<longleftrightarrow> pj_id p = pid"
    and "\<And>p. p \<in> set (t_projects (ds_iam S)) \<Longrightarrow> pj_id p = pid \<Longrightarrow>
      pj_id (f p) = pid \<and> pj_organizationId (f p) = pj_organizationId p \<and> default_env_ok (ds_cp S) (f p)
      \<and> (\<forall>q \<in> set (t_projects (ds_iam S)). pj_id q \<noteq> pid \<longrightarrow> \<not> project_conflict (f p) q)"
  shows "projects_sound (update_projects P f S)"
proof -
  let ?g = "\<lambda>p. (f p)\<lparr>pj_updatedAt := clock (ds_cp S)\<rparr>" and ?ps = "t_projects (ds_iam S)"
  have "sorted_wrt (\<lambda>p q. \<not> project_conflict p q) (upd_where P ?g ?ps)"
    by (rule unique_update [OF _ project_conflict_sym]) (use assms in \<open>auto simp: projects_sound_def project_conflict_def\<close>)
  moreover have "default_env_ok (ds_cp S) p" if "p \<in> set (upd_where P ?g ?ps)" for p
    using that by (rule upd_whereE) (use assms in \<open>auto simp: projects_sound_def\<close>)
  moreover have "assignment_ok (ds_iam (update_projects P f S)) r" if "r \<in> set (t_projectTeams (ds_iam S))" for r
  proof -
    from assms(1) that obtain p t where p: "p \<in> set ?ps" "t \<in> set (t_teams (ds_iam S))" "pj_id p = pt_projectId r"
      "tm_id t = pt_teamId r" "tm_organizationId t = pj_organizationId p" by (auto simp: projects_sound_def assignment_ok_def)
    have "(if P p then ?g p else p) \<in> set (upd_where P ?g ?ps)" using p(1) by (auto simp: set_upd_where)
    moreover have "pj_id (if P p then ?g p else p) = pj_id p" "pj_organizationId (if P p then ?g p else p) = pj_organizationId p"
      using assms(2) assms(3) [OF p(1)] by auto
    ultimately show ?thesis unfolding assignment_ok_def update_projects_def
      using p by (intro bexI [of _ "if P p then ?g p else p"] bexI [of _ t]) simp_all
  qed
  ultimately show ?thesis using assms(1) by (simp add: projects_sound_def update_projects_def default_env_ok_def)
qed

lemma update_columns_sound:
  assumes "projects_sound S" "\<And>p. pj_id (f p) = pj_id p \<and> pj_organizationId (f p) = pj_organizationId p
      \<and> pj_slug (f p) = pj_slug p \<and> pj_defaultEnvironmentId (f p) = pj_defaultEnvironmentId p"
  shows "projects_sound (update_projects (\<lambda>p. pj_id p = pid) f S)"
proof (rule update_projects_sound [OF assms(1)])
  fix p
  assume p: "p \<in> set (t_projects (ds_iam S))" "pj_id p = pid"
  have "\<not> project_conflict p q" if "q \<in> set (t_projects (ds_iam S))" "pj_id q \<noteq> pid" for q
    using project_unique [OF assms(1) p(1) that(1)] p that by auto
  with p assms show "pj_id (f p) = pid \<and> pj_organizationId (f p) = pj_organizationId p \<and> default_env_ok (ds_cp S) (f p)
      \<and> (\<forall>q \<in> set (t_projects (ds_iam S)). pj_id q \<noteq> pid \<longrightarrow> \<not> project_conflict (f p) q)"
    by (auto simp: projects_sound_def default_env_ok_def project_conflict_def)
qed simp

subsection \<open>The guards\<close>

lemma access_project:
  assumes "resolveProjectAccess m session slug pid permission = Some access"
  shows "pa_project access \<in> set (t_projects m)" "pj_id (pa_project access) = pid"
    "pj_organizationId (pa_project access) = og_id (pa_organization access)"
  using assms by (auto simp: resolveProjectAccess_def find_project_def Let_def split: option.splits if_splits dest!: find_Some_iff')

lemma in_project_sound:
  assumes "projects_sound S"
    and "\<And>access. pa_project access \<in> set (t_projects (ds_iam S))
      \<Longrightarrow> pj_organizationId (pa_project access) = og_id (pa_organization access) \<Longrightarrow> projects_sound (snd (handler access S))"
  shows "projects_sound (snd (in_project permission rq handler S))"
  using assms access_project [of "ds_iam S" "wr_session rq" "wr_orgSlug rq" "wr_projectId rq" permission]
  by (auto simp: in_project_def split: option.split)

lemma body_as_sound:
  "projects_sound S \<Longrightarrow> (\<And>v j. schema j = Some v \<Longrightarrow> projects_sound (snd (handler v S)))
     \<Longrightarrow> projects_sound (snd (body_as rq schema invalid handler S))"
  by (auto simp: body_as_def split: option.split)

lemma in_environment_sound:
  assumes "projects_sound S"
    and "\<And>access e. e \<in> set (t_environments (ds_cp S)) \<Longrightarrow> pe_projectId e = pj_id (pa_project access) \<Longrightarrow>
      pa_project access \<in> set (t_projects (ds_iam S)) \<Longrightarrow> projects_sound (snd (handler access e S))"
  shows "projects_sound (snd (in_environment permission rq handler S))"
  unfolding in_environment_def
  by (rule in_project_sound [OF assms(1)])
    (auto simp: environmentInScope_def assms split: option.split dest!: find_Some_iff')

subsection \<open>Projects\<close>

lemma insert_project_sound:
  assumes "projects_sound S" "list_all (team_of_org (og_id org) (ds_iam S)) (given_teams v)"
  shows "projects_sound (snd (insert_project h org user v S))"
proof -
  obtain i S1 where d1: "draw_id h S = (i, S1)" by fastforce
  obtain env S2 where d2: "draw_id h S1 = (env, S2)" by fastforce
  have S2: "projects_sound S2" using draw_sound [OF draw_sound [OF assms(1) d1] d2] .
  have m: "ds_iam S2 = ds_iam S" using d1 d2 by (auto simp: draw_id_def randomUUID_def)
  let ?p = "new_project (og_id org) user (clock (ds_cp S2)) v (given_teams v) i env"
  let ?e = "production_environment (og_id org) i (clock (ds_cp S2)) env"
  let ?T = "S2\<lparr>ds_iam := (ds_iam S2)\<lparr>t_projects := t_projects (ds_iam S2) @ [?p],
                       t_projectTeams := t_projectTeams (ds_iam S2) @ assigned_rows i user (given_teams v)\<rparr>,
                     ds_cp := (ds_cp S2)\<lparr>t_environments := t_environments (ds_cp S2) @ [?e]\<rparr>\<rparr>"
  have "projects_sound ?T"
    if ok: "\<not> list_ex (project_conflict ?p) (t_projects (ds_iam S2))" "\<not> list_ex (environment_conflict ?e) (t_environments (ds_cp S2))"
  proof -
    have "\<forall>q \<in> set (t_projects (ds_iam S2)). \<not> project_conflict q ?p" "\<forall>f \<in> set (t_environments (ds_cp S2)). \<not> environment_conflict f ?e"
      using ok by (auto simp: list_ex_iff dest: project_conflict_sym environment_conflict_sym)
    moreover have "default_env_ok (ds_cp ?T) ?p" by (simp add: default_env_ok_def new_project_def production_environment_def)
    moreover have "default_env_ok (ds_cp ?T) q" if "default_env_ok (ds_cp S2) q" for q using that by (auto simp: default_env_ok_def)
    moreover have "assignment_ok (ds_iam ?T) r" if "assignment_ok (ds_iam S2) r" for r using that by (auto simp: assignment_ok_def)
    moreover have "assignment_ok (ds_iam ?T) r" if "r \<in> set (assigned_rows i user (given_teams v))" for r
      using that assms(2) m by (auto simp: assignment_ok_def assigned_rows_def new_project_def list_all_iff team_of_org_def list_ex_iff)
    ultimately show ?thesis using S2 by (auto simp: projects_sound_def sorted_wrt_append)
  qed
  with S2 show ?thesis by (simp add: insert_project_def d1 d2 Let_def)
qed

lemma create_project_sound: "projects_sound S \<Longrightarrow> projects_sound (snd (create_project h url rq S))"
  by (auto simp: create_project_def insert_project_sound split: option.split prod.split)

lemma patched_rows_sound:
  assumes S: "projects_sound S" and p: "p \<in> set (t_projects (ds_iam S))"
    and free: "\<not> list_ex (\<lambda>q. pj_id q \<noteq> pj_id p \<and> project_conflict (patched_project v p) q) (t_projects (ds_iam S))"
  shows "projects_sound (update_projects (\<lambda>q. pj_id q = pj_id p) (patched_project v) S)"
proof (rule update_projects_sound [OF S])
  fix q
  assume q: "q \<in> set (t_projects (ds_iam S))" "pj_id q = pj_id p"
  then have "q = p"
    using project_unique [OF S q(1) p] by (auto simp: project_conflict_def)
  with S q free show "pj_id (patched_project v q) = pj_id p \<and> pj_organizationId (patched_project v q) = pj_organizationId q
      \<and> default_env_ok (ds_cp S) (patched_project v q)
      \<and> (\<forall>r \<in> set (t_projects (ds_iam S)). pj_id r \<noteq> pj_id p \<longrightarrow> \<not> project_conflict (patched_project v q) r)"
    by (auto simp: projects_sound_def default_env_ok_def patched_project_def list_ex_iff)
qed simp

lemma patch_project_sound: "projects_sound S \<Longrightarrow> projects_sound (snd (patch_project h rq S))"
  unfolding patch_project_def
  by (rule in_project_sound, assumption, rule body_as_sound, assumption) (auto simp: Let_def intro: patched_rows_sound)

text \<open>Changing columns that carry no key, and replacing the teams of a project by teams of its organisation.\<close>

lemma assigned_teams_sound:
  assumes S: "projects_sound S" and p: "p \<in> set (t_projects (ds_iam S))"
    and tids: "list_all (team_of_org (pj_organizationId p) (ds_iam S)) tids"
    and rows: "\<And>r. r \<in> set rows \<Longrightarrow> r \<in> set (t_projectTeams (ds_iam S)) \<or> pt_projectId r = pj_id p \<and> pt_teamId r \<in> set tids"
  shows "projects_sound (S\<lparr>ds_iam := (ds_iam S)\<lparr>t_projectTeams := rows\<rparr>\<rparr>)"
proof -
  have "assignment_ok (ds_iam S) r" if "r \<in> set rows" for r
    using rows [OF that]
  proof
    assume "pt_projectId r = pj_id p \<and> pt_teamId r \<in> set tids"
    with p tids show ?thesis by (fastforce simp: assignment_ok_def list_all_iff team_of_org_def list_ex_iff)
  qed (use S in \<open>simp add: projects_sound_def\<close>)
  with S show ?thesis by (auto simp: projects_sound_def assignment_ok_def)
qed

lemma update_project_teams: "t_projectTeams (ds_iam (update_projects P f S)) = t_projectTeams (ds_iam S)"
  by (simp add: update_projects_def)

lemma columns_and_teams_sound:
  assumes S: "projects_sound S" and p: "p \<in> set (t_projects (ds_iam S))"
    and f: "\<And>p. pj_id (f p) = pj_id p \<and> pj_organizationId (f p) = pj_organizationId p
      \<and> pj_slug (f p) = pj_slug p \<and> pj_defaultEnvironmentId (f p) = pj_defaultEnvironmentId p"
    and tids: "list_all (team_of_org (pj_organizationId p) (ds_iam S)) tids"
    and rows: "\<And>r. r \<in> set rows \<Longrightarrow> r \<in> set (t_projectTeams (ds_iam S)) \<or> pt_projectId r = pj_id p \<and> pt_teamId r \<in> set tids"
  shows "projects_sound (update_projects (\<lambda>q. pj_id q = pj_id p) f S
    \<lparr>ds_iam := (ds_iam (update_projects (\<lambda>q. pj_id q = pj_id p) f S))\<lparr>t_projectTeams := rows\<rparr>\<rparr>)"
proof -
  let ?S1 = "update_projects (\<lambda>q. pj_id q = pj_id p) f S" and ?p1 = "(f p)\<lparr>pj_updatedAt := clock (ds_cp S)\<rparr>"
  have "?p1 \<in> set (t_projects (ds_iam ?S1))" using p by (force simp: update_projects_def set_upd_where)
  moreover have "team_of_org org (ds_iam ?S1) = team_of_org org (ds_iam S)" for org
    by (simp add: team_of_org_def fun_eq_iff update_projects_def)
  moreover have "t_projectTeams (ds_iam ?S1) = t_projectTeams (ds_iam S)" by (simp add: update_projects_def)
  ultimately show ?thesis
    using assigned_teams_sound [OF update_columns_sound [OF S f], of ?p1 "pj_id p" tids rows] f [of p] tids rows by simp
qed

lemma put_access_sound: "projects_sound S \<Longrightarrow> projects_sound (snd (put_access h rq S))"
proof -
  assume S: "projects_sound S"
  have rows: "projects_sound (update_projects (\<lambda>q. pj_id q = pj_id p) f S
      \<lparr>ds_iam := (ds_iam (update_projects (\<lambda>q. pj_id q = pj_id p) f S))\<lparr>t_projectTeams :=
         del_where (\<lambda>r. pt_projectId r = pj_id p) (t_projectTeams (ds_iam S)) @ assigned_rows (pj_id p) user tids\<rparr>\<rparr>)"
    if "p \<in> set (t_projects (ds_iam S))" "list_all (team_of_org (pj_organizationId p) (ds_iam S)) tids"
      "f = (\<lambda>q. q\<lparr>pj_accessMode := mode, pj_teamId := team\<rparr>)" for p f user tids mode team
    by (rule columns_and_teams_sound [OF S that(1) _ that(2)]) (auto simp: that(3) assigned_rows_def)
  show ?thesis
    unfolding put_access_def
    by (rule in_project_sound [OF S], rule body_as_sound [OF S]) (auto simp: Let_def S update_project_teams intro!: rows)
qed

lemma default_environment_sound:
  assumes "projects_sound S" "e \<in> set (t_environments (ds_cp S))" "pe_projectId e = pid"
  shows "projects_sound (update_projects (\<lambda>q. pj_id q = pid) (\<lambda>q. q\<lparr>pj_defaultEnvironmentId := Some (pe_id e)\<rparr>) S)"
proof (rule update_projects_sound [OF assms(1)])
  fix p
  assume p: "p \<in> set (t_projects (ds_iam S))" "pj_id p = pid"
  have "\<not> project_conflict p q" if "q \<in> set (t_projects (ds_iam S))" "pj_id q \<noteq> pj_id p" for q
    using project_unique [OF assms(1) p(1) that(1)] that by auto
  with p assms(2,3) show "pj_id (p\<lparr>pj_defaultEnvironmentId := Some (pe_id e)\<rparr>) = pid
      \<and> pj_organizationId (p\<lparr>pj_defaultEnvironmentId := Some (pe_id e)\<rparr>) = pj_organizationId p
      \<and> default_env_ok (ds_cp S) (p\<lparr>pj_defaultEnvironmentId := Some (pe_id e)\<rparr>)
      \<and> (\<forall>q \<in> set (t_projects (ds_iam S)). pj_id q \<noteq> pid \<longrightarrow> \<not> project_conflict (p\<lparr>pj_defaultEnvironmentId := Some (pe_id e)\<rparr>) q)"
    by (auto simp: default_env_ok_def project_conflict_def)
qed simp

lemma put_default_environment_sound: "projects_sound S \<Longrightarrow> projects_sound (snd (put_default_environment h rq S))"
  unfolding put_default_environment_def
  by (rule in_project_sound, assumption, rule body_as_sound, assumption)
    (auto simp: Let_def environmentInScope_def split: option.split dest!: find_Some_iff' intro!: default_environment_sound)

lemma archive_project_sound: "projects_sound S \<Longrightarrow> projects_sound (snd (archive_project h rq S))"
  unfolding archive_project_def
  by (rule in_project_sound, assumption) (auto simp: Let_def intro: update_columns_sound)

lemma restore_project_sound: "projects_sound S \<Longrightarrow> projects_sound (snd (restore_project h rq S))"
  unfolding restore_project_def
  by (rule in_project_sound, assumption) (auto simp: Let_def intro: update_columns_sound)

lemma sorted_wrt_del: "sorted_wrt R xs \<Longrightarrow> sorted_wrt R (del_where P xs)"
  by (simp add: del_where_def sorted_wrt_filter)

lemma drop_environments_sound:
  assumes "projects_sound S"
    and "\<And>p i. p \<in> set (t_projects (ds_iam S)) \<Longrightarrow> pj_defaultEnvironmentId p = Some i \<Longrightarrow> i \<notin> ids"
  shows "projects_sound (S\<lparr>ds_cp := drop_environments ids (ds_cp S)\<rparr>)"
proof -
  have "default_env_ok (drop_environments ids (ds_cp S)) p" if p: "p \<in> set (t_projects (ds_iam S))" for p
    unfolding default_env_ok_def
  proof (intro allI impI)
    fix i
    assume i: "pj_defaultEnvironmentId p = Some i"
    then obtain e where "e \<in> set (t_environments (ds_cp S))" "pe_id e = i" "pe_projectId e = pj_id p"
      by (rule default_environment [OF assms(1) p])
    with assms(2) [OF p i] show "\<exists>e \<in> set (t_environments (drop_environments ids (ds_cp S))). pe_id e = i \<and> pe_projectId e = pj_id p"
      by (auto simp: drop_environments_def)
  qed
  with assms(1) show ?thesis by (simp add: projects_sound_def) (simp add: drop_environments_def sorted_wrt_del)
qed

lemma drop_project_sound:
  assumes S: "projects_sound S"
  shows "projects_sound (drop_project pid S)"
proof -
  have env: "default_env_ok (ds_cp (drop_project pid S)) p" if p: "p \<in> set (t_projects (ds_iam S))" "pj_id p \<noteq> pid" for p
    unfolding default_env_ok_def
  proof (intro allI impI)
    fix i
    assume "pj_defaultEnvironmentId p = Some i"
    then obtain e where e: "e \<in> set (t_environments (ds_cp S))" "pe_id e = i" "pe_projectId e = pj_id p"
      by (rule default_environment [OF S p(1)])
    have "pe_id e \<notin> project_environments pid (ds_cp S)"
    proof
      assume "pe_id e \<in> project_environments pid (ds_cp S)"
      then obtain f where "f \<in> set (t_environments (ds_cp S))" "pe_id e = pe_id f" "pe_projectId f = pid"
        by (force simp: project_environments_def)
      with environment_unique [OF S e(1) this(1,2)] e(3) p(2) show False by simp
    qed
    with e show "\<exists>e \<in> set (t_environments (ds_cp (drop_project pid S))). pe_id e = i \<and> pe_projectId e = pj_id p"
      by (auto simp: drop_project_def drop_environments_def)
  qed
  have "assignment_ok (ds_iam (drop_project pid S)) r" if "r \<in> set (t_projectTeams (ds_iam S))" "pt_projectId r \<noteq> pid" for r
  proof -
    from S that(1) obtain p t where "p \<in> set (t_projects (ds_iam S))" "t \<in> set (t_teams (ds_iam S))"
      "pj_id p = pt_projectId r" "tm_id t = pt_teamId r" "tm_organizationId t = pj_organizationId p"
      unfolding projects_sound_def assignment_ok_def by blast
    with that(2) show ?thesis unfolding assignment_ok_def
      by (intro bexI [of _ p] bexI [of _ t]) (simp_all add: drop_project_def)
  qed
  moreover have "sorted_wrt (\<lambda>p q. \<not> project_conflict p q) (t_projects (ds_iam (drop_project pid S)))"
    "sorted_wrt (\<lambda>e f. \<not> environment_conflict e f) (t_environments (ds_cp (drop_project pid S)))"
    using S by (simp_all add: projects_sound_def drop_project_def drop_environments_def sorted_wrt_del)
  moreover have "set (t_projects (ds_iam (drop_project pid S))) = {p \<in> set (t_projects (ds_iam S)). pj_id p \<noteq> pid}"
    "set (t_projectTeams (ds_iam (drop_project pid S))) = {r \<in> set (t_projectTeams (ds_iam S)). pt_projectId r \<noteq> pid}"
    by (simp_all add: drop_project_def)
  ultimately show ?thesis using env unfolding projects_sound_def by simp
qed

lemma delete_project_sound: "projects_sound S \<Longrightarrow> projects_sound (snd (delete_project h rq S))"
  unfolding delete_project_def by (rule in_project_sound, assumption) (auto simp: Let_def intro: drop_project_sound)

subsection \<open>Environments\<close>

lemma log_environment_sound [simp]: "projects_sound (log_environment h access a i extra S) = projects_sound S"
  by (simp add: log_environment_def)

lemma environments_sound:
  assumes "projects_sound S" "sorted_wrt (\<lambda>e f. \<not> environment_conflict e f) es"
    and "\<And>e. e \<in> set (t_environments (ds_cp S)) \<Longrightarrow> \<exists>f \<in> set es. pe_id f = pe_id e \<and> pe_projectId f = pe_projectId e"
  shows "projects_sound (S\<lparr>ds_cp := (ds_cp S)\<lparr>t_environments := es\<rparr>\<rparr>)"
proof -
  have "default_env_ok ((ds_cp S)\<lparr>t_environments := es\<rparr>) p" if "default_env_ok (ds_cp S) p" for p
    using that assms(3) by (fastforce simp: default_env_ok_def)
  with assms(1,2) show ?thesis by (auto simp: projects_sound_def)
qed

lemma appended_environment_sound:
  assumes "projects_sound S" "\<not> list_ex (environment_conflict e) (t_environments (ds_cp S))"
  shows "projects_sound (S\<lparr>ds_cp := (ds_cp S)\<lparr>t_environments := t_environments (ds_cp S) @ [e]\<rparr>\<rparr>)"
  using assms environment_conflict_sym
  by (intro environments_sound) (auto simp: projects_sound_def sorted_wrt_append list_ex_iff)

lemma post_environment_sound: "projects_sound S \<Longrightarrow> projects_sound (snd (post_environment h rq S))"
proof -
  assume S: "projects_sound S"
  have add: "projects_sound (S1\<lparr>ds_cp := (ds_cp S1)\<lparr>t_environments := t_environments (ds_cp S1) @ [e]\<rparr>\<rparr>)"
    if "draw_id h S = (i, S1)" "\<not> list_ex (environment_conflict e) (t_environments (ds_cp S1))" for i S1 e
    using appended_environment_sound [OF draw_sound [OF S that(1)] that(2)] .
  show ?thesis
    unfolding post_environment_def
    by (rule in_project_sound [OF S], simp add: S, intro impI, rule body_as_sound [OF S])
      (auto simp: Let_def add draw_sound [OF S] split: prod.split)
qed

lemma patch_environment_rows:
  assumes S: "projects_sound S" and e: "e \<in> set (t_environments (ds_cp S))"
    and free: "\<not> list_ex (\<lambda>f. pe_id f \<noteq> pe_id e \<and> environment_conflict (patched_environment v e) f) (t_environments (ds_cp S))"
  shows "projects_sound (S\<lparr>ds_cp := (ds_cp S)\<lparr>t_environments := upd_where (\<lambda>f. pe_id f = pe_id e)
           (\<lambda>f. (patched_environment v f)\<lparr>pe_updatedAt := t\<rparr>) (t_environments (ds_cp S))\<rparr>\<rparr>)"
proof (rule environments_sound [OF S])
  let ?g = "\<lambda>f. (patched_environment v f)\<lparr>pe_updatedAt := t\<rparr>"
  have only: "f = e" if "f \<in> set (t_environments (ds_cp S))" "pe_id f = pe_id e" for f
    using environment_unique [OF S that(1) e that(2)] .
  show "sorted_wrt (\<lambda>e f. \<not> environment_conflict e f) (upd_where (\<lambda>f. pe_id f = pe_id e) ?g (t_environments (ds_cp S)))"
    by (rule unique_update [OF _ environment_conflict_sym])
      (use S free only in \<open>auto simp: projects_sound_def environment_conflict_def list_ex_iff\<close>)
  show "\<exists>g \<in> set (upd_where (\<lambda>f. pe_id f = pe_id e) ?g (t_environments (ds_cp S))). pe_id g = pe_id f \<and> pe_projectId g = pe_projectId f"
    if "f \<in> set (t_environments (ds_cp S))" for f
  proof -
    have "(if pe_id f = pe_id e then ?g f else f) \<in> set (upd_where (\<lambda>f. pe_id f = pe_id e) ?g (t_environments (ds_cp S)))"
      using that by (auto simp: set_upd_where)
    then show ?thesis by (rule bexI [rotated]) (simp add: patched_environment_def)
  qed
qed

lemma patch_environment_sound: "projects_sound S \<Longrightarrow> projects_sound (snd (patch_environment h rq S))"
  unfolding patch_environment_def
  by (rule in_environment_sound, assumption, rule body_as_sound, assumption) (auto intro: patch_environment_rows)

lemma delete_environment_sound: "projects_sound S \<Longrightarrow> projects_sound (snd (delete_environment h rq S))"
  unfolding delete_environment_def
proof (rule in_environment_sound, assumption)
  fix access :: project_access and e
  assume S: "projects_sound S" and e: "e \<in> set (t_environments (ds_cp S))" "pe_projectId e = pj_id (pa_project access)"
    and p: "pa_project access \<in> set (t_projects (ds_iam S))"
  have "pj_defaultEnvironmentId q \<noteq> Some (pe_id e)"
    if q: "q \<in> set (t_projects (ds_iam S))" and d: "pj_defaultEnvironmentId (pa_project access) \<noteq> Some (pe_id e)" for q
  proof
    assume "pj_defaultEnvironmentId q = Some (pe_id e)"
    then obtain f where "f \<in> set (t_environments (ds_cp S))" "pe_id f = pe_id e" "pe_projectId f = pj_id q"
      by (rule default_environment [OF S q])
    with environment_unique [OF S this(1) e(1)] e(2) project_unique [OF S q p] d \<open>pj_defaultEnvironmentId q = Some (pe_id e)\<close>
    show False by (auto simp: project_conflict_def)
  qed
  with S show "projects_sound (snd (let pid = pj_id (pa_project access) in
     if pe_protected e then (Inr (Problem 409 ''Protected environments cannot be deleted''), S)
     else if pj_defaultEnvironmentId (pa_project access) = Some (pe_id e)
     then (Inr (Problem 409 ''Set another default environment before deleting this one''), S)
     else if list_ex (\<lambda>a. a_projectId a = pid \<and> a_defaultEnvironmentId a = Some (pe_id e)) (t_applications (ds_cp S))
     then (Inr (Problem 409 ''Set another default environment on every application before deleting this environment''), S)
     else (Inr NoContent, log_environment h access ''environment.deleted'' (pe_id e) []
             (S\<lparr>ds_cp := drop_environments {pe_id e} (ds_cp S)\<rparr>))))"
    by (auto simp: Let_def intro!: drop_environments_sound)
qed

subsection \<open>Teams\<close>

lemma in_org_sound:
  assumes "projects_sound S" "\<And>scope. projects_sound (snd (handler scope S))"
  shows "projects_sound (snd (in_org permission rq handler S))"
  using assms by (auto simp: in_org_def split: option.split)

lemma log_team_sound [simp]: "projects_sound (log_team h scope a i S) = projects_sound S"
  by (simp add: log_team_def)

lemma on_iam_sound:
  assumes "projects_sound S" "t_projects m = t_projects (ds_iam S)" "set (t_projectTeams m) \<subseteq> set (t_projectTeams (ds_iam S))"
    and "\<And>r t. r \<in> set (t_projectTeams m) \<Longrightarrow> t \<in> set (t_teams (ds_iam S)) \<Longrightarrow> tm_id t = pt_teamId r \<Longrightarrow>
      \<exists>u \<in> set (t_teams m). tm_id u = tm_id t \<and> tm_organizationId u = tm_organizationId t"
  shows "projects_sound (S\<lparr>ds_iam := m\<rparr>)"
proof -
  have "assignment_ok m r" if r: "r \<in> set (t_projectTeams m)" for r
  proof -
    from r assms(1,3) obtain p t where pt: "p \<in> set (t_projects (ds_iam S))" "t \<in> set (t_teams (ds_iam S))"
      "pj_id p = pt_projectId r" "tm_id t = pt_teamId r" "tm_organizationId t = pj_organizationId p"
      unfolding projects_sound_def assignment_ok_def by blast
    from assms(4) [OF r pt(2,4)] pt assms(2) show ?thesis unfolding assignment_ok_def by force
  qed
  with assms(1,2) show ?thesis by (simp add: projects_sound_def)
qed

lemma post_team_sound:
  assumes S: "projects_sound S"
  shows "projects_sound (snd (post_team h rq S))"
proof -
  have "projects_sound (on_iam (\<lambda>m. m\<lparr>t_teams := t_teams m @ ts, t_teamMembers := ms\<rparr>) S2)"
    if "draw_id h S = (i, S1)" "draw_id h S1 = (j, S2)" for i j S1 S2 ts ms
    unfolding on_iam_def using draw_sound [OF draw_sound [OF S that(1)] that(2)] by (intro on_iam_sound) auto
  then show ?thesis
    unfolding post_team_def
    by (intro in_org_sound [OF S] body_as_sound [OF S]) (auto simp: Let_def on_iam_def split: prod.split)
qed

lemma renamed_team_sound:
  assumes "projects_sound S"
  shows "projects_sound (on_iam (\<lambda>m. m\<lparr>t_teams := upd_where P (\<lambda>r. r\<lparr>tm_name := name\<rparr>) (t_teams m)\<rparr>) S)"
  unfolding on_iam_def
proof (rule on_iam_sound [OF assms])
  fix r t
  assume "t \<in> set (t_teams (ds_iam S))"
  then have "(if P t then t\<lparr>tm_name := name\<rparr> else t) \<in> set (upd_where P (\<lambda>r. r\<lparr>tm_name := name\<rparr>) (t_teams (ds_iam S)))"
    by (auto simp: set_upd_where)
  then show "\<exists>u \<in> set (t_teams ((ds_iam S)\<lparr>t_teams := upd_where P (\<lambda>r. r\<lparr>tm_name := name\<rparr>) (t_teams (ds_iam S))\<rparr>)).
      tm_id u = tm_id t \<and> tm_organizationId u = tm_organizationId t"
    by (intro bexI [of _ "if P t then t\<lparr>tm_name := name\<rparr> else t"]) simp_all
qed simp_all

lemma patch_team_sound: "projects_sound S \<Longrightarrow> projects_sound (snd (patch_team h rq S))"
  unfolding patch_team_def
  by (rule in_org_sound, assumption, rule body_as_sound, assumption) (auto split: option.split intro: renamed_team_sound)

lemma member_rows_sound: "projects_sound S \<Longrightarrow> projects_sound (on_iam (\<lambda>m. m\<lparr>t_teamMembers := f m\<rparr>) S)"
  unfolding on_iam_def by (rule on_iam_sound) auto

lemma post_team_member_sound:
  assumes S: "projects_sound S"
  shows "projects_sound (snd (post_team_member h rq S))"
proof -
  have "projects_sound (on_iam (\<lambda>m. m\<lparr>t_teamMembers := f m\<rparr>) S1)" if "draw_id h S = (i, S1)" for i S1 f
    by (rule member_rows_sound [OF draw_sound [OF S that]])
  then show ?thesis
    unfolding post_team_member_def
    by (intro in_org_sound [OF S] body_as_sound [OF S]) (auto simp: Let_def S split: prod.split)
qed

lemma delete_team_member_sound: "projects_sound S \<Longrightarrow> projects_sound (snd (delete_team_member rq S))"
  unfolding delete_team_member_def by (rule in_org_sound, assumption) (simp add: member_rows_sound)

lemma cleared_team_sound:
  assumes "projects_sound S"
  shows "projects_sound (S\<lparr>ds_iam := (ds_iam S)\<lparr>t_projects :=
      upd_where (\<lambda>p. pj_teamId p = Some tid) (\<lambda>p. p\<lparr>pj_teamId := None\<rparr>) (t_projects (ds_iam S))\<rparr>\<rparr>)"
proof -
  let ?f = "\<lambda>p. if pj_teamId p = Some tid then p\<lparr>pj_teamId := None\<rparr> else p"
  have same: "pj_id (?f p) = pj_id p" "pj_organizationId (?f p) = pj_organizationId p" "pj_slug (?f p) = pj_slug p"
    "pj_defaultEnvironmentId (?f p) = pj_defaultEnvironmentId p" for p by simp_all
  have "sorted_wrt (\<lambda>p q. \<not> project_conflict p q) (map ?f ps) = sorted_wrt (\<lambda>p q. \<not> project_conflict p q) ps" for ps
    by (simp add: sorted_wrt_map project_conflict_def same del: if_image_distrib)
  moreover have "default_env_ok s (?f p) = default_env_ok s p" for s p by (simp add: default_env_ok_def)
  moreover have "assignment_ok ((ds_iam S)\<lparr>t_projects := map ?f (t_projects (ds_iam S))\<rparr>) r" if "assignment_ok (ds_iam S) r" for r
  proof -
    from that obtain p t where "p \<in> set (t_projects (ds_iam S))" "t \<in> set (t_teams (ds_iam S))"
      "pj_id p = pt_projectId r" "tm_id t = pt_teamId r" "tm_organizationId t = pj_organizationId p"
      unfolding assignment_ok_def by blast
    then show ?thesis unfolding assignment_ok_def by (intro bexI [of _ "?f p"] bexI [of _ t]) auto
  qed
  ultimately show ?thesis using assms by (simp add: projects_sound_def upd_where_def del: if_image_distrib)
qed

lemma delete_team_sound: "projects_sound S \<Longrightarrow> projects_sound (snd (delete_team h rq S))"
proof -
  assume S: "projects_sound S"
  have "projects_sound (on_iam (drop_team org tid) S)" for org tid
  proof -
    let ?m = "(ds_iam S)\<lparr>t_projects := upd_where (\<lambda>p. pj_teamId p = Some tid) (\<lambda>p. p\<lparr>pj_teamId := None\<rparr>) (t_projects (ds_iam S))\<rparr>"
    let ?n = "?m\<lparr>t_teams := del_where (\<lambda>r. tm_id r = tid \<and> tm_organizationId r = org) (t_teams ?m),
       t_teamMembers := del_where (\<lambda>r. tmm_teamId r = tid) (t_teamMembers ?m),
       t_projectTeams := del_where (\<lambda>r. pt_teamId r = tid) (t_projectTeams ?m)\<rparr>"
    have "projects_sound (S\<lparr>ds_iam := ?m\<rparr>\<lparr>ds_iam := ?n\<rparr>)"
      by (rule on_iam_sound [OF cleared_team_sound [OF S]]) auto
    then show ?thesis by (simp add: on_iam_def drop_team_def)
  qed
  then have "projects_sound (drop_team_grants tid (on_iam (drop_team org tid) S))" for org tid
    unfolding projects_sound_def default_env_ok_def drop_team_grants_def by simp
  with S show ?thesis
    unfolding delete_team_def by (intro in_org_sound) (auto split: option.split)
qed

lemma team_and_project_sound:
  assumes "projects_sound S"
    and "\<And>scope t p. p \<in> set (t_projects (ds_iam S)) \<Longrightarrow> t \<in> set (t_teams (ds_iam S)) \<Longrightarrow> tm_organizationId t = pj_organizationId p
      \<Longrightarrow> projects_sound (snd (handler scope t p S))"
  shows "projects_sound (snd (team_and_project rq handler S))"
  unfolding team_and_project_def
  by (rule in_org_sound [OF assms(1)])
    (auto simp: scopedTeam_def find_project_def assms split: option.split dest!: find_Some_iff')

lemma put_team_project_sound:
  assumes S: "projects_sound S"
  shows "projects_sound (snd (put_team_project h rq S))"
proof -
  have rows: "projects_sound (on_iam (\<lambda>m. if list_ex (\<lambda>r. pt_projectId r = pj_id p \<and> pt_teamId r = tm_id t) (t_projectTeams m) then m
       else m\<lparr>t_projectTeams := t_projectTeams m @ assigned_rows (pj_id p) user [tm_id t]\<rparr>)
      (update_projects (\<lambda>q. pj_id q = pj_id p) f S))"
    if p: "p \<in> set (t_projects (ds_iam S))" and t: "t \<in> set (t_teams (ds_iam S))" "tm_organizationId t = pj_organizationId p"
      and f: "f = (\<lambda>q. q\<lparr>pj_teamId := x, pj_accessMode := AccessTeam\<rparr>)" for p t user f x
  proof -
    have "team_of_org (pj_organizationId p) (ds_iam S) (tm_id t)" using t by (auto simp: team_of_org_def list_ex_iff)
    then have "projects_sound (update_projects (\<lambda>q. pj_id q = pj_id p) f S\<lparr>ds_iam :=
        (ds_iam (update_projects (\<lambda>q. pj_id q = pj_id p) f S))\<lparr>t_projectTeams :=
          t_projectTeams (ds_iam S) @ assigned_rows (pj_id p) user [tm_id t]\<rparr>\<rparr>)"
      by (intro columns_and_teams_sound [OF S p, of _ "[tm_id t]"]) (auto simp: f assigned_rows_def)
    moreover have "projects_sound (update_projects (\<lambda>q. pj_id q = pj_id p) f S)"
      by (rule update_columns_sound [OF S]) (simp add: f)
    ultimately show ?thesis by (simp add: on_iam_def update_project_teams)
  qed
  show ?thesis
    unfolding put_team_project_def
    by (rule team_and_project_sound [OF S]) (auto simp: Let_def intro!: rows)
qed

lemma delete_team_project_sound:
  assumes S: "projects_sound S"
  shows "projects_sound (snd (delete_team_project h rq S))"
proof -
  have "projects_sound (on_iam (\<lambda>m. m\<lparr>t_projectTeams := del_where P (t_projectTeams m)\<rparr>) S)" for P
    unfolding on_iam_def by (rule on_iam_sound [OF S]) auto
  then show ?thesis
    unfolding delete_team_project_def
    by (intro team_and_project_sound [OF S]) (auto simp: Let_def S intro!: update_columns_sound)
qed

lemma store_variable_tables [simp]: "t_environments (store_environment_variable h enc eid v s) = t_environments s"
  by (auto simp: store_environment_variable_def randomUUID_def Let_def split: prod.split option.split)

lemma variables_sound:
  assumes "projects_sound S" "t_environments s = t_environments (ds_cp S)"
  shows "projects_sound (S\<lparr>ds_cp := s\<rparr>)"
  using assms by (simp add: projects_sound_def default_env_ok_def)

lemma in_updatable_sound:
  assumes "projects_sound S" "\<And>access e. projects_sound (snd (handler access e S))"
  shows "projects_sound (snd (in_updatable rq handler S))"
  unfolding in_updatable_def by (rule in_project_sound [OF assms(1)]) (auto simp: assms split: option.split)

lemma put_environment_variable_sound: "projects_sound S \<Longrightarrow> projects_sound (snd (put_environment_variable h enc rq key S))"
  unfolding put_environment_variable_def
  by (rule in_updatable_sound, assumption, rule body_as_sound, assumption) (auto simp: variables_sound split: prod.split)

lemma delete_environment_variable_sound: "projects_sound S \<Longrightarrow> projects_sound (snd (delete_environment_variable rq key S))"
  unfolding delete_environment_variable_def
  by (rule in_updatable_sound, assumption) (auto simp: Let_def variables_sound)

subsection \<open>Properties\<close>

datatype project_call =
    CreateProject route_request | PatchProject route_request | PutAccess route_request | PutDefaultEnvironment route_request
  | ArchiveProject route_request | RestoreProject route_request | DeleteProject route_request
  | PostEnvironment route_request | PatchEnvironment route_request | DeleteEnvironment route_request
  | PutVariable route_request string | DeleteVariable route_request string
  | PostTeam route_request | PatchTeam route_request | DeleteTeam route_request
  | PostTeamMember route_request | DeleteTeamMember route_request | PutTeamProject route_request | DeleteTeamProject route_request

definition run_project_call ::
  "host \<Rightarrow> url_class \<Rightarrow> (nat \<Rightarrow> string \<Rightarrow> string) \<Rightarrow> project_call \<Rightarrow> domain_state \<Rightarrow> domain_state" where
  "run_project_call h url enc call S = snd (case call of
     CreateProject rq \<Rightarrow> create_project h url rq S | PatchProject rq \<Rightarrow> patch_project h rq S
   | PutAccess rq \<Rightarrow> put_access h rq S | PutDefaultEnvironment rq \<Rightarrow> put_default_environment h rq S
   | ArchiveProject rq \<Rightarrow> archive_project h rq S | RestoreProject rq \<Rightarrow> restore_project h rq S
   | DeleteProject rq \<Rightarrow> delete_project h rq S | PostEnvironment rq \<Rightarrow> post_environment h rq S
   | PatchEnvironment rq \<Rightarrow> patch_environment h rq S | DeleteEnvironment rq \<Rightarrow> delete_environment h rq S
   | PutVariable rq key \<Rightarrow> put_environment_variable h enc rq key S
   | DeleteVariable rq key \<Rightarrow> delete_environment_variable rq key S | PostTeam rq \<Rightarrow> post_team h rq S
   | PatchTeam rq \<Rightarrow> patch_team h rq S | DeleteTeam rq \<Rightarrow> delete_team h rq S
   | PostTeamMember rq \<Rightarrow> post_team_member h rq S | DeleteTeamMember rq \<Rightarrow> delete_team_member rq S
   | PutTeamProject rq \<Rightarrow> put_team_project h rq S | DeleteTeamProject rq \<Rightarrow> delete_team_project h rq S)"

lemmas project_routes_sound = create_project_sound patch_project_sound put_access_sound put_default_environment_sound
  archive_project_sound restore_project_sound delete_project_sound post_environment_sound patch_environment_sound
  delete_environment_sound put_environment_variable_sound delete_environment_variable_sound post_team_sound patch_team_sound
  delete_team_sound post_team_member_sound delete_team_member_sound put_team_project_sound delete_team_project_sound

text \<open>C18. Any sequence of project, environment, variable and team requests, of whoever they are, keeps the projects sound: slugs
  are unique in an organisation and environment names in a project, the default environment of a project exists and is its own
  although no foreign key says so, and every team that may enter a project is a team of the project's organisation.\<close>

theorem projects_stay_sound:
  assumes "projects_sound S"
  shows "projects_sound (fold (run_project_call h url enc) calls S)"
  using assms
proof (induction calls arbitrary: S)
  case (Cons call calls)
  have "projects_sound (run_project_call h url enc call S)"
    using Cons.prems by (cases call) (simp_all add: run_project_call_def project_routes_sound)
  from Cons.IH [OF this] show ?case by simp
qed simp

definition fresh_projects :: domain_state where
  "fresh_projects = \<lparr>ds_iam = sample_iam\<lparr>t_projects := [], t_projectTeams := []\<rparr>, ds_cp = empty_cp, ds_domains = [], ds_files = []\<rparr>"

definition sample_creation :: route_request where
  "sample_creation = \<lparr>wr_session = Some ''u1'', wr_orgSlug = ''acme'', wr_projectId = [], wr_environmentId = [], wr_teamId = [],
     wr_userId = [], wr_body = Some (JObj [(''name'', JStr '' Shop''), (''slug'', JStr ''my-shop''), (''type'', JStr ''blank''),
       (''accessMode'', JStr ''team''), (''teamIds'', JArr [JStr ''t1''])])\<rparr>"

lemma projects_stay_sound_witness:
  "projects_sound (fold (run_project_call sample_host (\<lambda>_. None) (\<lambda>_ v. v)) [CreateProject sample_creation] fresh_projects)
   \<and> map pj_slug (t_projects (ds_iam (run_project_call sample_host (\<lambda>_. None) (\<lambda>_ v. v) (CreateProject sample_creation) fresh_projects)))
      = [''my-shop'']"
proof
  show "projects_sound (fold (run_project_call sample_host (\<lambda>_. None) (\<lambda>_ v. v)) [CreateProject sample_creation] fresh_projects)"
    by (rule projects_stay_sound) (simp add: projects_sound_def fresh_projects_def empty_cp_def)
  show "map pj_slug (t_projects (ds_iam (run_project_call sample_host (\<lambda>_. None) (\<lambda>_ v. v) (CreateProject sample_creation) fresh_projects)))
      = [''my-shop'']" by code_simp
qed

lemma find_upd_keeping:
  "(\<And>x. Q (f x) = Q x) \<Longrightarrow> List.find Q (upd_where P f xs) = map_option (\<lambda>x. if P x then f x else x) (List.find Q xs)"
  by (induction xs) auto

lemma drop_team_frames:
  "t_organizations (drop_team org tid m) = t_organizations m" "t_members (drop_team org tid m) = t_members m"
  "t_roles (drop_team org tid m) = t_roles m" "t_rolePermissions (drop_team org tid m) = t_rolePermissions m"
  by (simp_all add: drop_team_def)

text \<open>The access of a member whose role does not reach the whole organisation.\<close>

lemma member_access:
  assumes "find_org slug m = Some org" "find_membership (og_id org) user m = Some membership"
    and "permission \<in> set (resolveRolePermissions m (mb_role membership) (Some (og_id org)))" "\<not> org_wide (mb_role membership)"
    and "find_project pid (og_id org) m = Some p"
  shows "resolveProjectAccess m (Some user) slug pid permission = None \<longleftrightarrow> pj_accessMode p = AccessTeam \<and> \<not> team_access (pj_id p) user m"
  using assms by (auto simp: resolveProjectAccess_def org_wide_def Let_def)

lemma roles_cong: "t_roles m' = t_roles m \<Longrightarrow> t_rolePermissions m' = t_rolePermissions m \<Longrightarrow> resolveRolePermissions m' = resolveRolePermissions m"
  by (simp add: resolveRolePermissions_def role_grants_def fun_eq_iff)

text \<open>C19. Taking the last team off a project opens it: a member of the organisation who may read projects and was kept out of a
  team-scoped project gets in as soon as its only team is removed from it, while deleting that team would have kept the
  project closed.\<close>

theorem last_team_opens_project:
  assumes "find_org (wr_orgSlug rq) (ds_iam S) = Some org" "find_membership (og_id org) user (ds_iam S) = Some membership"
    and "permission \<in> set (resolveRolePermissions (ds_iam S) (mb_role membership) (Some (og_id org)))" "\<not> org_wide (mb_role membership)"
    and "find_project (wr_projectId rq) (og_id org) (ds_iam S) = Some p" "pj_accessMode p = AccessTeam"
    and "\<not> team_access (pj_id p) user (ds_iam S)" "set (remaining_teams (pj_id p) (ds_iam S)) \<subseteq> {wr_teamId rq}"
    and "delete_team_project h rq S = (Inr NoContent, S1)"
  shows "resolveProjectAccess (ds_iam S) (Some user) (wr_orgSlug rq) (wr_projectId rq) permission = None
    \<and> resolveProjectAccess (ds_iam S1) (Some user) (wr_orgSlug rq) (wr_projectId rq) permission \<noteq> None
    \<and> resolveProjectAccess (drop_team (og_id org) (wr_teamId rq) (ds_iam S)) (Some user) (wr_orgSlug rq) (wr_projectId rq) permission = None"
proof -
  let ?m = "ds_iam S"
  from assms(9) have "team_access_scope ?m (wr_session rq) (wr_orgSlug rq) \<noteq> None"
    by (auto simp: delete_team_project_def team_and_project_def in_org_def split: option.splits)
  then obtain scope where scope: "team_access_scope ?m (wr_session rq) (wr_orgSlug rq) = Some scope" by blast
  with assms(1) have org: "ts_org scope = org"
    by (auto simp: team_access_scope_def resolveOrganizationAccess_def split: option.splits)
  from assms(9) scope org obtain t where t: "scopedTeam (og_id org) (wr_teamId rq) ?m = Some t"
    by (auto simp: delete_team_project_def team_and_project_def in_org_def split: option.splits if_splits)
  then have tid: "tm_id t = wr_teamId rq" by (auto simp: scopedTeam_def dest!: find_Some_iff')
  let ?rows = "del_where (\<lambda>r. pt_projectId r = pj_id p \<and> pt_teamId r = tm_id t) (t_projectTeams ?m)"
  have none: "remaining_teams (pj_id p) (?m\<lparr>t_projectTeams := ?rows\<rparr>) = []"
    using assms(8) tid by (auto simp: remaining_teams_def filter_empty_conv)
  have S1: "ds_iam S1 = ?m\<lparr>t_projectTeams := ?rows, t_projects := upd_where (\<lambda>q. pj_id q = pj_id p)
      (\<lambda>q. q\<lparr>pj_teamId := None, pj_accessMode := AccessOrganization, pj_updatedAt := clock (ds_cp S)\<rparr>) (t_projects ?m)\<rparr>"
    using assms(5,9) scope org t none
    by (auto simp: delete_team_project_def team_and_project_def in_org_def Let_def on_iam_def log_project_def update_projects_def
        first_team_def split: if_splits)
  let ?open = "p\<lparr>pj_teamId := None, pj_accessMode := AccessOrganization, pj_updatedAt := clock (ds_cp S)\<rparr>"
  have opened: "find_project (wr_projectId rq) (og_id org) (ds_iam S1) = Some ?open"
    using assms(5) by (simp add: find_project_def S1 find_upd_keeping)
  let ?d = "drop_team (og_id org) (wr_teamId rq) ?m"
  have dropped: "\<exists>q. find_project (wr_projectId rq) (og_id org) ?d = Some q \<and> pj_id q = pj_id p \<and> pj_accessMode q = AccessTeam"
    using assms(5,6) by (simp add: find_project_def drop_team_def find_upd_keeping)
  have closed: "\<not> team_access (pj_id p) user ?d"
    using assms(7) by (auto simp: team_access_def drop_team_def list_ex_iff)
  have same: "find_org (wr_orgSlug rq) m' = Some org \<and> find_membership (og_id org) user m' = Some membership
      \<and> permission \<in> set (resolveRolePermissions m' (mb_role membership) (Some (og_id org)))"
    if "t_organizations m' = t_organizations ?m" "t_members m' = t_members ?m" "t_roles m' = t_roles ?m"
      "t_rolePermissions m' = t_rolePermissions ?m" for m'
    using assms(1-3) that by (simp add: find_org_def find_membership_def roles_cong [OF that(3,4)])
  from same [of "ds_iam S1"] member_access [OF _ _ _ assms(4) opened]
  have "resolveProjectAccess (ds_iam S1) (Some user) (wr_orgSlug rq) (wr_projectId rq) permission \<noteq> None" by (simp add: S1)
  moreover from same [of ?d] dropped closed member_access [OF _ _ _ assms(4)]
  have "resolveProjectAccess ?d (Some user) (wr_orgSlug rq) (wr_projectId rq) permission = None"
    by (metis (no_types, lifting) drop_team_frames)
  moreover from member_access [OF assms(1-5)] assms(6,7)
  have "resolveProjectAccess ?m (Some user) (wr_orgSlug rq) (wr_projectId rq) permission = None" by blast
  ultimately show ?thesis by blast
qed

text \<open>User \<open>u4\<close>, a developer in no team, and project \<open>p1\<close> of team \<open>t1\<close>.\<close>

lemma last_team_opens_project_witness:
  "resolveProjectAccess sample_iam (Some ''u4'') ''acme'' ''p1'' ''projects.update'' = None
   \<and> resolveProjectAccess (ds_iam (snd (delete_team_project sample_host
         (sample_creation\<lparr>wr_projectId := ''p1'', wr_teamId := ''t1''\<rparr>) (fresh_projects\<lparr>ds_iam := sample_iam\<rparr>))))
       (Some ''u4'') ''acme'' ''p1'' ''projects.update'' \<noteq> None"
proof -
  let ?rq = "sample_creation\<lparr>wr_projectId := ''p1'', wr_teamId := ''t1''\<rparr>" and ?S = "fresh_projects\<lparr>ds_iam := sample_iam\<rparr>"
  let ?org = "\<lparr>og_id = ''o1'', og_name = ''Acme'', og_slug = ''acme''\<rparr>"
  let ?mb = "\<lparr>mb_id = ''m4'', mb_organizationId = ''o1'', mb_userId = ''u4'', mb_role = ''developer''\<rparr>"
  have "fst (delete_team_project sample_host ?rq ?S) = Inr NoContent" by code_simp
  then have run: "delete_team_project sample_host ?rq ?S = (Inr NoContent, snd (delete_team_project sample_host ?rq ?S))"
    by (metis prod.collapse)
  have iam: "ds_iam ?S = sample_iam" "wr_orgSlug ?rq = ''acme''" "wr_projectId ?rq = ''p1''" "wr_teamId ?rq = ''t1''"
    by (simp_all add: sample_creation_def)
  have facts: "find_org ''acme'' sample_iam = Some ?org" "find_membership (og_id ?org) ''u4'' sample_iam = Some ?mb"
    "''projects.update'' \<in> set (resolveRolePermissions sample_iam (mb_role ?mb) (Some (og_id ?org)))" "\<not> org_wide (mb_role ?mb)"
    "find_project ''p1'' (og_id ?org) sample_iam = Some sample_project" "pj_accessMode sample_project = AccessTeam"
    "\<not> team_access (pj_id sample_project) ''u4'' sample_iam"
    "set (remaining_teams (pj_id sample_project) sample_iam) \<subseteq> {''t1''}"
    by code_simp+
  from last_team_opens_project [where rq = ?rq and S = ?S, unfolded iam, OF facts run] show ?thesis by blast
qed

end
