(* ===== verification/GameServers.thy ===== *)
theory GameServers
  imports DeploymentViews AgentResults
begin

text \<open>
  Game servers, \<open>apps/api/src/routes/game-servers.routes.ts\<close>: an application, its first deployment and its world volume
  created at once, who may operate a server, its console and files, which are commands to the agent, and its deletion. A
  random password is drawn from the same counter as the ids (\<open>secret\<close>). A query parameter is already the number it stands
  for; an answer that repeats a row names it by its key.
\<close>

record server_scope =
  sv_org :: org_row
  sv_permissions :: "string list"
  sv_userId :: string

record game_request =
  gr_session :: "string option"
  gr_orgSlug :: string
  gr_serverId :: string
  gr_itemId :: string
  gr_body :: "json option"

subsection \<open>Schemas\<close>

record game_settings =
  gi_projectId :: string
  gi_name :: string
  gi_version :: string
  gi_memoryMib :: int

definition game_input :: "(string \<Rightarrow> bool) \<Rightarrow> json \<Rightarrow> game_settings option" where
  "game_input zuuid j =
     Option.bind (z_object j) (\<lambda>j.
     Option.bind (z_req (z_string_where zuuid) ''projectId'' j) (\<lambda>p.
     Option.bind (z_req (z_trimmed 2 80) ''name'' j) (\<lambda>n.
     Option.bind (z_req (z_enum [(''minecraft-java'', ())]) ''game'' j) (\<lambda>_.
     Option.bind (z_default (z_trimmed 1 64) ''LATEST'' ''version'' j) (\<lambda>v.
     Option.bind (z_default (z_int (int_range 1024 16384)) 2048 ''memoryMib'' j) (\<lambda>m.
       Some \<lparr>gi_projectId = p, gi_name = n, gi_version = v, gi_memoryMib = m\<rparr>))))))"

definition consoleInput :: "json \<Rightarrow> string option" where
  "consoleInput j = Option.bind (z_object j) (z_req (z_trimmed 1 1024) ''command'')"

definition server_path_ok :: "string \<Rightarrow> bool" where
  "server_path_ok p \<longleftrightarrow> \<not> starts_with ''/'' p
     \<and> \<not> list_ex (\<lambda>part. part = ''.'' \<or> part = ''..'' \<or> part = []) (split_on CHR ''/'' p)"

definition filePath :: "json \<Rightarrow> string option" where
  "filePath j = Option.bind (z_sized 1 240 j) (\<lambda>p. if server_path_ok p then Some p else None)"

definition fileReadInput :: "json \<Rightarrow> json option" where
  "fileReadInput j = Option.bind (z_object j) (\<lambda>j. map_option (\<lambda>p. JObj [(''path'', JStr p)]) (z_req filePath ''path'' j))"

definition fileWriteInput :: "json \<Rightarrow> json option" where
  "fileWriteInput j = Option.bind (z_object j) (\<lambda>j.
     Option.bind (z_req filePath ''path'' j) (\<lambda>p.
     Option.bind (z_req (z_sized 0 (512 * 1024)) ''content'' j) (\<lambda>c. Some (JObj [(''path'', JStr p), (''content'', JStr c)]))))"

record grant_input =
  gti_subjectType :: access_subject
  gti_subjectId :: string
  gti_role :: server_role

definition accessInput :: "json \<Rightarrow> grant_input option" where
  "accessInput j =
     Option.bind (z_object j) (\<lambda>j.
     Option.bind (z_req (z_enum [(''user'', SubjectUser), (''team'', SubjectTeam)]) ''subjectType'' j) (\<lambda>t.
     Option.bind (z_req (z_string_where (\<lambda>i. i \<noteq> [])) ''subjectId'' j) (\<lambda>i.
     Option.bind (z_req (z_enum [(''viewer'', RoleViewer), (''operator'', RoleOperator), (''admin'', RoleAdmin)]) ''role'' j) (\<lambda>r.
       Some \<lparr>gti_subjectType = t, gti_subjectId = i, gti_role = r\<rparr>))))"

subsection \<open>Who may do what\<close>

fun accessRoleRank :: "server_role \<Rightarrow> nat" where
  "accessRoleRank RoleViewer = 1"
| "accessRoleRank RoleOperator = 2"
| "accessRoleRank RoleAdmin = 3"

definition game_scope :: "iam \<Rightarrow> game_request \<Rightarrow> server_scope option" where
  "game_scope m rq =
     (case gr_session rq of None \<Rightarrow> None | Some user \<Rightarrow>
     (case find_org (gr_orgSlug rq) m of None \<Rightarrow> None | Some org \<Rightarrow>
        map_option (\<lambda>membership. \<lparr>sv_org = org, sv_permissions = resolveRolePermissions m (mb_role membership) (Some (og_id org)),
          sv_userId = user\<rparr>) (find_membership (og_id org) user m)))"

definition server_in_org :: "server_scope \<Rightarrow> string \<Rightarrow> cp \<Rightarrow> game_server option" where
  "server_in_org scope sid s = List.find (\<lambda>g. gs_id g = sid \<and> gs_organizationId g = og_id (sv_org scope)) (t_gameServers s)"

definition managedServer :: "server_scope \<Rightarrow> string \<Rightarrow> cp \<Rightarrow> game_server option" where
  "managedServer scope sid s =
     (case server_in_org scope sid s of
        None \<Rightarrow> None
      | Some g \<Rightarrow> if truthy (gs_applicationId g) \<and> truthy (gs_deploymentId g) then Some g else None)"

definition serverWorkload :: "game_server \<Rightarrow> cp \<Rightarrow> workload option" where
  "serverWorkload g s =
     (if truthy (gs_deploymentId g)
      then newest w_updatedAt (filter (\<lambda>w. Some (w_deploymentId w) = gs_deploymentId g) (t_workloads s))
      else None)"

text \<open>The grants of a server to a user, directly and through a team.\<close>

definition server_grants :: "string \<Rightarrow> string \<Rightarrow> iam \<Rightarrow> cp \<Rightarrow> server_role list" where
  "server_grants sid user m s =
     (let grants = filter (\<lambda>g. ga_gameServerId g = sid) (t_gameServerAccess s) in
      map ga_role (filter (\<lambda>g. ga_userId g = Some user) grants)
      @ [ga_role g. g \<leftarrow> grants, t \<leftarrow> t_teamMembers m, ga_teamId g = Some (tmm_teamId t) \<and> tmm_userId t = user])"

definition hasServerRole :: "iam \<Rightarrow> cp \<Rightarrow> string \<Rightarrow> server_scope \<Rightarrow> server_role \<Rightarrow> bool" where
  "hasServerRole m s sid scope required \<longleftrightarrow> ''applications.update'' \<in> set (sv_permissions scope)
     \<or> list_ex (\<lambda>r. accessRoleRank required \<le> accessRoleRank r) (server_grants sid (sv_userId scope) m s)"

definition in_game_org :: "iam \<Rightarrow> game_request \<Rightarrow> (server_scope \<Rightarrow> cp \<Rightarrow> handler_result) \<Rightarrow> cp \<Rightarrow> handler_result" where
  "in_game_org m rq handler s =
     (case game_scope m rq of None \<Rightarrow> (Inr (Problem 404 ''Not found''), s) | Some scope \<Rightarrow> handler scope s)"

definition role_name :: "server_role \<Rightarrow> string" where
  "role_name r = (case r of RoleViewer \<Rightarrow> ''viewer'' | RoleOperator \<Rightarrow> ''operator'' | RoleAdmin \<Rightarrow> ''admin'')"

definition with_server ::
  "iam \<Rightarrow> game_request \<Rightarrow> server_role \<Rightarrow> server_scope \<Rightarrow> (game_server \<Rightarrow> cp \<Rightarrow> handler_result) \<Rightarrow> cp \<Rightarrow> handler_result" where
  "with_server m rq required scope handler s =
     (case managedServer scope (gr_serverId rq) s of
        None \<Rightarrow> (Inr (Problem 404 ''Game server not found''), s)
      | Some g \<Rightarrow>
          if \<not> hasServerRole m s (gs_id g) scope required
          then (Inr (Problem 403 (''Server '' @ role_name required @ '' role required'')), s)
          else handler g s)"

definition game_body :: "game_request \<Rightarrow> (json \<Rightarrow> 'a option) \<Rightarrow> string \<Rightarrow> ('a \<Rightarrow> cp \<Rightarrow> handler_result) \<Rightarrow> cp \<Rightarrow> handler_result" where
  "game_body rq schema invalid handler s =
     (case gr_body rq of
        None \<Rightarrow> (Inl (Js_error ''SyntaxError''), s)
      | Some j \<Rightarrow> (case schema j of None \<Rightarrow> (Inr (Problem 400 invalid), s) | Some v \<Rightarrow> handler v s))"

text \<open>The list shows the servers of the accessible projects; \<open>by_name\<close> is the collation of the database.\<close>

definition list_game_servers :: "(string \<Rightarrow> string \<Rightarrow> rat) \<Rightarrow> iam \<Rightarrow> game_request \<Rightarrow> cp \<Rightarrow> response + game_server list" where
  "list_game_servers by_name m rq s =
     (case game_scope m rq of
        None \<Rightarrow> Inl (Problem 404 ''Not found'')
      | Some scope \<Rightarrow>
          (case listAccessibleProjects m (gr_session rq) (gr_orgSlug rq) ''projects.read'' of
             None \<Rightarrow> Inl (Problem 404 ''Not found'')
           | Some access \<Rightarrow>
               (let servers = js_sort (\<lambda>a b. by_name (gs_name a) (gs_name b))
                      (filter (\<lambda>g. gs_organizationId g = og_id (sv_org scope)) (t_gameServers s));
                    scoped = filter (\<lambda>g. truthy (gs_projectId g) \<and> the (gs_projectId g) \<in> set (map pj_id (pl_projects access))) servers
                in Inr (if ''applications.read'' \<in> set (sv_permissions scope) then scoped
                        else filter (\<lambda>g. hasServerRole m s (gs_id g) scope RoleViewer) scoped))))"

subsection \<open>Creating a server\<close>

definition minecraftRuntimeImage :: string where
  "minecraftRuntimeImage = ''itzg/minecraft-server:java25''"

definition draw_secret :: "(nat \<Rightarrow> string) \<Rightarrow> cp \<Rightarrow> string \<times> cp" where
  "draw_secret secret s = (secret (uuid_next s), s\<lparr>uuid_next := Suc (uuid_next s)\<rparr>)"

definition without_dashes :: "string \<Rightarrow> string" where
  "without_dashes i = filter (\<lambda>c. c \<noteq> CHR ''-'') i"

definition game_application :: "project \<Rightarrow> string \<Rightarrow> game_settings \<Rightarrow> int \<Rightarrow> string \<Rightarrow> string \<Rightarrow> application" where
  "game_application p org v now serverId aid =
     \<lparr>a_id = aid, a_organizationId = org, a_projectId = pj_id p, a_name = gi_name v, a_slug = ''game-'' @ take 8 serverId,
      a_description = None, a_sourceType = SrcDocker, a_gitUrl = None, a_imageName = Some minecraftRuntimeImage,
      a_containerName = Some (''devion-game-'' @ without_dashes serverId), a_internalPort = 25565, a_branch = ''main'',
      a_repositoryProvider = ''generic'', a_rootDirectory = ''.'', a_buildConfiguration = JObj [], a_autoDeployEnabled = False,
      a_gitCredentialReference = None, a_registryCredentialReference = None, a_lastKnownCommit = None,
      a_lifecycleStatus = LifeActive, a_archivedAt = None, a_applicationType = AppCustom, a_defaultEnvironmentId = None,
      a_status = AppDeploying, a_createdAt = now, a_updatedAt = now\<rparr>"

definition new_game_server :: "server_scope \<Rightarrow> project \<Rightarrow> game_settings \<Rightarrow> int \<Rightarrow> string \<Rightarrow> string \<Rightarrow> string \<Rightarrow> game_server" where
  "new_game_server scope p v now sid aid did =
     \<lparr>gs_id = sid, gs_organizationId = og_id (sv_org scope), gs_projectId = Some (pj_id p), gs_applicationId = Some aid,
      gs_deploymentId = Some did, gs_createdByUserId = sv_userId scope, gs_name = gi_name v, gs_version = gi_version v,
      gs_memoryMib = gi_memoryMib v, gs_containerName = ''devion-game-'' @ without_dashes sid, gs_runtimePort = None,
      gs_status = GsProvisioning, gs_createdAt = now, gs_updatedAt = now\<rparr>"

definition world_volume :: "server_scope \<Rightarrow> project \<Rightarrow> int \<Rightarrow> string \<Rightarrow> string \<Rightarrow> volume" where
  "world_volume scope p now sid vid =
     \<lparr>v_id = vid, v_projectId = pj_id p, v_name = ''game-'' @ take 8 sid @ ''-data'', v_runtimeName = runtime_volume_name vid,
      v_status = VolInUse, v_nodeId = None, v_capacityMib = None, v_createdBy = Some (sv_userId scope), v_createdAt = now,
      v_updatedAt = now\<rparr>"

definition game_volumes :: "string \<Rightarrow> json" where
  "game_volumes vid = JArr [JObj [(''id'', JStr vid), (''name'', JStr (runtime_volume_name vid)), (''target'', JStr ''/data'')]]"

definition game_ports :: json where
  "game_ports = JArr [JObj [(''containerPort'', JNum 25565)]]"

definition game_deployment_input :: "game_settings \<Rightarrow> string \<Rightarrow> string \<Rightarrow> string \<Rightarrow> deployment_input" where
  "game_deployment_input v aid vid password =
     \<lparr>in_applicationId = aid, in_environmentId = None, in_image = minecraftRuntimeImage, in_replicas = 1,
      in_desiredState = WantRunning, in_runtime = Container,
      in_requirements = JObj [(''cpuMilli'', JNum 1000), (''memoryMib'', jint (gi_memoryMib v)), (''storageMib'', JNum 0),
        (''runtime'', JStr ''container'')],
      in_runtimeConfig = JObj [(''environment'', JObj [(''EULA'', JStr ''TRUE''), (''VERSION'', JStr (gi_version v)),
          (''MOTD'', JStr (gi_name v)), (''MEMORY'', JStr (str_int (gi_memoryMib v) @ ''M'')), (''ENABLE_RCON'', JStr ''TRUE''),
          (''RCON_PASSWORD'', JStr password)]),
        (''ports'', game_ports), (''volumes'', game_volumes vid)],
      in_configurationSnapshot = JObj [(''source'', JObj [(''type'', JStr ''image''), (''image'', JStr minecraftRuntimeImage)]),
        (''runtime'', JStr ''container''),
        (''resources'', JObj [(''cpuMilli'', JNum 1000), (''memoryMib'', jint (gi_memoryMib v)), (''storageMib'', JNum 0)]),
        (''ports'', game_ports), (''volumes'', game_volumes vid),
        (''environmentKeys'', JArr (map JStr [''EULA'', ''VERSION'', ''MOTD'', ''MEMORY'', ''ENABLE_RCON'', ''RCON_PASSWORD'']))],
      in_buildId = None, in_commitSha = None, in_createdBy = None, in_rollbackFromDeploymentId = None\<rparr>"

text \<open>The unique indexes the transaction may meet: the application's, the server's and the volume's.\<close>

definition game_conflict :: "application \<Rightarrow> game_server \<Rightarrow> volume \<Rightarrow> deployment \<Rightarrow> cp \<Rightarrow> bool" where
  "game_conflict app g vol d s \<longleftrightarrow> list_ex (application_conflict app) (t_applications s)
     \<or> list_ex (\<lambda>x. gs_id x = gs_id g \<or> gs_applicationId x = gs_applicationId g \<or> gs_containerName x = gs_containerName g) (t_gameServers s)
     \<or> list_ex (volume_conflict vol) (t_volumes s) \<or> list_ex (deployment_conflict d) (t_deployments s)"

definition insert_game :: "host \<Rightarrow> (nat \<Rightarrow> string) \<Rightarrow> server_scope \<Rightarrow> project \<Rightarrow> game_settings \<Rightarrow> string \<Rightarrow> string \<Rightarrow> string \<Rightarrow> string
     \<Rightarrow> cp \<Rightarrow> (exn + unit) \<times> cp" where
  "insert_game h secret scope p v sid aid did vid s =
     (let now = clock s; app = game_application p (og_id (sv_org scope)) v now sid aid; g = new_game_server scope p v now sid aid did;
          vol = world_volume scope p now sid vid; (grant, s1) = randomUUID h s; (password, s2) = draw_secret secret s1;
          d = new_deployment s2 did 1 (game_deployment_input v aid vid password); (mount, s3) = randomUUID h s2
      in if game_conflict app g vol d s3 then (Inl Unique_violation, rolled_back s s3)
         else (Inr (), log_event h did ''deployment.created'' ''Game server deployment revision v1 created'' id
           (s3\<lparr>t_applications := t_applications s3 @ [app], t_gameServers := t_gameServers s3 @ [g], t_volumes := t_volumes s3 @ [vol],
              t_gameServerAccess := t_gameServerAccess s3 @ [\<lparr>ga_id = grant, ga_gameServerId = sid, ga_subjectType = SubjectUser,
                ga_userId = Some (sv_userId scope), ga_teamId = None, ga_role = RoleAdmin, ga_createdAt = now\<rparr>],
              t_deployments := t_deployments s3 @ [d],
              t_volumeMounts := t_volumeMounts s3 @ [\<lparr>dm_id = mount, dm_deploymentId = did, dm_volumeId = vid,
                dm_mountPath = ''/data'', dm_readOnly = False, dm_createdAt = now\<rparr>]\<rparr>)))"

definition create_game_server :: "host \<Rightarrow> (nat \<Rightarrow> cp \<Rightarrow> cp) \<Rightarrow> (nat \<Rightarrow> string) \<Rightarrow> iam \<Rightarrow> game_request \<Rightarrow> cp \<Rightarrow> handler_result" where
  "create_game_server h vrival secret m rq = in_game_org m rq (\<lambda>scope s.
     if ''applications.create'' \<notin> set (sv_permissions scope)
     then (Inr (Problem 403 ''Permission required: applications.create''), s)
     else game_body rq (game_input (h_zodUuid h)) ''Invalid game server configuration'' (\<lambda>v s.
       case resolveProjectAccess m (gr_session rq) (gr_orgSlug rq) (gi_projectId v) ''applications.create'' of
         None \<Rightarrow> (Inr (Problem 404 ''Project not found or access denied''), s)
       | Some access \<Rightarrow>
           if pj_status (pa_project access) = ProjectArchived
           then (Inr (Problem 409 ''Archived projects cannot receive new game servers''), s)
           else (let (sid, s1) = randomUUID h s; (aid, s2) = randomUUID h s1; (did, s3) = randomUUID h s2; (vid, s4) = randomUUID h s3
             in case insert_game h secret scope (pa_project access) v sid aid did vid s4 of
                  (Inl e, s5) \<Rightarrow> (Inl e, s5)
                | (Inr _, s5) \<Rightarrow>
                    (case reconcileDeployment h vrival did s5 of
                       (Inl e, s6) \<Rightarrow> (Inl e, s6)
                     | (Inr _, s6) \<Rightarrow> (Inr (Reply 202 (JObj [(''id'', JStr sid), (''applicationId'', JStr aid),
                         (''deploymentId'', JStr did), (''status'', JStr ''provisioning'')])), s6)))) s)"

subsection \<open>Stopping and starting\<close>

definition stop_game_server :: "host \<Rightarrow> iam \<Rightarrow> game_request \<Rightarrow> cp \<Rightarrow> handler_result" where
  "stop_game_server h m rq = in_game_org m rq (\<lambda>scope s.
     let server = server_in_org scope (gr_serverId rq) s in
     if server \<noteq> None \<and> \<not> hasServerRole m s (gs_id (the server)) scope RoleOperator
     then (Inr (Problem 403 ''Server operator role required''), s)
     else if server = None \<or> \<not> truthy (gs_applicationId (the server))
     then (Inr (Problem 409 ''Legacy game servers must be migrated before agent control is available''), s)
     else (Inr (Reply 202 (JObj [(''status'', JStr ''stopping'')])),
           update_game_servers (\<lambda>g. gs_id g = gs_id (the server)) (\<lambda>g. g\<lparr>gs_status := GsStopped, gs_runtimePort := None\<rparr>)
             (stopApplicationWorkloads h (the (gs_applicationId (the server))) s)))"

text \<open>A value that is no object counts as an empty one; a password is drawn when there is none.\<close>

definition object_entries :: "json option \<Rightarrow> (string \<times> json) list" where
  "object_entries j = (case j of Some (JObj kvs) \<Rightarrow> kvs | _ \<Rightarrow> [])"

definition withRconEnabled :: "(nat \<Rightarrow> string) \<Rightarrow> json \<Rightarrow> cp \<Rightarrow> json \<times> cp" where
  "withRconEnabled secret cfg s =
     (let current = object_entries (Some cfg); env = object_entries (map_of current ''environment'');
          kept = (case map_of env ''RCON_PASSWORD'' of Some v \<Rightarrow> if js_falsy v then None else Some v | None \<Rightarrow> None);
          (password, s1) = (case kept of Some v \<Rightarrow> (v, s) | None \<Rightarrow> apfst JStr (draw_secret secret s))
      in (JObj (AList.update ''environment''
            (JObj (AList.update ''RCON_PASSWORD'' password (AList.update ''ENABLE_RCON'' (JStr ''TRUE'') env))) current), s1))"

definition start_server :: "host \<Rightarrow> (nat \<Rightarrow> cp \<Rightarrow> cp) \<Rightarrow> (nat \<Rightarrow> string) \<Rightarrow> game_server \<Rightarrow> deployment \<Rightarrow> cp \<Rightarrow> handler_result" where
  "start_server h vrival secret g d s =
     (let (cfg, s1) = withRconEnabled secret (d_runtimeConfig d) s;
          s2 = update_deployments (\<lambda>x. d_id x = d_id d)
                 (\<lambda>x. x\<lparr>d_desiredState := WantRunning, d_image := minecraftRuntimeImage, d_runtimeConfig := cfg\<rparr>) s1;
          s3 = update_applications (\<lambda>a. Some (a_id a) = gs_applicationId g) (\<lambda>a. a\<lparr>a_imageName := Some minecraftRuntimeImage\<rparr>) s2;
          s4 = update_game_servers (\<lambda>x. gs_id x = gs_id g) (\<lambda>x. x\<lparr>gs_status := GsProvisioning, gs_runtimePort := None\<rparr>) s3
      in case reconcileDeployment h vrival (d_id d) s4 of
           (Inl e, s5) \<Rightarrow> (Inl e, s5)
         | (Inr _, s5) \<Rightarrow> (Inr (Reply 202 (JObj [(''status'', JStr ''starting'')])), s5))"

definition start_game_server :: "host \<Rightarrow> (nat \<Rightarrow> cp \<Rightarrow> cp) \<Rightarrow> (nat \<Rightarrow> string) \<Rightarrow> iam \<Rightarrow> game_request \<Rightarrow> cp \<Rightarrow> handler_result" where
  "start_game_server h vrival secret m rq = in_game_org m rq (\<lambda>scope s.
     case managedServer scope (gr_serverId rq) s of
       None \<Rightarrow> (Inr (Problem 409 ''Game server must be migrated before agent control is available''), s)
     | Some g \<Rightarrow>
         if \<not> hasServerRole m s (gs_id g) scope RoleOperator then (Inr (Problem 403 ''Server operator role required''), s)
         else (case find_deployment (the (gs_deploymentId g)) s of
                 None \<Rightarrow> (Inr (Problem 404 ''Game server deployment not found''), s)
               | Some d \<Rightarrow> start_server h vrival secret g d s))"

subsection \<open>Console and files\<close>

definition server_command :: "string \<Rightarrow> string \<Rightarrow> string \<Rightarrow> string \<Rightarrow> json \<Rightarrow> int \<Rightarrow> agent_command" where
  "server_command i nid ty wid payload now =
     \<lparr>c_id = i, c_nodeId = nid, c_type = ty, c_resourceId = wid, c_payload = payload, c_deadlineAt = None,
      c_status = CmdPending, c_deliveredAt = None, c_deliveryAttempts = 0, c_result = None, c_createdAt = now, c_completedAt = None\<rparr>"

definition send_server_command :: "host \<Rightarrow> workload \<Rightarrow> string \<Rightarrow> json \<Rightarrow> cp \<Rightarrow> string \<times> cp" where
  "send_server_command h w ty payload s =
     (let (i, s1) = randomUUID h s in
      (i, s1\<lparr>t_commands := t_commands s1 @ [server_command i (the (w_nodeId w)) ty (w_id w) payload (clock s1)]\<rparr>))"

text \<open>The workload of a running server.\<close>

definition running_workload :: "game_server \<Rightarrow> cp \<Rightarrow> workload option" where
  "running_workload g s =
     (case serverWorkload g s of
        None \<Rightarrow> None
      | Some w \<Rightarrow> if truthy (w_nodeId w) \<and> w_actualState w = ActRunning then Some w else None)"

definition on_running_server :: "host \<Rightarrow> string \<Rightarrow> json \<Rightarrow> game_server \<Rightarrow> cp \<Rightarrow> handler_result" where
  "on_running_server h ty payload g s =
     (case running_workload g s of
        None \<Rightarrow> (Inr (Problem 409 ''Game server is not running''), s)
      | Some w \<Rightarrow>
          (let (i, s1) = send_server_command h w ty payload s in
           (Inr (Reply 202 (JObj [(''commandId'', JStr i), (''status'', JStr ''pending'')])), s1)))"

definition send_console :: "host \<Rightarrow> iam \<Rightarrow> game_request \<Rightarrow> cp \<Rightarrow> handler_result" where
  "send_console h m rq = in_game_org m rq (\<lambda>scope.
     game_body rq consoleInput ''Invalid Minecraft command'' (\<lambda>command.
     with_server m rq RoleOperator scope
       (on_running_server h ''minecraft.command'' (JObj [(''command'', JStr command)]))))"

definition server_logs :: "string \<Rightarrow> cp \<Rightarrow> agent_command option" where
  "server_logs wid s =
     (case desc_nulls_first c_completedAt
             (filter (\<lambda>c. c_resourceId c = wid \<and> c_type c = ''minecraft.logs'' \<and> c_status c = CmdSucceeded) (t_commands s)) of
        [] \<Rightarrow> None | c # _ \<Rightarrow> Some c)"

definition server_logs_pending :: "string \<Rightarrow> cp \<Rightarrow> bool" where
  "server_logs_pending wid s \<longleftrightarrow>
     list_ex (\<lambda>c. c_resourceId c = wid \<and> c_type c = ''minecraft.logs'' \<and> c_status c \<in> {CmdPending, CmdDelivered}) (t_commands s)"

definition read_console :: "host \<Rightarrow> (int \<Rightarrow> string) \<Rightarrow> int option \<Rightarrow> iam \<Rightarrow> game_request \<Rightarrow> cp \<Rightarrow> handler_result" where
  "read_console h date tail m rq = in_game_org m rq (\<lambda>scope s.
     if tail \<noteq> None \<and> \<not> int_range 1 2000 (the tail) then (Inr (Problem 400 ''Invalid log request''), s)
     else with_server m rq RoleViewer scope (\<lambda>g s.
       case running_workload g s of
         None \<Rightarrow> (Inr (Reply 200 (JObj [(''logs'', JStr []), (''status'', JStr ''stopped'')])), s)
       | Some w \<Rightarrow>
           (let latest = server_logs (w_id w) s;
                s1 = (if server_logs_pending (w_id w) s then s
                      else snd (send_server_command h w ''minecraft.logs'' (JObj [(''tail'', jint (or_else tail 500))]) s))
            in (Inr (Reply 200 (JObj [(''logs'', JStr (logs_text latest)),
                  (''updatedAt'', jstr_opt (map_option date (Option.bind latest c_completedAt))), (''status'', JStr ''running'')])), s1))) s)"

definition string_or :: "json \<Rightarrow> json option \<Rightarrow> json" where
  "string_or d j = (case j of Some (JStr t) \<Rightarrow> JStr t | _ \<Rightarrow> d)"

definition result_field :: "agent_command \<Rightarrow> string \<Rightarrow> string \<Rightarrow> json option" where
  "result_field c k f = Option.bind (c_result c) (\<lambda>r. Option.bind (jget k r) (jget f))"

definition command_status_str :: "command_status \<Rightarrow> string" where
  "command_status_str st = (case st of CmdPending \<Rightarrow> ''pending'' | CmdDelivered \<Rightarrow> ''delivered'' | CmdSucceeded \<Rightarrow> ''succeeded''
     | CmdFailed \<Rightarrow> ''failed'')"

definition find_server_command :: "string list \<Rightarrow> game_request \<Rightarrow> workload \<Rightarrow> cp \<Rightarrow> agent_command option" where
  "find_server_command types rq w s =
     List.find (\<lambda>c. c_id c = gr_itemId rq \<and> c_resourceId c = w_id w \<and> c_type c \<in> set types) (t_commands s)"

definition console_result :: "iam \<Rightarrow> game_request \<Rightarrow> cp \<Rightarrow> handler_result" where
  "console_result m rq = in_game_org m rq (\<lambda>scope. with_server m rq RoleViewer scope (\<lambda>g s.
     case serverWorkload g s of
       None \<Rightarrow> (Inr (Problem 409 ''Game server has no workload''), s)
     | Some w \<Rightarrow>
         (case find_server_command [''minecraft.command''] rq w s of
            None \<Rightarrow> (Inr (Problem 404 ''Console command not found''), s)
          | Some c \<Rightarrow> (Inr (Reply 200 (JObj [(''status'', JStr (command_status_str (c_status c))),
              (''output'', string_or (JStr []) (result_field c ''data'' ''output'')),
              (''error'', string_or JNull (result_field c ''error'' ''message''))])), s))))"

definition list_server_files :: "host \<Rightarrow> iam \<Rightarrow> game_request \<Rightarrow> cp \<Rightarrow> handler_result" where
  "list_server_files h m rq = in_game_org m rq (\<lambda>scope. with_server m rq RoleViewer scope
     (on_running_server h ''minecraft.files.list'' (JObj [])))"

definition read_server_file :: "host \<Rightarrow> iam \<Rightarrow> game_request \<Rightarrow> cp \<Rightarrow> handler_result" where
  "read_server_file h m rq = game_body rq fileReadInput ''Invalid file path'' (\<lambda>payload. in_game_org m rq (\<lambda>scope.
     with_server m rq RoleViewer scope (on_running_server h ''minecraft.files.read'' payload)))"

definition write_server_file :: "host \<Rightarrow> iam \<Rightarrow> game_request \<Rightarrow> cp \<Rightarrow> handler_result" where
  "write_server_file h m rq = game_body rq fileWriteInput ''Invalid file update'' (\<lambda>payload. in_game_org m rq (\<lambda>scope.
     with_server m rq RoleOperator scope (on_running_server h ''minecraft.files.write'' payload)))"

definition file_result :: "iam \<Rightarrow> game_request \<Rightarrow> cp \<Rightarrow> handler_result" where
  "file_result m rq = in_game_org m rq (\<lambda>scope s.
     case managedServer scope (gr_serverId rq) s of
       None \<Rightarrow> (Inr (Problem 404 ''Not found''), s)
     | Some g \<Rightarrow>
         if \<not> hasServerRole m s (gs_id g) scope RoleViewer then (Inr (Problem 404 ''Not found''), s)
         else (case serverWorkload g s of
           None \<Rightarrow> (Inr (Problem 409 ''Game server has no workload''), s)
         | Some w \<Rightarrow>
             (case find_server_command [''minecraft.files.list'', ''minecraft.files.read'', ''minecraft.files.write''] rq w s of
                None \<Rightarrow> (Inr (Problem 404 ''File command not found''), s)
              | Some c \<Rightarrow> (Inr (Reply 200 (JObj [(''status'', JStr (command_status_str (c_status c))),
                  (''data'', or_else (Option.bind (c_result c) (jget ''data'')) JNull),
                  (''error'', or_else (result_field c ''error'' ''message'') JNull)])), s))))"

subsection \<open>Grants and deletion\<close>

definition server_access :: "iam \<Rightarrow> game_request \<Rightarrow> cp \<Rightarrow> response + game_server_access list" where
  "server_access m rq s =
     (case game_scope m rq of
        None \<Rightarrow> Inl (Problem 404 ''Not found'')
      | Some scope \<Rightarrow>
          (case managedServer scope (gr_serverId rq) s of
             None \<Rightarrow> Inl (Problem 404 ''Game server not found'')
           | Some g \<Rightarrow> if \<not> hasServerRole m s (gs_id g) scope RoleAdmin then Inl (Problem 403 ''Server admin role required'')
               else Inr (filter (\<lambda>a. ga_gameServerId a = gs_id g) (t_gameServerAccess s))))"

definition grants_subject :: "string \<Rightarrow> grant_input \<Rightarrow> game_server_access \<Rightarrow> bool" where
  "grants_subject sid v a \<longleftrightarrow> ga_gameServerId a = sid
     \<and> (case gti_subjectType v of SubjectUser \<Rightarrow> ga_userId a = Some (gti_subjectId v) | SubjectTeam \<Rightarrow> ga_teamId a = Some (gti_subjectId v))"

definition write_grant :: "host \<Rightarrow> string \<Rightarrow> grant_input \<Rightarrow> cp \<Rightarrow> cp" where
  "write_grant h sid v s =
     (case List.find (grants_subject sid v) (t_gameServerAccess s) of
        Some e \<Rightarrow> s\<lparr>t_gameServerAccess := upd_where (\<lambda>a. ga_id a = ga_id e) (\<lambda>a. a\<lparr>ga_role := gti_role v\<rparr>) (t_gameServerAccess s)\<rparr>
      | None \<Rightarrow>
          (let (i, s1) = randomUUID h s; user = gti_subjectType v = SubjectUser in
           s1\<lparr>t_gameServerAccess := t_gameServerAccess s1 @ [\<lparr>ga_id = i, ga_gameServerId = sid, ga_subjectType = gti_subjectType v,
             ga_userId = (if user then Some (gti_subjectId v) else None), ga_teamId = (if user then None else Some (gti_subjectId v)),
             ga_role = gti_role v, ga_createdAt = clock s1\<rparr>]\<rparr>))"

definition put_server_access :: "host \<Rightarrow> iam \<Rightarrow> game_request \<Rightarrow> cp \<Rightarrow> handler_result" where
  "put_server_access h m rq = in_game_org m rq (\<lambda>scope.
     game_body rq accessInput ''Invalid server access grant'' (\<lambda>v.
     with_server m rq RoleAdmin scope (\<lambda>g s.
       if gti_subjectType v = SubjectUser \<and> find_membership (og_id (sv_org scope)) (gti_subjectId v) m = None
       then (Inr (Problem 400 ''User is not an organization member''), s)
       else if gti_subjectType v = SubjectTeam
            \<and> \<not> list_ex (\<lambda>t. tm_id t = gti_subjectId v \<and> tm_organizationId t = og_id (sv_org scope)) (t_teams m)
       then (Inr (Problem 400 ''Team not found''), s)
       else (Inr NoContent, write_grant h (gs_id g) v s))))"

definition delete_server_access :: "iam \<Rightarrow> game_request \<Rightarrow> cp \<Rightarrow> handler_result" where
  "delete_server_access m rq = in_game_org m rq (\<lambda>scope. with_server m rq RoleAdmin scope (\<lambda>g s.
     (Inr NoContent, s\<lparr>t_gameServerAccess :=
        del_where (\<lambda>a. ga_id a = gr_itemId rq \<and> ga_gameServerId a = gs_id g) (t_gameServerAccess s)\<rparr>)))"

text \<open>Deleting a server deletes its grants.\<close>

definition drop_server :: "string \<Rightarrow> cp \<Rightarrow> cp" where
  "drop_server sid s = s\<lparr>t_gameServers := del_where (\<lambda>g. gs_id g = sid) (t_gameServers s),
     t_gameServerAccess := del_where (\<lambda>a. ga_gameServerId a = sid) (t_gameServerAccess s)\<rparr>"

definition delete_game_server :: "iam \<Rightarrow> game_request \<Rightarrow> cp \<Rightarrow> handler_result" where
  "delete_game_server m rq = in_game_org m rq (\<lambda>scope s.
     case server_in_org scope (gr_serverId rq) s of
       None \<Rightarrow> (Inr (Problem 404 ''Game server not found''), s)
     | Some g \<Rightarrow>
         if \<not> hasServerRole m s (gs_id g) scope RoleAdmin then (Inr (Problem 403 ''Server admin role required''), s)
         else if \<not> truthy (gs_applicationId g) then (Inr NoContent, drop_server (gs_id g) s)
         else if list_ex (\<lambda>w. w_desiredState w = WantRunning) (application_workloads (the (gs_applicationId g)) s)
         then (Inr (Problem 409 ''Stop the game server and wait for its workload before deletion''), s)
         else (Inr NoContent, drop_application (the (gs_applicationId g)) (drop_server (gs_id g) s)))"

end
