(* ===== verification/GameProperties.thy ===== *)
theory GameProperties
  imports GameServers ConfigRows
begin

text \<open>
  Properties of game servers: every request needs its role on its server and what the console and the files send, the agent
  reads; the roles do not ask for access to the project; starting a server revives its first revision.
\<close>

subsection \<open>The requests that change something\<close>

datatype game_call = CreateServer | StopServer | StartServer | SendConsole | ReadConsole "int option" | ListFiles | ReadFile
  | WriteFile | PutGrant | DeleteGrant | DeleteServer

fun game_call_of :: "host \<Rightarrow> (nat \<Rightarrow> cp \<Rightarrow> cp) \<Rightarrow> (nat \<Rightarrow> string) \<Rightarrow> (int \<Rightarrow> string) \<Rightarrow> iam \<Rightarrow> game_request \<Rightarrow> game_call \<Rightarrow> cp \<Rightarrow> handler_result" where
  "game_call_of h vrival secret date m rq CreateServer = create_game_server h vrival secret m rq"
| "game_call_of h vrival secret date m rq StopServer = stop_game_server h m rq"
| "game_call_of h vrival secret date m rq StartServer = start_game_server h vrival secret m rq"
| "game_call_of h vrival secret date m rq SendConsole = send_console h m rq"
| "game_call_of h vrival secret date m rq (ReadConsole tail) = read_console h date tail m rq"
| "game_call_of h vrival secret date m rq ListFiles = list_server_files h m rq"
| "game_call_of h vrival secret date m rq ReadFile = read_server_file h m rq"
| "game_call_of h vrival secret date m rq WriteFile = write_server_file h m rq"
| "game_call_of h vrival secret date m rq PutGrant = put_server_access h m rq"
| "game_call_of h vrival secret date m rq DeleteGrant = delete_server_access m rq"
| "game_call_of h vrival secret date m rq DeleteServer = delete_game_server m rq"

fun call_role :: "game_call \<Rightarrow> server_role" where
  "call_role (ReadConsole _) = RoleViewer" | "call_role ListFiles = RoleViewer" | "call_role ReadFile = RoleViewer"
| "call_role StopServer = RoleOperator" | "call_role StartServer = RoleOperator" | "call_role SendConsole = RoleOperator"
| "call_role WriteFile = RoleOperator" | "call_role _ = RoleAdmin"

text \<open>\<open>entitled m rq role s\<close>: the caller is a member of the organisation with that role on the requested server.\<close>

definition entitled :: "iam \<Rightarrow> game_request \<Rightarrow> server_role \<Rightarrow> cp \<Rightarrow> bool" where
  "entitled m rq role s \<longleftrightarrow> (\<exists>scope g. game_scope m rq = Some scope \<and> g \<in> set (t_gameServers s) \<and> gs_id g = gr_serverId rq
     \<and> gs_organizationId g = og_id (sv_org scope) \<and> hasServerRole m s (gs_id g) scope role)"

lemma server_in_orgD:
  "server_in_org scope sid s = Some g \<Longrightarrow> g \<in> set (t_gameServers s) \<and> gs_id g = sid \<and> gs_organizationId g = og_id (sv_org scope)"
  by (auto simp: server_in_org_def dest: find_Some_iff')

lemma managedServerD:
  "managedServer scope sid s = Some g \<Longrightarrow> server_in_org scope sid s = Some g"
  by (auto simp: managedServer_def split: option.splits if_splits)

lemma in_game_org_changes:
  assumes "snd (in_game_org m rq handler s) \<noteq> s"
  obtains scope where "game_scope m rq = Some scope" "snd (handler scope s) \<noteq> s"
  using assms by (auto simp: in_game_org_def split: option.splits)

lemma game_body_changes:
  assumes "snd (game_body rq schema msg handler s) \<noteq> s"
  obtains j v where "gr_body rq = Some j" "schema j = Some v" "snd (handler v s) \<noteq> s"
  using assms by (auto simp: game_body_def split: option.splits)

lemma with_server_changes:
  assumes "snd (with_server m rq role scope handler s) \<noteq> s" "game_scope m rq = Some scope"
  shows "entitled m rq role s"
  using assms by (auto simp: with_server_def entitled_def split: option.splits if_splits dest!: managedServerD server_in_orgD)

lemma role_denied:
  assumes "game_scope m rq = Some scope" "server_in_org scope (gr_serverId rq) s = Some g" "hasServerRole m s (gs_id g) scope role"
  shows "entitled m rq role s"
  using assms by (auto simp: entitled_def dest!: server_in_orgD)

lemma changes_entitled:
  assumes "call \<noteq> CreateServer" "snd (game_call_of h vrival secret date m rq call s) \<noteq> s"
  shows "entitled m rq (call_role call) s"
proof (cases call)
  case StopServer
  from assms(2) [unfolded StopServer game_call_of.simps stop_game_server_def] obtain scope where
    "game_scope m rq = Some scope" "snd (let server = server_in_org scope (gr_serverId rq) s in
     if server \<noteq> None \<and> \<not> hasServerRole m s (gs_id (the server)) scope RoleOperator
     then (Inr (Problem 403 ''Server operator role required''), s)
     else if server = None \<or> \<not> truthy (gs_applicationId (the server))
     then (Inr (Problem 409 ''Legacy game servers must be migrated before agent control is available''), s)
     else (Inr (Reply 202 (JObj [(''status'', JStr ''stopping'')])) :: exn + response,
           update_game_servers (\<lambda>g. gs_id g = gs_id (the server)) (\<lambda>g. g\<lparr>gs_status := GsStopped, gs_runtimePort := None\<rparr>)
             (stopApplicationWorkloads h (the (gs_applicationId (the server))) s))) \<noteq> s" by (rule in_game_org_changes)
  then show ?thesis by (auto simp: Let_def StopServer split: if_splits intro: role_denied)
next
  case StartServer
  with assms(2) show ?thesis
    by (auto simp: start_game_server_def split: option.splits if_splits intro: role_denied [OF _ managedServerD] elim!: in_game_org_changes)
next
  case DeleteServer
  with assms(2) show ?thesis
    by (auto simp: delete_game_server_def split: option.splits if_splits intro: role_denied elim!: in_game_org_changes)
next
  case (ReadConsole tail)
  with assms(2) show ?thesis
    by (auto simp: read_console_def split: if_splits dest: with_server_changes elim!: in_game_org_changes)
qed (use assms in \<open>auto simp: send_console_def list_server_files_def read_server_file_def write_server_file_def put_server_access_def
    delete_server_access_def dest: with_server_changes elim!: in_game_org_changes game_body_changes\<close>)

subsection \<open>What the agent reads\<close>

fun console_call :: "game_call \<Rightarrow> bool" where
  "console_call SendConsole = True" | "console_call (ReadConsole _) = True" | "console_call ListFiles = True"
| "console_call ReadFile = True" | "console_call WriteFile = True" | "console_call _ = False"

definition agent_reads :: "string \<Rightarrow> json \<Rightarrow> bool" where
  "agent_reads ty payload \<longleftrightarrow> ty = ''minecraft.command'' \<and> minecraftCommandPayload payload \<noteq> None
     \<or> ty = ''minecraft.logs'' \<and> minecraftLogsPayload payload \<noteq> None \<or> ty = ''minecraft.files.list''
     \<or> ty = ''minecraft.files.read'' \<and> minecraftFileReadPayload payload \<noteq> None
     \<or> ty = ''minecraft.files.write'' \<and> minecraftFileWritePayload payload \<noteq> None"

lemma server_path_agent: "server_path_ok p \<Longrightarrow> 1 \<le> length p \<Longrightarrow> length p \<le> 240 \<Longrightarrow> minecraft_path_ok p"
  by (auto simp: server_path_ok_def minecraft_path_ok_def list_all_iff list_ex_iff)

lemma filePath_ok: "filePath j = Some p \<Longrightarrow> minecraftFilePath (JStr p) = Some p"
  by (auto simp: filePath_def minecraftFilePath_def z_sized_def z_string_where_def bind_Some_iff intro: server_path_agent
      split: if_splits option.splits)

lemma console_read:
  assumes "consoleInput j = Some c"
  shows "agent_reads ''minecraft.command'' (JObj [(''command'', JStr c)])"
proof -
  from assms obtain j' where "z_trimmed 1 1024 j' = Some c" by (auto simp: consoleInput_def bind_Some_iff dest!: z_req_ok)
  from z_trimmed_ok [OF this] show ?thesis by (simp add: agent_reads_def minecraftCommandPayload_def z_req_def)
qed

lemma file_read_read:
  assumes "fileReadInput j = Some p"
  shows "agent_reads ''minecraft.files.read'' p"
proof -
  from assms obtain f j' where "p = JObj [(''path'', JStr f)]" "filePath j' = Some f"
    by (auto simp: fileReadInput_def bind_Some_iff dest!: z_req_ok)
  with filePath_ok show ?thesis by (simp add: agent_reads_def minecraftFileReadPayload_def z_req_def)
qed

lemma file_write_read:
  assumes "fileWriteInput j = Some p"
  shows "agent_reads ''minecraft.files.write'' p"
proof -
  from assms obtain f t j1 j2 where "p = JObj [(''path'', JStr f), (''content'', JStr t)]" "filePath j1 = Some f"
      "z_sized 0 (512 * 1024) j2 = Some t"
    by (auto simp: fileWriteInput_def bind_Some_iff simp del: z_sized_def dest!: z_req_ok)
  moreover then have "length t \<le> 512 * 1024" by (simp add: z_sized_def z_string_where_def split: if_splits option.splits)
  ultimately show ?thesis
    using filePath_ok by (simp add: agent_reads_def minecraftFileWritePayload_def z_req_def z_string_where_def)
qed

lemma logs_read: "int_range 1 2000 n \<Longrightarrow> agent_reads ''minecraft.logs'' (JObj [(''tail'', DeployRoute.jint n)])"
  by (simp add: agent_reads_def minecraftLogsPayload_def z_default_def DeployRoute.jint_def int_range_def in_range_def)

subsection \<open>What a console request does\<close>

text \<open>One command for the workload of the server, on its node.\<close>

definition commands_server :: "game_request \<Rightarrow> cp \<Rightarrow> cp \<Rightarrow> bool" where
  "commands_server rq s s' \<longleftrightarrow> (\<exists>g w c. g \<in> set (t_gameServers s) \<and> gs_id g = gr_serverId rq \<and> w \<in> set (t_workloads s)
     \<and> Some (w_deploymentId w) = gs_deploymentId g \<and> w_actualState w = ActRunning
     \<and> c_resourceId c = w_id w \<and> Some (c_nodeId c) = w_nodeId w \<and> agent_reads (c_type c) (c_payload c)
     \<and> s' = s\<lparr>uuid_next := Suc (uuid_next s), t_commands := t_commands s @ [c]\<rparr>)"

lemma newest_in: "newest t rs = Some r \<Longrightarrow> r \<in> set rs"
  by (induction rs arbitrary: r) (auto split: option.splits if_splits)

lemma running_workloadD:
  "running_workload g s = Some w \<Longrightarrow> w \<in> set (t_workloads s) \<and> Some (w_deploymentId w) = gs_deploymentId g
     \<and> w_actualState w = ActRunning \<and> truthy (w_nodeId w)"
  by (auto simp: running_workload_def serverWorkload_def split: option.splits if_splits dest!: newest_in)

lemma sent_commands:
  assumes "g \<in> set (t_gameServers s)" "gs_id g = gr_serverId rq" "running_workload g s = Some w" "agent_reads ty payload"
  shows "commands_server rq s (snd (send_server_command h w ty payload s))"
  unfolding commands_server_def
proof (intro exI conjI)
  show "snd (send_server_command h w ty payload s) = s\<lparr>uuid_next := Suc (uuid_next s), t_commands := t_commands s
      @ [server_command (h_randomUUID h (uuid_next s)) (the (w_nodeId w)) ty (w_id w) payload (clock s)]\<rparr>"
    by (simp add: send_server_command_def randomUUID_def)
qed (use assms running_workloadD [OF assms(3)] in \<open>simp_all add: server_command_def truthy_def\<close>)

lemma on_running_commands:
  assumes "snd (with_server m rq role scope (on_running_server h ty payload) s) \<noteq> s" "agent_reads ty payload"
  shows "commands_server rq s (snd (with_server m rq role scope (on_running_server h ty payload) s))"
proof -
  from assms(1) obtain g w where g: "managedServer scope (gr_serverId rq) s = Some g" "hasServerRole m s (gs_id g) scope role"
      "running_workload g s = Some w"
    by (auto simp: with_server_def on_running_server_def split: option.splits if_splits)
  then have "snd (with_server m rq role scope (on_running_server h ty payload) s) = snd (send_server_command h w ty payload s)"
    by (simp add: with_server_def on_running_server_def split: prod.split)
  with g server_in_orgD [OF managedServerD [OF g(1)]] sent_commands [OF _ _ g(3) assms(2)] show ?thesis by simp
qed

lemma console_calls_command:
  assumes "console_call call" "snd (game_call_of h vrival secret date m rq call s) \<noteq> s"
  shows "commands_server rq s (snd (game_call_of h vrival secret date m rq call s))"
proof (cases call)
  case (ReadConsole tail)
  let ?n = "or_else tail 500"
  from assms(2) obtain scope g w where r: "game_scope m rq = Some scope" "tail = None \<or> int_range 1 2000 (the tail)"
      "managedServer scope (gr_serverId rq) s = Some g" "hasServerRole m s (gs_id g) scope RoleViewer"
      "running_workload g s = Some w" "\<not> server_logs_pending (w_id w) s"
    by (auto simp: ReadConsole read_console_def in_game_org_def with_server_def Let_def split: option.splits if_splits)
  have "int_range 1 2000 ?n" using r(2) by (auto simp: int_range_def or_else_def split: option.splits)
  from sent_commands [OF _ _ r(5) logs_read [OF this]] server_in_orgD [OF managedServerD [OF r(3)]]
  have "commands_server rq s (snd (send_server_command h w ''minecraft.logs'' (JObj [(''tail'', DeployRoute.jint ?n)]) s))"
    by simp
  moreover have "snd (game_call_of h vrival secret date m rq call s)
      = snd (send_server_command h w ''minecraft.logs'' (JObj [(''tail'', DeployRoute.jint ?n)]) s)"
    using r by (auto simp: ReadConsole read_console_def in_game_org_def with_server_def Let_def)
  ultimately show ?thesis by simp
next
  case SendConsole
  with assms(2) show ?thesis
    by (auto simp: send_console_def in_game_org_def game_body_def intro: on_running_commands console_read split: option.splits)
next
  case ListFiles
  with assms(2) show ?thesis
    by (auto simp: list_server_files_def in_game_org_def agent_reads_def intro: on_running_commands split: option.splits)
next
  case ReadFile
  with assms(2) show ?thesis
    by (auto simp: read_server_file_def in_game_org_def game_body_def intro: on_running_commands file_read_read split: option.splits)
next
  case WriteFile
  with assms(2) show ?thesis
    by (auto simp: write_server_file_def in_game_org_def game_body_def intro: on_running_commands file_write_read split: option.splits)
qed (use assms(1) in simp_all)

text \<open>C22. A request to a game server, other than the creation of one, changes nothing unless its caller is a member of the server's
  organisation who manages applications there or holds a grant of the server, directly or through a team, of at least the role the request
  asks for: viewer to read, operator to act, admin to grant and to delete. What a request to the console or the files then does is exactly
  one command to the running workload of that server, on its node, with a payload the agent accepts.\<close>

theorem server_requests_authorised:
  assumes "call \<noteq> CreateServer" and "game_call_of h vrival secret date m rq call s = (r, s')" and "s' \<noteq> s"
  shows "entitled m rq (call_role call) s \<and> (\<not> console_call call \<or> commands_server rq s s')"
  using changes_entitled [of call h vrival secret date m rq s] console_calls_command [of call h vrival secret date m rq s] assms by auto

subsection \<open>Project access is not asked for\<close>

text \<open>Whoever manages applications in the organisation operates the servers of projects the project routes keep them out of.\<close>

lemma kept_out_of_list:
  assumes "game_scope m rq = Some scope" "find_membership (og_id (sv_org scope)) (sv_userId scope) m = Some mb"
    and "p \<in> set (t_projects m)" "distinct (map pj_id (t_projects m))" "pj_accessMode p = AccessTeam" "\<not> org_wide (mb_role mb)"
    and "\<not> team_access (pj_id p) (sv_userId scope) m" "gs_projectId g = Some (pj_id p)"
    and "list_game_servers by_name m rq s = Inr gs"
  shows "g \<notin> set gs"
proof -
  from assms(1) have sc: "gr_session rq = Some (sv_userId scope)" "find_org (gr_orgSlug rq) m = Some (sv_org scope)"
    by (auto simp: game_scope_def split: option.splits)
  have "pj_id p \<notin> set (map pj_id (pl_projects l))"
    if "listAccessibleProjects m (gr_session rq) (gr_orgSlug rq) ''projects.read'' = Some l" for l
  proof
    assume "pj_id p \<in> set (map pj_id (pl_projects l))"
    then obtain q where q: "q \<in> set (pl_projects l)" "pj_id q = pj_id p" by auto
    have "\<exists>mb. find_membership (og_id (sv_org scope)) (sv_userId scope) m = Some mb
        \<and> pl_projects l = filter (project_visible m (og_id (sv_org scope)) (sv_userId scope) (mb_role mb)) (t_projects m)"
      using that sc by (auto simp: list_scope listed_scope_def Let_def split: option.splits if_splits)
    with assms(2) q have "q \<in> set (t_projects m)" "project_visible m (og_id (sv_org scope)) (sv_userId scope) (mb_role mb) q" by auto
    moreover from this(1) assms(3,4) q(2) have "q = p" by (auto simp: distinct_map dest: inj_onD)
    ultimately show False using assms(5,6,7) by (simp add: project_visible_def)
  qed
  with assms(8,9) show ?thesis
    using assms(1) by (auto simp: list_game_servers_def Let_def truthy_def split: option.splits if_splits)
qed

lemma kept_out_of_project:
  assumes "game_scope m rq = Some scope" "find_membership (og_id (sv_org scope)) (sv_userId scope) m = Some mb"
    and "p \<in> set (t_projects m)" "distinct (map pj_id (t_projects m))" "pj_accessMode p = AccessTeam" "\<not> org_wide (mb_role mb)"
    and "\<not> team_access (pj_id p) (sv_userId scope) m"
  shows "resolveProjectAccess m (gr_session rq) (gr_orgSlug rq) (pj_id p) permission = None"
proof -
  have sc: "gr_session rq = Some (sv_userId scope)" "find_org (gr_orgSlug rq) m = Some (sv_org scope)"
    using assms(1) by (auto simp: game_scope_def split: option.splits)
  have "find_project (pj_id p) org m = Some q \<Longrightarrow> q = p" for org q
    using find_conj_key [OF assms(4,3), of "\<lambda>x. pj_organizationId x = org"] by (simp add: find_project_def split: if_splits)
  with assms(2,5,6,7) sc show ?thesis
    by (auto simp: resolveProjectAccess_def Let_def org_wide_def split: option.split)
qed

text \<open>The roles do not follow the access policy of projects: a member who may change applications in the organisation and is kept out
  of a team's project, so that no project route lets them in and the list does not show the game servers of the project, still has every
  role on them. Their request to stop such a server is carried out: none of its revisions stays wanted.\<close>

theorem kept_out_member_operates:
  assumes "game_scope m rq = Some scope" "find_membership (og_id (sv_org scope)) (sv_userId scope) m = Some mb"
    and "p \<in> set (t_projects m)" "distinct (map pj_id (t_projects m))" "pj_accessMode p = AccessTeam" "\<not> org_wide (mb_role mb)"
    and "\<not> team_access (pj_id p) (sv_userId scope) m" "''applications.update'' \<in> set (sv_permissions scope)"
    and "managedServer scope (gr_serverId rq) s = Some g" "gs_projectId g = Some (pj_id p)" "gs_applicationId g = Some aid"
    and "distinct (map d_id (t_deployments s))"
  shows "resolveProjectAccess m (gr_session rq) (gr_orgSlug rq) (pj_id p) permission = None
    \<and> (case list_game_servers by_name m rq s of Inl _ \<Rightarrow> True | Inr gs \<Rightarrow> g \<notin> set gs)
    \<and> hasServerRole m s (gs_id g) scope role
    \<and> fst (stop_game_server h m rq s) = Inr (Reply 202 (JObj [(''status'', JStr ''stopping'')]))
    \<and> filter (BuildProperties.wanted aid) (t_deployments (snd (stop_game_server h m rq s))) = []"
proof (intro conjI)
  show "resolveProjectAccess m (gr_session rq) (gr_orgSlug rq) (pj_id p) permission = None"
    by (rule kept_out_of_project [OF assms(1-7)])
  show "case list_game_servers by_name m rq s of Inl _ \<Rightarrow> True | Inr gs \<Rightarrow> g \<notin> set gs"
    using kept_out_of_list [OF assms(1-7,10)] by (simp split: sum.split)
  show all: "hasServerRole m s (gs_id g) scope role" for role using assms(8) by (simp add: hasServerRole_def)
  have srv: "server_in_org scope (gr_serverId rq) s = Some g" "truthy (gs_applicationId g)"
    using assms(9) by (auto simp: managedServer_def split: option.splits if_splits)
  have stop: "stop_game_server h m rq s = (Inr (Reply 202 (JObj [(''status'', JStr ''stopping'')])),
      update_game_servers (\<lambda>x. gs_id x = gs_id g) (\<lambda>x. x\<lparr>gs_status := GsStopped, gs_runtimePort := None\<rparr>) (stopApplicationWorkloads h aid s))"
    using srv all assms(1,11) by (simp add: stop_game_server_def in_game_org_def)
  then show "fst (stop_game_server h m rq s) = Inr (Reply 202 (JObj [(''status'', JStr ''stopping'')]))" by simp
  show "filter (BuildProperties.wanted aid) (t_deployments (snd (stop_game_server h m rq s))) = []"
    using stop_workloads_rows(1) [OF assms(12), of aid h] by (simp add: stop update_game_servers_def)
qed

subsection \<open>Starting\<close>

text \<open>Starting a server wants its first revision again and overwrites its image and environment; whatever revision of the application
  was wanted stays wanted beside it.\<close>

lemma keeps_member: "keeps s t \<Longrightarrow> x \<in> set (t_deployments s) \<Longrightarrow> \<exists>y. y \<in> set (t_deployments t) \<and> intent y = intent x"
  unfolding keeps_def by (metis in_set_conv_nth length_map nth_map)

lemma start_revives_first_revision:
  assumes "game_scope m rq = Some scope" "managedServer scope (gr_serverId rq) s = Some g" "gs_deploymentId g = Some (d_id d)"
    and "hasServerRole m s (gs_id g) scope RoleOperator" "d \<in> set (t_deployments s)" "distinct (map d_id (t_deployments s))"
    and "e \<in> set (t_deployments s)" "BuildProperties.wanted (d_applicationId d) e"
    and "\<And>ids. volume_rivals ids vrival"
  shows "{d_id d, d_id e} \<subseteq> d_id ` set (filter (BuildProperties.wanted (d_applicationId d))
      (t_deployments (snd (start_game_server h vrival secret m rq s))))"
proof -
  have f: "find_deployment (d_id d) s = Some d"
    by (rule find_in_scope [OF assms(6,5)])
  obtain cfg s1 where c: "withRconEnabled secret (d_runtimeConfig d) s = (cfg, s1)" by (rule prod.exhaust)
  have s1: "t_deployments s1 = t_deployments s"
    using c by (auto simp: withRconEnabled_def Let_def draw_secret_def split: option.splits if_splits)
  let ?f = "\<lambda>x. x\<lparr>d_desiredState := WantRunning, d_image := minecraftRuntimeImage, d_runtimeConfig := cfg\<rparr>"
  let ?s2 = "update_deployments (\<lambda>x. d_id x = d_id d) ?f s1"
  let ?s4 = "update_game_servers (\<lambda>x. gs_id x = gs_id g) (\<lambda>x. x\<lparr>gs_status := GsProvisioning, gs_runtimePort := None\<rparr>)
     (update_applications (\<lambda>a. Some (a_id a) = gs_applicationId g) (\<lambda>a. a\<lparr>a_imageName := Some minecraftRuntimeImage\<rparr>) ?s2)"
  let ?s5 = "snd (reconcileDeployment h vrival (d_id d) ?s4)"
  have run: "snd (start_game_server h vrival secret m rq s) = ?s5"
    using assms(1-4) f c by (simp add: start_game_server_def in_game_org_def start_server_def Let_def split: sum.split prod.split)
  have kept: "d_id x \<in> d_id ` set (filter (BuildProperties.wanted app) (t_deployments ?s5))"
    if x: "x \<in> set (t_deployments ?s2)" "BuildProperties.wanted app x" for x app
  proof -
    have "keeps ?s4 ?s5" by (rule keeps_reconcileDeployment [OF assms(9)])
    moreover have "t_deployments (update_game_servers P F t) = t_deployments t" for P F t by (simp add: update_game_servers_def)
    then have "x \<in> set (t_deployments ?s4)" using x(1) by (simp add: update_applications_def)
    ultimately obtain y where "y \<in> set (t_deployments ?s5)" "intent y = intent x" by (blast dest: keeps_member)
    with x(2) show ?thesis by (intro image_eqI [of _ _ y]) (simp_all add: intent_def revision_def BuildProperties.wanted_def)
  qed
  have "?f d \<in> set (t_deployments ?s2)"
    using assms(5) by (simp add: update_deployments_def s1 set_upd_where image_iff) (rule bexI [of _ d], simp_all)
  from kept [OF this, of "d_applicationId d"] have d: "d_id d \<in> d_id ` set (filter (BuildProperties.wanted (d_applicationId d)) (t_deployments ?s5))"
    by (simp add: BuildProperties.wanted_def)
  let ?e = "if d_id e = d_id d then ?f e else e"
  have "?e \<in> set (t_deployments ?s2)"
    using assms(7) by (auto simp: update_deployments_def s1 set_upd_where image_iff)
  moreover have "BuildProperties.wanted (d_applicationId d) ?e" using assms(8) by (simp add: BuildProperties.wanted_def)
  ultimately have "d_id ?e \<in> d_id ` set (filter (BuildProperties.wanted (d_applicationId d)) (t_deployments ?s5))" by (rule kept)
  moreover have "d_id ?e = d_id e" by simp
  ultimately have e: "d_id e \<in> d_id ` set (filter (BuildProperties.wanted (d_applicationId d)) (t_deployments ?s5))" by (simp only:)
  from d e show ?thesis unfolding run by blast
qed

subsection \<open>Witnesses\<close>

definition sample_server :: game_server where
  "sample_server = \<lparr>gs_id = ''gs1'', gs_organizationId = ''o1'', gs_projectId = Some ''p1'', gs_applicationId = Some ''app'',
     gs_deploymentId = Some ''live'', gs_createdByUserId = ''u1'', gs_name = ''Survival'', gs_version = ''LATEST'', gs_memoryMib = 2048,
     gs_containerName = ''devion-game-gs1'', gs_runtimePort = Some 25565, gs_status = GsRunning, gs_createdAt = 0, gs_updatedAt = 0\<rparr>"

definition sample_played :: cp where
  "sample_played = sample_deployed\<lparr>t_gameServers := [sample_server],
     t_workloads := [(new_workload empty_cp ''w1'' ''live'' ''n1'' [])\<lparr>w_actualState := ActRunning\<rparr>]\<rparr>"

definition sample_game_request :: game_request where
  "sample_game_request = \<lparr>gr_session = Some ''u4'', gr_orgSlug = ''acme'', gr_serverId = ''gs1'', gr_itemId = [],
     gr_body = Some (JObj [(''command'', JStr ''list'')])\<rparr>"

lemma server_requests_authorised_witness:
  "entitled sample_iam sample_game_request RoleOperator sample_played
   \<and> commands_server sample_game_request sample_played
       (snd (send_console sample_host sample_iam sample_game_request sample_played))"
proof -
  let ?run = "game_call_of sample_host (\<lambda>_ s. s) (\<lambda>_. []) (\<lambda>_. []) sample_iam sample_game_request SendConsole sample_played"
  have "map c_resourceId (t_commands (snd ?run)) = [''w1'']" "t_commands sample_played = []" by code_simp+
  then have "snd ?run \<noteq> sample_played" by (metis list.map_disc_iff list.distinct(1))
  from server_requests_authorised [of SendConsole, OF _ prod.collapse [symmetric] this] show ?thesis by simp
qed

lemma kept_out_member_operates_witness:
  "resolveProjectAccess sample_iam (Some ''u4'') ''acme'' ''p1'' ''applications.read'' = None
   \<and> filter (BuildProperties.wanted ''app'') (t_deployments sample_played) \<noteq> []
   \<and> filter (BuildProperties.wanted ''app'')
       (t_deployments (snd (stop_game_server sample_host sample_iam sample_game_request sample_played))) = []"
proof -
  let ?scope = "the (game_scope sample_iam sample_game_request)"
  let ?mb = "the (find_membership ''o1'' ''u4'' sample_iam)"
  have f: "game_scope sample_iam sample_game_request = Some ?scope"
    "find_membership (og_id (sv_org ?scope)) (sv_userId ?scope) sample_iam = Some ?mb"
    "\<not> org_wide (mb_role ?mb)" "\<not> team_access (pj_id sample_project) (sv_userId ?scope) sample_iam"
    "''applications.update'' \<in> set (sv_permissions ?scope)" "pj_accessMode sample_project = AccessTeam"
    "managedServer ?scope (gr_serverId sample_game_request) sample_played = Some sample_server"
    "gs_projectId sample_server = Some (pj_id sample_project)" "gs_applicationId sample_server = Some ''app''"
    "distinct (map d_id (t_deployments sample_played))" "distinct (map pj_id (t_projects sample_iam))"
    "map d_id (filter (BuildProperties.wanted ''app'') (t_deployments sample_played)) = [''live'']"
    "gr_session sample_game_request = Some ''u4''" "gr_orgSlug sample_game_request = ''acme''" "pj_id sample_project = ''p1''"
    by code_simp+
  have p: "sample_project \<in> set (t_projects sample_iam)" by (simp add: sample_iam_def)
  from kept_out_member_operates [OF f(1,2) p f(11,6,3,4,5,7,8,9,10), of "''applications.read''" "\<lambda>_ _. 0" RoleViewer sample_host] f(12-15)
  show ?thesis by auto
qed

end
