(* ===== verification/BuildRoutes.thy ===== *)
theory BuildRoutes
  imports DeploymentViews
begin

text \<open>
  The builds of Git applications, \<open>apps/api/src/routes/builds.routes.ts\<close>, the requests to the builder of
  \<open>features/builds/builder-client.ts\<close>, and the build configuration of an application (\<open>routes/applications.routes.ts\<close>). What the
  process finds in its environment, the \<open>URL\<close> class and \<open>fetch\<close> are the record \<open>build_host\<close>: \<open>Inl\<close> is a failed request, \<open>Inr\<close>
  the status and the body of the answer. \<open>message\<close> is the text of an exception.
\<close>

record http_call =
  hc_method :: string
  hc_path :: string
  hc_idempotencyKey :: "string option"
  hc_body :: "json option"

record build_host =
  bx_url :: url_class
  bx_hostname :: "string \<Rightarrow> string"
  bx_href :: "string \<Rightarrow> string"
  bx_isIP :: "string \<Rightarrow> bool"
  bx_encodeURIComponent :: "string \<Rightarrow> string"
  bx_parseDate :: "string \<Rightarrow> int"
  bx_allowedHosts :: "string option"
  bx_imagePrefix :: "string option"
  bx_builderPrefix :: "string option"
  bx_insecureRegistry :: bool
  bx_builderUrl :: "string option"
  bx_builderToken :: "string option"
  bx_fetch :: "string \<Rightarrow> string \<Rightarrow> http_call \<Rightarrow> exn + (int \<times> json)"

subsection \<open>The builder client\<close>

text \<open>\<open>value.replace(/\/$/, "")\<close>\<close>

definition trim_slash :: "string \<Rightarrow> string" where
  "trim_slash v = (if v \<noteq> [] \<and> last v = CHR ''/'' then butlast v else v)"

definition builder_request :: "build_host \<Rightarrow> http_call \<Rightarrow> exn + json" where
  "builder_request b call =
     (if \<not> truthy (map_option trim_slash (bx_builderUrl b)) \<or> \<not> truthy (bx_builderToken b)
      then Inl (Js_error ''Builder integration is not configured'')
      else (case bx_fetch b (trim_slash (the (bx_builderUrl b)) @ hc_path call) (the (bx_builderToken b)) call of
              Inl e \<Rightarrow> Inl e
            | Inr (status, body) \<Rightarrow>
                if 200 \<le> status \<and> status \<le> 299 then Inr body
                else Inl (Js_error (''Builder request failed with HTTP '' @ str_int status))))"

record builder_order =
  bo_buildId :: string
  bo_repository :: string
  bo_ref :: string
  bo_rootDirectory :: json
  bo_dockerfile :: json
  bo_target :: "json option"
  bo_buildArgs :: json
  bo_image :: string
  bo_insecureRegistry :: bool
  bo_secrets :: "(string \<times> string) list"

definition order_build :: "builder_order \<Rightarrow> json" where
  "order_build r = JObj ([(''context'', bo_rootDirectory r), (''dockerfile'', bo_dockerfile r)]
     @ (case bo_target r of None \<Rightarrow> [] | Some t \<Rightarrow> if js_falsy t then [] else [(''target'', t)])
     @ [(''platforms'', JArr [JStr ''linux/amd64'']), (''tags'', JArr [JStr (bo_image r)]), (''push'', JBool True),
        (''insecureRegistry'', JBool (bo_insecureRegistry r)), (''args'', bo_buildArgs r), (''secrets'', JObj []),
        (''cacheFrom'', JArr [])])"

definition order_step :: "builder_order \<Rightarrow> json" where
  "order_step r = JObj [(''id'', JStr ''build''), (''timeoutMinutes'', JNum 60), (''retries'', JNum 0), (''needs'', JArr []),
     (''continueOnError'', JBool False), (''env'', JObj []), (''build'', order_build r)]"

definition order_workflow :: "builder_order \<Rightarrow> json" where
  "order_workflow r = JObj [(''version'', JNum 1), (''name'', JStr (''Devion build '' @ bo_buildId r)), (''env'', JObj []),
     (''steps'', JArr [order_step r])]"

definition order_body :: "builder_order \<Rightarrow> json" where
  "order_body r = JObj [(''source'', JObj [(''repository'', JStr (bo_repository r)), (''ref'', JStr (bo_ref r))]),
     (''inputs'', JObj []), (''secrets'', JObj (map (\<lambda>(k, v). (k, JStr v)) (bo_secrets r))), (''workflow'', order_workflow r)]"

definition order_call :: "builder_order \<Rightarrow> http_call" where
  "order_call r = \<lparr>hc_method = ''POST'', hc_path = ''/v1/runs'', hc_idempotencyKey = Some (''devion-build:'' @ bo_buildId r),
     hc_body = Some (order_body r)\<rparr>"

text \<open>The run's id and creation time. Reading a field of a missing \<open>data\<close> throws, and so does storing an invalid date.\<close>

definition createBuilderRun :: "build_host \<Rightarrow> builder_order \<Rightarrow> exn + (string option \<times> int)" where
  "createBuilderRun b r =
     (case builder_request b (order_call r) of
        Inl e \<Rightarrow> Inl e
      | Inr body \<Rightarrow>
          (case jget ''data'' body of
             None \<Rightarrow> Inl (Js_error ''TypeError'')
           | Some JNull \<Rightarrow> Inl (Js_error ''TypeError'')
           | Some run \<Rightarrow>
               (case Option.bind (jget ''createdAt'' run) z_string of
                  None \<Rightarrow> Inl (Js_error ''RangeError'')
                | Some t \<Rightarrow> Inr (Option.bind (jget ''id'' run) z_string, bx_parseDate b t))))"

definition cancelBuilderRun :: "build_host \<Rightarrow> string \<Rightarrow> exn + json" where
  "cancelBuilderRun b i = builder_request b \<lparr>hc_method = ''POST'',
     hc_path = ''/v1/runs/'' @ bx_encodeURIComponent b i @ ''/cancel'', hc_idempotencyKey = None, hc_body = None\<rparr>"

definition getBuilderLogs :: "build_host \<Rightarrow> string \<Rightarrow> int \<Rightarrow> exn + json option" where
  "getBuilderLogs b i after =
     (case builder_request b \<lparr>hc_method = ''GET'',
         hc_path = ''/v1/runs/'' @ bx_encodeURIComponent b i @ ''/logs?after='' @ str_int after, hc_idempotencyKey = None, hc_body = None\<rparr> of
        Inl e \<Rightarrow> Inl e | Inr body \<Rightarrow> Inr (jget ''data'' body))"

subsection \<open>Repositories\<close>

definition split_list :: "string option \<Rightarrow> string list" where
  "split_list v = filter (\<lambda>i. i \<noteq> []) (map (\<lambda>i. to_lower (trim_str i)) (split_on CHR '','' (or_else v [])))"

text \<open>\<open>/^(10\.|127\.|169\.254\.|192\.168\.)/\<close> and \<open>/^172\.(1[6-9]|2\d|3[01])\./\<close>\<close>

definition private_prefixes :: "string list" where
  "private_prefixes = [''10.'', ''127.'', ''169.254.'', ''192.168.''] @ map (\<lambda>n. ''172.'' @ str_nat n @ ''.'') [16..<32]"

definition validateRepository :: "build_host \<Rightarrow> string \<Rightarrow> exn + string" where
  "validateRepository b u =
     (case bx_url b u of
        None \<Rightarrow> Inl (Js_error ''Invalid URL'')
      | Some p \<Rightarrow>
          if up_protocol p \<noteq> ''https:'' \<or> up_username p \<noteq> [] \<or> up_password p \<noteq> []
          then Inl (Js_error ''Git repositories must use credential-free HTTPS URLs'')
          else (let hostname = to_lower (bx_hostname b u);
                    privateIp = (bx_isIP b hostname \<and> list_ex (\<lambda>x. starts_with x hostname) private_prefixes)
                in if (hostname = ''localhost'' \<or> ends_with ''.local'' hostname \<or> privateIp) \<and> hostname \<notin> set (split_list (bx_allowedHosts b))
                   then Inl (Js_error ''Internal Git hosts must be explicitly allowed with GIT_ALLOWED_HOSTS'')
                   else Inr (bx_href b u)))"

subsection \<open>What a build is made from\<close>

definition trigger_input :: "json \<Rightarrow> (bool \<times> deployment_request) option" where
  "trigger_input j =
     Option.bind (z_object j) (\<lambda>j.
     Option.bind (z_default z_bool True ''deploy'' j) (\<lambda>d.
     Option.bind (z_opt (z_int (int_range 1 100)) ''replicas'' j) (\<lambda>r.
     Option.bind (z_opt (z_int (int_range 1 256000)) ''cpuMilli'' j) (\<lambda>c.
     Option.bind (z_opt (z_int (int_range 16 1048576)) ''memoryMib'' j) (\<lambda>m.
     Option.bind (z_opt (z_int (int_range 0 1048576)) ''storageMib'' j) (\<lambda>st.
       Some (d, \<lparr>dr_environmentId = None, dr_replicas = r, dr_cpuMilli = c, dr_memoryMib = m, dr_storageMib = st,
                 dr_region = None, dr_requiredLabels = None\<rparr>)))))))"

text \<open>The plain variables of the default environment, then the application's own, all of them in the order of the table.\<close>

definition build_base_variables :: "application \<Rightarrow> cp \<Rightarrow> (string \<times> string) list" where
  "build_base_variables app s = (if truthy (a_defaultEnvironmentId app)
     then map (\<lambda>v. (ev_key v, ev_valueEncrypted v))
       (filter (\<lambda>v. Some (ev_environmentId v) = a_defaultEnvironmentId app \<and> \<not> ev_isSecret v) (t_environmentVariables s))
     else [])"

definition build_own_variables :: "application \<Rightarrow> cp \<Rightarrow> (string \<times> string) list" where
  "build_own_variables app s = map (\<lambda>v. (av_key v, av_valueEncrypted v))
     (filter (\<lambda>v. av_environmentId v = None \<or> av_environmentId v = a_defaultEnvironmentId app) (variables_of (a_id app) s))"

definition git_credential :: "application \<Rightarrow> string \<Rightarrow> cp \<Rightarrow> environment_variable option" where
  "git_credential app projectId s =
     List.find (\<lambda>v. Some (ev_id v) = a_gitCredentialReference app \<and> ev_isSecret v
        \<and> list_ex (\<lambda>e. pe_id e = ev_environmentId v \<and> pe_projectId e = projectId) (t_environments s)) (t_environmentVariables s)"

record build_secrets_env =
  bv_environment :: "(string \<times> string) list"
  bv_secrets :: "(string \<times> string) list"

definition undecryptable :: exn where
  "undecryptable = Js_error ''Invalid encrypted environment variable''"

definition build_values :: "(string \<Rightarrow> string option) \<Rightarrow> application \<Rightarrow> string \<Rightarrow> cp \<Rightarrow> exn + build_secrets_env" where
  "build_values dec app projectId s =
     (case decrypt_all dec (build_base_variables app s) of
        None \<Rightarrow> Inl undecryptable
      | Some base \<Rightarrow>
          if truthy (a_gitCredentialReference app) \<and> git_credential app projectId s = None
          then Inl (Js_error ''Configured Git credential is no longer available in this project'')
          else (case (if truthy (a_gitCredentialReference app)
                      then decrypt_all dec [(''GIT_TOKEN'', ev_valueEncrypted (the (git_credential app projectId s)))] else Some []) of
                  None \<Rightarrow> Inl undecryptable
                | Some secrets \<Rightarrow>
                    (case decrypt_all dec (build_own_variables app s) of
                       None \<Rightarrow> Inl undecryptable
                     | Some own \<Rightarrow> Inr \<lparr>bv_environment = set_all own (set_all base []), bv_secrets = secrets\<rparr>)))"

text \<open>\<open>cfg.key ?? d\<close>\<close>

definition field_or :: "string \<Rightarrow> json \<Rightarrow> json \<Rightarrow> json" where
  "field_or k d j = (case jget k j of None \<Rightarrow> d | Some JNull \<Rightarrow> d | Some v \<Rightarrow> v)"

definition build_dockerfile :: "application \<Rightarrow> json" where
  "build_dockerfile app = field_or ''dockerfile''
     (JStr ((if a_rootDirectory app = ''.'' then [] else a_rootDirectory app @ ''/'') @ ''Dockerfile'')) (a_buildConfiguration app)"

definition build_context :: "application \<Rightarrow> json" where
  "build_context app = field_or ''context'' (JStr (a_rootDirectory app)) (a_buildConfiguration app)"

definition build_target :: "application \<Rightarrow> json option" where
  "build_target app = (case jget ''target'' (a_buildConfiguration app) of None \<Rightarrow> None | Some t \<Rightarrow> if js_falsy t then None else Some t)"

definition configured_args :: "application \<Rightarrow> json" where
  "configured_args app = field_or ''args'' (JObj []) (a_buildConfiguration app)"

definition build_snapshot :: "(int \<Rightarrow> string) \<Rightarrow> application \<Rightarrow> string \<Rightarrow> int \<Rightarrow> workload_requirements \<Rightarrow> (string \<times> string) list \<Rightarrow> cp \<Rightarrow> json" where
  "build_snapshot date app repositoryUrl replicas req env s = JObj
     [(''source'', JObj [(''type'', JStr ''git''), (''repository'', JStr repositoryUrl), (''branch'', JStr (a_branch app))]),
      (''build'', JObj [(''strategy'', JStr ''dockerfile''), (''dockerfile'', field_or ''dockerfile'' JNull (a_buildConfiguration app)),
         (''context'', build_context app)]),
      (''runtime'', case runtime_defaults (a_id app) s of
          None \<Rightarrow> JObj [(''runtime'', JStr ''container''), (''replicas'', jint replicas), (''restartPolicy'', JStr ''unless-stopped''),
            (''gracefulShutdownSeconds'', JNum 15)]
        | Some r \<Rightarrow> runtime_row_json date r),
      (''resources'', requirements_json req),
      (''ports'', JArr (map (port_row_json date) (filter (\<lambda>p. ap_applicationId p = a_id app) (t_applicationPorts s)))),
      (''volumes'', JArr (map mount_row_json (filter (\<lambda>a. avm_applicationId a = a_id app) (t_applicationVolumeMounts s)))),
      (''environmentId'', jstr_opt (a_defaultEnvironmentId app)), (''environmentKeys'', JArr (map (JStr \<circ> fst) env)),
      (''applicationVariableKeys'', JArr (map (\<lambda>v. JObj [(''key'', JStr (av_key v)), (''environmentId'', jstr_opt (av_environmentId v))])
         (variables_of (a_id app) s))),
      (''secretReferences'', deploy_secret_references (a_defaultEnvironmentId app) (a_id app) s)]"

definition trigger_str :: "build_trigger \<Rightarrow> string" where
  "trigger_str t = (case t of TrigBuild \<Rightarrow> ''build'' | TrigDeploy \<Rightarrow> ''deploy'' | TrigRetry \<Rightarrow> ''retry'')"

text \<open>The registry credential of a deployment of an image is left out: the runtime configuration has the other fields of one.\<close>

definition build_runtime_config :: "application \<Rightarrow> (string \<times> string) list \<Rightarrow> cp \<Rightarrow> json" where
  "build_runtime_config app env s =
     (let ports = filter (\<lambda>p. ap_applicationId p = a_id app) (t_applicationPorts s) in
      deploy_runtime_config (app\<lparr>a_registryCredentialReference := None\<rparr>) (runtime_defaults (a_id app) s) env
        (if ports = [] then [default_port (a_internalPort app)] else ports)
        (filter (\<lambda>a. avm_applicationId a = a_id app) (t_applicationVolumeMounts s)))"

definition build_configuration_json :: "(int \<Rightarrow> string) \<Rightarrow> application \<Rightarrow> build_trigger \<Rightarrow> string \<Rightarrow> deployment_request \<Rightarrow> (string \<times> string) list
     \<Rightarrow> cp \<Rightarrow> json" where
  "build_configuration_json date app trigger repositoryUrl v env s =
     (let req = deploy_requirements v (resource_defaults (a_id app) s);
          replicas = deploy_replicas v (runtime_defaults (a_id app) s) in
      JObj ([(''strategy'', JStr ''dockerfile''), (''dockerfile'', build_dockerfile app), (''context'', build_context app)]
        @ jopt ''target'' (build_target app)
        @ [(''args'', configured_args app),
           (''deployment'', JObj [(''enabled'', JBool (trigger \<noteq> TrigBuild)), (''replicas'', jint replicas)]),
           (''requirements'', requirements_json req), (''runtimeConfig'', build_runtime_config app env s),
           (''configurationSnapshot'', build_snapshot date app repositoryUrl replicas req env s)]))"

subsection \<open>Creating a build\<close>

record build_source =
  bsrc_organizationId :: string
  bsrc_projectId :: string
  bsrc_userId :: string
  bsrc_trigger :: build_trigger
  bsrc_retryOf :: "string option"

definition image_repository :: "string \<Rightarrow> build_source \<Rightarrow> application \<Rightarrow> string" where
  "image_repository prefix src app =
     to_lower (prefix @ ''/'' @ bsrc_organizationId src @ ''/'' @ bsrc_projectId src @ ''/'' @ a_id app)"

definition new_build :: "build_source \<Rightarrow> application \<Rightarrow> string \<Rightarrow> string \<Rightarrow> string \<Rightarrow> json \<Rightarrow> int \<Rightarrow> build" where
  "new_build src app i repositoryUrl imageRepository cfg now =
     \<lparr>b_id = i, b_organizationId = bsrc_organizationId src, b_projectId = bsrc_projectId src, b_applicationId = a_id app,
      b_triggeredBy = Some (bsrc_userId src), b_trigger = bsrc_trigger src, b_retryOfBuildId = bsrc_retryOf src,
      b_sourceType = ''git'', b_repositoryUrl = repositoryUrl, b_repositoryProvider = a_repositoryProvider app,
      b_branch = a_branch app, b_commitSha = None, b_status = BCreated, b_builderJobId = None, b_buildConfiguration = cfg,
      b_imageRepository = imageRepository, b_imageTag = i, b_imageDigest = None, b_errorCode = None, b_errorMessage = None,
      b_queuedAt = None, b_startedAt = None, b_completedAt = None, b_createdAt = now, b_updatedAt = now\<rparr>"

definition build_order :: "build_host \<Rightarrow> build_source \<Rightarrow> application \<Rightarrow> string \<Rightarrow> string \<Rightarrow> (string \<times> string) list \<Rightarrow> builder_order" where
  "build_order b src app i repositoryUrl secrets =
     \<lparr>bo_buildId = i, bo_repository = repositoryUrl, bo_ref = a_branch app, bo_rootDirectory = build_context app,
      bo_dockerfile = build_dockerfile app, bo_target = build_target app, bo_buildArgs = configured_args app,
      bo_image = image_repository (trim_slash (the (case bx_builderPrefix b of None \<Rightarrow> bx_imagePrefix b | Some p \<Rightarrow> Some p))) src app
        @ '':'' @ i,
      bo_insecureRegistry = bx_insecureRegistry b, bo_secrets = secrets\<rparr>"

definition audit_build :: "host \<Rightarrow> string \<Rightarrow> string \<Rightarrow> string \<Rightarrow> json \<Rightarrow> cp \<Rightarrow> cp" where
  "audit_build h actor action bid metadata s =
     (let (i, s1) = randomUUID h s in s1\<lparr>t_auditLogs := t_auditLogs s1 @
        [\<lparr>al_id = i, al_actorId = Some actor, al_action = action, al_targetType = ''build'', al_targetId = Some bid,
          al_metadata = Some metadata, al_ipAddress = None, al_createdAt = clock s1\<rparr>]\<rparr>)"

text \<open>The row is inserted, then the builder is asked; when it cannot be, the row says so and the exception goes on.\<close>

definition order_queued :: "build_host \<Rightarrow> (exn \<Rightarrow> string) \<Rightarrow> builder_order \<Rightarrow> cp \<Rightarrow> (exn + unit) \<times> cp" where
  "order_queued b message order s =
     (case createBuilderRun b order of
        Inr (job, t) \<Rightarrow> (Inr (), set_build (bo_buildId order)
           (\<lambda>r. r\<lparr>b_status := BQueued, b_builderJobId := job, b_queuedAt := Some t\<rparr>) s)
      | Inl e \<Rightarrow> (Inl e, fail_build (bo_buildId order) ''BUILDER_UNAVAILABLE'' (message e) s))"

definition createBuild ::
  "build_host \<Rightarrow> host \<Rightarrow> (string \<Rightarrow> string option) \<Rightarrow> (int \<Rightarrow> string) \<Rightarrow> (exn \<Rightarrow> string) \<Rightarrow> build_source \<Rightarrow> application
     \<Rightarrow> deployment_request \<Rightarrow> cp \<Rightarrow> (exn + string) \<times> cp" where
  "createBuild b h dec date message src app v s =
     (if \<not> truthy (a_gitUrl app) then (Inl (Js_error ''Application has no Git repository''), s)
      else (case validateRepository b (the (a_gitUrl app)) of
        Inl e \<Rightarrow> (Inl e, s)
      | Inr repositoryUrl \<Rightarrow>
          if \<not> truthy (map_option trim_slash (bx_imagePrefix b))
          then (Inl (Js_error ''DEVION_BUILD_IMAGE_PREFIX is not configured''), s)
          else (let (i, s1) = randomUUID h s in
            (case build_values dec app (bsrc_projectId src) s1 of
               Inl e \<Rightarrow> (Inl e, s1)
             | Inr values \<Rightarrow>
                 if list_ex (\<lambda>m. avm_applicationId m = a_id app \<and> \<not> avm_readOnly m) (t_applicationVolumeMounts s1)
                    \<and> 1 < deploy_replicas v (runtime_defaults (a_id app) s1)
                 then (Inl (Js_error ''Writable local volumes require a single replica until shared storage is configured''), s1)
                 else (let cfg = build_configuration_json date app (bsrc_trigger src) repositoryUrl v (bv_environment values) s1;
                           row = new_build src app i repositoryUrl (image_repository (trim_slash (the (bx_imagePrefix b))) src app) cfg (clock s1);
                           s2 = s1\<lparr>t_builds := t_builds s1 @ [row]\<rparr>
                       in (case order_queued b message (build_order b src app i repositoryUrl (bv_secrets values)) s2 of
                             (Inl e, s3) \<Rightarrow> (Inl e, s3)
                           | (Inr _, s3) \<Rightarrow> (Inr i, audit_build h (bsrc_userId src)
                               (if bsrc_trigger src = TrigRetry then ''build.retried'' else ''build.created'') i
                               (JObj [(''projectId'', JStr (bsrc_projectId src)), (''applicationId'', JStr (a_id app)),
                                  (''deploy'', JBool (bsrc_trigger src \<noteq> TrigBuild))]) s3)))))))"

subsection \<open>The routes\<close>

definition in_build_scope ::
  "iam \<Rightarrow> app_request \<Rightarrow> string \<Rightarrow> (project_access \<Rightarrow> cp \<Rightarrow> handler_result) \<Rightarrow> cp \<Rightarrow> handler_result" where
  "in_build_scope m rq permission handler s =
     (case resolveProjectAccess m (rq_session rq) (rq_orgSlug rq) (rq_projectId rq) ''projects.read'' of
        None \<Rightarrow> (Inr (Problem 404 ''Project not found or access denied''), s)
      | Some access \<Rightarrow>
          if permission \<notin> set (pa_permissions access) then (Inr (Problem 403 (''Permission required: '' @ permission)), s)
          else handler access s)"

definition source_of :: "project_access \<Rightarrow> build_trigger \<Rightarrow> string option \<Rightarrow> build_source" where
  "source_of access t r = \<lparr>bsrc_organizationId = og_id (pa_organization access), bsrc_projectId = pj_id (pa_project access),
     bsrc_userId = pa_userId access, bsrc_trigger = t, bsrc_retryOf = r\<rparr>"

definition build_answer :: "(exn \<Rightarrow> string) \<Rightarrow> (exn + string) \<times> cp \<Rightarrow> handler_result" where
  "build_answer message res =
     (case res of
        (Inl e, s) \<Rightarrow> (Inr (Problem 503 (message e)), s)
      | (Inr i, s) \<Rightarrow> (Inr (Reply 202 (JObj [(''buildId'', JStr i), (''status'', JStr ''queued'')])), s))"

definition trigger_build ::
  "build_host \<Rightarrow> host \<Rightarrow> (string \<Rightarrow> string option) \<Rightarrow> (int \<Rightarrow> string) \<Rightarrow> (exn \<Rightarrow> string) \<Rightarrow> iam \<Rightarrow> app_request \<Rightarrow> cp \<Rightarrow> handler_result" where
  "trigger_build b h dec date message m rq = in_build_scope m rq ''builds.create'' (\<lambda>access s.
     if pj_status (pa_project access) = ProjectArchived then (Inr (Problem 409 ''Archived projects cannot start builds''), s)
     else (case applicationInScope access (rq_applicationId rq) s of
       None \<Rightarrow> (Inr (Problem 404 ''Application not found''), s)
     | Some app \<Rightarrow>
         if a_lifecycleStatus app = LifeArchived then (Inr (Problem 409 ''Archived applications cannot start builds''), s)
         else if a_sourceType app \<noteq> SrcGit then (Inr (Problem 409 ''Builds are available only for Git applications''), s)
         else (case trigger_input (or_else (rq_body rq) (JObj [])) of
                 None \<Rightarrow> (Inr (Problem 400 ''Invalid build settings''), s)
               | Some (deploy, v) \<Rightarrow>
                   if deploy \<and> ''deployments.create'' \<notin> set (pa_permissions access)
                   then (Inr (Problem 403 ''Permission required: deployments.create''), s)
                   else build_answer message
                     (createBuild b h dec date message (source_of access (if deploy then TrigDeploy else TrigBuild) None) app v s))))"

definition list_builds :: "iam \<Rightarrow> app_request \<Rightarrow> cp \<Rightarrow> response + build list" where
  "list_builds m rq s =
     (case resolveProjectAccess m (rq_session rq) (rq_orgSlug rq) (rq_projectId rq) ''projects.read'' of
        None \<Rightarrow> Inl (Problem 404 ''Project not found or access denied'')
      | Some access \<Rightarrow>
          if ''builds.read'' \<notin> set (pa_permissions access) then Inl (Problem 403 ''Permission required: builds.read'')
          else Inr (sort_key (\<lambda>x. - b_createdAt x)
                 (filter (\<lambda>x. b_projectId x = pj_id (pa_project access) \<and> b_applicationId x = rq_applicationId rq) (t_builds s))))"

definition build_in_scope :: "project_access \<Rightarrow> string \<Rightarrow> cp \<Rightarrow> build option" where
  "build_in_scope access bid s = List.find (\<lambda>x. b_id x = bid \<and> b_projectId x = pj_id (pa_project access)) (t_builds s)"

definition get_build :: "iam \<Rightarrow> app_request \<Rightarrow> string \<Rightarrow> cp \<Rightarrow> response + build \<times> deployment option" where
  "get_build m rq bid s =
     (case resolveProjectAccess m (rq_session rq) (rq_orgSlug rq) (rq_projectId rq) ''projects.read'' of
        None \<Rightarrow> Inl (Problem 404 ''Project not found or access denied'')
      | Some access \<Rightarrow>
          if ''builds.read'' \<notin> set (pa_permissions access) then Inl (Problem 403 ''Permission required: builds.read'')
          else (case build_in_scope access bid s of
                  None \<Rightarrow> Inl (Problem 404 ''Build not found'')
                | Some x \<Rightarrow> Inr (x, List.find (\<lambda>d. d_buildId d = Some (b_id x)) (t_deployments s))))"

definition get_build_logs :: "build_host \<Rightarrow> iam \<Rightarrow> app_request \<Rightarrow> string \<Rightarrow> int \<Rightarrow> cp \<Rightarrow> handler_result" where
  "get_build_logs b m rq bid after = in_build_scope m rq ''builds.read'' (\<lambda>access s.
     case build_in_scope access bid s of
       None \<Rightarrow> (Inr (Problem 404 ''Build logs unavailable''), s)
     | Some x \<Rightarrow>
         if \<not> truthy (b_builderJobId x) then (Inr (Problem 404 ''Build logs unavailable''), s)
         else (case getBuilderLogs b (the (b_builderJobId x)) after of
                 Inl e \<Rightarrow> (Inr (Problem 503 ''Builder logs unavailable''), s)
               | Inr logs \<Rightarrow> (Inr (Reply 200 (or_else logs JNull)), s)))"

definition cancel_build :: "build_host \<Rightarrow> host \<Rightarrow> iam \<Rightarrow> app_request \<Rightarrow> string \<Rightarrow> cp \<Rightarrow> handler_result" where
  "cancel_build b h m rq bid = in_build_scope m rq ''builds.cancel'' (\<lambda>access s.
     case build_in_scope access bid s of
       None \<Rightarrow> (Inr (Problem 409 ''Build cannot be cancelled''), s)
     | Some x \<Rightarrow>
         if \<not> truthy (b_builderJobId x) \<or> b_status x \<notin> {BQueued, BRunning, BPushing}
         then (Inr (Problem 409 ''Build cannot be cancelled''), s)
         else (case cancelBuilderRun b (the (b_builderJobId x)) of
                 Inl e \<Rightarrow> (Inl e, s)
               | Inr _ \<Rightarrow> (Inr (Reply 200 (JObj [(''status'', JStr ''cancelled'')])),
                   audit_build h (pa_userId access) ''build.cancelled'' (b_id x)
                     (JObj [(''projectId'', JStr (pj_id (pa_project access)))])
                     (set_build (b_id x) (\<lambda>r. r\<lparr>b_status := BCancelled, b_completedAt := Some (clock s)\<rparr>) s))))"

text \<open>What a retry takes over from the earlier build.\<close>

definition retry_settings :: "build \<Rightarrow> json" where
  "retry_settings x =
     (let cfg = b_buildConfiguration x; d = jget ''deployment'' cfg in
      JObj (AList.merge ([(''deploy'', field_or ''enabled'' (JBool (b_trigger x \<noteq> TrigBuild)) (or_else d JNull))]
             @ jopt ''replicas'' (Option.bind d (jget ''replicas'')))
        (spread (jget ''requirements'' cfg))))"

definition retry_build ::
  "build_host \<Rightarrow> host \<Rightarrow> (string \<Rightarrow> string option) \<Rightarrow> (int \<Rightarrow> string) \<Rightarrow> (exn \<Rightarrow> string) \<Rightarrow> iam \<Rightarrow> app_request \<Rightarrow> string \<Rightarrow> cp
     \<Rightarrow> handler_result" where
  "retry_build b h dec date message m rq bid = in_build_scope m rq ''builds.create'' (\<lambda>access s.
     if pj_status (pa_project access) = ProjectArchived then (Inr (Problem 409 ''Archived projects cannot start builds''), s)
     else (case build_in_scope access bid s of
       None \<Rightarrow> (Inr (Problem 409 ''Only failed or cancelled builds can be retried''), s)
     | Some x \<Rightarrow>
         if b_status x \<notin> {BFailed, BCancelled} then (Inr (Problem 409 ''Only failed or cancelled builds can be retried''), s)
         else (case List.find (\<lambda>a. a_id a = b_applicationId x) (t_applications s) of
           None \<Rightarrow> (Inr (Problem 404 ''Application not found''), s)
         | Some app \<Rightarrow>
             if a_lifecycleStatus app = LifeArchived then (Inr (Problem 409 ''Archived applications cannot start builds''), s)
             else (case trigger_input (retry_settings x) of
                     None \<Rightarrow> (Inl Zod_error, s)
                   | Some (deploy, v) \<Rightarrow>
                       build_answer message (createBuild b h dec date message (source_of access TrigRetry (Some (b_id x))) app v s)))))"

subsection \<open>The build configuration of an application\<close>

record build_config_input =
  bci_runtime :: string
  bci_runtimeVersion :: "string option option"
  bci_rootDirectory :: string
  bci_installCommand :: "string option option"
  bci_buildCommand :: "string option option"
  bci_startCommand :: "string option option"
  bci_dockerfilePath :: "string option option"
  bci_buildContext :: "string option option"

definition buildConfigurationInput :: "json \<Rightarrow> build_config_input option" where
  "buildConfigurationInput j =
     Option.bind (z_object j) (\<lambda>j.
     Option.bind (z_default (z_enum [(''dockerfile'', ())]) () ''buildMode'' j) (\<lambda>_.
     Option.bind (z_default (z_trimmed 1 64) ''container'' ''runtime'' j) (\<lambda>rt.
     Option.bind (z_opt (z_nullable (z_trimmed 0 64)) ''runtimeVersion'' j) (\<lambda>rv.
     Option.bind (z_req rootDirectory ''rootDirectory'' j) (\<lambda>root.
     Option.bind (z_opt (z_nullable (z_sized 0 2000)) ''installCommand'' j) (\<lambda>ic.
     Option.bind (z_opt (z_nullable (z_sized 0 2000)) ''buildCommand'' j) (\<lambda>bc.
     Option.bind (z_opt (z_nullable (z_sized 0 2000)) ''startCommand'' j) (\<lambda>sc.
     Option.bind (z_opt (z_nullable (z_trimmed 0 512)) ''dockerfilePath'' j) (\<lambda>df.
     Option.bind (z_opt (z_nullable (z_trimmed 0 512)) ''buildContext'' j) (\<lambda>ctx.
       Some \<lparr>bci_runtime = rt, bci_runtimeVersion = rv, bci_rootDirectory = root, bci_installCommand = ic, bci_buildCommand = bc,
             bci_startCommand = sc, bci_dockerfilePath = df, bci_buildContext = ctx\<rparr>))))))))))"

definition set_build_config :: "build_config_input \<Rightarrow> int \<Rightarrow> build_configuration \<Rightarrow> build_configuration" where
  "set_build_config v now r = r\<lparr>bc_runtime := bci_runtime v, bc_runtimeVersion := set_given (bci_runtimeVersion v) (bc_runtimeVersion r),
     bc_rootDirectory := bci_rootDirectory v, bc_installCommand := set_given (bci_installCommand v) (bc_installCommand r),
     bc_buildCommand := set_given (bci_buildCommand v) (bc_buildCommand r),
     bc_startCommand := set_given (bci_startCommand v) (bc_startCommand r),
     bc_dockerfilePath := set_given (bci_dockerfilePath v) (bc_dockerfilePath r),
     bc_buildContext := set_given (bci_buildContext v) (bc_buildContext r), bc_updatedAt := now\<rparr>"

text \<open>The object kept for older clients; it has no other fields than these two.\<close>

definition legacy_build_configuration :: "build_config_input \<Rightarrow> json" where
  "legacy_build_configuration v = JObj (jopt ''dockerfile'' (map_option JStr (opt_null (bci_dockerfilePath v)))
     @ jopt ''context'' (map_option JStr (opt_null (bci_buildContext v))))"

definition put_build_configuration :: "host \<Rightarrow> iam \<Rightarrow> app_request \<Rightarrow> cp \<Rightarrow> handler_result" where
  "put_build_configuration h m rq = with_application m rq ''applications.update'' (\<lambda>scope app s.
     if a_sourceType app \<noteq> SrcGit then (Inr (Problem 409 ''Build configuration is available only for Git applications''), s)
     else with_body rq buildConfigurationInput ''Invalid build configuration'' (\<lambda>v s.
       (Inr (Reply 200 (JStr (a_id app))),
        app_audit h rq scope ''application.build_updated'' (a_id app)
          (update_applications (\<lambda>a. a_id a = a_id app)
             (\<lambda>a. a\<lparr>a_rootDirectory := bci_rootDirectory v, a_buildConfiguration := legacy_build_configuration v\<rparr>)
             (s\<lparr>t_buildConfigurations := upsert (\<lambda>r. bc_applicationId r = a_id app) (set_build_config v (clock s))
                \<lparr>bc_applicationId = a_id app, bc_runtime = ''container'', bc_runtimeVersion = None, bc_rootDirectory = ''.'',
                 bc_installCommand = None, bc_buildCommand = None, bc_startCommand = None, bc_dockerfilePath = None,
                 bc_buildContext = None, bc_updatedAt = 0\<rparr> (t_buildConfigurations s)\<rparr>)))) s)"

end
