(* ===== verification/BuildRouteProperties.thy ===== *)
theory BuildRouteProperties
  imports BuildRoutes ConfigRows
begin

text \<open>
  Properties of builds: what the row of a build is, what a retry starts, that the deployment of a finished build starts on the
  agent, and what the build configuration route forgets.
\<close>

subsection \<open>The row of a build\<close>

lemma set_build_rows: "t_builds (set_build i f s) = upd_where (\<lambda>x. b_id x = i) (\<lambda>x. (f x)\<lparr>b_updatedAt := clock s\<rparr>) (t_builds s)"
  by (simp add: set_build_def update_builds_def)

lemma audit_build_rows [simp]: "t_builds (audit_build h u a i j s) = t_builds s"
  by (simp add: audit_build_def randomUUID_def)

lemma guard_E:
  assumes "(if c then (Inl e, s) else t) = (Inr i, s')"
  obtains "\<not> c" "t = (Inr i, s')"
  using assms by (cases c) simp_all

lemma step_E:
  assumes "(case x of Inl e \<Rightarrow> (Inl e, s) | Inr y \<Rightarrow> f y) = (Inr i, s')"
  obtains y where "x = Inr y" "f y = (Inr i, s')"
  using assms by (cases x) simp_all

lemma order_E:
  assumes "(case order_queued b message order s of (Inl e, s3) \<Rightarrow> (Inl e, s3) | (Inr u, s3) \<Rightarrow> (Inr j, g s3)) = (Inr i, s')"
  obtains job t where "i = j"
    "s' = g (set_build (bo_buildId order) (\<lambda>r. r\<lparr>b_status := BQueued, b_builderJobId := job, b_queuedAt := Some t\<rparr>) s)"
proof (cases "createBuilderRun b order")
  case (Inl e)
  with assms show thesis by (simp add: order_queued_def)
next
  case (Inr x)
  obtain job t where "x = (job, t)" by (rule prod.exhaust)
  with assms Inr have "i = j"
    "s' = g (set_build (bo_buildId order) (\<lambda>r. r\<lparr>b_status := BQueued, b_builderJobId := job, b_queuedAt := Some t\<rparr>) s)"
    by (simp_all add: order_queued_def)
  then show thesis by (rule that)
qed

lemma createBuild_row:
  assumes "createBuild b h dec date message src app v s = (Inr i, s')"
  obtains url and vals :: build_secrets_env and job t where "validateRepository b (the (a_gitUrl app)) = Inr url"
    "build_values dec app (bsrc_projectId src) (s\<lparr>uuid_next := Suc (uuid_next s)\<rparr>) = Inr vals"
    "t_builds s' = upd_where (\<lambda>x. b_id x = i)
        (\<lambda>x. x\<lparr>b_status := BQueued, b_builderJobId := job, b_queuedAt := Some t, b_updatedAt := clock s\<rparr>)
        (t_builds s @ [new_build src app i url (image_repository (trim_slash (the (bx_imagePrefix b))) src app)
           (build_configuration_json date app (bsrc_trigger src) url v (bv_environment vals) (s\<lparr>uuid_next := Suc (uuid_next s)\<rparr>)) (clock s)])"
    "i = h_randomUUID h (uuid_next s)"
  using assms unfolding createBuild_def randomUUID_def Let_def prod.case
proof (elim guard_E step_E order_E, goal_cases)
  case (1 url vals job t)
  show thesis
    by (rule 1(1) [of url vals t job, OF 1(3,5)]) (simp_all add: 1(7,8) set_build_rows build_order_def)
qed

lemma build_configuration_uuid:
  "build_configuration_json date app trigger url v env (s\<lparr>uuid_next := n\<rparr>) = build_configuration_json date app trigger url v env s"
  by (simp add: build_configuration_json_def build_snapshot_def build_runtime_config_def runtime_defaults_def resource_defaults_def
      variables_of_def deploy_secret_references_def)

lemma upd_last:
  assumes "\<And>x. b_id (f x) = b_id x"
  shows "b_id n = i \<Longrightarrow> f n \<in> set (upd_where (\<lambda>x. b_id x = i) f (bs @ [n]))"
    and "b_id n = i \<Longrightarrow> i \<notin> b_id ` set bs \<Longrightarrow> x \<in> set (upd_where (\<lambda>x. b_id x = i) f (bs @ [n])) \<Longrightarrow> b_id x = i \<Longrightarrow> x = f n"
proof -
  show "b_id n = i \<Longrightarrow> f n \<in> set (upd_where (\<lambda>x. b_id x = i) f (bs @ [n]))" by (simp add: upd_where_def)
  assume a: "b_id n = i" "i \<notin> b_id ` set bs" "x \<in> set (upd_where (\<lambda>x. b_id x = i) f (bs @ [n]))" "b_id x = i"
  from a(2) have "b_id y \<noteq> i" if "y \<in> set bs" for y using that by auto
  with a(1,3,4) assms show "x = f n" by (force simp: upd_where_def split: if_splits)
qed

lemma createBuild_new:
  assumes "createBuild b h dec date message src app v s = (Inr i, s')"
  obtains url and vals :: build_secrets_env and y where "y \<in> set (t_builds s')" "b_id y = i" "b_status y = BQueued" "b_applicationId y = a_id app"
    "b_trigger y = bsrc_trigger src" "b_retryOfBuildId y = bsrc_retryOf src"
    "b_imageRepository y = image_repository (trim_slash (the (bx_imagePrefix b))) src app"
    "b_buildConfiguration y = build_configuration_json date app (bsrc_trigger src) url v (bv_environment vals) s"
    "\<And>x. i \<notin> b_id ` set (t_builds s) \<Longrightarrow> x \<in> set (t_builds s') \<Longrightarrow> b_id x = i \<Longrightarrow> x = y"
proof (rule createBuild_row [OF assms])
  fix url :: string and vals :: build_secrets_env and job t
  let ?new = "new_build src app i url (image_repository (trim_slash (the (bx_imagePrefix b))) src app)
     (build_configuration_json date app (bsrc_trigger src) url v (bv_environment vals) s) (clock s)"
  let ?f = "\<lambda>x. x\<lparr>b_status := BQueued, b_builderJobId := job, b_queuedAt := Some t, b_updatedAt := clock s\<rparr>"
  assume "t_builds s' = upd_where (\<lambda>x. b_id x = i) ?f (t_builds s @ [new_build src app i url
      (image_repository (trim_slash (the (bx_imagePrefix b))) src app)
      (build_configuration_json date app (bsrc_trigger src) url v (bv_environment vals) (s\<lparr>uuid_next := Suc (uuid_next s)\<rparr>)) (clock s)])"
  then have rows: "t_builds s' = upd_where (\<lambda>x. b_id x = i) ?f (t_builds s @ [?new])"
    by (simp only: build_configuration_uuid)
  have new: "b_id ?new = i" "b_applicationId ?new = a_id app" "b_trigger ?new = bsrc_trigger src" "b_retryOfBuildId ?new = bsrc_retryOf src"
      "b_imageRepository ?new = image_repository (trim_slash (the (bx_imagePrefix b))) src app"
      "b_buildConfiguration ?new = build_configuration_json date app (bsrc_trigger src) url v (bv_environment vals) s"
    by (simp_all add: new_build_def)
  have "b_id (?f x) = b_id x" for x :: build by simp
  note only = upd_last [where f = ?f, OF this]
  from only(1) [of ?new i "t_builds s", OF new(1)] rows have mem: "?f ?new \<in> set (t_builds s')" by (simp only:)
  show thesis
  proof (rule that [OF mem, of url vals])
    fix x
    assume "i \<notin> b_id ` set (t_builds s)" "x \<in> set (t_builds s')" "b_id x = i"
    from only(2) [OF new(1) this(1) this(2) [unfolded rows] this(3)] show "x = ?f ?new" .
  qed (simp_all add: new)
qed

lemma enabled_iff: "deployment_enabled (build_configuration_json date app trigger url v env s) \<longleftrightarrow> trigger \<noteq> TrigBuild"
  by (cases "build_target app") (simp_all add: deployment_enabled_def build_configuration_json_def Let_def jopt_def js_falsy_def)

subsection \<open>Retries\<close>

lemma build_answer_queued:
  assumes "build_answer message r = (Inr (Reply st j), s')"
  obtains i where "r = (Inr i, s')" "j = JObj [(''buildId'', JStr i), (''status'', JStr ''queued'')]" "st = 202"
  using assms by (auto simp: build_answer_def split: prod.splits sum.splits)

lemma retry_build_row:
  assumes "resolveProjectAccess m (rq_session rq) (rq_orgSlug rq) (rq_projectId rq) ''projects.read'' = Some access"
    and "build_in_scope access bid s = Some x"
    and "retry_build b h dec date message m rq bid s = (Inr (Reply st j), s')"
  obtains app d v i where "List.find (\<lambda>a. a_id a = b_applicationId x) (t_applications s) = Some app"
    "trigger_input (retry_settings x) = Some (d, v)"
    "createBuild b h dec date message (source_of access TrigRetry (Some (b_id x))) app v s = (Inr i, s')"
    "j = JObj [(''buildId'', JStr i), (''status'', JStr ''queued'')]" "st = 202"
  using assms(3) unfolding retry_build_def in_build_scope_def
  by (auto simp: assms(1,2) split: if_splits option.splits elim!: build_answer_queued)

text \<open>C40. A retry deploys a build that only built. Let a member who may not create deployments retry a failed build of an
  application, started only to build: the answer is 202, and the new build is a queued build of the same application that is
  deployed when it succeeds. The same member's request to build and deploy that application changes nothing.\<close>

theorem retry_deploys_build_only:
  assumes "resolveProjectAccess m (rq_session rq) (rq_orgSlug rq) (rq_projectId rq) ''projects.read'' = Some access"
    and "''deployments.create'' \<notin> set (pa_permissions access)"
    and "build_in_scope access bid s = Some x" "\<not> deployment_enabled (b_buildConfiguration x)"
    and "retry_build b h dec date message m rq bid s = (Inr (Reply st j), s')"
  shows "\<exists>y \<in> set (t_builds s'). j = JObj [(''buildId'', JStr (b_id y)), (''status'', JStr ''queued'')] \<and> b_status y = BQueued
      \<and> b_applicationId y = b_applicationId x \<and> deployment_enabled (b_buildConfiguration y)
    \<and> snd (trigger_build b h dec date message m (rq\<lparr>rq_body := None\<rparr>) s) = s"
proof -
  obtain app d v i where app: "List.find (\<lambda>a. a_id a = b_applicationId x) (t_applications s) = Some app"
    and new: "createBuild b h dec date message (source_of access TrigRetry (Some (b_id x))) app v s = (Inr i, s')"
    and j: "j = JObj [(''buildId'', JStr i), (''status'', JStr ''queued'')]"
    using retry_build_row [OF assms(1,3,5)] .
  from createBuild_new [OF new] obtain url and vals :: build_secrets_env and y where y: "y \<in> set (t_builds s')" "b_id y = i" "b_status y = BQueued"
      "b_applicationId y = a_id app"
      "b_buildConfiguration y = build_configuration_json date app (bsrc_trigger (source_of access TrigRetry (Some (b_id x)))) url v
         (bv_environment vals) s" by metis
  from app have "a_id app = b_applicationId x" by (auto dest: find_Some_iff')
  moreover have "deployment_enabled (b_buildConfiguration y)" by (simp add: y(5) enabled_iff source_of_def)
  moreover have "Option.bind (trigger_input (JObj [])) (\<lambda>(d, v). if d then None else Some ()) = None" by code_simp
  then have "snd (trigger_build b h dec date message m (rq\<lparr>rq_body := None\<rparr>) s) = s"
    using assms(1,2) by (auto simp: trigger_build_def in_build_scope_def or_else_def split: option.split prod.split)
  ultimately show ?thesis using y j by (intro bexI [of _ y]) simp_all
qed

subsection \<open>What a build deploys\<close>

text \<open>The payload schema reads the fields of the runtime configuration by name; the two a deployment of a build adds are not among
  them.\<close>

lemma runtime_config_schema_fields:
  assumes "\<And>k. k \<notin> {''buildId'', ''commitSha''} \<Longrightarrow> map_of a k = map_of b k"
  shows "runtime_config_schema zuuid (JObj a) = runtime_config_schema zuuid (JObj b)"
  unfolding runtime_config_schema_def z_default_def z_opt_def by (simp add: assms)

lemma build_config_accepted:
  assumes "command_runtime_config assigned (JObj kvs) = Some cfg" "runtime_config_schema zuuid cfg = Some rc"
    and "map_of kvs ''ports'' = Some (JArr ps)"
  shows "\<exists>cfg. command_runtime_config assigned (JObj (AList.update ''commitSha'' c (AList.update ''buildId'' i kvs))) = Some cfg
    \<and> runtime_config_schema zuuid cfg = Some rc"
proof -
  let ?with = "\<lambda>kvs. AList.update ''ports'' (JArr (map (command_port assigned) ps)) kvs"
  have "cfg = JObj (?with kvs)" using assms(1,3) by (simp add: command_runtime_config_def)
  moreover have "runtime_config_schema zuuid (JObj (?with kvs))
      = runtime_config_schema zuuid (JObj (?with (AList.update ''commitSha'' c (AList.update ''buildId'' i kvs))))"
    by (rule runtime_config_schema_fields) (simp add: update_conv')
  ultimately show ?thesis using assms(2,3) by (simp add: command_runtime_config_def update_conv')
qed

lemma trigger_requirements_ok:
  assumes "trigger_input j = Some (d, v)"
  shows "requirements_ok zuuid' (deploy_requirements v None)"
    and "resource_row_ok r \<Longrightarrow> requirements_ok zuuid' (deploy_requirements v (Some r))"
proof -
  from assms obtain j' where f: "z_opt (z_int (int_range 1 256000)) ''cpuMilli'' j' = Some (dr_cpuMilli v)"
      "z_opt (z_int (int_range 16 1048576)) ''memoryMib'' j' = Some (dr_memoryMib v)"
      "z_opt (z_int (int_range 0 1048576)) ''storageMib'' j' = Some (dr_storageMib v)"
    and n: "dr_region v = None" "dr_requiredLabels v = None"
    unfolding trigger_input_def bind_Some_iff by auto
  from f have "\<And>x. dr_cpuMilli v = Some x \<Longrightarrow> 0 < x" "\<And>x. dr_memoryMib v = Some x \<Longrightarrow> 0 < x" "\<And>x. dr_storageMib v = Some x \<Longrightarrow> 0 \<le> x"
    by (auto simp: int_range_def dest!: z_opt_ok z_int_ok)
  with n show "requirements_ok zuuid' (deploy_requirements v None)"
    and "resource_row_ok r \<Longrightarrow> requirements_ok zuuid' (deploy_requirements v (Some r))"
    by (auto simp: requirements_ok_def deploy_requirements_def or_else_def coalesce_def resource_row_ok_def truthy_def split: option.splits)
qed

lemma build_json_fields:
  fixes date app trigger url v env s
  defines "j \<equiv> build_configuration_json date app trigger url v env s"
  shows "jget ''requirements'' j = Some (requirements_json (deploy_requirements v (resource_defaults (a_id app) s)))"
    and "jget ''runtimeConfig'' j = Some (build_runtime_config app env s)"
    and "jget ''deployment'' j = Some (JObj [(''enabled'', JBool (trigger \<noteq> TrigBuild)),
        (''replicas'', jint (deploy_replicas v (runtime_defaults (a_id app) s)))])"
  by (simp_all add: j_def build_configuration_json_def Let_def map_add_def jopt_def split: option.split)

lemma build_config_rows:
  assumes rows: "config_rows_ok h s" and sound: "source_sound h url s app"
    and assigned: "\<forall>a \<in> set assigned. tcp_port (snd (snd a))"
  shows "\<exists>cfg rc. command_runtime_config assigned (build_runtime_config app env s) = Some cfg
    \<and> runtime_config_schema (h_zodUuid h) cfg = Some rc \<and> rc_environment rc = env
    \<and> map mp_target (rc_volumes rc) = map avm_mountPath (filter (\<lambda>a. avm_applicationId a = a_id app) (t_applicationVolumeMounts s))"
proof -
  let ?ms = "filter (\<lambda>a. avm_applicationId a = a_id app) (t_applicationVolumeMounts s)"
  let ?ps0 = "filter (\<lambda>p. ap_applicationId p = a_id app) (t_applicationPorts s)"
  let ?ps = "if ?ps0 = [] then [default_port (a_internalPort app)] else ?ps0"
  have r: "runtime_row_ok x" if "runtime_defaults (a_id app) s = Some x" for x
    using that rows by (auto simp: runtime_defaults_def config_rows_ok_def dest!: find_Some_iff')
  have ps: "list_all port_row_ok ?ps"
    using rows sound by (auto simp: list_all_iff config_rows_ok_def default_port_def port_row_ok_def source_sound_def)
  have ms: "list_all (mount_row_ok (h_zodUuid h)) ?ms" using rows by (auto simp: list_all_iff config_rows_ok_def)
  have dist: "distinct (map avm_mountPath ?ms)" using rows by (intro own_mount_paths_distinct) (simp add: config_rows_ok_def)
  have rcr: "a_registryCredentialReference (app\<lparr>a_registryCredentialReference := None\<rparr>) = Some i \<Longrightarrow> h_zodUuid h i" for i by simp
  from config_accepted [of "runtime_defaults (a_id app) s", OF r ps ms dist rcr assigned]
  show ?thesis unfolding build_runtime_config_def Let_def by blast
qed

text \<open>C2. What a build deploys, the agent starts. After any sequence of requests that create, change and configure applications,
  let a build of one of them be queued. Its row is deployed exactly if it was not started only to build, with a number of
  replicas that can be stored; the deployment made from the row has requirements that can be read back for scheduling, and the
  start command of each replica passes the agent's payload schema: it starts the digest the builder reports, from the build's
  repository, with a volume at each of the configured paths.\<close>

theorem built_deployment_starts:
  assumes start: "config_rows_ok h s0" "applications_sound h url s0" "uuid_host h"
    and s: "s = fold (\<lambda>(rq, call) s. snd (application_call_of h url enc m rq call s)) calls s0"
    and app: "app \<in> set (t_applications s)"
    and v: "trigger_input body = Some (deploy, v)"
    and made: "createBuild b h dec date message src app v s = (Inr i, s')"
    and y: "y \<in> set (t_builds s')" "b_id y = i" "i \<notin> b_id ` set (t_builds s)"
    and wid: "h_zodUuid h wid" and req: "requirements_ok (h_zodUuid h) req"
    and inp: "inp = build_deployment_input y n digest commit"
  shows "(deployment_enabled (b_buildConfiguration y) \<longleftrightarrow> bsrc_trigger src \<noteq> TrigBuild)
    \<and> deployment_replicas (b_buildConfiguration y) = Some (deploy_replicas v (runtime_defaults (a_id app) s))
    \<and> requirementsSchema (h_zodUuid h) (in_requirements inp) \<noteq> None
    \<and> (\<exists>cfg p. command_runtime_config (assign_ports wid occ (data_or_nil (runtimePortsSchema (in_runtimeConfig inp))))
        (in_runtimeConfig inp) = Some cfg
      \<and> startPayload (h_zodUuid h) (start_payload wid (new_deployment t did k inp) req cfg) = Some p
      \<and> st_workloadId p = wid \<and> st_image p = b_imageRepository y @ ''@'' @ digest
      \<and> map mp_target (rc_volumes (st_runtimeConfig p))
          = map avm_mountPath (filter (\<lambda>a. avm_applicationId a = a_id app) (t_applicationVolumeMounts s)))"
proof -
  from calls_keep [OF start] app have kept: "config_rows_ok h s" "source_sound h url s app"
    by (simp_all add: s applications_sound_def)
  from createBuild_new [OF made] y obtain u and vals :: build_secrets_env where
    cfg_y: "b_buildConfiguration y = build_configuration_json date app (bsrc_trigger src) u v (bv_environment vals) s" by metis
  note fields = build_json_fields [where date = date and app = app and trigger = "bsrc_trigger src" and url = u and v = v
      and env = "bv_environment vals" and s = s, folded cfg_y]
  obtain kvs where kvs: "build_runtime_config app (bv_environment vals) s = JObj kvs" "map_of kvs ''ports'' \<noteq> None"
    "\<And>v. map_of kvs ''ports'' = Some v \<Longrightarrow> \<exists>ps. v = JArr ps"
    by (simp add: build_runtime_config_def deploy_runtime_config_def Let_def)
  then obtain ps where ps: "map_of kvs ''ports'' = Some (JArr ps)" by blast
  have rt: "in_runtimeConfig inp = JObj (AList.update ''commitSha'' (JStr commit) (AList.update ''buildId'' (JStr (b_id y)) kvs))"
    by (simp add: inp build_deployment_input_def fields(2) kvs(1))
  let ?as = "assign_ports wid occ (data_or_nil (runtimePortsSchema (in_runtimeConfig inp)))"
  have "\<forall>a \<in> set ?as. tcp_port (snd (snd a))" by (rule assign_ports_tcp) (rule runtime_ports_tcp)
  from build_config_rows [OF kept this, of "bv_environment vals"] obtain cfg rc where
    rc: "command_runtime_config ?as (JObj kvs) = Some cfg" "runtime_config_schema (h_zodUuid h) cfg = Some rc"
      "map mp_target (rc_volumes rc) = map avm_mountPath (filter (\<lambda>a. avm_applicationId a = a_id app) (t_applicationVolumeMounts s))"
    unfolding kvs(1) by blast
  from build_config_accepted [OF rc(1,2) ps] obtain cfg' where
    cfg': "command_runtime_config ?as (in_runtimeConfig inp) = Some cfg'" "runtime_config_schema (h_zodUuid h) cfg' = Some rc"
    unfolding rt by blast
  have image: "d_image (new_deployment t did k inp) = b_imageRepository y @ ''@'' @ digest"
      "d_runtime (new_deployment t did k inp) = Container"
    by (simp_all add: inp new_deployment_def build_deployment_input_def deployed_image_def)
  then have "d_image (new_deployment t did k inp) \<noteq> []" by simp
  from payload_accepted [OF cfg'(2) wid this image(2) req] rc(3) cfg'(1) image(1)
  have starts: "\<exists>cfg p. command_runtime_config ?as (in_runtimeConfig inp) = Some cfg
      \<and> startPayload (h_zodUuid h) (start_payload wid (new_deployment t did k inp) req cfg) = Some p
      \<and> st_workloadId p = wid \<and> st_image p = b_imageRepository y @ ''@'' @ digest
      \<and> map mp_target (rc_volumes (st_runtimeConfig p))
          = map avm_mountPath (filter (\<lambda>a. avm_applicationId a = a_id app) (t_applicationVolumeMounts s))" by metis
  have "in_requirements inp = requirements_json (deploy_requirements v (resource_defaults (a_id app) s))"
    by (simp add: inp build_deployment_input_def fields(1)) (simp add: requirements_json_def)
  moreover have "requirements_ok (h_zodUuid h) (deploy_requirements v (resource_defaults (a_id app) s))"
    using trigger_requirements_ok [OF v] kept(1)
    by (cases "resource_defaults (a_id app) s") (auto simp: resource_defaults_def config_rows_ok_def dest!: find_Some_iff')
  ultimately have "requirementsSchema (h_zodUuid h) (in_requirements inp) \<noteq> None"
    by (simp add: requirements_parse_stored)
  moreover have "deployment_replicas (b_buildConfiguration y) = Some (deploy_replicas v (runtime_defaults (a_id app) s))"
    by (simp add: deployment_replicas_def fields(3) jint_def)
  moreover have "deployment_enabled (b_buildConfiguration y) \<longleftrightarrow> bsrc_trigger src \<noteq> TrigBuild"
    by (simp add: cfg_y enabled_iff)
  ultimately show ?thesis using starts by blast
qed

subsection \<open>What the configuration route forgets\<close>

lemma answered_E:
  assumes "(case x of None \<Rightarrow> (Inr (Problem c p), s) | Some y \<Rightarrow> f y) = (Inr (Reply st j), s')"
  obtains y where "x = Some y" "f y = (Inr (Reply st j), s')"
  using assms by (cases x) simp_all

lemma answered_if_E:
  assumes "(if c then (Inr (Problem k p), s) else t) = (Inr (Reply st j), s')" obtains "\<not> c" "t = (Inr (Reply st j), s')"
  using assms by (cases c) simp_all

lemma answered_body_E:
  assumes "(case x of None \<Rightarrow> (Inl e, s) | Some y \<Rightarrow> f y) = (Inr (Reply st j), s')"
  obtains y where "x = Some y" "f y = (Inr (Reply st j), s')"
  using assms by (cases x) simp_all

lemma put_build_configuration_forgets:
  assumes "put_build_configuration h m rq s = (Inr (Reply st (JStr i)), s')" and "a \<in> set (t_applications s')" "a_id a = i"
  shows "build_target a = None \<and> configured_args a = JObj []"
proof -
  have rows: "t_applications (app_audit h rq scope x i s) = t_applications s" for scope x i s
    by (simp add: app_audit_def recordAudit_def randomUUID_def)
  from assms(1) obtain app :: application and v where i: "i = a_id app" and s': "t_applications s' = upd_where (\<lambda>a. a_id a = a_id app)
      (\<lambda>a. a\<lparr>a_rootDirectory := bci_rootDirectory v, a_buildConfiguration := legacy_build_configuration v, a_updatedAt := clock s\<rparr>)
      (t_applications s)"
    unfolding put_build_configuration_def with_application_def with_body_def
  proof (elim answered_E answered_if_E answered_body_E, goal_cases)
    case (1 scope app j v)
    show thesis by (rule 1(1) [of app v]) (use 1(2-) in \<open>auto simp: rows update_applications_def\<close>)
  qed
  from assms(2,3) i s' have "a_buildConfiguration a = legacy_build_configuration v"
    by (auto simp: upd_where_def)
  moreover have "jget k (legacy_build_configuration v) = None" if "k = ''target'' \<or> k = ''args''" for k
    using that by (auto simp: legacy_build_configuration_def map_add_def jopt_def split: option.split)
  ultimately show ?thesis by (simp add: build_target_def configured_args_def field_or_def)
qed

subsection \<open>Witnesses\<close>

definition sample_build_host :: build_host where
  "sample_build_host = \<lparr>bx_url = \<lambda>_. Some \<lparr>up_protocol = ''https:'', up_username = [], up_password = []\<rparr>,
     bx_hostname = \<lambda>_. ''git.example'', bx_href = \<lambda>u. u, bx_isIP = \<lambda>_. False, bx_encodeURIComponent = \<lambda>u. u,
     bx_parseDate = \<lambda>_. 5, bx_allowedHosts = None, bx_imagePrefix = Some ''registry.example'', bx_builderPrefix = None,
     bx_insecureRegistry = False, bx_builderUrl = Some ''https://builder.example'', bx_builderToken = Some ''token'',
     bx_fetch = \<lambda>_ _ _. Inr (202, JObj [(''data'', JObj [(''id'', JStr ''run-2''), (''createdAt'', JStr ''now'')])])\<rparr>"

definition git_application :: application where
  "git_application = (hd (t_applications sample_deployed))\<lparr>a_gitUrl := Some ''https://git.example/app''\<rparr>"

definition build_only :: build where
  "build_only = sample_build\<lparr>b_projectId := ''p2'', b_trigger := TrigBuild, b_status := BFailed,
     b_buildConfiguration := JObj [(''deployment'', JObj [(''enabled'', JBool False), (''replicas'', JNum 1)])]\<rparr>"

definition failed_build_state :: cp where
  "failed_build_state = empty_cp\<lparr>t_applications := [git_application], t_builds := [build_only]\<rparr>"

text \<open>A custom role that may create builds and not deployments.\<close>

definition builder_iam :: iam where
  "builder_iam = sample_iam\<lparr>
     t_members := [\<lparr>mb_id = ''m1'', mb_organizationId = ''o1'', mb_userId = ''u1'', mb_role = ''custom:r1''\<rparr>],
     t_roles := [\<lparr>or_id = ''r1'', or_organizationId = ''o1'', or_name = ''Builder'', or_description = None, or_immutable = False,
       or_createdBy = ''u0'', or_createdAt = 0, or_updatedAt = 0\<rparr>],
     t_rolePermissions := [\<lparr>rp_roleId = ''r1'', rp_permission = ''projects.read''\<rparr>,
       \<lparr>rp_roleId = ''r1'', rp_permission = ''builds.create''\<rparr>]\<rparr>"

definition retried :: "handler_result" where
  "retried = retry_build sample_build_host uuid_sample Some (\<lambda>_. []) (\<lambda>_. ''error'') builder_iam (sample_request JNull) ''b2''
     failed_build_state"

lemma retried_accepted: "\<exists>st j. retried = (Inr (Reply st j), snd retried)"
proof -
  have "(case fst retried of Inr (Reply st j) \<Rightarrow> True | _ \<Rightarrow> False)" by code_simp
  then have "\<exists>st j. fst retried = Inr (Reply st j)" by (auto split: sum.splits response.splits)
  then show ?thesis by (metis prod.collapse)
qed

lemma retry_deploys_build_only_witness:
  "\<exists>y \<in> set (t_builds (snd retried)). b_status y = BQueued \<and> b_applicationId y = ''app''
     \<and> deployment_enabled (b_buildConfiguration y)"
proof -
  obtain st j where r: "retried = (Inr (Reply st j), snd retried)" using retried_accepted by blast
  let ?access = "the (resolveProjectAccess builder_iam (Some ''u1'') ''acme'' ''p2'' ''projects.read'')"
  have 1: "resolveProjectAccess builder_iam (rq_session (sample_request JNull)) (rq_orgSlug (sample_request JNull))
      (rq_projectId (sample_request JNull)) ''projects.read'' = Some ?access" by code_simp
  have 2: "''deployments.create'' \<notin> set (pa_permissions ?access)" by code_simp
  have 3: "build_in_scope ?access ''b2'' failed_build_state = Some build_only" by code_simp
  have 4: "\<not> deployment_enabled (b_buildConfiguration build_only)" by code_simp
  have 5: "b_applicationId build_only = ''app''" by code_simp
  from retry_deploys_build_only [OF 1 2 3 4 r [unfolded retried_def], folded retried_def] 5 show ?thesis by auto
qed

definition built :: "(exn + string) \<times> cp" where
  "built = createBuild sample_build_host uuid_sample Some (\<lambda>_. []) (\<lambda>_. ''error'')
     \<lparr>bsrc_organizationId = ''o1'', bsrc_projectId = ''p2'', bsrc_userId = ''u1'', bsrc_trigger = TrigDeploy, bsrc_retryOf = None\<rparr>
     git_application no_request (empty_cp\<lparr>t_applications := [git_application]\<rparr>)"

lemma built_deployment_starts_witness:
  "\<exists>y \<in> set (t_builds (snd built)). \<exists>cfg p. startPayload (h_zodUuid uuid_sample)
      (start_payload ''w1'' (new_deployment empty_cp ''d1'' 1 (build_deployment_input y 1 ''sha256:1'' ''c1'')) sample_requirements cfg) = Some p
    \<and> st_image p = b_imageRepository y @ ''@sha256:1''"
proof -
  let ?s = "empty_cp\<lparr>t_applications := [git_application]\<rparr>"
  have rows: "config_rows_ok uuid_sample ?s" by (simp add: config_rows_ok_def empty_cp_def mounts_distinct_def)
  let ?url = "bx_url sample_build_host"
  have "rx_test slug_regex ''app''" by code_simp
  then have "source_sound uuid_sample ?url ?s git_application"
    by (simp add: source_sound_def git_application_def sample_deployed_def slug_ok_def rx_test_iff tcp_port_def
        secretReferenceInProject_def truthy_def isCredentialFreeHttpsGitUrl_def sample_build_host_def)
  then have sound: "applications_sound uuid_sample ?url ?s" by (simp add: applications_sound_def)
  have uuid: "uuid_host uuid_sample" by (simp add: uuid_host_def uuid_sample_def) code_simp
  have v: "trigger_input (JObj []) = Some (True, no_request)" by code_simp
  have "fst built = Inr ''id''" by code_simp
  then have made: "built = (Inr ''id'', snd built)" by (metis prod.collapse)
  have "map b_id (t_builds (snd built)) = [''id'']" by code_simp
  then obtain y where y: "y \<in> set (t_builds (snd built))" "b_id y = ''id''" by (auto simp: map_eq_Cons_conv)
  have fresh: "''id'' \<notin> b_id ` set (t_builds ?s)" by (simp add: empty_cp_def)
  have req: "requirements_ok (h_zodUuid uuid_sample) sample_requirements" and wid: "h_zodUuid uuid_sample ''w1''" by code_simp+
  have "git_application \<in> set (t_applications ?s)" by simp
  note starts = built_deployment_starts [OF rows sound uuid _ this v made [unfolded built_def] y(1) [unfolded built_def] y(2) fresh wid req refl,
      where m = builder_iam and calls = "[]" and enc = "\<lambda>_ x. x" and n = 1 and digest = "''sha256:1''" and commit = "''c1''"
        and occ = "\<lambda>_. []" and t = empty_cp and did = "''d1''" and k = 1]
  have "\<exists>cfg p. startPayload (h_zodUuid uuid_sample)
      (start_payload ''w1'' (new_deployment empty_cp ''d1'' 1 (build_deployment_input y 1 ''sha256:1'' ''c1'')) sample_requirements cfg) = Some p
    \<and> st_image p = b_imageRepository y @ ''@sha256:1''"
    using starts by auto
  with y(1) show ?thesis by blast
qed

end
