(* ===== verification/Spec2Isabelle.thy ===== *)
theory Spec2Isabelle
  imports ControllerProperties CommandController NodeLiveness VolumeController BuildProperties RoleRoutes
    ApplicationRoutes AgentProperties WorkflowProperties BuilderProperties LogBuffer ExecutorProperties
    ProcessOutput FirecrackerAgent RateLimit AgentTelemetry ConfigRows DeployedRevision DeploymentViews
    DomainConflicts ProjectProperties GameProperties BuildRouteProperties
begin

text \<open>
  Devion: a verification development of the control plane, the node agent and the builder.

  \<^bold>\<open>The program.\<close> Devion is a self-hosted platform: an organisation's members create projects and applications in
  the control plane (\<open>apps/api\<close>), which keeps everything in PostgreSQL (\<open>packages/db\<close>). A deployment is an immutable
  revision of an application. The deployment controller schedules its replicas on nodes (\<open>packages/core\<close>) and writes durable
  commands. The agent of a node (\<open>apps/agent\<close>) polls its commands, executes them on the Docker engine and reports results,
  telemetry and metrics. Images of Git applications are made by the builder (\<open>apps/builder\<close>), a run queue with workers that
  execute workflows. Domains of a project are published as files of the edge proxy (Traefik). The parts meet in the tables
  of the database and in the JSON they send each other; both are explicit in the model.

  \<^bold>\<open>Foundations.\<close>
  \<^item> \<open>Prelude\<close>: JavaScript collections, tables as lists of rows, the locales \<open>keyed_rows\<close> and \<open>comparator\<close>. \<open>JsText\<close>: the
    string functions used. \<open>Json\<close>: JSON values and schemas as parsers to \<open>option\<close> (zod, version 3). \<open>Regex\<close>: regular
    expressions by derivatives, proved against their languages.
  \<^item> \<open>Store\<close>, \<open>Tables\<close> (\<open>packages/db/src/database/schema\<close>): one record per table, the state \<open>cp\<close>, the statements
    run on it with defaults and the unique indexes that may reject them.
  \<^item> \<open>Lease\<close>, \<open>LeaseRenewal\<close>: exclusive leases on a row, as contracts, interpreted for the reconcile lease and the
    builder's runs.

  \<^bold>\<open>Control plane: deployments.\<close>
  \<^item> \<open>Ports\<close>, \<open>Contracts\<close>, \<open>Scheduler\<close> (\<open>packages/core/src/network\<close> and \<open>control-plane\<close>), \<open>Lifecycle\<close>, \<open>VolumePolicy\<close>,
    \<open>DeploymentService\<close>, \<open>DeploymentController\<close> (\<open>apps/api/src/modules/deployments\<close>, \<open>modules/volumes\<close>): from a revision
    to workloads, reservations and commands. \<open>ReconcileProperties\<close>, \<open>ControllerProperties\<close>, \<open>RevisionProperties\<close>: fuel,
    placement, capacity, ports, stopping, superseding, recovery, leases, immutability.
  \<^item> \<open>CommandController\<close>, \<open>NodeLiveness\<close>, \<open>VolumeController\<close>, \<open>BuildController\<close> (\<open>modules/commands\<close>, \<open>nodes\<close>, \<open>volumes\<close>,
    \<open>builds\<close>): the other periodic controllers. \<open>BuildProperties\<close>: what becomes of a build.

  \<^bold>\<open>Control plane: requests of members.\<close>
  \<^item> \<open>Access\<close> (\<open>features/organizations\<close>, \<open>features/projects\<close>, \<open>middleware\<close>): who may do what. \<open>RoleRoutes\<close>
    (\<open>routes/organization-rbac.routes.ts\<close>): roles and members.
  \<^item> \<open>ApplicationRoutes\<close>, \<open>ApplicationConfig\<close>, \<open>ApplicationSource\<close>, \<open>DeployRoute\<close>, \<open>DeploymentViews\<close>
    (\<open>routes/applications.routes.ts\<close>, \<open>routes/volumes.routes.ts\<close>): the life of an application, its configuration, its source,
    its deployment, what is shown of it. \<open>ConfigProperties\<close>, \<open>SourceProperties\<close>: invariants of these rows.
    \<open>DeployProperties\<close>, \<open>ConfigRows\<close>, \<open>DeployedRevision\<close>: what is configured starts on the agent, and is the only
    revision wanted.
  \<^item> \<open>ProjectRoutes\<close>, \<open>EnvironmentRoutes\<close>, \<open>TeamRoutes\<close> (\<open>routes/projects.routes.ts\<close>, \<open>environments.routes.ts\<close>,
    \<open>teams.routes.ts\<close>), with the invariant of \<open>ProjectProperties\<close>.
  \<^item> \<open>SafeAddress\<close>, \<open>Traefik\<close>, \<open>ProjectDomains\<close> (\<open>features/routing\<close>, \<open>lib/network\<close>, the domain routes): the public routes.
    \<open>DomainProperties\<close>, \<open>DomainTraces\<close>, \<open>DomainConflicts\<close>: what may be published, and where hostnames and routes part.
  \<^item> \<open>GameServers\<close> (\<open>routes/game-servers.routes.ts\<close>) with \<open>GameProperties\<close>: the Minecraft servers of an organisation, who may
    operate them, and that their commands reach only their own workload in a form the agent reads.
  \<^item> \<open>BuildRoutes\<close> (\<open>routes/builds.routes.ts\<close>, \<open>features/builds/builder-client.ts\<close>, the build configuration route) with
    \<open>BuildRouteProperties\<close>: the row and the order of a build, retries, and that what a build deploys starts on the agent.
  \<^item> \<open>RateLimit\<close> (\<open>packages/core/src/firewall\<close>): three stores refine one abstract counter.

  \<^bold>\<open>Agents.\<close>
  \<^item> \<open>AgentApi\<close>, \<open>AgentReports\<close>, \<open>AgentResults\<close> (\<open>routes/nodes.routes.ts\<close>): the control plane's side; \<open>AgentProperties\<close>:
    confinement to the node, enrolment, delivery of commands, telemetry, secrets.
  \<^item> \<open>ContainerRuntime\<close>, \<open>AgentLoop\<close>, \<open>AgentTick\<close> (\<open>apps/agent/src\<close>): the agent; \<open>RuntimeProperties\<close>: frames, reports,
    the worker pool, ticks. \<open>AgentExchange\<close>, \<open>AgentTelemetry\<close>: the two sides together, each accepting what the
    other sends, and a command's way to its end.

  \<^bold>\<open>Builder\<close> (\<open>apps/builder/src\<close>).
  \<^item> \<open>Workflow\<close> (\<open>domain.ts\<close>, \<open>workflow.ts\<close>): schema, validation, canonical form; \<open>WorkflowProperties\<close>: the graph check is
    exact, a stored workflow reads back.
  \<^item> \<open>BuilderRuns\<close> (\<open>postgres.ts\<close>, \<open>app.ts\<close>, \<open>worker.ts\<close>), \<open>LogBuffer\<close>: the queue and its logs; \<open>BuilderProperties\<close>: its reachable states.
  \<^item> \<open>Executor\<close>, \<open>StepRun\<close>, \<open>ProcessOutput\<close> (\<open>executor.ts\<close>, \<open>buildkit.ts\<close>, \<open>registry.ts\<close>, \<open>dockerfile.ts\<close>, \<open>process.ts\<close>),
    \<open>FirecrackerAgent\<close> (\<open>agent.ts\<close>): execution; \<open>ExecutorProperties\<close>: progress, order, confinement, redaction.

  \<^bold>\<open>Fuel and termination.\<close> The placement loop retries without consuming a replica, on fuel one more than the missing replicas;
  \<open>ReconcileProperties\<close> proves that enough, because each retry claims a volume that is then excluded. The depth-first search of
  the graph check runs on fuel one more than the number of steps; \<open>WorkflowProperties\<close> proves it exact. The creation of a
  revision recurses on its four attempts, enrolment of the agent on its attempts, as the code counts them. The graph loop, log frames,
  pools and batches terminate by a measure and need no fuel.

  \<^bold>\<open>Simplifications.\<close> Doubles are rationals where only quotients are compared; integers of the code stay far below \<open>2 ^ 53\<close>. One run
  of a handler or controller reads the clock once, and is atomic unless its definition takes a \<open>rival\<close> (what others commit between
  a read and a write) or a property speaks of interleavings. Foreign keys are not checked; cascades are written out where a route
  deletes. Among rows created in the same millisecond, insertion order decides. An answer that repeats a row names it by its key.

  \<^bold>\<open>Parameters.\<close> Sessions, random ids and their format, hashes, encryption, collation, the \<open>URL\<close> class, dates as text, YAML, the
  name servers, the outcome of file writes, the Docker engine, BuildKit, registries, Redis, and what operating-system
  processes answer. They are arguments, or fields of \<open>host\<close>, \<open>agent_host\<close>, \<open>edge\<close> and similar records; what a property needs of them is a
  named premise, with a witness.

  \<^bold>\<open>Not modelled.\<close> The dashboard (React components), SQL migrations and container files, mail, the AI gateway, setup and health
  routes, the system updater, metrics queries, listings that only read, error details of failed parses, timers, process signals,
  sockets, and the third-party libraries themselves (drizzle, hono, zod, better-auth), of which the model keeps what the
  code relies on.
\<close>

end
